(* ===== verification/Prelude.thy ===== *)
theory Prelude
  imports Main
begin

text \<open>
  Shared vocabulary of the development: the HTTP and database errors of the services, tables as
  lists of rows with the repository operations the services use, request histories, and the
  decimal rendering of numbers that template strings use.

  A table is the list of its rows in insertion order. A query without \<open>ORDER BY\<close> returns the
  matching rows in that order, and \<open>findOne\<close> the first of them. Generated primary keys are drawn
  from a counter that every state carries (\<open>fresh\<close>): the only fact used of a generated UUID is
  that it is new. A service method maps a state to its result (\<open>Inl\<close> an exception, \<open>Inr\<close> a
  value) and the state it leaves behind; writes made before an exception are kept, because the
  services run without a surrounding transaction unless they open one.
\<close>

named_theorems row_simps "repository operations on rows"
named_theorems op_defs "definitions of the service operations"

subsection \<open>Names, times, errors\<close>

type_synonym uuid = nat

type_synonym timestamp = int

datatype http_error =
    NotFoundException string
  | BadRequestException string
  | ConflictException string
  | ForbiddenException string
  | UnauthorizedException string
  | InternalServerErrorException string
  | UnprocessableEntityException string
  | TooManyRequests string
  | ServiceUnavailableException string
  | UniqueViolation
  | ForeignKeyViolation
  | JsError string
  | JsTypeError

type_synonym ('s, 'a) outcome = "(http_error + 'a) \<times> 's"

definition succeeds :: "('s, 'a) outcome \<Rightarrow> bool" where
  "succeeds r = (case fst r of Inl _ \<Rightarrow> False | Inr _ \<Rightarrow> True)"

lemma succeeds_simps [simp]:
  "succeeds (Inr x, s)"
  "succeeds (Inl e, s) = False"
  by (simp_all add: succeeds_def)

text \<open>\<open>await\<close> a call that may throw, and go on with its value.\<close>

definition await :: "('s, 'a) outcome \<Rightarrow> ('a \<Rightarrow> 's \<Rightarrow> ('s, 'b) outcome) \<Rightarrow> ('s, 'b) outcome" where
  "await r k = (case r of (Inl e, s) \<Rightarrow> (Inl e, s) | (Inr x, s) \<Rightarrow> k x s)"

lemma await_simps [simp]: "await (Inl e, s) k = (Inl e, s)" "await (Inr x, s) k = k x s"
  by (simp_all add: await_def)

lemma succeeds_await:
  "succeeds (await r k) \<longleftrightarrow> (\<exists>x s. r = (Inr x, s) \<and> succeeds (k x s))"
  by (cases r; cases "fst r") (auto simp: await_def)

subsection \<open>Rows of a table\<close>

definition save_row :: "('a \<Rightarrow> 'k) \<Rightarrow> 'a \<Rightarrow> 'a list \<Rightarrow> 'a list" where
  "save_row key e xs =
     (if key e \<in> key ` set xs then map (\<lambda>x. if key x = key e then e else x) xs else xs @ [e])"

definition update_rows :: "('a \<Rightarrow> bool) \<Rightarrow> ('a \<Rightarrow> 'a) \<Rightarrow> 'a list \<Rightarrow> 'a list" where
  "update_rows P f xs = map (\<lambda>x. if P x then f x else x) xs"

definition delete_rows :: "('a \<Rightarrow> bool) \<Rightarrow> 'a list \<Rightarrow> 'a list" where
  "delete_rows P xs = filter (\<lambda>x. \<not> P x) xs"

definition count_rows :: "('a \<Rightarrow> bool) \<Rightarrow> 'a list \<Rightarrow> nat" where
  "count_rows P xs = length (filter P xs)"

definition order_by :: "('a \<Rightarrow> int) \<Rightarrow> 'a list \<Rightarrow> 'a list" where
  "order_by f xs = sort_key f xs"

definition order_by_desc :: "('a \<Rightarrow> int) \<Rightarrow> 'a list \<Rightarrow> 'a list" where
  "order_by_desc f xs = sort_key (\<lambda>x. - f x) xs"

lemma set_update_rows [row_simps]:
  "set (update_rows P f xs) = {if P x then f x else x | x. x \<in> set xs}"
  by (auto simp: update_rows_def)

lemma map_update_rows [row_simps]:
  assumes "\<And>x. P x \<Longrightarrow> g (f x) = g x"
  shows "map g (update_rows P f xs) = map g xs"
  using assms by (auto simp: update_rows_def)

lemma length_update_rows [simp]: "length (update_rows P f xs) = length xs"
  by (simp add: update_rows_def)

lemma set_delete_rows [simp]: "set (delete_rows P xs) = {x \<in> set xs. \<not> P x}"
  by (auto simp: delete_rows_def)

lemma distinct_map_delete_rows [intro]:
  "distinct (map f xs) \<Longrightarrow> distinct (map f (delete_rows P xs))"
  by (simp add: delete_rows_def distinct_map_filter)

lemma set_order_by [simp]:
  "set (order_by f xs) = set xs" "set (order_by_desc f xs) = set xs"
  by (simp_all add: order_by_def order_by_desc_def)

lemma length_order_by [simp]:
  "length (order_by f xs) = length xs" "length (order_by_desc f xs) = length xs"
  by (simp_all add: order_by_def order_by_desc_def)

lemma order_by_Nil [simp]: "order_by f xs = [] \<longleftrightarrow> xs = []" "order_by_desc f xs = [] \<longleftrightarrow> xs = []"
  by (metis length_order_by length_0_conv)+

lemma order_by_empty [simp]: "order_by f [] = []" "order_by_desc f [] = []"
  by (simp_all add: order_by_def order_by_desc_def)

lemma sorted_order_by: "sorted (map f (order_by f xs))"
  by (simp add: order_by_def)

lemma sorted_order_by_desc: "sorted (map (\<lambda>x. - f x) (order_by_desc f xs))"
  by (simp add: order_by_desc_def)

lemma order_by_desc_hd:
  assumes "xs \<noteq> []" "x \<in> set xs"
  shows "f x \<le> f (hd (order_by_desc f xs))"
proof -
  obtain y ys where ys: "order_by_desc f xs = y # ys"
    using assms(1) length_order_by(2)[of f xs] by (cases "order_by_desc f xs") auto
  have "x \<in> set (y # ys)"
    using assms(2) set_order_by(2)[of f xs] ys by simp
  moreover have "sorted (map (\<lambda>x. - f x) (y # ys))"
    using sorted_order_by_desc[of f xs] ys by simp
  ultimately show ?thesis
    using ys by auto
qed

text \<open>Sorting is stable: rows with equal keys keep the order they had.\<close>

lemma sorted_insort_desc:
  assumes "sorted_wrt (\<lambda>a b. f b < f a \<or> f b = f a \<and> R a b) ys" "\<forall>y \<in> set ys. R x y"
  shows "sorted_wrt (\<lambda>a b. f b < f a \<or> f b = f a \<and> R a b) (insort_key (\<lambda>x. - (f x :: int)) x ys)"
  using assms
proof (induction ys)
  case (Cons y ys)
  show ?case
  proof (cases "- f x \<le> - f y")
    case True
    with Cons.prems show ?thesis by auto
  next
    case False
    with Cons show ?thesis by (auto simp: set_insort_key)
  qed
qed simp

lemma order_by_desc_stable:
  "sorted_wrt R xs \<Longrightarrow> sorted_wrt (\<lambda>a b. f b < f a \<or> f b = f a \<and> R a b) (order_by_desc f xs)"
proof (induction xs)
  case (Cons x xs)
  then have "sorted_wrt (\<lambda>a b. f b < f a \<or> f b = f a \<and> R a b) (insort_key (\<lambda>x. - f x) x (order_by_desc f xs))"
    by (intro sorted_insort_desc) simp_all
  then show ?case by (simp add: order_by_desc_def)
qed simp

text \<open>An object used as a table: an existing key is updated in place, a new one is added at the end.\<close>

fun upsert_entry :: "'k \<Rightarrow> ('v option \<Rightarrow> 'v) \<Rightarrow> ('k \<times> 'v) list \<Rightarrow> ('k \<times> 'v) list" where
  "upsert_entry k f [] = [(k, f None)]"
| "upsert_entry k f ((j, v) # kvs) = (if j = k then (j, f (Some v)) # kvs else (j, v) # upsert_entry k f kvs)"

lemma fst_upsert_entry: "fst ` set (upsert_entry k f kvs) = insert k (fst ` set kvs)"
  by (induction k f kvs rule: upsert_entry.induct) (simp_all add: insert_commute)

lemma distinct_upsert_entry: "distinct (map fst kvs) \<Longrightarrow> distinct (map fst (upsert_entry k f kvs))"
  by (induction k f kvs rule: upsert_entry.induct) (auto simp: fst_upsert_entry)

lemma map_of_upsert_entry: "map_of (upsert_entry k f kvs) = (map_of kvs)(k \<mapsto> f (map_of kvs k))"
  by (induction kvs) (auto simp: fun_eq_iff)

lemma set_upsert_entryD: "x \<in> set (upsert_entry k f kvs) \<Longrightarrow> x \<in> set kvs \<or> (\<exists>v. x = (k, f v))"
  by (induction k f kvs rule: upsert_entry.induct) (auto split: if_splits)

lemma find_None: "find P xs = None \<longleftrightarrow> (\<forall>x \<in> set xs. \<not> P x)"
  by (induction xs) auto

lemma find_SomeD: "find P xs = Some x \<Longrightarrow> x \<in> set xs \<and> P x"
  by (induction xs) (auto split: if_splits)

lemma find_append_Some: "find P xs = Some x \<Longrightarrow> find P (xs @ ys) = Some x"
  by (induction xs) (auto split: if_splits)

lemma find_append_None: "find P xs = None \<Longrightarrow> find P (xs @ ys) = find P ys"
  by (induction xs) (auto split: if_splits)

lemma find_unique_by:
  assumes "distinct (map f xs)" "x \<in> set xs" "P x" "\<And>y. P y \<Longrightarrow> f y = f x"
  shows "find P xs = Some x"
  using assms(1,2)
proof (induction xs)
  case (Cons y ys)
  show ?case
  proof (cases "P y")
    case True
    then have "f y = f x" by (rule assms(4))
    have "y = x"
    proof (rule ccontr)
      assume "y \<noteq> x"
      with Cons.prems(2) have "f x \<in> f ` set ys" by simp
      with \<open>f y = f x\<close> Cons.prems(1) show False by simp
    qed
    with True show ?thesis by simp
  next
    case False
    with Cons.prems assms(3) have "x \<in> set ys" "distinct (map f ys)" by auto
    then have "find P ys = Some x" by (intro Cons.IH)
    with False show ?thesis by simp
  qed
qed simp

lemma find_key_unique:
  assumes "distinct (map f xs)" "x \<in> set xs"
  shows "find (\<lambda>y. f y = f x) xs = Some x"
  by (rule find_unique_by[OF assms]) simp_all

lemma set_save_row:
  "set (save_row key e xs) = insert e {x \<in> set xs. key x \<noteq> key e}"
proof (cases "key e \<in> key ` set xs")
  case True
  then show ?thesis by (auto simp: save_row_def)
next
  case False
  then have "\<And>x. x \<in> set xs \<Longrightarrow> key x \<noteq> key e" by (metis imageI)
  with False show ?thesis by (auto simp: save_row_def)
qed

lemma map_key_save_row:
  assumes "key e \<in> key ` set xs"
  shows "map key (save_row key e xs) = map key xs"
  using assms by (auto simp: save_row_def)

lemma save_row_distinct:
  assumes "distinct (map key xs)"
  shows "distinct (map key (save_row key e xs))"
proof (cases "key e \<in> key ` set xs")
  case True
  with assms show ?thesis by (simp add: map_key_save_row)
next
  case False
  with assms show ?thesis by (auto simp: save_row_def)
qed

text \<open>A unique index on \<open>g\<close> survives a save that no other row of the table forbids.\<close>

lemma save_row_unique_index:
  assumes "distinct (map key xs)" "distinct (map g xs)"
    and "\<And>x. x \<in> set xs \<Longrightarrow> key x \<noteq> key e \<Longrightarrow> g x \<noteq> g e"
  shows "distinct (map g (save_row key e xs))"
proof -
  have "distinct (save_row key e xs)"
    using save_row_distinct[OF assms(1)] by (simp add: distinct_map)
  moreover have "inj_on g (insert e {x \<in> set xs. key x \<noteq> key e})"
  proof -
    have "inj_on g {x \<in> set xs. key x \<noteq> key e}"
      using assms(2) by (auto simp: distinct_map inj_on_def)
    moreover have "g e \<notin> g ` {x \<in> set xs. key x \<noteq> key e}"
    proof
      assume "g e \<in> g ` {x \<in> set xs. key x \<noteq> key e}"
      then obtain x where "x \<in> set xs" "key x \<noteq> key e" "g x = g e" by force
      with assms(3)[of x] show False by simp
    qed
    ultimately show ?thesis by simp
  qed
  ultimately show ?thesis by (simp add: distinct_map set_save_row)
qed

lemma find_save_row:
  assumes "distinct (map key xs)"
  shows "find (\<lambda>x. key x = key e) (save_row key e xs) = Some e"
  by (rule find_key_unique[where f = key and x = e])
    (use assms in \<open>auto simp: save_row_distinct set_save_row\<close>)

text \<open>A lookup by key after a save sees the saved row under its key and the old rows elsewhere.\<close>

lemma find_key_save_row [row_simps]:
  "find (\<lambda>x. key x = k) (save_row key e xs) =
     (if key e = k then Some e else find (\<lambda>x. key x = k) xs)"
proof (cases "key e \<in> key ` set xs")
  case True
  then have "find (\<lambda>x. key x = k) (map (\<lambda>x. if key x = key e then e else x) xs) =
      (if key e = k then Some e else find (\<lambda>x. key x = k) xs)"
  proof (induction xs)
    case (Cons y ys)
    show ?case
    proof (cases "key y = key e")
      case True
      have "find (\<lambda>x. key x = k) (map (\<lambda>x. if key x = key e then e else x) zs)
          = find (\<lambda>x. key x = k) zs" if "key e \<noteq> k" for zs
        using that by (induction zs) auto
      with True show ?thesis by auto
    next
      case False
      with Cons.prems have "key e \<in> key ` set ys" by auto
      with False Cons.IH show ?thesis by auto
    qed
  qed simp
  with True show ?thesis by (simp add: save_row_def)
next
  case False
  then have "find (\<lambda>x. key x = key e) xs = None" by (auto simp: find_None image_iff)
  moreover have "find P (xs @ [e]) = (case find P xs of None \<Rightarrow> if P e then Some e else None | Some x \<Rightarrow> Some x)" for P
    by (induction xs) auto
  ultimately show ?thesis using False by (auto simp: save_row_def split: option.split)
qed

lemma filter_key_unique: "distinct (map f xs) \<Longrightarrow> x \<in> set xs \<Longrightarrow> filter (\<lambda>y. f y = f x) xs = [x]"
proof (induction xs)
  case (Cons y ys)
  show ?case
  proof (cases "x = y")
    case True
    with Cons.prems have "f z \<noteq> f x" if "z \<in> set ys" for z
      using that by (simp, metis image_eqI)
    with True show ?thesis by (simp add: filter_empty_conv)
  next
    case False
    with Cons.prems have "f y \<noteq> f x" "x \<in> set ys" by auto
    with Cons show ?thesis by simp
  qed
qed simp

lemma find_save_row_other:
  assumes "\<not> P e" "\<And>x. x \<in> set xs \<Longrightarrow> key x = key e \<Longrightarrow> \<not> P x"
  shows "find P (save_row key e xs) = find P xs"
proof -
  have "find P (map (\<lambda>x. if key x = key e then e else x) ys) = find P ys" if "set ys \<subseteq> set xs" for ys
    using that assms by (induction ys) auto
  moreover have "find P (xs @ [e]) = find P xs"
    using assms(1) find_append_Some[of P xs _ "[e]"] find_append_None[of P xs "[e]"] by (cases "find P xs") simp_all
  ultimately show ?thesis by (simp add: save_row_def)
qed

lemma map_save_row_same:
  assumes "distinct (map key xs)" "x \<in> set xs" "key e = key x" "g e = g x"
  shows "map g (save_row key e xs) = map g xs"
proof -
  have "y = x" if "y \<in> set xs" "key y = key x" for y
    using assms(1,2) that by (auto simp: distinct_map inj_on_def)
  with assms show ?thesis by (auto simp: save_row_def)
qed

lemma count_rows_map: "count_rows (\<lambda>x. P (f x)) xs = count_rows P (map f xs)"
  by (simp add: count_rows_def filter_map comp_def)

text \<open>Replacing or deleting the row of a split table.\<close>

lemma save_row_split:
  assumes "distinct (map key (as @ e # bs))" "key e' = key e"
  shows "save_row key e' (as @ e # bs) = as @ e' # bs"
proof -
  have "map (\<lambda>x. if key x = key e' then e' else x) ys = ys" if "key e \<notin> key ` set ys" for ys
    using that assms(2) by (induction ys) auto
  with assms show ?thesis by (simp add: save_row_def)
qed

lemma delete_row_split:
  assumes "distinct (map key (as @ e # bs))"
  shows "delete_rows (\<lambda>x. key x = key e) (as @ e # bs) = as @ bs"
proof -
  have "filter (\<lambda>x. key x \<noteq> key e) ys = ys" if "key e \<notin> key ` set ys" for ys
    using that by (induction ys) auto
  with assms show ?thesis by (simp add: delete_rows_def)
qed

text \<open>Splitting the list 1 to n at an element.\<close>

lemma upto_split_at:
  assumes "as @ a # bs = [1..n]"
  shows "as = [1..int (length as)]" "a = int (length as) + 1" "bs = [int (length as) + 2..n]"
proof -
  have len: "length as + length bs + 1 = nat n"
    using arg_cong[OF assms, of length] by simp
  have nth: "(as @ a # bs) ! i = 1 + int i" if "i \<le> length as + length bs" for i
    using that len by (simp only: assms) (simp add: nth_upto)
  show "as = [1..int (length as)]"
  proof (rule nth_equalityI)
    fix i assume "i < length as"
    then show "as ! i = [1..int (length as)] ! i"
      using nth[of i] by (simp add: nth_append nth_upto)
  qed simp
  show "a = int (length as) + 1"
    using nth[of "length as"] by simp
  show "bs = [int (length as) + 2..n]"
  proof (rule nth_equalityI)
    show "length bs = length [int (length as) + 2..n]" using len by simp
    fix i assume "i < length bs"
    then show "bs ! i = [int (length as) + 2..n] ! i"
      using nth[of "length as + 1 + i"] len by (simp add: nth_append nth_upto)
  qed
qed

subsection \<open>Request histories\<close>

fun run_ops :: "('op \<Rightarrow> 's \<Rightarrow> 'r \<times> 's) \<Rightarrow> 'op list \<Rightarrow> 's \<Rightarrow> 's" where
  "run_ops step [] s = s"
| "run_ops step (c # cs) s = run_ops step cs (snd (step c s))"

text \<open>A component whose every operation keeps an invariant, whether it succeeds or throws.\<close>

locale invariant_machine =
  fixes step :: "'op \<Rightarrow> 's \<Rightarrow> 'r \<times> 's"
    and inv :: "'s \<Rightarrow> bool"
  assumes step_preserves: "inv s \<Longrightarrow> inv (snd (step c s))"
begin

lemma run_preserves: "inv s \<Longrightarrow> inv (run_ops step cs s)"
  by (induction cs arbitrary: s) (auto intro: step_preserves)

lemma prefix_preserves: "inv s \<Longrightarrow> inv (run_ops step (take n cs) s)"
  by (rule run_preserves)

end

text \<open>A component one of whose quantities never decreases.\<close>

locale monotone_machine =
  fixes step :: "'op \<Rightarrow> 's \<Rightarrow> 'r \<times> 's"
    and level :: "'s \<Rightarrow> 'm::preorder"
  assumes step_grows: "level s \<le> level (snd (step c s))"
begin

lemma run_grows: "level s \<le> level (run_ops step cs s)"
proof (induction cs arbitrary: s)
  case (Cons c cs)
  have "level s \<le> level (snd (step c s))" by (rule step_grows)
  also have "\<dots> \<le> level (run_ops step cs (snd (step c s)))" by (rule Cons.IH)
  finally show ?case by simp
qed simp

end

text \<open>A secret that works once: redeeming it spends it, a spent one is refused, and no operation brings
  it back.\<close>

locale one_time_secret = invariant_machine step inv
  for step :: "'op \<Rightarrow> 's \<Rightarrow> 'r \<times> 's" and inv :: "'s \<Rightarrow> bool" +
  fixes redeem :: "'i \<Rightarrow> 'k \<Rightarrow> 's \<Rightarrow> ('s, 'v) outcome"
    and spent :: "'k \<Rightarrow> 's \<Rightarrow> bool"
  assumes redeem_spends: "inv s \<Longrightarrow> succeeds (redeem i k s) \<Longrightarrow> spent k (snd (redeem i k s))"
    and spent_refused: "spent k s \<Longrightarrow> \<not> succeeds (redeem i k s)"
    and spent_stays: "spent k s \<Longrightarrow> spent k (snd (step c s))"
begin

lemma spent_run: "spent k s \<Longrightarrow> spent k (run_ops step cs s)"
  by (induction cs arbitrary: s) (auto intro: spent_stays)

lemma never_twice:
  "inv s \<Longrightarrow> succeeds (redeem i k s) \<Longrightarrow> \<not> succeeds (redeem j k (run_ops step cs (snd (redeem i k s))))"
  by (rule spent_refused, rule spent_run, rule redeem_spends)

end

text \<open>A predicate that holds in every state a history visits.\<close>

fun always :: "('op \<Rightarrow> 's \<Rightarrow> 'r \<times> 's) \<Rightarrow> ('s \<Rightarrow> bool) \<Rightarrow> 'op list \<Rightarrow> 's \<Rightarrow> bool" where
  "always step P [] s \<longleftrightarrow> P s"
| "always step P (c # cs) s \<longleftrightarrow> P s \<and> always step P cs (snd (step c s))"

definition before :: "'a \<Rightarrow> 'a \<Rightarrow> 'a list \<Rightarrow> bool" where
  "before a b xs \<longleftrightarrow> (\<exists>ps qs. xs = ps @ a # qs \<and> b \<in> set qs)"

lemma before_Cons [simp]: "before a b (x # xs) \<longleftrightarrow> (x = a \<and> b \<in> set xs) \<or> before a b xs"
  by (auto simp: before_def Cons_eq_append_conv)

lemma before_Nil [simp]: "\<not> before a b []"
  by (simp add: before_def)

lemma before_mem: "before a b xs \<Longrightarrow> a \<in> set xs \<and> b \<in> set xs"
  by (auto simp: before_def)

lemma before_append: "before a b xs \<Longrightarrow> before a b (xs @ ys)"
  by (induction xs) auto

lemma before_remove1:
  "distinct xs \<Longrightarrow> before a b xs \<Longrightarrow> a \<in> set (remove1 u xs) \<Longrightarrow> b \<in> set (remove1 u xs)
   \<Longrightarrow> before a b (remove1 u xs)"
  by (induction xs) (auto dest: before_mem)

text \<open>A waiting line: every step keeps it, appends a newcomer at its end or takes one member out.
  Two members that both stay in line never change places.\<close>

locale waiting_line = invariant_machine step wf
  for step :: "'op \<Rightarrow> 's \<Rightarrow> 'r \<times> 's" and wf :: "'s \<Rightarrow> bool" +
  fixes members :: "'s \<Rightarrow> 'u list"
  assumes members_distinct: "wf s \<Longrightarrow> distinct (members s)"
    and members_step: "wf s \<Longrightarrow>
      members (snd (step c s)) = members s \<or>
      (\<exists>u. members (snd (step c s)) = members s @ [u]) \<or>
      (\<exists>u. members (snd (step c s)) = remove1 u (members s))"
begin

lemma no_overtaking_step:
  assumes "wf s" "before a b (members s)"
    and "a \<in> set (members (snd (step c s)))" "b \<in> set (members (snd (step c s)))"
  shows "before a b (members (snd (step c s)))"
  using members_step[OF assms(1), of c] assms before_remove1[OF members_distinct[OF assms(1)]]
  by (auto simp: before_append)

lemma no_overtaking:
  assumes "wf s" "before a b (members s)"
    and "always step (\<lambda>s. a \<in> set (members s) \<and> b \<in> set (members s)) cs s"
  shows "before a b (members (run_ops step cs s))"
  using assms
proof (induction cs arbitrary: s)
  case (Cons c cs)
  then have "a \<in> set (members (snd (step c s)))" "b \<in> set (members (snd (step c s)))"
    by (cases cs; auto)+
  with Cons.prems have "before a b (members (snd (step c s)))"
    by (intro no_overtaking_step) auto
  with Cons show ?case by (auto intro: step_preserves)
qed simp

end

lemma run_ops_append: "run_ops step (cs @ ds) s = run_ops step ds (run_ops step cs s)"
  by (induction cs arbitrary: s) auto

subsection \<open>Decimal rendering\<close>

definition digit_char :: "nat \<Rightarrow> char" where
  "digit_char d = char_of (48 + d)"

fun string_of_nat :: "nat \<Rightarrow> string" where
  "string_of_nat n =
     (if n < 10 then [digit_char n] else string_of_nat (n div 10) @ [digit_char (n mod 10)])"

declare string_of_nat.simps [simp del]

lemma digit_char_inject: "a < 10 \<Longrightarrow> b < 10 \<Longrightarrow> digit_char a = digit_char b \<longleftrightarrow> a = b"
  by (auto simp: digit_char_def)

lemma digit_char_neq: "d < 10 \<Longrightarrow> of_char c < (48::nat) \<Longrightarrow> digit_char d \<noteq> c"
  by (auto simp: digit_char_def)

lemma string_of_nat_nonempty [simp]: "string_of_nat n \<noteq> []" "[] \<noteq> string_of_nat n"
  by (subst string_of_nat.simps, simp)+

lemma string_of_nat_digits:
  "c \<in> set (string_of_nat n) \<Longrightarrow> \<exists>d < 10. c = digit_char d"
proof (induction n rule: string_of_nat.induct)
  case (1 n)
  show ?case
  proof (cases "n < 10 \<or> c \<noteq> digit_char (n mod 10)")
    case True
    with 1 show ?thesis
      by (auto simp: string_of_nat.simps[of n] split: if_splits)
  next
    case False
    then have "n mod 10 < 10 \<and> c = digit_char (n mod 10)" by simp
    then show ?thesis by blast
  qed
qed

lemma string_of_nat_inject: "string_of_nat a = string_of_nat b \<longleftrightarrow> a = b"
proof
  show "string_of_nat a = string_of_nat b \<Longrightarrow> a = b"
  proof (induction a arbitrary: b rule: string_of_nat.induct)
    case (1 a)
    show ?case
    proof (cases "a < 10")
      case True
      with "1.prems" have "b < 10"
        by (auto simp: string_of_nat.simps[of a] string_of_nat.simps[of b] split: if_splits)
      with True "1.prems" show ?thesis
        by (simp add: string_of_nat.simps[of a] string_of_nat.simps[of b] digit_char_inject)
    next
      case False
      with 1 have b: "\<not> b < 10"
        by (auto simp: string_of_nat.simps[of a] string_of_nat.simps[of b] split: if_splits)
      from 1(2) False b have
        "string_of_nat (a div 10) = string_of_nat (b div 10)" "a mod 10 = b mod 10"
        by (auto simp: string_of_nat.simps[of a] string_of_nat.simps[of b] digit_char_inject)
      with 1(1)[OF False] have "a div 10 = b div 10" by simp
      with \<open>a mod 10 = b mod 10\<close> show ?thesis
        by (metis div_mult_mod_eq)
    qed
  qed
qed simp

lemma dash_not_in_string_of_nat: "CHR ''-'' \<notin> set (string_of_nat n)"
proof
  assume "CHR ''-'' \<in> set (string_of_nat n)"
  then obtain d where "d < 10" "digit_char d = CHR ''-''"
    using string_of_nat_digits by metis
  then show False
    using digit_char_neq[of d "CHR ''-''"] by simp
qed

text \<open>Two strings that end in a separator and a part without it agree on that last part.\<close>

lemma last_part_unique:
  assumes "xs @ [c] @ a = ys @ [c] @ b" "c \<notin> set a" "c \<notin> set b"
  shows "a = b"
proof -
  have "rev a @ c # rev xs = rev b @ c # rev ys"
    using arg_cong[OF assms(1), of rev] by simp
  then have "takeWhile (\<lambda>x. x \<noteq> c) (rev a @ c # rev xs) = takeWhile (\<lambda>x. x \<noteq> c) (rev b @ c # rev ys)"
    by simp
  moreover have "takeWhile (\<lambda>x. x \<noteq> c) (rev a @ c # rev xs) = rev a"
    using assms(2) by (subst takeWhile_append2) auto
  moreover have "takeWhile (\<lambda>x. x \<noteq> c) (rev b @ c # rev ys) = rev b"
    using assms(3) by (subst takeWhile_append2) auto
  ultimately show ?thesis by simp
qed

lemma first_part_unique:
  assumes "xs @ c # a = ys @ c # b" "c \<notin> set xs" "c \<notin> set ys"
  shows "xs = ys" "a = b"
proof -
  have part: "takeWhile (\<lambda>x. x \<noteq> c) (zs @ c # d) = zs" if "c \<notin> set zs" for zs d
    using that by (subst takeWhile_append2) auto
  show eq: "xs = ys"
    using arg_cong[OF assms(1), of "takeWhile (\<lambda>x. x \<noteq> c)"] part assms(2,3) by simp
  show "a = b" using assms(1) by (simp add: eq)
qed

subsection \<open>String functions of the language\<close>

text \<open>\<open>String.prototype.trim\<close> on the characters of the model.\<close>

definition is_space :: "char \<Rightarrow> bool" where
  "is_space c = ((of_char c :: nat) \<in> {9, 10, 11, 12, 13, 32, 160})"

definition js_trim :: "string \<Rightarrow> string" where
  "js_trim cs = rev (dropWhile is_space (rev (dropWhile is_space cs)))"

text \<open>\<open>toLowerCase\<close> on the characters of the model.\<close>

definition lower_char :: "char \<Rightarrow> char" where
  "lower_char c = (let n = (of_char c :: nat) in if 65 \<le> n \<and> n \<le> 90 then char_of (n + 32) else c)"

definition toLowerCase :: "string \<Rightarrow> string" where
  "toLowerCase s = map lower_char s"

definition upper_char :: "char \<Rightarrow> char" where
  "upper_char c = (let n = (of_char c :: nat) in if 97 \<le> n \<and> n \<le> 122 then char_of (n - 32) else c)"

definition toUpperCase :: "string \<Rightarrow> string" where
  "toUpperCase s = map upper_char s"

text \<open>\<open>parseInt(s, 10)\<close>: leading white space, a sign, the longest run of digits; \<open>None\<close> is NaN.\<close>

definition is_digit :: "char \<Rightarrow> bool" where
  "is_digit c = (48 \<le> (of_char c :: nat) \<and> (of_char c :: nat) \<le> 57)"

definition digits_value :: "string \<Rightarrow> nat" where
  "digits_value cs = foldl (\<lambda>n c. 10 * n + ((of_char c :: nat) - 48)) 0 cs"

definition parse_digits :: "string \<Rightarrow> nat option" where
  "parse_digits cs = (let ds = takeWhile is_digit cs in if ds = [] then None else Some (digits_value ds))"

definition js_parseInt :: "string \<Rightarrow> int option" where
  "js_parseInt s =
     (case dropWhile is_space s of
        [] \<Rightarrow> None
      | c # cs \<Rightarrow>
          if c = CHR ''-'' then map_option (\<lambda>n. - int n) (parse_digits cs)
          else if c = CHR ''+'' then map_option int (parse_digits cs)
          else map_option int (parse_digits (c # cs)))"

lemma digit_char_facts:
  assumes "d < 10"
  shows "is_digit (digit_char d)" "\<not> is_space (digit_char d)" "(of_char (digit_char d) :: nat) = 48 + d"
    "digit_char d \<noteq> CHR ''-''" "digit_char d \<noteq> CHR ''+''"
proof -
  have v: "(of_char (digit_char d) :: nat) = 48 + d" using assms by (simp add: digit_char_def)
  then show "(of_char (digit_char d) :: nat) = 48 + d" .
  from v assms show "is_digit (digit_char d)" "\<not> is_space (digit_char d)"
    by (auto simp: is_digit_def is_space_def)
  from v assms show "digit_char d \<noteq> CHR ''-''" "digit_char d \<noteq> CHR ''+''" by auto
qed

lemma string_of_nat_is_digits: "list_all is_digit (string_of_nat n)"
  using string_of_nat_digits digit_char_facts(1) by (fastforce simp: list_all_iff)

lemma digits_value_string_of_nat: "digits_value (string_of_nat n) = n"
proof (induction n rule: string_of_nat.induct)
  case (1 n)
  show ?case
  proof (cases "n < 10")
    case True
    then show ?thesis by (subst string_of_nat.simps) (simp add: digits_value_def digit_char_facts)
  next
    case False
    with 1 have "digits_value (string_of_nat (n div 10)) = n div 10" by simp
    with False show ?thesis
      by (subst string_of_nat.simps) (simp add: digits_value_def digit_char_facts)
  qed
qed

lemma parse_string_of_nat: "js_parseInt (string_of_nat n) = Some (int n)"
proof -
  obtain c cs where s: "string_of_nat n = c # cs" using string_of_nat_nonempty by (metis list.exhaust)
  then obtain d where d: "d < 10" "c = digit_char d"
    using string_of_nat_digits[of c n] by auto
  have "takeWhile is_digit (c # cs) = c # cs"
    using string_of_nat_is_digits[of n] unfolding s list_all_iff by (simp add: takeWhile_eq_all_conv)
  then have "parse_digits (c # cs) = Some n"
    using digits_value_string_of_nat[of n] unfolding s parse_digits_def by (simp add: Let_def)
  then show ?thesis
    unfolding s using d digit_char_facts[OF d(1)] by (simp add: js_parseInt_def)
qed

end
