(* ===== verification/Js_Number.thy ===== *)
theory Js_Number
  imports Complex_Main Prelude
begin

text \<open>
  JavaScript numbers. A finite double is the rational it denotes; an arithmetic operation is the
  exact operation followed by \<open>fl\<close>, rounding to 53 significant bits, ties to even, as IEEE 754
  and the language prescribe. The exponent is unbounded here: overflow to infinity and the
  subnormal range are outside the model, and every division of the modelled code is guarded
  against a zero divisor by the code itself.

  The lemmas: \<open>fl\<close> is monotone, keeps every integer up to \<open>2 ^ 53\<close>, is idempotent and has a
  relative error of at most \<open>2 ^ -53\<close>; so a percentage computed in floating point stays between 0
  and 100.
\<close>

type_synonym js_num = rat

subsection \<open>The binary exponent of a positive rational\<close>

fun msb :: "nat \<Rightarrow> nat" where
  "msb n = (if n < 2 then 0 else Suc (msb (n div 2)))"

declare msb.simps [simp del]

lemma msb_bounds: "0 < n \<Longrightarrow> 2 ^ msb n \<le> n \<and> n < 2 ^ Suc (msb n)"
proof (induction n rule: msb.induct)
  case (1 n)
  show ?case
  proof (cases "n < 2")
    case True
    with "1.prems" show ?thesis by (simp add: msb.simps[of n])
  next
    case False
    then have "2 ^ msb (n div 2) \<le> n div 2 \<and> n div 2 < 2 ^ Suc (msb (n div 2))"
      by (intro "1.IH") auto
    with False show ?thesis by (simp add: msb.simps[of n]) linarith
  qed
qed

definition bexp :: "rat \<Rightarrow> int" where
  "bexp x = (case quotient_of x of (n, d) \<Rightarrow>
     (let k = int (msb (nat n)) - int (msb (nat d)) in if 2 powi k \<le> x then k else k - 1))"

lemma powi_2_pos [simp]: "0 < (2::rat) powi k"
  by (simp add: zero_less_power_int)

lemma powi_2_Suc: "(2::rat) powi (k + 1) = 2 * 2 powi k"
  by (simp add: power_int_add)

lemma powi_2_le_iff [simp]: "(2::rat) powi j \<le> 2 powi k \<longleftrightarrow> j \<le> k"
  by (meson linorder_not_le one_le_numeral power_int_increasing power_int_strict_increasing
      one_less_numeral_iff semiring_norm(76) less_le_not_le)

lemma powi_2_less_iff [simp]: "(2::rat) powi j < 2 powi k \<longleftrightarrow> j < k"
  by (meson linorder_not_le powi_2_le_iff)

lemma bexp_bounds:
  assumes "0 < x"
  shows "2 powi bexp x \<le> x" "x < 2 powi (bexp x + 1)"
proof -
  obtain n d where q: "quotient_of x = (n, d)" by force
  have d: "0 < d" using quotient_of_denom_pos[OF q] .
  have x: "x = of_int n / of_int d" using quotient_of_div[OF q] .
  have n: "0 < n" using assms d unfolding x by (simp add: zero_less_divide_iff)
  define a b where "a = msb (nat n)" and "b = msb (nat d)"
  have na: "2 ^ a \<le> nat n \<and> nat n < 2 ^ Suc a" and db: "2 ^ b \<le> nat d \<and> nat d < 2 ^ Suc b"
    using n d unfolding a_def b_def by (intro msb_bounds; simp)+
  have n1: "(2::int) ^ a \<le> n" and n2: "n < 2 ^ Suc a"
    and d1: "(2::int) ^ b \<le> d" and d2: "d < 2 ^ Suc b"
    using na db n d by (auto simp: nat_less_iff le_nat_iff)
  have rn: "(2::rat) ^ a \<le> of_int n" "of_int n < (2::rat) ^ Suc a"
    and rd: "(2::rat) ^ b \<le> of_int d" "of_int d < (2::rat) ^ Suc b"
    using n1 n2 d1 d2 by (metis of_int_le_iff of_int_less_iff of_int_numeral of_int_power)+
  have k: "(2::rat) powi (int a - int b) = 2 ^ a / 2 ^ b"
    by (simp add: power_int_diff)
  have up: "x < 2 powi (int a - int b + 1)"
  proof -
    have "of_int n * 2 ^ b < (2::rat) ^ Suc a * of_int d"
      using rn(2) rd(1) n by (intro mult_strict_mono'[OF rn(2) _ ] mult_less_le_imp_less) auto
    then show ?thesis
      using d unfolding x powi_2_Suc k by (simp add: field_simps)
  qed
  have low: "2 powi (int a - int b - 1) \<le> x"
  proof -
    have "(2::rat) ^ a * of_int d \<le> of_int n * 2 ^ Suc b"
      using rn(1) rd(2) n d by (intro mult_mono) auto
    moreover have "(2::rat) powi (int a - int b - 1) = 2 ^ a / 2 ^ b / 2"
      using powi_2_Suc[of "int a - int b - 1"] k by simp
    moreover have "(2::rat) ^ a / 2 ^ b / 2 \<le> of_int n / of_int d"
      using calculation(1) d by (simp add: field_simps)
    ultimately show ?thesis unfolding x by simp
  qed
  have e: "bexp x = (if 2 powi (int a - int b) \<le> x then int a - int b else int a - int b - 1)"
    by (simp add: bexp_def q a_def b_def Let_def)
  show "2 powi bexp x \<le> x" using low by (auto simp: e)
  show "x < 2 powi (bexp x + 1)" using up by (auto simp: e)
qed

lemma bexp_unique:
  assumes "2 powi k \<le> x" "x < 2 powi (k + 1)"
  shows "bexp x = k"
proof -
  have "0 < x" using assms(1) powi_2_pos[of k] by linarith
  then have "2 powi bexp x < (2::rat) powi (k + 1)" "2 powi k < (2::rat) powi (bexp x + 1)"
    using bexp_bounds assms by (meson le_less_trans)+
  then show ?thesis by simp
qed

lemma bexp_mono: "0 < x \<Longrightarrow> x \<le> y \<Longrightarrow> bexp x \<le> bexp y"
proof -
  assume "0 < x" "x \<le> y"
  then have "2 powi bexp x < (2::rat) powi (bexp y + 1)"
    using bexp_bounds(1)[of x] bexp_bounds(2)[of y] by linarith
  then show ?thesis by simp
qed

subsection \<open>Round half to even\<close>

definition round_even :: "rat \<Rightarrow> int" where
  "round_even r = (let f = \<lfloor>r\<rfloor>; t = r - of_int f in
     if t < 1 / 2 then f else if 1 / 2 < t then f + 1 else if even f then f else f + 1)"

lemma round_even_of_int [simp]: "round_even (of_int i) = i"
  by (simp add: round_even_def)

lemma round_even_bounds: "\<lfloor>r\<rfloor> \<le> round_even r" "round_even r \<le> \<lfloor>r\<rfloor> + 1"
  by (auto simp: round_even_def Let_def)

lemma round_even_mono: "r \<le> s \<Longrightarrow> round_even r \<le> round_even s"
proof (cases "\<lfloor>r\<rfloor> = \<lfloor>s\<rfloor>")
  case True
  assume "r \<le> s"
  with True show ?thesis by (auto simp: round_even_def Let_def)
next
  case False
  assume "r \<le> s"
  with False have "\<lfloor>r\<rfloor> + 1 \<le> \<lfloor>s\<rfloor>" using floor_mono[of r s] by linarith
  then show ?thesis using round_even_bounds[of r] round_even_bounds[of s] by linarith
qed

lemma round_even_error: "\<bar>of_int (round_even r) - r\<bar> \<le> 1 / 2"
proof -
  have "of_int \<lfloor>r\<rfloor> \<le> r" "r < of_int \<lfloor>r\<rfloor> + 1" by linarith+
  then show ?thesis by (auto simp: round_even_def Let_def abs_le_iff)
qed

subsection \<open>Rounding to 53 significant bits\<close>

definition fl_pos :: "rat \<Rightarrow> js_num" where
  "fl_pos x = (let u = 2 powi (bexp x - 52) in of_int (round_even (x / u)) * u)"

definition fl :: "rat \<Rightarrow> js_num" where
  "fl x = (if x = 0 then 0 else if 0 < x then fl_pos x else - fl_pos (- x))"

lemma fl_0 [simp]: "fl 0 = 0"
  by (simp add: fl_def)

lemma fl_minus: "fl (- x) = - fl x"
  by (simp add: fl_def)

lemma powi_52: "(2::rat) powi (k - 52) * 2 ^ 52 = 2 powi k"
  by (simp add: power_int_diff)

lemma fl_pos_bounds:
  assumes "0 < x"
  shows "2 powi bexp x \<le> fl_pos x" "fl_pos x \<le> 2 powi (bexp x + 1)"
proof -
  define u where "u = (2::rat) powi (bexp x - 52)"
  have u: "0 < u" by (simp add: u_def)
  have lo: "of_int (2 ^ 52) \<le> x / u" and hi: "x / u \<le> of_int (2 ^ 53)"
    using bexp_bounds[OF assms] u powi_52[of "bexp x"] powi_2_Suc[of "bexp x"]
    by (auto simp: u_def field_simps)
  have "2 ^ 52 \<le> round_even (x / u)" "round_even (x / u) \<le> 2 ^ 53"
    using round_even_mono[OF lo] round_even_mono[OF hi] by (simp_all only: round_even_of_int)
  then have "of_int (2 ^ 52) * u \<le> of_int (round_even (x / u)) * u"
    "of_int (round_even (x / u)) * u \<le> of_int (2 ^ 53) * u"
    using u by (simp_all only: mult_le_cancel_right_pos of_int_le_iff)
  then show "2 powi bexp x \<le> fl_pos x" "fl_pos x \<le> 2 powi (bexp x + 1)"
    using powi_52[of "bexp x"] powi_2_Suc[of "bexp x"]
    by (simp_all add: fl_pos_def Let_def u_def[symmetric] mult.commute)
qed

lemma fl_pos_mono:
  assumes "0 < x" "x \<le> y"
  shows "fl_pos x \<le> fl_pos y"
proof (cases "bexp x = bexp y")
  case True
  define u where "u = (2::rat) powi (bexp y - 52)"
  have u: "0 < u" by (simp add: u_def)
  have "round_even (x / u) \<le> round_even (y / u)"
    using assms u by (intro round_even_mono divide_right_mono) auto
  then show ?thesis
    using u by (simp add: fl_pos_def Let_def True u_def[symmetric])
next
  case False
  then have "bexp x + 1 \<le> bexp y" using bexp_mono[OF assms] by linarith
  then have "(2::rat) powi (bexp x + 1) \<le> 2 powi bexp y" by simp
  then show ?thesis
    using fl_pos_bounds(2)[of x] fl_pos_bounds(1)[of y] assms by linarith
qed

lemma fl_pos_positive: "0 < x \<Longrightarrow> 0 < fl_pos x"
  using fl_pos_bounds(1)[of x] powi_2_pos[of "bexp x"] by linarith

lemma fl_mono: "x \<le> y \<Longrightarrow> fl x \<le> fl y"
proof -
  assume xy: "x \<le> y"
  consider "0 < x" | "x \<le> 0" "0 \<le> y" | "y < 0" by linarith
  then show ?thesis
  proof cases
    case 1
    with xy show ?thesis by (simp add: fl_def fl_pos_mono)
  next
    case 2
    have "fl x \<le> 0" "0 \<le> fl y"
      using 2 fl_pos_positive[of "- x"] fl_pos_positive[of y] by (auto simp: fl_def)
    then show ?thesis by linarith
  next
    case 3
    with xy show ?thesis using fl_pos_mono[of "- y" "- x"] by (auto simp: fl_def)
  qed
qed

lemma fl_pos_exact:
  assumes "0 < m" "m < 2 ^ 53"
  shows "fl_pos (of_int m * 2 powi e) = of_int m * 2 powi e"
proof -
  define x where "x = of_int m * (2::rat) powi e"
  have m: "(of_int m :: rat) < 2 ^ 53"
    using assms(2) by (metis of_int_less_iff of_int_numeral of_int_power)
  have "0 < x" using assms by (simp add: x_def)
  have "x < 2 ^ 53 * 2 powi e" using m by (simp add: x_def)
  also have "\<dots> = 2 powi (e + 53)" by (simp add: power_int_add)
  finally have "2 powi bexp x < (2::rat) powi (e + 53)"
    using bexp_bounds(1)[OF \<open>0 < x\<close>] by linarith
  then obtain k where k: "e = bexp x - 52 + int k"
    using zle_iff_zadd[of "bexp x - 52" e] by auto
  have "x = of_int (m * 2 ^ k) * 2 powi (bexp x - 52)"
  proof -
    have "(2::rat) powi e = 2 powi (bexp x - 52) * 2 ^ k"
      unfolding k by (simp add: power_int_add)
    with x_def have "x = of_int m * (2 powi (bexp x - 52) * 2 ^ k)" by (rule trans[OF _ arg_cong])
    then show ?thesis by (rule trans) (simp add: mult_ac)
  qed
  then have "x / 2 powi (bexp x - 52) = of_int (m * 2 ^ k)"
    by (metis less_irrefl nonzero_eq_divide_eq powi_2_pos)
  then have "fl_pos x = of_int (m * 2 ^ k) * 2 powi (bexp x - 52)"
    by (simp only: fl_pos_def Let_def round_even_of_int)
  with \<open>x = of_int (m * 2 ^ k) * 2 powi (bexp x - 52)\<close> show ?thesis
    unfolding x_def[symmetric] by simp
qed

lemma fl_of_nat [simp]: "n \<le> 2 ^ 53 \<Longrightarrow> fl (of_nat n) = of_nat n"
proof -
  assume n: "n \<le> 2 ^ 53"
  consider "n = 0" | "0 < n" "n < 2 ^ 53" | "n = 2 ^ 53" using n by linarith
  then show ?thesis
  proof cases
    case 2
    then show ?thesis using fl_pos_exact[of "int n" 0] by (simp add: fl_def)
  next
    case 3
    then show ?thesis using fl_pos_exact[of "2 ^ 52" 1] by (simp add: fl_def)
  qed simp
qed

lemma fl_of_int: "\<bar>i\<bar> \<le> 2 ^ 53 \<Longrightarrow> fl (of_int i) = of_int i"
proof (cases "0 \<le> i")
  case True
  assume "\<bar>i\<bar> \<le> 2 ^ 53"
  with True show ?thesis using fl_of_nat[of "nat i"] by simp
next
  case False
  assume "\<bar>i\<bar> \<le> 2 ^ 53"
  with False have "fl (of_nat (nat (- i))) = of_nat (nat (- i))" by (intro fl_of_nat) simp
  with False show ?thesis using fl_minus[of "- of_int i"] by simp
qed

lemma fl_numeral: "numeral w \<le> (2::nat) ^ 53 \<Longrightarrow> fl (numeral w) = numeral w"
  using fl_of_nat[of "numeral w"] by simp

lemma fl_1 [simp]: "fl 1 = 1"
  using fl_of_nat[of 1] by simp

lemma fl_100 [simp]: "fl 100 = 100"
  by (rule fl_numeral) simp

lemma fl_nonneg: "0 \<le> x \<Longrightarrow> 0 \<le> fl x"
  using fl_mono[of 0 x] by simp

lemma fl_le_nat: "x \<le> of_nat n \<Longrightarrow> n \<le> 2 ^ 53 \<Longrightarrow> fl x \<le> of_nat n"
  using fl_mono[of x "of_nat n"] by simp

lemma fl_pos_error:
  assumes "0 < x"
  shows "\<bar>fl_pos x - x\<bar> \<le> x / 2 ^ 53"
proof -
  define u where "u = (2::rat) powi (bexp x - 52)"
  have u: "0 < u" by (simp add: u_def)
  have "fl_pos x - x = (of_int (round_even (x / u)) - x / u) * u"
    using u by (simp add: fl_pos_def Let_def u_def[symmetric] left_diff_distrib)
  then have "\<bar>fl_pos x - x\<bar> = \<bar>of_int (round_even (x / u)) - x / u\<bar> * u"
    using u by (simp add: abs_mult)
  also have "\<dots> \<le> 1 / 2 * u"
    using u by (intro mult_right_mono round_even_error) auto
  also have "\<dots> \<le> x / 2 ^ 53"
    using bexp_bounds(1)[OF assms] powi_52[of "bexp x"] by (simp add: u_def)
  finally show ?thesis .
qed

lemma fl_error: "\<bar>fl x - x\<bar> \<le> \<bar>x\<bar> / 2 ^ 53"
proof -
  consider "x = 0" | "0 < x" | "x < 0" by linarith
  then show ?thesis
  proof cases
    case 2
    then show ?thesis using fl_pos_error[of x] by (simp add: fl_def)
  next
    case 3
    have "fl x - x = - (fl_pos (- x) - (- x))" using 3 by (simp add: fl_def)
    then have "\<bar>fl x - x\<bar> = \<bar>fl_pos (- x) - (- x)\<bar>" by (simp only: abs_minus_cancel)
    with 3 fl_pos_error[of "- x"] show ?thesis by simp
  qed simp
qed

lemma fl_idem [simp]: "fl (fl x) = fl x"
proof -
  have pos: "fl (fl_pos y) = fl_pos y" if "0 < y" for y
  proof -
    define u m where "u = (2::rat) powi (bexp y - 52)" and "m = round_even (y / u)"
    have eq: "fl_pos y = of_int m * u" by (simp add: fl_pos_def Let_def u_def m_def)
    have B: "2 powi bexp y = u * 2 ^ 52" by (simp only: u_def powi_52)
    have "2 ^ 52 * u \<le> of_int m * u" "of_int m * u \<le> 2 ^ 53 * u"
      using fl_pos_bounds[OF that] unfolding powi_2_Suc eq B by (simp_all add: mult.commute)
    then have "of_int (2 ^ 52) \<le> (of_int m :: rat)" "(of_int m :: rat) \<le> of_int (2 ^ 53)"
      by (simp_all add: u_def)
    then have m: "2 ^ 52 \<le> m" "m \<le> 2 ^ 53" by (simp_all only: of_int_le_iff)
    have "fl_pos (of_int m * u) = of_int m * u"
    proof (cases "m = 2 ^ 53")
      case True
      have "of_int m * u = of_int (2 ^ 52) * 2 powi (bexp y - 52 + 1)"
        unfolding powi_2_Suc using True by (simp add: u_def)
      then show ?thesis using fl_pos_exact[of "2 ^ 52" "bexp y - 52 + 1"] by simp
    next
      case False
      with m show ?thesis unfolding u_def by (intro fl_pos_exact) auto
    qed
    then show ?thesis using fl_pos_positive[OF that] eq by (simp add: fl_def)
  qed
  consider "x = 0" | "0 < x" | "x < 0" by linarith
  then show ?thesis
  proof cases
    case 3
    then have "fl x = - fl_pos (- x)" by (simp add: fl_def)
    then show ?thesis using pos[of "- x"] 3 by (simp add: fl_minus)
  qed (auto simp: fl_def[of x] pos)
qed

text \<open>Relative errors: from a two-sided bound to an absolute value and back.\<close>

lemma rel_errorI: "q * (1 - k) \<le> r \<Longrightarrow> r \<le> q * (1 + k) \<Longrightarrow> \<bar>r - q\<bar> \<le> q * k"
  for q k r :: rat
  by (simp add: abs_le_iff right_diff_distrib distrib_left)

lemma fl_rel: "0 \<le> x \<Longrightarrow> x * (1 - 1 / 2 ^ 53) \<le> fl x \<and> fl x \<le> x * (1 + 1 / 2 ^ 53)"
  using fl_error[of x] unfolding abs_le_iff right_diff_distrib distrib_left by simp

subsection \<open>Arithmetic and rounding of the language\<close>

definition js_add :: "js_num \<Rightarrow> js_num \<Rightarrow> js_num" where
  "js_add a b = fl (a + b)"

definition js_sub :: "js_num \<Rightarrow> js_num \<Rightarrow> js_num" where
  "js_sub a b = fl (a - b)"

definition js_mul :: "js_num \<Rightarrow> js_num \<Rightarrow> js_num" where
  "js_mul a b = fl (a * b)"

definition js_div :: "js_num \<Rightarrow> js_num \<Rightarrow> js_num" where
  "js_div a b = fl (a / b)"

definition math_round :: "js_num \<Rightarrow> int" where
  "math_round x = \<lfloor>x + 1 / 2\<rfloor>"

lemmas js_arith_defs = js_add_def js_sub_def js_mul_def js_div_def

lemma math_round_mono: "x \<le> y \<Longrightarrow> math_round x \<le> math_round y"
  by (simp add: math_round_def floor_mono)

lemma math_round_of_int [simp]: "math_round (of_int i) = i"
  by (simp add: math_round_def floor_eq_iff)

lemma js_div_unit:
  assumes "0 \<le> a" "a \<le> b" "0 < b"
  shows "0 \<le> js_div a b" "js_div a b \<le> 1"
  using assms fl_nonneg[of "a / b"] fl_mono[of "a / b" 1] by (auto simp: js_div_def)

text \<open>A ratio scaled to a percentage, \<open>(a / b) * 100\<close>, stays within 0 and 100.\<close>

lemma js_percent_bounds:
  assumes "0 \<le> a" "a \<le> b" "0 < b"
  shows "0 \<le> js_mul (js_div a b) 100" "js_mul (js_div a b) 100 \<le> 100"
  using js_div_unit[OF assms] fl_nonneg[of "js_div a b * 100"] fl_mono[of "js_div a b * 100" 100]
  by (auto simp: js_mul_def)

lemma js_add_nonneg: "0 \<le> a \<Longrightarrow> 0 \<le> b \<Longrightarrow> 0 \<le> js_add a b"
  by (simp add: js_add_def fl_nonneg)

lemma js_mul_nonneg: "0 \<le> a \<Longrightarrow> 0 \<le> b \<Longrightarrow> 0 \<le> js_mul a b"
  by (simp add: js_mul_def fl_nonneg)

lemma js_div_nonneg: "0 \<le> a \<Longrightarrow> 0 \<le> b \<Longrightarrow> 0 \<le> js_div a b"
  by (simp add: js_div_def fl_nonneg)

text \<open>The same for a difference of two parts of a whole: between -100 and 100.\<close>

lemma js_signed_percent_bounds:
  assumes "\<bar>a\<bar> \<le> b" "0 < b"
  shows "- 100 \<le> js_mul (js_div a b) 100" "js_mul (js_div a b) 100 \<le> 100"
proof -
  have "- 1 \<le> a / b" "a / b \<le> 1" using assms by (auto simp: abs_le_iff field_simps)
  then have unit: "- 1 \<le> js_div a b" "js_div a b \<le> 1"
    using fl_mono[of "- 1" "a / b"] fl_mono[of "a / b" 1] by (simp_all add: js_div_def fl_minus)
  then have "- 100 \<le> js_div a b * 100" "js_div a b * 100 \<le> 100" by simp_all
  then show "- 100 \<le> js_mul (js_div a b) 100" "js_mul (js_div a b) 100 \<le> 100"
    using fl_mono[of "- 100" "js_div a b * 100"] fl_mono[of "js_div a b * 100" 100] by (simp_all add: js_mul_def fl_minus)
qed

end
