(* ===== verification/Entities.thy ===== *)
theory Entities
  imports Js_Number
begin

text \<open>
  The entities the learning core shares (\<open>*.entity.ts\<close> of users, courses, enrollments,
  waitlist, prerequisites, versions, bundles, progress and credentials) as records, one field per
  column; a relation column is the key it joins on, and the joined object is looked up in the
  table it comes from. \<open>core\<close> is the database these services share, together with the events they
  emitted and the token rewards the ledger accepted, both in order of occurrence.
\<close>

subsection \<open>Users\<close>

datatype subscription_tier = FREE | PRO | ENTERPRISE

record notification_preferences =
  np_courseUpdates :: bool
  np_liveSessions :: bool
  np_tokenRewards :: bool
  np_pushEnabled :: bool

record user =
  u_id :: uuid
  u_email :: string
  u_username :: "string option"
  u_passwordHash :: string
  u_avatar :: "string option"
  u_bio :: "string option"
  u_stellarPublicKey :: "string option"
  u_role :: string
  u_isBanned :: bool
  u_isVerified :: bool
  u_deletedAt :: "timestamp option"
  u_verificationToken :: "string option"
  u_verificationTokenExpiresAt :: "timestamp option"
  u_mfaEnabled :: bool
  u_mfaSecret :: "string option"
  u_mfaBackupCodes :: "string list option"
  u_referralCode :: "string option"
  u_referredBy :: "uuid option"
  u_currentStreak :: int
  u_longestStreak :: int
  u_lastActivityAt :: "timestamp option"
  u_subscriptionTier :: subscription_tier
  u_stripeCustomerId :: "string option"
  u_stripeSubscriptionId :: "string option"
  u_subscriptionExpiresAt :: "timestamp option"
  u_notificationPreferences :: notification_preferences
  u_createdAt :: timestamp

text \<open>A row with the column defaults of the entity.\<close>

definition new_user :: "uuid \<Rightarrow> string \<Rightarrow> user" where
  "new_user i email =
     \<lparr>u_id = i, u_email = email, u_username = None, u_passwordHash = [], u_avatar = None,
      u_bio = None, u_stellarPublicKey = None,
      u_role = ''student'', u_isBanned = False, u_isVerified = False, u_deletedAt = None,
      u_verificationToken = None, u_verificationTokenExpiresAt = None,
      u_mfaEnabled = False, u_mfaSecret = None, u_mfaBackupCodes = None, u_referralCode = None,
      u_referredBy = None, u_currentStreak = 0, u_longestStreak = 0, u_lastActivityAt = None,
      u_subscriptionTier = FREE, u_stripeCustomerId = None, u_stripeSubscriptionId = None,
      u_subscriptionExpiresAt = None,
      u_notificationPreferences = \<lparr>np_courseUpdates = True, np_liveSessions = True, np_tokenRewards = True,
        np_pushEnabled = False\<rparr>, u_createdAt = 0\<rparr>"

subsection \<open>Courses\<close>

datatype course_status = DRAFT | SCHEDULED | PUBLISHED

record course =
  co_id :: uuid
  co_title :: string
  co_description :: string
  co_level :: string
  co_language :: string
  co_durationHours :: int
  co_status :: course_status
  co_isPublished :: bool
  co_isDeleted :: bool
  co_requiresKyc :: bool
  co_instructorId :: "uuid option"
  co_priceUsd :: "rat option"
  co_skills :: "string list option"
  co_scheduledAt :: "timestamp option"
  co_publishedAt :: "timestamp option"
  co_maxEnrollment :: "int option"
  co_createdAt :: timestamp

definition new_course :: "uuid \<Rightarrow> string \<Rightarrow> course" where
  "new_course i title =
     \<lparr>co_id = i, co_title = title, co_description = [], co_level = ''beginner'',
      co_language = ''en'', co_durationHours = 0, co_status = DRAFT, co_isPublished = False,
      co_isDeleted = False, co_requiresKyc = False, co_instructorId = None, co_priceUsd = None,
      co_skills = None, co_scheduledAt = None, co_publishedAt = None, co_maxEnrollment = None,
      co_createdAt = 0\<rparr>"

text \<open>A stored JSON document: the snapshot of a version is the object's key/value list.\<close>

datatype json =
    JNull
  | JBool bool
  | JNum rat
  | JStr string
  | JArr "json list"
  | JObj "(string \<times> json) list"

record course_version =
  cv_id :: uuid
  cv_courseId :: uuid
  cv_versionTag :: string
  cv_versionNumber :: nat
  cv_snapshot :: "(string \<times> json) list"
  cv_changeNote :: string
  cv_createdById :: "uuid option"

record course_prerequisite =
  pr_id :: uuid
  pr_courseId :: uuid
  pr_prerequisiteId :: uuid

subsection \<open>Enrollments, waitlist, bundles\<close>

record enrollment =
  en_id :: uuid
  en_userId :: uuid
  en_courseId :: uuid
  en_enrolledAt :: timestamp
  en_completedAt :: "timestamp option"
  en_enrolledVersionNumber :: "nat option"
  en_transactionHash :: "string option"

record waitlist_entry =
  wl_id :: uuid
  wl_userId :: uuid
  wl_courseId :: uuid
  wl_position :: int
  wl_joinedAt :: timestamp

record course_bundle =
  bu_id :: uuid
  bu_title :: string
  bu_description :: string
  bu_price :: rat
  bu_discountPrice :: "rat option"
  bu_isPublished :: bool
  bu_courses :: "uuid list"
  bu_createdAt :: timestamp

record bundle_enrollment =
  be_id :: uuid
  be_userId :: uuid
  be_bundleId :: uuid
  be_enrolledAt :: timestamp
  be_completedAt :: "timestamp option"

subsection \<open>Progress and credentials\<close>

record progress_row =
  pg_id :: uuid
  pg_userId :: uuid
  pg_courseId :: uuid
  pg_lessonId :: "uuid option"
  pg_progressPct :: int
  pg_completedAt :: "timestamp option"
  pg_txHash :: "string option"
  pg_updatedAt :: timestamp

datatype credential_subject = ForCourse uuid | ForBundle uuid | ForLearningPath uuid

record credential =
  cr_id :: uuid
  cr_userId :: uuid
  cr_subject :: credential_subject
  cr_txHash :: string
  cr_stellarPublicKey :: string
  cr_grade :: "string option"
  cr_issuedAt :: timestamp

datatype kyc_status = KYC_NONE | KYC_PENDING | KYC_APPROVED | KYC_REJECTED

record kyc_customer =
  ky_id :: uuid
  ky_stellarPublicKey :: string
  ky_status :: kyc_status
  ky_providerId :: "string option"
  ky_documentData :: "string option"
  ky_documentType :: "string option"
  ky_documentUrl :: "string option"
  ky_selfieUrl :: "string option"

subsection \<open>Events and the shared database\<close>

datatype event =
    EnrollmentCreated "uuid option" uuid uuid timestamp
  | EnrollmentConfirmed uuid uuid uuid string timestamp
  | EnrollmentRemoved uuid uuid
  | WaitlistJoined uuid uuid string int string string
  | WaitlistEnrolled uuid uuid string string string
  | ProgressCompleted uuid uuid string

record core =
  users :: "user list"
  courses :: "course list"
  versions :: "course_version list"
  prerequisites :: "course_prerequisite list"
  enrollments :: "enrollment list"
  waitlist :: "waitlist_entry list"
  bundles :: "course_bundle list"
  bundleEnrollments :: "bundle_enrollment list"
  progress :: "progress_row list"
  credentials :: "credential list"
  kycCustomers :: "kyc_customer list"
  events :: "event list"
  minted :: "(string \<times> int) list"
  fresh :: nat

definition empty_core :: core where
  "empty_core =
     \<lparr>users = [], courses = [], versions = [], prerequisites = [], enrollments = [], waitlist = [],
      bundles = [], bundleEnrollments = [], progress = [], credentials = [], kycCustomers = [], events = [],
      minted = [], fresh = 0\<rparr>"

definition emit :: "event \<Rightarrow> core \<Rightarrow> core" where
  "emit e s = s\<lparr>events := events s @ [e]\<rparr>"

definition find_user :: "uuid \<Rightarrow> core \<Rightarrow> user option" where
  "find_user i s = find (\<lambda>u. u_id u = i) (users s)"

definition find_course :: "uuid \<Rightarrow> core \<Rightarrow> course option" where
  "find_course i s = find (\<lambda>c. co_id c = i) (courses s)"

text \<open>\<open>findOne({ where: { id, isDeleted: false } })\<close>.\<close>

definition find_live_course :: "uuid \<Rightarrow> core \<Rightarrow> course option" where
  "find_live_course i s = find (\<lambda>c. co_id c = i \<and> \<not> co_isDeleted c) (courses s)"

definition find_enrollment :: "uuid \<Rightarrow> uuid \<Rightarrow> core \<Rightarrow> enrollment option" where
  "find_enrollment u c s = find (\<lambda>e. en_userId e = u \<and> en_courseId e = c) (enrollments s)"

definition save_user :: "user \<Rightarrow> core \<Rightarrow> core" where
  "save_user u s = s\<lparr>users := save_row u_id u (users s)\<rparr>"

lemmas find_defs = find_user_def find_course_def find_live_course_def find_enrollment_def

lemma emit_simps [simp]:
  "users (emit e s) = users s" "courses (emit e s) = courses s" "versions (emit e s) = versions s"
  "prerequisites (emit e s) = prerequisites s" "enrollments (emit e s) = enrollments s"
  "waitlist (emit e s) = waitlist s" "bundles (emit e s) = bundles s"
  "bundleEnrollments (emit e s) = bundleEnrollments s" "progress (emit e s) = progress s"
  "credentials (emit e s) = credentials s" "kycCustomers (emit e s) = kycCustomers s" "events (emit e s) = events s @ [e]"
  "minted (emit e s) = minted s" "fresh (emit e s) = fresh s"
  by (simp_all add: emit_def)

lemma save_user_simps [simp]:
  "users (save_user u s) = save_row u_id u (users s)"
  "courses (save_user u s) = courses s" "versions (save_user u s) = versions s"
  "prerequisites (save_user u s) = prerequisites s" "enrollments (save_user u s) = enrollments s"
  "waitlist (save_user u s) = waitlist s" "bundles (save_user u s) = bundles s"
  "bundleEnrollments (save_user u s) = bundleEnrollments s" "progress (save_user u s) = progress s"
  "credentials (save_user u s) = credentials s" "kycCustomers (save_user u s) = kycCustomers s" "events (save_user u s) = events s"
  "minted (save_user u s) = minted s" "fresh (save_user u s) = fresh s"
  by (simp_all add: save_user_def)

lemma find_user_save_user:
  "find_user i (save_user u s) = (if u_id u = i then Some u else find_user i s)"
  by (simp add: find_user_def find_key_save_row)

lemma find_user_SomeD: "find_user i s = Some u \<Longrightarrow> u \<in> set (users s) \<and> u_id u = i"
  by (auto simp: find_user_def dest: find_SomeD)

lemma find_enrollment_None:
  "find_enrollment u c s = None \<longleftrightarrow> (\<forall>e \<in> set (enrollments s). en_userId e = u \<longrightarrow> en_courseId e \<noteq> c)"
  by (auto simp: find_enrollment_def find_None)

lemma find_enrollment_SomeD:
  "find_enrollment u c s = Some e \<Longrightarrow> e \<in> set (enrollments s) \<and> en_userId e = u \<and> en_courseId e = c"
  by (auto simp: find_enrollment_def dest: find_SomeD)

end
