(* ===== verification/Coupons.thy ===== *)
theory Coupons
  imports Js_Number
begin

text \<open>
  The coupon service (\<open>coupons/coupons.service.ts\<close>): the coupon entity, the request bodies and
  every method of \<open>CouponsService\<close>. The lemmas show when a coupon is accepted, that the checkout
  and the public validation agree, the bounds of a discount, that bulk codes are pairwise
  different, and that codes and keys stay unique under any sequence of requests.
\<close>

subsection \<open>Data\<close>

datatype discount_type = Percentage | Fixed

record coupon =
  cp_id :: uuid
  cp_code :: string
  cp_discountType :: discount_type
  cp_discountValue :: rat
  cp_expiresAt :: "timestamp option"
  cp_usageCount :: int
  cp_maxUsage :: "int option"
  cp_isActive :: bool
  cp_courses :: "uuid list"

record create_coupon_dto =
  cd_code :: string
  cd_discountType :: discount_type
  cd_discountValue :: rat
  cd_expiresAt :: "timestamp option"
  cd_maxUsage :: "int option"

record update_coupon_dto =
  ud_code :: "string option"
  ud_discountType :: "discount_type option"
  ud_discountValue :: "rat option"
  ud_expiresAt :: "timestamp option"
  ud_maxUsage :: "int option"

record coupon_quote =
  cq_valid :: bool
  cq_discount :: js_num
  cq_discountType :: discount_type

record coupons_db =
  coupons :: "coupon list"
  coupon_fresh :: nat

subsection \<open>Repository\<close>

text \<open>\<open>save\<close> writes by primary key; the unique index on \<open>code\<close> rejects a second row.\<close>

definition save_coupon :: "coupon \<Rightarrow> coupons_db \<Rightarrow> (coupons_db, coupon) outcome" where
  "save_coupon c s =
     (if \<exists>x \<in> set (coupons s). cp_id x \<noteq> cp_id c \<and> cp_code x = cp_code c
      then (Inl UniqueViolation, s)
      else (Inr c, s\<lparr>coupons := save_row cp_id c (coupons s)\<rparr>))"

text \<open>\<open>save\<close> of a list of new rows is one transaction: all of them or none.\<close>

definition save_new_coupons :: "coupon list \<Rightarrow> coupons_db \<Rightarrow> (coupons_db, coupon list) outcome" where
  "save_new_coupons cs s =
     (if distinct (map cp_code (coupons s @ cs))
      then (Inr cs, s\<lparr>coupons := coupons s @ cs, coupon_fresh := coupon_fresh s + length cs\<rparr>)
      else (Inl UniqueViolation, s))"

subsection \<open>Operations\<close>

definition create_coupon :: "create_coupon_dto \<Rightarrow> coupons_db \<Rightarrow> (coupons_db, coupon) outcome" where
  "create_coupon dto s =
     (case find (\<lambda>c. cp_code c = cd_code dto) (coupons s) of
        Some _ \<Rightarrow> (Inl (BadRequestException ''Coupon code already exists''), s)
      | None \<Rightarrow>
          save_coupon
            \<lparr>cp_id = coupon_fresh s, cp_code = cd_code dto, cp_discountType = cd_discountType dto,
             cp_discountValue = cd_discountValue dto, cp_expiresAt = cd_expiresAt dto,
             cp_usageCount = 0, cp_maxUsage = cd_maxUsage dto, cp_isActive = True, cp_courses = []\<rparr>
            (s\<lparr>coupon_fresh := Suc (coupon_fresh s)\<rparr>))"

definition bulk_code :: "string \<Rightarrow> nat \<Rightarrow> nat \<Rightarrow> string" where
  "bulk_code prefix now i = prefix @ ''-'' @ string_of_nat now @ ''-'' @ string_of_nat i"

text \<open>\<open>clock i\<close> is what \<open>Date.now()\<close> returns in the \<open>i\<close>-th round of the loop.\<close>

definition bulk_coupon ::
  "string \<Rightarrow> (nat \<Rightarrow> nat) \<Rightarrow> discount_type \<Rightarrow> rat \<Rightarrow> timestamp option \<Rightarrow> nat \<Rightarrow> nat \<Rightarrow> coupon" where
  "bulk_coupon prefix clock ty v expiresAt base i =
     \<lparr>cp_id = base + i, cp_code = bulk_code prefix (clock i) i, cp_discountType = ty,
      cp_discountValue = v, cp_expiresAt = expiresAt, cp_usageCount = 0, cp_maxUsage = None,
      cp_isActive = True, cp_courses = []\<rparr>"

definition generateBulk ::
  "string \<Rightarrow> js_num \<Rightarrow> discount_type \<Rightarrow> rat \<Rightarrow> timestamp option \<Rightarrow> (nat \<Rightarrow> nat)
   \<Rightarrow> coupons_db \<Rightarrow> (coupons_db, coupon list) outcome" where
  "generateBulk prefix cnt ty v expiresAt clock s =
     save_new_coupons
       (map (bulk_coupon prefix clock ty v expiresAt (coupon_fresh s)) [0..<nat \<lceil>cnt\<rceil>]) s"

text \<open>The tests on \<open>expiresAt\<close> and \<open>maxUsage\<close>: a missing date never expires, and a missing or
  zero limit is no limit, because \<open>0\<close> is falsy.\<close>

definition coupon_expired :: "timestamp \<Rightarrow> coupon \<Rightarrow> bool" where
  "coupon_expired now c = (case cp_expiresAt c of None \<Rightarrow> False | Some e \<Rightarrow> e < now)"

definition coupon_used_up :: "coupon \<Rightarrow> bool" where
  "coupon_used_up c =
     (case cp_maxUsage c of None \<Rightarrow> False | Some m \<Rightarrow> m \<noteq> 0 \<and> m \<le> cp_usageCount c)"

definition coupon_discount :: "coupon \<Rightarrow> js_num \<Rightarrow> js_num" where
  "coupon_discount c priceUsd =
     (case cp_discountType c of
        Percentage \<Rightarrow> js_div (js_mul priceUsd (fl (cp_discountValue c))) 100
      | Fixed \<Rightarrow> min (fl (cp_discountValue c)) priceUsd)"

definition invalid_quote :: coupon_quote where
  "invalid_quote = \<lparr>cq_valid = False, cq_discount = 0, cq_discountType = Fixed\<rparr>"

definition validateForCheckout :: "string \<Rightarrow> js_num \<Rightarrow> timestamp \<Rightarrow> coupons_db \<Rightarrow> coupon_quote" where
  "validateForCheckout code priceUsd now s =
     (case find (\<lambda>c. cp_code c = code) (coupons s) of
        None \<Rightarrow> invalid_quote
      | Some c \<Rightarrow>
          if \<not> cp_isActive c then invalid_quote
          else if coupon_expired now c then invalid_quote
          else if coupon_used_up c then invalid_quote
          else \<lparr>cq_valid = True, cq_discount = coupon_discount c priceUsd,
                cq_discountType = cp_discountType c\<rparr>)"

definition validate_coupon :: "string \<Rightarrow> timestamp \<Rightarrow> coupons_db \<Rightarrow> http_error + (bool \<times> js_num)" where
  "validate_coupon code now s =
     (case find (\<lambda>c. cp_code c = code) (coupons s) of
        None \<Rightarrow> Inl (NotFoundException ''Coupon not found'')
      | Some c \<Rightarrow>
          if \<not> cp_isActive c then Inl (BadRequestException ''Coupon is inactive'')
          else if coupon_expired now c then Inl (BadRequestException ''Coupon has expired'')
          else if coupon_used_up c then Inl (BadRequestException ''Coupon usage limit reached'')
          else Inr (True, fl (cp_discountValue c)))"

definition incrementUsage :: "string \<Rightarrow> coupons_db \<Rightarrow> coupons_db" where
  "incrementUsage code s =
     s\<lparr>coupons := update_rows (\<lambda>c. cp_code c = code)
                   (\<lambda>c. c\<lparr>cp_usageCount := cp_usageCount c + 1\<rparr>) (coupons s)\<rparr>"

definition coupon_findById :: "uuid \<Rightarrow> coupons_db \<Rightarrow> http_error + coupon" where
  "coupon_findById i s =
     (case find (\<lambda>c. cp_id c = i) (coupons s) of
        None \<Rightarrow> Inl (NotFoundException ''Coupon not found'') | Some c \<Rightarrow> Inr c)"

text \<open>\<open>Object.assign(coupon, dto)\<close>: the fields the request carries replace the entity's.\<close>

definition assign_coupon :: "coupon \<Rightarrow> update_coupon_dto \<Rightarrow> coupon" where
  "assign_coupon c d =
     c\<lparr>cp_code := case_option (cp_code c) (\<lambda>v. v) (ud_code d),
       cp_discountType := case_option (cp_discountType c) (\<lambda>v. v) (ud_discountType d),
       cp_discountValue := case_option (cp_discountValue c) (\<lambda>v. v) (ud_discountValue d),
       cp_expiresAt := case_option (cp_expiresAt c) Some (ud_expiresAt d),
       cp_maxUsage := case_option (cp_maxUsage c) Some (ud_maxUsage d)\<rparr>"

definition update_coupon :: "uuid \<Rightarrow> update_coupon_dto \<Rightarrow> coupons_db \<Rightarrow> (coupons_db, coupon) outcome" where
  "update_coupon i dto s =
     (case coupon_findById i s of
        Inl e \<Rightarrow> (Inl e, s)
      | Inr c \<Rightarrow> save_coupon (assign_coupon c dto) s)"

definition delete_coupon :: "uuid \<Rightarrow> coupons_db \<Rightarrow> (coupons_db, unit) outcome" where
  "delete_coupon i s =
     (let affected = count_rows (\<lambda>c. cp_id c = i) (coupons s);
          s' = s\<lparr>coupons := delete_rows (\<lambda>c. cp_id c = i) (coupons s)\<rparr>
      in if affected = 0 then (Inl (NotFoundException ''Coupon not found''), s') else (Inr (), s'))"

subsection \<open>The component as a machine\<close>

datatype coupon_request =
    CreateCoupon create_coupon_dto
  | GenerateBulk string js_num discount_type rat "timestamp option" "nat \<Rightarrow> nat"
  | IncrementUsage string
  | UpdateCoupon uuid update_coupon_dto
  | DeleteCoupon uuid

fun coupon_step :: "coupon_request \<Rightarrow> coupons_db \<Rightarrow> http_error option \<times> coupons_db" where
  "coupon_step (CreateCoupon d) s = map_prod (case_sum Some (\<lambda>_. None)) (\<lambda>x. x) (create_coupon d s)"
| "coupon_step (GenerateBulk p n t v e k) s =
     map_prod (case_sum Some (\<lambda>_. None)) (\<lambda>x. x) (generateBulk p n t v e k s)"
| "coupon_step (IncrementUsage code) s = (None, incrementUsage code s)"
| "coupon_step (UpdateCoupon i d) s =
     map_prod (case_sum Some (\<lambda>_. None)) (\<lambda>x. x) (update_coupon i d s)"
| "coupon_step (DeleteCoupon i) s = map_prod (case_sum Some (\<lambda>_. None)) (\<lambda>x. x) (delete_coupon i s)"

definition coupons_ok :: "coupons_db \<Rightarrow> bool" where
  "coupons_ok s \<longleftrightarrow>
     distinct (map cp_id (coupons s)) \<and> distinct (map cp_code (coupons s)) \<and>
     (\<forall>c \<in> set (coupons s). cp_id c < coupon_fresh s)"

subsection \<open>Invariant\<close>

lemma coupons_ok_save:
  assumes "coupons_ok s" "cp_id c < coupon_fresh s"
  shows "coupons_ok (snd (save_coupon c s))"
proof (cases "\<exists>x \<in> set (coupons s). cp_id x \<noteq> cp_id c \<and> cp_code x = cp_code c")
  case False
  then have "distinct (map cp_code (save_row cp_id c (coupons s)))"
    using assms(1) by (intro save_row_unique_index) (auto simp: coupons_ok_def)
  with False assms show ?thesis
    by (simp add: save_coupon_def coupons_ok_def save_row_distinct set_save_row)
next
  case True
  with assms show ?thesis by (simp add: save_coupon_def)
qed

lemma coupons_ok_fresh: "coupons_ok s \<Longrightarrow> coupons_ok (s\<lparr>coupon_fresh := Suc (coupon_fresh s)\<rparr>)"
  by (auto simp: coupons_ok_def)

lemma coupons_ok_create: "coupons_ok s \<Longrightarrow> coupons_ok (snd (create_coupon d s))"
  by (auto simp: create_coupon_def intro!: coupons_ok_save coupons_ok_fresh split: option.split)

lemma cp_id_bulk_coupon [simp]: "cp_id (bulk_coupon p k t v e base i) = base + i"
  by (simp add: bulk_coupon_def)

lemma coupons_ok_bulk: "coupons_ok s \<Longrightarrow> coupons_ok (snd (generateBulk p n t v e k s))"
proof -
  assume ok: "coupons_ok s"
  let ?new = "map (bulk_coupon p k t v e (coupon_fresh s)) [0..<nat \<lceil>n\<rceil>]"
  have "map cp_id ?new = map (\<lambda>i. coupon_fresh s + i) [0..<nat \<lceil>n\<rceil>]" by simp
  then have "distinct (map cp_id ?new)" by (simp add: distinct_map comp_def inj_on_def)
  moreover have "cp_id ` set (coupons s) \<inter> cp_id ` set ?new = {}"
    using ok by (fastforce simp: coupons_ok_def)
  ultimately have "distinct (map cp_id (coupons s @ ?new))"
    using ok by (simp only: map_append distinct_append set_map coupons_ok_def)
  then show ?thesis
    using ok unfolding generateBulk_def save_new_coupons_def
    by (cases "distinct (map cp_code (coupons s @ ?new))") (auto simp: coupons_ok_def)
qed

lemma coupons_ok_increment: "coupons_ok s \<Longrightarrow> coupons_ok (incrementUsage code s)"
  by (auto simp: incrementUsage_def coupons_ok_def map_update_rows set_update_rows)

lemma coupons_ok_update: "coupons_ok s \<Longrightarrow> coupons_ok (snd (update_coupon i d s))"
  by (auto simp: update_coupon_def coupon_findById_def assign_coupon_def coupons_ok_def
      intro!: coupons_ok_save[unfolded coupons_ok_def] dest!: find_SomeD split: option.split)

lemma coupons_ok_delete: "coupons_ok s \<Longrightarrow> coupons_ok (snd (delete_coupon i s))"
  by (auto simp: delete_coupon_def Let_def coupons_ok_def)

lemma coupon_step_ok: "coupons_ok s \<Longrightarrow> coupons_ok (snd (coupon_step c s))"
  by (cases c) (simp_all add: coupons_ok_create coupons_ok_bulk coupons_ok_increment
      coupons_ok_update coupons_ok_delete)

interpretation coupon_machine: invariant_machine coupon_step coupons_ok
  by unfold_locales (rule coupon_step_ok)

subsection \<open>Acceptance and discounts\<close>

definition coupon_usable :: "timestamp \<Rightarrow> coupon \<Rightarrow> bool" where
  "coupon_usable now c \<longleftrightarrow> cp_isActive c \<and> \<not> coupon_expired now c \<and> \<not> coupon_used_up c"

lemma validateForCheckout_cases:
  "validateForCheckout code p now s =
     (case find (\<lambda>c. cp_code c = code) (coupons s) of
        None \<Rightarrow> invalid_quote
      | Some c \<Rightarrow> if coupon_usable now c
                  then \<lparr>cq_valid = True, cq_discount = coupon_discount c p,
                        cq_discountType = cp_discountType c\<rparr>
                  else invalid_quote)"
  by (auto simp: validateForCheckout_def coupon_usable_def split: option.split)

lemma invalid_quote_simps [simp]: "\<not> cq_valid invalid_quote" "cq_discount invalid_quote = 0"
  by (simp_all add: invalid_quote_def)

lemma coupon_by_code:
  assumes "coupons_ok s" "c \<in> set (coupons s)"
  shows "find (\<lambda>x. cp_code x = cp_code c) (coupons s) = Some c"
  using assms by (intro find_key_unique) (auto simp: coupons_ok_def)

lemma coupon_discount_nonneg:
  "0 \<le> cp_discountValue c \<Longrightarrow> 0 \<le> p \<Longrightarrow> 0 \<le> coupon_discount c p"
  by (auto simp: coupon_discount_def fl_nonneg js_div_nonneg js_mul_nonneg split: discount_type.split)

lemma fixed_discount_le: "cp_discountType c = Fixed \<Longrightarrow> coupon_discount c p \<le> p"
  by (simp add: coupon_discount_def)

lemma percentage_discount_error:
  assumes "cp_discountType c = Percentage" "0 \<le> p" "0 \<le> cp_discountValue c"
  shows "\<bar>coupon_discount c p - p * cp_discountValue c / 100\<bar> \<le> p * cp_discountValue c / 100 / 2 ^ 51"
proof -
  define d :: rat where "d = 1 / 2 ^ 53"
  define v where "v = cp_discountValue c"
  have bnd: "0 \<le> x \<Longrightarrow> x * (1 - d) \<le> fl x \<and> fl x \<le> x * (1 + d)" for x
    using fl_rel[of x] by (simp only: d_def)
  define a where "a = fl v"
  define b where "b = fl (p * a)"
  define r where "r = fl (b / 100)"
  have d: "0 \<le> d" "d \<le> 1" by (simp_all add: d_def)
  have a: "0 \<le> a" "v * (1 - d) \<le> a" "a \<le> v * (1 + d)"
    using bnd[of v] assms by (auto simp: a_def v_def fl_nonneg)
  have b: "0 \<le> b" "p * a * (1 - d) \<le> b" "b \<le> p * a * (1 + d)"
    using bnd[of "p * a"] assms a by (auto simp: b_def fl_nonneg)
  have r: "b / 100 * (1 - d) \<le> r" "r \<le> b / 100 * (1 + d)"
    using bnd[of "b / 100"] b by (auto simp: r_def)
  have "p * (v * (1 - d)) * (1 - d) / 100 * (1 - d) \<le> p * a * (1 - d) / 100 * (1 - d)"
    using a assms d by (intro mult_right_mono divide_right_mono mult_left_mono) auto
  also have "\<dots> \<le> b / 100 * (1 - d)"
    using b d by (intro mult_right_mono divide_right_mono) auto
  also have "\<dots> \<le> r" by (rule r)
  finally have lo: "p * v / 100 * ((1 - d) * (1 - d) * (1 - d)) \<le> r" by (simp add: mult_ac)
  have "r \<le> b / 100 * (1 + d)" by (rule r)
  also have "\<dots> \<le> p * a * (1 + d) / 100 * (1 + d)"
    using b d by (intro mult_right_mono divide_right_mono) auto
  also have "\<dots> \<le> p * (v * (1 + d)) * (1 + d) / 100 * (1 + d)"
    using a assms d by (intro mult_right_mono divide_right_mono mult_left_mono) auto
  finally have hi: "r \<le> p * v / 100 * ((1 + d) * (1 + d) * (1 + d))" by (simp add: mult_ac)
  have pv: "0 \<le> p * v / 100" using assms by (simp add: v_def)
  have "(1 + d) * (1 + d) * (1 + d) \<le> 1 + 1 / 2 ^ 51" "1 - 1 / 2 ^ 51 \<le> (1 - d) * (1 - d) * (1 - d)"
    by (simp_all add: d_def)
  then have "r \<le> p * v / 100 * (1 + 1 / 2 ^ 51)" "p * v / 100 * (1 - 1 / 2 ^ 51) \<le> r"
    using lo hi pv by (meson mult_left_mono order_trans)+
  then have "\<bar>r - p * v / 100\<bar> \<le> p * v / 100 * (1 / 2 ^ 51)"
    by (intro rel_errorI)
  then show ?thesis
    using assms(1) by (simp add: coupon_discount_def r_def b_def a_def v_def js_mul_def js_div_def)
qed

lemma bulk_code_inject:
  assumes "bulk_code p m i = bulk_code p n j"
  shows "i = j"
proof -
  have "(p @ ''-'' @ string_of_nat m) @ [CHR ''-''] @ string_of_nat i
      = (p @ ''-'' @ string_of_nat n) @ [CHR ''-''] @ string_of_nat j"
    using assms by (simp add: bulk_code_def)
  then have "string_of_nat i = string_of_nat j"
    by (rule last_part_unique) (rule dash_not_in_string_of_nat)+
  then show ?thesis by (simp add: string_of_nat_inject)
qed

lemma incrementUsage_usage:
  assumes "coupons_ok s" "c \<in> set (coupons s)"
  shows "find (\<lambda>x. cp_code x = cp_code c) (coupons (incrementUsage (cp_code c) s))
           = Some (c\<lparr>cp_usageCount := cp_usageCount c + 1\<rparr>)"
proof -
  let ?c = "c\<lparr>cp_usageCount := cp_usageCount c + 1\<rparr>"
  have "?c \<in> set (coupons (incrementUsage (cp_code c) s))"
    using assms(2) by (auto simp: incrementUsage_def set_update_rows)
  with coupon_by_code[OF coupons_ok_increment[OF assms(1)], of ?c] show ?thesis by simp
qed

subsection \<open>Properties\<close>

text \<open>In every state reachable from a consistent coupon table by any sequence of requests
  (create, bulk generation, usage count, update, delete, failing ones included), primary keys and
  codes are unique and every key was handed out by the generator.\<close>

theorem coupons_reachable_ok:
  assumes "coupons_ok s"
  shows "coupons_ok (run_ops coupon_step cs s)"
  using assms by (rule coupon_machine.run_preserves)

theorem coupons_reachable_ok_witness:
  "coupons_ok (run_ops coupon_step
     [CreateCoupon \<lparr>cd_code = ''A'', cd_discountType = Fixed, cd_discountValue = 5,
        cd_expiresAt = None, cd_maxUsage = Some 1\<rparr>, IncrementUsage ''A'', DeleteCoupon 7]
     \<lparr>coupons = [], coupon_fresh = 0\<rparr>)"
  by (rule coupons_reachable_ok) (simp add: coupons_ok_def)

text \<open>The quote used at checkout accepts a code exactly when the public validation endpoint
  does: on every other branch one returns an invalid quote with discount 0 and the other throws.\<close>

theorem checkout_agrees_with_validate:
  "(cq_valid (validateForCheckout code price now s) \<longleftrightarrow> (\<exists>d. validate_coupon code now s = Inr (True, d))) \<and>
   (\<not> cq_valid (validateForCheckout code price now s) \<longleftrightarrow>
     (\<exists>e. validate_coupon code now s = Inl e) \<and> validateForCheckout code price now s = invalid_quote)"
  by (auto simp: validateForCheckout_def validate_coupon_def split: option.splits)

text \<open>Bulk generation on a table that holds none of the new codes returns as many coupons as
  rounds of the loop, with pairwise different codes whatever the clock shows in each round, all
  active, unused and without usage limit, and appends exactly them to the table.\<close>

theorem generateBulk_distinct:
  assumes "coupons_ok s"
    and "\<And>i. i < nat \<lceil>cnt\<rceil> \<Longrightarrow> bulk_code prefix (clock i) i \<notin> cp_code ` set (coupons s)"
  shows "\<exists>cs. fst (generateBulk prefix cnt ty v e clock s) = Inr cs
           \<and> length cs = nat \<lceil>cnt\<rceil> \<and> distinct (map cp_code cs)
           \<and> (\<forall>c \<in> set cs. cp_isActive c \<and> cp_usageCount c = 0 \<and> cp_maxUsage c = None)
           \<and> coupons (snd (generateBulk prefix cnt ty v e clock s)) = coupons s @ cs"
proof -
  let ?new = "map (bulk_coupon prefix clock ty v e (coupon_fresh s)) [0..<nat \<lceil>cnt\<rceil>]"
  have codes: "map cp_code ?new = map (\<lambda>i. bulk_code prefix (clock i) i) [0..<nat \<lceil>cnt\<rceil>]"
    by (simp add: bulk_coupon_def)
  have "inj_on (\<lambda>i. bulk_code prefix (clock i) i) {0..<nat \<lceil>cnt\<rceil>}"
    by (rule inj_onI) (rule bulk_code_inject)
  then have d: "distinct (map cp_code ?new)"
    unfolding codes by (simp add: distinct_map)
  have "x \<notin> cp_code ` set (coupons s)" if "x \<in> set (map cp_code ?new)" for x
  proof -
    from that obtain i where "i < nat \<lceil>cnt\<rceil>" "x = bulk_code prefix (clock i) i"
      unfolding codes by auto
    with assms(2)[of i] show ?thesis by simp
  qed
  then have "set (map cp_code (coupons s)) \<inter> set (map cp_code ?new) = {}"
    unfolding set_map by blast
  with d have "distinct (map cp_code (coupons s @ ?new))"
    using assms(1) by (simp only: map_append distinct_append coupons_ok_def)
  then show ?thesis
    using d unfolding generateBulk_def save_new_coupons_def by (auto simp: bulk_coupon_def)
qed

theorem generateBulk_distinct_witness:
  "\<exists>cs. fst (generateBulk ''X'' 3 Fixed 5 None (\<lambda>_. 1700) \<lparr>coupons = [], coupon_fresh = 0\<rparr>) = Inr cs
     \<and> length cs = 3"
  using generateBulk_distinct[of "\<lparr>coupons = [], coupon_fresh = 0\<rparr>" 3 "''X''" "\<lambda>_. 1700" Fixed 5 None]
  by (auto simp: coupons_ok_def)

end
