(* ===== verification/Payments.thy ===== *)
theory Payments
  imports Entities Coupons
begin

text \<open>
  Checkout: \<open>payments/payments.service.ts\<close> and \<open>payments/currency-conversion.service.ts\<close>. The
  exchange-rate API and the Stripe client are outside the repository: the answer of a rate request
  and of an intent request are arguments. Payments calls the coupon service through the locale
  \<open>coupon_pricing\<close>, whose laws the coupon theory's definitions satisfy.
\<close>

subsection \<open>Currency conversion\<close>

datatype currency = USD | EUR | GBP | NGN | KES | GHS | ZAR | INR | BRL | CAD | AUD

type_synonym rates = "currency \<rightharpoonup> js_num"

record rates_cache =
  rc_rates :: rates
  rc_fetchedAt :: timestamp

definition cacheTtlMs :: int where
  "cacheTtlMs = 60 * 60 * 1000"

text \<open>\<open>fetched\<close> is the answer of the rate API, should it be asked.\<close>

definition getRates ::
  "timestamp \<Rightarrow> http_error + rates \<Rightarrow> rates_cache option \<Rightarrow> (rates_cache option, rates) outcome" where
  "getRates now fetched cache =
     (case cache of
        Some c \<Rightarrow>
          if now - rc_fetchedAt c < cacheTtlMs then (Inr (rc_rates c), cache)
          else (case fetched of
                  Inr r \<Rightarrow> (Inr r, Some \<lparr>rc_rates = r, rc_fetchedAt = now\<rparr>)
                | Inl e \<Rightarrow> (Inr (rc_rates c), cache))
      | None \<Rightarrow>
          (case fetched of
             Inr r \<Rightarrow> (Inr r, Some \<lparr>rc_rates = r, rc_fetchedAt = now\<rparr>)
           | Inl e \<Rightarrow> (Inl e, cache)))"

definition to_cents :: "js_num \<Rightarrow> int" where
  "to_cents x = math_round (js_mul x 100)"

definition convert ::
  "js_num \<Rightarrow> currency \<Rightarrow> timestamp \<Rightarrow> http_error + rates \<Rightarrow> rates_cache option
   \<Rightarrow> (rates_cache option, js_num) outcome" where
  "convert amountInUsd target now fetched cache =
     (if target = USD then (Inr amountInUsd, cache)
      else (case getRates now fetched cache of
              (Inl e, cache') \<Rightarrow> (Inl e, cache')
            | (Inr rates, cache') \<Rightarrow>
                (case rates target of
                   None \<Rightarrow> (Inl (JsError ''Unsupported currency''), cache')
                 | Some rate \<Rightarrow>
                     if rate = 0 then (Inl (JsError ''Unsupported currency''), cache')
                     else (Inr (js_div (of_int (to_cents (js_mul amountInUsd rate))) 100), cache'))))"

definition zeroDecimal :: "currency list" where
  "zeroDecimal = [KES, NGN, GHS]"

definition toStripeAmount ::
  "js_num \<Rightarrow> currency \<Rightarrow> timestamp \<Rightarrow> http_error + rates \<Rightarrow> rates_cache option
   \<Rightarrow> (rates_cache option, int) outcome" where
  "toStripeAmount amountInUsd target now fetched cache =
     (case convert amountInUsd target now fetched cache of
        (Inl e, cache') \<Rightarrow> (Inl e, cache')
      | (Inr converted, cache') \<Rightarrow>
          (Inr (if target \<in> set zeroDecimal then math_round converted else to_cents converted), cache'))"

subsection \<open>Payment intents\<close>

record payments_state =
  pay_courses :: "course list"
  pay_coupons :: coupons_db
  pay_cache :: "rates_cache option"

record payment_intent =
  pi_clientSecret :: string
  pi_amount :: int
  pi_currency :: currency
  pi_courseId :: uuid
  pi_discountApplied :: js_num
  pi_finalPriceUsd :: js_num

text \<open>What a quote does to the price: \<open>(discountApplied, priceUsd)\<close>.\<close>

definition apply_quote :: "coupon_quote \<Rightarrow> js_num \<Rightarrow> js_num \<times> js_num" where
  "apply_quote q priceUsd =
     (if cq_valid q then (cq_discount q, max 0 (js_sub priceUsd (cq_discount q))) else (0, priceUsd))"

definition truthy_code :: "string option \<Rightarrow> bool" where
  "truthy_code code = (case code of None \<Rightarrow> False | Some c \<Rightarrow> c \<noteq> [])"

definition redeem_coupon ::
  "string option \<Rightarrow> js_num \<Rightarrow> timestamp \<Rightarrow> coupons_db \<Rightarrow> (js_num \<times> js_num) \<times> coupons_db" where
  "redeem_coupon couponCode priceUsd now cdb =
     (if truthy_code couponCode
      then (let q = validateForCheckout (the couponCode) priceUsd now cdb
            in (apply_quote q priceUsd, if cq_valid q then incrementUsage (the couponCode) cdb else cdb))
      else ((0, priceUsd), cdb))"

text \<open>\<open>now\<close> is the time of the coupon test and \<open>nowMs\<close> that of the rate look-up; \<open>stripe\<close> answers
  the intent request for an amount.\<close>

definition createPaymentIntent ::
  "uuid \<Rightarrow> currency \<Rightarrow> string option \<Rightarrow> timestamp \<Rightarrow> timestamp \<Rightarrow> http_error + rates
   \<Rightarrow> (int \<Rightarrow> http_error + string) \<Rightarrow> payments_state \<Rightarrow> (payments_state, payment_intent) outcome" where
  "createPaymentIntent courseId cur couponCode now nowMs fetched stripe s =
     (case find (\<lambda>c. co_id c = courseId) (pay_courses s) of
        None \<Rightarrow> (Inl (NotFoundException ''Course not found''), s)
      | Some course \<Rightarrow>
          (case co_priceUsd course of
             None \<Rightarrow> (Inl (BadRequestException ''This course is free and does not require payment''), s)
           | Some price \<Rightarrow>
               if price \<le> 0
               then (Inl (BadRequestException ''This course is free and does not require payment''), s)
               else
                 (case redeem_coupon couponCode (fl price) now (pay_coupons s) of
                    ((discountApplied, priceUsd), cdb) \<Rightarrow>
                      (case toStripeAmount priceUsd cur nowMs fetched (pay_cache s) of
                         (Inl e, cache') \<Rightarrow> (Inl e, s\<lparr>pay_coupons := cdb, pay_cache := cache'\<rparr>)
                       | (Inr amount, cache') \<Rightarrow>
                           (case stripe amount of
                              Inl e \<Rightarrow> (Inl e, s\<lparr>pay_coupons := cdb, pay_cache := cache'\<rparr>)
                            | Inr secret \<Rightarrow>
                                (Inr \<lparr>pi_clientSecret = secret, pi_amount = amount, pi_currency = cur,
                                      pi_courseId = courseId, pi_discountApplied = discountApplied,
                                      pi_finalPriceUsd = priceUsd\<rparr>,
                                 s\<lparr>pay_coupons := cdb, pay_cache := cache'\<rparr>))))))"

definition getPriceInCurrency ::
  "uuid \<Rightarrow> currency \<Rightarrow> timestamp \<Rightarrow> http_error + rates \<Rightarrow> payments_state
   \<Rightarrow> (payments_state, js_num \<times> js_num) outcome" where
  "getPriceInCurrency courseId cur nowMs fetched s =
     (case find (\<lambda>c. co_id c = courseId) (pay_courses s) of
        None \<Rightarrow> (Inl (NotFoundException ''Course not found''), s)
      | Some course \<Rightarrow>
          (let priceUsd = fl (case co_priceUsd course of None \<Rightarrow> 0 | Some p \<Rightarrow> p)
           in if 0 < priceUsd
              then (case convert priceUsd cur nowMs fetched (pay_cache s) of
                      (Inl e, cache') \<Rightarrow> (Inl e, s\<lparr>pay_cache := cache'\<rparr>)
                    | (Inr v, cache') \<Rightarrow> (Inr (priceUsd, v), s\<lparr>pay_cache := cache'\<rparr>))
              else (Inr (priceUsd, 0), s)))"

subsection \<open>The pricing interface\<close>

text \<open>What checkout relies on: \<open>quote\<close> prices a code, \<open>consume\<close> counts a use; \<open>wf\<close> is the
  provider's invariant.\<close>

locale coupon_pricing =
  fixes quot :: "string \<Rightarrow> js_num \<Rightarrow> timestamp \<Rightarrow> 'db \<Rightarrow> coupon_quote"
    and consume :: "string \<Rightarrow> 'db \<Rightarrow> 'db"
    and wf :: "'db \<Rightarrow> bool"
  assumes discount_nonneg: "wf db \<Longrightarrow> 0 \<le> p \<Longrightarrow> 0 \<le> cq_discount (quot code p now db)"
    and invalid_no_discount: "\<not> cq_valid (quot code p now db) \<Longrightarrow> cq_discount (quot code p now db) = 0"
    and consume_wf: "wf db \<Longrightarrow> wf (consume code db)"
begin

lemma final_price_bounds:
  assumes "wf db" "0 \<le> p" "fl p = p"
  shows "0 \<le> snd (apply_quote (quot code p now db) p)"
    and "snd (apply_quote (quot code p now db) p) \<le> p"
proof -
  have "js_sub p (cq_discount (quot code p now db)) \<le> p"
    using fl_mono[of "p - cq_discount (quot code p now db)" p] discount_nonneg[OF assms(1,2)] assms(3)
    by (simp add: js_sub_def)
  then show "0 \<le> snd (apply_quote (quot code p now db) p)"
    and "snd (apply_quote (quot code p now db) p) \<le> p"
    using assms(2) by (auto simp: apply_quote_def)
qed

lemma discount_reported:
  "fst (apply_quote (quot code p now db) p) = cq_discount (quot code p now db)"
  by (simp add: apply_quote_def invalid_no_discount)

end

definition coupons_nonneg :: "coupons_db \<Rightarrow> bool" where
  "coupons_nonneg s \<longleftrightarrow> coupons_ok s \<and> (\<forall>c \<in> set (coupons s). 0 \<le> cp_discountValue c)"

lemma coupons_nonneg_increment: "coupons_nonneg s \<Longrightarrow> coupons_nonneg (incrementUsage code s)"
  unfolding coupons_nonneg_def using coupons_ok_increment
  by (auto simp: incrementUsage_def set_update_rows)

interpretation pricing: coupon_pricing validateForCheckout incrementUsage coupons_nonneg
  by unfold_locales
    (auto simp: validateForCheckout_cases coupons_nonneg_def coupon_discount_nonneg
      coupons_nonneg_increment[unfolded coupons_nonneg_def] dest: find_SomeD split: option.split)

subsection \<open>Lemmas\<close>

text \<open>Reading an amount of whole cents back from its floating-point quotient loses nothing.\<close>

lemma to_cents_of_cents:
  assumes "0 \<le> n" "n \<le> 2 ^ 50"
  shows "to_cents (js_div (of_int n) 100) = n"
proof -
  define a where "a = fl (of_int n / 100)"
  define b where "b = fl (a * 100)"
  have n0: "(0::rat) \<le> of_int n" using assms(1) by simp
  have nmax: "of_int n \<le> (2::rat) ^ 50" using assms(2) by (metis of_int_le_iff of_int_numeral of_int_power)
  have a: "of_int n / 100 * (1 - 1 / 2 ^ 53) \<le> a" "a \<le> of_int n / 100 * (1 + 1 / 2 ^ 53)"
    using fl_rel[of "of_int n / 100"] n0 by (simp_all add: a_def)
  have a0: "0 \<le> a" using n0 by (simp add: a_def fl_nonneg)
  have b: "a * 100 * (1 - 1 / 2 ^ 53) \<le> b" "b \<le> a * 100 * (1 + 1 / 2 ^ 53)"
    using fl_rel[of "a * 100"] a0 by (simp_all add: b_def)
  have "b - of_int n < 1 / 2" "of_int n - b < 1 / 2"
    using a b nmax n0 by simp_all
  then have "math_round b = n"
    unfolding math_round_def by (simp add: floor_eq_iff)
  then show ?thesis by (simp add: to_cents_def js_mul_def js_div_def a_def b_def)
qed

definition priced_course :: "uuid \<Rightarrow> payments_state \<Rightarrow> rat option" where
  "priced_course i s =
     (case find (\<lambda>c. co_id c = i) (pay_courses s) of
        None \<Rightarrow> None
      | Some c \<Rightarrow> (case co_priceUsd c of None \<Rightarrow> None | Some p \<Rightarrow> if p \<le> 0 then None else Some p))"

lemma createPaymentIntent_priced:
  "fst (createPaymentIntent i cur code now t f st s) = Inr pint \<Longrightarrow> \<exists>p. priced_course i s = Some p"
  by (auto simp: createPaymentIntent_def priced_course_def split: option.splits if_splits)

lemma createPaymentIntent_coupons:
  "pay_coupons (snd (createPaymentIntent i cur code now t f st s)) =
     (case priced_course i s of
        None \<Rightarrow> pay_coupons s
      | Some p \<Rightarrow> snd (redeem_coupon code (fl p) now (pay_coupons s)))"
  by (auto simp: createPaymentIntent_def priced_course_def split: option.split prod.split sum.split)

lemma createPaymentIntent_result:
  assumes "fst (createPaymentIntent i cur code now t f st s) = Inr pint" "priced_course i s = Some p"
  shows "(pi_discountApplied pint, pi_finalPriceUsd pint) = fst (redeem_coupon code (fl p) now (pay_coupons s))"
  using assms
  by (auto simp: createPaymentIntent_def priced_course_def split: option.splits if_splits prod.splits sum.splits)

lemma redeem_coupon_bounds:
  assumes "coupons_nonneg cdb" "0 \<le> p" "fl p = p" "redeem_coupon code p now cdb = ((d, q), cdb')"
  shows "0 \<le> d \<and> 0 \<le> q \<and> q \<le> p \<and> coupons_nonneg cdb'"
proof (cases "truthy_code code")
  case True
  define qt where "qt = validateForCheckout (the code) p now cdb"
  have "d = fst (apply_quote qt p)" "q = snd (apply_quote qt p)"
    "cdb' = (if cq_valid qt then incrementUsage (the code) cdb else cdb)"
    using assms(4) True by (auto simp: redeem_coupon_def Let_def qt_def)
  then show ?thesis
    using pricing.final_price_bounds[OF assms(1-3)] pricing.discount_reported
      pricing.discount_nonneg[OF assms(1,2)] pricing.consume_wf[OF assms(1)] assms(1)
    by (auto simp: qt_def)
next
  case False
  with assms show ?thesis by (auto simp: redeem_coupon_def)
qed

subsection \<open>Properties\<close>

text \<open>A payment intent never charges more than the course's list price and never a negative
  amount, whatever coupon is presented, also one of more than 100 percent; the reported discount
  is never negative and the coupon table stays consistent.\<close>

theorem intent_price_bounds:
  assumes "coupons_nonneg (pay_coupons s)"
    and "fst (createPaymentIntent i cur code now nowMs fetched stripe s) = Inr pint"
  shows "\<exists>p. priced_course i s = Some p \<and> 0 \<le> pi_finalPriceUsd pint \<and> pi_finalPriceUsd pint \<le> fl p
           \<and> 0 \<le> pi_discountApplied pint
           \<and> coupons_nonneg (pay_coupons (snd (createPaymentIntent i cur code now nowMs fetched stripe s)))"
proof -
  obtain p where p: "priced_course i s = Some p"
    using createPaymentIntent_priced[OF assms(2)] by blast
  then have "0 \<le> fl p"
    by (auto simp: priced_course_def fl_nonneg split: option.splits if_splits)
  obtain d q cdb' where r: "redeem_coupon code (fl p) now (pay_coupons s) = ((d, q), cdb')"
    by (metis surj_pair)
  have "0 \<le> d \<and> 0 \<le> q \<and> q \<le> fl p \<and> coupons_nonneg cdb'"
    by (rule redeem_coupon_bounds[OF assms(1) \<open>0 \<le> fl p\<close> fl_idem r])
  with p r createPaymentIntent_result[OF assms(2) p] show ?thesis
    by (simp add: createPaymentIntent_coupons)
qed

definition half_price :: coupon where
  "half_price = \<lparr>cp_id = 0, cp_code = ''HALF'', cp_discountType = Percentage, cp_discountValue = 50,
     cp_expiresAt = None, cp_usageCount = 0, cp_maxUsage = None, cp_isActive = True, cp_courses = []\<rparr>"

definition shop :: payments_state where
  "shop = \<lparr>pay_courses = [(new_course 1 ''Rust'')\<lparr>co_priceUsd := Some 10\<rparr>],
     pay_coupons = \<lparr>coupons = [half_price], coupon_fresh = 1\<rparr>, pay_cache = None\<rparr>"

lemma shop_nonneg: "coupons_nonneg (pay_coupons shop)"
  by (simp add: shop_def half_price_def coupons_nonneg_def coupons_ok_def)

lemma fl_small_numerals: "fl 10 = 10" "fl 50 = 50" "fl 500 = 500" "fl 5 = 5"
  by (rule fl_numeral; simp)+

lemma shop_intent:
  "fst (createPaymentIntent 1 USD (Some ''HALF'') 0 0 (Inl JsTypeError) (\<lambda>_. Inr ''cs'') shop) =
     Inr \<lparr>pi_clientSecret = ''cs'', pi_amount = 500, pi_currency = USD, pi_courseId = 1,
          pi_discountApplied = 5, pi_finalPriceUsd = 5\<rparr>"
proof -
  have q: "validateForCheckout ''HALF'' 10 0 (pay_coupons shop)
      = \<lparr>cq_valid = True, cq_discount = 5, cq_discountType = Percentage\<rparr>"
    by (simp add: validateForCheckout_def shop_def half_price_def coupon_expired_def
        coupon_used_up_def coupon_discount_def js_arith_defs fl_small_numerals)
  have "math_round 500 = 500" using math_round_of_int[of 500] by simp
  then show ?thesis
    using q by (simp add: createPaymentIntent_def redeem_coupon_def truthy_code_def apply_quote_def
        toStripeAmount_def convert_def to_cents_def zeroDecimal_def js_arith_defs fl_small_numerals
        shop_def new_course_def)
qed

theorem intent_price_bounds_witness:
  "\<exists>p. priced_course 1 shop = Some p \<and> (5::rat) \<le> fl p"
  using intent_price_bounds[OF shop_nonneg shop_intent] by auto

text \<open>A coupon use is counted exactly when the course is for sale and the code is valid, and it
  is counted on every outcome: also when the rate API or the payment provider then fails and the
  request answers with an error.\<close>

theorem coupon_use_counted:
  "pay_coupons (snd (createPaymentIntent i cur (Some code) now nowMs fetched stripe s)) =
     (case priced_course i s of
        None \<Rightarrow> pay_coupons s
      | Some p \<Rightarrow>
          if code \<noteq> [] \<and> cq_valid (validateForCheckout code (fl p) now (pay_coupons s))
          then incrementUsage code (pay_coupons s) else pay_coupons s)"
  by (simp add: createPaymentIntent_coupons redeem_coupon_def truthy_code_def Let_def split: option.split)

text \<open>For a currency with cents, the integer sent to the payment provider is the converted
  price rounded once to whole cents: dividing by 100 and multiplying back in floating point loses
  nothing below \<open>2 ^ 50\<close> cents.\<close>

theorem stripe_amount_is_cents:
  assumes "cur \<noteq> USD" "cur \<notin> set zeroDecimal"
    and "getRates now fetched cache = (Inr rates, cache')" "rates cur = Some rate" "rate \<noteq> 0"
    and "0 \<le> to_cents (js_mul amount rate)" "to_cents (js_mul amount rate) \<le> 2 ^ 50"
  shows "toStripeAmount amount cur now fetched cache = (Inr (to_cents (js_mul amount rate)), cache')"
  using assms by (simp add: toStripeAmount_def convert_def to_cents_of_cents)

theorem stripe_amount_is_cents_witness:
  "toStripeAmount 10 EUR 0 (Inr [EUR \<mapsto> 2]) None = (Inr 2000, Some \<lparr>rc_rates = [EUR \<mapsto> 2], rc_fetchedAt = 0\<rparr>)"
proof -
  have n: "fl 20 = 20" "fl 2000 = 2000" by (rule fl_numeral; simp)+
  have "math_round 2000 = 2000" using math_round_of_int[of 2000] by simp
  then have c: "to_cents (js_mul 10 2) = 2000"
    by (simp add: to_cents_def js_mul_def n)
  show ?thesis
    by (subst stripe_amount_is_cents[where rate = 2 and rates = "[EUR \<mapsto> 2]"])
      (simp_all add: zeroDecimal_def getRates_def c)
qed

end
