(* ===== verification/Waitlist.thy ===== *)
theory Waitlist
  imports Entities "HOL-Library.Multiset"
begin

text \<open>
  The waitlist (\<open>waitlist/waitlist.service.ts\<close>): joining and leaving a course's queue, the
  promotion of its head when a place opens, and the queries. A course's queue, read in the order
  of the stored positions, refines a FIFO list of users; the positions are always 1 to n without
  a gap, although they are stored as plain numbers that every removal has to renumber.
\<close>

subsection \<open>Queries\<close>

definition getEnrollmentCount :: "uuid \<Rightarrow> core \<Rightarrow> nat" where
  "getEnrollmentCount courseId s = count_rows (\<lambda>e. en_courseId e = courseId) (enrollments s)"

definition isFull :: "uuid \<Rightarrow> core \<Rightarrow> bool" where
  "isFull courseId s =
     (case find_course courseId s of
        None \<Rightarrow> False
      | Some c \<Rightarrow>
          (case co_maxEnrollment c of
             None \<Rightarrow> False
           | Some m \<Rightarrow> m \<noteq> 0 \<and> m \<le> int (getEnrollmentCount courseId s)))"

definition find_waitlisted :: "uuid \<Rightarrow> uuid \<Rightarrow> core \<Rightarrow> waitlist_entry option" where
  "find_waitlisted userId courseId s =
     find (\<lambda>w. wl_userId w = userId \<and> wl_courseId w = courseId) (waitlist s)"

definition getPosition :: "uuid \<Rightarrow> uuid \<Rightarrow> core \<Rightarrow> int option" where
  "getPosition userId courseId s = map_option wl_position (find_waitlisted userId courseId s)"

definition course_rows :: "uuid \<Rightarrow> core \<Rightarrow> waitlist_entry list" where
  "course_rows courseId s = filter (\<lambda>w. wl_courseId w = courseId) (waitlist s)"

definition listForCourse :: "uuid \<Rightarrow> core \<Rightarrow> waitlist_entry list" where
  "listForCourse courseId s = order_by wl_position (course_rows courseId s)"

definition listForUser :: "uuid \<Rightarrow> core \<Rightarrow> waitlist_entry list" where
  "listForUser userId s = order_by wl_joinedAt (filter (\<lambda>w. wl_userId w = userId) (waitlist s))"

definition getWaitlistCount :: "uuid \<Rightarrow> core \<Rightarrow> nat" where
  "getWaitlistCount courseId s = count_rows (\<lambda>w. wl_courseId w = courseId) (waitlist s)"

text \<open>\<open>SELECT MAX(position)\<close>, with \<open>null\<close> read as 0.\<close>

definition max_position :: "uuid \<Rightarrow> core \<Rightarrow> int" where
  "max_position courseId s =
     (let ps = map wl_position (course_rows courseId s) in if ps = [] then 0 else Max (set ps))"

definition mail_of :: "user option \<Rightarrow> string" where
  "mail_of u = (case u of None \<Rightarrow> [] | Some x \<Rightarrow> u_email x)"

definition name_of :: "user option \<Rightarrow> string" where
  "name_of u =
     (case u of None \<Rightarrow> ''Student''
      | Some x \<Rightarrow> (case u_username x of Some n \<Rightarrow> n | None \<Rightarrow> u_email x))"

subsection \<open>Joining, leaving, promotion\<close>

definition waitlist_join :: "timestamp \<Rightarrow> uuid \<Rightarrow> uuid \<Rightarrow> core \<Rightarrow> (core, waitlist_entry) outcome" where
  "waitlist_join now userId courseId s =
     (case find_course courseId s of
        None \<Rightarrow> (Inl (NotFoundException ''Course not found''), s)
      | Some course \<Rightarrow>
          if \<not> co_isPublished course \<and> co_status course \<noteq> PUBLISHED
          then (Inl (BadRequestException ''Course is not available for enrollment or waitlisting''), s)
          else if find_enrollment userId courseId s \<noteq> None
          then (Inl (ConflictException ''Already enrolled in this course''), s)
          else if find_waitlisted userId courseId s \<noteq> None
          then (Inl (ConflictException ''Already on the waitlist for this course''), s)
          else if \<not> isFull courseId s
          then (Inl (BadRequestException ''Course has available spots - please enroll directly''), s)
          else
            (let position = max_position courseId s + 1;
                 entry = \<lparr>wl_id = fresh s, wl_userId = userId, wl_courseId = courseId,
                          wl_position = position, wl_joinedAt = now\<rparr>;
                 u = find_user userId s
             in (Inr entry,
                 emit (WaitlistJoined userId courseId (co_title course) position (mail_of u) (name_of u))
                   (s\<lparr>waitlist := waitlist s @ [entry], fresh := Suc (fresh s)\<rparr>))))"

text \<open>\<open>remove(entry)\<close> deletes by primary key; the update query renumbers the rows behind it.\<close>

definition compact_after :: "uuid \<Rightarrow> int \<Rightarrow> waitlist_entry list \<Rightarrow> waitlist_entry list" where
  "compact_after courseId pos ws =
     update_rows (\<lambda>w. wl_courseId w = courseId \<and> pos < wl_position w)
       (\<lambda>w. w\<lparr>wl_position := wl_position w - 1\<rparr>) ws"

definition waitlist_leave :: "uuid \<Rightarrow> uuid \<Rightarrow> core \<Rightarrow> (core, unit) outcome" where
  "waitlist_leave userId courseId s =
     (case find_waitlisted userId courseId s of
        None \<Rightarrow> (Inl (NotFoundException ''Not on the waitlist for this course''), s)
      | Some entry \<Rightarrow>
          (Inr (), s\<lparr>waitlist := compact_after courseId (wl_position entry)
                                 (delete_rows (\<lambda>w. wl_id w = wl_id entry) (waitlist s))\<rparr>))"

definition adminRemove :: "uuid \<Rightarrow> uuid \<Rightarrow> core \<Rightarrow> (core, unit) outcome" where
  "adminRemove courseId userId s = waitlist_leave userId courseId s"

text \<open>The renumbering inside the promotion has no condition on the position.\<close>

definition compact_all :: "uuid \<Rightarrow> waitlist_entry list \<Rightarrow> waitlist_entry list" where
  "compact_all courseId ws =
     update_rows (\<lambda>w. wl_courseId w = courseId) (\<lambda>w. w\<lparr>wl_position := wl_position w - 1\<rparr>) ws"

definition promote_transaction :: "timestamp \<Rightarrow> waitlist_entry \<Rightarrow> uuid \<Rightarrow> core \<Rightarrow> core" where
  "promote_transaction now nxt courseId s =
     (let s1 = (if find_enrollment (wl_userId nxt) courseId s = None
                then s\<lparr>enrollments := enrollments s @
                         [\<lparr>en_id = fresh s, en_userId = wl_userId nxt, en_courseId = courseId,
                           en_enrolledAt = now, en_completedAt = None,
                           en_enrolledVersionNumber = None, en_transactionHash = None\<rparr>],
                       fresh := Suc (fresh s)\<rparr>
                else s)
      in s1\<lparr>waitlist := compact_all courseId (delete_rows (\<lambda>w. wl_id w = wl_id nxt) (waitlist s1))\<rparr>)"

definition promoteNext :: "timestamp \<Rightarrow> uuid \<Rightarrow> core \<Rightarrow> core" where
  "promoteNext now courseId s =
     (case find_course courseId s of
        None \<Rightarrow> s
      | Some course \<Rightarrow>
          (case co_maxEnrollment course of
             None \<Rightarrow> s
           | Some m \<Rightarrow>
               if m = 0 \<or> m \<le> int (getEnrollmentCount courseId s) then s
               else
                 (case find (\<lambda>w. wl_courseId w = courseId \<and> wl_position w = 1) (waitlist s) of
                    None \<Rightarrow> s
                  | Some nxt \<Rightarrow>
                      (let u = find_user (wl_userId nxt) s
                       in emit (EnrollmentCreated None (wl_userId nxt) courseId now)
                            (emit (WaitlistEnrolled (wl_userId nxt) courseId (co_title course)
                                     (mail_of u) (name_of u))
                               (promote_transaction now nxt courseId s))))))"

definition handleEnrollmentRemoved :: "timestamp \<Rightarrow> uuid \<Rightarrow> core \<Rightarrow> core" where
  "handleEnrollmentRemoved now courseId s = promoteNext now courseId s"

subsection \<open>The queue of a course and its invariant\<close>

definition queue_members :: "uuid \<Rightarrow> core \<Rightarrow> uuid list" where
  "queue_members c s = map wl_userId (listForCourse c s)"

text \<open>Positions are 1 to n in each course; a user is at most once in a course's queue; keys are
  unique and below the generator.\<close>

definition positions_ok :: "uuid \<Rightarrow> waitlist_entry list \<Rightarrow> bool" where
  "positions_ok c ws \<longleftrightarrow>
     (let q = order_by wl_position (filter (\<lambda>w. wl_courseId w = c) ws)
      in map wl_position q = [1..int (length q)])"

definition waitlist_ok :: "core \<Rightarrow> bool" where
  "waitlist_ok s \<longleftrightarrow>
     (\<forall>c. positions_ok c (waitlist s)) \<and>
     distinct (map wl_id (waitlist s)) \<and>
     distinct (map (\<lambda>w. (wl_userId w, wl_courseId w)) (waitlist s)) \<and>
     (\<forall>w \<in> set (waitlist s). wl_id w < fresh s)"

lemma listForCourse_positions:
  "waitlist_ok s \<Longrightarrow> map wl_position (listForCourse c s) = [1..int (length (listForCourse c s))]"
  by (simp add: waitlist_ok_def positions_ok_def listForCourse_def course_rows_def Let_def)

lemma set_listForCourse [simp]: "set (listForCourse c s) = {w \<in> set (waitlist s). wl_courseId w = c}"
  by (auto simp: listForCourse_def course_rows_def)

lemma course_positions_inj: "waitlist_ok s \<Longrightarrow> inj_on wl_position (set (listForCourse c s))"
  using listForCourse_positions[of s c] by (metis distinct_map distinct_upto)

lemma order_by_unique:
  assumes "mset ys = mset xs" "distinct (map f ys)" "sorted (map f ys)"
  shows "order_by f xs = ys"
proof -
  have "inj_on f (set xs)"
    using assms(1,2) by (metis distinct_map set_mset_mset)
  then show ?thesis
    unfolding order_by_def using assms by (intro sort_key_inj_key_eq) auto
qed

lemma distinct_queue_members:
  assumes "waitlist_ok s"
  shows "distinct (queue_members c s)"
proof -
  have "distinct (map (\<lambda>w. (wl_userId w, wl_courseId w)) (listForCourse c s))"
  proof -
    have "distinct (listForCourse c s)"
      using listForCourse_positions[OF assms, of c] by (metis distinct_map distinct_upto)
    moreover have "inj_on (\<lambda>w. (wl_userId w, wl_courseId w)) (set (waitlist s))"
      using assms by (simp add: waitlist_ok_def distinct_map)
    ultimately show ?thesis
      by (auto simp: distinct_map intro: inj_on_subset)
  qed
  then have "inj_on wl_userId (set (listForCourse c s)) \<and> distinct (listForCourse c s)"
    by (auto simp: distinct_map inj_on_def)
  then show ?thesis by (simp add: queue_members_def distinct_map)
qed

lemma find_waitlisted_SomeD:
  "find_waitlisted u c s = Some w \<Longrightarrow> w \<in> set (waitlist s) \<and> wl_userId w = u \<and> wl_courseId w = c"
  by (auto simp: find_waitlisted_def dest: find_SomeD)

lemma find_waitlisted_None:
  "find_waitlisted u c s = None \<longleftrightarrow> u \<notin> set (queue_members c s)"
  by (auto simp: find_waitlisted_def find_None queue_members_def image_iff)

lemma max_position_eq:
  assumes "waitlist_ok s"
  shows "max_position c s = int (length (listForCourse c s))"
proof -
  have eq: "set (map wl_position (course_rows c s)) = {1..int (length (listForCourse c s))}"
    using arg_cong[OF listForCourse_positions[OF assms, of c], of set]
    by (simp add: listForCourse_def)
  show ?thesis
  proof (cases "listForCourse c s = []")
    case True
    then have "course_rows c s = []" by (metis listForCourse_def length_order_by(1) length_0_conv)
    with True show ?thesis by (simp add: max_position_def)
  next
    case False
    then have "course_rows c s \<noteq> []" by (metis listForCourse_def length_order_by(1) length_0_conv)
    moreover have "1 \<le> int (length (listForCourse c s))"
      using False by (simp add: Suc_leI)
    moreover have "Max {1..k} = k" if "1 \<le> k" for k :: int
      using that by (intro Max_eqI) auto
    ultimately show ?thesis
      using eq by (simp add: max_position_def Let_def)
  qed
qed

subsection \<open>Appending and removing a row\<close>

lemma queue_append:
  assumes "waitlist_ok s" "wl_courseId e = c" "wl_position e = int (length (listForCourse c s)) + 1"
  shows "order_by wl_position (filter (\<lambda>w. wl_courseId w = c) (waitlist s @ [e])) = listForCourse c s @ [e]"
proof (rule order_by_unique)
  show "mset (listForCourse c s @ [e]) = mset (filter (\<lambda>w. wl_courseId w = c) (waitlist s @ [e]))"
    using assms(2) by (simp add: listForCourse_def course_rows_def order_by_def)
  have "map wl_position (listForCourse c s @ [e]) = [1..int (length (listForCourse c s)) + 1]"
    using assms(3) listForCourse_positions[OF assms(1), of c] by (simp add: upto_rec2)
  then show "distinct (map wl_position (listForCourse c s @ [e]))"
    "sorted (map wl_position (listForCourse c s @ [e]))"
    by simp_all
qed

lemma filter_course_compact:
  "filter (\<lambda>w. wl_courseId w = c) (compact_after c p (delete_rows P ws))
     = map (\<lambda>w. if p < wl_position w then w\<lparr>wl_position := wl_position w - 1\<rparr> else w)
         (filter (\<lambda>w. \<not> P w) (filter (\<lambda>w. wl_courseId w = c) ws))"
  by (induction ws) (auto simp: compact_after_def update_rows_def delete_rows_def)

lemma filter_course_compact_other:
  "d \<noteq> c \<Longrightarrow> (\<And>w. P w \<Longrightarrow> wl_courseId w = c) \<Longrightarrow>
   filter (\<lambda>w. wl_courseId w = d) (compact_after c p (delete_rows P ws))
     = filter (\<lambda>w. wl_courseId w = d) ws"
  by (induction ws) (auto simp: compact_after_def update_rows_def delete_rows_def)

lemma queue_remove:
  assumes ok: "waitlist_ok s" and split: "listForCourse c s = xs @ e # ys"
  defines "g \<equiv> \<lambda>w. if wl_position e < wl_position w then w\<lparr>wl_position := wl_position w - 1\<rparr> else w"
  shows "order_by wl_position (filter (\<lambda>w. wl_courseId w = c)
           (compact_after c (wl_position e) (delete_rows (\<lambda>w. wl_id w = wl_id e) (waitlist s))))
         = map g (xs @ ys)" (is "?Q = _")
    and "map wl_position (map g (xs @ ys)) = [1..int (length (xs @ ys))]"
proof -
  let ?n = "int (length xs)"
  have "map wl_position xs @ wl_position e # map wl_position ys = [1..?n + 1 + int (length ys)]"
    using listForCourse_positions[OF ok, of c] split by (simp add: add_ac)
  note pos = upto_split_at[OF this]
  have px: "map wl_position xs = [1..?n]" and pe: "wl_position e = ?n + 1"
    and py: "map wl_position ys = [?n + 2..?n + 1 + int (length ys)]"
    using pos by simp_all
  have gx: "map wl_position (map g xs) = [1..?n]"
  proof -
    have "w \<in> set xs \<Longrightarrow> wl_position (g w) = wl_position w" for w
    proof -
      assume "w \<in> set xs"
      then have "wl_position w \<in> set (map wl_position xs)" by simp
      then have "wl_position w \<le> ?n" unfolding px by simp
      then show ?thesis by (simp add: g_def pe)
    qed
    then have "map wl_position (map g xs) = map wl_position xs" by simp
    with px show ?thesis by simp
  qed
  have gy: "map wl_position (map g ys) = [?n + 1..?n + int (length ys)]"
  proof -
    have "w \<in> set ys \<Longrightarrow> wl_position (g w) = wl_position w - 1" for w
    proof -
      assume "w \<in> set ys"
      then have "wl_position w \<in> set (map wl_position ys)" by simp
      then have "?n + 2 \<le> wl_position w" unfolding py by simp
      then show ?thesis by (simp add: g_def pe)
    qed
    then have "map wl_position (map g ys) = map (\<lambda>x. x - 1) (map wl_position ys)" by simp
    also have "\<dots> = [?n + 1..?n + int (length ys)]"
      unfolding py by (rule nth_equalityI) (auto simp: nth_upto)
    finally show ?thesis .
  qed
  show pg: "map wl_position (map g (xs @ ys)) = [1..int (length (xs @ ys))]"
    using gx gy upto_split1[of 1 "?n + 1" "?n + int (length ys)"]
    by (cases "ys = []") (auto simp: Suc_le_eq)
  have "mset (listForCourse c s) = mset (filter (\<lambda>w. wl_courseId w = c) (waitlist s))"
    by (simp add: listForCourse_def course_rows_def order_by_def)
  then have m: "mset (filter (\<lambda>w. wl_courseId w = c) (waitlist s)) = mset (xs @ e # ys)"
    using split by simp
  have ids: "inj_on wl_id (set (waitlist s))" and dl: "distinct (listForCourse c s)"
    using ok listForCourse_positions[OF ok, of c]
    by (auto simp: waitlist_ok_def distinct_map) (metis distinct_map distinct_upto)
  have "set (xs @ e # ys) \<subseteq> set (waitlist s)" "distinct (xs @ e # ys)"
    using dl split set_listForCourse[of c s] by auto
  then have "wl_id w \<noteq> wl_id e" if "w \<in> set (xs @ ys)" for w
    using that ids inj_onD[of wl_id "set (waitlist s)" w e] by auto
  then have "filter (\<lambda>w. wl_id w \<noteq> wl_id e) (xs @ e # ys) = xs @ ys"
    by (simp add: filter_True)
  then have "filter_mset (\<lambda>w. wl_id w \<noteq> wl_id e) (mset (xs @ e # ys)) = mset (xs @ ys)"
    by (metis mset_filter)
  then have "mset (filter (\<lambda>w. wl_id w \<noteq> wl_id e) (filter (\<lambda>w. wl_courseId w = c) (waitlist s))) = mset (xs @ ys)"
    unfolding mset_filter[of "\<lambda>w. wl_id w \<noteq> wl_id e"] m .
  then have "mset (map g (xs @ ys)) = mset (filter (\<lambda>w. wl_courseId w = c)
      (compact_after c (wl_position e) (delete_rows (\<lambda>w. wl_id w = wl_id e) (waitlist s))))"
    unfolding filter_course_compact g_def[symmetric] mset_map by simp
  then show "?Q = map g (xs @ ys)"
    using pg by (intro order_by_unique) simp_all
qed

subsection \<open>The operations keep the invariant and refine a FIFO queue\<close>

text \<open>The row deleted from a course's queue, and what that does to the other courses.\<close>

lemma waitlist_remove:
  assumes ok: "waitlist_ok s" and e: "e \<in> set (waitlist s)" "wl_courseId e = c"
    and s': "waitlist s' = compact_after c (wl_position e) (delete_rows (\<lambda>w. wl_id w = wl_id e) (waitlist s))"
      "fresh s \<le> fresh s'"
  shows "waitlist_ok s'" "queue_members c s' = remove1 (wl_userId e) (queue_members c s)"
    "d \<noteq> c \<Longrightarrow> queue_members d s' = queue_members d s"
proof -
  have "e \<in> set (listForCourse c s)" using e by simp
  then obtain xs ys where split: "listForCourse c s = xs @ e # ys" by (meson split_list)
  note q = queue_remove[OF ok split]
  have only: "wl_courseId w = c" if "w \<in> set (waitlist s)" "wl_id w = wl_id e" for w
    using that ok e inj_onD[of wl_id "set (waitlist s)" w e] by (auto simp: waitlist_ok_def distinct_map)
  have other: "filter (\<lambda>w. wl_courseId w = d) (waitlist s') = filter (\<lambda>w. wl_courseId w = d) (waitlist s)"
    if "d \<noteq> c" for d
  proof -
    have "delete_rows (\<lambda>w. wl_id w = wl_id e) (waitlist s)
        = delete_rows (\<lambda>w. wl_id w = wl_id e \<and> wl_courseId w = c) (waitlist s)"
      unfolding delete_rows_def by (rule filter_cong) (auto dest: only)
    then show ?thesis
      unfolding s'(1)
      using filter_course_compact_other[OF that, of "\<lambda>w. wl_id w = wl_id e \<and> wl_courseId w = c"] by simp
  qed
  have pos: "positions_ok d (waitlist s')" for d
  proof (cases "d = c")
    case True
    show ?thesis
      unfolding positions_ok_def s'(1) True q(1) Let_def using q(2) by simp
  next
    case False
    with other[OF False] ok show ?thesis by (simp add: positions_ok_def waitlist_ok_def)
  qed
  have keys: "map wl_id (waitlist s') = map wl_id (delete_rows (\<lambda>w. wl_id w = wl_id e) (waitlist s))"
    "map (\<lambda>w. (wl_userId w, wl_courseId w)) (waitlist s')
      = map (\<lambda>w. (wl_userId w, wl_courseId w)) (delete_rows (\<lambda>w. wl_id w = wl_id e) (waitlist s))"
    unfolding s'(1) compact_after_def by (intro map_update_rows; simp)+
  have ids: "wl_id ` set (waitlist s') \<subseteq> wl_id ` set (waitlist s)"
    using arg_cong[OF keys(1), of set] by auto
  show "waitlist_ok s'"
    unfolding waitlist_ok_def keys
  proof (intro conjI allI pos)
    show "distinct (map wl_id (delete_rows (\<lambda>w. wl_id w = wl_id e) (waitlist s)))"
      "distinct (map (\<lambda>w. (wl_userId w, wl_courseId w)) (delete_rows (\<lambda>w. wl_id w = wl_id e) (waitlist s)))"
      using ok by (auto simp: waitlist_ok_def)
    show "\<forall>w \<in> set (waitlist s'). wl_id w < fresh s'"
      using ids ok s'(2) by (fastforce simp: waitlist_ok_def)
  qed
  show "queue_members d s' = queue_members d s" if "d \<noteq> c"
    using other[OF that] by (simp add: queue_members_def listForCourse_def course_rows_def)
  have "wl_userId e \<notin> set (map wl_userId xs)"
    using distinct_queue_members[OF ok, of c] split by (auto simp: queue_members_def)
  then show "queue_members c s' = remove1 (wl_userId e) (queue_members c s)"
    using q(1) split
    by (simp add: queue_members_def listForCourse_def course_rows_def s'(1) remove1_append if_distrib
        comp_def cong: if_cong)
qed

lemma leave_ok:
  assumes "waitlist_ok s"
  shows "waitlist_ok (snd (waitlist_leave u c s))"
    "queue_members c (snd (waitlist_leave u c s)) = remove1 u (queue_members c s)"
proof -
  have "waitlist_ok (snd (waitlist_leave u c s))
      \<and> queue_members c (snd (waitlist_leave u c s)) = remove1 u (queue_members c s)"
  proof (cases "find_waitlisted u c s")
    case None
    then have "u \<notin> set (queue_members c s)" by (simp add: find_waitlisted_None)
    with assms None show ?thesis by (simp add: waitlist_leave_def remove1_idem)
  next
    case (Some e)
    from find_waitlisted_SomeD[OF Some] have e: "e \<in> set (waitlist s)" "wl_courseId e = c" "wl_userId e = u"
      by auto
    let ?s' = "snd (waitlist_leave u c s)"
    have "waitlist ?s' = compact_after c (wl_position e) (delete_rows (\<lambda>w. wl_id w = wl_id e) (waitlist s))"
      "fresh s \<le> fresh ?s'"
      using Some by (simp_all add: waitlist_leave_def)
    from waitlist_remove[OF assms e(1,2) this] e(3) show ?thesis by simp
  qed
  then show "waitlist_ok (snd (waitlist_leave u c s))"
    "queue_members c (snd (waitlist_leave u c s)) = remove1 u (queue_members c s)" by auto
qed

lemma join_ok:
  assumes ok: "waitlist_ok s"
  shows "waitlist_ok (snd (waitlist_join now u c s))"
    "queue_members c (snd (waitlist_join now u c s)) =
       (if succeeds (waitlist_join now u c s) then queue_members c s @ [u] else queue_members c s)"
proof -
  let ?r = "waitlist_join now u c s"
  have "waitlist_ok (snd ?r) \<and>
    queue_members c (snd ?r) = (if succeeds ?r then queue_members c s @ [u] else queue_members c s)"
  proof (cases "succeeds ?r")
    case False
    then have "snd ?r = s"
      by (auto simp: waitlist_join_def Let_def split: option.split if_splits)
    with False ok show ?thesis by simp
  next
    case True
    define e where "e = \<lparr>wl_id = fresh s, wl_userId = u, wl_courseId = c,
      wl_position = max_position c s + 1, wl_joinedAt = now\<rparr>"
    have nw: "find_waitlisted u c s = None"
      and w: "waitlist (snd ?r) = waitlist s @ [e]" and f: "fresh (snd ?r) = Suc (fresh s)"
      using True by (auto simp: waitlist_join_def Let_def e_def split: option.splits if_splits)
    have ce: "wl_courseId e = c" and pe: "wl_position e = int (length (listForCourse c s)) + 1"
      by (simp_all add: e_def max_position_eq[OF ok])
    note q = queue_append[OF ok ce pe]
    have new: "(wl_userId w, wl_courseId w) \<noteq> (u, c)" if "w \<in> set (waitlist s)" for w
      using that nw by (auto simp: find_waitlisted_def find_None)
    have "positions_ok d (waitlist s @ [e])" for d
    proof (cases "d = c")
      case True
      have "map wl_position (listForCourse c s @ [e]) = [1..int (length (listForCourse c s)) + 1]"
        using pe listForCourse_positions[OF ok, of c] by (simp add: upto_rec2)
      then show ?thesis unfolding positions_ok_def True q by (simp add: add.commute)
    next
      case False
      with ce have "filter (\<lambda>w. wl_courseId w = d) (waitlist s @ [e]) = filter (\<lambda>w. wl_courseId w = d) (waitlist s)"
        by simp
      with ok show ?thesis by (simp add: positions_ok_def waitlist_ok_def)
    qed
    moreover have "distinct (map wl_id (waitlist s @ [e]))"
      "distinct (map (\<lambda>w. (wl_userId w, wl_courseId w)) (waitlist s @ [e]))"
      using ok new by (auto simp: waitlist_ok_def e_def)
    ultimately have "waitlist_ok (snd ?r)"
      using ok unfolding waitlist_ok_def w f by (auto simp: e_def)
    moreover have "queue_members c (snd ?r) = queue_members c s @ [u]"
      using q by (simp add: queue_members_def listForCourse_def course_rows_def w)
        (simp add: e_def)
    ultimately show ?thesis using True by simp
  qed
  then show "waitlist_ok (snd ?r)"
    "queue_members c (snd ?r) = (if succeeds ?r then queue_members c s @ [u] else queue_members c s)"
    by auto
qed

text \<open>The head of the queue is the row with position 1, and the unconditional renumbering of the
  promotion is the conditional one, because every other position is larger.\<close>

lemma head_of_queue:
  assumes "waitlist_ok s"
  shows "find (\<lambda>w. wl_courseId w = c \<and> wl_position w = 1) (waitlist s) =
    (case listForCourse c s of [] \<Rightarrow> None | e # _ \<Rightarrow> Some e)"
proof (cases "listForCourse c s")
  case Nil
  then have "\<forall>w \<in> set (waitlist s). wl_courseId w \<noteq> c"
    using set_listForCourse[of c s] by auto
  with Nil show ?thesis by (simp add: find_None)
next
  case (Cons e es)
  have "wl_position e # map wl_position es = [1..int (length es) + 1]"
    using listForCourse_positions[OF assms, of c] Cons by (simp add: add.commute)
  with upto_split_at[of "[]" "wl_position e" "map wl_position es" "int (length es) + 1"]
  have pe: "wl_position e = 1" by simp
  have mem: "e \<in> set (waitlist s)" "wl_courseId e = c"
    using Cons set_listForCourse[of c s] by auto
  have uniq: "w = e" if "w \<in> set (waitlist s)" "wl_courseId w = c" "wl_position w = 1" for w
    using course_positions_inj[OF assms, of c] that mem pe by (auto simp: inj_on_def)
  obtain w where w: "find (\<lambda>w. wl_courseId w = c \<and> wl_position w = 1) (waitlist s) = Some w"
    using mem pe find_None[of "\<lambda>w. wl_courseId w = c \<and> wl_position w = 1" "waitlist s"] by (metis not_None_eq)
  with uniq find_SomeD[OF w] Cons show ?thesis by simp
qed

lemma compact_all_eq:
  assumes "\<And>w. w \<in> set ws \<Longrightarrow> wl_courseId w = c \<Longrightarrow> p < wl_position w"
  shows "compact_all c ws = compact_after c p ws"
  using assms by (auto simp: compact_all_def compact_after_def update_rows_def)

lemma promote_waitlist:
  assumes ok: "waitlist_ok s" and hd: "listForCourse c s = e # es"
  shows "waitlist (promote_transaction now e c s)
           = compact_after c (wl_position e) (delete_rows (\<lambda>w. wl_id w = wl_id e) (waitlist s))"
proof -
  have "wl_position e # map wl_position es = [1..int (length es) + 1]"
    using listForCourse_positions[OF ok, of c] hd by (simp add: add.commute)
  with upto_split_at[of "[]" "wl_position e" "map wl_position es" "int (length es) + 1"]
  have pe: "wl_position e = 1" and pes: "map wl_position es = [2..int (length es) + 1]" by simp_all
  have "1 < wl_position w" if "w \<in> set (waitlist s)" "wl_id w \<noteq> wl_id e" "wl_courseId w = c" for w
  proof -
    have "w \<in> set (e # es)" using that hd set_listForCourse[of c s] by auto
    with that have "wl_position w \<in> set (map wl_position es)" by auto
    then show ?thesis unfolding pes by simp
  qed
  then have "compact_all c (delete_rows (\<lambda>w. wl_id w = wl_id e) (waitlist s))
      = compact_after c 1 (delete_rows (\<lambda>w. wl_id w = wl_id e) (waitlist s))"
    by (intro compact_all_eq) auto
  then show ?thesis by (simp add: promote_transaction_def Let_def pe)
qed

lemma promote_ok:
  assumes ok: "waitlist_ok s"
  shows "waitlist_ok (promoteNext now c s)"
    "queue_members c (promoteNext now c s) = queue_members c s
     \<or> queue_members c (promoteNext now c s) = tl (queue_members c s)"
    "find_enrollment u c s \<noteq> None \<Longrightarrow> find_enrollment u c (promoteNext now c s) \<noteq> None"
proof -
  let ?s' = "promoteNext now c s"
  consider "?s' = s" | e es ev1 ev2 where "listForCourse c s = e # es"
    "?s' = emit ev1 (emit ev2 (promote_transaction now e c s))"
  proof (cases "listForCourse c s")
    case Nil
    then have "?s' = s"
      using head_of_queue[OF ok, of c] by (auto simp: promoteNext_def split: option.split)
    with that(1) show ?thesis .
  next
    case (Cons e es)
    then have "?s' = s \<or> (\<exists>ev1 ev2. ?s' = emit ev1 (emit ev2 (promote_transaction now e c s)))"
      using head_of_queue[OF ok, of c] by (auto simp: promoteNext_def Let_def split: option.split)
    with that Cons show ?thesis by blast
  qed
  then have "waitlist_ok ?s' \<and> (queue_members c ?s' = queue_members c s
     \<or> queue_members c ?s' = tl (queue_members c s))
     \<and> (find_enrollment u c s \<noteq> None \<longrightarrow> find_enrollment u c ?s' \<noteq> None)"
  proof cases
    case 1
    with ok show ?thesis by simp
  next
    case 2
    have e: "e \<in> set (waitlist s)" "wl_courseId e = c"
      using 2(1) set_listForCourse[of c s] by auto
    have "waitlist ?s' = compact_after c (wl_position e) (delete_rows (\<lambda>w. wl_id w = wl_id e) (waitlist s))"
      "fresh s \<le> fresh ?s'"
      using promote_waitlist[OF ok 2(1)] 2(2)
      by (simp_all add: promote_transaction_def Let_def)
    note r = waitlist_remove[OF ok e this]
    have "remove1 (wl_userId e) (queue_members c s) = tl (queue_members c s)"
      using 2(1) by (simp add: queue_members_def)
    with r 2(2) show ?thesis
      by (auto simp: find_enrollment_None promote_transaction_def Let_def)
  qed
  then show "waitlist_ok ?s'" "queue_members c ?s' = queue_members c s
     \<or> queue_members c ?s' = tl (queue_members c s)"
    "find_enrollment u c s \<noteq> None \<Longrightarrow> find_enrollment u c ?s' \<noteq> None" by auto
qed

lemma members_other_course:
  "d \<noteq> c \<Longrightarrow> queue_members d (snd (waitlist_join now u c s)) = queue_members d s"
  "waitlist_ok s \<Longrightarrow> d \<noteq> c \<Longrightarrow> queue_members d (snd (waitlist_leave u c s)) = queue_members d s"
  "waitlist_ok s \<Longrightarrow> d \<noteq> c \<Longrightarrow> queue_members d (promoteNext now c s) = queue_members d s"
proof -
  show "d \<noteq> c \<Longrightarrow> queue_members d (snd (waitlist_join now u c s)) = queue_members d s"
    by (auto simp: waitlist_join_def Let_def queue_members_def listForCourse_def course_rows_def
        split: option.split)
  assume ok: "waitlist_ok s" and dc: "d \<noteq> c"
  show "queue_members d (snd (waitlist_leave u c s)) = queue_members d s"
  proof (cases "find_waitlisted u c s")
    case (Some e)
    from find_waitlisted_SomeD[OF Some] have e: "e \<in> set (waitlist s)" "wl_courseId e = c" by auto
    from waitlist_remove(3)[OF ok e _ _ dc, of "snd (waitlist_leave u c s)"] Some
    show ?thesis by (simp add: waitlist_leave_def)
  qed (simp add: waitlist_leave_def)
  show "queue_members d (promoteNext now c s) = queue_members d s"
  proof (cases "listForCourse c s")
    case Nil
    then have "promoteNext now c s = s"
      using head_of_queue[OF ok, of c] by (auto simp: promoteNext_def split: option.split)
    then show ?thesis by simp
  next
    case (Cons e es)
    then have e: "e \<in> set (waitlist s)" "wl_courseId e = c" using set_listForCourse[of c s] by auto
    have "promoteNext now c s = s \<or> waitlist (promoteNext now c s) = waitlist (promote_transaction now e c s)
        \<and> fresh s \<le> fresh (promoteNext now c s)"
      using head_of_queue[OF ok, of c] Cons
      by (auto simp: promoteNext_def Let_def promote_transaction_def split: option.split)
    with waitlist_remove(3)[OF ok e _ _ dc] promote_waitlist[OF ok Cons] show ?thesis by metis
  qed
qed

subsection \<open>The waitlist as a machine\<close>

datatype waitlist_request =
    Join timestamp uuid uuid
  | Leave uuid uuid
  | AdminRemove uuid uuid
  | SpotOpened timestamp uuid

fun waitlist_step :: "waitlist_request \<Rightarrow> core \<Rightarrow> http_error option \<times> core" where
  "waitlist_step (Join now u c) s =
     map_prod (case_sum Some (\<lambda>_. None)) (\<lambda>x. x) (waitlist_join now u c s)"
| "waitlist_step (Leave u c) s = map_prod (case_sum Some (\<lambda>_. None)) (\<lambda>x. x) (waitlist_leave u c s)"
| "waitlist_step (AdminRemove c u) s = map_prod (case_sum Some (\<lambda>_. None)) (\<lambda>x. x) (adminRemove c u s)"
| "waitlist_step (SpotOpened now c) s = (None, handleEnrollmentRemoved now c s)"

lemma waitlist_step_ok: "waitlist_ok s \<Longrightarrow> waitlist_ok (snd (waitlist_step r s))"
  by (cases r) (simp_all add: join_ok leave_ok promote_ok adminRemove_def handleEnrollmentRemoved_def)

lemma tl_as_remove1: "tl xs = remove1 (hd xs) xs"
  by (cases xs) auto

lemma waitlist_step_members:
  assumes "waitlist_ok s"
  shows "queue_members c (snd (waitlist_step r s)) = queue_members c s \<or>
     (\<exists>u. queue_members c (snd (waitlist_step r s)) = queue_members c s @ [u]) \<or>
     (\<exists>u. queue_members c (snd (waitlist_step r s)) = remove1 u (queue_members c s))"
proof (cases r)
  case (Join now u d)
  then show ?thesis
    using join_ok(2)[OF assms, of d now u] members_other_course(1)[of c d now u s]
    by (cases "c = d") auto
next
  case (Leave u d)
  then show ?thesis
    using leave_ok(2)[OF assms, of d u] members_other_course(2)[OF assms, of c d u]
    by (cases "c = d") auto
next
  case (AdminRemove d u)
  then show ?thesis
    using leave_ok(2)[OF assms, of d u] members_other_course(2)[OF assms, of c d u]
    by (cases "c = d") (auto simp: adminRemove_def)
next
  case (SpotOpened now d)
  then show ?thesis
    using promote_ok(2)[OF assms, of d now] members_other_course(3)[OF assms, of c d now]
    by (cases "c = d") (auto simp: handleEnrollmentRemoved_def tl_as_remove1)
qed

interpretation queue: waiting_line waitlist_step waitlist_ok "queue_members c" for c
  by unfold_locales (rule waitlist_step_ok distinct_queue_members waitlist_step_members, assumption)+

lemma promote_head:
  assumes "waitlist_ok s" "find_course c s = Some crs" "co_maxEnrollment crs = Some m"
    and "int (getEnrollmentCount c s) < m" "queue_members c s = u # us"
  shows "queue_members c (promoteNext now c s) = us
       \<and> find_enrollment u c (promoteNext now c s) \<noteq> None
       \<and> (\<forall>e \<in> set (enrollments (promoteNext now c s)). e \<in> set (enrollments s) \<or> (en_userId e = u \<and> en_courseId e = c))
       \<and> int (getEnrollmentCount c (promoteNext now c s)) \<le> m
       \<and> waitlist_ok (promoteNext now c s)"
proof -
  from assms(5) obtain e es where q: "listForCourse c s = e # es" and ue: "wl_userId e = u"
    and us: "map wl_userId es = us"
    by (cases "listForCourse c s") (auto simp: queue_members_def)
  have e: "e \<in> set (waitlist s)" "wl_courseId e = c" using q set_listForCourse[of c s] by auto
  have m0: "m \<noteq> 0" using assms(4) by linarith
  obtain ev1 ev2 where s': "promoteNext now c s = emit ev1 (emit ev2 (promote_transaction now e c s))"
    using assms(2-4) m0 head_of_queue[OF assms(1), of c] q
    by (auto simp: promoteNext_def Let_def)
  have "waitlist (promoteNext now c s) = compact_after c (wl_position e) (delete_rows (\<lambda>w. wl_id w = wl_id e) (waitlist s))"
    "fresh s \<le> fresh (promoteNext now c s)"
    using promote_waitlist[OF assms(1) q] s' by (simp_all add: promote_transaction_def Let_def)
  note r = waitlist_remove[OF assms(1) e this]
  have "queue_members c (promoteNext now c s) = us" using r(2) assms(5) ue by simp
  moreover have "find_enrollment u c (promoteNext now c s) \<noteq> None"
    unfolding s' using ue by (auto simp: find_enrollment_None promote_transaction_def Let_def)
  moreover have "\<forall>e \<in> set (enrollments (promoteNext now c s)). e \<in> set (enrollments s) \<or> (en_userId e = u \<and> en_courseId e = c)"
    unfolding s' using ue by (auto simp: promote_transaction_def Let_def)
  moreover have "int (getEnrollmentCount c (promoteNext now c s)) \<le> m"
    unfolding s' using assms(4)
    by (auto simp: promote_transaction_def Let_def getEnrollmentCount_def count_rows_def)
  ultimately show ?thesis using r(1) by blast
qed

subsection \<open>Properties\<close>

definition full_course :: "int \<Rightarrow> core" where
  "full_course m = empty_core\<lparr>
     users := [new_user 1 ''a@x'', new_user 2 ''b@x'', new_user 3 ''c@x''],
     courses := [(new_course 10 ''Soroban'')\<lparr>co_status := PUBLISHED, co_maxEnrollment := Some m\<rparr>],
     enrollments := [\<lparr>en_id = 0, en_userId = 1, en_courseId = 10, en_enrolledAt = 0,
       en_completedAt = None, en_enrolledVersionNumber = None, en_transactionHash = None\<rparr>],
     fresh := 1\<rparr>"

definition two_waiting :: "int \<Rightarrow> core" where
  "two_waiting m = (full_course m)\<lparr>waitlist :=
     [\<lparr>wl_id = 1, wl_userId = 2, wl_courseId = 10, wl_position = 1, wl_joinedAt = 5\<rparr>,
      \<lparr>wl_id = 2, wl_userId = 3, wl_courseId = 10, wl_position = 2, wl_joinedAt = 6\<rparr>], fresh := 3\<rparr>"

lemma full_course_ok: "waitlist_ok (full_course m)"
  by (simp add: waitlist_ok_def positions_ok_def full_course_def empty_core_def order_by_def)

lemma two_waiting_ok: "waitlist_ok (two_waiting m)"
proof -
  have "[1..2] = [1, 2::int]" by (simp add: upto.simps)
  then show ?thesis
    by (simp add: waitlist_ok_def positions_ok_def two_waiting_def order_by_def)
qed

lemma two_waiting_members: "queue_members 10 (two_waiting m) = [2, 3]"
  by (simp add: queue_members_def listForCourse_def course_rows_def two_waiting_def order_by_def)

text \<open>C1: In every reachable state each course's waitlist positions are exactly 1 to n, without a
  gap or a duplicate, under any history of joins, departures, admin removals and promotions,
  failed requests included.\<close>

theorem waitlist_positions_contiguous:
  assumes "waitlist_ok s"
  shows "map wl_position (listForCourse c (run_ops waitlist_step rs s))
           = [1..int (getWaitlistCount c (run_ops waitlist_step rs s))]"
proof -
  have "length (listForCourse c t) = getWaitlistCount c t" for t
    by (simp add: listForCourse_def course_rows_def getWaitlistCount_def count_rows_def)
  then show ?thesis
    using listForCourse_positions[OF queue.run_preserves[OF assms], of c rs] by simp
qed

theorem waitlist_positions_contiguous_witness:
  "map wl_position (listForCourse 10 (run_ops waitlist_step [Join 7 1 10, Leave 2 10] (two_waiting 1)))
     = [1..int (getWaitlistCount 10 (run_ops waitlist_step [Join 7 1 10, Leave 2 10] (two_waiting 1)))]"
  by (rule waitlist_positions_contiguous[OF two_waiting_ok])

text \<open>C14: Joining a waitlist appends the user at the end of the course's queue when the request
  succeeds and leaves the queue alone when it throws; leaving takes exactly that user out and
  keeps the others in order; other courses' queues are not touched.\<close>

theorem waitlist_refines_queue:
  assumes "waitlist_ok s"
  shows "(queue_members c (snd (waitlist_join now u c s)) =
            (if succeeds (waitlist_join now u c s) then queue_members c s @ [u] else queue_members c s))
       \<and> queue_members c (snd (waitlist_leave u c s)) = remove1 u (queue_members c s)
       \<and> (\<forall>d. d \<noteq> c \<longrightarrow> queue_members d (snd (waitlist_join now u c s)) = queue_members d s
                     \<and> queue_members d (snd (waitlist_leave u c s)) = queue_members d s)"
  using join_ok(2)[OF assms] leave_ok(2)[OF assms] members_other_course(1,2) assms by simp

theorem waitlist_refines_queue_witness:
  "queue_members 10 (snd (waitlist_leave 2 10 (two_waiting 1))) = [3]"
  using waitlist_refines_queue[OF two_waiting_ok, of 10 0 2 1] by (simp add: two_waiting_members)

text \<open>C35: When a place is free and somebody waits, the promotion enrolls the first of the queue,
  and only that user; the rest move up in order, the course does not exceed its limit, and the
  invariant is kept.\<close>

theorem promotion_takes_head:
  assumes "waitlist_ok s" "find_course c s = Some crs" "co_maxEnrollment crs = Some m"
    and "int (getEnrollmentCount c s) < m" "queue_members c s = u # us"
  shows "queue_members c (promoteNext now c s) = us
       \<and> find_enrollment u c (promoteNext now c s) \<noteq> None
       \<and> (\<forall>e \<in> set (enrollments (promoteNext now c s)). e \<in> set (enrollments s) \<or> (en_userId e = u \<and> en_courseId e = c))
       \<and> int (getEnrollmentCount c (promoteNext now c s)) \<le> m
       \<and> waitlist_ok (promoteNext now c s)"
  by (rule promote_head[OF assms])

theorem promotion_takes_head_witness:
  "queue_members 10 (promoteNext 9 10 (two_waiting 2)) = [3]
   \<and> find_enrollment 2 10 (promoteNext 9 10 (two_waiting 2)) \<noteq> None"
proof -
  have "find_course 10 (two_waiting 2)
      = Some ((new_course 10 ''Soroban'')\<lparr>co_status := PUBLISHED, co_maxEnrollment := Some 2\<rparr>)"
    by (simp add: find_course_def two_waiting_def full_course_def new_course_def)
  moreover have "int (getEnrollmentCount 10 (two_waiting 2)) < 2"
    by (simp add: getEnrollmentCount_def count_rows_def two_waiting_def full_course_def)
  ultimately show ?thesis
    using promotion_takes_head[where s = "two_waiting 2" and c = 10 and m = 2 and u = 2 and us = "[3]"
        and now = 9, OF two_waiting_ok] two_waiting_members[of 2]
    by simp
qed

text \<open>Nobody overtakes: of two users who both stay on a course's waitlist through a history of
  requests, the one in front stays in front.\<close>

theorem waitlist_no_overtaking:
  assumes "waitlist_ok s" "before a b (queue_members c s)"
    and "always waitlist_step (\<lambda>s. a \<in> set (queue_members c s) \<and> b \<in> set (queue_members c s)) rs s"
  shows "before a b (queue_members c (run_ops waitlist_step rs s))"
  using assms by (rule queue.no_overtaking)

theorem waitlist_no_overtaking_witness:
  "before 2 3 (queue_members 10 (run_ops waitlist_step [Leave 1 10] (two_waiting 1)))"
proof (rule waitlist_no_overtaking[OF two_waiting_ok])
  show "before 2 3 (queue_members 10 (two_waiting 1))" by (simp add: two_waiting_members)
  have "queue_members 10 (snd (waitlist_leave 1 10 (two_waiting 1))) = [2, 3]"
    using leave_ok(2)[OF two_waiting_ok, of 10 1 1] by (simp add: two_waiting_members)
  then show "always waitlist_step (\<lambda>s. 2 \<in> set (queue_members 10 s) \<and> 3 \<in> set (queue_members 10 s))
      [Leave 1 10] (two_waiting 1)"
    by (simp add: two_waiting_members)
qed

end
