(* ===== verification/Prerequisites.thy ===== *)
theory Prerequisites
  imports Entities
begin

text \<open>
  Course prerequisites (\<open>courses/prerequisites.service.ts\<close>): editing the relation, the
  breadth-first chain, the gate that enrollment passes, and the status report. The chain loop
  stops on every table, cyclic ones included, and returns exactly the courses reachable through
  the relation. Enrollment uses the service through the locale \<open>enrollment_gate\<close>.
\<close>

subsection \<open>Editing the relation\<close>

definition addPrerequisite :: "uuid \<Rightarrow> uuid \<Rightarrow> core \<Rightarrow> (core, course_prerequisite) outcome" where
  "addPrerequisite courseId prerequisiteId s =
     (if courseId = prerequisiteId
      then (Inl (BadRequestException ''A course cannot be its own prerequisite''), s)
      else if find_live_course courseId s = None
      then (Inl (NotFoundException ''Course not found''), s)
      else if find_live_course prerequisiteId s = None
      then (Inl (NotFoundException ''Prerequisite course not found''), s)
      else if \<exists>p \<in> set (prerequisites s). pr_courseId p = courseId \<and> pr_prerequisiteId p = prerequisiteId
      then (Inl UniqueViolation, s)
      else (let p = \<lparr>pr_id = fresh s, pr_courseId = courseId, pr_prerequisiteId = prerequisiteId\<rparr>
            in (Inr p, s\<lparr>prerequisites := prerequisites s @ [p], fresh := Suc (fresh s)\<rparr>)))"

definition removePrerequisite :: "uuid \<Rightarrow> uuid \<Rightarrow> core \<Rightarrow> (core, unit) outcome" where
  "removePrerequisite courseId prerequisiteId s =
     (case find (\<lambda>p. pr_courseId p = courseId \<and> pr_prerequisiteId p = prerequisiteId) (prerequisites s) of
        None \<Rightarrow> (Inl (NotFoundException ''Prerequisite relationship not found''), s)
      | Some p \<Rightarrow> (Inr (), s\<lparr>prerequisites := delete_rows (\<lambda>q. pr_id q = pr_id p) (prerequisites s)\<rparr>))"

definition getPrerequisites :: "uuid \<Rightarrow> core \<Rightarrow> course_prerequisite list" where
  "getPrerequisites courseId s = filter (\<lambda>p. pr_courseId p = courseId) (prerequisites s)"

subsection \<open>The prerequisite chain\<close>

definition direct_prerequisites :: "course_prerequisite list \<Rightarrow> uuid \<Rightarrow> uuid list" where
  "direct_prerequisites ps c = map pr_prerequisiteId (filter (\<lambda>p. pr_courseId p = c) ps)"

lemma direct_subset: "set (direct_prerequisites ps c) \<subseteq> pr_prerequisiteId ` set ps"
  by (auto simp: direct_prerequisites_def)

text \<open>The loop over \<open>queue\<close>; \<open>visited\<close> is the set of expanded courses and \<open>chain\<close> the record built
  so far. What shrinks is the set of courses still to be expanded, then the queue.\<close>

function chain_loop ::
  "course_prerequisite list \<Rightarrow> uuid list \<Rightarrow> uuid list \<Rightarrow> (uuid \<rightharpoonup> uuid list) \<Rightarrow> (uuid \<rightharpoonup> uuid list)" where
  "chain_loop ps [] visited chain = chain"
| "chain_loop ps (current # queue) visited chain =
     (if current \<in> set visited then chain_loop ps queue visited chain
      else (let visited' = current # visited;
                ds = direct_prerequisites ps current
            in chain_loop ps (queue @ filter (\<lambda>d. d \<notin> set visited') ds) visited' (chain(current \<mapsto> ds))))"
  by pat_completeness auto
termination
proof (relation "measures [\<lambda>(ps, queue, visited, chain). card ((set queue \<union> pr_prerequisiteId ` set ps) - set visited),
    \<lambda>(ps, queue, visited, chain). length queue]", goal_cases)
  case (2 ps current queue visited chain)
  have "(set queue \<union> pr_prerequisiteId ` set ps) - set visited
      \<subseteq> (set (current # queue) \<union> pr_prerequisiteId ` set ps) - set visited" by auto
  then have "card ((set queue \<union> pr_prerequisiteId ` set ps) - set visited)
      \<le> card ((set (current # queue) \<union> pr_prerequisiteId ` set ps) - set visited)"
    by (intro card_mono) auto
  then show ?case by auto
next
  case (3 ps current queue visited chain visited' ds)
  have "(set (queue @ filter (\<lambda>d. d \<notin> set visited') ds) \<union> pr_prerequisiteId ` set ps) - set visited'
      \<subset> (set (current # queue) \<union> pr_prerequisiteId ` set ps) - set visited"
    using 3 direct_subset[of ps current] by auto
  then have "card ((set (queue @ filter (\<lambda>d. d \<notin> set visited') ds) \<union> pr_prerequisiteId ` set ps) - set visited')
      < card ((set (current # queue) \<union> pr_prerequisiteId ` set ps) - set visited)"
    by (intro psubset_card_mono) auto
  then show ?case by simp
qed simp

definition getPrerequisiteChain :: "uuid \<Rightarrow> core \<Rightarrow> (uuid \<rightharpoonup> uuid list)" where
  "getPrerequisiteChain courseId s = chain_loop (prerequisites s) [courseId] [] Map.empty"

subsection \<open>The gate\<close>

definition completed_courses :: "uuid \<Rightarrow> core \<Rightarrow> uuid set" where
  "completed_courses userId s =
     set (map en_courseId (filter (\<lambda>e. en_completedAt e \<noteq> None)
        (filter (\<lambda>e. en_userId e = userId) (enrollments s))))"

definition validatePrerequisites :: "uuid \<Rightarrow> uuid \<Rightarrow> bool \<Rightarrow> core \<Rightarrow> bool \<times> uuid list" where
  "validatePrerequisites userId courseId adminOverride s =
     (if adminOverride then (True, [])
      else (let prereqs = getPrerequisites courseId s
            in if prereqs = [] then (True, [])
               else (let missing = map pr_prerequisiteId
                           (filter (\<lambda>p. pr_prerequisiteId p \<notin> completed_courses userId s) prereqs)
                     in (length missing = 0, missing))))"

fun join_ids :: "uuid list \<Rightarrow> string" where
  "join_ids [] = []"
| "join_ids [i] = string_of_nat i"
| "join_ids (i # j # is) = string_of_nat i @ '', '' @ join_ids (j # is)"

definition enforcePrerequisites :: "uuid \<Rightarrow> uuid \<Rightarrow> bool \<Rightarrow> core \<Rightarrow> http_error + unit" where
  "enforcePrerequisites userId courseId adminOverride s =
     (case validatePrerequisites userId courseId adminOverride s of
        (satisfied, missing) \<Rightarrow>
          if \<not> satisfied
          then Inl (ForbiddenException (''Prerequisites not completed. Missing course IDs: '' @ join_ids missing))
          else Inr ())"

subsection \<open>The status report\<close>

record prerequisite_status =
  ps_courseId :: uuid
  ps_title :: string
  ps_completed :: bool
  ps_enrolled :: bool

text \<open>\<open>new Map(entries)\<close> keeps the last entry of a key.\<close>

definition enrollment_of :: "uuid \<Rightarrow> uuid \<Rightarrow> core \<Rightarrow> enrollment option" where
  "enrollment_of userId courseId s =
     find (\<lambda>e. en_courseId e = courseId) (rev (filter (\<lambda>e. en_userId e = userId) (enrollments s)))"

fun status_rows :: "uuid \<Rightarrow> core \<Rightarrow> course_prerequisite list \<Rightarrow> http_error + prerequisite_status list" where
  "status_rows userId s [] = Inr []"
| "status_rows userId s (p # ps) =
     (case find_course (pr_prerequisiteId p) s of
        None \<Rightarrow> Inl JsTypeError
      | Some crs \<Rightarrow>
          (case status_rows userId s ps of
             Inl e \<Rightarrow> Inl e
           | Inr rows \<Rightarrow>
               (let enr = enrollment_of userId (pr_prerequisiteId p) s
                in Inr (\<lparr>ps_courseId = pr_prerequisiteId p, ps_title = co_title crs,
                         ps_completed = (case enr of None \<Rightarrow> False | Some e \<Rightarrow> en_completedAt e \<noteq> None),
                         ps_enrolled = (enr \<noteq> None)\<rparr> # rows))))"

definition getPrerequisiteStatus :: "uuid \<Rightarrow> uuid \<Rightarrow> core \<Rightarrow> http_error + (bool \<times> prerequisite_status list)" where
  "getPrerequisiteStatus courseId userId s =
     (case status_rows userId s (getPrerequisites courseId s) of
        Inl e \<Rightarrow> Inl e
      | Inr rows \<Rightarrow> Inr (list_all ps_completed rows, rows))"

subsection \<open>Reachability\<close>

definition prereq_rel :: "course_prerequisite list \<Rightarrow> (uuid \<times> uuid) set" where
  "prereq_rel ps = {(pr_courseId p, pr_prerequisiteId p) | p. p \<in> set ps}"

lemma direct_rel: "d \<in> set (direct_prerequisites ps c) \<longleftrightarrow> (c, d) \<in> prereq_rel ps"
  by (auto simp: direct_prerequisites_def prereq_rel_def)

declare chain_loop.simps [simp del]

text \<open>The loop invariant: the record holds the direct prerequisites of exactly the expanded
  courses, and whatever they point at is expanded or queued.\<close>

lemma chain_loop_inv:
  assumes "dom chain = set visited" "\<forall>c \<in> set visited. chain c = Some (direct_prerequisites ps c)"
    and "\<forall>c \<in> set visited. set (direct_prerequisites ps c) \<subseteq> set visited \<union> set queue"
    and "set visited \<union> set queue \<subseteq> R" "\<And>c. c \<in> R \<Longrightarrow> set (direct_prerequisites ps c) \<subseteq> R"
  shows "let m = chain_loop ps queue visited chain in
     set visited \<union> set queue \<subseteq> dom m \<and> dom m \<subseteq> R \<and>
     (\<forall>c \<in> dom m. m c = Some (direct_prerequisites ps c) \<and> set (direct_prerequisites ps c) \<subseteq> dom m)"
  using assms
proof (induction ps queue visited chain rule: chain_loop.induct)
  case (1 ps visited chain)
  then show ?case by (auto simp: Let_def chain_loop.simps)
next
  case (2 ps current queue visited chain)
  show ?case
  proof (cases "current \<in> set visited")
    case True
    have "\<forall>c \<in> set visited. set (direct_prerequisites ps c) \<subseteq> set visited \<union> set queue"
      using "2.prems"(3) True by auto
    moreover have "set visited \<union> set (current # queue) = set visited \<union> set queue"
      using True by auto
    moreover have "chain_loop ps (current # queue) visited chain = chain_loop ps queue visited chain"
      using True by (simp add: chain_loop.simps(2))
    ultimately show ?thesis
      using "2.IH"(1)[OF True "2.prems"(1,2)] "2.prems"(4,5) by simp
  next
    case False
    let ?v = "current # visited" and ?ds = "direct_prerequisites ps current"
    let ?q = "queue @ filter (\<lambda>d. d \<notin> set ?v) ?ds"
    have a: "dom (chain(current \<mapsto> ?ds)) = set ?v" using "2.prems"(1) by auto
    have b: "\<forall>c \<in> set ?v. (chain(current \<mapsto> ?ds)) c = Some (direct_prerequisites ps c)"
      using "2.prems"(2) by auto
    have c: "\<forall>c \<in> set ?v. set (direct_prerequisites ps c) \<subseteq> set ?v \<union> set ?q"
      using "2.prems"(3) by auto
    have d: "set ?v \<union> set ?q \<subseteq> R" using "2.prems"(4,5) by auto
    have sub: "set visited \<union> set (current # queue) \<subseteq> set ?v \<union> set ?q" by auto
    have eq: "chain_loop ps (current # queue) visited chain = chain_loop ps ?q ?v (chain(current \<mapsto> ?ds))"
      using False by (simp add: chain_loop.simps(2) Let_def)
    note IH = "2.IH"(2)[OF False refl refl a b c d "2.prems"(5), unfolded Let_def]
    show ?thesis
      unfolding Let_def eq by (intro conjI order_trans[OF sub conjunct1[OF IH]] conjunct2[OF IH]
          conjunct1[OF conjunct2[OF IH]] conjunct2[OF conjunct2[OF IH]])
  qed
qed

lemma chain_reachable:
  "dom (chain_loop ps [c] [] Map.empty) = {d. (c, d) \<in> (prereq_rel ps)\<^sup>*}"
  "(c, d) \<in> (prereq_rel ps)\<^sup>* \<Longrightarrow> chain_loop ps [c] [] Map.empty d = Some (direct_prerequisites ps d)"
proof -
  let ?R = "{d. (c, d) \<in> (prereq_rel ps)\<^sup>*}" and ?m = "chain_loop ps [c] [] Map.empty"
  have closed: "set (direct_prerequisites ps x) \<subseteq> ?R" if "x \<in> ?R" for x
    using that by (auto simp: direct_rel intro: rtrancl_into_rtrancl)
  have inv: "c \<in> dom ?m" "dom ?m \<subseteq> ?R"
    "\<And>x. x \<in> dom ?m \<Longrightarrow> ?m x = Some (direct_prerequisites ps x)"
    "\<And>x. x \<in> dom ?m \<Longrightarrow> set (direct_prerequisites ps x) \<subseteq> dom ?m"
    using chain_loop_inv[of Map.empty "[]" ps "[c]" ?R] closed unfolding Let_def by auto
  have "x \<in> dom ?m" if "(c, x) \<in> (prereq_rel ps)\<^sup>*" for x
    using that
  proof (induction rule: rtrancl_induct)
    case (step y z)
    with inv(4)[of y] show ?case by (auto simp: direct_rel)
  qed (rule inv(1))
  with inv show "dom ?m = ?R" "(c, d) \<in> (prereq_rel ps)\<^sup>* \<Longrightarrow> ?m d = Some (direct_prerequisites ps d)"
    by auto
qed

subsection \<open>The gate as an interface\<close>

definition prerequisites_met :: "uuid \<Rightarrow> uuid \<Rightarrow> core \<Rightarrow> bool" where
  "prerequisites_met userId courseId s \<longleftrightarrow>
     (\<forall>p \<in> set (prerequisites s). pr_courseId p = courseId \<longrightarrow>
        pr_prerequisiteId p \<in> completed_courses userId s)"

lemma validate_iff:
  "fst (validatePrerequisites u c override s) \<longleftrightarrow> override \<or> prerequisites_met u c s"
  by (auto simp: validatePrerequisites_def getPrerequisites_def prerequisites_met_def Let_def
      filter_empty_conv)

lemma enforce_iff: "enforcePrerequisites u c override s = Inr () \<longleftrightarrow> override \<or> prerequisites_met u c s"
  using validate_iff[of u c override s]
  by (auto simp: enforcePrerequisites_def split: prod.splits if_splits)

lemma enforce_error: "enforcePrerequisites u c override s = Inl e \<Longrightarrow> \<exists>msg. e = ForbiddenException msg"
  by (auto simp: enforcePrerequisites_def split: prod.splits if_splits)

locale enrollment_gate =
  fixes enforce :: "uuid \<Rightarrow> uuid \<Rightarrow> bool \<Rightarrow> 's \<Rightarrow> http_error + unit"
    and met :: "uuid \<Rightarrow> uuid \<Rightarrow> 's \<Rightarrow> bool"
  assumes passes_iff: "enforce u c override s = Inr () \<longleftrightarrow> override \<or> met u c s"
    and refuses_forbidden: "enforce u c override s = Inl e \<Longrightarrow> \<exists>msg. e = ForbiddenException msg"
begin

lemma no_override: "enforce u c False s = Inr () \<longleftrightarrow> met u c s"
  by (simp add: passes_iff)

lemma override_passes: "enforce u c True s = Inr ()"
  by (simp add: passes_iff)

lemma never_conflict: "enforce u c override s \<noteq> Inl (ConflictException msg)"
  using refuses_forbidden by blast

end

interpretation gate: enrollment_gate enforcePrerequisites prerequisites_met
  by unfold_locales (rule enforce_iff, erule enforce_error)

subsection \<open>Properties\<close>

text \<open>The prerequisite chain of a course terminates on every table, cyclic ones included, and
  maps exactly the courses reachable through the prerequisite relation to their direct
  prerequisites.\<close>

theorem prerequisite_chain_reachable:
  "getPrerequisiteChain c s =
     (\<lambda>d. if (c, d) \<in> (prereq_rel (prerequisites s))\<^sup>*
          then Some (direct_prerequisites (prerequisites s) d) else None)"
proof
  fix d
  show "getPrerequisiteChain c s d =
      (if (c, d) \<in> (prereq_rel (prerequisites s))\<^sup>*
       then Some (direct_prerequisites (prerequisites s) d) else None)"
    using chain_reachable(1)[of "prerequisites s" c] chain_reachable(2)[of c d "prerequisites s"]
    by (auto simp: getPrerequisiteChain_def dom_def)
qed

lemma enrollment_of_completed:
  assumes "distinct (map (\<lambda>e. (en_userId e, en_courseId e)) (enrollments s))"
  shows "(case enrollment_of u c s of None \<Rightarrow> False | Some e \<Rightarrow> en_completedAt e \<noteq> None)
           \<longleftrightarrow> c \<in> completed_courses u s"
proof (cases "enrollment_of u c s")
  case None
  then have "\<forall>e \<in> set (enrollments s). en_userId e = u \<longrightarrow> en_courseId e \<noteq> c"
    by (auto simp: enrollment_of_def find_None)
  with None show ?thesis by (auto simp: completed_courses_def)
next
  case (Some e)
  then have e: "e \<in> set (enrollments s)" "en_userId e = u" "en_courseId e = c"
    by (auto simp: enrollment_of_def dest!: find_SomeD)
  have uniq: "x = e" if "x \<in> set (enrollments s)" "en_userId x = u" "en_courseId x = c" for x
    using assms that e inj_onD[of "\<lambda>e. (en_userId e, en_courseId e)" "set (enrollments s)" x e]
    by (simp add: distinct_map)
  have "c \<in> completed_courses u s \<longleftrightarrow> en_completedAt e \<noteq> None"
  proof
    assume "c \<in> completed_courses u s"
    then obtain x where "x \<in> set (enrollments s)" "en_userId x = u" "en_courseId x = c"
      "en_completedAt x \<noteq> None" by (auto simp: completed_courses_def)
    with uniq[of x] show "en_completedAt e \<noteq> None" by blast
  next
    assume "en_completedAt e \<noteq> None"
    with e have "e \<in> set (filter (\<lambda>e. en_completedAt e \<noteq> None)
        (filter (\<lambda>e. en_userId e = u) (enrollments s)))" by simp
    with e(3) show "c \<in> completed_courses u s"
      unfolding completed_courses_def set_map by blast
  qed
  with Some show ?thesis by simp
qed

lemma status_rows_completed:
  assumes "distinct (map (\<lambda>e. (en_userId e, en_courseId e)) (enrollments s))"
    and "status_rows u s ps = Inr rows"
  shows "list_all ps_completed rows \<longleftrightarrow> (\<forall>p \<in> set ps. pr_prerequisiteId p \<in> completed_courses u s)"
  using assms(2)
proof (induction ps arbitrary: rows)
  case (Cons p ps)
  obtain crs where crs: "find_course (pr_prerequisiteId p) s = Some crs"
    using Cons.prems by (cases "find_course (pr_prerequisiteId p) s") simp_all
  obtain rows' where rows': "status_rows u s ps = Inr rows'"
    using Cons.prems crs by (cases "status_rows u s ps") simp_all
  have "rows = \<lparr>ps_courseId = pr_prerequisiteId p, ps_title = co_title crs,
       ps_completed = (case enrollment_of u (pr_prerequisiteId p) s of None \<Rightarrow> False | Some e \<Rightarrow> en_completedAt e \<noteq> None),
       ps_enrolled = (enrollment_of u (pr_prerequisiteId p) s \<noteq> None)\<rparr> # rows'"
    using Cons.prems crs rows' by (simp add: Let_def)
  then show ?case
    using Cons.IH[OF rows'] enrollment_of_completed[OF assms(1), of u "pr_prerequisiteId p"]
    by (simp only: list.pred_inject prerequisite_status.select_convs list.set ball_simps)
qed auto

text \<open>The status page and the enrollment gate agree: on a table with at most one enrollment per
  user and course, the report says all prerequisites are satisfied exactly when enrollment without
  override passes the gate.\<close>

theorem status_agrees_with_gate:
  assumes "distinct (map (\<lambda>e. (en_userId e, en_courseId e)) (enrollments s))"
    and "getPrerequisiteStatus c u s = Inr (ok, rows)"
  shows "ok \<longleftrightarrow> enforcePrerequisites u c False s = Inr ()"
proof -
  have "status_rows u s (getPrerequisites c s) = Inr rows" "ok = list_all ps_completed rows"
    using assms(2) by (auto simp: getPrerequisiteStatus_def split: sum.splits)
  with status_rows_completed[OF assms(1), of u "getPrerequisites c s" rows]
  show ?thesis by (auto simp: gate.no_override prerequisites_met_def getPrerequisites_def)
qed

definition chained :: core where
  "chained = empty_core\<lparr>courses := [new_course 1 ''A'', new_course 2 ''B''],
     prerequisites := [\<lparr>pr_id = 3, pr_courseId = 1, pr_prerequisiteId = 2\<rparr>], fresh := 4\<rparr>"

theorem status_agrees_with_gate_witness:
  "enforcePrerequisites 9 1 False chained \<noteq> Inr ()"
proof -
  have "getPrerequisiteStatus 1 9 chained =
      Inr (False, [\<lparr>ps_courseId = 2, ps_title = ''B'', ps_completed = False, ps_enrolled = False\<rparr>])"
    by (simp add: getPrerequisiteStatus_def getPrerequisites_def chained_def empty_core_def
        find_course_def new_course_def enrollment_of_def)
  from status_agrees_with_gate[OF _ this] show ?thesis
    by (simp add: chained_def empty_core_def)
qed

end
