(* ===== verification/Versioning.thy ===== *)
theory Versioning
  imports Entities
begin

text \<open>
  Course versions (\<open>courses/course-versioning.service.ts\<close>): snapshots, their numbering, the diff
  of two snapshots and the rollback of a course. Within a course the numbers are 1 to n in table
  order, so the first row of the descending list is the newest version.
\<close>

subsection \<open>Snapshots\<close>

text \<open>The course as the JSON column stores it; \<open>modules\<close> is the loaded relation.\<close>

definition json_option :: "('a \<Rightarrow> json) \<Rightarrow> 'a option \<Rightarrow> json" where
  "json_option f v = (case v of None \<Rightarrow> JNull | Some x \<Rightarrow> f x)"

definition json_status :: "course_status \<Rightarrow> json" where
  "json_status st = JStr (case st of DRAFT \<Rightarrow> ''draft'' | SCHEDULED \<Rightarrow> ''scheduled'' | PUBLISHED \<Rightarrow> ''published'')"

definition course_snapshot :: "json \<Rightarrow> course \<Rightarrow> (string \<times> json) list" where
  "course_snapshot modules c =
     [(''id'', JStr (string_of_nat (co_id c))), (''title'', JStr (co_title c)),
      (''description'', JStr (co_description c)), (''level'', JStr (co_level c)),
      (''language'', JStr (co_language c)), (''durationHours'', JNum (of_int (co_durationHours c))),
      (''status'', json_status (co_status c)), (''isPublished'', JBool (co_isPublished c)),
      (''isDeleted'', JBool (co_isDeleted c)), (''requiresKyc'', JBool (co_requiresKyc c)),
      (''instructorId'', json_option (\<lambda>i. JStr (string_of_nat i)) (co_instructorId c)),
      (''priceUsd'', json_option JNum (co_priceUsd c)),
      (''skills'', json_option (\<lambda>xs. JArr (map JStr xs)) (co_skills c)),
      (''maxEnrollment'', json_option (\<lambda>m. JNum (of_int m)) (co_maxEnrollment c)),
      (''modules'', modules)]"

subsection \<open>Operations\<close>

definition version_rows :: "uuid \<Rightarrow> core \<Rightarrow> course_version list" where
  "version_rows courseId s = filter (\<lambda>v. cv_courseId v = courseId) (versions s)"

definition createVersion ::
  "uuid \<Rightarrow> string \<Rightarrow> uuid option \<Rightarrow> json \<Rightarrow> core \<Rightarrow> (core, course_version) outcome" where
  "createVersion courseId changeNote createdById modules s =
     (case find_live_course courseId s of
        None \<Rightarrow> (Inl (NotFoundException ''Course not found''), s)
      | Some course \<Rightarrow>
          (let versionNumber = count_rows (\<lambda>v. cv_courseId v = courseId) (versions s) + 1;
               v = \<lparr>cv_id = fresh s, cv_courseId = courseId,
                    cv_versionTag = ''v'' @ string_of_nat versionNumber @ ''.0'',
                    cv_versionNumber = versionNumber, cv_snapshot = course_snapshot modules course,
                    cv_changeNote = changeNote, cv_createdById = createdById\<rparr>
           in (Inr v, s\<lparr>versions := versions s @ [v], fresh := Suc (fresh s)\<rparr>)))"

definition listVersions :: "uuid \<Rightarrow> core \<Rightarrow> course_version list" where
  "listVersions courseId s = order_by_desc (\<lambda>v. int (cv_versionNumber v)) (version_rows courseId s)"

definition getVersion :: "uuid \<Rightarrow> uuid \<Rightarrow> core \<Rightarrow> http_error + course_version" where
  "getVersion courseId versionId s =
     (case find (\<lambda>v. cv_id v = versionId \<and> cv_courseId v = courseId) (versions s) of
        None \<Rightarrow> Inl (NotFoundException ''Version not found'') | Some v \<Rightarrow> Inr v)"

text \<open>Two stored values stringify alike exactly when they are equal; an absent key reads as
  \<open>undefined\<close>, which differs from every stored value.\<close>

definition diff_keys :: "(string \<times> json) list \<Rightarrow> (string \<times> json) list \<Rightarrow> string list" where
  "diff_keys from to = remdups (map fst from) @ filter (\<lambda>k. k \<notin> set (map fst from)) (remdups (map fst to))"

definition computeDiff ::
  "(string \<times> json) list \<Rightarrow> (string \<times> json) list \<Rightarrow> (string \<times> (json option \<times> json option)) list" where
  "computeDiff from to =
     map (\<lambda>k. (k, (map_of from k, map_of to k)))
       (filter (\<lambda>k. map_of from k \<noteq> map_of to k) (diff_keys from to))"

definition diffVersions ::
  "uuid \<Rightarrow> uuid \<Rightarrow> uuid \<Rightarrow> core
   \<Rightarrow> http_error + ((string \<times> string) \<times> (string \<times> (json option \<times> json option)) list)" where
  "diffVersions courseId fromId toId s =
     (case getVersion courseId fromId s of
        Inl e \<Rightarrow> Inl e
      | Inr f \<Rightarrow>
          (case getVersion courseId toId s of
             Inl e \<Rightarrow> Inl e
           | Inr t \<Rightarrow> Inr ((cv_versionTag f, cv_versionTag t), computeDiff (cv_snapshot f) (cv_snapshot t))))"

text \<open>The update sets the five named fields; a key the snapshot lacks is \<open>undefined\<close> and skipped.\<close>

definition rollback_fields :: "(string \<times> json) list \<Rightarrow> course \<Rightarrow> course" where
  "rollback_fields snap c =
     c\<lparr>co_title := (case map_of snap ''title'' of Some (JStr v) \<Rightarrow> v | _ \<Rightarrow> co_title c),
       co_description := (case map_of snap ''description'' of Some (JStr v) \<Rightarrow> v | _ \<Rightarrow> co_description c),
       co_level := (case map_of snap ''level'' of Some (JStr v) \<Rightarrow> v | _ \<Rightarrow> co_level c),
       co_durationHours := (case map_of snap ''durationHours'' of Some (JNum v) \<Rightarrow> \<lfloor>v\<rfloor> | _ \<Rightarrow> co_durationHours c),
       co_isPublished := (case map_of snap ''isPublished'' of Some (JBool v) \<Rightarrow> v | _ \<Rightarrow> co_isPublished c)\<rparr>"

definition rollback :: "uuid \<Rightarrow> uuid \<Rightarrow> core \<Rightarrow> (core, course) outcome" where
  "rollback courseId versionId s =
     (case getVersion courseId versionId s of
        Inl e \<Rightarrow> (Inl e, s)
      | Inr v \<Rightarrow>
          (let s' = s\<lparr>courses := update_rows (\<lambda>c. co_id c = courseId) (rollback_fields (cv_snapshot v)) (courses s)\<rparr>
           in case find_course courseId s' of
                None \<Rightarrow> (Inl (NotFoundException ''Course not found after rollback''), s')
              | Some c \<Rightarrow> (Inr c, s')))"

subsection \<open>Numbering\<close>

definition versions_ok :: "core \<Rightarrow> bool" where
  "versions_ok s \<longleftrightarrow>
     (\<forall>c. map cv_versionNumber (version_rows c s) = [1..<Suc (length (version_rows c s))]) \<and>
     distinct (map cv_id (versions s)) \<and> (\<forall>v \<in> set (versions s). cv_id v < fresh s)"

lemma versions_ok_create:
  assumes "versions_ok s"
  shows "versions_ok (snd (createVersion c note who ms s))"
proof (cases "find_live_course c s")
  case None
  with assms show ?thesis by (simp add: createVersion_def)
next
  case (Some crs)
  let ?s' = "snd (createVersion c note who ms s)"
  obtain v where v: "versions ?s' = versions s @ [v]" "cv_courseId v = c" "cv_id v = fresh s"
    "cv_versionNumber v = Suc (length (version_rows c s))" and f: "fresh ?s' = Suc (fresh s)"
    using Some by (simp add: createVersion_def Let_def count_rows_def version_rows_def)
  have "map cv_versionNumber (version_rows d ?s') = [1..<Suc (length (version_rows d ?s'))]" for d
    using assms v by (cases "d = c") (auto simp: version_rows_def versions_ok_def)
  moreover have "distinct (map cv_id (versions ?s'))" "\<forall>v \<in> set (versions ?s'). cv_id v < fresh ?s'"
    using assms v f by (auto simp: versions_ok_def)
  ultimately show ?thesis by (simp add: versions_ok_def)
qed

lemma rollback_keeps:
  "versions (snd (rollback c v s)) = versions s" "fresh (snd (rollback c v s)) = fresh s"
  by (simp_all add: rollback_def Let_def split: sum.split option.split)

lemma versions_ok_rollback: "versions_ok s \<Longrightarrow> versions_ok (snd (rollback c v s))"
  unfolding versions_ok_def version_rows_def rollback_keeps by blast

text \<open>The head of the descending list is the highest number, that is the number of versions.\<close>

lemma latest_version:
  assumes "versions_ok s"
  shows "(case listVersions c s of [] \<Rightarrow> None | v # _ \<Rightarrow> Some (cv_versionNumber v))
    = (if version_rows c s = [] then None else Some (length (version_rows c s)))"
proof (cases "version_rows c s = []")
  case True
  then show ?thesis by (simp add: listVersions_def order_by_desc_def)
next
  case False
  let ?n = "length (version_rows c s)"
  obtain v vs where vs: "listVersions c s = v # vs"
    using False length_order_by(2)[of "\<lambda>v. int (cv_versionNumber v)" "version_rows c s"]
    by (cases "listVersions c s") (auto simp: listVersions_def)
  have numbers: "cv_versionNumber ` set (version_rows c s) = {1..<Suc ?n}"
    using assms unfolding versions_ok_def by (metis set_map set_upt)
  have "v \<in> set (version_rows c s)"
    using vs set_order_by(2)[of "\<lambda>v. int (cv_versionNumber v)" "version_rows c s"]
    by (auto simp: listVersions_def)
  then have le: "cv_versionNumber v \<le> ?n" using numbers by (metis atLeastLessThan_iff imageI less_Suc_eq_le)
  have "?n \<in> {1..<Suc ?n}" using False by (simp add: Suc_leI)
  then obtain w where w: "w \<in> set (version_rows c s)" "cv_versionNumber w = ?n"
    using numbers by (metis imageE)
  have "int ?n \<le> int (cv_versionNumber v)"
    using order_by_desc_hd[OF False w(1), of "\<lambda>v. int (cv_versionNumber v)"] vs w(2)
    by (simp add: listVersions_def)
  with le vs False show ?thesis by simp
qed

lemma map_of_snapshot [simp]:
  "map_of (course_snapshot ms c) ''title'' = Some (JStr (co_title c))"
  "map_of (course_snapshot ms c) ''description'' = Some (JStr (co_description c))"
  "map_of (course_snapshot ms c) ''level'' = Some (JStr (co_level c))"
  "map_of (course_snapshot ms c) ''durationHours'' = Some (JNum (of_int (co_durationHours c)))"
  "map_of (course_snapshot ms c) ''isPublished'' = Some (JBool (co_isPublished c))"
  by (simp_all add: course_snapshot_def)

lemma rollback_fields_snapshot:
  "rollback_fields (course_snapshot ms old) c =
     c\<lparr>co_title := co_title old, co_description := co_description old, co_level := co_level old,
       co_durationHours := co_durationHours old, co_isPublished := co_isPublished old\<rparr>"
  by (simp add: rollback_fields_def)

lemma map_of_computeDiff:
  "map_of (computeDiff from to) k =
     (if map_of from k \<noteq> map_of to k then Some (map_of from k, map_of to k) else None)"
proof -
  have "map_of (map (\<lambda>k. (k, g k)) ks) k = (if k \<in> set ks then Some (g k) else None)"
    for g :: "string \<Rightarrow> json option \<times> json option" and ks
    by (induction ks) auto
  moreover have "k \<in> set (diff_keys from to)" if "map_of from k \<noteq> map_of to k"
  proof -
    have "k \<in> fst ` set from \<union> fst ` set to"
      using that by (metis UnCI map_of_eq_None_iff)
    then show ?thesis by (auto simp: diff_keys_def)
  qed
  ultimately show ?thesis by (auto simp: computeDiff_def)
qed

subsection \<open>Properties\<close>

text \<open>Rolling a course back to a version taken of it restores title, description, level,
  duration and the published flag of the snapshot and leaves every other column as it is now.\<close>

theorem rollback_restores:
  assumes "getVersion c v s = Inr ver" "cv_snapshot ver = course_snapshot ms old"
    and "find_course c s = Some cur"
  shows "fst (rollback c v s) =
     Inr (cur\<lparr>co_title := co_title old, co_description := co_description old, co_level := co_level old,
            co_durationHours := co_durationHours old, co_isPublished := co_isPublished old\<rparr>)"
proof -
  have find_upd: "find (\<lambda>x. co_id x = c) (update_rows (\<lambda>x. co_id x = c) f xs)
      = map_option f (find (\<lambda>x. co_id x = c) xs)" if "\<And>x. co_id (f x) = co_id x" for f xs
    using that by (induction xs) (auto simp: update_rows_def)
  have "co_id (rollback_fields sn x) = co_id x" for sn x by (simp add: rollback_fields_def)
  with assms show ?thesis
    by (simp add: rollback_def Let_def find_course_def find_upd rollback_fields_snapshot)
qed

definition versioned :: core where
  "versioned = snd (createVersion 1 ''first'' None (JArr [])
     (empty_core\<lparr>courses := [new_course 1 ''Old''], fresh := 2\<rparr>))"

theorem rollback_restores_witness:
  "fst (rollback 1 2 (versioned\<lparr>courses := [(new_course 1 ''New'')\<lparr>co_status := PUBLISHED\<rparr>]\<rparr>))
     = Inr ((new_course 1 ''Old'')\<lparr>co_status := PUBLISHED\<rparr>)"
  using rollback_restores[of 1 2 "versioned\<lparr>courses := [(new_course 1 ''New'')\<lparr>co_status := PUBLISHED\<rparr>]\<rparr>"
      _ "JArr []" "new_course 1 ''Old''" "(new_course 1 ''New'')\<lparr>co_status := PUBLISHED\<rparr>"]
  by (simp add: versioned_def createVersion_def find_live_course_def find_course_def getVersion_def
      empty_core_def new_course_def Let_def)

text \<open>The diff of two snapshots lists exactly the keys whose stored values differ, each with
  both values; so it is empty exactly when the snapshots hold the same values.\<close>

theorem computeDiff_exact:
  "map_of (computeDiff from to) k =
     (if map_of from k \<noteq> map_of to k then Some (map_of from k, map_of to k) else None)
   \<and> (computeDiff from to = [] \<longleftrightarrow> map_of from = map_of to)"
proof -
  have "computeDiff from to = [] \<longleftrightarrow> (\<forall>k. map_of (computeDiff from to) k = None)"
    by (cases "computeDiff from to") force+
  then show ?thesis by (auto simp: map_of_computeDiff fun_eq_iff)
qed

end
