(* ===== verification/Enrollments.thy ===== *)
theory Enrollments
  imports Waitlist Prerequisites Versioning
begin

text \<open>
  Enrollment (\<open>enrollments/enrollments.service.ts\<close>): the duplicate check, the prerequisite gate,
  the version pin, the on-chain anchor with its compensation, leaving a course, and the
  composition of a departure with the waitlist listener that reacts to \<open>enrollment.removed\<close>.
  \<open>recordEnrollment\<close> is the Soroban call: an error message or a transaction hash for a user and
  a course. \<open>removeOk\<close> tells whether the compensating delete reached the database, because the
  service catches that failure too.
\<close>

subsection \<open>Operations\<close>

definition latest_number :: "uuid \<Rightarrow> core \<Rightarrow> nat option" where
  "latest_number courseId s =
     (case listVersions courseId s of [] \<Rightarrow> None | v # _ \<Rightarrow> Some (cv_versionNumber v))"

definition enroll ::
  "timestamp \<Rightarrow> (uuid \<Rightarrow> uuid \<Rightarrow> string + string) \<Rightarrow> bool \<Rightarrow> uuid \<Rightarrow> uuid \<Rightarrow> bool \<Rightarrow> core
   \<Rightarrow> (core, enrollment) outcome" where
  "enroll now recordEnrollment removeOk userId courseId adminOverride s =
     (if find_enrollment userId courseId s \<noteq> None
      then (Inl (ConflictException ''Already enrolled in this course''), s)
      else case enforcePrerequisites userId courseId adminOverride s of
        Inl e \<Rightarrow> (Inl e, s)
      | Inr _ \<Rightarrow>
          if find_user userId s = None \<or> find_course courseId s = None
          then (Inl ForeignKeyViolation, s)
          else
            (let enrollment =
                   \<lparr>en_id = fresh s, en_userId = userId, en_courseId = courseId, en_enrolledAt = now,
                    en_completedAt = None, en_enrolledVersionNumber = latest_number courseId s,
                    en_transactionHash = None\<rparr>;
                 s1 = s\<lparr>enrollments := enrollments s @ [enrollment], fresh := Suc (fresh s)\<rparr>
             in case recordEnrollment userId courseId of
                  Inl msg \<Rightarrow>
                    (Inl (InternalServerErrorException
                       ''Failed to record enrollment on the Stellar network. Please try again.''),
                     if removeOk
                     then s1\<lparr>enrollments := delete_rows (\<lambda>e. en_id e = en_id enrollment) (enrollments s1)\<rparr>
                     else s1)
                | Inr transactionHash \<Rightarrow>
                    (let enrollment' = enrollment\<lparr>en_transactionHash := Some transactionHash\<rparr>;
                         s2 = s1\<lparr>enrollments := save_row en_id enrollment' (enrollments s1)\<rparr>
                     in (Inr enrollment',
                         emit (EnrollmentConfirmed (en_id enrollment) userId courseId transactionHash now)
                           (emit (EnrollmentCreated (Some (en_id enrollment)) userId courseId now) s2)))))"

definition unenroll :: "uuid \<Rightarrow> uuid \<Rightarrow> core \<Rightarrow> (core, unit) outcome" where
  "unenroll userId courseId s =
     (case find_enrollment userId courseId s of
        None \<Rightarrow> (Inl (NotFoundException ''Enrollment not found''), s)
      | Some enrollment \<Rightarrow>
          (Inr (), emit (EnrollmentRemoved userId courseId)
             (s\<lparr>enrollments := delete_rows (\<lambda>e. en_id e = en_id enrollment) (enrollments s)\<rparr>)))"

text \<open>The request as the application runs it: the waitlist service listens to the removal.\<close>

definition unenroll_request :: "timestamp \<Rightarrow> uuid \<Rightarrow> uuid \<Rightarrow> core \<Rightarrow> (core, unit) outcome" where
  "unenroll_request now userId courseId s =
     (case unenroll userId courseId s of
        (Inl e, s') \<Rightarrow> (Inl e, s')
      | (Inr _, s') \<Rightarrow> (Inr (), handleEnrollmentRemoved now courseId s'))"

definition enrollments_of :: "uuid \<Rightarrow> core \<Rightarrow> enrollment list" where
  "enrollments_of userId s = order_by_desc en_enrolledAt (filter (\<lambda>e. en_userId e = userId) (enrollments s))"

definition upgradeVersion :: "uuid \<Rightarrow> uuid \<Rightarrow> core \<Rightarrow> (core, enrollment) outcome" where
  "upgradeVersion userId courseId s =
     (case find_enrollment userId courseId s of
        None \<Rightarrow> (Inl (NotFoundException ''Enrollment not found''), s)
      | Some enrollment \<Rightarrow>
          (case listVersions courseId s of
             [] \<Rightarrow> (Inl (NotFoundException ''No versions found for this course''), s)
           | latest # _ \<Rightarrow>
               (let e = enrollment\<lparr>en_enrolledVersionNumber := Some (cv_versionNumber latest)\<rparr>
                in (Inr e, s\<lparr>enrollments := save_row en_id e (enrollments s)\<rparr>))))"

subsection \<open>Invariant: one row per student and course\<close>

definition enrollments_ok :: "core \<Rightarrow> bool" where
  "enrollments_ok s \<longleftrightarrow>
     distinct (map en_id (enrollments s)) \<and>
     distinct (map (\<lambda>e. (en_userId e, en_courseId e)) (enrollments s)) \<and>
     (\<forall>e \<in> set (enrollments s). en_id e < fresh s)"

lemma enrollments_okI:
  assumes "enrollments_ok s" "enrollments s' = enrollments s @ es" "fresh s \<le> fresh s'"
    and "\<And>e. e \<in> set es \<Longrightarrow> en_id e = fresh s \<and> fresh s < fresh s' \<and> find_enrollment (en_userId e) (en_courseId e) s = None"
    and "length es \<le> 1"
  shows "enrollments_ok s'"
proof (cases es)
  case Nil
  with assms show ?thesis by (force simp: enrollments_ok_def)
next
  case (Cons e es')
  with assms(5) have "es = [e]" by simp
  with assms show ?thesis
    by (fastforce simp: enrollments_ok_def find_enrollment_None)
qed

lemma save_new_row:
  assumes "enrollments_ok s" "en_id e = fresh s" "en_id e' = fresh s"
  shows "save_row en_id e' (enrollments s @ [e]) = enrollments s @ [e']"
proof -
  have "en_id x \<noteq> fresh s" if "x \<in> set (enrollments s)" for x
    using assms(1) that by (auto simp: enrollments_ok_def)
  with assms show ?thesis by (auto simp: save_row_def intro: map_idI)
qed

lemma delete_new_row:
  assumes "enrollments_ok s" "en_id e = fresh s"
  shows "delete_rows (\<lambda>x. en_id x = fresh s) (enrollments s @ [e]) = enrollments s"
proof -
  have "en_id x \<noteq> fresh s" if "x \<in> set (enrollments s)" for x
    using assms(1) that by (auto simp: enrollments_ok_def)
  with assms(2) show ?thesis by (simp add: delete_rows_def)
qed

lemma enroll_cases:
  assumes ok: "enrollments_ok s"
  obtains (Error) err where "fst (enroll now chain rm u c ovr s) = Inl err"
      "enrollments (snd (enroll now chain rm u c ovr s)) = enrollments s"
      "fresh s \<le> fresh (snd (enroll now chain rm u c ovr s))"
      "events (snd (enroll now chain rm u c ovr s)) = events s"
      "waitlist (snd (enroll now chain rm u c ovr s)) = waitlist s"
  | (Orphan) e msg where "\<not> rm" "chain u c = Inl msg"
      "find_enrollment u c s = None" "en_id e = fresh s" "en_userId e = u" "en_courseId e = c"
      "en_transactionHash e = None"
      "enroll now chain rm u c ovr s =
        (Inl (InternalServerErrorException
           ''Failed to record enrollment on the Stellar network. Please try again.''),
         s\<lparr>enrollments := enrollments s @ [e], fresh := Suc (fresh s)\<rparr>)"
  | (Enrolled) hash where "find_enrollment u c s = None" "ovr \<or> prerequisites_met u c s"
      "find_user u s \<noteq> None" "find_course c s \<noteq> None" "chain u c = Inr hash"
      "enroll now chain rm u c ovr s =
        (Inr \<lparr>en_id = fresh s, en_userId = u, en_courseId = c, en_enrolledAt = now,
              en_completedAt = None, en_enrolledVersionNumber = latest_number c s,
              en_transactionHash = Some hash\<rparr>,
         s\<lparr>enrollments := enrollments s @
              [\<lparr>en_id = fresh s, en_userId = u, en_courseId = c, en_enrolledAt = now,
                en_completedAt = None, en_enrolledVersionNumber = latest_number c s,
                en_transactionHash = Some hash\<rparr>],
           fresh := Suc (fresh s),
           events := events s @ [EnrollmentCreated (Some (fresh s)) u c now,
                                 EnrollmentConfirmed (fresh s) u c hash now]\<rparr>)"
proof -
  let ?pre = "find_enrollment u c s = None \<and> enforcePrerequisites u c ovr s = Inr () \<and>
    find_user u s \<noteq> None \<and> find_course c s \<noteq> None"
  show thesis
  proof (cases ?pre)
    case False
    then have "\<exists>err. enroll now chain rm u c ovr s = (Inl err, s)"
      by (auto simp: enroll_def split: sum.split)
    then show thesis using Error by force
  next
    case True
    then have met: "ovr \<or> prerequisites_met u c s" by (simp add: enforce_iff)
    from True obtain usr crs where found: "find_enrollment u c s = None"
      "enforcePrerequisites u c ovr s = Inr ()" "find_user u s = Some usr" "find_course c s = Some crs"
      by auto
    show thesis
    proof (cases "chain u c")
      case (Inr hash)
      with found met ok show thesis
        by (intro Enrolled[of hash]) (simp_all add: enroll_def Let_def save_new_row emit_def)
    next
      case (Inl msg)
      show thesis
      proof (cases rm)
        case rm: True
        with found Inl ok have "enroll now chain rm u c ovr s =
          (Inl (InternalServerErrorException
             ''Failed to record enrollment on the Stellar network. Please try again.''),
           s\<lparr>enrollments := enrollments s, fresh := Suc (fresh s)\<rparr>)"
          by (simp add: enroll_def Let_def delete_new_row)
        then show thesis by (intro Error) simp_all
      next
        case rm: False
        with found Inl show thesis
          by (intro Orphan[of msg "\<lparr>en_id = fresh s, en_userId = u, en_courseId = c, en_enrolledAt = now,
              en_completedAt = None, en_enrolledVersionNumber = latest_number c s, en_transactionHash = None\<rparr>"])
            (simp_all add: enroll_def Let_def)
      qed
    qed
  qed
qed

lemma enroll_ok:
  assumes "enrollments_ok s"
  shows "enrollments_ok (snd (enroll now chain rm u c ovr s))"
proof (cases rule: enroll_cases[OF assms, of now chain rm u c ovr])
  case (1 err)
  show ?thesis by (rule enrollments_okI[OF assms, of _ "[]"]) (simp_all add: 1(2,3))
next
  case (2 e msg)
  show ?thesis
    unfolding 2(8) by (rule enrollments_okI[OF assms, of _ "[e]"]) (simp_all add: 2(3-6))
next
  case (3 hash)
  show ?thesis
    unfolding 3(6) by (rule enrollments_okI[OF assms, of _ "[_]"]) (auto simp: 3(1))
qed

lemma unenroll_ok: "enrollments_ok s \<Longrightarrow> enrollments_ok (snd (unenroll u c s))"
  by (auto simp: unenroll_def enrollments_ok_def split: option.split)

lemma promote_enrollments:
  "\<exists>es. enrollments (promoteNext now c s) = enrollments s @ es \<and> length es \<le> 1 \<and>
     fresh s \<le> fresh (promoteNext now c s) \<and>
     (\<forall>e \<in> set es. en_id e = fresh s \<and> fresh s < fresh (promoteNext now c s) \<and>
        find_enrollment (en_userId e) (en_courseId e) s = None)"
  by (auto simp: promoteNext_def promote_transaction_def Let_def split: option.split)

lemma promote_enrollments_ok: "enrollments_ok s \<Longrightarrow> enrollments_ok (promoteNext now c s)"
  using promote_enrollments[of now c s] enrollments_okI[of s] by metis

lemma unenroll_request_ok: "enrollments_ok s \<Longrightarrow> enrollments_ok (snd (unenroll_request now u c s))"
  using unenroll_ok[of s u c]
  by (auto simp: unenroll_request_def handleEnrollmentRemoved_def promote_enrollments_ok
      split: prod.split sum.split)

lemma find_enrollment_unique:
  "enrollments_ok s \<Longrightarrow> e \<in> set (enrollments s) \<Longrightarrow> find_enrollment (en_userId e) (en_courseId e) s = Some e"
  unfolding find_enrollment_def enrollments_ok_def
  by (rule find_unique_by[where f = "\<lambda>e. (en_userId e, en_courseId e)"]) auto

lemma upgrade_ok:
  assumes "enrollments_ok s"
  shows "enrollments_ok (snd (upgradeVersion u c s))"
proof (cases "find_enrollment u c s")
  case None
  with assms show ?thesis by (simp add: upgradeVersion_def)
next
  case (Some e)
  show ?thesis
  proof (cases "listVersions c s")
    case Nil
    with Some assms show ?thesis by (simp add: upgradeVersion_def)
  next
    case (Cons v vs)
    let ?e = "e\<lparr>en_enrolledVersionNumber := Some (cv_versionNumber v)\<rparr>"
    have e: "e \<in> set (enrollments s)" using find_enrollment_SomeD[OF Some] by simp
    have other: "(en_userId x, en_courseId x) \<noteq> (en_userId ?e, en_courseId ?e)"
      if "x \<in> set (enrollments s)" "en_id x \<noteq> en_id ?e" for x
      using assms e that by (auto simp: enrollments_ok_def distinct_map inj_on_def)
    have "distinct (map en_id (save_row en_id ?e (enrollments s)))"
      using assms by (intro save_row_distinct) (simp add: enrollments_ok_def)
    moreover have "distinct (map (\<lambda>e. (en_userId e, en_courseId e)) (save_row en_id ?e (enrollments s)))"
      using assms other by (intro save_row_unique_index) (simp_all add: enrollments_ok_def)
    moreover have "\<forall>x \<in> set (save_row en_id ?e (enrollments s)). en_id x < fresh s"
      using assms e by (auto simp: set_save_row enrollments_ok_def)
    ultimately show ?thesis
      using Some Cons by (simp add: upgradeVersion_def enrollments_ok_def Let_def)
  qed
qed

datatype enrollment_request =
    Enroll timestamp "string + string" bool uuid uuid bool
  | Unenroll timestamp uuid uuid
  | Upgrade uuid uuid
  | Waiting waitlist_request

fun enrollment_step :: "enrollment_request \<Rightarrow> core \<Rightarrow> http_error option \<times> core" where
  "enrollment_step (Enroll now chain rm u c ovr) s =
     map_prod (case_sum Some (\<lambda>_. None)) (\<lambda>x. x) (enroll now (\<lambda>_ _. chain) rm u c ovr s)"
| "enrollment_step (Unenroll now u c) s =
     map_prod (case_sum Some (\<lambda>_. None)) (\<lambda>x. x) (unenroll_request now u c s)"
| "enrollment_step (Upgrade u c) s = map_prod (case_sum Some (\<lambda>_. None)) (\<lambda>x. x) (upgradeVersion u c s)"
| "enrollment_step (Waiting r) s = waitlist_step r s"

lemma join_keeps_enrollments:
  "enrollments (snd (waitlist_join now u c s)) = enrollments s \<and> fresh s \<le> fresh (snd (waitlist_join now u c s))"
  by (simp add: waitlist_join_def Let_def split: option.split)

lemma leave_keeps_enrollments:
  "enrollments (snd (waitlist_leave u c s)) = enrollments s \<and> fresh (snd (waitlist_leave u c s)) = fresh s"
  by (simp add: waitlist_leave_def split: option.split)

lemma enrollments_ok_mono:
  "enrollments_ok s \<Longrightarrow> enrollments s' = enrollments s \<and> fresh s \<le> fresh s' \<Longrightarrow> enrollments_ok s'"
  by (rule enrollments_okI[of s s' "[]"]) simp_all

lemma waiting_enrollments_ok: "enrollments_ok s \<Longrightarrow> enrollments_ok (snd (waitlist_step r s))"
  using enrollments_ok_mono[OF _ join_keeps_enrollments] enrollments_ok_mono[of s] leave_keeps_enrollments
  by (cases r) (simp_all add: adminRemove_def handleEnrollmentRemoved_def promote_enrollments_ok)

interpretation enrolling: invariant_machine enrollment_step enrollments_ok
proof
  fix s r assume "enrollments_ok s"
  then show "enrollments_ok (snd (enrollment_step r s))"
    by (cases r) (simp_all add: enroll_ok unenroll_request_ok upgrade_ok waiting_enrollments_ok)
qed

subsection \<open>Properties\<close>

text \<open>C24: A successful enrollment implies that the student was not enrolled and met the
  prerequisites (or an administrator overrode them), adds exactly one row, pinned to the newest
  version of the course and carrying the hash of the on-chain record, and announces it with the
  two events, in that order; nothing else in the database changes.\<close>

theorem enroll_success:
  assumes "enrollments_ok s" "versions_ok s" "enroll now chain rm u c ovr s = (Inr e, s')"
  shows "find_enrollment u c s = None \<and> (ovr \<or> prerequisites_met u c s)
       \<and> en_userId e = u \<and> en_courseId e = c \<and> en_completedAt e = None
       \<and> en_enrolledVersionNumber e =
           (if version_rows c s = [] then None else Some (length (version_rows c s)))
       \<and> map_option Inr (en_transactionHash e) = Some (chain u c)
       \<and> s' = s\<lparr>enrollments := enrollments s @ [e], fresh := Suc (fresh s),
            events := events s @ [EnrollmentCreated (Some (en_id e)) u c now,
                                  EnrollmentConfirmed (en_id e) u c (the (en_transactionHash e)) now]\<rparr>"
proof (cases rule: enroll_cases[OF assms(1), of now chain rm u c ovr])
  case (1 err)
  with assms(3) show ?thesis by simp
next
  case (2 e' msg)
  with assms(3) show ?thesis by simp
next
  case (3 hash)
  have "latest_number c s = (if version_rows c s = [] then None else Some (length (version_rows c s)))"
    using latest_version[OF assms(2), of c] by (simp add: latest_number_def)
  with 3 assms(3) show ?thesis by auto
qed

definition open_course :: core where
  "open_course = empty_core\<lparr>users := [new_user 2 ''a@x''], courses := [new_course 10 ''Soroban''],
     fresh := 11\<rparr>"

definition open_row :: enrollment where
  "open_row = \<lparr>en_id = 11, en_userId = 2, en_courseId = 10, en_enrolledAt = 5, en_completedAt = None,
     en_enrolledVersionNumber = None, en_transactionHash = Some ''tx1''\<rparr>"

lemma open_course_ok: "enrollments_ok open_course" "versions_ok open_course"
  by (simp_all add: enrollments_ok_def versions_ok_def version_rows_def open_course_def empty_core_def)

lemma open_course_gate: "enforcePrerequisites u c ovr open_course = Inr ()"
  by (simp add: enforce_iff prerequisites_met_def open_course_def empty_core_def)

lemma open_course_enroll:
  "enroll 5 (\<lambda>_ _. Inr ''tx1'') True 2 10 False open_course =
     (Inr open_row, open_course\<lparr>enrollments := [open_row], fresh := 12,
        events := [EnrollmentCreated (Some 11) 2 10 5, EnrollmentConfirmed 11 2 10 ''tx1'' 5]\<rparr>)"
  by (simp add: enroll_def open_course_gate latest_number_def listVersions_def version_rows_def Let_def)
    (simp add: open_course_def empty_core_def find_enrollment_def find_user_def find_course_def
      new_user_def new_course_def open_row_def save_row_def emit_def)

theorem enroll_success_witness:
  "snd (enroll 5 (\<lambda>_ _. Inr ''tx1'') True 2 10 False open_course) = open_course\<lparr>enrollments := [open_row],
     fresh := 12, events := [EnrollmentCreated (Some 11) 2 10 5, EnrollmentConfirmed 11 2 10 ''tx1'' 5]\<rparr>"
proof -
  have "snd (enroll 5 (\<lambda>_ _. Inr ''tx1'') True 2 10 False open_course) =
      open_course\<lparr>enrollments := enrollments open_course @ [open_row], fresh := Suc (fresh open_course),
        events := events open_course @ [EnrollmentCreated (Some (en_id open_row)) 2 10 5,
          EnrollmentConfirmed (en_id open_row) 2 10 (the (en_transactionHash open_row)) 5]\<rparr>"
    using enroll_success[OF open_course_ok open_course_enroll] open_course_enroll by simp
  then show ?thesis by (simp add: open_row_def) (simp add: open_course_def empty_core_def)
qed

text \<open>C5: A failed enrollment leaves no trace: when the compensating delete reaches the database, a
  refusal for any reason, the Soroban call failing after the row was saved included, leaves the
  table of enrollments, the waitlist and the event log as they were. Without that delete the only
  trace possible is the unanchored row of this student and course.\<close>

theorem enroll_failure_leaves_nothing:
  assumes "enrollments_ok s" "fst (enroll now chain rm u c ovr s) = Inl err"
  shows "events (snd (enroll now chain rm u c ovr s)) = events s
       \<and> waitlist (snd (enroll now chain rm u c ovr s)) = waitlist s
       \<and> (enrollments (snd (enroll now chain rm u c ovr s)) = enrollments s
          \<or> (\<not> rm \<and> (\<exists>e. en_userId e = u \<and> en_courseId e = c \<and> en_transactionHash e = None
               \<and> enrollments (snd (enroll now chain rm u c ovr s)) = enrollments s @ [e])))"
proof (cases rule: enroll_cases[OF assms(1), of now chain rm u c ovr])
  case (1 err')
  then show ?thesis by simp
next
  case (2 e msg)
  then show ?thesis by simp
next
  case (3 hash)
  with assms(2) show ?thesis by simp
qed
theorem enroll_failure_leaves_nothing_witness:
  "enrollments (snd (enroll 5 (\<lambda>_ _. Inl ''rpc timeout'') True 2 10 False open_course)) = []"
proof -
  have "\<exists>err. fst (enroll 5 (\<lambda>_ _. Inl ''rpc timeout'') True 2 10 False open_course) = Inl err"
    by (simp add: enroll_def open_course_gate Let_def)
  then obtain err where "fst (enroll 5 (\<lambda>_ _. Inl ''rpc timeout'') True 2 10 False open_course) = Inl err" ..
  from enroll_failure_leaves_nothing[OF open_course_ok(1) this] show ?thesis
    by (simp add: open_course_def empty_core_def)
qed

text \<open>A student has at most one enrollment per course in every reachable state, whatever
  sequence of enrollments (anchored or not), departures, version upgrades, waitlist requests and
  promotions led there.\<close>

theorem one_enrollment_per_course:
  assumes "enrollments_ok s"
    and "e \<in> set (enrollments (run_ops enrollment_step rs s))"
    and "e' \<in> set (enrollments (run_ops enrollment_step rs s))"
    and "en_userId e = en_userId e'" "en_courseId e = en_courseId e'"
  shows "e = e'"
proof -
  have "enrollments_ok (run_ops enrollment_step rs s)" by (rule enrolling.run_preserves[OF assms(1)])
  then have "inj_on (\<lambda>e. (en_userId e, en_courseId e)) (set (enrollments (run_ops enrollment_step rs s)))"
    by (simp add: enrollments_ok_def distinct_map)
  then show ?thesis using assms(2-5) by (auto simp: inj_on_def)
qed

theorem one_enrollment_per_course_witness:
  "\<exists>e. e \<in> set (enrollments (run_ops enrollment_step [Enroll 5 (Inr ''tx1'') True 2 10 False] open_course))
     \<and> (\<forall>e'. e' = e \<longleftrightarrow> e' \<in> set (enrollments (run_ops enrollment_step [Enroll 5 (Inr ''tx1'') True 2 10 False] open_course))
         \<and> en_userId e' = en_userId e \<and> en_courseId e' = en_courseId e)"
proof -
  let ?rs = "[Enroll 5 (Inr ''tx1'') True 2 10 False]"
  have "open_row \<in> set (enrollments (run_ops enrollment_step ?rs open_course))"
    by (simp add: open_course_enroll)
  then show ?thesis using one_enrollment_per_course[OF open_course_ok(1)] by blast
qed

lemma unenroll_core:
  assumes "enrollments_ok s" "find_enrollment u c s = Some e"
  shows "waitlist_ok s \<Longrightarrow> waitlist_ok (snd (unenroll u c s))"
    "fst (unenroll u c s) = Inr ()"
    "queue_members d (snd (unenroll u c s)) = queue_members d s"
    "find_course d (snd (unenroll u c s)) = find_course d s"
    "getEnrollmentCount c (snd (unenroll u c s)) + 1 = getEnrollmentCount c s"
    "enrollments (snd (unenroll u c s)) = delete_rows (\<lambda>x. en_id x = en_id e) (enrollments s)"
proof -
  have e: "e \<in> set (enrollments s)" "en_courseId e = c" using find_enrollment_SomeD[OF assms(2)] by auto
  have "length (filter (\<lambda>x. en_courseId x = c) (filter (\<lambda>x. en_id x \<noteq> en_id e) xs)) + 1
      = length (filter (\<lambda>x. en_courseId x = c) xs)"
    if "distinct (map en_id xs)" "e \<in> set xs" for xs
    using that
  proof (induction xs)
    case (Cons x xs)
    show ?case
    proof (cases "x = e")
      case True
      have "filter (\<lambda>y. en_id y \<noteq> en_id e) xs = xs"
        using Cons.prems(1) True by (auto simp: filter_id_conv image_iff)
      with True e show ?thesis by simp
    next
      case False
      with Cons.prems have "en_id x \<noteq> en_id e" "e \<in> set xs" by (auto simp: image_iff)
      with Cons show ?thesis by simp
    qed
  qed simp
  with e assms show "getEnrollmentCount c (snd (unenroll u c s)) + 1 = getEnrollmentCount c s"
    by (simp add: unenroll_def getEnrollmentCount_def count_rows_def delete_rows_def enrollments_ok_def)
qed (use assms in \<open>simp_all add: unenroll_def waitlist_ok_def positions_ok_def queue_members_def
      listForCourse_def course_rows_def find_course_def\<close>)

text \<open>When a student leaves a course that was not over its limit and somebody waits, the place
  goes to the first of the queue in the same request: that user is enrolled, the queue loses its
  head, and the course stays within its limit.\<close>

theorem leaving_promotes_first:
  assumes "enrollments_ok s" "waitlist_ok s" "find_course c s = Some crs" "co_maxEnrollment crs = Some m"
    and "find_enrollment u c s \<noteq> None" "int (getEnrollmentCount c s) \<le> m"
    and "queue_members c s = w # ws"
  shows "fst (unenroll_request now u c s) = Inr ()
       \<and> queue_members c (snd (unenroll_request now u c s)) = ws
       \<and> find_enrollment w c (snd (unenroll_request now u c s)) \<noteq> None
       \<and> int (getEnrollmentCount c (snd (unenroll_request now u c s))) \<le> m"
proof -
  obtain e where e: "find_enrollment u c s = Some e" using assms(5) by blast
  let ?t = "snd (unenroll u c s)"
  note u = unenroll_core[OF assms(1) e]
  have r: "unenroll_request now u c s = (Inr (), promoteNext now c ?t)"
    using u(2) by (cases "unenroll u c s") (simp add: unenroll_request_def handleEnrollmentRemoved_def)
  have t: "waitlist_ok ?t" "find_course c ?t = Some crs" "queue_members c ?t = w # ws"
    "int (getEnrollmentCount c ?t) < m"
    using u(1)[OF assms(2)] u(3-5) assms(3,6,7) by simp_all
  show ?thesis
    using promote_head[OF t(1,2) assms(4) t(4,3)] unfolding r by simp
qed
theorem leaving_promotes_first_witness:
  "queue_members 10 (snd (unenroll_request 9 1 10 (two_waiting 1))) = [3]
   \<and> find_enrollment 2 10 (snd (unenroll_request 9 1 10 (two_waiting 1))) \<noteq> None"
proof -
  have "enrollments_ok (two_waiting 1)"
    by (simp add: enrollments_ok_def two_waiting_def full_course_def)
  moreover have "find_course 10 (two_waiting 1)
      = Some ((new_course 10 ''Soroban'')\<lparr>co_status := PUBLISHED, co_maxEnrollment := Some 1\<rparr>)"
    by (simp add: find_course_def two_waiting_def full_course_def new_course_def)
  moreover have "int (getEnrollmentCount 10 (two_waiting 1)) \<le> 1"
    by (simp add: getEnrollmentCount_def count_rows_def two_waiting_def full_course_def)
  moreover have "find_enrollment 1 10 (two_waiting 1) \<noteq> None"
    by (simp add: find_enrollment_def two_waiting_def full_course_def)
  ultimately show ?thesis
    using leaving_promotes_first[OF _ two_waiting_ok _ _ _ _ two_waiting_members, of 1 _ 1 1 9] by simp
qed

end
