(* ===== verification/Streaks.thy ===== *)
theory Streaks
  imports Entities
begin

text \<open>
  Activity streaks (\<open>streaks/streaks.service.ts\<close>). Times are milliseconds, and two instants fall
  on the same UTC day when they agree on the day number; subtracting one from the UTC date of an
  instant subtracts a day of 86400000 milliseconds, because UTC has no changes of offset.
  \<open>accepts key amount\<close> is the outcome of the token contract's mint call, whose failure the
  services catch; the log \<open>minted\<close> holds the accepted rewards.
\<close>

subsection \<open>Operations\<close>

definition mintReward :: "(string \<Rightarrow> int \<Rightarrow> bool) \<Rightarrow> string \<Rightarrow> int \<Rightarrow> core \<Rightarrow> core" where
  "mintReward accepts key amount s =
     (if accepts key amount then s\<lparr>minted := minted s @ [(key, amount)]\<rparr> else s)"

definition ms_per_day :: int where
  "ms_per_day = 86400000"

definition utc_day :: "timestamp \<Rightarrow> int" where
  "utc_day t = t div ms_per_day"

definition isSameDay :: "timestamp \<Rightarrow> timestamp \<Rightarrow> bool" where
  "isSameDay d1 d2 \<longleftrightarrow> utc_day d1 = utc_day d2"

definition isYesterday :: "timestamp \<Rightarrow> timestamp \<Rightarrow> bool" where
  "isYesterday now prev = isSameDay (now - ms_per_day) prev"

definition milestones :: "(int \<times> int) list" where
  "milestones = [(7, 10), (30, 50), (100, 200)]"

definition checkMilestones :: "(string \<Rightarrow> int \<Rightarrow> bool) \<Rightarrow> user \<Rightarrow> core \<Rightarrow> core" where
  "checkMilestones accepts u s =
     (case (find (\<lambda>(days, reward). days = u_currentStreak u) milestones, u_stellarPublicKey u) of
        (Some (days, reward), Some key) \<Rightarrow> mintReward accepts key reward s
      | _ \<Rightarrow> s)"

text \<open>The new value of \<open>currentStreak\<close> on a day that has no activity yet.\<close>

definition next_streak :: "timestamp \<Rightarrow> user \<Rightarrow> int" where
  "next_streak now u =
     (case u_lastActivityAt u of
        None \<Rightarrow> 1
      | Some lastActivity \<Rightarrow> if isYesterday now lastActivity then u_currentStreak u + 1 else 1)"

definition recordActivity ::
  "(string \<Rightarrow> int \<Rightarrow> bool) \<Rightarrow> timestamp \<Rightarrow> uuid \<Rightarrow> core \<Rightarrow> (core, user) outcome" where
  "recordActivity accepts now userId s =
     (case find_user userId s of
        None \<Rightarrow> (Inl (JsError ''User not found''), s)
      | Some u \<Rightarrow>
          if (case u_lastActivityAt u of None \<Rightarrow> False | Some lastActivity \<Rightarrow> isSameDay now lastActivity)
          then (let u' = u\<lparr>u_lastActivityAt := Some now\<rparr> in (Inr u', save_user u' s))
          else
            (let k = next_streak now u;
                 u' = u\<lparr>u_currentStreak := k, u_lastActivityAt := Some now,
                        u_longestStreak := (if u_longestStreak u < k then k else u_longestStreak u)\<rparr>
             in (Inr u', checkMilestones accepts u' (save_user u' s))))"

subsection \<open>The user row after an activity\<close>

definition advance_streak :: "timestamp \<Rightarrow> user \<Rightarrow> user" where
  "advance_streak now u =
     (if (case u_lastActivityAt u of None \<Rightarrow> False | Some l \<Rightarrow> utc_day now = utc_day l)
      then u\<lparr>u_lastActivityAt := Some now\<rparr>
      else u\<lparr>u_currentStreak := next_streak now u, u_lastActivityAt := Some now,
             u_longestStreak := max (u_longestStreak u) (next_streak now u)\<rparr>)"

lemma mintReward_simps [simp]:
  "users (mintReward a k n s) = users s" "courses (mintReward a k n s) = courses s"
  "enrollments (mintReward a k n s) = enrollments s" "waitlist (mintReward a k n s) = waitlist s"
  "versions (mintReward a k n s) = versions s" "prerequisites (mintReward a k n s) = prerequisites s"
  "bundles (mintReward a k n s) = bundles s" "bundleEnrollments (mintReward a k n s) = bundleEnrollments s"
  "progress (mintReward a k n s) = progress s" "credentials (mintReward a k n s) = credentials s"
  "kycCustomers (mintReward a k n s) = kycCustomers s" "events (mintReward a k n s) = events s"
  "fresh (mintReward a k n s) = fresh s"
  by (simp_all add: mintReward_def)

lemma checkMilestones_simps [simp]:
  "users (checkMilestones a u s) = users s" "courses (checkMilestones a u s) = courses s"
  "bundles (checkMilestones a u s) = bundles s" "enrollments (checkMilestones a u s) = enrollments s"
  "bundleEnrollments (checkMilestones a u s) = bundleEnrollments s"
  "progress (checkMilestones a u s) = progress s" "credentials (checkMilestones a u s) = credentials s"
  "kycCustomers (checkMilestones a u s) = kycCustomers s" "events (checkMilestones a u s) = events s"
  "fresh (checkMilestones a u s) = fresh s"
  by (simp_all add: checkMilestones_def split: option.split prod.split)

lemma advance_streak_id [simp]:
  "u_id (advance_streak now u) = u_id u" "u_stellarPublicKey (advance_streak now u) = u_stellarPublicKey u"
  "u_referredBy (advance_streak now u) = u_referredBy u"
  "u_lastActivityAt (advance_streak now u) = Some now"
  by (simp_all add: advance_streak_def)

lemma recordActivity_eq:
  assumes "find_user i s = Some u"
  shows "recordActivity a now i s = (Inr (advance_streak now u),
     if (case u_lastActivityAt u of None \<Rightarrow> False | Some l \<Rightarrow> utc_day now = utc_day l)
     then save_user (advance_streak now u) s
     else checkMilestones a (advance_streak now u) (save_user (advance_streak now u) s))"
proof -
  have mx: "(if u_longestStreak u < k then k else u_longestStreak u) = max (u_longestStreak u) k" for k
    by auto
  show ?thesis
    using assms by (simp only: recordActivity_def advance_streak_def isSameDay_def Let_def mx option.case if_cancel)
      (cases "u_lastActivityAt u", simp_all)
qed

lemma recordActivity_user:
  assumes "find_user i s = Some u"
  shows "fst (recordActivity a now i s) = Inr (advance_streak now u)"
    "users (snd (recordActivity a now i s)) = save_row u_id (advance_streak now u) (users s)"
  by (simp_all add: recordActivity_eq[OF assms])

lemma find_user_recordActivity:
  "find_user j (snd (recordActivity a now i s)) =
     (if i = j then map_option (advance_streak now) (find_user i s) else find_user j s)"
proof (cases "find_user i s")
  case None
  then show ?thesis by (auto simp: recordActivity_def)
next
  case (Some u)
  have "u_id u = i" using find_user_SomeD[OF Some] by simp
  then show ?thesis
    using Some recordActivity_user(2)[OF Some, of a now] by (auto simp: find_user_def find_key_save_row)
qed

definition streak_step ::
  "(string \<Rightarrow> int \<Rightarrow> bool) \<Rightarrow> timestamp \<times> uuid \<Rightarrow> core \<Rightarrow> (http_error + user) \<times> core" where
  "streak_step accepts r s = recordActivity accepts (fst r) (snd r) s"

fun advance_all :: "timestamp list \<Rightarrow> user \<Rightarrow> user" where
  "advance_all [] u = u"
| "advance_all (t # ts) u = advance_all ts (advance_streak t u)"

lemma advance_all_comp: "advance_all [] = id" "advance_all (t # ts) = advance_all ts \<circ> advance_streak t"
  by (simp_all add: fun_eq_iff)

lemma find_user_history:
  "find_user i (run_ops (streak_step a) rs s) =
     map_option (advance_all (map fst (filter (\<lambda>r. snd r = i) rs))) (find_user i s)"
  by (induction rs arbitrary: s)
    (auto simp: streak_step_def find_user_recordActivity advance_all_comp option.map_comp option.map_id
      simp del: advance_all.simps)

subsection \<open>The streak counts consecutive days\<close>

text \<open>\<open>k\<close> is the length of the longest run of days of \<open>D\<close> that ends at \<open>d\<close>.\<close>

definition run_ending :: "int set \<Rightarrow> int \<Rightarrow> int \<Rightarrow> bool" where
  "run_ending D d k \<longleftrightarrow> 1 \<le> k \<and> (\<forall>i. d - k < i \<and> i \<le> d \<longrightarrow> i \<in> D) \<and> d - k \<notin> D"

lemma run_ending_start:
  assumes "\<forall>x \<in> D. x < d - 1" shows "run_ending (insert d D) d 1"
  using assms by (force simp: run_ending_def)

lemma run_ending_extend:
  assumes "run_ending D (d - 1) k" "d \<notin> D" shows "run_ending (insert d D) d (k + 1)"
proof -
  have "i \<in> insert d D" if "d - (k + 1) < i \<and> i \<le> d" for i
    using assms(1) that by (cases "i = d") (auto simp: run_ending_def)
  then show ?thesis
    using assms by (auto simp: run_ending_def algebra_simps)
qed

definition streak_inv :: "int set \<Rightarrow> user \<Rightarrow> bool" where
  "streak_inv D u \<longleftrightarrow>
     (case u_lastActivityAt u of
        None \<Rightarrow> D = {}
      | Some t \<Rightarrow> utc_day t \<in> D \<and> (\<forall>d \<in> D. d \<le> utc_day t) \<and> run_ending D (utc_day t) (u_currentStreak u)
                \<and> u_currentStreak u \<le> u_longestStreak u)"

lemma utc_day_minus: "utc_day (t - ms_per_day) = utc_day t - 1"
proof -
  have "t - ms_per_day = t + (- 1) * ms_per_day" by simp
  then show ?thesis unfolding utc_day_def by (simp only: div_mult_self1) (simp add: ms_per_day_def)
qed

lemma utc_day_mono: "t \<le> t' \<Longrightarrow> utc_day t \<le> utc_day t'"
  by (simp add: utc_day_def ms_per_day_def zdiv_mono1)

lemma streak_inv_advance:
  assumes inv: "streak_inv D u" and later: "\<And>t. u_lastActivityAt u = Some t \<Longrightarrow> t \<le> now"
  shows "streak_inv (insert (utc_day now) D) (advance_streak now u)"
proof (cases "u_lastActivityAt u")
  case None
  with inv show ?thesis
    by (simp add: streak_inv_def advance_streak_def next_streak_def run_ending_start[of "{}"])
next
  case (Some t)
  let ?d = "utc_day now" and ?e = "utc_day t"
  have le: "?e \<le> ?d" using later[OF Some] by (rule utc_day_mono)
  from inv Some have e: "?e \<in> D" "\<forall>d \<in> D. d \<le> ?e" "run_ending D ?e (u_currentStreak u)"
    "u_currentStreak u \<le> u_longestStreak u" by (simp_all add: streak_inv_def)
  consider "?d = ?e" | "?e = ?d - 1" | "?e < ?d - 1" using le by linarith
  then show ?thesis
  proof cases
    case 1
    with Some e show ?thesis by (simp add: streak_inv_def advance_streak_def insert_absorb)
  next
    case 2
    with e have "run_ending (insert ?d D) ?d (u_currentStreak u + 1)" "\<forall>x \<in> D. x \<le> ?d"
      by (auto intro: run_ending_extend)
    with 2 Some show ?thesis
      by (simp add: streak_inv_def advance_streak_def next_streak_def isYesterday_def isSameDay_def utc_day_minus)
  next
    case 3
    with e have "run_ending (insert ?d D) ?d 1" "\<forall>x \<in> D. x \<le> ?d"
      by (force intro: run_ending_start)+
    with 3 Some show ?thesis
      by (simp add: streak_inv_def advance_streak_def next_streak_def isYesterday_def isSameDay_def utc_day_minus)
  qed
qed

lemma streak_inv_advance_all:
  assumes "streak_inv D u" "sorted ts" "\<And>t t'. u_lastActivityAt u = Some t \<Longrightarrow> t' \<in> set ts \<Longrightarrow> t \<le> t'"
  shows "streak_inv (utc_day ` set ts \<union> D) (advance_all ts u)"
  using assms
proof (induction ts arbitrary: u D)
  case (Cons t ts)
  have "streak_inv (insert (utc_day t) D) (advance_streak t u)"
    using Cons.prems(1,3) by (intro streak_inv_advance) auto
  then have "streak_inv (utc_day ` set ts \<union> insert (utc_day t) D) (advance_all ts (advance_streak t u))"
    using Cons.prems(2) by (intro Cons.IH) auto
  then show ?case by simp
qed simp

lemma advance_all_last: "ts \<noteq> [] \<Longrightarrow> u_lastActivityAt (advance_all ts u) = Some (last ts)"
proof (induction ts arbitrary: u)
  case (Cons t ts)
  then show ?case by (cases ts) simp_all
qed simp

subsection \<open>Properties\<close>

text \<open>After any history of activities in which the requests of a new user come in the order of
  time, interleaved with the requests of others, the user's current streak is the length of the
  longest run of consecutive UTC days with an activity that ends on the day of the last one, and
  the longest streak is at least that.\<close>

theorem streak_counts_days:
  assumes "find_user i s = Some u" "u_lastActivityAt u = None"
    and "map fst (filter (\<lambda>r. snd r = i) rs) = ts" "sorted ts" "ts \<noteq> []"
  shows "\<exists>u'. find_user i (run_ops (streak_step a) rs s) = Some u'
       \<and> run_ending (utc_day ` set ts) (utc_day (last ts)) (u_currentStreak u')
       \<and> u_currentStreak u' \<le> u_longestStreak u'"
proof -
  have "streak_inv {} u" using assms(2) by (simp add: streak_inv_def)
  then have "streak_inv (utc_day ` set ts \<union> {}) (advance_all ts u)"
    using assms(2,4) by (intro streak_inv_advance_all) simp_all
  then show ?thesis
    using advance_all_last[OF assms(5)] find_user_history[of i a rs s] assms(1,3)
    by (simp add: streak_inv_def)
qed

definition one_user :: core where
  "one_user = empty_core\<lparr>users := [(new_user 2 ''a@x'')\<lparr>u_stellarPublicKey := Some ''GKEY''\<rparr>]\<rparr>"

theorem streak_counts_days_witness:
  "\<exists>u'. find_user 2 (run_ops (streak_step (\<lambda>_ _. True)) [(5, 2), (86400005, 2), (99000000, 7)] one_user) = Some u'
     \<and> run_ending {0, 1} 1 (u_currentStreak u')"
proof -
  have "find_user 2 one_user = Some ((new_user 2 ''a@x'')\<lparr>u_stellarPublicKey := Some ''GKEY''\<rparr>)"
    by (simp add: find_user_def one_user_def new_user_def)
  from streak_counts_days[OF this, of "[(5, 2), (86400005, 2), (99000000, 7)]" "[5, 86400005]" "\<lambda>_ _. True"]
  show ?thesis by (auto simp: new_user_def utc_day_def ms_per_day_def)
qed

text \<open>A streak reward is minted only on the first activity of a day, exactly when the streak that
  activity gives is a milestone (7, 30 or 100 days), to the user's own key and with the amount of
  that milestone, and only if the ledger takes it; a repeated activity of the day mints nothing.\<close>

theorem streak_reward_exact:
  assumes "find_user i s = Some u"
  shows "minted (snd (recordActivity a now i s)) = minted s @
     (if \<exists>t. u_lastActivityAt u = Some t \<and> utc_day now = utc_day t then []
      else case (map_of milestones (next_streak now u), u_stellarPublicKey u) of
             (Some reward, Some key) \<Rightarrow> if a key reward then [(key, reward)] else []
           | _ \<Rightarrow> [])"
proof (cases "\<exists>t. u_lastActivityAt u = Some t \<and> utc_day now = utc_day t")
  case True
  then show ?thesis by (auto simp: recordActivity_eq[OF assms])
next
  case False
  then have "advance_streak now u = u\<lparr>u_currentStreak := next_streak now u, u_lastActivityAt := Some now,
             u_longestStreak := max (u_longestStreak u) (next_streak now u)\<rparr>"
    by (auto simp: advance_streak_def split: option.split)
  moreover have "minted (snd (recordActivity a now i s)) =
      minted (checkMilestones a (advance_streak now u) (save_user (advance_streak now u) s))"
    using False by (auto simp: recordActivity_eq[OF assms] split: option.splits)
  ultimately show ?thesis
    using False by (simp add: checkMilestones_def mintReward_def milestones_def split: option.split)
qed

theorem streak_reward_exact_witness:
  "minted (snd (recordActivity (\<lambda>_ _. True) (8 * 86400000) 2
     (one_user\<lparr>users := [(new_user 2 ''a@x'')\<lparr>u_stellarPublicKey := Some ''GKEY'', u_currentStreak := 6,
        u_lastActivityAt := Some (7 * 86400000)\<rparr>]\<rparr>))) = [(''GKEY'', 10)]"
proof -
  let ?u = "(new_user 2 ''a@x'')\<lparr>u_stellarPublicKey := Some ''GKEY'', u_currentStreak := 6,
        u_lastActivityAt := Some (7 * 86400000)\<rparr>"
  have "find_user 2 (one_user\<lparr>users := [?u]\<rparr>) = Some ?u" by (simp add: find_user_def new_user_def)
  from streak_reward_exact[OF this, of "\<lambda>_ _. True" "8 * 86400000"] show ?thesis
    by (simp add: next_streak_def isYesterday_def isSameDay_def utc_day_def ms_per_day_def milestones_def)
      (simp add: one_user_def empty_core_def)
qed

end
