(* ===== verification/Kyc.thy ===== *)
theory Kyc
  imports Entities
begin

text \<open>
  Identity verification (\<open>kyc/kyc.service.ts\<close>): submitting documents, SEP-12 customer updates, the
  provider's webhook and the approval query. The provider's answer to a session request and the
  encryption service are parameters: \<open>provider_reply\<close> lists what the code tells apart.
\<close>

subsection \<open>Operations\<close>

text \<open>No API key, an accepted session with its \<open>session_id ?? id ?? null\<close>, or a refusal or failure.\<close>

datatype provider_reply = NotConfigured | Session "string option" | Refused

record documents_dto =
  dd_stellarPublicKey :: string
  dd_documentType :: string
  dd_documentUrl :: string
  dd_selfieUrl :: "string option"

definition find_customer :: "string \<Rightarrow> core \<Rightarrow> kyc_customer option" where
  "find_customer key s = find (\<lambda>c. ky_stellarPublicKey c = key) (kycCustomers s)"

definition pending_customer :: "string \<Rightarrow> core \<Rightarrow> kyc_customer" where
  "pending_customer key s =
     (case find_customer key s of
        None \<Rightarrow> \<lparr>ky_id = fresh s, ky_stellarPublicKey = key, ky_status = KYC_PENDING, ky_providerId = None,
                 ky_documentData = None, ky_documentType = None, ky_documentUrl = None, ky_selfieUrl = None\<rparr>
      | Some c \<Rightarrow> c\<lparr>ky_status := KYC_PENDING\<rparr>)"

definition store_session :: "(string \<Rightarrow> string) \<Rightarrow> provider_reply \<Rightarrow> kyc_customer \<Rightarrow> kyc_customer" where
  "store_session encrypt reply c =
     (case reply of
        NotConfigured \<Rightarrow> c
      | Refused \<Rightarrow> c
      | Session raw \<Rightarrow>
          c\<lparr>ky_providerId := (case raw of None \<Rightarrow> None | Some p \<Rightarrow> if p = [] then None else Some (encrypt p))\<rparr>)"

definition save_customer :: "kyc_customer \<Rightarrow> core \<Rightarrow> core" where
  "save_customer c s =
     s\<lparr>kycCustomers := save_row ky_stellarPublicKey c (kycCustomers s), fresh := Suc (fresh s)\<rparr>"

definition submitDocuments ::
  "(string \<Rightarrow> string) \<Rightarrow> provider_reply \<Rightarrow> documents_dto \<Rightarrow> core \<Rightarrow> kyc_customer \<times> core" where
  "submitDocuments encrypt reply dto s =
     (let c = store_session encrypt reply
                ((pending_customer (dd_stellarPublicKey dto) s)
                  \<lparr>ky_documentType := Some (dd_documentType dto), ky_documentUrl := Some (dd_documentUrl dto),
                   ky_selfieUrl := dd_selfieUrl dto\<rparr>)
      in (c, save_customer c s))"

definition upsertCustomer ::
  "(string \<Rightarrow> string) \<Rightarrow> provider_reply \<Rightarrow> string \<Rightarrow> core \<Rightarrow> kyc_customer \<times> core" where
  "upsertCustomer encrypt reply key s =
     (let c = store_session encrypt reply (pending_customer key s) in (c, save_customer c s))"

definition decryptCustomer :: "(string \<Rightarrow> string option) \<Rightarrow> kyc_customer \<Rightarrow> kyc_customer" where
  "decryptCustomer decrypt c =
     (let dec = (\<lambda>v. case v of
                   None \<Rightarrow> None
                 | Some x \<Rightarrow> if x = [] then Some x
                            else (case decrypt x of None \<Rightarrow> Some x | Some y \<Rightarrow> Some y))
      in c\<lparr>ky_providerId := dec (ky_providerId c), ky_documentData := dec (ky_documentData c)\<rparr>)"

text \<open>An unknown key has the status \<open>none\<close> and no row.\<close>

definition getStatus :: "(string \<Rightarrow> string option) \<Rightarrow> string \<Rightarrow> core \<Rightarrow> kyc_status \<times> kyc_customer option" where
  "getStatus decrypt key s =
     (case find_customer key s of
        None \<Rightarrow> (KYC_NONE, None)
      | Some c \<Rightarrow> (ky_status c, Some (decryptCustomer decrypt c)))"

definition statusMap :: "(string \<times> kyc_status) list" where
  "statusMap = [(''APPROVED'', KYC_APPROVED), (''VERIFIED'', KYC_APPROVED), (''REJECTED'', KYC_REJECTED),
     (''DECLINED'', KYC_REJECTED), (''PENDING'', KYC_PENDING)]"

definition webhook_status :: "string \<Rightarrow> kyc_status" where
  "webhook_status status =
     (case map_of statusMap (map upper_char status) of None \<Rightarrow> KYC_PENDING | Some st \<Rightarrow> st)"

definition kyc_webhook :: "string option \<Rightarrow> string \<Rightarrow> core \<Rightarrow> core" where
  "kyc_webhook alias status s =
     (case alias of
        None \<Rightarrow> s
      | Some key \<Rightarrow>
          if key = [] then s
          else (case find_customer key s of
                  None \<Rightarrow> s
                | Some c \<Rightarrow>
                    s\<lparr>kycCustomers := save_row ky_stellarPublicKey (c\<lparr>ky_status := webhook_status status\<rparr>)
                                       (kycCustomers s)\<rparr>))"

definition isApproved :: "string \<Rightarrow> core \<Rightarrow> bool" where
  "isApproved key s = (case find_customer key s of None \<Rightarrow> False | Some c \<Rightarrow> ky_status c = KYC_APPROVED)"

subsection \<open>The status of a key\<close>

lemma pending_customer_simps [simp]:
  "ky_status (pending_customer k s) = KYC_PENDING"
  "ky_stellarPublicKey (pending_customer k s) = k"
  by (auto simp: pending_customer_def find_customer_def split: option.split dest: find_SomeD)

lemma store_session_simps [simp]:
  "ky_status (store_session e r c) = ky_status c"
  "ky_stellarPublicKey (store_session e r c) = ky_stellarPublicKey c"
  by (simp_all add: store_session_def split: provider_reply.split)

lemma find_customer_save [simp]:
  "find_customer k (save_customer c s) = (if ky_stellarPublicKey c = k then Some c else find_customer k s)"
  by (simp add: find_customer_def save_customer_def find_key_save_row)

lemma isApproved_submit:
  "isApproved k (snd (submitDocuments e r dto s)) \<longleftrightarrow> dd_stellarPublicKey dto \<noteq> k \<and> isApproved k s"
  "isApproved k (snd (upsertCustomer e r key s)) \<longleftrightarrow> key \<noteq> k \<and> isApproved k s"
  by (simp_all add: isApproved_def submitDocuments_def upsertCustomer_def Let_def)

lemma find_customer_webhook:
  "find_customer k (kyc_webhook a st s) =
     (if a = Some k \<and> k \<noteq> [] then map_option (\<lambda>c. c\<lparr>ky_status := webhook_status st\<rparr>) (find_customer k s)
      else find_customer k s)"
proof (cases "\<exists>j c. a = Some j \<and> j \<noteq> [] \<and> find_customer j s = Some c")
  case False
  then have "kyc_webhook a st s = s"
    by (cases a) (auto simp: kyc_webhook_def split: option.split)
  with False show ?thesis by auto
next
  case True
  then obtain j c where j: "a = Some j" "j \<noteq> []" "find_customer j s = Some c" by blast
  then have key: "ky_stellarPublicKey c = j" by (auto simp: find_customer_def dest: find_SomeD)
  let ?c = "c\<lparr>ky_status := webhook_status st\<rparr>"
  have "find_customer k (kyc_webhook a st s) = (if ky_stellarPublicKey ?c = k then Some ?c else find_customer k s)"
    using j find_key_save_row[of ky_stellarPublicKey k ?c "kycCustomers s"]
    by (simp add: kyc_webhook_def find_customer_def)
  with j key show ?thesis by auto
qed

lemma isApproved_webhook:
  "isApproved k (kyc_webhook a st s) \<longleftrightarrow>
     (if a = Some k \<and> k \<noteq> [] then find_customer k s \<noteq> None \<and> webhook_status st = KYC_APPROVED
      else isApproved k s)"
  by (auto simp: isApproved_def find_customer_webhook split: option.split)

datatype kyc_request =
    SubmitDocuments provider_reply documents_dto
  | UpsertCustomer provider_reply string
  | Webhook "string option" string

fun kyc_step :: "(string \<Rightarrow> string) \<Rightarrow> kyc_request \<Rightarrow> core \<Rightarrow> unit \<times> core" where
  "kyc_step e (SubmitDocuments r dto) s = ((), snd (submitDocuments e r dto s))"
| "kyc_step e (UpsertCustomer r key) s = ((), snd (upsertCustomer e r key s))"
| "kyc_step e (Webhook a st) s = ((), kyc_webhook a st s)"

fun concerns :: "string \<Rightarrow> kyc_request \<Rightarrow> bool" where
  "concerns k (SubmitDocuments r dto) \<longleftrightarrow> dd_stellarPublicKey dto = k"
| "concerns k (UpsertCustomer r key) \<longleftrightarrow> key = k"
| "concerns k (Webhook a st) \<longleftrightarrow> a = Some k"

definition approving :: "string \<Rightarrow> kyc_request \<Rightarrow> bool" where
  "approving k r \<longleftrightarrow> (\<exists>st. r = Webhook (Some k) st \<and> map upper_char st \<in> {''APPROVED'', ''VERIFIED''})"

lemma webhook_status_approved:
  "webhook_status st = KYC_APPROVED \<longleftrightarrow> map upper_char st \<in> {''APPROVED'', ''VERIFIED''}"
  by (auto simp: webhook_status_def statusMap_def split: option.split if_splits)

lemma isApproved_step:
  assumes "isApproved k (snd (kyc_step e r s))"
  shows "approving k r \<or> (isApproved k s \<and> (concerns k r \<longrightarrow> k = []))"
  using assms
  by (cases r) (auto simp: isApproved_submit isApproved_webhook approving_def webhook_status_approved split: if_splits)

lemma customers_unique_step:
  "distinct (map ky_stellarPublicKey (kycCustomers s)) \<Longrightarrow>
   distinct (map ky_stellarPublicKey (kycCustomers (snd (kyc_step e r s))))"
  by (cases r) (auto simp: submitDocuments_def upsertCustomer_def Let_def save_customer_def kyc_webhook_def
      save_row_distinct split: option.split)

interpretation kyc: invariant_machine "kyc_step e" "\<lambda>s. distinct (map ky_stellarPublicKey (kycCustomers s))" for e
  by unfold_locales (rule customers_unique_step)

subsection \<open>Properties\<close>

text \<open>A key counts as approved only because of an approving webhook of the provider (APPROVED or
  VERIFIED, in any case) after which nothing concerning that key arrived: a new submission, a
  customer update or another webhook verdict revokes the approval.\<close>

theorem approval_needs_webhook:
  assumes "isApproved k (run_ops (kyc_step e) rs s)" "\<not> isApproved k s" "k \<noteq> []"
  shows "\<exists>bef w aft. rs = bef @ w # aft \<and> approving k w \<and> (\<forall>r \<in> set aft. \<not> concerns k r \<or> approving k r)"
  using assms(1)
proof (induction rs rule: rev_induct)
  case Nil
  with assms(2) show ?case by simp
next
  case (snoc r rs)
  then have "approving k r \<or> (isApproved k (run_ops (kyc_step e) rs s) \<and> (concerns k r \<longrightarrow> k = []))"
    by (intro isApproved_step[of k e]) (simp add: run_ops_append)
  then show ?case
  proof
    assume "approving k r"
    then have "rs @ [r] = rs @ r # [] \<and> approving k r \<and> (\<forall>r \<in> set []. \<not> concerns k r \<or> approving k r)"
      by simp
    then show ?thesis by blast
  next
    assume "isApproved k (run_ops (kyc_step e) rs s) \<and> (concerns k r \<longrightarrow> k = [])"
    with snoc.IH assms(3) obtain bef w aft where
      "rs = bef @ w # aft" "approving k w" "\<forall>r \<in> set aft. \<not> concerns k r \<or> approving k r" "\<not> concerns k r"
      by blast
    then have "rs @ [r] = bef @ w # (aft @ [r]) \<and> approving k w
        \<and> (\<forall>r \<in> set (aft @ [r]). \<not> concerns k r \<or> approving k r)"
      by simp
    then show ?thesis by blast
  qed
qed

theorem approval_needs_webhook_witness:
  "\<exists>bef w aft. [UpsertCustomer NotConfigured ''GA'', Webhook (Some ''GA'') ''verified''] = bef @ w # aft
     \<and> approving ''GA'' w"
proof -
  let ?rs = "[UpsertCustomer NotConfigured ''GA'', Webhook (Some ''GA'') ''verified'']"
  have "map upper_char ''verified'' = ''VERIFIED''" by code_simp
  then have "isApproved ''GA'' (run_ops (kyc_step id) ?rs empty_core)"
    by (simp add: isApproved_webhook webhook_status_approved upsertCustomer_def Let_def)
  moreover have "\<not> isApproved ''GA'' empty_core"
    by (simp add: isApproved_def find_customer_def empty_core_def)
  ultimately show ?thesis using approval_needs_webhook[of "''GA''" id ?rs empty_core] by blast
qed

text \<open>The provider's session id is stored only in encrypted form and read back in clear, and a
  submission puts the key into the pending state whatever it was before.\<close>

theorem provider_id_roundtrip:
  assumes "\<And>x. decrypt (encrypt x) = Some x" "encrypt p \<noteq> []" "p \<noteq> []"
  shows "(\<exists>c. getStatus decrypt (dd_stellarPublicKey dto) (snd (submitDocuments encrypt (Session (Some p)) dto s))
            = (KYC_PENDING, Some c) \<and> ky_providerId c = Some p)
       \<and> map_option ky_providerId (find_customer (dd_stellarPublicKey dto)
            (snd (submitDocuments encrypt (Session (Some p)) dto s))) = Some (Some (encrypt p))"
  using assms by (simp add: getStatus_def submitDocuments_def Let_def decryptCustomer_def store_session_def)

theorem provider_id_roundtrip_witness:
  "\<exists>c. getStatus (\<lambda>x. Some (tl x)) ''GA'' (snd (submitDocuments (\<lambda>x. CHR ''#'' # x) (Session (Some ''s1''))
      \<lparr>dd_stellarPublicKey = ''GA'', dd_documentType = ''passport'', dd_documentUrl = ''u'', dd_selfieUrl = None\<rparr>
      empty_core)) = (KYC_PENDING, Some c) \<and> ky_providerId c = Some ''s1''"
  using provider_id_roundtrip[of "\<lambda>x. Some (tl x)" "\<lambda>x. CHR ''#'' # x" "''s1''"
      "\<lparr>dd_stellarPublicKey = ''GA'', dd_documentType = ''passport'', dd_documentUrl = ''u'', dd_selfieUrl = None\<rparr>"
      empty_core]
  by simp

end
