(* ===== verification/Credentials.thy ===== *)
theory Credentials
  imports Streaks Kyc
begin

text \<open>
  Credentials (\<open>credentials/credentials.service.ts\<close>): issuing for a course, a bundle and a learning
  path, and the lookups. The Stellar calls are parameters: \<open>ch_issue\<close> gives the hash of the
  on-chain credential or an error message, \<open>ch_mint\<close> whether a reward is minted (its failure is
  ignored), \<open>ch_progress\<close> the hash of a progress record or a failure that is ignored too.
\<close>

record stellar =
  ch_issue :: "string \<Rightarrow> credential_subject \<Rightarrow> string + string"
  ch_mint :: "string \<Rightarrow> int \<Rightarrow> bool"
  ch_progress :: "string \<Rightarrow> uuid \<Rightarrow> int \<Rightarrow> string option"

subsection \<open>Operations\<close>

definition find_credential :: "uuid \<Rightarrow> credential_subject \<Rightarrow> core \<Rightarrow> credential option" where
  "find_credential userId subject s =
     find (\<lambda>c. cr_userId c = userId \<and> cr_subject c = subject) (credentials s)"

text \<open>The three methods share their tail: the on-chain credential, the reward, the row.\<close>

definition store_credential ::
  "stellar \<Rightarrow> timestamp \<Rightarrow> uuid \<Rightarrow> credential_subject \<Rightarrow> string \<Rightarrow> int \<Rightarrow> string option \<Rightarrow> core
   \<Rightarrow> (core, credential) outcome" where
  "store_credential ch now userId subject key reward grade s =
     (case ch_issue ch key subject of
        Inl msg \<Rightarrow> (Inl (JsError msg), s)
      | Inr txHash \<Rightarrow>
          (let s1 = mintReward (ch_mint ch) key reward s;
               c = \<lparr>cr_id = fresh s1, cr_userId = userId, cr_subject = subject, cr_txHash = txHash,
                    cr_stellarPublicKey = key, cr_grade = grade, cr_issuedAt = now\<rparr>
           in (Inr c, s1\<lparr>credentials := credentials s1 @ [c], fresh := Suc (fresh s1)\<rparr>)))"

definition issue ::
  "stellar \<Rightarrow> timestamp \<Rightarrow> uuid \<Rightarrow> uuid \<Rightarrow> string \<Rightarrow> core \<Rightarrow> (core, credential) outcome" where
  "issue ch now userId courseId key s =
     (case find_credential userId (ForCourse courseId) s of
        Some existing \<Rightarrow> (Inr existing, s)
      | None \<Rightarrow>
          (case find_live_course courseId s of
             None \<Rightarrow> (Inl (NotFoundException ''Course not found''), s)
           | Some course \<Rightarrow>
               if co_requiresKyc course \<and> \<not> isApproved key s
               then (Inl (ForbiddenException
                       ''KYC verification required before credential issuance for this course''), s)
               else store_credential ch now userId (ForCourse courseId) key 100 (Some ''Pass'') s))"

definition issueBundle ::
  "stellar \<Rightarrow> timestamp \<Rightarrow> uuid \<Rightarrow> uuid \<Rightarrow> string \<Rightarrow> core \<Rightarrow> (core, credential) outcome" where
  "issueBundle ch now userId bundleId key s =
     (case find_credential userId (ForBundle bundleId) s of
        Some existing \<Rightarrow> (Inr existing, s)
      | None \<Rightarrow> store_credential ch now userId (ForBundle bundleId) key 500 None s)"

definition issueLearningPath ::
  "stellar \<Rightarrow> timestamp \<Rightarrow> uuid \<Rightarrow> uuid \<Rightarrow> string \<Rightarrow> core \<Rightarrow> (core, credential) outcome" where
  "issueLearningPath ch now userId learningPathId key s =
     (case find_credential userId (ForLearningPath learningPathId) s of
        Some existing \<Rightarrow> (Inr existing, s)
      | None \<Rightarrow> store_credential ch now userId (ForLearningPath learningPathId) key 750 None s)"

definition credentials_of :: "uuid \<Rightarrow> core \<Rightarrow> credential list" where
  "credentials_of userId s = order_by_desc cr_issuedAt (filter (\<lambda>c. cr_userId c = userId) (credentials s))"

definition credential_by_id :: "uuid \<Rightarrow> core \<Rightarrow> http_error + credential" where
  "credential_by_id i s =
     (case find (\<lambda>c. cr_id c = i) (credentials s) of
        None \<Rightarrow> Inl (NotFoundException ''Credential not found'') | Some c \<Rightarrow> Inr c)"

definition verify :: "string \<Rightarrow> core \<Rightarrow> credential option \<times> bool" where
  "verify txHash s =
     (let c = find (\<lambda>c. cr_txHash c = txHash) (credentials s) in (c, c \<noteq> None))"

subsection \<open>One contract for the three ways to issue\<close>

definition credentials_ok :: "core \<Rightarrow> bool" where
  "credentials_ok s \<longleftrightarrow>
     distinct (map cr_id (credentials s)) \<and>
     distinct (map (\<lambda>c. (cr_userId c, cr_subject c)) (credentials s)) \<and>
     (\<forall>c \<in> set (credentials s). cr_id c < fresh s)"

definition reward_of :: "credential_subject \<Rightarrow> int" where
  "reward_of subject = (case subject of ForCourse _ \<Rightarrow> 100 | ForBundle _ \<Rightarrow> 500 | ForLearningPath _ \<Rightarrow> 750)"

text \<open>An issuer returns a stored credential of the subject, adds at most one row and one reward, both
  only when there was none, and changes no other row.\<close>

locale credential_issuer =
  fixes issuer :: "stellar \<Rightarrow> timestamp \<Rightarrow> uuid \<Rightarrow> 'k \<Rightarrow> string \<Rightarrow> core \<Rightarrow> (core, credential) outcome"
    and subject :: "'k \<Rightarrow> credential_subject"
  assumes existing: "find_credential u (subject k) s = Some c \<Longrightarrow> issuer ch now u k key s = (Inr c, s)"
    and fresh_issue: "find_credential u (subject k) s = None \<Longrightarrow> issuer ch now u k key s = (Inr c, s') \<Longrightarrow>
      cr_userId c = u \<and> cr_subject c = subject k \<and> cr_id c = fresh s \<and> cr_stellarPublicKey c = key \<and>
      ch_issue ch key (subject k) = Inr (cr_txHash c) \<and>
      s' = s\<lparr>credentials := credentials s @ [c], fresh := Suc (fresh s),
             minted := minted s @ (if ch_mint ch key (reward_of (subject k)) then [(key, reward_of (subject k))] else [])\<rparr>"
    and failed: "issuer ch now u k key s = (Inl err, s') \<Longrightarrow> s' = s"
begin

lemma issuer_cases:
  obtains (Existing) c where "find_credential u (subject k) s = Some c" "issuer ch now u k key s = (Inr c, s)"
  | (Failed) err where "find_credential u (subject k) s = None" "issuer ch now u k key s = (Inl err, s)"
  | (Issued) c where "find_credential u (subject k) s = None" "cr_userId c = u" "cr_subject c = subject k"
      "cr_id c = fresh s" "issuer ch now u k key s = (Inr c,
        s\<lparr>credentials := credentials s @ [c], fresh := Suc (fresh s),
          minted := minted s @ (if ch_mint ch key (reward_of (subject k)) then [(key, reward_of (subject k))] else [])\<rparr>)"
proof (cases "find_credential u (subject k) s")
  case (Some c)
  then show thesis using Existing existing by blast
next
  case None
  show thesis
  proof (cases "issuer ch now u k key s")
    case (Pair r s')
    then show thesis
      using Failed Issued failed fresh_issue None by (cases r) (blast, metis)
  qed
qed

lemma issued_is_found:
  assumes "issuer ch now u k key s = (Inr c, s')"
  shows "find_credential u (subject k) s' = Some c"
proof (cases rule: issuer_cases[of u k s ch now key])
  case (Existing c')
  with assms show ?thesis by simp
next
  case (Failed err)
  with assms show ?thesis by simp
next
  case (Issued c')
  have "find P (xs @ [x]) = Some x" if "find P xs = None" "P x" for P xs and x :: credential
    using that by (induction xs) (auto split: if_splits)
  with Issued assms show ?thesis by (auto simp: find_credential_def)
qed

lemma idempotent:
  assumes "issuer ch now u k key s = (Inr c, s')"
  shows "issuer ch' now' u k key' s' = (Inr c, s')"
  by (rule existing[OF issued_is_found[OF assms]])

lemma keeps_ok:
  assumes "credentials_ok s"
  shows "credentials_ok (snd (issuer ch now u k key s))"
proof (cases rule: issuer_cases[of u k s ch now key])
  case (Issued c)
  from Issued(1) have "(u, subject k) \<notin> (\<lambda>c. (cr_userId c, cr_subject c)) ` set (credentials s)"
    by (auto simp: find_credential_def find_None)
  with assms show ?thesis unfolding Issued(5) by (force simp: credentials_ok_def Issued)
qed (use assms in simp_all)

lemma frame:
  "bundleEnrollments (snd (issuer ch now u k key s)) = bundleEnrollments s"
  "bundles (snd (issuer ch now u k key s)) = bundles s"
  "users (snd (issuer ch now u k key s)) = users s"
  "progress (snd (issuer ch now u k key s)) = progress s"
  "enrollments (snd (issuer ch now u k key s)) = enrollments s"
  "events (snd (issuer ch now u k key s)) = events s"
  by (rule issuer_cases[of u k s ch now key]; simp)+

end

lemma store_credential_Inr:
  "store_credential ch now u subj key reward grade s = (Inr c, s') \<Longrightarrow>
     cr_userId c = u \<and> cr_subject c = subj \<and> cr_id c = fresh s \<and> cr_stellarPublicKey c = key \<and>
     ch_issue ch key subj = Inr (cr_txHash c) \<and>
     s' = s\<lparr>credentials := credentials s @ [c], fresh := Suc (fresh s),
            minted := minted s @ (if ch_mint ch key reward then [(key, reward)] else [])\<rparr>"
  by (auto simp: store_credential_def Let_def mintReward_def split: sum.splits)

lemma store_credential_Inl:
  "store_credential ch now u subj key reward grade s = (Inl err, s') \<Longrightarrow> s' = s"
  by (auto simp: store_credential_def Let_def split: sum.splits)

interpretation course_issuer: credential_issuer issue ForCourse
  by unfold_locales
    (auto simp: issue_def reward_of_def split: option.splits if_splits
      dest: store_credential_Inr store_credential_Inl)

interpretation bundle_issuer: credential_issuer issueBundle ForBundle
  by unfold_locales
    (auto simp: issueBundle_def reward_of_def split: option.splits
      dest: store_credential_Inr store_credential_Inl)

interpretation path_issuer: credential_issuer issueLearningPath ForLearningPath
  by unfold_locales
    (auto simp: issueLearningPath_def reward_of_def split: option.splits
      dest: store_credential_Inr store_credential_Inl)

subsection \<open>Histories of verification and issuing\<close>

datatype credential_request =
    IssueCourse timestamp uuid uuid string
  | IssueBundle timestamp uuid uuid string
  | IssuePath timestamp uuid uuid string
  | KycRequest kyc_request

fun credential_step ::
  "stellar \<Rightarrow> (string \<Rightarrow> string) \<Rightarrow> credential_request \<Rightarrow> core \<Rightarrow> http_error option \<times> core" where
  "credential_step ch e (IssueCourse now u c key) s =
     map_prod (case_sum Some (\<lambda>_. None)) (\<lambda>x. x) (issue ch now u c key s)"
| "credential_step ch e (IssueBundle now u b key) s =
     map_prod (case_sum Some (\<lambda>_. None)) (\<lambda>x. x) (issueBundle ch now u b key s)"
| "credential_step ch e (IssuePath now u p key) s =
     map_prod (case_sum Some (\<lambda>_. None)) (\<lambda>x. x) (issueLearningPath ch now u p key s)"
| "credential_step ch e (KycRequest r) s = (None, snd (kyc_step e r s))"

lemma kyc_step_frame:
  "credentials (snd (kyc_step e r s)) = credentials s" "minted (snd (kyc_step e r s)) = minted s"
  "courses (snd (kyc_step e r s)) = courses s" "fresh s \<le> fresh (snd (kyc_step e r s))"
  by (cases r; simp add: submitDocuments_def upsertCustomer_def save_customer_def Let_def kyc_webhook_def
      split: option.split)+

lemma issue_frame:
  "courses (snd (issue ch now u c key s)) = courses s"
  "kycCustomers (snd (issue ch now u c key s)) = kycCustomers s"
  "length (minted s) \<le> length (minted (snd (issue ch now u c key s)))"
  by (rule course_issuer.issuer_cases[of u c s ch now key]; simp)+

lemma issueBundle_frame:
  "courses (snd (issueBundle ch now u b key s)) = courses s"
  "kycCustomers (snd (issueBundle ch now u b key s)) = kycCustomers s"
  "length (minted s) \<le> length (minted (snd (issueBundle ch now u b key s)))"
  by (rule bundle_issuer.issuer_cases[of u b s ch now key]; simp)+

lemma issueLearningPath_frame:
  "courses (snd (issueLearningPath ch now u p key s)) = courses s"
  "kycCustomers (snd (issueLearningPath ch now u p key s)) = kycCustomers s"
  "length (minted s) \<le> length (minted (snd (issueLearningPath ch now u p key s)))"
  by (rule path_issuer.issuer_cases[of u p s ch now key]; simp)+

lemma credential_step_ok: "credentials_ok s \<Longrightarrow> credentials_ok (snd (credential_step ch e r s))"
proof (cases r)
  case (KycRequest k)
  assume "credentials_ok s"
  then show ?thesis using kyc_step_frame(1)[of e k s] kyc_step_frame(4)[of s e k] by (force simp: KycRequest credentials_ok_def)
qed (simp_all add: course_issuer.keeps_ok bundle_issuer.keeps_ok path_issuer.keeps_ok)

lemma credential_step_courses: "courses (snd (credential_step ch e r s)) = courses s"
  by (cases r) (simp_all add: issue_frame issueBundle_frame issueLearningPath_frame kyc_step_frame)

interpretation crediting: invariant_machine "credential_step ch e" credentials_ok for ch e
  by unfold_locales (rule credential_step_ok)

interpretation rewards: monotone_machine "credential_step ch e" "\<lambda>s. length (minted s)" for ch e
proof
  fix r s
  show "length (minted s) \<le> length (minted (snd (credential_step ch e r s)))"
    by (cases r) (simp_all add: issue_frame issueBundle_frame issueLearningPath_frame kyc_step_frame)
qed

lemma run_courses: "courses (run_ops (credential_step ch e) rs s) = courses s"
  by (induction rs arbitrary: s) (simp_all add: credential_step_courses)

lemma isApproved_cong: "kycCustomers s' = kycCustomers s \<Longrightarrow> isApproved k s' = isApproved k s"
  by (simp add: isApproved_def find_customer_def)

lemma isApproved_credential_step:
  assumes "isApproved k (snd (credential_step ch e r s))"
  shows "isApproved k s \<or> (\<exists>w. r = KycRequest w \<and> approving k w)"
proof (cases r)
  case (KycRequest w)
  with assms isApproved_step[of k e w s] show ?thesis by auto
next
  case (IssueCourse now u c key)
  with assms isApproved_cong[OF issue_frame(2)] show ?thesis by simp
next
  case (IssueBundle now u c key)
  with assms isApproved_cong[OF issueBundle_frame(2)] show ?thesis by simp
next
  case (IssuePath now u c key)
  with assms isApproved_cong[OF issueLearningPath_frame(2)] show ?thesis by simp
qed

lemma approval_in_history:
  "isApproved k (run_ops (credential_step ch e) rs s) \<Longrightarrow>
   isApproved k s \<or> (\<exists>w. KycRequest w \<in> set rs \<and> approving k w)"
proof (induction rs rule: rev_induct)
  case (snoc r rs)
  then show ?case
    using isApproved_credential_step[of k ch e r "run_ops (credential_step ch e) rs s"]
    by (auto simp: run_ops_append)
qed simp

lemma issue_needs_approval:
  assumes "find_credential u (ForCourse i) s = None" "issue ch now u i key s = (Inr c, s')"
    and "find_live_course i s = Some crs" "co_requiresKyc crs"
  shows "isApproved key s"
  using assms by (auto simp: issue_def split: if_splits)

lemma new_credential:
  assumes "c \<in> set (credentials (snd (credential_step ch e r s)))" "c \<notin> set (credentials s)"
    and "cr_subject c = ForCourse i" "find_live_course i s = Some crs" "co_requiresKyc crs"
  shows "isApproved (cr_stellarPublicKey c) s"
proof (cases r)
  case (IssueCourse now u j key)
  show ?thesis
  proof (cases rule: course_issuer.issuer_cases[of u j s ch now key])
    case (Issued c')
    with assms IssueCourse have "c = c'" "j = i" by auto
    with Issued assms(4,5) have "isApproved key s"
      by (intro issue_needs_approval[of u i s ch now key]) auto
    moreover have "cr_stellarPublicKey c = key"
      using course_issuer.fresh_issue[OF Issued(1,5)] \<open>c = c'\<close> by simp
    ultimately show ?thesis by simp
  qed (use assms IssueCourse in auto)
next
  case (IssueBundle now u j key)
  show ?thesis
    by (rule bundle_issuer.issuer_cases[of u j s ch now key]) (use assms IssueBundle in auto)
next
  case (IssuePath now u j key)
  show ?thesis
    by (rule path_issuer.issuer_cases[of u j s ch now key]) (use assms IssuePath in auto)
next
  case (KycRequest k)
  with assms show ?thesis by (simp add: kyc_step_frame)
qed

subsection \<open>Properties\<close>

text \<open>C11: A credential of a course that requires identity verification exists only for a key the
  provider approved: in any history of verification and issuing requests, a course credential that
  was not there at the start implies an approving webhook for its key somewhere in the history,
  unless the key was approved already.\<close>

theorem kyc_course_credential_needs_approval:
  assumes "c \<in> set (credentials (run_ops (credential_step ch e) rs s))" "c \<notin> set (credentials s)"
    and "cr_subject c = ForCourse i" "find_live_course i s = Some crs" "co_requiresKyc crs"
  shows "isApproved (cr_stellarPublicKey c) s
       \<or> (\<exists>w. KycRequest w \<in> set rs \<and> approving (cr_stellarPublicKey c) w)"
  using assms(1)
proof (induction rs rule: rev_induct)
  case Nil
  with assms(2) show ?case by simp
next
  case (snoc r rs)
  let ?t = "run_ops (credential_step ch e) rs s"
  show ?case
  proof (cases "c \<in> set (credentials ?t)")
    case True
    with snoc.IH show ?thesis by auto
  next
    case False
    have "find_live_course i ?t = Some crs"
      using assms(4) by (simp add: find_live_course_def run_courses)
    with snoc.prems False assms(3,5) have "isApproved (cr_stellarPublicKey c) ?t"
      by (intro new_credential[of c ch e r]) (simp_all add: run_ops_append)
    then show ?thesis using approval_in_history by fastforce
  qed
qed

definition kyc_course :: core where
  "kyc_course = empty_core\<lparr>courses := [(new_course 10 ''KYC'')\<lparr>co_requiresKyc := True\<rparr>], fresh := 11\<rparr>"

definition chain_ok :: stellar where
  "chain_ok = \<lparr>ch_issue = (\<lambda>_ _. Inr ''tx''), ch_mint = (\<lambda>_ _. True), ch_progress = (\<lambda>_ _ _. Some ''px'')\<rparr>"

definition issued_row :: credential where
  "issued_row = \<lparr>cr_id = 12, cr_userId = 2, cr_subject = ForCourse 10, cr_txHash = ''tx'',
     cr_stellarPublicKey = ''GA'', cr_grade = Some ''Pass'', cr_issuedAt = 7\<rparr>"

definition kyc_history :: "credential_request list" where
  "kyc_history = [KycRequest (UpsertCustomer NotConfigured ''GA''),
     KycRequest (Webhook (Some ''GA'') ''APPROVED''), IssueCourse 7 2 10 ''GA'']"

lemma kyc_history_run: "credentials (run_ops (credential_step chain_ok id) kyc_history kyc_course) = [issued_row]"
proof -
  have "map upper_char ''APPROVED'' = ''APPROVED''" by code_simp
  then show ?thesis
    by (simp add: kyc_history_def kyc_course_def empty_core_def chain_ok_def issued_row_def new_course_def
        upsertCustomer_def pending_customer_def store_session_def save_customer_def find_customer_def
        kyc_webhook_def webhook_status_def statusMap_def issue_def find_credential_def find_live_course_def
        isApproved_def store_credential_def mintReward_def Let_def save_row_def)
qed

theorem kyc_course_credential_needs_approval_witness:
  "\<exists>w. KycRequest w \<in> set kyc_history \<and> approving ''GA'' w"
proof -
  have "find_live_course 10 kyc_course = Some ((new_course 10 ''KYC'')\<lparr>co_requiresKyc := True\<rparr>)"
    by (simp add: find_live_course_def kyc_course_def new_course_def)
  moreover have "\<not> isApproved (cr_stellarPublicKey issued_row) kyc_course"
    by (simp add: isApproved_def find_customer_def kyc_course_def empty_core_def)
  ultimately show ?thesis
    using kyc_course_credential_needs_approval[of issued_row chain_ok id kyc_history kyc_course 10
        "(new_course 10 ''KYC'')\<lparr>co_requiresKyc := True\<rparr>"] kyc_history_run
    by (simp add: issued_row_def) (simp add: kyc_course_def empty_core_def)
qed

text \<open>Issuing is idempotent: once a credential of a course, bundle or learning path was returned,
  any later request for it, with another key or another state of the ledger too, returns the same
  credential, stores nothing and mints nothing; the first issue mints at most the reward of its
  kind.\<close>

theorem issue_idempotent:
  assumes "issue ch now u c key s = (Inr cred, s')"
  shows "issue ch' now' u c key' s' = (Inr cred, s')
       \<and> (minted s' = minted s \<or> minted s' = minted s @ [(key, 100)])"
proof -
  have "minted s' = minted s \<or> minted s' = minted s @ [(key, 100)]"
    using assms by (cases rule: course_issuer.issuer_cases[of u c s ch now key]) (auto simp: reward_of_def)
  then show ?thesis using course_issuer.idempotent[OF assms] by simp
qed

theorem issue_idempotent_witness:
  "fst (issue chain_ok 9 2 10 ''GB'' (kyc_course\<lparr>credentials := [issued_row]\<rparr>)) = Inr issued_row"
proof -
  have "issue chain_ok 7 2 10 ''GA'' (kyc_course\<lparr>credentials := [issued_row]\<rparr>)
      = (Inr issued_row, kyc_course\<lparr>credentials := [issued_row]\<rparr>)"
    by (simp add: issue_def find_credential_def issued_row_def)
  from issue_idempotent[OF this] show ?thesis by simp
qed

text \<open>In every reachable state a user holds at most one credential of each course, bundle and
  learning path.\<close>

theorem one_credential_per_subject:
  assumes "credentials_ok s"
    and "c \<in> set (credentials (run_ops (credential_step ch e) rs s))"
    and "c' \<in> set (credentials (run_ops (credential_step ch e) rs s))"
    and "cr_userId c = cr_userId c'" "cr_subject c = cr_subject c'"
  shows "c = c'"
proof -
  have "credentials_ok (run_ops (credential_step ch e) rs s)" by (rule crediting.run_preserves[OF assms(1)])
  then have "inj_on (\<lambda>c. (cr_userId c, cr_subject c)) (set (credentials (run_ops (credential_step ch e) rs s)))"
    by (simp add: credentials_ok_def distinct_map)
  then show ?thesis using assms(2-5) by (auto simp: inj_on_def)
qed

theorem one_credential_per_subject_witness:
  "\<exists>c. \<forall>c'. (c' \<in> set (credentials (run_ops (credential_step chain_ok id) kyc_history kyc_course))
      \<and> cr_userId c' = 2 \<and> cr_subject c' = ForCourse 10) = (c' = c)"
proof (intro exI allI iffI)
  let ?S = "set (credentials (run_ops (credential_step chain_ok id) kyc_history kyc_course))"
  have ok: "credentials_ok kyc_course" by (simp add: credentials_ok_def kyc_course_def empty_core_def)
  have row: "issued_row \<in> ?S" "cr_userId issued_row = 2" "cr_subject issued_row = ForCourse 10"
    by (simp_all add: kyc_history_run) (simp_all add: issued_row_def)
  fix c'
  show "c' = issued_row" if "c' \<in> ?S \<and> cr_userId c' = 2 \<and> cr_subject c' = ForCourse 10"
    using one_credential_per_subject[OF ok, of c' chain_ok id kyc_history issued_row] that row by simp
  show "c' \<in> ?S \<and> cr_userId c' = 2 \<and> cr_subject c' = ForCourse 10" if "c' = issued_row"
    using that row by simp
qed
end
