(* ===== verification/Bundles.thy ===== *)
theory Bundles
  imports Enrollments Credentials
begin

text \<open>
  Course bundles (\<open>bundles/bundles.service.ts\<close>): the catalogue, the purchase that enrolls the buyer
  in every course of the bundle, and the completion check that runs when a course reaches 100%.
  Both loops go over other services: the purchase over \<open>enroll\<close>, the completion over
  \<open>issueBundle\<close>; what a service threw in the middle of a loop stops it, with the writes made so far
  kept.
\<close>

record bundle_dto =
  bd_title :: "string option"
  bd_description :: "string option"
  bd_price :: "rat option"
  bd_discountPrice :: "rat option"
  bd_isPublished :: "bool option"
  bd_courseIds :: "uuid list option"

subsection \<open>Catalogue\<close>

definition bundles_findAll :: "bool \<Rightarrow> core \<Rightarrow> course_bundle list" where
  "bundles_findAll publishedOnly s =
     order_by_desc bu_createdAt (filter (\<lambda>b. publishedOnly \<longrightarrow> bu_isPublished b) (bundles s))"

definition bundles_findOne :: "uuid \<Rightarrow> core \<Rightarrow> http_error + course_bundle" where
  "bundles_findOne i s =
     (case find (\<lambda>b. bu_id b = i) (bundles s) of
        None \<Rightarrow> Inl (NotFoundException ''Bundle not found'') | Some b \<Rightarrow> Inr b)"

text \<open>\<open>findBy({ id: In(ids) })\<close>: the rows of the table whose key is listed.\<close>

definition courses_in :: "uuid list \<Rightarrow> core \<Rightarrow> uuid list" where
  "courses_in ids s = map co_id (filter (\<lambda>c. co_id c \<in> set ids) (courses s))"

definition or_else :: "'a option \<Rightarrow> 'a \<Rightarrow> 'a" where
  "or_else v d = (case v of None \<Rightarrow> d | Some x \<Rightarrow> x)"

definition bundle_create :: "timestamp \<Rightarrow> bundle_dto \<Rightarrow> core \<Rightarrow> (core, course_bundle) outcome" where
  "bundle_create now dto s =
     (let ids = or_else (bd_courseIds dto) []; found = courses_in ids s
      in if length found \<noteq> length ids
         then (Inl (BadRequestException ''One or more courses not found''), s)
         else
           (let b = \<lparr>bu_id = fresh s, bu_title = or_else (bd_title dto) [],
                     bu_description = or_else (bd_description dto) [], bu_price = or_else (bd_price dto) 0,
                     bu_discountPrice = bd_discountPrice dto,
                     bu_isPublished = or_else (bd_isPublished dto) False, bu_courses = found,
                     bu_createdAt = now\<rparr>
            in (Inr b, s\<lparr>bundles := bundles s @ [b], fresh := Suc (fresh s)\<rparr>)))"

definition bundle_update :: "uuid \<Rightarrow> bundle_dto \<Rightarrow> core \<Rightarrow> (core, course_bundle) outcome" where
  "bundle_update i dto s =
     (case bundles_findOne i s of
        Inl e \<Rightarrow> (Inl e, s)
      | Inr b \<Rightarrow>
          (let b' = b\<lparr>bu_title := or_else (bd_title dto) (bu_title b),
                      bu_description := or_else (bd_description dto) (bu_description b),
                      bu_price := or_else (bd_price dto) (bu_price b),
                      bu_discountPrice := (case bd_discountPrice dto of None \<Rightarrow> bu_discountPrice b | v \<Rightarrow> v),
                      bu_isPublished := or_else (bd_isPublished dto) (bu_isPublished b)\<rparr>
           in case bd_courseIds dto of
                None \<Rightarrow> (Inr b', s\<lparr>bundles := save_row bu_id b' (bundles s)\<rparr>)
              | Some ids \<Rightarrow>
                  (let found = courses_in ids s; b'' = b'\<lparr>bu_courses := found\<rparr>
                   in if length found \<noteq> length ids
                      then (Inl (BadRequestException ''One or more courses not found''), s)
                      else (Inr b'', s\<lparr>bundles := save_row bu_id b'' (bundles s)\<rparr>))))"

text \<open>Removing a bundle cascades to its purchases and its credentials.\<close>

definition bundle_delete :: "uuid \<Rightarrow> core \<Rightarrow> (core, unit) outcome" where
  "bundle_delete i s =
     (case bundles_findOne i s of
        Inl e \<Rightarrow> (Inl e, s)
      | Inr b \<Rightarrow>
          (Inr (), s\<lparr>bundles := delete_rows (\<lambda>x. bu_id x = bu_id b) (bundles s),
                     bundleEnrollments := delete_rows (\<lambda>e. be_bundleId e = bu_id b) (bundleEnrollments s),
                     credentials := delete_rows (\<lambda>c. cr_subject c = ForBundle (bu_id b)) (credentials s)\<rparr>))"

subsection \<open>Purchase\<close>

text \<open>Enroll in each course; a conflict is skipped, every other exception stops the loop.\<close>

fun enroll_all ::
  "timestamp \<Rightarrow> (uuid \<Rightarrow> uuid \<Rightarrow> string + string) \<Rightarrow> bool \<Rightarrow> uuid \<Rightarrow> uuid list \<Rightarrow> core \<Rightarrow> (core, unit) outcome" where
  "enroll_all now chain removeOk userId [] s = (Inr (), s)"
| "enroll_all now chain removeOk userId (c # cs) s =
     (case enroll now chain removeOk userId c False s of
        (Inr _, s') \<Rightarrow> enroll_all now chain removeOk userId cs s'
      | (Inl (ConflictException _), s') \<Rightarrow> enroll_all now chain removeOk userId cs s'
      | (Inl e, s') \<Rightarrow> (Inl e, s'))"

definition find_purchase :: "uuid \<Rightarrow> uuid \<Rightarrow> core \<Rightarrow> bundle_enrollment option" where
  "find_purchase userId bundleId s =
     find (\<lambda>e. be_userId e = userId \<and> be_bundleId e = bundleId) (bundleEnrollments s)"

definition purchase ::
  "timestamp \<Rightarrow> (uuid \<Rightarrow> uuid \<Rightarrow> string + string) \<Rightarrow> bool \<Rightarrow> uuid \<Rightarrow> uuid \<Rightarrow> core
   \<Rightarrow> (core, bundle_enrollment) outcome" where
  "purchase now chain removeOk userId bundleId s =
     (case bundles_findOne bundleId s of
        Inl e \<Rightarrow> (Inl e, s)
      | Inr b \<Rightarrow>
          if \<not> bu_isPublished b then (Inl (BadRequestException ''Bundle is not available for purchase''), s)
          else if find_purchase userId bundleId s \<noteq> None
          then (Inl (ConflictException ''Already purchased this bundle''), s)
          else if find_user userId s = None then (Inl ForeignKeyViolation, s)
          else
            (let be = \<lparr>be_id = fresh s, be_userId = userId, be_bundleId = bundleId, be_enrolledAt = now,
                       be_completedAt = None\<rparr>;
                 s1 = s\<lparr>bundleEnrollments := bundleEnrollments s @ [be], fresh := Suc (fresh s)\<rparr>
             in case enroll_all now chain removeOk userId (bu_courses b) s1 of
                  (Inl e, s2) \<Rightarrow> (Inl e, s2)
                | (Inr _, s2) \<Rightarrow> (Inr be, s2)))"

definition getEnrollments :: "uuid \<Rightarrow> core \<Rightarrow> bundle_enrollment list" where
  "getEnrollments userId s = filter (\<lambda>e. be_userId e = userId) (bundleEnrollments s)"

subsection \<open>Completion\<close>

definition bundle_completed :: "uuid \<Rightarrow> course_bundle \<Rightarrow> core \<Rightarrow> bool" where
  "bundle_completed userId b s =
     (let es = filter (\<lambda>e. en_courseId e \<in> set (bu_courses b)) (enrollments_of userId s)
      in length es = length (bu_courses b) \<and> list_all (\<lambda>e. en_completedAt e \<noteq> None) es)"

fun complete_bundles ::
  "stellar \<Rightarrow> timestamp \<Rightarrow> uuid \<Rightarrow> uuid \<Rightarrow> bundle_enrollment list \<Rightarrow> core \<Rightarrow> (core, unit) outcome" where
  "complete_bundles ch now userId courseId [] s = (Inr (), s)"
| "complete_bundles ch now userId courseId (e # es) s =
     (case find (\<lambda>b. bu_id b = be_bundleId e) (bundles s) of
        None \<Rightarrow> (Inl JsTypeError, s)
      | Some b \<Rightarrow>
          if courseId \<in> set (bu_courses b) \<and> bundle_completed userId b s
          then (let s1 = s\<lparr>bundleEnrollments := save_row be_id (e\<lparr>be_completedAt := Some now\<rparr>) (bundleEnrollments s)\<rparr>
                in case Option.bind (find_user userId s1) u_stellarPublicKey of
                     None \<Rightarrow> complete_bundles ch now userId courseId es s1
                   | Some key \<Rightarrow>
                       (if key = [] then complete_bundles ch now userId courseId es s1
                        else case issueBundle ch now userId (be_bundleId e) key s1 of
                          (Inl err, s2) \<Rightarrow> (Inl err, s2)
                        | (Inr _, s2) \<Rightarrow> complete_bundles ch now userId courseId es s2))
          else complete_bundles ch now userId courseId es s)"

definition bundles_updateProgress ::
  "stellar \<Rightarrow> timestamp \<Rightarrow> uuid \<Rightarrow> uuid \<Rightarrow> core \<Rightarrow> (core, unit) outcome" where
  "bundles_updateProgress ch now userId courseId s =
     complete_bundles ch now userId courseId
       (filter (\<lambda>e. be_userId e = userId \<and> be_completedAt e = None) (bundleEnrollments s)) s"

subsection \<open>What the purchase loop keeps\<close>

lemma enroll_frame:
  "bundleEnrollments (snd (enroll now ch rm u c ovr s)) = bundleEnrollments s"
  "bundles (snd (enroll now ch rm u c ovr s)) = bundles s"
  "users (snd (enroll now ch rm u c ovr s)) = users s"
  by (simp_all add: enroll_def Let_def split: sum.split)

lemma enroll_conflict:
  assumes "enroll now ch rm u c ovr s = (Inl (ConflictException m), s')"
  shows "find_enrollment u c s \<noteq> None \<and> s' = s"
proof (cases "find_enrollment u c s")
  case None
  then show ?thesis
    using assms gate.never_conflict[of u c ovr s m]
    by (auto simp: enroll_def Let_def split: sum.splits if_splits)
next
  case (Some e)
  with assms show ?thesis by (simp add: enroll_def)
qed

lemma enroll_keeps_rows:
  assumes "enrollments_ok s" "find_enrollment x y s \<noteq> None"
  shows "find_enrollment x y (snd (enroll now ch rm u c ovr s)) \<noteq> None"
  using assms(2) by (cases rule: enroll_cases[OF assms(1), of now ch rm u c ovr])
    (auto simp: find_enrollment_def find_None)

lemma enroll_success_row:
  assumes "enrollments_ok s" "enroll now ch rm u c ovr s = (Inr e, s')"
  shows "find_enrollment u c s' \<noteq> None"
  using assms(2) by (cases rule: enroll_cases[OF assms(1), of now ch rm u c ovr])
    (auto simp: find_enrollment_def find_None)

lemma enroll_all_Cons:
  "enroll_all now ch rm u (c # cs) s =
     (let r = enroll now ch rm u c False s
      in if (\<exists>x. fst r = Inr x) \<or> (\<exists>m. fst r = Inl (ConflictException m))
         then enroll_all now ch rm u cs (snd r)
         else (case fst r of Inl e \<Rightarrow> (Inl e, snd r) | Inr _ \<Rightarrow> (Inr (), snd r)))"
  by (cases "enroll now ch rm u c False s") (auto simp: Let_def split: sum.split http_error.split)

lemma enroll_all_frame:
  "bundleEnrollments (snd (enroll_all now ch rm u cs s)) = bundleEnrollments s
   \<and> bundles (snd (enroll_all now ch rm u cs s)) = bundles s
   \<and> users (snd (enroll_all now ch rm u cs s)) = users s"
  by (induction cs arbitrary: s)
    (auto simp: enroll_all_Cons Let_def enroll_frame simp del: enroll_all.simps(2) split: sum.split)

lemma enroll_all_ok:
  assumes "enrollments_ok s"
  shows "enrollments_ok (snd (enroll_all now ch rm u cs s)) \<and>
    (find_enrollment x y s \<noteq> None \<longrightarrow> find_enrollment x y (snd (enroll_all now ch rm u cs s)) \<noteq> None)"
  using assms
proof (induction cs arbitrary: s)
  case (Cons c cs)
  let ?r = "enroll now ch rm u c False s"
  have ok: "enrollments_ok (snd ?r)" by (rule enroll_ok[OF Cons.prems])
  have keep: "find_enrollment x y s \<noteq> None \<Longrightarrow> find_enrollment x y (snd ?r) \<noteq> None"
    by (rule enroll_keeps_rows[OF Cons.prems])
  have "enrollments_ok (snd (enroll_all now ch rm u cs (snd ?r))) \<and>
    (find_enrollment x y (snd ?r) \<noteq> None \<longrightarrow> find_enrollment x y (snd (enroll_all now ch rm u cs (snd ?r))) \<noteq> None)"
    by (rule Cons.IH[OF ok])
  then show ?case
    using ok keep by (auto simp: enroll_all_Cons Let_def simp del: enroll_all.simps(2) split: sum.split)
qed simp

lemma enroll_all_success:
  assumes "enrollments_ok s" "enroll_all now ch rm u cs s = (Inr (), s')" "c \<in> set cs"
  shows "find_enrollment u c s' \<noteq> None"
  using assms
proof (induction cs arbitrary: s)
  case (Cons d ds)
  obtain r t where r: "enroll now ch rm u d False s = (r, t)" by fastforce
  have t: "enrollments_ok t" using enroll_ok[OF Cons.prems(1), of now ch rm u d False] r by simp
  have rest: "enroll_all now ch rm u ds t = (Inr (), s')"
    using Cons.prems(2) r by (simp split: sum.splits http_error.splits)
  have here: "find_enrollment u d t \<noteq> None"
  proof (cases r)
    case (Inr e)
    then show ?thesis using enroll_success_row[OF Cons.prems(1)] r by simp
  next
    case (Inl e)
    then obtain m where "e = ConflictException m"
      using Cons.prems(2) r by (cases e) auto
    with Inl r enroll_conflict[of now ch rm u d False s m t] show ?thesis by simp
  qed
  show ?case
  proof (cases "c \<in> set ds")
    case True
    then show ?thesis by (rule Cons.IH[OF t rest])
  next
    case False
    with Cons.prems(3) here enroll_all_ok[OF t, of now ch rm u ds u d] rest show ?thesis by simp
  qed
qed simp

subsection \<open>Properties\<close>

text \<open>After a successful purchase the buyer is enrolled in every course of the bundle, keeps every
  enrollment held before, and the purchase is on record.\<close>

theorem purchase_enrolls_everywhere:
  assumes "enrollments_ok s" "bundles_findOne b s = Inr bnd" "purchase now ch rm u b s = (Inr be, s')"
  shows "(\<forall>c \<in> set (bu_courses bnd). find_enrollment u c s' \<noteq> None)
       \<and> (\<forall>x y. find_enrollment x y s \<noteq> None \<longrightarrow> find_enrollment x y s' \<noteq> None)
       \<and> be \<in> set (bundleEnrollments s') \<and> be_userId be = u \<and> be_bundleId be = b"
proof -
  let ?be = "\<lparr>be_id = fresh s, be_userId = u, be_bundleId = b, be_enrolledAt = now, be_completedAt = None\<rparr>"
  let ?s1 = "s\<lparr>bundleEnrollments := bundleEnrollments s @ [?be], fresh := Suc (fresh s)\<rparr>"
  have run: "enroll_all now ch rm u (bu_courses bnd) ?s1 = (Inr (), s')" and be: "be = ?be"
    using assms(2,3) by (auto simp: purchase_def Let_def split: if_splits prod.splits sum.splits)
  have ok: "enrollments_ok ?s1" using assms(1) by (auto simp: enrollments_ok_def)
  have find1: "find_enrollment x y ?s1 = find_enrollment x y s" for x y by (simp add: find_enrollment_def)
  have "bundleEnrollments s' = bundleEnrollments s @ [?be]"
    using enroll_all_frame[of now ch rm u "bu_courses bnd" ?s1] run by simp
  then show ?thesis
    using enroll_all_success[OF ok run] enroll_all_ok[OF ok, of now ch rm u "bu_courses bnd"] run be
    by (simp add: find1)
qed

definition shop :: core where
  "shop = empty_core\<lparr>users := [new_user 2 ''a@x''], courses := [new_course 10 ''A'', new_course 11 ''B''],
     prerequisites := [\<lparr>pr_id = 3, pr_courseId = 11, pr_prerequisiteId = 10\<rparr>],
     bundles := [\<lparr>bu_id = 20, bu_title = ''Free'', bu_description = [], bu_price = 9, bu_discountPrice = None,
                  bu_isPublished = True, bu_courses = [10], bu_createdAt = 0\<rparr>,
                 \<lparr>bu_id = 21, bu_title = ''Gated'', bu_description = [], bu_price = 9, bu_discountPrice = None,
                  bu_isPublished = True, bu_courses = [11], bu_createdAt = 0\<rparr>],
     fresh := 30\<rparr>"

lemma shop_simps:
  "find_user 2 shop = Some (new_user 2 ''a@x'')" "find_purchase 2 b shop = None"
  "bundles_findOne 20 shop = Inr \<lparr>bu_id = 20, bu_title = ''Free'', bu_description = [], bu_price = 9,
     bu_discountPrice = None, bu_isPublished = True, bu_courses = [10], bu_createdAt = 0\<rparr>"
  "bundles_findOne 21 shop = Inr \<lparr>bu_id = 21, bu_title = ''Gated'', bu_description = [], bu_price = 9,
     bu_discountPrice = None, bu_isPublished = True, bu_courses = [11], bu_createdAt = 0\<rparr>"
  by (simp_all add: shop_def empty_core_def find_user_def find_purchase_def bundles_findOne_def new_user_def)

lemma shop_purchases:
  "\<exists>be s'. purchase 5 (\<lambda>_ _. Inr ''tx'') True 2 20 shop = (Inr be, s')"
  "\<exists>m s'. purchase 5 (\<lambda>_ _. Inr ''tx'') True 2 21 shop = (Inl (ForbiddenException m), s')"
  by (simp_all add: purchase_def shop_simps)
    (simp_all add: shop_def empty_core_def find_user_def find_course_def new_user_def new_course_def
      enroll_def find_enrollment_def enforcePrerequisites_def validatePrerequisites_def completed_courses_def
      getPrerequisites_def Let_def)

theorem purchase_enrolls_everywhere_witness:
  "\<exists>s'. s' = snd (purchase 5 (\<lambda>_ _. Inr ''tx'') True 2 20 shop) \<and> find_enrollment 2 10 s' \<noteq> None"
proof -
  obtain be s' where r: "purchase 5 (\<lambda>_ _. Inr ''tx'') True 2 20 shop = (Inr be, s')"
    using shop_purchases(1) by blast
  have "enrollments_ok shop" by (simp add: enrollments_ok_def shop_def empty_core_def)
  from purchase_enrolls_everywhere[OF this shop_simps(3) r] r show ?thesis by simp
qed

text \<open>A purchase that stops half way, at a course whose prerequisites the buyer lacks or at a
  failing on-chain call, is still recorded: every later attempt of that buyer is refused as a
  duplicate, so the remaining courses can never be reached through the bundle.\<close>

theorem failed_purchase_blocks_retry:
  assumes "bundles_findOne b s = Inr bnd" "bu_isPublished bnd" "find_user u s \<noteq> None"
    and "purchase now ch rm u b s = (Inl e, s')" "find_purchase u b s = None"
  shows "purchase now' ch' rm' u b s' = (Inl (ConflictException ''Already purchased this bundle''), s')"
proof -
  let ?be = "\<lparr>be_id = fresh s, be_userId = u, be_bundleId = b, be_enrolledAt = now, be_completedAt = None\<rparr>"
  let ?s1 = "s\<lparr>bundleEnrollments := bundleEnrollments s @ [?be], fresh := Suc (fresh s)\<rparr>"
  have "s' = snd (enroll_all now ch rm u (bu_courses bnd) ?s1)"
    using assms by (auto simp: purchase_def Let_def split: prod.splits sum.splits)
  then have "bundleEnrollments s' = bundleEnrollments s @ [?be]" "bundles s' = bundles s"
    using enroll_all_frame[of now ch rm u "bu_courses bnd" ?s1] by simp_all
  then have "find_purchase u b s' \<noteq> None" "bundles_findOne b s' = Inr bnd"
    using assms(1) by (auto simp: find_purchase_def find_None bundles_findOne_def)
  then show ?thesis using assms(2) by (simp add: purchase_def)
qed

theorem failed_purchase_blocks_retry_witness:
  "\<exists>s'. purchase 6 (\<lambda>_ _. Inr ''tx'') True 2 21 (snd (purchase 5 (\<lambda>_ _. Inr ''tx'') True 2 21 shop))
     = (Inl (ConflictException ''Already purchased this bundle''), s')"
proof -
  obtain m s' where r: "purchase 5 (\<lambda>_ _. Inr ''tx'') True 2 21 shop = (Inl (ForbiddenException m), s')"
    using shop_purchases(2) by blast
  from failed_purchase_blocks_retry[OF shop_simps(4) _ _ r, of 6 "\<lambda>_ _. Inr ''tx''" True] r show ?thesis
    by (simp add: shop_simps)
qed

end
