(* ===== verification/Progress.thy ===== *)
theory Progress
  imports Bundles
begin

text \<open>
  Learning progress (\<open>progress/progress.service.ts\<close>). Recording a percentage is the operation that
  drives the others: it counts the day for the streak, stores the row, and at 100% checks the
  user's bundles, issues the course credential, announces the completion and rewards the referrer.
\<close>

record progress_dto =
  pd_courseId :: uuid
  pd_lessonId :: "uuid option"
  pd_progressPct :: int

definition find_progress :: "uuid \<Rightarrow> uuid \<Rightarrow> core \<Rightarrow> progress_row option" where
  "find_progress userId courseId s =
     find (\<lambda>p. pg_userId p = userId \<and> pg_courseId p = courseId) (progress s)"

text \<open>The stored row after the request: found or created, updated, stamped, anchored if possible.\<close>

definition updated_progress ::
  "stellar \<Rightarrow> timestamp \<Rightarrow> uuid \<Rightarrow> progress_dto \<Rightarrow> string \<Rightarrow> core \<Rightarrow> progress_row" where
  "updated_progress ch now userId dto key s =
     (let old = (case find_progress userId (pd_courseId dto) s of
                   Some p \<Rightarrow> p
                 | None \<Rightarrow> \<lparr>pg_id = fresh s, pg_userId = userId, pg_courseId = pd_courseId dto,
                            pg_lessonId = None, pg_progressPct = 0, pg_completedAt = None,
                            pg_txHash = None, pg_updatedAt = now\<rparr>)
      in old\<lparr>pg_lessonId := (case pd_lessonId dto of None \<Rightarrow> pg_lessonId old | Some l \<Rightarrow> Some l),
             pg_progressPct := pd_progressPct dto,
             pg_completedAt := (if 100 \<le> pd_progressPct dto then Some now else pg_completedAt old),
             pg_txHash := (case ch_progress ch key (pd_courseId dto) (pd_progressPct dto) of
                             None \<Rightarrow> pg_txHash old | Some h \<Rightarrow> Some h),
             pg_updatedAt := now\<rparr>)"

definition save_progress :: "progress_row \<Rightarrow> core \<Rightarrow> core" where
  "save_progress p s = s\<lparr>progress := save_row pg_id p (progress s), fresh := Suc (fresh s)\<rparr>"

text \<open>50 tokens to the referrer when exactly one course of the user is completed.\<close>

definition referral_reward :: "stellar \<Rightarrow> uuid \<Rightarrow> core \<Rightarrow> core" where
  "referral_reward ch userId s =
     (if count_rows (\<lambda>p. pg_userId p = userId \<and> pg_completedAt p \<noteq> None) (progress s) = 1
      then (case Option.bind (find_user userId s) u_referredBy of
              None \<Rightarrow> s
            | Some referrer \<Rightarrow>
                (case Option.bind (find_user referrer s) u_stellarPublicKey of
                   None \<Rightarrow> s
                 | Some key \<Rightarrow> if key = [] then s else mintReward (ch_mint ch) key 50 s))
      else s)"

definition record_progress ::
  "stellar \<Rightarrow> timestamp \<Rightarrow> uuid \<Rightarrow> progress_dto \<Rightarrow> string \<Rightarrow> core \<Rightarrow> (core, progress_row) outcome" where
  "record_progress ch now userId dto key s =
     (case recordActivity (ch_mint ch) now userId s of
        (Inl e, s1) \<Rightarrow> (Inl e, s1)
      | (Inr _, s1) \<Rightarrow>
          (let p = updated_progress ch now userId dto key s1; s2 = save_progress p s1
           in if pd_progressPct dto < 100 then (Inr p, s2)
              else
                (case bundles_updateProgress ch now userId (pd_courseId dto) s2 of
                   (Inl e, s3) \<Rightarrow> (Inl e, s3)
                 | (Inr _, s3) \<Rightarrow>
                     (case issue ch now userId (pd_courseId dto) key s3 of
                        (Inl e, s4) \<Rightarrow> (Inl e, s4)
                      | (Inr _, s4) \<Rightarrow>
                          (Inr p, referral_reward ch userId
                                    (emit (ProgressCompleted userId (pd_courseId dto) key) s4))))))"

definition progress_of :: "uuid \<Rightarrow> core \<Rightarrow> progress_row list" where
  "progress_of userId s = order_by_desc pg_updatedAt (filter (\<lambda>p. pg_userId p = userId) (progress s))"

subsection \<open>Frames of the calls\<close>

lemma referral_reward_frame [simp]:
  "progress (referral_reward ch u s) = progress s" "credentials (referral_reward ch u s) = credentials s"
  "events (referral_reward ch u s) = events s" "fresh (referral_reward ch u s) = fresh s"
  "bundleEnrollments (referral_reward ch u s) = bundleEnrollments s"
  "enrollments (referral_reward ch u s) = enrollments s"
  by (simp_all add: referral_reward_def split: option.split)

text \<open>What a bundle completion leaves alone.\<close>

definition frame_of :: "core \<Rightarrow> progress_row list \<times> enrollment list \<times> event list \<times> user list \<times> course_bundle list" where
  "frame_of s = (progress s, enrollments s, events s, users s, bundles s)"

lemma issueBundle_frame_of: "issueBundle ch now u b key s = (r, t) \<Longrightarrow> frame_of t = frame_of s"
  using bundle_issuer.frame[of ch now u b key s] by (simp add: frame_of_def)

lemma complete_bundles_frame_of: "frame_of (snd (complete_bundles ch now u c es s)) = frame_of s"
proof (induction es arbitrary: s)
  case (Cons e es)
  show ?case
  proof (cases "find (\<lambda>b. bu_id b = be_bundleId e) (bundles s)")
    case None
    then show ?thesis by simp
  next
    case (Some b)
    let ?s1 = "s\<lparr>bundleEnrollments := save_row be_id (e\<lparr>be_completedAt := Some now\<rparr>) (bundleEnrollments s)\<rparr>"
    have s1: "frame_of ?s1 = frame_of s" by (simp add: frame_of_def)
    show ?thesis
    proof (cases "c \<in> set (bu_courses b) \<and> bundle_completed u b s")
      case False
      then have "complete_bundles ch now u c (e # es) s = complete_bundles ch now u c es s"
        using Some by (auto simp del: One_nat_def)
      with Cons.IH show ?thesis by simp
    next
      case True
      show ?thesis
      proof (cases "Option.bind (find_user u ?s1) u_stellarPublicKey")
        case None
        with True Some Cons.IH[of ?s1] s1 show ?thesis by (simp add: Let_def)
      next
        case (Some key)
        obtain r t where r: "issueBundle ch now u (be_bundleId e) key ?s1 = (r, t)" by fastforce
        have "frame_of t = frame_of s" using issueBundle_frame_of[OF r] s1 by simp
        with True Some r \<open>find _ _ = Some b\<close> Cons.IH[of ?s1] Cons.IH[of t] s1 show ?thesis
          by (simp add: Let_def split: sum.split)
      qed
    qed
  qed
qed simp

lemma complete_bundles_frame:
  "progress (snd (complete_bundles ch now u c es s)) = progress s"
  "enrollments (snd (complete_bundles ch now u c es s)) = enrollments s"
  "events (snd (complete_bundles ch now u c es s)) = events s"
  "users (snd (complete_bundles ch now u c es s)) = users s"
  using complete_bundles_frame_of[of ch now u c es s] by (simp_all add: frame_of_def)

lemma recordActivity_frame:
  "progress (snd (recordActivity a now u s)) = progress s"
  "enrollments (snd (recordActivity a now u s)) = enrollments s"
  "events (snd (recordActivity a now u s)) = events s"
  "fresh (snd (recordActivity a now u s)) = fresh s"
proof -
  have *: "recordActivity a now u s = (Inl (JsError ''User not found''), s)" if "find_user u s = None"
    using that by (simp add: recordActivity_def)
  show "progress (snd (recordActivity a now u s)) = progress s"
    "enrollments (snd (recordActivity a now u s)) = enrollments s"
    "events (snd (recordActivity a now u s)) = events s"
    "fresh (snd (recordActivity a now u s)) = fresh s"
    by (cases "find_user u s"; simp add: * recordActivity_eq)+
qed

lemma complete_bundles_fresh: "fresh s \<le> fresh (snd (complete_bundles ch now u c es s))"
proof (induction es arbitrary: s)
  case (Cons e es)
  have issue: "fresh t \<le> fresh t'" if "issueBundle ch now u b key t = (r, t')" for b key t r t'
    using that by (cases rule: bundle_issuer.issuer_cases[of u b t ch now key]) auto
  let ?s1 = "s\<lparr>bundleEnrollments := save_row be_id (e\<lparr>be_completedAt := Some now\<rparr>) (bundleEnrollments s)\<rparr>"
  have "fresh s \<le> fresh (snd (complete_bundles ch now u c es ?s1))" using Cons.IH[of ?s1] by simp
  moreover have "fresh s \<le> fresh (snd (case issueBundle ch now u b key ?s1 of
      (Inl err, s2) \<Rightarrow> (Inl err, s2) | (Inr _, s2) \<Rightarrow> complete_bundles ch now u c es s2))" for b key
  proof -
    obtain r t where r: "issueBundle ch now u b key ?s1 = (r, t)" by fastforce
    have "fresh s \<le> fresh t" using issue[OF r] by simp
    with r Cons.IH[of t] show ?thesis by (simp split: sum.split)
  qed
  ultimately show ?case using Cons.IH[of s] by (simp add: Let_def split: option.split)
qed simp

lemma issue_fresh: "fresh s \<le> fresh (snd (issue ch now u c key s))"
  by (rule course_issuer.issuer_cases[of u c s ch now key]) simp_all

subsection \<open>The outcomes of recording\<close>

text \<open>Whatever happens after the row is saved, the table of progress rows is the saved one; a
  successful request at 100% went through the whole chain.\<close>

lemma record_progress_cases:
  obtains (Unknown) "record_progress ch now u dto key s = (Inl (JsError ''User not found''), s)" "find_user u s = None"
  | (Saved) r s1 s' where "record_progress ch now u dto key s = (r, s')" "find_user u s \<noteq> None"
      "s1 = snd (recordActivity (ch_mint ch) now u s)"
      "progress s' = save_row pg_id (updated_progress ch now u dto key s1) (progress s)"
      "fresh s < fresh s'" "enrollments s' = enrollments s"
      "\<And>p. r = Inr p \<Longrightarrow> p = updated_progress ch now u dto key s1"
      "\<And>p. r = Inr p \<Longrightarrow> 100 \<le> pd_progressPct dto \<Longrightarrow>
         \<exists>s3 c s4. issue ch now u (pd_courseId dto) key s3 = (Inr c, s4) \<and>
           s' = referral_reward ch u (emit (ProgressCompleted u (pd_courseId dto) key) s4)"
proof (cases "find_user u s")
  case None
  then show thesis using Unknown by (simp add: record_progress_def recordActivity_def)
next
  case (Some usr)
  obtain x s1 where a: "recordActivity (ch_mint ch) now u s = (Inr x, s1)"
    using recordActivity_user(1)[OF Some, of "ch_mint ch" now]
    by (cases "recordActivity (ch_mint ch) now u s") auto
  have f: "progress s1 = progress s" "enrollments s1 = enrollments s" "fresh s1 = fresh s"
    using recordActivity_frame[of "ch_mint ch" now u s] a by simp_all
  let ?p = "updated_progress ch now u dto key s1"
  let ?s2 = "save_progress ?p s1"
  have s2: "progress ?s2 = save_row pg_id ?p (progress s)" "fresh s < fresh ?s2" "enrollments ?s2 = enrollments s"
    by (simp_all add: save_progress_def f)
  show thesis
  proof (cases "pd_progressPct dto < 100")
    case True
    show thesis
      by (rule Saved[of "Inr ?p" ?s2 s1]) (use a True Some s2 in \<open>simp_all add: record_progress_def Let_def\<close>)
  next
    case pct: False
    obtain rb s3 where b: "bundles_updateProgress ch now u (pd_courseId dto) ?s2 = (rb, s3)" by fastforce
    have s3_eq: "s3 = snd (complete_bundles ch now u (pd_courseId dto)
        (filter (\<lambda>e. be_userId e = u \<and> be_completedAt e = None) (bundleEnrollments ?s2)) ?s2)"
      using b by (simp add: bundles_updateProgress_def)
    have s3: "progress s3 = progress ?s2" "enrollments s3 = enrollments ?s2" "fresh ?s2 \<le> fresh s3"
      unfolding s3_eq by (simp_all only: complete_bundles_frame complete_bundles_fresh)
    show thesis
    proof (cases rb)
      case (Inl e)
      show thesis
        by (rule Saved[of "Inl e" s3 s1]) (use a b pct Inl Some s2 s3 in \<open>simp_all add: record_progress_def Let_def\<close>)
    next
      case (Inr y)
      obtain ri s4 where i: "issue ch now u (pd_courseId dto) key s3 = (ri, s4)" by fastforce
      have s4: "progress s4 = progress s3" "enrollments s4 = enrollments s3" "fresh s3 \<le> fresh s4"
        using course_issuer.frame[of ch now u "pd_courseId dto" key s3] issue_fresh[of s3 ch now u "pd_courseId dto" key] i
        by simp_all
      show thesis
      proof (cases ri)
        case (Inl e)
        show thesis
          by (rule Saved[of "Inl e" s4 s1]) (use a b pct Inl Inr i Some s2 s3 s4 in \<open>simp_all add: record_progress_def Let_def\<close>)
      next
        case (Inr c)
        let ?s' = "referral_reward ch u (emit (ProgressCompleted u (pd_courseId dto) key) s4)"
        show thesis
          by (rule Saved[of "Inr ?p" ?s' s1])
            (use a b pct Inr \<open>rb = Inr y\<close> i Some s2 s3 s4 in \<open>auto simp: record_progress_def Let_def\<close>)
      qed
    qed
  qed
qed

subsection \<open>One progress row per user and course\<close>

definition progress_ok :: "core \<Rightarrow> bool" where
  "progress_ok s \<longleftrightarrow>
     distinct (map pg_id (progress s)) \<and>
     distinct (map (\<lambda>p. (pg_userId p, pg_courseId p)) (progress s)) \<and>
     (\<forall>p \<in> set (progress s). pg_id p < fresh s)"

lemma find_progress_SomeD:
  "find_progress u c s = Some p \<Longrightarrow> p \<in> set (progress s) \<and> pg_userId p = u \<and> pg_courseId p = c"
  by (auto simp: find_progress_def dest: find_SomeD)

lemma updated_progress_key:
  "pg_userId (updated_progress ch now u dto key s) = u"
  "pg_courseId (updated_progress ch now u dto key s) = pd_courseId dto"
  "pg_id (updated_progress ch now u dto key s) =
     (case find_progress u (pd_courseId dto) s of None \<Rightarrow> fresh s | Some p \<Rightarrow> pg_id p)"
  "pg_progressPct (updated_progress ch now u dto key s) = pd_progressPct dto"
  "pg_completedAt (updated_progress ch now u dto key s) =
     (if 100 \<le> pd_progressPct dto then Some now
      else Option.bind (find_progress u (pd_courseId dto) s) pg_completedAt)"
  by (auto simp: updated_progress_def Let_def split: option.split dest: find_progress_SomeD)

lemma saved_progress_table:
  assumes "progress_ok s" "fresh s < fresh s'"
    and "progress s' = save_row pg_id (updated_progress ch now u dto key s1) (progress s)"
    and "progress s1 = progress s" "fresh s1 = fresh s"
  shows "progress_ok s'"
    "find_progress u (pd_courseId dto) s' = Some (updated_progress ch now u dto key s1)"
    "(v, d) \<noteq> (u, pd_courseId dto) \<Longrightarrow> find_progress v d s' = find_progress v d s"
proof -
  let ?p = "updated_progress ch now u dto key s1"
  let ?k = "\<lambda>p. (pg_userId p, pg_courseId p)"
  have find1: "find_progress v d s1 = find_progress v d s" for v d
    using assms(4) by (simp add: find_progress_def)
  have ok: "distinct (map pg_id (progress s))" "distinct (map ?k (progress s))"
    "\<And>p. p \<in> set (progress s) \<Longrightarrow> pg_id p < fresh s"
    using assms(1) by (simp_all add: progress_ok_def)
  have other: "?k x \<noteq> ?k ?p" if x: "x \<in> set (progress s)" "pg_id x \<noteq> pg_id ?p" for x
  proof
    assume eq: "?k x = ?k ?p"
    then have "find_progress u (pd_courseId dto) s = Some x"
      unfolding find_progress_def using x(1) ok(2)
      by (intro find_unique_by[where f = ?k]) (auto simp: updated_progress_key)
    with x(2) show False by (simp add: updated_progress_key find1)
  qed
  have ids: "distinct (map pg_id (progress s'))" "distinct (map ?k (progress s'))"
    unfolding assms(3) using ok other by (auto intro: save_row_distinct save_row_unique_index)
  have pid: "pg_id ?p \<le> fresh s"
    using ok(3) by (auto simp: updated_progress_key find1 assms(5) less_imp_le split: option.split dest: find_progress_SomeD)
  have "\<forall>p \<in> set (progress s'). pg_id p < fresh s'"
    unfolding assms(3) using ok(3) pid assms(2) by (fastforce simp: set_save_row)
  with ids show "progress_ok s'" by (simp add: progress_ok_def)
  show "find_progress u (pd_courseId dto) s' = Some ?p"
    unfolding find_progress_def using ids(2)
    by (intro find_unique_by[where f = ?k]) (auto simp: updated_progress_key assms(3) set_save_row)
  assume ne: "(v, d) \<noteq> (u, pd_courseId dto)"
  show "find_progress v d s' = find_progress v d s"
  proof (cases "find_progress v d s")
    case None
    then have none: "\<forall>x \<in> set (progress s). \<not> (pg_userId x = v \<and> pg_courseId x = d)"
      by (simp add: find_progress_def find_None)
    then have "\<forall>x \<in> set (progress s'). \<not> (pg_userId x = v \<and> pg_courseId x = d)"
      using ne by (auto simp: assms(3) set_save_row updated_progress_key)
    with none have "find_progress v d s' = None" "find_progress v d s = None"
      unfolding find_progress_def find_None by blast+
    then show ?thesis by simp
  next
    case (Some x)
    have x: "x \<in> set (progress s)" "pg_userId x = v" "pg_courseId x = d"
      using find_progress_SomeD[OF Some] by simp_all
    have "pg_id x \<noteq> pg_id ?p"
    proof
      assume eq: "pg_id x = pg_id ?p"
      show False
      proof (cases "find_progress u (pd_courseId dto) s")
        case None
        with eq ok(3)[OF x(1)] show False by (simp add: updated_progress_key find1 assms(5))
      next
        case (Some y)
        have "y \<in> set (progress s)" "pg_userId y = u" "pg_courseId y = pd_courseId dto"
          using find_progress_SomeD[OF Some] by simp_all
        moreover have "pg_id x = pg_id y" using eq Some by (simp add: updated_progress_key find1)
        ultimately show False using ok(1) x ne by (auto simp: distinct_map inj_on_def)
      qed
    qed
    then have "x \<in> set (progress s')" using x by (simp add: assms(3) set_save_row)
    then show ?thesis
      unfolding Some using ids(2) x unfolding find_progress_def
      by (intro find_unique_by[where f = ?k]) auto
  qed
qed

lemma record_table:
  assumes "progress_ok s" "record_progress ch now u dto key s = (r, s')" "find_user u s \<noteq> None"
  defines "s1 \<equiv> snd (recordActivity (ch_mint ch) now u s)"
  shows "progress_ok s'" "find_progress u (pd_courseId dto) s' = Some (updated_progress ch now u dto key s1)"
    "(v, d) \<noteq> (u, pd_courseId dto) \<Longrightarrow> find_progress v d s' = find_progress v d s"
    "r = Inr p \<Longrightarrow> p = updated_progress ch now u dto key s1"
proof -
  have *: "progress s1 = progress s" "fresh s1 = fresh s" unfolding s1_def by (simp_all add: recordActivity_frame)
  have saved: "progress s' = save_row pg_id (updated_progress ch now u dto key s1) (progress s)
      \<and> fresh s < fresh s' \<and> (r = Inr p \<longrightarrow> p = updated_progress ch now u dto key s1)"
    by (rule record_progress_cases[of ch now u dto key s]) (use assms in \<open>auto simp: s1_def\<close>)
  note table = saved_progress_table[OF assms(1) _ _ *, of s' ch now u dto key]
  from saved show "progress_ok s'" "find_progress u (pd_courseId dto) s' = Some (updated_progress ch now u dto key s1)"
    "r = Inr p \<Longrightarrow> p = updated_progress ch now u dto key s1"
    using table(1,2) by simp_all
  show "(v, d) \<noteq> (u, pd_courseId dto) \<Longrightarrow> find_progress v d s' = find_progress v d s"
    using saved table(3)[of v d] by simp
qed

definition progress_step ::
  "stellar \<Rightarrow> timestamp \<times> uuid \<times> progress_dto \<times> string \<Rightarrow> core \<Rightarrow> (http_error + progress_row) \<times> core" where
  "progress_step ch r s = (case r of (now, u, dto, key) \<Rightarrow> record_progress ch now u dto key s)"

lemma progress_step_ok: "progress_ok s \<Longrightarrow> progress_ok (snd (progress_step ch r s))"
proof (cases r)
  case (fields now u dto key)
  assume ok: "progress_ok s"
  show ?thesis
  proof (cases "find_user u s")
    case None
    with ok show ?thesis by (simp add: fields progress_step_def record_progress_def recordActivity_def)
  next
    case (Some usr)
    with record_table(1)[OF ok, of ch now u dto key] show ?thesis
      by (cases "record_progress ch now u dto key s") (simp add: fields progress_step_def)
  qed
qed

interpretation recording: invariant_machine "progress_step ch" progress_ok for ch
  by unfold_locales (rule progress_step_ok)

subsection \<open>Properties\<close>

text \<open>Recording progress stores the percentage given for that user and course and no other row,
  in one row per user and course even when the request fails later, for instance at the credential;
  a completion is never taken back by a lower percentage.\<close>

theorem progress_recorded:
  assumes "progress_ok s" "find_user u s \<noteq> None" "record_progress ch now u dto key s = (r, s')"
  shows "\<exists>p. find_progress u (pd_courseId dto) s' = Some p \<and> pg_progressPct p = pd_progressPct dto
         \<and> (pg_completedAt p \<noteq> None \<longleftrightarrow> 100 \<le> pd_progressPct dto
              \<or> Option.bind (find_progress u (pd_courseId dto) s) pg_completedAt \<noteq> None)
         \<and> (\<forall>v d. (v, d) \<noteq> (u, pd_courseId dto) \<longrightarrow> find_progress v d s' = find_progress v d s)
         \<and> progress_ok s'"
proof -
  let ?s1 = "snd (recordActivity (ch_mint ch) now u s)"
  have "find_progress u d ?s1 = find_progress u d s" for d by (simp add: find_progress_def recordActivity_frame)
  then show ?thesis
    using record_table[OF assms(1,3,2)] by (simp add: updated_progress_key)
qed

definition learner :: core where
  "learner = empty_core\<lparr>users := [(new_user 2 ''a@x'')\<lparr>u_referredBy := Some 3\<rparr>,
       (new_user 3 ''r@x'')\<lparr>u_stellarPublicKey := Some ''GREF''\<rparr>],
     courses := [new_course 10 ''A''], fresh := 11\<rparr>"

lemma learner_ok: "progress_ok learner" "find_user 2 learner \<noteq> None"
  by (simp_all add: progress_ok_def learner_def empty_core_def find_user_def new_user_def)

theorem progress_recorded_witness:
  "\<exists>p. find_progress 2 10 (snd (record_progress chain_ok 5 2
        \<lparr>pd_courseId = 10, pd_lessonId = None, pd_progressPct = 40\<rparr> ''GA'' learner)) = Some p
     \<and> pg_progressPct p = 40"
  using progress_recorded[where ch = chain_ok and now = 5 and u = 2 and s = learner and key = "''GA''"
      and dto = "\<lparr>pd_courseId = 10, pd_lessonId = None, pd_progressPct = 40\<rparr>",
      OF learner_ok prod.collapse[symmetric]]
  by auto

text \<open>When a request at 100% succeeds, the user holds the credential of the course afterwards and
  the completion was announced exactly once, as the last event.\<close>

theorem completion_brings_credential:
  assumes "record_progress ch now u dto key s = (Inr p, s')" "100 \<le> pd_progressPct dto"
  shows "\<exists>c. find_credential u (ForCourse (pd_courseId dto)) s' = Some c
         \<and> last (events s') = ProgressCompleted u (pd_courseId dto) key"
proof (rule record_progress_cases[of ch now u dto key s])
  fix r s1 t
  assume eq: "record_progress ch now u dto key s = (r, t)"
    and chain: "\<And>p. r = Inr p \<Longrightarrow> 100 \<le> pd_progressPct dto \<Longrightarrow>
         \<exists>s3 c s4. issue ch now u (pd_courseId dto) key s3 = (Inr c, s4) \<and>
           t = referral_reward ch u (emit (ProgressCompleted u (pd_courseId dto) key) s4)"
  from eq assms chain obtain s3 c s4 where i: "issue ch now u (pd_courseId dto) key s3 = (Inr c, s4)"
    and t: "s' = referral_reward ch u (emit (ProgressCompleted u (pd_courseId dto) key) s4)" by auto
  from course_issuer.issued_is_found[OF i] show ?thesis
    by (simp add: t find_credential_def)
qed (use assms in simp)

lemma learner_completes:
  "\<exists>p s'. record_progress chain_ok 5 2 \<lparr>pd_courseId = 10, pd_lessonId = None, pd_progressPct = 100\<rparr> ''GA'' learner
     = (Inr p, s')"
  by (simp add: record_progress_def recordActivity_def find_user_def learner_def new_user_def Let_def)
    (simp add: checkMilestones_def milestones_def next_streak_def save_user_def save_row_def empty_core_def
      save_progress_def bundles_updateProgress_def issue_def find_credential_def find_live_course_def
      new_course_def store_credential_def chain_ok_def Let_def)

theorem completion_brings_credential_witness:
  "\<exists>c. find_credential 2 (ForCourse 10) (snd (record_progress chain_ok 5 2
        \<lparr>pd_courseId = 10, pd_lessonId = None, pd_progressPct = 100\<rparr> ''GA'' learner)) = Some c"
proof -
  obtain p s' where "record_progress chain_ok 5 2 \<lparr>pd_courseId = 10, pd_lessonId = None, pd_progressPct = 100\<rparr>
      ''GA'' learner = (Inr p, s')"
    using learner_completes by blast
  from completion_brings_credential[OF this] this show ?thesis by auto
qed

text \<open>The referral reward is tied to the number of completed courses, not to a completion: as long as
  exactly one course of a referred user is completed, every successful request at 100%, the first
  or a repeated one, ends with another 50 tokens for the referrer.\<close>

lemma referral_reward_repeats:
  assumes "record_progress ch now u dto key s = (Inr p, s')" "100 \<le> pd_progressPct dto"
    and "count_rows (\<lambda>p. pg_userId p = u \<and> pg_completedAt p \<noteq> None) (progress s') = 1"
    and "find_user u s' = Some usr" "u_referredBy usr = Some r"
    and "find_user r s' = Some ref" "u_stellarPublicKey ref = Some k" "k \<noteq> []" "ch_mint ch k 50"
  shows "last (minted s') = (k, 50)"
proof (rule record_progress_cases[of ch now u dto key s])
  fix r' s1 t
  assume eq: "record_progress ch now u dto key s = (r', t)"
    and chain: "\<And>p. r' = Inr p \<Longrightarrow> 100 \<le> pd_progressPct dto \<Longrightarrow>
         \<exists>s3 c s4. issue ch now u (pd_courseId dto) key s3 = (Inr c, s4) \<and>
           t = referral_reward ch u (emit (ProgressCompleted u (pd_courseId dto) key) s4)"
  from eq assms(1,2) chain obtain s4 where
    t: "s' = referral_reward ch u (emit (ProgressCompleted u (pd_courseId dto) key) s4)" by auto
  let ?t = "emit (ProgressCompleted u (pd_courseId dto) key) s4"
  have "users s' = users ?t" by (simp add: t referral_reward_def split: option.split)
  then have "find_user i s' = find_user i ?t" for i by (simp add: find_user_def)
  then have u: "find_user u ?t = Some usr" "find_user r ?t = Some ref" using assms(4,6) by simp_all
  have "progress s' = progress ?t" by (simp add: t)
  then have n: "count_rows (\<lambda>p. pg_userId p = u \<and> pg_completedAt p \<noteq> None) (progress ?t) = 1"
    using assms(3) by (simp only:)
  have "referral_reward ch u ?t = mintReward (ch_mint ch) k 50 ?t"
    unfolding referral_reward_def using n u assms(5,7,8) by simp
  with assms(9) show ?thesis unfolding t by (simp add: mintReward_def)
qed (use assms(1) in simp)

end
