(* ===== verification/Moderation.thy ===== *)
theory Moderation
  imports Js_Number
begin

text \<open>
  Content moderation (\<open>moderation/moderation.service.ts\<close>): automatic and manual flags, the review of
  an item, appeals and the log of actions. The toxicity score that the AWS client returns is a
  parameter (\<open>None\<close> when the call failed or gave no result); the two thresholds come from the
  configuration. An item moves between five states, and the log tells which way it went.
\<close>

datatype content_type = COURSE | POST | REPLY | REVIEW

datatype moderation_status = PENDING | APPROVED | REJECTED | APPEALED | HIDDEN

datatype moderation_action =
  FLAG | APPROVE | REJECT | AUTO_HIDE | APPEAL_SUBMITTED | APPEAL_APPROVED | APPEAL_REJECTED

record moderation_item =
  mo_id :: uuid
  mo_contentType :: content_type
  mo_contentId :: uuid
  mo_reportedByUserId :: uuid
  mo_status :: moderation_status
  mo_flagReason :: "string option"
  mo_flagCount :: nat
  mo_isHidden :: bool
  mo_toxicityScore :: "rat option"
  mo_reviewedByUserId :: "uuid option"
  mo_reviewNote :: "string option"
  mo_appealReason :: "string option"
  mo_appealedByUserId :: "uuid option"
  mo_createdAt :: timestamp

record moderation_log =
  ml_id :: uuid
  ml_moderationItemId :: uuid
  ml_contentType :: content_type
  ml_contentId :: uuid
  ml_action :: moderation_action
  ml_performedByUserId :: "uuid option"
  ml_note :: "string option"
  ml_createdAt :: timestamp

record moderation =
  mo_items :: "moderation_item list"
  mo_logs :: "moderation_log list"
  mo_fresh :: nat

record flag_dto =
  fd_contentType :: content_type
  fd_contentId :: uuid
  fd_reason :: "string option"

subsection \<open>Operations\<close>

definition find_item :: "uuid \<Rightarrow> moderation \<Rightarrow> moderation_item option" where
  "find_item i s = find (\<lambda>m. mo_id m = i) (mo_items s)"

definition getItemOrThrow :: "uuid \<Rightarrow> moderation \<Rightarrow> http_error + moderation_item" where
  "getItemOrThrow i s =
     (case find_item i s of None \<Rightarrow> Inl (NotFoundException ''Moderation item not found'') | Some m \<Rightarrow> Inr m)"

definition log_action ::
  "timestamp \<Rightarrow> moderation_item \<Rightarrow> moderation_action \<Rightarrow> uuid option \<Rightarrow> string option \<Rightarrow> moderation \<Rightarrow> moderation" where
  "log_action now m action performer note s =
     s\<lparr>mo_logs := mo_logs s @ [\<lparr>ml_id = mo_fresh s, ml_moderationItemId = mo_id m,
          ml_contentType = mo_contentType m, ml_contentId = mo_contentId m, ml_action = action,
          ml_performedByUserId = performer, ml_note = note, ml_createdAt = now\<rparr>],
       mo_fresh := Suc (mo_fresh s)\<rparr>"

definition save_item :: "moderation_item \<Rightarrow> moderation \<Rightarrow> moderation" where
  "save_item m s = s\<lparr>mo_items := save_row mo_id m (mo_items s)\<rparr>"

definition insert_item :: "moderation_item \<Rightarrow> moderation \<Rightarrow> moderation" where
  "insert_item m s = s\<lparr>mo_items := mo_items s @ [m], mo_fresh := Suc (mo_fresh s)\<rparr>"

definition new_item :: "timestamp \<Rightarrow> content_type \<Rightarrow> uuid \<Rightarrow> uuid \<Rightarrow> string option \<Rightarrow> rat option \<Rightarrow> moderation \<Rightarrow> moderation_item" where
  "new_item now ct cid reporter reason score s =
     \<lparr>mo_id = mo_fresh s, mo_contentType = ct, mo_contentId = cid, mo_reportedByUserId = reporter,
      mo_status = PENDING, mo_flagReason = reason, mo_flagCount = 1, mo_isHidden = False,
      mo_toxicityScore = score, mo_reviewedByUserId = None, mo_reviewNote = None,
      mo_appealReason = None, mo_appealedByUserId = None, mo_createdAt = now\<rparr>"

definition analyzeContent ::
  "rat \<Rightarrow> rat option \<Rightarrow> timestamp \<Rightarrow> content_type \<Rightarrow> uuid \<Rightarrow> uuid \<Rightarrow> moderation \<Rightarrow> bool \<times> moderation" where
  "analyzeContent toxicityThreshold score now ct cid userId s =
     (let isToxic = (case score of None \<Rightarrow> False | Some x \<Rightarrow> toxicityThreshold \<le> x);
          m = new_item now ct cid userId (Some ''Auto-flagged by AWS Comprehend'') score s
      in (isToxic,
          if isToxic then log_action now m FLAG None (Some ''auto-flagged'') (insert_item m s) else s))"

definition flagContent ::
  "nat \<Rightarrow> timestamp \<Rightarrow> flag_dto \<Rightarrow> uuid \<Rightarrow> moderation \<Rightarrow> moderation_item \<times> moderation" where
  "flagContent autoHideThreshold now dto userId s =
     (case find (\<lambda>m. mo_contentType m = fd_contentType dto \<and> mo_contentId m = fd_contentId dto
                   \<and> mo_status m = PENDING) (mo_items s) of
        Some existing \<Rightarrow>
          (let e1 = existing\<lparr>mo_flagCount := mo_flagCount existing + 1\<rparr>
           in if \<not> mo_isHidden e1 \<and> autoHideThreshold \<le> mo_flagCount e1
              then (let e2 = e1\<lparr>mo_isHidden := True, mo_status := HIDDEN\<rparr>
                    in (e2, log_action now e2 AUTO_HIDE None
                              (Some (''Auto-hidden after '' @ string_of_nat (mo_flagCount e2) @ '' flags''))
                              (save_item e2 s)))
              else (e1, save_item e1 s))
      | None \<Rightarrow>
          (let m = new_item now (fd_contentType dto) (fd_contentId dto) userId (fd_reason dto) None s
           in (m, log_action now m FLAG (Some userId) (fd_reason dto) (insert_item m s))))"

definition isContentHidden :: "content_type \<Rightarrow> uuid \<Rightarrow> moderation \<Rightarrow> bool" where
  "isContentHidden ct cid s =
     (find (\<lambda>m. mo_contentType m = ct \<and> mo_contentId m = cid \<and> mo_isHidden m) (mo_items s) \<noteq> None)"

definition getQueue :: "moderation_status option \<Rightarrow> content_type option \<Rightarrow> moderation \<Rightarrow> moderation_item list" where
  "getQueue status ct s =
     order_by mo_createdAt (filter (\<lambda>m. (case status of None \<Rightarrow> True | Some st \<Rightarrow> mo_status m = st)
                                     \<and> (case ct of None \<Rightarrow> True | Some t \<Rightarrow> mo_contentType m = t)) (mo_items s))"

text \<open>The DTO admits two verdicts: \<open>approve\<close> says which one it is.\<close>

definition reviewItem ::
  "timestamp \<Rightarrow> uuid \<Rightarrow> bool \<Rightarrow> string option \<Rightarrow> uuid \<Rightarrow> moderation \<Rightarrow> (moderation, moderation_item) outcome" where
  "reviewItem now i approve note adminId s =
     (case getItemOrThrow i s of
        Inl e \<Rightarrow> (Inl e, s)
      | Inr m \<Rightarrow>
          if mo_status m \<noteq> PENDING \<and> mo_status m \<noteq> APPEALED
          then (Inl (BadRequestException ''Item is not pending review''), s)
          else
            (let m' = m\<lparr>mo_status := (if approve then APPROVED else REJECTED),
                        mo_reviewedByUserId := Some adminId, mo_reviewNote := note\<rparr>
             in (Inr m', log_action now m' (if approve then APPROVE else REJECT) (Some adminId) note
                           (save_item m' s))))"

definition submitAppeal ::
  "timestamp \<Rightarrow> uuid \<Rightarrow> string \<Rightarrow> uuid \<Rightarrow> moderation \<Rightarrow> (moderation, moderation_item) outcome" where
  "submitAppeal now i reason userId s =
     (case getItemOrThrow i s of
        Inl e \<Rightarrow> (Inl e, s)
      | Inr m \<Rightarrow>
          if mo_status m \<noteq> REJECTED then (Inl (BadRequestException ''Only rejected items can be appealed''), s)
          else if mo_appealedByUserId m \<noteq> None
          then (Inl (BadRequestException ''Appeal already submitted''), s)
          else
            (let m' = m\<lparr>mo_status := APPEALED, mo_appealReason := Some reason, mo_appealedByUserId := Some userId\<rparr>
             in (Inr m', log_action now m' APPEAL_SUBMITTED (Some userId) (Some reason) (save_item m' s))))"

definition resolveAppeal ::
  "timestamp \<Rightarrow> uuid \<Rightarrow> bool \<Rightarrow> uuid \<Rightarrow> string option \<Rightarrow> moderation \<Rightarrow> (moderation, moderation_item) outcome" where
  "resolveAppeal now i approve adminId note s =
     (case getItemOrThrow i s of
        Inl e \<Rightarrow> (Inl e, s)
      | Inr m \<Rightarrow>
          if mo_status m \<noteq> APPEALED then (Inl (BadRequestException ''Item is not under appeal''), s)
          else
            (let m' = m\<lparr>mo_status := (if approve then APPROVED else REJECTED),
                        mo_reviewedByUserId := Some adminId, mo_reviewNote := note\<rparr>
             in (Inr m', log_action now m' (if approve then APPEAL_APPROVED else APPEAL_REJECTED)
                           (Some adminId) note (save_item m' s))))"

definition getLogs :: "uuid \<Rightarrow> moderation \<Rightarrow> moderation_log list" where
  "getLogs i s = order_by ml_createdAt (filter (\<lambda>l. ml_moderationItemId l = i) (mo_logs s))"

subsection \<open>Requests\<close>

datatype moderation_request =
    Analyze "rat option" timestamp content_type uuid uuid
  | Flag timestamp flag_dto uuid
  | Review timestamp uuid bool "string option" uuid
  | Appeal timestamp uuid string uuid
  | Resolve timestamp uuid bool uuid "string option"

fun moderation_step :: "rat \<Rightarrow> nat \<Rightarrow> moderation_request \<Rightarrow> moderation \<Rightarrow> http_error option \<times> moderation" where
  "moderation_step th hide (Analyze score now ct cid u) s = (None, snd (analyzeContent th score now ct cid u s))"
| "moderation_step th hide (Flag now dto u) s = (None, snd (flagContent hide now dto u s))"
| "moderation_step th hide (Review now i a note adm) s =
     map_prod (case_sum Some (\<lambda>_. None)) (\<lambda>x. x) (reviewItem now i a note adm s)"
| "moderation_step th hide (Appeal now i reason u) s =
     map_prod (case_sum Some (\<lambda>_. None)) (\<lambda>x. x) (submitAppeal now i reason u s)"
| "moderation_step th hide (Resolve now i a adm note) s =
     map_prod (case_sum Some (\<lambda>_. None)) (\<lambda>x. x) (resolveAppeal now i a adm note s)"

subsection \<open>The life of an item as a state machine\<close>

text \<open>One logged action moves an item from one status to the next; a further flag that does not reach
  the threshold is a step without an action.\<close>

inductive moves :: "moderation_status \<Rightarrow> moderation_action \<Rightarrow> moderation_status \<Rightarrow> bool" where
  hide: "moves PENDING AUTO_HIDE HIDDEN"
| approve: "moves PENDING APPROVE APPROVED"
| reject: "moves PENDING REJECT REJECTED"
| approve_appealed: "moves APPEALED APPROVE APPROVED"
| reject_appealed: "moves APPEALED REJECT REJECTED"
| appeal: "moves REJECTED APPEAL_SUBMITTED APPEALED"
| appeal_approved: "moves APPEALED APPEAL_APPROVED APPROVED"
| appeal_rejected: "moves APPEALED APPEAL_REJECTED REJECTED"

code_pred moves .

inductive_cases moves_from_hidden: "moves HIDDEN a st"
inductive_cases moves_from_approved: "moves APPROVED a st"
inductive_simps moves_flag: "moves st FLAG st'"
inductive_simps moves_from_rejected: "moves REJECTED a st"

text \<open>The status a list of actions leads to: the first is a flag, each further one a legal move.\<close>

inductive replay :: "moderation_action list \<Rightarrow> moderation_status \<Rightarrow> bool" where
  flagged: "replay [FLAG] PENDING"
| moved: "replay as st \<Longrightarrow> moves st a st' \<Longrightarrow> replay (as @ [a]) st'"

definition actions_of :: "uuid \<Rightarrow> moderation \<Rightarrow> moderation_action list" where
  "actions_of i s = map ml_action (filter (\<lambda>l. ml_moderationItemId l = i) (mo_logs s))"

definition moderation_ok :: "moderation \<Rightarrow> bool" where
  "moderation_ok s \<longleftrightarrow>
     distinct (map mo_id (mo_items s)) \<and>
     (\<forall>m \<in> set (mo_items s). mo_id m < mo_fresh s) \<and>
     (\<forall>l \<in> set (mo_logs s). ml_moderationItemId l < mo_fresh s) \<and>
     (\<forall>m \<in> set (mo_items s). replay (actions_of (mo_id m) s) (mo_status m)
        \<and> (mo_isHidden m \<longleftrightarrow> mo_status m = HIDDEN)
        \<and> count_list (actions_of (mo_id m) s) APPEAL_SUBMITTED = (if mo_appealedByUserId m = None then 0 else 1))"

lemma actions_of_log:
  "actions_of i (log_action now m a p n s) = actions_of i s @ (if mo_id m = i then [a] else [])"
  by (simp add: actions_of_def log_action_def)

lemma actions_of_items [simp]:
  "actions_of i (save_item m s) = actions_of i s" "actions_of i (insert_item m s) = actions_of i s"
  by (simp_all add: actions_of_def save_item_def insert_item_def)

lemma items_log [simp]: "mo_items (log_action now m a p n s) = mo_items s"
  by (simp add: log_action_def)

lemma actions_of_unused:
  "moderation_ok s \<Longrightarrow> mo_fresh s \<le> i \<Longrightarrow> actions_of i s = []"
  by (force simp: moderation_ok_def actions_of_def filter_empty_conv)

lemma ok_item:
  assumes "moderation_ok s" "m \<in> set (mo_items s)"
  shows "replay (actions_of (mo_id m) s) (mo_status m)" "mo_isHidden m \<longleftrightarrow> mo_status m = HIDDEN"
    "count_list (actions_of (mo_id m) s) APPEAL_SUBMITTED = (if mo_appealedByUserId m = None then 0 else 1)"
    "mo_id m < mo_fresh s"
  using assms by (simp_all add: moderation_ok_def)

lemma ok_insert:
  assumes "moderation_ok s"
  shows "moderation_ok (log_action now (new_item now' ct cid u reason score s) FLAG p n
           (insert_item (new_item now' ct cid u reason score s) s))"
    (is "moderation_ok ?s'")
proof -
  let ?m = "new_item now' ct cid u reason score s"
  have id: "mo_id ?m = mo_fresh s" "mo_status ?m = PENDING" "\<not> mo_isHidden ?m" "mo_appealedByUserId ?m = None"
    by (simp_all add: new_item_def)
  have items: "mo_items ?s' = mo_items s @ [?m]" by (simp add: insert_item_def)
  have fresh: "mo_fresh ?s' = Suc (Suc (mo_fresh s))" by (simp add: insert_item_def log_action_def)
  have logs: "\<forall>l \<in> set (mo_logs ?s'). ml_moderationItemId l < mo_fresh ?s'"
    using assms by (fastforce simp: moderation_ok_def insert_item_def log_action_def new_item_def)
  have acts: "actions_of i ?s' = (if i = mo_fresh s then [FLAG] else actions_of i s)" for i
    using actions_of_unused[OF assms, of "mo_fresh s"] by (simp add: actions_of_log id)
  have old: "mo_id m \<noteq> mo_fresh s" if "m \<in> set (mo_items s)" for m using ok_item(4)[OF assms that] by simp
  show ?thesis
    unfolding moderation_ok_def items fresh acts
  proof (intro conjI ballI)
    show "distinct (map mo_id (mo_items s @ [?m]))" using assms old id by (auto simp: moderation_ok_def)
    show "mo_id m < Suc (Suc (mo_fresh s))" if "m \<in> set (mo_items s @ [?m])" for m
      using that ok_item(4)[OF assms] id by fastforce
    show "ml_moderationItemId l < Suc (Suc (mo_fresh s))" if "l \<in> set (mo_logs ?s')" for l
      using logs that fresh by simp
    fix m assume "m \<in> set (mo_items s @ [?m])"
    then consider "m \<in> set (mo_items s)" | "m = ?m" by auto
    then show "replay (if mo_id m = mo_fresh s then [FLAG] else actions_of (mo_id m) s) (mo_status m)"
      "mo_isHidden m = (mo_status m = HIDDEN)"
      "count_list (if mo_id m = mo_fresh s then [FLAG] else actions_of (mo_id m) s) APPEAL_SUBMITTED
         = (if mo_appealedByUserId m = None then 0 else 1)"
      using old ok_item(1-3)[OF assms] id by (cases; simp add: replay.flagged)+
  qed
qed

lemma ok_count:
  assumes "moderation_ok s" "m \<in> set (mo_items s)"
  shows "moderation_ok (save_item (m\<lparr>mo_flagCount := k\<rparr>) s)"
proof -
  have "set (mo_items (save_item (m\<lparr>mo_flagCount := k\<rparr>) s))
      = insert (m\<lparr>mo_flagCount := k\<rparr>) {x \<in> set (mo_items s). mo_id x \<noteq> mo_id m}"
    by (simp add: save_item_def set_save_row)
  moreover have "distinct (map mo_id (mo_items (save_item (m\<lparr>mo_flagCount := k\<rparr>) s)))"
    using assms(1) by (simp add: save_item_def moderation_ok_def save_row_distinct)
  ultimately show ?thesis
    using assms unfolding moderation_ok_def by (simp add: save_item_def actions_of_def)
qed

lemma ok_move:
  assumes ok: "moderation_ok s" and m: "m \<in> set (mo_items s)" and id: "mo_id m' = mo_id m"
    and mv: "moves (mo_status m) a (mo_status m')" and hid: "mo_isHidden m' \<longleftrightarrow> mo_status m' = HIDDEN"
    and app: "if a = APPEAL_SUBMITTED then mo_appealedByUserId m = None \<and> mo_appealedByUserId m' \<noteq> None
              else mo_appealedByUserId m' = mo_appealedByUserId m"
  shows "moderation_ok (log_action now m' a p n (save_item m' s))" (is "moderation_ok ?s'")
proof -
  have items: "set (mo_items ?s') = insert m' {x \<in> set (mo_items s). mo_id x \<noteq> mo_id m}"
    by (simp add: save_item_def set_save_row id)
  have fresh: "mo_fresh ?s' = Suc (mo_fresh s)" by (simp add: save_item_def log_action_def)
  have acts: "actions_of i ?s' = actions_of i s @ (if i = mo_id m then [a] else [])" for i
    by (simp add: actions_of_log id)
  show ?thesis
    unfolding moderation_ok_def
  proof (intro conjI ballI)
    show "distinct (map mo_id (mo_items ?s'))"
      using ok by (simp add: save_item_def moderation_ok_def save_row_distinct)
    show "mo_id x < mo_fresh ?s'" if "x \<in> set (mo_items ?s')" for x
      using that ok_item(4)[OF ok] m id unfolding items fresh by fastforce
    show "ml_moderationItemId l < mo_fresh ?s'" if "l \<in> set (mo_logs ?s')" for l
      using that ok ok_item(4)[OF ok m] unfolding fresh
      by (auto simp: log_action_def save_item_def moderation_ok_def id less_Suc_eq)
    fix x assume "x \<in> set (mo_items ?s')"
    then consider "x = m'" | "x \<in> set (mo_items s)" "mo_id x \<noteq> mo_id m" unfolding items by auto
    then show "replay (actions_of (mo_id x) ?s') (mo_status x)"
      "mo_isHidden x = (mo_status x = HIDDEN)"
      "count_list (actions_of (mo_id x) ?s') APPEAL_SUBMITTED = (if mo_appealedByUserId x = None then 0 else 1)"
      unfolding acts using ok_item(1-3)[OF ok] ok_item(1,3)[OF ok m] mv hid app id
      by (cases; auto simp: replay.moved split: if_splits)+
  qed
qed

lemma find_item_SomeD: "find_item i s = Some m \<Longrightarrow> m \<in> set (mo_items s) \<and> mo_id m = i"
  by (auto simp: find_item_def dest: find_SomeD)

lemma flag_ok:
  assumes "moderation_ok s"
  shows "moderation_ok (snd (flagContent hide now dto u s))"
proof (cases "find (\<lambda>m. mo_contentType m = fd_contentType dto \<and> mo_contentId m = fd_contentId dto
                   \<and> mo_status m = PENDING) (mo_items s)")
  case None
  with ok_insert[OF assms] show ?thesis by (simp add: flagContent_def Let_def)
next
  case (Some m)
  then have m: "m \<in> set (mo_items s)" "mo_status m = PENDING" by (auto dest: find_SomeD)
  show ?thesis
    using Some ok_count[OF assms m(1)] ok_item(2)[OF assms m(1)] m
    by (auto simp: flagContent_def Let_def moves.hide intro!: ok_move[OF assms m(1)])
qed

lemma decide_ok:
  assumes "moderation_ok s"
  shows "moderation_ok (snd (reviewItem now i a note adm s))"
    "moderation_ok (snd (submitAppeal now i reason u s))"
    "moderation_ok (snd (resolveAppeal now i a adm note s))"
proof -
  note defs = reviewItem_def submitAppeal_def resolveAppeal_def getItemOrThrow_def Let_def
  have "moderation_ok (snd (reviewItem now i a note adm s))
      \<and> moderation_ok (snd (submitAppeal now i reason u s))
      \<and> moderation_ok (snd (resolveAppeal now i a adm note s))"
  proof (cases "find_item i s")
    case None
    with assms show ?thesis by (simp add: defs)
  next
    case (Some m)
    have m: "m \<in> set (mo_items s)" using find_item_SomeD[OF Some] by simp
    have h: "mo_status m \<noteq> HIDDEN \<Longrightarrow> \<not> mo_isHidden m" using ok_item(2)[OF assms m] by simp
    have "moderation_ok (snd (reviewItem now i a note adm s))"
      using assms Some h by (auto simp: defs moves.simps intro!: ok_move[OF assms m])
    moreover have "moderation_ok (snd (submitAppeal now i reason u s))"
      using assms Some h by (auto simp: defs moves.simps intro!: ok_move[OF assms m])
    moreover have "moderation_ok (snd (resolveAppeal now i a adm note s))"
      using assms Some h by (auto simp: defs moves.simps intro!: ok_move[OF assms m])
    ultimately show ?thesis by simp
  qed
  then show "moderation_ok (snd (reviewItem now i a note adm s))"
    "moderation_ok (snd (submitAppeal now i reason u s))"
    "moderation_ok (snd (resolveAppeal now i a adm note s))" by simp_all
qed

lemma moderation_step_ok: "moderation_ok s \<Longrightarrow> moderation_ok (snd (moderation_step th hide r s))"
  by (cases r) (simp_all add: flag_ok decide_ok analyzeContent_def ok_insert Let_def)

interpretation moderating: invariant_machine "moderation_step th hide" moderation_ok for th hide
  by unfold_locales (rule moderation_step_ok)

subsection \<open>Final decisions\<close>

definition final :: "moderation_status \<Rightarrow> bool" where
  "final st \<longleftrightarrow> st = HIDDEN \<or> st = APPROVED"

lemma final_no_move: "final st \<Longrightarrow> \<not> moves st a st'"
  by (auto simp: final_def elim: moves_from_hidden moves_from_approved)

lemma find_item_simps:
  "find_item i (log_action now m a p n s) = find_item i s"
  "find_item i (save_item m s) = (if mo_id m = i then Some m else find_item i s)"
  by (simp_all add: find_item_def save_item_def find_key_save_row)

lemma find_item_insert: "find_item i s = Some x \<Longrightarrow> find_item i (insert_item m s) = Some x"
proof -
  have "find P (xs @ [y]) = Some x" if "find P xs = Some x" for P xs and y :: moderation_item
    using that by (induction xs) (auto split: if_splits)
  then show "find_item i s = Some x \<Longrightarrow> find_item i (insert_item m s) = Some x"
    by (simp add: find_item_def insert_item_def)
qed

lemma final_step:
  assumes ok: "moderation_ok s" and m: "find_item i s = Some m" "final (mo_status m)"
  shows "find_item i (snd (moderation_step th hide r s)) = Some m"
proof -
  have st: "mo_status m = HIDDEN \<or> mo_status m = APPROVED" using m(2) by (simp add: final_def)
  have mem: "m \<in> set (mo_items s)" "mo_id m = i" using find_item_SomeD[OF m(1)] by simp_all
  show ?thesis
  proof (cases r)
    case (Analyze score now ct cid u)
    then show ?thesis using m(1) by (simp add: analyzeContent_def Let_def find_item_simps find_item_insert)
  next
    case (Flag now dto u)
    show ?thesis
    proof (cases "find (\<lambda>m. mo_contentType m = fd_contentType dto \<and> mo_contentId m = fd_contentId dto
                   \<and> mo_status m = PENDING) (mo_items s)")
      case None
      with Flag m(1) show ?thesis by (simp add: flagContent_def Let_def find_item_simps find_item_insert)
    next
      case (Some x)
      then have x: "x \<in> set (mo_items s)" "mo_status x = PENDING" by (auto dest: find_SomeD)
      have "mo_id x \<noteq> i"
        using ok mem x st by (auto simp: moderation_ok_def distinct_map inj_on_def)
      with Flag Some m(1) show ?thesis by (simp add: flagContent_def Let_def find_item_simps)
    qed
  next
    case (Review now j a nt adm)
    with st m(1) show ?thesis
      by (cases "find_item j s"; cases "j = i")
        (auto simp: reviewItem_def getItemOrThrow_def Let_def find_item_simps dest: find_item_SomeD)
  next
    case (Appeal now j reason u)
    with st m(1) show ?thesis
      by (cases "find_item j s"; cases "j = i")
        (auto simp: submitAppeal_def getItemOrThrow_def Let_def find_item_simps dest: find_item_SomeD)
  next
    case (Resolve now j a adm nt)
    with st m(1) show ?thesis
      by (cases "find_item j s"; cases "j = i")
        (auto simp: resolveAppeal_def getItemOrThrow_def Let_def find_item_simps dest: find_item_SomeD)
  qed
qed

subsection \<open>Properties\<close>

definition no_moderation :: moderation where
  "no_moderation = \<lparr>mo_items = [], mo_logs = [], mo_fresh = 1\<rparr>"

lemma no_moderation_ok: "moderation_ok no_moderation"
  by (simp add: moderation_ok_def no_moderation_def)

text \<open>C3: The action log explains every item: in each reachable state the logged actions of an item
  begin with its flag and are legal moves of the moderation state machine that end at its present
  status; content is hidden exactly in the state HIDDEN, and an item was appealed at most once.\<close>

theorem log_explains_status:
  assumes "moderation_ok s" "m \<in> set (mo_items (run_ops (moderation_step th hide) rs s))"
  shows "replay (actions_of (mo_id m) (run_ops (moderation_step th hide) rs s)) (mo_status m)
       \<and> (mo_isHidden m \<longleftrightarrow> mo_status m = HIDDEN)
       \<and> count_list (actions_of (mo_id m) (run_ops (moderation_step th hide) rs s)) APPEAL_SUBMITTED \<le> 1"
  using ok_item(1-3)[OF moderating.run_preserves[OF assms(1)] assms(2)] by simp

definition appeal_history :: "moderation_request list" where
  "appeal_history = [Flag 5 \<lparr>fd_contentType = POST, fd_contentId = 70, fd_reason = None\<rparr> 2,
     Review 6 1 False None 9, Appeal 7 1 ''why'' 2]"

lemma appeal_history_run:
  "\<exists>m. mo_items (run_ops (moderation_step (7/10) 5) appeal_history no_moderation) = [m]
     \<and> mo_id m = 1 \<and> mo_status m = APPEALED"
  by (simp add: appeal_history_def no_moderation_def flagContent_def new_item_def reviewItem_def
      submitAppeal_def getItemOrThrow_def find_item_def log_action_def insert_item_def save_item_def
      save_row_def Let_def)

theorem log_explains_status_witness:
  "replay (actions_of 1 (run_ops (moderation_step (7/10) 5) appeal_history no_moderation)) APPEALED"
proof -
  obtain m where m: "mo_items (run_ops (moderation_step (7/10) 5) appeal_history no_moderation) = [m]"
    "mo_id m = 1" "mo_status m = APPEALED"
    using appeal_history_run by blast
  then show ?thesis
    using log_explains_status[OF no_moderation_ok, of m "7/10" 5 appeal_history] by simp
qed

text \<open>A decision to approve, and an automatic hiding, are final: an item that reached APPROVED or
  HIDDEN stays exactly as it is through any further history of flags, reviews and appeals. In
  particular no operation can ever make hidden content visible again.\<close>

theorem final_decisions_stay:
  assumes "moderation_ok s" "find_item i s = Some m" "mo_status m = HIDDEN \<or> mo_status m = APPROVED"
  shows "find_item i (run_ops (moderation_step th hide) rs s) = Some m"
  using assms
proof (induction rs arbitrary: s)
  case (Cons r rs)
  have "find_item i (snd (moderation_step th hide r s)) = Some m"
    using Cons.prems by (intro final_step) (simp_all add: final_def)
  with Cons show ?case by (simp add: moderation_step_ok)
qed simp

definition hidden_state :: moderation where
  "hidden_state = snd (flagContent 2 6 \<lparr>fd_contentType = POST, fd_contentId = 70, fd_reason = None\<rparr> 3
     (snd (flagContent 2 5 \<lparr>fd_contentType = POST, fd_contentId = 70, fd_reason = None\<rparr> 2 no_moderation)))"

theorem final_decisions_stay_witness:
  "map_option mo_isHidden (find_item 1 (run_ops (moderation_step (7/10) 2)
     [Review 8 1 True None 9, Appeal 9 1 ''please'' 2] hidden_state)) = Some True"
proof -
  have ok: "moderation_ok hidden_state"
    unfolding hidden_state_def by (intro flag_ok no_moderation_ok)
  have "\<exists>m. find_item 1 hidden_state = Some m \<and> mo_status m = HIDDEN \<and> mo_isHidden m"
    by (simp add: hidden_state_def no_moderation_def flagContent_def new_item_def find_item_def
        log_action_def insert_item_def save_item_def save_row_def Let_def)
  then obtain m where m: "find_item 1 hidden_state = Some m" "mo_status m = HIDDEN" "mo_isHidden m" by blast
  from final_decisions_stay[OF ok m(1), of "7/10" 2 "[Review 8 1 True None 9, Appeal 9 1 ''please'' 2]"] m
  show ?thesis by simp
qed

end
