(* ===== verification/Forums.thy ===== *)
theory Forums
  imports Streaks Moderation
begin

text \<open>
  Course forums (\<open>forums/forums.service.ts\<close>): posts, replies and their votes. A post or reply counts
  as an activity of its author and is handed to the automatic moderation; the vote counters of a
  post or reply are stored beside the votes and updated one by one. The search index, whose
  failures are ignored, is left out.
\<close>

datatype vote_direction = Up | Down

datatype vote_target = TargetPost | TargetReply

record forum_vote =
  fv_id :: uuid
  fv_userId :: uuid
  fv_targetType :: vote_target
  fv_targetId :: uuid
  fv_direction :: vote_direction

record post =
  po_id :: uuid
  po_courseId :: uuid
  po_userId :: uuid
  po_title :: string
  po_content :: string
  po_isPinned :: bool
  po_answerReplyId :: "uuid option"
  po_upvotes :: int
  po_downvotes :: int
  po_createdAt :: timestamp

record reply =
  re_id :: uuid
  re_postId :: uuid
  re_userId :: uuid
  re_content :: string
  re_isAnswer :: bool
  re_upvotes :: int
  re_downvotes :: int
  re_createdAt :: timestamp

record forum =
  fo_core :: core
  fo_moderation :: moderation
  fo_posts :: "post list"
  fo_replies :: "reply list"
  fo_votes :: "forum_vote list"
  fo_fresh :: nat

record post_dto =
  pt_title :: string
  pt_content :: string
  pt_isPinned :: bool

record reply_dto =
  rd_content :: string
  rd_isAnswer :: bool

subsection \<open>Operations\<close>

definition canModerate :: "string \<Rightarrow> bool" where
  "canModerate role = (role = ''admin'' \<or> role = ''instructor'')"

definition ensureCourseExists :: "uuid \<Rightarrow> core \<Rightarrow> http_error + unit" where
  "ensureCourseExists courseId s =
     (case find_live_course courseId s of
        None \<Rightarrow> Inl (NotFoundException ''Course not found'') | Some _ \<Rightarrow> Inr ())"

definition findPostsByCourse :: "uuid \<Rightarrow> forum \<Rightarrow> http_error + post list" where
  "findPostsByCourse courseId s =
     (case ensureCourseExists courseId (fo_core s) of
        Inl e \<Rightarrow> Inl e
      | Inr _ \<Rightarrow>
          (let ps = order_by_desc po_createdAt (filter (\<lambda>p. po_courseId p = courseId) (fo_posts s))
           in Inr (filter po_isPinned ps @ filter (\<lambda>p. \<not> po_isPinned p) ps)))"

definition moderate ::
  "rat \<Rightarrow> rat option \<Rightarrow> timestamp \<Rightarrow> content_type \<Rightarrow> uuid \<Rightarrow> uuid \<Rightarrow> forum \<Rightarrow> forum" where
  "moderate th score now ct cid u s =
     s\<lparr>fo_moderation := snd (analyzeContent th score now ct cid u (fo_moderation s))\<rparr>"

definition createPost ::
  "(string \<Rightarrow> int \<Rightarrow> bool) \<Rightarrow> rat \<Rightarrow> rat option \<Rightarrow> timestamp \<Rightarrow> uuid \<Rightarrow> uuid \<Rightarrow> string \<Rightarrow> post_dto \<Rightarrow> forum
   \<Rightarrow> (forum, post) outcome" where
  "createPost accepts th score now courseId userId role dto s =
     (case ensureCourseExists courseId (fo_core s) of
        Inl e \<Rightarrow> (Inl e, s)
      | Inr _ \<Rightarrow>
          (case recordActivity accepts now userId (fo_core s) of
             (Inl e, c) \<Rightarrow> (Inl e, s\<lparr>fo_core := c\<rparr>)
           | (Inr _, c) \<Rightarrow>
               (let s1 = s\<lparr>fo_core := c\<rparr>
                in if pt_isPinned dto \<and> \<not> canModerate role
                   then (Inl (ForbiddenException ''Only instructors and admins can pin posts''), s1)
                   else
                     (let p = \<lparr>po_id = fo_fresh s1, po_courseId = courseId, po_userId = userId,
                               po_title = js_trim (pt_title dto), po_content = js_trim (pt_content dto),
                               po_isPinned = (pt_isPinned dto \<and> canModerate role),
                               po_answerReplyId = None, po_upvotes = 0, po_downvotes = 0, po_createdAt = now\<rparr>;
                          s2 = s1\<lparr>fo_posts := fo_posts s1 @ [p], fo_fresh := Suc (fo_fresh s1)\<rparr>
                      in (Inr p, moderate th score now POST (po_id p) userId s2)))))"

definition createReply ::
  "(string \<Rightarrow> int \<Rightarrow> bool) \<Rightarrow> rat \<Rightarrow> rat option \<Rightarrow> timestamp \<Rightarrow> uuid \<Rightarrow> uuid \<Rightarrow> string \<Rightarrow> reply_dto \<Rightarrow> forum
   \<Rightarrow> (forum, reply) outcome" where
  "createReply accepts th score now postId userId role dto s =
     (case find (\<lambda>p. po_id p = postId) (fo_posts s) of
        None \<Rightarrow> (Inl (NotFoundException ''Post not found''), s)
      | Some post \<Rightarrow>
          (case recordActivity accepts now userId (fo_core s) of
             (Inl e, c) \<Rightarrow> (Inl e, s\<lparr>fo_core := c\<rparr>)
           | (Inr _, c) \<Rightarrow>
               (let s1 = s\<lparr>fo_core := c\<rparr>
                in if rd_isAnswer dto \<and> \<not> canModerate role
                   then (Inl (ForbiddenException ''Only instructors and admins can mark answers''), s1)
                   else
                     (let s2 = (if rd_isAnswer dto
                                then s1\<lparr>fo_replies := update_rows (\<lambda>r. re_postId r = postId \<and> re_isAnswer r)
                                                       (\<lambda>r. r\<lparr>re_isAnswer := False\<rparr>) (fo_replies s1)\<rparr>
                                else s1);
                          r = \<lparr>re_id = fo_fresh s2, re_postId = postId, re_userId = userId,
                               re_content = js_trim (rd_content dto),
                               re_isAnswer = (rd_isAnswer dto \<and> canModerate role),
                               re_upvotes = 0, re_downvotes = 0, re_createdAt = now\<rparr>;
                          s3 = s2\<lparr>fo_replies := fo_replies s2 @ [r], fo_fresh := Suc (fo_fresh s2)\<rparr>;
                          s4 = (if re_isAnswer r
                                then s3\<lparr>fo_posts := save_row po_id (post\<lparr>po_answerReplyId := Some (re_id r)\<rparr>)
                                                      (fo_posts s3)\<rparr>
                                else s3)
                      in (Inr r, moderate th score now REPLY (re_id r) userId s4)))))"

text \<open>\<open>applyVote\<close> on the counters of its target; \<open>None\<close> is the direction \<open>remove\<close>.\<close>

definition applyVote ::
  "vote_target \<Rightarrow> uuid \<Rightarrow> uuid \<Rightarrow> vote_direction option \<Rightarrow> int \<times> int \<Rightarrow> forum_vote list \<Rightarrow> nat
   \<Rightarrow> (int \<times> int) \<times> forum_vote list" where
  "applyVote tt tid userId direction counts votes i =
     (case counts of (up, down) \<Rightarrow>
      case (direction, find (\<lambda>v. fv_userId v = userId \<and> fv_targetType v = tt \<and> fv_targetId v = tid) votes) of
        (None, None) \<Rightarrow> ((up, down), votes)
      | (None, Some existing) \<Rightarrow>
          (case fv_direction existing of Up \<Rightarrow> (max 0 (up - 1), down) | Down \<Rightarrow> (up, max 0 (down - 1)),
           delete_rows (\<lambda>v. fv_id v = fv_id existing) votes)
      | (Some d, Some existing) \<Rightarrow>
          if fv_direction existing \<noteq> d
          then (case fv_direction existing of Up \<Rightarrow> (max 0 (up - 1), down + 1) | Down \<Rightarrow> (up + 1, max 0 (down - 1)),
                save_row fv_id (existing\<lparr>fv_direction := d\<rparr>) votes)
          else ((up, down), votes)
      | (Some d, None) \<Rightarrow>
          (case d of Up \<Rightarrow> (up + 1, down) | Down \<Rightarrow> (up, down + 1),
           votes @ [\<lparr>fv_id = i, fv_userId = userId, fv_targetType = tt, fv_targetId = tid, fv_direction = d\<rparr>]))"

definition votePost :: "uuid \<Rightarrow> uuid \<Rightarrow> vote_direction option \<Rightarrow> forum \<Rightarrow> (forum, post) outcome" where
  "votePost postId userId direction s =
     (case find (\<lambda>p. po_id p = postId) (fo_posts s) of
        None \<Rightarrow> (Inl (NotFoundException ''Post not found''), s)
      | Some p \<Rightarrow>
          (case applyVote TargetPost postId userId direction (po_upvotes p, po_downvotes p) (fo_votes s) (fo_fresh s) of
             ((up, down), votes) \<Rightarrow>
               (let p' = p\<lparr>po_upvotes := up, po_downvotes := down\<rparr>
                in (Inr p', s\<lparr>fo_posts := save_row po_id p' (fo_posts s), fo_votes := votes,
                               fo_fresh := Suc (fo_fresh s)\<rparr>))))"

definition voteReply :: "uuid \<Rightarrow> uuid \<Rightarrow> vote_direction option \<Rightarrow> forum \<Rightarrow> (forum, reply) outcome" where
  "voteReply replyId userId direction s =
     (case find (\<lambda>r. re_id r = replyId) (fo_replies s) of
        None \<Rightarrow> (Inl (NotFoundException ''Reply not found''), s)
      | Some r \<Rightarrow>
          (case applyVote TargetReply replyId userId direction (re_upvotes r, re_downvotes r) (fo_votes s) (fo_fresh s) of
             ((up, down), votes) \<Rightarrow>
               (let r' = r\<lparr>re_upvotes := up, re_downvotes := down\<rparr>
                in (Inr r', s\<lparr>fo_replies := save_row re_id r' (fo_replies s), fo_votes := votes,
                               fo_fresh := Suc (fo_fresh s)\<rparr>))))"

subsection \<open>Votes and counters\<close>

definition tally :: "vote_target \<Rightarrow> uuid \<Rightarrow> vote_direction \<Rightarrow> forum_vote list \<Rightarrow> int" where
  "tally tt tid d votes =
     int (count_rows (\<lambda>v. fv_targetType v = tt \<and> fv_targetId v = tid \<and> fv_direction v = d) votes)"

definition votes_ok :: "nat \<Rightarrow> forum_vote list \<Rightarrow> bool" where
  "votes_ok n votes \<longleftrightarrow>
     distinct (map fv_id votes) \<and>
     distinct (map (\<lambda>v. (fv_userId v, fv_targetType v, fv_targetId v)) votes) \<and>
     (\<forall>v \<in> set votes. fv_id v < n)"

lemma tally_simps [simp]:
  "tally tt tid d [] = 0"
  "tally tt tid d (xs @ ys) = tally tt tid d xs + tally tt tid d ys"
  "tally tt tid d (v # vs) =
     (if fv_targetType v = tt \<and> fv_targetId v = tid \<and> fv_direction v = d then 1 else 0) + tally tt tid d vs"
  by (simp_all add: tally_def count_rows_def)

lemma tally_nonneg: "0 \<le> tally tt tid d vs"
  by (simp add: tally_def)

lemma tally_unvoted:
  "\<forall>v \<in> set vs. fv_targetType v = tt \<longrightarrow> fv_targetId v \<noteq> tid \<Longrightarrow> tally tt tid d vs = 0"
  by (induction vs) auto

text \<open>One vote keeps the counters of its target equal to the tallies, leaves the tallies of every
  other target alone, and keeps the votes unique.\<close>

lemma applyVote_tally:
  assumes ok: "votes_ok n votes" and up: "up = tally tt tid Up votes" and down: "down = tally tt tid Down votes"
    and r: "applyVote tt tid u dir (up, down) votes n = ((up', down'), votes')"
  shows "up' = tally tt tid Up votes'" "down' = tally tt tid Down votes'"
    "(tt', tid') \<noteq> (tt, tid) \<Longrightarrow> tally tt' tid' d votes' = tally tt' tid' d votes"
    "votes_ok (Suc n) votes'"
    "\<forall>v \<in> set votes'. v \<in> set votes \<or> (fv_targetType v = tt \<and> fv_targetId v = tid)"
proof -
  let ?P = "\<lambda>v. fv_userId v = u \<and> fv_targetType v = tt \<and> fv_targetId v = tid"
  have "up' = tally tt tid Up votes' \<and> down' = tally tt tid Down votes' \<and>
    ((tt', tid') \<noteq> (tt, tid) \<longrightarrow> tally tt' tid' d votes' = tally tt' tid' d votes) \<and> votes_ok (Suc n) votes' \<and>
    (\<forall>v \<in> set votes'. v \<in> set votes \<or> (fv_targetType v = tt \<and> fv_targetId v = tid))"
  proof (cases "find ?P votes")
    case None
    then have "\<forall>v \<in> set votes. \<not> ?P v" by (simp add: find_None)
    with None ok r up down show ?thesis
      by (cases dir; cases "the dir") (auto simp: applyVote_def votes_ok_def less_Suc_eq split: vote_direction.splits)
  next
    case (Some e)
    then have e: "e \<in> set votes" "?P e" by (auto dest: find_SomeD)
    then obtain as bs where split: "votes = as @ e # bs" by (meson split_list)
    have dist: "distinct (map fv_id (as @ e # bs))" using ok split by (simp add: votes_ok_def)
    show ?thesis
    proof (cases dir)
      case None
      then have "votes' = as @ bs"
        using r \<open>find ?P votes = Some e\<close> delete_row_split[OF dist] split
        by (auto simp: applyVote_def split: vote_direction.splits)
      with None \<open>find ?P votes = Some e\<close> ok r up down e split tally_nonneg[of tt tid _ as] tally_nonneg[of tt tid _ bs]
      show ?thesis by (auto simp: applyVote_def votes_ok_def less_Suc_eq split: vote_direction.splits)
    next
      case (Some d')
      show ?thesis
      proof (cases "fv_direction e = d'")
        case True
        with Some \<open>find ?P votes = Some e\<close> ok r up down show ?thesis
          by (auto simp: applyVote_def votes_ok_def less_Suc_eq)
      next
        case False
        then have "votes' = as @ e\<lparr>fv_direction := d'\<rparr> # bs"
          using Some r \<open>find ?P votes = Some e\<close> save_row_split[OF dist, of "e\<lparr>fv_direction := d'\<rparr>"] split
          by (auto simp: applyVote_def split: vote_direction.splits)
        with Some False \<open>find ?P votes = Some e\<close> ok r up down e split tally_nonneg[of tt tid _ as] tally_nonneg[of tt tid _ bs]
        show ?thesis
          by (cases d') (auto simp: applyVote_def votes_ok_def less_Suc_eq split: vote_direction.splits)
      qed
    qed
  qed
  then show "up' = tally tt tid Up votes'" "down' = tally tt tid Down votes'"
    "(tt', tid') \<noteq> (tt, tid) \<Longrightarrow> tally tt' tid' d votes' = tally tt' tid' d votes"
    "votes_ok (Suc n) votes'"
    "\<forall>v \<in> set votes'. v \<in> set votes \<or> (fv_targetType v = tt \<and> fv_targetId v = tid)" by auto
qed

subsection \<open>The invariant of a forum\<close>

definition counters_ok :: "forum \<Rightarrow> bool" where
  "counters_ok s \<longleftrightarrow>
     (\<forall>p \<in> set (fo_posts s). po_upvotes p = tally TargetPost (po_id p) Up (fo_votes s)
        \<and> po_downvotes p = tally TargetPost (po_id p) Down (fo_votes s)) \<and>
     (\<forall>r \<in> set (fo_replies s). re_upvotes r = tally TargetReply (re_id r) Up (fo_votes s)
        \<and> re_downvotes r = tally TargetReply (re_id r) Down (fo_votes s))"

definition answers_ok :: "forum \<Rightarrow> bool" where
  "answers_ok s \<longleftrightarrow>
     (\<forall>p \<in> set (fo_posts s). \<forall>r \<in> set (fo_replies s).
        re_postId r = po_id p \<longrightarrow> (re_isAnswer r \<longleftrightarrow> po_answerReplyId p = Some (re_id r)))"

definition keys_ok :: "forum \<Rightarrow> bool" where
  "keys_ok s \<longleftrightarrow>
     distinct (map po_id (fo_posts s)) \<and> distinct (map re_id (fo_replies s)) \<and>
     (\<forall>p \<in> set (fo_posts s). po_id p < fo_fresh s \<and> (\<forall>i. po_answerReplyId p = Some i \<longrightarrow> i < fo_fresh s)) \<and>
     (\<forall>r \<in> set (fo_replies s). re_id r < fo_fresh s \<and> re_postId r < fo_fresh s) \<and>
     (\<forall>v \<in> set (fo_votes s). fv_targetId v < fo_fresh s) \<and>
     votes_ok (fo_fresh s) (fo_votes s)"

definition forum_ok :: "forum \<Rightarrow> bool" where
  "forum_ok s \<longleftrightarrow> keys_ok s \<and> counters_ok s \<and> answers_ok s"

lemma moderate_simps [simp]:
  "fo_posts (moderate th score now ct cid u s) = fo_posts s"
  "fo_replies (moderate th score now ct cid u s) = fo_replies s"
  "fo_votes (moderate th score now ct cid u s) = fo_votes s"
  "fo_fresh (moderate th score now ct cid u s) = fo_fresh s"
  by (simp_all add: moderate_def)

lemma forum_ok_cong:
  "fo_posts s' = fo_posts s \<Longrightarrow> fo_replies s' = fo_replies s \<Longrightarrow> fo_votes s' = fo_votes s \<Longrightarrow>
   fo_fresh s' = fo_fresh s \<Longrightarrow> forum_ok s' = forum_ok s"
  by (simp add: forum_ok_def keys_ok_def counters_ok_def answers_ok_def)

lemma votes_ok_Suc: "votes_ok n vs \<Longrightarrow> votes_ok (Suc n) vs"
  by (auto simp: votes_ok_def less_Suc_eq)

lemma tally_fresh: "keys_ok s \<Longrightarrow> tally tt (fo_fresh s) d (fo_votes s) = 0"
  by (rule tally_unvoted) (force simp: keys_ok_def)

lemma forum_ok_new_post:
  assumes "forum_ok s" "po_id p = fo_fresh s" "po_answerReplyId p = None" "po_upvotes p = 0" "po_downvotes p = 0"
    and "fo_posts s' = fo_posts s @ [p]" "fo_replies s' = fo_replies s" "fo_votes s' = fo_votes s"
    and "fo_fresh s' = Suc (fo_fresh s)"
  shows "forum_ok s'"
proof -
  have k: "keys_ok s" "counters_ok s" "answers_ok s" using assms(1) by (simp_all add: forum_ok_def)
  have "keys_ok s'" using k(1) assms(2-) votes_ok_Suc by (auto simp: keys_ok_def less_Suc_eq)
  moreover have "counters_ok s'" using k(2) assms(2-) tally_fresh[OF k(1)] by (auto simp: counters_ok_def)
  moreover have "answers_ok s'"
  proof -
    have "re_postId r \<noteq> fo_fresh s" if "r \<in> set (fo_replies s)" for r using k(1) that by (auto simp: keys_ok_def)
    with k(3) assms(2-) show ?thesis by (auto simp: answers_ok_def)
  qed
  ultimately show ?thesis by (simp add: forum_ok_def)
qed

lemma createPost_ok:
  assumes "forum_ok s"
  shows "forum_ok (snd (createPost a th score now c u role dto s))"
proof (cases "ensureCourseExists c (fo_core s)")
  case (Inl e)
  with assms show ?thesis by (simp add: createPost_def)
next
  case (Inr x)
  obtain r co where rec: "recordActivity a now u (fo_core s) = (r, co)" by fastforce
  have core: "forum_ok (s\<lparr>fo_core := co\<rparr>)" using assms by (subst forum_ok_cong[of _ s]) simp_all
  show ?thesis
  proof (cases r)
    case (Inl e)
    with core Inr rec \<open>ensureCourseExists c (fo_core s) = Inr x\<close> show ?thesis by (simp add: createPost_def)
  next
    case (Inr y)
    show ?thesis
    proof (cases "pt_isPinned dto \<and> \<not> canModerate role")
      case True
      with core Inr rec \<open>ensureCourseExists c (fo_core s) = Inr x\<close> show ?thesis by (simp add: createPost_def Let_def)
    next
      case False
      show ?thesis
        by (rule forum_ok_new_post[OF assms]) (use False Inr rec \<open>ensureCourseExists c (fo_core s) = Inr x\<close> in
            \<open>simp_all add: createPost_def Let_def\<close>)
    qed
  qed
qed

lemma forum_ok_new_reply:
  assumes ok: "forum_ok s" and p: "p \<in> set (fo_posts s)"
    and r: "re_id r = fo_fresh s" "re_postId r = po_id p" "re_upvotes r = 0" "re_downvotes r = 0"
    and s': "fo_votes s' = fo_votes s" "fo_fresh s' = Suc (fo_fresh s)"
      "fo_replies s' = (if re_isAnswer r
         then update_rows (\<lambda>x. re_postId x = po_id p \<and> re_isAnswer x) (\<lambda>x. x\<lparr>re_isAnswer := False\<rparr>) (fo_replies s)
         else fo_replies s) @ [r]"
      "fo_posts s' = (if re_isAnswer r then save_row po_id (p\<lparr>po_answerReplyId := Some (re_id r)\<rparr>) (fo_posts s)
         else fo_posts s)"
  shows "forum_ok s'"
proof -
  have k: "keys_ok s" "counters_ok s" "answers_ok s" using ok by (simp_all add: forum_ok_def)
  have ids: "re_id x \<noteq> fo_fresh s" if "x \<in> set (fo_replies s)" for x using k(1) that by (auto simp: keys_ok_def)
  have po: "po_id p < fo_fresh s" "po_upvotes p = tally TargetPost (po_id p) Up (fo_votes s)"
    "po_downvotes p = tally TargetPost (po_id p) Down (fo_votes s)"
    using k(1,2) p by (auto simp: keys_ok_def counters_ok_def)
  have ans: "po_answerReplyId q \<noteq> Some (fo_fresh s)" if "q \<in> set (fo_posts s)" for q
    using k(1) that by (auto simp: keys_ok_def)
  show ?thesis
  proof (cases "re_isAnswer r")
    case False
    have "keys_ok s'" using k(1) r s' False ids po(1) votes_ok_Suc by (auto simp: keys_ok_def less_Suc_eq)
    moreover have "counters_ok s'" using k(2) r s' False tally_fresh[OF k(1)] by (auto simp: counters_ok_def)
    moreover have "answers_ok s'" using k(3) r s' False ans by (auto simp: answers_ok_def)
    ultimately show ?thesis by (simp add: forum_ok_def)
  next
    case True
    let ?U = "update_rows (\<lambda>x. re_postId x = po_id p \<and> re_isAnswer x) (\<lambda>x. x\<lparr>re_isAnswer := False\<rparr>) (fo_replies s)"
    let ?p = "p\<lparr>po_answerReplyId := Some (re_id r)\<rparr>"
    have U: "map re_id ?U = map re_id (fo_replies s)" by (simp add: map_update_rows)
    have Umem: "\<exists>y \<in> set (fo_replies s). re_id x = re_id y \<and> re_postId x = re_postId y
        \<and> re_upvotes x = re_upvotes y \<and> re_downvotes x = re_downvotes y
        \<and> (re_isAnswer x \<longleftrightarrow> re_isAnswer y \<and> re_postId y \<noteq> po_id p)" if "x \<in> set ?U" for x
    proof -
      from that obtain y where "y \<in> set (fo_replies s)"
        "x = (if re_postId y = po_id p \<and> re_isAnswer y then y\<lparr>re_isAnswer := False\<rparr> else y)"
        unfolding update_rows_def by auto
      then show ?thesis by (intro bexI[of _ y]) auto
    qed
    have Uids: "re_id x \<noteq> fo_fresh s" if "x \<in> set ?U" for x using Umem[OF that] ids by metis
    have P: "set (fo_posts s') = insert ?p {q \<in> set (fo_posts s). po_id q \<noteq> po_id p}"
      using s'(4) True by (simp add: set_save_row)
    have R: "fo_replies s' = ?U @ [r]" using s'(3) True by simp
    have "distinct (map po_id (fo_posts s'))"
      using s'(4) True k(1) by (simp add: keys_ok_def save_row_distinct)
    moreover have "distinct (map re_id (fo_replies s'))"
    proof -
      have "distinct (map re_id ?U)" unfolding U using k(1) by (simp add: keys_ok_def)
      moreover have "re_id r \<notin> re_id ` set ?U"
      proof
        assume "re_id r \<in> re_id ` set ?U"
        then obtain x where "re_id r = re_id x" "x \<in> set ?U" by (rule imageE)
        with Uids[of x] r(1) show False by simp
      qed
      ultimately show ?thesis unfolding R by simp
    qed
    moreover have "\<forall>q \<in> set (fo_posts s'). po_id q < fo_fresh s' \<and> (\<forall>i. po_answerReplyId q = Some i \<longrightarrow> i < fo_fresh s')"
      unfolding P s'(2) using k(1) r(1) po(1) by (auto simp: keys_ok_def less_Suc_eq)
    moreover have "\<forall>x \<in> set (fo_replies s'). re_id x < fo_fresh s' \<and> re_postId x < fo_fresh s'"
    proof
      fix x assume "x \<in> set (fo_replies s')"
      then consider "x = r" | "x \<in> set ?U" unfolding R by auto
      then show "re_id x < fo_fresh s' \<and> re_postId x < fo_fresh s'"
      proof cases
        case 1
        then show ?thesis using r po(1) s'(2) by simp
      next
        case 2
        from Umem[OF 2] k(1) s'(2) show ?thesis by (auto simp: keys_ok_def less_Suc_eq)
      qed
    qed
    moreover have "votes_ok (fo_fresh s') (fo_votes s')" "\<forall>v \<in> set (fo_votes s'). fv_targetId v < fo_fresh s'"
      using k(1) s'(1,2) votes_ok_Suc by (auto simp: keys_ok_def less_Suc_eq)
    ultimately have "keys_ok s'" by (simp add: keys_ok_def)
    moreover have "counters_ok s'"
    proof -
      have "re_upvotes x = tally TargetReply (re_id x) Up (fo_votes s)
          \<and> re_downvotes x = tally TargetReply (re_id x) Down (fo_votes s)" if "x \<in> set ?U" for x
        using Umem[OF that] k(2) by (auto simp: counters_ok_def)
      then show ?thesis
        unfolding counters_ok_def P R s'(1) using k(2) po r tally_fresh[OF k(1)] by (auto simp: counters_ok_def)
    qed
    moreover have "answers_ok s'"
      unfolding answers_ok_def P R
    proof (intro ballI impI)
      fix q x assume q: "q \<in> insert ?p {q \<in> set (fo_posts s). po_id q \<noteq> po_id p}"
        and x: "x \<in> set (?U @ [r])" and same: "re_postId x = po_id q"
      from x consider "x = r" | "x \<in> set ?U" by auto
      then show "re_isAnswer x \<longleftrightarrow> po_answerReplyId q = Some (re_id x)"
      proof cases
        case 1
        with q same r True show ?thesis by auto
      next
        case 2
        from Umem[OF 2] obtain y where y: "y \<in> set (fo_replies s)" "re_id x = re_id y" "re_postId x = re_postId y"
          "re_isAnswer x \<longleftrightarrow> re_isAnswer y \<and> re_postId y \<noteq> po_id p" by blast
        from q consider "q = ?p" | "q \<in> set (fo_posts s)" "po_id q \<noteq> po_id p" by auto
        then show ?thesis
        proof cases
          case 1
          with y same ids[OF y(1)] r(1) show ?thesis by auto
        next
          case 2
          with y same k(3) show ?thesis by (auto simp: answers_ok_def)
        qed
      qed
    qed
    ultimately show ?thesis by (simp add: forum_ok_def)
  qed
qed

lemma createReply_ok:
  assumes "forum_ok s"
  shows "forum_ok (snd (createReply a th score now pid u role dto s))"
proof (cases "find (\<lambda>p. po_id p = pid) (fo_posts s)")
  case None
  with assms show ?thesis by (simp add: createReply_def)
next
  case (Some p)
  then have p: "p \<in> set (fo_posts s)" "po_id p = pid" by (auto dest: find_SomeD)
  obtain r co where rec: "recordActivity a now u (fo_core s) = (r, co)" by fastforce
  have core: "forum_ok (s\<lparr>fo_core := co\<rparr>)" using assms by (subst forum_ok_cong[of _ s]) simp_all
  show ?thesis
  proof (cases r)
    case (Inl e)
    with core Some rec show ?thesis by (simp add: createReply_def)
  next
    case (Inr y)
    show ?thesis
    proof (cases "rd_isAnswer dto \<and> \<not> canModerate role")
      case True
      with core Inr rec Some show ?thesis by (simp add: createReply_def Let_def)
    next
      case False
      let ?r = "\<lparr>re_id = fo_fresh s, re_postId = pid, re_userId = u, re_content = js_trim (rd_content dto),
        re_isAnswer = (rd_isAnswer dto \<and> canModerate role), re_upvotes = 0, re_downvotes = 0, re_createdAt = now\<rparr>"
      show ?thesis
        by (rule forum_ok_new_reply[OF assms p(1), of ?r])
          (use False Inr rec Some p(2) in \<open>auto simp: createReply_def Let_def\<close>)
    qed
  qed
qed

lemma votePost_ok:
  assumes "forum_ok s"
  shows "forum_ok (snd (votePost pid u dir s))"
proof (cases "find (\<lambda>p. po_id p = pid) (fo_posts s)")
  case None
  with assms show ?thesis by (simp add: votePost_def)
next
  case (Some p)
  then have p: "p \<in> set (fo_posts s)" "po_id p = pid" by (auto dest: find_SomeD)
  have k: "keys_ok s" "counters_ok s" "answers_ok s" using assms by (simp_all add: forum_ok_def)
  obtain up down votes where v: "applyVote TargetPost pid u dir (po_upvotes p, po_downvotes p) (fo_votes s) (fo_fresh s)
      = ((up, down), votes)" by (metis prod.collapse)
  have vo: "votes_ok (fo_fresh s) (fo_votes s)" "po_upvotes p = tally TargetPost pid Up (fo_votes s)"
    "po_downvotes p = tally TargetPost pid Down (fo_votes s)"
    using k p by (auto simp: keys_ok_def counters_ok_def)
  note t = applyVote_tally[OF vo v]
  let ?p = "p\<lparr>po_upvotes := up, po_downvotes := down\<rparr>"
  have s': "snd (votePost pid u dir s) = s\<lparr>fo_posts := save_row po_id ?p (fo_posts s), fo_votes := votes,
      fo_fresh := Suc (fo_fresh s)\<rparr>" (is "_ = ?s'")
    using Some v by (simp add: votePost_def Let_def)
  have P: "set (fo_posts ?s') = insert ?p {q \<in> set (fo_posts s). po_id q \<noteq> pid}"
    using p by (simp add: set_save_row)
  have "distinct (map po_id (fo_posts ?s'))" using k(1) by (simp add: keys_ok_def save_row_distinct)
  moreover have "\<forall>q \<in> set (fo_posts ?s'). po_id q < Suc (fo_fresh s) \<and> (\<forall>i. po_answerReplyId q = Some i \<longrightarrow> i < Suc (fo_fresh s))"
    unfolding P using k(1) p by (auto simp: keys_ok_def less_Suc_eq)
  moreover have "\<forall>v \<in> set votes. fv_targetId v < Suc (fo_fresh s)"
    using t(5) k(1) p by (auto simp: keys_ok_def less_Suc_eq)
  ultimately have "keys_ok ?s'" using k(1) t(4) by (auto simp: keys_ok_def less_Suc_eq)
  moreover have "counters_ok ?s'"
    unfolding counters_ok_def P using k(2) t(1-3) p by (auto simp: counters_ok_def)
  moreover have "answers_ok ?s'"
    unfolding answers_ok_def P using k(3) p by (auto simp: answers_ok_def)
  ultimately show ?thesis unfolding s' by (simp add: forum_ok_def)
qed

lemma voteReply_ok:
  assumes "forum_ok s"
  shows "forum_ok (snd (voteReply rid u dir s))"
proof (cases "find (\<lambda>r. re_id r = rid) (fo_replies s)")
  case None
  with assms show ?thesis by (simp add: voteReply_def)
next
  case (Some r)
  then have r: "r \<in> set (fo_replies s)" "re_id r = rid" by (auto dest: find_SomeD)
  have k: "keys_ok s" "counters_ok s" "answers_ok s" using assms by (simp_all add: forum_ok_def)
  obtain up down votes where v: "applyVote TargetReply rid u dir (re_upvotes r, re_downvotes r) (fo_votes s) (fo_fresh s)
      = ((up, down), votes)" by (metis prod.collapse)
  have vo: "votes_ok (fo_fresh s) (fo_votes s)" "re_upvotes r = tally TargetReply rid Up (fo_votes s)"
    "re_downvotes r = tally TargetReply rid Down (fo_votes s)"
    using k r by (auto simp: keys_ok_def counters_ok_def)
  note t = applyVote_tally[OF vo v]
  let ?r = "r\<lparr>re_upvotes := up, re_downvotes := down\<rparr>"
  have s': "snd (voteReply rid u dir s) = s\<lparr>fo_replies := save_row re_id ?r (fo_replies s), fo_votes := votes,
      fo_fresh := Suc (fo_fresh s)\<rparr>" (is "_ = ?s'")
    using Some v by (simp add: voteReply_def Let_def)
  have R: "set (fo_replies ?s') = insert ?r {q \<in> set (fo_replies s). re_id q \<noteq> rid}"
    using r by (simp add: set_save_row)
  have "distinct (map re_id (fo_replies ?s'))" using k(1) by (simp add: keys_ok_def save_row_distinct)
  moreover have "\<forall>q \<in> set (fo_replies ?s'). re_id q < Suc (fo_fresh s) \<and> re_postId q < Suc (fo_fresh s)"
    unfolding R using k(1) r by (auto simp: keys_ok_def less_Suc_eq)
  moreover have "\<forall>v \<in> set votes. fv_targetId v < Suc (fo_fresh s)"
    using t(5) k(1) r by (auto simp: keys_ok_def less_Suc_eq)
  ultimately have "keys_ok ?s'" using k(1) t(4) by (auto simp: keys_ok_def less_Suc_eq)
  moreover have "counters_ok ?s'"
    unfolding counters_ok_def R using k(2) t(1-3) r by (auto simp: counters_ok_def)
  moreover have "answers_ok ?s'"
    unfolding answers_ok_def R using k(3) r by (auto simp: answers_ok_def)
  ultimately show ?thesis unfolding s' by (simp add: forum_ok_def)
qed

datatype forum_request =
    CreatePost "rat option" timestamp uuid uuid string post_dto
  | CreateReply "rat option" timestamp uuid uuid string reply_dto
  | VotePost uuid uuid "vote_direction option"
  | VoteReply uuid uuid "vote_direction option"

fun forum_step :: "(string \<Rightarrow> int \<Rightarrow> bool) \<Rightarrow> rat \<Rightarrow> forum_request \<Rightarrow> forum \<Rightarrow> http_error option \<times> forum" where
  "forum_step a th (CreatePost score now c u role dto) s =
     map_prod (case_sum Some (\<lambda>_. None)) (\<lambda>x. x) (createPost a th score now c u role dto s)"
| "forum_step a th (CreateReply score now p u role dto) s =
     map_prod (case_sum Some (\<lambda>_. None)) (\<lambda>x. x) (createReply a th score now p u role dto s)"
| "forum_step a th (VotePost p u d) s = map_prod (case_sum Some (\<lambda>_. None)) (\<lambda>x. x) (votePost p u d s)"
| "forum_step a th (VoteReply r u d) s = map_prod (case_sum Some (\<lambda>_. None)) (\<lambda>x. x) (voteReply r u d s)"

interpretation posting: invariant_machine "forum_step a th" forum_ok for a th
proof
  fix s r assume "forum_ok s"
  then show "forum_ok (snd (forum_step a th r s))"
    by (cases r) (simp_all add: createPost_ok createReply_ok votePost_ok voteReply_ok)
qed

subsection \<open>Properties\<close>

definition new_forum :: forum where
  "new_forum = \<lparr>fo_core = empty_core\<lparr>users := [new_user 2 ''a@x''], courses := [new_course 10 ''A'']\<rparr>,
     fo_moderation = no_moderation, fo_posts = [], fo_replies = [], fo_votes = [], fo_fresh = 20\<rparr>"

lemma new_forum_ok: "forum_ok new_forum"
  by (simp add: forum_ok_def keys_ok_def counters_ok_def answers_ok_def votes_ok_def new_forum_def)

text \<open>The vote counters shown with posts and replies are right in every reachable state: each
  equals the number of users whose stored vote has that direction, a user has at most one vote per
  post or reply, and the cap at zero never takes effect.\<close>

theorem vote_counters_match_votes:
  assumes "forum_ok s" "p \<in> set (fo_posts (run_ops (forum_step a th) rs s))"
  shows "po_upvotes p = tally TargetPost (po_id p) Up (fo_votes (run_ops (forum_step a th) rs s))
       \<and> po_downvotes p = tally TargetPost (po_id p) Down (fo_votes (run_ops (forum_step a th) rs s))
       \<and> distinct (map (\<lambda>v. (fv_userId v, fv_targetType v, fv_targetId v))
            (fo_votes (run_ops (forum_step a th) rs s)))"
  using posting.run_preserves[OF assms(1), of a th rs] assms(2)
  by (simp add: forum_ok_def counters_ok_def keys_ok_def votes_ok_def)

definition forum_history :: "forum_request list" where
  "forum_history = [CreatePost None 5 10 2 ''student'' \<lparr>pt_title = ''T'', pt_content = ''C'', pt_isPinned = False\<rparr>,
     VotePost 20 2 (Some Up), VotePost 20 2 (Some Down)]"

lemma forum_history_run:
  "\<exists>p. fo_posts (run_ops (forum_step (\<lambda>_ _. True) 1) forum_history new_forum) = [p] \<and> po_id p = 20 \<and> po_downvotes p = 1"
  by (simp add: forum_history_def new_forum_def createPost_def ensureCourseExists_def find_live_course_def
      new_course_def recordActivity_def find_user_def new_user_def Let_def votePost_def applyVote_def
      moderate_def save_row_def)

theorem vote_counters_match_votes_witness:
  "tally TargetPost 20 Down (fo_votes (run_ops (forum_step (\<lambda>_ _. True) 1) forum_history new_forum)) = 1"
proof -
  obtain p where p: "fo_posts (run_ops (forum_step (\<lambda>_ _. True) 1) forum_history new_forum) = [p]"
    "po_id p = 20" "po_downvotes p = 1"
    using forum_history_run by blast
  then show ?thesis
    using vote_counters_match_votes[OF new_forum_ok, of p "\<lambda>_ _. True" 1 forum_history] by simp
qed

text \<open>In every reachable state a post has at most one accepted answer, and it is the reply the
  post points to.\<close>

theorem one_accepted_answer:
  assumes "forum_ok s" "p \<in> set (fo_posts (run_ops (forum_step a th) rs s))"
    and "r \<in> set (fo_replies (run_ops (forum_step a th) rs s))" "re_postId r = po_id p"
  shows "re_isAnswer r \<longleftrightarrow> po_answerReplyId p = Some (re_id r)"
  using posting.run_preserves[OF assms(1), of a th rs] assms(2-4)
  by (simp add: forum_ok_def answers_ok_def)

definition answer_history :: "forum_request list" where
  "answer_history = [CreatePost None 5 10 2 ''student'' \<lparr>pt_title = ''T'', pt_content = ''C'', pt_isPinned = False\<rparr>,
     CreateReply None 6 20 2 ''admin'' \<lparr>rd_content = ''first'', rd_isAnswer = True\<rparr>,
     CreateReply None 7 20 2 ''admin'' \<lparr>rd_content = ''second'', rd_isAnswer = True\<rparr>]"

lemma answer_history_run:
  "\<exists>p r1 r2. fo_posts (run_ops (forum_step (\<lambda>_ _. True) 1) answer_history new_forum) = [p]
     \<and> fo_replies (run_ops (forum_step (\<lambda>_ _. True) 1) answer_history new_forum) = [r1, r2]
     \<and> po_id p = 20 \<and> po_answerReplyId p = Some 22 \<and> re_id r1 = 21 \<and> re_postId r1 = 20"
  by (simp add: answer_history_def new_forum_def createPost_def createReply_def canModerate_def
      ensureCourseExists_def find_live_course_def new_course_def recordActivity_def find_user_def new_user_def
      Let_def checkMilestones_def milestones_def next_streak_def isSameDay_def utc_day_def ms_per_day_def
      moderate_def save_row_def update_rows_def)

theorem one_accepted_answer_witness:
  "\<exists>r. r \<in> set (fo_replies (run_ops (forum_step (\<lambda>_ _. True) 1) answer_history new_forum))
     \<and> re_id r = 21 \<and> \<not> re_isAnswer r"
proof -
  obtain p r1 r2 where h: "fo_posts (run_ops (forum_step (\<lambda>_ _. True) 1) answer_history new_forum) = [p]"
    "fo_replies (run_ops (forum_step (\<lambda>_ _. True) 1) answer_history new_forum) = [r1, r2]"
    "po_id p = 20" "po_answerReplyId p = Some 22" "re_id r1 = 21" "re_postId r1 = 20"
    using answer_history_run by blast
  then have "re_isAnswer r1 \<longleftrightarrow> po_answerReplyId p = Some (re_id r1)"
    by (intro one_accepted_answer[OF new_forum_ok, of p "\<lambda>_ _. True" 1 answer_history r1]) simp_all
  with h show ?thesis by (intro exI[of _ r1]) simp
qed

end
