(* ===== verification/Js_Date.thy ===== *)
theory Js_Date
  imports Prelude
begin

text \<open>
  The calendar of \<open>Date\<close>: the year and month of an instant in UTC, the zone the services run in, and the
  first instant of a month. The lemmas: the months partition the time line, in order.
\<close>

subsection \<open>Days and months\<close>

text \<open>The days of a period of 400 years are numbered from its first of March, the years begin in March: year of
  the period and day of that year.\<close>

definition year_of_era :: "int \<Rightarrow> int" where
  "year_of_era doe = (doe - doe div 1460 + doe div 36524 - doe div 146096) div 365"

definition days_before :: "int \<Rightarrow> int" where
  "days_before yoe = 365 * yoe + yoe div 4 - yoe div 100"

text \<open>Year and month of an instant, as \<open>toISOString().slice(0, 7)\<close> shows them.\<close>

definition year_month :: "timestamp \<Rightarrow> int \<times> int" where
  "year_month t =
     (let z = t div 86400000 + 719468;
          era = z div 146097; doe = z mod 146097;
          yoe = year_of_era doe;
          doy = doe - days_before yoe;
          mp = (5 * doy + 2) div 153;
          month = (if mp < 10 then mp + 3 else mp - 9);
          year = yoe + era * 400
      in (if month \<le> 2 then year + 1 else year, month))"

text \<open>The first instant of a month, \<open>new Date(year, month, 1)\<close>: the inverse calculation.\<close>

definition month_start :: "int \<times> int \<Rightarrow> timestamp" where
  "month_start ym =
     (let y = (if snd ym \<le> 2 then fst ym - 1 else fst ym);
          mp = (if snd ym \<le> 2 then snd ym + 9 else snd ym - 3);
          doy = (153 * mp + 2) div 5
      in (y div 400 * 146097 + days_before (y mod 400) + doy - 719468) * 86400000)"

text \<open>The day of the year the calculation finds is one: 0 to 365, and 365 in a leap year only.\<close>

lemma year_of_era:
  assumes "0 \<le> n" "n < 146097"
  shows "0 \<le> year_of_era n \<and> year_of_era n < 400 \<and> days_before (year_of_era n) \<le> n \<and>
    n < (if year_of_era n = 399 then 146097 else days_before (year_of_era n + 1))"
proof (cases "n = 146096")
  case True
  then show ?thesis by (simp add: year_of_era_def days_before_def)
next
  case False
  define a b u where "a = n div 1460" and "b = n div 36524" and "u = n mod 1460"
  have n: "n = 1460 * a + u" "0 \<le> u" "u \<le> 1459" by (simp_all add: a_def u_def)
  have bn: "36524 * b \<le> n" "n < 36524 * b + 36524" unfolding b_def by linarith+
  have b: "0 \<le> b" "b \<le> 3" using bn assms False by linarith+
  have c: "n div 146096 = 0" using assms False by simp
  define q where "q = (u + b - a) div 365"
  define r where "r = (u + b - a) mod 365"
  have qr: "u + b - a = 365 * q + r" "0 \<le> r" "r < 365" by (simp_all add: q_def r_def)
  have ye: "year_of_era n = 4 * a + q"
  proof -
    have "year_of_era n = (n - a + b) div 365" by (simp add: year_of_era_def a_def b_def c)
    moreover have "n - a + b = u + b - a + (4 * a) * 365" using n(1) by simp
    ultimately show ?thesis by (simp only: q_def div_mult_self1[of 365])
  qed
  have a: "25 * b \<le> a" "a \<le> 25 * b + 25" using n bn b by linarith+
  have q: "- 1 \<le> q" "q \<le> 3" using qr n(2,3) a b by linarith+
  have y: "100 * b \<le> 4 * a + q" "4 * a + q < 100 * b + 100" using qr n bn a b q by linarith+
  have y4: "(4 * a + q) div 4 = (if q = - 1 then a - 1 else a)" "(4 * a + q + 1) div 4 = (if q = 3 then a + 1 else a)"
  proof -
    have "q \<in> {- 1, 0, 1, 2, 3}" using q by auto
    moreover have "(4 * a + q) div 4 = a + q div 4" "(4 * a + q + 1) div 4 = a + (q + 1) div 4"
      by (simp_all only: add.assoc div_mult_self4[of 4])
    ultimately show "(4 * a + q) div 4 = (if q = - 1 then a - 1 else a)" "(4 * a + q + 1) div 4 = (if q = 3 then a + 1 else a)"
      by auto
  qed
  have y100: "(4 * a + q) div 100 = b" "(4 * a + q + 1) div 100 = (if 4 * a + q + 1 = 100 * b + 100 then b + 1 else b)"
    using y by linarith (use y in \<open>auto; linarith\<close>)
  have low: "n - days_before (4 * a + q) = (if q = - 1 then r + 1 else r)"
    using n(1) qr(1) by (simp add: days_before_def y4 y100)
  have up: "n < days_before (4 * a + q + 1)"
  proof (cases "4 * a + q + 1 = 100 * b + 100")
    case True
    then have "q = - 1 \<or> q = 3" using q by presburger
    with True n(1) qr y100(2) y4(2) bn(2) show ?thesis by (auto simp: days_before_def)
  next
    case False
    with n(1) qr y100(2) y4(2) q show ?thesis by (auto simp: days_before_def)
  qed
  have "days_before (4 * a + q) \<le> n" using low qr(2) by (simp split: if_splits)
  then show ?thesis using up y b assms(2) by (auto simp: ye)
qed

text \<open>Months are numbered by \<open>12 * year + month - 1\<close>; a year that begins in March has the months 0 to 11.\<close>

definition month_index :: "int \<times> int \<Rightarrow> int" where
  "month_index ym = 12 * fst ym + snd ym - 1"

definition march_start :: "int \<Rightarrow> int" where
  "march_start j = j div 12 div 400 * 146097 + days_before (j div 12 mod 400) + (153 * (j mod 12) + 2) div 5"

lemma march_start_at:
  "0 \<le> m \<Longrightarrow> m \<le> 11 \<Longrightarrow> march_start (12 * y + m) = y div 400 * 146097 + days_before (y mod 400) + (153 * m + 2) div 5"
  by (simp add: march_start_def)

lemma month_start_index:
  assumes "1 \<le> snd ym" "snd ym \<le> 12"
  shows "month_start ym = (march_start (month_index ym - 2) - 719468) * 86400000"
proof -
  have "(month_index ym - 2) div 12 = (if snd ym \<le> 2 then fst ym - 1 else fst ym)"
    "(month_index ym - 2) mod 12 = (if snd ym \<le> 2 then snd ym + 9 else snd ym - 3)"
    using assms by (auto simp: month_index_def) presburger+
  then show ?thesis by (auto simp: month_start_def march_start_def Let_def)
qed

lemma step_div:
  assumes "0 < (k :: int)"
  shows "(z + 1) div k = (if z mod k = k - 1 then z div k + 1 else z div k)"
    "(z + 1) mod k = (if z mod k = k - 1 then 0 else z mod k + 1)"
proof -
  let ?q = "z div k" and ?r = "z mod k"
  obtain q r where qr: "?q = q" "?r = r" by blast
  then have z: "z = k * q + r" "0 \<le> r" "r < k" using assms by auto
  show "(z + 1) div k = (if ?r = k - 1 then ?q + 1 else ?q)"
    by (rule int_div_pos_eq[where r = "if ?r = k - 1 then 0 else ?r + 1"]) (use z assms in \<open>auto simp: qr algebra_simps\<close>)
  show "(z + 1) mod k = (if ?r = k - 1 then 0 else ?r + 1)"
    by (rule int_mod_pos_eq[where q = "if ?r = k - 1 then ?q + 1 else ?q"]) (use z assms in \<open>auto simp: qr algebra_simps\<close>)
qed

lemma year_length: "365 \<le> (y + 1) div 400 * 146097 + days_before ((y + 1) mod 400) - (y div 400 * 146097 + days_before (y mod 400))"
proof (cases "y mod 400 = 399")
  case True
  then have "(y + 1) div 400 = y div 400 + 1" "(y + 1) mod 400 = 0" using step_div[of 400 y] by simp_all
  then show ?thesis by (simp add: True days_before_def)
next
  case False
  then have "(y + 1) div 400 = y div 400" "(y + 1) mod 400 = y mod 400 + 1" using step_div[of 400 y] by simp_all
  moreover have step: "(z + 1) div 100 - z div 100 \<le> (z + 1) div 4 - z div 4" for z :: int
  proof (cases "z mod 100 = 99")
    case True
    then have "z mod 100 mod 4 = 3" by simp
    then have "z mod 4 = 3" by (simp add: mod_mod_cancel)
    with True show ?thesis using step_div[of 100 z] step_div[of 4 z] by simp
  next
    case False
    then show ?thesis using step_div[of 100 z] zdiv_mono1[of z "z + 1" 4] by simp
  qed
  ultimately have "(y + 1) div 400 * 146097 + days_before ((y + 1) mod 400) - (y div 400 * 146097 + days_before (y mod 400)) =
      365 + ((y mod 400 + 1) div 4 - y mod 400 div 4) - ((y mod 400 + 1) div 100 - y mod 400 div 100)"
    by (simp only: days_before_def) (simp only: algebra_simps)
  moreover obtain a b where "(y mod 400 + 1) div 4 - y mod 400 div 4 = a" "(y mod 400 + 1) div 100 - y mod 400 div 100 = b" by blast
  ultimately show ?thesis using step[of "y mod 400"] by (simp only:)
qed

lemma march_start_Suc: "march_start j < march_start (j + 1)"
proof (cases "j mod 12 = 11")
  case True
  then have "(j + 1) div 12 = j div 12 + 1" "(j + 1) mod 12 = 0" using step_div[of 12 j] by simp_all
  then show ?thesis using year_length[of "j div 12"] by (simp add: march_start_def True)
next
  case False
  then have "(j + 1) div 12 = j div 12" "(j + 1) mod 12 = j mod 12 + 1" using step_div[of 12 j] by simp_all
  moreover have "(153 * m + 2) div 5 < (153 * (m + 1) + 2) div 5" for m :: int by presburger
  ultimately show ?thesis by (simp add: march_start_def)
qed

lemma march_start_less_iff [simp]: "march_start i < march_start j \<longleftrightarrow> i < j"
proof -
  have less: "march_start i < march_start j" if "i < j" for i j
  proof -
    have "march_start i < march_start (i + 1 + int n)" for n
    proof (induction n)
      case (Suc n)
      moreover have "i + 1 + int (Suc n) = i + 1 + int n + 1" by simp
      ultimately show ?case using march_start_Suc[of "i + 1 + int n"] by (metis less_trans)
    qed (simp add: march_start_Suc)
    from this[of "nat (j - i - 1)"] that show ?thesis by simp
  qed
  show ?thesis using less[of i j] less[of j i] by (cases i j rule: linorder_cases) auto
qed

lemma march_start_le_iff [simp]: "march_start i \<le> march_start j \<longleftrightarrow> i \<le> j"
  by (metis linorder_not_le march_start_less_iff)

text \<open>The month of an instant begins before it and the next one after it.\<close>

lemma year_month_correct:
  "1 \<le> snd (year_month t) \<and> snd (year_month t) \<le> 12 \<and>
   march_start (month_index (year_month t) - 2) \<le> t div 86400000 + 719468 \<and>
   t div 86400000 + 719468 < march_start (month_index (year_month t) - 1)"
proof -
  define z where "z = t div 86400000 + 719468"
  define e n where "e = z div 146097" and "n = z mod 146097"
  define y where "y = year_of_era n"
  define d where "d = n - days_before y"
  define m where "m = (5 * d + 2) div 153"
  have n: "0 \<le> n" "n < 146097" by (simp_all add: n_def)
  have y: "0 \<le> y" "y < 400" "days_before y \<le> n" "n < (if y = 399 then 146097 else days_before (y + 1))"
    using year_of_era[OF n] unfolding y_def by blast+
  have len: "n < days_before y + 366"
  proof (cases "y = 399")
    case True
    with n(2) show ?thesis by (simp add: days_before_def)
  next
    case False
    have "(y + 1) div 4 \<le> y div 4 + 1" "y div 100 \<le> (y + 1) div 100" using step_div[of 4 y] step_div[of 100 y] by simp_all
    with y(4) False show ?thesis by (simp add: days_before_def)
  qed
  have d: "0 \<le> d" "d < 366" using y(3) len by (simp_all add: d_def)
  have m: "0 \<le> m" "m \<le> 11" using d unfolding m_def by linarith+
  have mb: "153 * m \<le> 5 * d + 2" "5 * d + 2 < 153 * m + 153" unfolding m_def by linarith+
  have dm: "(153 * m + 2) div 5 \<le> d" "d < (153 * m + 155) div 5" using mb by linarith+
  have ym: "year_month t = (if m < 10 then y + e * 400 else y + e * 400 + 1, if m < 10 then m + 3 else m - 9)"
    unfolding year_month_def Let_def z_def[symmetric] e_def[symmetric] n_def[symmetric] y_def[symmetric] d_def[symmetric] m_def[symmetric]
    using m by auto
  have idx: "month_index (year_month t) - 2 = 12 * (y + e * 400) + m" "month_index (year_month t) - 1 = 12 * (y + e * 400) + m + 1"
    by (simp_all add: ym month_index_def)
  have z: "z = e * 146097 + n" by (simp add: e_def n_def)
  have part: "(y + e * 400) div 400 = e" "(y + e * 400) mod 400 = y" using y(1,2) by simp_all
  have at: "march_start (12 * (y + e * 400) + m) = e * 146097 + days_before y + (153 * m + 2) div 5"
    using march_start_at[OF m, of "y + e * 400"] by (simp only: part)
  have "march_start (12 * (y + e * 400) + m) \<le> z" using dm(1) unfolding at z d_def by simp
  moreover have "z < march_start (12 * (y + e * 400) + m + 1)"
  proof (cases "m = 11")
    case True
    have "12 * (y + e * 400) + m + 1 = 12 * (y + e * 400 + 1)" using True by simp
    then have "march_start (12 * (y + e * 400) + m + 1) = march_start (12 * (y + e * 400 + 1) + 0)"
      by (intro arg_cong[where f = march_start]) (simp add: True)
    also have "\<dots> = (y + e * 400 + 1) div 400 * 146097 + days_before ((y + e * 400 + 1) mod 400)"
      using march_start_at[of 0 "y + e * 400 + 1"] by simp_all
    also have "z < \<dots>"
      using y(4) part step_div[of 400 "y + e * 400"] by (cases "y = 399") (simp_all add: z days_before_def)
    finally show ?thesis .
  next
    case False
    then have "march_start (12 * (y + e * 400) + (m + 1)) = e * 146097 + days_before y + (153 * m + 155) div 5"
      using march_start_at[of "m + 1" "y + e * 400"] m unfolding part by (simp add: add.commute)
    with dm(2) show ?thesis by (simp add: z d_def add.assoc)
  qed
  ultimately show ?thesis
    unfolding idx z_def[symmetric] using m by (simp add: ym)
qed

lemma year_month_range: "1 \<le> snd (year_month t)" "snd (year_month t) \<le> 12"
  using year_month_correct by blast+

lemma whole_days: "k * 86400000 \<le> t \<longleftrightarrow> k \<le> t div (86400000 :: int)"
  by (rule iffI) linarith+

lemma month_start_le_iff:
  assumes "1 \<le> snd ym" "snd ym \<le> 12"
  shows "month_start ym \<le> t \<longleftrightarrow> month_index ym \<le> month_index (year_month t)"
proof -
  let ?i = "month_index (year_month t)"
  have "month_start ym \<le> t \<longleftrightarrow> march_start (month_index ym - 2) \<le> t div 86400000 + 719468"
    unfolding month_start_index[OF assms] by (simp only: whole_days diff_le_eq)
  also have "\<dots> \<longleftrightarrow> month_index ym \<le> ?i"
  proof
    assume "march_start (month_index ym - 2) \<le> t div 86400000 + 719468"
    then have "march_start (month_index ym - 2) < march_start (?i - 1)" using year_month_correct[of t] by linarith
    then show "month_index ym \<le> ?i" by simp
  next
    assume "month_index ym \<le> ?i"
    then have "march_start (month_index ym - 2) \<le> march_start (?i - 2)" by simp
    then show "march_start (month_index ym - 2) \<le> t div 86400000 + 719468" using year_month_correct[of t] by linarith
  qed
  finally show ?thesis .
qed

lemma month_index_inj:
  "1 \<le> snd a \<Longrightarrow> snd a \<le> 12 \<Longrightarrow> 1 \<le> snd b \<Longrightarrow> snd b \<le> 12 \<Longrightarrow> month_index a = month_index b \<longleftrightarrow> a = b"
  unfolding month_index_def prod_eq_iff by presburger

lemma year_month_mono: "t \<le> t' \<Longrightarrow> month_index (year_month t) \<le> month_index (year_month t')"
  using month_start_le_iff[OF year_month_range, of t t] month_start_le_iff[OF year_month_range, of t t'] by linarith

text \<open>The month that begins at \<open>month_start ym\<close> is \<open>ym\<close>.\<close>

lemma year_month_month_start:
  assumes "1 \<le> snd ym" "snd ym \<le> 12"
  shows "year_month (month_start ym) = ym"
proof -
  let ?t = "month_start ym"
  have "month_index ym \<le> month_index (year_month ?t)" using month_start_le_iff[OF assms, of ?t] by simp
  moreover have start: "month_start (year_month t) \<le> t" for t using month_start_le_iff[OF year_month_range, of t t] by simp
  have "march_start (month_index (year_month t) - 2) \<le> march_start (month_index ym - 2)" if "t = month_start ym" for t
  proof -
    have "(march_start (month_index (year_month t) - 2) - 719468) * 86400000 \<le> (march_start (month_index ym - 2) - 719468) * 86400000"
      using start[of t] that unfolding month_start_index[OF year_month_range] month_start_index[OF assms] by simp
    then show ?thesis by simp
  qed
  from this[OF refl] have "march_start (month_index (year_month ?t) - 2) \<le> march_start (month_index ym - 2)" .
  then have "month_index (year_month ?t) \<le> month_index ym" by simp
  ultimately have "month_index (year_month ?t) = month_index ym" by simp
  then show ?thesis using month_index_inj[OF year_month_range assms] by blast
qed

end
