(* ===== verification/Payouts.thy ===== *)
theory Payouts
  imports Kyc Js_Date
begin

text \<open>
  Instructor payouts (\<open>payouts/payouts.service.ts\<close>): the paged count of a course's completions, the
  split of the revenue, the processing of a payout behind the identity check, and the reports.
  Amounts are doubles; \<open>num2\<close> is what the \<open>decimal(12, 2)\<close> columns keep of a double. \<open>ok c off\<close> tells
  whether the page query of course \<open>c\<close> at offset \<open>off\<close> succeeds, because the code catches its failure
  and goes on with the next page: the scan is the one loop of the service that need not end.
\<close>

datatype payout_status = PayoutPending | PayoutProcessed | PayoutFailed

record payout =
  py_id :: uuid
  py_instructorId :: uuid
  py_courseId :: uuid
  py_totalRevenue :: js_num
  py_platformFee :: js_num
  py_instructorShare :: js_num
  py_status :: payout_status
  py_transactionId :: "string option"
  py_payoutDate :: timestamp
  py_createdAt :: timestamp

record payout_db =
  py_core :: core
  py_payouts :: "payout list"
  py_fresh :: nat

subsection \<open>Counting completions page by page\<close>

definition completions :: "timestamp \<Rightarrow> timestamp \<Rightarrow> uuid \<Rightarrow> core \<Rightarrow> enrollment list" where
  "completions from till courseId s =
     order_by (\<lambda>e. int (en_id e))
       (filter (\<lambda>e. en_courseId e = courseId \<and>
          (case en_completedAt e of None \<Rightarrow> False | Some t \<Rightarrow> from \<le> t \<and> t \<le> till)) (enrollments s))"

definition page :: "nat \<Rightarrow> nat \<Rightarrow> 'a list \<Rightarrow> 'a list" where
  "page skip limit xs = take limit (drop skip xs)"

partial_function (option) count_pages ::
  "(nat \<Rightarrow> bool) \<Rightarrow> nat \<Rightarrow> enrollment list \<Rightarrow> nat \<Rightarrow> nat \<Rightarrow> nat option" where
  "count_pages ok batchSize rows offset tot =
     (if \<not> ok offset then count_pages ok batchSize rows (offset + batchSize) tot
      else (let es = page offset batchSize rows
            in if length es = 0 then Some tot
               else if length es < batchSize then Some (tot + length es)
               else count_pages ok batchSize rows (offset + batchSize) (tot + length es)))"

subsection \<open>The payout run\<close>

definition payout_split :: "nat \<Rightarrow> js_num \<Rightarrow> js_num \<Rightarrow> js_num \<times> js_num \<times> js_num" where
  "payout_split totalCompletions coursePrice platformFeePercent =
     (let totalRevenue = js_mul (of_nat totalCompletions) coursePrice;
          platformFee = js_div (js_mul totalRevenue platformFeePercent) 100
      in (totalRevenue, platformFee, js_sub totalRevenue platformFee))"

definition new_payout ::
  "timestamp \<Rightarrow> js_num \<Rightarrow> (uuid \<Rightarrow> js_num) \<Rightarrow> course \<Rightarrow> uuid \<Rightarrow> nat \<Rightarrow> payout" where
  "new_payout now platformFeePercent coursePrice course instructorId tot =
     (case payout_split tot (coursePrice (co_id course)) platformFeePercent of
        (revenue, fee, share) \<Rightarrow>
          \<lparr>py_id = 0, py_instructorId = instructorId, py_courseId = co_id course, py_totalRevenue = revenue,
           py_platformFee = fee, py_instructorShare = share, py_status = PayoutPending,
           py_transactionId = None, py_payoutDate = now, py_createdAt = now\<rparr>)"

text \<open>The instructor of a course as the relation loads it.\<close>

definition instructor_of :: "course \<Rightarrow> core \<Rightarrow> user option" where
  "instructor_of c s = Option.bind (co_instructorId c) (\<lambda>i. find_user i s)"

fun payouts_for ::
  "(uuid \<Rightarrow> nat \<Rightarrow> bool) \<Rightarrow> nat \<Rightarrow> timestamp \<Rightarrow> timestamp \<Rightarrow> timestamp \<Rightarrow> js_num \<Rightarrow> (uuid \<Rightarrow> js_num) \<Rightarrow> core
   \<Rightarrow> course list \<Rightarrow> payout list option" where
  "payouts_for ok batchSize now from till percent price s [] = Some []"
| "payouts_for ok batchSize now from till percent price s (c # cs) =
     (case instructor_of c s of
        None \<Rightarrow> payouts_for ok batchSize now from till percent price s cs
      | Some instructor \<Rightarrow>
          (case count_pages (ok (co_id c)) batchSize (completions from till (co_id c) s) 0 0 of
             None \<Rightarrow> None
           | Some tot \<Rightarrow>
               (case payouts_for ok batchSize now from till percent price s cs of
                  None \<Rightarrow> None
                | Some ps \<Rightarrow>
                    Some (if tot = 0 then ps else new_payout now percent price c (u_id instructor) tot # ps))))"

fun save_payouts :: "(js_num \<Rightarrow> js_num) \<Rightarrow> payout list \<Rightarrow> payout_db \<Rightarrow> payout_db" where
  "save_payouts num2 [] d = d"
| "save_payouts num2 (p # ps) d =
     save_payouts num2 ps
       (d\<lparr>py_payouts := py_payouts d @
            [p\<lparr>py_id := py_fresh d, py_totalRevenue := num2 (py_totalRevenue p),
               py_platformFee := num2 (py_platformFee p), py_instructorShare := num2 (py_instructorShare p)\<rparr>],
          py_fresh := Suc (py_fresh d)\<rparr>)"

text \<open>\<open>None\<close>: the run never returns.\<close>

definition calculatePayouts ::
  "(uuid \<Rightarrow> nat \<Rightarrow> bool) \<Rightarrow> (js_num \<Rightarrow> js_num) \<Rightarrow> nat \<Rightarrow> timestamp \<Rightarrow> js_num \<Rightarrow> (uuid \<Rightarrow> js_num) \<Rightarrow> timestamp
   \<Rightarrow> timestamp \<Rightarrow> payout_db \<Rightarrow> (payout list \<times> payout_db) option" where
  "calculatePayouts ok num2 batchSize now percent price startDate endDate d =
     (case payouts_for ok batchSize now startDate endDate percent price (py_core d)
             (filter (\<lambda>c. co_instructorId c \<noteq> None) (courses (py_core d))) of
        None \<Rightarrow> None
      | Some ps \<Rightarrow> Some (ps, save_payouts num2 ps d))"

subsection \<open>Processing and reports\<close>

definition find_payout :: "uuid \<Rightarrow> payout_db \<Rightarrow> payout option" where
  "find_payout i d = find (\<lambda>p. py_id p = i) (py_payouts d)"

definition save_payout :: "payout \<Rightarrow> payout_db \<Rightarrow> payout_db" where
  "save_payout p d = d\<lparr>py_payouts := save_row py_id p (py_payouts d)\<rparr>"

definition string_of_time :: "timestamp \<Rightarrow> string" where
  "string_of_time t = string_of_nat (nat t)"

definition processPayout :: "timestamp \<Rightarrow> uuid \<Rightarrow> payout_db \<Rightarrow> (payout_db, payout) outcome" where
  "processPayout now payoutId d =
     (case find_payout payoutId d of
        None \<Rightarrow> (Inl (NotFoundException ''Payout not found''), d)
      | Some p \<Rightarrow>
          (case Option.bind (find_user (py_instructorId p) (py_core d)) u_stellarPublicKey of
             None \<Rightarrow> (Inl (ForbiddenException
                 ''Instructor must have a Stellar public key configured to receive payouts''), d)
           | Some key \<Rightarrow>
               if key = []
               then (Inl (ForbiddenException
                 ''Instructor must have a Stellar public key configured to receive payouts''), d)
               else if \<not> isApproved key (py_core d)
               then (Inl (ForbiddenException
                 ''KYC verification is required before processing payouts. Please complete KYC verification.''),
                 save_payout (p\<lparr>py_status := PayoutFailed\<rparr>) d)
               else
                 (let p' = p\<lparr>py_status := PayoutProcessed, py_transactionId := Some (''TXN-'' @ string_of_time now)\<rparr>
                  in (Inr p', save_payout p' d))))"

definition instructor_payouts :: "uuid \<Rightarrow> payout_db \<Rightarrow> payout list" where
  "instructor_payouts i d = filter (\<lambda>p. py_instructorId p = i) (py_payouts d)"

definition getInstructorPayouts :: "uuid \<Rightarrow> payout_db \<Rightarrow> payout list" where
  "getInstructorPayouts i d = order_by_desc py_createdAt (instructor_payouts i d)"

definition getPayoutHistory :: "uuid \<Rightarrow> nat \<Rightarrow> payout_db \<Rightarrow> payout list" where
  "getPayoutHistory i limit d = take limit (getInstructorPayouts i d)"

definition js_sum :: "js_num list \<Rightarrow> js_num" where
  "js_sum xs = fold (\<lambda>x acc. js_add acc x) xs 0"

definition getPayoutStats :: "uuid \<Rightarrow> payout_db \<Rightarrow> js_num \<times> nat \<times> nat" where
  "getPayoutStats i d =
     (let ps = instructor_payouts i d
      in (js_sum (map py_instructorShare ps), count_rows (\<lambda>p. py_status p = PayoutPending) ps,
          count_rows (\<lambda>p. py_status p = PayoutProcessed) ps))"

definition getMonthlyRevenue :: "uuid \<Rightarrow> payout_db \<Rightarrow> ((int \<times> int) \<times> js_num) list" where
  "getMonthlyRevenue i d =
     fold (\<lambda>p. upsert_entry (year_month (py_payoutDate p))
                 (\<lambda>v. js_add (case v of None \<Rightarrow> 0 | Some r \<Rightarrow> r) (py_instructorShare p)))
       (order_by py_payoutDate (filter (\<lambda>p. py_status p = PayoutProcessed) (instructor_payouts i d))) []"

definition getPerCourseRevenue :: "uuid \<Rightarrow> payout_db \<Rightarrow> (uuid \<times> (string option \<times> js_num \<times> nat)) list" where
  "getPerCourseRevenue i d =
     fold (\<lambda>p. upsert_entry (py_courseId p)
                 (\<lambda>v. case v of
                        None \<Rightarrow> (map_option co_title (find_course (py_courseId p) (py_core d)),
                                 js_add 0 (py_instructorShare p), 1)
                      | Some (title, revenue, n) \<Rightarrow> (title, js_add revenue (py_instructorShare p), n + 1)))
       (instructor_payouts i d) []"

datatype trend = TrendUp | TrendDown | TrendStable

definition growths :: "js_num list \<Rightarrow> js_num list" where
  "growths rs = map (\<lambda>(a, b). js_sub b a) (zip rs (tl rs))"

definition getRevenueProjection :: "uuid \<Rightarrow> payout_db \<Rightarrow> js_num \<times> trend" where
  "getRevenueProjection i d =
     (let rs = map snd (getMonthlyRevenue i d)
      in if length rs < 2 then (case rs of [] \<Rightarrow> 0 | r # _ \<Rightarrow> r, TrendStable)
         else
           (let final = last rs; prev = rs ! (length rs - 2);
                avgGrowth = js_div (js_sum (growths rs)) (of_nat (length rs - 1));
                projected = max 0 (js_add final avgGrowth)
            in (js_div (of_int (math_round (js_mul projected 100))) 100,
                if js_mul prev (fl (105 / 100)) < final then TrendUp
                else if final < js_mul prev (fl (95 / 100)) then TrendDown else TrendStable)))"

subsection \<open>The scan\<close>

lemma count_pages_stop:
  assumes "0 < b" "length rows \<le> offset" "ok offset"
  shows "count_pages ok b rows offset tot = Some tot"
  using assms by (subst count_pages.simps) (simp add: page_def)

lemma count_pages_all_ok:
  assumes "0 < b" "\<And>off. ok off"
  shows "count_pages ok b rows offset tot = Some (tot + (length rows - offset))"
proof (induction "length rows - offset" arbitrary: offset tot rule: less_induct)
  case less
  show ?case
  proof (cases "offset < length rows")
    case False
    with count_pages_stop[OF assms(1), of rows offset ok tot] assms(2) show ?thesis by simp
  next
    case True
    show ?thesis
    proof (cases "length rows - offset < b")
      case True
      with \<open>offset < length rows\<close> assms show ?thesis
        by (subst count_pages.simps) (simp add: page_def min_def Let_def)
    next
      case False
      have "length rows - (offset + b) < length rows - offset"
        using \<open>offset < length rows\<close> assms(1) by simp
      with False \<open>offset < length rows\<close> assms less show ?thesis
        by (subst count_pages.simps) (simp add: page_def min_def Let_def)
    qed
  qed
qed

text \<open>The loop comes to an end at the first page query that succeeds and is not full; it skips the
  pages whose query fails, so it counts at most what there is.\<close>

lemma count_pages_returns:
  assumes "0 < b" "ok (offset + k * b)" "length rows < offset + (k + 1) * b"
  shows "\<exists>n. count_pages ok b rows offset tot = Some (tot + n) \<and> n \<le> length rows - offset"
  using assms
proof (induction k arbitrary: offset tot)
  case 0
  then have "ok offset" "length (page offset b rows) < b" by (auto simp: page_def)
  then have "count_pages ok b rows offset tot = Some (tot + length (page offset b rows))"
    by (subst count_pages.simps) (auto simp: Let_def)
  then show ?case by (auto simp: page_def)
next
  case (Suc k)
  from Suc.prems have step: "ok ((offset + b) + k * b)" "length rows < (offset + b) + (k + 1) * b"
    by (simp_all add: algebra_simps)
  show ?case
  proof (cases "ok offset")
    case False
    then have "count_pages ok b rows offset tot = count_pages ok b rows (offset + b) tot"
      by (subst count_pages.simps) simp
    with Suc.IH[OF Suc.prems(1) step, of tot] show ?thesis by auto
  next
    case True
    let ?n = "length (page offset b rows)"
    show ?thesis
    proof (cases "?n < b")
      case short: True
      with True have "count_pages ok b rows offset tot = Some (tot + ?n)"
        by (subst count_pages.simps) (auto simp: Let_def)
      then show ?thesis by (auto simp: page_def)
    next
      case False
      then have "count_pages ok b rows offset tot = count_pages ok b rows (offset + b) (tot + ?n)"
        using True Suc.prems(1) by (subst count_pages.simps) (auto simp: Let_def)
      moreover from Suc.IH[OF Suc.prems(1) step, of "tot + ?n"] obtain m where
        "count_pages ok b rows (offset + b) (tot + ?n) = Some (tot + ?n + m)"
        "m \<le> length rows - (offset + b)" by blast
      moreover have "?n + (length rows - (offset + b)) \<le> length rows - offset"
        using False by (auto simp: page_def)
      ultimately show ?thesis by (intro exI[of _ "?n + m"]) auto
    qed
  qed
qed

text \<open>A page query that never succeeds keeps the loop going for ever.\<close>

lemma count_pages_stuck:
  assumes "\<And>off. \<not> ok off"
  shows "count_pages ok b rows offset tot = None"
proof (cases "count_pages ok b rows offset tot")
  case (Some y)
  have "\<exists>off. ok off"
    by (rule count_pages.raw_induct[where P = "\<lambda>ok _ _ _ _ _. \<exists>off. ok off", OF _ Some])
      (auto simp: Let_def split: if_splits)
  with assms show ?thesis by blast
qed

lemma payouts_for_all_ok:
  assumes "0 < b" "\<And>c off. ok c off"
  shows "payouts_for ok b now from till percent price s cs =
    Some (concat (map (\<lambda>c. case instructor_of c s of
            None \<Rightarrow> []
          | Some u \<Rightarrow> (let n = length (completions from till (co_id c) s)
                        in if n = 0 then [] else [new_payout now percent price c (u_id u) n])) cs))"
proof (induction cs)
  case (Cons c cs)
  have "count_pages (ok (co_id c)) b (completions from till (co_id c) s) 0 0
      = Some (length (completions from till (co_id c) s))"
    using count_pages_all_ok[OF assms(1), of "ok (co_id c)" "completions from till (co_id c) s" 0 0] assms(2)
    by simp
  with Cons.IH show ?case by (simp add: Let_def split: option.split)
qed simp

lemma save_payouts_rows:
  "\<exists>qs. py_payouts (save_payouts num2 ps d) = py_payouts d @ qs \<and>
     map py_courseId qs = map py_courseId ps \<and> map py_status qs = map py_status ps \<and>
     map py_instructorShare qs = map (num2 \<circ> py_instructorShare) ps"
proof (induction ps arbitrary: d)
  case (Cons p ps)
  let ?q = "p\<lparr>py_id := py_fresh d, py_totalRevenue := num2 (py_totalRevenue p),
               py_platformFee := num2 (py_platformFee p), py_instructorShare := num2 (py_instructorShare p)\<rparr>"
  from Cons.IH[of "d\<lparr>py_payouts := py_payouts d @ [?q], py_fresh := Suc (py_fresh d)\<rparr>"] obtain qs where
    "py_payouts (save_payouts num2 (p # ps) d) = (py_payouts d @ [?q]) @ qs"
    "map py_courseId qs = map py_courseId ps" "map py_status qs = map py_status ps"
    "map py_instructorShare qs = map (num2 \<circ> py_instructorShare) ps" by auto
  then show ?case by (intro exI[of _ "?q # qs"]) simp
qed simp

subsection \<open>Properties\<close>

text \<open>When every page query succeeds, the payout run returns, whatever the batch size, and gives one
  payout for each course with an instructor and a completion in the period, in course order, whose
  revenue counts every completion exactly once; courses without a completion give none. The payouts
  are stored behind the existing ones.\<close>

theorem payout_run_exact:
  assumes "0 < b" "\<And>c off. ok c off"
  shows "\<exists>ps d'. calculatePayouts ok num2 b now percent price from till d = Some (ps, d')
       \<and> ps = concat (map (\<lambda>c. case instructor_of c (py_core d) of
                None \<Rightarrow> []
              | Some u \<Rightarrow> (let n = length (completions from till (co_id c) (py_core d))
                            in if n = 0 then [] else [new_payout now percent price c (u_id u) n]))
            (filter (\<lambda>c. co_instructorId c \<noteq> None) (courses (py_core d))))
       \<and> (\<exists>qs. py_payouts d' = py_payouts d @ qs \<and> map py_courseId qs = map py_courseId ps)"
  using payouts_for_all_ok[OF assms, where s = "py_core d"] save_payouts_rows[of num2 _ d]
  by (fastforce simp: calculatePayouts_def)

definition payout_day :: payout_db where
  "payout_day = \<lparr>py_core = empty_core\<lparr>users := [new_user 2 ''t@x''],
       courses := [(new_course 10 ''A'')\<lparr>co_instructorId := Some 2\<rparr>],
       enrollments := [\<lparr>en_id = 4, en_userId = 7, en_courseId = 10, en_enrolledAt = 0,
         en_completedAt = Some 50, en_enrolledVersionNumber = None, en_transactionHash = None\<rparr>]\<rparr>,
     py_payouts = [], py_fresh = 1\<rparr>"

theorem payout_run_exact_witness:
  "\<exists>ps d'. calculatePayouts (\<lambda>_ _. True) id 500 90 20 (\<lambda>_. 100) 0 60 payout_day = Some (ps, d')
     \<and> map py_courseId ps = [10]"
proof -
  let ?c = "(new_course 10 ''A'')\<lparr>co_instructorId := Some 2\<rparr>"
  have "completions 0 60 10 (py_core payout_day) = enrollments (py_core payout_day)"
    "length (enrollments (py_core payout_day)) = 1"
    "filter (\<lambda>c. co_instructorId c \<noteq> None) (courses (py_core payout_day)) = [?c]"
    "instructor_of ?c (py_core payout_day) = Some (new_user 2 ''t@x'')" "co_id ?c = 10"
    by (simp_all add: completions_def payout_day_def order_by_def instructor_of_def find_user_def
        new_user_def new_course_def)
  then show ?thesis
    using payout_run_exact[of 500 "\<lambda>_ _. True" id 90 20 "\<lambda>_. 100" 0 60 payout_day]
    by (auto simp: new_payout_def payout_split_def Let_def)
qed

text \<open>The scan of a course ends as soon as one page query at or behind the last page succeeds, and
  then counts no more completions than there are, failures in between included; if the queries keep
  failing it never ends, because a failed page is skipped without a bound on the attempts.\<close>

theorem payout_scan_ends:
  assumes "0 < b"
  shows "((\<exists>k. ok (k * b) \<and> length rows < (k + 1) * b) \<longrightarrow>
            (\<exists>n \<le> length rows. count_pages ok b rows 0 0 = Some n))
       \<and> ((\<forall>off. \<not> ok off) \<longrightarrow> count_pages ok b rows 0 0 = None)"
proof (intro conjI impI)
  assume "\<exists>k. ok (k * b) \<and> length rows < (k + 1) * b"
  then obtain k where k: "ok (0 + k * b)" "length rows < 0 + (k + 1) * b" by auto
  show "\<exists>n \<le> length rows. count_pages ok b rows 0 0 = Some n"
    using count_pages_returns[of b ok 0 k rows 0] assms k by auto
qed (auto intro: count_pages_stuck)

theorem payout_scan_ends_witness:
  "(\<exists>n \<le> 0. count_pages (\<lambda>off. 500 \<le> off) 500 [] 0 0 = Some n) \<and> count_pages (\<lambda>_. False) 500 [] 0 0 = None"
proof -
  have "\<exists>k. 500 \<le> k * (500::nat) \<and> length ([] :: enrollment list) < (k + 1) * 500"
    by (rule exI[of _ 1]) simp
  then show ?thesis
    using payout_scan_ends[of 500 "\<lambda>off. 500 \<le> off" "[]"] payout_scan_ends[of 500 "\<lambda>_. False" "[]"] by simp
qed

lemma two_roundings:
  assumes "0 \<le> x"
  shows "\<bar>fl (fl x / 100) - x / 100\<bar> \<le> x / 100 * (1 / 2 ^ 51)"
proof (rule rel_errorI)
  let ?e = "1 / 2 ^ 53 :: rat"
  have y: "x * (1 - ?e) \<le> fl x" "fl x \<le> x * (1 + ?e)" using fl_rel[OF assms] by simp_all
  have "0 \<le> fl x / 100" using fl_nonneg[OF assms] by simp
  from fl_rel[OF this] have z: "fl x / 100 * (1 - ?e) \<le> fl (fl x / 100)" "fl (fl x / 100) \<le> fl x / 100 * (1 + ?e)"
    by simp_all
  have "x / 100 * (1 - 1 / 2 ^ 51) \<le> x / 100 * ((1 - ?e) * (1 - ?e))"
    using assms by (intro mult_left_mono) (simp_all add: field_simps)
  also have "\<dots> = x * (1 - ?e) / 100 * (1 - ?e)" by simp
  also have "\<dots> \<le> fl x / 100 * (1 - ?e)" by (intro mult_right_mono divide_right_mono y) simp_all
  finally show "x / 100 * (1 - 1 / 2 ^ 51) \<le> fl (fl x / 100)" using z(1) by linarith
  have "fl x / 100 * (1 + ?e) \<le> x * (1 + ?e) / 100 * (1 + ?e)"
    by (intro mult_right_mono divide_right_mono y) simp_all
  also have "\<dots> = x / 100 * ((1 + ?e) * (1 + ?e))" by simp
  also have "\<dots> \<le> x / 100 * (1 + 1 / 2 ^ 51)"
    using assms by (intro mult_left_mono) (simp_all add: field_simps)
  finally show "fl (fl x / 100) \<le> x / 100 * (1 + 1 / 2 ^ 51)" using z(2) by linarith
qed

text \<open>The split of a payout keeps the money together: the fee is the configured percentage of the
  revenue up to a relative error of \<open>2\<^sup>-\<^sup>5\<^sup>1\<close>, and fee and share add up to the revenue up to the
  rounding of one subtraction.\<close>

theorem payout_split_accuracy:
  assumes "payout_split n price percent = (revenue, fee, share)" "0 \<le> price" "0 \<le> percent"
  shows "\<bar>fee - revenue * percent / 100\<bar> \<le> revenue * percent / 100 * (1 / 2 ^ 51)
       \<and> \<bar>(fee + share) - revenue\<bar> \<le> \<bar>revenue - fee\<bar> / 2 ^ 53"
proof -
  have r: "revenue = fl (of_nat n * price)" and f: "fee = fl (fl (revenue * percent) / 100)"
    and s: "share = fl (revenue - fee)"
    using assms(1) by (auto simp: payout_split_def Let_def js_arith_defs)
  have "0 \<le> revenue" unfolding r using assms(2) by (intro fl_nonneg) simp
  then have "0 \<le> revenue * percent" using assms(3) by simp
  with two_roundings[OF this] fl_error[of "revenue - fee"] show ?thesis
    by (simp add: f s algebra_simps)
qed

theorem payout_split_accuracy_witness:
  "\<exists>fee share. payout_split 3 100 20 = (300, fee, share) \<and> \<bar>(fee + share) - 300\<bar> \<le> \<bar>300 - fee\<bar> / 2 ^ 53"
proof -
  obtain revenue fee share where s: "payout_split 3 100 20 = (revenue, fee, share)" by (metis prod.collapse)
  then have "revenue = 300" by (auto simp: payout_split_def Let_def js_mul_def fl_numeral)
  with payout_split_accuracy[OF s] s show ?thesis by auto
qed

text \<open>A payout is processed only for an instructor with a verified key: success implies an
  approved identity, marks exactly that payout as processed with a transaction id, and a failed
  check marks it as failed instead; in every other error nothing is written.\<close>

theorem payout_needs_verified_instructor:
  assumes "processPayout now i d = (r, d')"
  shows "(\<forall>p'. r = Inr p' \<longrightarrow>
            (\<exists>p u key. find_payout i d = Some p \<and> find_user (py_instructorId p) (py_core d) = Some u
               \<and> u_stellarPublicKey u = Some key \<and> isApproved key (py_core d)
               \<and> p' = p\<lparr>py_status := PayoutProcessed, py_transactionId := Some (''TXN-'' @ string_of_time now)\<rparr>
               \<and> d' = save_payout p' d))
       \<and> (\<forall>e. r = Inl e \<longrightarrow> d' = d \<or> (\<exists>p. find_payout i d = Some p \<and> d' = save_payout (p\<lparr>py_status := PayoutFailed\<rparr>) d))"
  using assms
  by (auto simp: processPayout_def Let_def bind_eq_Some_conv split: option.splits if_splits)

definition verified_day :: payout_db where
  "verified_day = \<lparr>py_core = empty_core\<lparr>users := [(new_user 2 ''t@x'')\<lparr>u_stellarPublicKey := Some ''GT''\<rparr>],
       kycCustomers := [\<lparr>ky_id = 5, ky_stellarPublicKey = ''GT'', ky_status = KYC_APPROVED, ky_providerId = None,
         ky_documentData = None, ky_documentType = None, ky_documentUrl = None, ky_selfieUrl = None\<rparr>]\<rparr>,
     py_payouts = [\<lparr>py_id = 3, py_instructorId = 2, py_courseId = 10, py_totalRevenue = 100, py_platformFee = 20,
       py_instructorShare = 80, py_status = PayoutPending, py_transactionId = None, py_payoutDate = 0, py_createdAt = 0\<rparr>],
     py_fresh = 4\<rparr>"

theorem payout_needs_verified_instructor_witness:
  "\<exists>p' d' key. processPayout 7 3 verified_day = (Inr p', d') \<and> isApproved key (py_core verified_day)"
proof -
  obtain p' d' where r: "processPayout 7 3 verified_day = (Inr p', d')"
    by (auto simp: processPayout_def verified_day_def find_payout_def find_user_def new_user_def isApproved_def
        find_customer_def Let_def)
  with payout_needs_verified_instructor[OF r] show ?thesis by auto
qed

end
