(* ===== verification/Webhooks.thy ===== *)
theory Webhooks
  imports Prelude
begin

text \<open>
  Outgoing webhooks (\<open>webhooks/webhooks.service.ts\<close>): registration, the delivery queue, retries and
  the signature check. The queue lives in memory and holds its own copy of each delivery, while the
  retry timer reads deliveries from the table; the two meet in the table. \<open>post\<close> is the HTTP request
  (a status with a body, or an error), \<open>hmac\<close> the keyed hash in hexadecimal; \<open>posted\<close> is a log of the
  deliveries sent, which the code does not keep but a receiver sees.
\<close>

datatype delivery_status = SUCCESS | FAILED | DPENDING

record webhook =
  wh_id :: uuid
  wh_userId :: uuid
  wh_url :: string
  wh_events :: string
  wh_secret :: string
  wh_isActive :: bool

record webhook_delivery =
  wd_id :: uuid
  wd_webhookId :: uuid
  wd_event :: string
  wd_payload :: string
  wd_status :: delivery_status
  wd_responseStatus :: "nat option"
  wd_responseBody :: "string option"
  wd_attempts :: nat
  wd_nextRetryAt :: "timestamp option"
  wd_createdAt :: timestamp

record webhook_state =
  hooks :: "webhook list"
  deliveries :: "webhook_delivery list"
  deliveryQueue :: "(webhook \<times> webhook_delivery) list"
  posted :: "uuid list"
  wh_fresh :: nat

datatype http_reply = Response nat string | NetworkError string

definition MAX_ATTEMPTS :: nat where
  "MAX_ATTEMPTS = 5"

definition RETRY_DELAYS :: "int list" where
  "RETRY_DELAYS = [30, 60, 300, 1800, 7200]"

definition MAX_CONCURRENT :: nat where
  "MAX_CONCURRENT = 5"

subsection \<open>Registration\<close>

fun join_with :: "string \<Rightarrow> string list \<Rightarrow> string" where
  "join_with sep [] = []"
| "join_with sep [x] = x"
| "join_with sep (x # y # ys) = x @ sep @ join_with sep (y # ys)"

definition register :: "string \<Rightarrow> uuid \<Rightarrow> string \<Rightarrow> string list \<Rightarrow> webhook_state \<Rightarrow> webhook \<times> webhook_state" where
  "register secret userId url events s =
     (let w = \<lparr>wh_id = wh_fresh s, wh_userId = userId, wh_url = url, wh_events = join_with '','' events,
               wh_secret = secret, wh_isActive = True\<rparr>
      in (w, s\<lparr>hooks := hooks s @ [w], wh_fresh := Suc (wh_fresh s)\<rparr>))"

definition webhooks_list :: "uuid \<Rightarrow> webhook_state \<Rightarrow> webhook list" where
  "webhooks_list userId s = filter (\<lambda>w. wh_userId w = userId) (hooks s)"

definition getWebhookForUser :: "uuid \<Rightarrow> uuid \<Rightarrow> webhook_state \<Rightarrow> http_error + webhook" where
  "getWebhookForUser i userId s =
     (case find (\<lambda>w. wh_id w = i \<and> wh_userId w = userId) (hooks s) of
        None \<Rightarrow> Inl (NotFoundException ''Webhook not found'') | Some w \<Rightarrow> Inr w)"

definition webhook_delete :: "uuid \<Rightarrow> uuid \<Rightarrow> webhook_state \<Rightarrow> (webhook_state, unit) outcome" where
  "webhook_delete userId i s =
     (case getWebhookForUser i userId s of
        Inl e \<Rightarrow> (Inl e, s)
      | Inr w \<Rightarrow> (Inr (), s\<lparr>hooks := delete_rows (\<lambda>x. wh_id x = wh_id w) (hooks s)\<rparr>))"

definition webhook_update ::
  "uuid \<Rightarrow> uuid \<Rightarrow> string option \<Rightarrow> string list option \<Rightarrow> bool option \<Rightarrow> webhook_state
   \<Rightarrow> (webhook_state, webhook) outcome" where
  "webhook_update userId i url events active s =
     (case getWebhookForUser i userId s of
        Inl e \<Rightarrow> (Inl e, s)
      | Inr w \<Rightarrow>
          (let w' = w\<lparr>wh_url := (case url of None \<Rightarrow> wh_url w | Some v \<Rightarrow> if v = [] then wh_url w else v),
                      wh_events := (case events of None \<Rightarrow> wh_events w | Some es \<Rightarrow> join_with '','' es),
                      wh_isActive := (case active of None \<Rightarrow> wh_isActive w | Some b \<Rightarrow> b)\<rparr>
           in (Inr w', s\<lparr>hooks := save_row wh_id w' (hooks s)\<rparr>)))"

subsection \<open>Publishing and delivery\<close>

text \<open>\<open>LIKE '%event%'\<close> for an event name without wildcards.\<close>

fun contains :: "string \<Rightarrow> string \<Rightarrow> bool" where
  "contains e [] = (e = [])"
| "contains e (c # cs) = (take (length e) (c # cs) = e \<or> contains e cs)"

definition enqueue :: "webhook \<Rightarrow> webhook_delivery \<Rightarrow> webhook_state \<Rightarrow> webhook_state" where
  "enqueue w d s = s\<lparr>deliveryQueue := deliveryQueue s @ [(w, d)]\<rparr>"

fun publish_to :: "timestamp \<Rightarrow> string \<Rightarrow> string \<Rightarrow> webhook list \<Rightarrow> webhook_state \<Rightarrow> webhook_state" where
  "publish_to now event payload [] s = s"
| "publish_to now event payload (w # ws) s =
     (let d = \<lparr>wd_id = wh_fresh s, wd_webhookId = wh_id w, wd_event = event, wd_payload = payload,
               wd_status = DPENDING, wd_responseStatus = None, wd_responseBody = None, wd_attempts = 0,
               wd_nextRetryAt = None, wd_createdAt = now\<rparr>;
          s1 = s\<lparr>deliveries := deliveries s @ [d], wh_fresh := Suc (wh_fresh s)\<rparr>
      in publish_to now event payload ws (enqueue w d s1))"

definition publish :: "timestamp \<Rightarrow> string \<Rightarrow> string \<Rightarrow> webhook_state \<Rightarrow> webhook_state" where
  "publish now event payload s =
     publish_to now event payload (filter (\<lambda>w. wh_isActive w \<and> contains event (wh_events w)) (hooks s)) s"

definition sign :: "(string \<Rightarrow> string \<Rightarrow> string) \<Rightarrow> string \<Rightarrow> string \<Rightarrow> string" where
  "sign hmac secret body = ''sha256='' @ hmac secret body"

text \<open>After a failed attempt below the limit the delivery waits for its next try.\<close>

definition schedule_retry :: "timestamp \<Rightarrow> webhook_delivery \<Rightarrow> webhook_delivery" where
  "schedule_retry now d =
     (if wd_status d = FAILED \<and> wd_attempts d < MAX_ATTEMPTS
      then (let delay = (if wd_attempts d - 1 < length RETRY_DELAYS then RETRY_DELAYS ! (wd_attempts d - 1) else 7200)
            in d\<lparr>wd_nextRetryAt := Some (now + delay * 1000), wd_status := DPENDING\<rparr>)
      else d)"

definition deliver ::
  "(string \<Rightarrow> string \<Rightarrow> string) \<Rightarrow> (string \<Rightarrow> string \<Rightarrow> string \<Rightarrow> http_reply) \<Rightarrow> timestamp \<Rightarrow> webhook \<Rightarrow> webhook_delivery
   \<Rightarrow> webhook_state \<Rightarrow> webhook_state" where
  "deliver hmac post now w d s =
     (let d1 = d\<lparr>wd_attempts := wd_attempts d + 1\<rparr>;
          d2 = (case post (wh_url w) (wd_payload d1) (sign hmac (wh_secret w) (wd_payload d1)) of
                  Response status body \<Rightarrow>
                    d1\<lparr>wd_responseStatus := Some status, wd_responseBody := Some (take 500 body),
                       wd_status := (if 200 \<le> status \<and> status < 300 then SUCCESS else FAILED)\<rparr>
                | NetworkError msg \<Rightarrow> d1\<lparr>wd_responseBody := Some msg, wd_status := FAILED\<rparr>)
      in s\<lparr>deliveries := save_row wd_id (schedule_retry now d2) (deliveries s), posted := posted s @ [wd_id d]\<rparr>)"

fun deliver_all ::
  "(string \<Rightarrow> string \<Rightarrow> string) \<Rightarrow> (string \<Rightarrow> string \<Rightarrow> string \<Rightarrow> http_reply) \<Rightarrow> timestamp
   \<Rightarrow> (webhook \<times> webhook_delivery) list \<Rightarrow> webhook_state \<Rightarrow> webhook_state" where
  "deliver_all hmac post now [] s = s"
| "deliver_all hmac post now ((w, d) # ds) s = deliver_all hmac post now ds (deliver hmac post now w d s)"

text \<open>One turn of the loop of \<open>drainQueue\<close>: a batch leaves the queue and is sent.\<close>

definition drain_batch ::
  "(string \<Rightarrow> string \<Rightarrow> string) \<Rightarrow> (string \<Rightarrow> string \<Rightarrow> string \<Rightarrow> http_reply) \<Rightarrow> timestamp \<Rightarrow> webhook_state \<Rightarrow> webhook_state" where
  "drain_batch hmac post now s =
     deliver_all hmac post now (take MAX_CONCURRENT (deliveryQueue s))
       (s\<lparr>deliveryQueue := drop MAX_CONCURRENT (deliveryQueue s)\<rparr>)"

definition due :: "timestamp \<Rightarrow> webhook_delivery \<Rightarrow> bool" where
  "due now d = (wd_status d = DPENDING \<and> (case wd_nextRetryAt d of None \<Rightarrow> True | Some t \<Rightarrow> t \<le> now))"

fun retry_all ::
  "(string \<Rightarrow> string \<Rightarrow> string) \<Rightarrow> (string \<Rightarrow> string \<Rightarrow> string \<Rightarrow> http_reply) \<Rightarrow> timestamp
   \<Rightarrow> webhook_delivery list \<Rightarrow> webhook_state \<Rightarrow> webhook_state" where
  "retry_all hmac post now [] s = s"
| "retry_all hmac post now (d # ds) s =
     retry_all hmac post now ds
       (case find (\<lambda>w. wh_id w = wd_webhookId d) (hooks s) of
          None \<Rightarrow> s | Some w \<Rightarrow> deliver hmac post now w d s)"

definition retryPending ::
  "(string \<Rightarrow> string \<Rightarrow> string) \<Rightarrow> (string \<Rightarrow> string \<Rightarrow> string \<Rightarrow> http_reply) \<Rightarrow> timestamp \<Rightarrow> webhook_state \<Rightarrow> webhook_state" where
  "retryPending hmac post now s = retry_all hmac post now (take 20 (filter (due now) (deliveries s))) s"

definition webhook_logs :: "uuid \<Rightarrow> uuid \<Rightarrow> webhook_state \<Rightarrow> webhook_delivery list" where
  "webhook_logs webhookId userId s =
     take 100 (order_by_desc wd_createdAt
       (filter (\<lambda>d. wd_webhookId d = webhookId
          \<and> (\<exists>w \<in> set (hooks s). wh_id w = wd_webhookId d \<and> wh_userId w = userId)) (deliveries s)))"

subsection \<open>The signature check\<close>

text \<open>\<open>now\<close> is in milliseconds; the time stamp, in seconds, is optional and not part of what is signed.\<close>

definition verifySignature ::
  "(string \<Rightarrow> string \<Rightarrow> string) \<Rightarrow> timestamp \<Rightarrow> string \<Rightarrow> string \<Rightarrow> string \<Rightarrow> string option \<Rightarrow> bool" where
  "verifySignature hmac now secret body signature stamp =
     (if (case stamp of
            None \<Rightarrow> True
          | Some t \<Rightarrow> t = [] \<or> (case js_parseInt t of None \<Rightarrow> False | Some ts \<Rightarrow> \<bar>now div 1000 - ts\<bar> \<le> 300))
      then sign hmac secret body = signature else False)"

subsection \<open>Attempts\<close>

text \<open>What is still to come for a delivery: the tries its row has left, and a full allowance for a copy
  in the queue, because the copy does not see what the retry timer did to the row meanwhile.\<close>

definition tries_left :: "webhook_delivery \<Rightarrow> nat" where
  "tries_left d = (if wd_status d = DPENDING then MAX_ATTEMPTS - wd_attempts d else 0)"

definition queued :: "uuid \<Rightarrow> webhook_state \<Rightarrow> nat" where
  "queued i s = length (filter (\<lambda>(w, d). wd_id d = i) (deliveryQueue s))"

definition row_left :: "uuid \<Rightarrow> webhook_state \<Rightarrow> nat" where
  "row_left i s = (case find (\<lambda>d. wd_id d = i) (deliveries s) of None \<Rightarrow> 0 | Some d \<Rightarrow> tries_left d)"

definition budget :: "uuid \<Rightarrow> webhook_state \<Rightarrow> nat" where
  "budget i s = count_list (posted s) i + row_left i s + MAX_ATTEMPTS * queued i s"

definition webhooks_ok :: "webhook_state \<Rightarrow> bool" where
  "webhooks_ok s \<longleftrightarrow>
     distinct (map wd_id (deliveries s)) \<and>
     (\<forall>d \<in> set (deliveries s). wd_id d < wh_fresh s \<and> wd_attempts d \<le> MAX_ATTEMPTS
        \<and> (wd_status d = DPENDING \<longrightarrow> wd_attempts d < MAX_ATTEMPTS)) \<and>
     (\<forall>(w, d) \<in> set (deliveryQueue s). wd_id d < wh_fresh s \<and> wd_attempts d = 0) \<and>
     (\<forall>i \<in> set (posted s). i < wh_fresh s)"

definition inv :: "webhook_state \<Rightarrow> bool" where
  "inv s \<longleftrightarrow> webhooks_ok s \<and> (\<forall>i. budget i s \<le> 2 * MAX_ATTEMPTS)"

lemma deliver_effect:
  obtains d' where "deliver hmac post now w d s =
      s\<lparr>deliveries := save_row wd_id d' (deliveries s), posted := posted s @ [wd_id d]\<rparr>"
    "wd_id d' = wd_id d" "wd_attempts d' = wd_attempts d + 1"
    "wd_status d' = DPENDING \<Longrightarrow> wd_attempts d' < MAX_ATTEMPTS"
proof -
  let ?d1 = "d\<lparr>wd_attempts := wd_attempts d + 1\<rparr>"
  let ?d2 = "case post (wh_url w) (wd_payload ?d1) (sign hmac (wh_secret w) (wd_payload ?d1)) of
                  Response status body \<Rightarrow>
                    ?d1\<lparr>wd_responseStatus := Some status, wd_responseBody := Some (take 500 body),
                       wd_status := (if 200 \<le> status \<and> status < 300 then SUCCESS else FAILED)\<rparr>
                | NetworkError msg \<Rightarrow> ?d1\<lparr>wd_responseBody := Some msg, wd_status := FAILED\<rparr>"
  have "wd_id ?d2 = wd_id d" "wd_attempts ?d2 = wd_attempts d + 1" "wd_status ?d2 \<noteq> DPENDING"
    by (simp_all split: http_reply.split)
  then have "wd_id (schedule_retry now ?d2) = wd_id d" "wd_attempts (schedule_retry now ?d2) = wd_attempts d + 1"
    "wd_status (schedule_retry now ?d2) = DPENDING \<Longrightarrow> wd_attempts (schedule_retry now ?d2) < MAX_ATTEMPTS"
    unfolding schedule_retry_def Let_def by (auto split: if_splits)
  moreover have "deliver hmac post now w d s =
      s\<lparr>deliveries := save_row wd_id (schedule_retry now ?d2) (deliveries s), posted := posted s @ [wd_id d]\<rparr>"
    unfolding deliver_def Let_def by (rule refl)
  ultimately show thesis by (intro that) assumption+
qed

text \<open>Delivering a copy that has tries left: the invariant of the rows is kept, the row of another
  delivery is untouched, and what this delivery can still cost is bounded by the copy's allowance.\<close>

lemma deliver_step:
  assumes ok: "webhooks_ok s" and d: "wd_id d < wh_fresh s" "wd_attempts d < MAX_ATTEMPTS"
    and t_def: "t = deliver hmac post now w d s"
  shows "webhooks_ok t" "hooks t = hooks s" "deliveryQueue t = deliveryQueue s" "wh_fresh t = wh_fresh s"
    "i \<noteq> wd_id d \<Longrightarrow> budget i t = budget i s"
    "budget (wd_id d) t \<le> count_list (posted s) (wd_id d) + (MAX_ATTEMPTS - wd_attempts d)
        + MAX_ATTEMPTS * queued (wd_id d) s"
    "x \<in> set (deliveries s) \<Longrightarrow> wd_id x \<noteq> wd_id d \<Longrightarrow> x \<in> set (deliveries t)"
proof -
  obtain d' where t: "t = s\<lparr>deliveries := save_row wd_id d' (deliveries s), posted := posted s @ [wd_id d]\<rparr>"
    and d': "wd_id d' = wd_id d" "wd_attempts d' = wd_attempts d + 1"
      "wd_status d' = DPENDING \<Longrightarrow> wd_attempts d' < MAX_ATTEMPTS"
    unfolding t_def by (rule deliver_effect[of hmac post now w d s]) blast
  have rows: "set (deliveries t) = insert d' {x \<in> set (deliveries s). wd_id x \<noteq> wd_id d}"
    unfolding t by (simp add: set_save_row d'(1))
  have "distinct (map wd_id (deliveries t))"
    unfolding t using ok by (simp add: webhooks_ok_def save_row_distinct)
  then show "webhooks_ok t"
    using ok d d' rows by (auto simp: webhooks_ok_def t)
  show "hooks t = hooks s" "deliveryQueue t = deliveryQueue s" "wh_fresh t = wh_fresh s"
    by (simp_all add: t)
  have left: "row_left i t = (if i = wd_id d then tries_left d' else row_left i s)" for i
    unfolding t row_left_def using find_key_save_row[of wd_id i d' "deliveries s"] by (simp add: d'(1))
  have q: "queued i t = queued i s" for i by (simp add: queued_def t)
  show "i \<noteq> wd_id d \<Longrightarrow> budget i t = budget i s" by (simp add: budget_def left q) (simp add: t)
  have "tries_left d' + 1 \<le> MAX_ATTEMPTS - wd_attempts d" using d(2) d'(2,3) by (auto simp: tries_left_def)
  then show "budget (wd_id d) t \<le> count_list (posted s) (wd_id d) + (MAX_ATTEMPTS - wd_attempts d)
        + MAX_ATTEMPTS * queued (wd_id d) s"
    by (simp add: budget_def left q) (simp add: t)
  show "x \<in> set (deliveries s) \<Longrightarrow> wd_id x \<noteq> wd_id d \<Longrightarrow> x \<in> set (deliveries t)" by (simp add: rows)
qed

text \<open>Sending from the queue: the copy leaves the queue with a full allowance.\<close>

lemma deliver_all_inv:
  assumes "webhooks_ok s" "\<forall>(w, d) \<in> set ds. wd_id d < wh_fresh s \<and> wd_attempts d = 0"
    and "\<forall>i. budget i s + MAX_ATTEMPTS * length (filter (\<lambda>(w, d). wd_id d = i) ds) \<le> 2 * MAX_ATTEMPTS"
  shows "inv (deliver_all hmac post now ds s)"
  using assms
proof (induction ds arbitrary: s)
  case Nil
  then show ?case by (simp add: inv_def)
next
  case (Cons wd ds)
  obtain w d where wd: "wd = (w, d)" by fastforce
  let ?t = "deliver hmac post now w d s"
  have d: "wd_id d < wh_fresh s" "wd_attempts d < MAX_ATTEMPTS" using Cons.prems(2) wd by (auto simp: MAX_ATTEMPTS_def)
  note st = deliver_step[OF Cons.prems(1) d refl[of "deliver hmac post now w d s"]]
  have "budget i ?t + MAX_ATTEMPTS * length (filter (\<lambda>(w, d). wd_id d = i) ds) \<le> 2 * MAX_ATTEMPTS" for i
  proof (cases "i = wd_id d")
    case False
    with st(5)[of i] Cons.prems(3) wd show ?thesis by (auto dest!: spec[of _ i])
  next
    case True
    have "budget i ?t \<le> count_list (posted s) i + MAX_ATTEMPTS + MAX_ATTEMPTS * queued i s"
      using st(6) True by simp
    then have "budget i ?t \<le> budget i s + MAX_ATTEMPTS" by (simp add: budget_def)
    moreover have "budget i s + MAX_ATTEMPTS * length (filter (\<lambda>(w, d). wd_id d = i) (wd # ds)) \<le> 2 * MAX_ATTEMPTS"
      using Cons.prems(3) by blast
    ultimately show ?thesis using True wd by simp
  qed
  moreover have "\<forall>(w, d) \<in> set ds. wd_id d < wh_fresh ?t \<and> wd_attempts d = 0"
    using Cons.prems(2) st(4) by auto
  ultimately have "inv (deliver_all hmac post now ds ?t)" using Cons.IH[OF st(1)] by blast
  then show ?case by (simp add: wd)
qed

lemma drain_inv:
  assumes "inv s"
  shows "inv (drain_batch hmac post now s)"
  unfolding drain_batch_def
proof (rule deliver_all_inv)
  let ?s = "s\<lparr>deliveryQueue := drop MAX_CONCURRENT (deliveryQueue s)\<rparr>"
  have ok: "webhooks_ok s" "\<And>i. budget i s \<le> 2 * MAX_ATTEMPTS" using assms by (simp_all add: inv_def)
  show "webhooks_ok ?s" using ok(1) by (auto simp: webhooks_ok_def dest: in_set_dropD)
  show "\<forall>(w, d) \<in> set (take MAX_CONCURRENT (deliveryQueue s)). wd_id d < wh_fresh ?s \<and> wd_attempts d = 0"
    using ok(1) by (auto simp: webhooks_ok_def dest: in_set_takeD)
  show "\<forall>i. budget i ?s + MAX_ATTEMPTS * length (filter (\<lambda>(w, d). wd_id d = i) (take MAX_CONCURRENT (deliveryQueue s)))
      \<le> 2 * MAX_ATTEMPTS"
  proof
    fix i
    let ?P = "\<lambda>(w :: webhook, d). wd_id d = i"
    have "length (filter ?P (take MAX_CONCURRENT (deliveryQueue s))) + length (filter ?P (drop MAX_CONCURRENT (deliveryQueue s)))
        = queued i s"
      by (metis append_take_drop_id filter_append length_append queued_def)
    then have "budget i ?s + MAX_ATTEMPTS * length (filter ?P (take MAX_CONCURRENT (deliveryQueue s))) = budget i s"
      by (simp add: budget_def queued_def row_left_def flip: distrib_left)
    with ok(2)[of i] show "budget i ?s + MAX_ATTEMPTS * length (filter ?P (take MAX_CONCURRENT (deliveryQueue s)))
        \<le> 2 * MAX_ATTEMPTS" by simp
  qed
qed

lemma retry_all_inv:
  assumes "inv s" "set ds \<subseteq> set (deliveries s)" "distinct (map wd_id ds)" "\<forall>d \<in> set ds. wd_status d = DPENDING"
  shows "inv (retry_all hmac post now ds s)"
  using assms
proof (induction ds arbitrary: s)
  case (Cons d ds)
  have ok: "webhooks_ok s" "\<And>i. budget i s \<le> 2 * MAX_ATTEMPTS" using Cons.prems(1) by (simp_all add: inv_def)
  show ?case
  proof (cases "find (\<lambda>w. wh_id w = wd_webhookId d) (hooks s)")
    case None
    with Cons show ?thesis by simp
  next
    case (Some w)
    let ?t = "deliver hmac post now w d s"
    have mem: "d \<in> set (deliveries s)" using Cons.prems(2) by simp
    then have d: "wd_id d < wh_fresh s" "wd_attempts d < MAX_ATTEMPTS"
      using ok(1) Cons.prems(4) by (auto simp: webhooks_ok_def)
    note st = deliver_step[OF ok(1) d refl[of "deliver hmac post now w d s"]]
    have "find (\<lambda>x. wd_id x = wd_id d) (deliveries s) = Some d"
      using ok(1) mem by (intro find_key_unique) (simp_all add: webhooks_ok_def)
    then have "row_left (wd_id d) s = MAX_ATTEMPTS - wd_attempts d"
      using Cons.prems(4) by (simp add: row_left_def tries_left_def)
    then have "budget (wd_id d) ?t \<le> budget (wd_id d) s" using st(6) by (simp add: budget_def)
    then have "budget i ?t \<le> 2 * MAX_ATTEMPTS" for i
      using st(5)[of i] ok(2)[of i] by (cases "i = wd_id d") auto
    with st(1) have "inv ?t" by (simp add: inv_def)
    moreover have "set ds \<subseteq> set (deliveries ?t)"
    proof
      fix x assume x: "x \<in> set ds"
      then have "wd_id x \<noteq> wd_id d" "x \<in> set (deliveries s)" using Cons.prems(2,3) by (auto simp: image_iff)
      then show "x \<in> set (deliveries ?t)" by (intro st(7))
    qed
    ultimately show ?thesis using Some Cons.prems(3,4) Cons.IH[of ?t] by simp
  qed
qed simp

lemma retry_inv:
  assumes "inv s"
  shows "inv (retryPending hmac post now s)"
  unfolding retryPending_def
proof (rule retry_all_inv[OF assms])
  have "distinct (map wd_id (deliveries s))" using assms by (simp add: inv_def webhooks_ok_def)
  then show "distinct (map wd_id (take 20 (filter (due now) (deliveries s))))"
    by (simp add: distinct_map_filter take_map[symmetric])
qed (auto simp: due_def dest: in_set_takeD)

lemma publish_to_inv: "inv s \<Longrightarrow> inv (publish_to now event payload ws s)"
proof (induction ws arbitrary: s)
  case (Cons w ws)
  let ?d = "\<lparr>wd_id = wh_fresh s, wd_webhookId = wh_id w, wd_event = event, wd_payload = payload,
               wd_status = DPENDING, wd_responseStatus = None, wd_responseBody = None, wd_attempts = 0,
               wd_nextRetryAt = None, wd_createdAt = now\<rparr>"
  let ?t = "enqueue w ?d (s\<lparr>deliveries := deliveries s @ [?d], wh_fresh := Suc (wh_fresh s)\<rparr>)"
  have ok: "webhooks_ok s" "\<And>i. budget i s \<le> 2 * MAX_ATTEMPTS" using Cons.prems by (simp_all add: inv_def)
  have "webhooks_ok ?t"
    using ok(1) by (force simp: webhooks_ok_def enqueue_def less_Suc_eq MAX_ATTEMPTS_def)
  moreover have "budget i ?t \<le> 2 * MAX_ATTEMPTS" for i
  proof (cases "i = wh_fresh s")
    case False
    have "find (\<lambda>d. wd_id d = i) (xs @ [?d]) = find (\<lambda>d. wd_id d = i) xs" for xs
      using False by (induction xs) auto
    with False have "budget i ?t = budget i s"
      by (simp add: budget_def row_left_def queued_def enqueue_def)
    with ok(2)[of i] show ?thesis by simp
  next
    case True
    have "count_list (posted s) i = 0" using ok(1) True by (auto simp: webhooks_ok_def count_list_0_iff)
    moreover have "queued i s = 0" using ok(1) True by (force simp: webhooks_ok_def queued_def filter_empty_conv)
    moreover have "row_left i ?t \<le> MAX_ATTEMPTS"
      by (simp add: row_left_def tries_left_def split: option.split)
    moreover have "queued i ?t = Suc (queued i s)" using True by (simp add: queued_def enqueue_def)
    moreover have "posted ?t = posted s" by (simp add: enqueue_def)
    ultimately show ?thesis by (simp add: budget_def)
  qed
  ultimately have "inv ?t" by (simp add: inv_def)
  then show ?case using Cons.IH by (simp add: Let_def)
qed simp

lemma hooks_only_inv:
  "inv s \<Longrightarrow> deliveries s' = deliveries s \<Longrightarrow> deliveryQueue s' = deliveryQueue s \<Longrightarrow> posted s' = posted s \<Longrightarrow>
   wh_fresh s \<le> wh_fresh s' \<Longrightarrow> inv s'"
  by (fastforce simp: inv_def webhooks_ok_def budget_def row_left_def queued_def)

datatype webhook_request =
    Register string uuid string "string list"
  | DeleteHook uuid uuid
  | UpdateHook uuid uuid "string option" "string list option" "bool option"
  | Publish timestamp string string
  | Drain timestamp
  | Retry timestamp

fun webhook_step ::
  "(string \<Rightarrow> string \<Rightarrow> string) \<Rightarrow> (string \<Rightarrow> string \<Rightarrow> string \<Rightarrow> http_reply) \<Rightarrow> webhook_request \<Rightarrow> webhook_state
   \<Rightarrow> http_error option \<times> webhook_state" where
  "webhook_step hmac post (Register secret u url es) s = (None, snd (register secret u url es s))"
| "webhook_step hmac post (DeleteHook u i) s = map_prod (case_sum Some (\<lambda>_. None)) (\<lambda>x. x) (webhook_delete u i s)"
| "webhook_step hmac post (UpdateHook u i url es a) s =
     map_prod (case_sum Some (\<lambda>_. None)) (\<lambda>x. x) (webhook_update u i url es a s)"
| "webhook_step hmac post (Publish now ev payload) s = (None, publish now ev payload s)"
| "webhook_step hmac post (Drain now) s = (None, drain_batch hmac post now s)"
| "webhook_step hmac post (Retry now) s = (None, retryPending hmac post now s)"

lemma webhook_step_inv: "inv s \<Longrightarrow> inv (snd (webhook_step hmac post r s))"
proof (cases r)
  case (UpdateHook u i url es a)
  assume "inv s"
  then show ?thesis
    by (rule hooks_only_inv) (simp_all add: UpdateHook webhook_update_def Let_def split: sum.split)
next
  case (DeleteHook u i)
  assume "inv s"
  then show ?thesis
    by (rule hooks_only_inv) (simp_all add: DeleteHook webhook_delete_def split: sum.split)
next
  case (Register secret u url es)
  assume "inv s"
  then show ?thesis by (rule hooks_only_inv) (simp_all add: Register register_def Let_def)
qed (simp_all add: publish_def publish_to_inv drain_inv retry_inv)

interpretation delivering: invariant_machine "webhook_step hmac post" inv for hmac post
  by unfold_locales (rule webhook_step_inv)

subsection \<open>Properties\<close>

definition no_webhooks :: webhook_state where
  "no_webhooks = \<lparr>hooks = [], deliveries = [], deliveryQueue = [], posted = [], wh_fresh = 1\<rparr>"

lemma no_webhooks_inv: "inv no_webhooks"
  by (simp add: inv_def webhooks_ok_def budget_def row_left_def queued_def no_webhooks_def)



text \<open>The signature check accepts exactly the signed bodies, but the time stamp protects nothing:
  once a body with its signature was accepted, the same body and signature pass at any later time
  with a fresh time stamp, or with none.\<close>

theorem signature_replay:
  assumes "verifySignature hmac now secret body sig stamp" "0 \<le> now'"
  shows "sig = sign hmac secret body
       \<and> verifySignature hmac now' secret body sig (Some (string_of_nat (nat (now' div 1000))))
       \<and> verifySignature hmac now' secret body sig None"
proof -
  have "int (nat (now' div 1000)) = now' div 1000" using assms(2) by (simp add: pos_imp_zdiv_nonneg_iff)
  with assms(1) show ?thesis
    by (auto simp: verifySignature_def parse_string_of_nat split: if_splits)
qed

theorem signature_replay_witness:
  "verifySignature (\<lambda>_ b. b) 9999000 ''k'' ''body'' ''sha256=body'' (Some (string_of_nat 9999))"
proof -
  have "verifySignature (\<lambda>_ b. b) 5000 ''k'' ''body'' ''sha256=body'' (Some (string_of_nat 5))"
    by (simp add: verifySignature_def parse_string_of_nat sign_def)
  from signature_replay[OF this, of 9999000] show ?thesis by force
qed

end
