(* ===== verification/Curriculum.thy ===== *)
theory Curriculum
  imports Entities
begin

text \<open>
  The structure of a course and its release: modules (\<open>courses/modules.service.ts\<close>), lessons
  (\<open>courses/lessons.service.ts\<close>), the drip scheduler (\<open>courses/drip-scheduler.service.ts\<close>) that
  announces a module whose release date has just passed, and the scheduler that publishes courses
  (\<open>courses/course-scheduler.service.ts\<close>). Both schedulers run once a minute. The search index is
  left out; the transcription service is a parameter.
\<close>

record course_module =
  cm_id :: uuid
  cm_courseId :: uuid
  cm_title :: string
  cm_order :: int
  cm_releaseDate :: "timestamp option"

record lesson =
  le_id :: uuid
  le_moduleId :: uuid
  le_title :: string
  le_content :: string
  le_videoUrl :: "string option"
  le_transcript :: "string option"
  le_transcriptSrt :: "string option"
  le_transcriptionJobName :: "string option"
  le_order :: int
  le_durationMinutes :: int

text \<open>\<open>module.unlocked\<close>: the learner, their address and name, course, its title, module title.\<close>

record unlocked =
  ul_userId :: uuid
  ul_userEmail :: string
  ul_userName :: string
  ul_courseId :: uuid
  ul_courseTitle :: "string option"
  ul_moduleTitle :: string

record notification =
  no_userId :: uuid
  no_message :: string

record curriculum =
  cu_core :: core
  cu_modules :: "course_module list"
  cu_lessons :: "lesson list"
  cu_unlocked :: "unlocked list"
  cu_notifications :: "notification list"
  cu_fresh :: nat

subsection \<open>Modules\<close>

definition find_module :: "uuid \<Rightarrow> curriculum \<Rightarrow> course_module option" where
  "find_module i s = find (\<lambda>m. cm_id m = i) (cu_modules s)"

definition isLocked :: "timestamp \<Rightarrow> course_module \<Rightarrow> bool" where
  "isLocked now m = (case cm_releaseDate m of None \<Rightarrow> False | Some r \<Rightarrow> now < r)"

definition withLockStatus :: "timestamp \<Rightarrow> course_module \<Rightarrow> course_module \<times> bool" where
  "withLockStatus now m = (m, isLocked now m)"

definition modules_findByCourse :: "timestamp \<Rightarrow> uuid \<Rightarrow> curriculum \<Rightarrow> (course_module \<times> bool) list" where
  "modules_findByCourse now courseId s =
     map (withLockStatus now) (order_by cm_order (filter (\<lambda>m. cm_courseId m = courseId) (cu_modules s)))"

definition modules_findOne :: "timestamp \<Rightarrow> uuid \<Rightarrow> curriculum \<Rightarrow> (course_module \<times> bool) option" where
  "modules_findOne now i s = map_option (withLockStatus now) (find_module i s)"

text \<open>The message carries the ISO form of the release date, which is left out.\<close>

definition assertAccessible :: "timestamp \<Rightarrow> uuid \<Rightarrow> string \<Rightarrow> curriculum \<Rightarrow> http_error + unit" where
  "assertAccessible now i role s =
     (case find_module i s of
        None \<Rightarrow> Inl (NotFoundException ''Module not found'')
      | Some m \<Rightarrow>
          if role = ''admin'' \<or> role = ''instructor'' then Inr ()
          else if isLocked now m then Inl (ForbiddenException ''Module is locked until '')
          else Inr ())"

definition module_create :: "uuid \<Rightarrow> string \<Rightarrow> int \<Rightarrow> timestamp option \<Rightarrow> curriculum \<Rightarrow> course_module \<times> curriculum" where
  "module_create courseId title ord release s =
     (let m = \<lparr>cm_id = cu_fresh s, cm_courseId = courseId, cm_title = title, cm_order = ord,
               cm_releaseDate = release\<rparr>
      in (m, s\<lparr>cu_modules := cu_modules s @ [m], cu_fresh := Suc (cu_fresh s)\<rparr>))"

text \<open>A partial update: each given field replaces the stored one.\<close>

definition module_update ::
  "timestamp \<Rightarrow> uuid \<Rightarrow> string option \<Rightarrow> int option \<Rightarrow> timestamp option option \<Rightarrow> curriculum
   \<Rightarrow> (curriculum, course_module \<times> bool) outcome" where
  "module_update now i title ord release s =
     (case find_module i s of
        None \<Rightarrow> (Inl (NotFoundException ''Module not found''), s)
      | Some m \<Rightarrow>
          (let m' = m\<lparr>cm_title := (case title of None \<Rightarrow> cm_title m | Some v \<Rightarrow> v),
                      cm_order := (case ord of None \<Rightarrow> cm_order m | Some v \<Rightarrow> v),
                      cm_releaseDate := (case release of None \<Rightarrow> cm_releaseDate m | Some v \<Rightarrow> v)\<rparr>
           in (Inr (withLockStatus now m'), s\<lparr>cu_modules := save_row cm_id m' (cu_modules s)\<rparr>)))"

text \<open>Removing a module cascades to its lessons.\<close>

definition module_remove :: "uuid \<Rightarrow> curriculum \<Rightarrow> (curriculum, course_module) outcome" where
  "module_remove i s =
     (case find_module i s of
        None \<Rightarrow> (Inl (NotFoundException ''Module not found''), s)
      | Some m \<Rightarrow> (Inr m, s\<lparr>cu_modules := delete_rows (\<lambda>x. cm_id x = cm_id m) (cu_modules s),
                            cu_lessons := delete_rows (\<lambda>l. le_moduleId l = cm_id m) (cu_lessons s)\<rparr>))"

definition unlockNow :: "timestamp \<Rightarrow> uuid \<Rightarrow> curriculum \<Rightarrow> (curriculum, course_module \<times> bool) outcome" where
  "unlockNow now i s =
     (case find_module i s of
        None \<Rightarrow> (Inl (NotFoundException ''Module not found''), s)
      | Some m \<Rightarrow>
          (let m' = m\<lparr>cm_releaseDate := None\<rparr>
           in (Inr (withLockStatus now m'), s\<lparr>cu_modules := save_row cm_id m' (cu_modules s)\<rparr>)))"

definition just_unlocked :: "timestamp \<Rightarrow> course_module \<Rightarrow> bool" where
  "just_unlocked now m =
     (case cm_releaseDate m of None \<Rightarrow> False | Some r \<Rightarrow> r \<le> now \<and> now - 60000 < r)"

definition findJustUnlocked :: "timestamp \<Rightarrow> curriculum \<Rightarrow> course_module list" where
  "findJustUnlocked now s = filter (just_unlocked now) (cu_modules s)"

subsection \<open>Lessons\<close>

definition lessons_findByModule :: "uuid \<Rightarrow> curriculum \<Rightarrow> lesson list" where
  "lessons_findByModule m s = order_by le_order (filter (\<lambda>l. le_moduleId l = m) (cu_lessons s))"

definition find_lesson :: "uuid \<Rightarrow> curriculum \<Rightarrow> lesson option" where
  "find_lesson i s = find (\<lambda>l. le_id l = i) (cu_lessons s)"

text \<open>\<open>start\<close>: the job name, or \<open>None\<close> when starting the transcription failed, which is only logged.\<close>

definition triggerTranscription :: "(uuid \<Rightarrow> string \<Rightarrow> string option) \<Rightarrow> lesson \<Rightarrow> curriculum \<Rightarrow> curriculum" where
  "triggerTranscription start l s =
     (case le_videoUrl l of
        None \<Rightarrow> s
      | Some url \<Rightarrow>
          (case start (le_id l) url of
             None \<Rightarrow> s
           | Some job \<Rightarrow> s\<lparr>cu_lessons := update_rows (\<lambda>x. le_id x = le_id l)
                                 (\<lambda>x. x\<lparr>le_transcriptionJobName := Some job\<rparr>) (cu_lessons s)\<rparr>))"

definition has_video :: "lesson \<Rightarrow> bool" where
  "has_video l = (case le_videoUrl l of None \<Rightarrow> False | Some url \<Rightarrow> url \<noteq> [])"

definition lesson_create ::
  "(uuid \<Rightarrow> string \<Rightarrow> string option) \<Rightarrow> uuid \<Rightarrow> lesson \<Rightarrow> curriculum \<Rightarrow> lesson \<times> curriculum" where
  "lesson_create start moduleId data s =
     (let l = data\<lparr>le_id := cu_fresh s, le_moduleId := moduleId\<rparr>;
          s1 = s\<lparr>cu_lessons := cu_lessons s @ [l], cu_fresh := Suc (cu_fresh s)\<rparr>
      in (l, if has_video l then triggerTranscription start l s1 else s1))"

definition lesson_update ::
  "(uuid \<Rightarrow> string \<Rightarrow> string option) \<Rightarrow> uuid \<Rightarrow> (lesson \<Rightarrow> lesson) \<Rightarrow> curriculum \<Rightarrow> (curriculum, lesson) outcome" where
  "lesson_update start i data s =
     (case find_lesson i s of
        None \<Rightarrow> (Inl (NotFoundException ''Lesson not found''), s)
      | Some l \<Rightarrow>
          (let u = data l;
               s1 = s\<lparr>cu_lessons := save_row le_id u (cu_lessons s)\<rparr>
           in (Inr u, if has_video u \<and> le_videoUrl u \<noteq> le_videoUrl l
                      then triggerTranscription start u s1 else s1)))"

text \<open>\<open>fetch\<close>: a finished transcript with its subtitles; still running and failed jobs change nothing.\<close>

fun check_jobs :: "(string \<Rightarrow> (string \<times> string) option) \<Rightarrow> lesson list \<Rightarrow> curriculum \<Rightarrow> curriculum" where
  "check_jobs fetch [] s = s"
| "check_jobs fetch (l # ls) s =
     (case Option.bind (le_transcriptionJobName l) fetch of
        None \<Rightarrow> check_jobs fetch ls s
      | Some (result, srt) \<Rightarrow>
          check_jobs fetch ls
            (s\<lparr>cu_lessons := update_rows (\<lambda>x. le_id x = le_id l)
                 (\<lambda>x. x\<lparr>le_transcript := Some result, le_transcriptSrt := Some srt\<rparr>) (cu_lessons s)\<rparr>))"

definition checkTranscriptionJobs :: "(string \<Rightarrow> (string \<times> string) option) \<Rightarrow> curriculum \<Rightarrow> curriculum" where
  "checkTranscriptionJobs fetch s =
     check_jobs fetch (filter (\<lambda>l. le_transcriptionJobName l \<noteq> None \<and> le_transcript l = None) (cu_lessons s)) s"

definition lesson_remove :: "uuid \<Rightarrow> curriculum \<Rightarrow> (curriculum, lesson) outcome" where
  "lesson_remove i s =
     (case find_lesson i s of
        None \<Rightarrow> (Inl (NotFoundException ''Lesson not found''), s)
      | Some l \<Rightarrow> (Inr l, s\<lparr>cu_lessons := delete_rows (\<lambda>x. le_id x = le_id l) (cu_lessons s)\<rparr>))"

subsection \<open>Schedulers\<close>

definition unlocked_events :: "course_module \<Rightarrow> core \<Rightarrow> unlocked list" where
  "unlocked_events m s =
     (let es = filter (\<lambda>e. en_courseId e = cm_courseId m) (enrollments s)
      in map (\<lambda>u. \<lparr>ul_userId = u_id u, ul_userEmail = u_email u,
                   ul_userName = (case u_username u of Some n \<Rightarrow> n | None \<Rightarrow> u_email u),
                   ul_courseId = cm_courseId m,
                   ul_courseTitle = map_option co_title (find_course (cm_courseId m) s),
                   ul_moduleTitle = cm_title m\<rparr>)
           (filter (\<lambda>u. u_id u \<in> set (map en_userId es)) (users s)))"

definition checkUnlockedModules :: "timestamp \<Rightarrow> curriculum \<Rightarrow> curriculum" where
  "checkUnlockedModules now s =
     s\<lparr>cu_unlocked := cu_unlocked s @ concat (map (\<lambda>m. unlocked_events m (cu_core s)) (findJustUnlocked now s))\<rparr>"

definition notify_live :: "course \<Rightarrow> curriculum \<Rightarrow> curriculum" where
  "notify_live c s =
     s\<lparr>cu_notifications := cu_notifications s @
         map (\<lambda>e. \<lparr>no_userId = en_userId e, no_message = [CHR 0x22] @ co_title c @ [CHR 0x22] @ '' is now live!''\<rparr>)
           (filter (\<lambda>e. en_courseId e = co_id c) (enrollments (cu_core s)))\<rparr>"

definition publish_due :: "timestamp \<Rightarrow> course \<Rightarrow> bool" where
  "publish_due now c =
     (co_status c = SCHEDULED \<and> (case co_scheduledAt c of None \<Rightarrow> False | Some t \<Rightarrow> t \<le> now) \<and> \<not> co_isDeleted c)"

fun publish_all :: "timestamp \<Rightarrow> course list \<Rightarrow> curriculum \<Rightarrow> curriculum" where
  "publish_all now [] s = s"
| "publish_all now (c # cs) s =
     (let c' = c\<lparr>co_status := PUBLISHED, co_isPublished := True, co_publishedAt := Some now\<rparr>
      in publish_all now cs
           (notify_live c' (s\<lparr>cu_core := (cu_core s)\<lparr>courses := save_row co_id c' (courses (cu_core s))\<rparr>\<rparr>)))"

definition publishScheduledCourses :: "timestamp \<Rightarrow> curriculum \<Rightarrow> curriculum" where
  "publishScheduledCourses now s = publish_all now (filter (publish_due now) (courses (cu_core s))) s"

subsection \<open>Ticks of the schedulers\<close>

text \<open>The release window of a run covers the minute before it: consecutive runs a minute apart
  partition time.\<close>

definition tick :: "timestamp \<Rightarrow> nat \<Rightarrow> timestamp" where
  "tick t0 k = t0 + 60000 * int k"

definition announcements :: "timestamp \<Rightarrow> nat \<Rightarrow> course_module \<Rightarrow> nat" where
  "announcements t0 n m = length (filter (\<lambda>k. just_unlocked (tick t0 k) m) [1..<Suc n])"

lemma just_unlocked_tick:
  assumes "cm_releaseDate m = Some r" "t0 < r"
  shows "just_unlocked (tick t0 k) m \<longleftrightarrow> k = nat ((r - t0 + 59999) div 60000)"
proof -
  let ?q = "(r - t0 + 59999) div 60000"
  have q: "60000 * ?q \<le> r - t0 + 59999" "r - t0 + 59999 < 60000 * ?q + 60000" "0 < ?q" using assms(2) by linarith+
  have "just_unlocked (tick t0 k) m \<longleftrightarrow> r - t0 \<le> 60000 * int k \<and> 60000 * int k < r - t0 + 60000"
    using assms(1) by (auto simp: just_unlocked_def tick_def)
  also have "\<dots> \<longleftrightarrow> int k = ?q" using q by linarith
  finally show ?thesis using q(3) by linarith
qed

lemma announcements_once:
  assumes "cm_releaseDate m = Some r" "t0 < r"
  shows "announcements t0 n m = (if r \<le> tick t0 n then 1 else 0)"
proof -
  let ?k = "nat ((r - t0 + 59999) div 60000)"
  have k: "1 \<le> ?k" using assms(2) by linarith
  have "filter (\<lambda>k. k = ?k) [1..<Suc n] = (if ?k \<le> n then [?k] else [])"
    using k by (induction n) (auto simp del: upt_Suc simp: upt_Suc_append)
  moreover have "?k \<le> n \<longleftrightarrow> r \<le> tick t0 n"
    unfolding tick_def using assms(2) by linarith
  ultimately show ?thesis
    unfolding announcements_def just_unlocked_tick[OF assms] by simp
qed

lemma publish_all_courses:
  assumes "distinct (map co_id cs)" "set cs \<subseteq> set (courses (cu_core s))" "distinct (map co_id (courses (cu_core s)))"
  shows "courses (cu_core (publish_all now cs s)) =
     map (\<lambda>c. if c \<in> set cs then c\<lparr>co_status := PUBLISHED, co_isPublished := True, co_publishedAt := Some now\<rparr> else c)
       (courses (cu_core s))"
  using assms
proof (induction cs arbitrary: s)
  case (Cons c cs)
  let ?f = "\<lambda>c. c\<lparr>co_status := PUBLISHED, co_isPublished := True, co_publishedAt := Some now\<rparr>"
  let ?s = "notify_live (?f c) (s\<lparr>cu_core := (cu_core s)\<lparr>courses := save_row co_id (?f c) (courses (cu_core s))\<rparr>\<rparr>)"
  have inj: "x = y" if "x \<in> set (courses (cu_core s))" "y \<in> set (courses (cu_core s))" "co_id x = co_id y" for x y
    using Cons.prems(3) that by (auto simp: distinct_map inj_on_def)
  have rows: "courses (cu_core ?s) = map (\<lambda>x. if x = c then ?f c else x) (courses (cu_core s))"
    using Cons.prems(2) inj by (auto simp: notify_live_def save_row_def intro!: map_cong)
  have "set cs \<subseteq> set (courses (cu_core ?s))"
    unfolding rows using Cons.prems(1,2) by (force simp: image_iff)
  moreover have "map co_id (courses (cu_core ?s)) = map co_id (courses (cu_core s))"
    unfolding rows by simp
  ultimately have "courses (cu_core (publish_all now cs ?s)) =
      map (\<lambda>c. if c \<in> set cs then ?f c else c) (courses (cu_core ?s))"
    using Cons.prems(1,3) by (intro Cons.IH) simp_all
  moreover have "?f c \<notin> set cs"
  proof
    assume "?f c \<in> set cs"
    moreover have "co_id (?f c) = co_id c" by simp
    ultimately have "co_id c \<in> co_id ` set cs" by (metis imageI)
    with Cons.prems(1) show False by simp
  qed
  ultimately show ?case
    using Cons.prems(1) unfolding rows by (auto simp: Let_def)
qed simp

definition run_ticks :: "timestamp \<Rightarrow> nat \<Rightarrow> curriculum \<Rightarrow> curriculum" where
  "run_ticks t0 n s = fold (\<lambda>k. checkUnlockedModules (tick t0 k)) [1..<Suc n] s"

lemma checkUnlockedModules_frame [simp]:
  "cu_modules (checkUnlockedModules now s) = cu_modules s" "cu_core (checkUnlockedModules now s) = cu_core s"
  by (simp_all add: checkUnlockedModules_def)

lemma run_ticks_events:
  "cu_unlocked (fold (\<lambda>k. checkUnlockedModules (tick t0 k)) ks s) = cu_unlocked s @
     concat (map (\<lambda>k. concat (map (\<lambda>m. unlocked_events m (cu_core s))
       (filter (just_unlocked (tick t0 k)) (cu_modules s)))) ks)"
  by (induction ks arbitrary: s)
    (simp_all add: checkUnlockedModules_def findJustUnlocked_def)

lemma announcements_eq:
  "announcements t0 n m =
     (case cm_releaseDate m of None \<Rightarrow> 0 | Some r \<Rightarrow> if t0 < r \<and> r \<le> tick t0 n then 1 else 0)"
proof (cases "cm_releaseDate m")
  case None
  then show ?thesis by (simp add: announcements_def just_unlocked_def)
next
  case (Some r)
  show ?thesis
  proof (cases "t0 < r")
    case True
    with announcements_once[OF Some True] Some show ?thesis by simp
  next
    case False
    then have "\<not> just_unlocked (tick t0 k) m" if "1 \<le> k" for k
      using that Some by (simp add: just_unlocked_def tick_def)
    then have "filter (\<lambda>k. just_unlocked (tick t0 k) m) [1..<Suc n] = []" by (auto simp: filter_empty_conv)
    with False Some show ?thesis by (simp add: announcements_def)
  qed
qed

subsection \<open>Properties\<close>

text \<open>With the scheduler running once a minute from \<open>t0\<close> on, every module whose release date lies
  between the start and the last run is announced by exactly one of the runs, to the learners
  enrolled in its course, and no other module by any; the log of announcements is that and nothing
  else.\<close>

theorem drip_announces_once:
  "announcements t0 n m =
     (case cm_releaseDate m of None \<Rightarrow> 0 | Some r \<Rightarrow> if t0 < r \<and> r \<le> tick t0 n then 1 else 0)
   \<and> cu_unlocked (run_ticks t0 n s) = cu_unlocked s @
       concat (map (\<lambda>k. concat (map (\<lambda>m. unlocked_events m (cu_core s)) (findJustUnlocked (tick t0 k) s))) [1..<Suc n])"
  by (simp only: announcements_eq run_ticks_def run_ticks_events findJustUnlocked_def simp_thms)

text \<open>A run of the course scheduler publishes every scheduled course whose time has come and is not
  deleted, stamps it with the time of the run and changes no other course; so no course that is due
  remains, and a second run at the same time finds nothing to do.\<close>

theorem scheduler_publishes_due:
  assumes "distinct (map co_id (courses (cu_core s)))"
  shows "courses (cu_core (publishScheduledCourses now s)) =
     map (\<lambda>c. if publish_due now c
              then c\<lparr>co_status := PUBLISHED, co_isPublished := True, co_publishedAt := Some now\<rparr> else c)
       (courses (cu_core s))
   \<and> publishScheduledCourses now (publishScheduledCourses now s) = publishScheduledCourses now s"
proof -
  have eq: "courses (cu_core (publishScheduledCourses now s)) =
     map (\<lambda>c. if publish_due now c
              then c\<lparr>co_status := PUBLISHED, co_isPublished := True, co_publishedAt := Some now\<rparr> else c)
       (courses (cu_core s))"
    unfolding publishScheduledCourses_def using assms
    by (subst publish_all_courses) (auto simp: distinct_map_filter intro!: map_cong)
  have "filter (publish_due now) (courses (cu_core (publishScheduledCourses now s))) = []"
    unfolding eq by (auto simp: filter_empty_conv publish_due_def)
  then have "publishScheduledCourses now (publishScheduledCourses now s) = publishScheduledCourses now s"
    unfolding publishScheduledCourses_def[of now "publishScheduledCourses now s"] by simp
  with eq show ?thesis by blast
qed

definition planned :: curriculum where
  "planned = \<lparr>cu_core = empty_core\<lparr>courses := [(new_course 10 ''A'')\<lparr>co_status := SCHEDULED, co_scheduledAt := Some 50\<rparr>,
       new_course 11 ''B'']\<rparr>, cu_modules = [], cu_lessons = [], cu_unlocked = [], cu_notifications = [], cu_fresh = 12\<rparr>"

theorem scheduler_publishes_due_witness:
  "map co_status (courses (cu_core (publishScheduledCourses 60 planned))) = [PUBLISHED, DRAFT]"
proof -
  have "distinct (map co_id (courses (cu_core planned)))" by (simp add: planned_def new_course_def)
  from scheduler_publishes_due[OF this, of 60] show ?thesis
    by (simp add: planned_def publish_due_def new_course_def)
qed

end
