(* ===== verification/Assignments.thy ===== *)
theory Assignments
  imports Curriculum
begin

text \<open>
  Assignments (\<open>assignments/assignments.service.ts\<close>) and the guard of the grading routes
  (\<open>assignments/assignment-ownership.guard.ts\<close>): submissions, the circular assignment of peer
  reviewers, the reviews, and the final grade with the instructor's override. Grades are doubles.
\<close>

record rubric_criterion =
  rc_id :: string
  rc_title :: string
  rc_description :: string
  rc_maxPoints :: js_num

record assignment =
  as_id :: uuid
  as_lessonId :: uuid
  as_title :: string
  as_description :: string
  as_dueDate :: timestamp
  as_maxPoints :: int
  as_rubric :: "rubric_criterion list"

record submission =
  sb_id :: uuid
  sb_assignmentId :: uuid
  sb_userId :: uuid
  sb_fileUrl :: string
  sb_submittedAt :: timestamp
  sb_instructorGrade :: "js_num option"
  sb_instructorFeedback :: "string option"
  sb_finalGrade :: "js_num option"

record rubric_score =
  rs_criterionId :: string
  rs_score :: js_num
  rs_feedback :: string

record peer_review =
  rv_id :: uuid
  rv_submissionId :: uuid
  rv_reviewerId :: uuid
  rv_scores :: "rubric_score list"
  rv_overallFeedback :: "string option"
  rv_isSubmitted :: bool

record assignment_db =
  ad_curriculum :: curriculum
  ad_assignments :: "assignment list"
  ad_submissions :: "submission list"
  ad_reviews :: "peer_review list"
  ad_fresh :: nat

subsection \<open>Assignments and submissions\<close>

text \<open>The course an assignment belongs to, along lesson and module.\<close>

definition course_of_assignment :: "assignment \<Rightarrow> curriculum \<Rightarrow> uuid option" where
  "course_of_assignment a c =
     map_option cm_courseId (Option.bind (find_lesson (as_lessonId a) c) (\<lambda>l. find_module (le_moduleId l) c))"

definition getAssignmentsByCourse :: "uuid \<Rightarrow> assignment_db \<Rightarrow> assignment list" where
  "getAssignmentsByCourse courseId s =
     filter (\<lambda>a. course_of_assignment a (ad_curriculum s) = Some courseId) (ad_assignments s)"

definition getAssignmentsByLesson :: "uuid \<Rightarrow> assignment_db \<Rightarrow> assignment list" where
  "getAssignmentsByLesson lessonId s = filter (\<lambda>a. as_lessonId a = lessonId) (ad_assignments s)"

definition createAssignment :: "assignment \<Rightarrow> assignment_db \<Rightarrow> assignment \<times> assignment_db" where
  "createAssignment data s =
     (let a = data\<lparr>as_id := ad_fresh s\<rparr>
      in (a, s\<lparr>ad_assignments := ad_assignments s @ [a], ad_fresh := Suc (ad_fresh s)\<rparr>))"

definition getAssignment :: "uuid \<Rightarrow> assignment_db \<Rightarrow> http_error + assignment" where
  "getAssignment i s =
     (case find (\<lambda>a. as_id a = i) (ad_assignments s) of
        None \<Rightarrow> Inl (NotFoundException ''Assignment not found'') | Some a \<Rightarrow> Inr a)"

definition submission_of :: "uuid \<Rightarrow> uuid \<Rightarrow> assignment_db \<Rightarrow> submission option" where
  "submission_of userId assignmentId s =
     find (\<lambda>x. sb_userId x = userId \<and> sb_assignmentId x = assignmentId) (ad_submissions s)"

definition submitAssignment ::
  "timestamp \<Rightarrow> uuid \<Rightarrow> uuid \<Rightarrow> string \<Rightarrow> assignment_db \<Rightarrow> (assignment_db, submission) outcome" where
  "submitAssignment now userId assignmentId fileUrl s =
     (case getAssignment assignmentId s of
        Inl e \<Rightarrow> (Inl e, s)
      | Inr a \<Rightarrow>
          if as_dueDate a < now then (Inl (BadRequestException ''Assignment due date has passed''), s)
          else
            (let x = (case submission_of userId assignmentId s of
                        Some old \<Rightarrow> old\<lparr>sb_fileUrl := fileUrl, sb_submittedAt := now\<rparr>
                      | None \<Rightarrow> \<lparr>sb_id = ad_fresh s, sb_assignmentId = assignmentId, sb_userId = userId,
                                 sb_fileUrl = fileUrl, sb_submittedAt = now, sb_instructorGrade = None,
                                 sb_instructorFeedback = None, sb_finalGrade = None\<rparr>)
             in (Inr x, s\<lparr>ad_submissions := save_row sb_id x (ad_submissions s), ad_fresh := Suc (ad_fresh s)\<rparr>)))"

definition find_submission :: "uuid \<Rightarrow> assignment_db \<Rightarrow> submission option" where
  "find_submission i s = find (\<lambda>x. sb_id x = i) (ad_submissions s)"

definition getSubmission :: "uuid \<Rightarrow> assignment_db \<Rightarrow> http_error + submission \<times> peer_review list" where
  "getSubmission i s =
     (case find_submission i s of
        None \<Rightarrow> Inl (NotFoundException ''Submission not found'')
      | Some x \<Rightarrow> Inr (x, filter (\<lambda>r. rv_submissionId r = i) (ad_reviews s)))"

subsection \<open>Peer reviewers\<close>

text \<open>Author \<open>i\<close> reviews the three submissions behind his own, around the circle.\<close>

definition reviewer_pairs :: "submission list \<Rightarrow> (uuid \<times> uuid) list" where
  "reviewer_pairs xs =
     concat (map (\<lambda>i. map (\<lambda>k. (sb_userId (xs ! i), sb_id (xs ! ((i + k) mod length xs)))) [1, 2, 3]) [0..<length xs])"

definition new_reviews :: "(uuid \<times> uuid) list \<Rightarrow> nat \<Rightarrow> peer_review list" where
  "new_reviews ps n =
     map (\<lambda>(i, (reviewer, sid)). \<lparr>rv_id = i, rv_submissionId = sid, rv_reviewerId = reviewer, rv_scores = [],
            rv_overallFeedback = None, rv_isSubmitted = False\<rparr>) (zip [n..<n + length ps] ps)"

definition review_key :: "peer_review \<Rightarrow> uuid \<times> uuid" where
  "review_key r = (rv_reviewerId r, rv_submissionId r)"

text \<open>The delete is a statement of its own; the inserts are one transaction under a unique index.\<close>

definition assignReviewers :: "uuid \<Rightarrow> assignment_db \<Rightarrow> (assignment_db, peer_review list) outcome" where
  "assignReviewers assignmentId s =
     (let xs = order_by sb_submittedAt (filter (\<lambda>x. sb_assignmentId x = assignmentId) (ad_submissions s))
      in if length xs < 4
         then (Inl (BadRequestException ''Not enough submissions to assign 3 reviewers (minimum 4 required)''), s)
         else
           (let s1 = s\<lparr>ad_reviews := delete_rows (\<lambda>r. rv_submissionId r \<in> set (map sb_id xs) \<and> \<not> rv_isSubmitted r)
                                       (ad_reviews s)\<rparr>;
                rs = new_reviews (reviewer_pairs xs) (ad_fresh s1)
            in if \<not> distinct (map review_key (ad_reviews s1 @ rs)) then (Inl UniqueViolation, s1)
               else (Inr rs, s1\<lparr>ad_reviews := ad_reviews s1 @ rs, ad_fresh := ad_fresh s1 + length rs\<rparr>)))"

subsection \<open>Grades\<close>

definition sum_scores :: "js_num list \<Rightarrow> js_num" where
  "sum_scores xs = fold (\<lambda>x acc. js_add acc x) xs 0"

definition review_score :: "peer_review \<Rightarrow> js_num" where
  "review_score r = sum_scores (map rs_score (rv_scores r))"

text \<open>The new row, or \<open>None\<close> when nothing is saved.\<close>

definition final_grade_row :: "submission \<Rightarrow> peer_review list \<Rightarrow> submission option" where
  "final_grade_row x reviews =
     (case sb_instructorGrade x of
        Some g \<Rightarrow> Some (x\<lparr>sb_finalGrade := Some g\<rparr>)
      | None \<Rightarrow>
          (let completed = filter rv_isSubmitted reviews
           in if completed = [] then None
              else Some (x\<lparr>sb_finalGrade := Some (js_div (sum_scores (map review_score completed))
                                                 (of_nat (length completed)))\<rparr>)))"

definition calculateFinalGrade :: "uuid \<Rightarrow> assignment_db \<Rightarrow> assignment_db" where
  "calculateFinalGrade i s =
     (case find_submission i s of
        None \<Rightarrow> s
      | Some x \<Rightarrow>
          (case final_grade_row x (filter (\<lambda>r. rv_submissionId r = i) (ad_reviews s)) of
             None \<Rightarrow> s
           | Some x' \<Rightarrow> s\<lparr>ad_submissions := save_row sb_id x' (ad_submissions s)\<rparr>))"

definition submitPeerReview ::
  "uuid \<Rightarrow> uuid \<Rightarrow> rubric_score list \<Rightarrow> string \<Rightarrow> assignment_db \<Rightarrow> (assignment_db, peer_review) outcome" where
  "submitPeerReview reviewerId submissionId scores feedback s =
     (case find (\<lambda>r. rv_reviewerId r = reviewerId \<and> rv_submissionId r = submissionId) (ad_reviews s) of
        None \<Rightarrow> (Inl (NotFoundException ''Peer review assignment not found''), s)
      | Some r \<Rightarrow>
          (let r' = r\<lparr>rv_scores := scores, rv_overallFeedback := Some feedback, rv_isSubmitted := True\<rparr>
           in (Inr r', calculateFinalGrade submissionId
                         (s\<lparr>ad_reviews := save_row rv_id r' (ad_reviews s)\<rparr>))))"

definition instructorOverride ::
  "uuid \<Rightarrow> js_num \<Rightarrow> string \<Rightarrow> assignment_db \<Rightarrow> (assignment_db, submission) outcome" where
  "instructorOverride submissionId grade feedback s =
     (case find_submission submissionId s of
        None \<Rightarrow> (Inl (NotFoundException ''Submission not found''), s)
      | Some x \<Rightarrow>
          (let x' = x\<lparr>sb_instructorGrade := Some grade, sb_instructorFeedback := Some feedback,
                      sb_finalGrade := Some grade\<rparr>
           in (Inr x', s\<lparr>ad_submissions := save_row sb_id x' (ad_submissions s)\<rparr>)))"

definition getReviewsForUser :: "uuid \<Rightarrow> assignment_db \<Rightarrow> peer_review list" where
  "getReviewsForUser userId s = filter (\<lambda>r. rv_reviewerId r = userId) (ad_reviews s)"

text \<open>The guard: \<open>None\<close> for a request without a user, or without the route parameter.\<close>

definition canActivate :: "(uuid \<times> string) option \<Rightarrow> uuid option \<Rightarrow> assignment_db \<Rightarrow> http_error + bool" where
  "canActivate usr submissionId s =
     (case usr of
        None \<Rightarrow> Inl (ForbiddenException ''Authentication required'')
      | Some (userId, role) \<Rightarrow>
          if role = ''admin'' then Inr True
          else (case submissionId of
                  None \<Rightarrow> Inl (NotFoundException ''Submission not found'')
                | Some i \<Rightarrow>
                    (case find_submission i s of
                       None \<Rightarrow> Inl (NotFoundException ''Submission not found'')
                     | Some x \<Rightarrow>
                         (let course = Option.bind (find (\<lambda>a. as_id a = sb_assignmentId x) (ad_assignments s))
                                (\<lambda>a. Option.bind (course_of_assignment a (ad_curriculum s))
                                        (\<lambda>c. find_course c (cu_core (ad_curriculum s))))
                          in if (case course of None \<Rightarrow> True | Some c \<Rightarrow> co_instructorId c \<noteq> Some userId)
                             then Inl (ForbiddenException ''You do not own the course that contains this submission'')
                             else Inr True))))"

subsection \<open>The circle\<close>

lemma reviewer_pairs_mem:
  "(u, sid) \<in> set (reviewer_pairs xs) \<longleftrightarrow>
     (\<exists>i < length xs. \<exists>k \<in> {1, 2, 3}. u = sb_userId (xs ! i) \<and> sid = sb_id (xs ! ((i + k) mod length xs)))"
  by (auto simp: reviewer_pairs_def)

lemma mod_shift_inj:
  fixes i j k n :: nat
  assumes "(i + k) mod n = (j + k) mod n" "i < n" "j < n"
  shows "i = j"
proof -
  have "(int i + int k) mod int n = (int j + int k) mod int n"
    using assms(1) by (metis of_nat_add of_nat_mod)
  then have "int i mod int n = int j mod int n" by (metis add_diff_cancel_right' mod_diff_left_eq)
  with assms(2,3) show ?thesis by simp
qed

lemma mod_shift_neq:
  fixes i k l n :: nat
  assumes "(i + k) mod n = (i + l) mod n" "k < n" "l < n"
  shows "k = l"
  using mod_shift_inj[of k i n l] assms by (simp add: add.commute)

lemma mod_shift_back:
  fixes i j k n :: nat
  assumes "i < n" "j < n" "k \<le> n"
  shows "(i + k) mod n = j \<longleftrightarrow> i = (j + (n - k)) mod n"
proof -
  let ?i = "(j + (n - k)) mod n"
  have "(?i + k) mod n = (j + (n - k) + k) mod n" by (rule mod_add_left_eq)
  also have "j + (n - k) + k = j + n" using assms(3) by simp
  finally have j: "(?i + k) mod n = j" using assms(2) by simp
  show ?thesis
  proof
    assume "(i + k) mod n = j"
    with j have "(i + k) mod n = (?i + k) mod n" by simp
    then show "i = ?i" by (rule mod_shift_inj) (use assms in simp_all)
  qed (use j in simp)
qed

lemma reviewers_of_submission:
  assumes "distinct (map sb_id xs)" "4 \<le> length xs" "j < length xs"
  shows "{u. (u, sb_id (xs ! j)) \<in> set (reviewer_pairs xs)}
     = (\<lambda>k. sb_userId (xs ! ((j + (length xs - k)) mod length xs))) ` {1, 2, 3}"
proof -
  let ?n = "length xs"
  have id: "sb_id (xs ! j) = sb_id (xs ! m) \<longleftrightarrow> j = m" if "m < ?n" for m
    using assms(1,3) that nth_eq_iff_index_eq[of "map sb_id xs" j m] by simp
  have "(u, sb_id (xs ! j)) \<in> set (reviewer_pairs xs) \<longleftrightarrow>
      (\<exists>i < ?n. \<exists>k \<in> {1, 2, 3}. u = sb_userId (xs ! i) \<and> (i + k) mod ?n = j)" for u
    unfolding reviewer_pairs_mem using id assms(2) by (metis mod_less_divisor order_less_le_trans zero_less_numeral)
  moreover have "(\<exists>i < ?n. \<exists>k \<in> {1, 2, 3}. u = sb_userId (xs ! i) \<and> (i + k) mod ?n = j) \<longleftrightarrow>
      (\<exists>k \<in> {1, 2, 3}. u = sb_userId (xs ! ((j + (?n - k)) mod ?n)))" (is "?L \<longleftrightarrow> ?R") for u
  proof
    assume ?L
    then obtain i k where "i < ?n" "k \<in> {1, 2, 3}" "u = sb_userId (xs ! i)" "(i + k) mod ?n = j" by blast
    moreover from this assms(2) have "k \<le> ?n" by auto
    ultimately show ?R using mod_shift_back[of i ?n j k] assms(3) by metis
  next
    assume ?R
    then obtain k where k: "k \<in> {1, 2, 3}" "u = sb_userId (xs ! ((j + (?n - k)) mod ?n))" by blast
    have "(j + (?n - k)) mod ?n < ?n" using assms(3) by (intro mod_less_divisor) linarith
    moreover have "((j + (?n - k)) mod ?n + k) mod ?n = j"
      using mod_shift_back[of "(j + (?n - k)) mod ?n" ?n j k] assms(2,3) k(1) calculation by auto
    ultimately show ?L using k by blast
  qed
  ultimately show ?thesis by (auto simp: image_iff)
qed

lemma submissions_of_reviewer:
  assumes "distinct (map sb_userId xs)" "i < length xs"
  shows "{sid. (sb_userId (xs ! i), sid) \<in> set (reviewer_pairs xs)}
     = (\<lambda>k. sb_id (xs ! ((i + k) mod length xs))) ` {1, 2, 3}"
proof -
  have "sb_userId (xs ! i) = sb_userId (xs ! m) \<longleftrightarrow> i = m" if "m < length xs" for m
    using assms that nth_eq_iff_index_eq[of "map sb_userId xs" i m] by simp
  then show ?thesis unfolding reviewer_pairs_mem using assms(2) by auto
qed

lemma card_three: "inj_on f {1, 2, 3::nat} \<Longrightarrow> card (f ` {1, 2, 3}) = 3"
  by (simp add: card_image)

lemma circle_balanced:
  assumes d: "distinct (map sb_id xs)" "distinct (map sb_userId xs)" and n: "4 \<le> length xs" and x: "x \<in> set xs"
  shows "card {u. (u, sb_id x) \<in> set (reviewer_pairs xs)} = 3"
    "(sb_userId x, sb_id x) \<notin> set (reviewer_pairs xs)"
    "card {sid. (sb_userId x, sid) \<in> set (reviewer_pairs xs)} = 3"
proof -
  let ?n = "length xs"
  obtain j where j: "j < ?n" "x = xs ! j" using x by (auto simp: in_set_conv_nth)
  have inrange: "(j + (?n - k)) mod ?n < ?n" "(j + k) mod ?n < ?n" for k
    using j(1) by (intro mod_less_divisor, linarith)+
  have user_eq: "sb_userId (xs ! a) = sb_userId (xs ! b) \<longleftrightarrow> a = b" if "a < ?n" "b < ?n" for a b
    using d(2) that nth_eq_iff_index_eq[of "map sb_userId xs" a b] by simp
  have sid_eq: "sb_id (xs ! a) = sb_id (xs ! b) \<longleftrightarrow> a = b" if "a < ?n" "b < ?n" for a b
    using d(1) that nth_eq_iff_index_eq[of "map sb_id xs" a b] by simp
  have "inj_on (\<lambda>k. sb_userId (xs ! ((j + (?n - k)) mod ?n))) {1, 2, 3}"
  proof (rule inj_onI)
    fix k l assume kl: "k \<in> {1, 2, 3}" "l \<in> {1, 2, 3}"
      "sb_userId (xs ! ((j + (?n - k)) mod ?n)) = sb_userId (xs ! ((j + (?n - l)) mod ?n))"
    then have "(j + (?n - k)) mod ?n = (j + (?n - l)) mod ?n" using user_eq inrange by simp
    moreover have "?n - k < ?n" "?n - l < ?n" using kl n by auto
    ultimately have "?n - k = ?n - l" by (rule mod_shift_neq)
    with kl n show "k = l" by auto
  qed
  then show "card {u. (u, sb_id x) \<in> set (reviewer_pairs xs)} = 3"
    unfolding j(2) reviewers_of_submission[OF d(1) n j(1)] by (rule card_three)
  show "(sb_userId x, sb_id x) \<notin> set (reviewer_pairs xs)"
  proof
    assume "(sb_userId x, sb_id x) \<in> set (reviewer_pairs xs)"
    then obtain k where k: "k \<in> {1, 2, 3}" "sb_id (xs ! j) = sb_id (xs ! ((j + k) mod ?n))"
      using submissions_of_reviewer[OF d(2) j(1)] j(2) by blast
    then have "(j + 0) mod ?n = (j + k) mod ?n" using sid_eq inrange j(1) by simp
    then have "0 = k" by (rule mod_shift_neq) (use k n in auto)
    with k show False by auto
  qed
  have "inj_on (\<lambda>k. sb_id (xs ! ((j + k) mod ?n))) {1, 2, 3}"
  proof (rule inj_onI)
    fix k l assume kl: "k \<in> {1, 2, 3}" "l \<in> {1, 2, 3}"
      "sb_id (xs ! ((j + k) mod ?n)) = sb_id (xs ! ((j + l) mod ?n))"
    then have "(j + k) mod ?n = (j + l) mod ?n" using sid_eq inrange by simp
    then show "k = l" by (rule mod_shift_neq) (use kl n in auto)
  qed
  then show "card {sid. (sb_userId x, sid) \<in> set (reviewer_pairs xs)} = 3"
    unfolding j(2) submissions_of_reviewer[OF d(2) j(1)] by (rule card_three)
qed

lemma keys_new_reviews: "map review_key (new_reviews ps n) = ps"
proof -
  have "review_key (case z of (i, (reviewer, sid)) \<Rightarrow> \<lparr>rv_id = i, rv_submissionId = sid, rv_reviewerId = reviewer,
      rv_scores = [], rv_overallFeedback = None, rv_isSubmitted = False\<rparr>) = snd z" for z
    by (simp add: review_key_def split: prod.split)
  then have "map review_key (new_reviews ps n) = map snd (zip [n..<n + length ps] ps)"
    by (simp add: new_reviews_def comp_def)
  then show ?thesis by simp
qed

subsection \<open>Grading histories\<close>

datatype grading_request =
    SubmitFile timestamp uuid uuid string
  | AssignReviewers uuid
  | SubmitReview uuid uuid "rubric_score list" string
  | Override uuid js_num string

fun grading_step :: "grading_request \<Rightarrow> assignment_db \<Rightarrow> http_error option \<times> assignment_db" where
  "grading_step (SubmitFile now u a url) s =
     map_prod (case_sum Some (\<lambda>_. None)) (\<lambda>x. x) (submitAssignment now u a url s)"
| "grading_step (AssignReviewers a) s = map_prod (case_sum Some (\<lambda>_. None)) (\<lambda>x. x) (assignReviewers a s)"
| "grading_step (SubmitReview r i scores fb) s =
     map_prod (case_sum Some (\<lambda>_. None)) (\<lambda>x. x) (submitPeerReview r i scores fb s)"
| "grading_step (Override i g fb) s =
     map_prod (case_sum Some (\<lambda>_. None)) (\<lambda>x. x) (instructorOverride i g fb s)"

definition graded :: "uuid \<Rightarrow> js_num \<Rightarrow> assignment_db \<Rightarrow> bool" where
  "graded i g s \<longleftrightarrow>
     distinct (map sb_id (ad_submissions s)) \<and> (\<forall>x \<in> set (ad_submissions s). sb_id x < ad_fresh s) \<and>
     (\<exists>x. find_submission i s = Some x \<and> sb_instructorGrade x = Some g \<and> sb_finalGrade x = Some g)"

lemma find_submission_save:
  "find_submission i (s\<lparr>ad_submissions := save_row sb_id x (ad_submissions s)\<rparr>)
     = (if sb_id x = i then Some x else find_submission i s)"
  by (simp add: find_submission_def find_key_save_row)

lemma find_submission_id: "find_submission i s = Some x \<Longrightarrow> sb_id x = i"
  by (auto simp: find_submission_def dest: find_SomeD)

text \<open>Saving a row that keeps the graded one's grades keeps the grade.\<close>

lemma graded_save:
  assumes "graded i g s" "sb_id x < n" "ad_fresh s \<le> n"
    and "sb_id x = i \<Longrightarrow> sb_instructorGrade x = Some g \<and> sb_finalGrade x = Some g"
  shows "graded i g (s\<lparr>ad_submissions := save_row sb_id x (ad_submissions s), ad_fresh := n\<rparr>)"
proof -
  have "distinct (map sb_id (save_row sb_id x (ad_submissions s)))"
    using assms(1) by (intro save_row_distinct) (simp add: graded_def)
  moreover have "\<forall>y \<in> set (save_row sb_id x (ad_submissions s)). sb_id y < n"
    using assms(1-3) by (fastforce simp: set_save_row graded_def)
  ultimately show ?thesis
    using assms(1,4) by (auto simp: graded_def find_submission_def find_key_save_row)
qed

lemma graded_row:
  assumes "graded i g s" "x \<in> set (ad_submissions s)"
  shows "sb_id x < ad_fresh s" "sb_id x = i \<Longrightarrow> sb_instructorGrade x = Some g \<and> sb_finalGrade x = Some g"
proof -
  show "sb_id x < ad_fresh s" using assms by (simp add: graded_def)
  assume "sb_id x = i"
  moreover have "find_submission (sb_id x) s = Some x"
    unfolding find_submission_def using assms by (intro find_key_unique) (simp_all add: graded_def)
  ultimately show "sb_instructorGrade x = Some g \<and> sb_finalGrade x = Some g"
    using assms(1) by (auto simp: graded_def)
qed

lemma graded_cong:
  "ad_submissions s' = ad_submissions s \<Longrightarrow> ad_fresh s \<le> ad_fresh s' \<Longrightarrow> graded i g s \<Longrightarrow> graded i g s'"
  by (force simp: graded_def find_submission_def)

lemma find_submission_mem: "find_submission j s = Some y \<Longrightarrow> y \<in> set (ad_submissions s) \<and> sb_id y = j"
  by (auto simp: find_submission_def dest: find_SomeD)

lemma graded_calculate:
  assumes "graded i g s"
  shows "graded i g (calculateFinalGrade j s)"
proof (cases "find_submission j s")
  case None
  with assms show ?thesis by (simp add: calculateFinalGrade_def)
next
  case (Some y)
  note y = graded_row[OF assms, of y] find_submission_mem[OF Some]
  show ?thesis
  proof (cases "final_grade_row y (filter (\<lambda>r. rv_submissionId r = j) (ad_reviews s))")
    case None
    with Some assms show ?thesis by (simp add: calculateFinalGrade_def)
  next
    case (Some z)
    have z: "sb_id z = sb_id y" "sb_instructorGrade z = sb_instructorGrade y"
      "sb_instructorGrade y = Some g \<Longrightarrow> sb_finalGrade z = Some g"
      using Some by (auto simp: final_grade_row_def Let_def split: option.splits if_splits)
    have "graded i g (s\<lparr>ad_submissions := save_row sb_id z (ad_submissions s), ad_fresh := ad_fresh s\<rparr>)"
      using z y by (intro graded_save[OF assms]) auto
    with Some \<open>find_submission j s = Some y\<close> show ?thesis by (simp add: calculateFinalGrade_def)
  qed
qed

lemma graded_step:
  assumes "graded i g s" "\<And>g' fb. r \<noteq> Override i g' fb"
  shows "graded i g (snd (grading_step r s))"
proof (cases r)
  case (SubmitFile now u a url)
  show ?thesis
  proof (cases "\<exists>asg. getAssignment a s = Inr asg \<and> \<not> as_dueDate asg < now")
    case False
    then have "snd (submitAssignment now u a url s) = s"
      by (auto simp: submitAssignment_def split: sum.split)
    with assms(1) show ?thesis by (simp add: SubmitFile)
  next
    case True
    then obtain asg where asg: "getAssignment a s = Inr asg" "\<not> as_dueDate asg < now" by blast
    show ?thesis
    proof (cases "submission_of u a s")
      case None
      let ?x = "\<lparr>sb_id = ad_fresh s, sb_assignmentId = a, sb_userId = u, sb_fileUrl = url, sb_submittedAt = now,
        sb_instructorGrade = None, sb_instructorFeedback = None, sb_finalGrade = None\<rparr>"
      have "i < ad_fresh s" using assms(1) find_submission_mem by (fastforce simp: graded_def)
      then have "graded i g (s\<lparr>ad_submissions := save_row sb_id ?x (ad_submissions s), ad_fresh := Suc (ad_fresh s)\<rparr>)"
        by (intro graded_save[OF assms(1)]) simp_all
      with None asg show ?thesis by (simp add: SubmitFile submitAssignment_def Let_def)
    next
      case (Some y)
      then have y: "y \<in> set (ad_submissions s)" by (auto simp: submission_of_def dest: find_SomeD)
      let ?x = "y\<lparr>sb_fileUrl := url, sb_submittedAt := now\<rparr>"
      have "graded i g (s\<lparr>ad_submissions := save_row sb_id ?x (ad_submissions s), ad_fresh := Suc (ad_fresh s)\<rparr>)"
        using graded_row[OF assms(1) y] by (intro graded_save[OF assms(1)]) simp_all
      with Some asg show ?thesis by (simp add: SubmitFile submitAssignment_def Let_def)
    qed
  qed
next
  case (AssignReviewers a)
  show ?thesis
    by (rule graded_cong[OF _ _ assms(1)]) (simp_all add: AssignReviewers assignReviewers_def Let_def)
next
  case (SubmitReview u j scores fb)
  show ?thesis
  proof (cases "find (\<lambda>r. rv_reviewerId r = u \<and> rv_submissionId r = j) (ad_reviews s)")
    case None
    with assms(1) show ?thesis by (simp add: SubmitReview submitPeerReview_def)
  next
    case (Some rv)
    have "graded i g (s\<lparr>ad_reviews := q\<rparr>)" for q by (rule graded_cong[OF _ _ assms(1)]) simp_all
    with Some graded_calculate show ?thesis by (simp add: SubmitReview submitPeerReview_def Let_def)
  qed
next
  case (Override j g' fb)
  with assms(2) have "j \<noteq> i" by blast
  show ?thesis
  proof (cases "find_submission j s")
    case None
    with assms(1) show ?thesis by (simp add: Override instructorOverride_def)
  next
    case (Some y)
    note y = find_submission_mem[OF Some]
    let ?x = "y\<lparr>sb_instructorGrade := Some g', sb_instructorFeedback := Some fb, sb_finalGrade := Some g'\<rparr>"
    have "graded i g (s\<lparr>ad_submissions := save_row sb_id ?x (ad_submissions s), ad_fresh := ad_fresh s\<rparr>)"
      using graded_row(1)[OF assms(1), of y] y \<open>j \<noteq> i\<close> by (intro graded_save[OF assms(1)]) simp_all
    with Some show ?thesis by (simp add: Override instructorOverride_def Let_def)
  qed
qed

subsection \<open>Properties\<close>

abbreviation submissions_of :: "uuid \<Rightarrow> assignment_db \<Rightarrow> submission list" where
  "submissions_of a s \<equiv> order_by sb_submittedAt (filter (\<lambda>x. sb_assignmentId x = a) (ad_submissions s))"

lemma distinct_order_by: "distinct (map g (order_by f xs)) \<longleftrightarrow> distinct (map g xs)"
  by (simp add: distinct_map order_by_def distinct_sort)

lemma reviewer_pairs_distinct:
  assumes "distinct (map sb_id xs)" "distinct (map sb_userId xs)" "4 \<le> length xs"
  shows "distinct (reviewer_pairs xs)"
proof -
  let ?n = "length xs"
  let ?row = "\<lambda>i. map (\<lambda>k. (sb_userId (xs ! i), sb_id (xs ! ((i + k) mod ?n)))) [1, 2, 3]"
  have user: "sb_userId (xs ! i) = sb_userId (xs ! j) \<longleftrightarrow> i = j" if "i < ?n" "j < ?n" for i j
    using assms(2) that nth_eq_iff_index_eq[of "map sb_userId xs" i j] by simp
  have sid: "sb_id (xs ! i) = sb_id (xs ! j) \<longleftrightarrow> i = j" if "i < ?n" "j < ?n" for i j
    using assms(1) that nth_eq_iff_index_eq[of "map sb_id xs" i j] by simp
  have rows: "distinct (?row i)" for i
  proof -
    have "inj_on (\<lambda>k. (sb_userId (xs ! i), sb_id (xs ! ((i + k) mod ?n)))) {1, 2, 3}"
    proof (rule inj_onI)
      fix k l assume kl: "k \<in> {1, 2, 3}" "l \<in> {1, 2, 3}"
        "(sb_userId (xs ! i), sb_id (xs ! ((i + k) mod ?n))) = (sb_userId (xs ! i), sb_id (xs ! ((i + l) mod ?n)))"
      have "(i + m) mod ?n < ?n" for m using assms(3) by (intro mod_less_divisor) linarith
      then have "(i + k) mod ?n = (i + l) mod ?n" using sid kl(3) by simp
      then show "k = l" by (rule mod_shift_neq) (use kl assms(3) in auto)
    qed
    then show ?thesis by (simp add: distinct_map)
  qed
  have firsts: "fst ` set (?row i) = {sb_userId (xs ! i)}" for i by auto
  show ?thesis
    unfolding reviewer_pairs_def
  proof (rule distinct_concat)
    show "distinct (map ?row [0..<?n])"
    proof (subst distinct_map, intro conjI inj_onI)
      fix i j assume "i \<in> set [0..<?n]" "j \<in> set [0..<?n]" "?row i = ?row j"
      then show "i = j" using user by simp
    qed simp
  next
    fix ys assume "ys \<in> set (map ?row [0..<?n])"
    then show "distinct ys" using rows by (auto simp only: set_map)
  next
    fix ys zs assume mem: "ys \<in> set (map ?row [0..<?n])" "zs \<in> set (map ?row [0..<?n])" "ys \<noteq> zs"
    then obtain i j where "i < ?n" "ys = ?row i" "j < ?n" "zs = ?row j" by (auto simp only: set_map image_iff set_upt atLeastLessThan_iff)
    with mem(3) have "sb_userId (xs ! i) \<noteq> sb_userId (xs ! j)" using user by blast
    then show "set ys \<inter> set zs = {}"
      using firsts[of i] firsts[of j] \<open>ys = ?row i\<close> \<open>zs = ?row j\<close> by auto
  qed
qed

lemma submissions_of_distinct:
  assumes "distinct (map sb_id (ad_submissions s))"
    and "distinct (map (\<lambda>x. (sb_assignmentId x, sb_userId x)) (ad_submissions s))"
  shows "distinct (map sb_id (submissions_of a s))" "distinct (map sb_userId (submissions_of a s))"
proof -
  show "distinct (map sb_id (submissions_of a s))"
    using assms(1) by (simp only: distinct_order_by distinct_map_filter)
  have "inj_on sb_userId {x \<in> set (ad_submissions s). sb_assignmentId x = a}"
    using assms(2) by (auto simp: distinct_map inj_on_def)
  moreover have "distinct (ad_submissions s)" using assms(1) by (simp add: distinct_map)
  ultimately have "distinct (map sb_userId (filter (\<lambda>x. sb_assignmentId x = a) (ad_submissions s)))"
    by (simp add: distinct_map)
  then show "distinct (map sb_userId (submissions_of a s))" by (simp only: distinct_order_by)
qed

lemma reviewer_pairs_ids: "(u, sid) \<in> set (reviewer_pairs xs) \<Longrightarrow> sid \<in> sb_id ` set xs"
proof -
  assume "(u, sid) \<in> set (reviewer_pairs xs)"
  then obtain i k where ik: "i < length xs" "sid = sb_id (xs ! ((i + k) mod length xs))" unfolding reviewer_pairs_mem by blast
  then have "(i + k) mod length xs < length xs" by (intro mod_less_divisor) linarith
  then have "xs ! ((i + k) mod length xs) \<in> set xs" by (rule nth_mem)
  with ik(2) show ?thesis by simp
qed

lemma assignReviewers_first_run:
  assumes d: "distinct (map sb_id (ad_submissions s))"
      "distinct (map (\<lambda>x. (sb_assignmentId x, sb_userId x)) (ad_submissions s))"
      "distinct (map review_key (ad_reviews s))"
    and n: "4 \<le> length (submissions_of a s)"
    and fresh: "\<And>x r. x \<in> set (submissions_of a s) \<Longrightarrow> r \<in> set (ad_reviews s) \<Longrightarrow> rv_submissionId r = sb_id x
      \<Longrightarrow> \<not> rv_isSubmitted r"
  obtains rs s' where "assignReviewers a s = (Inr rs, s')" "set (map review_key rs) = set (reviewer_pairs (submissions_of a s))"
    "ad_reviews s' = delete_rows (\<lambda>r. rv_submissionId r \<in> set (map sb_id (submissions_of a s)) \<and> \<not> rv_isSubmitted r)
       (ad_reviews s) @ rs"
proof -
  let ?xs = "submissions_of a s"
  let ?old = "delete_rows (\<lambda>r. rv_submissionId r \<in> set (map sb_id ?xs) \<and> \<not> rv_isSubmitted r) (ad_reviews s)"
  let ?rs = "new_reviews (reviewer_pairs ?xs) (ad_fresh s)"
  have "rv_submissionId r \<notin> set (map sb_id ?xs)" if "r \<in> set ?old" for r
    using that fresh by fastforce
  moreover note reviewer_pairs_ids[of _ _ ?xs]
  ultimately have "set (map review_key ?old) \<inter> set (reviewer_pairs ?xs) = {}"
    unfolding review_key_def by (force simp del: set_delete_rows)
  moreover have "distinct (map review_key ?old)" using d(3) by (rule distinct_map_delete_rows)
  moreover have "distinct (reviewer_pairs ?xs)"
    using submissions_of_distinct[OF d(1,2)] n by (rule reviewer_pairs_distinct)
  ultimately have "distinct (map review_key (?old @ ?rs))" by (simp add: keys_new_reviews del: set_map)
  moreover have "ad_fresh (s\<lparr>ad_reviews := ?old\<rparr>) = ad_fresh s" by simp
  ultimately have "assignReviewers a s =
      (Inr ?rs, s\<lparr>ad_reviews := ?old @ ?rs, ad_fresh := ad_fresh s + length ?rs\<rparr>)"
    using n unfolding assignReviewers_def Let_def by (simp del: length_order_by set_order_by set_map)
  then show ?thesis by (rule that) (simp_all only: keys_new_reviews assignment_db.simps assignment_db.select_convs assignment_db.surjective assignment_db.update_convs, simp)
qed

lemma assignReviewers_keys:
  assumes "set (map review_key rs) = set (reviewer_pairs (submissions_of a s))"
    and "ad_reviews s' = delete_rows (\<lambda>r. rv_submissionId r \<in> set (map sb_id (submissions_of a s)) \<and> \<not> rv_isSubmitted r)
       (ad_reviews s) @ rs"
    and "\<And>x r. x \<in> set (submissions_of a s) \<Longrightarrow> r \<in> set (ad_reviews s) \<Longrightarrow> rv_submissionId r = sb_id x
      \<Longrightarrow> \<not> rv_isSubmitted r"
    and "y \<in> set (submissions_of a s)"
  shows "(u, sb_id y) \<in> review_key ` set (ad_reviews s') \<longleftrightarrow> (u, sb_id y) \<in> set (reviewer_pairs (submissions_of a s))"
proof -
  have "(u, sb_id y) \<notin> review_key ` {r \<in> set (ad_reviews s). \<not> (rv_submissionId r \<in> set (map sb_id (submissions_of a s)) \<and> \<not> rv_isSubmitted r)}"
  proof
    assume "(u, sb_id y) \<in> review_key ` {r \<in> set (ad_reviews s). \<not> (rv_submissionId r \<in> set (map sb_id (submissions_of a s)) \<and> \<not> rv_isSubmitted r)}"
    then obtain r where r: "r \<in> set (ad_reviews s)" "rv_submissionId r = sb_id y"
      "\<not> (rv_submissionId r \<in> set (map sb_id (submissions_of a s)) \<and> \<not> rv_isSubmitted r)"
      by (auto simp: review_key_def)
    moreover from this(1,2) have "\<not> rv_isSubmitted r" using assms(3,4) by blast
    moreover have "sb_id y \<in> set (map sb_id (submissions_of a s))" using assms(4) by simp
    ultimately show False by simp
  qed
  moreover have "review_key ` set rs = set (reviewer_pairs (submissions_of a s))" using assms(1) by simp
  ultimately show ?thesis unfolding assms(2) set_append image_Un set_delete_rows by blast
qed

text \<open>C37: Assigning reviewers to an assignment with at least four submissions, none of which has been
  reviewed yet, succeeds and is balanced: afterwards every submission has exactly three reviewers
  on record, never its author, and its author reviews exactly three submissions of the assignment.\<close>

theorem reviewers_balanced:
  assumes "distinct (map sb_id (ad_submissions s))"
    and "distinct (map (\<lambda>x. (sb_assignmentId x, sb_userId x)) (ad_submissions s))"
    and "distinct (map review_key (ad_reviews s))"
    and "4 \<le> count_rows (\<lambda>x. sb_assignmentId x = a) (ad_submissions s)"
    and "\<And>x r. x \<in> set (ad_submissions s) \<Longrightarrow> sb_assignmentId x = a \<Longrightarrow> r \<in> set (ad_reviews s)
      \<Longrightarrow> rv_submissionId r = sb_id x \<Longrightarrow> \<not> rv_isSubmitted r"
    and "x \<in> set (ad_submissions s)" "sb_assignmentId x = a"
  shows "succeeds (assignReviewers a s) \<and>
     card {u. (u, sb_id x) \<in> review_key ` set (ad_reviews (snd (assignReviewers a s)))} = 3 \<and>
     (sb_userId x, sb_id x) \<notin> review_key ` set (ad_reviews (snd (assignReviewers a s))) \<and>
     card {i \<in> sb_id ` {y \<in> set (ad_submissions s). sb_assignmentId y = a}.
              (sb_userId x, i) \<in> review_key ` set (ad_reviews (snd (assignReviewers a s)))} = 3"
proof -
  let ?xs = "submissions_of a s"
  have n: "4 \<le> length ?xs" using assms(4) by (simp add: count_rows_def)
  have xs: "set ?xs = {y \<in> set (ad_submissions s). sb_assignmentId y = a}" by simp
  have old: "\<not> rv_isSubmitted r" if "y \<in> set ?xs" "r \<in> set (ad_reviews s)" "rv_submissionId r = sb_id y" for y r
    using that assms(5) unfolding xs by blast
  from assignReviewers_first_run[OF assms(1-3) n old] obtain rs s' where run:
    "assignReviewers a s = (Inr rs, s')" "set (map review_key rs) = set (reviewer_pairs ?xs)"
    "ad_reviews s' = delete_rows (\<lambda>r. rv_submissionId r \<in> set (map sb_id ?xs) \<and> \<not> rv_isSubmitted r) (ad_reviews s) @ rs" .
  have keys: "(u, sb_id y) \<in> review_key ` set (ad_reviews s') \<longleftrightarrow> (u, sb_id y) \<in> set (reviewer_pairs ?xs)"
    if "y \<in> set ?xs" for u y
    using run(2,3) old that by (rule assignReviewers_keys)
  have x: "x \<in> set ?xs" using assms(6,7) unfolding xs by blast
  note circle = circle_balanced[OF submissions_of_distinct[OF assms(1,2)] n x]
  have "{i \<in> sb_id ` set ?xs. (sb_userId x, i) \<in> review_key ` set (ad_reviews s')}
      = {i. (sb_userId x, i) \<in> set (reviewer_pairs ?xs)}"
    using keys reviewer_pairs_ids[of _ _ ?xs] by blast
  then show ?thesis
    using circle keys[OF x] run(1) unfolding xs by simp
qed

definition four_papers :: assignment_db where
  "four_papers = \<lparr>ad_curriculum = planned, ad_assignments = [],
     ad_submissions = map (\<lambda>i. \<lparr>sb_id = i, sb_assignmentId = 7, sb_userId = 20 + i, sb_fileUrl = ''f'', sb_submittedAt = int i,
        sb_instructorGrade = None, sb_instructorFeedback = None, sb_finalGrade = None\<rparr>) [30, 31, 32, 33],
     ad_reviews = [], ad_fresh = 40\<rparr>"

theorem reviewers_balanced_witness:
  "card {u. (u, 32) \<in> review_key ` set (ad_reviews (snd (assignReviewers 7 four_papers)))} = 3"
  using reviewers_balanced[of four_papers 7 "ad_submissions four_papers ! 2"]
  by (simp add: four_papers_def count_rows_def)

fun overrides :: "uuid \<Rightarrow> grading_request \<Rightarrow> bool" where
  "overrides i (Override j g fb) \<longleftrightarrow> j = i"
| "overrides i _ \<longleftrightarrow> False"

lemma graded_run: "graded i g s \<Longrightarrow> \<forall>r \<in> set rs. \<not> overrides i r \<Longrightarrow> graded i g (run_ops grading_step rs s)"
proof (induction rs arbitrary: s)
  case (Cons r rs)
  then have "graded i g (snd (grading_step r s))" by (intro graded_step) auto
  with Cons show ?case by simp
qed simp

lemma override_grades:
  assumes "distinct (map sb_id (ad_submissions s))" "\<forall>x \<in> set (ad_submissions s). sb_id x < ad_fresh s"
    and "find_submission i s = Some x"
  shows "graded i g (snd (instructorOverride i g fb s))"
  using assms save_row_distinct[OF assms(1)] find_submission_mem[OF assms(3)]
  by (auto simp: graded_def instructorOverride_def find_submission_save set_save_row Let_def)

text \<open>Once an instructor has graded a submission, the grade stands: whatever is submitted, reviewed or
  assigned afterwards, and however many peer reviews come in, both the instructor's grade and the
  final grade stay what the instructor gave, until an override of the same submission.\<close>

theorem instructor_grade_stands:
  assumes "distinct (map sb_id (ad_submissions s))" "\<forall>x \<in> set (ad_submissions s). sb_id x < ad_fresh s"
    and "succeeds (instructorOverride i g fb s)"
    and "\<forall>r \<in> set rs. \<not> overrides i r"
  shows "\<exists>x. find_submission i (run_ops grading_step rs (snd (instructorOverride i g fb s))) = Some x \<and>
     sb_instructorGrade x = Some g \<and> sb_finalGrade x = Some g"
proof -
  from assms(3) obtain x where "find_submission i s = Some x"
    by (auto simp: instructorOverride_def split: option.splits)
  from graded_run[OF override_grades[OF assms(1,2) this] assms(4)]
  show ?thesis by (simp add: graded_def)
qed

theorem instructor_grade_stands_witness:
  "\<exists>x. find_submission 31 (run_ops grading_step
        [AssignReviewers 7, SubmitReview 50 31 [\<lparr>rs_criterionId = ''c'', rs_score = 3, rs_feedback = []\<rparr>] ''ok'']
        (snd (instructorOverride 31 5 ''well done'' four_papers))) = Some x \<and>
     sb_instructorGrade x = Some 5 \<and> sb_finalGrade x = Some 5"
  by (rule instructor_grade_stands)
    (simp_all add: four_papers_def instructorOverride_def find_submission_def Let_def)

end
