(* ===== verification/Caching.thy ===== *)
theory Caching
  imports Prelude
begin

text \<open>
  The cache the services share (\<open>CACHE_MANAGER\<close>, a library the sources only call). Its operations
  are arguments of every definition that uses them; what the callers rely on is the locale
  \<open>expiring_cache\<close>: a value is found under its key as long as its time to live has not passed, and
  not any more once it has. \<open>ttl_get\<close>, \<open>ttl_put\<close>, \<open>ttl_del\<close> is a store that keeps this contract.
\<close>

text \<open>A cached query: the stored answer, or else the computed one, which is stored.\<close>

definition read_through ::
  "(timestamp \<Rightarrow> 'c \<Rightarrow> string \<Rightarrow> 'v option) \<Rightarrow> (timestamp \<Rightarrow> string \<Rightarrow> 'v \<Rightarrow> int \<Rightarrow> 'c \<Rightarrow> 'c) \<Rightarrow>
   timestamp \<Rightarrow> string \<Rightarrow> int \<Rightarrow> 'v \<Rightarrow> 'c \<Rightarrow> 'v \<times> 'c" where
  "read_through get put now key ttl answer c =
     (case get now c key of Some v \<Rightarrow> (v, c) | None \<Rightarrow> (answer, put now key answer ttl c))"

text \<open>The answers to queries at the times \<open>ts\<close>, when the query computed at time \<open>t\<close> is \<open>answer t\<close>.\<close>

fun reads ::
  "(timestamp \<Rightarrow> 'c \<Rightarrow> string \<Rightarrow> 'v option) \<Rightarrow> (timestamp \<Rightarrow> string \<Rightarrow> 'v \<Rightarrow> int \<Rightarrow> 'c \<Rightarrow> 'c) \<Rightarrow>
   string \<Rightarrow> int \<Rightarrow> (timestamp \<Rightarrow> 'v) \<Rightarrow> timestamp list \<Rightarrow> 'c \<Rightarrow> (timestamp \<times> 'v) list" where
  "reads get put key ttl answer [] c = []"
| "reads get put key ttl answer (t # ts) c =
     (let (v, c') = read_through get put t key ttl (answer t) c
      in (t, v) # reads get put key ttl answer ts c')"

text \<open>\<open>get now cache key\<close>, \<open>put now key value ttl cache\<close>, \<open>del key cache\<close>; times and time to live in
  milliseconds. What happens in the very millisecond in which a value expires is left open.\<close>

locale expiring_cache =
  fixes get :: "timestamp \<Rightarrow> 'c \<Rightarrow> string \<Rightarrow> 'v option"
    and put :: "timestamp \<Rightarrow> string \<Rightarrow> 'v \<Rightarrow> int \<Rightarrow> 'c \<Rightarrow> 'c"
    and del :: "string \<Rightarrow> 'c \<Rightarrow> 'c"
  assumes get_live: "t \<le> t' \<Longrightarrow> t' < t + ttl \<Longrightarrow> get t' (put t k v ttl c) k = Some v"
    and get_expired: "0 < ttl \<Longrightarrow> t + ttl < t' \<Longrightarrow> get t' (put t k v ttl c) k = None"
    and get_stored: "0 < ttl \<Longrightarrow> get t' (put t k v ttl c) k \<in> {None, Some v}"
    and get_other: "k' \<noteq> k \<Longrightarrow> get t' (put t k v ttl c) k' = get t' c k'"
    and get_del: "get t (del k c) k = None"
    and get_del_other: "k' \<noteq> k \<Longrightarrow> get t (del k c) k' = get t c k'"
begin

text \<open>A key is dead from \<open>d\<close> on when every later lookup misses.\<close>

definition dead_after :: "timestamp \<Rightarrow> string \<Rightarrow> 'c \<Rightarrow> bool" where
  "dead_after d k c \<longleftrightarrow> (\<forall>t. d < t \<longrightarrow> get t c k = None)"

lemma dead_after_put: "0 < ttl \<Longrightarrow> dead_after (t + ttl) k (put t k v ttl c)"
  by (simp add: dead_after_def get_expired)

lemma dead_after_put_other: "k' \<noteq> k \<Longrightarrow> dead_after d k' (put t k v ttl c) = dead_after d k' c"
  by (simp add: dead_after_def get_other)

text \<open>A cached answer is never older than its time to live.\<close>

lemma reads_recent:
  assumes "0 < ttl" "sorted ts"
    and "\<And>t v. start \<le> t \<Longrightarrow> get t c key = Some v \<Longrightarrow> \<exists>u. u \<le> start \<and> t - ttl \<le> u \<and> v = answer u"
    and "\<forall>u \<in> set ts. start \<le> u" "(t, v) \<in> set (reads get put key ttl answer ts c)"
  shows "\<exists>u. u \<le> t \<and> t - ttl \<le> u \<and> v = answer u"
  using assms(2-)
proof (induction ts arbitrary: c start)
  case (Cons s ts)
  show ?case
  proof (cases "get s c key")
    case None
    have stored: "\<exists>u. u \<le> s \<and> t - ttl \<le> u \<and> v = answer u"
      if "s \<le> t" "get t (put s key (answer s) ttl c) key = Some v" for t v
    proof -
      have "v = answer s" using get_stored[OF assms(1), of t s key "answer s" c] that(2) by auto
      moreover have "t - ttl \<le> s" using get_expired[OF assms(1), of s t key "answer s" c] that(2) by force
      ultimately show ?thesis by blast
    qed
    show ?thesis
    proof (cases "t = s \<and> v = answer s")
      case True
      with assms(1) show ?thesis by (intro exI[of _ s]) simp
    next
      case False
      with Cons.prems(4) None have "(t, v) \<in> set (reads get put key ttl answer ts (put s key (answer s) ttl c))"
        by (auto simp: read_through_def)
      with Cons.prems(1) stored show ?thesis by (intro Cons.IH[where start = s]) auto
    qed
  next
    case (Some w)
    with Cons.prems(4) consider "(t, v) = (s, w)" | "(t, v) \<in> set (reads get put key ttl answer ts c)"
      by (auto simp: read_through_def)
    then show ?thesis
    proof cases
      case 1
      have le: "start \<le> s" using Cons.prems(3) by simp
      then obtain u where "u \<le> start" "s - ttl \<le> u" "w = answer u" using Cons.prems(2)[OF _ Some] by blast
      with 1 le show ?thesis by (intro exI[of _ u]) simp
    next
      case 2
      with Cons.prems show ?thesis by (intro Cons.IH[where start = start and c = c]) auto
    qed
  qed
qed simp

lemma dead_after_mono: "dead_after d k c \<Longrightarrow> d \<le> d' \<Longrightarrow> dead_after d' k c"
  by (simp add: dead_after_def)

end

subsection \<open>A store with expiry times\<close>

type_synonym 'v ttl_store = "string \<Rightarrow> ('v \<times> timestamp) option"

definition ttl_get :: "timestamp \<Rightarrow> 'v ttl_store \<Rightarrow> string \<Rightarrow> 'v option" where
  "ttl_get now c k = (case c k of None \<Rightarrow> None | Some (v, expires) \<Rightarrow> if expires < now then None else Some v)"

definition ttl_put :: "timestamp \<Rightarrow> string \<Rightarrow> 'v \<Rightarrow> int \<Rightarrow> 'v ttl_store \<Rightarrow> 'v ttl_store" where
  "ttl_put now k v ttl c = c(k \<mapsto> (v, now + ttl))"

definition ttl_del :: "string \<Rightarrow> 'v ttl_store \<Rightarrow> 'v ttl_store" where
  "ttl_del k c = c(k := None)"

lemmas ttl_defs = ttl_get_def ttl_put_def ttl_del_def

interpretation ttl: expiring_cache ttl_get ttl_put ttl_del
  by unfold_locales (auto simp: ttl_defs)

end
