(* ===== verification/RateLimit.thy ===== *)
theory RateLimit
  imports Caching
begin

text \<open>
  The request limiter (\<open>rate-limit/user-rate-limit.service.ts\<close>, \<open>rate-limit/user-rate-limit.guard.ts\<close>,
  \<open>rate-limit/rate-limit.constants.ts\<close>): one counter per user or address in the shared cache. The
  cache operations are arguments; the lemmas are proved in the locale \<open>rate_limiter\<close> from the
  contract of the cache.
\<close>

datatype rate_role = RoleAdmin | RoleInstructor | RoleStudent | RoleGuest

record rate_config =
  rl_limit :: int
  rl_windowMs :: int

fun DEFAULT_RATE_LIMITS :: "rate_role \<Rightarrow> rate_config" where
  "DEFAULT_RATE_LIMITS RoleAdmin = \<lparr>rl_limit = 10000, rl_windowMs = 60000\<rparr>"
| "DEFAULT_RATE_LIMITS RoleInstructor = \<lparr>rl_limit = 5000, rl_windowMs = 60000\<rparr>"
| "DEFAULT_RATE_LIMITS RoleStudent = \<lparr>rl_limit = 1000, rl_windowMs = 60000\<rparr>"
| "DEFAULT_RATE_LIMITS RoleGuest = \<lparr>rl_limit = 100, rl_windowMs = 60000\<rparr>"

text \<open>A partial configuration: a given field replaces the default.\<close>

record rate_override =
  ro_limit :: "int option"
  ro_windowMs :: "int option"

definition AUTH_RATE_LIMIT :: rate_override where
  "AUTH_RATE_LIMIT = \<lparr>ro_limit = Some 20, ro_windowMs = Some 60000\<rparr>"

definition rate_config_for :: "rate_role \<Rightarrow> rate_override \<Rightarrow> rate_config" where
  "rate_config_for role o1 =
     \<lparr>rl_limit = (case ro_limit o1 of None \<Rightarrow> rl_limit (DEFAULT_RATE_LIMITS role) | Some l \<Rightarrow> l),
      rl_windowMs = (case ro_windowMs o1 of None \<Rightarrow> rl_windowMs (DEFAULT_RATE_LIMITS role) | Some w \<Rightarrow> w)\<rparr>"

text \<open>\<open>userId || ip\<close>: a missing and an empty user id are the same.\<close>

definition string_or :: "string option \<Rightarrow> string \<Rightarrow> string" where
  "string_or u ip = (case u of None \<Rightarrow> ip | Some s \<Rightarrow> if s = [] then ip else s)"

definition roleKey :: "string \<Rightarrow> string \<Rightarrow> string" where
  "roleKey userId ip = ''rate-limit:'' @ string_or (Some userId) ip"

definition checkRateLimit ::
  "(timestamp \<Rightarrow> 'c \<Rightarrow> string \<Rightarrow> nat option) \<Rightarrow> (timestamp \<Rightarrow> string \<Rightarrow> nat \<Rightarrow> int \<Rightarrow> 'c \<Rightarrow> 'c) \<Rightarrow>
   timestamp \<Rightarrow> string option \<Rightarrow> string \<Rightarrow> rate_role \<Rightarrow> rate_override \<Rightarrow> 'c \<Rightarrow> bool \<times> 'c" where
  "checkRateLimit get put now userId ip role override c =
     (let config = rate_config_for role override;
          key = roleKey (string_or userId ip) ip;
          count = (case get now c key of None \<Rightarrow> 0 | Some n \<Rightarrow> n) + 1
      in if rl_limit config < int count then (False, c)
         else (True, put now key count (rl_windowMs config) c))"

record rate_status =
  rt_limit :: int
  rt_current :: nat
  rt_remaining :: int
  rt_resetTime :: timestamp

definition getRateLimitStatus ::
  "(timestamp \<Rightarrow> 'c \<Rightarrow> string \<Rightarrow> nat option) \<Rightarrow>
   timestamp \<Rightarrow> string option \<Rightarrow> string \<Rightarrow> rate_role \<Rightarrow> rate_override \<Rightarrow> 'c \<Rightarrow> rate_status" where
  "getRateLimitStatus get now userId ip role override c =
     (let config = rate_config_for role override;
          key = roleKey (string_or userId ip) ip;
          count = (case get now c key of None \<Rightarrow> 0 | Some n \<Rightarrow> n)
      in \<lparr>rt_limit = rl_limit config, rt_current = count, rt_remaining = max 0 (rl_limit config - int count),
          rt_resetTime = now + rl_windowMs config\<rparr>)"

definition resetUserLimit :: "(string \<Rightarrow> 'c \<Rightarrow> 'c) \<Rightarrow> string \<Rightarrow> 'c \<Rightarrow> 'c" where
  "resetUserLimit del userId c = del (''rate-limit:'' @ userId) c"

definition resolveRole :: "string option \<Rightarrow> bool \<Rightarrow> rate_role" where
  "resolveRole userRole authenticated =
     (if \<not> authenticated then RoleGuest
      else (let normalized = toLowerCase (string_or userRole ''student'')
            in if normalized = ''admin'' then RoleAdmin
               else if normalized = ''instructor'' then RoleInstructor
               else RoleStudent))"

subsection \<open>The guard\<close>

text \<open>A request as the guard sees it: its time, the user and role the authentication left on it, the
  address, and the limit declared on the route. Result: the status for the headers, and whether the
  request may pass.\<close>

record rate_request =
  rq_time :: timestamp
  rq_userId :: "string option"
  rq_userRole :: "string option"
  rq_ip :: string
  rq_override :: rate_override

definition request_role :: "rate_request \<Rightarrow> rate_role" where
  "request_role r = resolveRole (rq_userRole r) (\<not> (case rq_userId r of None \<Rightarrow> True | Some u \<Rightarrow> u = []))"

definition request_config :: "rate_request \<Rightarrow> rate_config" where
  "request_config r = rate_config_for (request_role r) (rq_override r)"

definition request_key :: "rate_request \<Rightarrow> string" where
  "request_key r = roleKey (string_or (rq_userId r) (rq_ip r)) (rq_ip r)"

definition rate_guard ::
  "(timestamp \<Rightarrow> 'c \<Rightarrow> string \<Rightarrow> nat option) \<Rightarrow> (timestamp \<Rightarrow> string \<Rightarrow> nat \<Rightarrow> int \<Rightarrow> 'c \<Rightarrow> 'c) \<Rightarrow>
   rate_request \<Rightarrow> 'c \<Rightarrow> (rate_status \<times> (http_error + bool)) \<times> 'c" where
  "rate_guard get put r c =
     (let (allowed, c') = checkRateLimit get put (rq_time r) (rq_userId r) (rq_ip r) (request_role r) (rq_override r) c;
          status = getRateLimitStatus get (rq_time r) (rq_userId r) (rq_ip r) (request_role r) (rq_override r) c'
      in ((status, if \<not> allowed then Inl (TooManyRequests ''Rate limit exceeded. Please slow down your requests.'')
                   else Inr True), c'))"

definition passes :: "(rate_status \<times> (http_error + bool)) \<times> 'c \<Rightarrow> bool" where
  "passes x = (snd (fst x) = Inr True)"

text \<open>The requests of a history that passed, and the cache it leaves.\<close>

fun accepted ::
  "(timestamp \<Rightarrow> 'c \<Rightarrow> string \<Rightarrow> nat option) \<Rightarrow> (timestamp \<Rightarrow> string \<Rightarrow> nat \<Rightarrow> int \<Rightarrow> 'c \<Rightarrow> 'c) \<Rightarrow>
   rate_request list \<Rightarrow> 'c \<Rightarrow> rate_request list" where
  "accepted get put [] c = []"
| "accepted get put (r # rs) c =
     (if passes (rate_guard get put r c) then [r] else []) @ accepted get put rs (snd (rate_guard get put r c))"

definition cache_after ::
  "(timestamp \<Rightarrow> 'c \<Rightarrow> string \<Rightarrow> nat option) \<Rightarrow> (timestamp \<Rightarrow> string \<Rightarrow> nat \<Rightarrow> int \<Rightarrow> 'c \<Rightarrow> 'c) \<Rightarrow>
   rate_request list \<Rightarrow> 'c \<Rightarrow> 'c" where
  "cache_after get put rs c = run_ops (rate_guard get put) rs c"

lemma rate_guard_eq:
  "passes (rate_guard get put r c) \<longleftrightarrow>
     int (case get (rq_time r) c (request_key r) of None \<Rightarrow> 0 | Some n \<Rightarrow> n) + 1 \<le> rl_limit (request_config r)"
  "snd (rate_guard get put r c) =
     (if passes (rate_guard get put r c)
      then put (rq_time r) (request_key r) ((case get (rq_time r) c (request_key r) of None \<Rightarrow> 0 | Some n \<Rightarrow> n) + 1)
             (rl_windowMs (request_config r)) c
      else c)"
  by (auto simp: rate_guard_def passes_def checkRateLimit_def request_config_def request_key_def Let_def
      split: prod.splits option.splits if_splits)

lemma accepted_append:
  "accepted get put (xs @ ys) c = accepted get put xs c @ accepted get put ys (cache_after get put xs c)"
  by (induction xs arbitrary: c) (simp_all add: cache_after_def)

subsection \<open>The counter over a history\<close>

locale rate_limiter = expiring_cache get put del
  for get :: "timestamp \<Rightarrow> 'c \<Rightarrow> string \<Rightarrow> nat option" and put :: "timestamp \<Rightarrow> string \<Rightarrow> nat \<Rightarrow> int \<Rightarrow> 'c \<Rightarrow> 'c"
    and del :: "string \<Rightarrow> 'c \<Rightarrow> 'c"
begin

lemma guard_other: "request_key r \<noteq> k \<Longrightarrow> get t (snd (rate_guard get put r c)) k = get t c k"
  by (simp add: rate_guard_eq get_other)

text \<open>While the counter of a key stands at \<open>v\<close> until \<open>b\<close>, at most \<open>limit - v\<close> more requests pass before \<open>b\<close>.\<close>

lemma accepted_counted:
  assumes "sorted (map rq_time rs)" "\<forall>r \<in> set rs. a \<le> rq_time r \<and> rq_time r < b"
    and "\<forall>r \<in> set rs. request_key r = k \<longrightarrow> rl_limit (request_config r) = L \<and> b \<le> rq_time r + rl_windowMs (request_config r)"
    and "\<And>t. a \<le> t \<Longrightarrow> t < b \<Longrightarrow> get t c k = Some v" "int v \<le> L"
  shows "int (length (filter (\<lambda>r. request_key r = k) (accepted get put rs c))) \<le> L - int v"
  using assms
proof (induction rs arbitrary: a c v)
  case (Cons r rs)
  let ?c = "snd (rate_guard get put r c)"
  show ?case
  proof (cases "request_key r = k \<and> passes (rate_guard get put r c)")
    case True
    have v: "get (rq_time r) c k = Some v" using Cons.prems(2,4) by simp
    with True Cons.prems(3) have lim: "int (Suc v) \<le> L" by (auto simp: rate_guard_eq)
    have "?c = put (rq_time r) k (Suc v) (rl_windowMs (request_config r)) c"
      using True v by (simp add: rate_guard_eq(2))
    then have "get t ?c k = Some (Suc v)" if "rq_time r \<le> t" "t < b" for t
      using that True Cons.prems(3) by (auto intro!: get_live)
    then have "int (length (filter (\<lambda>r. request_key r = k) (accepted get put rs ?c))) \<le> L - int (Suc v)"
      using Cons.prems(1-3) lim by (intro Cons.IH[where a = "rq_time r"]) auto
    with True show ?thesis by simp
  next
    case False
    have "get t ?c k = get t c k" for t
      using False guard_other by (cases "request_key r = k") (auto simp: rate_guard_eq(2))
    then have "int (length (filter (\<lambda>r. request_key r = k) (accepted get put rs ?c))) \<le> L - int v"
      using Cons.prems by (intro Cons.IH[where a = a]) auto
    with False show ?thesis by auto
  qed
qed simp

lemma accepted_in_window:
  assumes "sorted (map rq_time rs)" "\<forall>r \<in> set rs. t0 \<le> rq_time r \<and> rq_time r < t0 + W"
    and "\<forall>r \<in> set rs. request_key r = k \<longrightarrow> rl_limit (request_config r) = L \<and> rl_windowMs (request_config r) = W"
    and "0 \<le> L"
  shows "int (length (filter (\<lambda>r. request_key r = k) (accepted get put rs c))) \<le> L"
  using assms(1-3)
proof (induction rs arbitrary: c)
  case (Cons r rs)
  let ?c = "snd (rate_guard get put r c)"
  show ?case
  proof (cases "request_key r = k \<and> passes (rate_guard get put r c)")
    case True
    obtain v where v: "?c = put (rq_time r) k (Suc v) W c" "int (Suc v) \<le> L"
      using True Cons.prems(3) by (auto simp: rate_guard_eq split: option.splits)
    have "int (length (filter (\<lambda>r. request_key r = k) (accepted get put rs ?c))) \<le> L - int (Suc v)"
      using Cons.prems v(2)
      by (intro accepted_counted[where a = "rq_time r" and b = "t0 + W"]) (fastforce simp: v(1) intro: get_live)+
    with True show ?thesis by simp
  next
    case False
    with Cons.prems have "int (length (filter (\<lambda>r. request_key r = k) (accepted get put rs ?c))) \<le> L"
      by (intro Cons.IH) auto
    with False show ?thesis by auto
  qed
qed (simp add: assms(4))

lemma dead_after_history:
  assumes "dead_after d k c"
    and "\<forall>r \<in> set rs. request_key r = k \<longrightarrow> 0 < rl_windowMs (request_config r)"
    and "\<forall>r \<in> set (accepted get put rs c). request_key r = k \<longrightarrow> rq_time r + rl_windowMs (request_config r) \<le> d"
  shows "dead_after d k (cache_after get put rs c)"
  using assms unfolding cache_after_def
proof (induction rs arbitrary: c)
  case (Cons r rs)
  have "dead_after d k (snd (rate_guard get put r c))"
  proof (cases "request_key r = k \<and> passes (rate_guard get put r c)")
    case True
    with Cons.prems show ?thesis
      by (simp add: rate_guard_eq(2)) (auto intro: dead_after_mono dead_after_put)
  next
    case False
    with Cons.prems(1) show ?thesis
      using guard_other by (cases "request_key r = k") (auto simp: rate_guard_eq(2) dead_after_def)
  qed
  with Cons show ?case by simp
qed simp

text \<open>Every request that passes pushes the end of the window on: a client that keeps coming within the
  window is counted from its very first request.\<close>

lemma steady_counter:
  assumes "rl_windowMs (request_config r) = W" "0 < d" "d < W"
    and "get (rq_time r) c (request_key r) = (if n = 0 then None else Some n)" "int n + int m \<le> rl_limit (request_config r)"
  shows "accepted get put (map (\<lambda>i. r\<lparr>rq_time := rq_time r + d * int i\<rparr>) [0..<m]) c
       = map (\<lambda>i. r\<lparr>rq_time := rq_time r + d * int i\<rparr>) [0..<m] \<and>
     get (rq_time r + d * int m) (cache_after get put (map (\<lambda>i. r\<lparr>rq_time := rq_time r + d * int i\<rparr>) [0..<m]) c) (request_key r)
       = (if n + m = 0 then None else Some (n + m))"
proof -
  let ?r = "\<lambda>i. r\<lparr>rq_time := rq_time r + d * int i\<rparr>"
  have same: "request_key (?r i) = request_key r" "request_config (?r i) = request_config r" for i
    by (simp_all add: request_key_def request_config_def request_role_def)
  show ?thesis
    using assms(5)
  proof (induction m)
    case 0
    with assms(4) show ?case by (simp add: cache_after_def)
  next
    case (Suc m)
    let ?c = "cache_after get put (map ?r [0..<m]) c"
    have IH: "accepted get put (map ?r [0..<m]) c = map ?r [0..<m]"
      "get (rq_time (?r m)) ?c (request_key r) = (if n + m = 0 then None else Some (n + m))"
      using Suc by simp_all
    have pass: "passes (rate_guard get put (?r m) ?c)"
      using IH(2) Suc.prems by (simp add: rate_guard_eq(1) same)
    have after: "snd (rate_guard get put (?r m) ?c) = put (rq_time (?r m)) (request_key r) (Suc (n + m)) W ?c"
      using pass IH(2) by (simp add: rate_guard_eq(2) same assms(1))
    have "get (rq_time r + d * int (Suc m)) (put (rq_time (?r m)) (request_key r) (Suc (n + m)) W ?c) (request_key r) = Some (Suc (n + m))"
      using assms(2,3) by (intro get_live) (simp_all add: algebra_simps)
    then show ?case
      using IH(1) pass after by (simp add: accepted_append cache_after_def run_ops_append)
  qed
qed

end

interpretation rate_ttl: rate_limiter "ttl_get :: timestamp \<Rightarrow> nat ttl_store \<Rightarrow> _" ttl_put ttl_del
  by unfold_locales

subsection \<open>Properties\<close>


definition guest_request :: "timestamp \<Rightarrow> rate_request" where
  "guest_request t = \<lparr>rq_time = t, rq_userId = None, rq_userRole = None, rq_ip = ''10.0.0.1'',
     rq_override = \<lparr>ro_limit = Some 2, ro_windowMs = Some 1000\<rparr>\<rparr>"


text \<open>C22: Nobody stays locked out: if all that passed under a key before, and all the cache held for it
  at the start, has run out of its window by \<open>d\<close>, then the next request under the key after \<open>d\<close>
  passes, however many requests were refused in the meantime.\<close>

theorem rate_limit_recovers:
  assumes "expiring_cache get put del"
    and "\<forall>t. d < t \<longrightarrow> get t c (request_key q) = None"
    and "\<forall>r \<in> set rs. request_key r = request_key q \<longrightarrow> 0 < rl_windowMs (request_config r)"
    and "\<forall>r \<in> set (accepted get put rs c). request_key r = request_key q \<longrightarrow> rq_time r + rl_windowMs (request_config r) \<le> d"
    and "d < rq_time q" "1 \<le> rl_limit (request_config q)"
  shows "passes (rate_guard get put q (cache_after get put rs c))"
proof -
  have l: "rate_limiter get put del" by (rule rate_limiter.intro[OF assms(1)])
  have "expiring_cache.dead_after get d (request_key q) (cache_after get put rs c)"
    by (rule rate_limiter.dead_after_history[OF l _ assms(3,4)])
      (simp add: expiring_cache.dead_after_def[OF assms(1)] assms(2))
  with assms(5,6) show ?thesis
    by (simp add: rate_guard_eq(1) expiring_cache.dead_after_def[OF assms(1)])
qed

theorem rate_limit_recovers_witness:
  "passes (rate_guard ttl_get ttl_put (guest_request 1100)
     (cache_after ttl_get ttl_put (map guest_request [5, 6, 7, 900]) Map.empty))"
  using rate_limit_recovers[OF ttl.expiring_cache_axioms, of 1006 Map.empty "guest_request 1100" "map guest_request [5, 6, 7, 900]"]
  by (simp add: guest_request_def request_config_def rate_config_for_def rate_guard_eq request_key_def roleKey_def string_or_def ttl_defs)

text \<open>The window is not a fixed one: each request that passes restarts it. A client that sends one
  request every \<open>d < W\<close> milliseconds, at however low a rate, is refused at its request number
  \<open>L + 1\<close>, long after the first of the counted requests has left the window.\<close>

theorem rate_limit_slides:
  assumes "expiring_cache get put del"
    and "rl_windowMs (request_config q) = W" "0 < d" "d < W" "rl_limit (request_config q) = int L" "0 < L"
    and "get (rq_time q) c (request_key q) = None"
  shows "accepted get put (map (\<lambda>i. q\<lparr>rq_time := rq_time q + d * int i\<rparr>) [0..<Suc L]) c
     = map (\<lambda>i. q\<lparr>rq_time := rq_time q + d * int i\<rparr>) [0..<L]"
proof -
  let ?r = "\<lambda>i. q\<lparr>rq_time := rq_time q + d * int i\<rparr>"
  have l: "rate_limiter get put del" by (rule rate_limiter.intro[OF assms(1)])
  note steady = rate_limiter.steady_counter[OF l assms(2-4), where c = c and n = 0 and m = L]
  have "\<not> passes (rate_guard get put (?r L) (cache_after get put (map ?r [0..<L]) c))"
    using steady assms(5-7) by (simp add: rate_guard_eq(1) request_key_def request_config_def request_role_def)
  then show ?thesis using steady assms(5-7) by (simp add: accepted_append)
qed

theorem rate_limit_slides_witness:
  "length (accepted ttl_get ttl_put (map (\<lambda>i. (guest_request 0)\<lparr>rq_time := 999 * int i\<rparr>) [0..<3]) Map.empty) = 2"
  using rate_limit_slides[OF ttl.expiring_cache_axioms, of "guest_request 0" 1000 999 2 Map.empty]
  by (simp add: guest_request_def request_config_def rate_config_for_def ttl_defs numeral_eq_Suc)

end
