(* ===== verification/Js_Sort.thy ===== *)
theory Js_Sort
  imports Js_Number
begin

text \<open>
  \<open>Array.prototype.sort\<close> with a comparison function, as stable insertion sort: for a consistent
  comparison (the locale \<open>comparator\<close>) the language fixes the result to this one.
\<close>

fun js_insert :: "('a \<Rightarrow> 'a \<Rightarrow> rat) \<Rightarrow> 'a \<Rightarrow> 'a list \<Rightarrow> 'a list" where
  "js_insert cmp x [] = [x]"
| "js_insert cmp x (y # ys) = (if cmp x y \<le> 0 then x # y # ys else y # js_insert cmp x ys)"

definition js_sort :: "('a \<Rightarrow> 'a \<Rightarrow> rat) \<Rightarrow> 'a list \<Rightarrow> 'a list" where
  "js_sort cmp xs = foldr (js_insert cmp) xs []"

lemma set_js_insert: "set (js_insert cmp x ys) = insert x (set ys)"
  by (induction ys) auto

lemma set_js_sort [simp]: "set (js_sort cmp xs) = set xs"
  by (induction xs) (simp_all add: js_sort_def set_js_insert)

lemma length_js_insert [simp]: "length (js_insert cmp x ys) = Suc (length ys)"
  by (induction ys) auto

lemma length_js_sort [simp]: "length (js_sort cmp xs) = length xs"
  by (induction xs) (simp_all add: js_sort_def)

lemma distinct_js_insert:
  "f x \<notin> f ` set ys \<Longrightarrow> distinct (map f ys) \<Longrightarrow> distinct (map f (js_insert cmp x ys))"
  by (induction ys) (auto simp: set_js_insert)

lemma distinct_js_sort: "distinct (map f xs) \<Longrightarrow> distinct (map f (js_sort cmp xs))"
proof (induction xs)
  case (Cons x xs)
  then have "distinct (map f (js_insert cmp x (js_sort cmp xs)))"
    by (intro distinct_js_insert) simp_all
  then show ?case by (simp add: js_sort_def)
qed (simp add: js_sort_def)

locale comparator =
  fixes cmp :: "'a \<Rightarrow> 'a \<Rightarrow> rat"
  assumes cmp_total: "cmp x y \<le> 0 \<or> cmp y x \<le> 0"
    and cmp_trans: "cmp x y \<le> 0 \<Longrightarrow> cmp y z \<le> 0 \<Longrightarrow> cmp x z \<le> 0"
begin

lemma sorted_js_insert:
  assumes "sorted_wrt (\<lambda>a b. cmp a b \<le> 0) ys"
  shows "sorted_wrt (\<lambda>a b. cmp a b \<le> 0) (js_insert cmp x ys)"
  using assms
proof (induction ys)
  case (Cons y ys)
  then show ?case
    using cmp_total[of x y] cmp_trans[of x y] by (auto simp: set_js_insert)
qed simp

lemma sorted_js_sort: "sorted_wrt (\<lambda>a b. cmp a b \<le> 0) (js_sort cmp xs)"
  by (induction xs) (simp_all add: js_sort_def sorted_js_insert)

end

text \<open>The first \<open>n\<close> of a sorted list: nothing left out comes before anything listed.\<close>

lemma sorted_take_rest:
  assumes "sorted_wrt R xs" "x \<in> set xs" "x \<notin> set (take n xs)"
  shows "length (take n xs) = n \<and> (\<forall>y \<in> set (take n xs). R y x)"
proof -
  have "x \<in> set (take n xs @ drop n xs)" using assms(2) by simp
  with assms(3) have x: "x \<in> set (drop n xs)" by (simp only: set_append Un_iff) simp
  then have "n < length xs" by (cases "n < length xs") auto
  moreover have "sorted_wrt R (take n xs @ drop n xs)" using assms(1) by simp
  ultimately show ?thesis using x by (auto simp only: sorted_wrt_append length_take)
qed

text \<open>Comparison by a number, descending: \<open>(a, b) => f(b) - f(a)\<close>.\<close>

definition by_desc :: "('a \<Rightarrow> rat) \<Rightarrow> 'a \<Rightarrow> 'a \<Rightarrow> rat" where
  "by_desc f a b = f b - f a"

interpretation by_desc: comparator "by_desc f" for f :: "'a \<Rightarrow> rat"
  by unfold_locales (auto simp: by_desc_def)

end
