(* ===== verification/Leaderboard.thy ===== *)
theory Leaderboard
  imports Entities Caching Js_Sort
begin

text \<open>
  The leaderboards (\<open>leaderboard/leaderboard.service.ts\<close>): the wallets with the highest token
  balance and the users with the longest current streak, both cached for a minute. The balance
  query, the collation of \<open>localeCompare\<close> and the cache are arguments.
\<close>

record leaderboard_entry =
  lb_userId :: uuid
  lb_username :: "string option"
  lb_email :: string
  lb_stellarPublicKey :: string
  lb_balance :: string

text \<open>\<open>BigInt(s)\<close> on decimal strings: \<open>None\<close> is a SyntaxError. Hexadecimal, octal and binary literals,
  which a balance never is, are left out.\<close>

definition js_BigInt :: "string \<Rightarrow> int option" where
  "js_BigInt s =
     (let t = js_trim s in
      if t = [] then Some 0
      else if list_all is_digit t then Some (int (digits_value t))
      else if hd t = CHR ''-'' \<and> tl t \<noteq> [] \<and> list_all is_digit (tl t) then Some (- int (digits_value (tl t)))
      else if hd t = CHR ''+'' \<and> tl t \<noteq> [] \<and> list_all is_digit (tl t) then Some (int (digits_value (tl t)))
      else None)"

definition wallet_users :: "core \<Rightarrow> (user \<times> string) list" where
  "wallet_users s =
     concat (map (\<lambda>u. case u_stellarPublicKey u of
                        None \<Rightarrow> []
                      | Some k \<Rightarrow> if k \<noteq> [] \<and> u_deletedAt u = None then [(u, k)] else [])
       (order_by_desc u_createdAt (users s)))"

text \<open>\<open>balance\<close>: \<open>None\<close> when the query throws.\<close>

definition balance_entry :: "(string \<Rightarrow> string option) \<Rightarrow> user \<times> string \<Rightarrow> leaderboard_entry" where
  "balance_entry balance = (\<lambda>(u, k).
     \<lparr>lb_userId = u_id u, lb_username = u_username u, lb_email = u_email u, lb_stellarPublicKey = k,
      lb_balance = (case balance k of None \<Rightarrow> ''0'' | Some b \<Rightarrow> b)\<rparr>)"

definition entry_value :: "leaderboard_entry \<Rightarrow> int" where
  "entry_value e = (case js_BigInt (lb_balance e) of None \<Rightarrow> 0 | Some i \<Rightarrow> i)"

definition leaderboard_cmp :: "(string \<Rightarrow> string \<Rightarrow> rat) \<Rightarrow> leaderboard_entry \<Rightarrow> leaderboard_entry \<Rightarrow> rat" where
  "leaderboard_cmp localeCompare a b =
     (let left = entry_value a; right = entry_value b
      in if left = right then localeCompare (lb_email a) (lb_email b) else if left < right then 1 else - 1)"

text \<open>The comparison parses both balances, so sorting two entries or more throws when one is not an
  integer.\<close>

definition top_users ::
  "(string \<Rightarrow> string option) \<Rightarrow> (string \<Rightarrow> string \<Rightarrow> rat) \<Rightarrow> core \<Rightarrow> http_error + leaderboard_entry list" where
  "top_users balance localeCompare s =
     (let es = map (balance_entry balance) (wallet_users s)
      in if 2 \<le> length es \<and> (\<exists>e \<in> set es. js_BigInt (lb_balance e) = None)
         then Inl (JsError ''SyntaxError'')
         else Inr (take 50 (js_sort (leaderboard_cmp localeCompare) es)))"

definition getTopUsers ::
  "(timestamp \<Rightarrow> 'c \<Rightarrow> string \<Rightarrow> leaderboard_entry list option) \<Rightarrow>
   (timestamp \<Rightarrow> string \<Rightarrow> leaderboard_entry list \<Rightarrow> int \<Rightarrow> 'c \<Rightarrow> 'c) \<Rightarrow>
   (string \<Rightarrow> string option) \<Rightarrow> (string \<Rightarrow> string \<Rightarrow> rat) \<Rightarrow> timestamp \<Rightarrow> core \<Rightarrow> 'c
   \<Rightarrow> (http_error + leaderboard_entry list) \<times> 'c" where
  "getTopUsers get put balance localeCompare now s c =
     (case get now c ''leaderboard:top50'' of
        Some es \<Rightarrow> (Inr es, c)
      | None \<Rightarrow>
          (case top_users balance localeCompare s of
             Inl e \<Rightarrow> (Inl e, c)
           | Inr es \<Rightarrow> (Inr es, put now ''leaderboard:top50'' es 60000 c)))"

subsection \<open>Streaks\<close>

record streak_entry =
  se_rank :: nat
  se_userId :: uuid
  se_username :: "string option"
  se_currentStreak :: int
  se_longestStreak :: int
  se_lastActivityAt :: "timestamp option"

text \<open>\<open>ORDER BY lastActivityAt DESC\<close> puts missing dates first; sorting is stable, so the least
  significant column is sorted first.\<close>

definition by_last_activity :: "user list \<Rightarrow> user list" where
  "by_last_activity us =
     filter (\<lambda>u. u_lastActivityAt u = None) us @
     order_by_desc (\<lambda>u. case u_lastActivityAt u of None \<Rightarrow> 0 | Some t \<Rightarrow> t) (filter (\<lambda>u. u_lastActivityAt u \<noteq> None) us)"

definition streak_users :: "core \<Rightarrow> user list" where
  "streak_users s =
     take 50 (order_by_desc u_currentStreak (order_by_desc u_longestStreak (by_last_activity
       (filter (\<lambda>u. 0 < u_currentStreak u \<and> u_deletedAt u = None) (users s)))))"

definition streak_leaderboard :: "core \<Rightarrow> streak_entry list" where
  "streak_leaderboard s =
     map (\<lambda>(i, u). \<lparr>se_rank = i + 1, se_userId = u_id u, se_username = u_username u,
                    se_currentStreak = u_currentStreak u, se_longestStreak = u_longestStreak u,
                    se_lastActivityAt = u_lastActivityAt u\<rparr>)
       (enumerate 0 (streak_users s))"

definition getStreakLeaderboard ::
  "(timestamp \<Rightarrow> 'c \<Rightarrow> string \<Rightarrow> streak_entry list option) \<Rightarrow> (timestamp \<Rightarrow> string \<Rightarrow> streak_entry list \<Rightarrow> int \<Rightarrow> 'c \<Rightarrow> 'c) \<Rightarrow>
   timestamp \<Rightarrow> core \<Rightarrow> 'c \<Rightarrow> streak_entry list \<times> 'c" where
  "getStreakLeaderboard get put now s c =
     read_through get put now ''leaderboard:streaks:top50'' 60000 (streak_leaderboard s) c"

subsection \<open>The order of the entries\<close>

lemma leaderboard_comparator:
  assumes "comparator localeCompare"
  shows "comparator (leaderboard_cmp localeCompare)"
proof
  show "leaderboard_cmp localeCompare x y \<le> 0 \<or> leaderboard_cmp localeCompare y x \<le> 0" for x y
    using comparator.cmp_total[OF assms] by (simp add: leaderboard_cmp_def Let_def)
  show "leaderboard_cmp localeCompare x z \<le> 0"
    if "leaderboard_cmp localeCompare x y \<le> 0" "leaderboard_cmp localeCompare y z \<le> 0" for x y z
    using that comparator.cmp_trans[OF assms, of "lb_email x" "lb_email y" "lb_email z"]
    by (auto simp: leaderboard_cmp_def Let_def split: if_splits)
qed

lemma leaderboard_cmp_value: "leaderboard_cmp localeCompare a b \<le> 0 \<Longrightarrow> entry_value b \<le> entry_value a"
  by (auto simp: leaderboard_cmp_def Let_def split: if_splits)

lemma wallet_users_mem:
  "(u, k) \<in> set (wallet_users s) \<longleftrightarrow>
     u \<in> set (users s) \<and> u_stellarPublicKey u = Some k \<and> k \<noteq> [] \<and> u_deletedAt u = None"
  by (auto simp: wallet_users_def split: option.splits if_splits)

lemma streak_users_sorted:
  "sorted_wrt (\<lambda>a b. u_currentStreak b < u_currentStreak a \<or>
      u_currentStreak b = u_currentStreak a \<and> u_longestStreak b \<le> u_longestStreak a)
     (order_by_desc u_currentStreak (order_by_desc u_longestStreak us))"
proof -
  have "sorted_wrt (\<lambda>a b. u_longestStreak b \<le> u_longestStreak a) (order_by_desc u_longestStreak us)"
    using sorted_order_by_desc[of u_longestStreak us] by (simp add: sorted_map)
  then show ?thesis by (rule order_by_desc_stable)
qed

lemma streak_users_ranked:
  "sorted_wrt (\<lambda>a b. u_currentStreak b < u_currentStreak a \<or>
      u_currentStreak b = u_currentStreak a \<and> u_longestStreak b \<le> u_longestStreak a) (streak_users s)"
  unfolding streak_users_def by (rule sorted_wrt_take[OF streak_users_sorted])

subsection \<open>Properties\<close>

text \<open>A leaderboard that is computed lists at most 50 users, all of them with a wallet and not
  deleted, in descending order of their balance, and no such user that is left out has a higher
  balance than anyone listed.\<close>

theorem leaderboard_ranks:
  assumes "comparator localeCompare" "top_users balance localeCompare s = Inr es"
  shows "length es \<le> 50 \<and> sorted_wrt (\<lambda>a b. entry_value b \<le> entry_value a) es \<and>
     set es \<subseteq> balance_entry balance ` set (wallet_users s) \<and>
     (\<forall>e \<in> balance_entry balance ` set (wallet_users s) - set es. length es = 50 \<and> (\<forall>l \<in> set es. entry_value e \<le> entry_value l))"
proof -
  let ?all = "map (balance_entry balance) (wallet_users s)"
  note c = leaderboard_comparator[OF assms(1)]
  have es: "es = take 50 (js_sort (leaderboard_cmp localeCompare) ?all)"
    using assms(2) by (simp add: top_users_def Let_def split: if_splits)
  have "sorted_wrt (\<lambda>a b. entry_value b \<le> entry_value a) (js_sort (leaderboard_cmp localeCompare) ?all)"
    using comparator.sorted_js_sort[OF c] leaderboard_cmp_value by (rule sorted_wrt_mono_rel[rotated])
  note sorted = this and rest = sorted_take_rest[OF this, where n = 50]
  have "set es \<subseteq> balance_entry balance ` set (wallet_users s)"
    unfolding es using set_take_subset[of 50 "js_sort (leaderboard_cmp localeCompare) ?all"] by simp
  with sorted rest show ?thesis unfolding es by (auto intro: sorted_wrt_take)
qed

lemma code_compare: "comparator (\<lambda>_ _. 0)"
  by unfold_locales simp_all

interpretation plain_board: comparator "leaderboard_cmp (\<lambda>_ _. 0)"
  by (rule leaderboard_comparator[OF code_compare])

definition two_wallets :: core where
  "two_wallets = empty_core\<lparr>users := [(new_user 10 ''a'')\<lparr>u_stellarPublicKey := Some ''G1''\<rparr>,
     (new_user 11 ''b'')\<lparr>u_stellarPublicKey := Some ''G2'', u_currentStreak := 3\<rparr>, new_user 12 ''c'']\<rparr>"

theorem leaderboard_ranks_witness:
  "\<exists>es. top_users (\<lambda>_. None) (\<lambda>_ _. 0) two_wallets = Inr es \<and> length es \<le> 50"
proof -
  obtain es where es: "top_users (\<lambda>_. None) (\<lambda>_ _. 0) two_wallets = Inr es"
    by (simp add: top_users_def two_wallets_def wallet_users_def order_by_desc_def new_user_def balance_entry_def
        js_BigInt_def js_trim_def is_space_def is_digit_def empty_core_def Let_def)
  with leaderboard_ranks[OF code_compare this] show ?thesis by blast
qed

text \<open>Every answer of the streak leaderboard is the true ranking of a moment at most a minute back:
  at most 50 users with a running streak, ranked from 1 on by current and then by longest streak.\<close>

theorem streak_board_recent:
  assumes "expiring_cache get put del" "sorted ts"
    and "\<forall>t. get t c ''leaderboard:streaks:top50'' = None"
    and "(t, es) \<in> set (reads get put ''leaderboard:streaks:top50'' 60000 (\<lambda>t. streak_leaderboard (db t)) ts c)"
  shows "\<exists>u. u \<le> t \<and> t - 60000 \<le> u \<and> es = streak_leaderboard (db u) \<and>
     map se_rank es = [1..<Suc (length es)] \<and> length es \<le> 50 \<and>
     sorted_wrt (\<lambda>a b. se_currentStreak b < se_currentStreak a \<or>
        se_currentStreak b = se_currentStreak a \<and> se_longestStreak b \<le> se_longestStreak a) es"
proof -
  from assms(4) have "\<exists>u. u \<le> t \<and> t - 60000 \<le> u \<and> es = streak_leaderboard (db u)"
    by (rule expiring_cache.reads_recent[OF assms(1) _ assms(2), where start = "if ts = [] then 0 else hd ts", rotated -1])
      (use assms(2,3) in \<open>auto simp: neq_Nil_conv\<close>)
  moreover have "map se_rank (streak_leaderboard s) = [1..<Suc (length (streak_leaderboard s))]" for s
    by (rule nth_equalityI) (simp_all add: streak_leaderboard_def nth_enumerate_eq del: upt_Suc)
  moreover have "length (streak_leaderboard s) \<le> 50" for s
    by (simp add: streak_leaderboard_def streak_users_def)
  moreover have "sorted_wrt (\<lambda>a b. se_currentStreak b < se_currentStreak a \<or>
        se_currentStreak b = se_currentStreak a \<and> se_longestStreak b \<le> se_longestStreak a) (streak_leaderboard s)" for s
    using streak_users_ranked[of s] by (simp add: streak_leaderboard_def sorted_wrt_iff_nth_less nth_enumerate_eq)
  ultimately show ?thesis by blast
qed

theorem streak_board_recent_witness:
  "map se_rank (streak_leaderboard two_wallets) = [1..<Suc (length (streak_leaderboard two_wallets))]"
proof -
  have "(50, streak_leaderboard two_wallets) \<in> set (reads ttl_get ttl_put ''leaderboard:streaks:top50'' 60000
      (\<lambda>t. streak_leaderboard ((\<lambda>_. two_wallets) t)) [7, 50] Map.empty)"
    by (simp add: read_through_def ttl_defs)
  moreover have "sorted [7::int, 50]" "\<forall>t. ttl_get t Map.empty ''leaderboard:streaks:top50'' = None"
    by (simp_all add: ttl_defs)
  ultimately show ?thesis
    using streak_board_recent[OF ttl.expiring_cache_axioms, where db = "\<lambda>_. two_wallets" and ts = "[7, 50]" and c = Map.empty]
    by blast
qed

end
