(* ===== verification/Accounts.thy ===== *)
theory Accounts
  imports Entities
begin

text \<open>
  User accounts (\<open>users/users.service.ts\<close>): lookups, creation under the unique indexes of the table,
  updates, the paged listing, bans, roles, soft deletion, anonymisation and the data export.
\<close>

subsection \<open>Matching patterns\<close>

text \<open>SQL \<open>LIKE\<close>: a percent sign stands for any text, an underscore for any character, a backslash
  quotes the next character. \<open>ILIKE\<close> ignores case.\<close>

function sql_like :: "string \<Rightarrow> string \<Rightarrow> bool" where
  "sql_like [] s \<longleftrightarrow> s = []"
| "sql_like (p # ps) s \<longleftrightarrow>
     (if p = CHR ''%'' then sql_like ps s \<or> (case s of [] \<Rightarrow> False | c # cs \<Rightarrow> sql_like (p # ps) cs)
      else if p = CHR ''_'' then (case s of [] \<Rightarrow> False | c # cs \<Rightarrow> sql_like ps cs)
      else if p = CHR 0x5C then
        (case ps of [] \<Rightarrow> False
         | q # qs \<Rightarrow> (case s of [] \<Rightarrow> False | c # cs \<Rightarrow> c = q \<and> sql_like qs cs))
      else (case s of [] \<Rightarrow> False | c # cs \<Rightarrow> c = p \<and> sql_like ps cs))"
  by pat_completeness auto
termination
  by (relation "measure (\<lambda>(p, s). length p + length s)") auto

definition sql_ilike :: "string \<Rightarrow> string \<Rightarrow> bool" where
  "sql_ilike s pattern = sql_like (toLowerCase pattern) (toLowerCase s)"

definition search_pattern :: "string \<Rightarrow> string" where
  "search_pattern search = ''%'' @ search @ ''%''"

subsection \<open>Lookups\<close>

definition findByEmail :: "string \<Rightarrow> core \<Rightarrow> user option" where
  "findByEmail email s = find (\<lambda>u. u_email u = email) (users s)"

definition findByVerificationToken :: "string \<Rightarrow> core \<Rightarrow> user option" where
  "findByVerificationToken hash s = find (\<lambda>u. u_verificationToken u = Some hash) (users s)"

definition findByStellarPublicKey :: "string \<Rightarrow> core \<Rightarrow> user option" where
  "findByStellarPublicKey key s = find (\<lambda>u. u_stellarPublicKey u = Some key) (users s)"

definition findByReferralCode :: "string \<Rightarrow> core \<Rightarrow> user option" where
  "findByReferralCode code s = find (\<lambda>u. u_referralCode u = Some code) (users s)"

subsection \<open>Writes under the unique indexes\<close>

text \<open>Another row with the same email, or the same user name or referral code where these are set.\<close>

definition clashes :: "user \<Rightarrow> user \<Rightarrow> bool" where
  "clashes u v \<longleftrightarrow>
     u_email v = u_email u \<or> (u_username u \<noteq> None \<and> u_username v = u_username u) \<or>
     (u_referralCode u \<noteq> None \<and> u_referralCode v = u_referralCode u)"

definition store_user :: "user \<Rightarrow> core \<Rightarrow> (core, user) outcome" where
  "store_user u s =
     (if \<exists>v \<in> set (users s). u_id v \<noteq> u_id u \<and> clashes u v then (Inl UniqueViolation, s)
      else (Inr u, save_user u s))"

definition user_create :: "user \<Rightarrow> core \<Rightarrow> (core, user) outcome" where
  "user_create data s = store_user (data\<lparr>u_id := fresh s\<rparr>) (s\<lparr>fresh := Suc (fresh s)\<rparr>)"

definition user_update :: "uuid \<Rightarrow> (user \<Rightarrow> user) \<Rightarrow> core \<Rightarrow> (core, user) outcome" where
  "user_update i data s =
     (case find_user i s of
        None \<Rightarrow> (Inl (NotFoundException ''User not found''), s)
      | Some u \<Rightarrow> store_user (data u) s)"

definition banUser :: "uuid \<Rightarrow> bool \<Rightarrow> core \<Rightarrow> (core, user) outcome" where
  "banUser i banned = user_update i (\<lambda>u. u\<lparr>u_isBanned := banned\<rparr>)"

definition changeRole :: "uuid \<Rightarrow> string \<Rightarrow> core \<Rightarrow> (core, user) outcome" where
  "changeRole i role = user_update i (\<lambda>u. u\<lparr>u_role := role\<rparr>)"

definition softDelete :: "timestamp \<Rightarrow> uuid \<Rightarrow> core \<Rightarrow> (core, user) outcome" where
  "softDelete now i = user_update i (\<lambda>u. u\<lparr>u_deletedAt := Some now\<rparr>)"

text \<open>\<open>prefix\<close>: the first eight characters of the id.\<close>

definition anonymised :: "timestamp \<Rightarrow> string \<Rightarrow> user \<Rightarrow> user" where
  "anonymised now prefix u =
     u\<lparr>u_email := ''deleted-'' @ prefix @ ''@anonymized.invalid'', u_username := Some (''deleted-user-'' @ prefix),
       u_passwordHash := [], u_avatar := None, u_bio := None, u_stellarPublicKey := None, u_referralCode := None,
       u_stripeCustomerId := None, u_stripeSubscriptionId := None, u_deletedAt := Some now\<rparr>"

definition anonymizeUser :: "(uuid \<Rightarrow> string) \<Rightarrow> timestamp \<Rightarrow> uuid \<Rightarrow> core \<Rightarrow> (core, user) outcome" where
  "anonymizeUser string_of_uuid now i = user_update i (anonymised now (take 8 (string_of_uuid i)))"

subsection \<open>Listings\<close>

definition page_of :: "nat \<Rightarrow> nat \<Rightarrow> 'a list \<Rightarrow> 'a list" where
  "page_of page limit xs = take limit (drop ((page - 1) * limit) xs)"

definition total_pages :: "nat \<Rightarrow> nat \<Rightarrow> nat" where
  "total_pages n limit = (n + limit - 1) div limit"

record user_query =
  uq_page :: nat
  uq_limit :: nat
  uq_role :: "string option"
  uq_isVerified :: "bool option"
  uq_search :: "string option"

definition given :: "string option \<Rightarrow> bool" where
  "given x = (case x of None \<Rightarrow> False | Some s \<Rightarrow> s \<noteq> [])"

definition user_matches :: "user_query \<Rightarrow> user \<Rightarrow> bool" where
  "user_matches q u \<longleftrightarrow>
     (given (uq_role q) \<longrightarrow> Some (u_role u) = uq_role q) \<and>
     (case uq_isVerified q of None \<Rightarrow> True | Some b \<Rightarrow> u_isVerified u = b) \<and>
     (case uq_search q of None \<Rightarrow> True | Some t \<Rightarrow> t = [] \<or> sql_ilike (u_email u) (search_pattern t)) \<and>
     u_deletedAt u = None"

text \<open>The page, and its \<open>total\<close> and \<open>totalPages\<close>.\<close>

definition users_findAll :: "user_query \<Rightarrow> core \<Rightarrow> user list \<times> nat \<times> nat" where
  "users_findAll q s =
     (let hits = order_by_desc u_createdAt (filter (user_matches q) (users s))
      in (page_of (uq_page q) (uq_limit q) hits, length hits, total_pages (length hits) (uq_limit q)))"

definition getReferralStats :: "uuid \<Rightarrow> core \<Rightarrow> nat \<times> nat" where
  "getReferralStats userId s =
     (let n = count_rows (\<lambda>u. u_referredBy u = Some userId) (users s) in (n, n * 50))"

text \<open>The profile without the password hash, the MFA secrets and the verification token.\<close>

definition exportUserData :: "uuid \<Rightarrow> core \<Rightarrow> http_error + user" where
  "exportUserData i s =
     (case find_user i s of
        None \<Rightarrow> Inl (NotFoundException ''User not found'')
      | Some u \<Rightarrow> Inr (u\<lparr>u_passwordHash := [], u_mfaSecret := None, u_mfaBackupCodes := None,
                         u_verificationToken := None\<rparr>))"

subsection \<open>The unique indexes as an invariant\<close>

definition users_ok :: "core \<Rightarrow> bool" where
  "users_ok s \<longleftrightarrow>
     distinct (map u_id (users s)) \<and> (\<forall>u \<in> set (users s). u_id u < fresh s) \<and>
     (\<forall>u \<in> set (users s). \<forall>v \<in> set (users s). u_id u \<noteq> u_id v \<longrightarrow> \<not> clashes u v)"

lemma clashes_sym: "clashes u v \<longleftrightarrow> clashes v u"
  by (auto simp: clashes_def)

lemma store_user_ok:
  assumes "users_ok s" "u_id u < fresh s"
  shows "users_ok (snd (store_user u s))"
proof (cases "\<exists>v \<in> set (users s). u_id v \<noteq> u_id u \<and> clashes u v")
  case True
  with assms show ?thesis by (simp add: store_user_def)
next
  case False
  have "distinct (map u_id (save_row u_id u (users s)))"
    using assms(1) by (intro save_row_distinct) (simp add: users_ok_def)
  moreover have "\<not> clashes v w"
    if "v \<in> set (save_row u_id u (users s))" "w \<in> set (save_row u_id u (users s))" "u_id v \<noteq> u_id w" for v w
    using that False assms(1) clashes_sym by (auto simp: set_save_row users_ok_def)
  moreover have "u_id v < fresh s" if "v \<in> set (save_row u_id u (users s))" for v
    using that assms by (auto simp: set_save_row users_ok_def)
  ultimately have "users_ok (save_user u s)" by (simp add: users_ok_def)
  then show ?thesis by (simp only: store_user_def False if_False snd_conv)
qed

text \<open>An update that leaves the indexed columns alone always succeeds.\<close>

lemma store_user_same_keys:
  assumes "users_ok s" "find_user (u_id u) s = Some v"
    and "u_email u = u_email v" "u_username u = u_username v" "u_referralCode u = u_referralCode v"
  shows "store_user u s = (Inr u, save_user u s)"
proof -
  have v: "v \<in> set (users s)" "u_id v = u_id u" using find_user_SomeD[OF assms(2)] by auto
  have "\<not> clashes u w" if "w \<in> set (users s)" "u_id w \<noteq> u_id u" for w
  proof -
    have "\<not> clashes v w" using assms(1) v that unfolding users_ok_def by metis
    with assms(3-5) show ?thesis by (simp add: clashes_def)
  qed
  then show ?thesis by (auto simp: store_user_def)
qed

lemma user_update_same_keys:
  assumes "users_ok s" "find_user i s = Some u"
    and "u_id (f u) = i" "u_email (f u) = u_email u" "u_username (f u) = u_username u" "u_referralCode (f u) = u_referralCode u"
  shows "user_update i f s = (Inr (f u), save_user (f u) s)"
  using assms store_user_same_keys[OF assms(1), of "f u" u] by (simp add: user_update_def)

lemma user_create_ok:
  assumes "users_ok s"
  shows "users_ok (snd (user_create data s))"
proof -
  have "users_ok (s\<lparr>fresh := Suc (fresh s)\<rparr>)" using assms by (force simp: users_ok_def)
  then show ?thesis unfolding user_create_def by (rule store_user_ok) simp
qed

lemma user_update_ok:
  assumes "users_ok s" "\<And>u. u_id (f u) = u_id u"
  shows "users_ok (snd (user_update i f s))"
proof (cases "find_user i s")
  case None
  with assms show ?thesis by (simp add: user_update_def)
next
  case (Some u)
  then have "u_id (f u) < fresh s" using assms find_user_SomeD[OF Some] by (auto simp: users_ok_def)
  with Some assms(1) show ?thesis by (simp add: user_update_def store_user_ok)
qed

lemma findByEmail_SomeD: "findByEmail e s = Some u \<Longrightarrow> u \<in> set (users s) \<and> u_email u = e"
  by (auto simp: findByEmail_def dest: find_SomeD)

lemma find_user_of_mem: "users_ok s \<Longrightarrow> u \<in> set (users s) \<Longrightarrow> find_user (u_id u) s = Some u"
  unfolding find_user_def users_ok_def by (intro find_key_unique) simp_all

lemma findByEmail_mem:
  assumes "users_ok s" "u \<in> set (users s)"
  shows "findByEmail (u_email u) s = Some u"
proof (cases "findByEmail (u_email u) s")
  case None
  then have False using assms(2) unfolding findByEmail_def find_None by blast
  then show ?thesis ..
next
  case (Some v)
  then have v: "v \<in> set (users s)" "u_email v = u_email u" by (auto dest: findByEmail_SomeD)
  then have "u_id u = u_id v" using assms unfolding users_ok_def clashes_def by metis
  then have "v = u" using assms v(1) by (auto simp: users_ok_def distinct_map inj_on_def)
  with Some show ?thesis by simp
qed

end
