(* ===== verification/Audit_Log.thy ===== *)
theory Audit_Log
  imports Accounts
begin

text \<open>
  The audit log (\<open>audit/audit.service.ts\<close>) and field encryption (\<open>common/encryption.service.ts\<close>).
  The cipher is an argument; the key is fixed at start-up and part of it.
\<close>

subsection \<open>Audit log\<close>

record audit_log =
  al_userId :: "uuid option"
  al_action :: string
  al_ipAddress :: "string option"
  al_userAgent :: "string option"
  al_metadata :: "(string \<times> json) list option"
  al_success :: bool
  al_createdAt :: timestamp

definition RETENTION_DAYS :: int where
  "RETENTION_DAYS = 90"

definition day_ms :: int where
  "day_ms = 24 * 60 * 60 * 1000"

text \<open>A failed write is only reported, so the log never stops the operation it records; here it succeeds.\<close>

definition audit ::
  "timestamp \<Rightarrow> string \<Rightarrow> uuid option \<Rightarrow> bool \<Rightarrow> (string \<times> json) list option \<Rightarrow> audit_log list \<Rightarrow> audit_log list" where
  "audit now action userId success metadata logs =
     logs @ [\<lparr>al_userId = userId, al_action = action, al_ipAddress = None, al_userAgent = None,
              al_metadata = metadata, al_success = success, al_createdAt = now\<rparr>]"

record audit_query =
  aq_userId :: "uuid option"
  aq_action :: "string option"
  aq_startDate :: "timestamp option"
  aq_endDate :: "timestamp option"
  aq_limit :: "nat option"

definition audit_getLogs :: "audit_query \<Rightarrow> audit_log list \<Rightarrow> audit_log list" where
  "audit_getLogs q logs =
     take (case aq_limit q of None \<Rightarrow> 100 | Some n \<Rightarrow> if n = 0 then 100 else n)
       (order_by_desc al_createdAt (filter (\<lambda>l.
          (aq_userId q = None \<or> al_userId l = aq_userId q) \<and>
          (given (aq_action q) \<longrightarrow> Some (al_action l) = aq_action q) \<and>
          (case aq_startDate q of None \<Rightarrow> True | Some t \<Rightarrow> t \<le> al_createdAt l) \<and>
          (case aq_endDate q of None \<Rightarrow> True | Some t \<Rightarrow> al_createdAt l \<le> t)) logs))"

definition purgeOldLogs :: "timestamp \<Rightarrow> audit_log list \<Rightarrow> audit_log list" where
  "purgeOldLogs now logs = delete_rows (\<lambda>l. al_createdAt l < now - RETENTION_DAYS * day_ms) logs"

subsection \<open>Encrypted fields\<close>

text \<open>\<open>split(':')\<close> as far as the two parts the code reads.\<close>

definition before_colon :: "string \<Rightarrow> string" where
  "before_colon s = takeWhile (\<lambda>c. c \<noteq> CHR '':'') s"

definition second_part :: "string \<Rightarrow> string option" where
  "second_part s =
     (case dropWhile (\<lambda>c. c \<noteq> CHR '':'') s of [] \<Rightarrow> None | _ # rest \<Rightarrow> Some (before_colon rest))"

text \<open>\<open>cipher iv text\<close> and \<open>decipher iv data\<close> work on the hexadecimal forms; \<open>None\<close> when Node throws.\<close>

definition field_encrypt :: "(string \<Rightarrow> string \<Rightarrow> string) \<Rightarrow> string \<Rightarrow> string \<Rightarrow> string" where
  "field_encrypt cipher iv text1 = iv @ '':'' @ cipher iv text1"

definition field_decrypt :: "(string \<Rightarrow> string \<Rightarrow> string option) \<Rightarrow> string \<Rightarrow> string option" where
  "field_decrypt decipher encryptedText =
     (if encryptedText = [] then Some []
      else (case second_part encryptedText of
              None \<Rightarrow> None
            | Some dataHex \<Rightarrow> decipher (before_colon encryptedText) dataHex))"

lemma field_roundtrip:
  assumes "CHR '':'' \<notin> set iv" "CHR '':'' \<notin> set (cipher iv t)" "decipher iv (cipher iv t) = Some t"
  shows "field_decrypt decipher (field_encrypt cipher iv t) = Some t"
proof -
  have iv: "\<forall>c \<in> set iv. c \<noteq> CHR '':''" and d: "\<forall>c \<in> set (cipher iv t). c \<noteq> CHR '':''"
    using assms(1,2) by auto
  have "before_colon (iv @ '':'' @ cipher iv t) = iv"
    unfolding before_colon_def using iv by (subst takeWhile_append2) simp_all
  moreover have "second_part (iv @ '':'' @ cipher iv t) = Some (cipher iv t)"
    unfolding second_part_def before_colon_def using iv d by (subst dropWhile_append2) (simp_all add: takeWhile_eq_all_conv)
  ultimately show ?thesis using assms(3) by (simp add: field_decrypt_def field_encrypt_def)
qed

end
