(* ===== verification/Tokens.thy ===== *)
theory Tokens
  imports Audit_Log
begin

text \<open>
  Refresh tokens and API keys (\<open>auth/token.service.ts\<close>) and the state of the authentication
  services. Random strings come from \<open>cx_random\<close>, one per draw; hashing, signing and password
  hashing are arguments in the record \<open>crypto\<close>.
\<close>

record crypto =
  cx_random :: "nat \<Rightarrow> string"
  cx_sha256 :: "string \<Rightarrow> string"
  cx_jwt :: "uuid \<Rightarrow> string \<Rightarrow> string \<Rightarrow> string"
  cx_bcrypt :: "string \<Rightarrow> string"
  cx_compare :: "string \<Rightarrow> string \<Rightarrow> bool"
  cx_totp :: "timestamp \<Rightarrow> string \<Rightarrow> string \<Rightarrow> bool"
  cx_cipher :: "string \<Rightarrow> string \<Rightarrow> string"
  cx_decipher :: "string \<Rightarrow> string \<Rightarrow> string option"
  cx_mail :: "string \<Rightarrow> string \<Rightarrow> bool"

record refresh_token =
  rf_id :: uuid
  rf_tokenHash :: string
  rf_userId :: uuid
  rf_expiresAt :: timestamp
  rf_revoked :: bool
  rf_createdAt :: timestamp

record reset_token =
  rx_id :: uuid
  rx_tokenHash :: string
  rx_userId :: uuid
  rx_expiresAt :: timestamp
  rx_used :: bool
  rx_createdAt :: timestamp

record api_key =
  ak_id :: uuid
  ak_name :: string
  ak_description :: "string option"
  ak_keyHash :: string
  ak_isActive :: bool
  ak_userId :: uuid
  ak_createdAt :: timestamp
  ak_lastUsedAt :: "timestamp option"

record auth_db =
  au_core :: core
  au_refresh :: "refresh_token list"
  au_resets :: "reset_token list"
  au_keys :: "api_key list"
  au_audit :: "audit_log list"
  au_mails :: "(string \<times> string) list"
  au_fresh :: nat
  au_random :: nat

definition log_audit ::
  "timestamp \<Rightarrow> string \<Rightarrow> uuid option \<Rightarrow> bool \<Rightarrow> auth_db \<Rightarrow> auth_db" where
  "log_audit now action userId success s = s\<lparr>au_audit := audit now action userId success None (au_audit s)\<rparr>"

lemma log_audit_simps [simp]:
  "au_core (log_audit now a u b s) = au_core s" "au_refresh (log_audit now a u b s) = au_refresh s"
  "au_resets (log_audit now a u b s) = au_resets s" "au_keys (log_audit now a u b s) = au_keys s"
  "au_mails (log_audit now a u b s) = au_mails s" "au_fresh (log_audit now a u b s) = au_fresh s"
  "au_random (log_audit now a u b s) = au_random s"
  by (simp_all add: log_audit_def)

subsection \<open>Tokens\<close>

definition hashToken :: "crypto \<Rightarrow> string \<Rightarrow> string" where
  "hashToken cx token = cx_sha256 cx token"

text \<open>Token, hash and expiry; one random draw.\<close>

definition generateOpaqueToken ::
  "crypto \<Rightarrow> timestamp \<Rightarrow> int \<Rightarrow> auth_db \<Rightarrow> (string \<times> string \<times> timestamp) \<times> auth_db" where
  "generateOpaqueToken cx now ttlHours s =
     (let token = cx_random cx (au_random s)
      in ((token, hashToken cx token, now + ttlHours * 60 * 60 * 1000), s\<lparr>au_random := Suc (au_random s)\<rparr>))"

text \<open>The access and the refresh token.\<close>

definition issueTokenPair ::
  "crypto \<Rightarrow> timestamp \<Rightarrow> uuid \<Rightarrow> string \<Rightarrow> string \<Rightarrow> auth_db \<Rightarrow> (string \<times> string) \<times> auth_db" where
  "issueTokenPair cx now userId email role s =
     (let access = cx_jwt cx userId email role;
          ((raw, hash, expiresAt), s1) = generateOpaqueToken cx now (24 * 7) s;
          row = \<lparr>rf_id = au_fresh s1, rf_tokenHash = hash, rf_userId = userId, rf_expiresAt = expiresAt,
                 rf_revoked = False, rf_createdAt = now\<rparr>
      in ((access, raw), s1\<lparr>au_refresh := au_refresh s1 @ [row], au_fresh := Suc (au_fresh s1)\<rparr>))"

definition live_refresh :: "crypto \<Rightarrow> string \<Rightarrow> auth_db \<Rightarrow> refresh_token option" where
  "live_refresh cx raw s = find (\<lambda>t. rf_tokenHash t = hashToken cx raw \<and> \<not> rf_revoked t) (au_refresh s)"

definition revoke_row :: "refresh_token \<Rightarrow> auth_db \<Rightarrow> auth_db" where
  "revoke_row t s = s\<lparr>au_refresh := save_row rf_id (t\<lparr>rf_revoked := True\<rparr>) (au_refresh s)\<rparr>"

definition refresh :: "crypto \<Rightarrow> timestamp \<Rightarrow> string \<Rightarrow> auth_db \<Rightarrow> (auth_db, string \<times> string) outcome" where
  "refresh cx now raw s =
     (case live_refresh cx raw s of
        None \<Rightarrow> (Inl (UnauthorizedException ''Invalid or revoked refresh token''), s)
      | Some t \<Rightarrow>
          if rf_expiresAt t < now then (Inl (UnauthorizedException ''Refresh token has expired''), s)
          else
            (let s1 = revoke_row t s
             in case find_user (rf_userId t) (au_core s1) of
                  None \<Rightarrow> (Inl (UnauthorizedException ''User not found''), s1)
                | Some u \<Rightarrow> map_prod Inr (\<lambda>x. x) (issueTokenPair cx now (u_id u) (u_email u) (u_role u) s1)))"

definition revokeRefreshToken :: "crypto \<Rightarrow> timestamp \<Rightarrow> string \<Rightarrow> uuid option \<Rightarrow> auth_db \<Rightarrow> auth_db" where
  "revokeRefreshToken cx now raw userId s =
     (let stored = live_refresh cx raw s;
          s1 = (case stored of None \<Rightarrow> s | Some t \<Rightarrow> revoke_row t s);
          who = (case userId of Some u \<Rightarrow> Some u | None \<Rightarrow> map_option rf_userId stored)
      in log_audit now ''auth.logout'' who True s1)"

subsection \<open>API keys\<close>

text \<open>A new raw key, \<open>bst_\<close> and a random string.\<close>

definition raw_api_key :: "crypto \<Rightarrow> auth_db \<Rightarrow> string" where
  "raw_api_key cx s = ''bst_'' @ cx_random cx (au_random s)"

definition store_key :: "api_key \<Rightarrow> auth_db \<Rightarrow> (auth_db, api_key) outcome" where
  "store_key k s =
     (if \<exists>x \<in> set (au_keys s). ak_id x \<noteq> ak_id k \<and> ak_keyHash x = ak_keyHash k then (Inl UniqueViolation, s)
      else (Inr k, s\<lparr>au_keys := save_row ak_id k (au_keys s)\<rparr>))"

definition add_key ::
  "crypto \<Rightarrow> timestamp \<Rightarrow> uuid \<Rightarrow> string \<Rightarrow> string option \<Rightarrow> auth_db \<Rightarrow> (auth_db, api_key \<times> string) outcome" where
  "add_key cx now userId name description s =
     (let raw = raw_api_key cx s;
          k = \<lparr>ak_id = au_fresh s, ak_name = name, ak_description = description, ak_keyHash = cx_sha256 cx raw,
               ak_isActive = True, ak_userId = userId, ak_createdAt = now, ak_lastUsedAt = None\<rparr>;
          s1 = s\<lparr>au_random := Suc (au_random s), au_fresh := Suc (au_fresh s)\<rparr>
      in case store_key k s1 of
           (Inl e, s2) \<Rightarrow> (Inl e, s2)
         | (Inr k', s2) \<Rightarrow> (Inr (k', raw), log_audit now ''apikey.created'' (Some userId) True s2))"

definition generateApiKey ::
  "crypto \<Rightarrow> timestamp \<Rightarrow> uuid \<Rightarrow> string \<Rightarrow> auth_db \<Rightarrow> (auth_db, string) outcome" where
  "generateApiKey cx now userId name s = map_prod (map_sum (\<lambda>e. e) snd) (\<lambda>x. x) (add_key cx now userId name None s)"

definition revokeApiKey :: "timestamp \<Rightarrow> uuid \<Rightarrow> uuid option \<Rightarrow> auth_db \<Rightarrow> auth_db" where
  "revokeApiKey now i userId s =
     log_audit now ''apikey.revoked'' userId True
       (s\<lparr>au_keys := update_rows (\<lambda>k. ak_id k = i) (\<lambda>k. k\<lparr>ak_isActive := False\<rparr>) (au_keys s)\<rparr>)"

text \<open>The strategy of requests with an API key (\<open>auth/api-key.strategy.ts\<close>): the user of the active
  key with the hash of the given one.\<close>

definition api_key_login ::
  "crypto \<Rightarrow> timestamp \<Rightarrow> string \<Rightarrow> auth_db \<Rightarrow> (auth_db, user option) outcome" where
  "api_key_login cx now apiKey s =
     (case find (\<lambda>k. ak_keyHash k = cx_sha256 cx apiKey \<and> ak_isActive k) (au_keys s) of
        None \<Rightarrow> (Inl (UnauthorizedException []), s)
      | Some k \<Rightarrow>
          (Inr (find_user (ak_userId k) (au_core s)),
           s\<lparr>au_keys := update_rows (\<lambda>x. ak_id x = ak_id k) (\<lambda>x. x\<lparr>ak_lastUsedAt := Some now\<rparr>) (au_keys s)\<rparr>))"

end
