(* ===== verification/Mfa.thy ===== *)
theory Mfa
  imports Tokens
begin

text \<open>
  The second factor (\<open>auth/mfa.service.ts\<close>): setting up a TOTP secret, enabling and disabling it,
  checking a code, and the single-use backup codes, stored as hashes.
\<close>

definition update_user :: "uuid \<Rightarrow> (user \<Rightarrow> user) \<Rightarrow> auth_db \<Rightarrow> (auth_db, user) outcome" where
  "update_user i f s = (case user_update i f (au_core s) of (r, c) \<Rightarrow> (r, s\<lparr>au_core := c\<rparr>))"

definition draw :: "crypto \<Rightarrow> auth_db \<Rightarrow> string \<times> auth_db" where
  "draw cx s = (cx_random cx (au_random s), s\<lparr>au_random := Suc (au_random s)\<rparr>)"

text \<open>The new secret. The account is without MFA until the first code is verified.\<close>

definition generateSecret :: "crypto \<Rightarrow> uuid \<Rightarrow> auth_db \<Rightarrow> (auth_db, string) outcome" where
  "generateSecret cx userId s =
     (case find_user userId (au_core s) of
        None \<Rightarrow> (Inl (NotFoundException ''User not found''), s)
      | Some u \<Rightarrow>
          (let (secret, s1) = draw cx s; (iv, s2) = draw cx s1
           in await (update_user userId (\<lambda>u. u\<lparr>u_mfaSecret := Some (field_encrypt (cx_cipher cx) iv secret),
                                                u_mfaEnabled := False\<rparr>) s2)
                (\<lambda>_ s3. (Inr secret, s3))))"

definition generateBackupCodes :: "crypto \<Rightarrow> nat \<Rightarrow> auth_db \<Rightarrow> string list \<times> auth_db" where
  "generateBackupCodes cx count s =
     (map (\<lambda>i. toUpperCase (cx_random cx (au_random s + i))) [0..<count], s\<lparr>au_random := au_random s + count\<rparr>)"

definition stored_codes :: "crypto \<Rightarrow> string list \<Rightarrow> string list" where
  "stored_codes cx codes = map (cx_sha256 cx) codes"

text \<open>The stored secret, \<open>None\<close> for a missing or empty one.\<close>

definition secret_of :: "user \<Rightarrow> string option" where
  "secret_of u = (case u_mfaSecret u of None \<Rightarrow> None | Some x \<Rightarrow> if x = [] then None else Some x)"

definition decrypt_secret :: "crypto \<Rightarrow> string \<Rightarrow> http_error + string" where
  "decrypt_secret cx x =
     (case field_decrypt (cx_decipher cx) x of None \<Rightarrow> Inl (JsError ''Decryption failed'') | Some y \<Rightarrow> Inr y)"

text \<open>Whether \<open>code\<close> is the current one of the stored secret.\<close>

definition totp_valid :: "crypto \<Rightarrow> timestamp \<Rightarrow> string \<Rightarrow> string \<Rightarrow> http_error + bool" where
  "totp_valid cx now x code = map_sum (\<lambda>e. e) (\<lambda>secret. cx_totp cx now code secret) (decrypt_secret cx x)"

definition verifyAndEnable ::
  "crypto \<Rightarrow> timestamp \<Rightarrow> uuid \<Rightarrow> string \<Rightarrow> auth_db \<Rightarrow> (auth_db, string list) outcome" where
  "verifyAndEnable cx now userId code s =
     (case Option.bind (find_user userId (au_core s)) secret_of of
        None \<Rightarrow> (Inl (BadRequestException ''MFA setup not initiated''), s)
      | Some x \<Rightarrow>
          await (totp_valid cx now x code, s) (\<lambda>valid s.
            if \<not> valid then (Inl (BadRequestException ''Invalid MFA code''), s)
            else
              (let (codes, s1) = generateBackupCodes cx 8 s
               in await (update_user userId (\<lambda>u. u\<lparr>u_mfaEnabled := True,
                                                    u_mfaBackupCodes := Some (stored_codes cx codes)\<rparr>) s1)
                    (\<lambda>_ s2. (Inr codes, log_audit now ''auth.mfa.enabled'' (Some userId) True s2)))))"

definition enabled_secret :: "uuid \<Rightarrow> auth_db \<Rightarrow> string option" where
  "enabled_secret userId s =
     Option.bind (find_user userId (au_core s)) (\<lambda>u. if u_mfaEnabled u then secret_of u else None)"

definition mfa_disable :: "crypto \<Rightarrow> timestamp \<Rightarrow> uuid \<Rightarrow> string \<Rightarrow> auth_db \<Rightarrow> (auth_db, unit) outcome" where
  "mfa_disable cx now userId code s =
     (case enabled_secret userId s of
        None \<Rightarrow> (Inl (BadRequestException ''MFA is not enabled''), s)
      | Some x \<Rightarrow>
          await (totp_valid cx now x code, s) (\<lambda>valid s.
            if \<not> valid then (Inl (BadRequestException ''Invalid MFA code''), s)
            else
              await (update_user userId (\<lambda>u. u\<lparr>u_mfaEnabled := False, u_mfaSecret := None, u_mfaBackupCodes := Some []\<rparr>) s)
                (\<lambda>_ s1. (Inr (), log_audit now ''auth.mfa.disabled'' (Some userId) True s1))))"

definition regenerateBackupCodes ::
  "crypto \<Rightarrow> timestamp \<Rightarrow> uuid \<Rightarrow> string \<Rightarrow> auth_db \<Rightarrow> (auth_db, string list) outcome" where
  "regenerateBackupCodes cx now userId totpCode s =
     (case enabled_secret userId s of
        None \<Rightarrow> (Inl (BadRequestException ''MFA is not enabled''), s)
      | Some x \<Rightarrow>
          await (totp_valid cx now x totpCode, s) (\<lambda>valid s.
            if \<not> valid then (Inl (BadRequestException ''Invalid MFA code''), s)
            else
              (let (codes, s1) = generateBackupCodes cx 8 s
               in await (update_user userId (\<lambda>u. u\<lparr>u_mfaBackupCodes := Some (stored_codes cx codes)\<rparr>) s1)
                    (\<lambda>_ s2. (Inr codes, s2)))))"

definition useBackupCode :: "crypto \<Rightarrow> uuid \<Rightarrow> string \<Rightarrow> auth_db \<Rightarrow> (auth_db, bool) outcome" where
  "useBackupCode cx userId code s =
     (case Option.bind (find_user userId (au_core s)) u_mfaBackupCodes of
        None \<Rightarrow> (Inr False, s)
      | Some codes \<Rightarrow>
          (let hash = cx_sha256 cx code
           in if hash \<notin> set codes then (Inr False, s)
              else await (update_user userId (\<lambda>u. u\<lparr>u_mfaBackupCodes := Some (remove1 hash codes)\<rparr>) s)
                     (\<lambda>_ s1. (Inr True, s1))))"

definition verifyCode :: "crypto \<Rightarrow> timestamp \<Rightarrow> uuid \<Rightarrow> string \<Rightarrow> auth_db \<Rightarrow> (auth_db, bool) outcome" where
  "verifyCode cx now userId code s =
     (case Option.bind (find_user userId (au_core s)) secret_of of
        None \<Rightarrow> (Inr False, s)
      | Some x \<Rightarrow>
          await (totp_valid cx now x code, s) (\<lambda>valid s.
            if valid then (Inr True, s) else useBackupCode cx userId code s))"

subsection \<open>Frames\<close>

lemma update_user_simps [simp]:
  "au_refresh (snd (update_user i f s)) = au_refresh s" "au_resets (snd (update_user i f s)) = au_resets s"
  "au_keys (snd (update_user i f s)) = au_keys s" "au_fresh (snd (update_user i f s)) = au_fresh s"
  "au_random (snd (update_user i f s)) = au_random s" "au_audit (snd (update_user i f s)) = au_audit s"
  "au_mails (snd (update_user i f s)) = au_mails s"
  "au_core (snd (update_user i f s)) = snd (user_update i f (au_core s))"
  by (simp_all add: update_user_def split: prod.split)

lemma update_user_same_keys:
  assumes "users_ok (au_core s)" "find_user i (au_core s) = Some u"
    and "u_id (f u) = u_id u" "u_email (f u) = u_email u" "u_username (f u) = u_username u" "u_referralCode (f u) = u_referralCode u"
  shows "update_user i f s = (Inr (f u), s\<lparr>au_core := save_user (f u) (au_core s)\<rparr>)"
proof -
  have "u_id (f u) = i" using assms(2,3) find_user_SomeD by auto
  then have "user_update i f (au_core s) = (Inr (f u), save_user (f u) (au_core s))"
    using assms by (intro user_update_same_keys) simp_all
  then show ?thesis by (simp add: update_user_def)
qed

text \<open>A backup code works once: using it takes it off the list.\<close>

lemma useBackupCode_once:
  assumes "users_ok (au_core s)" "useBackupCode cx i code s = (Inr True, s')"
    and "\<And>u codes. find_user i (au_core s) = Some u \<Longrightarrow> u_mfaBackupCodes u = Some codes \<Longrightarrow> distinct codes"
  shows "useBackupCode cx i code s' = (Inr False, s')"
proof -
  obtain u codes where u: "find_user i (au_core s) = Some u" "u_mfaBackupCodes u = Some codes" "cx_sha256 cx code \<in> set codes"
    using assms(2) by (auto simp: useBackupCode_def Let_def Option.bind_eq_Some_conv split: option.splits if_splits)
  let ?u = "u\<lparr>u_mfaBackupCodes := Some (remove1 (cx_sha256 cx code) codes)\<rparr>"
  have "u_id u = i" using find_user_SomeD[OF u(1)] by simp
  have "s' = s\<lparr>au_core := save_user ?u (au_core s)\<rparr>"
    using assms(2) u update_user_same_keys[OF assms(1) u(1), of "\<lambda>u. u\<lparr>u_mfaBackupCodes := Some (remove1 (cx_sha256 cx code) codes)\<rparr>"]
    by (simp add: useBackupCode_def Let_def)
  then have "find_user i (au_core s') = Some ?u"
    using \<open>u_id u = i\<close> by (simp add: find_user_save_user)
  moreover have "distinct codes" using assms(3) u by blast
  ultimately show ?thesis by (simp add: useBackupCode_def Let_def)
qed

end
