(* ===== verification/Auth.thy ===== *)
theory Auth
  imports Mfa
begin

text \<open>
  Sign-up, sign-in and password reset (\<open>auth/auth.service.ts\<close>), Google and wallet sign-in
  (\<open>auth/oauth.service.ts\<close>, \<open>auth/stellar-auth.service.ts\<close>) and the guards that read the access
  token (\<open>auth/jwt.strategy.ts\<close>, \<open>auth/roles.guard.ts\<close>). The Stellar SDK's reading of a challenge
  and the decoding of a posted challenge are arguments.
\<close>

subsection \<open>Registration and email verification\<close>

text \<open>A mail that cannot be sent throws.\<close>

definition send_mail :: "crypto \<Rightarrow> string \<Rightarrow> string \<Rightarrow> auth_db \<Rightarrow> (auth_db, unit) outcome" where
  "send_mail cx to token s =
     (if cx_mail cx to token then (Inr (), s\<lparr>au_mails := au_mails s @ [(to, token)]\<rparr>)
      else (Inl (JsError ''mail''), s))"

definition create_user :: "user \<Rightarrow> auth_db \<Rightarrow> (auth_db, user) outcome" where
  "create_user data s = (case user_create data (au_core s) of (r, c) \<Rightarrow> (r, s\<lparr>au_core := c\<rparr>))"

definition auth_register ::
  "crypto \<Rightarrow> timestamp \<Rightarrow> string \<Rightarrow> string \<Rightarrow> string option \<Rightarrow> auth_db \<Rightarrow> (auth_db, unit) outcome" where
  "auth_register cx now email password refCode s =
     (if findByEmail email (au_core s) \<noteq> None then (Inl (BadRequestException ''Email already in use''), s)
      else
        (let ((token, hash, expiresAt), s1) = generateOpaqueToken cx now 24 s;
             (referralCode, s2) = draw cx s1;
             referredBy = (if given refCode then map_option u_id (Option.bind refCode (\<lambda>r. findByReferralCode r (au_core s2)))
                           else None)
         in await (create_user ((new_user 0 email)\<lparr>u_passwordHash := cx_bcrypt cx password, u_verificationToken := Some hash,
                     u_verificationTokenExpiresAt := Some expiresAt, u_referralCode := Some referralCode,
                     u_referredBy := referredBy, u_createdAt := now\<rparr>) s2)
              (\<lambda>u s3. await (send_mail cx (u_email u) token s3)
                 (\<lambda>_ s4. (Inr (), log_audit now ''auth.register'' (Some (u_id u)) True s4)))))"

definition verifyEmail :: "crypto \<Rightarrow> timestamp \<Rightarrow> string \<Rightarrow> auth_db \<Rightarrow> (auth_db, unit) outcome" where
  "verifyEmail cx now token s =
     (case findByVerificationToken (hashToken cx token) (au_core s) of
        None \<Rightarrow> (Inl (BadRequestException ''Invalid or expired verification token''), s)
      | Some u \<Rightarrow>
          if (case u_verificationTokenExpiresAt u of None \<Rightarrow> True | Some t \<Rightarrow> t < now)
          then (Inl (BadRequestException ''Verification token has expired''), s)
          else await (update_user (u_id u) (\<lambda>u. u\<lparr>u_isVerified := True, u_verificationToken := None,
                        u_verificationTokenExpiresAt := None\<rparr>) s)
                 (\<lambda>_ s1. (Inr (), s1)))"

definition resendVerification :: "crypto \<Rightarrow> timestamp \<Rightarrow> string \<Rightarrow> auth_db \<Rightarrow> (auth_db, unit) outcome" where
  "resendVerification cx now email s =
     (case findByEmail email (au_core s) of
        None \<Rightarrow> (Inl (NotFoundException ''User not found''), s)
      | Some u \<Rightarrow>
          if u_isVerified u then (Inl (BadRequestException ''Email is already verified''), s)
          else
            (let ((token, hash, expiresAt), s1) = generateOpaqueToken cx now 24 s
             in await (update_user (u_id u) (\<lambda>u. u\<lparr>u_verificationToken := Some hash,
                         u_verificationTokenExpiresAt := Some expiresAt\<rparr>) s1)
                  (\<lambda>_ s2. send_mail cx (u_email u) token s2)))"

subsection \<open>Sign-in\<close>

datatype login_result = MfaRequired | Tokens string string

definition login_failure :: "timestamp \<Rightarrow> uuid option \<Rightarrow> http_error \<Rightarrow> auth_db \<Rightarrow> (auth_db, login_result) outcome" where
  "login_failure now userId e s = (Inl e, log_audit now ''auth.login.failure'' userId False s)"

definition login_success :: "crypto \<Rightarrow> timestamp \<Rightarrow> user \<Rightarrow> auth_db \<Rightarrow> (auth_db, login_result) outcome" where
  "login_success cx now u s =
     (let ((access, raw), s1) = issueTokenPair cx now (u_id u) (u_email u) (u_role u) s
      in (Inr (Tokens access raw), log_audit now ''auth.login.success'' (Some (u_id u)) True s1))"

definition login ::
  "crypto \<Rightarrow> timestamp \<Rightarrow> string \<Rightarrow> string \<Rightarrow> string option \<Rightarrow> auth_db \<Rightarrow> (auth_db, login_result) outcome" where
  "login cx now email password mfaToken s =
     (case findByEmail email (au_core s) of
        None \<Rightarrow> login_failure now None (UnauthorizedException ''Invalid credentials'') s
      | Some u \<Rightarrow>
          if \<not> cx_compare cx password (u_passwordHash u)
          then login_failure now None (UnauthorizedException ''Invalid credentials'') s
          else if u_isBanned u
          then login_failure now (Some (u_id u)) (UnauthorizedException ''Account is banned'') s
          else if \<not> u_isVerified u
          then login_failure now (Some (u_id u)) (ForbiddenException ''Please verify your email before logging in'') s
          else if u_role u = ''admin'' \<and> \<not> u_mfaEnabled u
          then login_failure now (Some (u_id u)) (ForbiddenException ''Admin accounts must enable 2FA before logging in'') s
          else if u_mfaEnabled u then
            (if \<not> given mfaToken then (Inr MfaRequired, s)
             else await (verifyCode cx now (u_id u) (the mfaToken) s) (\<lambda>valid s1.
               if \<not> valid then login_failure now (Some (u_id u)) (UnauthorizedException ''Invalid MFA token'') s1
               else login_success cx now u s1))
          else login_success cx now u s)"

definition logout :: "crypto \<Rightarrow> timestamp \<Rightarrow> string \<Rightarrow> uuid option \<Rightarrow> auth_db \<Rightarrow> (auth_db, unit) outcome" where
  "logout cx now raw userId s = (Inr (), revokeRefreshToken cx now raw userId s)"

subsection \<open>Password reset\<close>

definition hour_ms :: int where
  "hour_ms = 60 * 60 * 1000"

definition recent_resets :: "timestamp \<Rightarrow> uuid \<Rightarrow> auth_db \<Rightarrow> nat" where
  "recent_resets now userId s =
     count_rows (\<lambda>t. rx_userId t = userId \<and> now - hour_ms < rx_createdAt t) (au_resets s)"

definition forgotPassword :: "crypto \<Rightarrow> timestamp \<Rightarrow> string \<Rightarrow> auth_db \<Rightarrow> (auth_db, unit) outcome" where
  "forgotPassword cx now email s =
     (case findByEmail email (au_core s) of
        None \<Rightarrow> (Inr (), s)
      | Some u \<Rightarrow>
          if 3 \<le> recent_resets now (u_id u) s
          then (Inl (BadRequestException ''Too many reset requests. Please wait before trying again.''), s)
          else
            (let ((token, hash, expiresAt), s1) = generateOpaqueToken cx now 1 s;
                 row = \<lparr>rx_id = au_fresh s1, rx_tokenHash = hash, rx_userId = u_id u, rx_expiresAt = expiresAt,
                        rx_used = False, rx_createdAt = now\<rparr>;
                 s2 = s1\<lparr>au_resets := au_resets s1 @ [row], au_fresh := Suc (au_fresh s1)\<rparr>
             in await (send_mail cx (u_email u) token s2)
                  (\<lambda>_ s3. (Inr (), log_audit now ''auth.password_reset.request'' (Some (u_id u)) True s3))))"

definition live_reset :: "crypto \<Rightarrow> string \<Rightarrow> auth_db \<Rightarrow> reset_token option" where
  "live_reset cx token s = find (\<lambda>t. rx_tokenHash t = hashToken cx token \<and> \<not> rx_used t) (au_resets s)"

definition resetPassword :: "crypto \<Rightarrow> timestamp \<Rightarrow> string \<Rightarrow> string \<Rightarrow> auth_db \<Rightarrow> (auth_db, unit) outcome" where
  "resetPassword cx now token newPassword s =
     (case live_reset cx token s of
        None \<Rightarrow> (Inl (BadRequestException ''Invalid or expired reset token''), s)
      | Some t \<Rightarrow>
          if rx_expiresAt t < now then (Inl (BadRequestException ''Reset token has expired''), s)
          else await (update_user (rx_userId t) (\<lambda>u. u\<lparr>u_passwordHash := cx_bcrypt cx newPassword\<rparr>) s)
                 (\<lambda>_ s1. (Inr (), log_audit now ''auth.password_reset.complete'' (Some (rx_userId t)) True
                             (s1\<lparr>au_resets := save_row rx_id (t\<lparr>rx_used := True\<rparr>) (au_resets s1)\<rparr>))))"

subsection \<open>Google and wallets\<close>

definition googleLogin :: "crypto \<Rightarrow> timestamp \<Rightarrow> string \<Rightarrow> string \<Rightarrow> auth_db \<Rightarrow> (auth_db, string \<times> string) outcome" where
  "googleLogin cx now email picture s =
     (let pair = (\<lambda>u s. map_prod Inr (\<lambda>x. x) (issueTokenPair cx now (u_id u) (u_email u) (u_role u) s))
      in case findByEmail email (au_core s) of
           Some u \<Rightarrow> pair u s
         | None \<Rightarrow>
             (let (referralCode, s1) = draw cx s
              in await (create_user ((new_user 0 email)\<lparr>u_passwordHash := [], u_isVerified := True,
                          u_referralCode := Some referralCode, u_avatar := Some picture, u_createdAt := now\<rparr>) s1) pair))"

text \<open>\<open>decode\<close>: the expiry and the key of a posted challenge, \<open>None\<close> when it is no JSON object. A
  missing expiry is an invalid date, which no comparison finds to be in the past.\<close>

definition verifyStellarSignature ::
  "(string \<Rightarrow> (timestamp option \<times> string option) option) \<Rightarrow> timestamp \<Rightarrow> uuid \<Rightarrow> string \<Rightarrow> string \<Rightarrow> string \<Rightarrow> auth_db
   \<Rightarrow> (auth_db, string) outcome" where
  "verifyStellarSignature decode now userId publicKey signature challenge s =
     (case decode challenge of
        None \<Rightarrow> (Inl (BadRequestException ''Invalid challenge or signature''), s)
      | Some (expiresAt, key) \<Rightarrow>
          if (case expiresAt of None \<Rightarrow> False | Some t \<Rightarrow> t < now)
          then (Inl (BadRequestException ''Challenge has expired''), s)
          else if key \<noteq> Some publicKey then (Inl (BadRequestException ''Public key mismatch''), s)
          else if length signature < 10 then (Inl (BadRequestException ''Invalid signature''), s)
          else await (update_user userId (\<lambda>u. u\<lparr>u_stellarPublicKey := Some publicKey\<rparr>) s)
                 (\<lambda>_ s1. (Inr publicKey, s1)))"

text \<open>\<open>read_challenge\<close>: the client account of a challenge transaction, or the message of the error.\<close>

definition verifyChallenge ::
  "crypto \<Rightarrow> (string \<Rightarrow> string + string) \<Rightarrow> timestamp \<Rightarrow> string \<Rightarrow> auth_db \<Rightarrow> (auth_db, string) outcome" where
  "verifyChallenge cx read_challenge now signedXdr s =
     (let token = (\<lambda>u s. (Inr (cx_jwt cx (u_id u) (u_email u) (u_role u)), s))
      in case read_challenge signedXdr of
           Inl msg \<Rightarrow> (Inl (UnauthorizedException (''Invalid SEP-0010 challenge: '' @ msg)), s)
         | Inr key \<Rightarrow>
             (case findByStellarPublicKey key (au_core s) of
                Some u \<Rightarrow> token u s
              | None \<Rightarrow>
                  await (create_user ((new_user 0 (key @ ''@stellar.local''))\<lparr>u_stellarPublicKey := Some key,
                           u_passwordHash := [], u_isVerified := True, u_createdAt := now\<rparr>) s) token))"

subsection \<open>Guards\<close>

text \<open>The user a valid access token stands for: id, email and the present role.\<close>

definition validate :: "uuid \<Rightarrow> string \<Rightarrow> auth_db \<Rightarrow> uuid \<times> string \<times> string" where
  "validate sub email s =
     (sub, email, case find_user sub (au_core s) of
                    None \<Rightarrow> ''student''
                  | Some u \<Rightarrow> if u_role u = [] then ''student'' else u_role u)"

definition roles_guard :: "string list option \<Rightarrow> (uuid \<times> string \<times> string) option \<Rightarrow> bool" where
  "roles_guard requiredRoles usr =
     (case requiredRoles of
        None \<Rightarrow> True
      | Some rs \<Rightarrow>
          if rs = [] then True
          else (case usr of
                  None \<Rightarrow> False
                | Some (i, email, role) \<Rightarrow> if role = [] then False else role \<in> set rs))"

subsection \<open>Requests\<close>

datatype auth_request =
    Register string string "string option"
  | Login string string "string option"
  | Refresh string
  | Logout string "uuid option"
  | VerifyEmail string
  | ResendVerification string
  | ForgotPassword string
  | ResetPassword string string
  | MfaSetup uuid
  | MfaEnable uuid string
  | MfaDisable uuid string
  | MfaRegenerate uuid string
  | GoogleLogin string string
  | GenerateApiKey uuid string
  | RevokeApiKey uuid "uuid option"
  | ApiKeyRequest string
  | BanUser uuid bool

definition settle :: "('s, 'a) outcome \<Rightarrow> http_error option \<times> 's" where
  "settle r = (case fst r of Inl e \<Rightarrow> Some e | Inr _ \<Rightarrow> None, snd r)"

lemma settle_simps [simp]: "snd (settle r) = snd r" "fst (settle r) = None \<longleftrightarrow> succeeds r"
  by (auto simp: settle_def succeeds_def split: sum.split)

fun auth_step :: "crypto \<Rightarrow> timestamp \<times> auth_request \<Rightarrow> auth_db \<Rightarrow> http_error option \<times> auth_db" where
  "auth_step cx (now, Register e p r) s = settle (auth_register cx now e p r s)"
| "auth_step cx (now, Login e p m) s = settle (login cx now e p m s)"
| "auth_step cx (now, Refresh raw) s = settle (refresh cx now raw s)"
| "auth_step cx (now, Logout raw u) s = settle (logout cx now raw u s)"
| "auth_step cx (now, VerifyEmail t) s = settle (verifyEmail cx now t s)"
| "auth_step cx (now, ResendVerification e) s = settle (resendVerification cx now e s)"
| "auth_step cx (now, ForgotPassword e) s = settle (forgotPassword cx now e s)"
| "auth_step cx (now, ResetPassword t p) s = settle (resetPassword cx now t p s)"
| "auth_step cx (now, MfaSetup u) s = settle (generateSecret cx u s)"
| "auth_step cx (now, MfaEnable u c) s = settle (verifyAndEnable cx now u c s)"
| "auth_step cx (now, MfaDisable u c) s = settle (mfa_disable cx now u c s)"
| "auth_step cx (now, MfaRegenerate u c) s = settle (regenerateBackupCodes cx now u c s)"
| "auth_step cx (now, GoogleLogin e pic) s = settle (googleLogin cx now e pic s)"
| "auth_step cx (now, GenerateApiKey u n) s = settle (generateApiKey cx now u n s)"
| "auth_step cx (now, RevokeApiKey i u) s = (None, revokeApiKey now i u s)"
| "auth_step cx (now, ApiKeyRequest k) s = settle (api_key_login cx now k s)"
| "auth_step cx (now, BanUser i b) s = settle (update_user i (\<lambda>u. u\<lparr>u_isBanned := b\<rparr>) s)"

subsection \<open>What a request does to the tokens\<close>

text \<open>Every service is a sequence of these moves at the time of the request.\<close>

inductive token_move :: "crypto \<Rightarrow> timestamp \<Rightarrow> auth_db \<Rightarrow> auth_db \<Rightarrow> bool" for cx now where
  Quiet: "au_refresh s' = au_refresh s \<Longrightarrow> au_resets s' = au_resets s \<Longrightarrow> au_fresh s \<le> au_fresh s' \<Longrightarrow>
    au_random s \<le> au_random s' \<Longrightarrow> token_move cx now s s'"
| Issue: "au_refresh s' = au_refresh s @ [t] \<Longrightarrow> au_resets s' = au_resets s \<Longrightarrow> rf_id t = au_fresh s \<Longrightarrow>
    rf_tokenHash t = cx_sha256 cx (cx_random cx (au_random s)) \<Longrightarrow> au_fresh s < au_fresh s' \<Longrightarrow>
    au_random s < au_random s' \<Longrightarrow> token_move cx now s s'"
| Revoke: "t \<in> set (au_refresh s) \<Longrightarrow> au_refresh s' = save_row rf_id (t\<lparr>rf_revoked := True\<rparr>) (au_refresh s) \<Longrightarrow>
    au_resets s' = au_resets s \<Longrightarrow> au_fresh s' = au_fresh s \<Longrightarrow> au_random s' = au_random s \<Longrightarrow> token_move cx now s s'"
| IssueReset: "au_resets s' = au_resets s @ [x] \<Longrightarrow> au_refresh s' = au_refresh s \<Longrightarrow> rx_id x = au_fresh s \<Longrightarrow>
    rx_tokenHash x = cx_sha256 cx (cx_random cx (au_random s)) \<Longrightarrow> rx_createdAt x = now \<Longrightarrow>
    recent_resets now (rx_userId x) s < 3 \<Longrightarrow> au_fresh s < au_fresh s' \<Longrightarrow> au_random s < au_random s' \<Longrightarrow>
    token_move cx now s s'"
| UseReset: "x \<in> set (au_resets s) \<Longrightarrow> au_resets s' = save_row rx_id (x\<lparr>rx_used := True\<rparr>) (au_resets s) \<Longrightarrow>
    au_refresh s' = au_refresh s \<Longrightarrow> au_fresh s' = au_fresh s \<Longrightarrow> au_random s' = au_random s \<Longrightarrow> token_move cx now s s'"

abbreviation token_moves :: "crypto \<Rightarrow> timestamp \<Rightarrow> auth_db \<Rightarrow> auth_db \<Rightarrow> bool" where
  "token_moves cx now \<equiv> (token_move cx now)\<^sup>*\<^sup>*"

named_theorems moves "services as sequences of moves"

lemma quiet [intro]:
  "au_refresh s' = au_refresh s \<Longrightarrow> au_resets s' = au_resets s \<Longrightarrow> au_fresh s \<le> au_fresh s' \<Longrightarrow>
   au_random s \<le> au_random s' \<Longrightarrow> token_moves cx now s s'"
  by (rule r_into_rtranclp) (rule Quiet)

lemma moves_await [moves]:
  assumes "token_moves cx now s (snd r)" "\<And>x s1. token_moves cx now s1 (snd (k x s1))"
  shows "token_moves cx now s (snd (await r k))"
proof (cases "fst r")
  case (Inl e)
  then have "await r k = (Inl e, snd r)" by (cases r) simp
  with assms(1) show ?thesis by simp
next
  case (Inr x)
  then have "await r k = k x (snd r)" by (cases r) simp
  with assms show ?thesis by (simp add: rtranclp_trans)
qed

lemma moves_quiet [moves]:
  "token_moves cx now s (snd (update_user i f s))" "token_moves cx now s (log_audit now' a u b s)"
  "token_moves cx now s (snd (draw cx s))" "token_moves cx now s (snd (generateBackupCodes cx n s))"
  "token_moves cx now s (snd (send_mail cx to tk s))" "token_moves cx now s (snd (create_user d s))"
  by (intro quiet; simp add: draw_def generateBackupCodes_def send_mail_def create_user_def split: prod.split)+

lemma moves_issueTokenPair [moves]: "token_moves cx now s (snd (issueTokenPair cx now' u e r s))"
proof -
  let ?t = "\<lparr>rf_id = au_fresh s, rf_tokenHash = cx_sha256 cx (cx_random cx (au_random s)), rf_userId = u,
    rf_expiresAt = now' + 24 * 7 * 60 * 60 * 1000, rf_revoked = False, rf_createdAt = now'\<rparr>"
  have "au_refresh (snd (issueTokenPair cx now' u e r s)) = au_refresh s @ [?t]"
    by (simp add: issueTokenPair_def generateOpaqueToken_def hashToken_def Let_def)
  then have "token_move cx now s (snd (issueTokenPair cx now' u e r s))"
    by (rule Issue) (simp_all add: issueTokenPair_def generateOpaqueToken_def Let_def)
  then show ?thesis by (rule r_into_rtranclp)
qed

lemma moves_revoke_row:
  assumes "t \<in> set (au_refresh s)"
  shows "token_moves cx now s (revoke_row t s)"
  by (rule r_into_rtranclp, rule Revoke[OF assms]) (simp_all add: revoke_row_def)

lemma live_refresh_mem: "live_refresh cx raw s = Some t \<Longrightarrow>
    t \<in> set (au_refresh s) \<and> rf_tokenHash t = cx_sha256 cx raw \<and> \<not> rf_revoked t"
  by (auto simp: live_refresh_def hashToken_def dest: find_SomeD)

lemma live_reset_mem: "live_reset cx raw s = Some t \<Longrightarrow>
    t \<in> set (au_resets s) \<and> rx_tokenHash t = cx_sha256 cx raw \<and> \<not> rx_used t"
  by (auto simp: live_reset_def hashToken_def dest: find_SomeD)

lemma moves_refresh [moves]: "token_moves cx now s (snd (refresh cx now raw s))"
proof (cases "live_refresh cx raw s")
  case None
  then show ?thesis by (simp add: refresh_def)
next
  case (Some t)
  have "token_moves cx now s (revoke_row t s)"
    using live_refresh_mem[OF Some] by (intro moves_revoke_row) simp
  then show ?thesis
    using Some rtranclp_trans[OF _ moves_issueTokenPair[where s = "revoke_row t s"]]
    by (auto simp: refresh_def Let_def split: option.split)
qed

lemma moves_revokeRefreshToken [moves]: "token_moves cx now s (revokeRefreshToken cx now raw u s)"
proof (cases "live_refresh cx raw s")
  case None
  then show ?thesis by (simp add: revokeRefreshToken_def moves)
next
  case (Some t)
  have "token_moves cx now s (revoke_row t s)"
    using live_refresh_mem[OF Some] by (intro moves_revoke_row) simp
  with Some show ?thesis by (auto simp: revokeRefreshToken_def Let_def intro: rtranclp_trans moves)
qed

lemma moves_generateOpaqueToken:
  "generateOpaqueToken cx now' h s = ((a, b, c), s1) \<Longrightarrow> token_moves cx now s s1"
  by (intro quiet) (auto simp: generateOpaqueToken_def Let_def)

lemmas moves_after = moves_quiet[THEN rtranclp_trans[rotated]] moves_issueTokenPair[THEN rtranclp_trans[rotated]]

lemma moves_draws: "au_random s \<le> n \<Longrightarrow> token_moves cx now s (s\<lparr>au_random := n\<rparr>)"
  by (rule quiet) simp_all

lemma moves_register [moves]: "token_moves cx now s (snd (auth_register cx now' e p r s))"
proof (cases "findByEmail e (au_core s)")
  case None
  have "token_moves cx now s (s\<lparr>au_random := Suc (Suc (au_random s))\<rparr>)" by (rule moves_draws) simp
  with None show ?thesis
    unfolding auth_register_def generateOpaqueToken_def draw_def Let_def
    by (auto intro!: moves_await moves_quiet moves_after(6))
qed (simp add: auth_register_def)

lemma moves_verifyEmail [moves]: "token_moves cx now s (snd (verifyEmail cx now' t s))"
  unfolding verifyEmail_def
  by (auto split: option.split intro!: moves_await moves_quiet)

lemma moves_resend [moves]: "token_moves cx now s (snd (resendVerification cx now' e s))"
proof -
  have d: "token_moves cx now s (s\<lparr>au_random := Suc (au_random s)\<rparr>)" by (rule moves_draws) simp
  show ?thesis
    unfolding resendVerification_def generateOpaqueToken_def Let_def
    by (auto split: option.split intro!: moves_await moves_quiet moves_after(1)[OF d])
qed

lemma moves_verifyCode [moves]: "token_moves cx now s (snd (verifyCode cx now' u c s))"
  unfolding verifyCode_def useBackupCode_def Let_def
  by (auto split: option.split intro!: moves_await moves_quiet)

lemma moves_login_success [moves]: "token_moves cx now s (snd (login_success cx now' u s))"
  unfolding login_success_def Let_def
  using moves_issueTokenPair[of cx now s now' "u_id u" "u_email u" "u_role u"]
  by (auto split: prod.split intro: moves_after)

lemma moves_login [moves]: "token_moves cx now s (snd (login cx now' e p m s))"
  unfolding login_def login_failure_def
  by (auto split: option.split intro!: moves_await moves_quiet moves_verifyCode moves_login_success)

lemma moves_mfa [moves]:
  "token_moves cx now s (snd (generateSecret cx u s))"
  "token_moves cx now s (snd (verifyAndEnable cx now' u c s))"
  "token_moves cx now s (snd (mfa_disable cx now' u c s))"
  "token_moves cx now s (snd (regenerateBackupCodes cx now' u c s))"
  unfolding generateSecret_def verifyAndEnable_def mfa_disable_def regenerateBackupCodes_def Let_def
  by (auto split: option.split prod.split simp: draw_def generateBackupCodes_def
      intro!: moves_await moves_quiet moves_after(1)[OF moves_draws])

lemma moves_forgotPassword [moves]: "token_moves cx now s (snd (forgotPassword cx now e s))"
proof (cases "findByEmail e (au_core s)")
  case None
  then show ?thesis by (simp add: forgotPassword_def)
next
  case (Some u)
  show ?thesis
  proof (cases "3 \<le> recent_resets now (u_id u) s")
    case True
    with Some show ?thesis by (simp add: forgotPassword_def)
  next
    case False
    let ?x = "\<lparr>rx_id = au_fresh s, rx_tokenHash = hashToken cx (cx_random cx (au_random s)), rx_userId = u_id u,
      rx_expiresAt = now + 1 * 60 * 60 * 1000, rx_used = False, rx_createdAt = now\<rparr>"
    let ?s = "s\<lparr>au_random := Suc (au_random s), au_resets := au_resets s @ [?x], au_fresh := Suc (au_fresh s)\<rparr>"
    have "token_move cx now s ?s"
      using False by (intro IssueReset[where x = ?x]) (simp_all add: hashToken_def)
    then have "token_moves cx now s ?s" by (rule r_into_rtranclp)
    with Some False show ?thesis
      unfolding forgotPassword_def generateOpaqueToken_def Let_def
      by (auto intro!: moves_await moves_quiet moves_after(5))
  qed
qed

lemma moves_resetPassword [moves]: "token_moves cx now s (snd (resetPassword cx now t p s))"
proof (cases "live_reset cx t s")
  case None
  then show ?thesis by (simp add: resetPassword_def)
next
  case (Some x)
  let ?r = "update_user (rx_userId x) (\<lambda>u. u\<lparr>u_passwordHash := cx_bcrypt cx p\<rparr>) s"
  let ?s = "\<lambda>s1. s1\<lparr>au_resets := save_row rx_id (x\<lparr>rx_used := True\<rparr>) (au_resets s1)\<rparr>"
  have resets: "au_resets (snd ?r) = au_resets s" by simp
  have "token_move cx now (snd ?r) (?s (snd ?r))"
    using live_reset_mem[OF Some] resets by (intro UseReset[where x = x]) simp_all
  then have "token_moves cx now s (?s (snd ?r))" by (rule rtranclp.rtrancl_into_rtrancl[OF moves_quiet(1)])
  then show ?thesis
    using Some by (cases ?r; cases "fst ?r") (auto simp: resetPassword_def update_user_def split: prod.splits
        intro: moves_after quiet)
qed

lemma moves_google [moves]: "token_moves cx now s (snd (googleLogin cx now' e pic s))"
  unfolding googleLogin_def draw_def Let_def
  by (auto split: option.split intro!: moves_await moves_issueTokenPair moves_after(6)[OF moves_draws])

lemma moves_keys [moves]:
  "token_moves cx now s (snd (generateApiKey cx now' u n s))" "token_moves cx now s (revokeApiKey now' i w s)"
  "token_moves cx now s (snd (api_key_login cx now' k s))"
  by (intro quiet; simp add: generateApiKey_def add_key_def store_key_def revokeApiKey_def api_key_login_def Let_def
      split: option.split prod.split sum.split)+

lemma auth_step_moves: "token_moves cx now s (snd (auth_step cx (now, r) s))"
  by (cases r) (simp_all add: moves logout_def)

subsection \<open>Tokens in reachable states\<close>

text \<open>No two random strings have the same hash.\<close>

definition fresh_tokens :: "crypto \<Rightarrow> bool" where
  "fresh_tokens cx \<longleftrightarrow> inj (\<lambda>n. cx_sha256 cx (cx_random cx n))"

definition issued_hash :: "crypto \<Rightarrow> string \<Rightarrow> auth_db \<Rightarrow> bool" where
  "issued_hash cx h s \<longleftrightarrow> (\<exists>i < au_random s. h = cx_sha256 cx (cx_random cx i))"

definition tokens_ok :: "crypto \<Rightarrow> auth_db \<Rightarrow> bool" where
  "tokens_ok cx s \<longleftrightarrow>
     distinct (map rf_id (au_refresh s)) \<and> distinct (map rf_tokenHash (au_refresh s)) \<and>
     (\<forall>t \<in> set (au_refresh s). rf_id t < au_fresh s \<and> issued_hash cx (rf_tokenHash t) s) \<and>
     distinct (map rx_id (au_resets s)) \<and> distinct (map rx_tokenHash (au_resets s)) \<and>
     (\<forall>x \<in> set (au_resets s). rx_id x < au_fresh s \<and> issued_hash cx (rx_tokenHash x) s)"

lemma issued_hash_mono:
  assumes "issued_hash cx h s" "au_random s \<le> au_random s'"
  shows "issued_hash cx h s'"
proof -
  obtain i where "i < au_random s" "h = cx_sha256 cx (cx_random cx i)" using assms(1) by (auto simp: issued_hash_def)
  with assms(2) show ?thesis unfolding issued_hash_def by (intro exI[of _ i]) simp
qed

lemma not_issued_yet: "fresh_tokens cx \<Longrightarrow> \<not> issued_hash cx (cx_sha256 cx (cx_random cx (au_random s))) s"
  by (auto simp: fresh_tokens_def issued_hash_def inj_def)

lemma issued_next: "au_random s < au_random s' \<Longrightarrow> issued_hash cx (cx_sha256 cx (cx_random cx (au_random s))) s'"
  by (auto simp: issued_hash_def)

lemma tokens_ok_move:
  assumes "fresh_tokens cx" "token_move cx now s s'" "tokens_ok cx s"
  shows "tokens_ok cx s'"
  using assms(2)
proof cases
  case Quiet
  with assms(3) show ?thesis by (auto simp: tokens_ok_def intro: issued_hash_mono)
next
  case (Issue t)
  have "rf_tokenHash t \<notin> rf_tokenHash ` set (au_refresh s)" "rf_id t \<notin> rf_id ` set (au_refresh s)"
    using assms(3) not_issued_yet[OF assms(1)] Issue(3,4) unfolding tokens_ok_def by (metis imageE, force)
  with Issue assms(3) show ?thesis
    unfolding tokens_ok_def by (auto intro: issued_hash_mono issued_next)
next
  case (Revoke t)
  have same: "map rf_id (au_refresh s') = map rf_id (au_refresh s)" "map rf_tokenHash (au_refresh s') = map rf_tokenHash (au_refresh s)"
    using assms(3) Revoke(1) unfolding Revoke(2) tokens_ok_def by (intro map_save_row_same; simp)+
  have "\<forall>x \<in> set (au_refresh s'). rf_id x < au_fresh s \<and> issued_hash cx (rf_tokenHash x) s"
    using assms(3) Revoke(1,2) by (auto simp: tokens_ok_def set_save_row)
  with assms(3) Revoke(3-) same show ?thesis by (simp add: tokens_ok_def issued_hash_def)
next
  case (IssueReset x)
  have "rx_tokenHash x \<notin> rx_tokenHash ` set (au_resets s)" "rx_id x \<notin> rx_id ` set (au_resets s)"
    using assms(3) not_issued_yet[OF assms(1)] IssueReset(3,4) unfolding tokens_ok_def by (metis imageE, force)
  with IssueReset assms(3) show ?thesis
    unfolding tokens_ok_def by (auto intro: issued_hash_mono issued_next)
next
  case (UseReset x)
  have same: "map rx_id (au_resets s') = map rx_id (au_resets s)" "map rx_tokenHash (au_resets s') = map rx_tokenHash (au_resets s)"
    using assms(3) UseReset(1) unfolding UseReset(2) tokens_ok_def by (intro map_save_row_same; simp)+
  have "\<forall>y \<in> set (au_resets s'). rx_id y < au_fresh s \<and> issued_hash cx (rx_tokenHash y) s"
    using assms(3) UseReset(1,2) by (auto simp: tokens_ok_def set_save_row)
  with assms(3) UseReset(3-) same show ?thesis by (simp add: tokens_ok_def issued_hash_def)
qed

lemma tokens_ok_moves:
  assumes "token_moves cx now s s'" "fresh_tokens cx" "tokens_ok cx s"
  shows "tokens_ok cx s'"
  using assms by (induction rule: rtranclp_induct) (auto intro: tokens_ok_move)

definition spent_refresh :: "crypto \<Rightarrow> string \<Rightarrow> auth_db \<Rightarrow> bool" where
  "spent_refresh cx raw s \<longleftrightarrow> fresh_tokens cx \<and> issued_hash cx (cx_sha256 cx raw) s \<and>
     (\<forall>t \<in> set (au_refresh s). rf_tokenHash t = cx_sha256 cx raw \<longrightarrow> rf_revoked t)"

definition spent_reset :: "crypto \<Rightarrow> string \<Rightarrow> auth_db \<Rightarrow> bool" where
  "spent_reset cx raw s \<longleftrightarrow> fresh_tokens cx \<and> issued_hash cx (cx_sha256 cx raw) s \<and>
     (\<forall>x \<in> set (au_resets s). rx_tokenHash x = cx_sha256 cx raw \<longrightarrow> rx_used x)"

lemma spent_move:
  assumes "token_move cx now s s'"
  shows "spent_refresh cx raw s \<Longrightarrow> spent_refresh cx raw s'" "spent_reset cx raw s \<Longrightarrow> spent_reset cx raw s'"
proof -
  have grow: "au_random s \<le> au_random s'" using assms by cases auto
  note issued = issued_hash_mono[OF _ grow]
  show "spent_refresh cx raw s'" if "spent_refresh cx raw s"
    using assms that issued not_issued_yet[of cx s]
    by cases (auto simp: spent_refresh_def set_save_row)
  show "spent_reset cx raw s'" if "spent_reset cx raw s"
    using assms that issued not_issued_yet[of cx s]
    by cases (auto simp: spent_reset_def set_save_row)
qed

lemma spent_moves:
  assumes "token_moves cx now s s'"
  shows "spent_refresh cx raw s \<Longrightarrow> spent_refresh cx raw s'" "spent_reset cx raw s \<Longrightarrow> spent_reset cx raw s'"
  using assms by (induction rule: rtranclp_induct) (auto intro: spent_move)

text \<open>Redeeming spends.\<close>

lemma refresh_spends:
  assumes "fresh_tokens cx" "tokens_ok cx s" "succeeds (refresh cx now raw s)"
  shows "spent_refresh cx raw (snd (refresh cx now raw s))"
proof -
  obtain t where t: "live_refresh cx raw s = Some t" "\<not> rf_expiresAt t < now"
    using assms(3) by (auto simp: refresh_def split: option.splits if_splits)
  note mem = live_refresh_mem[OF t(1)]
  have "spent_refresh cx raw (revoke_row t s)"
  proof -
    have "y = t" if "y \<in> set (au_refresh s)" "rf_tokenHash y = cx_sha256 cx raw" for y
      using that mem assms(2) by (auto simp: tokens_ok_def distinct_map inj_on_def)
    moreover have "issued_hash cx (cx_sha256 cx raw) s" using mem assms(2) by (auto simp: tokens_ok_def)
    ultimately show ?thesis
      using assms(1) by (auto simp: spent_refresh_def revoke_row_def set_save_row issued_hash_def)
  qed
  then have "spent_refresh cx raw (snd (issueTokenPair cx now u e r (revoke_row t s)))" for u e r
    by (rule spent_moves(1)[OF moves_issueTokenPair])
  with t \<open>spent_refresh cx raw (revoke_row t s)\<close> show ?thesis
    by (auto simp: refresh_def Let_def split: option.split)
qed

lemma reset_spends:
  assumes "fresh_tokens cx" "tokens_ok cx s" "succeeds (resetPassword cx now raw pw s)"
  shows "spent_reset cx raw (snd (resetPassword cx now raw pw s))"
proof -
  obtain x where x: "live_reset cx raw s = Some x" "\<not> rx_expiresAt x < now"
    using assms(3) by (auto simp: resetPassword_def split: option.splits if_splits)
  let ?f = "\<lambda>u. u\<lparr>u_passwordHash := cx_bcrypt cx pw\<rparr>"
  obtain u s1 where s1: "update_user (rx_userId x) ?f s = (Inr u, s1)"
    using assms(3) x by (auto simp: resetPassword_def succeeds_await)
  have same: "au_resets s1 = au_resets s" "au_random s1 = au_random s"
    using update_user_simps[of "rx_userId x" ?f s] unfolding s1 by simp_all
  note mem = live_reset_mem[OF x(1)]
  have "y = x" if "y \<in> set (au_resets s)" "rx_tokenHash y = cx_sha256 cx raw" for y
    using that mem assms(2) by (auto simp: tokens_ok_def distinct_map inj_on_def)
  moreover have "issued_hash cx (cx_sha256 cx raw) s" using mem assms(2) by (auto simp: tokens_ok_def)
  ultimately show ?thesis
    using assms(1) x s1 same by (auto simp: resetPassword_def spent_reset_def set_save_row issued_hash_def)
qed

interpretation sessions: one_time_secret "auth_step cx" "\<lambda>s. fresh_tokens cx \<and> tokens_ok cx s"
    "\<lambda>now raw. refresh cx now raw" "spent_refresh cx" for cx
proof
  fix s c assume "fresh_tokens cx \<and> tokens_ok cx s"
  then show "fresh_tokens cx \<and> tokens_ok cx (snd (auth_step cx c s))"
    using tokens_ok_moves[OF auth_step_moves] by (cases c) blast
next
  fix s raw and now :: timestamp assume "spent_refresh cx raw s"
  then have "live_refresh cx raw s = None"
    by (auto simp: spent_refresh_def live_refresh_def hashToken_def find_None)
  then show "\<not> succeeds (refresh cx now raw s)" by (simp add: refresh_def)
next
  fix s raw c assume "spent_refresh cx raw s"
  then show "spent_refresh cx raw (snd (auth_step cx c s))"
    using spent_moves(1)[OF auth_step_moves] by (cases c) blast
qed (auto intro: refresh_spends)

interpretation resets: one_time_secret "auth_step cx" "\<lambda>s. fresh_tokens cx \<and> tokens_ok cx s"
    "\<lambda>(now, pw) token. resetPassword cx now token pw" "spent_reset cx" for cx
proof
  fix s raw and i :: "timestamp \<times> string" assume "spent_reset cx raw s"
  then have "live_reset cx raw s = None"
    by (auto simp: spent_reset_def live_reset_def hashToken_def find_None)
  then show "\<not> succeeds ((case i of (now, pw) \<Rightarrow> \<lambda>token. resetPassword cx now token pw) raw s)"
    by (simp add: resetPassword_def split: prod.split)
next
  fix s raw c assume "spent_reset cx raw s"
  then show "spent_reset cx raw (snd (auth_step cx c s))"
    using spent_moves(2)[OF auth_step_moves] by (cases c) blast
qed (auto intro: reset_spends split: prod.splits)

subsection \<open>The rate of password resets\<close>

definition resets_in_hour :: "timestamp \<Rightarrow> uuid \<Rightarrow> auth_db \<Rightarrow> nat" where
  "resets_in_hour t u s = count_rows (\<lambda>x. rx_userId x = u \<and> t - hour_ms < rx_createdAt x \<and> rx_createdAt x \<le> t) (au_resets s)"

definition resets_limited :: "crypto \<Rightarrow> timestamp \<Rightarrow> auth_db \<Rightarrow> bool" where
  "resets_limited cx now s \<longleftrightarrow> fresh_tokens cx \<and> tokens_ok cx s \<and> (\<forall>x \<in> set (au_resets s). rx_createdAt x \<le> now) \<and>
     (\<forall>t u. resets_in_hour t u s \<le> 3)"

lemma count_rows_append: "count_rows P (xs @ ys) = count_rows P xs + count_rows P ys"
  by (simp add: count_rows_def)

lemma count_rows_mono:
  "(\<And>x. x \<in> set xs \<Longrightarrow> P x \<Longrightarrow> Q x) \<Longrightarrow> count_rows P xs \<le> count_rows Q xs"
  by (induction xs) (auto simp: count_rows_def)

lemma resets_limited_move:
  assumes "token_move cx now s s'" "resets_limited cx now s"
  shows "resets_limited cx now s'"
proof -
  have ok: "fresh_tokens cx" "tokens_ok cx s'"
    using assms tokens_ok_move[OF _ assms(1)] by (auto simp: resets_limited_def)
  from assms(1) show ?thesis
  proof cases
    case (IssueReset x)
    have "resets_in_hour t u s' \<le> 3" for t u
    proof (cases "rx_userId x = u \<and> t - hour_ms < now \<and> now \<le> t")
      case True
      have "resets_in_hour t u s \<le> recent_resets now u s"
        unfolding resets_in_hour_def recent_resets_def using True by (intro count_rows_mono) auto
      with True IssueReset(1,5,6) show ?thesis
        by (simp add: resets_in_hour_def count_rows_append) (simp add: count_rows_def)
    next
      case False
      then have "resets_in_hour t u s' = resets_in_hour t u s"
        using IssueReset(1,5) by (auto simp: resets_in_hour_def count_rows_append count_rows_def)
      with assms(2) show ?thesis by (simp add: resets_limited_def)
    qed
    with IssueReset(1,5) assms(2) ok show ?thesis by (auto simp: resets_limited_def)
  next
    case (UseReset x)
    have keep: "map (\<lambda>x. (rx_userId x, rx_createdAt x)) (au_resets s') = map (\<lambda>x. (rx_userId x, rx_createdAt x)) (au_resets s)"
      unfolding UseReset(2) using assms(2) UseReset(1)
      by (intro map_save_row_same) (simp_all add: resets_limited_def tokens_ok_def)
    have "resets_in_hour t u s' = resets_in_hour t u s" for t u
    proof -
      have "resets_in_hour t u w = count_rows (\<lambda>(v, c). v = u \<and> t - hour_ms < c \<and> c \<le> t)
          (map (\<lambda>x. (rx_userId x, rx_createdAt x)) (au_resets w))" for w
        by (simp add: resets_in_hour_def count_rows_map[symmetric])
      then show ?thesis using keep by simp
    qed
    moreover have "\<forall>y \<in> set (au_resets s'). rx_createdAt y \<le> now"
      using assms(2) UseReset(1,2) by (auto simp: resets_limited_def set_save_row)
    ultimately show ?thesis using assms(2) ok by (simp add: resets_limited_def)
  qed (use assms(2) ok in \<open>auto simp: resets_limited_def resets_in_hour_def\<close>)
qed

lemma resets_limited_moves: "token_moves cx now s s' \<Longrightarrow> resets_limited cx now s \<Longrightarrow> resets_limited cx now s'"
  by (induction rule: rtranclp_induct) (auto intro: resets_limited_move)

lemma resets_limited_later: "resets_limited cx now s \<Longrightarrow> now \<le> now' \<Longrightarrow> resets_limited cx now' s"
  unfolding resets_limited_def by (meson order_trans)

lemma resets_limited_run:
  assumes "resets_limited cx now s" "sorted (map fst rs)" "\<forall>r \<in> set rs. now \<le> fst r"
  shows "\<exists>last. resets_limited cx last (run_ops (auth_step cx) rs s)"
  using assms
proof (induction rs arbitrary: now s)
  case (Cons r rs)
  obtain t q where r: "r = (t, q)" by (cases r)
  have "now \<le> t" using Cons.prems(3) r by simp
  then have "resets_limited cx t s" by (rule resets_limited_later[OF Cons.prems(1)])
  then have "resets_limited cx t (snd (auth_step cx r s))"
    unfolding r by (rule resets_limited_moves[OF auth_step_moves])
  moreover have "sorted (map fst rs)" "\<forall>q \<in> set rs. t \<le> fst q" using Cons.prems(2) r by auto
  ultimately have "\<exists>last. resets_limited cx last (run_ops (auth_step cx) rs (snd (auth_step cx r s)))" by (rule Cons.IH)
  then show ?case by simp
qed (auto intro: exI)

subsection \<open>Properties\<close>

text \<open>C2: A refresh token is good for one refresh: once it has been accepted, no later attempt with it
  succeeds, at any time and after any requests, logins and other refreshes included; the invariant
  behind it (hashes and ids of all tokens are unique and issued) holds in every reachable state.\<close>

theorem refresh_token_single_use:
  assumes "fresh_tokens cx" "tokens_ok cx s"
    and "succeeds (refresh cx now raw (run_ops (auth_step cx) rs s))"
  shows "\<not> succeeds (refresh cx later raw (run_ops (auth_step cx) rs'
      (snd (refresh cx now raw (run_ops (auth_step cx) rs s))))) \<and>
    tokens_ok cx (run_ops (auth_step cx) rs s)"
  using sessions.never_twice[of cx] sessions.run_preserves[of cx s rs] assms by blast

definition toy_random :: "nat \<Rightarrow> string" where
  "toy_random n = string_of_nat n"

definition plain_crypto :: crypto where
  "plain_crypto = \<lparr>cx_random = toy_random, cx_sha256 = (\<lambda>x. x), cx_jwt = (\<lambda>_ e _. e), cx_bcrypt = (\<lambda>p. p),
     cx_compare = (=), cx_totp = (\<lambda>_ c k. c = k), cx_cipher = (\<lambda>_ x. x), cx_decipher = (\<lambda>_. Some), cx_mail = (\<lambda>_ _. True)\<rparr>"

definition one_account :: auth_db where
  "one_account = \<lparr>au_core = empty_core\<lparr>users := [(new_user 10 ''a'')\<lparr>u_passwordHash := ''pw'', u_isVerified := True\<rparr>], fresh := 11\<rparr>,
     au_refresh = [], au_resets = [], au_keys = [], au_audit = [], au_mails = [], au_fresh = 20, au_random = 3\<rparr>"

lemma plain_fresh: "fresh_tokens plain_crypto"
  by (auto simp: fresh_tokens_def plain_crypto_def toy_random_def inj_def string_of_nat_inject)

lemma plain_account: "tokens_ok plain_crypto one_account" "users_ok (au_core one_account)"
  by (simp_all add: tokens_ok_def one_account_def users_ok_def new_user_def)

theorem refresh_token_single_use_witness:
  "\<not> succeeds (refresh plain_crypto 200 (toy_random 3) (run_ops (auth_step plain_crypto) [(150, Login ''a'' ''pw'' None)]
     (snd (refresh plain_crypto 100 (toy_random 3) (run_ops (auth_step plain_crypto) [(50, Login ''a'' ''pw'' None)] one_account)))))"
proof -
  have "succeeds (refresh plain_crypto 100 (toy_random 3) (run_ops (auth_step plain_crypto) [(50, Login ''a'' ''pw'' None)] one_account))"
    by (simp add: login_def one_account_def plain_crypto_def findByEmail_def new_user_def login_success_def issueTokenPair_def
        generateOpaqueToken_def refresh_def live_refresh_def hashToken_def find_user_def revoke_row_def Let_def)
  from refresh_token_single_use[OF plain_fresh plain_account(1) this] show ?thesis by blast
qed

text \<open>C6: However the requests are interleaved, no more than three password reset tokens are created for
  a user within any hour, and each of them resets the password at most once.\<close>

theorem password_resets_limited:
  assumes "fresh_tokens cx" "tokens_ok cx s" "au_resets s = []" "sorted (map fst rs)"
  shows "resets_in_hour t u (run_ops (auth_step cx) rs s) \<le> 3 \<and>
    (succeeds (resetPassword cx now raw pw (run_ops (auth_step cx) rs s)) \<longrightarrow>
       \<not> succeeds (resetPassword cx later raw pw' (run_ops (auth_step cx) rs'
           (snd (resetPassword cx now raw pw (run_ops (auth_step cx) rs s))))))"
proof -
  let ?start = "if rs = [] then 0 else fst (hd rs)"
  have "resets_limited cx ?start s"
    using assms(1-3) by (simp add: resets_limited_def resets_in_hour_def count_rows_def)
  moreover have "\<forall>r \<in> set rs. ?start \<le> fst r" using assms(4) by (cases rs) auto
  ultimately obtain latest where "resets_limited cx latest (run_ops (auth_step cx) rs s)"
    using resets_limited_run[OF _ assms(4)] by blast
  then have "resets_in_hour t u (run_ops (auth_step cx) rs s) \<le> 3" by (simp add: resets_limited_def)
  moreover have "fresh_tokens cx \<and> tokens_ok cx (run_ops (auth_step cx) rs s)"
    using sessions.run_preserves[of cx s rs] assms(1,2) by blast
  ultimately show ?thesis
    using resets.never_twice[of cx "run_ops (auth_step cx) rs s" "(now, pw)" raw "(later, pw')" rs'] by auto
qed

theorem password_resets_limited_witness:
  "resets_in_hour 100 10 (run_ops (auth_step plain_crypto) (map (\<lambda>t. (t, ForgotPassword ''a'')) [10, 20, 30, 40]) one_account) \<le> 3"
  using password_resets_limited[OF plain_fresh plain_account(1), of "map (\<lambda>t. (t, ForgotPassword ''a'')) [10, 20, 30, 40]"]
  by (simp add: one_account_def)

lemma verifyCode_random [simp]: "au_random (snd (verifyCode cx now u c s)) = au_random s"
proof -
  have keep: "au_random (snd (await r k)) = au_random s"
    if "au_random (snd r) = au_random s" "\<And>x s1. au_random s1 = au_random s \<Longrightarrow> au_random (snd (k x s1)) = au_random s"
    for r :: "(auth_db, 'a) outcome" and k :: "'a \<Rightarrow> auth_db \<Rightarrow> (auth_db, bool) outcome"
    using that by (cases r; cases "fst r") auto
  show ?thesis
    unfolding verifyCode_def useBackupCode_def Let_def
    by (auto split: option.split intro!: keep)
qed

text \<open>C4: Who gets tokens from a login: exactly the one who gives the right password of an account that
  is not banned, is verified, has a second factor if it is an administrator's, and, where a second
  factor is enabled, gives a code that the check accepts. The tokens are then the account's: its id,
  email and role in the access token and a new random refresh token.\<close>

theorem login_grants:
  "fst (login cx now email password mfaToken s) = Inr (Tokens access raw) \<longleftrightarrow>
     (\<exists>u. findByEmail email (au_core s) = Some u \<and> cx_compare cx password (u_passwordHash u) \<and>
        \<not> u_isBanned u \<and> u_isVerified u \<and> (u_role u = ''admin'' \<longrightarrow> u_mfaEnabled u) \<and>
        (u_mfaEnabled u \<longrightarrow> given mfaToken \<and> fst (verifyCode cx now (u_id u) (the mfaToken) s) = Inr True) \<and>
        access = cx_jwt cx (u_id u) (u_email u) (u_role u) \<and> raw = cx_random cx (au_random s))"
proof -
  have ok: "fst (login_success cx now u s1) = Inr (Tokens access raw) \<longleftrightarrow>
      access = cx_jwt cx (u_id u) (u_email u) (u_role u) \<and> raw = cx_random cx (au_random s1)" for u s1
    by (auto simp: login_success_def issueTokenPair_def generateOpaqueToken_def Let_def)
  have code: "fst (await (verifyCode cx now i c s) (\<lambda>valid s1.
        if \<not> valid then login_failure now v e s1 else login_success cx now u s1)) = Inr (Tokens access raw) \<longleftrightarrow>
      fst (verifyCode cx now i c s) = Inr True \<and> access = cx_jwt cx (u_id u) (u_email u) (u_role u) \<and>
      raw = cx_random cx (au_random s)" for i c v e u
    using verifyCode_random[of cx now i c s]
    by (cases "verifyCode cx now i c s"; cases "fst (verifyCode cx now i c s)") (auto simp: login_failure_def ok)
  show ?thesis
    by (cases "findByEmail email (au_core s)") (auto simp: login_def ok code login_failure_def)
qed

theorem login_grants_witness:
  "fst (login plain_crypto 5 ''a'' ''pw'' None one_account) = Inr (Tokens ''a'' (toy_random 3))"
  by (subst login_grants) (simp add: one_account_def plain_crypto_def findByEmail_def new_user_def)

text \<open>Asking for a new MFA secret switches the second factor off without asking for a code: from then
  on, until a first code is confirmed, the password alone signs in to an account that was protected
  before (an administrator's excepted, which cannot sign in at all).\<close>

theorem mfa_setup_disarms:
  assumes "users_ok (au_core s)" "findByEmail email (au_core s) = Some u" "u_mfaEnabled u"
    and "cx_compare cx password (u_passwordHash u)" "\<not> u_isBanned u" "u_isVerified u"
  shows "succeeds (generateSecret cx (u_id u) s) \<and>
    (if u_role u = ''admin''
     then \<not> succeeds (login cx now email password c (snd (generateSecret cx (u_id u) s)))
     else \<exists>access raw. fst (login cx now email password None (snd (generateSecret cx (u_id u) s))) = Inr (Tokens access raw))"
proof -
  have u: "u \<in> set (users (au_core s))" "u_email u = email" using findByEmail_SomeD[OF assms(2)] by auto
  have found: "find_user (u_id u) (au_core s) = Some u" by (rule find_user_of_mem[OF assms(1) u(1)])
  let ?f = "\<lambda>u. u\<lparr>u_mfaSecret := Some (field_encrypt (cx_cipher cx) (cx_random cx (Suc (au_random s))) (cx_random cx (au_random s))),
    u_mfaEnabled := False\<rparr>"
  let ?s = "s\<lparr>au_random := Suc (Suc (au_random s)), au_core := save_user (?f u) (au_core s)\<rparr>"
  have gen: "generateSecret cx (u_id u) s = (Inr (cx_random cx (au_random s)), ?s)"
    using found assms(1)
    by (simp add: generateSecret_def draw_def Let_def update_user_same_keys[where f = ?f and u = u])
  have "users_ok (au_core ?s)"
    using user_update_ok[OF assms(1), of ?f "u_id u"] user_update_same_keys[OF assms(1) found, of ?f] by simp
  moreover have "?f u \<in> set (users (au_core ?s))" by (simp add: set_save_row)
  ultimately have "findByEmail (u_email (?f u)) (au_core ?s) = Some (?f u)" by (rule findByEmail_mem)
  then have "findByEmail email (au_core ?s) = Some (?f u)" using u(2) by simp
  then have "if u_role u = ''admin'' then \<not> succeeds (login cx now email password c ?s)
     else fst (login cx now email password None ?s) =
       Inr (Tokens (cx_jwt cx (u_id u) (u_email u) (u_role u)) (cx_random cx (au_random ?s)))"
    using assms(4-6) by (simp add: login_grants) (simp add: login_def login_failure_def)
  then show ?thesis unfolding gen snd_conv by (cases "u_role u = ''admin''") auto
qed

definition guarded_account :: auth_db where
  "guarded_account = one_account\<lparr>au_core := empty_core\<lparr>users := [(new_user 10 ''a'')\<lparr>u_passwordHash := ''pw'',
     u_isVerified := True, u_mfaEnabled := True, u_mfaSecret := Some ''1:s''\<rparr>], fresh := 11\<rparr>\<rparr>"

theorem mfa_setup_disarms_witness:
  "\<exists>access raw. fst (login plain_crypto 9 ''a'' ''pw'' None (snd (generateSecret plain_crypto 10 guarded_account))) = Inr (Tokens access raw)"
  using mfa_setup_disarms[of guarded_account "''a''" "hd (users (au_core guarded_account))" plain_crypto "''pw''" 9]
  by (simp add: guarded_account_def one_account_def users_ok_def new_user_def findByEmail_def plain_crypto_def empty_core_def)

text \<open>A wallet login proves nothing. Reading a challenge checks the server's own signature only, so
  the challenge the server built for a key can be posted back as it is: it signs in to the account of
  that key, whatever the account's role, its second factor and a ban, or to a new account of the key.\<close>

theorem challenge_signs_in:
  assumes "\<forall>k. read_challenge (build k) = Inr k" "users_ok (au_core s)"
    and "findByStellarPublicKey key (au_core s) = None \<Longrightarrow> findByEmail (key @ ''@stellar.local'') (au_core s) = None"
  shows "\<exists>u. fst (verifyChallenge cx read_challenge now (build key) s) = Inr (cx_jwt cx (u_id u) (u_email u) (u_role u)) \<and>
     u_stellarPublicKey u = Some key \<and>
     u \<in> set (users (au_core (snd (verifyChallenge cx read_challenge now (build key) s))))"
proof (cases "findByStellarPublicKey key (au_core s)")
  case (Some u)
  then have "u \<in> set (users (au_core s))" "u_stellarPublicKey u = Some key"
    by (auto simp: findByStellarPublicKey_def dest: find_SomeD)
  with Some assms(1) show ?thesis by (auto simp: verifyChallenge_def Let_def)
next
  case None
  let ?u = "(new_user (fresh (au_core s)) (key @ ''@stellar.local''))\<lparr>u_stellarPublicKey := Some key, u_passwordHash := [],
    u_isVerified := True, u_createdAt := now\<rparr>"
  have "\<not> clashes ?u v" if "v \<in> set (users (au_core s))" for v
    using that assms(3)[OF None] by (auto simp: clashes_def new_user_def findByEmail_def find_None)
  then have "user_create ((new_user 0 (key @ ''@stellar.local''))\<lparr>u_stellarPublicKey := Some key, u_passwordHash := [],
      u_isVerified := True, u_createdAt := now\<rparr>) (au_core s) = (Inr ?u, save_user ?u ((au_core s)\<lparr>fresh := Suc (fresh (au_core s))\<rparr>))"
    by (auto simp: user_create_def store_user_def new_user_def)
  then have "verifyChallenge cx read_challenge now (build key) s =
      (Inr (cx_jwt cx (u_id ?u) (u_email ?u) (u_role ?u)),
       s\<lparr>au_core := save_user ?u ((au_core s)\<lparr>fresh := Suc (fresh (au_core s))\<rparr>)\<rparr>)"
    using None assms(1) by (simp add: verifyChallenge_def create_user_def Let_def)
  then show ?thesis by (intro exI[of _ ?u]) (simp add: set_save_row)
qed

theorem challenge_signs_in_witness:
  "\<exists>u. fst (verifyChallenge plain_crypto Inr 5 ''G1'' one_account) = Inr (cx_jwt plain_crypto (u_id u) (u_email u) (u_role u)) \<and>
     u_stellarPublicKey u = Some ''G1'' \<and> u \<in> set (users (au_core (snd (verifyChallenge plain_crypto Inr 5 ''G1'' one_account))))"
  by (intro challenge_signs_in[where build = "\<lambda>k. k"])
    (simp_all add: plain_account(2), simp add: one_account_def findByEmail_def new_user_def)

end
