(* ===== verification/ApiKeys.thy ===== *)
theory ApiKeys
  imports Auth
begin

text \<open>
  API keys (\<open>api-keys/api-keys.service.ts\<close>): creation, update, revocation and rotation by the owner,
  and the administrators' listing and forced revocation. Descriptions are stored encrypted, keys as
  hashes.
\<close>

subsection \<open>Reading\<close>

definition decryptApiKey :: "crypto \<Rightarrow> api_key \<Rightarrow> api_key" where
  "decryptApiKey cx k =
     (case ak_description k of
        None \<Rightarrow> k
      | Some d \<Rightarrow>
          if d = [] then k
          else (case field_decrypt (cx_decipher cx) d of None \<Rightarrow> k | Some x \<Rightarrow> k\<lparr>ak_description := Some x\<rparr>))"

definition keys_findByUser :: "crypto \<Rightarrow> uuid \<Rightarrow> auth_db \<Rightarrow> api_key list" where
  "keys_findByUser cx userId s =
     map (decryptApiKey cx) (order_by_desc ak_createdAt (filter (\<lambda>k. ak_userId k = userId) (au_keys s)))"

definition key_row :: "uuid \<Rightarrow> uuid option \<Rightarrow> auth_db \<Rightarrow> api_key option" where
  "key_row i userId s =
     find (\<lambda>k. ak_id k = i \<and> (case userId of None \<Rightarrow> True | Some u \<Rightarrow> ak_userId k = u)) (au_keys s)"

definition keys_findById :: "crypto \<Rightarrow> uuid \<Rightarrow> uuid option \<Rightarrow> auth_db \<Rightarrow> http_error + api_key" where
  "keys_findById cx i userId s =
     (case key_row i userId s of
        None \<Rightarrow> Inl (NotFoundException ''API key not found'') | Some k \<Rightarrow> Inr (decryptApiKey cx k))"

definition maskHash :: "string \<Rightarrow> string" where
  "maskHash hash = ''bst_'' @ take 8 hash @ ''...''"

text \<open>The key as it is shown: description and masked hash.\<close>

definition maskKey :: "crypto \<Rightarrow> api_key \<Rightarrow> api_key \<times> string" where
  "maskKey cx k =
     (let d = decryptApiKey cx k
      in (d\<lparr>ak_description := (if ak_description d = Some [] then None else ak_description d)\<rparr>, maskHash (ak_keyHash k)))"

subsection \<open>Writing\<close>

definition encrypt_description :: "crypto \<Rightarrow> string option \<Rightarrow> auth_db \<Rightarrow> string option \<times> auth_db" where
  "encrypt_description cx description s =
     (if given description
      then (let (iv, s1) = draw cx s in (Some (field_encrypt (cx_cipher cx) iv (the description)), s1))
      else (None, s))"

definition key_create ::
  "crypto \<Rightarrow> timestamp \<Rightarrow> uuid \<Rightarrow> string \<Rightarrow> string option \<Rightarrow> auth_db \<Rightarrow> (auth_db, api_key \<times> string) outcome" where
  "key_create cx now userId name description s =
     (let (enc, s1) = encrypt_description cx description s in add_key cx now userId name enc s1)"

text \<open>A given name and a given description replace the stored ones.\<close>

definition key_update ::
  "crypto \<Rightarrow> uuid \<Rightarrow> uuid \<Rightarrow> string option \<Rightarrow> string option \<Rightarrow> auth_db \<Rightarrow> (auth_db, api_key \<times> string) outcome" where
  "key_update cx i userId name description s =
     (case keys_findById cx i (Some userId) s of
        Inl e \<Rightarrow> (Inl e, s)
      | Inr k \<Rightarrow>
          (let k1 = (case name of None \<Rightarrow> k | Some n \<Rightarrow> k\<lparr>ak_name := n\<rparr>);
               (k2, s1) = (case description of
                             None \<Rightarrow> (k1, s)
                           | Some d \<Rightarrow> (let (enc, s1) = encrypt_description cx (Some d) s in (k1\<lparr>ak_description := enc\<rparr>, s1)))
           in await (store_key k2 s1) (\<lambda>_ s2. (Inr (maskKey cx k2), s2))))"

definition deactivate ::
  "timestamp \<Rightarrow> uuid \<Rightarrow> api_key \<Rightarrow> auth_db \<Rightarrow> (auth_db, unit) outcome" where
  "deactivate now who k s =
     (if \<not> ak_isActive k then (Inl (ConflictException ''API key is already revoked''), s)
      else await (store_key (k\<lparr>ak_isActive := False\<rparr>) s)
             (\<lambda>_ s1. (Inr (), log_audit now ''apikey.revoked'' (Some who) True s1)))"

definition key_revoke :: "crypto \<Rightarrow> timestamp \<Rightarrow> uuid \<Rightarrow> uuid \<Rightarrow> auth_db \<Rightarrow> (auth_db, unit) outcome" where
  "key_revoke cx now i userId s =
     (case keys_findById cx i (Some userId) s of
        Inl e \<Rightarrow> (Inl e, s)
      | Inr k \<Rightarrow> deactivate now userId k s)"

definition adminForceRevoke :: "crypto \<Rightarrow> timestamp \<Rightarrow> uuid \<Rightarrow> auth_db \<Rightarrow> (auth_db, unit) outcome" where
  "adminForceRevoke cx now i s =
     (case keys_findById cx i None s of
        Inl e \<Rightarrow> (Inl e, s)
      | Inr k \<Rightarrow> deactivate now (ak_userId k) k s)"

text \<open>The new raw key.\<close>

definition key_rotate :: "crypto \<Rightarrow> timestamp \<Rightarrow> uuid \<Rightarrow> uuid \<Rightarrow> auth_db \<Rightarrow> (auth_db, string) outcome" where
  "key_rotate cx now i userId s =
     (case keys_findById cx i (Some userId) s of
        Inl e \<Rightarrow> (Inl e, s)
      | Inr k \<Rightarrow>
          if \<not> ak_isActive k then (Inl (ConflictException ''Cannot rotate a revoked API key''), s)
          else
            (let raw = raw_api_key cx s;
                 s1 = s\<lparr>au_random := Suc (au_random s)\<rparr>
             in await (store_key (k\<lparr>ak_keyHash := cx_sha256 cx raw, ak_lastUsedAt := None\<rparr>) s1)
                  (\<lambda>_ s2. (Inr raw, log_audit now ''apikey.rotated'' (Some userId) True s2))))"

record key_query =
  kq_userId :: "uuid option"
  kq_isActive :: "bool option"
  kq_page :: nat
  kq_limit :: nat

text \<open>The keys of the page with their masked hash and the owner's email, the total and the pages.\<close>

definition adminFindAll ::
  "crypto \<Rightarrow> key_query \<Rightarrow> auth_db \<Rightarrow> (api_key \<times> string \<times> string option) list \<times> nat \<times> nat" where
  "adminFindAll cx q s =
     (let hits = order_by_desc ak_createdAt (filter (\<lambda>k.
            (case kq_userId q of None \<Rightarrow> True | Some u \<Rightarrow> ak_userId k = u) \<and>
            (case kq_isActive q of None \<Rightarrow> True | Some b \<Rightarrow> ak_isActive k = b)) (au_keys s))
      in (map (\<lambda>k. let d = decryptApiKey cx k
                   in (d, maskHash (ak_keyHash d), map_option u_email (find_user (ak_userId d) (au_core s))))
            (page_of (kq_page q) (kq_limit q) hits),
          length hits, total_pages (length hits) (kq_limit q)))"

subsection \<open>Histories\<close>

datatype key_request =
    CreateKey uuid string "string option"
  | UpdateKey uuid uuid "string option" "string option"
  | RevokeKey uuid uuid
  | RotateKey uuid uuid
  | ForceRevoke uuid
  | TokenServiceCreate uuid string
  | TokenServiceRevoke uuid "uuid option"
  | UseKey string

fun key_step :: "crypto \<Rightarrow> timestamp \<times> key_request \<Rightarrow> auth_db \<Rightarrow> http_error option \<times> auth_db" where
  "key_step cx (now, CreateKey u n d) s = settle (key_create cx now u n d s)"
| "key_step cx (now, UpdateKey i u n d) s = settle (key_update cx i u n d s)"
| "key_step cx (now, RevokeKey i u) s = settle (key_revoke cx now i u s)"
| "key_step cx (now, RotateKey i u) s = settle (key_rotate cx now i u s)"
| "key_step cx (now, ForceRevoke i) s = settle (adminForceRevoke cx now i s)"
| "key_step cx (now, TokenServiceCreate u n) s = settle (generateApiKey cx now u n s)"
| "key_step cx (now, TokenServiceRevoke i u) s = (None, revokeApiKey now i u s)"
| "key_step cx (now, UseKey k) s = settle (api_key_login cx now k s)"

subsection \<open>A revoked key stays revoked\<close>

definition api_keys_ok :: "auth_db \<Rightarrow> bool" where
  "api_keys_ok s \<longleftrightarrow> distinct (map ak_id (au_keys s)) \<and> distinct (map ak_keyHash (au_keys s)) \<and>
     (\<forall>k \<in> set (au_keys s). ak_id k < au_fresh s)"

text \<open>The key number \<open>i\<close> with hash \<open>h\<close> is on record, and inactive.\<close>

definition revoked_key :: "uuid \<Rightarrow> string \<Rightarrow> auth_db \<Rightarrow> bool" where
  "revoked_key i h s \<longleftrightarrow> api_keys_ok s \<and> (\<exists>k \<in> set (au_keys s). ak_id k = i \<and> ak_keyHash k = h \<and> \<not> ak_isActive k)"

lemma decryptApiKey_simps [simp]:
  "ak_id (decryptApiKey cx k) = ak_id k" "ak_keyHash (decryptApiKey cx k) = ak_keyHash k"
  "ak_isActive (decryptApiKey cx k) = ak_isActive k" "ak_userId (decryptApiKey cx k) = ak_userId k"
  by (auto simp: decryptApiKey_def split: option.split)

lemma keys_findById_mem:
  "keys_findById cx i u s = Inr k \<Longrightarrow> \<exists>r \<in> set (au_keys s). ak_id r = i \<and> k = decryptApiKey cx r"
  by (auto simp: keys_findById_def key_row_def split: option.splits dest: find_SomeD)

lemma api_keys_ok_store:
  assumes "api_keys_ok s" "ak_id k < au_fresh s"
  shows "api_keys_ok (snd (store_key k s))"
proof (cases "\<exists>x \<in> set (au_keys s). ak_id x \<noteq> ak_id k \<and> ak_keyHash x = ak_keyHash k")
  case True
  with assms show ?thesis by (auto simp: store_key_def)
next
  case False
  have "distinct (map ak_keyHash (save_row ak_id k (au_keys s)))"
    using assms(1) False by (intro save_row_unique_index) (auto simp: api_keys_ok_def)
  with assms have "api_keys_ok (s\<lparr>au_keys := save_row ak_id k (au_keys s)\<rparr>)"
    by (auto simp: api_keys_ok_def save_row_distinct set_save_row)
  then show ?thesis by (simp only: store_key_def False if_False snd_conv)
qed

lemma revoked_store:
  assumes "revoked_key i h s" "ak_id k < au_fresh s"
    and "ak_id k = i \<Longrightarrow> ak_keyHash k = h \<and> \<not> ak_isActive k"
  shows "revoked_key i h (snd (store_key k s))"
proof -
  have "api_keys_ok (snd (store_key k s))" using assms(1,2) by (intro api_keys_ok_store) (simp_all add: revoked_key_def)
  moreover have "\<exists>r \<in> set (au_keys (snd (store_key k s))). ak_id r = i \<and> ak_keyHash r = h \<and> \<not> ak_isActive r"
    using assms(1,3) by (cases "ak_id k = i") (auto simp: store_key_def revoked_key_def set_save_row)
  ultimately show ?thesis by (simp add: revoked_key_def)
qed

text \<open>Changes that leave the table of keys alone, or only touch names, times and activity downwards.\<close>

lemma revoked_frame:
  "au_keys s' = au_keys s \<Longrightarrow> au_fresh s \<le> au_fresh s' \<Longrightarrow> revoked_key i h s \<Longrightarrow> revoked_key i h s'"
  unfolding revoked_key_def api_keys_ok_def by (auto intro: order_less_le_trans)

lemma revoked_update_rows:
  assumes "revoked_key i h s" "\<And>k. ak_id (f k) = ak_id k" "\<And>k. ak_keyHash (f k) = ak_keyHash k"
    "\<And>k. ak_isActive (f k) \<longrightarrow> ak_isActive k"
  shows "revoked_key i h (s\<lparr>au_keys := update_rows P f (au_keys s)\<rparr>)"
proof -
  have "map ak_id (update_rows P f (au_keys s)) = map ak_id (au_keys s)"
    "map ak_keyHash (update_rows P f (au_keys s)) = map ak_keyHash (au_keys s)"
    using assms(2,3) by (auto intro: map_update_rows)
  moreover have "\<forall>k \<in> set (update_rows P f (au_keys s)). ak_id k < au_fresh s"
    using assms(1,2) by (auto simp: revoked_key_def api_keys_ok_def set_update_rows)
  moreover obtain k where k: "k \<in> set (au_keys s)" "ak_id k = i" "ak_keyHash k = h" "\<not> ak_isActive k"
    using assms(1) by (auto simp: revoked_key_def)
  then have "(if P k then f k else k) \<in> set (update_rows P f (au_keys s))" by (auto simp: set_update_rows)
  moreover have "ak_id (if P k then f k else k) = i" "ak_keyHash (if P k then f k else k) = h" "\<not> ak_isActive (if P k then f k else k)"
    using k assms(2-4) by auto
  ultimately show ?thesis using assms(1) unfolding revoked_key_def api_keys_ok_def by auto
qed

lemma revoked_await:
  assumes "revoked_key i h (snd r)" "\<And>x s1. revoked_key i h s1 \<Longrightarrow> revoked_key i h (snd (k x s1))"
  shows "revoked_key i h (snd (await r k))"
  using assms by (cases r; cases "fst r") auto

lemma revoked_log [simp]: "revoked_key i h (log_audit now a u b s) = revoked_key i h s"
  by (simp add: revoked_key_def api_keys_ok_def)

lemma api_keys_ok_log [simp]: "api_keys_ok (log_audit now a u b s) = api_keys_ok s"
  by (simp add: api_keys_ok_def)

lemma revoked_draws: "revoked_key i h s \<Longrightarrow> revoked_key i h (s\<lparr>au_random := n\<rparr>)"
  by (rule revoked_frame) simp_all

lemma revoked_fresh: "revoked_key i h s \<Longrightarrow> i < au_fresh s"
  by (auto simp: revoked_key_def api_keys_ok_def)

lemma revoked_found:
  assumes "revoked_key i h s" "keys_findById cx j u s = Inr k"
  shows "ak_id k = j" "ak_id k < au_fresh s" "ak_id k = i \<Longrightarrow> ak_keyHash k = h \<and> \<not> ak_isActive k"
proof -
  obtain r where r: "r \<in> set (au_keys s)" "ak_id r = j" "k = decryptApiKey cx r" using keys_findById_mem[OF assms(2)] by blast
  then show "ak_id k = j" "ak_id k < au_fresh s" using assms(1) by (auto simp: revoked_key_def api_keys_ok_def)
  assume "ak_id k = i"
  obtain d where d: "d \<in> set (au_keys s)" "ak_id d = i" "ak_keyHash d = h" "\<not> ak_isActive d"
    using assms(1) by (auto simp: revoked_key_def)
  with r \<open>ak_id k = i\<close> assms(1) have "r = d" by (auto simp: revoked_key_def api_keys_ok_def distinct_map inj_on_def)
  with r d show "ak_keyHash k = h \<and> \<not> ak_isActive k" by simp
qed

lemma revoked_add_key:
  assumes "revoked_key i h s"
  shows "revoked_key i h (snd (add_key cx now u n d s))"
proof -
  let ?k = "\<lparr>ak_id = au_fresh s, ak_name = n, ak_description = d, ak_keyHash = cx_sha256 cx (raw_api_key cx s),
    ak_isActive = True, ak_userId = u, ak_createdAt = now, ak_lastUsedAt = None\<rparr>"
  let ?s = "s\<lparr>au_random := Suc (au_random s), au_fresh := Suc (au_fresh s)\<rparr>"
  have "revoked_key i h ?s" by (rule revoked_frame[OF _ _ assms]) simp_all
  then have "revoked_key i h (snd (store_key ?k ?s))"
    using revoked_fresh[OF assms] by (intro revoked_store) simp_all
  then show ?thesis by (auto simp: add_key_def Let_def split: prod.split sum.split)
qed

lemma revoked_deactivate:
  assumes "revoked_key i h s" "keys_findById cx j u s = Inr k"
  shows "revoked_key i h (snd (deactivate now w k s))"
  using assms(1) revoked_found[OF assms]
  by (auto simp: deactivate_def intro!: revoked_await revoked_store)

lemma revoked_step:
  assumes "revoked_key i h s"
  shows "revoked_key i h (snd (key_step cx (now, r) s))"
proof (cases r)
  case (CreateKey u n d)
  with assms show ?thesis
    by (auto simp: key_create_def encrypt_description_def draw_def Let_def intro!: revoked_add_key revoked_draws)
next
  case (UpdateKey j u n d)
  show ?thesis
  proof (cases "keys_findById cx j (Some u) s")
    case (Inl e)
    with assms show ?thesis by (simp add: UpdateKey key_update_def)
  next
    case (Inr k)
    note found = revoked_found[OF assms Inr]
    have stored: "revoked_key i h (snd (store_key k' s'))"
      if "ak_id k' = ak_id k" "ak_keyHash k' = ak_keyHash k" "ak_isActive k' = ak_isActive k" "revoked_key i h s'" "au_fresh s' = au_fresh s"
      for k' s'
      using that found by (intro revoked_store) auto
    show ?thesis
      using Inr assms
      by (auto simp: UpdateKey key_update_def encrypt_description_def draw_def Let_def split: option.split
          intro!: revoked_await stored revoked_draws)
  qed
next
  case (RevokeKey j u)
  with assms show ?thesis by (auto simp: key_revoke_def split: sum.split intro: revoked_deactivate)
next
  case (RotateKey j u)
  show ?thesis
  proof (cases "keys_findById cx j (Some u) s")
    case (Inl e)
    with assms show ?thesis by (simp add: RotateKey key_rotate_def)
  next
    case (Inr k)
    note found = revoked_found[OF assms Inr]
    show ?thesis
    proof (cases "ak_isActive k")
      case True
      then have "ak_id k \<noteq> i" using found(3) by auto
      with found True Inr show ?thesis
        by (auto simp: RotateKey key_rotate_def Let_def intro!: revoked_await revoked_store revoked_draws assms)
    qed (use Inr assms in \<open>simp add: RotateKey key_rotate_def\<close>)
  qed
next
  case (ForceRevoke j)
  with assms show ?thesis by (auto simp: adminForceRevoke_def split: sum.split intro: revoked_deactivate)
next
  case (TokenServiceCreate u n)
  with assms show ?thesis by (simp add: generateApiKey_def revoked_add_key)
next
  case (TokenServiceRevoke j u)
  with assms show ?thesis by (auto simp: revokeApiKey_def intro!: revoked_update_rows)
next
  case (UseKey k)
  with assms show ?thesis by (auto simp: api_key_login_def split: option.split intro!: revoked_update_rows)
qed

lemma revoked_refused:
  assumes "revoked_key i (cx_sha256 cx raw) s"
  shows "\<not> succeeds (api_key_login cx now raw s)"
proof -
  obtain d where d: "d \<in> set (au_keys s)" "ak_keyHash d = cx_sha256 cx raw" "\<not> ak_isActive d"
    using assms by (auto simp: revoked_key_def)
  have "k = d" if "k \<in> set (au_keys s)" "ak_keyHash k = cx_sha256 cx raw" for k
    using that d assms by (auto simp: revoked_key_def api_keys_ok_def distinct_map inj_on_def)
  with d(3) have "find (\<lambda>k. ak_keyHash k = cx_sha256 cx raw \<and> ak_isActive k) (au_keys s) = None"
    by (auto simp: find_None)
  then show ?thesis by (simp add: api_key_login_def)
qed

interpretation dead_keys: invariant_machine "key_step cx" "revoked_key i h" for cx i h
proof
  fix s c assume "revoked_key i h s"
  then show "revoked_key i h (snd (key_step cx c s))" by (cases c) (simp add: revoked_step)
qed

lemma key_revoke_revokes:
  assumes "api_keys_ok s" "succeeds (key_revoke cx now i u s)"
  obtains k where "key_row i (Some u) s = Some k" "ak_isActive k"
    "snd (key_revoke cx now i u s) =
       log_audit now ''apikey.revoked'' (Some u) True
         (s\<lparr>au_keys := save_row ak_id ((decryptApiKey cx k)\<lparr>ak_isActive := False\<rparr>) (au_keys s)\<rparr>)"
    "revoked_key i (ak_keyHash k) (snd (key_revoke cx now i u s))"
proof -
  obtain k where k: "key_row i (Some u) s = Some k" and act: "ak_isActive k"
    using assms(2) by (auto simp: key_revoke_def keys_findById_def deactivate_def split: option.splits if_splits)
  let ?k = "(decryptApiKey cx k)\<lparr>ak_isActive := False\<rparr>"
  have mem: "k \<in> set (au_keys s)" "ak_id k = i" using k by (auto simp: key_row_def dest: find_SomeD)
  have free: "\<not> (\<exists>x \<in> set (au_keys s). ak_id x \<noteq> ak_id ?k \<and> ak_keyHash x = ak_keyHash ?k)"
    using mem assms(1) by (auto simp: api_keys_ok_def distinct_map inj_on_def)
  have store: "store_key ?k s = (Inr ?k, s\<lparr>au_keys := save_row ak_id ?k (au_keys s)\<rparr>)"
    by (simp only: store_key_def free if_False)
  then have eq: "key_revoke cx now i u s = (Inr (), log_audit now ''apikey.revoked'' (Some u) True
       (s\<lparr>au_keys := save_row ak_id ?k (au_keys s)\<rparr>))"
    using k act by (simp add: key_revoke_def keys_findById_def deactivate_def)
  moreover have "api_keys_ok (snd (store_key ?k s))"
    using assms(1) mem by (intro api_keys_ok_store) (auto simp: api_keys_ok_def)
  ultimately have "revoked_key i (ak_keyHash k) (snd (key_revoke cx now i u s))"
    using mem(2) by (simp add: revoked_key_def store set_save_row)
  with k act eq show ?thesis by (intro that) simp_all
qed

subsection \<open>Properties\<close>

text \<open>C8: A revoked API key is dead: after its owner has revoked it, no request with it is let in any
  more, whatever keys are created, renamed, rotated or revoked afterwards.\<close>

theorem revoked_api_key_dead:
  assumes "api_keys_ok s" "succeeds (key_revoke cx now i u s)"
    and "key_row i (Some u) s = Some k" "ak_keyHash k = cx_sha256 cx raw"
  shows "\<not> succeeds (api_key_login cx later raw (run_ops (key_step cx) rs (snd (key_revoke cx now i u s))))"
proof -
  from key_revoke_revokes[OF assms(1,2)] assms(3,4)
  have "revoked_key i (cx_sha256 cx raw) (snd (key_revoke cx now i u s))" by (metis option.inject)
  then show ?thesis by (rule revoked_refused[OF dead_keys.run_preserves])
qed

definition one_key :: auth_db where
  "one_key = one_account\<lparr>au_keys := [\<lparr>ak_id = 12, ak_name = ''ci'', ak_description = Some ''7:deploys'', ak_keyHash = ''bst_1'',
     ak_isActive = True, ak_userId = 10, ak_createdAt = 1, ak_lastUsedAt = None\<rparr>]\<rparr>"

theorem revoked_api_key_dead_witness:
  "\<not> succeeds (api_key_login plain_crypto 9 ''bst_1'' (run_ops (key_step plain_crypto)
      [(6, CreateKey 10 ''new'' None), (7, UpdateKey 12 10 (Some ''old'') None), (8, RotateKey 12 10)]
      (snd (key_revoke plain_crypto 5 12 10 one_key))))"
  by (rule revoked_api_key_dead[where k = "hd (au_keys one_key)"])
    (simp_all add: one_key_def one_account_def api_keys_ok_def key_revoke_def keys_findById_def key_row_def deactivate_def
      decryptApiKey_def field_decrypt_def second_part_def before_colon_def plain_crypto_def store_key_def)

text \<open>Revoking a key writes its description back in clear: the row that is stored is the decrypted one,
  so the text that was encrypted at rest is readable in the table from then on.\<close>

theorem revoke_stores_plaintext:
  assumes "api_keys_ok s" "succeeds (key_revoke cx now i u s)" "key_row i (Some u) s = Some k"
    and "ak_description k = Some (field_encrypt (cx_cipher cx) iv d)"
    and "CHR '':'' \<notin> set iv" "CHR '':'' \<notin> set (cx_cipher cx iv d)" "cx_decipher cx iv (cx_cipher cx iv d) = Some d"
  shows "\<exists>r. key_row i (Some u) (snd (key_revoke cx now i u s)) = Some r \<and> ak_description r = Some d"
proof -
  obtain k' where k': "key_row i (Some u) s = Some k'"
    "snd (key_revoke cx now i u s) = log_audit now ''apikey.revoked'' (Some u) True
         (s\<lparr>au_keys := save_row ak_id ((decryptApiKey cx k')\<lparr>ak_isActive := False\<rparr>) (au_keys s)\<rparr>)"
    using key_revoke_revokes[OF assms(1,2)] by metis
  then have "k' = k" using assms(3) by simp
  let ?r = "(decryptApiKey cx k)\<lparr>ak_isActive := False\<rparr>"
  have "field_encrypt (cx_cipher cx) iv d \<noteq> []" by (simp add: field_encrypt_def)
  then have desc: "ak_description ?r = Some d"
    using assms(4) field_roundtrip[of iv "cx_cipher cx" d "cx_decipher cx", OF assms(5-7)] by (simp add: decryptApiKey_def)
  have k: "k \<in> set (au_keys s)" "ak_id k = i" "ak_userId k = u" using assms(3) by (auto simp: key_row_def dest: find_SomeD)
  have "distinct (map ak_id (save_row ak_id ?r (au_keys s)))"
    using assms(1) by (intro save_row_distinct) (simp add: api_keys_ok_def)
  then have "find (\<lambda>x. ak_id x = i \<and> ak_userId x = u) (save_row ak_id ?r (au_keys s)) = Some ?r"
    by (rule find_unique_by) (use k in \<open>simp_all add: set_save_row\<close>)
  with desc show ?thesis unfolding k'(2) \<open>k' = k\<close> by (simp add: key_row_def)
qed

theorem revoke_stores_plaintext_witness:
  "\<exists>r. key_row 12 (Some 10) (snd (key_revoke plain_crypto 5 12 10 one_key)) = Some r \<and> ak_description r = Some ''deploys''"
  by (rule revoke_stores_plaintext[where iv = "''7''" and k = "hd (au_keys one_key)"])
    (simp_all add: one_key_def one_account_def api_keys_ok_def key_revoke_def keys_findById_def key_row_def deactivate_def
      decryptApiKey_def field_decrypt_def second_part_def before_colon_def plain_crypto_def store_key_def field_encrypt_def)

end
