(* ===== verification/Quizzes.thy ===== *)
theory Quizzes
  imports Streaks
begin

text \<open>
  Quizzes (\<open>quizzes/quizzes.service.ts\<close>): building a quiz, submitting and scoring an attempt, grading
  essays and listing attempts. The body of a request is a list of pairs of question id and text.
\<close>

datatype question_type = MCQ | TRUE_FALSE | ESSAY

record quiz =
  qz_id :: uuid
  qz_lessonId :: uuid
  qz_title :: string
  qz_description :: "string option"
  qz_passingScore :: int
  qz_isPublished :: bool

record quiz_question =
  qq_id :: uuid
  qq_quizId :: uuid
  qq_text :: string
  qq_type :: question_type
  qq_points :: int
  qq_order :: int

record quiz_answer =
  qa_id :: uuid
  qa_questionId :: uuid
  qa_text :: string
  qa_isCorrect :: bool
  qa_order :: int

record quiz_attempt =
  qt_id :: uuid
  qt_quizId :: uuid
  qt_userId :: uuid
  qt_score :: "js_num option"
  qt_isGraded :: bool
  qt_gradedBy :: "string option"
  qt_feedback :: "string option"
  qt_submittedAt :: timestamp

record attempt_answer =
  aa_id :: uuid
  aa_attemptId :: uuid
  aa_questionId :: uuid
  aa_answer :: string
  aa_points :: "js_num option"

record quiz_db =
  qd_core :: core
  qd_quizzes :: "quiz list"
  qd_questions :: "quiz_question list"
  qd_answers :: "quiz_answer list"
  qd_attempts :: "quiz_attempt list"
  qd_attemptAnswers :: "attempt_answer list"
  qd_fresh :: nat

subsection \<open>Building\<close>

text \<open>The request body is spread after the column of the path, without a DTO: a body that names an \<open>id\<close> or
  the parent column wins over the path, and a save with the id of a stored row writes that row. The other
  columns are all given.\<close>

datatype 'a body = Body (body_id: "uuid option") (body_parent: "uuid option") (body_columns: 'a)

definition or_default :: "'a option \<Rightarrow> 'a \<Rightarrow> 'a" where
  "or_default v default_value = (case v of None \<Rightarrow> default_value | Some x \<Rightarrow> x)"

definition createQuiz :: "uuid \<Rightarrow> quiz body \<Rightarrow> quiz_db \<Rightarrow> quiz \<times> quiz_db" where
  "createQuiz lessonId data s =
     (let q = (body_columns data)\<lparr>qz_id := or_default (body_id data) (qd_fresh s), qz_lessonId := or_default (body_parent data) lessonId\<rparr>
      in (q, s\<lparr>qd_quizzes := save_row qz_id q (qd_quizzes s), qd_fresh := Suc (qd_fresh s)\<rparr>))"

definition addQuestion :: "uuid \<Rightarrow> quiz_question body \<Rightarrow> quiz_db \<Rightarrow> quiz_question \<times> quiz_db" where
  "addQuestion quizId data s =
     (let q = (body_columns data)\<lparr>qq_id := or_default (body_id data) (qd_fresh s), qq_quizId := or_default (body_parent data) quizId\<rparr>
      in (q, s\<lparr>qd_questions := save_row qq_id q (qd_questions s), qd_fresh := Suc (qd_fresh s)\<rparr>))"

definition addAnswer :: "uuid \<Rightarrow> quiz_answer body \<Rightarrow> quiz_db \<Rightarrow> quiz_answer \<times> quiz_db" where
  "addAnswer questionId data s =
     (let a = (body_columns data)\<lparr>qa_id := or_default (body_id data) (qd_fresh s), qa_questionId := or_default (body_parent data) questionId\<rparr>
      in (a, s\<lparr>qd_answers := save_row qa_id a (qd_answers s), qd_fresh := Suc (qd_fresh s)\<rparr>))"

definition find_quiz :: "uuid \<Rightarrow> quiz_db \<Rightarrow> quiz option" where
  "find_quiz i s = find (\<lambda>q. qz_id q = i) (qd_quizzes s)"

definition questions_of :: "uuid \<Rightarrow> quiz_db \<Rightarrow> quiz_question list" where
  "questions_of quizId s = filter (\<lambda>q. qq_quizId q = quizId) (qd_questions s)"

definition answers_of :: "quiz_question \<Rightarrow> quiz_db \<Rightarrow> quiz_answer list" where
  "answers_of q s = filter (\<lambda>a. qa_questionId a = qq_id q) (qd_answers s)"

definition getQuiz :: "uuid \<Rightarrow> quiz_db \<Rightarrow> (quiz \<times> (quiz_question \<times> quiz_answer list) list) option" where
  "getQuiz i s = map_option (\<lambda>q. (q, map (\<lambda>x. (x, answers_of x s)) (questions_of i s))) (find_quiz i s)"

subsection \<open>Scoring an attempt\<close>

text \<open>One graded answer: question, given text, the text of the right answer, whether it was given, points.\<close>

record graded_answer =
  ga_questionId :: uuid
  ga_userAnswer :: string
  ga_correctAnswer :: "string option"
  ga_isCorrect :: bool
  ga_points :: "js_num option"

definition correct_answer :: "quiz_question \<Rightarrow> quiz_db \<Rightarrow> string option" where
  "correct_answer q s = map_option qa_text (find qa_isCorrect (answers_of q s))"

definition answer_points :: "quiz_question \<Rightarrow> string \<Rightarrow> quiz_db \<Rightarrow> int" where
  "answer_points q given_text s = (if correct_answer q s = Some given_text then qq_points q else 0)"

definition grade_answer :: "quiz_question \<Rightarrow> string \<Rightarrow> quiz_db \<Rightarrow> graded_answer" where
  "grade_answer q given_text s =
     \<lparr>ga_questionId = qq_id q, ga_userAnswer = given_text, ga_correctAnswer = correct_answer q s,
      ga_isCorrect = (correct_answer q s = Some given_text), ga_points = Some (of_int (answer_points q given_text s))\<rparr>"

definition find_question :: "uuid \<Rightarrow> quiz_question list \<Rightarrow> quiz_question option" where
  "find_question i qs = find (\<lambda>q. qq_id q = i) qs"

text \<open>The loop over the submitted answers, with the running score and points, and the graded answers so
  far; an answer to a question of another quiz is skipped.\<close>

fun score_loop ::
  "uuid \<Rightarrow> quiz_question list \<Rightarrow> (uuid \<times> string) list \<Rightarrow> int \<Rightarrow> int \<Rightarrow> graded_answer list \<Rightarrow> quiz_db
   \<Rightarrow> (int \<times> int \<times> graded_answer list) \<times> quiz_db" where
  "score_loop attemptId qs [] sc pts gs s = ((sc, pts, gs), s)"
| "score_loop attemptId qs ((qid, given_text) # as) sc pts gs s =
     (case find_question qid qs of
        None \<Rightarrow> score_loop attemptId qs as sc pts gs s
      | Some q \<Rightarrow>
          (let essay = (qq_type q = ESSAY);
               g = grade_answer q given_text s;
               row = \<lparr>aa_id = qd_fresh s, aa_attemptId = attemptId, aa_questionId = qid, aa_answer = given_text,
                      aa_points = (if essay then None else ga_points g)\<rparr>
           in score_loop attemptId qs as (if essay then sc else sc + answer_points q given_text s) (pts + qq_points q)
                (if essay then gs else gs @ [g])
                (s\<lparr>qd_attemptAnswers := qd_attemptAnswers s @ [row], qd_fresh := Suc (qd_fresh s)\<rparr>)))"

definition percent_score :: "int \<Rightarrow> int \<Rightarrow> js_num" where
  "percent_score sc pts = (if 0 < pts then js_mul (js_div (of_int sc) (of_int pts)) 100 else 0)"

definition find_attempt :: "uuid \<Rightarrow> uuid \<Rightarrow> quiz_db \<Rightarrow> quiz_attempt option" where
  "find_attempt quizId userId s = find (\<lambda>t. qt_quizId t = quizId \<and> qt_userId t = userId) (qd_attempts s)"

definition auto_graded :: "quiz_question list \<Rightarrow> bool" where
  "auto_graded qs = list_all (\<lambda>q. qq_type q \<noteq> ESSAY) qs"

definition submitAttempt ::
  "(string \<Rightarrow> int \<Rightarrow> bool) \<Rightarrow> timestamp \<Rightarrow> uuid \<Rightarrow> uuid \<Rightarrow> (uuid \<times> string) list \<Rightarrow> quiz_db
   \<Rightarrow> (quiz_db, quiz_attempt \<times> graded_answer list) outcome" where
  "submitAttempt accepts now quizId userId answers s =
     (if find_attempt quizId userId s \<noteq> None then (Inl (BadRequestException ''Quiz already submitted''), s)
      else case recordActivity accepts now userId (qd_core s) of
        (Inl e, c) \<Rightarrow> (Inl e, s\<lparr>qd_core := c\<rparr>)
      | (Inr _, c) \<Rightarrow>
          (let s1 = s\<lparr>qd_core := c\<rparr>
           in case find_quiz quizId s1 of
                None \<Rightarrow> (Inl (BadRequestException ''Quiz not found''), s1)
              | Some quiz \<Rightarrow>
                  (let qs = questions_of quizId s1;
                       attempt = \<lparr>qt_id = qd_fresh s1, qt_quizId = quizId, qt_userId = userId, qt_score = None,
                                  qt_isGraded = False, qt_gradedBy = None, qt_feedback = None, qt_submittedAt = now\<rparr>;
                       s2 = s1\<lparr>qd_attempts := qd_attempts s1 @ [attempt], qd_fresh := Suc (qd_fresh s1)\<rparr>;
                       ((sc, pts, gs), s3) = score_loop (qt_id attempt) qs answers 0 0 [] s2;
                       result = attempt\<lparr>qt_score := Some (percent_score sc pts), qt_isGraded := auto_graded qs\<rparr>
                   in (Inr (result, gs), s3\<lparr>qd_attempts := save_row qt_id result (qd_attempts s3)\<rparr>))))"

text \<open>The attempt is loaded with its answers and its quiz, but without the quiz's questions: the sum over
  \<open>attempt.quiz.questions\<close> is a call on \<open>undefined\<close>, after the points of the answer were saved.\<close>

definition gradeEssay ::
  "uuid \<Rightarrow> uuid \<Rightarrow> js_num \<Rightarrow> string \<Rightarrow> quiz_db \<Rightarrow> (quiz_db, quiz_attempt) outcome" where
  "gradeEssay attemptId questionId points feedback s =
     (let s1 = (case find (\<lambda>a. aa_attemptId a = attemptId \<and> aa_questionId a = questionId) (qd_attemptAnswers s) of
                  None \<Rightarrow> s
                | Some a \<Rightarrow> s\<lparr>qd_attemptAnswers := save_row aa_id (a\<lparr>aa_points := Some points\<rparr>) (qd_attemptAnswers s)\<rparr>)
      in (Inl JsTypeError, s1))"

definition attempt_review :: "quiz_db \<Rightarrow> quiz_attempt \<Rightarrow> graded_answer list" where
  "attempt_review s t =
     map (\<lambda>a. let right = Option.bind (find_question (aa_questionId a) (questions_of (qt_quizId t) s)) (\<lambda>q. correct_answer q s)
               in \<lparr>ga_questionId = aa_questionId a, ga_userAnswer = aa_answer a, ga_correctAnswer = right,
                   ga_isCorrect = (right = Some (aa_answer a)), ga_points = aa_points a\<rparr>)
       (filter (\<lambda>a. aa_attemptId a = qt_id t) (qd_attemptAnswers s))"

definition getAttempts :: "uuid \<Rightarrow> uuid option \<Rightarrow> quiz_db \<Rightarrow> (quiz_attempt \<times> graded_answer list) list" where
  "getAttempts quizId userId s =
     map (\<lambda>t. (t, attempt_review s t))
       (order_by_desc qt_submittedAt
         (filter (\<lambda>t. qt_quizId t = quizId \<and> (case userId of None \<Rightarrow> True | Some u \<Rightarrow> qt_userId t = u)) (qd_attempts s)))"

subsection \<open>The scoring loop as a sum\<close>

definition answered :: "quiz_question list \<Rightarrow> (uuid \<times> string) list \<Rightarrow> (quiz_question \<times> string) list" where
  "answered qs as = concat (map (\<lambda>(qid, t). case find_question qid qs of None \<Rightarrow> [] | Some q \<Rightarrow> [(q, t)]) as)"

definition earned :: "quiz_db \<Rightarrow> quiz_question \<times> string \<Rightarrow> int" where
  "earned s = (\<lambda>(q, t). if qq_type q = ESSAY then 0 else answer_points q t s)"

lemma correct_answer_frame: "qd_answers s' = qd_answers s \<Longrightarrow> correct_answer q s' = correct_answer q s"
  by (simp add: correct_answer_def answers_of_def)

lemma score_loop_frame [simp]:
  "qd_core (snd (score_loop i qs as sc pts gs s)) = qd_core s" "qd_quizzes (snd (score_loop i qs as sc pts gs s)) = qd_quizzes s"
  "qd_questions (snd (score_loop i qs as sc pts gs s)) = qd_questions s" "qd_answers (snd (score_loop i qs as sc pts gs s)) = qd_answers s"
  "qd_attempts (snd (score_loop i qs as sc pts gs s)) = qd_attempts s"
  by (induction i qs as sc pts gs s rule: score_loop.induct; simp add: Let_def split: option.split)+

lemma score_loop_fresh: "qd_fresh s \<le> qd_fresh (snd (score_loop i qs as sc pts gs s))"
proof (induction i qs as sc pts gs s rule: score_loop.induct)
  case (2 i qs qid t as sc pts gs s)
  show ?case
  proof (cases "find_question qid qs")
    case None
    with 2(1) show ?thesis by simp
  next
    case (Some q)
    from 2(2)[OF Some refl refl refl, simplified, THEN Suc_leD] show ?thesis by (simp add: Some Let_def)
  qed
qed simp

lemma score_loop_sums:
  assumes "qd_answers s = qd_answers s0"
  shows "fst (fst (score_loop i qs as sc pts gs s)) = sc + sum_list (map (earned s0) (answered qs as)) \<and>
     fst (snd (fst (score_loop i qs as sc pts gs s))) = pts + sum_list (map (\<lambda>(q, t). qq_points q) (answered qs as))"
  using assms
proof (induction as arbitrary: sc pts gs s)
  case Nil
  then show ?case by (simp add: answered_def)
next
  case (Cons a as)
  obtain qid t where a: "a = (qid, t)" by (cases a)
  show ?case
  proof (cases "find_question qid qs")
    case None
    with a show ?thesis by (simp add: Cons.IH[OF Cons.prems] answered_def)
  next
    case (Some q)
    have "answer_points q t s = answer_points q t s0"
      by (simp add: answer_points_def correct_answer_frame[OF Cons.prems])
    moreover have frame: "qd_answers (s\<lparr>qd_attemptAnswers := r, qd_fresh := Suc (qd_fresh s)\<rparr>) = qd_answers s0" for r
      using Cons.prems by simp
    ultimately show ?thesis
      using Some a by (simp add: Cons.IH[OF frame] answered_def earned_def Let_def)
  qed
qed

lemma find_question_SomeD: "find_question i qs = Some q \<Longrightarrow> q \<in> set qs \<and> qq_id q = i"
  unfolding find_question_def by (rule find_SomeD)

lemma earned_bounds:
  assumes "\<forall>q \<in> set qs. 0 \<le> qq_points q"
  shows "0 \<le> sum_list (map (earned s) (answered qs as))"
    "sum_list (map (earned s) (answered qs as)) \<le> sum_list (map (\<lambda>(q, t). qq_points q) (answered qs as))"
proof -
  have points: "0 \<le> qq_points q" if "Some q = find_question i qs" for i q
    using find_question_SomeD[OF that[symmetric]] assms by blast
  then have "0 \<le> earned s x \<and> earned s x \<le> (case x of (q, t) \<Rightarrow> qq_points q)" if "x \<in> set (answered qs as)" for x
    using that by (auto simp: answered_def earned_def answer_points_def split: option.splits intro: points)
  then show "0 \<le> sum_list (map (earned s) (answered qs as))"
    "sum_list (map (earned s) (answered qs as)) \<le> sum_list (map (\<lambda>(q, t). qq_points q) (answered qs as))"
    by (auto intro!: sum_list_nonneg sum_list_mono)
qed

lemma percent_score_bounds:
  assumes "0 \<le> sc" "sc \<le> pts"
  shows "0 \<le> percent_score sc pts" "percent_score sc pts \<le> 100"
proof -
  have "0 \<le> (of_int sc :: rat)" "(of_int sc :: rat) \<le> of_int pts" using assms by simp_all
  then show "0 \<le> percent_score sc pts" "percent_score sc pts \<le> 100"
    using js_percent_bounds[of "of_int sc" "of_int pts"] by (auto simp: percent_score_def)
qed

lemma submitAttempt_cases:
  obtains (Refused) e c where "submitAttempt accepts now quizId userId answers s = (Inl e, s\<lparr>qd_core := c\<rparr>)"
  | (Submitted) u c quiz sc pts gs s3 attempt where
      "find_attempt quizId userId s = None" "recordActivity accepts now userId (qd_core s) = (Inr u, c)"
      "find_quiz quizId s = Some quiz"
      "attempt = \<lparr>qt_id = qd_fresh s, qt_quizId = quizId, qt_userId = userId, qt_score = Some (percent_score sc pts),
          qt_isGraded = auto_graded (questions_of quizId s), qt_gradedBy = None, qt_feedback = None, qt_submittedAt = now\<rparr>"
      "sc = sum_list (map (earned s) (answered (questions_of quizId s) answers))"
      "pts = sum_list (map (\<lambda>(q, t). qq_points q) (answered (questions_of quizId s) answers))"
      "qd_attempts s3 = qd_attempts s @ [attempt\<lparr>qt_score := None, qt_isGraded := False\<rparr>]" "qd_fresh s < qd_fresh s3"
      "submitAttempt accepts now quizId userId answers s =
         (Inr (attempt, gs), s3\<lparr>qd_attempts := save_row qt_id attempt (qd_attempts s3)\<rparr>)"
proof (cases "find_attempt quizId userId s")
  case (Some t)
  then show thesis using Refused[of "BadRequestException ''Quiz already submitted''" "qd_core s"] by (simp add: submitAttempt_def)
next
  case None
  show thesis
  proof (cases "recordActivity accepts now userId (qd_core s)")
    case (Pair r c)
    show thesis
    proof (cases r)
      case (Inl e)
      with None Pair show thesis using Refused[of e c] by (simp add: submitAttempt_def)
    next
      case (Inr u)
      let ?s1 = "s\<lparr>qd_core := c\<rparr>"
      have same: "find_quiz quizId ?s1 = find_quiz quizId s" "questions_of quizId ?s1 = questions_of quizId s"
        by (simp_all add: find_quiz_def questions_of_def)
      show thesis
      proof (cases "find_quiz quizId s")
        case None
        with \<open>find_attempt quizId userId s = None\<close> Pair Inr same show thesis
          using Refused[of "BadRequestException ''Quiz not found''" c] by (simp add: submitAttempt_def)
      next
        case (Some quiz)
        let ?a = "\<lparr>qt_id = qd_fresh s, qt_quizId = quizId, qt_userId = userId, qt_score = None, qt_isGraded = False,
          qt_gradedBy = None, qt_feedback = None, qt_submittedAt = now\<rparr>"
        let ?s2 = "?s1\<lparr>qd_attempts := qd_attempts s @ [?a], qd_fresh := Suc (qd_fresh s)\<rparr>"
        let ?qs = "questions_of quizId s"
        obtain sc pts gs s3 where loop: "score_loop (qd_fresh s) ?qs answers 0 0 [] ?s2 = ((sc, pts, gs), s3)"
          by (metis prod.exhaust)
        have sums: "sc = sum_list (map (earned s) (answered ?qs answers))"
          "pts = sum_list (map (\<lambda>(q, t). qq_points q) (answered ?qs answers))"
          using score_loop_sums[of ?s2 s "qd_fresh s" ?qs answers 0 0 "[]"] unfolding loop by simp_all
        have s3: "qd_attempts s3 = qd_attempts s @ [?a]" "qd_fresh s < qd_fresh s3"
          using score_loop_frame(5)[of "qd_fresh s" ?qs answers 0 0 "[]" ?s2]
            score_loop_fresh[of ?s2 "qd_fresh s" ?qs answers 0 0 "[]"] unfolding loop by simp_all
        show thesis
          using Submitted[OF \<open>find_attempt quizId userId s = None\<close> Pair[unfolded Inr] Some refl sums(1) sums(2), of s3 gs]
            \<open>find_attempt quizId userId s = None\<close> Pair Inr Some same loop s3
          by (simp add: submitAttempt_def Let_def)
      qed
    qed
  qed
qed

subsection \<open>Histories of requests\<close>

datatype quiz_request =
    CreateQuiz uuid "quiz body"
  | AddQuestion uuid "quiz_question body"
  | AddAnswer uuid "quiz_answer body"
  | SubmitAttempt timestamp uuid uuid "(uuid \<times> string) list"
  | GradeEssay uuid uuid js_num string

fun quiz_step :: "(string \<Rightarrow> int \<Rightarrow> bool) \<Rightarrow> quiz_request \<Rightarrow> quiz_db \<Rightarrow> unit \<times> quiz_db" where
  "quiz_step accepts (CreateQuiz l d) s = ((), snd (createQuiz l d s))"
| "quiz_step accepts (AddQuestion q d) s = ((), snd (addQuestion q d s))"
| "quiz_step accepts (AddAnswer q d) s = ((), snd (addAnswer q d s))"
| "quiz_step accepts (SubmitAttempt now q u as) s = ((), snd (submitAttempt accepts now q u as s))"
| "quiz_step accepts (GradeEssay t q p f) s = ((), snd (gradeEssay t q p f s))"

definition attempts_ok :: "quiz_db \<Rightarrow> bool" where
  "attempts_ok s \<longleftrightarrow> list_all (\<lambda>t. qt_id t < qd_fresh s) (qd_attempts s) \<and>
     distinct (map (\<lambda>t. (qt_quizId t, qt_userId t)) (qd_attempts s))"

lemma save_row_fresh:
  assumes "\<forall>x \<in> set xs. key x \<noteq> key r" "key r' = key r"
  shows "save_row key r (xs @ [r']) = xs @ [r]"
  using assms by (auto simp: save_row_def intro!: map_idI)

lemma submitAttempt_appends:
  assumes "attempts_ok s"
  shows "\<exists>new. qd_attempts (snd (submitAttempt accepts now q u as s)) = qd_attempts s @ new"
    "attempts_ok (snd (submitAttempt accepts now q u as s))"
proof -
  have "(\<exists>new. qd_attempts (snd (submitAttempt accepts now q u as s)) = qd_attempts s @ new) \<and>
      attempts_ok (snd (submitAttempt accepts now q u as s))"
  proof (cases rule: submitAttempt_cases[of accepts now q u as s])
    case (Refused e c)
    with assms show ?thesis by (simp add: attempts_ok_def)
  next
    case (Submitted v c quiz sc pts gs s3 attempt)
    have "save_row qt_id attempt (qd_attempts s3) = qd_attempts s @ [attempt]"
      unfolding Submitted(7) using assms Submitted(4) by (intro save_row_fresh) (auto simp: attempts_ok_def list_all_iff)
    moreover have "list_all (\<lambda>t. qt_id t < qd_fresh s3) (qd_attempts s @ [attempt])"
      using assms Submitted(4,8) by (auto simp: attempts_ok_def list_all_iff intro: less_trans)
    moreover have "(q, u) \<notin> (\<lambda>t. (qt_quizId t, qt_userId t)) ` set (qd_attempts s)"
      using Submitted(1) by (auto simp: find_attempt_def find_None)
    ultimately show ?thesis using assms Submitted(4) by (simp add: Submitted(9) attempts_ok_def)
  qed
  then show "\<exists>new. qd_attempts (snd (submitAttempt accepts now q u as s)) = qd_attempts s @ new"
    "attempts_ok (snd (submitAttempt accepts now q u as s))" by simp_all
qed

lemma building_keeps_attempts [simp]:
  "qd_attempts (snd (createQuiz l d s)) = qd_attempts s" "qd_attempts (snd (addQuestion q d' s)) = qd_attempts s"
  "qd_attempts (snd (addAnswer q d'' s)) = qd_attempts s" "qd_attempts (snd (gradeEssay t q p f s)) = qd_attempts s"
  "qd_fresh (snd (createQuiz l d s)) = Suc (qd_fresh s)" "qd_fresh (snd (addQuestion q d' s)) = Suc (qd_fresh s)"
  "qd_fresh (snd (addAnswer q d'' s)) = Suc (qd_fresh s)" "qd_fresh (snd (gradeEssay t q p f s)) = qd_fresh s"
  by (simp_all add: createQuiz_def addQuestion_def addAnswer_def gradeEssay_def Let_def split: option.split)

lemma quiz_step_appends:
  assumes "attempts_ok s"
  shows "\<exists>new. qd_attempts (snd (quiz_step accepts c s)) = qd_attempts s @ new" "attempts_ok (snd (quiz_step accepts c s))"
  using assms submitAttempt_appends[OF assms]
  by (cases c; auto simp: attempts_ok_def list_all_iff intro: less_SucI)+

interpretation quiz: invariant_machine "quiz_step accepts" attempts_ok for accepts
  by unfold_locales (rule quiz_step_appends(2))

lemma run_appends:
  "attempts_ok s \<Longrightarrow> \<exists>new. qd_attempts (run_ops (quiz_step accepts) cs s) = qd_attempts s @ new"
proof (induction cs arbitrary: s)
  case (Cons c cs)
  obtain new where "qd_attempts (snd (quiz_step accepts c s)) = qd_attempts s @ new"
    using quiz_step_appends(1)[OF Cons.prems] by blast
  moreover obtain new' where "qd_attempts (run_ops (quiz_step accepts) cs (snd (quiz_step accepts c s))) =
      qd_attempts (snd (quiz_step accepts c s)) @ new'"
    using Cons.IH[OF quiz_step_appends(2)[OF Cons.prems]] by blast
  ultimately show ?case by simp
qed simp

lemma submitAttempt_succeeds:
  assumes "find_attempt quizId userId s = None" "find_quiz quizId s \<noteq> None" "find_user userId (qd_core s) \<noteq> None"
  shows "\<exists>t gs s'. submitAttempt accepts now quizId userId answers s = (Inr (t, gs), s')"
proof -
  obtain u where u: "find_user userId (qd_core s) = Some u" using assms(3) by blast
  obtain quiz where quiz: "find_quiz quizId s = Some quiz" using assms(2) by blast
  obtain c where activity: "recordActivity accepts now userId (qd_core s) = (Inr (advance_streak now u), c)"
    using recordActivity_user(1)[OF u, of accepts now] by (metis prod.collapse)
  show ?thesis
    using assms(1) quiz activity by (simp add: submitAttempt_def find_quiz_def Let_def split: prod.splits)
qed

subsection \<open>Properties\<close>


text \<open>The score only divides by the points of the questions that were answered: who submits one right
  answer to one auto-graded question, and leaves out the rest of the quiz, gets 100.\<close>

theorem quiz_score_ignores_unanswered:
  assumes "find_attempt quizId userId s = None" "find_quiz quizId s \<noteq> None" "find_user userId (qd_core s) \<noteq> None"
    "find_question qid (questions_of quizId s) = Some q" "qq_type q \<noteq> ESSAY" "correct_answer q s = Some right"
    "0 < qq_points q"
  shows "\<exists>t gs s'. submitAttempt accepts now quizId userId [(qid, right)] s = (Inr (t, gs), s') \<and> qt_score t = Some 100"
proof -
  have points: "sum_list (map (earned s) (answered (questions_of quizId s) [(qid, right)])) = qq_points q"
    "sum_list (map (\<lambda>(q, t). qq_points q) (answered (questions_of quizId s) [(qid, right)])) = qq_points q"
    using assms(4-6) by (simp_all add: answered_def earned_def answer_points_def)
  have full: "percent_score (qq_points q) (qq_points q) = 100" using assms(7) by (simp add: percent_score_def js_div_def js_mul_def)
  obtain t gs s' where "submitAttempt accepts now quizId userId [(qid, right)] s = (Inr (t, gs), s')"
    using submitAttempt_succeeds[OF assms(1-3)] by blast
  then show ?thesis
    using points full by (cases rule: submitAttempt_cases[of accepts now quizId userId "[(qid, right)]" s]) auto
qed

text \<open>C38: Attempts are final. Once submitted, an attempt stays in the table as it was stored whatever requests
  follow, nobody has two attempts at a quiz, and so an attempt at a quiz with an essay question is never marked as
  graded: the request that grades an essay saves the points and then throws.\<close>

theorem quiz_attempts_final:
  assumes "attempts_ok s"
  shows "(\<exists>new. qd_attempts (run_ops (quiz_step accepts) cs s) = qd_attempts s @ new) \<and>
    distinct (map (\<lambda>t. (qt_quizId t, qt_userId t)) (qd_attempts (run_ops (quiz_step accepts) cs s))) \<and>
    fst (gradeEssay attemptId questionId points feedback (run_ops (quiz_step accepts) cs s)) = Inl JsTypeError"
  using run_appends[OF assms] quiz.run_preserves[OF assms] by (simp add: attempts_ok_def gradeEssay_def)

subsection \<open>Witnesses\<close>

definition two_questions :: quiz_db where
  "two_questions = \<lparr>qd_core = empty_core\<lparr>users := [new_user 2 ''a@x'']\<rparr>,
     qd_quizzes = [\<lparr>qz_id = 10, qz_lessonId = 3, qz_title = ''Q'', qz_description = None, qz_passingScore = 50, qz_isPublished = True\<rparr>],
     qd_questions = [\<lparr>qq_id = 11, qq_quizId = 10, qq_text = ''1 + 1'', qq_type = MCQ, qq_points = 1, qq_order = 0\<rparr>,
                     \<lparr>qq_id = 12, qq_quizId = 10, qq_text = ''why'', qq_type = ESSAY, qq_points = 9, qq_order = 1\<rparr>],
     qd_answers = [\<lparr>qa_id = 13, qa_questionId = 11, qa_text = ''2'', qa_isCorrect = True, qa_order = 0\<rparr>],
     qd_attempts = [], qd_attemptAnswers = [], qd_fresh = 14\<rparr>"

lemma two_questions_facts:
  "attempts_ok two_questions" "find_attempt 10 2 two_questions = None" "find_quiz 10 two_questions \<noteq> None"
  "find_user 2 (qd_core two_questions) \<noteq> None"
  "map qq_points (questions_of 10 two_questions) = [1, 9]" "map qq_id (questions_of 10 two_questions) = [11, 12]"
  by (simp_all add: two_questions_def attempts_ok_def find_attempt_def find_quiz_def find_user_def questions_of_def
      empty_core_def new_user_def)

lemma two_questions_right:
  "find_question 11 (questions_of 10 two_questions) =
     Some \<lparr>qq_id = 11, qq_quizId = 10, qq_text = ''1 + 1'', qq_type = MCQ, qq_points = 1, qq_order = 0\<rparr>"
  "correct_answer \<lparr>qq_id = 11, qq_quizId = 10, qq_text = ''1 + 1'', qq_type = MCQ, qq_points = 1, qq_order = 0\<rparr> two_questions
     = Some ''2''"
  by (simp_all add: two_questions_def find_question_def questions_of_def correct_answer_def answers_of_def)

theorem quiz_score_ignores_unanswered_witness:
  "\<exists>t gs s'. submitAttempt (\<lambda>_ _. True) 5 10 2 [(11, ''2'')] two_questions = (Inr (t, gs), s') \<and> qt_score t = Some 100"
  by (rule quiz_score_ignores_unanswered[OF two_questions_facts(2-4) two_questions_right(1) _ two_questions_right(2)]) simp_all


theorem quiz_attempts_final_witness:
  "distinct (map (\<lambda>t. (qt_quizId t, qt_userId t))
     (qd_attempts (run_ops (quiz_step (\<lambda>_ _. True)) [SubmitAttempt 5 10 2 [(11, ''2'')], GradeEssay 14 12 9 ''well''] two_questions)))"
  using quiz_attempts_final[OF two_questions_facts(1)] by blast

end
