(* ===== verification/AccessControl.thy ===== *)
theory AccessControl
  imports Streaks
begin

text \<open>
  Course access control (\<open>access-control/access-control.service.ts\<close>): grants, revocations, the check of a
  course, the check of a piece of content, and the log both write. No index makes a pair of course and user
  unique, and \<open>findOne\<close> on several matching rows returns one of them in no promised order: the choice is the
  parameter \<open>one_of\<close>, of which \<open>lawful_pick\<close> states all that the database promises. The clock of the
  process runs in UTC.
\<close>

datatype access_role = AccessStudent | AccessInstructor | AccessAdmin

datatype attempt_type = AttemptPayment | AttemptToken | AttemptSubscription | AttemptFree

record course_access =
  ca_id :: uuid
  ca_courseId :: uuid
  ca_userId :: uuid
  ca_role :: access_role
  ca_expiry :: "timestamp option"
  ca_ips :: "string list option"
  ca_isActive :: bool
  ca_grantedAt :: timestamp

record access_log =
  lg_id :: uuid
  lg_courseId :: uuid
  lg_userId :: uuid
  lg_action :: string
  lg_ip :: "string option"
  lg_isAllowed :: bool
  lg_denialReason :: "string option"
  lg_attemptType :: "attempt_type option"
  lg_contentId :: "uuid option"
  lg_timestamp :: timestamp

record access_db =
  ad_grants :: "course_access list"
  ad_logs :: "access_log list"
  ad_fresh :: nat

type_synonym pick = "course_access list \<Rightarrow> course_access option"

definition lawful_pick :: "pick \<Rightarrow> bool" where
  "lawful_pick one_of \<longleftrightarrow> (\<forall>rows. (one_of rows = None \<longleftrightarrow> rows = []) \<and> (\<forall>a. one_of rows = Some a \<longrightarrow> a \<in> set rows))"

subsection \<open>Operations\<close>

definition grants_of :: "uuid \<Rightarrow> uuid \<Rightarrow> access_db \<Rightarrow> course_access list" where
  "grants_of courseId userId s = filter (\<lambda>a. ca_courseId a = courseId \<and> ca_userId a = userId) (ad_grants s)"

definition grantAccess ::
  "timestamp \<Rightarrow> uuid \<Rightarrow> uuid \<Rightarrow> access_role \<Rightarrow> timestamp option \<Rightarrow> string list option \<Rightarrow> access_db \<Rightarrow> course_access \<times> access_db" where
  "grantAccess now courseId userId role expiry ips s =
     (let a = \<lparr>ca_id = ad_fresh s, ca_courseId = courseId, ca_userId = userId, ca_role = role, ca_expiry = expiry,
               ca_ips = ips, ca_isActive = True, ca_grantedAt = now\<rparr>
      in (a, s\<lparr>ad_grants := ad_grants s @ [a], ad_fresh := Suc (ad_fresh s)\<rparr>))"

definition grantTimeLimitedAccess ::
  "timestamp \<Rightarrow> uuid \<Rightarrow> uuid \<Rightarrow> access_role \<Rightarrow> int \<Rightarrow> access_db \<Rightarrow> course_access \<times> access_db" where
  "grantTimeLimitedAccess now courseId userId role expiresInHours s =
     grantAccess now courseId userId role (Some (now + expiresInHours * 3600000)) None s"

definition logAccess ::
  "timestamp \<Rightarrow> uuid \<Rightarrow> uuid \<Rightarrow> string \<Rightarrow> string option \<Rightarrow> bool \<Rightarrow> string option \<Rightarrow> attempt_type option \<Rightarrow> uuid option
   \<Rightarrow> access_db \<Rightarrow> access_db" where
  "logAccess now courseId userId action ip allowed reason attempt content s =
     s\<lparr>ad_logs := ad_logs s @ [\<lparr>lg_id = ad_fresh s, lg_courseId = courseId, lg_userId = userId, lg_action = action,
         lg_ip = ip, lg_isAllowed = allowed, lg_denialReason = reason, lg_attemptType = attempt, lg_contentId = content,
         lg_timestamp = now\<rparr>], ad_fresh := Suc (ad_fresh s)\<rparr>"

definition expired_at :: "timestamp \<Rightarrow> course_access \<Rightarrow> bool" where
  "expired_at now a = (case ca_expiry a of None \<Rightarrow> False | Some t \<Rightarrow> t < now)"

definition ip_refused :: "string option \<Rightarrow> course_access \<Rightarrow> bool" where
  "ip_refused ip a =
     (case ca_ips a of
        None \<Rightarrow> False
      | Some ips \<Rightarrow> ips \<noteq> [] \<and> (case ip of None \<Rightarrow> True | Some i \<Rightarrow> i \<notin> set ips))"

definition checkAccess ::
  "pick \<Rightarrow> timestamp \<Rightarrow> uuid \<Rightarrow> uuid \<Rightarrow> string option \<Rightarrow> access_db \<Rightarrow> (bool \<times> string option) \<times> access_db" where
  "checkAccess one_of now courseId userId ip s =
     (let deny = (\<lambda>reason. ((False, Some reason), logAccess now courseId userId ''access_denied'' ip False (Some reason) None None s))
      in case one_of (grants_of courseId userId s) of
           None \<Rightarrow> deny ''Access revoked''
         | Some a \<Rightarrow>
             if \<not> ca_isActive a then deny ''Access revoked''
             else if expired_at now a then deny ''Subscription expired''
             else if ip_refused ip a then deny ''IP not allowed''
             else ((True, None), logAccess now courseId userId ''access_granted'' ip True None None None s))"

definition revokeAccess :: "uuid \<Rightarrow> uuid \<Rightarrow> access_db \<Rightarrow> access_db" where
  "revokeAccess courseId userId s =
     s\<lparr>ad_grants := update_rows (\<lambda>a. ca_courseId a = courseId \<and> ca_userId a = userId) (ca_isActive_update (\<lambda>_. False)) (ad_grants s)\<rparr>"

definition updateSubscription :: "uuid \<Rightarrow> uuid \<Rightarrow> timestamp \<Rightarrow> access_db \<Rightarrow> access_db" where
  "updateSubscription courseId userId expiry s =
     s\<lparr>ad_grants := update_rows (\<lambda>a. ca_courseId a = courseId \<and> ca_userId a = userId) (ca_expiry_update (\<lambda>_. Some expiry)) (ad_grants s)\<rparr>"

definition verifyContentAccess ::
  "pick \<Rightarrow> timestamp \<Rightarrow> uuid \<Rightarrow> uuid \<Rightarrow> uuid \<Rightarrow> string option \<Rightarrow> access_db \<Rightarrow> (access_db, unit) outcome" where
  "verifyContentAccess one_of now courseId userId contentId ip s =
     (let write = (\<lambda>action allowed reason attempt. logAccess now courseId userId action ip allowed reason (Some attempt) (Some contentId) s);
          unpaid = (Inl (ForbiddenException ''Purchase required to access this content''),
                    write ''content_denied'' False (Some ''No access granted'') AttemptPayment)
      in case one_of (grants_of courseId userId s) of
           None \<Rightarrow> unpaid
         | Some a \<Rightarrow>
             if \<not> ca_isActive a then unpaid
             else if expired_at now a
             then (Inl (ForbiddenException ''Your access pass has expired''),
                   write ''content_denied'' False (Some ''Access pass expired'') AttemptSubscription)
             else (Inr (), write ''content_accessed'' True None (if ca_role a = AccessStudent then AttemptPayment else AttemptFree)))"

definition getAccessLogs :: "timestamp \<Rightarrow> uuid \<Rightarrow> uuid option \<Rightarrow> int \<Rightarrow> access_db \<Rightarrow> access_log list" where
  "getAccessLogs now courseId userId days s =
     order_by_desc lg_timestamp
       (filter (\<lambda>l. lg_courseId l = courseId \<and> (case userId of None \<Rightarrow> True | Some u \<Rightarrow> lg_userId l = u) \<and>
                    now - days * ms_per_day \<le> lg_timestamp l) (ad_logs s))"

definition getAccessControl :: "pick \<Rightarrow> uuid \<Rightarrow> uuid \<Rightarrow> access_db \<Rightarrow> course_access option" where
  "getAccessControl one_of courseId userId s = one_of (grants_of courseId userId s)"

definition getCourseAccessList :: "uuid \<Rightarrow> access_db \<Rightarrow> course_access list" where
  "getCourseAccessList courseId s = filter (\<lambda>a. ca_courseId a = courseId \<and> ca_isActive a) (ad_grants s)"

subsection \<open>Histories of requests\<close>

datatype access_request =
    Grant timestamp uuid uuid access_role "timestamp option" "string list option"
  | GrantTimed timestamp uuid uuid access_role int
  | Revoke uuid uuid
  | Extend uuid uuid timestamp
  | CheckCourse timestamp uuid uuid "string option"
  | CheckContent timestamp uuid uuid uuid "string option"

fun access_step :: "pick \<Rightarrow> access_request \<Rightarrow> access_db \<Rightarrow> unit \<times> access_db" where
  "access_step p (Grant now c u r e i) s = ((), snd (grantAccess now c u r e i s))"
| "access_step p (GrantTimed now c u r h) s = ((), snd (grantTimeLimitedAccess now c u r h s))"
| "access_step p (Revoke c u) s = ((), revokeAccess c u s)"
| "access_step p (Extend c u e) s = ((), updateSubscription c u e s)"
| "access_step p (CheckCourse now c u ip) s = ((), snd (checkAccess p now c u ip s))"
| "access_step p (CheckContent now c u x ip) s = ((), snd (verifyContentAccess p now c u x ip s))"

fun grants_to :: "uuid \<Rightarrow> uuid \<Rightarrow> access_request \<Rightarrow> bool" where
  "grants_to c u (Grant _ c' u' _ _ _) \<longleftrightarrow> c' = c \<and> u' = u"
| "grants_to c u (GrantTimed _ c' u' _ _) \<longleftrightarrow> c' = c \<and> u' = u"
| "grants_to c u _ \<longleftrightarrow> False"

subsection \<open>Who is let in\<close>

definition entitled :: "timestamp \<Rightarrow> string option \<Rightarrow> course_access \<Rightarrow> bool" where
  "entitled now ip a \<longleftrightarrow> ca_isActive a \<and> \<not> expired_at now a \<and> \<not> ip_refused ip a"

definition shut_out :: "uuid \<Rightarrow> uuid \<Rightarrow> access_db \<Rightarrow> bool" where
  "shut_out c u s \<longleftrightarrow> (\<forall>a \<in> set (ad_grants s). ca_courseId a = c \<and> ca_userId a = u \<longrightarrow> \<not> ca_isActive a)"

lemma logAccess_simps [simp]:
  "ad_grants (logAccess n c u ac ip al r t k s) = ad_grants s"
  "map lg_isAllowed (ad_logs (logAccess n c u ac ip al r t k s)) = map lg_isAllowed (ad_logs s) @ [al]"
  by (simp_all add: logAccess_def)

lemma lawful_pick_Some: "lawful_pick p \<Longrightarrow> p rows = Some a \<Longrightarrow> a \<in> set rows"
  by (simp add: lawful_pick_def)

lemma lawful_pick_None: "lawful_pick p \<Longrightarrow> p rows = None \<longleftrightarrow> rows = []"
  by (simp add: lawful_pick_def)

lemma set_grants_of: "a \<in> set (grants_of c u s) \<longleftrightarrow> a \<in> set (ad_grants s) \<and> ca_courseId a = c \<and> ca_userId a = u"
  by (auto simp: grants_of_def)

lemma checkAccess_allowed:
  "fst (fst (checkAccess p now c u ip s)) \<longleftrightarrow> (\<exists>a. p (grants_of c u s) = Some a \<and> entitled now ip a)"
  by (simp add: checkAccess_def entitled_def Let_def split: option.split)

lemma checkAccess_logs:
  "\<exists>l. ad_logs (snd (checkAccess p now c u ip s)) = ad_logs s @ [l] \<and>
     (lg_isAllowed l, lg_denialReason l) = fst (checkAccess p now c u ip s)"
  by (simp add: checkAccess_def logAccess_def Let_def split: option.split)

lemma checks_keep_grants [simp]:
  "ad_grants (snd (checkAccess p now c u ip s)) = ad_grants s"
  "ad_grants (snd (verifyContentAccess p now c u x ip s)) = ad_grants s"
  by (simp_all add: checkAccess_def verifyContentAccess_def Let_def split: option.split)

lemma verifyContentAccess_allowed:
  "succeeds (verifyContentAccess p now c u x ip s) \<longleftrightarrow> (\<exists>a. p (grants_of c u s) = Some a \<and> ca_isActive a \<and> \<not> expired_at now a)"
  by (auto simp: verifyContentAccess_def Let_def split: option.split)

lemma shut_out_step:
  assumes "shut_out c u s" "\<not> grants_to c u r"
  shows "shut_out c u (snd (access_step p r s))"
  using assms by (cases r) (auto simp: shut_out_def grantTimeLimitedAccess_def grantAccess_def Let_def revokeAccess_def
      updateSubscription_def set_update_rows)

lemma shut_out_run:
  assumes "shut_out c u s" "\<not> list_ex (grants_to c u) rs"
  shows "shut_out c u (run_ops (access_step p) rs s)"
  using assms by (induction rs arbitrary: s) (auto intro: shut_out_step)

lemma shut_out_revoke: "shut_out c u (revokeAccess c u s)"
  by (simp add: shut_out_def revokeAccess_def update_rows_def ball_Un) blast

lemma shut_out_denied:
  assumes "lawful_pick p" "shut_out c u s"
  shows "\<not> fst (fst (checkAccess p now c u ip s))" "\<not> succeeds (verifyContentAccess p now c u x ip s)"
  using assms by (auto simp: checkAccess_allowed verifyContentAccess_allowed entitled_def shut_out_def set_grants_of
      dest: lawful_pick_Some)

subsection \<open>Properties\<close>


text \<open>C13: After a revocation no history of requests without a new grant of that course to that user lets the
  user in again, neither into the course nor to a piece of its content.\<close>

theorem revoked_stays_out:
  assumes "lawful_pick one_of" "\<not> list_ex (grants_to c u) rs"
  shows "\<not> fst (fst (checkAccess one_of now c u ip (run_ops (access_step one_of) rs (revokeAccess c u s)))) \<and>
    \<not> succeeds (verifyContentAccess one_of now c u x ip (run_ops (access_step one_of) rs (revokeAccess c u s)))"
  using shut_out_denied[OF assms(1) shut_out_run[OF shut_out_revoke assms(2)]] by blast

text \<open>A new grant after a revocation is a second row beside the revoked one: the database may return
  either, so one lawful choice lets the user in and another keeps refusing.\<close>

theorem regrant_unreliable:
  assumes "\<exists>a \<in> set (grants_of c u s). \<not> ca_isActive a"
  shows "\<exists>p q. lawful_pick p \<and> lawful_pick q \<and>
    fst (fst (checkAccess p now c u ip (snd (grantAccess now c u role None None s)))) \<and>
    \<not> fst (fst (checkAccess q now c u ip (snd (grantAccess now c u role None None s))))"
proof -
  let ?s = "snd (grantAccess now c u role None None s)"
  let ?new = "fst (grantAccess now c u role None None s)"
  obtain old where old: "old \<in> set (grants_of c u s)" "\<not> ca_isActive old" using assms by blast
  have mem: "old \<in> set (grants_of c u ?s)" "?new \<in> set (grants_of c u ?s)"
    using old(1) by (simp_all add: set_grants_of grantAccess_def Let_def)
  define p :: "course_access \<Rightarrow> pick" where
    "p x rows = (if x \<in> set rows then Some x else case rows of [] \<Rightarrow> None | y # _ \<Rightarrow> Some y)" for x rows
  have lawful: "lawful_pick (p x)" for x by (auto simp: lawful_pick_def p_def split: list.split)
  have "fst (fst (checkAccess (p ?new) now c u ip ?s))"
    using mem(2) by (simp add: checkAccess_allowed p_def entitled_def expired_at_def ip_refused_def)
      (simp add: grantAccess_def Let_def)
  moreover have "\<not> fst (fst (checkAccess (p old) now c u ip ?s))"
    using mem(1) old(2) by (simp add: checkAccess_allowed p_def entitled_def)
  ultimately show ?thesis using lawful by blast
qed

text \<open>The list of addresses of a grant guards the check of the course but not the content: a request the
  check refuses for its address is served the content.\<close>

theorem content_ignores_addresses:
  assumes "one_of (grants_of c u s) = Some a" "ca_isActive a" "\<not> expired_at now a" "ip_refused ip a"
  shows "fst (checkAccess one_of now c u ip s) = (False, Some ''IP not allowed'') \<and>
    succeeds (verifyContentAccess one_of now c u x ip s)"
  using assms by (simp add: checkAccess_def verifyContentAccess_def Let_def)

subsection \<open>Witnesses\<close>

definition first_row :: pick where
  "first_row rows = (case rows of [] \<Rightarrow> None | a # _ \<Rightarrow> Some a)"

lemma lawful_first_row: "lawful_pick first_row"
  by (auto simp: lawful_pick_def first_row_def split: list.split)

definition one_grant :: access_db where
  "one_grant = \<lparr>ad_grants = [\<lparr>ca_id = 10, ca_courseId = 3, ca_userId = 2, ca_role = AccessStudent, ca_expiry = Some 100,
     ca_ips = Some [''10.0.0.1''], ca_isActive = True, ca_grantedAt = 0\<rparr>], ad_logs = [], ad_fresh = 11\<rparr>"


theorem revoked_stays_out_witness:
  "\<not> fst (fst (checkAccess first_row 60 3 2 (Some ''10.0.0.1'')
      (run_ops (access_step first_row) [Extend 3 2 900, Grant 50 3 7 AccessAdmin None None] (revokeAccess 3 2 one_grant))))"
  using revoked_stays_out[OF lawful_first_row, of 3 2 "[Extend 3 2 900, Grant 50 3 7 AccessAdmin None None]" 60 "Some ''10.0.0.1''" one_grant]
  by simp

theorem regrant_unreliable_witness:
  "\<exists>p q. lawful_pick p \<and> lawful_pick q \<and>
    fst (fst (checkAccess p 60 3 2 None (snd (grantAccess 60 3 2 AccessStudent None None (revokeAccess 3 2 one_grant))))) \<and>
    \<not> fst (fst (checkAccess q 60 3 2 None (snd (grantAccess 60 3 2 AccessStudent None None (revokeAccess 3 2 one_grant)))))"
  by (rule regrant_unreliable) (simp add: grants_of_def revokeAccess_def one_grant_def update_rows_def)

theorem content_ignores_addresses_witness:
  "succeeds (verifyContentAccess first_row 50 3 2 77 (Some ''8.8.8.8'') one_grant)"
  using content_ignores_addresses[of first_row 3 2 one_grant _ 50 "Some ''8.8.8.8''"]
  by (simp add: first_row_def grants_of_def one_grant_def expired_at_def ip_refused_def)

end
