(* ===== verification/Stellar.thy ===== *)
theory Stellar
  imports Caching
begin

text \<open>
  The client of the Stellar ledger (\<open>stellar/stellar.service.ts\<close>). The SDK, the RPC server and Horizon are
  the record \<open>sdk\<close> of parameters: \<open>sd_encode\<close> turns an argument into a contract value or throws, \<open>sd_build\<close>
  builds a transaction or throws, and the answers of the network may differ from one call to the next, so they
  take the number of calls made before. \<open>nt_sent\<close> is what was handed to the network: a transaction whose answer
  got lost may have been applied. The library \<open>p-retry\<close> is the parameter \<open>retry\<close>; the locale \<open>retrying\<close> states
  its documented behaviour with the option \<open>retries\<close>.
\<close>

datatype sc_val = ScAddress string | ScString string | ScSymbol string | ScI32 int | ScI128 int | ScU64 int
  | ScStrings "string list"

datatype ledger_tx = InvokeContract string string "sc_val list" | ManageData string string

datatype send_status = SendPending | SendDuplicate | SendTryAgainLater | SendError

datatype simulation = SimulationError string | SimulationSuccess "int option"

record stellar_config =
  sc_network :: "string option"
  sc_secretKey :: string
  sc_analyticsContractId :: string
  sc_tokenContractId :: string
  sc_credentialMetadataContractId :: string
  sc_certificateContractId :: string
  sc_enrollmentContractId :: string

record sdk =
  sd_publicKey :: "string \<Rightarrow> http_error + string"
  sd_encode :: "sc_val \<Rightarrow> http_error option"
  sd_build :: "ledger_tx \<Rightarrow> http_error option"
  sd_account :: "nat \<Rightarrow> string \<Rightarrow> http_error option"
  sd_prepare :: "nat \<Rightarrow> ledger_tx \<Rightarrow> http_error option"
  sd_send :: "nat \<Rightarrow> ledger_tx \<Rightarrow> http_error + (send_status \<times> string)"
  sd_submit :: "nat \<Rightarrow> ledger_tx \<Rightarrow> http_error + string"
  sd_simulate :: "nat \<Rightarrow> ledger_tx \<Rightarrow> http_error + simulation"

record net =
  nt_calls :: nat
  nt_pending :: nat
  nt_sent :: "ledger_tx list"
  nt_isShuttingDown :: bool

type_synonym 'a call = "net \<Rightarrow> (net, 'a) outcome"

type_synonym retry = "string call \<Rightarrow> string call"

subsection \<open>Calls of the network\<close>

definition no_error :: "http_error option \<Rightarrow> http_error + unit" where
  "no_error e = (case e of None \<Rightarrow> Inr () | Some err \<Rightarrow> Inl err)"

definition ask :: "(nat \<Rightarrow> http_error + 'a) \<Rightarrow> 'a call" where
  "ask answer s = (answer (nt_calls s), s\<lparr>nt_calls := Suc (nt_calls s)\<rparr>)"

definition ask_sending :: "ledger_tx \<Rightarrow> (nat \<Rightarrow> http_error + 'a) \<Rightarrow> 'a call" where
  "ask_sending tx answer s =
     (answer (nt_calls s), s\<lparr>nt_calls := Suc (nt_calls s), nt_sent := nt_sent s @ [tx]\<rparr>)"

fun scVals :: "sdk \<Rightarrow> sc_val list \<Rightarrow> http_error + unit" where
  "scVals sdk [] = Inr ()"
| "scVals sdk (v # vs) = (case sd_encode sdk v of Some e \<Rightarrow> Inl e | None \<Rightarrow> scVals sdk vs)"

definition ensureSecretKeyConfigured :: "stellar_config \<Rightarrow> unit call" where
  "ensureSecretKeyConfigured cfg s =
     ((if sc_secretKey cfg = [] then Inl (ServiceUnavailableException ''STELLAR_SECRET_KEY is not configured'') else Inr ()), s)"

definition invokeContract ::
  "stellar_config \<Rightarrow> sdk \<Rightarrow> string \<Rightarrow> string \<Rightarrow> sc_val list \<Rightarrow> string call" where
  "invokeContract cfg sdk contract meth args s =
     (let tx = InvokeContract contract meth args
      in await (ensureSecretKeyConfigured cfg s) (\<lambda>_ s.
         await (sd_publicKey sdk (sc_secretKey cfg), s) (\<lambda>issuer s.
         await (ask (\<lambda>n. no_error (sd_account sdk n issuer)) s) (\<lambda>_ s.
         await (no_error (sd_build sdk tx), s) (\<lambda>_ s.
         await (ask (\<lambda>n. no_error (sd_prepare sdk n tx)) s) (\<lambda>_ s.
         await (ask_sending tx (\<lambda>n. sd_send sdk n tx) s) (\<lambda>(status, txHash) s. (Inr txHash, s))))))))"

text \<open>The arguments of a contract call are converted inside the retried function.\<close>

definition contract_call ::
  "stellar_config \<Rightarrow> sdk \<Rightarrow> string \<Rightarrow> string \<Rightarrow> sc_val list \<Rightarrow> string call" where
  "contract_call cfg sdk contract meth args s =
     await (scVals sdk args, s) (\<lambda>_ s. invokeContract cfg sdk contract meth args s)"

definition decrementPendingTransactions :: "net \<Rightarrow> net" where
  "decrementPendingTransactions s = (if 0 < nt_pending s then s\<lparr>nt_pending := nt_pending s - 1\<rparr> else s)"

definition trackTransaction :: "'a call \<Rightarrow> 'a call" where
  "trackTransaction f s =
     (case f (s\<lparr>nt_pending := Suc (nt_pending s)\<rparr>) of (r, s') \<Rightarrow> (r, decrementPendingTransactions s'))"

subsection \<open>Operations\<close>

definition recordEnrollment :: "stellar_config \<Rightarrow> sdk \<Rightarrow> retry \<Rightarrow> string \<Rightarrow> string \<Rightarrow> string call" where
  "recordEnrollment cfg sdk retry studentPublicKey courseId s =
     await (ensureSecretKeyConfigured cfg s) (\<lambda>_ s.
       if sc_enrollmentContractId cfg = [] then (Inl (JsError ''ENROLLMENT_CONTRACT_ID is not configured''), s)
       else trackTransaction (retry (contract_call cfg sdk (sc_enrollmentContractId cfg) ''record_enrollment''
              [ScAddress studentPublicKey, ScString courseId])) s)"

text \<open>\<open>friendbot\<close> is the answer of the faucet: whether it is a success, and its text.\<close>

definition fundTestnetAccount ::
  "stellar_config \<Rightarrow> (string \<Rightarrow> http_error + (bool \<times> string)) \<Rightarrow> string \<Rightarrow> http_error + string" where
  "fundTestnetAccount cfg friendbot publicKey =
     (if sc_network cfg \<noteq> Some ''testnet'' then Inl (JsError ''Friendbot is only available on testnet'')
      else case friendbot publicKey of
        Inl e \<Rightarrow> Inl e
      | Inr (False, answer) \<Rightarrow> Inl (JsError (''Friendbot error: '' @ answer))
      | Inr (True, _) \<Rightarrow> Inr (''Account '' @ publicKey @ '' funded successfully''))"

text \<open>The class has no method \<open>retryWithBackoff\<close>: the call inside the tracked function throws.\<close>

definition mintCertificateNFT :: "stellar_config \<Rightarrow> string \<Rightarrow> string \<Rightarrow> string \<Rightarrow> string call" where
  "mintCertificateNFT cfg recipientPublicKey certificateHash courseTitle s =
     await (ensureSecretKeyConfigured cfg s) (\<lambda>_ s.
       if sc_certificateContractId cfg = [] then (Inl (JsError ''CERTIFICATE_CONTRACT_ID is not configured''), s)
       else trackTransaction (\<lambda>s. (Inl JsTypeError, s)) s)"

text \<open>The fallback and the final step of a credential submit the same entry to Horizon.\<close>

definition credential_entry :: "string \<Rightarrow> string \<Rightarrow> ledger_tx" where
  "credential_entry recipientPublicKey courseId = ManageData (''scoopdope:credential:'' @ courseId) recipientPublicKey"

definition mintCredentialViaHorizon :: "stellar_config \<Rightarrow> sdk \<Rightarrow> string \<Rightarrow> string \<Rightarrow> string call" where
  "mintCredentialViaHorizon cfg sdk recipientPublicKey courseId s =
     (let tx = credential_entry recipientPublicKey courseId
      in await (ensureSecretKeyConfigured cfg s) (\<lambda>_ s.
         await (sd_publicKey sdk (sc_secretKey cfg), s) (\<lambda>issuer s.
         await (ask (\<lambda>n. no_error (sd_account sdk n issuer)) s) (\<lambda>_ s.
         await (no_error (sd_build sdk tx), s) (\<lambda>_ s.
         ask_sending tx (\<lambda>n. sd_submit sdk n tx) s)))))"

definition issueCredentialFallback :: "stellar_config \<Rightarrow> sdk \<Rightarrow> string \<Rightarrow> string \<Rightarrow> string call" where
  "issueCredentialFallback cfg sdk recipientPublicKey courseId s =
     (let tx = credential_entry recipientPublicKey courseId
      in await (ensureSecretKeyConfigured cfg s) (\<lambda>_ s.
         await (sd_publicKey sdk (sc_secretKey cfg), s) (\<lambda>issuer s.
         await (ask (\<lambda>n. no_error (sd_account sdk n issuer)) s) (\<lambda>_ s.
         await (no_error (sd_build sdk tx), s) (\<lambda>_ s.
         ask_sending tx (\<lambda>n. sd_submit sdk n tx) s)))))"

text \<open>The configured ids default to the empty string, so \<open>analyticsContractId ?? contractId\<close> is the first.\<close>

definition recordProgressOnChain :: "stellar_config \<Rightarrow> sdk \<Rightarrow> string \<Rightarrow> string \<Rightarrow> string call" where
  "recordProgressOnChain cfg sdk studentPublicKey courseId =
     contract_call cfg sdk (sc_analyticsContractId cfg) ''record_progress''
       [ScAddress studentPublicKey, ScSymbol courseId, ScI32 100]"

record metadata =
  md_courseName :: string
  md_grade :: string
  md_skills :: "string list"

definition storeCredentialMetadata ::
  "stellar_config \<Rightarrow> sdk \<Rightarrow> timestamp \<Rightarrow> string \<Rightarrow> metadata \<Rightarrow> string call" where
  "storeCredentialMetadata cfg sdk now studentPublicKey md s =
     await (ensureSecretKeyConfigured cfg s) (\<lambda>_ s.
     await (sd_publicKey sdk (sc_secretKey cfg), s) (\<lambda>issuer s.
       contract_call cfg sdk (sc_credentialMetadataContractId cfg) ''store_metadata''
         [ScAddress issuer, ScAddress studentPublicKey, ScString (md_courseName md), ScU64 (now div 1000),
          ScString (md_grade md), ScStrings (md_skills md)] s))"

definition ignore_failure :: "string call \<Rightarrow> unit call" where
  "ignore_failure f s = (Inr (), snd (f s))"

definition progress_phase :: "stellar_config \<Rightarrow> sdk \<Rightarrow> retry \<Rightarrow> string \<Rightarrow> string \<Rightarrow> unit call" where
  "progress_phase cfg sdk retry recipientPublicKey courseId s =
     (case retry (recordProgressOnChain cfg sdk recipientPublicKey courseId) s of
        (Inr _, s) \<Rightarrow> (Inr (), s)
      | (Inl _, s) \<Rightarrow> await (issueCredentialFallback cfg sdk recipientPublicKey courseId s) (\<lambda>_ s. (Inr (), s)))"

definition metadata_phase :: "stellar_config \<Rightarrow> sdk \<Rightarrow> retry \<Rightarrow> timestamp \<Rightarrow> string \<Rightarrow> metadata option \<Rightarrow> unit call" where
  "metadata_phase cfg sdk retry now recipientPublicKey md s =
     (case md of
        None \<Rightarrow> (Inr (), s)
      | Some m \<Rightarrow>
          if sc_credentialMetadataContractId cfg = [] then (Inr (), s)
          else ignore_failure (retry (storeCredentialMetadata cfg sdk now recipientPublicKey m)) s)"

definition issueCredential ::
  "stellar_config \<Rightarrow> sdk \<Rightarrow> retry \<Rightarrow> timestamp \<Rightarrow> string \<Rightarrow> string \<Rightarrow> metadata option \<Rightarrow> string call" where
  "issueCredential cfg sdk retry now recipientPublicKey courseId md s =
     await (ensureSecretKeyConfigured cfg s) (\<lambda>_.
       trackTransaction (\<lambda>s.
         await (progress_phase cfg sdk retry recipientPublicKey courseId s) (\<lambda>_ s.
         await (metadata_phase cfg sdk retry now recipientPublicKey md s) (\<lambda>_.
         mintCredentialViaHorizon cfg sdk recipientPublicKey courseId))))"

definition recordProgress :: "stellar_config \<Rightarrow> sdk \<Rightarrow> retry \<Rightarrow> string \<Rightarrow> string \<Rightarrow> int \<Rightarrow> string call" where
  "recordProgress cfg sdk retry studentPublicKey courseId progressPct s =
     await (ensureSecretKeyConfigured cfg s) (\<lambda>_.
       trackTransaction (retry (contract_call cfg sdk (sc_analyticsContractId cfg) ''record_progress''
         [ScAddress studentPublicKey, ScSymbol courseId, ScI32 progressPct])))"

definition mint_tx :: "stellar_config \<Rightarrow> string \<Rightarrow> int \<Rightarrow> ledger_tx" where
  "mint_tx cfg recipientPublicKey amount =
     InvokeContract (sc_tokenContractId cfg) ''mint_reward'' [ScAddress recipientPublicKey, ScI128 amount]"

definition stellar_mintReward :: "stellar_config \<Rightarrow> sdk \<Rightarrow> retry \<Rightarrow> string \<Rightarrow> int \<Rightarrow> string call" where
  "stellar_mintReward cfg sdk retry recipientPublicKey amount s =
     await (ensureSecretKeyConfigured cfg s) (\<lambda>_ s.
       if sc_tokenContractId cfg = [] then (Inl (JsError ''TOKEN_CONTRACT_ID not configured''), s)
       else trackTransaction (retry (contract_call cfg sdk (sc_tokenContractId cfg) ''mint_reward''
              [ScAddress recipientPublicKey, ScI128 amount])) s)"

text \<open>The balance of a key, printed as a decimal number and cached for thirty seconds.\<close>

definition string_of_int :: "int \<Rightarrow> string" where
  "string_of_int i = (if i < 0 then ''-'' @ string_of_nat (nat (- i)) else string_of_nat (nat i))"

definition balance_key :: "string \<Rightarrow> string" where
  "balance_key stellarPublicKey = ''token_balance:'' @ stellarPublicKey"

definition simulated_balance :: "stellar_config \<Rightarrow> sdk \<Rightarrow> string \<Rightarrow> string call" where
  "simulated_balance cfg sdk stellarPublicKey s =
     (let tx = InvokeContract (sc_tokenContractId cfg) ''balance'' [ScAddress stellarPublicKey]
      in await (sd_publicKey sdk (sc_secretKey cfg), s) (\<lambda>issuer s.
         await (ask (\<lambda>n. no_error (sd_account sdk n issuer)) s) (\<lambda>_ s.
         await (scVals sdk [ScAddress stellarPublicKey], s) (\<lambda>_ s.
         await (no_error (sd_build sdk tx), s) (\<lambda>_ s.
         await (ask (\<lambda>n. sd_simulate sdk n tx) s) (\<lambda>r s.
           case r of
             SimulationError msg \<Rightarrow> (Inl (JsError (''Token balance simulation failed: '' @ msg)), s)
           | SimulationSuccess None \<Rightarrow> (Inr ''0'', s)
           | SimulationSuccess (Some b) \<Rightarrow> (Inr (string_of_int b), s)))))))"

definition getTokenBalance ::
  "(timestamp \<Rightarrow> 'c \<Rightarrow> string \<Rightarrow> string option) \<Rightarrow> (timestamp \<Rightarrow> string \<Rightarrow> string \<Rightarrow> int \<Rightarrow> 'c \<Rightarrow> 'c) \<Rightarrow>
   stellar_config \<Rightarrow> sdk \<Rightarrow> timestamp \<Rightarrow> string \<Rightarrow> net \<times> 'c \<Rightarrow> (net \<times> 'c, string) outcome" where
  "getTokenBalance get put cfg sdk now stellarPublicKey s =
     (if sc_secretKey cfg = [] then (Inl (ServiceUnavailableException ''STELLAR_SECRET_KEY is not configured''), s)
      else if sc_tokenContractId cfg = [] then (Inl (JsError ''TOKEN_CONTRACT_ID not configured''), s)
      else case get now (snd s) (balance_key stellarPublicKey) of
        Some cached \<Rightarrow> (Inr cached, s)
      | None \<Rightarrow>
          (case simulated_balance cfg sdk stellarPublicKey (fst s) of
             (Inl e, n) \<Rightarrow> (Inl e, (n, snd s))
           | (Inr balance, n) \<Rightarrow> (Inr balance, (n, put now (balance_key stellarPublicKey) balance 30000 (snd s)))))"

subsection \<open>Shutting down\<close>

text \<open>The loop that waits for pending transactions, with the milliseconds elapsed since it started:
  \<open>pending t\<close> is the counter at that time, and the timer of round \<open>i\<close> fires \<open>late i\<close> after its 100 ms.\<close>

function wait_pending :: "(nat \<Rightarrow> nat) \<Rightarrow> (nat \<Rightarrow> nat) \<Rightarrow> nat \<Rightarrow> nat \<Rightarrow> nat" where
  "wait_pending pending late i t =
     (if 0 < pending t \<and> t < 10000 then wait_pending pending late (Suc i) (t + 100 + late i) else t)"
  by pat_completeness auto
termination by (relation "measure (\<lambda>(_, _, _, t). 10000 - t)") auto

declare wait_pending.simps [simp del]

text \<open>When the shutdown ends, and how many transactions it gives up.\<close>

definition onApplicationShutdown :: "(nat \<Rightarrow> nat) \<Rightarrow> (nat \<Rightarrow> nat) \<Rightarrow> net \<Rightarrow> (nat \<times> nat) \<times> net" where
  "onApplicationShutdown pending late s =
     (let t = (if 0 < pending 0 then wait_pending pending late 0 0 else 0)
      in ((t, pending t), s\<lparr>nt_isShuttingDown := True, nt_pending := pending t\<rparr>))"

subsection \<open>Retrying\<close>

fun iter_calls :: "('s \<Rightarrow> ('s, 'a) outcome) \<Rightarrow> nat \<Rightarrow> 's \<Rightarrow> 's" where
  "iter_calls f 0 s = s"
| "iter_calls f (Suc k) s = iter_calls f k (snd (f s))"

lemma iter_calls_Suc: "iter_calls f (Suc k) s = snd (f (iter_calls f k s))"
  by (induction k arbitrary: s) simp_all

text \<open>What \<open>p-retry\<close> documents: the function is called until it succeeds, throws a \<open>TypeError\<close>, or has been
  called once and retried \<open>retries\<close> times; the outcome is that of the last call.\<close>

locale retrying =
  fixes retries :: nat
    and retry :: "('s \<Rightarrow> ('s, 'a) outcome) \<Rightarrow> 's \<Rightarrow> ('s, 'a) outcome"
  assumes attempts: "\<exists>k \<le> retries. retry f s = f (iter_calls f k s) \<and>
      (\<forall>j < k. \<not> succeeds (f (iter_calls f j s)) \<and> fst (f (iter_calls f j s)) \<noteq> Inl JsTypeError) \<and>
      (succeeds (retry f s) \<or> fst (retry f s) = Inl JsTypeError \<or> k = retries)"
begin

lemma retry_keeps:
  assumes "\<And>s. g (snd (f s)) = g s"
  shows "g (snd (retry f s)) = g s"
proof -
  have "g (iter_calls f k s) = g s" for k by (induction k arbitrary: s) (simp_all add: assms)
  with attempts[of f s] assms show ?thesis by metis
qed

lemma retry_first:
  assumes "succeeds (f s)"
  shows "retry f s = f s"
proof -
  obtain k where "retry f s = f (iter_calls f k s)" "\<forall>j < k. \<not> succeeds (f (iter_calls f j s))"
    using attempts[of f s] by blast
  moreover from this assms have "k = 0" by (metis gr0I iter_calls.simps(1))
  ultimately show ?thesis by simp
qed

lemma retry_second:
  assumes "\<not> succeeds (f s)" "fst (f s) \<noteq> Inl JsTypeError" "succeeds (f (snd (f s)))" "0 < retries"
  shows "retry f s = f (snd (f s))"
proof -
  obtain k where k: "retry f s = f (iter_calls f k s)" "\<forall>j < k. \<not> succeeds (f (iter_calls f j s))"
    "succeeds (retry f s) \<or> fst (retry f s) = Inl JsTypeError \<or> k = retries"
    using attempts[of f s] by blast
  have "k \<noteq> 0" using k assms by (cases k) auto
  moreover have "\<not> 1 < k" using k(2) assms(3) by (metis One_nat_def iter_calls.simps)
  ultimately have "k = 1" by simp
  with k(1) show ?thesis by simp
qed

lemma retry_sends:
  assumes "\<And>s. \<exists>m \<le> 1. sent (snd (f s)) = sent s @ replicate m x" "\<And>s. succeeds (f s) \<Longrightarrow> sent (snd (f s)) = sent s @ [x]"
  shows "\<exists>m \<le> Suc retries. sent (snd (retry f s)) = sent s @ replicate m x \<and> (succeeds (retry f s) \<longrightarrow> 1 \<le> m)"
proof -
  have iter: "\<exists>m \<le> k. sent (iter_calls f k s) = sent s @ replicate m x" for k
  proof (induction k)
    case (Suc k)
    then obtain m where m: "m \<le> k" "sent (iter_calls f k s) = sent s @ replicate m x" by blast
    obtain n where n: "n \<le> 1" "sent (snd (f (iter_calls f k s))) = sent (iter_calls f k s) @ replicate n x"
      using assms(1) by blast
    from m n show ?case by (intro exI[of _ "m + n"]) (simp add: iter_calls_Suc replicate_add del: iter_calls.simps)
  qed simp
  obtain k where k: "k \<le> retries" "retry f s = f (iter_calls f k s)" using attempts[of f s] by blast
  obtain m where m: "m \<le> k" "sent (iter_calls f k s) = sent s @ replicate m x" using iter by blast
  show ?thesis
  proof (cases "succeeds (retry f s)")
    case True
    with assms(2)[of "iter_calls f k s"] k m show ?thesis
      by (intro exI[of _ "Suc m"]) (simp add: replicate_append_same)
  next
    case False
    obtain n where "n \<le> 1" "sent (snd (f (iter_calls f k s))) = sent (iter_calls f k s) @ replicate n x"
      using assms(1) by blast
    with False k m show ?thesis by (intro exI[of _ "m + n"]) (simp add: replicate_add)
  qed
qed

end

fun p_retry :: "nat \<Rightarrow> ('s \<Rightarrow> ('s, 'a) outcome) \<Rightarrow> 's \<Rightarrow> ('s, 'a) outcome" where
  "p_retry 0 f s = f s"
| "p_retry (Suc n) f s = (if succeeds (f s) \<or> fst (f s) = Inl JsTypeError then f s else p_retry n f (snd (f s)))"

lemma p_retry_attempts:
  "\<exists>k \<le> n. p_retry n f s = f (iter_calls f k s) \<and>
      (\<forall>j < k. \<not> succeeds (f (iter_calls f j s)) \<and> fst (f (iter_calls f j s)) \<noteq> Inl JsTypeError) \<and>
      (succeeds (p_retry n f s) \<or> fst (p_retry n f s) = Inl JsTypeError \<or> k = n)"
proof (induction n arbitrary: s)
  case (Suc n)
  show ?case
  proof (cases "succeeds (f s) \<or> fst (f s) = Inl JsTypeError")
    case True
    then show ?thesis by (intro exI[of _ 0]) auto
  next
    case False
    obtain k where k: "k \<le> n" "p_retry n f (snd (f s)) = f (iter_calls f k (snd (f s)))"
      "\<forall>j < k. \<not> succeeds (f (iter_calls f j (snd (f s)))) \<and> fst (f (iter_calls f j (snd (f s)))) \<noteq> Inl JsTypeError"
      "succeeds (p_retry n f (snd (f s))) \<or> fst (p_retry n f (snd (f s))) = Inl JsTypeError \<or> k = n"
      using Suc.IH[of "snd (f s)"] by blast
    have "\<not> succeeds (f (iter_calls f j s)) \<and> fst (f (iter_calls f j s)) \<noteq> Inl JsTypeError" if "j < Suc k" for j
      using that False k(3) by (cases j) auto
    with k False show ?thesis by (intro exI[of _ "Suc k"]) auto
  qed
qed simp

interpretation p_retry: retrying n "p_retry n" for n
  by unfold_locales (rule p_retry_attempts)

subsection \<open>What each operation sends\<close>

lemma fst_no_error [simp]: "no_error None = Inr ()" "no_error (Some e) = Inl e"
  by (simp_all add: no_error_def)

lemma invokeContract_effect:
  "nt_pending (snd (invokeContract cfg sdk c m args s)) = nt_pending s"
  "\<exists>n \<le> 1. nt_sent (snd (invokeContract cfg sdk c m args s)) = nt_sent s @ replicate n (InvokeContract c m args)"
  "succeeds (invokeContract cfg sdk c m args s) \<Longrightarrow> nt_sent (snd (invokeContract cfg sdk c m args s)) = nt_sent s @ [InvokeContract c m args]"
  by (auto simp: invokeContract_def ensureSecretKeyConfigured_def await_def ask_def ask_sending_def Let_def
      split: sum.splits prod.splits intro: exI[of _ 0] exI[of _ "Suc 0"])

lemma contract_call_effect:
  "nt_pending (snd (contract_call cfg sdk c m args s)) = nt_pending s"
  "\<exists>n \<le> 1. nt_sent (snd (contract_call cfg sdk c m args s)) = nt_sent s @ replicate n (InvokeContract c m args)"
  "succeeds (contract_call cfg sdk c m args s) \<Longrightarrow> nt_sent (snd (contract_call cfg sdk c m args s)) = nt_sent s @ [InvokeContract c m args]"
  using invokeContract_effect[of cfg sdk c m args s]
  by (auto simp: contract_call_def await_def split: sum.splits intro: exI[of _ 0])

lemma trackTransaction_keeps:
  assumes "\<And>s. nt_pending (snd (f s)) = nt_pending s"
  shows "nt_pending (snd (trackTransaction f s)) = nt_pending s"
  using assms[of "s\<lparr>nt_pending := Suc (nt_pending s)\<rparr>"]
  by (cases "f (s\<lparr>nt_pending := Suc (nt_pending s)\<rparr>)") (simp add: trackTransaction_def decrementPendingTransactions_def)

lemma decrement_simps [simp]: "nt_sent (decrementPendingTransactions s) = nt_sent s"
  by (simp add: decrementPendingTransactions_def)

lemma trackTransaction_eq:
  "fst (trackTransaction f s) = fst (f (s\<lparr>nt_pending := Suc (nt_pending s)\<rparr>))"
  "nt_sent (snd (trackTransaction f s)) = nt_sent (snd (f (s\<lparr>nt_pending := Suc (nt_pending s)\<rparr>)))"
  "succeeds (trackTransaction f s) = succeeds (f (s\<lparr>nt_pending := Suc (nt_pending s)\<rparr>))"
  by (simp_all add: trackTransaction_def succeeds_def split: prod.split)

lemma tracked_contract_call:
  assumes "retrying n retry"
  shows "nt_pending (snd (trackTransaction (retry (contract_call cfg sdk c m args)) s)) = nt_pending s"
    "\<exists>k \<le> Suc n. nt_sent (snd (trackTransaction (retry (contract_call cfg sdk c m args)) s)) =
        nt_sent s @ replicate k (InvokeContract c m args) \<and>
      (succeeds (trackTransaction (retry (contract_call cfg sdk c m args)) s) \<longrightarrow> 1 \<le> k)"
  using trackTransaction_keeps[of "retry (contract_call cfg sdk c m args)" s]
    retrying.retry_keeps[OF assms, of nt_pending "contract_call cfg sdk c m args"]
    retrying.retry_sends[OF assms, of nt_sent "contract_call cfg sdk c m args" "InvokeContract c m args" "s\<lparr>nt_pending := Suc (nt_pending s)\<rparr>"]
    contract_call_effect[of cfg sdk c m args]
  by (simp_all add: trackTransaction_eq)

lemma mintCredentialViaHorizon_effect:
  "nt_pending (snd (mintCredentialViaHorizon cfg sdk k c s)) = nt_pending s"
  "\<exists>n \<le> 1. nt_sent (snd (mintCredentialViaHorizon cfg sdk k c s)) = nt_sent s @ replicate n (credential_entry k c)"
  "mintCredentialViaHorizon cfg sdk k c s = (Inr h, s') \<Longrightarrow>
     nt_sent s' = nt_sent s @ [credential_entry k c] \<and> (\<exists>n. sd_submit sdk n (credential_entry k c) = Inr h)"
  by (auto simp: mintCredentialViaHorizon_def ensureSecretKeyConfigured_def await_def ask_def ask_sending_def Let_def
      split: sum.splits prod.splits intro: exI[of _ 0] exI[of _ "Suc 0"])

lemma issueCredentialFallback_same: "issueCredentialFallback = mintCredentialViaHorizon"
  by (intro ext) (simp add: issueCredentialFallback_def mintCredentialViaHorizon_def)

subsection \<open>Extending what was sent\<close>

definition sends_more :: "net \<Rightarrow> net \<Rightarrow> bool" where
  "sends_more s s' \<longleftrightarrow> nt_pending s' = nt_pending s \<and> (\<exists>txs. nt_sent s' = nt_sent s @ txs)"

lemma sends_more_refl [simp]: "sends_more s s" by (simp add: sends_more_def)

lemma sends_more_trans [trans]: "sends_more s s' \<Longrightarrow> sends_more s' s'' \<Longrightarrow> sends_more s s''"
  by (auto simp: sends_more_def)

lemma retry_sends_more:
  assumes "retrying n retry" "\<And>s. sends_more s (snd (f s))"
  shows "sends_more s (snd (retry f s))"
proof -
  have "sends_more s (iter_calls f k s)" for k
    by (induction k arbitrary: s) (auto intro: sends_more_trans assms(2))
  with retrying.attempts[OF assms(1), of f s] assms(2) show ?thesis by (metis sends_more_trans)
qed

lemma call_sends_more:
  "sends_more s (snd (contract_call cfg sdk c m args s))"
  "sends_more s (snd (mintCredentialViaHorizon cfg sdk k co s))"
  using contract_call_effect(1,2)[of cfg sdk c m args s] mintCredentialViaHorizon_effect(1,2)[of cfg sdk k co s]
  by (auto simp: sends_more_def)

lemma storeCredentialMetadata_sends_more: "sends_more s (snd (storeCredentialMetadata cfg sdk now k md s))"
  by (auto simp: storeCredentialMetadata_def ensureSecretKeyConfigured_def await_def call_sends_more split: sum.splits)

lemma progress_phase_effect:
  assumes "retrying n retry"
  shows "sends_more s (snd (progress_phase cfg sdk retry k c s))"
    "succeeds (progress_phase cfg sdk retry k c s) \<Longrightarrow> \<not> succeeds (retry (recordProgressOnChain cfg sdk k c) s) \<Longrightarrow>
       \<exists>txs. nt_sent (snd (progress_phase cfg sdk retry k c s)) = nt_sent s @ txs @ [credential_entry k c]"
proof -
  obtain r s1 where run: "retry (recordProgressOnChain cfg sdk k c) s = (r, s1)" by (cases "retry (recordProgressOnChain cfg sdk k c) s")
  have more: "sends_more s s1"
    using retry_sends_more[OF assms, of "recordProgressOnChain cfg sdk k c" s] call_sends_more(1) run
    by (simp add: recordProgressOnChain_def)
  show "sends_more s (snd (progress_phase cfg sdk retry k c s))"
    using more sends_more_trans[OF more call_sends_more(2)[of s1 cfg sdk k c]] run
    by (cases r; cases "mintCredentialViaHorizon cfg sdk k c s1")
      (auto simp: progress_phase_def issueCredentialFallback_same await_def split: sum.split)
  assume ok: "succeeds (progress_phase cfg sdk retry k c s)" "\<not> succeeds (retry (recordProgressOnChain cfg sdk k c) s)"
  then obtain e where r: "r = Inl e" using run by (cases r) auto
  obtain h s2 where mint: "mintCredentialViaHorizon cfg sdk k c s1 = (Inr h, s2)"
    using ok run by (auto simp: progress_phase_def issueCredentialFallback_same r await_def split: prod.splits sum.splits)
  show "\<exists>txs. nt_sent (snd (progress_phase cfg sdk retry k c s)) = nt_sent s @ txs @ [credential_entry k c]"
    using mintCredentialViaHorizon_effect(3)[OF mint] more run mint
    by (auto simp: progress_phase_def issueCredentialFallback_same r sends_more_def)
qed

lemma metadata_phase_effect:
  assumes "retrying n retry"
  shows "sends_more s (snd (metadata_phase cfg sdk retry now k md s))" "fst (metadata_phase cfg sdk retry now k md s) = Inr ()"
  using retry_sends_more[OF assms storeCredentialMetadata_sends_more]
  by (simp_all add: metadata_phase_def ignore_failure_def split: option.split)

text \<open>A network on which only the answers to submissions may go wrong.\<close>

definition undisturbed :: "stellar_config \<Rightarrow> sdk \<Rightarrow> bool" where
  "undisturbed cfg sdk \<longleftrightarrow> sc_secretKey cfg \<noteq> [] \<and> (\<exists>issuer. sd_publicKey sdk (sc_secretKey cfg) = Inr issuer) \<and>
     sd_encode sdk = (\<lambda>_. None) \<and> sd_build sdk = (\<lambda>_. None) \<and> sd_account sdk = (\<lambda>_ _. None) \<and> sd_prepare sdk = (\<lambda>_ _. None)"

lemma scVals_ok: "sd_encode sdk = (\<lambda>_. None) \<Longrightarrow> scVals sdk vs = Inr ()"
  by (induction vs) simp_all

lemma undisturbed_call:
  assumes "undisturbed cfg sdk"
  shows "contract_call cfg sdk c m args s = (map_sum id snd (sd_send sdk (nt_calls s + 2) (InvokeContract c m args)),
    s\<lparr>nt_calls := nt_calls s + 3, nt_sent := nt_sent s @ [InvokeContract c m args]\<rparr>)"
  using assms by (cases "sd_send sdk (nt_calls s + 2) (InvokeContract c m args)")
    (auto simp: undisturbed_def contract_call_def scVals_ok invokeContract_def ensureSecretKeyConfigured_def ask_def ask_sending_def Let_def)

lemma certificate_never_fst: "\<exists>e. fst (mintCertificateNFT cfg k h t s) = Inl e"
  by (simp add: mintCertificateNFT_def ensureSecretKeyConfigured_def trackTransaction_def await_def)

subsection \<open>Properties\<close>

text \<open>C21: A reward is sent at most four times, always as the same transaction, and if a hash comes back then at
  least once; without a secret key or a token contract nothing is sent and the call throws; the count of pending
  transactions is as before in every case.\<close>

theorem mint_attempts:
  assumes "retrying 3 retry"
  shows "\<exists>m \<le> 4. nt_sent (snd (stellar_mintReward cfg sdk retry key amount s)) = nt_sent s @ replicate m (mint_tx cfg key amount) \<and>
    (succeeds (stellar_mintReward cfg sdk retry key amount s) \<longrightarrow> 1 \<le> m) \<and>
    (sc_secretKey cfg = [] \<or> sc_tokenContractId cfg = [] \<longrightarrow> m = 0 \<and> \<not> succeeds (stellar_mintReward cfg sdk retry key amount s)) \<and>
    nt_pending (snd (stellar_mintReward cfg sdk retry key amount s)) = nt_pending s"
proof (cases "sc_secretKey cfg = [] \<or> sc_tokenContractId cfg = []")
  case True
  then show ?thesis by (intro exI[of _ 0]) (auto simp: stellar_mintReward_def ensureSecretKeyConfigured_def)
next
  case False
  then show ?thesis
    using tracked_contract_call[OF assms, of cfg sdk "sc_tokenContractId cfg" "''mint_reward''" "[ScAddress key, ScI128 amount]" s]
    by (simp add: stellar_mintReward_def ensureSecretKeyConfigured_def mint_tx_def)
qed

text \<open>A lost answer mints twice: when the first submission throws and the second is answered, the same reward
  was handed to the ledger two times and the caller sees one success.\<close>

theorem lost_answer_mints_twice:
  assumes "retrying 3 retry" "undisturbed cfg sdk" "sc_tokenContractId cfg \<noteq> []"
    "sd_send sdk (nt_calls s + 2) (mint_tx cfg key amount) = Inl (JsError msg)"
    "sd_send sdk (nt_calls s + 5) (mint_tx cfg key amount) = Inr (status, h)"
  shows "fst (stellar_mintReward cfg sdk retry key amount s) = Inr h \<and>
    nt_sent (snd (stellar_mintReward cfg sdk retry key amount s)) = nt_sent s @ [mint_tx cfg key amount, mint_tx cfg key amount]"
proof -
  let ?f = "contract_call cfg sdk (sc_tokenContractId cfg) ''mint_reward'' [ScAddress key, ScI128 amount]"
  let ?s = "s\<lparr>nt_pending := Suc (nt_pending s)\<rparr>"
  have first: "\<not> succeeds (?f ?s)" "fst (?f ?s) \<noteq> Inl JsTypeError"
    using assms(4) by (simp_all add: undisturbed_call[OF assms(2)] mint_tx_def)
  have second: "?f (snd (?f ?s)) = (Inr h, ?s\<lparr>nt_calls := nt_calls s + 6, nt_sent := nt_sent s @ [mint_tx cfg key amount, mint_tx cfg key amount]\<rparr>)"
    using assms(5) by (simp add: undisturbed_call[OF assms(2)] mint_tx_def add.commute)
  have "retry ?f ?s = ?f (snd (?f ?s))"
    by (rule retrying.retry_second[where f = ?f and s = ?s, OF assms(1) first]) (simp_all add: second)
  then show ?thesis
    using assms(2,3) by (simp add: stellar_mintReward_def ensureSecretKeyConfigured_def undisturbed_def trackTransaction_eq second)
qed

text \<open>The status of a submission is not looked at: a transaction the node answers with an error status counts as
  minted, with the hash of the refused transaction.\<close>

theorem refused_mint_reported:
  assumes "retrying 3 retry" "undisturbed cfg sdk" "sc_tokenContractId cfg \<noteq> []"
    "sd_send sdk (nt_calls s + 2) (mint_tx cfg key amount) = Inr (SendError, h)"
  shows "fst (stellar_mintReward cfg sdk retry key amount s) = Inr h"
proof -
  let ?f = "contract_call cfg sdk (sc_tokenContractId cfg) ''mint_reward'' [ScAddress key, ScI128 amount]"
  let ?s = "s\<lparr>nt_pending := Suc (nt_pending s)\<rparr>"
  have first: "fst (?f ?s) = Inr h" using assms(4) by (simp add: undisturbed_call[OF assms(2)] mint_tx_def)
  then have "retry ?f ?s = ?f ?s" by (intro retrying.retry_first[OF assms(1)]) (simp add: succeeds_def)
  then show ?thesis
    using assms(2,3) first by (simp add: stellar_mintReward_def ensureSecretKeyConfigured_def undisturbed_def trackTransaction_eq)
qed


text \<open>No certificate is ever minted: the call throws whatever is configured, and sends nothing.\<close>

theorem certificate_never_minted:
  "\<not> succeeds (mintCertificateNFT cfg key digest title s) \<and> nt_sent (snd (mintCertificateNFT cfg key digest title s)) = nt_sent s \<and>
   nt_pending (snd (mintCertificateNFT cfg key digest title s)) = nt_pending s"
  by (simp add: mintCertificateNFT_def ensureSecretKeyConfigured_def trackTransaction_def decrementPendingTransactions_def await_def)

text \<open>The shutdown ends: it stops waiting when no transaction is pending or ten seconds have passed, and if no timer is
  more than \<open>d\<close> milliseconds late then before ten seconds plus \<open>d\<close> plus one round of 100 ms.\<close>

theorem shutdown_ends:
  assumes "onApplicationShutdown pending late s = ((t, left), s')" "\<forall>i. late i \<le> d"
  shows "(left = 0 \<or> 10000 \<le> t) \<and> t < 10100 + d \<and> left = pending t"
proof -
  have "(pending (wait_pending pending late i u) = 0 \<or> 10000 \<le> wait_pending pending late i u) \<and>
      (u < 10100 + d \<longrightarrow> wait_pending pending late i u < 10100 + d)" for i u
  proof (induction "10000 - u" arbitrary: i u rule: less_induct)
    case less
    show ?case
    proof (cases "0 < pending u \<and> u < 10000")
      case True
      have "u + 100 + late i < 10100 + d" using True assms(2)[rule_format, of i] by linarith
      moreover have "10000 - (u + 100 + late i) < 10000 - u" using True by linarith
      ultimately show ?thesis using less[of "u + 100 + late i" "Suc i"] True by (simp add: wait_pending.simps[of pending late i u])
    next
      case False
      then show ?thesis by (auto simp: wait_pending.simps[of pending late i u])
    qed
  qed
  from this[of 0 0] assms(1) show ?thesis by (auto simp: onApplicationShutdown_def Let_def split: if_splits)
qed

subsection \<open>Witnesses\<close>

definition token_config :: stellar_config where
  "token_config = \<lparr>sc_network = Some ''testnet'', sc_secretKey = ''S'', sc_analyticsContractId = ''A'', sc_tokenContractId = ''T'',
     sc_credentialMetadataContractId = [], sc_certificateContractId = [], sc_enrollmentContractId = []\<rparr>"

definition calm_sdk :: "(nat \<Rightarrow> ledger_tx \<Rightarrow> http_error + (send_status \<times> string)) \<Rightarrow> sdk" where
  "calm_sdk send = \<lparr>sd_publicKey = (\<lambda>_. Inr ''G''), sd_encode = (\<lambda>_. None), sd_build = (\<lambda>_. None), sd_account = (\<lambda>_ _. None),
     sd_prepare = (\<lambda>_ _. None), sd_send = send, sd_submit = (\<lambda>_ _. Inr ''horizon''), sd_simulate = (\<lambda>_ _. Inr (SimulationSuccess None))\<rparr>"

definition idle :: net where
  "idle = \<lparr>nt_calls = 0, nt_pending = 0, nt_sent = [], nt_isShuttingDown = False\<rparr>"

lemma calm_undisturbed: "undisturbed token_config (calm_sdk send)"
  by (simp add: undisturbed_def token_config_def calm_sdk_def)

theorem mint_attempts_witness:
  "\<exists>m \<le> 4. nt_sent (snd (stellar_mintReward token_config (calm_sdk (\<lambda>_ _. Inl (JsError ''timeout''))) (p_retry 3) ''K'' 10 idle)) =
     replicate m (mint_tx token_config ''K'' 10)"
  using mint_attempts[OF p_retry.retrying_axioms, of token_config "calm_sdk (\<lambda>_ _. Inl (JsError ''timeout''))" "''K''" 10 idle]
  by (simp add: idle_def) blast

theorem lost_answer_mints_twice_witness:
  "nt_sent (snd (stellar_mintReward token_config
      (calm_sdk (\<lambda>i _. if i = 2 then Inl (JsError ''timeout'') else Inr (SendPending, ''hash''))) (p_retry 3) ''K'' 10 idle))
    = [mint_tx token_config ''K'' 10, mint_tx token_config ''K'' 10]"
  using lost_answer_mints_twice[OF p_retry.retrying_axioms
      calm_undisturbed[of "\<lambda>i _. if i = 2 then Inl (JsError ''timeout'') else Inr (SendPending, ''hash'')"],
      where s = idle and key = "''K''" and amount = 10 and msg = "''timeout''" and status = SendPending and h = "''hash''"]
  by (simp add: idle_def calm_sdk_def token_config_def)

theorem refused_mint_reported_witness:
  "fst (stellar_mintReward token_config (calm_sdk (\<lambda>_ _. Inr (SendError, ''refused''))) (p_retry 3) ''K'' 10 idle) = Inr ''refused''"
  by (rule refused_mint_reported[OF p_retry.retrying_axioms calm_undisturbed]) (simp_all add: calm_sdk_def token_config_def)


theorem shutdown_ends_witness:
  "fst (fst (onApplicationShutdown (\<lambda>_. 1) (\<lambda>_. 3) idle)) < 10103"
proof -
  obtain t left s' where run: "onApplicationShutdown (\<lambda>_. 1) (\<lambda>_. 3) idle = ((t, left), s')" by (metis prod.collapse)
  from shutdown_ends[OF this, of 3] show ?thesis unfolding run by simp
qed

end
