(* ===== verification/Notifications.thy ===== *)
theory Notifications
  imports Entities
begin

text \<open>
  In-app and push notifications (\<open>notifications/notifications.service.ts\<close>,
  \<open>notifications/push-notifications.service.ts\<close>). The socket gateway is the log \<open>nd_emitted\<close>; the push service
  is the parameter \<open>push\<close>, the answer of an endpoint to a message, and \<open>nd_pushed\<close> logs what it was asked to send.
\<close>

datatype notification_type = ENROLLMENT | COMPLETION | CREDENTIAL_ISSUED | COURSE_PUBLISHED | QA_QUESTION | QA_ANSWER
  | ANNOUNCEMENT | WAITLIST_JOINED | WAITLIST_ENROLLED

datatype push_answer = Delivered | Gone | PushFailed

record user_notification =
  un_id :: uuid
  un_userId :: uuid
  un_type :: notification_type
  un_message :: string
  un_isRead :: bool
  un_createdAt :: timestamp

record push_subscription =
  ps_id :: uuid
  ps_userId :: uuid
  ps_endpoint :: string
  ps_expirationTime :: "int option"
  ps_keys :: "string \<times> string"

record notif_db =
  nd_core :: core
  nd_notifications :: "user_notification list"
  nd_subscriptions :: "push_subscription list"
  nd_emitted :: "(uuid \<times> user_notification) list"
  nd_pushed :: "(string \<times> string) list"
  nd_fresh :: nat

subsection \<open>Push subscriptions\<close>

definition find_subscription :: "uuid \<Rightarrow> string \<Rightarrow> notif_db \<Rightarrow> push_subscription option" where
  "find_subscription userId endpoint s = find (\<lambda>p. ps_userId p = userId \<and> ps_endpoint p = endpoint) (nd_subscriptions s)"

definition subscribe :: "uuid \<Rightarrow> string \<Rightarrow> int option \<Rightarrow> string \<times> string \<Rightarrow> notif_db \<Rightarrow> push_subscription \<times> notif_db" where
  "subscribe userId endpoint expirationTime keys s =
     (case find_subscription userId endpoint s of
        None \<Rightarrow>
          (let p = \<lparr>ps_id = nd_fresh s, ps_userId = userId, ps_endpoint = endpoint, ps_expirationTime = expirationTime, ps_keys = keys\<rparr>
           in (p, s\<lparr>nd_subscriptions := save_row ps_id p (nd_subscriptions s), nd_fresh := Suc (nd_fresh s)\<rparr>))
      | Some old \<Rightarrow>
          (let p = old\<lparr>ps_expirationTime := expirationTime, ps_keys := keys\<rparr>
           in (p, s\<lparr>nd_subscriptions := save_row ps_id p (nd_subscriptions s)\<rparr>)))"

definition unsubscribe :: "uuid \<Rightarrow> string \<Rightarrow> notif_db \<Rightarrow> notif_db" where
  "unsubscribe userId endpoint s =
     s\<lparr>nd_subscriptions := delete_rows (\<lambda>p. ps_userId p = userId \<and> ps_endpoint p = endpoint) (nd_subscriptions s)\<rparr>"

definition sendNotification :: "(string \<Rightarrow> string \<Rightarrow> push_answer) \<Rightarrow> uuid \<Rightarrow> string \<Rightarrow> notif_db \<Rightarrow> notif_db" where
  "sendNotification push userId message s =
     (let subs = filter (\<lambda>p. ps_userId p = userId) (nd_subscriptions s);
          gone = map ps_id (filter (\<lambda>p. push (ps_endpoint p) message = Gone) subs)
      in s\<lparr>nd_pushed := nd_pushed s @ map (\<lambda>p. (ps_endpoint p, message)) subs,
           nd_subscriptions := delete_rows (\<lambda>p. ps_id p \<in> set gone) (nd_subscriptions s)\<rparr>)"

subsection \<open>Notifications\<close>

text \<open>Which notifications the preferences of a user let through to push.\<close>

fun shouldSendPush :: "notification_preferences \<Rightarrow> notification_type \<Rightarrow> bool" where
  "shouldSendPush prefs ENROLLMENT = np_courseUpdates prefs"
| "shouldSendPush prefs COMPLETION = np_courseUpdates prefs"
| "shouldSendPush prefs COURSE_PUBLISHED = np_courseUpdates prefs"
| "shouldSendPush prefs ANNOUNCEMENT = np_courseUpdates prefs"
| "shouldSendPush prefs CREDENTIAL_ISSUED = np_tokenRewards prefs"
| "shouldSendPush prefs QA_QUESTION = True"
| "shouldSendPush prefs QA_ANSWER = True"
| "shouldSendPush prefs WAITLIST_JOINED = False"
| "shouldSendPush prefs WAITLIST_ENROLLED = False"

definition wants_push :: "user \<Rightarrow> notification_type \<Rightarrow> bool" where
  "wants_push u ty \<longleftrightarrow> np_pushEnabled (u_notificationPreferences u) \<and> shouldSendPush (u_notificationPreferences u) ty"

definition notify ::
  "(string \<Rightarrow> string \<Rightarrow> push_answer) \<Rightarrow> timestamp \<Rightarrow> uuid \<Rightarrow> notification_type \<Rightarrow> string \<Rightarrow> notif_db
   \<Rightarrow> user_notification \<times> notif_db" where
  "notify push now userId ty message s =
     (let n = \<lparr>un_id = nd_fresh s, un_userId = userId, un_type = ty, un_message = message, un_isRead = False, un_createdAt = now\<rparr>;
          s1 = s\<lparr>nd_notifications := nd_notifications s @ [n], nd_emitted := nd_emitted s @ [(userId, n)], nd_fresh := Suc (nd_fresh s)\<rparr>
      in (n, case find_user userId (nd_core s1) of
               None \<Rightarrow> s1
             | Some u \<Rightarrow> if wants_push u ty then sendNotification push userId message s1 else s1))"

definition notifications_findByUser :: "uuid \<Rightarrow> notif_db \<Rightarrow> user_notification list" where
  "notifications_findByUser userId s =
     order_by (\<lambda>n. if un_isRead n then 1 else 0)
       (order_by_desc un_createdAt (filter (\<lambda>n. un_userId n = userId) (nd_notifications s)))"

definition markAsRead :: "uuid \<Rightarrow> notif_db \<Rightarrow> (notif_db, user_notification) outcome" where
  "markAsRead i s =
     (case find (\<lambda>n. un_id n = i) (nd_notifications s) of
        None \<Rightarrow> (Inl (NotFoundException ''Notification not found''), s)
      | Some n \<Rightarrow> (Inr (n\<lparr>un_isRead := True\<rparr>),
                   s\<lparr>nd_notifications := save_row un_id (n\<lparr>un_isRead := True\<rparr>) (nd_notifications s)\<rparr>))"

definition markAllAsRead :: "uuid \<Rightarrow> notif_db \<Rightarrow> notif_db" where
  "markAllAsRead userId s =
     s\<lparr>nd_notifications := update_rows (\<lambda>n. un_userId n = userId \<and> \<not> un_isRead n) (un_isRead_update (\<lambda>_. True)) (nd_notifications s)\<rparr>"

definition onEnrollmentCreated where
  "onEnrollmentCreated push now userId courseName =
     notify push now userId ENROLLMENT (''You have been enrolled in '' @ courseName)"

definition onCredentialIssued where
  "onCredentialIssued push now userId courseName =
     notify push now userId CREDENTIAL_ISSUED (''Your credential for '' @ courseName @ '' has been issued!'')"

definition onProgressCompleted where
  "onProgressCompleted push now userId courseName =
     notify push now userId COMPLETION (''Congratulations! You have completed '' @ courseName)"

text \<open>A partial update of the preferences: each given entry replaces the stored one.\<close>

record preference_update =
  pu_courseUpdates :: "bool option"
  pu_liveSessions :: "bool option"
  pu_tokenRewards :: "bool option"
  pu_pushEnabled :: "bool option"

definition given_or :: "'a option \<Rightarrow> 'a \<Rightarrow> 'a" where
  "given_or v stored = (case v of None \<Rightarrow> stored | Some x \<Rightarrow> x)"

definition merge_preferences :: "preference_update \<Rightarrow> notification_preferences \<Rightarrow> notification_preferences" where
  "merge_preferences p np =
     \<lparr>np_courseUpdates = given_or (pu_courseUpdates p) (np_courseUpdates np),
      np_liveSessions = given_or (pu_liveSessions p) (np_liveSessions np),
      np_tokenRewards = given_or (pu_tokenRewards p) (np_tokenRewards np),
      np_pushEnabled = given_or (pu_pushEnabled p) (np_pushEnabled np)\<rparr>"

definition updatePreferences :: "uuid \<Rightarrow> preference_update \<Rightarrow> notif_db \<Rightarrow> (notif_db, user) outcome" where
  "updatePreferences userId p s =
     (case find_user userId (nd_core s) of
        None \<Rightarrow> (Inl (NotFoundException ''User not found''), s)
      | Some u \<Rightarrow>
          (let u' = u\<lparr>u_notificationPreferences := merge_preferences p (u_notificationPreferences u)\<rparr>
           in (Inr u', s\<lparr>nd_core := save_user u' (nd_core s)\<rparr>)))"

subsection \<open>Lemmas\<close>

definition subscriptions_ok :: "notif_db \<Rightarrow> bool" where
  "subscriptions_ok s \<longleftrightarrow> distinct (map ps_id (nd_subscriptions s)) \<and> list_all (\<lambda>p. ps_id p < nd_fresh s) (nd_subscriptions s) \<and>
     distinct (map (\<lambda>p. (ps_userId p, ps_endpoint p)) (nd_subscriptions s))"

definition notif_keys_ok :: "nat \<Rightarrow> uuid list \<Rightarrow> (uuid \<times> string) list \<Rightarrow> bool" where
  "notif_keys_ok n ids pairs \<longleftrightarrow> distinct ids \<and> (\<forall>i \<in> set ids. i < n) \<and> distinct pairs"

lemma subscriptions_ok_iff:
  "subscriptions_ok s \<longleftrightarrow>
     notif_keys_ok (nd_fresh s) (map ps_id (nd_subscriptions s)) (map (\<lambda>p. (ps_userId p, ps_endpoint p)) (nd_subscriptions s))"
  by (simp add: subscriptions_ok_def notif_keys_ok_def list_all_iff)

lemma sendNotification_frame [simp]:
  "nd_core (sendNotification push u m s) = nd_core s" "nd_notifications (sendNotification push u m s) = nd_notifications s"
  "nd_emitted (sendNotification push u m s) = nd_emitted s" "nd_fresh (sendNotification push u m s) = nd_fresh s"
  by (simp_all add: sendNotification_def Let_def)

lemma sendNotification_subscriptions:
  assumes "distinct (map ps_id (nd_subscriptions s))"
  shows "nd_subscriptions (sendNotification push u m s) =
    delete_rows (\<lambda>p. ps_userId p = u \<and> push (ps_endpoint p) m = Gone) (nd_subscriptions s)"
proof -
  have "q = p" if "p \<in> set (nd_subscriptions s)" "q \<in> set (nd_subscriptions s)" "ps_id p = ps_id q" for p q
    using assms that by (auto simp: distinct_map inj_on_def)
  then show ?thesis by (auto simp: sendNotification_def Let_def delete_rows_def intro!: filter_cong)
qed

lemma notify_frame [simp]:
  "nd_core (snd (notify push now u ty m s)) = nd_core s" "nd_fresh (snd (notify push now u ty m s)) = Suc (nd_fresh s)"
  by (simp_all add: notify_def Let_def split: option.split)

lemma subscribe_ok:
  assumes "subscriptions_ok s"
  shows "subscriptions_ok (snd (subscribe u e x k s))"
proof (cases "find_subscription u e s")
  case None
  then have "(u, e) \<notin> (\<lambda>p. (ps_userId p, ps_endpoint p)) ` set (nd_subscriptions s)"
    by (auto simp: find_subscription_def find_None)
  moreover have "nd_fresh s \<notin> ps_id ` set (nd_subscriptions s)"
    using assms by (auto simp: subscriptions_ok_def list_all_iff)
  ultimately show ?thesis
    using assms None by (auto simp: subscribe_def save_row_def subscriptions_ok_def Let_def list_all_iff intro: less_SucI)
next
  case (Some old)
  then have old: "old \<in> set (nd_subscriptions s)" by (auto simp: find_subscription_def dest: find_SomeD)
  have keys: "map g (save_row ps_id (old\<lparr>ps_expirationTime := x, ps_keys := k\<rparr>) (nd_subscriptions s)) = map g (nd_subscriptions s)"
    if "g (old\<lparr>ps_expirationTime := x, ps_keys := k\<rparr>) = g old" for g :: "push_subscription \<Rightarrow> 'b"
    by (rule map_save_row_same[OF _ old]) (use assms that in \<open>simp_all add: subscriptions_ok_def\<close>)
  show ?thesis
    using assms Some keys[of ps_id] keys[of "\<lambda>p. (ps_userId p, ps_endpoint p)"]
    by (simp add: subscribe_def subscriptions_ok_iff Let_def)
qed

lemma subscriptions_kept: "subscriptions_ok s \<Longrightarrow> nd_subscriptions s' = delete_rows P (nd_subscriptions s) \<Longrightarrow> nd_fresh s \<le> nd_fresh s' \<Longrightarrow>
    subscriptions_ok s'"
  by (auto simp: subscriptions_ok_def list_all_iff intro: less_le_trans)

lemma notify_ok:
  assumes "subscriptions_ok s"
  shows "subscriptions_ok (snd (notify push now u ty m s))"
proof -
  have "distinct (map ps_id (nd_subscriptions s))" using assms by (simp add: subscriptions_ok_def)
  moreover have "delete_rows (\<lambda>_. False) xs = xs" for xs :: "push_subscription list" by (simp add: delete_rows_def)
  ultimately have "\<exists>P. nd_subscriptions (snd (notify push now u ty m s)) = delete_rows P (nd_subscriptions s)"
    by (auto simp: notify_def Let_def sendNotification_subscriptions split: option.split) metis+
  with assms show ?thesis by (auto intro: subscriptions_kept)
qed

subsection \<open>Histories\<close>

datatype notif_request =
    Subscribe uuid string "int option" "string \<times> string"
  | Unsubscribe uuid string
  | Notify timestamp uuid notification_type string
  | MarkRead uuid
  | MarkAllRead uuid
  | UpdatePreferences uuid preference_update

fun notif_step :: "(string \<Rightarrow> string \<Rightarrow> push_answer) \<Rightarrow> notif_request \<Rightarrow> notif_db \<Rightarrow> unit \<times> notif_db" where
  "notif_step push (Subscribe u e x k) s = ((), snd (subscribe u e x k s))"
| "notif_step push (Unsubscribe u e) s = ((), unsubscribe u e s)"
| "notif_step push (Notify now u ty m) s = ((), snd (notify push now u ty m s))"
| "notif_step push (MarkRead i) s = ((), snd (markAsRead i s))"
| "notif_step push (MarkAllRead u) s = ((), markAllAsRead u s)"
| "notif_step push (UpdatePreferences u p) s = ((), snd (updatePreferences u p s))"

lemma unsubscribe_ok: "subscriptions_ok s \<Longrightarrow> subscriptions_ok (unsubscribe u e s)"
  by (erule subscriptions_kept) (simp_all add: unsubscribe_def)

lemma other_requests_ok:
  assumes "subscriptions_ok s"
  shows "subscriptions_ok (snd (markAsRead i s))" "subscriptions_ok (markAllAsRead u s)" "subscriptions_ok (snd (updatePreferences u p s))"
  using assms by (simp_all add: subscriptions_ok_def markAsRead_def markAllAsRead_def updatePreferences_def Let_def split: option.split)

interpretation notif: invariant_machine "notif_step push" subscriptions_ok for push
proof unfold_locales
  show "subscriptions_ok (snd (notif_step push c s))" if "subscriptions_ok s" for c s
    using that by (cases c) (simp_all add: subscribe_ok notify_ok unsubscribe_ok other_requests_ok)
qed

subsection \<open>Properties\<close>


subsection \<open>Witness\<close>

definition one_device :: notif_db where
  "one_device = \<lparr>nd_core = empty_core\<lparr>users := [(new_user 2 ''a@x'')\<lparr>u_notificationPreferences :=
       \<lparr>np_courseUpdates = True, np_liveSessions = True, np_tokenRewards = True, np_pushEnabled = True\<rparr>\<rparr>]\<rparr>,
     nd_notifications = [], nd_subscriptions = [], nd_emitted = [], nd_pushed = [], nd_fresh = 10\<rparr>"


end
