(* ===== verification/Indexer.thy ===== *)
theory Indexer
  imports Credentials Accounts Notifications Stellar
begin

text \<open>
  The indexer of contract events (\<open>stellar/stellar-indexer.service.ts\<close>): it polls the RPC server from the last
  ledger it stored, issues the credential of a completed course, tells the user, and drops the cached balance of
  the receiver of a transfer. \<open>getEvents\<close> is the answer of the RPC server to a start ledger. The event carries
  the strings the contract wrote; \<open>course_of\<close> reads a string as the id of a course.
\<close>

record chain_event =
  ev_topic :: "string list"
  ev_student :: "string option"
  ev_course :: "string option"
  ev_to :: "string option"

record 'c indexer =
  ix_notif :: notif_db
  ix_cache :: 'c
  ix_lastLedger :: "nat option"
  ix_polling :: "int option"

definition non_empty :: "string option \<Rightarrow> string option" where
  "non_empty v = (case v of Some (c # cs) \<Rightarrow> Some (c # cs) | _ \<Rightarrow> None)"

definition handleAnalyticsCompleted ::
  "stellar \<Rightarrow> (string \<Rightarrow> string \<Rightarrow> push_answer) \<Rightarrow> (string \<Rightarrow> uuid) \<Rightarrow> timestamp \<Rightarrow> chain_event \<Rightarrow> 'c indexer
   \<Rightarrow> ('c indexer, unit) outcome" where
  "handleAnalyticsCompleted ch push course_of now e s =
     (case (non_empty (ev_student e), non_empty (ev_course e)) of
        (Some key, Some course) \<Rightarrow>
          (case findByStellarPublicKey key (nd_core (ix_notif s)) of
             None \<Rightarrow> (Inr (), s)
           | Some u \<Rightarrow>
               (case issue ch now (u_id u) (course_of course) key (nd_core (ix_notif s)) of
                  (Inl err, c) \<Rightarrow> (Inl err, s\<lparr>ix_notif := (ix_notif s)\<lparr>nd_core := c\<rparr>\<rparr>)
                | (Inr _, c) \<Rightarrow>
                    (Inr (), s\<lparr>ix_notif := snd (onCredentialIssued push now (u_id u) course ((ix_notif s)\<lparr>nd_core := c\<rparr>))\<rparr>)))
      | _ \<Rightarrow> (Inr (), s))"

definition handleTokenTransfer :: "(string \<Rightarrow> 'c \<Rightarrow> 'c) \<Rightarrow> chain_event \<Rightarrow> 'c indexer \<Rightarrow> 'c indexer" where
  "handleTokenTransfer del e s =
     (case non_empty (ev_to e) of None \<Rightarrow> s | Some key \<Rightarrow> s\<lparr>ix_cache := del (balance_key key) (ix_cache s)\<rparr>)"

definition handleEvent ::
  "stellar \<Rightarrow> (string \<Rightarrow> string \<Rightarrow> push_answer) \<Rightarrow> (string \<Rightarrow> uuid) \<Rightarrow> (string \<Rightarrow> 'c \<Rightarrow> 'c) \<Rightarrow> timestamp \<Rightarrow> chain_event
   \<Rightarrow> 'c indexer \<Rightarrow> ('c indexer, unit) outcome" where
  "handleEvent ch push course_of del now e s =
     (if take 2 (ev_topic e) = [''analytics'', ''completed''] then handleAnalyticsCompleted ch push course_of now e s
      else if take 2 (ev_topic e) = [''token'', ''transfer''] then (Inr (), handleTokenTransfer del e s)
      else (Inr (), s))"

text \<open>An error of one event is logged and the loop goes on.\<close>

fun handle_events ::
  "stellar \<Rightarrow> (string \<Rightarrow> string \<Rightarrow> push_answer) \<Rightarrow> (string \<Rightarrow> uuid) \<Rightarrow> (string \<Rightarrow> 'c \<Rightarrow> 'c) \<Rightarrow> timestamp \<Rightarrow> chain_event list
   \<Rightarrow> 'c indexer \<Rightarrow> 'c indexer" where
  "handle_events ch push course_of del now [] s = s"
| "handle_events ch push course_of del now (e # es) s =
     handle_events ch push course_of del now es (snd (handleEvent ch push course_of del now e s))"

text \<open>\<open>startLedger: lastLedger || undefined\<close>: without a stored ledger, or with ledger 0, no start is given.\<close>

definition start_ledger :: "'c indexer \<Rightarrow> nat option" where
  "start_ledger s = (case ix_lastLedger s of None \<Rightarrow> None | Some l \<Rightarrow> if l = 0 then None else Some l)"

definition poll ::
  "stellar \<Rightarrow> (string \<Rightarrow> string \<Rightarrow> push_answer) \<Rightarrow> (string \<Rightarrow> uuid) \<Rightarrow> (string \<Rightarrow> 'c \<Rightarrow> 'c) \<Rightarrow>
   (nat option \<Rightarrow> http_error + (chain_event list \<times> nat)) \<Rightarrow> timestamp \<Rightarrow> 'c indexer \<Rightarrow> 'c indexer" where
  "poll ch push course_of del getEvents now s =
     (case getEvents (start_ledger s) of
        Inl _ \<Rightarrow> s
      | Inr (evs, latestLedger) \<Rightarrow>
          (let s1 = handle_events ch push course_of del now evs s
           in if (case ix_lastLedger s of None \<Rightarrow> 0 | Some l \<Rightarrow> l) < latestLedger then s1\<lparr>ix_lastLedger := Some latestLedger\<rparr> else s1))"

definition onModuleInit :: "stellar_config \<Rightarrow> int \<Rightarrow> 'c indexer \<Rightarrow> 'c indexer" where
  "onModuleInit cfg pollInterval s =
     (if sc_analyticsContractId cfg = [] \<and> sc_tokenContractId cfg = [] then s else s\<lparr>ix_polling := Some pollInterval\<rparr>)"

definition updatePollInterval :: "int \<Rightarrow> 'c indexer \<Rightarrow> 'c indexer" where
  "updatePollInterval ms s = s\<lparr>ix_polling := Some ms\<rparr>"

definition onModuleDestroy :: "'c indexer \<Rightarrow> 'c indexer" where
  "onModuleDestroy s = s\<lparr>ix_polling := None\<rparr>"

subsection \<open>What an event changes\<close>

abbreviation core_of :: "'c indexer \<Rightarrow> core" where
  "core_of s \<equiv> nd_core (ix_notif s)"

text \<open>Handling events adds credentials and touches no user, no course and not the cursor.\<close>

definition extends :: "'c indexer \<Rightarrow> 'c indexer \<Rightarrow> bool" where
  "extends s s' \<longleftrightarrow> users (core_of s') = users (core_of s) \<and> courses (core_of s') = courses (core_of s) \<and>
     (\<exists>cs. credentials (core_of s') = credentials (core_of s) @ cs) \<and> ix_lastLedger s' = ix_lastLedger s"

lemma extends_refl [simp]: "extends s s" by (simp add: extends_def)

lemma extends_trans [trans]: "extends s s' \<Longrightarrow> extends s' s'' \<Longrightarrow> extends s s''"
  by (auto simp: extends_def)

lemma issue_extends:
  assumes "issue ch now u c key s = (r, s')"
  shows "users s' = users s \<and> courses s' = courses s \<and> (\<exists>cs. credentials s' = credentials s @ cs)"
  using assms by (cases rule: course_issuer.issuer_cases[of u c s ch now key]) auto

lemma onCredentialIssued_core [simp]: "nd_core (snd (onCredentialIssued push now u m s)) = nd_core s"
  by (simp add: onCredentialIssued_def)

lemma handleAnalyticsCompleted_extends: "extends s (snd (handleAnalyticsCompleted ch push course_of now e s))"
proof (cases "non_empty (ev_student e)"; cases "non_empty (ev_course e)")
  fix key course assume key: "non_empty (ev_student e) = Some key" "non_empty (ev_course e) = Some course"
  show ?thesis
  proof (cases "findByStellarPublicKey key (core_of s)")
    case (Some u)
    obtain r c where run: "issue ch now (u_id u) (course_of course) key (core_of s) = (r, c)" by (metis prod.exhaust)
    from issue_extends[OF run] show ?thesis
      by (cases r) (simp_all add: handleAnalyticsCompleted_def key Some run extends_def)
  qed (simp add: handleAnalyticsCompleted_def key)
qed (simp_all add: handleAnalyticsCompleted_def)

lemma handleEvent_extends: "extends s (snd (handleEvent ch push course_of del now e s))"
  by (auto simp: handleEvent_def handleAnalyticsCompleted_extends handleTokenTransfer_def)
    (auto simp: extends_def split: option.split)

lemma handle_events_extends: "extends s (handle_events ch push course_of del now es s)"
  by (induction es arbitrary: s) (auto intro: extends_trans handleEvent_extends)

lemma extends_find_credential:
  "extends s s' \<Longrightarrow> find_credential u k (core_of s) = Some c \<Longrightarrow> find_credential u k (core_of s') = Some c"
  by (auto simp: extends_def find_credential_def intro: find_append_Some)

text \<open>The key and the course a completion event names, and when a credential for them can be issued.\<close>

definition completion :: "chain_event \<Rightarrow> (string \<times> string) option" where
  "completion e =
     (if take 2 (ev_topic e) = [''analytics'', ''completed'']
      then (case (non_empty (ev_student e), non_empty (ev_course e)) of (Some k, Some c) \<Rightarrow> Some (k, c) | _ \<Rightarrow> None) else None)"

definition issuable :: "stellar \<Rightarrow> string \<Rightarrow> uuid \<Rightarrow> core \<Rightarrow> bool" where
  "issuable ch key i s \<longleftrightarrow>
     (\<exists>co. find_live_course i s = Some co \<and> \<not> co_requiresKyc co) \<and> (\<exists>h. ch_issue ch key (ForCourse i) = Inr h)"

lemma completion_SomeD:
  assumes "completion e = Some (key, course)"
  shows "take 2 (ev_topic e) = [''analytics'', ''completed'']" "non_empty (ev_student e) = Some key" "non_empty (ev_course e) = Some course"
  using assms by (auto simp: completion_def split: if_splits option.splits)

lemma completed_run:
  assumes "completion e = Some (key, course)" "findByStellarPublicKey key (core_of s) = Some u"
    "issuable ch key (course_of course) (core_of s)"
  obtains c c1 where "issue ch now (u_id u) (course_of course) key (core_of s) = (Inr c, c1)"
    "handleEvent ch push course_of del now e s =
       (Inr (), s\<lparr>ix_notif := snd (onCredentialIssued push now (u_id u) course ((ix_notif s)\<lparr>nd_core := c1\<rparr>))\<rparr>)"
proof -
  have "\<exists>c. fst (issue ch now (u_id u) (course_of course) key (core_of s)) = Inr c"
    using assms(3) by (auto simp: issuable_def issue_def store_credential_def Let_def split: option.split)
  then obtain c c1 where run: "issue ch now (u_id u) (course_of course) key (core_of s) = (Inr c, c1)" by (metis prod.collapse)
  show thesis
    by (rule that[OF run]) (simp add: handleEvent_def handleAnalyticsCompleted_def completion_SomeD[OF assms(1)] assms(2) run)
qed

lemma onCredentialIssued_adds:
  "length (nd_notifications (snd (onCredentialIssued push now u m s))) = Suc (length (nd_notifications s))"
  by (simp add: onCredentialIssued_def notify_def Let_def split: option.split)

text \<open>Polling at the times \<open>ts\<close>, with the same answers of the server.\<close>

fun polls where
  "polls ch push course_of del getEvents [] s = s"
| "polls ch push course_of del getEvents (t # ts) s =
     polls ch push course_of del getEvents ts (poll ch push course_of del getEvents t s)"

subsection \<open>Properties\<close>

text \<open>C12: A poll brings the credential of every completed course it was told of: whatever the other events of the batch
  are and however many of them fail, if the key belongs to a user, the course exists and asks for no identity check, and
  the ledger takes the credential, then the user has the credential of the course afterwards.\<close>

theorem completed_event_issues:
  assumes "getEvents (start_ledger s) = Inr (evs, latest)" "e \<in> set evs" "completion e = Some (key, course)"
    "findByStellarPublicKey key (core_of s) = Some u" "issuable ch key (course_of course) (core_of s)"
  shows "find_credential (u_id u) (ForCourse (course_of course)) (core_of (poll ch push course_of del getEvents now s)) \<noteq> None"
proof -
  have "find_credential (u_id u) (ForCourse (course_of course)) (core_of (handle_events ch push course_of del now evs s)) \<noteq> None"
    using assms(2,4,5)
  proof (induction evs arbitrary: s)
    case (Cons x evs)
    let ?s = "snd (handleEvent ch push course_of del now x s)"
    have same: "users (core_of ?s) = users (core_of s)" "courses (core_of ?s) = courses (core_of s)"
      using handleEvent_extends[of s ch push course_of del now x] by (simp_all add: extends_def)
    show ?case
    proof (cases "x = e")
      case True
      obtain c c1 where run: "issue ch now (u_id u) (course_of course) key (core_of s) = (Inr c, c1)"
        and step: "handleEvent ch push course_of del now e s =
          (Inr (), s\<lparr>ix_notif := snd (onCredentialIssued push now (u_id u) course ((ix_notif s)\<lparr>nd_core := c1\<rparr>))\<rparr>)"
        by (rule completed_run[where course = course and course_of = course_of, OF assms(3) Cons.prems(2,3)])
      have "find_credential (u_id u) (ForCourse (course_of course)) (core_of ?s) = Some c"
        using course_issuer.issued_is_found[OF run] by (simp add: True step)
      from extends_find_credential[OF handle_events_extends this] show ?thesis by simp
    next
      case False
      with Cons.prems same have "e \<in> set evs" "findByStellarPublicKey key (core_of ?s) = Some u"
        "issuable ch key (course_of course) (core_of ?s)"
        by (auto simp: findByStellarPublicKey_def find_live_course_def issuable_def)
      from Cons.IH[OF this] show ?thesis by simp
    qed
  qed simp
  then show ?thesis by (simp add: poll_def assms(1) Let_def)
qed

text \<open>An event that is delivered again, which every poll may do because it starts at the last ledger of the one
  before, adds no second credential but a second notification.\<close>

theorem redelivery_notifies_twice:
  assumes "completion e = Some (key, course)" "findByStellarPublicKey key (core_of s) = Some u"
    "issuable ch key (course_of course) (core_of s)"
    "s1 = handle_events ch push course_of del now [e] s" "s2 = handle_events ch push course_of del now' [e] s1"
  shows "credentials (core_of s2) = credentials (core_of s1) \<and>
    length (nd_notifications (ix_notif s2)) = length (nd_notifications (ix_notif s)) + 2"
proof -
  obtain c c1 where one: "issue ch now (u_id u) (course_of course) key (core_of s) = (Inr c, c1)"
    and step: "handleEvent ch push course_of del now e s =
      (Inr (), s\<lparr>ix_notif := snd (onCredentialIssued push now (u_id u) course ((ix_notif s)\<lparr>nd_core := c1\<rparr>))\<rparr>)"
    by (rule completed_run[where course = course and course_of = course_of, OF assms(1-3)])
  have s1: "core_of s1 = c1" "length (nd_notifications (ix_notif s1)) = Suc (length (nd_notifications (ix_notif s)))"
    by (simp_all add: assms(4) step onCredentialIssued_adds)
  have again: "findByStellarPublicKey key (core_of s1) = Some u"
    using assms(2) issue_extends[OF one] by (simp add: s1 findByStellarPublicKey_def)
  have found: "issue ch now' (u_id u) (course_of course) key (core_of s1) = (Inr c, c1)"
    using course_issuer.idempotent[OF one] by (simp add: s1)
  have "snd (handleEvent ch push course_of del now' e s1) =
      s1\<lparr>ix_notif := snd (onCredentialIssued push now' (u_id u) course ((ix_notif s1)\<lparr>nd_core := c1\<rparr>))\<rparr>"
    by (simp add: handleEvent_def handleAnalyticsCompleted_def completion_SomeD[OF assms(1)] again found)
  then show ?thesis using s1 by (simp add: assms(5) onCredentialIssued_adds)
qed

text \<open>The server refuses a query without a start ledger. Then an indexer that has not stored a ledger never
  processes an event, however often it polls.\<close>

theorem indexer_never_starts:
  assumes "getEvents None = Inl refused" "ix_lastLedger s = None"
  shows "polls ch push course_of del getEvents ts s = s"
  using assms(2)
proof (induction ts arbitrary: s)
  case (Cons t ts)
  have "poll ch push course_of del getEvents t s = s" by (simp add: poll_def start_ledger_def assms(1) Cons.prems)
  with Cons show ?case by simp
qed simp

text \<open>The stored ledger never goes back.\<close>

theorem cursor_never_back:
  "(case ix_lastLedger s of None \<Rightarrow> 0 | Some l \<Rightarrow> l) \<le>
   (case ix_lastLedger (polls ch push course_of del getEvents ts s) of None \<Rightarrow> 0 | Some l \<Rightarrow> l)"
proof (induction ts arbitrary: s)
  case (Cons t ts)
  have "(case ix_lastLedger s of None \<Rightarrow> 0 | Some l \<Rightarrow> l) \<le>
      (case ix_lastLedger (poll ch push course_of del getEvents t s) of None \<Rightarrow> 0 | Some l \<Rightarrow> l)"
    using handle_events_extends[of s ch push course_of del t]
    by (auto simp: poll_def Let_def extends_def split: sum.split option.splits)
  also note Cons.IH[of "poll ch push course_of del getEvents t s"]
  finally show ?case by simp
qed simp

subsection \<open>Witnesses\<close>

definition finished :: chain_event where
  "finished = \<lparr>ev_topic = [''analytics'', ''completed''], ev_student = Some ''GKEY'', ev_course = Some ''c10'', ev_to = None\<rparr>"

definition generous :: stellar where
  "generous = \<lparr>ch_issue = (\<lambda>_ _. Inr ''hash''), ch_mint = (\<lambda>_ _. True), ch_progress = (\<lambda>_ _ _. None)\<rparr>"

definition listening :: "unit indexer" where
  "listening = \<lparr>ix_notif = one_device\<lparr>nd_core := empty_core\<lparr>users := [(new_user 2 ''a@x'')\<lparr>u_stellarPublicKey := Some ''GKEY''\<rparr>],
       courses := [new_course 10 ''A''], fresh := 11\<rparr>\<rparr>, ix_cache = (), ix_lastLedger = None, ix_polling = None\<rparr>"

lemma listening_facts:
  "completion finished = Some (''GKEY'', ''c10'')"
  "findByStellarPublicKey ''GKEY'' (core_of listening) = Some ((new_user 2 ''a@x'')\<lparr>u_stellarPublicKey := Some ''GKEY''\<rparr>)"
  "issuable generous ''GKEY'' 10 (core_of listening)"
  by (simp_all add: completion_def finished_def non_empty_def findByStellarPublicKey_def listening_def issuable_def
      find_live_course_def new_course_def generous_def)

theorem completed_event_issues_witness:
  "find_credential 2 (ForCourse 10) (core_of (poll generous (\<lambda>_ _. Delivered) (\<lambda>_. 10) (\<lambda>_ c. c)
     (\<lambda>_. Inr ([finished], 7)) 5 listening)) \<noteq> None"
  using completed_event_issues[of "\<lambda>_. Inr ([finished], 7)" listening "[finished]" 7 finished "''GKEY''" "''c10''",
      OF refl _ listening_facts(1,2), where course_of = "\<lambda>_. 10" and ch = generous] listening_facts(3)
  by (simp add: new_user_def)

theorem redelivery_notifies_twice_witness:
  "length (nd_notifications (ix_notif (handle_events generous (\<lambda>_ _. Delivered) (\<lambda>_. 10) (\<lambda>_ c. c) 6 [finished]
     (handle_events generous (\<lambda>_ _. Delivered) (\<lambda>_. 10) (\<lambda>_ c. c) 5 [finished] listening)))) =
   length (nd_notifications (ix_notif listening)) + 2"
  using redelivery_notifies_twice[where course_of = "\<lambda>_. 10" and course = "''c10''", OF listening_facts(1,2) _ refl refl] listening_facts(3)
  by blast

theorem indexer_never_starts_witness:
  "polls generous (\<lambda>_ _. Delivered) (\<lambda>_. 10) (\<lambda>_ c. c)
     (\<lambda>l. case l of None \<Rightarrow> Inl (JsError ''startLedger must be positive'') | Some _ \<Rightarrow> Inr ([finished], 7)) [1, 2, 3] listening = listening"
  by (rule indexer_never_starts) (simp_all add: listening_def)

end
