(* ===== verification/LearningPaths.thy ===== *)
theory LearningPaths
  imports Bundles
begin

text \<open>
  Learning paths (\<open>learning-paths/learning-paths.service.ts\<close>): the catalogue, the enrollment in a path, which
  enrolls in each of its courses, and the completion check, which issues the credential of the path. The loop
  over the courses is the one of the bundles, \<open>enroll_all\<close>.
\<close>

record learning_path =
  pa_id :: uuid
  pa_title :: string
  pa_description :: string
  pa_isPublished :: bool
  pa_thumbnailUrl :: "string option"
  pa_courseOrder :: "uuid list"
  pa_courses :: "uuid list"
  pa_createdAt :: timestamp

record path_enrollment =
  pe_id :: uuid
  pe_userId :: uuid
  pe_learningPathId :: uuid
  pe_enrolledAt :: timestamp
  pe_completedAt :: "timestamp option"

record path_db =
  pd_core :: core
  pd_paths :: "learning_path list"
  pd_enrollments :: "path_enrollment list"
  pd_fresh :: nat

record path_dto =
  pt_title :: string
  pt_description :: string
  pt_isPublished :: "bool option"
  pt_thumbnailUrl :: "string option"
  pt_courseIds :: "uuid list"
  pt_courseOrder :: "uuid list option"

record path_patch =
  px_title :: "string option"
  px_description :: "string option"
  px_isPublished :: "bool option"
  px_thumbnailUrl :: "string option"
  px_courseIds :: "uuid list option"
  px_courseOrder :: "uuid list option"

subsection \<open>Catalogue\<close>

definition paths_findAll :: "bool \<Rightarrow> path_db \<Rightarrow> learning_path list" where
  "paths_findAll publishedOnly s =
     order_by_desc pa_createdAt (filter (\<lambda>p. publishedOnly \<longrightarrow> pa_isPublished p) (pd_paths s))"

definition find_path :: "uuid \<Rightarrow> path_db \<Rightarrow> learning_path option" where
  "find_path i s = find (\<lambda>p. pa_id p = i) (pd_paths s)"

definition paths_findOne :: "uuid \<Rightarrow> path_db \<Rightarrow> http_error + learning_path" where
  "paths_findOne i s =
     (case find_path i s of None \<Rightarrow> Inl (NotFoundException ''Learning path not found'') | Some p \<Rightarrow> Inr p)"

definition path_create :: "timestamp \<Rightarrow> path_dto \<Rightarrow> path_db \<Rightarrow> (path_db, learning_path) outcome" where
  "path_create now dto s =
     (let found = courses_in (pt_courseIds dto) (pd_core s)
      in if length found \<noteq> length (pt_courseIds dto)
         then (Inl (BadRequestException ''One or more courses not found''), s)
         else
           (let p = \<lparr>pa_id = pd_fresh s, pa_title = pt_title dto, pa_description = pt_description dto,
                     pa_isPublished = or_else (pt_isPublished dto) False, pa_thumbnailUrl = pt_thumbnailUrl dto,
                     pa_courseOrder = or_else (pt_courseOrder dto) (pt_courseIds dto), pa_courses = found, pa_createdAt = now\<rparr>
            in (Inr p, s\<lparr>pd_paths := pd_paths s @ [p], pd_fresh := Suc (pd_fresh s)\<rparr>)))"

definition assign_path :: "path_patch \<Rightarrow> learning_path \<Rightarrow> learning_path" where
  "assign_path dto p =
     p\<lparr>pa_title := or_else (px_title dto) (pa_title p), pa_description := or_else (px_description dto) (pa_description p),
       pa_isPublished := or_else (px_isPublished dto) (pa_isPublished p),
       pa_thumbnailUrl := (case px_thumbnailUrl dto of None \<Rightarrow> pa_thumbnailUrl p | v \<Rightarrow> v),
       pa_courseOrder := or_else (px_courseOrder dto) (pa_courseOrder p)\<rparr>"

definition path_update :: "uuid \<Rightarrow> path_patch \<Rightarrow> path_db \<Rightarrow> (path_db, learning_path) outcome" where
  "path_update i dto s =
     (case paths_findOne i s of
        Inl e \<Rightarrow> (Inl e, s)
      | Inr p \<Rightarrow>
          (case px_courseIds dto of
             None \<Rightarrow> (let p' = assign_path dto p in (Inr p', s\<lparr>pd_paths := save_row pa_id p' (pd_paths s)\<rparr>))
           | Some ids \<Rightarrow>
               (let found = courses_in ids (pd_core s);
                    p1 = p\<lparr>pa_courses := found, pa_courseOrder := (if px_courseOrder dto = None then ids else pa_courseOrder p)\<rparr>;
                    p' = assign_path dto p1
                in if length found \<noteq> length ids then (Inl (BadRequestException ''One or more courses not found''), s)
                   else (Inr p', s\<lparr>pd_paths := save_row pa_id p' (pd_paths s)\<rparr>))))"

text \<open>Removing a path cascades to its enrollments and its credentials.\<close>

definition path_delete :: "uuid \<Rightarrow> path_db \<Rightarrow> (path_db, unit) outcome" where
  "path_delete i s =
     (case paths_findOne i s of
        Inl e \<Rightarrow> (Inl e, s)
      | Inr p \<Rightarrow>
          (Inr (), s\<lparr>pd_paths := delete_rows (\<lambda>x. pa_id x = i) (pd_paths s),
                     pd_enrollments := delete_rows (\<lambda>e. pe_learningPathId e = i) (pd_enrollments s),
                     pd_core := (pd_core s)\<lparr>credentials := delete_rows (\<lambda>c. cr_subject c = ForLearningPath i) (credentials (pd_core s))\<rparr>\<rparr>))"

subsection \<open>Enrollment\<close>

definition find_path_enrollment :: "uuid \<Rightarrow> uuid \<Rightarrow> path_db \<Rightarrow> path_enrollment option" where
  "find_path_enrollment userId pathId s =
     find (\<lambda>e. pe_userId e = userId \<and> pe_learningPathId e = pathId) (pd_enrollments s)"

definition path_enroll ::
  "timestamp \<Rightarrow> (uuid \<Rightarrow> uuid \<Rightarrow> string + string) \<Rightarrow> bool \<Rightarrow> uuid \<Rightarrow> uuid \<Rightarrow> path_db \<Rightarrow> (path_db, path_enrollment) outcome" where
  "path_enroll now chain removeOk userId learningPathId s =
     (case paths_findOne learningPathId s of
        Inl e \<Rightarrow> (Inl e, s)
      | Inr p \<Rightarrow>
          if \<not> pa_isPublished p then (Inl (BadRequestException ''Learning path is not available''), s)
          else if find_path_enrollment userId learningPathId s \<noteq> None
          then (Inl (ConflictException ''Already enrolled in this learning path''), s)
          else if find_user userId (pd_core s) = None then (Inl ForeignKeyViolation, s)
          else
            (let e = \<lparr>pe_id = pd_fresh s, pe_userId = userId, pe_learningPathId = learningPathId, pe_enrolledAt = now,
                      pe_completedAt = None\<rparr>;
                 s1 = s\<lparr>pd_enrollments := pd_enrollments s @ [e], pd_fresh := Suc (pd_fresh s)\<rparr>
             in case enroll_all now chain removeOk userId (pa_courses p) (pd_core s1) of
                  (Inl err, c) \<Rightarrow> (Inl err, s1\<lparr>pd_core := c\<rparr>)
                | (Inr _, c) \<Rightarrow> (Inr e, s1\<lparr>pd_core := c\<rparr>)))"

definition path_enrollments_of :: "uuid \<Rightarrow> path_db \<Rightarrow> path_enrollment list" where
  "path_enrollments_of userId s = filter (\<lambda>e. pe_userId e = userId) (pd_enrollments s)"

subsection \<open>Completion\<close>

definition path_completed :: "uuid \<Rightarrow> learning_path \<Rightarrow> core \<Rightarrow> bool" where
  "path_completed userId p s =
     (let es = filter (\<lambda>e. en_courseId e \<in> set (pa_courses p)) (enrollments_of userId s)
      in length es = length (pa_courses p) \<and> list_all (\<lambda>e. en_completedAt e \<noteq> None) es)"

fun complete_paths ::
  "stellar \<Rightarrow> timestamp \<Rightarrow> uuid \<Rightarrow> uuid \<Rightarrow> path_enrollment list \<Rightarrow> path_db \<Rightarrow> (path_db, unit) outcome" where
  "complete_paths ch now userId courseId [] s = (Inr (), s)"
| "complete_paths ch now userId courseId (e # es) s =
     (case find_path (pe_learningPathId e) s of
        None \<Rightarrow> (Inl JsTypeError, s)
      | Some p \<Rightarrow>
          if courseId \<in> set (pa_courses p) \<and> path_completed userId p (pd_core s)
          then (let s1 = s\<lparr>pd_enrollments := save_row pe_id (e\<lparr>pe_completedAt := Some now\<rparr>) (pd_enrollments s)\<rparr>
                in case Option.bind (find_user userId (pd_core s1)) u_stellarPublicKey of
                     None \<Rightarrow> complete_paths ch now userId courseId es s1
                   | Some key \<Rightarrow>
                       (if key = [] then complete_paths ch now userId courseId es s1
                        else case issueLearningPath ch now userId (pe_learningPathId e) key (pd_core s1) of
                          (Inl err, c) \<Rightarrow> (Inl err, s1\<lparr>pd_core := c\<rparr>)
                        | (Inr _, c) \<Rightarrow> complete_paths ch now userId courseId es (s1\<lparr>pd_core := c\<rparr>)))
          else complete_paths ch now userId courseId es s)"

definition paths_updateProgress ::
  "stellar \<Rightarrow> timestamp \<Rightarrow> uuid \<Rightarrow> uuid \<Rightarrow> path_db \<Rightarrow> (path_db, unit) outcome" where
  "paths_updateProgress ch now userId courseId s =
     complete_paths ch now userId courseId
       (filter (\<lambda>e. pe_userId e = userId \<and> pe_completedAt e = None) (pd_enrollments s)) s"

subsection \<open>What the completion loop does\<close>

definition path_due :: "uuid \<Rightarrow> uuid \<Rightarrow> path_db \<Rightarrow> path_enrollment \<Rightarrow> bool" where
  "path_due userId courseId s e \<longleftrightarrow>
     (\<exists>p. find_path (pe_learningPathId e) s = Some p \<and> courseId \<in> set (pa_courses p) \<and> path_completed userId p (pd_core s))"

definition credited :: "uuid \<Rightarrow> path_db \<Rightarrow> path_enrollment \<Rightarrow> bool" where
  "credited userId s e \<longleftrightarrow>
     (case Option.bind (find_user userId (pd_core s)) u_stellarPublicKey of
        None \<Rightarrow> True
      | Some key \<Rightarrow> key = [] \<or> find_credential userId (ForLearningPath (pe_learningPathId e)) (pd_core s) \<noteq> None)"

text \<open>The state after one due enrollment: the row is stamped, and a credential is there if the user has a key.\<close>

definition same_progress :: "path_db \<Rightarrow> path_db \<Rightarrow> bool" where
  "same_progress s s' \<longleftrightarrow> pd_paths s' = pd_paths s \<and> users (pd_core s') = users (pd_core s) \<and>
     enrollments (pd_core s') = enrollments (pd_core s) \<and> (\<exists>cs. credentials (pd_core s') = credentials (pd_core s) @ cs)"

lemma same_progress_refl [simp]: "same_progress s s" by (simp add: same_progress_def)

lemma same_progress_trans [trans]: "same_progress s s' \<Longrightarrow> same_progress s' s'' \<Longrightarrow> same_progress s s''"
  by (auto simp: same_progress_def)

lemma same_progress_due: "same_progress s s' \<Longrightarrow> path_due u c s' e = path_due u c s e"
  by (simp add: same_progress_def path_due_def path_completed_def enrollments_of_def find_path_def)

lemma same_progress_credited: "same_progress s s' \<Longrightarrow> credited u s e \<Longrightarrow> credited u s' e"
  by (auto simp: same_progress_def credited_def find_user_def find_credential_def
      dest: find_append_Some split: bind_splits option.splits)

lemma issue_path_extends:
  assumes "issueLearningPath ch now u k key s = (r, s')"
  shows "users s' = users s \<and> enrollments s' = enrollments s \<and> (\<exists>cs. credentials s' = credentials s @ cs)"
  using assms by (cases rule: path_issuer.issuer_cases[of u k s ch now key]) auto

lemma complete_paths_step:
  assumes "complete_paths ch now u c (e # es) s = (Inr (), s')"
  obtains (Due) s1 where "path_due u c s e" "same_progress s s1" "credited u s1 e"
      "pd_enrollments s1 = save_row pe_id (e\<lparr>pe_completedAt := Some now\<rparr>) (pd_enrollments s)"
      "complete_paths ch now u c es s1 = (Inr (), s')"
  | (Skipped) "\<not> path_due u c s e" "complete_paths ch now u c es s = (Inr (), s')"
proof (cases "path_due u c s e")
  case False
  with assms Skipped show thesis by (auto simp: path_due_def split: option.splits if_splits)
next
  case True
  let ?s1 = "s\<lparr>pd_enrollments := save_row pe_id (e\<lparr>pe_completedAt := Some now\<rparr>) (pd_enrollments s)\<rparr>"
  have base: "same_progress s ?s1" by (simp add: same_progress_def)
  show thesis
  proof (cases "\<exists>key. Option.bind (find_user u (pd_core s)) u_stellarPublicKey = Some key \<and> key \<noteq> []")
    case False
    then have "credited u ?s1 e" by (auto simp: credited_def split: option.splits)
    moreover have "complete_paths ch now u c es ?s1 = (Inr (), s')"
      using assms True False by (auto simp: path_due_def Let_def split: option.splits if_splits)
    ultimately show thesis using Due[of ?s1] True base by simp
  next
    case key: True
    then obtain key where key: "Option.bind (find_user u (pd_core s)) u_stellarPublicKey = Some key" "key \<noteq> []" by blast
    obtain r c1 where run: "issueLearningPath ch now u (pe_learningPathId e) key (pd_core s) = (r, c1)" by (metis prod.exhaust)
    let ?s2 = "?s1\<lparr>pd_core := c1\<rparr>"
    obtain cr where r: "r = Inr cr" and rest: "complete_paths ch now u c es ?s2 = (Inr (), s')"
      using assms True key run by (cases r) (auto simp: path_due_def Let_def split: option.splits if_splits)
    have "same_progress s ?s2" using issue_path_extends[OF run] by (simp add: same_progress_def)
    moreover have "credited u ?s2 e"
      using path_issuer.issued_is_found[OF run[unfolded r]] by (simp add: credited_def split: option.split)
    ultimately show thesis using Due[of ?s2] True rest by simp
  qed
qed

lemma complete_paths_spec:
  assumes "complete_paths ch now u c es s = (Inr (), s')" "distinct (map pe_id (pd_enrollments s))"
    "distinct (map pe_id es)" "set es \<subseteq> set (pd_enrollments s)"
  shows "pd_enrollments s' =
      map (\<lambda>x. if x \<in> set es \<and> path_due u c s x then x\<lparr>pe_completedAt := Some now\<rparr> else x) (pd_enrollments s)"
    and "same_progress s s'" and "\<forall>x \<in> set es. path_due u c s x \<longrightarrow> credited u s' x"
proof -
  have "pd_enrollments s' =
      map (\<lambda>x. if x \<in> set es \<and> path_due u c s x then x\<lparr>pe_completedAt := Some now\<rparr> else x) (pd_enrollments s) \<and>
    same_progress s s' \<and> (\<forall>x \<in> set es. path_due u c s x \<longrightarrow> credited u s' x)"
    using assms
  proof (induction es arbitrary: s)
    case (Cons e es)
    show ?case
    proof (cases rule: complete_paths_step[OF Cons.prems(1), case_names Due Skipped])
      case (Due s1)
      let ?e = "e\<lparr>pe_completedAt := Some now\<rparr>"
      have unique: "x = e" if "x \<in> set (pd_enrollments s)" "pe_id x = pe_id e" for x
        using Cons.prems(2,4) that by (auto simp: distinct_map inj_on_def)
      have rows: "pd_enrollments s1 = map (\<lambda>x. if x = e then ?e else x) (pd_enrollments s)"
        using Cons.prems(4) unique by (auto simp: Due(4) save_row_def)
      have "map pe_id (pd_enrollments s1) = map pe_id (pd_enrollments s)" by (simp add: rows)
      then have ids: "distinct (map pe_id (pd_enrollments s1))" using Cons.prems(2) by simp
      have notin: "x \<noteq> e \<and> x \<noteq> ?e" if "x \<in> set es" for x
      proof -
        have "pe_id e \<noteq> pe_id x" using Cons.prems(3) that by auto
        then show ?thesis by auto
      qed
      then have sub: "set es \<subseteq> set (pd_enrollments s1)" using Cons.prems(4) by (auto simp: rows)
      have tail: "pd_enrollments s' =
          map (\<lambda>x. if x \<in> set es \<and> path_due u c s1 x then x\<lparr>pe_completedAt := Some now\<rparr> else x) (pd_enrollments s1)"
        "same_progress s1 s'" "\<forall>x \<in> set es. path_due u c s1 x \<longrightarrow> credited u s' x"
        using Cons.IH[OF Due(5) ids _ sub] Cons.prems(3) by simp_all
      have "(if x' \<in> set es \<and> path_due u c s1 x' then x'\<lparr>pe_completedAt := Some now\<rparr> else x') =
          (if x \<in> set (e # es) \<and> path_due u c s x then x\<lparr>pe_completedAt := Some now\<rparr> else x)"
        if "x' = (if x = e then ?e else x)" for x x'
        using that notin Due(1) by (auto simp: same_progress_due[OF Due(2)])
      then have "pd_enrollments s' =
          map (\<lambda>x. if x \<in> set (e # es) \<and> path_due u c s x then x\<lparr>pe_completedAt := Some now\<rparr> else x) (pd_enrollments s)"
        unfolding tail(1) rows map_map by (intro map_cong) (simp_all add: comp_def)
      moreover have "credited u s' e" by (rule same_progress_credited[OF tail(2) Due(3)])
      ultimately show ?thesis
        using tail(2,3) Due(2) by (auto simp: same_progress_due[OF Due(2)] intro: same_progress_trans)
    next
      case Skipped
      then have tail: "pd_enrollments s' =
          map (\<lambda>x. if x \<in> set es \<and> path_due u c s x then x\<lparr>pe_completedAt := Some now\<rparr> else x) (pd_enrollments s)"
        "same_progress s s'" "\<forall>x \<in> set es. path_due u c s x \<longrightarrow> credited u s' x"
        using Cons.IH[OF Skipped(2)] Cons.prems by simp_all
      have "(x \<in> set es \<and> path_due u c s x) = (x \<in> set (e # es) \<and> path_due u c s x)" for x
        using Skipped(1) by auto
      with tail show ?thesis using Skipped(1) by auto
    qed
  qed simp
  then show "pd_enrollments s' =
      map (\<lambda>x. if x \<in> set es \<and> path_due u c s x then x\<lparr>pe_completedAt := Some now\<rparr> else x) (pd_enrollments s)"
    "same_progress s s'" "\<forall>x \<in> set es. path_due u c s x \<longrightarrow> credited u s' x" by simp_all
qed

subsection \<open>Properties\<close>


text \<open>Enrolling in a published path enrolls the learner in each of its courses, keeps every enrollment held
  before, and adds one open row; a learner who is in the path is refused.\<close>

theorem path_enroll_everywhere:
  assumes "enrollments_ok (pd_core s)" "find_path i s = Some p" "path_enroll now ch rm u i s = (Inr e, s')"
  shows "(\<forall>c \<in> set (pa_courses p). find_enrollment u c (pd_core s') \<noteq> None) \<and>
    (\<forall>x y. find_enrollment x y (pd_core s) \<noteq> None \<longrightarrow> find_enrollment x y (pd_core s') \<noteq> None) \<and>
    pd_enrollments s' = pd_enrollments s @ [e] \<and> pe_userId e = u \<and> pe_learningPathId e = i \<and> pe_completedAt e = None \<and>
    \<not> succeeds (path_enroll now ch rm u i s')"
proof -
  let ?e = "\<lparr>pe_id = pd_fresh s, pe_userId = u, pe_learningPathId = i, pe_enrolledAt = now, pe_completedAt = None\<rparr>"
  have found: "paths_findOne i s = Inr p" using assms(2) by (simp add: paths_findOne_def)
  obtain c where run: "enroll_all now ch rm u (pa_courses p) (pd_core s) = (Inr (), c)" and e: "e = ?e"
    and s': "s' = s\<lparr>pd_enrollments := pd_enrollments s @ [?e], pd_fresh := Suc (pd_fresh s), pd_core := c\<rparr>"
    using assms(3) by (auto simp: path_enroll_def found Let_def split: if_splits prod.splits sum.splits)
  have "find_path_enrollment u i s' \<noteq> None" by (auto simp: find_path_enrollment_def s' find_None)
  then have "\<not> succeeds (path_enroll now ch rm u i s')"
    by (auto simp: path_enroll_def split: sum.split)
  then show ?thesis
    using enroll_all_success[OF assms(1) run] enroll_all_ok[OF assms(1), of now ch rm u "pa_courses p"] run
    by (simp add: s' e)
qed

subsection \<open>Witnesses\<close>

definition path_school :: path_db where
  "path_school = \<lparr>pd_core = empty_core\<lparr>users := [(new_user 2 ''a@x'')\<lparr>u_stellarPublicKey := Some ''GKEY''\<rparr>], courses := [new_course 10 ''A''],
       enrollments := [\<lparr>en_id = 20, en_userId = 2, en_courseId = 10, en_enrolledAt = 1, en_completedAt = Some 4,
         en_enrolledVersionNumber = None, en_transactionHash = None\<rparr>], fresh := 21\<rparr>,
     pd_paths = [\<lparr>pa_id = 30, pa_title = ''P'', pa_description = ''D'', pa_isPublished = True, pa_thumbnailUrl = None,
       pa_courseOrder = [10], pa_courses = [10], pa_createdAt = 0\<rparr>],
     pd_enrollments = [\<lparr>pe_id = 40, pe_userId = 2, pe_learningPathId = 30, pe_enrolledAt = 1, pe_completedAt = None\<rparr>], pd_fresh = 41\<rparr>"


theorem path_enroll_everywhere_witness:
  "find_enrollment 7 10 (pd_core (snd (path_enroll 5 (\<lambda>_ _. Inr ''h'') True 7 30
     (path_school\<lparr>pd_core := empty_core\<lparr>users := [new_user 7 ''b@x''], courses := [new_course 10 ''A'']\<rparr>\<rparr>)))) \<noteq> None"
proof -
  let ?s = "path_school\<lparr>pd_core := empty_core\<lparr>users := [new_user 7 ''b@x''], courses := [new_course 10 ''A'']\<rparr>\<rparr>"
  have ok: "enrollments_ok (pd_core ?s)" by (simp add: enrollments_ok_def empty_core_def)
  have find: "find_path 30 ?s = Some (hd (pd_paths path_school))" by (simp add: find_path_def path_school_def)
  have "enforcePrerequisites 7 10 False (pd_core ?s) = Inr ()" by (simp add: enforce_iff prerequisites_met_def empty_core_def)
  then have "\<exists>e. fst (path_enroll 5 (\<lambda>_ _. Inr ''h'') True 7 30 ?s) = Inr e"
    by (simp add: path_enroll_def paths_findOne_def find_path_def path_school_def find_path_enrollment_def find_user_def new_user_def
        enroll_def find_enrollment_def empty_core_def find_course_def new_course_def Let_def)
  then obtain e s' where run: "path_enroll 5 (\<lambda>_ _. Inr ''h'') True 7 30 ?s = (Inr e, s')" by (metis prod.collapse)
  show ?thesis using path_enroll_everywhere[OF ok find run] unfolding run by (simp add: path_school_def)
qed

end
