(* ===== verification/Catalog.thy ===== *)
theory Catalog
  imports Accounts Caching Js_Number
begin

text \<open>
  The course catalogue and the reviews (\<open>courses/courses.service.ts\<close>, \<open>courses/reviews.service.ts\<close>). The
  cache is the one of \<open>Caching\<close>; \<open>reset\<close> is the method of that name the cache may or may not have, and
  \<open>sql_avg\<close> is the average the database computes over the ratings of a course. The search index, whose
  failures are ignored, and the hit counters are left out.
\<close>

record review =
  rv_id :: uuid
  rv_userId :: uuid
  rv_courseId :: uuid
  rv_rating :: int
  rv_comment :: "string option"
  rv_flagged :: bool
  rv_createdAt :: timestamp

record course_query =
  cq_search :: "string option"
  cq_level :: "string option"
  cq_language :: "string option"
  cq_page :: nat
  cq_limit :: nat

record catalog_page =
  cp_data :: "(course \<times> js_num) list"
  cp_total :: nat
  cp_page :: nat
  cp_limit :: nat

record 'c catalog_db =
  ct_core :: core
  ct_reviews :: "review list"
  ct_cache :: 'c

subsection \<open>Pages of a listing\<close>

definition page_slice :: "nat \<Rightarrow> nat \<Rightarrow> 'a list \<Rightarrow> 'a list" where
  "page_slice page limit rows = take limit (drop ((page - 1) * limit) rows)"

lemma page_slices: "concat (map (\<lambda>i. page_slice (Suc i) limit rows) [0..<n]) = take (n * limit) rows"
proof (induction n)
  case (Suc n)
  have "take (n * limit + limit) rows = take (n * limit) rows @ take limit (drop (n * limit) rows)"
    by (rule take_add)
  then show ?case using Suc by (simp add: page_slice_def add.commute)
qed simp

subsection \<open>The catalogue\<close>

definition or_empty :: "string option \<Rightarrow> string" where
  "or_empty v = (case v of None \<Rightarrow> [] | Some x \<Rightarrow> x)"

definition catalog_key :: "course_query \<Rightarrow> string" where
  "catalog_key q = ''courses:catalog:'' @ or_empty (cq_level q) @ '':'' @ or_empty (cq_language q) @ '':'' @
     string_of_nat (cq_page q) @ '':'' @ string_of_nat (cq_limit q)"

definition listed :: "course_query \<Rightarrow> course \<Rightarrow> bool" where
  "listed q c \<longleftrightarrow> co_isPublished c \<and> \<not> co_isDeleted c \<and>
     (given (cq_search q) \<longrightarrow> sql_ilike (co_title c) (search_pattern (or_empty (cq_search q))) \<or>
        sql_ilike (co_description c) (search_pattern (or_empty (cq_search q)))) \<and>
     (given (cq_level q) \<longrightarrow> Some (co_level c) = cq_level q) \<and>
     (given (cq_language q) \<longrightarrow> Some (co_language c) = cq_language q)"

definition average_rating :: "(int list \<Rightarrow> js_num) \<Rightarrow> review list \<Rightarrow> course \<Rightarrow> js_num" where
  "average_rating sql_avg reviews c =
     (let rs = map rv_rating (filter (\<lambda>r. rv_courseId r = co_id c) reviews) in if rs = [] then 0 else sql_avg rs)"

definition listing :: "course_query \<Rightarrow> core \<Rightarrow> course list" where
  "listing q s = order_by_desc co_createdAt (filter (listed q) (courses s))"

definition catalog_answer :: "(int list \<Rightarrow> js_num) \<Rightarrow> course_query \<Rightarrow> 'c catalog_db \<Rightarrow> catalog_page" where
  "catalog_answer sql_avg q s =
     \<lparr>cp_data = map (\<lambda>c. (c, average_rating sql_avg (ct_reviews s) c)) (page_slice (cq_page q) (cq_limit q) (listing q (ct_core s))),
      cp_total = length (listing q (ct_core s)), cp_page = cq_page q, cp_limit = cq_limit q\<rparr>"

definition catalog_ttl :: int where
  "catalog_ttl = 300000"

definition courses_findAll ::
  "(timestamp \<Rightarrow> 'c \<Rightarrow> string \<Rightarrow> catalog_page option) \<Rightarrow> (timestamp \<Rightarrow> string \<Rightarrow> catalog_page \<Rightarrow> int \<Rightarrow> 'c \<Rightarrow> 'c) \<Rightarrow>
   (int list \<Rightarrow> js_num) \<Rightarrow> timestamp \<Rightarrow> course_query \<Rightarrow> 'c catalog_db \<Rightarrow> catalog_page \<times> 'c catalog_db" where
  "courses_findAll get put sql_avg now q s =
     (if given (cq_search q) then (catalog_answer sql_avg q s, s)
      else (let (r, c) = read_through get put now (catalog_key q) catalog_ttl (catalog_answer sql_avg q s) (ct_cache s)
            in (r, s\<lparr>ct_cache := c\<rparr>)))"

definition courses_findOne :: "uuid \<Rightarrow> 'c catalog_db \<Rightarrow> http_error + course" where
  "courses_findOne i s =
     (case find_live_course i (ct_core s) of None \<Rightarrow> Inl (NotFoundException ''Course not found'') | Some c \<Rightarrow> Inr c)"

text \<open>A missing \<open>reset\<close> is a call on \<open>undefined\<close>: it throws before there is a promise whose failure could be
  caught.\<close>

definition invalidateCache :: "(string \<Rightarrow> 'c \<Rightarrow> 'c) \<Rightarrow> ('c \<Rightarrow> 'c) option \<Rightarrow> 'c catalog_db \<Rightarrow> ('c catalog_db, unit) outcome" where
  "invalidateCache del reset s =
     (let s1 = s\<lparr>ct_cache := del ''courses:all'' (ct_cache s)\<rparr>
      in case reset of None \<Rightarrow> (Inl JsTypeError, s1) | Some f \<Rightarrow> (Inr (), s1\<lparr>ct_cache := f (ct_cache s1)\<rparr>))"

record course_dto =
  cd_title :: string
  cd_description :: string
  cd_level :: "string option"
  cd_language :: "string option"
  cd_skills :: "string list option"
  cd_durationHours :: "int option"
  cd_requiresKyc :: "bool option"

record course_patch =
  cx_title :: "string option"
  cx_description :: "string option"
  cx_level :: "string option"
  cx_durationHours :: "int option"
  cx_isPublished :: "bool option"

definition or_stored :: "'a option \<Rightarrow> 'a \<Rightarrow> 'a" where
  "or_stored v stored = (case v of None \<Rightarrow> stored | Some x \<Rightarrow> x)"

definition course_row :: "timestamp \<Rightarrow> uuid \<Rightarrow> course_dto \<Rightarrow> course" where
  "course_row now i d =
     (new_course i (cd_title d))\<lparr>co_description := cd_description d, co_level := or_stored (cd_level d) ''beginner'',
        co_language := or_stored (cd_language d) ''en'', co_skills := cd_skills d,
        co_durationHours := or_stored (cd_durationHours d) 0, co_requiresKyc := or_stored (cd_requiresKyc d) False,
        co_createdAt := now\<rparr>"

definition course_create ::
  "(string \<Rightarrow> 'c \<Rightarrow> 'c) \<Rightarrow> ('c \<Rightarrow> 'c) option \<Rightarrow> timestamp \<Rightarrow> course_dto \<Rightarrow> 'c catalog_db \<Rightarrow> ('c catalog_db, course) outcome" where
  "course_create del reset now dto s =
     (let c = course_row now (fresh (ct_core s)) dto;
          s1 = s\<lparr>ct_core := (ct_core s)\<lparr>courses := courses (ct_core s) @ [c], fresh := Suc (fresh (ct_core s))\<rparr>\<rparr>
      in await (invalidateCache del reset s1) (\<lambda>_ s2. (Inr c, s2)))"

definition patch_course :: "course_patch \<Rightarrow> course \<Rightarrow> course" where
  "patch_course d c =
     c\<lparr>co_title := or_stored (cx_title d) (co_title c), co_description := or_stored (cx_description d) (co_description c),
       co_level := or_stored (cx_level d) (co_level c), co_durationHours := or_stored (cx_durationHours d) (co_durationHours c),
       co_isPublished := or_stored (cx_isPublished d) (co_isPublished c)\<rparr>"

definition store_course :: "course \<Rightarrow> 'c catalog_db \<Rightarrow> 'c catalog_db" where
  "store_course c s = s\<lparr>ct_core := (ct_core s)\<lparr>courses := save_row co_id c (courses (ct_core s))\<rparr>\<rparr>"

definition course_update ::
  "(string \<Rightarrow> 'c \<Rightarrow> 'c) \<Rightarrow> ('c \<Rightarrow> 'c) option \<Rightarrow> uuid \<Rightarrow> course_patch \<Rightarrow> 'c catalog_db \<Rightarrow> ('c catalog_db, course) outcome" where
  "course_update del reset i d s =
     await (courses_findOne i s, s) (\<lambda>c s.
       await (invalidateCache del reset (store_course (patch_course d c) s)) (\<lambda>_ s. (Inr (patch_course d c), s)))"

text \<open>The row goes, with everything the foreign keys delete along with it.\<close>

definition cascade_course :: "uuid \<Rightarrow> core \<Rightarrow> core" where
  "cascade_course i s =
     s\<lparr>courses := delete_rows (\<lambda>c. co_id c = i) (courses s), versions := delete_rows (\<lambda>v. cv_courseId v = i) (versions s),
       prerequisites := delete_rows (\<lambda>p. pr_courseId p = i \<or> pr_prerequisiteId p = i) (prerequisites s),
       enrollments := delete_rows (\<lambda>e. en_courseId e = i) (enrollments s),
       waitlist := delete_rows (\<lambda>w. wl_courseId w = i) (waitlist s),
       bundles := map (\<lambda>b. b\<lparr>bu_courses := filter (\<lambda>c. c \<noteq> i) (bu_courses b)\<rparr>) (bundles s),
       progress := delete_rows (\<lambda>p. pg_courseId p = i) (progress s),
       credentials := delete_rows (\<lambda>c. cr_subject c = ForCourse i) (credentials s)\<rparr>"

definition course_delete ::
  "(string \<Rightarrow> 'c \<Rightarrow> 'c) \<Rightarrow> ('c \<Rightarrow> 'c) option \<Rightarrow> uuid \<Rightarrow> 'c catalog_db \<Rightarrow> ('c catalog_db, course) outcome" where
  "course_delete del reset i s =
     await (courses_findOne i s, s) (\<lambda>c s.
       await (invalidateCache del reset (s\<lparr>ct_core := cascade_course i (ct_core s),
                ct_reviews := delete_rows (\<lambda>r. rv_courseId r = i) (ct_reviews s)\<rparr>)) (\<lambda>_ s. (Inr c, s)))"

definition scheduleCourse :: "timestamp \<Rightarrow> uuid \<Rightarrow> timestamp \<Rightarrow> 'c catalog_db \<Rightarrow> ('c catalog_db, course) outcome" where
  "scheduleCourse now i scheduledAt s =
     (if scheduledAt \<le> now then (Inl (BadRequestException ''scheduledAt must be in the future''), s)
      else await (courses_findOne i s, s) (\<lambda>c s.
        let c' = c\<lparr>co_status := SCHEDULED, co_scheduledAt := Some scheduledAt, co_isPublished := False\<rparr>
        in (Inr c', store_course c' s)))"

definition publishNow :: "timestamp \<Rightarrow> uuid \<Rightarrow> 'c catalog_db \<Rightarrow> ('c catalog_db, course) outcome" where
  "publishNow now i s =
     await (courses_findOne i s, s) (\<lambda>c s.
       let c' = c\<lparr>co_status := PUBLISHED, co_isPublished := True, co_publishedAt := Some now\<rparr>
       in (Inr c', store_course c' s))"

subsection \<open>Reviews\<close>

definition reviewed_course_exists :: "uuid \<Rightarrow> 'c catalog_db \<Rightarrow> http_error + unit" where
  "reviewed_course_exists courseId s =
     (case find_live_course courseId (ct_core s) of None \<Rightarrow> Inl (NotFoundException ''Course not found'') | Some _ \<Rightarrow> Inr ())"

definition find_review :: "uuid \<Rightarrow> uuid \<Rightarrow> 'c catalog_db \<Rightarrow> review option" where
  "find_review courseId userId s = find (\<lambda>r. rv_courseId r = courseId \<and> rv_userId r = userId) (ct_reviews s)"

definition review_create ::
  "timestamp \<Rightarrow> uuid \<Rightarrow> uuid \<Rightarrow> int \<Rightarrow> string option \<Rightarrow> 'c catalog_db \<Rightarrow> ('c catalog_db, review) outcome" where
  "review_create now courseId userId rating comment s =
     await (reviewed_course_exists courseId s, s) (\<lambda>_ s.
       if find_review courseId userId s \<noteq> None then (Inl (ConflictException ''You have already reviewed this course''), s)
       else if Option.bind (find_enrollment userId courseId (ct_core s)) en_completedAt = None
       then (Inl (UnprocessableEntityException ''Only users with completed enrollments can review this course''), s)
       else
         (let text_given = js_trim (or_empty comment);
              r = \<lparr>rv_id = fresh (ct_core s), rv_userId = userId, rv_courseId = courseId, rv_rating = rating,
                   rv_comment = (if text_given = [] then None else Some text_given), rv_flagged = False, rv_createdAt = now\<rparr>
          in (Inr r, s\<lparr>ct_reviews := ct_reviews s @ [r], ct_core := (ct_core s)\<lparr>fresh := Suc (fresh (ct_core s))\<rparr>\<rparr>)))"

definition reviews_findByCourse :: "uuid \<Rightarrow> nat \<Rightarrow> nat \<Rightarrow> 'c catalog_db \<Rightarrow> http_error + (review list \<times> nat)" where
  "reviews_findByCourse courseId page limit s =
     (case reviewed_course_exists courseId s of
        Inl e \<Rightarrow> Inl e
      | Inr _ \<Rightarrow>
          (let rows = order_by_desc rv_createdAt (filter (\<lambda>r. rv_courseId r = courseId) (ct_reviews s))
           in Inr (page_slice page limit rows, length rows)))"

definition flagReview :: "uuid \<Rightarrow> uuid \<Rightarrow> 'c catalog_db \<Rightarrow> ('c catalog_db, review) outcome" where
  "flagReview courseId reviewId s =
     await (reviewed_course_exists courseId s, s) (\<lambda>_ s.
       case find (\<lambda>r. rv_id r = reviewId \<and> rv_courseId r = courseId) (ct_reviews s) of
         None \<Rightarrow> (Inl (NotFoundException ''Review not found''), s)
       | Some r \<Rightarrow> (Inr (r\<lparr>rv_flagged := True\<rparr>), s\<lparr>ct_reviews := save_row rv_id (r\<lparr>rv_flagged := True\<rparr>) (ct_reviews s)\<rparr>))"

subsection \<open>Histories of reviews\<close>

datatype review_request = WriteReview timestamp uuid uuid int "string option" | FlagReview uuid uuid

fun review_step :: "review_request \<Rightarrow> 'c catalog_db \<Rightarrow> unit \<times> 'c catalog_db" where
  "review_step (WriteReview now c u rating comment) s = ((), snd (review_create now c u rating comment s))"
| "review_step (FlagReview c i) s = ((), snd (flagReview c i s))"

definition completed_course :: "uuid \<Rightarrow> uuid \<Rightarrow> core \<Rightarrow> bool" where
  "completed_course u c s \<longleftrightarrow> (\<exists>e. find_enrollment u c s = Some e \<and> en_completedAt e \<noteq> None)"

definition reviews_ok :: "'c catalog_db \<Rightarrow> bool" where
  "reviews_ok s \<longleftrightarrow> distinct (map rv_id (ct_reviews s)) \<and> (\<forall>r \<in> set (ct_reviews s). rv_id r < fresh (ct_core s)) \<and>
     distinct (map (\<lambda>r. (rv_userId r, rv_courseId r)) (ct_reviews s)) \<and>
     (\<forall>(u, c) \<in> set (map (\<lambda>r. (rv_userId r, rv_courseId r)) (ct_reviews s)). completed_course u c (ct_core s))"

lemma completed_course_fresh [simp]: "completed_course u c (s\<lparr>fresh := n\<rparr>) = completed_course u c s"
  by (simp add: completed_course_def find_enrollment_def)

lemma review_create_ok:
  assumes "reviews_ok s"
  shows "reviews_ok (snd (review_create now c u rating comment s))"
proof (cases "reviewed_course_exists c s = Inr () \<and> find_review c u s = None \<and>
    Option.bind (find_enrollment u c (ct_core s)) en_completedAt \<noteq> None")
  case True
  then have "(u, c) \<notin> set (map (\<lambda>r. (rv_userId r, rv_courseId r)) (ct_reviews s))"
    by (auto simp: find_review_def find_None)
  moreover have "completed_course u c (ct_core s)"
    using True by (auto simp: completed_course_def split: bind_splits)
  ultimately show ?thesis
    using assms True by (auto simp: review_create_def Let_def reviews_ok_def intro: less_SucI)
next
  case False
  with assms show ?thesis by (auto simp: review_create_def Let_def await_def split: sum.split)
qed

lemma flagReview_ok:
  assumes "reviews_ok s"
  shows "reviews_ok (snd (flagReview c i s))"
proof (cases "find (\<lambda>r. rv_id r = i \<and> rv_courseId r = c) (ct_reviews s)")
  case None
  with assms show ?thesis by (auto simp: flagReview_def await_def split: sum.split)
next
  case (Some r)
  then have r: "r \<in> set (ct_reviews s)" by (auto dest: find_SomeD)
  have same: "map g (save_row rv_id (r\<lparr>rv_flagged := True\<rparr>) (ct_reviews s)) = map g (ct_reviews s)"
    if "g (r\<lparr>rv_flagged := True\<rparr>) = g r" for g :: "review \<Rightarrow> 'b"
    by (rule map_save_row_same[OF _ r]) (use assms that in \<open>simp_all add: reviews_ok_def\<close>)
  have ids: "(\<forall>r \<in> set rows. rv_id r < n) = (\<forall>i \<in> set (map rv_id rows). i < n)" for rows n by simp
  show ?thesis
    using assms Some same[of rv_id] same[of "\<lambda>r. (rv_userId r, rv_courseId r)"] unfolding reviews_ok_def ids
    by (auto simp: flagReview_def await_def simp del: set_map split: sum.split)
qed

interpretation reviewing: invariant_machine review_step reviews_ok
proof unfold_locales
  show "reviews_ok (snd (review_step r s))" if "reviews_ok s" for r and s :: "'c catalog_db"
    using that by (cases r) (simp_all add: review_create_ok flagReview_ok)
qed

subsection \<open>Properties\<close>


text \<open>The pages of the catalogue, put one after the other, are the listing of the published courses that match,
  newest first: no course is on two pages and none is left out.\<close>

theorem catalog_pages:
  "map fst (concat (map (\<lambda>i. cp_data (catalog_answer sql_avg (q\<lparr>cq_page := Suc i\<rparr>) s)) [0..<n])) =
     take (n * cq_limit q) (listing q (ct_core s)) \<and>
   cp_total (catalog_answer sql_avg q s) = length (listing q (ct_core s)) \<and>
   set (listing q (ct_core s)) = {c \<in> set (courses (ct_core s)). listed q c}"
proof -
  have "listed (q\<lparr>cq_page := i\<rparr>) = listed q" for i by (auto simp: listed_def)
  then have "map fst (cp_data (catalog_answer sql_avg (q\<lparr>cq_page := Suc i\<rparr>) s)) = page_slice (Suc i) (cq_limit q) (listing q (ct_core s))" for i
    by (simp add: catalog_answer_def listing_def comp_def)
  then show ?thesis
    using page_slices[of "cq_limit q" "listing q (ct_core s)" n]
    by (simp add: map_concat comp_def) (simp add: catalog_answer_def listing_def)
qed

text \<open>C25: The key of the cache tells queries apart: two queries without a search text and with the same key have the
  same answer, so a cached listing is never the answer to another query.\<close>

theorem catalog_key_sound:
  assumes "catalog_key q = catalog_key q'" "\<not> given (cq_search q)" "\<not> given (cq_search q')"
    "CHR '':'' \<notin> set (or_empty (cq_level q))" "CHR '':'' \<notin> set (or_empty (cq_level q'))"
  shows "catalog_answer sql_avg q s = catalog_answer sql_avg q' s"
proof -
  have digits: "CHR '':'' \<notin> set (string_of_nat n)" for n
    using string_of_nat_is_digits[of n] by (auto simp: list_all_iff is_digit_def)
  let ?head = "\<lambda>q. or_empty (cq_level q) @ '':'' @ or_empty (cq_language q)"
  have keys: "(?head q @ '':'' @ string_of_nat (cq_page q)) @ [CHR '':''] @ string_of_nat (cq_limit q) =
      (?head q' @ '':'' @ string_of_nat (cq_page q')) @ [CHR '':''] @ string_of_nat (cq_limit q')"
    using assms(1) by (simp add: catalog_key_def)
  then have limit: "string_of_nat (cq_limit q) = string_of_nat (cq_limit q')"
    by (rule last_part_unique[OF _ digits digits])
  with keys have keys2: "?head q @ [CHR '':''] @ string_of_nat (cq_page q) = ?head q' @ [CHR '':''] @ string_of_nat (cq_page q')"
    by simp
  then have page: "string_of_nat (cq_page q) = string_of_nat (cq_page q')"
    by (rule last_part_unique[OF _ digits digits])
  with keys2 have parts: "or_empty (cq_level q) @ CHR '':'' # or_empty (cq_language q) = or_empty (cq_level q') @ CHR '':'' # or_empty (cq_language q')"
    by simp
  note filters = first_part_unique[OF parts assms(4,5)]
  have "(given v \<longrightarrow> Some x = v) = (or_empty v \<noteq> [] \<longrightarrow> x = or_empty v)" for v x
    by (auto simp: given_def or_empty_def split: option.split)
  then have "listed q = listed q'"
    using assms(2,3) filters by (simp add: listed_def fun_eq_iff)
  then show ?thesis using limit page by (simp add: catalog_answer_def listing_def string_of_nat_inject)
qed

text \<open>A cache without a method \<open>reset\<close> makes every write of a course throw after the row is written: the caller sees
  an error although the course was created.\<close>

theorem create_saves_then_throws:
  "fst (course_create del None now dto s) = Inl JsTypeError \<and>
   courses (ct_core (snd (course_create del None now dto s))) = courses (ct_core s) @ [course_row now (fresh (ct_core s)) dto]"
  by (simp add: course_create_def invalidateCache_def Let_def)

text \<open>Publishing a course by hand leaves the cached listings: a query that was answered just before keeps its old
  answer until the five minutes are over.\<close>

theorem publish_hidden_by_cache:
  assumes "expiring_cache get put del" "\<not> given (cq_search q)" "get t (ct_cache s) (catalog_key q) = None"
    "courses_findAll get put sql_avg t q s = (r, s1)" "t \<le> t'" "t' < t + catalog_ttl"
  shows "fst (courses_findAll get put sql_avg t' q (snd (publishNow now i s1))) = r"
proof -
  have s1: "ct_cache s1 = put t (catalog_key q) r catalog_ttl (ct_cache s)"
    using assms(2-4) by (auto simp: courses_findAll_def read_through_def)
  have "ct_cache (snd (publishNow now i s1)) = ct_cache s1"
    by (simp add: publishNow_def courses_findOne_def store_course_def Let_def split: option.split)
  then show ?thesis
    using expiring_cache.get_live[OF assms(1,5,6)] assms(2) by (simp add: courses_findAll_def read_through_def s1)
qed

text \<open>With a cache that has the method, an update is visible at once: the next listing is computed from the new row.\<close>

theorem update_refreshes_catalog:
  assumes "course_update del (Some clear) i d s = (Inr c, s1)" "\<And>u k. get u (clear (del ''courses:all'' (ct_cache s))) k = None"
  shows "fst (courses_findAll get put sql_avg t q s1) = catalog_answer sql_avg q s1 \<and>
    courses (ct_core s1) = save_row co_id c (courses (ct_core s))"
proof -
  obtain c0 where c0: "courses_findOne i s = Inr c0"
    using assms(1) by (cases "courses_findOne i s") (simp_all add: course_update_def)
  with assms(1) have "c = patch_course d c0" "s1 = (store_course c s)\<lparr>ct_cache := clear (del ''courses:all'' (ct_cache s))\<rparr>"
    by (auto simp: course_update_def invalidateCache_def Let_def store_course_def)
  then show ?thesis
    using assms(2) by (simp add: courses_findAll_def read_through_def store_course_def)
qed

subsection \<open>Witnesses\<close>

definition any_course :: course_query where
  "any_course = \<lparr>cq_search = None, cq_level = None, cq_language = None, cq_page = 1, cq_limit = 20\<rparr>"

definition bare_catalog :: "catalog_page ttl_store catalog_db" where
  "bare_catalog = \<lparr>ct_core = empty_core\<lparr>courses := [new_course 10 ''A''], enrollments := [\<lparr>en_id = 20, en_userId = 2, en_courseId = 10,
       en_enrolledAt = 1, en_completedAt = Some 4, en_enrolledVersionNumber = None, en_transactionHash = None\<rparr>], fresh := 21\<rparr>,
     ct_reviews = [], ct_cache = (\<lambda>_. None)\<rparr>"


theorem catalog_key_sound_witness:
  "catalog_answer (\<lambda>_. 3) any_course bare_catalog = catalog_answer (\<lambda>_. 3) (any_course\<lparr>cq_search := Some []\<rparr>) bare_catalog"
  by (rule catalog_key_sound) (simp_all add: any_course_def catalog_key_def given_def or_empty_def)

theorem publish_hidden_by_cache_witness:
  "fst (courses_findAll ttl_get ttl_put (\<lambda>_. 3) 1000 any_course
     (snd (publishNow 900 10 (snd (courses_findAll ttl_get ttl_put (\<lambda>_. 3) 5 any_course bare_catalog)))))
   = fst (courses_findAll ttl_get ttl_put (\<lambda>_. 3) 5 any_course bare_catalog)"
  by (rule publish_hidden_by_cache[OF ttl.expiring_cache_axioms _ _ prod.collapse[symmetric]])
    (simp_all add: any_course_def given_def bare_catalog_def ttl_defs catalog_ttl_def)

theorem update_refreshes_catalog_witness:
  "\<exists>c s1. course_update ttl_del (Some (\<lambda>_ _. None)) 10 \<lparr>cx_title = None, cx_description = None, cx_level = None, cx_durationHours = None,
       cx_isPublished = Some True\<rparr> bare_catalog = (Inr c, s1) \<and>
     fst (courses_findAll ttl_get ttl_put (\<lambda>_. 3) 1000 any_course s1) = catalog_answer (\<lambda>_. 3) any_course s1"
proof -
  let ?d = "\<lparr>cx_title = None, cx_description = None, cx_level = None, cx_durationHours = None, cx_isPublished = Some True\<rparr>"
  have "\<exists>c. fst (course_update ttl_del (Some (\<lambda>_ _. None)) 10 ?d bare_catalog) = Inr c"
    by (simp add: course_update_def courses_findOne_def find_live_course_def bare_catalog_def new_course_def invalidateCache_def Let_def)
  then obtain c s1 where run: "course_update ttl_del (Some (\<lambda>_ _. None)) 10 ?d bare_catalog = (Inr c, s1)" by (metis prod.collapse)
  have "fst (courses_findAll ttl_get ttl_put (\<lambda>_. 3) 1000 any_course s1) = catalog_answer (\<lambda>_. 3) any_course s1"
    using update_refreshes_catalog[OF run, of ttl_get ttl_put "\<lambda>_. 3" 1000 any_course] by (simp add: ttl_get_def)
  with run show ?thesis by blast
qed

end
