(* ===== verification/Surveys.thy ===== *)
theory Surveys
  imports Entities Js_Number
begin

text \<open>
  Course surveys (\<open>surveys/surveys.service.ts\<close>): questions, responses, the promoter score and the statistics per
  question. Strings are UTF-8 bytes. \<open>number_text\<close> is the language's conversion of a number to a string. The
  column \<open>userId\<close> of a response is a \<open>uuid\<close> (the migration and the relation to the user say so): the database
  refuses the text \<open>anonymous\<close> in it.
\<close>

datatype trigger_type = TriggerCompletion | TriggerMilestone

datatype survey_question_type = RatingQuestion | TextQuestion | McqQuestion

datatype answer_value = AnswerText string | AnswerNumber js_num

record survey =
  sv_id :: uuid
  sv_courseId :: uuid
  sv_title :: string
  sv_description :: string
  sv_triggerType :: trigger_type
  sv_triggerMilestone :: "int option"
  sv_isActive :: bool
  sv_allowAnonymous :: bool
  sv_createdAt :: timestamp

record survey_question =
  sq_id :: uuid
  sq_surveyId :: uuid
  sq_text :: string
  sq_type :: survey_question_type
  sq_options :: "string list option"
  sq_order :: int
  sq_required :: bool

record survey_response =
  sr_id :: uuid
  sr_surveyId :: uuid
  sr_userId :: uuid
  sr_answers :: "(uuid \<times> answer_value) list"
  sr_isAnonymous :: bool
  sr_submittedAt :: timestamp

record survey_db =
  sd_core :: core
  sd_surveys :: "survey list"
  sd_questions :: "survey_question list"
  sd_responses :: "survey_response list"
  sd_fresh :: nat

subsection \<open>Building surveys\<close>

definition createSurvey ::
  "timestamp \<Rightarrow> uuid \<Rightarrow> string \<Rightarrow> string \<Rightarrow> trigger_type \<Rightarrow> int option \<Rightarrow> bool \<Rightarrow> survey_db \<Rightarrow> survey \<times> survey_db" where
  "createSurvey now courseId title description ty milestone allowAnonymous s =
     (let v = \<lparr>sv_id = sd_fresh s, sv_courseId = courseId, sv_title = title, sv_description = description, sv_triggerType = ty,
               sv_triggerMilestone = milestone, sv_isActive = True, sv_allowAnonymous = allowAnonymous, sv_createdAt = now\<rparr>
      in (v, s\<lparr>sd_surveys := sd_surveys s @ [v], sd_fresh := Suc (sd_fresh s)\<rparr>))"

definition survey_addQuestion ::
  "uuid \<Rightarrow> string \<Rightarrow> survey_question_type \<Rightarrow> int \<Rightarrow> string list option \<Rightarrow> bool \<Rightarrow> survey_db \<Rightarrow> survey_question \<times> survey_db" where
  "survey_addQuestion surveyId txt ty ord options required s =
     (let q = \<lparr>sq_id = sd_fresh s, sq_surveyId = surveyId, sq_text = txt, sq_type = ty, sq_options = options, sq_order = ord,
               sq_required = required\<rparr>
      in (q, s\<lparr>sd_questions := sd_questions s @ [q], sd_fresh := Suc (sd_fresh s)\<rparr>))"

definition em_dash :: string where
  "em_dash = [CHR 0xE2, CHR 0x80, CHR 0x94]"

definition en_dash :: string where
  "en_dash = [CHR 0xE2, CHR 0x80, CHR 0x93]"

definition completion_survey :: "uuid \<Rightarrow> survey_db \<Rightarrow> survey option" where
  "completion_survey courseId s =
     find (\<lambda>v. sv_courseId v = courseId \<and> sv_triggerType v = TriggerCompletion \<and> sv_isActive v) (sd_surveys s)"

definition createCompletionSurvey :: "timestamp \<Rightarrow> uuid \<Rightarrow> string \<Rightarrow> survey_db \<Rightarrow> survey \<times> survey_db" where
  "createCompletionSurvey now courseId courseTitle s =
     (case completion_survey courseId s of
        Some v \<Rightarrow> (v, s)
      | None \<Rightarrow>
          (let (v, s1) = createSurvey now courseId (courseTitle @ '' '' @ em_dash @ '' Feedback'')
                 ''Help us improve this course with your feedback.'' TriggerCompletion None True s;
               s2 = snd (survey_addQuestion (sv_id v)
                 (''How likely are you to recommend this course? (0'' @ en_dash @ ''10)'') RatingQuestion 1 None True s1);
               s3 = snd (survey_addQuestion (sv_id v) ''What did you enjoy most about this course?'' TextQuestion 2 None False s2);
               s4 = snd (survey_addQuestion (sv_id v) ''What could be improved?'' TextQuestion 3 None False s3)
           in (v, s4)))"

definition submitResponse ::
  "timestamp \<Rightarrow> uuid \<Rightarrow> uuid \<Rightarrow> (uuid \<times> answer_value) list \<Rightarrow> bool \<Rightarrow> survey_db \<Rightarrow> (survey_db, survey_response) outcome" where
  "submitResponse now surveyId userId answers isAnonymous s =
     (case find (\<lambda>v. sv_id v = surveyId) (sd_surveys s) of
        None \<Rightarrow> (Inl ForeignKeyViolation, s)
      | Some v \<Rightarrow>
          if sv_allowAnonymous v \<and> isAnonymous then (Inl (JsError ''invalid input syntax for type uuid: anonymous''), s)
          else
            (let r = \<lparr>sr_id = sd_fresh s, sr_surveyId = surveyId, sr_userId = userId, sr_answers = answers,
                      sr_isAnonymous = (if sv_allowAnonymous v then isAnonymous else False), sr_submittedAt = now\<rparr>
             in (Inr r, s\<lparr>sd_responses := sd_responses s @ [r], sd_fresh := Suc (sd_fresh s)\<rparr>)))"

definition questions_of_survey :: "uuid \<Rightarrow> survey_db \<Rightarrow> survey_question list" where
  "questions_of_survey i s = filter (\<lambda>q. sq_surveyId q = i) (sd_questions s)"

definition responses_of_survey :: "uuid \<Rightarrow> survey_db \<Rightarrow> survey_response list" where
  "responses_of_survey i s = filter (\<lambda>r. sr_surveyId r = i) (sd_responses s)"

definition getSurveyByCourse :: "uuid \<Rightarrow> survey_db \<Rightarrow> (survey \<times> survey_question list) list" where
  "getSurveyByCourse courseId s =
     map (\<lambda>v. (v, questions_of_survey (sv_id v) s))
       (order_by_desc sv_createdAt (filter (\<lambda>v. sv_courseId v = courseId \<and> sv_isActive v) (sd_surveys s)))"

subsection \<open>Statistics\<close>

datatype question_stat =
    RatingStat js_num nat
  | McqCounts "(string \<times> nat) list"
  | TextResponses "answer_value list"

definition responses_to :: "survey_question \<Rightarrow> survey_response list \<Rightarrow> answer_value option list" where
  "responses_to q rs = map (\<lambda>r. map_of (sr_answers r) (sq_id q)) rs"

definition ratings :: "answer_value option list \<Rightarrow> js_num list" where
  "ratings vs = concat (map (\<lambda>v. case v of Some (AnswerNumber n) \<Rightarrow> [n] | _ \<Rightarrow> []) vs)"

definition truthy :: "answer_value option \<Rightarrow> bool" where
  "truthy v = (case v of None \<Rightarrow> False | Some (AnswerText t) \<Rightarrow> t \<noteq> [] | Some (AnswerNumber n) \<Rightarrow> n \<noteq> 0)"

definition answer_string :: "(js_num \<Rightarrow> string) \<Rightarrow> answer_value \<Rightarrow> string" where
  "answer_string number_text v = (case v of AnswerText t \<Rightarrow> t | AnswerNumber n \<Rightarrow> number_text n)"

fun sum_up :: "js_num list \<Rightarrow> js_num" where
  "sum_up [] = 0"
| "sum_up (x # xs) = foldl js_add x xs"

definition average :: "js_num list \<Rightarrow> js_num" where
  "average rs = (if rs = [] then 0 else js_div (sum_up rs) (of_nat (length rs)))"

definition nps :: "js_num list \<Rightarrow> int" where
  "nps rs =
     (let promoters = int (length (filter (\<lambda>r. 9 \<le> r) rs)); detractors = int (length (filter (\<lambda>r. r \<le> 6) rs))
      in math_round (js_mul (js_div (of_int (promoters - detractors)) (of_nat (length rs))) 100))"

fun bump :: "string \<Rightarrow> (string \<times> nat) list \<Rightarrow> (string \<times> nat) list" where
  "bump k [] = [(k, 1)]"
| "bump k ((k', n) # cs) = (if k' = k then (k', Suc n) # cs else (k', n) # bump k cs)"

definition mcq_counts :: "(js_num \<Rightarrow> string) \<Rightarrow> answer_value option list \<Rightarrow> (string \<times> nat) list" where
  "mcq_counts number_text vs = fold (\<lambda>v. bump (answer_string number_text (the v))) (filter truthy vs) []"

definition stat_of_question :: "(js_num \<Rightarrow> string) \<Rightarrow> survey_response list \<Rightarrow> survey_question \<Rightarrow> question_stat" where
  "stat_of_question number_text rs q =
     (let vs = responses_to q rs
      in case sq_type q of
           RatingQuestion \<Rightarrow> RatingStat (average (ratings vs)) (length (ratings vs))
         | McqQuestion \<Rightarrow> McqCounts (mcq_counts number_text vs)
         | TextQuestion \<Rightarrow> TextResponses (map the (filter truthy vs)))"

text \<open>The score is that of the first rating question that has a rating.\<close>

fun first_nps :: "survey_response list \<Rightarrow> survey_question list \<Rightarrow> int option" where
  "first_nps rs [] = None"
| "first_nps rs (q # qs) =
     (if sq_type q = RatingQuestion \<and> ratings (responses_to q rs) \<noteq> [] then Some (nps (ratings (responses_to q rs)))
      else first_nps rs qs)"

record analytics =
  an_totalResponses :: nat
  an_npsScore :: "int option"
  an_questionStats :: "(uuid \<times> question_stat) list"

definition getAnalytics :: "(js_num \<Rightarrow> string) \<Rightarrow> uuid \<Rightarrow> survey_db \<Rightarrow> http_error + analytics" where
  "getAnalytics number_text surveyId s =
     (case find (\<lambda>v. sv_id v = surveyId) (sd_surveys s) of
        None \<Rightarrow> Inl (JsError ''Survey not found'')
      | Some v \<Rightarrow>
          (let rs = responses_of_survey surveyId s; qs = questions_of_survey surveyId s
           in Inr \<lparr>an_totalResponses = length rs, an_npsScore = first_nps rs qs,
                   an_questionStats = map (\<lambda>q. (sq_id q, stat_of_question number_text rs q)) qs\<rparr>))"

record aggregate_row =
  ag_courseId :: uuid
  ag_surveyId :: uuid
  ag_title :: string
  ag_totalResponses :: nat
  ag_npsScore :: "int option"

definition getInstructorSurveyAggregate :: "(js_num \<Rightarrow> string) \<Rightarrow> uuid \<Rightarrow> survey_db \<Rightarrow> aggregate_row list" where
  "getInstructorSurveyAggregate number_text instructorId s =
     concat (map (\<lambda>v. case getAnalytics number_text (sv_id v) s of
         Inl _ \<Rightarrow> []
       | Inr a \<Rightarrow> [\<lparr>ag_courseId = sv_courseId v, ag_surveyId = sv_id v, ag_title = sv_title v,
                    ag_totalResponses = an_totalResponses a, ag_npsScore = an_npsScore a\<rparr>])
       (filter (\<lambda>v. sv_isActive v \<and> Option.bind (find_course (sv_courseId v) (sd_core s)) co_instructorId = Some instructorId)
         (sd_surveys s)))"

subsection \<open>Lemmas\<close>

lemma nps_bounds:
  assumes "rs \<noteq> []"
  shows "- 100 \<le> nps rs" "nps rs \<le> 100"
proof -
  let ?p = "length (filter (\<lambda>r. 9 \<le> r) rs)" and ?d = "length (filter (\<lambda>r. r \<le> 6) rs)"
  have "?p \<le> length rs" "?d \<le> length rs" by simp_all
  then have "\<bar>int ?p - int ?d\<bar> \<le> int (length rs)" by linarith
  then have "\<bar>of_int (int ?p - int ?d)\<bar> \<le> (of_int (int (length rs)) :: rat)" by (simp only: of_int_abs[symmetric] of_int_le_iff)
  then have part: "\<bar>of_int (int ?p - int ?d)\<bar> \<le> (of_nat (length rs) :: rat)" by simp
  have pos: "(0::rat) < of_nat (length rs)" using assms by simp
  note bounds = js_signed_percent_bounds[OF part pos]
  show "- 100 \<le> nps rs" "nps rs \<le> 100"
    using math_round_mono[OF bounds(1)] math_round_mono[OF bounds(2)] math_round_of_int[of "- 100"] math_round_of_int[of 100]
    by (simp_all add: nps_def Let_def)
qed

lemma nps_extremes:
  assumes "rs \<noteq> []" "length rs \<le> 2 ^ 53"
  shows "(\<forall>r \<in> set rs. 9 \<le> r) \<Longrightarrow> nps rs = 100" "(\<forall>r \<in> set rs. r \<le> 6) \<Longrightarrow> nps rs = - 100"
    "(\<forall>r \<in> set rs. 6 < r \<and> r < 9) \<Longrightarrow> nps rs = 0"
proof -
  have len: "(of_nat (length rs) :: rat) \<noteq> 0" using assms(1) by simp
  have "nps rs = math_round (js_mul (js_div (of_nat (length rs)) (of_nat (length rs))) 100)" if "\<forall>r \<in> set rs. 9 \<le> r"
  proof -
    have "filter (\<lambda>r. 9 \<le> r) rs = rs" using that by simp
    moreover have "filter (\<lambda>r. r \<le> 6) rs = []" using that by (auto simp: filter_empty_conv)
    ultimately show ?thesis by (simp add: nps_def)
  qed
  then show "nps rs = 100" if "\<forall>r \<in> set rs. 9 \<le> r"
    using that len math_round_of_int[of 100] by (simp add: js_div_def js_mul_def)
  have "nps rs = math_round (js_mul (js_div (- of_nat (length rs)) (of_nat (length rs))) 100)" if "\<forall>r \<in> set rs. r \<le> 6"
  proof -
    have "filter (\<lambda>r. r \<le> 6) rs = rs" using that by simp
    moreover have "filter (\<lambda>r. 9 \<le> r) rs = []" using that by (auto simp: filter_empty_conv)
    ultimately show ?thesis by (simp add: nps_def)
  qed
  then show "nps rs = - 100" if "\<forall>r \<in> set rs. r \<le> 6"
    using that len math_round_of_int[of "- 100"] by (simp add: js_div_def js_mul_def fl_minus)
  show "nps rs = 0" if mid: "\<forall>r \<in> set rs. 6 < r \<and> r < 9"
  proof -
    have "filter (\<lambda>r. 9 \<le> r) rs = []" "filter (\<lambda>r. r \<le> 6) rs = []" using mid by (auto simp: filter_empty_conv)
    then show ?thesis using math_round_of_int[of 0] by (simp add: nps_def js_div_def js_mul_def)
  qed
qed

lemma map_of_bump: "map_of (bump k cs) x = (if x = k then Some (Suc (case map_of cs k of None \<Rightarrow> 0 | Some n \<Rightarrow> n)) else map_of cs x)"
  by (induction k cs rule: bump.induct) auto

lemma mcq_counts_eq:
  "map_of (mcq_counts f vs) k =
     (let n = length (filter (\<lambda>v. truthy v \<and> answer_string f (the v) = k) vs) in if n = 0 then None else Some n)"
proof -
  have "map_of (fold (\<lambda>v. bump (answer_string f (the v))) us cs) k =
      (let n = length (filter (\<lambda>v. answer_string f (the v) = k) us)
       in if n = 0 then map_of cs k else Some (n + (case map_of cs k of None \<Rightarrow> 0 | Some m \<Rightarrow> m)))" for us cs
    by (induction us arbitrary: cs) (auto simp: map_of_bump Let_def split: option.splits)
  from this[of "filter truthy vs" "[]"] show ?thesis by (simp add: mcq_counts_def Let_def conj_commute)
qed

subsection \<open>Properties\<close>

text \<open>C36: The promoter score of a survey is that of its first rating question that was answered; it lies between -100 and
  100, is 100 when all ratings are 9 or more, -100 when all are 6 or less, and 0 when all lie between.\<close>

theorem survey_score:
  assumes "getAnalytics f i s = Inr a" "an_npsScore a = Some n" "length (responses_of_survey i s) \<le> 2 ^ 53"
  shows "- 100 \<le> n \<and> n \<le> 100 \<and>
    (\<exists>q \<in> set (questions_of_survey i s). sq_type q = RatingQuestion \<and>
       (let rs = ratings (responses_to q (responses_of_survey i s))
        in rs \<noteq> [] \<and> ((\<forall>r \<in> set rs. 9 \<le> r) \<longrightarrow> n = 100) \<and> ((\<forall>r \<in> set rs. r \<le> 6) \<longrightarrow> n = - 100) \<and>
           ((\<forall>r \<in> set rs. 6 < r \<and> r < 9) \<longrightarrow> n = 0)))"
proof -
  have short: "length (ratings vs) \<le> length vs" for vs
    by (induction vs) (auto simp: ratings_def split: option.split answer_value.split)
  have "\<exists>q \<in> set qs. sq_type q = RatingQuestion \<and> ratings (responses_to q rs) \<noteq> [] \<and> m = nps (ratings (responses_to q rs))"
    if "first_nps rs qs = Some m" for rs qs m
    using that by (induction qs) (auto split: if_splits)
  moreover have "first_nps (responses_of_survey i s) (questions_of_survey i s) = Some n"
    using assms(1,2) by (auto simp: getAnalytics_def Let_def split: option.splits)
  ultimately obtain q where q: "q \<in> set (questions_of_survey i s)" "sq_type q = RatingQuestion"
    "ratings (responses_to q (responses_of_survey i s)) \<noteq> []" "n = nps (ratings (responses_to q (responses_of_survey i s)))" by blast
  have "length (ratings (responses_to q (responses_of_survey i s))) \<le> 2 ^ 53"
    using short[of "responses_to q (responses_of_survey i s)"] assms(3) by (simp add: responses_to_def)
  note facts = nps_bounds[OF q(3)] nps_extremes[OF q(3) this]
  show ?thesis using facts q by (auto simp: Let_def)
qed

text \<open>The counts of a multiple-choice question say for each text how many responses gave it, and list no other text.\<close>

theorem mcq_counts_exact:
  assumes "sq_type q = McqQuestion" "stat_of_question f rs q = McqCounts cs"
  shows "(case map_of cs k of None \<Rightarrow> 0 | Some n \<Rightarrow> n) =
      length (filter (\<lambda>v. truthy v \<and> answer_string f (the v) = k) (responses_to q rs)) \<and> map_of cs k \<noteq> Some 0"
  using assms mcq_counts_eq[of f "responses_to q rs" k] by (auto simp: stat_of_question_def Let_def split: if_splits)

text \<open>A course gets one completion survey: asking again returns the first one and adds nothing, as long as it is active.\<close>

theorem completion_survey_once:
  assumes "createCompletionSurvey now c title s = (v, s')"
  shows "createCompletionSurvey now' c title' s' = (v, s') \<and> sv_courseId v = c \<and> sv_isActive v"
proof (cases "completion_survey c s")
  case (Some w)
  with assms show ?thesis by (auto simp: createCompletionSurvey_def completion_survey_def dest: find_SomeD)
next
  case None
  let ?v = "fst (createSurvey now c (title @ '' '' @ em_dash @ '' Feedback'') ''Help us improve this course with your feedback.'' TriggerCompletion None True s)"
  have s': "sd_surveys s' = sd_surveys s @ [v]" "v = ?v"
    using assms None by (auto simp: createCompletionSurvey_def createSurvey_def survey_addQuestion_def Let_def)
  have "find P (xs @ [x]) = Some x" if "find P xs = None" "P x" for P xs and x :: survey
    using that by (induction xs) (auto split: if_splits)
  then have "completion_survey c s' = Some v"
    using None by (simp add: completion_survey_def s') (simp add: createSurvey_def Let_def)
  then show ?thesis by (simp add: createCompletionSurvey_def s'(2)) (simp add: createSurvey_def Let_def)
qed

text \<open>No response is ever stored as anonymous: a survey that allows it makes the insert fail, and one that does not
  stores the name.\<close>

theorem anonymous_never_stored:
  assumes "submitResponse now i u answers anon s = (r, s')"
  shows "(\<forall>x \<in> set (sd_responses s'). x \<in> set (sd_responses s) \<or> \<not> sr_isAnonymous x \<and> sr_userId x = u) \<and>
    (anon \<and> (\<exists>v. find (\<lambda>v. sv_id v = i) (sd_surveys s) = Some v \<and> sv_allowAnonymous v) \<longrightarrow> (\<exists>e. r = Inl e) \<and> s' = s)"
  using assms by (auto simp: submitResponse_def Let_def split: option.splits if_splits)

subsection \<open>Witnesses\<close>

definition small_survey :: survey_db where
  "small_survey = \<lparr>sd_core = empty_core, sd_surveys = [\<lparr>sv_id = 10, sv_courseId = 3, sv_title = ''S'', sv_description = [],
       sv_triggerType = TriggerCompletion, sv_triggerMilestone = None, sv_isActive = True, sv_allowAnonymous = True, sv_createdAt = 0\<rparr>],
     sd_questions = [\<lparr>sq_id = 11, sq_surveyId = 10, sq_text = ''?'', sq_type = RatingQuestion, sq_options = None, sq_order = 1, sq_required = True\<rparr>],
     sd_responses = [\<lparr>sr_id = 12, sr_surveyId = 10, sr_userId = 2, sr_answers = [(11, AnswerNumber 9)], sr_isAnonymous = False, sr_submittedAt = 0\<rparr>],
     sd_fresh = 13\<rparr>"

theorem survey_score_witness:
  "\<exists>a. getAnalytics (\<lambda>_. []) 10 small_survey = Inr a \<and> an_npsScore a = Some 100"
proof -
  have "\<exists>a. getAnalytics (\<lambda>_. []) 10 small_survey = Inr a"
    by (simp add: getAnalytics_def small_survey_def Let_def)
  then obtain a where a: "getAnalytics (\<lambda>_. []) 10 small_survey = Inr a" by blast
  have qs: "questions_of_survey 10 small_survey = sd_questions small_survey" "responses_of_survey 10 small_survey = sd_responses small_survey"
    by (simp_all add: questions_of_survey_def responses_of_survey_def small_survey_def)
  have rated: "ratings (responses_to (hd (sd_questions small_survey)) (sd_responses small_survey)) = [9]"
    by (simp add: small_survey_def responses_to_def ratings_def)
  have one: "sd_questions small_survey = [hd (sd_questions small_survey)]" by (simp add: small_survey_def)
  have "first_nps (sd_responses small_survey) (sd_questions small_survey) \<noteq> None"
    by (subst one) (simp add: rated, simp add: small_survey_def)
  then obtain n where n: "an_npsScore a = Some n"
    using a by (auto simp: getAnalytics_def qs Let_def split: option.splits)
  have "length (responses_of_survey 10 small_survey) \<le> 2 ^ 53" by (simp add: responses_of_survey_def small_survey_def)
  from survey_score[OF a n this] have "n = 100" unfolding qs by (subst (asm) one) (simp add: rated)
  with a n show ?thesis by blast
qed

theorem mcq_counts_exact_witness:
  "\<exists>cs. stat_of_question (\<lambda>_. []) [] \<lparr>sq_id = 11, sq_surveyId = 10, sq_text = ''?'', sq_type = McqQuestion, sq_options = None, sq_order = 1,
     sq_required = True\<rparr> = McqCounts cs \<and> map_of cs ''a'' \<noteq> Some 0"
  using mcq_counts_exact[of "\<lparr>sq_id = 11, sq_surveyId = 10, sq_text = ''?'', sq_type = McqQuestion, sq_options = None, sq_order = 1,
     sq_required = True\<rparr>" "\<lambda>_. []" "[]" _ "''a''"] by (simp add: stat_of_question_def Let_def)

theorem completion_survey_once_witness:
  "snd (createCompletionSurvey 9 3 ''Rust'' (snd (createCompletionSurvey 5 3 ''Rust'' (small_survey\<lparr>sd_surveys := []\<rparr>)))) =
     snd (createCompletionSurvey 5 3 ''Rust'' (small_survey\<lparr>sd_surveys := []\<rparr>))"
  using completion_survey_once[OF prod.collapse[symmetric], of 9 3 "''Rust''" 5 "''Rust''" "small_survey\<lparr>sd_surveys := []\<rparr>"]
  by (metis snd_conv)

theorem anonymous_never_stored_witness:
  "\<exists>e. fst (submitResponse 5 10 2 [] True small_survey) = Inl e"
proof -
  have "find (\<lambda>v. sv_id v = 10) (sd_surveys small_survey) = Some (hd (sd_surveys small_survey)) \<and> sv_allowAnonymous (hd (sd_surveys small_survey))"
    by (simp add: small_survey_def)
  with anonymous_never_stored[OF prod.collapse[symmetric], of 5 10 2 "[]" True small_survey] show ?thesis by blast
qed

end
