(* ===== verification/Subscriptions.thy ===== *)
theory Subscriptions
  imports Entities
begin

text \<open>
  Paid subscriptions (\<open>subscriptions/subscriptions.service.ts\<close>). Stripe is the record \<open>stripe\<close> of parameters:
  checking the signature of a payload, opening a checkout session, and the end of the period of a subscription,
  in seconds; \<open>config\<close> gives the configured price ids.
\<close>

record checkout_session =
  cs_userId :: "uuid option"
  cs_tier :: "subscription_tier option"
  cs_customer :: string
  cs_subscription :: string

record stripe_subscription =
  sb_id :: string
  sb_active :: bool
  sb_current_period_end :: int

datatype stripe_event =
    CheckoutCompleted checkout_session
  | SubscriptionUpdated stripe_subscription
  | SubscriptionDeleted stripe_subscription
  | UnhandledEvent string

record stripe =
  st_constructEvent :: "string \<Rightarrow> string \<Rightarrow> string + stripe_event"
  st_createSession :: "string \<Rightarrow> uuid \<Rightarrow> string \<Rightarrow> subscription_tier \<Rightarrow> http_error + string"
  st_retrieve :: "string \<Rightarrow> http_error + int"

subsection \<open>Operations\<close>

definition price_of :: "(subscription_tier \<Rightarrow> string option) \<Rightarrow> subscription_tier \<Rightarrow> http_error + string" where
  "price_of config tier =
     (if tier = FREE then Inl (BadRequestException ''Invalid subscription tier'')
      else case config tier of
        None \<Rightarrow> Inl (BadRequestException ''Stripe Price ID not configured for this tier'')
      | Some p \<Rightarrow> if p = [] then Inl (BadRequestException ''Stripe Price ID not configured for this tier'') else Inr p)"

definition createCheckoutSession ::
  "stripe \<Rightarrow> (subscription_tier \<Rightarrow> string option) \<Rightarrow> uuid \<Rightarrow> subscription_tier \<Rightarrow> core \<Rightarrow> http_error + string" where
  "createCheckoutSession stripe config userId tier s =
     (case find_user userId s of
        None \<Rightarrow> Inl (NotFoundException ''User not found'')
      | Some u \<Rightarrow>
          (case price_of config tier of
             Inl e \<Rightarrow> Inl e
           | Inr priceId \<Rightarrow> st_createSession stripe priceId userId (u_email u) tier))"

text \<open>\<open>repo.update(id, ...)\<close>: the row of the user, if there is one.\<close>

definition update_user_row :: "uuid \<Rightarrow> (user \<Rightarrow> user) \<Rightarrow> core \<Rightarrow> core" where
  "update_user_row i f s = s\<lparr>users := update_rows (\<lambda>u. u_id u = i) f (users s)\<rparr>"

definition handleCheckoutCompleted :: "stripe \<Rightarrow> checkout_session \<Rightarrow> core \<Rightarrow> (core, unit) outcome" where
  "handleCheckoutCompleted stripe session s =
     (case (cs_userId session, cs_tier session) of
        (Some userId, Some tier) \<Rightarrow>
          (case st_retrieve stripe (cs_subscription session) of
             Inl e \<Rightarrow> (Inl e, s)
           | Inr periodEnd \<Rightarrow>
               (Inr (), update_user_row userId
                  (\<lambda>u. u\<lparr>u_subscriptionTier := tier, u_stripeCustomerId := Some (cs_customer session),
                          u_stripeSubscriptionId := Some (cs_subscription session), u_subscriptionExpiresAt := Some (periodEnd * 1000)\<rparr>) s))
      | _ \<Rightarrow> (Inr (), s))"

definition handleSubscriptionUpdated :: "stripe_subscription \<Rightarrow> core \<Rightarrow> (core, unit) outcome" where
  "handleSubscriptionUpdated sub s =
     (case find (\<lambda>u. u_stripeSubscriptionId u = Some (sb_id sub)) (users s) of
        None \<Rightarrow> (Inr (), s)
      | Some u \<Rightarrow>
          (Inr (), if sb_active sub
                   then update_user_row (u_id u) (\<lambda>u. u\<lparr>u_subscriptionExpiresAt := Some (sb_current_period_end sub * 1000)\<rparr>) s
                   else update_user_row (u_id u) (\<lambda>u. u\<lparr>u_subscriptionTier := FREE, u_subscriptionExpiresAt := None\<rparr>) s))"

definition handleWebhook :: "stripe \<Rightarrow> string \<Rightarrow> string \<Rightarrow> core \<Rightarrow> (core, unit) outcome" where
  "handleWebhook stripe signature payload s =
     (case st_constructEvent stripe payload signature of
        Inl msg \<Rightarrow> (Inl (BadRequestException (''Webhook Error: '' @ msg)), s)
      | Inr (CheckoutCompleted session) \<Rightarrow> handleCheckoutCompleted stripe session s
      | Inr (SubscriptionUpdated sub) \<Rightarrow> handleSubscriptionUpdated sub s
      | Inr (SubscriptionDeleted sub) \<Rightarrow> handleSubscriptionUpdated sub s
      | Inr (UnhandledEvent _) \<Rightarrow> (Inr (), s))"

definition getSubscriptionStatus ::
  "uuid \<Rightarrow> core \<Rightarrow> http_error + (subscription_tier \<times> timestamp option \<times> bool)" where
  "getSubscriptionStatus userId s =
     (case find_user userId s of
        None \<Rightarrow> Inl (NotFoundException ''User not found'')
      | Some u \<Rightarrow> Inr (u_subscriptionTier u, u_subscriptionExpiresAt u, u_subscriptionTier u = PRO \<or> u_subscriptionTier u = ENTERPRISE))"

subsection \<open>Histories of webhooks\<close>

definition stripe_step :: "stripe \<Rightarrow> string \<times> string \<Rightarrow> core \<Rightarrow> unit \<times> core" where
  "stripe_step stripe call s = ((), snd (handleWebhook stripe (fst call) (snd call) s))"

definition genuine :: "stripe \<Rightarrow> string \<times> string \<Rightarrow> stripe_event \<Rightarrow> bool" where
  "genuine stripe call e \<longleftrightarrow> st_constructEvent stripe (snd call) (fst call) = Inr e"

lemma find_user_update_user_row:
  "(\<And>u. u_id (f u) = u_id u) \<Longrightarrow> find_user j (update_user_row i f s) = (if i = j then map_option f (find_user j s) else find_user j s)"
proof -
  assume keep: "\<And>u. u_id (f u) = u_id u"
  have "find (\<lambda>u. u_id u = j) (map (\<lambda>u. if u_id u = i then f u else u) us) =
      (if i = j then map_option f (find (\<lambda>u. u_id u = j) us) else find (\<lambda>u. u_id u = j) us)" for us
    by (induction us) (auto simp: keep)
  then show ?thesis by (simp add: find_user_def update_user_row_def update_rows_def)
qed

definition tier_of :: "uuid \<Rightarrow> core \<Rightarrow> subscription_tier" where
  "tier_of i s = (case find_user i s of None \<Rightarrow> FREE | Some u \<Rightarrow> u_subscriptionTier u)"

text \<open>A webhook raises nobody to a paid tier but the user of a completed checkout, and to the tier of that checkout.\<close>

lemma webhook_raises:
  assumes "tier_of i (snd (handleWebhook stripe signature payload s)) = t" "t \<noteq> FREE" "tier_of i s \<noteq> t"
  shows "\<exists>c. genuine stripe (signature, payload) (CheckoutCompleted c) \<and> cs_userId c = Some i \<and> cs_tier c = Some t"
  using assms
  by (auto simp: handleWebhook_def handleCheckoutCompleted_def handleSubscriptionUpdated_def tier_of_def find_user_update_user_row genuine_def
      split: sum.splits stripe_event.splits option.splits if_splits)

subsection \<open>Properties\<close>


text \<open>A payload whose signature does not check changes nothing.\<close>

theorem forged_webhook_ignored:
  assumes "st_constructEvent stripe payload signature = Inl msg"
  shows "handleWebhook stripe signature payload s = (Inl (BadRequestException (''Webhook Error: '' @ msg)), s)"
  using assms by (simp add: handleWebhook_def)

text \<open>A subscription that misses a payment and then recovers stays on the free tier: the event that it is active
  again restores the end of the period and not the tier.\<close>

theorem recovered_stays_free:
  assumes "genuine stripe missed (SubscriptionUpdated sub)" "\<not> sb_active sub"
    "genuine stripe recovered (SubscriptionUpdated sub')" "sb_active sub'" "sb_id sub' = sb_id sub"
    "find (\<lambda>u. u_stripeSubscriptionId u = Some (sb_id sub)) (users s) = Some u" "distinct (map u_id (users s))"
  shows "\<exists>u'. find_user (u_id u) (run_ops (stripe_step stripe) [missed, recovered] s) = Some u' \<and>
    u_subscriptionTier u' = FREE \<and> u_subscriptionExpiresAt u' = Some (sb_current_period_end sub' * 1000)"
proof -
  let ?down = "\<lambda>u. u\<lparr>u_subscriptionTier := FREE, u_subscriptionExpiresAt := None\<rparr>"
  let ?s1 = "update_user_row (u_id u) ?down s"
  have first: "snd (handleWebhook stripe (fst missed) (snd missed) s) = ?s1"
    using assms(1,2,6) by (simp add: handleWebhook_def genuine_def handleSubscriptionUpdated_def)
  have "find (\<lambda>u. u_stripeSubscriptionId u = Some k) (map (\<lambda>u. if u_id u = i then ?down u else u) us) =
      map_option (\<lambda>u. if u_id u = i then ?down u else u) (find (\<lambda>u. u_stripeSubscriptionId u = Some k) us)" for k i and us :: "user list"
    by (induction us) auto
  then have again: "find (\<lambda>u. u_stripeSubscriptionId u = Some (sb_id sub)) (users ?s1) = Some (?down u)"
    using assms(6) by (simp add: update_user_row_def update_rows_def)
  have mem: "find_user (u_id u) s = Some u"
    using assms(6,7) by (auto simp: find_user_def dest!: find_SomeD intro: find_key_unique)
  have "snd (handleWebhook stripe (fst recovered) (snd recovered) ?s1) =
      update_user_row (u_id u) (\<lambda>u. u\<lparr>u_subscriptionExpiresAt := Some (sb_current_period_end sub' * 1000)\<rparr>) ?s1"
    using assms(3-5) again by (simp add: handleWebhook_def genuine_def handleSubscriptionUpdated_def)
  then show ?thesis
    by (simp add: stripe_step_def first find_user_update_user_row mem)
qed

text \<open>The status does not look at the end of the period: an expired subscription is still reported as paid.\<close>

theorem expired_still_pro:
  assumes "find_user i s = Some u" "u_subscriptionTier u = PRO" "u_subscriptionExpiresAt u = Some t"
  shows "getSubscriptionStatus i s = Inr (PRO, Some t, True)"
  using assms by (simp add: getSubscriptionStatus_def)

subsection \<open>Witnesses\<close>

definition test_stripe :: stripe where
  "test_stripe = \<lparr>st_constructEvent = (\<lambda>payload signature.
       if signature \<noteq> ''good'' then Inl ''bad signature''
       else if payload = ''checkout'' then Inr (CheckoutCompleted \<lparr>cs_userId = Some 2, cs_tier = Some PRO, cs_customer = ''cus'', cs_subscription = ''sub''\<rparr>)
       else Inr (SubscriptionUpdated \<lparr>sb_id = ''sub'', sb_active = (payload = ''active''), sb_current_period_end = 90\<rparr>)),
     st_createSession = (\<lambda>_ _ _ _. Inr ''url''), st_retrieve = (\<lambda>_. Inr 30)\<rparr>"

definition paying_user :: core where
  "paying_user = empty_core\<lparr>users := [(new_user 2 ''a@x'')\<lparr>u_subscriptionTier := PRO, u_stripeSubscriptionId := Some ''sub'',
     u_subscriptionExpiresAt := Some 5\<rparr>]\<rparr>"


theorem forged_webhook_ignored_witness:
  "handleWebhook test_stripe ''forged'' ''checkout'' paying_user = (Inl (BadRequestException ''Webhook Error: bad signature''), paying_user)"
  using forged_webhook_ignored[of test_stripe "''checkout''" "''forged''" "''bad signature''" paying_user] by (simp add: test_stripe_def)

theorem recovered_stays_free_witness:
  "\<exists>u'. find_user 2 (run_ops (stripe_step test_stripe) [(''good'', ''past_due''), (''good'', ''active'')] paying_user) = Some u' \<and>
    u_subscriptionTier u' = FREE"
proof -
  have "genuine test_stripe (''good'', ''past_due'') (SubscriptionUpdated \<lparr>sb_id = ''sub'', sb_active = False, sb_current_period_end = 90\<rparr>)"
    "genuine test_stripe (''good'', ''active'') (SubscriptionUpdated \<lparr>sb_id = ''sub'', sb_active = True, sb_current_period_end = 90\<rparr>)"
    by (simp_all add: genuine_def test_stripe_def)
  from recovered_stays_free[OF this(1) _ this(2), of paying_user "hd (users paying_user)"] show ?thesis
    by (auto simp: paying_user_def new_user_def)
qed

theorem expired_still_pro_witness: "getSubscriptionStatus 2 paying_user = Inr (PRO, Some 5, True)"
  by (rule expired_still_pro[of 2 paying_user "hd (users paying_user)"]) (simp_all add: paying_user_def find_user_def new_user_def)

end
