(* ===== verification/Certificates.thy ===== *)
theory Certificates
  imports Stellar Entities
begin

text \<open>
  Certificates (\<open>certificates/certificates.service.ts\<close>): the issue on completion of a course, which goes through
  a pending row and the ledger, and the two verifications. \<open>mint\<close> is the call of the Stellar client,
  \<open>sha256\<close> the hash function, \<open>id_text\<close> the text of an id, and \<open>horizon\<close> the transactions of an account.
\<close>

datatype certificate_status = CertPending | CertMinted | CertVerified

record certificate =
  ce_id :: uuid
  ce_userId :: uuid
  ce_courseId :: uuid
  ce_certificateHash :: string
  ce_stellarTransactionId :: "string option"
  ce_status :: certificate_status
  ce_issuedAt :: timestamp

record cert_db =
  cb_core :: core
  cb_net :: net
  cb_certs :: "certificate list"
  cb_fresh :: nat

type_synonym mint = "string \<Rightarrow> string \<Rightarrow> string \<Rightarrow> string call"

subsection \<open>Issuing\<close>

definition generateCertificateHash :: "(string \<Rightarrow> string) \<Rightarrow> (uuid \<Rightarrow> string) \<Rightarrow> uuid \<Rightarrow> uuid \<Rightarrow> string" where
  "generateCertificateHash sha256 id_text userId courseId = sha256 (id_text userId @ '':'' @ id_text courseId)"

definition completed_enrollment :: "uuid \<Rightarrow> uuid \<Rightarrow> core \<Rightarrow> enrollment option" where
  "completed_enrollment userId courseId s =
     find (\<lambda>e. en_userId e = userId \<and> en_courseId e = courseId \<and> en_completedAt e \<noteq> None) (enrollments s)"

definition find_certificate :: "uuid \<Rightarrow> uuid \<Rightarrow> cert_db \<Rightarrow> certificate option" where
  "find_certificate userId courseId s = find (\<lambda>c. ce_userId c = userId \<and> ce_courseId c = courseId) (cb_certs s)"

definition stellar_key :: "uuid \<Rightarrow> core \<Rightarrow> string" where
  "stellar_key userId s = (case Option.bind (find_user userId s) u_stellarPublicKey of None \<Rightarrow> [] | Some k \<Rightarrow> k)"

definition course_title :: "(uuid \<Rightarrow> string) \<Rightarrow> uuid \<Rightarrow> core \<Rightarrow> string" where
  "course_title id_text courseId s = (case find_course courseId s of None \<Rightarrow> id_text courseId | Some c \<Rightarrow> co_title c)"

text \<open>\<open>removeOk\<close> tells whether the removal of the pending row after a failed call goes through.\<close>

definition issueCertificate ::
  "(string \<Rightarrow> string) \<Rightarrow> (uuid \<Rightarrow> string) \<Rightarrow> mint \<Rightarrow> bool \<Rightarrow> timestamp \<Rightarrow> uuid \<Rightarrow> uuid \<Rightarrow> cert_db \<Rightarrow> (cert_db, certificate) outcome" where
  "issueCertificate sha256 id_text mint removeOk now userId courseId s =
     (if completed_enrollment userId courseId (cb_core s) = None
      then (Inl (BadRequestException ''Enrollment not found or course not yet completed''), s)
      else if find_certificate userId courseId s \<noteq> None
      then (Inl (ConflictException ''Certificate already issued for this course''), s)
      else
        (let hash = generateCertificateHash sha256 id_text userId courseId;
             c = \<lparr>ce_id = cb_fresh s, ce_userId = userId, ce_courseId = courseId, ce_certificateHash = hash,
                  ce_stellarTransactionId = None, ce_status = CertPending, ce_issuedAt = now\<rparr>;
             s1 = s\<lparr>cb_certs := cb_certs s @ [c], cb_fresh := Suc (cb_fresh s)\<rparr>;
             key = stellar_key userId (cb_core s1)
         in if key = []
            then (Inr (c\<lparr>ce_status := CertMinted\<rparr>), s1\<lparr>cb_certs := save_row ce_id (c\<lparr>ce_status := CertMinted\<rparr>) (cb_certs s1)\<rparr>)
            else case mint key hash (course_title id_text courseId (cb_core s1)) (cb_net s1) of
              (Inr txHash, n) \<Rightarrow>
                (let c' = c\<lparr>ce_stellarTransactionId := Some txHash, ce_status := CertMinted\<rparr>
                 in (Inr c', s1\<lparr>cb_net := n, cb_certs := save_row ce_id c' (cb_certs s1)\<rparr>))
            | (Inl _, n) \<Rightarrow>
                (Inl (InternalServerErrorException ''Failed to mint certificate on the Stellar network. Please try again.''),
                 s1\<lparr>cb_net := n, cb_certs := (if removeOk then delete_rows (\<lambda>x. ce_id x = ce_id c) (cb_certs s1) else cb_certs s1)\<rparr>)))"

text \<open>The listener of \<open>progress.completed\<close> swallows every error.\<close>

definition handleProgressCompleted ::
  "(string \<Rightarrow> string) \<Rightarrow> (uuid \<Rightarrow> string) \<Rightarrow> mint \<Rightarrow> bool \<Rightarrow> timestamp \<Rightarrow> uuid \<Rightarrow> uuid \<Rightarrow> cert_db \<Rightarrow> cert_db" where
  "handleProgressCompleted sha256 id_text mint removeOk now userId courseId s =
     snd (issueCertificate sha256 id_text mint removeOk now userId courseId s)"

subsection \<open>Verification\<close>

record chain_tx =
  ct_hash :: string
  ct_successful :: bool
  ct_createdAt :: string

record on_chain =
  oc_found :: bool
  oc_successful :: "bool option"
  oc_ledgerTimestamp :: "string option"

definition nowhere :: on_chain where
  "nowhere = \<lparr>oc_found = False, oc_successful = None, oc_ledgerTimestamp = None\<rparr>"

definition look_up :: "(string \<Rightarrow> nat \<Rightarrow> http_error + chain_tx list) \<Rightarrow> (uuid \<Rightarrow> string) \<Rightarrow> certificate \<Rightarrow> on_chain" where
  "look_up horizon id_text c =
     (case ce_stellarTransactionId c of
        None \<Rightarrow> nowhere
      | Some h \<Rightarrow>
          if h = [] then nowhere
          else case horizon (id_text (ce_userId c)) 200 of
            Inl _ \<Rightarrow> nowhere
          | Inr txs \<Rightarrow>
              (case find (\<lambda>t. ct_hash t = h) txs of
                 None \<Rightarrow> nowhere
               | Some t \<Rightarrow> \<lparr>oc_found = True, oc_successful = Some (ct_successful t), oc_ledgerTimestamp = Some (ct_createdAt t)\<rparr>))"

definition certificate_by_id :: "uuid \<Rightarrow> cert_db \<Rightarrow> http_error + certificate" where
  "certificate_by_id i s =
     (case find (\<lambda>c. ce_id c = i) (cb_certs s) of None \<Rightarrow> Inl (NotFoundException ''Certificate not found'') | Some c \<Rightarrow> Inr c)"

definition dbVerified :: "certificate \<Rightarrow> bool" where
  "dbVerified c \<longleftrightarrow> ce_status c = CertMinted \<or> ce_status c = CertVerified"

definition verifyById ::
  "(string \<Rightarrow> nat \<Rightarrow> http_error + chain_tx list) \<Rightarrow> (uuid \<Rightarrow> string) \<Rightarrow> uuid \<Rightarrow> cert_db \<Rightarrow> http_error + (bool \<times> certificate \<times> on_chain)" where
  "verifyById horizon id_text i s =
     (case certificate_by_id i s of
        Inl e \<Rightarrow> Inl e
      | Inr c \<Rightarrow>
          (let oc = look_up horizon id_text c
           in Inr (dbVerified c \<and> (if oc_found oc then oc_successful oc = Some True else True), c, oc)))"

definition getUserCertificates :: "uuid \<Rightarrow> cert_db \<Rightarrow> certificate list" where
  "getUserCertificates userId s = order_by_desc ce_issuedAt (filter (\<lambda>c. ce_userId c = userId) (cb_certs s))"

definition verifyCertificate :: "string \<Rightarrow> cert_db \<Rightarrow> bool \<times> certificate option" where
  "verifyCertificate hash s =
     (case find (\<lambda>c. ce_certificateHash c = hash) (cb_certs s) of
        None \<Rightarrow> (False, None) | Some c \<Rightarrow> (dbVerified c, Some c))"

subsection \<open>The state of the certificates\<close>

definition certs_ok :: "cert_db \<Rightarrow> bool" where
  "certs_ok s \<longleftrightarrow> distinct (map ce_id (cb_certs s)) \<and> (\<forall>c \<in> set (cb_certs s). ce_id c < cb_fresh s) \<and>
     distinct (map (\<lambda>c. (ce_userId c, ce_courseId c)) (cb_certs s)) \<and>
     (\<forall>c \<in> set (cb_certs s). completed_enrollment (ce_userId c) (ce_courseId c) (cb_core s) \<noteq> None)"

lemma save_appended:
  assumes "\<forall>c \<in> set xs. ce_id c < n" "ce_id c = n" "ce_id c' = n"
  shows "save_row ce_id c' (xs @ [c]) = xs @ [c']"
  using assms by (auto simp: save_row_def intro!: map_idI)

lemma delete_appended:
  assumes "\<forall>c \<in> set xs. ce_id c < n" "ce_id c = n"
  shows "delete_rows (\<lambda>x. ce_id x = n) (xs @ [c]) = xs"
  using assms by (auto simp: delete_rows_def filter_id_conv)

text \<open>The outcomes of an issue: nothing changes but the network, or one row is added.\<close>

lemma issueCertificate_cases:
  assumes "\<forall>c \<in> set (cb_certs s). ce_id c < cb_fresh s"
  obtains (Refused) e where "issueCertificate sha id_text mint removeOk now u c s = (Inl e, s)"
  | (Failed) e n f where "issueCertificate sha id_text mint removeOk now u c s = (Inl e, s\<lparr>cb_net := n, cb_fresh := f\<rparr>)"
      "cb_fresh s \<le> f" "removeOk" "stellar_key u (cb_core s) \<noteq> []"
  | (Stuck) e n x where "issueCertificate sha id_text mint removeOk now u c s =
        (Inl e, s\<lparr>cb_net := n, cb_certs := cb_certs s @ [x], cb_fresh := Suc (cb_fresh s)\<rparr>)" "\<not> removeOk"
      "completed_enrollment u c (cb_core s) \<noteq> None" "find_certificate u c s = None"
      "ce_id x = cb_fresh s" "ce_userId x = u" "ce_courseId x = c" "ce_status x = CertPending"
  | (Issued) n x where "issueCertificate sha id_text mint removeOk now u c s =
        (Inr x, s\<lparr>cb_net := n, cb_certs := cb_certs s @ [x], cb_fresh := Suc (cb_fresh s)\<rparr>)"
      "completed_enrollment u c (cb_core s) \<noteq> None" "find_certificate u c s = None"
      "ce_id x = cb_fresh s" "ce_userId x = u" "ce_courseId x = c" "ce_status x = CertMinted"
      "ce_certificateHash x = generateCertificateHash sha id_text u c"
      "stellar_key u (cb_core s) \<noteq> [] \<longrightarrow> (\<exists>h. ce_stellarTransactionId x = Some h \<and>
         fst (mint (stellar_key u (cb_core s)) (ce_certificateHash x) (course_title id_text c (cb_core s)) (cb_net s)) = Inr h)"
proof (cases "completed_enrollment u c (cb_core s) = None \<or> find_certificate u c s \<noteq> None")
  case True
  then have "\<exists>e. issueCertificate sha id_text mint removeOk now u c s = (Inl e, s)"
    by (cases "completed_enrollment u c (cb_core s) = None") (simp_all add: issueCertificate_def)
  then show thesis using Refused by blast
next
  case False
  let ?hash = "generateCertificateHash sha id_text u c"
  let ?c = "\<lparr>ce_id = cb_fresh s, ce_userId = u, ce_courseId = c, ce_certificateHash = ?hash,
    ce_stellarTransactionId = None, ce_status = CertPending, ce_issuedAt = now\<rparr>"
  show thesis
  proof (cases "stellar_key u (cb_core s) = []")
    case True
    then show thesis
      using False Issued[of "?c\<lparr>ce_status := CertMinted\<rparr>" "cb_net s"] assms
      by (simp add: issueCertificate_def Let_def save_appended)
  next
    case key: False
    obtain r n where run: "mint (stellar_key u (cb_core s)) ?hash (course_title id_text c (cb_core s)) (cb_net s) = (r, n)"
      by (metis prod.exhaust)
    show thesis
    proof (cases r)
      case (Inr h)
      then show thesis
        using False key run assms Issued[of "?c\<lparr>ce_stellarTransactionId := Some h, ce_status := CertMinted\<rparr>" n]
        by (simp add: issueCertificate_def Let_def save_appended)
    next
      case (Inl e)
      show thesis
      proof (cases removeOk)
        case True
        have "issueCertificate sha id_text mint removeOk now u c s =
            (Inl (InternalServerErrorException ''Failed to mint certificate on the Stellar network. Please try again.''),
             s\<lparr>cb_net := n, cb_fresh := Suc (cb_fresh s)\<rparr>)"
          using False key run Inl True assms by (simp add: issueCertificate_def Let_def delete_appended)
        from Failed[OF this _ True key] show thesis by simp
      next
        case stuck: False
        have "issueCertificate sha id_text mint removeOk now u c s =
            (Inl (InternalServerErrorException ''Failed to mint certificate on the Stellar network. Please try again.''),
             s\<lparr>cb_net := n, cb_certs := cb_certs s @ [?c], cb_fresh := Suc (cb_fresh s)\<rparr>)"
          using False key run Inl stuck by (simp add: issueCertificate_def Let_def)
        from Stuck[OF this stuck] False show thesis by simp
      qed
    qed
  qed
qed

lemma issueCertificate_ok:
  assumes "certs_ok s"
  shows "certs_ok (snd (issueCertificate sha id_text mint removeOk now u c s))"
proof -
  have fresh: "\<forall>c \<in> set (cb_certs s). ce_id c < cb_fresh s" using assms by (simp add: certs_ok_def)
  have add: "certs_ok (s\<lparr>cb_net := n, cb_certs := cb_certs s @ [x], cb_fresh := Suc (cb_fresh s)\<rparr>)"
    if "completed_enrollment u c (cb_core s) \<noteq> None" "find_certificate u c s = None"
      "ce_id x = cb_fresh s" "ce_userId x = u" "ce_courseId x = c" for n x
    using assms that by (auto simp: certs_ok_def find_certificate_def find_None intro: less_SucI)
  show ?thesis
  proof (cases rule: issueCertificate_cases[OF fresh, of sha id_text mint removeOk now u c, case_names Refused Failed Stuck Issued])
    case (Failed e n f)
    with assms show ?thesis by (auto simp: certs_ok_def intro: less_le_trans)
  qed (use assms add in simp_all)
qed

subsection \<open>Histories\<close>

datatype cert_request = IssueCertificate timestamp uuid uuid | ProgressDone timestamp uuid uuid

fun cert_step ::
  "(string \<Rightarrow> string) \<Rightarrow> (uuid \<Rightarrow> string) \<Rightarrow> mint \<Rightarrow> bool \<Rightarrow> cert_request \<Rightarrow> cert_db \<Rightarrow> unit \<times> cert_db" where
  "cert_step sha id_text mint rm (IssueCertificate now u c) s = ((), snd (issueCertificate sha id_text mint rm now u c s))"
| "cert_step sha id_text mint rm (ProgressDone now u c) s = ((), handleProgressCompleted sha id_text mint rm now u c s)"

interpretation certifying: invariant_machine "cert_step sha id_text mint rm" certs_ok for sha id_text mint rm
proof unfold_locales
  show "certs_ok (snd (cert_step sha id_text mint rm r s))" if "certs_ok s" for r s
    using that by (cases r) (simp_all add: handleProgressCompleted_def issueCertificate_ok)
qed

lemma cert_step_core: "cb_core (snd (cert_step sha id_text mint rm r s)) = cb_core s"
  by (cases r) (auto simp: handleProgressCompleted_def issueCertificate_def Let_def split: prod.split sum.split)

text \<open>The certificates of one user, in a history against the Stellar client of this program.\<close>

lemma keyed_user_step:
  assumes "certs_ok s" "stellar_key u (cb_core s) \<noteq> []"
  shows "filter (\<lambda>c. ce_userId c = u) (cb_certs (snd (cert_step sha id_text (mintCertificateNFT cfg) True r s))) =
    filter (\<lambda>c. ce_userId c = u) (cb_certs s)"
proof -
  have fresh: "\<forall>c \<in> set (cb_certs s). ce_id c < cb_fresh s" using assms(1) by (simp add: certs_ok_def)
  have never: "fst (mintCertificateNFT cfg k h t n) \<noteq> Inr x" for k h t n x
    using certificate_never_fst[of cfg k h t n] by auto
  have "filter (\<lambda>c. ce_userId c = u) (cb_certs (snd (issueCertificate sha id_text (mintCertificateNFT cfg) True now v c s))) =
    filter (\<lambda>c. ce_userId c = u) (cb_certs s)" for now v c
    by (cases rule: issueCertificate_cases[OF fresh, of sha id_text "mintCertificateNFT cfg" True now v c, case_names Refused Failed Stuck Issued])
      (use assms(2) never in auto)
  then show ?thesis by (cases r) (simp_all add: handleProgressCompleted_def)
qed

subsection \<open>Properties\<close>


text \<open>A certificate that is issued is stored as minted, with the hash of the learner and the course, and for a learner
  with a key with the hash of the ledger transaction; a failed call of the ledger leaves the table as it was when the
  removal goes through.\<close>

theorem certificate_issue:
  assumes "certs_ok s"
  shows "(\<forall>x s'. issueCertificate sha id_text mint rm now u c s = (Inr x, s') \<longrightarrow>
      cb_certs s' = cb_certs s @ [x] \<and> ce_userId x = u \<and> ce_courseId x = c \<and> ce_status x = CertMinted \<and>
      ce_certificateHash x = generateCertificateHash sha id_text u c \<and>
      (stellar_key u (cb_core s) \<noteq> [] \<longrightarrow> ce_stellarTransactionId x \<noteq> None)) \<and>
    (\<forall>e s'. issueCertificate sha id_text mint True now u c s = (Inl e, s') \<longrightarrow> cb_certs s' = cb_certs s)"
proof -
  have fresh: "\<forall>c \<in> set (cb_certs s). ce_id c < cb_fresh s" using assms by (simp add: certs_ok_def)
  show ?thesis
  proof (intro conjI allI impI)
    fix e s' assume "issueCertificate sha id_text mint True now u c s = (Inl e, s')"
    then show "cb_certs s' = cb_certs s"
      by (cases rule: issueCertificate_cases[OF fresh, of sha id_text mint True now u c, case_names Refused Failed Stuck Issued]) auto
  qed (cases rule: issueCertificate_cases[OF fresh, of sha id_text mint rm now u c, case_names Refused Failed Stuck Issued]; auto)+
qed

text \<open>With the Stellar client as it is, no learner with a public key ever gets a certificate: whatever requests and
  completions follow, the certificates of that learner stay those there were.\<close>

theorem keyed_learner_never_certified:
  assumes "certs_ok s" "stellar_key u (cb_core s) \<noteq> []"
  shows "filter (\<lambda>c. ce_userId c = u) (cb_certs (run_ops (cert_step sha id_text (mintCertificateNFT cfg) True) rs s)) =
    filter (\<lambda>c. ce_userId c = u) (cb_certs s)"
  using assms
proof (induction rs arbitrary: s)
  case (Cons r rs)
  let ?s = "snd (cert_step sha id_text (mintCertificateNFT cfg) True r s)"
  have "stellar_key u (cb_core ?s) \<noteq> []" using Cons.prems(2) by (simp add: cert_step_core)
  from Cons.IH[OF certifying.step_preserves[OF Cons.prems(1)] this] keyed_user_step[OF Cons.prems] show ?case by simp
qed simp

text \<open>The verification asks the ledger for the transactions of the user id instead of the account: where that fails, as
  it does for every text that is not an account, each minted certificate is verified, whatever its transaction is.\<close>

theorem verification_finds_nothing:
  assumes "certificate_by_id i s = Inr c" "\<And>u n. \<exists>e. horizon (id_text u) n = Inl e"
  shows "verifyById horizon id_text i s = Inr (dbVerified c, c, nowhere)"
proof -
  obtain e where "horizon (id_text (ce_userId c)) 200 = Inl e" using assms(2) by blast
  then have "look_up horizon id_text c = nowhere" by (simp add: look_up_def split: option.split)
  then show ?thesis by (simp add: verifyById_def assms(1) nowhere_def)
qed

subsection \<open>Witnesses\<close>

definition graduate :: cert_db where
  "graduate = \<lparr>cb_core = empty_core\<lparr>users := [(new_user 2 ''a@x'')\<lparr>u_stellarPublicKey := Some ''GKEY''\<rparr>, new_user 3 ''b@x''],
       courses := [new_course 10 ''A''],
       enrollments := map (\<lambda>u. \<lparr>en_id = u, en_userId = u, en_courseId = 10, en_enrolledAt = 1, en_completedAt = Some 4,
         en_enrolledVersionNumber = None, en_transactionHash = None\<rparr>) [2, 3]\<rparr>,
     cb_net = idle, cb_certs = [], cb_fresh = 30\<rparr>"

lemma graduate_ok: "certs_ok graduate"
  by (simp add: certs_ok_def graduate_def)

lemma graduate_issue:
  "\<exists>x s'. issueCertificate (\<lambda>x. x) (\<lambda>_. ''id'') (mintCertificateNFT token_config) True 5 3 10 graduate = (Inr x, s')"
  by (simp add: issueCertificate_def completed_enrollment_def find_certificate_def stellar_key_def find_user_def new_user_def graduate_def Let_def)


theorem certificate_issue_witness:
  "\<exists>x s'. issueCertificate (\<lambda>x. x) (\<lambda>_. ''id'') (mintCertificateNFT token_config) True 5 3 10 graduate = (Inr x, s') \<and> ce_status x = CertMinted"
  using graduate_issue certificate_issue[OF graduate_ok] by blast

theorem keyed_learner_never_certified_witness:
  "filter (\<lambda>c. ce_userId c = 2) (cb_certs (run_ops (cert_step (\<lambda>x. x) (\<lambda>_. ''id'') (mintCertificateNFT token_config) True)
     [ProgressDone 5 2 10, IssueCertificate 6 2 10] graduate)) = filter (\<lambda>c. ce_userId c = 2) (cb_certs graduate)"
  by (rule keyed_learner_never_certified[OF graduate_ok])
    (simp add: stellar_key_def graduate_def find_user_def new_user_def)

theorem verification_finds_nothing_witness:
  "\<exists>c. verifyById (\<lambda>_ _. Inl (JsError ''Not Found'')) (\<lambda>_. ''id'') 30
     (snd (issueCertificate (\<lambda>x. x) (\<lambda>_. ''id'') (\<lambda>_ _ _ n. (Inr ''forged'', n)) True 5 2 10 graduate)) = Inr (True, c, nowhere)"
proof -
  let ?s = "snd (issueCertificate (\<lambda>x. x) (\<lambda>_. ''id'') (\<lambda>_ _ _ n. (Inr ''forged'', n)) True 5 2 10 graduate)"
  have "\<exists>c. certificate_by_id 30 ?s = Inr c \<and> dbVerified c"
    by (simp add: issueCertificate_def completed_enrollment_def find_certificate_def stellar_key_def find_user_def new_user_def graduate_def
        Let_def certificate_by_id_def save_row_def dbVerified_def)
  then obtain c where c: "certificate_by_id 30 ?s = Inr c" "dbVerified c" by blast
  from verification_finds_nothing[OF c(1), of "\<lambda>_ _. Inl (JsError ''Not Found'')" "\<lambda>_. ''id''"] c(2) show ?thesis by auto
qed

end
