(* ===== verification/Emails.thy ===== *)
theory Emails
  imports Prelude
begin

text \<open>
  The mail queue (\<open>email/email.service.ts\<close>): preferences, the listeners that queue a mail, and the worker that
  sends the queue with retries. \<open>tpl\<close> renders a template, \<open>mailer\<close> is the answer of the SMTP server (an error
  message or none) to the n-th mail it is handed, and \<open>em_handed\<close> logs what it was handed. A run of the worker
  is one step: the flag \<open>processing\<close> lets only one run go on at a time.
\<close>

datatype email_status = EmailPending | EmailSent | EmailFailed

datatype email_kind = EnrollmentMail | CompletionMail | CredentialMail | ModuleMail

record email_job =
  ej_id :: uuid
  ej_to :: string
  ej_subject :: string
  ej_html :: string
  ej_status :: email_status
  ej_attempts :: nat
  ej_lastError :: "string option"
  ej_nextRetryAt :: "timestamp option"
  ej_createdAt :: timestamp

record email_preference =
  ep_id :: uuid
  ep_userId :: uuid
  ep_enrollment :: bool
  ep_completion :: bool
  ep_credentialIssued :: bool
  ep_marketing :: bool
  ep_unsubscribeToken :: string
  ep_unsubscribedAll :: bool

record email_db =
  em_queue :: "email_job list"
  em_prefs :: "email_preference list"
  em_handed :: "uuid list"
  em_fresh :: nat

subsection \<open>Preferences\<close>

definition find_prefs :: "uuid \<Rightarrow> email_db \<Rightarrow> email_preference option" where
  "find_prefs userId s = find (\<lambda>p. ep_userId p = userId) (em_prefs s)"

definition getOrCreatePrefs :: "(nat \<Rightarrow> string) \<Rightarrow> uuid \<Rightarrow> email_db \<Rightarrow> email_preference \<times> email_db" where
  "getOrCreatePrefs randomUUID userId s =
     (case find_prefs userId s of
        Some p \<Rightarrow> (p, s)
      | None \<Rightarrow>
          (let p = \<lparr>ep_id = em_fresh s, ep_userId = userId, ep_enrollment = True, ep_completion = True, ep_credentialIssued = True,
                    ep_marketing = True, ep_unsubscribeToken = randomUUID (em_fresh s), ep_unsubscribedAll = False\<rparr>
           in (p, s\<lparr>em_prefs := em_prefs s @ [p], em_fresh := Suc (em_fresh s)\<rparr>)))"

record preference_patch =
  pp_enrollment :: "bool option"
  pp_completion :: "bool option"
  pp_credentialIssued :: "bool option"
  pp_marketing :: "bool option"

definition patched :: "bool option \<Rightarrow> bool \<Rightarrow> bool" where
  "patched v stored = (case v of None \<Rightarrow> stored | Some b \<Rightarrow> b)"

definition email_updatePreferences :: "(nat \<Rightarrow> string) \<Rightarrow> uuid \<Rightarrow> preference_patch \<Rightarrow> email_db \<Rightarrow> email_preference \<times> email_db" where
  "email_updatePreferences randomUUID userId u s =
     (let (p, s1) = getOrCreatePrefs randomUUID userId s;
          p' = p\<lparr>ep_enrollment := patched (pp_enrollment u) (ep_enrollment p), ep_completion := patched (pp_completion u) (ep_completion p),
                 ep_credentialIssued := patched (pp_credentialIssued u) (ep_credentialIssued p),
                 ep_marketing := patched (pp_marketing u) (ep_marketing p)\<rparr>
      in (p', s1\<lparr>em_prefs := save_row ep_id p' (em_prefs s1)\<rparr>))"

definition unsubscribeByToken :: "string \<Rightarrow> email_db \<Rightarrow> email_db" where
  "unsubscribeByToken token s =
     (case find (\<lambda>p. ep_unsubscribeToken p = token) (em_prefs s) of
        None \<Rightarrow> s
      | Some p \<Rightarrow> s\<lparr>em_prefs := save_row ep_id (p\<lparr>ep_unsubscribedAll := True\<rparr>) (em_prefs s)\<rparr>)"

subsection \<open>Queueing\<close>

text \<open>The column \<open>to\<close> is not nullable.\<close>

definition email_enqueue :: "timestamp \<Rightarrow> string option \<Rightarrow> string \<Rightarrow> string \<Rightarrow> email_db \<Rightarrow> (email_db, unit) outcome" where
  "email_enqueue now receiver subject html s =
     (case receiver of
        None \<Rightarrow> (Inl (JsError ''null value in column to''), s)
      | Some r \<Rightarrow>
          (let j = \<lparr>ej_id = em_fresh s, ej_to = r, ej_subject = subject, ej_html = html, ej_status = EmailPending, ej_attempts = 0,
                    ej_lastError = None, ej_nextRetryAt = None, ej_createdAt = now\<rparr>
           in (Inr (), s\<lparr>em_queue := em_queue s @ [j], em_fresh := Suc (em_fresh s)\<rparr>)))"

definition wants_mail :: "email_kind \<Rightarrow> email_preference \<Rightarrow> bool" where
  "wants_mail kind p \<longleftrightarrow> \<not> ep_unsubscribedAll p \<and>
     (case kind of EnrollmentMail \<Rightarrow> ep_enrollment p | CompletionMail \<Rightarrow> ep_completion p
      | CredentialMail \<Rightarrow> ep_credentialIssued p | ModuleMail \<Rightarrow> ep_enrollment p)"

text \<open>The four listeners: the mail address comes with the payload of the event, if it has one.\<close>

definition on_event ::
  "(nat \<Rightarrow> string) \<Rightarrow> (email_kind \<Rightarrow> string \<Rightarrow> string \<times> string) \<Rightarrow> timestamp \<Rightarrow> email_kind \<Rightarrow> uuid \<Rightarrow> string option \<Rightarrow> email_db
   \<Rightarrow> (email_db, unit) outcome" where
  "on_event randomUUID tpl now kind userId userEmail s =
     (let (p, s1) = getOrCreatePrefs randomUUID userId s
      in if \<not> wants_mail kind p then (Inr (), s1)
         else email_enqueue now userEmail (fst (tpl kind (ep_unsubscribeToken p))) (snd (tpl kind (ep_unsubscribeToken p))) s1)"

subsection \<open>Sending\<close>

definition EMAIL_MAX_ATTEMPTS :: nat where
  "EMAIL_MAX_ATTEMPTS = 3"

definition EMAIL_RETRY_DELAYS :: "int list" where
  "EMAIL_RETRY_DELAYS = [60, 300, 900]"

definition retry_delay :: "nat \<Rightarrow> int" where
  "retry_delay attempts = (if attempts - 1 < length EMAIL_RETRY_DELAYS then EMAIL_RETRY_DELAYS ! (attempts - 1) else 900)"

definition email_due :: "timestamp \<Rightarrow> email_job \<Rightarrow> bool" where
  "email_due now j \<longleftrightarrow> ej_status j = EmailPending \<and> (case ej_nextRetryAt j of None \<Rightarrow> True | Some t \<Rightarrow> t \<le> now)"

definition attempted_job :: "timestamp \<Rightarrow> string option \<Rightarrow> email_job \<Rightarrow> email_job" where
  "attempted_job now err j =
     (let j1 = j\<lparr>ej_attempts := Suc (ej_attempts j)\<rparr>
      in case err of
           None \<Rightarrow> j1\<lparr>ej_status := EmailSent\<rparr>
         | Some msg \<Rightarrow>
             if EMAIL_MAX_ATTEMPTS \<le> ej_attempts j1 then j1\<lparr>ej_lastError := Some msg, ej_status := EmailFailed\<rparr>
             else j1\<lparr>ej_lastError := Some msg, ej_nextRetryAt := Some (now + retry_delay (ej_attempts j1) * 1000)\<rparr>)"

definition sendJob :: "bool \<Rightarrow> (nat \<Rightarrow> email_job \<Rightarrow> string option) \<Rightarrow> timestamp \<Rightarrow> email_job \<Rightarrow> email_db \<Rightarrow> email_db" where
  "sendJob enabled mailer now j s =
     (if enabled
      then s\<lparr>em_handed := em_handed s @ [ej_id j],
             em_queue := save_row ej_id (attempted_job now (mailer (length (em_handed s)) j) j) (em_queue s)\<rparr>
      else s\<lparr>em_queue := save_row ej_id (attempted_job now None j) (em_queue s)\<rparr>)"

definition processQueue :: "bool \<Rightarrow> (nat \<Rightarrow> email_job \<Rightarrow> string option) \<Rightarrow> timestamp \<Rightarrow> email_db \<Rightarrow> email_db" where
  "processQueue enabled mailer now s =
     fold (sendJob enabled mailer now) (take 10 (order_by ej_createdAt (filter (email_due now) (em_queue s)))) s"

subsection \<open>Histories\<close>

datatype email_request =
    Enqueue timestamp "string option" string string
  | OnEvent timestamp email_kind uuid "string option"
  | ProcessQueue timestamp
  | UpdatePreferences uuid preference_patch
  | UnsubscribeByToken string

fun email_step ::
  "(nat \<Rightarrow> string) \<Rightarrow> (email_kind \<Rightarrow> string \<Rightarrow> string \<times> string) \<Rightarrow> bool \<Rightarrow> (nat \<Rightarrow> email_job \<Rightarrow> string option) \<Rightarrow> email_request
   \<Rightarrow> email_db \<Rightarrow> unit \<times> email_db" where
  "email_step ru tpl en ml (Enqueue now r sub h) s = ((), snd (email_enqueue now r sub h s))"
| "email_step ru tpl en ml (OnEvent now k u r) s = ((), snd (on_event ru tpl now k u r s))"
| "email_step ru tpl en ml (ProcessQueue now) s = ((), processQueue en ml now s)"
| "email_step ru tpl en ml (UpdatePreferences u p) s = ((), snd (email_updatePreferences ru u p s))"
| "email_step ru tpl en ml (UnsubscribeByToken t) s = ((), unsubscribeByToken t s)"

definition job_ok :: "uuid list \<Rightarrow> email_job \<Rightarrow> bool" where
  "job_ok handed j \<longleftrightarrow> count_list handed (ej_id j) \<le> ej_attempts j \<and> ej_attempts j \<le> 3 \<and>
     (ej_status j = EmailPending \<longrightarrow> ej_attempts j < 3)"

definition queue_ok :: "email_db \<Rightarrow> bool" where
  "queue_ok s \<longleftrightarrow> distinct (map ej_id (em_queue s)) \<and> (\<forall>j \<in> set (em_queue s). ej_id j < em_fresh s) \<and>
     (\<forall>i \<in> set (em_handed s). i \<in> ej_id ` set (em_queue s)) \<and> (\<forall>j \<in> set (em_queue s). job_ok (em_handed s) j)"

text \<open>Each step either adds pending jobs, or is the worker; a finished job stays as it is.\<close>

definition finished_stay :: "email_db \<Rightarrow> email_db \<Rightarrow> bool" where
  "finished_stay s s' \<longleftrightarrow> (\<forall>j \<in> set (em_queue s). ej_status j \<noteq> EmailPending \<longrightarrow> j \<in> set (em_queue s') \<and>
     count_list (em_handed s') (ej_id j) = count_list (em_handed s) (ej_id j))"

lemma attempted_job_facts:
  "ej_id (attempted_job now err j) = ej_id j" "ej_attempts (attempted_job now err j) = Suc (ej_attempts j)"
  "ej_status (attempted_job now err j) = EmailPending \<Longrightarrow> Suc (ej_attempts j) < 3"
  by (auto simp: attempted_job_def Let_def EMAIL_MAX_ATTEMPTS_def split: option.splits if_splits)

lemma sendJob_ok:
  assumes "queue_ok s" "j \<in> set (em_queue s)" "ej_status j = EmailPending"
  shows "queue_ok (sendJob enabled mailer now j s)" "finished_stay s (sendJob enabled mailer now j s)"
    "\<And>k. k \<in> set (em_queue s) \<Longrightarrow> k \<noteq> j \<Longrightarrow> k \<in> set (em_queue (sendJob enabled mailer now j s))"
proof -
  define j2 where "j2 = attempted_job now (if enabled then mailer (length (em_handed s)) j else None) j"
  have j2: "em_queue (sendJob enabled mailer now j s) = save_row ej_id j2 (em_queue s)" "ej_id j2 = ej_id j"
    "ej_attempts j2 = Suc (ej_attempts j)" "ej_status j2 = EmailPending \<longrightarrow> Suc (ej_attempts j) < 3"
    unfolding j2_def by (simp add: sendJob_def) (blast intro: attempted_job_facts)+
  have handed: "em_handed (sendJob enabled mailer now j s) = em_handed s @ (if enabled then [ej_id j] else [])"
    "em_fresh (sendJob enabled mailer now j s) = em_fresh s"
    by (simp_all add: sendJob_def)
  have unique: "x = j" if "x \<in> set (em_queue s)" "ej_id x = ej_id j" for x
    using assms(1,2) that by (auto simp: queue_ok_def distinct_map inj_on_def)
  have rows: "em_queue (sendJob enabled mailer now j s) = map (\<lambda>x. if x = j then j2 else x) (em_queue s)"
    unfolding j2(1) using assms(2) unique j2(2) by (auto simp: save_row_def)
  have ids: "map ej_id (em_queue (sendJob enabled mailer now j s)) = map ej_id (em_queue s)"
    by (simp add: rows j2(2))
  have small: "Suc (ej_attempts j) \<le> 3" "count_list (em_handed s) (ej_id j) \<le> ej_attempts j"
    using assms by (auto simp: queue_ok_def job_ok_def)
  show "queue_ok (sendJob enabled mailer now j s)"
    unfolding queue_ok_def
  proof (intro conjI ballI)
    show "distinct (map ej_id (em_queue (sendJob enabled mailer now j s)))" using assms(1) by (simp add: ids queue_ok_def)
    fix x assume "x \<in> set (em_queue (sendJob enabled mailer now j s))"
    then consider "x = j2" | "x \<in> set (em_queue s)" "x \<noteq> j" by (auto simp: rows split: if_splits)
    then show "job_ok (em_handed (sendJob enabled mailer now j s)) x" "ej_id x < em_fresh (sendJob enabled mailer now j s)"
      using assms(1,2) small j2 unique by (cases; force simp: queue_ok_def job_ok_def handed)+
  next
    fix i assume "i \<in> set (em_handed (sendJob enabled mailer now j s))"
    then have "i \<in> set (map ej_id (em_queue s))" using assms(1,2) by (auto simp: handed queue_ok_def split: if_splits)
    then show "i \<in> ej_id ` set (em_queue (sendJob enabled mailer now j s))" unfolding ids[symmetric] by simp
  qed
  show "finished_stay s (sendJob enabled mailer now j s)"
    using assms(3) unique by (auto simp: finished_stay_def rows handed)
  show "k \<in> set (em_queue s) \<Longrightarrow> k \<noteq> j \<Longrightarrow> k \<in> set (em_queue (sendJob enabled mailer now j s))" for k
    by (auto simp: rows)
qed

lemma finished_stay_refl [simp]: "finished_stay s s"
  by (simp add: finished_stay_def)

lemma finished_stay_trans [trans]: "finished_stay s s1 \<Longrightarrow> finished_stay s1 s2 \<Longrightarrow> finished_stay s s2"
  by (simp add: finished_stay_def)

lemma worker_ok:
  "queue_ok s \<Longrightarrow> distinct js \<Longrightarrow> set js \<subseteq> set (em_queue s) \<Longrightarrow> \<forall>j \<in> set js. ej_status j = EmailPending \<Longrightarrow>
   queue_ok (fold (sendJob enabled mailer now) js s) \<and> finished_stay s (fold (sendJob enabled mailer now) js s)"
proof (induction js arbitrary: s)
  case (Cons j js)
  let ?s = "sendJob enabled mailer now j s"
  have j: "j \<in> set (em_queue s)" "ej_status j = EmailPending" using Cons.prems(3,4) by auto
  note sent = sendJob_ok[OF Cons.prems(1) j]
  have "set js \<subseteq> set (em_queue ?s)"
  proof
    fix k assume "k \<in> set js"
    with Cons.prems(2,3) show "k \<in> set (em_queue ?s)" by (intro sent(3)) auto
  qed
  then have "queue_ok (fold (sendJob enabled mailer now) js ?s) \<and> finished_stay ?s (fold (sendJob enabled mailer now) js ?s)"
    using Cons.prems(2,4) by (intro Cons.IH[OF sent(1)]) auto
  with sent(2) show ?case by (auto intro: finished_stay_trans)
qed simp

lemma processQueue_ok:
  assumes "queue_ok s"
  shows "queue_ok (processQueue enabled mailer now s)" "finished_stay s (processQueue enabled mailer now s)"
proof -
  let ?js = "take 10 (order_by ej_createdAt (filter (email_due now) (em_queue s)))"
  have "distinct (em_queue s)" using assms by (simp add: queue_ok_def distinct_map)
  then have "distinct ?js" by (simp add: order_by_def distinct_take)
  moreover have "set ?js \<subseteq> {j \<in> set (em_queue s). email_due now j}" by (auto dest: in_set_takeD)
  ultimately have "queue_ok (fold (sendJob enabled mailer now) ?js s) \<and> finished_stay s (fold (sendJob enabled mailer now) ?js s)"
    by (intro worker_ok[OF assms]) (auto simp: email_due_def)
  then show "queue_ok (processQueue enabled mailer now s)" "finished_stay s (processQueue enabled mailer now s)"
    by (simp_all add: processQueue_def)
qed

lemma enqueue_ok:
  assumes "queue_ok s"
  shows "queue_ok (snd (email_enqueue now r sub h s)) \<and> finished_stay s (snd (email_enqueue now r sub h s))"
proof (cases r)
  case (Some to)
  have "em_fresh s \<notin> set (em_handed s)" using assms by (fastforce simp: queue_ok_def)
  with Some assms show ?thesis
    by (auto simp: email_enqueue_def Let_def queue_ok_def finished_stay_def job_ok_def count_list_0_iff intro: less_SucI)
qed (use assms in \<open>simp add: email_enqueue_def\<close>)

lemma preferences_frame:
  assumes "queue_ok s"
  shows "queue_ok (snd (getOrCreatePrefs ru u s)) \<and> finished_stay s (snd (getOrCreatePrefs ru u s))"
    "queue_ok (snd (email_updatePreferences ru u p s)) \<and> finished_stay s (snd (email_updatePreferences ru u p s))"
    "queue_ok (unsubscribeByToken tok s) \<and> finished_stay s (unsubscribeByToken tok s)"
  using assms
  by (auto simp: queue_ok_def finished_stay_def getOrCreatePrefs_def email_updatePreferences_def unsubscribeByToken_def Let_def
      split: option.splits intro: less_SucI)

lemma email_step_ok:
  assumes "queue_ok s"
  shows "queue_ok (snd (email_step ru tpl en ml r s)) \<and> finished_stay s (snd (email_step ru tpl en ml r s))"
proof (cases r)
  case (OnEvent now k u to)
  obtain p s1 where p: "getOrCreatePrefs ru u s = (p, s1)" by fastforce
  then have s1: "queue_ok s1" "finished_stay s s1" using preferences_frame(1)[OF assms, of ru u] by simp_all
  show ?thesis
    using s1 enqueue_ok[OF s1(1), of now to "fst (tpl k (ep_unsubscribeToken p))" "snd (tpl k (ep_unsubscribeToken p))"]
    by (simp add: OnEvent on_event_def p) (blast intro: finished_stay_trans)
qed (simp_all add: assms enqueue_ok processQueue_ok preferences_frame)

interpretation mailing: invariant_machine "email_step ru tpl en ml" queue_ok for ru tpl en ml
  by unfold_locales (simp add: email_step_ok)

lemma email_run_stays:
  "queue_ok s \<Longrightarrow> finished_stay s (run_ops (email_step ru tpl en ml) rs s)"
  by (induction rs arbitrary: s) (auto intro: finished_stay_trans email_step_ok[THEN conjunct1] email_step_ok[THEN conjunct2])

subsection \<open>Unsubscribed users\<close>

definition prefs_ok :: "email_db \<Rightarrow> bool" where
  "prefs_ok s \<longleftrightarrow> distinct (map ep_id (em_prefs s)) \<and> distinct (map ep_userId (em_prefs s)) \<and>
     (\<forall>p \<in> set (em_prefs s). ep_id p < em_fresh s)"

definition opted_out :: "uuid \<Rightarrow> email_db \<Rightarrow> bool" where
  "opted_out u s \<longleftrightarrow> prefs_ok s \<and> (\<exists>p \<in> set (em_prefs s). ep_userId p = u \<and> ep_unsubscribedAll p)"

lemma opted_out_find:
  assumes "opted_out u s"
  obtains p where "find_prefs u s = Some p" "ep_unsubscribedAll p"
proof -
  obtain p where p: "p \<in> set (em_prefs s)" "ep_userId p = u" "ep_unsubscribedAll p" and d: "distinct (map ep_userId (em_prefs s))"
    using assms by (auto simp: opted_out_def prefs_ok_def)
  have "find_prefs u s = Some p" using find_key_unique[OF d p(1)] p(2) by (simp add: find_prefs_def)
  then show thesis using p(3) by (rule that)
qed

lemma getOrCreatePrefs_ok:
  assumes "prefs_ok s"
  shows "prefs_ok (snd (getOrCreatePrefs ru u s))" "fst (getOrCreatePrefs ru u s) \<in> set (em_prefs (snd (getOrCreatePrefs ru u s)))"
    "set (em_prefs s) \<subseteq> set (em_prefs (snd (getOrCreatePrefs ru u s)))"
  using assms
  by (auto simp: getOrCreatePrefs_def prefs_ok_def find_prefs_def find_None Let_def split: option.splits dest: find_SomeD intro: less_SucI)

lemma save_prefs_ok:
  assumes "prefs_ok s" "p \<in> set (em_prefs s)" "ep_id p' = ep_id p" "ep_userId p' = ep_userId p"
  shows "prefs_ok (s\<lparr>em_prefs := save_row ep_id p' (em_prefs s)\<rparr>)"
proof -
  have d: "distinct (map ep_id (em_prefs s))" using assms(1) by (simp add: prefs_ok_def)
  have "map ep_id (save_row ep_id p' (em_prefs s)) = map ep_id (em_prefs s)"
    "map ep_userId (save_row ep_id p' (em_prefs s)) = map ep_userId (em_prefs s)"
    by (rule map_save_row_same[OF d assms(2)]; simp add: assms)+
  then show ?thesis using assms by (auto simp: prefs_ok_def set_save_row)
qed

lemma save_prefs_out:
  assumes "opted_out u s" "p \<in> set (em_prefs s)" "ep_id p' = ep_id p" "ep_userId p' = ep_userId p"
    "ep_unsubscribedAll p \<Longrightarrow> ep_unsubscribedAll p'"
  shows "opted_out u (s\<lparr>em_prefs := save_row ep_id p' (em_prefs s)\<rparr>)"
proof -
  obtain q where q: "q \<in> set (em_prefs s)" "ep_userId q = u" "ep_unsubscribedAll q" and ok: "prefs_ok s"
    using assms(1) by (auto simp: opted_out_def)
  have "q = p" if "ep_id q = ep_id p" using ok q(1) assms(2) that by (auto simp: prefs_ok_def distinct_map inj_on_def)
  with q assms(3-5) have "\<exists>x \<in> set (save_row ep_id p' (em_prefs s)). ep_userId x = u \<and> ep_unsubscribedAll x"
    by (auto simp: set_save_row)
  with save_prefs_ok[OF ok assms(2-4)] show ?thesis by (simp add: opted_out_def)
qed

lemma opted_out_frame:
  "em_prefs s' = em_prefs s \<Longrightarrow> em_fresh s \<le> em_fresh s' \<Longrightarrow> opted_out u s \<Longrightarrow> opted_out u s'"
  by (auto simp: opted_out_def prefs_ok_def intro: less_le_trans)

lemma worker_prefs:
  "em_prefs (processQueue en ml now s) = em_prefs s" "em_fresh (processQueue en ml now s) = em_fresh s"
proof -
  have "em_prefs (fold (sendJob en ml now) js s) = em_prefs s \<and> em_fresh (fold (sendJob en ml now) js s) = em_fresh s" for js
    by (induction js arbitrary: s) (simp_all add: sendJob_def)
  then show "em_prefs (processQueue en ml now s) = em_prefs s" "em_fresh (processQueue en ml now s) = em_fresh s"
    by (simp_all add: processQueue_def)
qed

lemma enqueue_prefs:
  "em_prefs (snd (email_enqueue now r sub h s)) = em_prefs s" "em_fresh s \<le> em_fresh (snd (email_enqueue now r sub h s))"
  by (simp_all add: email_enqueue_def Let_def split: option.split)

lemma email_step_out:
  assumes "opted_out u s"
  shows "opted_out u (snd (email_step ru tpl en ml r s))"
proof -
  have ok: "prefs_ok s" using assms by (simp add: opted_out_def)
  have create: "opted_out u (snd (getOrCreatePrefs ru v s))" for v
    using assms getOrCreatePrefs_ok[OF ok, of ru v] by (auto simp: opted_out_def)
  show ?thesis
  proof (cases r)
    case (OnEvent now k v to)
    show ?thesis
      using create[of v] by (auto simp: OnEvent on_event_def split_beta Let_def intro: opted_out_frame[OF enqueue_prefs])
  next
    case (UpdatePreferences v p)
    show ?thesis
      unfolding UpdatePreferences email_step.simps email_updatePreferences_def split_beta Let_def snd_conv
      by (rule save_prefs_out[OF create getOrCreatePrefs_ok(2)[OF ok]]) simp_all
  next
    case (UnsubscribeByToken tok)
    show ?thesis
      by (auto simp: UnsubscribeByToken unsubscribeByToken_def assms split: option.split dest!: find_SomeD
          intro!: save_prefs_out[OF assms])
  qed (use assms in \<open>auto intro: opted_out_frame[OF enqueue_prefs] opted_out_frame[OF worker_prefs(1)] simp: worker_prefs\<close>)
qed

interpretation silence: invariant_machine "email_step ru tpl en ml" "opted_out u" for ru tpl en ml u
  by unfold_locales (rule email_step_out)

subsection \<open>Properties\<close>

definition mail_db :: email_db where
  "mail_db = \<lparr>em_queue = [], em_prefs = [], em_handed = [], em_fresh = 0\<rparr>"

text \<open>C33: Whatever is queued and whenever the worker runs, the mail server is handed no mail more than three times, and a
  mail that was sent or given up stays as it is and is handed over no more.\<close>

theorem mail_three_attempts:
  assumes "queue_ok s"
  shows "(\<forall>j \<in> set (em_queue (run_ops (email_step ru tpl en ml) rs s)).
      count_list (em_handed (run_ops (email_step ru tpl en ml) rs s)) (ej_id j) \<le> ej_attempts j \<and> ej_attempts j \<le> 3) \<and>
    finished_stay s (run_ops (email_step ru tpl en ml) rs s)"
  using mailing.run_preserves[OF assms, of ru tpl en ml rs] email_run_stays[OF assms]
  by (auto simp: queue_ok_def job_ok_def)

theorem mail_three_attempts_witness:
  "finished_stay mail_db (run_ops (email_step (\<lambda>_. []) (\<lambda>_ _. ([], [])) True (\<lambda>_ _. Some []))
     [Enqueue 0 (Some ''a'') [] [], ProcessQueue 0, ProcessQueue 60000] mail_db)"
proof -
  have "queue_ok mail_db" by (simp add: queue_ok_def mail_db_def)
  from mail_three_attempts[OF this] show ?thesis by blast
qed

text \<open>Once a user has followed the unsubscribe link of a mail, no event puts a mail for that user into the queue any
  more, whatever happens to the preferences later.\<close>

theorem unsubscribed_for_good:
  assumes "prefs_ok s" "p \<in> set (em_prefs s)" "find (\<lambda>q. ep_unsubscribeToken q = tok) (em_prefs s) = Some p"
    "s' = run_ops (email_step ru tpl en ml) rs (unsubscribeByToken tok s)"
  shows "on_event ru tpl now kind (ep_userId p) to s' = (Inr (), s')"
proof -
  let ?p = "p\<lparr>ep_unsubscribedAll := True\<rparr>"
  have "prefs_ok (s\<lparr>em_prefs := save_row ep_id ?p (em_prefs s)\<rparr>)" by (rule save_prefs_ok[OF assms(1,2)]) simp_all
  moreover have "?p \<in> set (save_row ep_id ?p (em_prefs s))" by (simp add: set_save_row)
  ultimately have "opted_out (ep_userId p) (s\<lparr>em_prefs := save_row ep_id ?p (em_prefs s)\<rparr>)"
    unfolding opted_out_def by (intro conjI bexI[of _ ?p]) simp_all
  then have "opted_out (ep_userId p) (unsubscribeByToken tok s)" by (simp add: unsubscribeByToken_def assms(3))
  then have "opted_out (ep_userId p) s'" unfolding assms(4) by (rule silence.run_preserves)
  then obtain q where "find_prefs (ep_userId p) s' = Some q" "ep_unsubscribedAll q" by (rule opted_out_find)
  then show ?thesis by (simp add: on_event_def getOrCreatePrefs_def wants_mail_def)
qed

theorem unsubscribed_for_good_witness:
  "on_event (\<lambda>_. ''t'') (\<lambda>_ _. ([], [])) 5 CredentialMail 7 (Some ''a'')
     (unsubscribeByToken ''t'' (snd (getOrCreatePrefs (\<lambda>_. ''t'') 7 mail_db)))
   = (Inr (), unsubscribeByToken ''t'' (snd (getOrCreatePrefs (\<lambda>_. ''t'') 7 mail_db)))"
  using unsubscribed_for_good[where s = "snd (getOrCreatePrefs (\<lambda>_. ''t'') 7 mail_db)" and tok = "''t''" and rs = "[]"
      and p = "fst (getOrCreatePrefs (\<lambda>_. ''t'') 7 mail_db)" and ru = "\<lambda>_. ''t''" and kind = CredentialMail, OF _ _ _ refl]
  by (simp add: prefs_ok_def getOrCreatePrefs_def find_prefs_def mail_db_def Let_def)

end
