(* ===== verification/Cohorts.thy ===== *)
theory Cohorts
  imports Entities Emails
begin

text \<open>
  Cohorts and their live sessions (\<open>cohorts/cohorts.service.ts\<close>, \<open>live-sessions/live-sessions.service.ts\<close>).
  The body of \<open>createCohort\<close> is spread over the row, so it may carry any column of it: a body with the id of a
  stored cohort updates that cohort. A body that carries the relation \<open>members\<close> is left out. \<open>invite\<close> and
  \<open>remind\<close> render the mails; \<open>ch_notified\<close> logs the reminders that went out. The quotient of a difference
  of milliseconds by 3600000 is a multiple of 1/3600000, which rounding to a double cannot move to 0, 1, 23 or 24, so
  the comparisons with these are exact.
\<close>

record cohort =
  ct_id :: uuid
  ct_courseId :: uuid
  ct_name :: string
  ct_description :: "string option"
  ct_startDate :: timestamp
  ct_endDate :: timestamp
  ct_maxMembers :: int
  ct_instructorId :: uuid

record cohort_member =
  cm_id :: uuid
  cm_cohortId :: uuid
  cm_userId :: uuid
  cm_progressPercentage :: js_num

datatype session_status = SessionScheduled | SessionCancelled | SessionCompleted

record live_session =
  ls_id :: uuid
  ls_cohortId :: uuid
  ls_instructorId :: uuid
  ls_title :: string
  ls_description :: "string option"
  ls_scheduledAt :: timestamp
  ls_durationMinutes :: int
  ls_meetingUrl :: "string option"
  ls_status :: session_status
  ls_remindersSent :: "string list option"

record cohort_db =
  ch_users :: "user list"
  ch_cohorts :: "cohort list"
  ch_members :: "cohort_member list"
  ch_sessions :: "live_session list"
  ch_mail :: email_db
  ch_notified :: "(uuid \<times> string) list"
  ch_fresh :: nat

subsection \<open>Cohorts\<close>

record cohort_data =
  cd_id :: "uuid option"
  cd_courseId :: "uuid option"
  cd_instructorId :: "uuid option"
  cd_name :: "string option"
  cd_description :: "string option"
  cd_startDate :: "timestamp option"
  cd_endDate :: "timestamp option"
  cd_maxMembers :: "int option"

definition body_or :: "'a option \<Rightarrow> 'a \<Rightarrow> 'a" where
  "body_or v stored = (case v of None \<Rightarrow> stored | Some x \<Rightarrow> x)"

definition find_cohort :: "uuid \<Rightarrow> cohort_db \<Rightarrow> cohort option" where
  "find_cohort i s = find (\<lambda>c. ct_id c = i) (ch_cohorts s)"

definition overwrite_cohort :: "uuid \<Rightarrow> cohort_data \<Rightarrow> cohort \<Rightarrow> cohort" where
  "overwrite_cohort instructorId b c =
     c\<lparr>ct_courseId := body_or (cd_courseId b) (ct_courseId c), ct_instructorId := body_or (cd_instructorId b) instructorId,
       ct_name := body_or (cd_name b) (ct_name c),
       ct_description := (case cd_description b of None \<Rightarrow> ct_description c | Some d \<Rightarrow> Some d),
       ct_startDate := body_or (cd_startDate b) (ct_startDate c), ct_endDate := body_or (cd_endDate b) (ct_endDate c),
       ct_maxMembers := body_or (cd_maxMembers b) (ct_maxMembers c)\<rparr>"

definition createCohort :: "uuid \<Rightarrow> cohort_data \<Rightarrow> cohort_db \<Rightarrow> (cohort_db, cohort) outcome" where
  "createCohort instructorId b s =
     (case Option.bind (cd_id b) (\<lambda>i. find_cohort i s) of
        Some c \<Rightarrow>
          (let c' = overwrite_cohort instructorId b c
           in (Inr c', s\<lparr>ch_cohorts := save_row ct_id c' (ch_cohorts s)\<rparr>))
      | None \<Rightarrow>
          (case (cd_courseId b, cd_name b, cd_startDate b, cd_endDate b) of
             (Some courseId, Some name, Some start, Some stop) \<Rightarrow>
               (let i = body_or (cd_id b) (ch_fresh s);
                    c = \<lparr>ct_id = i, ct_courseId = courseId, ct_name = name, ct_description = cd_description b,
                         ct_startDate = start, ct_endDate = stop, ct_maxMembers = body_or (cd_maxMembers b) 0,
                         ct_instructorId = body_or (cd_instructorId b) instructorId\<rparr>
                in (Inr c, s\<lparr>ch_cohorts := ch_cohorts s @ [c], ch_fresh := max (ch_fresh s) (Suc i)\<rparr>))
           | _ \<Rightarrow> (Inl (JsError ''null value in column''), s)))"

definition members_of :: "uuid \<Rightarrow> cohort_db \<Rightarrow> cohort_member list" where
  "members_of cohortId s = filter (\<lambda>m. cm_cohortId m = cohortId) (ch_members s)"

definition addMember :: "uuid \<Rightarrow> uuid \<Rightarrow> cohort_db \<Rightarrow> (cohort_db, cohort_member) outcome" where
  "addMember cohortId userId s =
     (case find_cohort cohortId s of
        None \<Rightarrow> (Inl JsTypeError, s)
      | Some c \<Rightarrow>
          if 0 < ct_maxMembers c \<and> ct_maxMembers c \<le> int (length (members_of cohortId s)) then (Inl (JsError ''Cohort is full''), s)
          else
            (let m = \<lparr>cm_id = ch_fresh s, cm_cohortId = cohortId, cm_userId = userId, cm_progressPercentage = 0\<rparr>
             in (Inr m, s\<lparr>ch_members := ch_members s @ [m], ch_fresh := Suc (ch_fresh s)\<rparr>)))"

definition removeMember :: "uuid \<Rightarrow> uuid \<Rightarrow> cohort_db \<Rightarrow> cohort_db" where
  "removeMember cohortId userId s =
     s\<lparr>ch_members := delete_rows (\<lambda>m. cm_cohortId m = cohortId \<and> cm_userId m = userId) (ch_members s)\<rparr>"

definition updateMemberProgress :: "uuid \<Rightarrow> uuid \<Rightarrow> js_num \<Rightarrow> cohort_db \<Rightarrow> cohort_db" where
  "updateMemberProgress cohortId userId pct s =
     s\<lparr>ch_members := update_rows (\<lambda>m. cm_cohortId m = cohortId \<and> cm_userId m = userId)
         (\<lambda>m. m\<lparr>cm_progressPercentage := pct\<rparr>) (ch_members s)\<rparr>"

definition getCohortProgress :: "uuid \<Rightarrow> cohort_db \<Rightarrow> nat \<times> js_num \<times> cohort_member list" where
  "getCohortProgress cohortId s =
     (let ms = members_of cohortId s;
          avg = (if 0 < length ms then js_div (foldl (\<lambda>t m. js_add t (cm_progressPercentage m)) 0 ms) (of_nat (length ms)) else 0)
      in (length ms, avg, ms))"

definition getCohortsByCourse :: "uuid \<Rightarrow> cohort_db \<Rightarrow> cohort list" where
  "getCohortsByCourse courseId s = filter (\<lambda>c. ct_courseId c = courseId) (ch_cohorts s)"

subsection \<open>Live sessions\<close>

text \<open>\<open>findByIds\<close> returns each user once, however often the list names the user.\<close>

definition getMembers :: "uuid \<Rightarrow> cohort_db \<Rightarrow> user list" where
  "getMembers cohortId s =
     (let ms = members_of cohortId s
      in if ms = [] then [] else filter (\<lambda>u. u_id u \<in> set (map cm_userId ms)) (ch_users s))"

definition mail_to :: "timestamp \<Rightarrow> (user \<Rightarrow> string \<times> string) \<Rightarrow> user \<Rightarrow> email_db \<Rightarrow> email_db" where
  "mail_to now tpl u em = snd (email_enqueue now (Some (u_email u)) (fst (tpl u)) (snd (tpl u)) em)"

definition sendCalendarInvites :: "(live_session \<Rightarrow> user \<Rightarrow> string \<times> string) \<Rightarrow> timestamp \<Rightarrow> live_session \<Rightarrow> cohort_db \<Rightarrow> cohort_db" where
  "sendCalendarInvites invite now x s =
     s\<lparr>ch_mail := fold (mail_to now (invite x)) (getMembers (ls_cohortId x) s) (ch_mail s)\<rparr>"

definition notifyMembers ::
  "(string \<Rightarrow> live_session \<Rightarrow> user \<Rightarrow> string \<times> string) \<Rightarrow> timestamp \<Rightarrow> live_session \<Rightarrow> string \<Rightarrow> cohort_db \<Rightarrow> cohort_db" where
  "notifyMembers remind now x label s =
     s\<lparr>ch_mail := fold (mail_to now (remind (if label = ''24h'' then ''24 hours'' else ''1 hour'') x))
         (getMembers (ls_cohortId x) s) (ch_mail s), ch_notified := ch_notified s @ [(ls_id x, label)]\<rparr>"

definition find_session :: "uuid \<Rightarrow> cohort_db \<Rightarrow> live_session option" where
  "find_session i s = find (\<lambda>x. ls_id x = i) (ch_sessions s)"

definition sessions_findByCohort :: "uuid \<Rightarrow> cohort_db \<Rightarrow> live_session list" where
  "sessions_findByCohort cohortId s = order_by ls_scheduledAt (filter (\<lambda>x. ls_cohortId x = cohortId) (ch_sessions s))"

definition session_create ::
  "(live_session \<Rightarrow> user \<Rightarrow> string \<times> string) \<Rightarrow> timestamp \<Rightarrow> uuid \<Rightarrow> uuid \<Rightarrow> string \<Rightarrow> string option \<Rightarrow> timestamp \<Rightarrow> int option
   \<Rightarrow> string option \<Rightarrow> cohort_db \<Rightarrow> (cohort_db, live_session) outcome" where
  "session_create invite now cohortId instructorId title description scheduledAt duration url s =
     (let x = \<lparr>ls_id = ch_fresh s, ls_cohortId = cohortId, ls_instructorId = instructorId, ls_title = title,
               ls_description = description, ls_scheduledAt = scheduledAt, ls_durationMinutes = body_or duration 60,
               ls_meetingUrl = url, ls_status = SessionScheduled, ls_remindersSent = None\<rparr>
      in (Inr x, sendCalendarInvites invite now x (s\<lparr>ch_sessions := ch_sessions s @ [x], ch_fresh := Suc (ch_fresh s)\<rparr>)))"

record session_patch =
  sp_title :: "string option"
  sp_description :: "string option"
  sp_scheduledAt :: "timestamp option"
  sp_durationMinutes :: "int option"
  sp_meetingUrl :: "string option"

definition session_update :: "uuid \<Rightarrow> uuid \<Rightarrow> session_patch \<Rightarrow> cohort_db \<Rightarrow> (cohort_db, live_session) outcome" where
  "session_update i instructorId p s =
     (case find_session i s of
        None \<Rightarrow> (Inl (NotFoundException ''Live session not found''), s)
      | Some x \<Rightarrow>
          if ls_instructorId x \<noteq> instructorId then (Inl (ForbiddenException ''Forbidden''), s)
          else
            (let x' = x\<lparr>ls_title := body_or (sp_title p) (ls_title x),
                        ls_description := (case sp_description p of None \<Rightarrow> ls_description x | Some d \<Rightarrow> Some d),
                        ls_scheduledAt := body_or (sp_scheduledAt p) (ls_scheduledAt x),
                        ls_durationMinutes := body_or (sp_durationMinutes p) (ls_durationMinutes x),
                        ls_meetingUrl := (case sp_meetingUrl p of None \<Rightarrow> ls_meetingUrl x | Some u \<Rightarrow> Some u)\<rparr>
             in (Inr x', s\<lparr>ch_sessions := save_row ls_id x' (ch_sessions s)\<rparr>)))"

definition session_cancel :: "uuid \<Rightarrow> uuid \<Rightarrow> cohort_db \<Rightarrow> (cohort_db, live_session) outcome" where
  "session_cancel i instructorId s =
     (case find_session i s of
        None \<Rightarrow> (Inl (NotFoundException ''Live session not found''), s)
      | Some x \<Rightarrow>
          if ls_instructorId x \<noteq> instructorId then (Inl (ForbiddenException ''Forbidden''), s)
          else
            (let x' = x\<lparr>ls_status := SessionCancelled\<rparr>
             in (Inr x', s\<lparr>ch_sessions := save_row ls_id x' (ch_sessions s)\<rparr>)))"

subsection \<open>Reminders\<close>

definition hours_until :: "timestamp \<Rightarrow> live_session \<Rightarrow> rat" where
  "hours_until now x = of_int (ls_scheduledAt x - now) / 3600000"

definition reminders_sent :: "live_session \<Rightarrow> string list" where
  "reminders_sent x = (case ls_remindersSent x of None \<Rightarrow> [] | Some ls \<Rightarrow> ls)"

definition reminders_due :: "timestamp \<Rightarrow> live_session \<Rightarrow> string list" where
  "reminders_due now x =
     (if hours_until now x \<le> 24 \<and> 23 < hours_until now x \<and> ''24h'' \<notin> set (reminders_sent x) then [''24h''] else []) @
     (if hours_until now x \<le> 1 \<and> 0 < hours_until now x \<and> ''1h'' \<notin> set (reminders_sent x) then [''1h''] else [])"

definition remind_session ::
  "(string \<Rightarrow> live_session \<Rightarrow> user \<Rightarrow> string \<times> string) \<Rightarrow> timestamp \<Rightarrow> live_session \<Rightarrow> cohort_db \<Rightarrow> cohort_db" where
  "remind_session remind now x s =
     (let due = reminders_due now x; s1 = fold (notifyMembers remind now x) due s
      in if due = [] then s1
         else s1\<lparr>ch_sessions := save_row ls_id (x\<lparr>ls_remindersSent := Some (reminders_sent x @ due)\<rparr>) (ch_sessions s1)\<rparr>)"

definition sendReminders :: "(string \<Rightarrow> live_session \<Rightarrow> user \<Rightarrow> string \<times> string) \<Rightarrow> timestamp \<Rightarrow> cohort_db \<Rightarrow> cohort_db" where
  "sendReminders remind now s =
     fold (remind_session remind now) (filter (\<lambda>x. ls_status x = SessionScheduled \<and> now < ls_scheduledAt x) (ch_sessions s)) s"

subsection \<open>Histories\<close>

datatype cohort_request =
    CreateCohort uuid cohort_data
  | AddMember uuid uuid
  | RemoveMember uuid uuid
  | MemberProgress uuid uuid js_num
  | CreateSession timestamp uuid uuid string "string option" timestamp "int option" "string option"
  | UpdateSession uuid uuid session_patch
  | CancelSession uuid uuid
  | SendReminders timestamp

fun cohort_step ::
  "(live_session \<Rightarrow> user \<Rightarrow> string \<times> string) \<Rightarrow> (string \<Rightarrow> live_session \<Rightarrow> user \<Rightarrow> string \<times> string) \<Rightarrow> cohort_request \<Rightarrow> cohort_db
   \<Rightarrow> unit \<times> cohort_db" where
  "cohort_step invite remind (CreateCohort u b) s = ((), snd (createCohort u b s))"
| "cohort_step invite remind (AddMember c u) s = ((), snd (addMember c u s))"
| "cohort_step invite remind (RemoveMember c u) s = ((), removeMember c u s)"
| "cohort_step invite remind (MemberProgress c u p) s = ((), updateMemberProgress c u p s)"
| "cohort_step invite remind (CreateSession now c u a d t m l) s = ((), snd (session_create invite now c u a d t m l s))"
| "cohort_step invite remind (UpdateSession i u p) s = ((), snd (session_update i u p s))"
| "cohort_step invite remind (CancelSession i u) s = ((), snd (session_cancel i u s))"
| "cohort_step invite remind (SendReminders now) s = ((), sendReminders remind now s)"

subsection \<open>Reminders go out once\<close>

definition reminders_ok :: "cohort_db \<Rightarrow> bool" where
  "reminders_ok s \<longleftrightarrow> distinct (map ls_id (ch_sessions s)) \<and> (\<forall>x \<in> set (ch_sessions s). ls_id x < ch_fresh s) \<and>
     distinct (ch_notified s) \<and>
     (\<forall>(i, l) \<in> set (ch_notified s). \<exists>x \<in> set (ch_sessions s). ls_id x = i \<and> l \<in> set (reminders_sent x))"

lemma reminders_ok_sessions:
  assumes "reminders_ok s" "ch_notified s' = ch_notified s" "ch_fresh s \<le> ch_fresh s'" "ch_sessions s' = ch_sessions s"
  shows "reminders_ok s'"
  using assms by (auto simp: reminders_ok_def intro: less_le_trans)

lemma reminders_ok_save:
  assumes "reminders_ok s" "x \<in> set (ch_sessions s)" "ls_id x' = ls_id x" "set (reminders_sent x) \<subseteq> set (reminders_sent x')"
  shows "reminders_ok (s\<lparr>ch_sessions := save_row ls_id x' (ch_sessions s)\<rparr>)"
  unfolding reminders_ok_def
proof (intro conjI ballI)
  show "distinct (map ls_id (ch_sessions (s\<lparr>ch_sessions := save_row ls_id x' (ch_sessions s)\<rparr>)))"
    using assms(1) by (simp add: reminders_ok_def save_row_distinct)
  show "distinct (ch_notified (s\<lparr>ch_sessions := save_row ls_id x' (ch_sessions s)\<rparr>))"
    using assms(1) by (simp add: reminders_ok_def)
  fix y assume "y \<in> set (ch_sessions (s\<lparr>ch_sessions := save_row ls_id x' (ch_sessions s)\<rparr>))"
  then show "ls_id y < ch_fresh (s\<lparr>ch_sessions := save_row ls_id x' (ch_sessions s)\<rparr>)"
    using assms(1-3) by (auto simp: reminders_ok_def set_save_row)
next
  fix n assume "n \<in> set (ch_notified (s\<lparr>ch_sessions := save_row ls_id x' (ch_sessions s)\<rparr>))"
  then obtain y where y: "y \<in> set (ch_sessions s)" "ls_id y = fst n" "snd n \<in> set (reminders_sent y)"
    using assms(1) by (fastforce simp: reminders_ok_def)
  have "\<exists>z \<in> set (save_row ls_id x' (ch_sessions s)). ls_id z = fst n \<and> snd n \<in> set (reminders_sent z)"
  proof (cases "ls_id y = ls_id x'")
    case True
    then have "y = x" using y(1) assms(1-3) by (auto simp: reminders_ok_def distinct_map inj_on_def)
    then show ?thesis using y assms(3,4) by (intro bexI[of _ x']) (auto simp: set_save_row)
  next
    case False
    then show ?thesis using y by (intro bexI[of _ y]) (auto simp: set_save_row)
  qed
  then show "case n of (i, l) \<Rightarrow>
      \<exists>x\<in>set (ch_sessions (s\<lparr>ch_sessions := save_row ls_id x' (ch_sessions s)\<rparr>)). ls_id x = i \<and> l \<in> set (reminders_sent x)"
    by (simp add: split_beta)
qed

lemma notify_fold:
  "ch_notified (fold (notifyMembers remind now x) ls s) = ch_notified s @ map (Pair (ls_id x)) ls"
  "ch_sessions (fold (notifyMembers remind now x) ls s) = ch_sessions s"
  "ch_fresh (fold (notifyMembers remind now x) ls s) = ch_fresh s"
  by (induction ls arbitrary: s) (simp_all add: notifyMembers_def)

lemma reminders_due_new:
  "distinct (reminders_due now x)" "set (reminders_due now x) \<inter> set (reminders_sent x) = {}"
  by (auto simp: reminders_due_def)

lemma remind_session_effect:
  assumes "reminders_ok s" "x \<in> set (ch_sessions s)"
  shows "reminders_ok (remind_session remind now x s)"
    "\<And>y. y \<in> set (ch_sessions s) \<Longrightarrow> y \<noteq> x \<Longrightarrow> y \<in> set (ch_sessions (remind_session remind now x s))"
    "ch_notified (remind_session remind now x s) = ch_notified s @ map (Pair (ls_id x)) (reminders_due now x)"
proof -
  let ?due = "reminders_due now x" and ?x = "x\<lparr>ls_remindersSent := Some (reminders_sent x @ reminders_due now x)\<rparr>"
  let ?s = "s\<lparr>ch_sessions := save_row ls_id ?x (ch_sessions s)\<rparr>"
  have unique: "y = x" if "y \<in> set (ch_sessions s)" "ls_id y = ls_id x" for y
    using assms that by (auto simp: reminders_ok_def distinct_map inj_on_def)
  show "y \<in> set (ch_sessions (remind_session remind now x s))" if "y \<in> set (ch_sessions s)" "y \<noteq> x" for y
    using that unique by (auto simp: remind_session_def Let_def notify_fold set_save_row)
  show notified: "ch_notified (remind_session remind now x s) = ch_notified s @ map (Pair (ls_id x)) ?due"
    by (simp add: remind_session_def Let_def notify_fold)
  show "reminders_ok (remind_session remind now x s)"
  proof (cases "?due = []")
    case True
    then show ?thesis using assms(1) by (simp add: remind_session_def)
  next
    case False
    have ok: "reminders_ok ?s" by (rule reminders_ok_save[OF assms]) (auto simp: reminders_sent_def)
    have new: "(ls_id x, l) \<notin> set (ch_notified s)" if "l \<in> set ?due" for l
    proof
      assume "(ls_id x, l) \<in> set (ch_notified s)"
      then obtain y where "y \<in> set (ch_sessions s)" "ls_id y = ls_id x" "l \<in> set (reminders_sent y)"
        using assms(1) by (fastforce simp: reminders_ok_def)
      with unique that reminders_due_new(2)[of now x] show False by blast
    qed
    have x: "?x \<in> set (ch_sessions ?s)" by (simp add: set_save_row)
    have dist: "distinct (ch_notified s @ map (Pair (ls_id x)) ?due)"
      using assms(1) new reminders_due_new(1)[of now x] by (auto simp: reminders_ok_def distinct_map inj_on_def)
    have "\<exists>y \<in> set (ch_sessions ?s). ls_id y = i \<and> l \<in> set (reminders_sent y)"
      if "(i, l) \<in> set (ch_notified s @ map (Pair (ls_id x)) ?due)" for i l
    proof (cases "(i, l) \<in> set (ch_notified s)")
      case True
      then have "(i, l) \<in> set (ch_notified ?s)" by simp
      then show ?thesis using ok unfolding reminders_ok_def by blast
    next
      case False
      with that have "i = ls_id x" "l \<in> set ?due" by auto
      then show ?thesis by (intro bexI[OF _ x]) (simp add: reminders_sent_def)
    qed
    then have "reminders_ok (?s\<lparr>ch_notified := ch_notified s @ map (Pair (ls_id x)) ?due\<rparr>)"
      using ok dist by (auto simp: reminders_ok_def)
    then show ?thesis using False notified by (simp add: reminders_ok_def remind_session_def Let_def notify_fold)
  qed
qed

lemma remind_fold_ok:
  "reminders_ok s \<Longrightarrow> distinct xs \<Longrightarrow> set xs \<subseteq> set (ch_sessions s) \<Longrightarrow>
   reminders_ok (fold (remind_session remind now) xs s) \<and>
   ch_notified (fold (remind_session remind now) xs s) = ch_notified s @ concat (map (\<lambda>x. map (Pair (ls_id x)) (reminders_due now x)) xs)"
proof (induction xs arbitrary: s)
  case (Cons x xs)
  have x: "x \<in> set (ch_sessions s)" using Cons.prems(3) by simp
  note one = remind_session_effect[OF Cons.prems(1) x, where remind = remind and now = now]
  have "set xs \<subseteq> set (ch_sessions (remind_session remind now x s))"
  proof
    fix y assume "y \<in> set xs"
    with Cons.prems(2,3) show "y \<in> set (ch_sessions (remind_session remind now x s))" by (intro one(2)) auto
  qed
  with Cons.prems(2) Cons.IH[OF one(1)] show ?case by (simp add: one(3))
qed simp

lemma sendReminders_ok:
  assumes "reminders_ok s"
  shows "reminders_ok (sendReminders remind now s)"
    "ch_notified (sendReminders remind now s) = ch_notified s @ concat (map (\<lambda>x. map (Pair (ls_id x)) (reminders_due now x))
       (filter (\<lambda>x. ls_status x = SessionScheduled \<and> now < ls_scheduledAt x) (ch_sessions s)))"
proof -
  let ?xs = "filter (\<lambda>x. ls_status x = SessionScheduled \<and> now < ls_scheduledAt x) (ch_sessions s)"
  have "distinct ?xs" "set ?xs \<subseteq> set (ch_sessions s)" using assms by (auto simp: reminders_ok_def distinct_map)
  from remind_fold_ok[OF assms this, of remind now]
  show "reminders_ok (sendReminders remind now s)"
    "ch_notified (sendReminders remind now s) = ch_notified s @ concat (map (\<lambda>x. map (Pair (ls_id x)) (reminders_due now x)) ?xs)"
    unfolding sendReminders_def by blast+
qed

lemma cohort_step_reminders:
  assumes "reminders_ok s"
  shows "reminders_ok (snd (cohort_step invite remind r s))"
proof (cases r)
  case (CreateCohort u b)
  have "ch_notified (snd (createCohort u b s)) = ch_notified s \<and> ch_sessions (snd (createCohort u b s)) = ch_sessions s \<and>
      ch_fresh s \<le> ch_fresh (snd (createCohort u b s))"
    by (auto simp: createCohort_def Let_def split: option.split prod.split)
  with reminders_ok_sessions[OF assms] CreateCohort show ?thesis by simp
next
  case (AddMember c u)
  have "ch_notified (snd (addMember c u s)) = ch_notified s \<and> ch_sessions (snd (addMember c u s)) = ch_sessions s \<and>
      ch_fresh s \<le> ch_fresh (snd (addMember c u s))"
    by (simp add: addMember_def Let_def split: option.split)
  with reminders_ok_sessions[OF assms] AddMember show ?thesis by simp
next
  case (CreateSession now c u a d t m l)
  have "ls_id x \<noteq> ch_fresh s" if "x \<in> set (ch_sessions s)" for x using assms that by (auto simp: reminders_ok_def)
  with assms CreateSession show ?thesis
    by (auto simp: session_create_def Let_def sendCalendarInvites_def reminders_ok_def intro: less_SucI)
next
  case (UpdateSession i u p)
  show ?thesis
  proof (cases "find_session i s")
    case (Some x)
    then have x: "x \<in> set (ch_sessions s)" using find_SomeD by (fastforce simp: find_session_def)
    show ?thesis
      using assms reminders_ok_save[OF assms x] by (simp add: UpdateSession session_update_def Some Let_def reminders_sent_def)
  qed (use assms in \<open>simp add: UpdateSession session_update_def\<close>)
next
  case (CancelSession i u)
  show ?thesis
  proof (cases "find_session i s")
    case (Some x)
    then have x: "x \<in> set (ch_sessions s)" using find_SomeD by (fastforce simp: find_session_def)
    show ?thesis
      using assms reminders_ok_save[OF assms x] by (simp add: CancelSession session_cancel_def Some Let_def reminders_sent_def)
  qed (use assms in \<open>simp add: CancelSession session_cancel_def\<close>)
next
  case (SendReminders now)
  then show ?thesis using sendReminders_ok(1)[OF assms] by simp
qed (use assms in \<open>simp_all add: removeMember_def updateMemberProgress_def reminders_ok_def\<close>)

interpretation reminding: invariant_machine "cohort_step invite remind" reminders_ok for invite remind
  by unfold_locales (rule cohort_step_reminders)

subsection \<open>Capacity\<close>

definition cohorts_ok :: "cohort_db \<Rightarrow> bool" where
  "cohorts_ok s \<longleftrightarrow> distinct (map ct_id (ch_cohorts s)) \<and> (\<forall>c \<in> set (ch_cohorts s). ct_id c < ch_fresh s) \<and>
     (\<forall>m \<in> set (ch_members s). cm_cohortId m < ch_fresh s) \<and>
     (\<forall>c \<in> set (ch_cohorts s). 0 < ct_maxMembers c \<longrightarrow> int (length (members_of (ct_id c) s)) \<le> ct_maxMembers c)"

fun names_no_row :: "cohort_request \<Rightarrow> bool" where
  "names_no_row (CreateCohort u b) \<longleftrightarrow> cd_id b = None"
| "names_no_row _ \<longleftrightarrow> True"

lemma cohorts_ok_frame:
  assumes "cohorts_ok s" "ch_cohorts s' = ch_cohorts s" "ch_fresh s \<le> ch_fresh s'"
    "map cm_cohortId (ch_members s') = map cm_cohortId (ch_members s)"
  shows "cohorts_ok s'"
proof -
  have "length (members_of c t) = count_rows (\<lambda>k. k = c) (map cm_cohortId (ch_members t))" for c and t :: cohort_db
    by (simp add: members_of_def count_rows_def filter_map comp_def)
  then have "length (members_of c s') = length (members_of c s)" for c by (simp add: assms(4))
  moreover have "\<forall>i \<in> set (map cm_cohortId (ch_members s')). i < ch_fresh s'"
    using assms(1,3) unfolding assms(4) cohorts_ok_def by (auto intro: less_le_trans)
  ultimately show ?thesis using assms(1-3) by (auto simp: cohorts_ok_def intro: less_le_trans)
qed

lemma createCohort_ok:
  assumes "cohorts_ok s" "cd_id b = None"
  shows "cohorts_ok (snd (createCohort u b s))"
proof -
  have "members_of (ch_fresh s) s = []" using assms(1) by (auto simp: cohorts_ok_def members_of_def filter_empty_conv)
  with assms show ?thesis
    by (auto simp: createCohort_def body_or_def Let_def cohorts_ok_def members_of_def max_def split: option.split intro: less_SucI)
qed

lemma addMember_ok:
  assumes "cohorts_ok s"
  shows "cohorts_ok (snd (addMember c u s))"
proof (cases "find_cohort c s")
  case (Some k)
  then have k: "k \<in> set (ch_cohorts s)" "ct_id k = c" using find_SomeD by (fastforce simp: find_cohort_def)+
  have unique: "x = k" if "x \<in> set (ch_cohorts s)" "ct_id x = c" for x
    using assms k that by (auto simp: cohorts_ok_def distinct_map inj_on_def)
  let ?m = "\<lparr>cm_id = ch_fresh s, cm_cohortId = c, cm_userId = u, cm_progressPercentage = 0\<rparr>"
  let ?s = "s\<lparr>ch_members := ch_members s @ [?m], ch_fresh := Suc (ch_fresh s)\<rparr>"
  have members: "members_of i ?s = (if i = c then members_of i s @ [?m] else members_of i s)" for i
    by (simp add: members_of_def)
  show ?thesis
  proof (cases "0 < ct_maxMembers k \<and> ct_maxMembers k \<le> int (length (members_of c s))")
    case False
    have room: "int (length (members_of (ct_id x) ?s)) \<le> ct_maxMembers x" if "x \<in> set (ch_cohorts s)" "0 < ct_maxMembers x" for x
    proof (cases "ct_id x = c")
      case True
      with unique that False show ?thesis by (auto simp: members)
    next
      case other: False
      have "int (length (members_of (ct_id x) s)) \<le> ct_maxMembers x" using assms that by (simp add: cohorts_ok_def)
      with other show ?thesis by (simp add: members)
    qed
    moreover have "c < ch_fresh s" using assms k by (auto simp: cohorts_ok_def)
    ultimately have "cohorts_ok ?s" using assms by (auto simp: cohorts_ok_def less_SucI simp del: of_nat_le_iff)
    moreover have "snd (addMember c u s) = ?s" using Some False by (auto simp: addMember_def Let_def)
    ultimately show ?thesis by simp
  qed (use Some assms in \<open>simp add: addMember_def\<close>)
qed (use assms in \<open>simp add: addMember_def\<close>)

lemma removeMember_ok:
  assumes "cohorts_ok s"
  shows "cohorts_ok (removeMember c u s)"
proof -
  have "members_of i (removeMember c u s) = filter (\<lambda>m. \<not> (cm_cohortId m = c \<and> cm_userId m = u)) (members_of i s)" for i
    by (simp add: members_of_def removeMember_def delete_rows_def conj_commute)
  then have fewer: "int (length (members_of i (removeMember c u s))) \<le> int (length (members_of i s))" for i
    by (simp add: length_filter_le)
  have "int (length (members_of (ct_id x) (removeMember c u s))) \<le> ct_maxMembers x"
    if "x \<in> set (ch_cohorts s)" "0 < ct_maxMembers x" for x
    using order_trans[OF fewer[of "ct_id x"]] assms that by (simp add: cohorts_ok_def)
  with assms show ?thesis by (auto simp: cohorts_ok_def removeMember_def delete_rows_def)
qed

lemma remind_fold_frame:
  "ch_cohorts (fold (remind_session remind now) xs s) = ch_cohorts s \<and> ch_members (fold (remind_session remind now) xs s) = ch_members s \<and>
   ch_fresh (fold (remind_session remind now) xs s) = ch_fresh s"
proof (induction xs arbitrary: s)
  case (Cons x xs)
  have "ch_cohorts (fold (notifyMembers remind now x) ls s) = ch_cohorts s \<and>
      ch_members (fold (notifyMembers remind now x) ls s) = ch_members s \<and>
      ch_fresh (fold (notifyMembers remind now x) ls s) = ch_fresh s" for ls
    by (induction ls arbitrary: s) (simp_all add: notifyMembers_def)
  with Cons show ?case by (simp add: remind_session_def Let_def)
qed simp

lemma cohort_step_capacity:
  assumes "cohorts_ok s" "names_no_row r"
  shows "cohorts_ok (snd (cohort_step invite remind r s))"
proof (cases r)
  case (MemberProgress c u p)
  show ?thesis
    by (rule cohorts_ok_frame[OF assms(1)]) (auto simp: MemberProgress updateMemberProgress_def update_rows_def)
next
  case (SendReminders now)
  show ?thesis
    by (rule cohorts_ok_frame[OF assms(1)]) (simp_all add: SendReminders sendReminders_def remind_fold_frame)
next
  case (CreateSession now c u a d t m l)
  show ?thesis
    by (rule cohorts_ok_frame[OF assms(1)]) (simp_all add: CreateSession session_create_def Let_def sendCalendarInvites_def)
next
  case (UpdateSession i u p)
  show ?thesis
    by (rule cohorts_ok_frame[OF assms(1)]) (simp_all add: UpdateSession session_update_def Let_def split: option.split)
next
  case (CancelSession i u)
  show ?thesis
    by (rule cohorts_ok_frame[OF assms(1)]) (simp_all add: CancelSession session_cancel_def Let_def split: option.split)
qed (use assms in \<open>simp_all add: createCohort_ok addMember_ok removeMember_ok\<close>)

interpretation seating: invariant_machine "\<lambda>r s. if names_no_row r then cohort_step invite remind r s else ((), s)" cohorts_ok
  for invite remind
  by unfold_locales (simp add: cohort_step_capacity)

lemma plain_run:
  "\<forall>r \<in> set rs. names_no_row r \<Longrightarrow>
   run_ops (\<lambda>r s. if names_no_row r then cohort_step invite remind r s else ((), s)) rs s = run_ops (cohort_step invite remind) rs s"
  by (induction rs arbitrary: s) simp_all

subsection \<open>Properties\<close>

definition cohort_start :: "user list \<Rightarrow> cohort_db" where
  "cohort_start us =
     \<lparr>ch_users = us, ch_cohorts = [], ch_members = [], ch_sessions = [],
      ch_mail = \<lparr>em_queue = [], em_prefs = [], em_handed = [], em_fresh = 0\<rparr>, ch_notified = [], ch_fresh = 0\<rparr>"

lemma cohort_start_ok: "reminders_ok (cohort_start us)" "cohorts_ok (cohort_start us)"
  by (simp_all add: reminders_ok_def cohorts_ok_def cohort_start_def)

text \<open>No live session is announced twice by the same reminder, whatever its instructor changes; so a session that is
  moved to another day after its reminder went out gets no reminder for the new date.\<close>

theorem reminded_once:
  "distinct (ch_notified (run_ops (cohort_step invite remind) rs (cohort_start us)))"
  using reminding.run_preserves[OF cohort_start_ok(1), of invite remind rs us] by (simp add: reminders_ok_def)

text \<open>A run of the reminder job within the hour before a scheduled session leaves its one-hour reminder sent, now or
  by an earlier run, and sends reminders for no cancelled, past or more than a day distant session.\<close>

theorem reminder_due_is_sent:
  assumes "reminders_ok s" "x \<in> set (ch_sessions s)" "ls_status x = SessionScheduled"
    "now < ls_scheduledAt x" "ls_scheduledAt x \<le> now + 3600000"
  shows "(''1h'' \<in> set (reminders_sent x) \<or> (ls_id x, ''1h'') \<in> set (ch_notified (sendReminders remind now s))) \<and>
    (\<forall>(i, l) \<in> set (ch_notified (sendReminders remind now s)) - set (ch_notified s).
      \<exists>y \<in> set (ch_sessions s). ls_id y = i \<and> ls_status y = SessionScheduled \<and> now < ls_scheduledAt y \<and>
        ls_scheduledAt y \<le> now + 86400000)"
proof -
  have "hours_until now x \<le> 1" "0 < hours_until now x"
    using assms(4,5) by (simp_all add: hours_until_def divide_le_eq)
  then have "''1h'' \<in> set (reminders_sent x) \<or> ''1h'' \<in> set (reminders_due now x)" by (auto simp: reminders_due_def)
  with assms(2-4) have one: "''1h'' \<in> set (reminders_sent x) \<or> (ls_id x, ''1h'') \<in> set (ch_notified (sendReminders remind now s))"
    by (auto simp: sendReminders_ok(2)[OF assms(1)])
  have near: "\<exists>y \<in> set (ch_sessions s). ls_id y = i \<and> ls_status y = SessionScheduled \<and> now < ls_scheduledAt y \<and>
      ls_scheduledAt y \<le> now + 86400000"
    if "(i, l) \<in> set (ch_notified (sendReminders remind now s)) - set (ch_notified s)" for i l
  proof -
  from that obtain y where y: "y \<in> set (ch_sessions s)" "ls_status y = SessionScheduled" "now < ls_scheduledAt y" "ls_id y = i"
    "l \<in> set (reminders_due now y)"
    by (auto simp: sendReminders_ok(2)[OF assms(1)])
  have "hours_until now y \<le> 24" using y(5) by (auto simp: reminders_due_def split: if_splits)
  then have "(of_int (ls_scheduledAt y - now) :: rat) \<le> of_int 86400000" by (simp add: hours_until_def divide_le_eq)
  then have "ls_scheduledAt y \<le> now + 86400000" unfolding of_int_le_iff by simp
  with y show ?thesis by blast
  qed
  show ?thesis
  proof (intro conjI ballI)
    fix p assume "p \<in> set (ch_notified (sendReminders remind now s)) - set (ch_notified s)"
    then show "case p of (i, l) \<Rightarrow> \<exists>y \<in> set (ch_sessions s). ls_id y = i \<and> ls_status y = SessionScheduled \<and>
        now < ls_scheduledAt y \<and> ls_scheduledAt y \<le> now + 86400000"
      using near[of "fst p" "snd p"] by (simp add: split_beta)
  qed (rule one)
qed

definition seated_cohort :: cohort_data where
  "seated_cohort = \<lparr>cd_id = None, cd_courseId = Some 5, cd_instructorId = None, cd_name = Some ''c'', cd_description = None,
     cd_startDate = Some 0, cd_endDate = Some 9, cd_maxMembers = Some 1\<rparr>"

definition lone_session :: live_session where
  "lone_session = \<lparr>ls_id = 0, ls_cohortId = 3, ls_instructorId = 4, ls_title = ''t'', ls_description = None,
     ls_scheduledAt = 1800000, ls_durationMinutes = 60, ls_meetingUrl = None, ls_status = SessionScheduled, ls_remindersSent = None\<rparr>"

theorem reminder_due_is_sent_witness:
  "(0, ''1h'') \<in> set (ch_notified (sendReminders (\<lambda>_ _ _. ([], [])) 0
     ((cohort_start [])\<lparr>ch_sessions := [lone_session], ch_fresh := 1\<rparr>)))"
  using reminder_due_is_sent[where s = "(cohort_start [])\<lparr>ch_sessions := [lone_session], ch_fresh := 1\<rparr>" and x = lone_session and now = 0
      and remind = "\<lambda>_ _ _. ([], [])"]
  by (simp add: reminders_ok_def cohort_start_def lone_session_def reminders_sent_def)

text \<open>As long as no request to create a cohort names a stored row, a cohort with a bound has at most that many members,
  in every history of the service.\<close>

theorem cohort_capacity:
  assumes "\<forall>r \<in> set rs. names_no_row r" "c \<in> set (ch_cohorts (run_ops (cohort_step invite remind) rs (cohort_start us)))"
    "0 < ct_maxMembers c"
  shows "int (length (members_of (ct_id c) (run_ops (cohort_step invite remind) rs (cohort_start us)))) \<le> ct_maxMembers c"
  using seating.run_preserves[OF cohort_start_ok(2), of invite remind rs us] assms(2,3)
  unfolding plain_run[OF assms(1)] cohorts_ok_def by blast

theorem cohort_capacity_witness:
  "int (length (members_of 0 (run_ops (cohort_step (\<lambda>_ _. ([], [])) (\<lambda>_ _ _. ([], []))) [CreateCohort 7 seated_cohort, AddMember 0 8, AddMember 0 9]
     (cohort_start [])))) \<le> 1"
proof -
  let ?rs = "[CreateCohort 7 seated_cohort, AddMember 0 8, AddMember 0 9]"
  let ?c = "\<lparr>ct_id = 0, ct_courseId = 5, ct_name = ''c'', ct_description = None, ct_startDate = 0, ct_endDate = 9, ct_maxMembers = 1,
    ct_instructorId = 7\<rparr>"
  have "\<forall>r \<in> set ?rs. names_no_row r" by (simp add: seated_cohort_def)
  moreover have "?c \<in> set (ch_cohorts (run_ops (cohort_step (\<lambda>_ _. ([], [])) (\<lambda>_ _ _. ([], []))) ?rs (cohort_start [])))"
    by (simp add: createCohort_def seated_cohort_def cohort_start_def body_or_def Let_def addMember_def find_cohort_def members_of_def)
  ultimately show ?thesis using cohort_capacity[where rs = ?rs and c = ?c and us = "[]"] by simp
qed

text \<open>A body that names a stored cohort takes it over: whoever sends it becomes its instructor, or anyone else the
  body names, and the bound on its members can be lifted, without any check of the owner.\<close>

theorem cohort_taken_over:
  assumes "find_cohort i s = Some c" "cd_id b = Some i" "cd_instructorId b = None"
  shows "\<exists>c' s'. createCohort u b s = (Inr c', s') \<and> find_cohort i s' = Some c' \<and> ct_instructorId c' = u \<and>
    ct_maxMembers c' = body_or (cd_maxMembers b) (ct_maxMembers c)"
proof -
  let ?c = "overwrite_cohort u b c"
  have "ct_id c = i" using find_SomeD[OF assms(1)[unfolded find_cohort_def]] by simp
  then have "find_cohort i (s\<lparr>ch_cohorts := save_row ct_id ?c (ch_cohorts s)\<rparr>) = Some ?c"
    by (simp add: find_cohort_def find_key_save_row overwrite_cohort_def)
  with assms show ?thesis by (simp add: createCohort_def Let_def) (simp add: overwrite_cohort_def body_or_def)
qed

theorem cohort_taken_over_witness:
  "\<exists>c' s'. createCohort 9 (seated_cohort\<lparr>cd_id := Some 0, cd_maxMembers := Some 0\<rparr>)
     (snd (createCohort 7 seated_cohort (cohort_start []))) = (Inr c', s') \<and> ct_instructorId c' = 9 \<and> ct_maxMembers c' = 0"
proof -
  have "\<exists>c. find_cohort 0 (snd (createCohort 7 seated_cohort (cohort_start []))) = Some c"
    by (simp add: createCohort_def seated_cohort_def cohort_start_def body_or_def Let_def find_cohort_def)
  then obtain c where "find_cohort 0 (snd (createCohort 7 seated_cohort (cohort_start []))) = Some c" by blast
  from cohort_taken_over[OF this, of "seated_cohort\<lparr>cd_id := Some 0, cd_maxMembers := Some 0\<rparr>" 9]
  show ?thesis by (auto simp: seated_cohort_def body_or_def)
qed

end
