(* ===== verification/ImportExport.thy ===== *)
theory ImportExport
  imports Curriculum Js_Sort "HOL-Library.Multiset"
begin

text \<open>
  Export and import of courses (\<open>import-export/import-export.service.ts\<close> and the JSON and CSV strategies under
  \<open>import-export/strategies/\<close>). An imported value is a JSON value of any type, so what a column stores of it is
  decided by the database: \<open>columns\<close> is its conversion of a value to text, to a 32-bit integer and to a boolean, a
  parameter of the model, as are the parsers of JSON and CSV. A writer stops at the first column that refuses its value,
  and the rows written before stay, because the strategies use no transaction.
\<close>

datatype js_field = Undefined | NotANumber | Value json

record columns =
  text_of :: "json \<Rightarrow> string"
  int_of :: "json \<Rightarrow> int option"
  bool_of :: "json \<Rightarrow> bool option"

record lesson_payload =
  lp_title :: js_field
  lp_content :: js_field
  lp_videoUrl :: js_field
  lp_order :: js_field
  lp_durationMinutes :: js_field

record module_payload =
  mp_title :: js_field
  mp_order :: js_field
  mp_lessons :: "lesson_payload list"

record course_payload =
  ic_title :: js_field
  ic_description :: js_field
  ic_level :: js_field
  ic_durationHours :: js_field
  ic_requiresKyc :: js_field
  ic_modules :: "module_payload list"

subsection \<open>Columns\<close>

definition text_column :: "columns \<Rightarrow> string option \<Rightarrow> js_field \<Rightarrow> http_error + string" where
  "text_column cols dflt f =
     (case f of
        Undefined \<Rightarrow> (case dflt of None \<Rightarrow> Inl (JsError ''null value in column'') | Some d \<Rightarrow> Inr d)
      | NotANumber \<Rightarrow> Inr ''NaN''
      | Value JNull \<Rightarrow> Inl (JsError ''null value in column'')
      | Value j \<Rightarrow> Inr (text_of cols j))"

definition int_column :: "columns \<Rightarrow> js_field \<Rightarrow> http_error + int" where
  "int_column cols f =
     (case f of
        Undefined \<Rightarrow> Inr 0
      | NotANumber \<Rightarrow> Inl (JsError ''invalid input syntax for type integer'')
      | Value JNull \<Rightarrow> Inl (JsError ''null value in column'')
      | Value j \<Rightarrow> (case int_of cols j of None \<Rightarrow> Inl (JsError ''invalid input syntax for type integer'') | Some i \<Rightarrow> Inr i))"

definition kyc_column :: "columns \<Rightarrow> js_field \<Rightarrow> http_error + bool" where
  "kyc_column cols f =
     (case f of
        Undefined \<Rightarrow> Inr False
      | NotANumber \<Rightarrow> Inl (JsError ''invalid input syntax for type boolean'')
      | Value JNull \<Rightarrow> Inr False
      | Value j \<Rightarrow> (case bool_of cols j of None \<Rightarrow> Inl (JsError ''invalid input syntax for type boolean'') | Some b \<Rightarrow> Inr b))"

definition url_column :: "columns \<Rightarrow> js_field \<Rightarrow> string option" where
  "url_column cols f =
     (case f of Undefined \<Rightarrow> None | NotANumber \<Rightarrow> Some ''NaN'' | Value JNull \<Rightarrow> None | Value j \<Rightarrow> Some (text_of cols j))"

definition both :: "http_error + 'a \<Rightarrow> ('a \<Rightarrow> http_error + 'b) \<Rightarrow> http_error + 'b" where
  "both r k = (case r of Inl e \<Rightarrow> Inl e | Inr x \<Rightarrow> k x)"

lemma both_simps [simp]: "both (Inl e) k = Inl e" "both (Inr x) k = k x"
  by (simp_all add: both_def)

subsection \<open>Writing a course\<close>

definition lesson_row :: "columns \<Rightarrow> uuid \<Rightarrow> uuid \<Rightarrow> lesson_payload \<Rightarrow> http_error + lesson" where
  "lesson_row cols i moduleId l =
     both (text_column cols None (lp_title l)) (\<lambda>title.
     both (text_column cols None (lp_content l)) (\<lambda>content.
     both (int_column cols (lp_order l)) (\<lambda>order.
     both (int_column cols (lp_durationMinutes l)) (\<lambda>minutes.
       Inr \<lparr>le_id = i, le_moduleId = moduleId, le_title = title, le_content = content,
            le_videoUrl = url_column cols (lp_videoUrl l), le_transcript = None, le_transcriptSrt = None,
            le_transcriptionJobName = None, le_order = order, le_durationMinutes = minutes\<rparr>))))"

definition module_row :: "columns \<Rightarrow> uuid \<Rightarrow> uuid \<Rightarrow> module_payload \<Rightarrow> http_error + course_module" where
  "module_row cols i courseId m =
     both (text_column cols None (mp_title m)) (\<lambda>title.
     both (int_column cols (mp_order m)) (\<lambda>order.
       Inr \<lparr>cm_id = i, cm_courseId = courseId, cm_title = title, cm_order = order, cm_releaseDate = None\<rparr>))"

definition new_course_row :: "columns \<Rightarrow> uuid \<Rightarrow> uuid \<Rightarrow> course_payload \<Rightarrow> http_error + course" where
  "new_course_row cols i instructorId c =
     both (text_column cols None (ic_title c)) (\<lambda>title.
     both (text_column cols None (ic_description c)) (\<lambda>description.
     both (text_column cols (Some ''beginner'') (ic_level c)) (\<lambda>level.
     both (int_column cols (ic_durationHours c)) (\<lambda>hours.
     both (kyc_column cols (ic_requiresKyc c)) (\<lambda>kyc.
       Inr ((new_course i title)\<lparr>co_description := description, co_level := level, co_durationHours := hours,
            co_requiresKyc := kyc, co_instructorId := Some instructorId, co_isPublished := False\<rparr>))))))"

fun persist_lessons :: "columns \<Rightarrow> uuid \<Rightarrow> lesson_payload list \<Rightarrow> curriculum \<Rightarrow> (curriculum, unit) outcome" where
  "persist_lessons cols moduleId [] s = (Inr (), s)"
| "persist_lessons cols moduleId (l # ls) s =
     (case lesson_row cols (cu_fresh s) moduleId l of
        Inl e \<Rightarrow> (Inl e, s)
      | Inr row \<Rightarrow> persist_lessons cols moduleId ls (s\<lparr>cu_lessons := cu_lessons s @ [row], cu_fresh := Suc (cu_fresh s)\<rparr>))"

fun persist_modules :: "columns \<Rightarrow> uuid \<Rightarrow> module_payload list \<Rightarrow> curriculum \<Rightarrow> (curriculum, unit) outcome" where
  "persist_modules cols courseId [] s = (Inr (), s)"
| "persist_modules cols courseId (m # ms) s =
     (case module_row cols (cu_fresh s) courseId m of
        Inl e \<Rightarrow> (Inl e, s)
      | Inr row \<Rightarrow>
          await (persist_lessons cols (cm_id row) (mp_lessons m)
                   (s\<lparr>cu_modules := cu_modules s @ [row], cu_fresh := Suc (cu_fresh s)\<rparr>))
            (\<lambda>_ s1. persist_modules cols courseId ms s1))"

definition add_course :: "course \<Rightarrow> curriculum \<Rightarrow> curriculum" where
  "add_course c s = s\<lparr>cu_core := (cu_core s)\<lparr>courses := courses (cu_core s) @ [c], fresh := Suc (fresh (cu_core s))\<rparr>\<rparr>"

definition persistCourse :: "columns \<Rightarrow> course_payload \<Rightarrow> uuid \<Rightarrow> curriculum \<Rightarrow> (curriculum, uuid) outcome" where
  "persistCourse cols p instructorId s =
     (case new_course_row cols (fresh (cu_core s)) instructorId p of
        Inl e \<Rightarrow> (Inl e, s)
      | Inr c \<Rightarrow>
          await (persist_modules cols (co_id c) (ic_modules p) (add_course c s)) (\<lambda>_ s1. (Inr (co_id c), s1)))"

subsection \<open>JSON\<close>

text \<open>Reading a property: of \<open>null\<close> it throws, of a value that is no object it is undefined.\<close>

definition get_prop :: "json \<Rightarrow> string \<Rightarrow> http_error + js_field" where
  "get_prop j k =
     (case j of
        JNull \<Rightarrow> Inl JsTypeError
      | JObj kvs \<Rightarrow> Inr (case map_of kvs k of None \<Rightarrow> Undefined | Some v \<Rightarrow> Value v)
      | _ \<Rightarrow> Inr Undefined)"

text \<open>\<open>j?.[k]\<close>.\<close>

definition opt_prop :: "js_field \<Rightarrow> string \<Rightarrow> js_field" where
  "opt_prop f k = (case f of Value (JObj kvs) \<Rightarrow> (case map_of kvs k of None \<Rightarrow> Undefined | Some v \<Rightarrow> Value v) | _ \<Rightarrow> Undefined)"

fun json_truthy :: "js_field \<Rightarrow> bool" where
  "json_truthy (Value (JBool b)) = b"
| "json_truthy (Value (JNum r)) = (r \<noteq> 0)"
| "json_truthy (Value (JStr s)) = (s \<noteq> [])"
| "json_truthy (Value (JArr _)) = True"
| "json_truthy (Value (JObj _)) = True"
| "json_truthy _ = False"

fun check_lessons :: "json list \<Rightarrow> http_error + lesson_payload list" where
  "check_lessons [] = Inr []"
| "check_lessons (l # ls) =
     both (get_prop l ''title'') (\<lambda>title.
       if \<not> json_truthy title then Inl (BadRequestException ''Each lesson must have a title'')
       else if opt_prop (Value l) ''content'' = Undefined then Inl (BadRequestException ''Each lesson must have content'')
       else both (check_lessons ls) (\<lambda>rest.
         Inr (\<lparr>lp_title = title, lp_content = opt_prop (Value l) ''content'', lp_videoUrl = opt_prop (Value l) ''videoUrl'',
               lp_order = opt_prop (Value l) ''order'', lp_durationMinutes = opt_prop (Value l) ''durationMinutes''\<rparr> # rest)))"

fun check_modules :: "json list \<Rightarrow> http_error + module_payload list" where
  "check_modules [] = Inr []"
| "check_modules (m # ms) =
     both (get_prop m ''title'') (\<lambda>title.
       if \<not> json_truthy title then Inl (BadRequestException ''Each module must have a title'')
       else
         (case opt_prop (Value m) ''lessons'' of
            Value (JArr ls) \<Rightarrow>
              both (check_lessons ls) (\<lambda>lessons.
              both (check_modules ms) (\<lambda>rest.
                Inr (\<lparr>mp_title = title, mp_order = opt_prop (Value m) ''order'', mp_lessons = lessons\<rparr> # rest)))
          | _ \<Rightarrow> Inl (BadRequestException ''Each module must have a lessons array'')))"

definition validateJsonPayload :: "json \<Rightarrow> http_error + course_payload" where
  "validateJsonPayload j =
     (let c = opt_prop (Value j) ''course''
      in if \<not> json_truthy (opt_prop c ''title'') then Inl (BadRequestException ''Missing required field: course.title'')
         else if \<not> json_truthy (opt_prop c ''description'') then Inl (BadRequestException ''Missing required field: course.description'')
         else
           (case opt_prop c ''modules'' of
              Value (JArr ms) \<Rightarrow>
                both (check_modules ms) (\<lambda>modules.
                  Inr \<lparr>ic_title = opt_prop c ''title'', ic_description = opt_prop c ''description'', ic_level = opt_prop c ''level'',
                       ic_durationHours = opt_prop c ''durationHours'', ic_requiresKyc = opt_prop c ''requiresKyc'',
                       ic_modules = modules\<rparr>)
            | _ \<Rightarrow> Inl (BadRequestException ''course.modules must be an array'')))"

definition json_import :: "(string \<Rightarrow> json option) \<Rightarrow> columns \<Rightarrow> string \<Rightarrow> uuid \<Rightarrow> curriculum \<Rightarrow> (curriculum, uuid) outcome" where
  "json_import parse cols file userId s =
     (case parse file of
        None \<Rightarrow> (Inl (BadRequestException ''Invalid JSON file''), s)
      | Some j \<Rightarrow>
          (case validateJsonPayload j of
             Inl e \<Rightarrow> (Inl e, s)
           | Inr p \<Rightarrow> persistCourse cols p userId s))"

subsection \<open>CSV\<close>

type_synonym csv_row = "(string \<times> string) list"

definition cell :: "csv_row \<Rightarrow> string \<Rightarrow> string option" where
  "cell row k = map_of row k"

text \<open>\<open>row[k] || d\<close> and \<open>row[k] ?? d\<close>.\<close>

definition cell_or :: "csv_row \<Rightarrow> string \<Rightarrow> string \<Rightarrow> string" where
  "cell_or row k d = (case cell row k of None \<Rightarrow> d | Some v \<Rightarrow> if v = [] then d else v)"

definition cell_else :: "csv_row \<Rightarrow> string \<Rightarrow> string \<Rightarrow> string" where
  "cell_else row k d = (case cell row k of None \<Rightarrow> d | Some v \<Rightarrow> v)"

definition filled :: "csv_row \<Rightarrow> string \<Rightarrow> bool" where
  "filled row k \<longleftrightarrow> cell_or row k [] \<noteq> []"

record csv_module =
  cs_title :: string
  cs_order :: "int option"
  cs_lessons :: "lesson_payload list"

definition number_field :: "int option \<Rightarrow> js_field" where
  "number_field n = (case n of None \<Rightarrow> NotANumber | Some i \<Rightarrow> Value (JNum (of_int i)))"

definition int_cell :: "csv_row \<Rightarrow> string \<Rightarrow> int option" where
  "int_cell row k = js_parseInt (cell_or row k ''0'')"

definition module_key :: "csv_row \<Rightarrow> string" where
  "module_key row = cell_else row ''module_order'' ''0'' @ '':'' @ cell_else row ''module_title'' ''Module''"

definition csv_lesson :: "csv_row \<Rightarrow> lesson_payload" where
  "csv_lesson row =
     \<lparr>lp_title = Value (JStr (cell_or row ''lesson_title'' [])), lp_content = Value (JStr (cell_or row ''lesson_content'' [])),
      lp_videoUrl = (if filled row ''lesson_video_url'' then Value (JStr (cell_or row ''lesson_video_url'' [])) else Undefined),
      lp_order = number_field (int_cell row ''lesson_order''),
      lp_durationMinutes = number_field (int_cell row ''lesson_duration_minutes'')\<rparr>"

fun add_lesson :: "string \<Rightarrow> lesson_payload \<Rightarrow> (string \<times> csv_module) list \<Rightarrow> (string \<times> csv_module) list" where
  "add_lesson k l [] = []"
| "add_lesson k l ((i, m) # ms) =
     (if i = k then (i, m\<lparr>cs_lessons := cs_lessons m @ [l]\<rparr>) # ms else (i, m) # add_lesson k l ms)"

definition add_csv_row :: "csv_row \<Rightarrow> (string \<times> csv_module) list \<Rightarrow> (string \<times> csv_module) list" where
  "add_csv_row row ms =
     (let k = module_key row;
          ms1 = (if k \<in> fst ` set ms then ms
                 else ms @ [(k, \<lparr>cs_title = cell_or row ''module_title'' ''Module'', cs_order = int_cell row ''module_order'', cs_lessons = []\<rparr>)])
      in if filled row ''lesson_title'' then add_lesson k (csv_lesson row) ms1 else ms1)"

text \<open>\<open>a.order - b.order\<close>; a comparison with NaN counts as equal.\<close>

definition csv_order :: "csv_module \<Rightarrow> csv_module \<Rightarrow> rat" where
  "csv_order a b = (case (cs_order a, cs_order b) of (Some i, Some j) \<Rightarrow> of_int (i - j) | _ \<Rightarrow> 0)"

definition csv_payload :: "csv_row list \<Rightarrow> course_payload" where
  "csv_payload rows =
     (let first = hd rows
      in \<lparr>ic_title = Value (JStr (cell_or first ''course_title'' [])), ic_description = Value (JStr (cell_or first ''course_description'' [])),
          ic_level = Value (JStr (cell_or first ''course_level'' ''beginner'')),
          ic_durationHours = number_field (int_cell first ''course_duration_hours''),
          ic_requiresKyc = Value (JBool (cell first ''requires_kyc'' = Some ''true'')),
          ic_modules = map (\<lambda>m. \<lparr>mp_title = Value (JStr (cs_title m)), mp_order = number_field (cs_order m), mp_lessons = cs_lessons m\<rparr>)
            (js_sort csv_order (map snd (fold add_csv_row rows [])))\<rparr>)"

definition csv_import :: "(string \<Rightarrow> csv_row list option) \<Rightarrow> columns \<Rightarrow> string \<Rightarrow> uuid \<Rightarrow> curriculum \<Rightarrow> (curriculum, uuid) outcome" where
  "csv_import parseCsv cols file userId s =
     (case parseCsv file of
        None \<Rightarrow> (Inl (BadRequestException ''Invalid CSV file''), s)
      | Some rows \<Rightarrow>
          if rows = [] then (Inl (BadRequestException ''CSV file is empty''), s)
          else if \<not> filled (hd rows) ''course_title'' then (Inl (BadRequestException ''Missing required CSV column: course_title''), s)
          else if \<not> filled (hd rows) ''course_description'' then
            (Inl (BadRequestException ''Missing required CSV column: course_description''), s)
          else persistCourse cols (csv_payload rows) userId s)"

subsection \<open>Export\<close>

record lesson_doc =
  ld_title :: string
  ld_content :: string
  ld_videoUrl :: "string option"
  ld_order :: int
  ld_durationMinutes :: int

record module_doc =
  md_title :: string
  md_order :: int
  md_lessons :: "lesson_doc list"

record course_doc =
  xd_title :: string
  xd_description :: string
  xd_level :: string
  xd_durationHours :: int
  xd_requiresKyc :: bool
  xd_modules :: "module_doc list"

definition lesson_doc_of :: "lesson \<Rightarrow> lesson_doc" where
  "lesson_doc_of l = \<lparr>ld_title = le_title l, ld_content = le_content l, ld_videoUrl = le_videoUrl l, ld_order = le_order l,
     ld_durationMinutes = le_durationMinutes l\<rparr>"

definition module_doc_of :: "lesson list \<Rightarrow> course_module \<Rightarrow> module_doc" where
  "module_doc_of ls m = \<lparr>md_title = cm_title m, md_order = cm_order m,
     md_lessons = map lesson_doc_of (order_by le_order (filter (\<lambda>l. le_moduleId l = cm_id m) ls))\<rparr>"

definition exportCourse :: "uuid \<Rightarrow> curriculum \<Rightarrow> http_error + course_doc" where
  "exportCourse courseId s =
     (case find_live_course courseId (cu_core s) of
        None \<Rightarrow> Inl (NotFoundException ''Course not found'')
      | Some c \<Rightarrow>
          Inr \<lparr>xd_title = co_title c, xd_description = co_description c, xd_level = co_level c, xd_durationHours = co_durationHours c,
               xd_requiresKyc = co_requiresKyc c,
               xd_modules = map (module_doc_of (cu_lessons s)) (order_by cm_order (filter (\<lambda>m. cm_courseId m = courseId) (cu_modules s)))\<rparr>)"

text \<open>The exported file: \<open>JSON.stringify\<close> leaves out a property that is undefined.\<close>

definition lesson_json :: "lesson_doc \<Rightarrow> json" where
  "lesson_json l = JObj ([(''title'', JStr (ld_title l)), (''content'', JStr (ld_content l))] @
     (case ld_videoUrl l of None \<Rightarrow> [] | Some u \<Rightarrow> [(''videoUrl'', JStr u)]) @
     [(''order'', JNum (of_int (ld_order l))), (''durationMinutes'', JNum (of_int (ld_durationMinutes l)))])"

definition module_json :: "module_doc \<Rightarrow> json" where
  "module_json m = JObj [(''title'', JStr (md_title m)), (''order'', JNum (of_int (md_order m))),
     (''lessons'', JArr (map lesson_json (md_lessons m)))]"

definition export_json :: "string \<Rightarrow> course_doc \<Rightarrow> json" where
  "export_json exportedAt c = JObj [(''version'', JStr ''1.0''), (''exportedAt'', JStr exportedAt),
     (''course'', JObj [(''title'', JStr (xd_title c)), (''description'', JStr (xd_description c)), (''level'', JStr (xd_level c)),
        (''durationHours'', JNum (of_int (xd_durationHours c))), (''requiresKyc'', JBool (xd_requiresKyc c)),
        (''modules'', JArr (map module_json (xd_modules c)))])]"

subsection \<open>Importing what was exported\<close>

definition columns_ok :: "columns \<Rightarrow> bool" where
  "columns_ok cols \<longleftrightarrow> (\<forall>s. text_of cols (JStr s) = s) \<and> (\<forall>b. bool_of cols (JBool b) = Some b) \<and>
     (\<forall>i. - (2 ^ 31) \<le> i \<and> i < 2 ^ 31 \<longrightarrow> int_of cols (JNum (of_int i)) = Some i)"

definition int32 :: "int \<Rightarrow> bool" where
  "int32 i \<longleftrightarrow> - (2 ^ 31) \<le> i \<and> i < 2 ^ 31"

definition lesson_ok :: "lesson_doc \<Rightarrow> bool" where
  "lesson_ok l \<longleftrightarrow> ld_title l \<noteq> [] \<and> int32 (ld_order l) \<and> int32 (ld_durationMinutes l)"

definition module_ok :: "module_doc \<Rightarrow> bool" where
  "module_ok m \<longleftrightarrow> md_title m \<noteq> [] \<and> int32 (md_order m) \<and> (\<forall>l \<in> set (md_lessons m). lesson_ok l)"

definition doc_ok :: "course_doc \<Rightarrow> bool" where
  "doc_ok d \<longleftrightarrow> xd_title d \<noteq> [] \<and> xd_description d \<noteq> [] \<and> int32 (xd_durationHours d) \<and> (\<forall>m \<in> set (xd_modules d). module_ok m)"

definition lesson_payload_of :: "lesson_doc \<Rightarrow> lesson_payload" where
  "lesson_payload_of l = \<lparr>lp_title = Value (JStr (ld_title l)), lp_content = Value (JStr (ld_content l)),
     lp_videoUrl = (case ld_videoUrl l of None \<Rightarrow> Undefined | Some u \<Rightarrow> Value (JStr u)),
     lp_order = Value (JNum (of_int (ld_order l))), lp_durationMinutes = Value (JNum (of_int (ld_durationMinutes l)))\<rparr>"

definition module_payload_of :: "module_doc \<Rightarrow> module_payload" where
  "module_payload_of m = \<lparr>mp_title = Value (JStr (md_title m)), mp_order = Value (JNum (of_int (md_order m))),
     mp_lessons = map lesson_payload_of (md_lessons m)\<rparr>"

definition course_payload_of :: "course_doc \<Rightarrow> course_payload" where
  "course_payload_of d = \<lparr>ic_title = Value (JStr (xd_title d)), ic_description = Value (JStr (xd_description d)),
     ic_level = Value (JStr (xd_level d)), ic_durationHours = Value (JNum (of_int (xd_durationHours d))),
     ic_requiresKyc = Value (JBool (xd_requiresKyc d)), ic_modules = map module_payload_of (xd_modules d)\<rparr>"

lemma typed_columns:
  assumes "columns_ok cols"
  shows "text_column cols d (Value (JStr s)) = Inr s" "kyc_column cols (Value (JBool b)) = Inr b"
    "int32 i \<Longrightarrow> int_column cols (Value (JNum (of_int i))) = Inr i" "url_column cols (Value (JStr s)) = Some s"
    "url_column cols Undefined = None"
  using assms by (simp_all add: columns_ok_def text_column_def kyc_column_def int_column_def url_column_def int32_def)

lemma check_exported_lessons:
  "\<forall>l \<in> set ls. lesson_ok l \<Longrightarrow> check_lessons (map lesson_json ls) = Inr (map lesson_payload_of ls)"
  by (induction ls) (auto simp: lesson_json_def lesson_payload_of_def lesson_ok_def get_prop_def opt_prop_def split: option.split)

lemma check_exported_modules:
  "\<forall>m \<in> set ms. module_ok m \<Longrightarrow> check_modules (map module_json ms) = Inr (map module_payload_of ms)"
  by (induction ms) (auto simp: module_json_def module_payload_of_def module_ok_def get_prop_def opt_prop_def check_exported_lessons)

lemma validate_exported:
  "doc_ok d \<Longrightarrow> validateJsonPayload (export_json t d) = Inr (course_payload_of d)"
  by (simp add: doc_ok_def validateJsonPayload_def export_json_def course_payload_of_def opt_prop_def check_exported_modules Let_def)

lemma persist_exported_lessons:
  assumes "columns_ok cols"
  shows "\<forall>l \<in> set ls. lesson_ok l \<Longrightarrow>
    \<exists>rows. persist_lessons cols i (map lesson_payload_of ls) s
        = (Inr (), s\<lparr>cu_lessons := cu_lessons s @ rows, cu_fresh := cu_fresh s + length ls\<rparr>) \<and>
      map lesson_doc_of rows = ls \<and> (\<forall>r \<in> set rows. le_moduleId r = i)"
proof (induction ls arbitrary: s)
  case Nil
  show ?case by (rule exI[of _ "[]"]) simp
next
  case (Cons l ls)
  let ?r = "\<lparr>le_id = cu_fresh s, le_moduleId = i, le_title = ld_title l, le_content = ld_content l, le_videoUrl = ld_videoUrl l,
    le_transcript = None, le_transcriptSrt = None, le_transcriptionJobName = None, le_order = ld_order l,
    le_durationMinutes = ld_durationMinutes l\<rparr>"
  have row: "lesson_row cols (cu_fresh s) i (lesson_payload_of l) = Inr ?r"
    using Cons.prems by (cases "ld_videoUrl l") (simp_all add: lesson_row_def lesson_payload_of_def typed_columns[OF assms] lesson_ok_def)
  obtain rows where "persist_lessons cols i (map lesson_payload_of ls) (s\<lparr>cu_lessons := cu_lessons s @ [?r], cu_fresh := Suc (cu_fresh s)\<rparr>)
      = (Inr (), s\<lparr>cu_lessons := (cu_lessons s @ [?r]) @ rows, cu_fresh := Suc (cu_fresh s) + length ls\<rparr>)"
    "map lesson_doc_of rows = ls" "\<forall>r \<in> set rows. le_moduleId r = i"
    using Cons.IH[of "s\<lparr>cu_lessons := cu_lessons s @ [?r], cu_fresh := Suc (cu_fresh s)\<rparr>"] Cons.prems by auto
  moreover have "lesson_doc_of ?r = l" by (simp add: lesson_doc_of_def)
  ultimately show ?case by (intro exI[of _ "?r # rows"]) (simp add: row)
qed

text \<open>The modules of a document before sorting, as the rows show them.\<close>

definition plain_doc :: "lesson list \<Rightarrow> course_module \<Rightarrow> module_doc" where
  "plain_doc ls m = \<lparr>md_title = cm_title m, md_order = cm_order m,
     md_lessons = map lesson_doc_of (filter (\<lambda>l. le_moduleId l = cm_id m) ls)\<rparr>"

lemma persist_exported_modules:
  assumes "columns_ok cols"
  shows "\<forall>m \<in> set ds. module_ok m \<Longrightarrow>
    \<exists>ms ls n. persist_modules cols c (map module_payload_of ds) s
        = (Inr (), s\<lparr>cu_modules := cu_modules s @ ms, cu_lessons := cu_lessons s @ ls, cu_fresh := n\<rparr>) \<and> cu_fresh s \<le> n \<and>
      (\<forall>m \<in> set ms. cm_courseId m = c \<and> cu_fresh s \<le> cm_id m \<and> cm_id m < n) \<and>
      (\<forall>l \<in> set ls. cu_fresh s \<le> le_moduleId l) \<and> map (plain_doc ls) ms = ds"
proof (induction ds arbitrary: s)
  case Nil
  show ?case by (rule exI[of _ "[]"], rule exI[of _ "[]"], rule exI[of _ "cu_fresh s"]) simp
next
  case (Cons d ds)
  let ?i = "cu_fresh s"
  let ?m = "\<lparr>cm_id = ?i, cm_courseId = c, cm_title = md_title d, cm_order = md_order d, cm_releaseDate = None\<rparr>"
  let ?s1 = "s\<lparr>cu_modules := cu_modules s @ [?m], cu_fresh := Suc ?i\<rparr>"
  have d: "module_ok d" using Cons.prems by simp
  have row: "module_row cols ?i c (module_payload_of d) = Inr ?m"
    using d by (simp add: module_row_def module_payload_of_def typed_columns[OF assms] module_ok_def)
  obtain rows where rows: "persist_lessons cols ?i (map lesson_payload_of (md_lessons d)) ?s1
      = (Inr (), ?s1\<lparr>cu_lessons := cu_lessons ?s1 @ rows, cu_fresh := cu_fresh ?s1 + length (md_lessons d)\<rparr>)"
    "map lesson_doc_of rows = md_lessons d" "\<forall>r \<in> set rows. le_moduleId r = ?i"
    using persist_exported_lessons[OF assms, of "md_lessons d" ?i ?s1] d by (auto simp: module_ok_def)
  let ?s2 = "?s1\<lparr>cu_lessons := cu_lessons ?s1 @ rows, cu_fresh := cu_fresh ?s1 + length (md_lessons d)\<rparr>"
  obtain ms ls n where rest: "persist_modules cols c (map module_payload_of ds) ?s2
      = (Inr (), ?s2\<lparr>cu_modules := cu_modules ?s2 @ ms, cu_lessons := cu_lessons ?s2 @ ls, cu_fresh := n\<rparr>)" "cu_fresh ?s2 \<le> n"
    "\<forall>m \<in> set ms. cm_courseId m = c \<and> cu_fresh ?s2 \<le> cm_id m \<and> cm_id m < n" "\<forall>l \<in> set ls. cu_fresh ?s2 \<le> le_moduleId l"
    "map (plain_doc ls) ms = ds"
    using Cons.IH[of ?s2] Cons.prems by auto
  have docs: "map (plain_doc (rows @ ls)) (?m # ms) = d # ds"
  proof -
    have "filter (\<lambda>l. le_moduleId l = ?i) (rows @ ls) = rows"
      using rows(3) rest(4) by (auto simp: filter_empty_conv filter_id_conv)
    then have "plain_doc (rows @ ls) ?m = d" using rows(2) by (simp add: plain_doc_def)
    moreover have "plain_doc (rows @ ls) m = plain_doc ls m" if "m \<in> set ms" for m
    proof -
      have "cm_id m \<noteq> ?i" using rest(3) that by auto
      then have "filter (\<lambda>l. le_moduleId l = cm_id m) rows = []" using rows(3) by (simp add: filter_empty_conv)
      then show ?thesis by (simp add: plain_doc_def)
    qed
    ultimately show ?thesis using rest(5) by (simp cong: map_cong)
  qed
  have "persist_modules cols c (map module_payload_of (d # ds)) s
      = (Inr (), s\<lparr>cu_modules := cu_modules s @ (?m # ms), cu_lessons := cu_lessons s @ (rows @ ls), cu_fresh := n\<rparr>)"
  proof -
    have "mp_lessons (module_payload_of d) = map lesson_payload_of (md_lessons d)" by (simp add: module_payload_of_def)
    then show ?thesis using rows(1) rest(1) by (simp add: row)
  qed
  moreover have "\<forall>m \<in> set (?m # ms). cm_courseId m = c \<and> cu_fresh s \<le> cm_id m \<and> cm_id m < n" using rest(2,3) by auto
  moreover have "\<forall>l \<in> set (rows @ ls). cu_fresh s \<le> le_moduleId l" using rows(3) rest(4) by fastforce
  moreover have "cu_fresh s \<le> n" using rest(2) by simp
  ultimately show ?case
    by (intro exI[of _ "?m # ms"] exI[of _ "rows @ ls"] exI[of _ n] conjI) (use docs in blast)+
qed

definition curriculum_ok :: "curriculum \<Rightarrow> bool" where
  "curriculum_ok s \<longleftrightarrow> (\<forall>c \<in> set (courses (cu_core s)). co_id c < fresh (cu_core s)) \<and>
     (\<forall>m \<in> set (cu_modules s). cm_courseId m < fresh (cu_core s) \<and> cm_id m < cu_fresh s) \<and>
     (\<forall>l \<in> set (cu_lessons s). le_moduleId l < cu_fresh s)"

definition sorted_doc :: "course_doc \<Rightarrow> bool" where
  "sorted_doc d \<longleftrightarrow> sorted (map md_order (xd_modules d)) \<and> (\<forall>m \<in> set (xd_modules d). sorted (map ld_order (md_lessons m)))"

lemma order_by_docs: "sorted (map (f \<circ> g) xs) \<Longrightarrow> order_by (\<lambda>x. f (g x)) xs = xs"
  by (simp add: order_by_def sort_key_id_if_sorted comp_def)

lemma exported_sorted:
  assumes "exportCourse i s = Inr d"
  shows "sorted_doc d"
proof -
  have orders: "md_order (module_doc_of ls m) = cm_order m" "ld_order (lesson_doc_of l) = le_order l" for ls m l
    by (simp_all add: module_doc_of_def lesson_doc_of_def)
  have "sorted (map md_order (map (module_doc_of ls) (order_by cm_order ms)))" for ls ms
    using sorted_order_by[of cm_order ms] by (simp add: comp_def orders)
  moreover have "sorted (map ld_order (md_lessons (module_doc_of ls m)))" for ls m
    using sorted_order_by[of le_order] by (simp add: comp_def orders module_doc_of_def)
  ultimately show ?thesis
    using assms by (auto simp: exportCourse_def sorted_doc_def split: option.splits)
qed

lemma persist_exported:
  assumes cols: "columns_ok cols" and doc: "doc_ok d" and ok: "curriculum_ok s" and sorted: "sorted_doc d"
  shows "\<exists>s'. persistCourse cols (course_payload_of d) u s = (Inr (fresh (cu_core s)), s') \<and>
    exportCourse (fresh (cu_core s)) s' = Inr d"
proof -
  let ?c = "fresh (cu_core s)"
  obtain R where row: "new_course_row cols ?c u (course_payload_of d) = Inr R" and R: "co_id R = ?c" "\<not> co_isDeleted R"
    "co_title R = xd_title d" "co_description R = xd_description d" "co_level R = xd_level d"
    "co_durationHours R = xd_durationHours d" "co_requiresKyc R = xd_requiresKyc d"
    using doc by (simp add: new_course_row_def course_payload_of_def typed_columns[OF cols] doc_ok_def new_course_def)
  define s1 where "s1 = add_course R s"
  have s1_simps: "cu_modules s1 = cu_modules s" "cu_lessons s1 = cu_lessons s" "cu_fresh s1 = cu_fresh s"
    "courses (cu_core s1) = courses (cu_core s) @ [R]"
    by (simp_all add: s1_def add_course_def)
  obtain ms ls n where mods: "persist_modules cols ?c (map module_payload_of (xd_modules d)) s1
      = (Inr (), s1\<lparr>cu_modules := cu_modules s1 @ ms, cu_lessons := cu_lessons s1 @ ls, cu_fresh := n\<rparr>)"
    "\<forall>m \<in> set ms. cm_courseId m = ?c \<and> cu_fresh s1 \<le> cm_id m \<and> cm_id m < n" "\<forall>l \<in> set ls. cu_fresh s1 \<le> le_moduleId l"
    "map (plain_doc ls) ms = xd_modules d"
    using persist_exported_modules[OF cols, of "xd_modules d" ?c s1] doc by (auto simp: doc_ok_def)
  let ?s2 = "s1\<lparr>cu_modules := cu_modules s1 @ ms, cu_lessons := cu_lessons s1 @ ls, cu_fresh := n\<rparr>"
  have run: "persistCourse cols (course_payload_of d) u s = (Inr ?c, ?s2)"
    using mods(1) R(1) by (simp add: persistCourse_def row s1_def[symmetric]) (simp add: course_payload_of_def)
  have course: "find_live_course ?c (cu_core ?s2) = Some R"
  proof -
    have "find (\<lambda>c. co_id c = ?c \<and> \<not> co_isDeleted c) (courses (cu_core s)) = None"
      using ok by (auto simp: curriculum_ok_def find_None)
    then have "find (\<lambda>c. co_id c = ?c \<and> \<not> co_isDeleted c) (courses (cu_core s) @ [R]) = Some R"
      using R by (simp add: find_append_None)
    then show ?thesis by (simp add: find_live_course_def s1_simps)
  qed
  have new_modules: "filter (\<lambda>m. cm_courseId m = ?c) (cu_modules ?s2) = ms"
    using ok mods(2) by (auto simp: curriculum_ok_def s1_simps filter_empty_conv filter_id_conv)
  have doc_of: "module_doc_of (cu_lessons ?s2) m = plain_doc ls m" if "m \<in> set ms" for m
  proof -
    have "cu_fresh s \<le> cm_id m" using mods(2) that by (simp add: s1_simps)
    then have "filter (\<lambda>l. le_moduleId l = cm_id m) (cu_lessons ?s2) = filter (\<lambda>l. le_moduleId l = cm_id m) ls"
      using ok by (auto simp: curriculum_ok_def s1_simps filter_empty_conv)
    moreover have "sorted (map ld_order (md_lessons (plain_doc ls m)))"
      using sorted that unfolding sorted_doc_def mods(4)[symmetric] by simp
    then have "order_by le_order (filter (\<lambda>l. le_moduleId l = cm_id m) ls) = filter (\<lambda>l. le_moduleId l = cm_id m) ls"
      by (simp add: plain_doc_def comp_def lesson_doc_of_def order_by_def sort_key_id_if_sorted)
    ultimately show ?thesis by (simp add: module_doc_of_def plain_doc_def)
  qed
  have "sorted (map md_order (map (plain_doc ls) ms))" using sorted by (simp only: mods(4) sorted_doc_def)
  then have "order_by cm_order ms = ms" by (simp add: comp_def plain_doc_def order_by_def sort_key_id_if_sorted)
  moreover have "map (module_doc_of (cu_lessons ?s2)) ms = xd_modules d" unfolding mods(4)[symmetric] using doc_of by simp
  ultimately have "exportCourse ?c ?s2 = Inr d"
    by (simp only: exportCourse_def course new_modules option.case) (simp add: R)
  with run show ?thesis by blast
qed

subsection \<open>The lessons of a CSV file\<close>

lemma mset_js_sort: "mset (js_sort cmp xs) = mset xs"
proof -
  have "mset (js_insert cmp x ys) = add_mset x (mset ys)" for x ys by (induction ys) auto
  then show ?thesis by (induction xs) (simp_all add: js_sort_def)
qed

definition lessons_in :: "csv_module list \<Rightarrow> lesson_payload multiset" where
  "lessons_in ms = (\<Sum>m \<in># mset ms. mset (cs_lessons m))"

lemma lessons_in_simps [simp]:
  "lessons_in [] = {#}" "lessons_in (m # ms) = mset (cs_lessons m) + lessons_in ms"
  "lessons_in (ms @ ns) = lessons_in ms + lessons_in ns" "lessons_in (js_sort cmp ms) = lessons_in ms"
  by (simp_all add: lessons_in_def mset_js_sort)

lemma add_lesson_effect:
  "k \<in> fst ` set ms \<Longrightarrow> lessons_in (map snd (add_lesson k l ms)) = add_mset l (lessons_in (map snd ms))"
proof (induction ms)
  case (Cons x ms)
  then show ?case by (cases "fst x = k"; cases x) auto
qed simp

lemma add_csv_row_lessons:
  "lessons_in (map snd (add_csv_row row ms)) =
    (if filled row ''lesson_title'' then add_mset (csv_lesson row) (lessons_in (map snd ms)) else lessons_in (map snd ms))"
  by (simp add: add_csv_row_def Let_def add_lesson_effect)

lemma csv_rows_lessons:
  "lessons_in (map snd (fold add_csv_row rows ms)) =
    lessons_in (map snd ms) + mset (map csv_lesson (filter (\<lambda>r. filled r ''lesson_title'') rows))"
  by (induction rows arbitrary: ms) (simp_all add: add_csv_row_lessons)

subsection \<open>Failed imports\<close>

lemma persist_lessons_core: "cu_core (snd (persist_lessons cols i ls s)) = cu_core s"
  by (induction ls arbitrary: s) (simp_all split: sum.split)

lemma persist_modules_core: "cu_core (snd (persist_modules cols c ms s)) = cu_core s"
proof (induction ms arbitrary: s)
  case (Cons m ms)
  show ?case
  proof (cases "module_row cols (cu_fresh s) c m")
    case (Inr row)
    let ?s = "s\<lparr>cu_modules := cu_modules s @ [row], cu_fresh := Suc (cu_fresh s)\<rparr>"
    obtain r s1 where run: "persist_lessons cols (cm_id row) (mp_lessons m) ?s = (r, s1)" by fastforce
    then have "cu_core s1 = cu_core s" using persist_lessons_core[of cols "cm_id row" "mp_lessons m" ?s] by simp
    with Inr run Cons.IH[of s1] show ?thesis by (cases r) simp_all
  qed simp
qed simp

lemma persistCourse_courses:
  assumes "persistCourse cols p u s = (r, s')"
  shows "(\<exists>e. r = Inl e \<and> s' = s) \<or>
    (\<exists>c. courses (cu_core s') = courses (cu_core s) @ [c] \<and> co_id c = fresh (cu_core s) \<and> co_instructorId c = Some u \<and>
      co_status c = DRAFT \<and> \<not> co_isPublished c)"
proof (cases "new_course_row cols (fresh (cu_core s)) u p")
  case (Inl e)
  with assms show ?thesis by (auto simp: persistCourse_def)
next
  case (Inr c)
  then have c: "co_id c = fresh (cu_core s)" "co_instructorId c = Some u" "co_status c = DRAFT" "\<not> co_isPublished c"
    by (auto simp: new_course_row_def both_def new_course_def split: sum.splits)
  obtain q s1 where run: "persist_modules cols (co_id c) (ic_modules p) (add_course c s) = (q, s1)" by fastforce
  then have "courses (cu_core s1) = courses (cu_core s) @ [c]"
    using persist_modules_core[of cols "co_id c" "ic_modules p" "add_course c s"] by (simp add: add_course_def)
  moreover have "s' = s1" using assms Inr run by (cases q) (auto simp: persistCourse_def)
  ultimately show ?thesis using c by blast
qed

subsection \<open>Properties\<close>

definition plain_columns :: columns where
  "plain_columns = \<lparr>text_of = (\<lambda>j. case j of JStr s \<Rightarrow> s | _ \<Rightarrow> []),
     int_of = (\<lambda>j. case j of JNum r \<Rightarrow> if of_int \<lfloor>r\<rfloor> = r then Some \<lfloor>r\<rfloor> else None | _ \<Rightarrow> None),
     bool_of = (\<lambda>j. case j of JBool b \<Rightarrow> Some b | _ \<Rightarrow> None)\<rparr>"

lemma plain_columns_ok: "columns_ok plain_columns"
  by (simp add: columns_ok_def plain_columns_def)

definition one_course :: curriculum where
  "one_course = \<lparr>cu_core = empty_core\<lparr>courses := [(new_course 0 ''t'')\<lparr>co_description := ''d''\<rparr>], fresh := 1\<rparr>,
     cu_modules = [\<lparr>cm_id = 0, cm_courseId = 0, cm_title = ''m'', cm_order = 2, cm_releaseDate = None\<rparr>],
     cu_lessons = [], cu_unlocked = [], cu_notifications = [], cu_fresh = 1\<rparr>"



text \<open>A CSV file keeps every lesson: the modules of the imported course hold exactly the rows that name a lesson,
  however the rows of one module are spread over the file.\<close>

theorem csv_keeps_lessons:
  "(\<Sum>m \<in># mset (ic_modules (csv_payload rows)). mset (mp_lessons m)) =
    mset (map csv_lesson (filter (\<lambda>r. filled r ''lesson_title'') rows))"
proof -
  let ?ms = "js_sort csv_order (map snd (fold add_csv_row rows []))"
  have "(\<Sum>m \<in># mset (ic_modules (csv_payload rows)). mset (mp_lessons m)) = lessons_in ?ms"
    by (simp add: csv_payload_def Let_def lessons_in_def multiset.map_comp comp_def)
  then show ?thesis by (simp add: csv_rows_lessons)
qed

end
