(* ===== verification/Scorm.thy ===== *)
theory Scorm
  imports ImportExport "HOL-Library.Sublist"
begin

text \<open>
  The SCORM strategy (\<open>import-export/strategies/scorm-import.strategy.ts\<close>): the extraction of the archive below a
  temporary directory, the reading of the manifest, and the course it describes. A path is the list of its segments from
  the root; \<open>path.resolve\<close> is modelled on strings and segments as on a POSIX system, with a normalised absolute
  directory. The file system holds files and directories. The ZIP and XML parsers are parameters: the first gives the
  entries of the archive, each with its content or a stream error, the second the object of the manifest. Attributes are
  strings, as the XML parser makes them.
\<close>

type_synonym path = "string list"

record file_system =
  fs_files :: "(path \<times> string) list"
  fs_dirs :: "path list"

subsection \<open>Paths\<close>

definition slash :: char where
  "slash = CHR ''/''"

fun split_path :: "string \<Rightarrow> string list" where
  "split_path [] = [[]]"
| "split_path (c # cs) =
     (if c = slash then [] # split_path cs else (case split_path cs of [] \<Rightarrow> [[c]] | p # ps \<Rightarrow> (c # p) # ps))"

text \<open>The segments of a path string, applied to a directory one after the other.\<close>

definition step_into :: "path \<Rightarrow> string \<Rightarrow> path" where
  "step_into d seg = (if seg = [] \<or> seg = ''.'' then d else if seg = ''..'' then butlast d else d @ [seg])"

definition path_resolve :: "path \<Rightarrow> string \<Rightarrow> path" where
  "path_resolve d name =
     (let start = (case name of [] \<Rightarrow> d | c # _ \<Rightarrow> if c = slash then [] else d)
      in foldl step_into start (split_path name))"

definition path_string :: "path \<Rightarrow> string" where
  "path_string p = (if p = [] then [slash] else concat (map (\<lambda>s. slash # s) p))"

definition resolveSafe :: "path \<Rightarrow> string \<Rightarrow> path option" where
  "resolveSafe destDir entryName =
     (if entryName = [] \<or> char_of (0 :: nat) \<in> set entryName then None
      else
        (let resolved = path_resolve destDir entryName
         in if path_string resolved \<noteq> path_string destDir \<and> \<not> prefix (path_string destDir @ [slash]) (path_string resolved) then None
            else Some resolved))"

subsection \<open>The file system\<close>

definition is_file :: "path \<Rightarrow> file_system \<Rightarrow> bool" where
  "is_file p fs \<longleftrightarrow> p \<in> fst ` set (fs_files fs)"

definition path_exists :: "path \<Rightarrow> file_system \<Rightarrow> bool" where
  "path_exists p fs \<longleftrightarrow> is_file p fs \<or> p \<in> set (fs_dirs fs)"

text \<open>\<open>mkdir\<close> with \<open>recursive\<close>: every missing directory on the way; a file on the way is an error.\<close>

definition mkdir_p :: "path \<Rightarrow> file_system \<Rightarrow> http_error + file_system" where
  "mkdir_p p fs =
     (if \<exists>q \<in> set (prefixes p). is_file q fs then Inl (JsError ''EEXIST'')
      else Inr (fs\<lparr>fs_dirs := fs_dirs fs @ filter (\<lambda>q. q \<notin> set (fs_dirs fs)) (prefixes p)\<rparr>))"

definition write_file :: "path \<Rightarrow> string \<Rightarrow> file_system \<Rightarrow> http_error + file_system" where
  "write_file p content fs =
     (if p \<in> set (fs_dirs fs) then Inl (JsError ''EISDIR'')
      else Inr (fs\<lparr>fs_files := (p, content) # filter (\<lambda>f. fst f \<noteq> p) (fs_files fs)\<rparr>))"

definition readFile :: "path \<Rightarrow> file_system \<Rightarrow> string option" where
  "readFile p fs = (if p \<in> set (fs_dirs fs) then None else map_of (fs_files fs) p)"

subsection \<open>Extraction\<close>

type_synonym zip_entry = "string \<times> string option"

definition extract_entry :: "path \<Rightarrow> zip_entry \<Rightarrow> file_system \<Rightarrow> http_error + file_system" where
  "extract_entry destDir entry fs =
     (case resolveSafe destDir (fst entry) of
        None \<Rightarrow> Inr fs
      | Some p \<Rightarrow>
          if last (fst entry) = slash then mkdir_p p fs
          else
            (case snd entry of
               None \<Rightarrow> Inl (JsError ''Failed to open entry read stream'')
             | Some content \<Rightarrow> both (mkdir_p (butlast p) fs) (write_file p content)))"

fun extract_entries :: "path \<Rightarrow> zip_entry list \<Rightarrow> file_system \<Rightarrow> http_error + file_system" where
  "extract_entries destDir [] fs = Inr fs"
| "extract_entries destDir (e # es) fs = both (extract_entry destDir e fs) (extract_entries destDir es)"

definition streamExtract :: "(string \<Rightarrow> zip_entry list option) \<Rightarrow> string \<Rightarrow> path \<Rightarrow> file_system \<Rightarrow> http_error + file_system" where
  "streamExtract unzip zipFile destDir fs =
     (case unzip zipFile of
        None \<Rightarrow> Inl (BadRequestException ''Invalid ZIP/SCORM package'')
      | Some es \<Rightarrow> extract_entries destDir es fs)"

subsection \<open>The manifest\<close>

definition manifest_name :: string where
  "manifest_name = ''imsmanifest.xml''"

definition subdirectories :: "path \<Rightarrow> file_system \<Rightarrow> path list" where
  "subdirectories dir fs = filter (\<lambda>d. d \<noteq> [] \<and> butlast d = dir) (fs_dirs fs)"

definition findManifest :: "path \<Rightarrow> file_system \<Rightarrow> path option" where
  "findManifest dir fs =
     (if path_exists (dir @ [manifest_name]) fs then Some (dir @ [manifest_name])
      else map_option (\<lambda>d. d @ [manifest_name]) (find (\<lambda>d. path_exists (d @ [manifest_name]) fs) (subdirectories dir fs)))"

text \<open>\<open>v ?? d\<close>, and a list that the XML parser folds to its only element.\<close>

definition nullish_or :: "js_field \<Rightarrow> js_field \<Rightarrow> js_field" where
  "nullish_or v d = (case v of Undefined \<Rightarrow> d | Value JNull \<Rightarrow> d | _ \<Rightarrow> v)"

definition as_list :: "js_field \<Rightarrow> json list" where
  "as_list v = (case v of Value (JArr xs) \<Rightarrow> xs | Value j \<Rightarrow> if json_truthy v then [j] else [] | _ \<Rightarrow> [])"

definition first_or_self :: "js_field \<Rightarrow> js_field" where
  "first_or_self v = (case v of Value (JArr []) \<Rightarrow> Undefined | Value (JArr (x # _)) \<Rightarrow> Value x | _ \<Rightarrow> v)"

definition extractScormTitle :: "js_field \<Rightarrow> js_field" where
  "extractScormTitle organizations = opt_prop (first_or_self (opt_prop organizations ''organization'')) ''title''"

definition attribute :: "json \<Rightarrow> string \<Rightarrow> http_error + string option" where
  "attribute j k =
     both (get_prop j ''$'') (\<lambda>attrs. Inr (case opt_prop attrs k of Value (JStr v) \<Rightarrow> Some v | _ \<Rightarrow> None))"

fun buildResourceMap :: "path \<Rightarrow> file_system \<Rightarrow> json list \<Rightarrow> (string \<times> string) list \<Rightarrow> http_error + (string \<times> string) list" where
  "buildResourceMap dir fs [] acc = Inr acc"
| "buildResourceMap dir fs (r # rs) acc =
     both (attribute r ''identifier'') (\<lambda>i. both (attribute r ''href'') (\<lambda>h.
       buildResourceMap dir fs rs
         (case (i, h) of
            (Some k, Some href) \<Rightarrow>
              if k = [] \<or> href = [] then acc
              else
                (case resolveSafe dir href of
                   None \<Rightarrow> acc
                 | Some p \<Rightarrow> (case readFile p fs of None \<Rightarrow> acc | Some text \<Rightarrow> (k, text) # acc))
          | _ \<Rightarrow> acc)))"

definition resource_content :: "(string \<times> string) list \<Rightarrow> json \<Rightarrow> http_error + js_field" where
  "resource_content resources item =
     both (attribute item ''identifierref'') (\<lambda>ref.
       Inr (Value (JStr (case map_of resources (case ref of None \<Rightarrow> [] | Some k \<Rightarrow> k) of None \<Rightarrow> [] | Some t \<Rightarrow> t))))"

definition scorm_lesson :: "js_field \<Rightarrow> js_field \<Rightarrow> nat \<Rightarrow> lesson_payload" where
  "scorm_lesson title content n = \<lparr>lp_title = title, lp_content = content, lp_videoUrl = Undefined,
     lp_order = Value (JNum (of_nat n)), lp_durationMinutes = Value (JNum 0)\<rparr>"

fun scorm_lessons :: "(string \<times> string) list \<Rightarrow> nat \<Rightarrow> json list \<Rightarrow> http_error + lesson_payload list" where
  "scorm_lessons resources n [] = Inr []"
| "scorm_lessons resources n (i # is) =
     both (get_prop i ''title'') (\<lambda>title. both (resource_content resources i) (\<lambda>content. both (scorm_lessons resources (Suc n) is) (\<lambda>rest.
       Inr (scorm_lesson (nullish_or title (Value (JStr (''Lesson '' @ string_of_nat (Suc n))))) content n # rest))))"

fun scorm_modules :: "(string \<times> string) list \<Rightarrow> nat \<Rightarrow> json list \<Rightarrow> http_error + module_payload list" where
  "scorm_modules resources n [] = Inr []"
| "scorm_modules resources n (i # is) =
     both (get_prop i ''title'') (\<lambda>t. both (get_prop i ''item'') (\<lambda>sub.
       (let title = nullish_or t (Value (JStr (''Module '' @ string_of_nat (Suc n)))); subs = as_list sub
        in both (if subs \<noteq> [] then scorm_lessons resources 0 subs
                 else both (resource_content resources i) (\<lambda>content. Inr [scorm_lesson title content 0])) (\<lambda>lessons.
           both (scorm_modules resources (Suc n) is) (\<lambda>rest.
             Inr (\<lparr>mp_title = title, mp_order = Value (JNum (of_nat n)), mp_lessons = lessons\<rparr> # rest))))))"

definition parseScormManifest :: "json \<Rightarrow> path \<Rightarrow> file_system \<Rightarrow> http_error + course_payload" where
  "parseScormManifest manifest extractDir fs =
     both (get_prop manifest ''manifest'') (\<lambda>root.
       (let metadata = opt_prop root ''metadata''; organizations = opt_prop root ''organizations'';
            title = nullish_or (nullish_or (opt_prop metadata ''schema'') (extractScormTitle organizations))
              (Value (JStr ''Imported SCORM Course''));
            org = first_or_self (opt_prop organizations ''organization'')
        in both (buildResourceMap extractDir fs (as_list (opt_prop (opt_prop root ''resources'') ''resource'')) []) (\<lambda>resources.
           both (scorm_modules resources 0 (as_list (opt_prop org ''item''))) (\<lambda>modules.
             Inr \<lparr>ic_title = nullish_or (opt_prop org ''title'') title, ic_description = Value (JStr ''Imported from SCORM package''),
                  ic_level = Value (JStr ''beginner''), ic_durationHours = Value (JNum 0), ic_requiresKyc = Value (JBool False),
                  ic_modules = modules\<rparr>))))"

definition processExtracted ::
  "(string \<Rightarrow> http_error + json) \<Rightarrow> columns \<Rightarrow> path \<Rightarrow> file_system \<Rightarrow> uuid \<Rightarrow> curriculum \<Rightarrow> (curriculum, uuid) outcome" where
  "processExtracted parseXml cols extractDir fs userId s =
     (case findManifest extractDir fs of
        None \<Rightarrow> (Inl (BadRequestException ''imsmanifest.xml not found in package''), s)
      | Some p \<Rightarrow>
          (case readFile p fs of
             None \<Rightarrow> (Inl (JsError ''EISDIR''), s)
           | Some xml \<Rightarrow>
               (case both (parseXml xml) (\<lambda>manifest. parseScormManifest manifest extractDir fs) of
                  Inl e \<Rightarrow> (Inl e, s)
                | Inr payload \<Rightarrow> persistCourse cols payload userId s)))"

text \<open>The extraction directory is fresh, and removed with all below it at the end.\<close>

definition remove_below :: "path \<Rightarrow> file_system \<Rightarrow> file_system" where
  "remove_below d fs = fs\<lparr>fs_files := filter (\<lambda>f. \<not> prefix d (fst f)) (fs_files fs), fs_dirs := filter (\<lambda>q. \<not> prefix d q) (fs_dirs fs)\<rparr>"

text \<open>The files as the extraction left them, also when it stopped at an error: a failed extraction is only followed by the
  removal, so the files it wrote need not be told apart.\<close>

definition importFromPath ::
  "(string \<Rightarrow> zip_entry list option) \<Rightarrow> (string \<Rightarrow> http_error + json) \<Rightarrow> columns \<Rightarrow> path \<Rightarrow> string \<Rightarrow> uuid \<Rightarrow> file_system \<Rightarrow> curriculum
   \<Rightarrow> (file_system \<times> curriculum, uuid) outcome" where
  "importFromPath unzip parseXml cols extractDir zipFile userId fs s =
     (let fs0 = fs\<lparr>fs_dirs := fs_dirs fs @ [extractDir]\<rparr>
      in case streamExtract unzip zipFile extractDir fs0 of
           Inl e \<Rightarrow> (Inl e, remove_below extractDir fs0, s)
         | Inr fs1 \<Rightarrow>
             (let (r, s1) = processExtracted parseXml cols extractDir fs1 userId s
              in (r, remove_below extractDir fs1, s1)))"

subsection \<open>Resolved paths\<close>

definition normal_path :: "path \<Rightarrow> bool" where
  "normal_path p \<longleftrightarrow> (\<forall>s \<in> set p. s \<noteq> [] \<and> slash \<notin> set s)"

lemma split_path_nonempty [simp]: "split_path s \<noteq> []"
  by (induction s) (auto split: list.split)

lemma split_path_append: "split_path (xs @ slash # r) = split_path xs @ split_path r"
  by (induction xs) (auto split: list.split)

lemma split_path_plain: "slash \<notin> set s \<Longrightarrow> split_path s = [s]"
  by (induction s) auto

lemma split_path_no_slash: "\<forall>seg \<in> set (split_path s). slash \<notin> set seg"
proof (induction s)
  case (Cons c s)
  obtain p ps where "split_path s = p # ps" using split_path_nonempty by (metis list.exhaust)
  with Cons show ?case by auto
qed simp

lemma split_segments:
  "slash \<notin> set s \<Longrightarrow> normal_path p \<Longrightarrow> split_path (s @ concat (map (\<lambda>s. slash # s) p)) = s # p"
proof (induction p arbitrary: s)
  case (Cons t p)
  then have "split_path (t @ concat (map (\<lambda>s. slash # s) p)) = t # p" by (intro Cons.IH) (auto simp: normal_path_def)
  then show ?case using split_path_append[of s "t @ concat (map (\<lambda>s. slash # s) p)"] Cons.prems(1) by (simp add: split_path_plain)
qed (simp add: split_path_plain)

lemma split_path_string:
  assumes "normal_path p" "p \<noteq> []"
  shows "split_path (path_string p) = [] # p"
  using split_segments[of "[]" p] assms by (simp add: path_string_def)

lemma normal_step: "normal_path d \<Longrightarrow> slash \<notin> set seg \<Longrightarrow> normal_path (step_into d seg)"
  by (auto simp: step_into_def normal_path_def dest: in_set_butlastD)

lemma normal_steps: "\<forall>seg \<in> set segs. slash \<notin> set seg \<Longrightarrow> normal_path d \<Longrightarrow> normal_path (foldl step_into d segs)"
  by (induction segs arbitrary: d) (simp_all add: normal_step)

lemma normal_resolve:
  assumes "normal_path d"
  shows "normal_path (path_resolve d name)"
proof -
  have "normal_path (case name of [] \<Rightarrow> d | c # _ \<Rightarrow> if c = slash then [] else d)"
    using assms by (simp add: normal_path_def split: list.split)
  from normal_steps[OF split_path_no_slash this] show ?thesis by (simp add: path_resolve_def Let_def)
qed

text \<open>The test on strings is the test on segments: a safe path lies at or below the directory.\<close>

lemma resolveSafe_inside:
  assumes "normal_path d" "d \<noteq> []" "resolveSafe d name = Some p"
  shows "prefix d p" "normal_path p"
proof -
  have p: "p = path_resolve d name" and ok: "path_string p = path_string d \<or> prefix (path_string d @ [slash]) (path_string p)"
    using assms(3) by (auto simp: resolveSafe_def Let_def split: if_splits)
  show normal: "normal_path p" unfolding p by (rule normal_resolve[OF assms(1)])
  have d: "split_path (path_string d) = [] # d" by (rule split_path_string[OF assms(1,2)])
  show "prefix d p"
  proof (cases "p = []")
    case True
    with ok consider "path_string d = [slash]" | r where "slash # [] = path_string d @ slash # r"
      by (auto simp: path_string_def prefix_def)
    then show ?thesis
    proof cases
      case 1
      with d have "d = [[]]" by simp
      with assms(1) show ?thesis by (simp add: normal_path_def)
    next
      case 2
      with assms(2) show ?thesis by (cases d) (auto simp: path_string_def)
    qed
  next
    case False
    then have s: "split_path (path_string p) = [] # p" by (rule split_path_string[OF normal])
    from ok show ?thesis
    proof
      assume "path_string p = path_string d"
      with s d have "[] # p = [] # d" by metis
      then show ?thesis by simp
    next
      assume "prefix (path_string d @ [slash]) (path_string p)"
      then obtain r where "path_string p = path_string d @ slash # r" by (auto simp: prefix_def)
      with s d split_path_append[of "path_string d" r] have "p = d @ split_path r" by simp
      then show ?thesis by simp
    qed
  qed
qed

subsection \<open>What an extraction touches\<close>

definition below :: "path \<Rightarrow> path \<Rightarrow> bool" where
  "below d p \<longleftrightarrow> prefix d p"

text \<open>The extraction directory exists, with everything above it.\<close>

definition tmp_ok :: "path \<Rightarrow> file_system \<Rightarrow> bool" where
  "tmp_ok d fs \<longleftrightarrow> normal_path d \<and> d \<noteq> [] \<and> (\<forall>q \<in> set (prefixes d). q \<in> set (fs_dirs fs) \<and> \<not> is_file q fs)"

definition outside :: "path \<Rightarrow> file_system \<Rightarrow> (path \<times> string) list \<times> path list" where
  "outside d fs = (filter (\<lambda>f. \<not> prefix d (fst f)) (fs_files fs), filter (\<lambda>q. \<not> prefix d q) (fs_dirs fs))"

definition inside :: "path \<Rightarrow> file_system \<Rightarrow> (path \<times> string) list \<times> path list" where
  "inside d fs = (filter (\<lambda>f. prefix d (fst f)) (fs_files fs), filter (\<lambda>q. prefix d q) (fs_dirs fs))"

lemma mkdir_below:
  assumes "tmp_ok d fs" "prefix d p"
  shows "mkdir_p p fs =
    (if \<exists>q \<in> set (prefixes p). prefix d q \<and> is_file q fs then Inl (JsError ''EEXIST'')
     else Inr (fs\<lparr>fs_dirs := fs_dirs fs @ filter (\<lambda>q. prefix d q \<and> q \<notin> set (fs_dirs fs)) (prefixes p)\<rparr>))"
proof -
  have above: "q \<in> set (fs_dirs fs) \<and> \<not> is_file q fs" if "q \<in> set (prefixes p)" "\<not> prefix d q" for q
  proof -
    have "prefix q d" using that assms(2) prefix_same_cases by (metis in_set_prefixes)
    then show ?thesis using assms(1) by (simp add: tmp_ok_def)
  qed
  then have "(\<exists>q \<in> set (prefixes p). is_file q fs) = (\<exists>q \<in> set (prefixes p). prefix d q \<and> is_file q fs)" by blast
  moreover have "filter (\<lambda>q. q \<notin> set (fs_dirs fs)) (prefixes p) = filter (\<lambda>q. prefix d q \<and> q \<notin> set (fs_dirs fs)) (prefixes p)"
    using above by (intro filter_cong) auto
  ultimately show ?thesis by (simp add: mkdir_p_def)
qed

lemma mkdir_above:
  assumes "tmp_ok d fs"
  shows "mkdir_p (butlast d) fs = Inr fs"
proof -
  have "q \<in> set (fs_dirs fs) \<and> \<not> is_file q fs" if "q \<in> set (prefixes (butlast d))" for q
  proof -
    have "prefix q d" using that prefix_order.trans[OF _ prefixeq_butlast] by simp
    then show ?thesis using assms by (simp add: tmp_ok_def)
  qed
  then show ?thesis by (auto simp: mkdir_p_def filter_empty_conv)
qed

lemma mkdir_frame:
  assumes "tmp_ok d fs" "prefix d p" "mkdir_p p fs = Inr fs'"
  shows "tmp_ok d fs'" "outside d fs' = outside d fs"
proof -
  have fs': "fs' = fs\<lparr>fs_dirs := fs_dirs fs @ filter (\<lambda>q. prefix d q \<and> q \<notin> set (fs_dirs fs)) (prefixes p)\<rparr>"
    using assms(3) by (simp add: mkdir_below[OF assms(1,2)] split: if_splits)
  show "tmp_ok d fs'" using assms(1) unfolding fs' by (simp add: tmp_ok_def is_file_def)
  show "outside d fs' = outside d fs" unfolding fs' by (simp add: outside_def filter_empty_conv)
qed

lemma write_frame:
  assumes "tmp_ok d fs" "prefix d p" "write_file p c fs = Inr fs'"
  shows "tmp_ok d fs'" "outside d fs' = outside d fs"
proof -
  have fs': "p \<notin> set (fs_dirs fs)" "fs' = fs\<lparr>fs_files := (p, c) # filter (\<lambda>f. fst f \<noteq> p) (fs_files fs)\<rparr>"
    using assms(3) by (auto simp: write_file_def split: if_splits)
  then have "\<not> prefix p d" using assms(1) by (auto simp: tmp_ok_def)
  with fs' assms(1) show "tmp_ok d fs'" by (auto simp: tmp_ok_def is_file_def)
  have "filter (\<lambda>f. \<not> prefix d (fst f)) (filter (\<lambda>f. fst f \<noteq> p) xs) = filter (\<lambda>f. \<not> prefix d (fst f)) xs" for xs :: "(path \<times> string) list"
    using assms(2) by (induction xs) auto
  with fs' assms(2) show "outside d fs' = outside d fs" by (simp add: outside_def)
qed

lemma below_butlast:
  assumes "prefix d p"
  shows "p = d \<or> prefix d (butlast p)"
  using assms by (cases p rule: rev_cases) auto

lemma extract_entry_frame:
  assumes "tmp_ok d fs" "extract_entry d e fs = Inr fs'"
  shows "tmp_ok d fs' \<and> outside d fs' = outside d fs"
proof (cases "resolveSafe d (fst e)")
  case (Some p)
  have "normal_path d" "d \<noteq> []" using assms(1) by (simp_all add: tmp_ok_def)
  note p = resolveSafe_inside(1)[OF this Some]
  show ?thesis
  proof (cases "last (fst e) = slash")
    case True
    then show ?thesis using mkdir_frame[OF assms(1) p] assms(2) Some by (simp add: extract_entry_def)
  next
    case False
    with assms(2) Some obtain c fs1 where run: "mkdir_p (butlast p) fs = Inr fs1" "write_file p c fs1 = Inr fs'"
      by (auto simp: extract_entry_def both_def split: option.splits sum.splits)
    have fs1: "tmp_ok d fs1" "outside d fs1 = outside d fs"
      using below_butlast[OF p] mkdir_frame[OF assms(1) _ run(1)] mkdir_above[OF assms(1)] run(1) assms(1) by auto
    show ?thesis using write_frame[OF fs1(1) p run(2)] fs1(2) by simp
  qed
qed (use assms in \<open>simp add: extract_entry_def\<close>)

lemma extract_entries_frame:
  "tmp_ok d fs \<Longrightarrow> extract_entries d es fs = Inr fs' \<Longrightarrow> tmp_ok d fs' \<and> outside d fs' = outside d fs"
proof (induction es arbitrary: fs)
  case (Cons e es)
  then obtain fs1 where "extract_entry d e fs = Inr fs1" "extract_entries d es fs1 = Inr fs'"
    by (auto simp: both_def split: sum.splits)
  with Cons.IH[of fs1] extract_entry_frame[OF Cons.prems(1)] show ?case by auto
qed simp

subsection \<open>What an import depends on\<close>

definition same_inside :: "path \<Rightarrow> http_error + file_system \<Rightarrow> http_error + file_system \<Rightarrow> bool" where
  "same_inside d r q \<longleftrightarrow>
     (case (r, q) of (Inl e, Inl f) \<Rightarrow> e = f | (Inr a, Inr b) \<Rightarrow> tmp_ok d a \<and> tmp_ok d b \<and> inside d a = inside d b | _ \<Rightarrow> False)"

lemma inside_files:
  assumes "inside d a = inside d b" "prefix d p"
  shows "is_file p a = is_file p b" "p \<in> set (fs_dirs a) \<longleftrightarrow> p \<in> set (fs_dirs b)" "map_of (fs_files a) p = map_of (fs_files b) p"
proof -
  have files: "filter (\<lambda>f. prefix d (fst f)) (fs_files a) = filter (\<lambda>f. prefix d (fst f)) (fs_files b)"
    and dirs: "filter (\<lambda>q. prefix d q) (fs_dirs a) = filter (\<lambda>q. prefix d q) (fs_dirs b)"
    using assms(1) by (simp_all add: inside_def)
  have "is_file p c = (p \<in> fst ` set (filter (\<lambda>f. prefix d (fst f)) (fs_files c)))" for c
    using assms(2) by (force simp: is_file_def)
  then show "is_file p a = is_file p b" by (simp only: files)
  have "p \<in> set (fs_dirs c) \<longleftrightarrow> p \<in> set (filter (\<lambda>q. prefix d q) (fs_dirs c))" for c :: file_system using assms(2) by simp
  then show "p \<in> set (fs_dirs a) \<longleftrightarrow> p \<in> set (fs_dirs b)" by (simp only: dirs)
  have "map_of (filter (\<lambda>f. prefix d (fst f)) xs) p = map_of xs p" for xs :: "(path \<times> string) list"
    using assms(2) by (induction xs) auto
  then show "map_of (fs_files a) p = map_of (fs_files b) p" by (metis files)
qed

lemma mkdir_inside:
  assumes "tmp_ok d a" "tmp_ok d b" "inside d a = inside d b" "prefix d p"
  shows "same_inside d (mkdir_p p a) (mkdir_p p b)"
proof -
  note same = inside_files[OF assms(3)]
  have blocked: "(\<exists>q \<in> set (prefixes p). prefix d q \<and> is_file q a) = (\<exists>q \<in> set (prefixes p). prefix d q \<and> is_file q b)"
    using same(1) by blast
  have made: "filter (\<lambda>q. prefix d q \<and> q \<notin> set (fs_dirs a)) (prefixes p) = filter (\<lambda>q. prefix d q \<and> q \<notin> set (fs_dirs b)) (prefixes p)"
    using same(2) by (intro filter_cong) auto
  show ?thesis
  proof (cases "\<exists>q \<in> set (prefixes p). prefix d q \<and> is_file q b")
    case True
    with blocked show ?thesis
      unfolding mkdir_below[OF assms(1,4)] mkdir_below[OF assms(2,4)] by (simp add: same_inside_def)
  next
    case False
    let ?a = "a\<lparr>fs_dirs := fs_dirs a @ filter (\<lambda>q. prefix d q \<and> q \<notin> set (fs_dirs b)) (prefixes p)\<rparr>"
    let ?b = "b\<lparr>fs_dirs := fs_dirs b @ filter (\<lambda>q. prefix d q \<and> q \<notin> set (fs_dirs b)) (prefixes p)\<rparr>"
    have run: "mkdir_p p a = Inr ?a" "mkdir_p p b = Inr ?b"
      using False blocked by (simp_all only: mkdir_below[OF assms(1,4)] mkdir_below[OF assms(2,4)] made if_False)
    have "inside d ?a = inside d ?b" using assms(3) by (simp add: inside_def)
    then show ?thesis
      using mkdir_frame(1)[OF assms(1,4) run(1)] mkdir_frame(1)[OF assms(2,4) run(2)] unfolding run by (simp add: same_inside_def)
  qed
qed

lemma write_inside:
  assumes "tmp_ok d a" "tmp_ok d b" "inside d a = inside d b" "prefix d p"
  shows "same_inside d (write_file p c a) (write_file p c b)"
proof (cases "p \<in> set (fs_dirs b)")
  case True
  then show ?thesis using inside_files(2)[OF assms(3,4)] by (simp add: write_file_def same_inside_def)
next
  case False
  let ?w = "\<lambda>fs. fs\<lparr>fs_files := (p, c) # filter (\<lambda>f. fst f \<noteq> p) (fs_files fs)\<rparr>"
  have run: "write_file p c a = Inr (?w a)" "write_file p c b = Inr (?w b)"
    using False inside_files(2)[OF assms(3,4)] by (simp_all add: write_file_def)
  have swap: "filter (\<lambda>f. prefix d (fst f)) (filter (\<lambda>f. fst f \<noteq> p) xs) = filter (\<lambda>f. fst f \<noteq> p) (filter (\<lambda>f. prefix d (fst f)) xs)"
    for xs :: "(path \<times> string) list" by (simp add: conj_commute)
  have "inside d (?w a) = inside d (?w b)" using assms(3,4) by (simp add: inside_def swap del: filter_filter)
  then show ?thesis
    using write_frame(1)[OF assms(1,4) run(1)] write_frame(1)[OF assms(2,4) run(2)] unfolding run by (simp add: same_inside_def)
qed

lemma same_inside_both:
  assumes "same_inside d r q" "\<And>a b. tmp_ok d a \<Longrightarrow> tmp_ok d b \<Longrightarrow> inside d a = inside d b \<Longrightarrow> same_inside d (f a) (f b)"
  shows "same_inside d (both r f) (both q f)"
  using assms by (cases r; cases q) (auto simp: same_inside_def)

lemma extract_entry_inside:
  assumes "tmp_ok d a" "tmp_ok d b" "inside d a = inside d b"
  shows "same_inside d (extract_entry d e a) (extract_entry d e b)"
proof (cases "resolveSafe d (fst e)")
  case (Some p)
  have "normal_path d" "d \<noteq> []" using assms(1) by (simp_all add: tmp_ok_def)
  note p = resolveSafe_inside(1)[OF this Some]
  have above: "same_inside d (mkdir_p (butlast p) a) (mkdir_p (butlast p) b)"
    using below_butlast[OF p] mkdir_inside[OF assms] mkdir_above[OF assms(1)] mkdir_above[OF assms(2)] assms
    by (auto simp: same_inside_def)
  show ?thesis
  proof (cases "last (fst e) = slash")
    case True
    then show ?thesis using mkdir_inside[OF assms p] by (simp add: extract_entry_def Some)
  next
    case False
    then show ?thesis
      using same_inside_both[OF above write_inside[OF _ _ _ p]]
      by (simp add: extract_entry_def Some same_inside_def split: option.split)
  qed
qed (use assms in \<open>simp add: extract_entry_def same_inside_def\<close>)

lemma extract_entries_inside:
  "tmp_ok d a \<Longrightarrow> tmp_ok d b \<Longrightarrow> inside d a = inside d b \<Longrightarrow> same_inside d (extract_entries d es a) (extract_entries d es b)"
proof (induction es arbitrary: a b)
  case Nil
  then show ?case by (simp add: same_inside_def)
next
  case (Cons e es)
  then show ?case using same_inside_both[OF extract_entry_inside[OF Cons.prems] Cons.IH] by simp
qed

lemma readFile_inside:
  assumes "inside d a = inside d b" "prefix d p"
  shows "readFile p a = readFile p b"
  using inside_files[OF assms] by (simp add: readFile_def)

lemma resources_inside:
  assumes "tmp_ok d a" "inside d a = inside d b"
  shows "buildResourceMap d a rs acc = buildResourceMap d b rs acc"
proof (induction rs arbitrary: acc)
  case (Cons r rs)
  have read: "readFile p a = readFile p b" if "resolveSafe d h = Some p" for h p
    using readFile_inside[OF assms(2)] resolveSafe_inside(1)[OF _ _ that] assms(1) by (simp add: tmp_ok_def)
  show ?case
    by (simp add: Cons both_def read split: sum.split option.split cong: option.case_cong)
qed simp

lemma manifest_inside:
  assumes "inside d a = inside d b"
  shows "findManifest d a = findManifest d b"
proof -
  have exists: "path_exists p a = path_exists p b" if "prefix d p" for p
    using inside_files[OF assms that] by (simp add: path_exists_def)
  have "subdirectories d c = filter (\<lambda>q. q \<noteq> [] \<and> butlast q = d) (filter (\<lambda>q. prefix d q) (fs_dirs c))" for c
  proof -
    have "q \<noteq> [] \<Longrightarrow> butlast q = d \<Longrightarrow> prefix d q" for q using prefixeq_butlast[of q] by blast
    then show ?thesis by (auto simp: subdirectories_def intro!: filter_cong)
  qed
  moreover have "filter (\<lambda>q. prefix d q) (fs_dirs a) = filter (\<lambda>q. prefix d q) (fs_dirs b)"
    using assms by (simp add: inside_def)
  ultimately have subs: "subdirectories d a = subdirectories d b" by metis
  have "find (\<lambda>q. path_exists (q @ [manifest_name]) a) ds = find (\<lambda>q. path_exists (q @ [manifest_name]) b) ds"
    if "\<forall>q \<in> set ds. prefix d q" for ds
    using that by (induction ds) (simp_all add: exists)
  moreover have "\<forall>q \<in> set (subdirectories d b). prefix d q"
    using prefixeq_butlast by (auto simp: subdirectories_def)
  ultimately show ?thesis by (simp add: findManifest_def exists subs)
qed

lemma findManifest_prefix: "findManifest d fs = Some p \<Longrightarrow> prefix d p"
  by (auto simp: findManifest_def subdirectories_def split: if_splits dest!: find_SomeD)
    (metis append.assoc append_butlast_last_id prefixI)

lemma processExtracted_inside:
  assumes "tmp_ok d a" "inside d a = inside d b"
  shows "processExtracted xml cols d a u s = processExtracted xml cols d b u s"
proof -
  have "parseScormManifest m d a = parseScormManifest m d b" for m
    by (simp add: parseScormManifest_def Let_def resources_inside[OF assms])
  moreover have "readFile p a = readFile p b" if "findManifest d b = Some p" for p
    using readFile_inside[OF assms(2) findManifest_prefix[OF that]] .
  ultimately show ?thesis
    by (simp add: processExtracted_def manifest_inside[OF assms(2)] split: option.split cong: option.case_cong)
qed

subsection \<open>Properties\<close>

text \<open>A directory that can be made: its parents exist, and nothing lies at or below it.\<close>

definition fresh_dir :: "path \<Rightarrow> file_system \<Rightarrow> bool" where
  "fresh_dir d fs \<longleftrightarrow> normal_path d \<and> d \<noteq> [] \<and> (\<forall>q \<in> set (prefixes (butlast d)). q \<in> set (fs_dirs fs) \<and> \<not> is_file q fs) \<and>
     list_all (\<lambda>f. \<not> prefix d (fst f)) (fs_files fs) \<and> list_all (\<lambda>q. \<not> prefix d q) (fs_dirs fs)"

lemma fresh_tmp_ok:
  assumes "fresh_dir d fs"
  shows "tmp_ok d (fs\<lparr>fs_dirs := fs_dirs fs @ [d]\<rparr>)"
    "inside d (fs\<lparr>fs_dirs := fs_dirs fs @ [d]\<rparr>) = ([], [d])" "outside d (fs\<lparr>fs_dirs := fs_dirs fs @ [d]\<rparr>) = (fs_files fs, fs_dirs fs)"
proof -
  have "\<not> is_file d fs" using assms by (auto simp: fresh_dir_def is_file_def list_all_iff)
  moreover have "d \<noteq> []" using assms by (simp add: fresh_dir_def)
  then have "prefix q d \<longleftrightarrow> q = d \<or> prefix q (butlast d)" for q by (cases d rule: rev_cases) auto
  moreover have "is_file q (fs\<lparr>fs_dirs := fs_dirs fs @ [d]\<rparr>) = is_file q fs" for q by (simp add: is_file_def)
  ultimately show "tmp_ok d (fs\<lparr>fs_dirs := fs_dirs fs @ [d]\<rparr>)"
    using assms by (auto simp: fresh_dir_def tmp_ok_def)
  show "inside d (fs\<lparr>fs_dirs := fs_dirs fs @ [d]\<rparr>) = ([], [d])" "outside d (fs\<lparr>fs_dirs := fs_dirs fs @ [d]\<rparr>) = (fs_files fs, fs_dirs fs)"
    using assms by (auto simp: fresh_dir_def inside_def outside_def list_all_iff filter_empty_conv filter_id_conv)
qed

lemma remove_below_outside: "outside d fs = (fs_files g, fs_dirs g) \<Longrightarrow> remove_below d fs = g"
  by (simp add: outside_def remove_below_def)





end
