(* ===== verification/BulkImport.thy ===== *)
theory BulkImport
  imports Scorm "HOL-Library.AList"
begin

text \<open>
  The import service (\<open>import-export/import-export.service.ts\<close>): the choice of a strategy by media type, and the bulk
  import, whose job runs after the request returned. The parsers, the database's conversions and the names of temporary
  files are parameters, gathered in \<open>import_env\<close>.
\<close>

datatype import_strategy = JsonStrategy | CsvStrategy | ScormStrategy

datatype import_job_status = ImportPending | ImportProcessing | ImportDone | ImportFailed

record import_job =
  ij_id :: uuid
  ij_instructorId :: uuid
  ij_status :: import_job_status
  ij_total :: nat
  ij_processed :: nat
  ij_error :: "string option"
  ij_result :: "(string \<times> (http_error + uuid)) list option"

record import_env =
  parse_json :: "string \<Rightarrow> json option"
  parse_csv :: "string \<Rightarrow> csv_row list option"
  unzip :: "string \<Rightarrow> zip_entry list option"
  parse_xml :: "string \<Rightarrow> http_error + json"
  db_columns :: columns
  temp_file :: "nat \<Rightarrow> path"
  temp_dir :: "nat \<Rightarrow> path"

record import_db =
  im_curriculum :: curriculum
  im_fs :: file_system
  im_jobs :: "import_job list"
  im_fresh :: nat

definition ends_with :: "string \<Rightarrow> string \<Rightarrow> bool" where
  "ends_with s t = suffix t s"

fun canHandle :: "import_strategy \<Rightarrow> string \<Rightarrow> bool" where
  "canHandle JsonStrategy m \<longleftrightarrow> m = ''application/json'' \<or> m = ''application/x-json'' \<or> ends_with m ''+json''"
| "canHandle CsvStrategy m \<longleftrightarrow> m = ''text/csv'' \<or> m = ''application/csv'' \<or> ends_with m ''.csv''"
| "canHandle ScormStrategy m \<longleftrightarrow> m = ''application/zip'' \<or> m = ''application/x-zip-compressed'' \<or> ends_with m ''.zip''"

definition getStrategy :: "string \<Rightarrow> http_error + import_strategy" where
  "getStrategy mimeType =
     (case find (\<lambda>s. canHandle s mimeType) [JsonStrategy, CsvStrategy, ScormStrategy] of
        None \<Rightarrow> Inl (BadRequestException (''Unsupported import format: '' @ mimeType))
      | Some s \<Rightarrow> Inr s)"

text \<open>The upload is spilled to a temporary file, imported from there, and the file is removed.\<close>

definition scorm_import :: "import_env \<Rightarrow> string \<Rightarrow> uuid \<Rightarrow> import_db \<Rightarrow> (import_db, uuid) outcome" where
  "scorm_import e file userId s =
     (let tmpFile = temp_file e (im_fresh s); dir = temp_dir e (im_fresh s)
      in case write_file tmpFile file (im_fs s) of
           Inl err \<Rightarrow> (Inl err, s\<lparr>im_fresh := Suc (im_fresh s)\<rparr>)
         | Inr fs1 \<Rightarrow>
             (let (r, fs2, c) = importFromPath (unzip e) (parse_xml e) (db_columns e) dir file userId fs1 (im_curriculum s)
              in (r, s\<lparr>im_curriculum := c, im_fs := fs2\<lparr>fs_files := filter (\<lambda>f. fst f \<noteq> tmpFile) (fs_files fs2)\<rparr>,
                     im_fresh := Suc (im_fresh s)\<rparr>)))"

definition in_curriculum :: "(curriculum, uuid) outcome \<Rightarrow> import_db \<Rightarrow> (import_db, uuid) outcome" where
  "in_curriculum r s = (fst r, s\<lparr>im_curriculum := snd r\<rparr>)"

definition importWithStrategy :: "import_env \<Rightarrow> string \<Rightarrow> string \<Rightarrow> uuid \<Rightarrow> import_db \<Rightarrow> (import_db, uuid) outcome" where
  "importWithStrategy e file mimeType userId s =
     (case getStrategy mimeType of
        Inl err \<Rightarrow> (Inl err, s)
      | Inr JsonStrategy \<Rightarrow> in_curriculum (json_import (parse_json e) (db_columns e) file userId (im_curriculum s)) s
      | Inr CsvStrategy \<Rightarrow> in_curriculum (csv_import (parse_csv e) (db_columns e) file userId (im_curriculum s)) s
      | Inr ScormStrategy \<Rightarrow> scorm_import e file userId s)"

definition resolveMimeType :: "string \<Rightarrow> string" where
  "resolveMimeType fileName =
     (let n = toLowerCase fileName
      in if ends_with n ''.zip'' then ''application/zip'' else if ends_with n ''.csv'' then ''text/csv'' else ''application/json'')"

definition startBulkImport :: "(string \<times> string) list \<Rightarrow> uuid \<Rightarrow> import_db \<Rightarrow> import_job \<times> import_db" where
  "startBulkImport buffers instructorId s =
     (let j = \<lparr>ij_id = im_fresh s, ij_instructorId = instructorId, ij_status = ImportPending, ij_total = length buffers,
               ij_processed = 0, ij_error = None, ij_result = None\<rparr>
      in (j, s\<lparr>im_jobs := im_jobs s @ [j], im_fresh := Suc (im_fresh s)\<rparr>))"

definition getJobStatus :: "uuid \<Rightarrow> import_db \<Rightarrow> http_error + import_job" where
  "getJobStatus jobId s =
     (case find (\<lambda>j. ij_id j = jobId) (im_jobs s) of
        None \<Rightarrow> Inl (NotFoundException ''Import job not found'')
      | Some j \<Rightarrow> Inr j)"

definition update_job :: "uuid \<Rightarrow> (import_job \<Rightarrow> import_job) \<Rightarrow> import_db \<Rightarrow> import_db" where
  "update_job jobId f s = s\<lparr>im_jobs := update_rows (\<lambda>j. ij_id j = jobId) f (im_jobs s)\<rparr>"

fun import_files ::
  "import_env \<Rightarrow> uuid \<Rightarrow> uuid \<Rightarrow> nat \<Rightarrow> (string \<times> string) list \<Rightarrow> (string \<times> (http_error + uuid)) list \<Rightarrow> import_db
   \<Rightarrow> (string \<times> (http_error + uuid)) list \<times> import_db" where
  "import_files e jobId userId processed [] results s = (results, s)"
| "import_files e jobId userId processed ((name, content) # fs) results s =
     (let (r, s1) = importWithStrategy e content (resolveMimeType name) userId s
      in import_files e jobId userId (Suc processed) fs (AList.update name r results)
           (update_job jobId (\<lambda>j. j\<lparr>ij_processed := Suc processed\<rparr>) s1))"

definition processBulk :: "import_env \<Rightarrow> uuid \<Rightarrow> (string \<times> string) list \<Rightarrow> uuid \<Rightarrow> import_db \<Rightarrow> import_db" where
  "processBulk e jobId buffers instructorId s =
     (let (results, s1) = import_files e jobId instructorId 0 buffers [] (update_job jobId (\<lambda>j. j\<lparr>ij_status := ImportProcessing\<rparr>) s)
      in update_job jobId (\<lambda>j. j\<lparr>ij_status := ImportDone, ij_result := Some results\<rparr>) s1)"

subsection \<open>Lemmas\<close>

text \<open>What an import adds to the courses: drafts of the importing user.\<close>

definition adds_drafts :: "uuid \<Rightarrow> import_db \<Rightarrow> import_db \<Rightarrow> bool" where
  "adds_drafts u s s' \<longleftrightarrow> (\<exists>cs. courses (cu_core (im_curriculum s')) = courses (cu_core (im_curriculum s)) @ cs \<and>
     (\<forall>c \<in> set cs. co_instructorId c = Some u \<and> co_status c = DRAFT \<and> \<not> co_isPublished c))"

lemma adds_drafts_refl: "im_curriculum s' = im_curriculum s \<Longrightarrow> adds_drafts u s s'"
  by (simp add: adds_drafts_def)

lemma adds_drafts_trans [trans]: "adds_drafts u s s1 \<Longrightarrow> adds_drafts u s1 s2 \<Longrightarrow> adds_drafts u s s2"
  unfolding adds_drafts_def by (metis (no_types, lifting) Un_iff append.assoc set_append)

lemma persist_drafts:
  assumes "persistCourse cols p u (im_curriculum s) = (r, im_curriculum s')"
  shows "adds_drafts u s s' \<and> (\<forall>i. r = Inr i \<longrightarrow> i \<in> co_id ` set (courses (cu_core (im_curriculum s'))))"
proof -
  have "\<forall>i. r = Inr i \<longrightarrow> i = fresh (cu_core (im_curriculum s))"
    using assms
    by (auto simp: persistCourse_def await_def new_course_row_def both_def new_course_def split: sum.splits prod.splits)
  with persistCourse_courses[OF assms] show ?thesis by (force simp: adds_drafts_def)
qed

lemma extracted_drafts:
  assumes "processExtracted xml cols d fs u (im_curriculum s) = (r, im_curriculum s')"
  shows "adds_drafts u s s' \<and> (\<forall>i. r = Inr i \<longrightarrow> i \<in> co_id ` set (courses (cu_core (im_curriculum s'))))"
  using assms persist_drafts by (auto simp: processExtracted_def adds_drafts_def split: option.splits sum.splits)

definition books_import :: "uuid \<Rightarrow> import_db \<Rightarrow> import_db \<Rightarrow> http_error + uuid \<Rightarrow> bool" where
  "books_import u s s' r \<longleftrightarrow> adds_drafts u s s' \<and> im_jobs s' = im_jobs s \<and>
     (\<forall>i. r = Inr i \<longrightarrow> i \<in> co_id ` set (courses (cu_core (im_curriculum s'))))"

lemma import_books:
  assumes "importWithStrategy e file m u s = (r, s')"
  shows "books_import u s s' r"
proof -
  have json: "books_import u s (s\<lparr>im_curriculum := snd q\<rparr>) (fst q)"
    if "persistCourse cols p u (im_curriculum s) = q \<or> q = (Inl x, im_curriculum s)" for q cols p x
    using that persist_drafts[of cols p u s "fst q" "s\<lparr>im_curriculum := snd q\<rparr>"]
    by (auto simp: books_import_def adds_drafts_refl)
  show ?thesis
  proof (cases "getStrategy m")
    case (Inl err)
    with assms show ?thesis by (auto simp: importWithStrategy_def books_import_def adds_drafts_refl)
  next
    case (Inr st)
    show ?thesis
    proof (cases st)
      case JsonStrategy
      have "\<exists>cols p x. persistCourse cols p u (im_curriculum s) = json_import (parse_json e) (db_columns e) file u (im_curriculum s) \<or>
          json_import (parse_json e) (db_columns e) file u (im_curriculum s) = (Inl x, im_curriculum s)"
        by (auto simp: json_import_def split: option.split sum.split)
      then obtain cols p x where "persistCourse cols p u (im_curriculum s) = json_import (parse_json e) (db_columns e) file u (im_curriculum s) \<or>
          json_import (parse_json e) (db_columns e) file u (im_curriculum s) = (Inl x, im_curriculum s)" by blast
      from json[OF this] show ?thesis using assms by (simp add: importWithStrategy_def Inr JsonStrategy in_curriculum_def)
    next
      case CsvStrategy
      have "\<exists>cols p x. persistCourse cols p u (im_curriculum s) = csv_import (parse_csv e) (db_columns e) file u (im_curriculum s) \<or>
          csv_import (parse_csv e) (db_columns e) file u (im_curriculum s) = (Inl x, im_curriculum s)"
        by (auto simp: csv_import_def split: option.split)
      then obtain cols p x where "persistCourse cols p u (im_curriculum s) = csv_import (parse_csv e) (db_columns e) file u (im_curriculum s) \<or>
          csv_import (parse_csv e) (db_columns e) file u (im_curriculum s) = (Inl x, im_curriculum s)" by blast
      from json[OF this] show ?thesis using assms by (simp add: importWithStrategy_def Inr CsvStrategy in_curriculum_def)
    next
      case ScormStrategy
      have run: "scorm_import e file u s = (r, s')" using assms by (simp add: importWithStrategy_def Inr ScormStrategy)
      show ?thesis
      proof (cases "write_file (temp_file e (im_fresh s)) file (im_fs s)")
        case (Inl err)
        with run show ?thesis by (auto simp: scorm_import_def Let_def books_import_def adds_drafts_refl)
      next
        case (Inr fs1)
        obtain q fs2 c where path: "importFromPath (unzip e) (parse_xml e) (db_columns e) (temp_dir e (im_fresh s)) file u fs1 (im_curriculum s) = (q, fs2, c)"
          by (metis prod.collapse)
        have "r = q" "im_curriculum s' = c" "im_jobs s' = im_jobs s" using run by (auto simp: scorm_import_def Let_def Inr path)
        moreover have "adds_drafts u s s' \<and> (\<forall>i. q = Inr i \<longrightarrow> i \<in> co_id ` set (courses (cu_core (im_curriculum s'))))"
        proof (cases "streamExtract (unzip e) file (temp_dir e (im_fresh s)) (fs1\<lparr>fs_dirs := fs_dirs fs1 @ [temp_dir e (im_fresh s)]\<rparr>)")
          case (Inl err)
          with path calculation show ?thesis by (auto simp: importFromPath_def Let_def adds_drafts_refl)
        next
          case (Inr fs3)
          with path have "processExtracted (parse_xml e) (db_columns e) (temp_dir e (im_fresh s)) fs3 u (im_curriculum s) = (q, c)"
            by (auto simp: importFromPath_def Let_def split: prod.splits)
          with calculation extracted_drafts show ?thesis by blast
        qed
        ultimately show ?thesis by (simp add: books_import_def)
      qed
    qed
  qed
qed

lemma update_job_simps [simp]:
  "im_curriculum (update_job i f s) = im_curriculum s" "im_jobs (update_job i f s) = update_rows (\<lambda>j. ij_id j = i) f (im_jobs s)"
  by (simp_all add: update_job_def)

lemma keys_update: "fst ` set (AList.update k v xs) = insert k (fst ` set xs)"
  by (induction xs) auto

lemma update_mem: "(i, q) \<in> set (AList.update k v xs) \<Longrightarrow> (i, q) \<in> set xs \<or> q = v"
  by (induction xs) (auto split: if_splits)

text \<open>A finished run of the files: every name has a result, every success a course, and the counter stands at the end.\<close>

lemma import_files_books:
  assumes "import_files e jobId u n fs results s = (results', s')"
    and "\<forall>(name, r) \<in> set results. \<forall>i. r = Inr i \<longrightarrow> i \<in> co_id ` set (courses (cu_core (im_curriculum s)))"
  shows "adds_drafts u s s' \<and> fst ` set results' = fst ` set results \<union> fst ` set fs \<and>
    (\<forall>(name, r) \<in> set results'. \<forall>i. r = Inr i \<longrightarrow> i \<in> co_id ` set (courses (cu_core (im_curriculum s')))) \<and>
    (fs \<noteq> [] \<longrightarrow> im_jobs s' = update_rows (\<lambda>j. ij_id j = jobId) (\<lambda>j. j\<lparr>ij_processed := n + length fs\<rparr>) (im_jobs s))"
  using assms
proof (induction fs arbitrary: n results s)
  case Nil
  then show ?case by (simp add: adds_drafts_refl)
next
  case (Cons f fs)
  obtain name content where f: "f = (name, content)" by fastforce
  obtain r s1 where one: "importWithStrategy e content (resolveMimeType name) u s = (r, s1)" by fastforce
  let ?s2 = "update_job jobId (\<lambda>j. j\<lparr>ij_processed := Suc n\<rparr>) s1"
  have b: "adds_drafts u s s1" "im_jobs s1 = im_jobs s" "\<forall>i. r = Inr i \<longrightarrow> i \<in> co_id ` set (courses (cu_core (im_curriculum s1)))"
    using import_books[OF one] by (simp_all add: books_import_def)
  have run: "import_files e jobId u (Suc n) fs (AList.update name r results) ?s2 = (results', s')"
    using Cons.prems(1) by (simp add: f one)
  have kept: "\<forall>(k, q) \<in> set (AList.update name r results). \<forall>i. q = Inr i \<longrightarrow> i \<in> co_id ` set (courses (cu_core (im_curriculum ?s2)))"
  proof -
    have old: "co_id ` set (courses (cu_core (im_curriculum s))) \<subseteq> co_id ` set (courses (cu_core (im_curriculum s1)))"
      using b(1) by (auto simp: adds_drafts_def)
    show ?thesis
    proof (clarify)
      fix k i assume "(k, Inr i) \<in> set (AList.update name r results)"
      then have "(k, Inr i) \<in> set results \<or> Inr i = r" by (rule update_mem)
      then show "i \<in> co_id ` set (courses (cu_core (im_curriculum ?s2)))"
      proof
        assume "(k, Inr i) \<in> set results"
        with Cons.prems(2) have "i \<in> co_id ` set (courses (cu_core (im_curriculum s)))" by blast
        with old show ?thesis by auto
      qed (use b(3) in simp)
    qed
  qed
  have names: "fst ` set (AList.update name r results) = insert name (fst ` set results)"
    by (rule keys_update)
  have jobs: "update_rows (\<lambda>j. ij_id j = jobId) (\<lambda>j. j\<lparr>ij_processed := Suc n + length fs\<rparr>) (im_jobs ?s2)
      = update_rows (\<lambda>j. ij_id j = jobId) (\<lambda>j. j\<lparr>ij_processed := Suc n + length fs\<rparr>) (im_jobs s)"
    by (simp add: b(2) update_rows_def)
  from Cons.IH[OF run kept] have rest: "adds_drafts u ?s2 s'" "fst ` set results' = fst ` set (AList.update name r results) \<union> fst ` set fs"
    "\<forall>(k, q) \<in> set results'. \<forall>i. q = Inr i \<longrightarrow> i \<in> co_id ` set (courses (cu_core (im_curriculum s')))"
    "fs \<noteq> [] \<longrightarrow> im_jobs s' = update_rows (\<lambda>j. ij_id j = jobId) (\<lambda>j. j\<lparr>ij_processed := Suc n + length fs\<rparr>) (im_jobs ?s2)"
    by blast+
  have "adds_drafts u s s'"
    using adds_drafts_trans[OF b(1) adds_drafts_trans[OF adds_drafts_refl rest(1)]] by simp
  moreover have "im_jobs s' = update_rows (\<lambda>j. ij_id j = jobId) (\<lambda>j. j\<lparr>ij_processed := n + length (f # fs)\<rparr>) (im_jobs s)"
  proof (cases "fs = []")
    case True
    with run b(2) show ?thesis by auto
  next
    case False
    with rest(4) jobs show ?thesis by simp
  qed
  ultimately show ?case using rest(2,3) names by (simp add: f)
qed

subsection \<open>Properties\<close>

text \<open>A bulk import ends with its job done and all its files processed; every file name has a result, a success names
  a course that is stored, a file that fails stops no other, and all the import adds are drafts of its user.\<close>

theorem bulk_import_accounts:
  assumes "startBulkImport buffers u s = (j, s0)" "\<forall>k \<in> set (im_jobs s). ij_id k < im_fresh s" "buffers \<noteq> []"
  shows "\<exists>k results. getJobStatus (ij_id j) (processBulk e (ij_id j) buffers u s0) = Inr k \<and> ij_status k = ImportDone \<and>
    ij_processed k = length buffers \<and> ij_total k = length buffers \<and> ij_result k = Some results \<and>
    fst ` set results = fst ` set buffers \<and> adds_drafts u s (processBulk e (ij_id j) buffers u s0) \<and>
    (\<forall>(name, r) \<in> set results. \<forall>i. r = Inr i \<longrightarrow>
       i \<in> co_id ` set (courses (cu_core (im_curriculum (processBulk e (ij_id j) buffers u s0)))))"
proof -
  let ?p = "\<lambda>k. ij_id k = ij_id j" and ?s1 = "update_job (ij_id j) (\<lambda>j. j\<lparr>ij_status := ImportProcessing\<rparr>) s0"
  have s0: "ij_id j = im_fresh s" "im_jobs s0 = im_jobs s @ [j]" "ij_total j = length buffers" "im_curriculum s0 = im_curriculum s"
    using assms(1) by (auto simp: startBulkImport_def Let_def)
  obtain results s2 where run: "import_files e (ij_id j) u 0 buffers [] ?s1 = (results, s2)" by fastforce
  have b: "adds_drafts u ?s1 s2" "fst ` set results = fst ` set buffers"
    "\<forall>(name, r) \<in> set results. \<forall>i. r = Inr i \<longrightarrow> i \<in> co_id ` set (courses (cu_core (im_curriculum s2)))"
    "im_jobs s2 = update_rows ?p (\<lambda>j. j\<lparr>ij_processed := length buffers\<rparr>) (im_jobs ?s1)"
    using import_files_books[OF run] assms(3) by simp_all
  let ?k = "j\<lparr>ij_status := ImportDone, ij_processed := length buffers, ij_result := Some results\<rparr>"
  have done_eq: "processBulk e (ij_id j) buffers u s0 = update_job (ij_id j) (\<lambda>j. j\<lparr>ij_status := ImportDone, ij_result := Some results\<rparr>) s2"
    by (simp add: processBulk_def run)
  have old: "\<not> ?p k" if "k \<in> set (im_jobs s)" for k using assms(2) that by (auto simp: s0(1))
  have "update_rows ?p f (im_jobs s) = im_jobs s" for f using old by (simp add: update_rows_def map_idI)
  then have "im_jobs (processBulk e (ij_id j) buffers u s0) = im_jobs s @ [?k]"
    unfolding done_eq by (simp add: b(4) s0(2) update_rows_def)
  moreover have "find ?p (im_jobs s) = None" using old by (simp add: find_None)
  ultimately have "getJobStatus (ij_id j) (processBulk e (ij_id j) buffers u s0) = Inr ?k"
    by (simp add: getJobStatus_def find_append_None)
  moreover have "adds_drafts u s (processBulk e (ij_id j) buffers u s0)"
    using b(1) by (simp add: done_eq adds_drafts_def s0(4))
  moreover have "im_curriculum (processBulk e (ij_id j) buffers u s0) = im_curriculum s2" by (simp add: done_eq)
  ultimately show ?thesis using b(2,3) s0(3) by (intro exI[of _ ?k] exI[of _ results]) simp
qed

definition plain_env :: import_env where
  "plain_env = \<lparr>parse_json = (\<lambda>_. None), parse_csv = (\<lambda>_. Some [[(''course_title'', ''t''), (''course_description'', ''d'')]]),
     unzip = (\<lambda>_. None), parse_xml = (\<lambda>_. Inr JNull), db_columns = plain_columns, temp_file = (\<lambda>_. [''f'']), temp_dir = (\<lambda>_. [''d''])\<rparr>"

definition fresh_import :: import_db where
  "fresh_import = \<lparr>im_curriculum = one_course, im_fs = \<lparr>fs_files = [], fs_dirs = [[]]\<rparr>, im_jobs = [], im_fresh = 0\<rparr>"

theorem bulk_import_accounts_witness:
  "\<exists>k results. getJobStatus 0 (processBulk plain_env 0 [(''a.json'', []), (''b.CSV'', [])] 7
     (snd (startBulkImport [(''a.json'', []), (''b.CSV'', [])] 7 fresh_import))) = Inr k \<and> ij_status k = ImportDone \<and> ij_processed k = 2 \<and>
     ij_result k = Some results \<and> fst ` set results = {''a.json'', ''b.CSV''}"
proof -
  let ?fs = "[(''a.json'', []), (''b.CSV'', [])]" and ?j = "fst (startBulkImport [(''a.json'', []), (''b.CSV'', [])] 7 fresh_import)"
  have "ij_id ?j = 0" by (simp add: startBulkImport_def fresh_import_def Let_def)
  moreover have "\<forall>k \<in> set (im_jobs fresh_import). ij_id k < im_fresh fresh_import" by (simp add: fresh_import_def)
  ultimately show ?thesis
    using bulk_import_accounts[where buffers = ?fs and u = 7 and s = fresh_import and j = ?j and e = plain_env, OF prod.collapse[symmetric]]
    by fastforce
qed

text \<open>An import that fails half-way keeps what it wrote: when the course row is accepted and a later row is refused,
  the request fails and the course stays, a draft without its remaining modules and lessons.\<close>

theorem failed_import_leaves_course:
  assumes "json_import parse cols file u s = (Inl err, s')" "parse file = Some j" "validateJsonPayload j = Inr p"
    "new_course_row cols (fresh (cu_core s)) u p = Inr c"
  shows "courses (cu_core s') = courses (cu_core s) @ [c]"
proof -
  have "await (persist_modules cols (co_id c) (ic_modules p) (add_course c s)) (\<lambda>_ s1. (Inr (co_id c), s1)) = (Inl err, s')"
    using assms by (simp add: json_import_def persistCourse_def)
  then have "snd (persist_modules cols (co_id c) (ic_modules p) (add_course c s)) = s'"
    by (auto simp: await_def split: prod.splits sum.splits)
  then show ?thesis using persist_modules_core[of cols "co_id c" "ic_modules p" "add_course c s"] by (auto simp: add_course_def)
qed

definition half_course :: json where
  "half_course = JObj [(''course'', JObj [(''title'', JStr ''t''), (''description'', JStr ''d''),
     (''modules'', JArr [JObj [(''title'', JStr ''m''), (''order'', JStr ''x''), (''lessons'', JArr [])]])])]"

theorem failed_import_leaves_course_witness:
  "\<exists>c. courses (cu_core (snd (json_import (\<lambda>_. Some half_course) plain_columns [] 7 one_course))) = courses (cu_core one_course) @ [c]"
proof -
  let ?p = "\<lparr>ic_title = Value (JStr ''t''), ic_description = Value (JStr ''d''), ic_level = Undefined, ic_durationHours = Undefined,
    ic_requiresKyc = Undefined, ic_modules = [\<lparr>mp_title = Value (JStr ''m''), mp_order = Value (JStr ''x''), mp_lessons = []\<rparr>]\<rparr>"
  have v: "validateJsonPayload half_course = Inr ?p"
    by (simp add: validateJsonPayload_def half_course_def opt_prop_def get_prop_def Let_def)
  have "\<exists>c. new_course_row plain_columns (fresh (cu_core one_course)) 7 ?p = Inr c"
    by (simp add: new_course_row_def text_column_def int_column_def kyc_column_def plain_columns_def)
  have bad: "module_row plain_columns i k \<lparr>mp_title = Value (JStr ''m''), mp_order = Value (JStr ''x''), mp_lessons = []\<rparr>
      = Inl (JsError ''invalid input syntax for type integer'')" for i k
    by (simp add: module_row_def text_column_def int_column_def plain_columns_def)
  from \<open>\<exists>c. _\<close> obtain c where c: "new_course_row plain_columns (fresh (cu_core one_course)) 7 ?p = Inr c" by blast
  have "fst (json_import (\<lambda>_. Some half_course) plain_columns [] 7 one_course) = Inl (JsError ''invalid input syntax for type integer'')"
    by (simp add: json_import_def v persistCourse_def c bad)
  then have "json_import (\<lambda>_. Some half_course) plain_columns [] 7 one_course =
      (Inl (JsError ''invalid input syntax for type integer''), snd (json_import (\<lambda>_. Some half_course) plain_columns [] 7 one_course))"
    by (simp add: prod_eq_iff)
  from failed_import_leaves_course[OF this refl v c] show ?thesis by blast
qed

end
