(* ===== verification/Applications.thy ===== *)
theory Applications
  imports Accounts
begin

text \<open>
  Applications to become an instructor (\<open>instructor-applications/instructor-applications.service.ts\<close>). The status of a
  review is any non-empty string: the DTO checks no more. The body of an application is validated by its DTO, which
  leaves the columns \<open>status\<close> and \<open>id\<close> out.
\<close>

record application_form =
  af_bio :: string
  af_expertise :: string
  af_motivation :: string
  af_linkedinUrl :: "string option"
  af_portfolioUrl :: "string option"
  af_agreementAccepted :: bool

record instructor_application =
  ia_id :: uuid
  ia_userId :: uuid
  ia_form :: application_form
  ia_status :: string
  ia_adminNote :: "string option"
  ia_reviewedBy :: "uuid option"
  ia_reviewedAt :: "timestamp option"
  ia_createdAt :: timestamp

record application_db =
  ap_core :: core
  ap_applications :: "instructor_application list"
  ap_fresh :: nat

definition apply_instructor :: "timestamp \<Rightarrow> uuid \<Rightarrow> application_form \<Rightarrow> application_db \<Rightarrow> (application_db, instructor_application) outcome" where
  "apply_instructor now userId dto s =
     (if \<not> af_agreementAccepted dto then (Inl (BadRequestException ''You must accept the instructor agreement''), s)
      else if find (\<lambda>a. ia_userId a = userId \<and> ia_status a = ''pending'') (ap_applications s) \<noteq> None then
        (Inl (ConflictException ''You already have a pending application''), s)
      else
        (case find_user userId (ap_core s) of
           None \<Rightarrow> (Inl (NotFoundException ''User not found''), s)
         | Some u \<Rightarrow>
             if u_role u = ''instructor'' then (Inl (ConflictException ''You are already an instructor''), s)
             else
               (let a = \<lparr>ia_id = ap_fresh s, ia_userId = userId, ia_form = dto, ia_status = ''pending'', ia_adminNote = None,
                         ia_reviewedBy = None, ia_reviewedAt = None, ia_createdAt = now\<rparr>
                in (Inr a, s\<lparr>ap_applications := ap_applications s @ [a], ap_fresh := Suc (ap_fresh s)\<rparr>))))"

definition findMyApplication :: "uuid \<Rightarrow> application_db \<Rightarrow> instructor_application option" where
  "findMyApplication userId s =
     (case order_by_desc ia_createdAt (filter (\<lambda>a. ia_userId a = userId) (ap_applications s)) of [] \<Rightarrow> None | a # _ \<Rightarrow> Some a)"

definition applications_findAll :: "string option \<Rightarrow> application_db \<Rightarrow> instructor_application list" where
  "applications_findAll status s =
     order_by_desc ia_createdAt
       (filter (\<lambda>a. case status of None \<Rightarrow> True | Some t \<Rightarrow> t = [] \<or> ia_status a = t) (ap_applications s))"

definition review_application ::
  "timestamp \<Rightarrow> uuid \<Rightarrow> uuid \<Rightarrow> string \<Rightarrow> string option \<Rightarrow> application_db \<Rightarrow> (application_db, instructor_application) outcome" where
  "review_application now i adminId status note s =
     (case find (\<lambda>a. ia_id a = i) (ap_applications s) of
        None \<Rightarrow> (Inl (NotFoundException ''Application not found''), s)
      | Some a \<Rightarrow>
          if ia_status a \<noteq> ''pending'' then (Inl (BadRequestException ''Application has already been reviewed''), s)
          else
            (let a' = a\<lparr>ia_status := status, ia_adminNote := note, ia_reviewedBy := Some adminId, ia_reviewedAt := Some now\<rparr>;
                 s1 = s\<lparr>ap_applications := save_row ia_id a' (ap_applications s)\<rparr>
             in if status = ''approved'' then
                  (case user_update (ia_userId a) (\<lambda>u. u\<lparr>u_role := ''instructor'', u_isVerified := True\<rparr>) (ap_core s1) of
                     (Inl e, c) \<Rightarrow> (Inl e, s1\<lparr>ap_core := c\<rparr>)
                   | (Inr _, c) \<Rightarrow> (Inr a', s1\<lparr>ap_core := c\<rparr>))
                else (Inr a', s1)))"

datatype application_request =
    Apply timestamp uuid application_form
  | Review timestamp uuid uuid string "string option"

fun application_step :: "application_request \<Rightarrow> application_db \<Rightarrow> unit \<times> application_db" where
  "application_step (Apply now u f) s = ((), snd (apply_instructor now u f s))"
| "application_step (Review now i a st n) s = ((), snd (review_application now i a st n s))"

subsection \<open>Lemmas\<close>

definition applications_ok :: "application_db \<Rightarrow> bool" where
  "applications_ok s \<longleftrightarrow> distinct (map ia_id (ap_applications s)) \<and> (\<forall>a \<in> set (ap_applications s). ia_id a < ap_fresh s) \<and>
     distinct (map ia_userId (filter (\<lambda>a. ia_status a = ''pending'') (ap_applications s)))"

lemma review_cases:
  assumes "applications_ok s"
  obtains (Unchanged) e where "review_application now i ad st n s = (Inl e, s)"
    | (Reviewed) as a bs c r where "ap_applications s = as @ a # bs" "ia_id a = i" "ia_status a = ''pending''"
        "review_application now i ad st n s = (r, s\<lparr>ap_applications :=
           as @ a\<lparr>ia_status := st, ia_adminNote := n, ia_reviewedBy := Some ad, ia_reviewedAt := Some now\<rparr> # bs, ap_core := c\<rparr>)"
        "c = (if st = ''approved'' then snd (user_update (ia_userId a) (\<lambda>u. u\<lparr>u_role := ''instructor'', u_isVerified := True\<rparr>) (ap_core s))
              else ap_core s)"
proof (cases "find (\<lambda>a. ia_id a = i) (ap_applications s)")
  case None
  with Unchanged show thesis by (simp add: review_application_def)
next
  case (Some a)
  then have a: "a \<in> set (ap_applications s)" "ia_id a = i" using find_SomeD by fastforce+
  show thesis
  proof (cases "ia_status a = ''pending''")
    case False
    with Some Unchanged show thesis by (simp add: review_application_def)
  next
    case True
    obtain as bs where split: "ap_applications s = as @ a # bs" using a(1) by (auto simp: in_set_conv_decomp)
    let ?a = "a\<lparr>ia_status := st, ia_adminNote := n, ia_reviewedBy := Some ad, ia_reviewedAt := Some now\<rparr>"
    let ?u = "user_update (ia_userId a) (\<lambda>u. u\<lparr>u_role := ''instructor'', u_isVerified := True\<rparr>) (ap_core s)"
    have row: "save_row ia_id ?a (ap_applications s) = as @ ?a # bs"
      using assms unfolding split by (intro save_row_split) (simp_all add: applications_ok_def split)
    have "\<exists>r. review_application now i ad st n s = (r, s\<lparr>ap_applications := as @ ?a # bs,
        ap_core := (if st = ''approved'' then snd ?u else ap_core s)\<rparr>)"
      using Some True row by (cases ?u; cases "fst ?u") (auto simp: review_application_def Let_def)
    then show thesis using Reviewed[OF split a(2) True _ refl] by blast
  qed
qed

lemma apply_cases:
  obtains (Refused) e where "apply_instructor now u f s = (Inl e, s)"
    | (Applied) a where "apply_instructor now u f s = (Inr a, s\<lparr>ap_applications := ap_applications s @ [a], ap_fresh := Suc (ap_fresh s)\<rparr>)"
        "ia_id a = ap_fresh s" "ia_userId a = u" "ia_status a = ''pending''"
        "\<forall>b \<in> set (ap_applications s). ia_userId b = u \<longrightarrow> ia_status b \<noteq> ''pending''"
proof -
  let ?a = "\<lparr>ia_id = ap_fresh s, ia_userId = u, ia_form = f, ia_status = ''pending'', ia_adminNote = None,
    ia_reviewedBy = None, ia_reviewedAt = None, ia_createdAt = now\<rparr>"
  let ?open = "find (\<lambda>a. ia_userId a = u \<and> ia_status a = ''pending'') (ap_applications s)"
  have "(\<exists>e. apply_instructor now u f s = (Inl e, s)) \<or> ?open = None \<and>
      apply_instructor now u f s = (Inr ?a, s\<lparr>ap_applications := ap_applications s @ [?a], ap_fresh := Suc (ap_fresh s)\<rparr>)"
    by (simp add: apply_instructor_def Let_def split: option.split)
  then show thesis
  proof (elim disjE exE conjE)
    fix e assume "apply_instructor now u f s = (Inl e, s)"
    then show thesis by (rule Refused)
  next
    assume new: "?open = None"
      "apply_instructor now u f s = (Inr ?a, s\<lparr>ap_applications := ap_applications s @ [?a], ap_fresh := Suc (ap_fresh s)\<rparr>)"
    show thesis by (rule Applied[OF new(2)]) (use new(1) in \<open>auto simp: find_None\<close>)
  qed
qed

lemma application_step_ok:
  assumes "applications_ok s"
  shows "applications_ok (snd (application_step r s))"
proof (cases r)
  case (Apply now u f)
  show ?thesis
  proof (cases rule: apply_cases[of now u f s])
    case (Refused e)
    with assms Apply show ?thesis by simp
  next
    case (Applied a)
    with assms Apply show ?thesis by (auto simp: applications_ok_def intro: less_SucI)
  qed
next
  case (Review now i ad st n)
  show ?thesis
  proof (cases rule: review_cases[OF assms, of now i ad st n, case_names Unchanged Reviewed])
    case (Unchanged e)
    with assms Review show ?thesis by simp
  next
    case (Reviewed as a bs c q)
    with assms Review show ?thesis by (auto simp: applications_ok_def)
  qed
qed

interpretation applying: invariant_machine application_step applications_ok
  by unfold_locales (rule application_step_ok)

text \<open>An application that is no longer pending stays.\<close>

lemma decided_stays_step:
  assumes "applications_ok s" "a \<in> set (ap_applications s)" "ia_status a \<noteq> ''pending''"
  shows "a \<in> set (ap_applications (snd (application_step r s)))"
proof (cases r)
  case (Apply now u f)
  then show ?thesis using assms by (cases rule: apply_cases[of now u f s]) auto
next
  case (Review now i ad st n)
  show ?thesis
    by (cases rule: review_cases[OF assms(1), of now i ad st n]) (use assms Review in auto)
qed

lemma decided_stays:
  "applications_ok s \<Longrightarrow> a \<in> set (ap_applications s) \<Longrightarrow> ia_status a \<noteq> ''pending'' \<Longrightarrow>
   a \<in> set (ap_applications (run_ops application_step rs s))"
  by (induction rs arbitrary: s) (auto intro: decided_stays_step application_step_ok)

text \<open>Who is an instructor was one before or has an approved application.\<close>

definition instructors_earned :: "uuid set \<Rightarrow> application_db \<Rightarrow> bool" where
  "instructors_earned initial s \<longleftrightarrow> applications_ok s \<and>
     (\<forall>u \<in> set (users (ap_core s)). u_role u = ''instructor'' \<longrightarrow> u_id u \<in> initial \<or>
        (\<exists>a \<in> set (ap_applications s). ia_userId a = u_id u \<and> ia_status a = ''approved''))"

lemma user_update_users:
  assumes "x \<in> set (users (snd (user_update i f c)))" "\<And>u. u_id (f u) = u_id u"
  shows "x \<in> set (users c) \<or> (u_id x = i \<and> (\<exists>u. x = f u))"
  using assms by (auto simp: user_update_def store_user_def set_save_row split: option.splits if_splits dest: find_user_SomeD)

lemma earned_step:
  assumes "instructors_earned initial s"
  shows "instructors_earned initial (snd (application_step r s))"
proof -
  have ok: "applications_ok s" using assms by (simp add: instructors_earned_def)
  have earned: "\<exists>a \<in> set (ap_applications s). ia_userId a = u_id u \<and> ia_status a = ''approved''"
    if "u \<in> set (users (ap_core s))" "u_role u = ''instructor''" "u_id u \<notin> initial" for u
    using assms that by (auto simp: instructors_earned_def)
  have kept: "\<exists>b \<in> set (ap_applications (snd (application_step r s))). ia_userId b = i \<and> ia_status b = ''approved''"
    if "\<exists>a \<in> set (ap_applications s). ia_userId a = i \<and> ia_status a = ''approved''" for i
    using that decided_stays_step[OF ok] by fastforce
  have "u_id u \<in> initial \<or> (\<exists>a \<in> set (ap_applications (snd (application_step r s))). ia_userId a = u_id u \<and> ia_status a = ''approved'')"
    if u: "u \<in> set (users (ap_core (snd (application_step r s))))" "u_role u = ''instructor''" for u
  proof (cases "u \<in> set (users (ap_core s))")
    case True
    then show ?thesis using earned u(2) kept by blast
  next
    case False
    show ?thesis
    proof (cases r)
      case (Apply now v f)
      with False u(1) show ?thesis by (cases rule: apply_cases[of now v f s]) auto
    next
      case (Review now i ad st n)
      show ?thesis
      proof (cases rule: review_cases[OF ok, of now i ad st n, case_names Unchanged Reviewed])
        case (Unchanged e)
        with False u(1) Review show ?thesis by simp
      next
        case (Reviewed as a bs c q)
        show ?thesis
        proof (cases "st = ''approved''")
          case True
          with Reviewed u(1) Review have "u \<in> set (users (snd (user_update (ia_userId a)
              (\<lambda>u. u\<lparr>u_role := ''instructor'', u_isVerified := True\<rparr>) (ap_core s))))" by simp
          from user_update_users[OF this] False have "u_id u = ia_userId a" by auto
          with Reviewed True Review show ?thesis by simp
        next
          case other: False
          with Reviewed u(1) Review False show ?thesis by simp
        qed
      qed
    qed
  qed
  then show ?thesis using application_step_ok[OF ok] by (simp add: instructors_earned_def)
qed

interpretation earning: invariant_machine application_step "instructors_earned initial" for initial
  by unfold_locales (rule earned_step)

subsection \<open>Properties\<close>

definition sample_form :: application_form where
  "sample_form = \<lparr>af_bio = ''b'', af_expertise = ''e'', af_motivation = ''m'', af_linkedinUrl = None, af_portfolioUrl = None,
     af_agreementAccepted = True\<rparr>"

definition application_start :: "user list \<Rightarrow> application_db" where
  "application_start us = \<lparr>ap_core = empty_core\<lparr>users := us\<rparr>, ap_applications = [], ap_fresh = 0\<rparr>"

text \<open>Through this service nobody becomes an instructor without an approved application: in every history a user with
  that role had it at the start or has an application whose review approved it, and a review once made stays as it is.\<close>

theorem instructor_by_approval:
  assumes "u \<in> set (users (ap_core (run_ops application_step rs (application_start us))))" "u_role u = ''instructor''"
    "u_id u \<notin> u_id ` {v \<in> set us. u_role v = ''instructor''}"
  shows "\<exists>a \<in> set (ap_applications (run_ops application_step rs (application_start us))). ia_userId a = u_id u \<and>
    ia_status a = ''approved'' \<and> (\<forall>qs. a \<in> set (ap_applications (run_ops application_step qs (run_ops application_step rs (application_start us)))))"
proof -
  let ?s = "run_ops application_step rs (application_start us)"
  have "instructors_earned (u_id ` {v \<in> set us. u_role v = ''instructor''}) (application_start us)"
    by (auto simp: instructors_earned_def applications_ok_def application_start_def)
  from earning.run_preserves[OF this, of rs] have s: "instructors_earned (u_id ` {v \<in> set us. u_role v = ''instructor''}) ?s" .
  with assms obtain a where a: "a \<in> set (ap_applications ?s)" "ia_userId a = u_id u" "ia_status a = ''approved''"
    by (auto simp: instructors_earned_def)
  have "applications_ok ?s" using s by (simp add: instructors_earned_def)
  from decided_stays[OF this a(1)] a show ?thesis by auto
qed

theorem instructor_by_approval_witness:
  "\<exists>a. a \<in> set (ap_applications (run_ops application_step [Apply 0 4 sample_form, Review 1 0 9 ''approved'' None]
     (application_start [new_user 4 ''a'']))) \<and> ia_status a = ''approved''"
proof -
  let ?rs = "[Apply 0 4 sample_form, Review 1 0 9 ''approved'' None]"
  let ?u = "(new_user 4 ''a'')\<lparr>u_role := ''instructor'', u_isVerified := True\<rparr>"
  have "?u \<in> set (users (ap_core (run_ops application_step ?rs (application_start [new_user 4 ''a'']))))"
    by (simp add: apply_instructor_def review_application_def application_start_def sample_form_def find_user_def user_update_def
        store_user_def save_user_def save_row_def new_user_def empty_core_def Let_def)
  moreover have "u_role ?u = ''instructor''" "u_id ?u \<notin> u_id ` {v \<in> set [new_user 4 ''a'']. u_role v = ''instructor''}"
    by (auto simp: new_user_def)
  ultimately show ?thesis using instructor_by_approval by blast
qed

text \<open>An approval overwrites the role of its applicant: an administrator whose application is approved is an
  instructor afterwards, and no administrator any more.\<close>

theorem approval_overwrites_admin:
  assumes "find (\<lambda>a. ia_id a = i) (ap_applications s) = Some a" "ia_status a = ''pending''"
    "find_user (ia_userId a) (ap_core s) = Some u" "u_role u = ''admin''"
    "\<forall>v \<in> set (users (ap_core s)). u_id v \<noteq> u_id u \<longrightarrow> \<not> clashes u v"
  shows "\<exists>s' v. review_application now i ad ''approved'' n s = (Inr (a\<lparr>ia_status := ''approved'', ia_adminNote := n,
      ia_reviewedBy := Some ad, ia_reviewedAt := Some now\<rparr>), s') \<and> find_user (u_id u) (ap_core s') = Some v \<and> u_role v = ''instructor''"
proof -
  let ?u = "u\<lparr>u_role := ''instructor'', u_isVerified := True\<rparr>"
  have "\<not> (\<exists>v \<in> set (users (ap_core s)). u_id v \<noteq> u_id ?u \<and> clashes ?u v)"
    using assms(5) by (auto simp: clashes_def)
  then have "user_update (ia_userId a) (\<lambda>u. u\<lparr>u_role := ''instructor'', u_isVerified := True\<rparr>) (ap_core s) = (Inr ?u, save_user ?u (ap_core s))"
    using assms(3) by (simp add: user_update_def store_user_def)
  with assms(1,2) show ?thesis by (simp add: review_application_def Let_def find_user_save_user)
qed

theorem approval_overwrites_admin_witness:
  "\<exists>s' v a. review_application 1 0 9 ''approved'' None (snd (apply_instructor 0 4 sample_form
      (application_start [(new_user 4 ''a'')\<lparr>u_role := ''admin''\<rparr>]))) = (Inr a, s') \<and> find_user 4 (ap_core s') = Some v \<and> u_role v = ''instructor''"
proof -
  let ?s = "snd (apply_instructor 0 4 sample_form (application_start [(new_user 4 ''a'')\<lparr>u_role := ''admin''\<rparr>]))"
  obtain a where a: "find (\<lambda>a. ia_id a = 0) (ap_applications ?s) = Some a" "ia_status a = ''pending''" "ia_userId a = 4"
    by (simp add: apply_instructor_def application_start_def sample_form_def find_user_def new_user_def empty_core_def Let_def)
  have u: "find_user 4 (ap_core ?s) = Some ((new_user 4 ''a'')\<lparr>u_role := ''admin''\<rparr>)"
    "users (ap_core ?s) = [(new_user 4 ''a'')\<lparr>u_role := ''admin''\<rparr>]"
    by (simp_all add: apply_instructor_def application_start_def sample_form_def find_user_def new_user_def empty_core_def Let_def)
  show ?thesis
    using approval_overwrites_admin[OF a(1,2), of "(new_user 4 ''a'')\<lparr>u_role := ''admin''\<rparr>" 1 9 None] u a(3)
    by (auto simp: new_user_def)
qed

end
