(* ===== verification/Reminders.thy ===== *)
theory Reminders
  imports Entities
begin

text \<open>
  Reminders to learners (\<open>reminders/reminders.service.ts\<close>). A run reads the clock once. The mail service answers whether
  it sent a mail; a mail that cannot be sent ends the run. \<open>rm_log\<close> logs the mails with the row that stands for them.
  The query of a page is ordered by the key, and its rows do not change while the run goes on.
\<close>

record reminder =
  rd_id :: uuid
  rd_userId :: uuid
  rd_courseId :: uuid
  rd_lastReminderSentAt :: timestamp
  rd_isActive :: bool

record reminder_db =
  rm_core :: core
  rm_reminders :: "reminder list"
  rm_log :: "(uuid \<times> timestamp) list"
  rm_fresh :: nat

record reminder_config =
  rc_inactivityDays :: int
  rc_frequencyHours :: int

definition batchSize :: nat where
  "batchSize = 100"

definition inactive_enrollments :: "timestamp \<Rightarrow> reminder_db \<Rightarrow> enrollment list" where
  "inactive_enrollments cutoffDate s =
     filter (\<lambda>e. en_completedAt e = None \<and> en_enrolledAt e < cutoffDate) (enrollments (rm_core s))"

definition find_reminder :: "uuid \<Rightarrow> uuid \<Rightarrow> reminder_db \<Rightarrow> reminder option" where
  "find_reminder userId courseId s = find (\<lambda>r. rd_userId r = userId \<and> rd_courseId r = courseId) (rm_reminders s)"

definition remind_learner :: "(string \<Rightarrow> bool) \<Rightarrow> reminder_config \<Rightarrow> timestamp \<Rightarrow> enrollment \<Rightarrow> reminder_db \<Rightarrow> (reminder_db, unit) outcome" where
  "remind_learner mailOk cfg now e s =
     (case find_reminder (en_userId e) (en_courseId e) s of
        None \<Rightarrow> (Inr (), s)
      | Some r \<Rightarrow>
          if \<not> rd_isActive r then (Inr (), s)
          else if now < rd_lastReminderSentAt r + rc_frequencyHours cfg * 60 * 60 * 1000 then (Inr (), s)
          else
            (case (find_user (en_userId e) (rm_core s), find_course (en_courseId e) (rm_core s)) of
               (Some u, Some c) \<Rightarrow>
                 if \<not> mailOk (u_email u) then (Inl (JsError ''mail''), s)
                 else (Inr (), s\<lparr>rm_reminders := save_row rd_id (r\<lparr>rd_lastReminderSentAt := now\<rparr>) (rm_reminders s),
                                 rm_log := rm_log s @ [(rd_id r, now)]\<rparr>)
             | _ \<Rightarrow> (Inl JsTypeError, s)))"

fun remind_each :: "(string \<Rightarrow> bool) \<Rightarrow> reminder_config \<Rightarrow> timestamp \<Rightarrow> enrollment list \<Rightarrow> reminder_db \<Rightarrow> (reminder_db, unit) outcome" where
  "remind_each mailOk cfg now [] s = (Inr (), s)"
| "remind_each mailOk cfg now (e # es) s = await (remind_learner mailOk cfg now e s) (\<lambda>_. remind_each mailOk cfg now es)"

text \<open>The loop over the pages of the enrollments of the query.\<close>

function remind_pages ::
  "(string \<Rightarrow> bool) \<Rightarrow> reminder_config \<Rightarrow> timestamp \<Rightarrow> enrollment list \<Rightarrow> nat \<Rightarrow> reminder_db \<Rightarrow> (reminder_db, unit) outcome" where
  "remind_pages mailOk cfg now hits offset s =
     (let page = take batchSize (drop offset hits)
      in if page = [] then (Inr (), s)
         else await (remind_each mailOk cfg now page s) (\<lambda>_. remind_pages mailOk cfg now hits (offset + batchSize)))"
  by pat_completeness auto
termination
  by (relation "measure (\<lambda>(_, _, _, hits, offset, _). length hits - offset)") (auto simp: batchSize_def)

declare remind_pages.simps [simp del]

definition sendInactiveReminders :: "(string \<Rightarrow> bool) \<Rightarrow> reminder_config \<Rightarrow> timestamp \<Rightarrow> reminder_db \<Rightarrow> (reminder_db, unit) outcome" where
  "sendInactiveReminders mailOk cfg now s =
     remind_pages mailOk cfg now (inactive_enrollments (now - rc_inactivityDays cfg * 86400000) s) 0 s"

definition createReminder :: "timestamp \<Rightarrow> uuid \<Rightarrow> uuid \<Rightarrow> reminder_db \<Rightarrow> reminder \<times> reminder_db" where
  "createReminder now userId courseId s =
     (let r = \<lparr>rd_id = rm_fresh s, rd_userId = userId, rd_courseId = courseId, rd_lastReminderSentAt = now, rd_isActive = True\<rparr>
      in (r, s\<lparr>rm_reminders := rm_reminders s @ [r], rm_fresh := Suc (rm_fresh s)\<rparr>))"

definition set_active :: "bool \<Rightarrow> uuid \<Rightarrow> uuid \<Rightarrow> reminder_db \<Rightarrow> reminder_db" where
  "set_active b userId courseId s =
     s\<lparr>rm_reminders := update_rows (\<lambda>r. rd_userId r = userId \<and> rd_courseId r = courseId) (rd_isActive_update (\<lambda>_. b)) (rm_reminders s)\<rparr>"

definition disableReminder :: "uuid \<Rightarrow> uuid \<Rightarrow> reminder_db \<Rightarrow> reminder_db" where
  "disableReminder = set_active False"

definition enableReminder :: "uuid \<Rightarrow> uuid \<Rightarrow> reminder_db \<Rightarrow> reminder_db" where
  "enableReminder = set_active True"

text \<open>Total, active, and sent since midnight.\<close>

definition getReminderStats :: "timestamp \<Rightarrow> reminder_db \<Rightarrow> nat \<times> nat \<times> nat" where
  "getReminderStats now s =
     (length (rm_reminders s), count_rows rd_isActive (rm_reminders s),
      count_rows (\<lambda>r. now div 86400000 * 86400000 \<le> rd_lastReminderSentAt r) (rm_reminders s))"

datatype reminder_request =
    SendInactive timestamp
  | CreateReminder timestamp uuid uuid
  | SetActive bool uuid uuid

fun reminder_step :: "(string \<Rightarrow> bool) \<Rightarrow> reminder_config \<Rightarrow> reminder_request \<Rightarrow> reminder_db \<Rightarrow> unit \<times> reminder_db" where
  "reminder_step mailOk cfg (SendInactive now) s = ((), snd (sendInactiveReminders mailOk cfg now s))"
| "reminder_step mailOk cfg (CreateReminder now u c) s = ((), snd (createReminder now u c s))"
| "reminder_step mailOk cfg (SetActive b u c) s = ((), (if b then enableReminder else disableReminder) u c s)"

subsection \<open>The pages together\<close>

lemma remind_each_append:
  "remind_each m cfg now (xs @ ys) s = await (remind_each m cfg now xs s) (\<lambda>_. remind_each m cfg now ys)"
  by (induction xs arbitrary: s) (simp_all add: await_def split: prod.split sum.split)

lemma remind_pages_all:
  "remind_pages m cfg now hits offset s = remind_each m cfg now (drop offset hits) s"
proof (induction "length hits - offset" arbitrary: offset s rule: less_induct)
  case less
  let ?page = "take batchSize (drop offset hits)"
  show ?case
  proof (cases "?page = []")
    case True
    then have "drop offset hits = []" by (simp add: batchSize_def)
    then show ?thesis using True by (subst remind_pages.simps) simp
  next
    case False
    then have "length hits - (offset + batchSize) < length hits - offset" by (auto simp: batchSize_def)
    then have next_page: "remind_pages m cfg now hits (offset + batchSize) = remind_each m cfg now (drop (offset + batchSize) hits)"
      by (intro ext less)
    have "drop offset hits = ?page @ drop (offset + batchSize) hits"
      by (metis append_take_drop_id drop_drop add.commute)
    then have "remind_each m cfg now (drop offset hits) s =
        await (remind_each m cfg now ?page s) (\<lambda>_. remind_each m cfg now (drop (offset + batchSize) hits))"
      by (metis remind_each_append)
    then show ?thesis using False by (subst remind_pages.simps) (simp add: next_page Let_def)
  qed
qed

subsection \<open>The frequency of the mails\<close>

definition gap :: "reminder_config \<Rightarrow> int" where
  "gap cfg = rc_frequencyHours cfg * 60 * 60 * 1000"

definition spaced :: "int \<Rightarrow> int list \<Rightarrow> bool" where
  "spaced g ts \<longleftrightarrow> sorted_wrt (\<lambda>a b. a + g \<le> b) ts"

definition log_times :: "uuid \<Rightarrow> reminder_db \<Rightarrow> timestamp list" where
  "log_times i s = map snd (filter (\<lambda>p. fst p = i) (rm_log s))"

definition reminder_log_ok :: "int \<Rightarrow> reminder_db \<Rightarrow> bool" where
  "reminder_log_ok g s \<longleftrightarrow> distinct (map rd_id (rm_reminders s)) \<and> (\<forall>r \<in> set (rm_reminders s). rd_id r < rm_fresh s) \<and>
     (\<forall>p \<in> set (rm_log s). fst p < rm_fresh s) \<and> (\<forall>i. spaced g (log_times i s)) \<and>
     (\<forall>r \<in> set (rm_reminders s). \<forall>t \<in> set (log_times (rd_id r) s). t \<le> rd_lastReminderSentAt r)"

lemma remind_learner_cases:
  obtains (Same) x where "remind_learner m cfg now e s = (x, s)"
    | (Sent) r where "find_reminder (en_userId e) (en_courseId e) s = Some r" "rd_isActive r"
        "rd_lastReminderSentAt r + gap cfg \<le> now"
        "remind_learner m cfg now e s = (Inr (), s\<lparr>rm_reminders := save_row rd_id (r\<lparr>rd_lastReminderSentAt := now\<rparr>) (rm_reminders s),
           rm_log := rm_log s @ [(rd_id r, now)]\<rparr>)"
proof (cases "find_reminder (en_userId e) (en_courseId e) s")
  case None
  then show thesis using Same by (simp add: remind_learner_def)
next
  case (Some r)
  let ?s = "s\<lparr>rm_reminders := save_row rd_id (r\<lparr>rd_lastReminderSentAt := now\<rparr>) (rm_reminders s), rm_log := rm_log s @ [(rd_id r, now)]\<rparr>"
  have "(\<exists>x. remind_learner m cfg now e s = (x, s)) \<or>
      rd_isActive r \<and> rd_lastReminderSentAt r + gap cfg \<le> now \<and> remind_learner m cfg now e s = (Inr (), ?s)"
    by (simp add: remind_learner_def Some gap_def split: option.split)
  with Some show thesis using Same Sent by blast
qed

lemma remind_learner_ok:
  assumes "reminder_log_ok (gap cfg) s" "0 \<le> gap cfg"
  shows "reminder_log_ok (gap cfg) (snd (remind_learner m cfg now e s))"
proof (cases rule: remind_learner_cases[of m cfg now e s, case_names Same Sent])
  case (Sent r)
  let ?r = "r\<lparr>rd_lastReminderSentAt := now\<rparr>"
  let ?s = "s\<lparr>rm_reminders := save_row rd_id ?r (rm_reminders s), rm_log := rm_log s @ [(rd_id r, now)]\<rparr>"
  have r: "r \<in> set (rm_reminders s)" using find_SomeD[OF Sent(1)[unfolded find_reminder_def]] by simp
  have d: "distinct (map rd_id (rm_reminders s))" using assms(1) by (simp add: reminder_log_ok_def)
  have times: "log_times i ?s = (if i = rd_id r then log_times i s @ [now] else log_times i s)" for i
    by (simp add: log_times_def)
  have old: "t \<le> rd_lastReminderSentAt r" if "t \<in> set (log_times (rd_id r) s)" for t
    using assms(1) r that by (auto simp: reminder_log_ok_def)
  have "spaced (gap cfg) (log_times i ?s)" for i
    using assms(1) old Sent(3) unfolding times by (fastforce simp: reminder_log_ok_def spaced_def sorted_wrt_append)
  moreover have "\<forall>t \<in> set (log_times (rd_id q) ?s). t \<le> rd_lastReminderSentAt q" if "q \<in> set (save_row rd_id ?r (rm_reminders s))" for q
  proof (cases "q = ?r")
    case True
    then show ?thesis using old Sent(3) assms(2) by (fastforce simp: times)
  next
    case False
    with that have "q \<in> set (rm_reminders s)" "rd_id q \<noteq> rd_id r" by (auto simp: set_save_row)
    with assms(1) show ?thesis by (simp add: times reminder_log_ok_def)
  qed
  moreover have "distinct (map rd_id (save_row rd_id ?r (rm_reminders s)))" using d by (rule save_row_distinct)
  ultimately have "reminder_log_ok (gap cfg) ?s"
    using assms(1) r by (auto simp: reminder_log_ok_def set_save_row)
  with Sent(4) show ?thesis by simp
qed (use assms in simp)

lemma remind_each_ok:
  "reminder_log_ok (gap cfg) s \<Longrightarrow> 0 \<le> gap cfg \<Longrightarrow> reminder_log_ok (gap cfg) (snd (remind_each m cfg now es s))"
proof (induction es arbitrary: s)
  case (Cons e es)
  obtain x s1 where run: "remind_learner m cfg now e s = (x, s1)" by fastforce
  then have "reminder_log_ok (gap cfg) s1" using remind_learner_ok[OF Cons.prems, of m now e] by simp
  with Cons.IH[OF this Cons.prems(2)] run show ?case by (cases x) simp_all
qed simp

lemma reminder_step_ok:
  assumes "reminder_log_ok (gap cfg) s" "0 \<le> gap cfg"
  shows "reminder_log_ok (gap cfg) (snd (reminder_step m cfg r s))"
proof (cases r)
  case (SendInactive now)
  then show ?thesis using remind_each_ok[OF assms] by (simp add: sendInactiveReminders_def remind_pages_all)
next
  case (CreateReminder now u c)
  have "log_times (rm_fresh s) s = []"
    using assms(1) by (auto simp: log_times_def reminder_log_ok_def filter_empty_conv)
  moreover have "log_times i (snd (createReminder now u c s)) = log_times i s" for i
    by (simp add: log_times_def createReminder_def Let_def)
  ultimately show ?thesis
    using assms(1) by (auto simp: CreateReminder createReminder_def Let_def reminder_log_ok_def intro: less_SucI)
next
  case (SetActive b u c)
  let ?f = "\<lambda>r. if rd_userId r = u \<and> rd_courseId r = c then r\<lparr>rd_isActive := b\<rparr> else r"
  have rows: "rm_reminders (snd (reminder_step m cfg r s)) = map ?f (rm_reminders s)"
    "rm_log (snd (reminder_step m cfg r s)) = rm_log s" "rm_fresh (snd (reminder_step m cfg r s)) = rm_fresh s"
    by (simp_all add: SetActive enableReminder_def disableReminder_def set_active_def update_rows_def)
  have ids: "rd_id (?f x) = rd_id x" "rd_lastReminderSentAt (?f x) = rd_lastReminderSentAt x" for x by simp_all
  have times: "log_times i (snd (reminder_step m cfg r s)) = log_times i s" for i by (simp add: log_times_def rows)
  show ?thesis
    using assms(1) unfolding reminder_log_ok_def times rows by (auto simp: ids comp_def)
qed

interpretation reminders: invariant_machine "reminder_step m cfg" "\<lambda>s. 0 \<le> gap cfg \<and> reminder_log_ok (gap cfg) s" for m cfg
  by unfold_locales (simp add: reminder_step_ok)

subsection \<open>Properties\<close>

definition weekly :: reminder_config where
  "weekly = \<lparr>rc_inactivityDays = 7, rc_frequencyHours = 168\<rparr>"

text \<open>The run over pages of a hundred is the run over all inactive enrollments at once, in their order.\<close>

theorem reminder_pages_equal_all:
  "sendInactiveReminders mailOk cfg now s =
    remind_each mailOk cfg now (inactive_enrollments (now - rc_inactivityDays cfg * 86400000) s) s"
  by (simp add: sendInactiveReminders_def remind_pages_all)

text \<open>In every history any two mails for one reminder are at least the configured number of hours apart, however often
  the job runs and whatever the clock shows.\<close>

theorem reminder_frequency:
  assumes "0 \<le> rc_frequencyHours cfg"
    "rm_log (run_ops (reminder_step mailOk cfg) rs \<lparr>rm_core = c, rm_reminders = [], rm_log = [], rm_fresh = 0\<rparr>) = xs @ (i, t) # ys @ (i, t') # zs"
  shows "t + rc_frequencyHours cfg * 3600000 \<le> t'"
proof -
  let ?s = "run_ops (reminder_step mailOk cfg) rs \<lparr>rm_core = c, rm_reminders = [], rm_log = [], rm_fresh = 0\<rparr>"
  have "0 \<le> gap cfg \<and> reminder_log_ok (gap cfg) ?s"
    by (rule reminders.run_preserves) (use assms(1) in \<open>simp add: gap_def reminder_log_ok_def spaced_def log_times_def\<close>)
  then have "spaced (gap cfg) (log_times i ?s)" by (simp add: reminder_log_ok_def)
  then show ?thesis by (simp add: log_times_def assms(2) spaced_def sorted_wrt_append gap_def)
qed

definition idle_learner :: core where
  "idle_learner = empty_core\<lparr>users := [new_user 1 ''a''], courses := [new_course 2 ''t''],
     enrollments := [\<lparr>en_id = 3, en_userId = 1, en_courseId = 2, en_enrolledAt = 0, en_completedAt = None,
       en_enrolledVersionNumber = None, en_transactionHash = None\<rparr>]\<rparr>"

theorem reminder_frequency_witness:
  "(604800001 :: int) + 168 * 3600000 \<le> 1209600001 \<and>
   rm_log (run_ops (reminder_step (\<lambda>_. True) weekly) [CreateReminder 0 1 2, SendInactive 604800001, SendInactive 604800002, SendInactive 1209600001]
     \<lparr>rm_core = idle_learner, rm_reminders = [], rm_log = [], rm_fresh = 0\<rparr>) = [(0, 604800001), (0, 1209600001)]"
proof -
  let ?rs = "[CreateReminder 0 1 2, SendInactive 604800001, SendInactive 604800002, SendInactive 1209600001]"
  have log: "rm_log (run_ops (reminder_step (\<lambda>_. True) weekly) ?rs
      \<lparr>rm_core = idle_learner, rm_reminders = [], rm_log = [], rm_fresh = 0\<rparr>) = [] @ (0, 604800001) # [] @ (0, 1209600001) # []"
    by (simp add: createReminder_def sendInactiveReminders_def remind_pages_all inactive_enrollments_def idle_learner_def remind_learner_def
        find_reminder_def weekly_def find_user_def find_course_def new_user_def new_course_def save_row_def empty_core_def Let_def)
  have "0 \<le> rc_frequencyHours weekly" by (simp add: weekly_def)
  from reminder_frequency[OF this log] log show ?thesis by (simp add: weekly_def)
qed

end
