(* ===== verification/Adaptive.thy ===== *)
theory Adaptive
  imports Js_Number
begin

text \<open>
  Adaptive learning (\<open>adaptive-learning/adaptive-learning.service.ts\<close>): the rolling average of a learner on a topic, the
  difficulty it suggests, and the assignment to the variants of an experiment. A number is an option: \<open>None\<close> is
  \<open>undefined\<close> or NaN, which every operation passes on and no comparison holds of. An integer column refuses NaN.
\<close>

datatype difficulty = Easy | Medium | Hard

record student_performance =
  sp_id :: uuid
  sp_userId :: uuid
  sp_topicId :: string
  sp_averageScore :: "js_num option"
  sp_attemptCount :: "js_num option"
  sp_currentDifficulty :: "difficulty option"
  sp_masteryLevel :: "js_num option"

datatype ab_variant = Control | Variant

record ab_assignment =
  ab_id :: uuid
  ab_userId :: uuid
  ab_experimentName :: string
  ab_variant :: ab_variant
  ab_outcomeScore :: "js_num option"

record adaptive_db =
  ad_performances :: "student_performance list"
  ad_assignments :: "ab_assignment list"
  ad_fresh :: nat

definition num2 :: "(js_num \<Rightarrow> js_num \<Rightarrow> js_num) \<Rightarrow> js_num option \<Rightarrow> js_num option \<Rightarrow> js_num option" where
  "num2 f x y = (case (x, y) of (Some a, Some b) \<Rightarrow> Some (f a b) | _ \<Rightarrow> None)"

lemma num2_simps [simp]: "num2 f None y = None" "num2 f x None = None" "num2 f (Some a) (Some b) = Some (f a b)"
  by (simp_all add: num2_def split: option.split)

definition MASTERY_THRESHOLD_UP :: js_num where
  "MASTERY_THRESHOLD_UP = fl (8 / 10)"

definition MASTERY_THRESHOLD_DOWN :: js_num where
  "MASTERY_THRESHOLD_DOWN = fl (4 / 10)"

definition at_least :: "js_num option \<Rightarrow> js_num \<Rightarrow> bool" where
  "at_least x b = (case x of None \<Rightarrow> False | Some v \<Rightarrow> b \<le> v)"

definition less_than :: "js_num option \<Rightarrow> js_num \<Rightarrow> bool" where
  "less_than x b = (case x of None \<Rightarrow> False | Some v \<Rightarrow> v < b)"

definition adjustDifficulty :: "js_num option \<Rightarrow> difficulty option \<Rightarrow> difficulty option" where
  "adjustDifficulty mastery current =
     (if at_least mastery MASTERY_THRESHOLD_UP \<and> current = Some Easy then Some Medium
      else if at_least mastery MASTERY_THRESHOLD_UP \<and> current = Some Medium then Some Hard
      else if less_than mastery MASTERY_THRESHOLD_DOWN \<and> current = Some Hard then Some Medium
      else if less_than mastery MASTERY_THRESHOLD_DOWN \<and> current = Some Medium then Some Easy
      else current)"

definition find_performance :: "uuid \<Rightarrow> string \<Rightarrow> adaptive_db \<Rightarrow> student_performance option" where
  "find_performance userId topicId s = find (\<lambda>p. sp_userId p = userId \<and> sp_topicId p = topicId) (ad_performances s)"

definition scored :: "js_num \<Rightarrow> student_performance \<Rightarrow> student_performance" where
  "scored score p =
     (let total = num2 js_add (num2 js_mul (sp_averageScore p) (sp_attemptCount p)) (Some score);
          attempts = num2 js_add (sp_attemptCount p) (Some 1);
          average = num2 js_div total attempts;
          mastery = num2 js_div average (Some 100)
      in p\<lparr>sp_attemptCount := attempts, sp_averageScore := average, sp_masteryLevel := mastery,
           sp_currentDifficulty := adjustDifficulty mastery (sp_currentDifficulty p)\<rparr>)"

text \<open>A row that is created has the two keys only; the defaults of the columns are set by the database.\<close>

definition recordQuizResult :: "uuid \<Rightarrow> string \<Rightarrow> js_num \<Rightarrow> adaptive_db \<Rightarrow> (adaptive_db, student_performance) outcome" where
  "recordQuizResult userId topicId score s =
     (let perf = (case find_performance userId topicId s of
                    Some p \<Rightarrow> p
                  | None \<Rightarrow> \<lparr>sp_id = ad_fresh s, sp_userId = userId, sp_topicId = topicId, sp_averageScore = None, sp_attemptCount = None,
                             sp_currentDifficulty = None, sp_masteryLevel = None\<rparr>);
          p' = scored score perf
      in if sp_attemptCount p' = None then (Inl (JsError ''invalid input syntax for type integer''), s)
         else (Inr p', s\<lparr>ad_performances := save_row sp_id p' (ad_performances s), ad_fresh := Suc (ad_fresh s)\<rparr>))"

definition getPerformance :: "uuid \<Rightarrow> string option \<Rightarrow> adaptive_db \<Rightarrow> student_performance list" where
  "getPerformance userId topicId s =
     filter (\<lambda>p. sp_userId p = userId \<and> (case topicId of None \<Rightarrow> True | Some t \<Rightarrow> t = [] \<or> sp_topicId p = t)) (ad_performances s)"

definition getRecommendedTopics :: "uuid \<Rightarrow> adaptive_db \<Rightarrow> string list \<times> (string \<rightharpoonup> difficulty option)" where
  "getRecommendedTopics userId s =
     (let ps = filter (\<lambda>p. sp_userId p = userId) (ad_performances s)
      in (map sp_topicId (filter (\<lambda>p. less_than (sp_masteryLevel p) MASTERY_THRESHOLD_DOWN) ps),
          fold (\<lambda>p m. m(sp_topicId p \<mapsto> sp_currentDifficulty p)) ps Map.empty))"

subsection \<open>Experiments\<close>

definition find_assignment :: "uuid \<Rightarrow> string \<Rightarrow> adaptive_db \<Rightarrow> ab_assignment option" where
  "find_assignment userId experimentName s = find (\<lambda>a. ab_userId a = userId \<and> ab_experimentName a = experimentName) (ad_assignments s)"

definition user_hash :: "string \<Rightarrow> nat" where
  "user_hash userId = fold (\<lambda>c acc. acc + of_char c) userId 0"

definition variant_of :: "string \<Rightarrow> ab_variant" where
  "variant_of userId = (if user_hash userId mod 2 = 0 then Control else Variant)"

definition getOrAssignVariant :: "(uuid \<Rightarrow> string) \<Rightarrow> uuid \<Rightarrow> string \<Rightarrow> adaptive_db \<Rightarrow> ab_variant \<times> adaptive_db" where
  "getOrAssignVariant id_text userId experimentName s =
     (case find_assignment userId experimentName s of
        Some a \<Rightarrow> (ab_variant a, s)
      | None \<Rightarrow>
          (let v = variant_of (id_text userId)
           in (v, s\<lparr>ad_assignments := ad_assignments s @ [\<lparr>ab_id = ad_fresh s, ab_userId = userId, ab_experimentName = experimentName,
                     ab_variant = v, ab_outcomeScore = None\<rparr>], ad_fresh := Suc (ad_fresh s)\<rparr>)))"

definition recordAbOutcome :: "uuid \<Rightarrow> string \<Rightarrow> js_num \<Rightarrow> adaptive_db \<Rightarrow> adaptive_db" where
  "recordAbOutcome userId experimentName outcomeScore s =
     s\<lparr>ad_assignments := update_rows (\<lambda>a. ab_userId a = userId \<and> ab_experimentName a = experimentName)
         (\<lambda>a. a\<lparr>ab_outcomeScore := Some outcomeScore\<rparr>) (ad_assignments s)\<rparr>"

definition summarize :: "ab_variant \<Rightarrow> ab_assignment list \<Rightarrow> nat \<times> js_num" where
  "summarize v as =
     (let scores = map (\<lambda>a. the (ab_outcomeScore a)) (filter (\<lambda>a. ab_variant a = v \<and> ab_outcomeScore a \<noteq> None) as)
      in (length scores, if 0 < length scores then js_div (foldl js_add 0 scores) (of_nat (length scores)) else 0))"

definition getAbTestResults :: "string \<Rightarrow> adaptive_db \<Rightarrow> (nat \<times> js_num) \<times> (nat \<times> js_num)" where
  "getAbTestResults experimentName s =
     (let as = filter (\<lambda>a. ab_experimentName a = experimentName) (ad_assignments s)
      in (summarize Control as, summarize Variant as))"

datatype adaptive_request =
    RecordResult uuid string js_num
  | AssignVariant uuid string
  | RecordOutcome uuid string js_num

fun adaptive_step :: "(uuid \<Rightarrow> string) \<Rightarrow> adaptive_request \<Rightarrow> adaptive_db \<Rightarrow> unit \<times> adaptive_db" where
  "adaptive_step idt (RecordResult u t x) s = ((), snd (recordQuizResult u t x s))"
| "adaptive_step idt (AssignVariant u e) s = ((), snd (getOrAssignVariant idt u e s))"
| "adaptive_step idt (RecordOutcome u e x) s = ((), recordAbOutcome u e x s)"

subsection \<open>Lemmas\<close>

lemma first_result:
  "find_performance u t s = None \<Longrightarrow> recordQuizResult u t x s = (Inl (JsError ''invalid input syntax for type integer''), s)"
  by (simp add: recordQuizResult_def scored_def Let_def)

definition nothing_recorded :: "adaptive_db \<Rightarrow> bool" where
  "nothing_recorded s \<longleftrightarrow> ad_performances s = []"

interpretation unrecorded: invariant_machine "adaptive_step idt" nothing_recorded for idt
proof unfold_locales
  fix c s assume "nothing_recorded s"
  then show "nothing_recorded (snd (adaptive_step idt c s))"
    by (cases c) (auto simp: nothing_recorded_def first_result find_performance_def getOrAssignVariant_def recordAbOutcome_def Let_def
        split: option.split)
qed

definition variants_ok :: "(uuid \<Rightarrow> string) \<Rightarrow> adaptive_db \<Rightarrow> bool" where
  "variants_ok idt s \<longleftrightarrow> (\<forall>a \<in> set (ad_assignments s). ab_variant a = variant_of (idt (ab_userId a)))"

interpretation assigning: invariant_machine "adaptive_step idt" "variants_ok idt" for idt
proof unfold_locales
  fix c s assume "variants_ok idt s"
  then show "variants_ok idt (snd (adaptive_step idt c s))"
    by (cases c) (auto simp: variants_ok_def recordQuizResult_def getOrAssignVariant_def recordAbOutcome_def update_rows_def Let_def
        split: option.split)
qed

subsection \<open>Properties\<close>

text \<open>No quiz result is ever recorded: the row of a first result has neither a count nor an average, so the new count
  is not a number and the insert fails, and the table stays empty in every history.\<close>

theorem no_result_recorded:
  "ad_performances (run_ops (adaptive_step idt) rs \<lparr>ad_performances = [], ad_assignments = as, ad_fresh = n\<rparr>) = [] \<and>
   \<not> succeeds (recordQuizResult u t x (run_ops (adaptive_step idt) rs \<lparr>ad_performances = [], ad_assignments = as, ad_fresh = n\<rparr>))"
proof -
  let ?s = "run_ops (adaptive_step idt) rs \<lparr>ad_performances = [], ad_assignments = as, ad_fresh = n\<rparr>"
  have "nothing_recorded ?s" by (rule unrecorded.run_preserves) (simp add: nothing_recorded_def)
  then have empty: "ad_performances ?s = []" by (simp add: nothing_recorded_def)
  then have "find_performance u t ?s = None" by (simp add: find_performance_def)
  from first_result[OF this, of x] empty show ?thesis by simp
qed

text \<open>The variant of a user in an experiment is the parity of the user's id in every history, so it never changes and
  does not depend on the experiment.\<close>

theorem variant_is_fixed:
  "fst (getOrAssignVariant idt u e (run_ops (adaptive_step idt) rs \<lparr>ad_performances = ps, ad_assignments = [], ad_fresh = n\<rparr>)) = variant_of (idt u)"
proof -
  let ?s = "run_ops (adaptive_step idt) rs \<lparr>ad_performances = ps, ad_assignments = [], ad_fresh = n\<rparr>"
  have "variants_ok idt ?s" by (rule assigning.run_preserves) (simp add: variants_ok_def)
  then show ?thesis
    by (auto simp: getOrAssignVariant_def variants_ok_def find_assignment_def Let_def split: option.split dest: find_SomeD)
qed

text \<open>C0: One result moves the difficulty by at most one level, up only for a mastery of at least 0.8 and down only below
  0.4.\<close>

definition level :: "difficulty \<Rightarrow> int" where
  "level d = (case d of Easy \<Rightarrow> 0 | Medium \<Rightarrow> 1 | Hard \<Rightarrow> 2)"

theorem difficulty_one_step:
  assumes "adjustDifficulty (Some m) (Some d) = Some d'"
  shows "\<bar>level d' - level d\<bar> \<le> 1 \<and> (level d < level d' \<longrightarrow> MASTERY_THRESHOLD_UP \<le> m) \<and> (level d' < level d \<longrightarrow> m < MASTERY_THRESHOLD_DOWN)"
  using assms by (auto simp: adjustDifficulty_def at_least_def less_than_def level_def split: if_splits difficulty.splits)

theorem difficulty_one_step_witness: "\<bar>level Medium - level Easy\<bar> \<le> 1"
proof -
  have "adjustDifficulty (Some MASTERY_THRESHOLD_UP) (Some Easy) = Some Medium" by (simp add: adjustDifficulty_def at_least_def)
  from difficulty_one_step[OF this] show ?thesis by blast
qed

end
