(* ===== verification/Classroom.thy ===== *)
theory Classroom
  imports Accounts Notifications
begin

text \<open>
  The small tables around a lesson: questions to the instructor (\<open>qa/qa.service.ts\<close>), announcements
  (\<open>announcements/announcements.service.ts\<close>), notes (\<open>notes/notes.service.ts\<close>) and queued downloads
  (\<open>downloads/downloads.service.ts\<close>). Questions and announcements notify their readers through the notification service.
\<close>

record question =
  qn_id :: uuid
  qn_courseId :: uuid
  qn_userId :: uuid
  qn_body :: string
  qn_timestampSeconds :: "int option"
  qn_upvotes :: nat
  qn_answer :: "string option"
  qn_answeredByUserId :: "uuid option"
  qn_answeredAt :: "timestamp option"
  qn_createdAt :: timestamp

record announcement =
  an_id :: uuid
  an_courseId :: uuid
  an_instructorId :: uuid
  an_title :: string
  an_body :: string
  an_createdAt :: timestamp

record lesson_note =
  nt_id :: uuid
  nt_userId :: uuid
  nt_lessonId :: uuid
  nt_content :: string
  nt_timestamp :: rat
  nt_createdAt :: timestamp

datatype download_status = DownloadPending | DownloadCompleted | DownloadFailed

record download_item =
  dl_id :: uuid
  dl_userId :: uuid
  dl_courseId :: uuid
  dl_lessonId :: "uuid option"
  dl_lessonTitle :: "string option"
  dl_fileUrl :: "string option"
  dl_fileSizeBytes :: int
  dl_status :: download_status
  dl_createdAt :: timestamp

record class_db =
  cl_notif :: notif_db
  cl_questions :: "question list"
  cl_announcements :: "announcement list"
  cl_notes :: "lesson_note list"
  cl_downloads :: "download_item list"
  cl_fresh :: nat

subsection \<open>Rows with an owner\<close>

text \<open>The check that \<open>remove\<close> and \<open>update\<close> make: the row exists, and it is the caller's.\<close>

definition owned :: "('a \<Rightarrow> uuid) \<Rightarrow> ('a \<Rightarrow> uuid) \<Rightarrow> string \<Rightarrow> uuid \<Rightarrow> uuid \<Rightarrow> 'a list \<Rightarrow> http_error + 'a" where
  "owned key own what i userId xs =
     (case find (\<lambda>x. key x = i) xs of
        None \<Rightarrow> Inl (NotFoundException (what @ '' not found''))
      | Some x \<Rightarrow> if own x \<noteq> userId then Inl (ForbiddenException ''Forbidden'') else Inr x)"

lemma owned_Inr:
  assumes "owned key own what i userId xs = Inr x"
  shows "x \<in> set xs" "key x = i" "own x = userId"
  using assms find_SomeD[of "\<lambda>x. key x = i" xs x] by (auto simp: owned_def split: option.splits if_splits)

subsection \<open>Questions\<close>

definition tell :: "(string \<Rightarrow> string \<Rightarrow> push_answer) \<Rightarrow> timestamp \<Rightarrow> uuid \<Rightarrow> notification_type \<Rightarrow> string \<Rightarrow> class_db \<Rightarrow> class_db" where
  "tell push now userId ty message s = s\<lparr>cl_notif := snd (notify push now userId ty message (cl_notif s))\<rparr>"

definition ask_question ::
  "(string \<Rightarrow> string \<Rightarrow> push_answer) \<Rightarrow> timestamp \<Rightarrow> uuid \<Rightarrow> uuid \<Rightarrow> string \<Rightarrow> int option \<Rightarrow> uuid option \<Rightarrow> class_db \<Rightarrow> question \<times> class_db" where
  "ask_question push now userId courseId body seconds instructorId s =
     (let q = \<lparr>qn_id = cl_fresh s, qn_courseId = courseId, qn_userId = userId, qn_body = body, qn_timestampSeconds = seconds, qn_upvotes = 0,
               qn_answer = None, qn_answeredByUserId = None, qn_answeredAt = None, qn_createdAt = now\<rparr>;
          s1 = s\<lparr>cl_questions := cl_questions s @ [q], cl_fresh := Suc (cl_fresh s)\<rparr>
      in (q, case instructorId of
               None \<Rightarrow> s1
             | Some i \<Rightarrow> tell push now i QA_QUESTION (''New question in your course: \"'' @ take 80 body @ ''\"'') s1))"

definition questions_findByCourse :: "uuid \<Rightarrow> class_db \<Rightarrow> question list" where
  "questions_findByCourse courseId s =
     order_by_desc (\<lambda>q. int (qn_upvotes q)) (order_by qn_createdAt (filter (\<lambda>q. qn_courseId q = courseId) (cl_questions s)))"

definition answer_question ::
  "(string \<Rightarrow> string \<Rightarrow> push_answer) \<Rightarrow> timestamp \<Rightarrow> uuid \<Rightarrow> uuid \<Rightarrow> string \<Rightarrow> class_db \<Rightarrow> (class_db, question) outcome" where
  "answer_question push now i answeredBy answer s =
     (case find (\<lambda>q. qn_id q = i) (cl_questions s) of
        None \<Rightarrow> (Inl (NotFoundException ''Question not found''), s)
      | Some q \<Rightarrow>
          (let q' = q\<lparr>qn_answer := Some answer, qn_answeredByUserId := Some answeredBy, qn_answeredAt := Some now\<rparr>;
               s1 = s\<lparr>cl_questions := save_row qn_id q' (cl_questions s)\<rparr>
           in (Inr q', tell push now (qn_userId q) QA_ANSWER (''Your question was answered: \"'' @ take 60 (qn_body q) @ ''\"'') s1)))"

definition upvote_question :: "uuid \<Rightarrow> class_db \<Rightarrow> (class_db, question) outcome" where
  "upvote_question i s =
     (case find (\<lambda>q. qn_id q = i) (cl_questions s) of
        None \<Rightarrow> (Inl (NotFoundException ''Question not found''), s)
      | Some q \<Rightarrow>
          (let q' = q\<lparr>qn_upvotes := qn_upvotes q + 1\<rparr>
           in (Inr q', s\<lparr>cl_questions := save_row qn_id q' (cl_questions s)\<rparr>)))"

definition remove_question :: "uuid \<Rightarrow> uuid \<Rightarrow> class_db \<Rightarrow> (class_db, unit) outcome" where
  "remove_question i userId s =
     (case owned qn_id qn_userId ''Question'' i userId (cl_questions s) of
        Inl e \<Rightarrow> (Inl e, s)
      | Inr q \<Rightarrow> (Inr (), s\<lparr>cl_questions := delete_rows (\<lambda>x. qn_id x = qn_id q) (cl_questions s)\<rparr>))"

subsection \<open>Announcements\<close>

definition announce ::
  "(string \<Rightarrow> string \<Rightarrow> push_answer) \<Rightarrow> timestamp \<Rightarrow> uuid \<Rightarrow> uuid \<Rightarrow> string \<Rightarrow> string \<Rightarrow> class_db \<Rightarrow> announcement \<times> class_db" where
  "announce push now instructorId courseId title body s =
     (let a = \<lparr>an_id = cl_fresh s, an_courseId = courseId, an_instructorId = instructorId, an_title = title, an_body = body, an_createdAt = now\<rparr>;
          s1 = s\<lparr>cl_announcements := cl_announcements s @ [a], cl_fresh := Suc (cl_fresh s)\<rparr>;
          readers = filter (\<lambda>e. en_courseId e = courseId) (enrollments (nd_core (cl_notif s)))
      in (a, fold (\<lambda>e. tell push now (en_userId e) ANNOUNCEMENT (''New announcement in your course: \"'' @ title @ ''\"'')) readers s1))"

definition announcements_findByCourse :: "uuid \<Rightarrow> class_db \<Rightarrow> announcement list" where
  "announcements_findByCourse courseId s = order_by_desc an_createdAt (filter (\<lambda>a. an_courseId a = courseId) (cl_announcements s))"

definition remove_announcement :: "uuid \<Rightarrow> uuid \<Rightarrow> class_db \<Rightarrow> (class_db, unit) outcome" where
  "remove_announcement i instructorId s =
     (case owned an_id an_instructorId ''Announcement'' i instructorId (cl_announcements s) of
        Inl e \<Rightarrow> (Inl e, s)
      | Inr a \<Rightarrow> (Inr (), s\<lparr>cl_announcements := delete_rows (\<lambda>x. an_id x = an_id a) (cl_announcements s)\<rparr>))"

subsection \<open>Notes\<close>

definition note_matches :: "string option \<Rightarrow> lesson_note \<Rightarrow> bool" where
  "note_matches search n = (case search of None \<Rightarrow> True | Some t \<Rightarrow> t = [] \<or> sql_ilike (nt_content n) (search_pattern t))"

text \<open>The order by a stamp in seconds is the order by its value, which \<open>sort_key\<close> gives.\<close>

definition notes_findByLesson :: "uuid \<Rightarrow> uuid \<Rightarrow> string option \<Rightarrow> class_db \<Rightarrow> lesson_note list" where
  "notes_findByLesson userId lessonId search s =
     sort_key nt_timestamp (filter (\<lambda>n. nt_userId n = userId \<and> nt_lessonId n = lessonId \<and> note_matches search n) (cl_notes s))"

definition notes_findByUser :: "uuid \<Rightarrow> string option \<Rightarrow> class_db \<Rightarrow> lesson_note list" where
  "notes_findByUser userId search s =
     order_by_desc nt_createdAt (filter (\<lambda>n. nt_userId n = userId \<and> note_matches search n) (cl_notes s))"

definition note_create :: "timestamp \<Rightarrow> uuid \<Rightarrow> uuid \<Rightarrow> string \<Rightarrow> rat option \<Rightarrow> class_db \<Rightarrow> lesson_note \<times> class_db" where
  "note_create now userId lessonId content ts s =
     (let n = \<lparr>nt_id = cl_fresh s, nt_userId = userId, nt_lessonId = lessonId, nt_content = content,
               nt_timestamp = (case ts of None \<Rightarrow> 0 | Some t \<Rightarrow> t), nt_createdAt = now\<rparr>
      in (n, s\<lparr>cl_notes := cl_notes s @ [n], cl_fresh := Suc (cl_fresh s)\<rparr>))"

definition note_update :: "uuid \<Rightarrow> uuid \<Rightarrow> string option \<Rightarrow> rat option \<Rightarrow> class_db \<Rightarrow> (class_db, lesson_note) outcome" where
  "note_update i userId content ts s =
     (case owned nt_id nt_userId ''Note'' i userId (cl_notes s) of
        Inl e \<Rightarrow> (Inl e, s)
      | Inr n \<Rightarrow>
          (let n' = n\<lparr>nt_content := (case content of None \<Rightarrow> nt_content n | Some c \<Rightarrow> c),
                      nt_timestamp := (case ts of None \<Rightarrow> nt_timestamp n | Some t \<Rightarrow> t)\<rparr>
           in (Inr n', s\<lparr>cl_notes := save_row nt_id n' (cl_notes s)\<rparr>)))"

definition note_remove :: "uuid \<Rightarrow> uuid \<Rightarrow> class_db \<Rightarrow> (class_db, unit) outcome" where
  "note_remove i userId s =
     (case owned nt_id nt_userId ''Note'' i userId (cl_notes s) of
        Inl e \<Rightarrow> (Inl e, s)
      | Inr n \<Rightarrow> (Inr (), s\<lparr>cl_notes := delete_rows (\<lambda>x. nt_id x = nt_id n) (cl_notes s)\<rparr>))"

subsection \<open>Downloads\<close>

definition queueDownload ::
  "timestamp \<Rightarrow> uuid \<Rightarrow> uuid \<Rightarrow> uuid option \<Rightarrow> string option \<Rightarrow> string option \<Rightarrow> int option \<Rightarrow> class_db \<Rightarrow> download_item \<times> class_db" where
  "queueDownload now userId courseId lessonId title url bytes s =
     (let d = \<lparr>dl_id = cl_fresh s, dl_userId = userId, dl_courseId = courseId, dl_lessonId = lessonId, dl_lessonTitle = title,
               dl_fileUrl = url, dl_fileSizeBytes = (case bytes of None \<Rightarrow> 0 | Some n \<Rightarrow> n), dl_status = DownloadPending, dl_createdAt = now\<rparr>
      in (d, s\<lparr>cl_downloads := cl_downloads s @ [d], cl_fresh := Suc (cl_fresh s)\<rparr>))"

definition downloads_findByUser :: "uuid \<Rightarrow> class_db \<Rightarrow> download_item list" where
  "downloads_findByUser userId s = order_by_desc dl_createdAt (filter (\<lambda>d. dl_userId d = userId) (cl_downloads s))"

definition find_download :: "uuid \<Rightarrow> uuid \<Rightarrow> class_db \<Rightarrow> download_item option" where
  "find_download i userId s = find (\<lambda>d. dl_id d = i \<and> dl_userId d = userId) (cl_downloads s)"

definition markCompleted :: "uuid \<Rightarrow> uuid \<Rightarrow> class_db \<Rightarrow> (class_db, download_item) outcome" where
  "markCompleted i userId s =
     (case find_download i userId s of
        None \<Rightarrow> (Inl (NotFoundException ''Download not found''), s)
      | Some d \<Rightarrow>
          (let d' = d\<lparr>dl_status := DownloadCompleted\<rparr>
           in (Inr d', s\<lparr>cl_downloads := save_row dl_id d' (cl_downloads s)\<rparr>)))"

definition remove_download :: "uuid \<Rightarrow> uuid \<Rightarrow> class_db \<Rightarrow> (class_db, unit) outcome" where
  "remove_download i userId s =
     (case find_download i userId s of
        None \<Rightarrow> (Inl (NotFoundException ''Download not found''), s)
      | Some d \<Rightarrow> (Inr (), s\<lparr>cl_downloads := delete_rows (\<lambda>x. dl_id x = dl_id d) (cl_downloads s)\<rparr>))"

text \<open>Sizes are whole numbers of bytes, so the sum is exact below \<open>2^53\<close> bytes.\<close>

definition getStorageStats :: "uuid \<Rightarrow> class_db \<Rightarrow> int \<times> nat" where
  "getStorageStats userId s =
     (let items = filter (\<lambda>d. dl_userId d = userId \<and> dl_status d = DownloadCompleted) (cl_downloads s)
      in (sum_list (map dl_fileSizeBytes items), length items))"

subsection \<open>Requests of a user\<close>

datatype class_request =
    Ask uuid string "int option" "uuid option"
  | Answer uuid string
  | Upvote uuid
  | RemoveQuestion uuid
  | Announce uuid string string
  | RemoveAnnouncement uuid
  | CreateNote uuid string "rat option"
  | UpdateNote uuid "string option" "rat option"
  | RemoveNote uuid
  | QueueDownload uuid "uuid option" "string option" "string option" "int option"
  | CompleteDownload uuid
  | RemoveDownload uuid

text \<open>A request with the user who makes it.\<close>

fun class_step :: "(string \<Rightarrow> string \<Rightarrow> push_answer) \<Rightarrow> timestamp \<times> uuid \<times> class_request \<Rightarrow> class_db \<Rightarrow> unit \<times> class_db" where
  "class_step push (now, u, Ask c b t i) s = ((), snd (ask_question push now u c b t i s))"
| "class_step push (now, u, Answer q a) s = ((), snd (answer_question push now q u a s))"
| "class_step push (now, u, Upvote q) s = ((), snd (upvote_question q s))"
| "class_step push (now, u, RemoveQuestion q) s = ((), snd (remove_question q u s))"
| "class_step push (now, u, Announce c t b) s = ((), snd (announce push now u c t b s))"
| "class_step push (now, u, RemoveAnnouncement a) s = ((), snd (remove_announcement a u s))"
| "class_step push (now, u, CreateNote l c t) s = ((), snd (note_create now u l c t s))"
| "class_step push (now, u, UpdateNote n c t) s = ((), snd (note_update n u c t s))"
| "class_step push (now, u, RemoveNote n) s = ((), snd (note_remove n u s))"
| "class_step push (now, u, QueueDownload c l t f n) s = ((), snd (queueDownload now u c l t f n s))"
| "class_step push (now, u, CompleteDownload d) s = ((), snd (markCompleted d u s))"
| "class_step push (now, u, RemoveDownload d) s = ((), snd (remove_download d u s))"

subsection \<open>Lemmas\<close>

text \<open>Writing or deleting a row of one owner leaves the rows of the others.\<close>

lemma others_rows:
  assumes "distinct (map key xs)" "x \<in> set xs" "\<not> P x"
  shows "key x' = key x \<Longrightarrow> \<not> P x' \<Longrightarrow> filter P (save_row key x' xs) = filter P xs"
    "filter P (delete_rows (\<lambda>y. key y = key x) xs) = filter P xs"
proof -
  have unique: "y = x" if "y \<in> set xs" "key y = key x" for y
    using assms(1,2) that by (auto simp: distinct_map inj_on_def)
  have "filter P (delete_rows (\<lambda>y. key y = key x) ys) = filter P ys" if "set ys \<subseteq> set xs" for ys
    using that unique assms(3) by (induction ys) (auto simp: delete_rows_def)
  then show "filter P (delete_rows (\<lambda>y. key y = key x) xs) = filter P xs" by simp
  assume x': "key x' = key x" "\<not> P x'"
  have "filter P (map (\<lambda>y. if key y = key x' then x' else y) ys) = filter P ys" if "set ys \<subseteq> set xs" for ys
    using that unique assms(3) x' by (induction ys) auto
  then show "filter P (save_row key x' xs) = filter P xs" using assms(2) x' by (simp add: save_row_def)
qed

definition class_ok :: "class_db \<Rightarrow> bool" where
  "class_ok s \<longleftrightarrow> distinct (map nt_id (cl_notes s)) \<and> distinct (map dl_id (cl_downloads s)) \<and>
     (\<forall>i \<in> set (map nt_id (cl_notes s)) \<union> set (map dl_id (cl_downloads s)). i < cl_fresh s)"

text \<open>What one user sees of the notes and downloads.\<close>

definition own_rows :: "uuid \<Rightarrow> class_db \<Rightarrow> lesson_note list \<times> download_item list" where
  "own_rows u s = (filter (\<lambda>n. nt_userId n = u) (cl_notes s), filter (\<lambda>d. dl_userId d = u) (cl_downloads s))"

lemma class_frame:
  assumes "class_ok s" "cl_notes s' = cl_notes s" "cl_downloads s' = cl_downloads s" "cl_fresh s \<le> cl_fresh s'"
  shows "class_ok s' \<and> (P \<longrightarrow> own_rows u s' = own_rows u s)"
  using assms by (auto simp: class_ok_def own_rows_def intro: less_le_trans)

lemma tell_frame [simp]:
  "cl_notes (tell push now u ty m s) = cl_notes s" "cl_downloads (tell push now u ty m s) = cl_downloads s"
  "cl_fresh (tell push now u ty m s) = cl_fresh s" "cl_questions (tell push now u ty m s) = cl_questions s"
  "cl_announcements (tell push now u ty m s) = cl_announcements s"
  by (simp_all add: tell_def)

lemma tell_all_frame:
  "cl_notes (fold (\<lambda>e. tell push now (f e) ty m) es s) = cl_notes s"
  "cl_downloads (fold (\<lambda>e. tell push now (f e) ty m) es s) = cl_downloads s"
  "cl_fresh (fold (\<lambda>e. tell push now (f e) ty m) es s) = cl_fresh s"
  by (induction es arbitrary: s) simp_all

lemma note_write:
  assumes "class_ok s" "owned nt_id nt_userId w i v (cl_notes s) = Inr n" "nt_id n' = nt_id n" "nt_userId n' = nt_userId n"
  shows "class_ok (s\<lparr>cl_notes := save_row nt_id n' (cl_notes s)\<rparr>)"
    "v \<noteq> u \<Longrightarrow> own_rows u (s\<lparr>cl_notes := save_row nt_id n' (cl_notes s)\<rparr>) = own_rows u s"
proof -
  note n = owned_Inr[OF assms(2)]
  have d: "distinct (map nt_id (cl_notes s))" using assms(1) by (simp add: class_ok_def)
  have "map nt_id (save_row nt_id n' (cl_notes s)) = map nt_id (cl_notes s)"
    by (rule map_save_row_same[OF d n(1)]) (simp_all add: assms(3))
  with assms(1) show "class_ok (s\<lparr>cl_notes := save_row nt_id n' (cl_notes s)\<rparr>)" by (simp add: class_ok_def del: set_map)
  assume "v \<noteq> u"
  then show "own_rows u (s\<lparr>cl_notes := save_row nt_id n' (cl_notes s)\<rparr>) = own_rows u s"
    using others_rows(1)[OF d n(1), of "\<lambda>n. nt_userId n = u" n'] n(3) assms(3,4) by (simp add: own_rows_def)
qed

lemma note_delete:
  assumes "class_ok s" "owned nt_id nt_userId w i v (cl_notes s) = Inr n"
  shows "class_ok (s\<lparr>cl_notes := delete_rows (\<lambda>x. nt_id x = nt_id n) (cl_notes s)\<rparr>)"
    "v \<noteq> u \<Longrightarrow> own_rows u (s\<lparr>cl_notes := delete_rows (\<lambda>x. nt_id x = nt_id n) (cl_notes s)\<rparr>) = own_rows u s"
proof -
  note n = owned_Inr[OF assms(2)]
  have d: "distinct (map nt_id (cl_notes s))" using assms(1) by (simp add: class_ok_def)
  show "class_ok (s\<lparr>cl_notes := delete_rows (\<lambda>x. nt_id x = nt_id n) (cl_notes s)\<rparr>)"
    using assms(1) by (auto simp: class_ok_def distinct_map_delete_rows)
  assume "v \<noteq> u"
  then show "own_rows u (s\<lparr>cl_notes := delete_rows (\<lambda>x. nt_id x = nt_id n) (cl_notes s)\<rparr>) = own_rows u s"
    using others_rows(2)[OF d n(1), of "\<lambda>n. nt_userId n = u"] n(3) by (simp add: own_rows_def)
qed

lemma download_found:
  assumes "class_ok s" "find_download i v s = Some d"
  shows "d \<in> set (cl_downloads s)" "dl_userId d = v" "distinct (map dl_id (cl_downloads s))"
  using assms find_SomeD by (fastforce simp: find_download_def class_ok_def)+

lemma class_step_ok:
  assumes "class_ok s"
  shows "class_ok (snd (class_step push (now, v, r) s)) \<and>
    (v \<noteq> u \<longrightarrow> own_rows u (snd (class_step push (now, v, r) s)) = own_rows u s)"
proof (cases r)
  case (UpdateNote i c t)
  then show ?thesis
    using assms note_write[OF assms] by (auto simp: note_update_def Let_def split: sum.split)
next
  case (RemoveNote i)
  then show ?thesis using assms note_delete[OF assms] by (auto simp: note_remove_def split: sum.split)
next
  case (CompleteDownload i)
  show ?thesis
  proof (cases "find_download i v s")
    case (Some d)
    note d = download_found[OF assms Some]
    have "map dl_id (save_row dl_id (d\<lparr>dl_status := DownloadCompleted\<rparr>) (cl_downloads s)) = map dl_id (cl_downloads s)"
      by (rule map_save_row_same[OF d(3,1)]) simp_all
    moreover have "v \<noteq> u \<Longrightarrow> filter (\<lambda>x. dl_userId x = u) (save_row dl_id (d\<lparr>dl_status := DownloadCompleted\<rparr>) (cl_downloads s))
        = filter (\<lambda>x. dl_userId x = u) (cl_downloads s)"
      by (rule others_rows(1)[OF d(3,1)]) (simp_all add: d(2))
    ultimately show ?thesis
      using assms Some CompleteDownload by (simp add: markCompleted_def class_ok_def own_rows_def Let_def del: set_map)
  qed (use assms CompleteDownload in \<open>simp add: markCompleted_def\<close>)
next
  case (RemoveDownload i)
  show ?thesis
  proof (cases "find_download i v s")
    case (Some d)
    note d = download_found[OF assms Some]
    have "v \<noteq> u \<Longrightarrow> filter (\<lambda>x. dl_userId x = u) (delete_rows (\<lambda>x. dl_id x = dl_id d) (cl_downloads s))
        = filter (\<lambda>x. dl_userId x = u) (cl_downloads s)"
      by (rule others_rows(2)[OF d(3,1)]) (simp add: d(2))
    then show ?thesis
      using assms Some RemoveDownload
      by (auto simp: remove_download_def class_ok_def own_rows_def distinct_map_delete_rows)
  qed (use assms RemoveDownload in \<open>simp add: remove_download_def\<close>)
next
  case (CreateNote l c t)
  with assms show ?thesis by (auto simp: note_create_def Let_def class_ok_def own_rows_def intro: less_SucI)
next
  case (QueueDownload c l t f n)
  with assms show ?thesis by (auto simp: queueDownload_def Let_def class_ok_def own_rows_def intro: less_SucI)
next
  case (Ask c b t i)
  show ?thesis by (rule class_frame[OF assms]) (simp_all add: Ask ask_question_def Let_def split: option.split)
next
  case (Answer q a)
  show ?thesis by (rule class_frame[OF assms]) (simp_all add: Answer answer_question_def Let_def split: option.split)
next
  case (Upvote q)
  show ?thesis by (rule class_frame[OF assms]) (simp_all add: Upvote upvote_question_def Let_def split: option.split)
next
  case (RemoveQuestion q)
  show ?thesis by (rule class_frame[OF assms]) (simp_all add: RemoveQuestion remove_question_def split: sum.split)
next
  case (Announce c t b)
  show ?thesis by (rule class_frame[OF assms]) (simp_all add: Announce announce_def Let_def tell_all_frame)
next
  case (RemoveAnnouncement a)
  show ?thesis by (rule class_frame[OF assms]) (simp_all add: RemoveAnnouncement remove_announcement_def split: sum.split)
qed

interpretation classroom: invariant_machine "class_step push" class_ok for push
proof unfold_locales
  show "class_ok (snd (class_step push c s))" if "class_ok s" for c s
    using class_step_ok[OF that] by (cases c) simp
qed

lemma strangers_run:
  "class_ok s \<Longrightarrow> \<forall>(now, v, r) \<in> set rs. v \<noteq> u \<Longrightarrow> own_rows u (run_ops (class_step push) rs s) = own_rows u s"
proof (induction rs arbitrary: s)
  case (Cons q rs)
  obtain now v r where q: "q = (now, v, r)" by (cases q)
  with Cons.prems(2) have "v \<noteq> u" by simp
  have "own_rows u (snd (class_step push q s)) = own_rows u s" "class_ok (snd (class_step push q s))"
    using class_step_ok[OF Cons.prems(1), where push = push and now = now and v = v and r = r and u = u] \<open>v \<noteq> u\<close>
    by (simp_all only: q not_False_eq_True simp_thms)
  with Cons.IH[of "snd (class_step push q s)"] Cons.prems(2) show ?case by simp
qed simp

subsection \<open>Properties\<close>

definition empty_class :: "core \<Rightarrow> class_db" where
  "empty_class c = \<lparr>cl_notif = \<lparr>nd_core = c, nd_notifications = [], nd_subscriptions = [], nd_emitted = [], nd_pushed = [], nd_fresh = 0\<rparr>,
     cl_questions = [], cl_announcements = [], cl_notes = [], cl_downloads = [], cl_fresh = 0\<rparr>"

text \<open>Notes and downloads belong to their user: after any history, whatever others request leaves every note and
  download of a user as it is.\<close>

theorem own_notes_untouched:
  assumes "s = run_ops (class_step push) hist (empty_class c)" "\<forall>(now, v, r) \<in> set rs. v \<noteq> u"
  shows "own_rows u (run_ops (class_step push) rs s) = own_rows u s"
proof -
  have "class_ok s" unfolding assms(1) by (rule classroom.run_preserves) (simp add: class_ok_def empty_class_def)
  from strangers_run[OF this assms(2)] show ?thesis .
qed

theorem own_notes_untouched_witness:
  "own_rows 1 (run_ops (class_step (\<lambda>_ _. Delivered)) [(2, 5, UpdateNote 0 (Some ''x'') None), (3, 5, RemoveNote 0)]
     (run_ops (class_step (\<lambda>_ _. Delivered)) [(1, 1, CreateNote 4 ''mine'' None)] (empty_class empty_core)))
   = own_rows 1 (run_ops (class_step (\<lambda>_ _. Delivered)) [(1, 1, CreateNote 4 ''mine'' None)] (empty_class empty_core))"
  by (rule own_notes_untouched[OF refl]) simp

end
