(* ===== verification/Recommendations.thy ===== *)
theory Recommendations
  imports Catalog Js_Sort Progress
begin

text \<open>
  Course recommendations (\<open>recommendations/recommendations.service.ts\<close> and its controller): the skills and levels of
  the courses a learner is enrolled in, the courses learners with two common enrollments take, the ratings, and the
  weighted score of every course the learner is not enrolled in. The cache and the average of the database are arguments,
  as in \<open>Catalog\<close>. A query ordered by a count keeps groups with equal counts in the order their first rows have.
\<close>

subsection \<open>Profiles\<close>

type_synonym 'k counts = "('k \<times> nat) list"

text \<open>A \<open>Map\<close> from keys to counts, in insertion order; \<open>m.set(k, (m.get(k) || 0) + 1)\<close>.\<close>

definition count_up :: "'k \<Rightarrow> 'k counts \<Rightarrow> 'k counts" where
  "count_up k = upsert_entry k (\<lambda>v. case v of None \<Rightarrow> 1 | Some n \<Rightarrow> n + 1)"

text \<open>The course of an enrollment is the joined row: a deleted course has none.\<close>

definition enrolled_courses :: "uuid \<Rightarrow> core \<Rightarrow> course option list" where
  "enrolled_courses u s = map (\<lambda>e. find_course (en_courseId e) s) (filter (\<lambda>e. en_userId e = u) (enrollments s))"

definition skills_of :: "course option \<Rightarrow> string list" where
  "skills_of c = (case Option.bind c co_skills of None \<Rightarrow> [] | Some ss \<Rightarrow> ss)"

definition buildUserSkillProfile :: "course option list \<Rightarrow> string counts" where
  "buildUserSkillProfile cs = fold (\<lambda>c. fold count_up (skills_of c)) cs []"

definition buildUserLevelProfile :: "course option list \<Rightarrow> string counts" where
  "buildUserLevelProfile cs =
     fold (\<lambda>c m. case c of None \<Rightarrow> m | Some c' \<Rightarrow> if co_level c' = [] then m else count_up (co_level c') m) cs []"

definition getUserProgressMap :: "uuid \<Rightarrow> core \<Rightarrow> (uuid \<times> int) list" where
  "getUserProgressMap u s =
     fold (\<lambda>r m. let existing = (case map_of m (pg_courseId r) of None \<Rightarrow> 0 | Some p \<Rightarrow> p)
                 in if existing < pg_progressPct r then upsert_entry (pg_courseId r) (\<lambda>_. pg_progressPct r) m else m)
       (filter (\<lambda>r. pg_userId r = u) (progress s)) []"

text \<open>The ratings: one average for each of the courses that has a review.\<close>

definition getCourseRatingMap :: "(int list \<Rightarrow> js_num) \<Rightarrow> uuid list \<Rightarrow> review list \<Rightarrow> (uuid \<times> js_num) list" where
  "getCourseRatingMap sql_avg ids reviews =
     map (\<lambda>c. (c, sql_avg (map rv_rating (filter (\<lambda>r. rv_courseId r = c) reviews))))
       (remdups (filter (\<lambda>c. c \<in> set ids) (map rv_courseId reviews)))"

subsection \<open>Similar learners\<close>

text \<open>\<open>GROUP BY\<close> with \<open>COUNT(*)\<close>.\<close>

definition group_counts :: "'k list \<Rightarrow> 'k counts" where
  "group_counts ks = fold count_up ks []"

definition by_count :: "'k counts \<Rightarrow> 'k counts" where
  "by_count = order_by_desc (\<lambda>g. int (snd g))"

definition findSimilarUsers :: "uuid \<Rightarrow> uuid list \<Rightarrow> core \<Rightarrow> uuid counts" where
  "findSimilarUsers u enrolled s =
     (if enrolled = [] then []
      else take 20 (by_count (filter (\<lambda>g. 2 \<le> snd g)
             (group_counts (map en_userId (filter (\<lambda>e. en_courseId e \<in> set enrolled \<and> en_userId e \<noteq> u) (enrollments s)))))))"

definition recommended_by :: "uuid list \<Rightarrow> uuid list \<Rightarrow> core \<Rightarrow> uuid counts" where
  "recommended_by ids enrolled s =
     take 50 (by_count (group_counts (map en_courseId
       (filter (\<lambda>e. en_userId e \<in> set ids \<and> en_courseId e \<notin> set enrolled) (enrollments s)))))"

definition getCollaborativeScores :: "uuid counts \<Rightarrow> uuid list \<Rightarrow> core \<Rightarrow> (uuid \<times> js_num) list" where
  "getCollaborativeScores similar enrolled s =
     (if similar = [] then []
      else (let recs = recommended_by (map fst similar) enrolled s;
                maxCount = (case recs of [] \<Rightarrow> 1 | r # _ \<Rightarrow> snd r)
            in map (\<lambda>r. (fst r, js_div (of_nat (snd r)) (of_nat maxCount))) recs))"

subsection \<open>The score\<close>

definition jaccardSimilarity :: "string list \<Rightarrow> string list \<Rightarrow> js_num" where
  "jaccardSimilarity a b =
     (if a = [] \<and> b = [] then 0
      else (let setA = remdups a; setB = remdups b;
                intersection = length (filter (\<lambda>x. x \<in> set setB) setA);
                union = length (remdups (setA @ setB))
            in if union = 0 then 0 else js_div (of_nat intersection) (of_nat union)))"

definition getPreferredLevel :: "string counts \<Rightarrow> string option" where
  "getPreferredLevel profile =
     snd (fold (\<lambda>(l, n) (maxCount, preferred). if maxCount < n then (n, Some l) else (maxCount, preferred)) profile (0, None))"

definition level_order :: "string list" where
  "level_order = [''beginner'', ''intermediate'', ''advanced'']"

fun index_of :: "'a \<Rightarrow> 'a list \<Rightarrow> nat option" where
  "index_of x [] = None"
| "index_of x (y # ys) = (if x = y then Some 0 else map_option Suc (index_of x ys))"

definition isAdjacentLevel :: "string \<Rightarrow> string \<Rightarrow> bool" where
  "isAdjacentLevel a b =
     (case (index_of a level_order, index_of b level_order) of
        (Some i, Some j) \<Rightarrow> \<bar>int i - int j\<bar> = 1
      | _ \<Rightarrow> False)"

definition weight_skill :: js_num where "weight_skill = fl (40 / 100)"
definition weight_level :: js_num where "weight_level = fl (25 / 100)"
definition weight_collaborative :: js_num where "weight_collaborative = fl (20 / 100)"
definition weight_rating :: js_num where "weight_rating = fl (15 / 100)"

lemmas weights = weight_skill_def weight_level_def weight_collaborative_def weight_rating_def

datatype match_reason = MatchesSkills int | SameLevel string | PopularWithSimilar
datatype level_match = NoMatch | ExactLevel string | AdjacentTo string | NoPreference

record scored_course =
  sc_course :: course
  sc_score :: js_num
  sc_matchReasons :: "match_reason list"
  sc_skillOverlap :: js_num
  sc_levelMatch :: level_match
  sc_collaborativeScore :: js_num
  sc_averageRating :: "js_num option"

definition level_score :: "string option \<Rightarrow> string \<Rightarrow> js_num \<times> level_match \<times> match_reason list" where
  "level_score preferred level =
     (case preferred of
        Some p \<Rightarrow> if p \<noteq> []
                  then (if level = p then (1, ExactLevel p, [SameLevel p])
                        else if isAdjacentLevel level p then (fl (5 / 10), AdjacentTo p, []) else (0, NoMatch, []))
                  else (fl (3 / 10), NoPreference, [])
      | None \<Rightarrow> (fl (3 / 10), NoPreference, []))"

text \<open>\<open>m.get(k) || 0\<close>, \<open>m.get(k) || null\<close>: a zero counts as missing.\<close>

definition number_at :: "(uuid \<times> js_num) list \<Rightarrow> uuid \<Rightarrow> js_num" where
  "number_at m k = (case map_of m k of None \<Rightarrow> 0 | Some x \<Rightarrow> x)"

definition final_score :: "js_num \<Rightarrow> js_num \<Rightarrow> js_num \<Rightarrow> js_num \<Rightarrow> js_num" where
  "final_score skillOverlap levelScore collabScore ratingScore =
     js_add (js_add (js_add (js_mul weight_skill skillOverlap) (js_mul weight_level levelScore))
       (js_mul weight_collaborative collabScore)) (js_mul weight_rating ratingScore)"

definition scoreCourse ::
  "course \<Rightarrow> string counts \<Rightarrow> string counts \<Rightarrow> (uuid \<times> js_num) list \<Rightarrow> (uuid \<times> js_num) list \<Rightarrow> scored_course" where
  "scoreCourse c skillProfile levelProfile collab ratings =
     (let skillOverlap = jaccardSimilarity (map fst skillProfile) (skills_of (Some c));
          skillReason = (if 0 < skillOverlap then [MatchesSkills (math_round (js_mul skillOverlap 100))] else []);
          (levelScore, levelMatch, levelReason) = level_score (getPreferredLevel levelProfile) (co_level c);
          collabScore = number_at collab (co_id c);
          collabReason = (if 0 < collabScore then [PopularWithSimilar] else []);
          avgRating = (if number_at ratings (co_id c) = 0 then None else Some (number_at ratings (co_id c)));
          ratingScore = (case avgRating of None \<Rightarrow> 0 | Some r \<Rightarrow> js_div r 5);
          finalScore = final_score skillOverlap levelScore collabScore ratingScore
      in \<lparr>sc_course = c, sc_score = js_div (of_int (math_round (js_mul finalScore 1000))) 1000,
          sc_matchReasons = skillReason @ levelReason @ collabReason, sc_skillOverlap = skillOverlap,
          sc_levelMatch = levelMatch, sc_collaborativeScore = collabScore, sc_averageRating = avgRating\<rparr>)"

subsection \<open>The recommendations\<close>

record 'c recommendation_db =
  rd_core :: core
  rd_reviews :: "review list"
  rd_cache :: 'c

definition recommendations_ttl :: int where
  "recommendations_ttl = 3600"

definition recommendations_key :: "(uuid \<Rightarrow> string) \<Rightarrow> uuid \<Rightarrow> string" where
  "recommendations_key idt u = ''recommendations:v2:'' @ idt u"

text \<open>\<open>xs.slice(0, n)\<close>: a negative end counts from the back.\<close>

definition slice_to :: "int \<Rightarrow> 'a list \<Rightarrow> 'a list" where
  "slice_to n xs = take (nat (if n < 0 then int (length xs) + n else n)) xs"

definition candidate_courses :: "core \<Rightarrow> course list" where
  "candidate_courses s = filter (\<lambda>c. \<not> co_isDeleted c \<and> co_status c \<in> {PUBLISHED, SCHEDULED}) (courses s)"

definition enrolled_ids :: "uuid \<Rightarrow> core \<Rightarrow> uuid list" where
  "enrolled_ids u s = map en_courseId (filter (\<lambda>e. en_userId e = u) (enrollments s))"

definition scored_courses :: "(int list \<Rightarrow> js_num) \<Rightarrow> uuid \<Rightarrow> 'c recommendation_db \<Rightarrow> scored_course list" where
  "scored_courses sql_avg u d =
     (let s = rd_core d; enrolled = enrolled_ids u s; mine = enrolled_courses u s; candidates = candidate_courses s;
          ratings = getCourseRatingMap sql_avg (map co_id candidates) (rd_reviews d);
          collab = getCollaborativeScores (findSimilarUsers u enrolled s) enrolled s
      in js_sort (by_desc sc_score) (filter (\<lambda>c. 0 < sc_score c)
           (map (\<lambda>c. scoreCourse c (buildUserSkillProfile mine) (buildUserLevelProfile mine) collab ratings)
              (filter (\<lambda>c. co_id c \<notin> set enrolled) candidates))))"

definition getRecommendations ::
  "(timestamp \<Rightarrow> 'c \<Rightarrow> string \<Rightarrow> scored_course list option) \<Rightarrow>
   (timestamp \<Rightarrow> string \<Rightarrow> scored_course list \<Rightarrow> int \<Rightarrow> 'c \<Rightarrow> 'c) \<Rightarrow> (uuid \<Rightarrow> string) \<Rightarrow> (int list \<Rightarrow> js_num) \<Rightarrow>
   timestamp \<Rightarrow> uuid \<Rightarrow> int \<Rightarrow> 'c recommendation_db \<Rightarrow> scored_course list \<times> 'c recommendation_db" where
  "getRecommendations get put idt sql_avg now u limit d =
     (case get now (rd_cache d) (recommendations_key idt u) of
        Some cached \<Rightarrow> (slice_to limit cached, d)
      | None \<Rightarrow>
          (let results = slice_to (max limit 50) (scored_courses sql_avg u d)
           in (slice_to limit results,
               d\<lparr>rd_cache := put now (recommendations_key idt u) results recommendations_ttl (rd_cache d)\<rparr>)))"

definition recommendations_invalidate :: "(string \<Rightarrow> 'c \<Rightarrow> 'c) \<Rightarrow> (uuid \<Rightarrow> string) \<Rightarrow> uuid \<Rightarrow> 'c recommendation_db \<Rightarrow> 'c recommendation_db" where
  "recommendations_invalidate del idt u d = d\<lparr>rd_cache := del (recommendations_key idt u) (rd_cache d)\<rparr>"

text \<open>The controller caps the number asked for.\<close>

definition recommendations_endpoint ::
  "(timestamp \<Rightarrow> 'c \<Rightarrow> string \<Rightarrow> scored_course list option) \<Rightarrow>
   (timestamp \<Rightarrow> string \<Rightarrow> scored_course list \<Rightarrow> int \<Rightarrow> 'c \<Rightarrow> 'c) \<Rightarrow> (uuid \<Rightarrow> string) \<Rightarrow> (int list \<Rightarrow> js_num) \<Rightarrow>
   timestamp \<Rightarrow> uuid \<Rightarrow> int \<Rightarrow> 'c recommendation_db \<Rightarrow> scored_course list \<times> 'c recommendation_db" where
  "recommendations_endpoint get put idt sql_avg now u limit d =
     getRecommendations get put idt sql_avg now u (min limit 50) d"

subsection \<open>Every part of the score lies between 0 and 1\<close>

lemma jaccard_bounds: "0 \<le> jaccardSimilarity a b \<and> jaccardSimilarity a b \<le> 1"
proof (cases "a = [] \<and> b = []")
  case False
  have "length (filter (\<lambda>x. x \<in> set b) (remdups a)) \<le> length (remdups (remdups a @ remdups b))"
    unfolding length_remdups_card_conv by (subst distinct_length_filter) (auto intro!: card_mono)
  moreover have "0 < length (remdups (remdups a @ remdups b))"
    using False by (auto simp: length_remdups_card_conv card_gt_0_iff)
  ultimately show ?thesis
    using js_div_unit[of "of_nat (length (filter (\<lambda>x. x \<in> set b) (remdups a)))"
        "of_nat (length (remdups (remdups a @ remdups b)))"]
    by (simp add: jaccardSimilarity_def Let_def del: remdups_append2 remdups_eq_nil_iff)
qed (simp add: jaccardSimilarity_def)

lemma level_score_bounds: "0 \<le> fst (level_score p l) \<and> fst (level_score p l) \<le> 1"
  using fl_nonneg[of "1 / 2"] fl_mono[of "1 / 2" 1] fl_nonneg[of "3 / 10"] fl_mono[of "3 / 10" 1]
  by (simp add: level_score_def split: option.split)

lemma by_count_hd: "by_count gs = g # rest \<Longrightarrow> h \<in> set gs \<Longrightarrow> snd h \<le> snd g"
  using order_by_desc_hd[of gs h "\<lambda>g. int (snd g)"] by (cases "gs = []") (simp_all add: by_count_def)

lemma count_up_positive: "\<forall>g \<in> set m. 0 < snd g \<Longrightarrow> g \<in> set (count_up k m) \<Longrightarrow> 0 < snd g"
  using set_upsert_entryD[of g k _ m] by (force simp: count_up_def split: option.splits)

lemma group_counts_positive: "g \<in> set (group_counts ks) \<Longrightarrow> 0 < snd g"
proof -
  have pos: "\<forall>g \<in> set (fold count_up ks m). 0 < snd g" if "\<forall>g \<in> set m. 0 < snd g" for m :: "'a counts"
    using that
  proof (induction ks arbitrary: m)
    case (Cons k ks)
    have "\<forall>g \<in> set (count_up k m). 0 < snd g" using count_up_positive[OF Cons.prems] by blast
    from Cons.IH[OF this] show ?case by (simp only: fold_simps)
  qed simp
  have "\<forall>g \<in> set (group_counts ks). 0 < snd g" unfolding group_counts_def by (rule pos) simp
  then show "g \<in> set (group_counts ks) \<Longrightarrow> 0 < snd g" by blast
qed

lemma collaborative_bounds:
  assumes "(c, x) \<in> set (getCollaborativeScores similar enrolled s)"
  shows "0 \<le> x \<and> x \<le> 1"
proof -
  let ?groups = "group_counts (map en_courseId
       (filter (\<lambda>e. en_userId e \<in> set (map fst similar) \<and> en_courseId e \<notin> set enrolled) (enrollments s)))"
  let ?recs = "recommended_by (map fst similar) enrolled s"
  obtain r where r: "r \<in> set ?recs" "x = js_div (of_nat (snd r)) (of_nat (case ?recs of [] \<Rightarrow> 1 | q # _ \<Rightarrow> snd q))"
    using assms by (auto simp: getCollaborativeScores_def Let_def split: if_splits)
  then obtain q rest where q: "?recs = q # rest" by (cases ?recs) auto
  then obtain rest' where all: "by_count ?groups = q # rest'"
    by (cases "by_count ?groups") (auto simp: recommended_by_def)
  have "r \<in> set (by_count ?groups)" using r(1) set_take_subset[of 50 "by_count ?groups"] by (auto simp: recommended_by_def)
  then have "r \<in> set ?groups" by (simp add: by_count_def)
  then have "snd r \<le> snd q" "0 < snd r" using by_count_hd[OF all] group_counts_positive by blast+
  with r(2) q js_div_unit[of "of_nat (snd r)" "of_nat (snd q)"] show ?thesis by simp
qed

lemma number_at_bounds:
  assumes "\<And>c x. (c, x) \<in> set m \<Longrightarrow> lo \<le> x \<and> x \<le> hi" "lo \<le> 0" "0 \<le> hi"
  shows "lo \<le> number_at m k \<and> number_at m k \<le> hi"
  using assms by (auto simp: number_at_def split: option.split dest: map_of_SomeD)

text \<open>The average of values between 1 and 5, as the database computes it, lies between them too.\<close>

definition averages :: "(int list \<Rightarrow> js_num) \<Rightarrow> bool" where
  "averages sql_avg \<longleftrightarrow>
     (\<forall>xs. xs \<noteq> [] \<longrightarrow> (\<forall>x \<in> set xs. 1 \<le> x \<and> x \<le> 5) \<longrightarrow> 1 \<le> sql_avg xs \<and> sql_avg xs \<le> 5)"

lemma rating_map_bounds:
  assumes "averages sql_avg" "\<forall>r \<in> set reviews. 1 \<le> rv_rating r \<and> rv_rating r \<le> 5"
    and "(c, x) \<in> set (getCourseRatingMap sql_avg ids reviews)"
  shows "0 \<le> x \<and> x \<le> 5"
proof -
  let ?rs = "map rv_rating (filter (\<lambda>r. rv_courseId r = c) reviews)"
  have x: "x = sql_avg ?rs" "?rs \<noteq> []" using assms(3) by (auto simp: getCourseRatingMap_def filter_empty_conv)
  have "1 \<le> sql_avg ?rs \<and> sql_avg ?rs \<le> 5"
    using assms(1)[unfolded averages_def, rule_format, OF x(2)] assms(2) by auto
  with x(1) show ?thesis by simp
qed

lemma weighted: "0 \<le> w \<Longrightarrow> 0 \<le> x \<Longrightarrow> x \<le> 1 \<Longrightarrow> fl w = w \<Longrightarrow> 0 \<le> js_mul w x \<and> js_mul w x \<le> w"
  using fl_mono[of "w * x" w] mult_left_le[of x w] by (simp add: js_mul_def fl_nonneg)

lemma final_score_bounds:
  assumes "0 \<le> a \<and> a \<le> 1" "0 \<le> b \<and> b \<le> 1" "0 \<le> c \<and> c \<le> 1" "0 \<le> d \<and> d \<le> 1"
  shows "0 \<le> final_score a b c d \<and> js_mul (final_score a b c d) 1000 < 1000 + 1 / 2"
proof -
  define k :: rat where "k = 1 + 1 / 2 ^ 53"
  have le: "fl x \<le> x * k" if "0 \<le> x" for x using fl_rel[OF that] by (simp add: k_def)
  have w: "0 \<le> weight_skill" "0 \<le> weight_level" "0 \<le> weight_collaborative" "0 \<le> weight_rating"
    by (simp_all add: weights fl_nonneg)
  have W: "weight_skill \<le> 40 / 100 * k" "weight_level \<le> 25 / 100 * k" "weight_collaborative \<le> 20 / 100 * k" "weight_rating \<le> 15 / 100 * k"
    unfolding weights by (intro le; simp)+
  have idem: "fl weight_skill = weight_skill" "fl weight_level = weight_level" "fl weight_collaborative = weight_collaborative" "fl weight_rating = weight_rating"
    by (simp_all add: weights)
  define p q r t where "p = js_mul weight_skill a" and "q = js_mul weight_level b"
    and "r = js_mul weight_collaborative c" and "t = js_mul weight_rating d"
  have P: "0 \<le> p \<and> p \<le> weight_skill" "0 \<le> q \<and> q \<le> weight_level" "0 \<le> r \<and> r \<le> weight_collaborative" "0 \<le> t \<and> t \<le> weight_rating"
    unfolding p_def q_def r_def t_def using assms w idem by (auto intro: weighted[THEN conjunct1] weighted[THEN conjunct2])
  have s1: "0 \<le> js_add p q \<and> js_add p q \<le> 65 / 100 * k * k"
    using le[of "p + q"] P W by (auto simp: js_add_nonneg js_add_def fl_nonneg k_def)
  have s2: "0 \<le> js_add (js_add p q) r \<and> js_add (js_add p q) r \<le> (65 / 100 * k * k + 20 / 100 * k) * k"
    using le[of "js_add p q + r"] P W s1 by (auto simp: js_add_nonneg js_add_def[of _ r] fl_nonneg k_def)
  have s3: "0 \<le> js_add (js_add (js_add p q) r) t \<and> js_add (js_add (js_add p q) r) t \<le> ((65 / 100 * k * k + 20 / 100 * k) * k + 15 / 100 * k) * k"
    using le[of "js_add (js_add p q) r + t"] P W s2 by (auto simp: js_add_nonneg js_add_def[of _ t] fl_nonneg k_def)
  have "js_mul (final_score a b c d) 1000 \<le> final_score a b c d * 1000 * k"
    using le[of "final_score a b c d * 1000"] s3 by (simp add: js_mul_def final_score_def p_def q_def r_def t_def)
  also have "\<dots> \<le> ((65 / 100 * k * k + 20 / 100 * k) * k + 15 / 100 * k) * k * 1000 * k"
    using s3 by (intro mult_right_mono) (simp_all add: final_score_def p_def q_def r_def t_def k_def)
  also have "\<dots> < 1000 + 1 / 2" by (simp add: k_def)
  finally show ?thesis using s3 by (simp add: final_score_def p_def q_def r_def t_def)
qed

lemma scoreCourse_bounds:
  assumes "\<And>c x. (c, x) \<in> set collab \<Longrightarrow> 0 \<le> x \<and> x \<le> 1" "\<And>c x. (c, x) \<in> set ratings \<Longrightarrow> 0 \<le> x \<and> x \<le> 5"
  shows "0 \<le> sc_score (scoreCourse c ss ls collab ratings) \<and> sc_score (scoreCourse c ss ls collab ratings) \<le> 1"
proof -
  define o1 where "o1 = jaccardSimilarity (map fst ss) (skills_of (Some c))"
  define l1 where "l1 = fst (level_score (getPreferredLevel ls) (co_level c))"
  define c1 where "c1 = number_at collab (co_id c)"
  define r1 where "r1 = (if number_at ratings (co_id c) = 0 then 0 else js_div (number_at ratings (co_id c)) 5)"
  have C: "0 \<le> c1 \<and> c1 \<le> 1" unfolding c1_def by (rule number_at_bounds[OF assms(1)]) simp_all
  have "0 \<le> number_at ratings (co_id c) \<and> number_at ratings (co_id c) \<le> 5" by (rule number_at_bounds[OF assms(2)]) simp_all
  then have R: "0 \<le> r1 \<and> r1 \<le> 1" using js_div_unit[of "number_at ratings (co_id c)" 5] by (simp add: r1_def)
  define f where "f = js_mul (final_score o1 l1 c1 r1) 1000"
  have "0 \<le> final_score o1 l1 c1 r1 \<and> f < 1000 + 1 / 2"
    unfolding f_def by (rule final_score_bounds) (use jaccard_bounds level_score_bounds C R in \<open>simp_all add: o1_def l1_def\<close>)
  then have "0 \<le> f" "f + 1 / 2 < 1001" by (simp_all add: f_def js_mul_nonneg)
  then have "0 \<le> math_round f" "math_round f \<le> 1000" by (simp_all add: math_round_def floor_le_iff)
  then have "0 \<le> js_div (of_int (math_round f)) 1000" "js_div (of_int (math_round f)) 1000 \<le> 1"
    using js_div_unit[of "of_int (math_round f)" 1000] by (simp_all add: of_int_le_iff[of _ 1000, where 'a = rat, simplified])
  moreover have "sc_score (scoreCourse c ss ls collab ratings) = js_div (of_int (math_round f)) 1000"
    by (simp add: scoreCourse_def Let_def f_def o1_def l1_def c1_def r1_def split: prod.split)
  ultimately show ?thesis by simp
qed

lemma scoreCourse_course [simp]: "sc_course (scoreCourse c ss ls collab ratings) = c"
  by (simp add: scoreCourse_def Let_def split: prod.split)

lemma scored_course_facts:
  assumes "x \<in> set (scored_courses sql_avg u d)"
  shows "sc_course x \<in> set (courses (rd_core d)) \<and> \<not> co_isDeleted (sc_course x) \<and> co_status (sc_course x) \<in> {PUBLISHED, SCHEDULED} \<and>
    find_enrollment u (co_id (sc_course x)) (rd_core d) = None \<and> 0 < sc_score x"
proof -
  obtain c collab ratings where c: "c \<in> set (candidate_courses (rd_core d))" "co_id c \<notin> set (enrolled_ids u (rd_core d))"
    and x: "x = scoreCourse c (buildUserSkillProfile (enrolled_courses u (rd_core d))) (buildUserLevelProfile (enrolled_courses u (rd_core d))) collab ratings"
    "0 < sc_score x"
    using assms by (auto simp: scored_courses_def Let_def)
  have "find_enrollment u (co_id c) (rd_core d) = None"
    unfolding find_enrollment_None using c(2) by (force simp: enrolled_ids_def)
  with c(1) x show ?thesis by (simp add: candidate_courses_def)
qed

lemma scored_course_le_1:
  assumes "averages sql_avg" "\<forall>r \<in> set (rd_reviews d). 1 \<le> rv_rating r \<and> rv_rating r \<le> 5"
    and "x \<in> set (scored_courses sql_avg u d)"
  shows "sc_score x \<le> 1"
proof -
  let ?s = "rd_core d"
  obtain c ss ls where "x = scoreCourse c ss ls
      (getCollaborativeScores (findSimilarUsers u (enrolled_ids u ?s) ?s) (enrolled_ids u ?s) ?s)
      (getCourseRatingMap sql_avg (map co_id (candidate_courses ?s)) (rd_reviews d))"
    using assms(3) by (auto simp: scored_courses_def Let_def)
  then show ?thesis
    using scoreCourse_bounds[OF collaborative_bounds rating_map_bounds[OF assms(1,2)]] by simp
qed

lemma scored_sorted: "sorted_wrt (\<lambda>a b. sc_score b \<le> sc_score a) (scored_courses sql_avg u d)"
proof -
  have "sorted_wrt (\<lambda>a b. by_desc sc_score a b \<le> 0) (scored_courses sql_avg u d)"
    unfolding scored_courses_def Let_def by (rule by_desc.sorted_js_sort)
  then show ?thesis by (simp add: by_desc_def)
qed

text \<open>A learner without enrollments: the level counts 0.3, so every course has a positive score.\<close>

lemma final_score_low:
  assumes "0 \<le> a" "0 \<le> c" "0 \<le> d"
  shows "1 \<le> js_mul (final_score a (fl (3 / 10)) c d) 1000"
proof -
  define k :: rat where "k = 1 - 1 / 2 ^ 53"
  have ge: "x * k \<le> fl x" if "0 \<le> x" for x using fl_rel[OF that] by (simp add: k_def)
  have k: "0 \<le> k" by (simp add: k_def)
  define p q r t where "p = js_mul weight_skill a" and "q = js_mul weight_level (fl (3 / 10))"
    and "r = js_mul weight_collaborative c" and "t = js_mul weight_rating d"
  have n: "0 \<le> p" "0 \<le> r" "0 \<le> t" by (simp_all add: p_def r_def t_def weights js_mul_nonneg fl_nonneg assms)
  have "25 / 100 * k * (3 / 10 * k) \<le> weight_level * fl (3 / 10)"
    unfolding weights by (intro mult_mono ge) (simp_all add: fl_nonneg k)
  then have "25 / 100 * k * (3 / 10 * k) * k \<le> weight_level * fl (3 / 10) * k" using k by (intro mult_right_mono)
  also have "\<dots> \<le> q" unfolding q_def js_mul_def by (rule ge) (simp add: weights fl_nonneg)
  finally have q: "25 / 100 * k * (3 / 10 * k) * k \<le> q" .
  then have q0: "0 \<le> q" by (rule order_trans[rotated]) (simp add: k_def)
  have grow: "b * k \<le> js_add x y" if "b \<le> x" "0 \<le> b" "0 \<le> y" for b x y
    using ge[of "x + y"] that mult_right_mono[of b "x + y" k] k by (simp add: js_add_def)
  have grow': "b * k \<le> js_add x y" if "b \<le> y" "0 \<le> b" "0 \<le> x" for b x y
    using grow[OF that] by (simp add: js_add_def add.commute)
  have "25 / 100 * k * (3 / 10 * k) * k * k * k * k \<le> final_score a (fl (3 / 10)) c d"
    unfolding final_score_def p_def[symmetric] q_def[symmetric] r_def[symmetric] t_def[symmetric]
    using q n by (intro grow grow') (simp_all add: k_def)
  then have "25 / 100 * k * (3 / 10 * k) * k * k * k * k * 1000 * k \<le> final_score a (fl (3 / 10)) c d * 1000 * k"
    using k by (intro mult_right_mono) simp_all
  also have "\<dots> \<le> js_mul (final_score a (fl (3 / 10)) c d) 1000"
    unfolding js_mul_def
    by (rule ge) (simp add: final_score_def js_add_nonneg js_mul_nonneg weights fl_nonneg assms)
  finally show ?thesis by (rule order_trans[rotated]) (simp add: k_def)
qed

lemma newcomer_score:
  assumes "\<And>c x. (c, x) \<in> set ratings \<Longrightarrow> 0 \<le> x \<and> x \<le> 5"
  shows "0 < sc_score (scoreCourse c ss [] [] ratings)"
proof -
  define o1 where "o1 = jaccardSimilarity (map fst ss) (skills_of (Some c))"
  define r1 where "r1 = (if number_at ratings (co_id c) = 0 then 0 else js_div (number_at ratings (co_id c)) 5)"
  have "0 \<le> number_at ratings (co_id c) \<and> number_at ratings (co_id c) \<le> 5" by (rule number_at_bounds[OF assms]) simp_all
  then have "0 \<le> r1" by (simp add: r1_def js_div_nonneg)
  then have "1 \<le> js_mul (final_score o1 (fl (3 / 10)) 0 r1) 1000"
    using jaccard_bounds by (intro final_score_low) (simp_all add: o1_def)
  then have "1 \<le> math_round (js_mul (final_score o1 (fl (3 / 10)) 0 r1) 1000)" by (simp add: math_round_def le_floor_iff)
  then have "0 < js_div (of_int (math_round (js_mul (final_score o1 (fl (3 / 10)) 0 r1) 1000))) 1000"
    using fl_pos_positive[of "of_int (math_round (js_mul (final_score o1 (fl (3 / 10)) 0 r1) 1000)) / 1000"] by (simp add: js_div_def fl_def)
  moreover have "number_at [] k = 0" for k by (simp add: number_at_def)
  ultimately show ?thesis
    by (simp add: scoreCourse_def Let_def level_score_def getPreferredLevel_def o1_def r1_def if_distrib[of "\<lambda>v. case v of None \<Rightarrow> _ | Some r \<Rightarrow> _ r"] cong: if_cong)
qed

lemma newcomer_scored:
  assumes "averages sql_avg" "\<forall>r \<in> set (rd_reviews d). 1 \<le> rv_rating r \<and> rv_rating r \<le> 5"
    and "enrolled_ids u (rd_core d) = []"
  shows "set (map sc_course (scored_courses sql_avg u d)) = set (candidate_courses (rd_core d))"
proof -
  have none: "enrolled_courses u (rd_core d) = []" using assms(3) by (simp add: enrolled_ids_def enrolled_courses_def)
  have "filter (\<lambda>c. 0 < sc_score c) (map (\<lambda>c. scoreCourse c [] [] [] (getCourseRatingMap sql_avg ids (rd_reviews d))) cs) =
      map (\<lambda>c. scoreCourse c [] [] [] (getCourseRatingMap sql_avg ids (rd_reviews d))) cs" for ids cs
    using newcomer_score[OF rating_map_bounds[OF assms(1,2)]] by (intro filter_True) auto
  then show ?thesis
    by (simp add: scored_courses_def Let_def assms(3) none buildUserSkillProfile_def buildUserLevelProfile_def
        getCollaborativeScores_def findSimilarUsers_def image_image)
qed

lemma slice_slice: "0 \<le> n \<Longrightarrow> n \<le> m \<Longrightarrow> slice_to n (slice_to m xs) = take (nat n) xs"
  by (simp add: slice_to_def nat_mono)

lemma answer_on_miss:
  assumes "get now (rd_cache d) (recommendations_key idt u) = None" "0 \<le> limit" "limit \<le> 50"
  shows "fst (getRecommendations get put idt sql_avg now u limit d) = take (nat limit) (scored_courses sql_avg u d)"
  using assms slice_slice[of limit "max limit 50"] by (simp add: getRecommendations_def Let_def)

lemma answer_cached:
  assumes "expiring_cache get put del" "get t (rd_cache d) (recommendations_key idt u) = None" "0 \<le> limit" "limit \<le> 50"
    and "t \<le> t'" "t' < t + recommendations_ttl" "getRecommendations get put idt sql_avg t u limit d = (r, d1)"
  shows "fst (getRecommendations get put idt sql_avg t' u limit (d1\<lparr>rd_core := s', rd_reviews := rs\<rparr>)) = r"
proof -
  have d1: "d1 = d\<lparr>rd_cache := put t (recommendations_key idt u) (slice_to (max limit 50) (scored_courses sql_avg u d)) recommendations_ttl (rd_cache d)\<rparr>"
    and r: "r = slice_to limit (slice_to (max limit 50) (scored_courses sql_avg u d))"
    using assms(2,7) by (simp_all add: getRecommendations_def Let_def)
  show ?thesis
    using expiring_cache.get_live[OF assms(1,5,6)] by (simp add: getRecommendations_def d1 r)
qed

subsection \<open>Properties\<close>

text \<open>C39: A computed answer lists, by decreasing score and at most as many as asked for, courses that exist, are not deleted,
  are published or scheduled, and that the learner is not enrolled in; every score is above 0 and at most 1, whatever
  the rounding of the products and sums does. With averages of ratings between 1 and 5.\<close>

theorem recommendations_eligible:
  assumes "averages sql_avg" "\<forall>r \<in> set (rd_reviews d). 1 \<le> rv_rating r \<and> rv_rating r \<le> 5"
    and "get now (rd_cache d) (recommendations_key idt u) = None" "0 \<le> limit"
    and "fst (recommendations_endpoint get put idt sql_avg now u limit d) = xs"
  shows "length xs \<le> min (nat limit) 50 \<and> sorted_wrt (\<lambda>a b. sc_score b \<le> sc_score a) xs \<and>
    (\<forall>x \<in> set xs. sc_course x \<in> set (courses (rd_core d)) \<and> \<not> co_isDeleted (sc_course x) \<and>
       co_status (sc_course x) \<in> {PUBLISHED, SCHEDULED} \<and>
       find_enrollment u (co_id (sc_course x)) (rd_core d) = None \<and> 0 < sc_score x \<and> sc_score x \<le> 1)"
proof -
  have xs: "xs = take (nat (min limit 50)) (scored_courses sql_avg u d)"
    using answer_on_miss[where get = get, OF assms(3), of "min limit 50"] assms(4,5) by (simp add: recommendations_endpoint_def)
  have "nat (min limit 50) \<le> min (nat limit) 50" by linarith
  then have "length xs \<le> min (nat limit) 50" unfolding xs length_take by (rule order_trans[OF min.cobounded2])
  moreover have "sorted_wrt (\<lambda>a b. sc_score b \<le> sc_score a) xs" unfolding xs by (rule sorted_wrt_take[OF scored_sorted])
  moreover have "x \<in> set (scored_courses sql_avg u d)" if "x \<in> set xs" for x
    using that set_take_subset unfolding xs by fast
  ultimately show ?thesis
    using scored_course_facts scored_course_le_1[OF assms(1,2)] by blast
qed

text \<open>Nothing better is left out: a course with a positive score that is not among the ones listed has a score no higher
  than any of them, and then as many as asked for are listed.\<close>

theorem recommendations_best:
  assumes "get now (rd_cache d) (recommendations_key idt u) = None" "0 \<le> limit" "limit \<le> 50"
    and "x \<in> set (scored_courses sql_avg u d)"
    and "x \<notin> set (fst (getRecommendations get put idt sql_avg now u limit d))"
  shows "length (fst (getRecommendations get put idt sql_avg now u limit d)) = nat limit \<and>
    (\<forall>y \<in> set (fst (getRecommendations get put idt sql_avg now u limit d)). sc_score x \<le> sc_score y)"
  using sorted_take_rest[OF scored_sorted assms(4)] assms(5) unfolding answer_on_miss[where get = get, OF assms(1-3)] by blast

text \<open>For the time to live of a stored answer, a new enrollment, the deletion of a course or a new rating changes nothing:
  the answer stays the one computed before, because no service calls \<open>invalidateCache\<close>.\<close>

theorem recommendations_stale:
  assumes "expiring_cache get put del" "get t (rd_cache d) (recommendations_key idt u) = None" "0 \<le> limit"
    and "t \<le> t'" "t' < t + recommendations_ttl" "recommendations_endpoint get put idt sql_avg t u limit d = (r, d1)"
  shows "fst (recommendations_endpoint get put idt sql_avg t' u limit (d1\<lparr>rd_core := s', rd_reviews := rs\<rparr>)) = r"
  using answer_cached[OF assms(1,2) _ _ assms(4,5), of "min limit 50"] assms(3,6) by (simp add: recommendations_endpoint_def)

subsection \<open>Witnesses\<close>

definition one_average :: "int list \<Rightarrow> js_num" where
  "one_average xs = fl (of_int (sum_list xs) / of_nat (length xs))"

definition two_courses :: "(string \<Rightarrow> (scored_course list \<times> int) option) recommendation_db" where
  "two_courses = \<lparr>rd_core = empty_core\<lparr>courses := [(new_course 1 ''A'')\<lparr>co_status := PUBLISHED\<rparr>, (new_course 2 ''B'')\<lparr>co_status := SCHEDULED\<rparr>, new_course 3 ''C'']\<rparr>,
     rd_reviews = [], rd_cache = (\<lambda>_. None)\<rparr>"

lemma averages_one_average: "averages one_average"
proof -
  have "1 \<le> one_average xs \<and> one_average xs \<le> 5" if "xs \<noteq> []" "\<forall>x \<in> set xs. 1 \<le> x \<and> x \<le> 5" for xs
  proof -
    have "int (length xs) \<le> sum_list xs \<and> sum_list xs \<le> 5 * int (length xs)"
      using that(2) by (induction xs) auto
    then have "(of_nat (length xs) :: rat) \<le> of_int (sum_list xs)" "(of_int (sum_list xs) :: rat) \<le> 5 * of_nat (length xs)"
      by (metis of_int_le_iff of_int_of_nat_eq) (metis (mono_tags) \<open>int (length xs) \<le> sum_list xs \<and> sum_list xs \<le> 5 * int (length xs)\<close> of_int_le_iff of_int_mult of_int_numeral of_int_of_nat_eq)
    then have "1 \<le> (of_int (sum_list xs) / of_nat (length xs) :: rat)" "(of_int (sum_list xs) / of_nat (length xs) :: rat) \<le> 5"
      using that(1) by (simp_all add: field_simps)
    then show ?thesis
      using fl_mono[of 1 "of_int (sum_list xs) / of_nat (length xs)"] fl_mono[of "of_int (sum_list xs) / of_nat (length xs)" 5] fl_numeral[of "num.Bit1 (num.Bit0 num.One)"]
      by (simp add: one_average_def)
  qed
  then show ?thesis by (simp add: averages_def)
qed

lemma two_courses_scored:
  "\<exists>x \<in> set (scored_courses one_average 7 two_courses). co_title (sc_course x) = t" if "t = ''A'' \<or> t = ''B''"
proof -
  have "set (map sc_course (scored_courses one_average 7 two_courses)) = set (candidate_courses (rd_core two_courses))"
    by (rule newcomer_scored[OF averages_one_average]) (simp_all add: two_courses_def enrolled_ids_def empty_core_def)
  moreover have "t \<in> co_title ` set (candidate_courses (rd_core two_courses))"
    using that by (auto simp: candidate_courses_def two_courses_def new_course_def)
  ultimately show ?thesis by (metis (no_types, lifting) imageE list.set_map)
qed

lemma two_courses_miss: "ttl_get t (rd_cache two_courses) k = None"
  by (simp add: two_courses_def ttl_defs)

text \<open>One of two courses is asked for: the other one is no better.\<close>

theorem recommendations_best_witness:
  "\<exists>x y. x \<noteq> y \<and> fst (getRecommendations ttl_get ttl_put (\<lambda>_. ''u'') one_average 0 7 1 two_courses) = [y] \<and> sc_score x \<le> sc_score y"
proof -
  let ?r = "fst (getRecommendations ttl_get ttl_put (\<lambda>_. ''u'') one_average 0 7 1 two_courses)"
  obtain a b where ab: "a \<in> set (scored_courses one_average 7 two_courses)" "b \<in> set (scored_courses one_average 7 two_courses)" "a \<noteq> b"
    using two_courses_scored[of "''A''"] two_courses_scored[of "''B''"] by force
  have short: "length ?r \<le> 1"
    using answer_on_miss[where get = ttl_get, OF two_courses_miss, of 1] by simp
  obtain x where x: "x \<in> set (scored_courses one_average 7 two_courses)" "x \<notin> set ?r"
  proof (cases ?r)
    case Nil
    with ab(1) that show ?thesis by simp
  next
    case (Cons y ys)
    with short have "set ?r = {y}" by simp
    with ab that show ?thesis by (cases "a = y") auto
  qed
  have l: "length ?r = nat 1 \<and> (\<forall>y \<in> set ?r. sc_score x \<le> sc_score y)"
    by (rule recommendations_best[where get = ttl_get, OF two_courses_miss _ _ x]) simp_all
  then obtain y where "?r = [y]" by (auto simp: length_Suc_conv)
  with l x(2) show ?thesis by auto
qed

theorem recommendations_eligible_witness:
  "length (fst (recommendations_endpoint ttl_get ttl_put (\<lambda>_. ''u'') one_average 0 7 5 two_courses)) \<le> min (nat 5) 50"
proof -
  have "\<forall>r \<in> set (rd_reviews two_courses). 1 \<le> rv_rating r \<and> rv_rating r \<le> 5" by (simp add: two_courses_def)
  from recommendations_eligible[where get = ttl_get and put = ttl_put and limit = 5 and idt = "\<lambda>_. ''u''" and u = 7 and now = 0,
      OF averages_one_average this two_courses_miss _ refl]
  show ?thesis by fastforce
qed

text \<open>The learner enrolls in both courses and is still recommended them.\<close>

theorem recommendations_stale_witness:
  "fst (recommendations_endpoint ttl_get ttl_put (\<lambda>_. ''u'') one_average 3000 7 5
     ((snd (recommendations_endpoint ttl_get ttl_put (\<lambda>_. ''u'') one_average 0 7 5 two_courses))\<lparr>rd_core :=
        (rd_core two_courses)\<lparr>enrollments := [\<lparr>en_id = 1, en_userId = 7, en_courseId = 1, en_enrolledAt = 1, en_completedAt = None, en_enrolledVersionNumber = None, en_transactionHash = None\<rparr>,
          \<lparr>en_id = 2, en_userId = 7, en_courseId = 2, en_enrolledAt = 1, en_completedAt = None, en_enrolledVersionNumber = None, en_transactionHash = None\<rparr>]\<rparr>, rd_reviews := []\<rparr>))
   = fst (recommendations_endpoint ttl_get ttl_put (\<lambda>_. ''u'') one_average 0 7 5 two_courses)"
  by (rule recommendations_stale[where get = ttl_get and put = ttl_put and del = ttl_del and t = 0 and d = two_courses,
      OF ttl.expiring_cache_axioms two_courses_miss _ _ _ prod.collapse[symmetric]])
    (simp_all add: recommendations_ttl_def)

end
