(* ===== verification/Analytics.thy ===== *)
theory Analytics
  imports Catalog Js_Date
begin

text \<open>
  The analytics (\<open>analytics/analytics.service.ts\<close>): the row of figures kept for each course, brought up to date
  every hour for the courses that have enrollments, and the report on the platform with its twelve monthly buckets. The
  averages the database computes and the cache are arguments.
\<close>

record course_analytics =
  ca_id :: uuid
  ca_courseId :: uuid
  ca_totalEnrollments :: nat
  ca_totalCompletions :: nat
  ca_completionRate :: js_num
  ca_averageRating :: js_num
  ca_totalReviews :: nat
  ca_averageProgressPct :: js_num
  ca_activeLearnersLast30Days :: nat
  ca_lastAggregatedAt :: timestamp

record top_course =
  tc_courseId :: uuid
  tc_title :: string
  tc_enrollments :: nat
  tc_completions :: nat
  tc_completionRate :: js_num

type_synonym 'v growth = "((int \<times> int) \<times> 'v) list"

record platform_analytics =
  pf_totalUsers :: nat
  pf_totalEnrollments :: nat
  pf_totalCompletions :: nat
  pf_totalRevenue :: int
  pf_completionRate :: js_num
  pf_userGrowth :: "nat growth"
  pf_enrollmentGrowth :: "nat growth"
  pf_completionGrowth :: "nat growth"
  pf_revenueGrowth :: "int growth"
  pf_topCourses :: "top_course list"

record ('c, 'p) analytics_db =
  an_core :: core
  an_reviews :: "review list"
  an_rows :: "course_analytics list"
  an_cache :: 'c
  an_platformCache :: 'p
  an_fresh :: nat

definition analytics_ttl :: int where
  "analytics_ttl = 300"

definition course_key :: "(uuid \<Rightarrow> string) \<Rightarrow> uuid \<Rightarrow> string" where
  "course_key idt c = ''analytics:'' @ idt c"

definition platform_key :: string where
  "platform_key = ''analytics:platform''"

subsection \<open>One course\<close>

definition course_enrollments :: "uuid \<Rightarrow> core \<Rightarrow> enrollment list" where
  "course_enrollments c s = filter (\<lambda>e. en_courseId e = c) (enrollments s)"

definition completed :: "enrollment list \<Rightarrow> enrollment list" where
  "completed es = filter (\<lambda>e. en_completedAt e \<noteq> None) es"

definition two_digits :: "js_num \<Rightarrow> js_num" where
  "two_digits x = js_div (of_int (math_round (js_mul x 100))) 100"

text \<open>\<open>(part / whole) * 100\<close>, or 0 when there is no whole.\<close>

definition percentage :: "nat \<Rightarrow> nat \<Rightarrow> js_num" where
  "percentage part whole = (if 0 < whole then js_mul (js_div (of_nat part) (of_nat whole)) 100 else 0)"

definition average_or_0 :: "(int list \<Rightarrow> js_num) \<Rightarrow> int list \<Rightarrow> js_num" where
  "average_or_0 sql_avg xs = (if xs = [] then 0 else sql_avg xs)"

definition active_learners :: "timestamp \<Rightarrow> uuid \<Rightarrow> core \<Rightarrow> nat" where
  "active_learners since c s =
     length (remdups (map pg_userId (filter (\<lambda>p. pg_courseId p = c \<and> since < pg_updatedAt p) (progress s))))"

definition aggregated :: "(int list \<Rightarrow> js_num) \<Rightarrow> timestamp \<Rightarrow> ('c, 'p) analytics_db \<Rightarrow> course_analytics \<Rightarrow> course_analytics" where
  "aggregated sql_avg now d r =
     (let c = ca_courseId r; s = an_core d;
          totalEnrollments = length (course_enrollments c s);
          totalCompletions = length (completed (course_enrollments c s));
          ratings = map rv_rating (filter (\<lambda>v. rv_courseId v = c) (an_reviews d));
          pcts = map pg_progressPct (filter (\<lambda>p. pg_courseId p = c) (progress s))
      in r\<lparr>ca_totalEnrollments := totalEnrollments, ca_totalCompletions := totalCompletions,
           ca_completionRate := two_digits (percentage totalCompletions totalEnrollments),
           ca_averageRating := two_digits (average_or_0 sql_avg ratings), ca_totalReviews := length ratings,
           ca_averageProgressPct := two_digits (average_or_0 sql_avg pcts),
           ca_activeLearnersLast30Days := active_learners (now - 30 * 86400000) c s, ca_lastAggregatedAt := now\<rparr>)"

definition find_analytics :: "uuid \<Rightarrow> ('c, 'p) analytics_db \<Rightarrow> course_analytics option" where
  "find_analytics c d = find (\<lambda>r. ca_courseId r = c) (an_rows d)"

definition new_analytics :: "uuid \<Rightarrow> uuid \<Rightarrow> course_analytics" where
  "new_analytics i c =
     \<lparr>ca_id = i, ca_courseId = c, ca_totalEnrollments = 0, ca_totalCompletions = 0, ca_completionRate = 0,
      ca_averageRating = 0, ca_totalReviews = 0, ca_averageProgressPct = 0, ca_activeLearnersLast30Days = 0,
      ca_lastAggregatedAt = 0\<rparr>"

definition aggregateCourse ::
  "(timestamp \<Rightarrow> string \<Rightarrow> course_analytics \<Rightarrow> int \<Rightarrow> 'c \<Rightarrow> 'c) \<Rightarrow> (uuid \<Rightarrow> string) \<Rightarrow> (int list \<Rightarrow> js_num) \<Rightarrow>
   timestamp \<Rightarrow> uuid \<Rightarrow> ('c, 'p) analytics_db \<Rightarrow> course_analytics \<times> ('c, 'p) analytics_db" where
  "aggregateCourse put idt sql_avg now c d =
     (let (r, n) = (case find_analytics c d of Some r \<Rightarrow> (r, an_fresh d) | None \<Rightarrow> (new_analytics (an_fresh d) c, Suc (an_fresh d)));
          saved = aggregated sql_avg now d r
      in (saved, d\<lparr>an_rows := save_row ca_id saved (an_rows d), an_fresh := n,
                   an_cache := put now (course_key idt c) saved analytics_ttl (an_cache d)\<rparr>))"

definition course_getAnalytics ::
  "(timestamp \<Rightarrow> 'c \<Rightarrow> string \<Rightarrow> course_analytics option) \<Rightarrow>
   (timestamp \<Rightarrow> string \<Rightarrow> course_analytics \<Rightarrow> int \<Rightarrow> 'c \<Rightarrow> 'c) \<Rightarrow> (uuid \<Rightarrow> string) \<Rightarrow> (int list \<Rightarrow> js_num) \<Rightarrow>
   timestamp \<Rightarrow> uuid \<Rightarrow> ('c, 'p) analytics_db \<Rightarrow> course_analytics \<times> ('c, 'p) analytics_db" where
  "course_getAnalytics get put idt sql_avg now c d =
     (case get now (an_cache d) (course_key idt c) of
        Some r \<Rightarrow> (r, d)
      | None \<Rightarrow>
          (let (r, d') = (case find_analytics c d of Some r \<Rightarrow> (r, d) | None \<Rightarrow> aggregateCourse put idt sql_avg now c d)
           in (r, d'\<lparr>an_cache := put now (course_key idt c) r analytics_ttl (an_cache d')\<rparr>)))"

text \<open>The hourly run. A course whose aggregation throws is logged and skipped; the modelled steps do not throw.\<close>

definition aggregateAll ::
  "(timestamp \<Rightarrow> string \<Rightarrow> course_analytics \<Rightarrow> int \<Rightarrow> 'c \<Rightarrow> 'c) \<Rightarrow> (uuid \<Rightarrow> string) \<Rightarrow> (int list \<Rightarrow> js_num) \<Rightarrow>
   timestamp \<Rightarrow> ('c, 'p) analytics_db \<Rightarrow> ('c, 'p) analytics_db" where
  "aggregateAll put idt sql_avg now d =
     fold (\<lambda>c d. snd (aggregateCourse put idt sql_avg now c d)) (remdups (map en_courseId (enrollments (an_core d)))) d"

subsection \<open>The platform\<close>

text \<open>\<open>new Date(year, month - i, 1)\<close>: the month \<open>i\<close> before.\<close>

definition months_back :: "int \<Rightarrow> int \<times> int \<Rightarrow> int \<times> int" where
  "months_back i ym = (let k = 12 * fst ym + (snd ym - 1) - i in (k div 12, k mod 12 + 1))"

definition months :: "timestamp \<Rightarrow> (int \<times> int) list" where
  "months now = map (\<lambda>i. months_back (11 - int i) (year_month now)) [0..<12]"

text \<open>\<open>GROUP BY\<close> month of the rows from \<open>since\<close> on, with \<open>COUNT(*)\<close>.\<close>

definition by_month :: "timestamp \<Rightarrow> timestamp list \<Rightarrow> ((int \<times> int) \<times> nat) list" where
  "by_month since ts =
     fold (\<lambda>t. upsert_entry (year_month t) (\<lambda>v. case v of None \<Rightarrow> 1 | Some n \<Rightarrow> n + 1)) (filter (\<lambda>t. since \<le> t) ts) []"

definition growth_of :: "(int \<times> int) list \<Rightarrow> ((int \<times> int) \<times> nat) list \<Rightarrow> nat growth" where
  "growth_of ms rows = map (\<lambda>m. (m, case map_of rows m of None \<Rightarrow> 0 | Some n \<Rightarrow> n)) ms"

definition completion_times :: "core \<Rightarrow> timestamp list" where
  "completion_times s = concat (map (\<lambda>e. case en_completedAt e of None \<Rightarrow> [] | Some t \<Rightarrow> [t]) (enrollments s))"

definition top_courses :: "('c, 'p) analytics_db \<Rightarrow> top_course list" where
  "top_courses d =
     map (\<lambda>r. \<lparr>tc_courseId = ca_courseId r,
               tc_title = (case find_course (ca_courseId r) (an_core d) of None \<Rightarrow> ''Unknown'' | Some c \<Rightarrow> co_title c),
               tc_enrollments = ca_totalEnrollments r, tc_completions = ca_totalCompletions r,
               tc_completionRate = ca_completionRate r\<rparr>)
       (take 10 (order_by_desc (\<lambda>r. int (ca_totalEnrollments r)) (an_rows d)))"

definition platform_report :: "timestamp \<Rightarrow> ('c, 'p) analytics_db \<Rightarrow> platform_analytics" where
  "platform_report now d =
     (let s = an_core d; ms = months now; since = month_start (hd ms);
          totalEnrollments = length (enrollments s); totalCompletions = length (completed (enrollments s));
          enrollmentGrowth = growth_of ms (by_month since (map en_enrolledAt (enrollments s)))
      in \<lparr>pf_totalUsers = count_rows (\<lambda>u. \<not> u_isBanned u) (users s),
          pf_totalEnrollments = totalEnrollments, pf_totalCompletions = totalCompletions, pf_totalRevenue = 0,
          pf_completionRate =
            (if 0 < totalEnrollments
             then js_div (of_int (math_round (js_mul (js_div (of_nat totalCompletions) (of_nat totalEnrollments)) 10000))) 100
             else 0),
          pf_userGrowth = growth_of ms (by_month since (map u_createdAt (users s))),
          pf_enrollmentGrowth = enrollmentGrowth,
          pf_completionGrowth = growth_of ms (by_month since (completion_times s)),
          pf_revenueGrowth = map (\<lambda>e. (fst e, 0)) enrollmentGrowth,
          pf_topCourses = top_courses d\<rparr>)"

definition getPlatformAnalytics ::
  "(timestamp \<Rightarrow> 'p \<Rightarrow> string \<Rightarrow> platform_analytics option) \<Rightarrow>
   (timestamp \<Rightarrow> string \<Rightarrow> platform_analytics \<Rightarrow> int \<Rightarrow> 'p \<Rightarrow> 'p) \<Rightarrow>
   timestamp \<Rightarrow> ('c, 'p) analytics_db \<Rightarrow> platform_analytics \<times> ('c, 'p) analytics_db" where
  "getPlatformAnalytics get put now d =
     (let (r, c) = read_through get put now platform_key analytics_ttl (platform_report now d) (an_platformCache d)
      in (r, d\<lparr>an_platformCache := c\<rparr>))"

subsection \<open>The rows\<close>

text \<open>Keys are unique, below the counter, and there is one row for a course.\<close>

definition rows_ok :: "('c, 'p) analytics_db \<Rightarrow> bool" where
  "rows_ok d \<longleftrightarrow> distinct (map ca_id (an_rows d)) \<and> (\<forall>r \<in> set (an_rows d). ca_id r < an_fresh d) \<and>
     distinct (map ca_courseId (an_rows d))"

lemma aggregated_keys [simp]:
  "ca_id (aggregated sql_avg now d r) = ca_id r" "ca_courseId (aggregated sql_avg now d r) = ca_courseId r"
  by (simp_all add: aggregated_def Let_def)

lemma new_analytics_keys [simp]: "ca_id (new_analytics i c) = i" "ca_courseId (new_analytics i c) = c"
  by (simp_all add: new_analytics_def)

text \<open>The row that is brought up to date.\<close>

definition current_row :: "uuid \<Rightarrow> ('c, 'p) analytics_db \<Rightarrow> course_analytics" where
  "current_row c d = (case find_analytics c d of Some r \<Rightarrow> r | None \<Rightarrow> new_analytics (an_fresh d) c)"

lemma aggregateCourse_simps [simp]:
  "an_core (snd (aggregateCourse put idt sql_avg now c d)) = an_core d"
  "an_reviews (snd (aggregateCourse put idt sql_avg now c d)) = an_reviews d"
  "an_platformCache (snd (aggregateCourse put idt sql_avg now c d)) = an_platformCache d"
  "an_rows (snd (aggregateCourse put idt sql_avg now c d)) = save_row ca_id (aggregated sql_avg now d (current_row c d)) (an_rows d)"
  "an_fresh (snd (aggregateCourse put idt sql_avg now c d)) = (if find_analytics c d = None then Suc (an_fresh d) else an_fresh d)"
  by (simp_all add: aggregateCourse_def current_row_def Let_def split: option.split)

lemma find_analytics_SomeD: "find_analytics c d = Some r \<Longrightarrow> r \<in> set (an_rows d) \<and> ca_courseId r = c"
  by (auto simp: find_analytics_def dest: find_SomeD)

lemma current_row_course [simp]: "ca_courseId (current_row c d) = c"
  using find_analytics_SomeD[of c d] by (auto simp: current_row_def split: option.split)

lemma current_row_only:
  assumes "rows_ok d" "x \<in> set (an_rows d)"
  shows "ca_id x = ca_id (current_row c d) \<longleftrightarrow> ca_courseId x = c"
proof (cases "find_analytics c d")
  case None
  then have "ca_courseId x \<noteq> c" using assms(2) by (simp add: find_analytics_def find_None)
  moreover have "ca_id x < an_fresh d" using assms by (simp add: rows_ok_def)
  ultimately show ?thesis using None by (simp add: current_row_def)
next
  case (Some r)
  then have r: "r \<in> set (an_rows d)" "ca_courseId r = c" using find_analytics_SomeD by blast+
  have "inj_on ca_id (set (an_rows d))" "inj_on ca_courseId (set (an_rows d))" using assms(1) by (simp_all add: rows_ok_def distinct_map)
  then have "ca_id x = ca_id r \<longleftrightarrow> x = r" "ca_courseId x = ca_courseId r \<longleftrightarrow> x = r"
    using r(1) assms(2) by (simp_all add: inj_on_eq_iff)
  with Some r(2) show ?thesis by (simp add: current_row_def)
qed

lemma rows_ok_aggregateCourse:
  assumes "rows_ok d"
  shows "rows_ok (snd (aggregateCourse put idt sql_avg now c d))"
proof -
  let ?r = "aggregated sql_avg now d (current_row c d)"
  have "distinct (map ca_id (save_row ca_id ?r (an_rows d)))"
    using assms by (intro save_row_distinct) (simp add: rows_ok_def)
  moreover have "distinct (map ca_courseId (save_row ca_id ?r (an_rows d)))"
    using assms current_row_only[OF assms, where c = c] by (intro save_row_unique_index) (auto simp: rows_ok_def)
  moreover have "ca_id (current_row c d) < (if find_analytics c d = None then Suc (an_fresh d) else an_fresh d)"
    using assms find_analytics_SomeD[of c d] by (auto simp: current_row_def rows_ok_def)
  ultimately show ?thesis
    using assms by (auto simp: rows_ok_def set_save_row)
qed

text \<open>The row of the course itself is the new one, the rows of the other courses are left alone.\<close>

lemma find_aggregateCourse:
  assumes "rows_ok d"
  shows "find_analytics c' (snd (aggregateCourse put idt sql_avg now c d)) =
    (if c' = c then Some (aggregated sql_avg now d (current_row c d)) else find_analytics c' d)"
proof (cases "c' = c")
  case True
  have "distinct (map ca_courseId (an_rows (snd (aggregateCourse put idt sql_avg now c d))))"
    using rows_ok_aggregateCourse[OF assms] by (simp only: rows_ok_def)
  then have "find (\<lambda>r. ca_courseId r = c) (an_rows (snd (aggregateCourse put idt sql_avg now c d))) = Some (aggregated sql_avg now d (current_row c d))"
    by (rule find_unique_by) (simp_all add: set_save_row)
  with True show ?thesis by (simp only: find_analytics_def refl if_True)
next
  case False
  then show ?thesis
    unfolding find_analytics_def aggregateCourse_simps
    by (subst find_save_row_other) (use current_row_only[OF assms, where c = c] in auto)
qed

subsection \<open>The hourly run\<close>

text \<open>What the row of a course holds: the counts of this very moment.\<close>

definition up_to_date :: "core \<Rightarrow> course_analytics \<Rightarrow> bool" where
  "up_to_date s r \<longleftrightarrow>
     ca_totalEnrollments r = length (course_enrollments (ca_courseId r) s) \<and>
     ca_totalCompletions r = length (completed (course_enrollments (ca_courseId r) s)) \<and>
     0 \<le> ca_completionRate r \<and> ca_completionRate r \<le> 100"

lemma two_digits_percentage:
  assumes "part \<le> whole"
  shows "0 \<le> two_digits (percentage part whole) \<and> two_digits (percentage part whole) \<le> 100"
proof -
  have "0 \<le> percentage part whole \<and> percentage part whole \<le> 100"
    using js_percent_bounds[of "of_nat part" "of_nat whole"] assms by (simp add: percentage_def)
  then have "0 \<le> js_mul (percentage part whole) 100" "js_mul (percentage part whole) 100 \<le> 10000"
    using fl_mono[of "percentage part whole * 100" 10000] fl_of_nat[of 10000] by (auto simp: js_mul_def intro: fl_nonneg)
  then have "0 \<le> math_round (js_mul (percentage part whole) 100)" "math_round (js_mul (percentage part whole) 100) \<le> 10000"
    using math_round_mono[of 0 "js_mul (percentage part whole) 100"] math_round_mono[of "js_mul (percentage part whole) 100" "of_int 10000"]
      math_round_of_int[of 0] math_round_of_int[of 10000] by simp_all
  then have "0 \<le> js_div (of_int (math_round (js_mul (percentage part whole) 100))) 100"
    "of_int (math_round (js_mul (percentage part whole) 100)) / 100 \<le> (100 :: rat)"
    by (simp_all add: js_div_nonneg of_int_le_iff[of _ 10000, where 'a = rat, simplified])
  then show ?thesis
    using fl_mono[of "of_int (math_round (js_mul (percentage part whole) 100)) / 100" 100] by (simp add: two_digits_def js_div_def)
qed

lemma aggregated_up_to_date: "up_to_date (an_core d) (aggregated sql_avg now d r)"
  using two_digits_percentage[of "length (completed (course_enrollments (ca_courseId r) (an_core d)))" "length (course_enrollments (ca_courseId r) (an_core d))"]
  by (simp add: up_to_date_def aggregated_def Let_def completed_def)

lemma aggregate_fold:
  assumes "rows_ok d" "d' = fold (\<lambda>c d. snd (aggregateCourse put idt sql_avg now c d)) cs d"
  shows "rows_ok d' \<and> an_core d' = an_core d \<and>
    (\<forall>c. if c \<in> set cs then \<exists>r. find_analytics c d' = Some r \<and> up_to_date (an_core d) r
         else find_analytics c d' = find_analytics c d)"
  using assms
proof (induction cs arbitrary: d' rule: rev_induct)
  case (snoc c cs)
  let ?d = "fold (\<lambda>c d. snd (aggregateCourse put idt sql_avg now c d)) cs d"
  note IH = snoc.IH[OF assms(1) refl]
  have ih: "rows_ok ?d" by (rule IH[THEN conjunct1])
  have ih_core: "an_core ?d = an_core d" by (rule IH[THEN conjunct2, THEN conjunct1])
  have ih_rows: "if b \<in> set cs then \<exists>r. find_analytics b ?d = Some r \<and> up_to_date (an_core d) r
         else find_analytics b ?d = find_analytics b d" for b
    by (rule IH[THEN conjunct2, THEN conjunct2, THEN spec])
  have d': "d' = snd (aggregateCourse put idt sql_avg now c ?d)" using snoc.prems by simp
  have "if b \<in> set (cs @ [c]) then \<exists>r. find_analytics b d' = Some r \<and> up_to_date (an_core d) r
         else find_analytics b d' = find_analytics b d" for b
    using ih_rows[of b] ih_core find_aggregateCourse[OF ih, of b put idt sql_avg now c] aggregated_up_to_date[of ?d sql_avg now "current_row c ?d"]
    unfolding d' by (cases "b = c") (auto split: if_splits)
  moreover have "rows_ok d'" unfolding d' by (rule rows_ok_aggregateCourse[OF ih])
  moreover have "an_core d' = an_core d" using ih_core by (simp add: d')
  ultimately show ?case by blast
qed simp

lemma fold_bump_months:
  "map_of (fold (\<lambda>t. upsert_entry (year_month t) (\<lambda>v. case v of None \<Rightarrow> 1 | Some n \<Rightarrow> n + 1)) ts kvs) m =
   (case map_of kvs m of
      None \<Rightarrow> if m \<in> year_month ` set ts then Some (count_rows (\<lambda>t. year_month t = m) ts) else None
    | Some n \<Rightarrow> Some (n + count_rows (\<lambda>t. year_month t = m) ts))"
  by (induction ts arbitrary: kvs) (auto simp: map_of_upsert_entry count_rows_def split: option.split)

text \<open>A bucket counts the rows of its month.\<close>

lemma growth_of_by_month:
  "growth_of ms (by_month since ts) = map (\<lambda>m. (m, count_rows (\<lambda>t. since \<le> t \<and> year_month t = m) ts)) ms"
proof -
  have "count_rows (\<lambda>t. year_month t = m) (filter (\<lambda>t. since \<le> t) ts) = count_rows (\<lambda>t. since \<le> t \<and> year_month t = m) ts" for m
    by (simp add: count_rows_def conj_commute)
  moreover have "(case map_of (by_month since ts) m of None \<Rightarrow> 0 | Some n \<Rightarrow> n) = count_rows (\<lambda>t. year_month t = m) (filter (\<lambda>t. since \<le> t) ts)" for m
    by (auto simp: by_month_def fold_bump_months count_rows_def filter_empty_conv)
  ultimately show ?thesis by (simp add: growth_of_def)
qed

subsection \<open>The twelve months\<close>

lemma months_back_index: "month_index (months_back i ym) = month_index ym - i \<and> 1 \<le> snd (months_back i ym) \<and> snd (months_back i ym) \<le> 12"
proof -
  define k where "k = 12 * fst ym + (snd ym - 1) - i"
  obtain q r where qr: "k div 12 = q" "k mod 12 = r" by blast
  have "12 * (k div 12) + k mod 12 = k" "0 \<le> k mod 12" "k mod 12 < 12" by simp_all
  then have q: "12 * q + r = k" "0 \<le> r" "r < 12" by (simp_all only: qr)
  have m: "months_back i ym = (q, r + 1)" unfolding months_back_def Let_def k_def[symmetric] qr ..
  show ?thesis unfolding m month_index_def using q by (simp add: k_def)
qed

lemma months_distinct: "distinct (months now)"
proof -
  have "inj_on (\<lambda>i. months_back (11 - int i) (year_month now)) {0..<12}"
  proof (rule inj_onI)
    fix i j assume "months_back (11 - int i) (year_month now) = months_back (11 - int j) (year_month now)"
    then have "month_index (months_back (11 - int i) (year_month now)) = month_index (months_back (11 - int j) (year_month now))" by (rule arg_cong)
    then show "i = j" unfolding months_back_index[THEN conjunct1] by simp
  qed
  then show ?thesis by (simp add: months_def distinct_map)
qed

lemma months_hd: "hd (months now) = months_back 11 (year_month now)"
  by (simp add: months_def upt_rec)

lemma months_last: "last (months now) = year_month now"
  using months_back_index[of 0 "year_month now"] month_index_inj[OF year_month_range, of "months_back 0 (year_month now)" now]
  by (simp add: months_def upt_rec)

text \<open>The months of the report are those of the instants since the beginning of the first one.\<close>

lemma in_months:
  assumes "t \<le> now"
  shows "month_start (hd (months now)) \<le> t \<longleftrightarrow> year_month t \<in> set (months now)"
proof -
  let ?i = "month_index (year_month now)"
  have "month_start (hd (months now)) \<le> t \<longleftrightarrow> ?i - 11 \<le> month_index (year_month t)"
    using month_start_le_iff[of "hd (months now)" t] months_back_index[of 11 "year_month now"] by (simp add: months_hd)
  also have "\<dots> \<longleftrightarrow> year_month t \<in> set (months now)"
  proof
    assume low: "?i - 11 \<le> month_index (year_month t)"
    define k where "k = nat (month_index (year_month t) - (?i - 11))"
    have k: "month_index (year_month t) = ?i - (11 - int k)" "k < 12"
      using low year_month_mono[OF assms] by (simp_all add: k_def)
    then have "year_month t = months_back (11 - int k) (year_month now)"
      using month_index_inj[OF year_month_range, of "months_back (11 - int k) (year_month now)"] months_back_index[of "11 - int k" "year_month now"]
      by simp
    with k(2) show "year_month t \<in> set (months now)" by (simp add: months_def)
  next
    assume "year_month t \<in> set (months now)"
    then obtain k where k: "k < 12" "year_month t = months_back (11 - int k) (year_month now)" by (auto simp: months_def)
    then show "?i - 11 \<le> month_index (year_month t)" using months_back_index[of "11 - int k" "year_month now"] by simp
  qed
  finally show ?thesis .
qed

lemma sum_indicator: "distinct ms \<Longrightarrow> sum_list (map (\<lambda>m. if Q \<and> x = m then 1 else 0) ms) = (if Q \<and> x \<in> set ms then 1 else (0 :: nat))"
  by (induction ms) auto

lemma sum_buckets:
  assumes "distinct ms" "\<forall>t \<in> set ts. P t \<longleftrightarrow> f t \<in> set ms"
  shows "sum_list (map (\<lambda>m. count_rows (\<lambda>t. P t \<and> f t = m) ts) ms) = count_rows P ts"
  using assms(2)
proof (induction ts)
  case (Cons t ts)
  have "sum_list (map (\<lambda>m. count_rows (\<lambda>t. P t \<and> f t = m) (t # ts)) ms) =
      sum_list (map (\<lambda>m. (if P t \<and> f t = m then 1 else 0) + count_rows (\<lambda>t. P t \<and> f t = m) ts) ms)"
    by (intro arg_cong[where f = sum_list] map_cong) (simp_all add: count_rows_def)
  also have "\<dots> = sum_list (map (\<lambda>m. if P t \<and> f t = m then 1 else 0) ms) + count_rows P ts"
    using Cons by (simp add: sum_list_addf)
  also have "sum_list (map (\<lambda>m. if P t \<and> f t = m then 1 else 0) ms) = (if P t then 1 else (0 :: nat))"
    unfolding sum_indicator[OF assms(1)] using Cons.prems by simp
  finally show ?case by (simp add: count_rows_def)
qed (simp add: count_rows_def)

subsection \<open>Requests and the hourly run\<close>

datatype analytics_request = Refresh timestamp uuid | View timestamp uuid | Hourly timestamp | Elsewhere core "review list"

fun analytics_step ::
  "(timestamp \<Rightarrow> 'c \<Rightarrow> string \<Rightarrow> course_analytics option) \<Rightarrow>
   (timestamp \<Rightarrow> string \<Rightarrow> course_analytics \<Rightarrow> int \<Rightarrow> 'c \<Rightarrow> 'c) \<Rightarrow> (uuid \<Rightarrow> string) \<Rightarrow> (int list \<Rightarrow> js_num) \<Rightarrow>
   analytics_request \<Rightarrow> ('c, 'p) analytics_db \<Rightarrow> course_analytics option \<times> ('c, 'p) analytics_db" where
  "analytics_step get put idt sql_avg (Refresh t c) d = map_prod Some id (aggregateCourse put idt sql_avg t c d)"
| "analytics_step get put idt sql_avg (View t c) d = map_prod Some id (course_getAnalytics get put idt sql_avg t c d)"
| "analytics_step get put idt sql_avg (Hourly t) d = (None, aggregateAll put idt sql_avg t d)"
| "analytics_step get put idt sql_avg (Elsewhere s rs) d = (None, d\<lparr>an_core := s, an_reviews := rs\<rparr>)"

lemma rows_ok_cong: "an_rows d' = an_rows d \<Longrightarrow> an_fresh d' = an_fresh d \<Longrightarrow> rows_ok d' = rows_ok d"
  by (simp add: rows_ok_def)

lemma rows_ok_course_getAnalytics:
  assumes "rows_ok d"
  shows "rows_ok (snd (course_getAnalytics get put idt sql_avg now c d))"
proof -
  have frame: "rows_ok (d'\<lparr>an_cache := x\<rparr>) = rows_ok d'" for d' :: "('c, 'p) analytics_db" and x by (simp add: rows_ok_def)
  show ?thesis
    using assms rows_ok_aggregateCourse[OF assms, of put idt sql_avg now c]
    by (simp add: course_getAnalytics_def Let_def frame split: option.split prod.split) (metis snd_conv)
qed

lemma rows_ok_step: "rows_ok d \<Longrightarrow> rows_ok (snd (analytics_step get put idt sql_avg c d))"
proof (cases c)
  case (Hourly t)
  assume "rows_ok d"
  from aggregate_fold[OF this refl, of put idt sql_avg t] show ?thesis by (simp add: aggregateAll_def Hourly)
qed (simp_all add: rows_ok_aggregateCourse rows_ok_course_getAnalytics, simp add: rows_ok_def)

interpretation analysing: invariant_machine "analytics_step get put idt sql_avg" rows_ok for get put idt sql_avg
  by unfold_locales (rule rows_ok_step)

subsection \<open>Properties\<close>

text \<open>After the hourly run every course that has an enrollment has exactly one row, whatever happened before: it holds the
  number of enrollments and of completions of this moment, and a completion rate between 0 and 100.\<close>

theorem hourly_figures:
  assumes "rows_ok d0" "d = run_ops (analytics_step get put idt sql_avg) rs d0" "e \<in> set (enrollments (an_core d))"
  shows "\<exists>r. filter (\<lambda>r. ca_courseId r = en_courseId e) (an_rows (aggregateAll put idt sql_avg now d)) = [r] \<and> up_to_date (an_core d) r"
proof -
  have "rows_ok d" unfolding assms(2) by (rule analysing.run_preserves[OF assms(1)])
  note A = aggregate_fold[OF this refl, of put idt sql_avg now "remdups (map en_courseId (enrollments (an_core d)))", folded aggregateAll_def]
  have "en_courseId e \<in> set (remdups (map en_courseId (enrollments (an_core d))))" using assms(3) by simp
  then obtain r where r: "find_analytics (en_courseId e) (aggregateAll put idt sql_avg now d) = Some r" "up_to_date (an_core d) r"
    using A[THEN conjunct2, THEN conjunct2, THEN spec, of "en_courseId e"] by (simp only: if_True) blast
  have "distinct (map ca_courseId (an_rows (aggregateAll put idt sql_avg now d)))" using A by (simp add: rows_ok_def)
  moreover have "r \<in> set (an_rows (aggregateAll put idt sql_avg now d))" "ca_courseId r = en_courseId e" using find_analytics_SomeD[OF r(1)] by blast+
  ultimately have "filter (\<lambda>x. ca_courseId x = en_courseId e) (an_rows (aggregateAll put idt sql_avg now d)) = [r]"
    using filter_key_unique by metis
  with r(2) show ?thesis by blast
qed

text \<open>A course whose last enrollment was removed is not visited any more: the run leaves its figures as they were.\<close>

theorem abandoned_figures_stay:
  assumes "rows_ok d" "course_enrollments c (an_core d) = []"
  shows "find_analytics c (aggregateAll put idt sql_avg now d) = find_analytics c d"
proof -
  have "c \<notin> set (remdups (map en_courseId (enrollments (an_core d))))" using assms(2) by (auto simp: course_enrollments_def filter_empty_conv)
  then show ?thesis
    using aggregate_fold[OF assms(1) refl, of put idt sql_avg now "remdups (map en_courseId (enrollments (an_core d)))"]
    unfolding aggregateAll_def by metis
qed

text \<open>The report has twelve different months, the last one the current one. The buckets of the users add up to the number of
  users created since the first instant of the first month, and those of the enrollments likewise; the revenue is always
  zero.\<close>

theorem growth_adds_up:
  assumes "\<forall>u \<in> set (users (an_core d)). u_createdAt u \<le> now" "\<forall>e \<in> set (enrollments (an_core d)). en_enrolledAt e \<le> now"
  shows "let r = platform_report now d; since = month_start (hd (months now)) in
    distinct (map fst (pf_userGrowth r)) \<and> length (pf_userGrowth r) = 12 \<and> fst (last (pf_userGrowth r)) = year_month now \<and>
    sum_list (map snd (pf_userGrowth r)) = count_rows (\<lambda>u. since \<le> u_createdAt u) (users (an_core d)) \<and>
    sum_list (map snd (pf_enrollmentGrowth r)) = count_rows (\<lambda>e. since \<le> en_enrolledAt e) (enrollments (an_core d)) \<and>
    pf_totalRevenue r = 0"
proof -
  let ?since = "month_start (hd (months now))"
  have sums: "sum_list (map snd (growth_of (months now) (by_month ?since ts))) = count_rows (\<lambda>t. ?since \<le> t) ts"
    if "\<forall>t \<in> set ts. t \<le> now" for ts
    unfolding growth_of_by_month map_map comp_def snd_conv
    by (rule sum_buckets[OF months_distinct]) (use that in_months in blast)
  have conv: "count_rows (\<lambda>t. ?since \<le> t) (map f xs) = count_rows (\<lambda>x. ?since \<le> f x) xs" for f :: "'z \<Rightarrow> timestamp" and xs
    by (simp add: count_rows_def filter_map comp_def)
  have keys: "map fst (growth_of (months now) rows) = months now" for rows by (simp add: growth_of_def comp_def)
  have len: "length (months now) = 12" by (simp add: months_def)
  have k: "map fst (pf_userGrowth (platform_report now d)) = months now" by (simp add: platform_report_def Let_def keys)
  have "sum_list (map snd (pf_userGrowth (platform_report now d))) = count_rows (\<lambda>u. ?since \<le> u_createdAt u) (users (an_core d))"
    using sums[of "map u_createdAt (users (an_core d))"] assms(1) by (simp add: platform_report_def Let_def conv)
  moreover have "sum_list (map snd (pf_enrollmentGrowth (platform_report now d))) = count_rows (\<lambda>e. ?since \<le> en_enrolledAt e) (enrollments (an_core d))"
    using sums[of "map en_enrolledAt (enrollments (an_core d))"] assms(2) by (simp add: platform_report_def Let_def conv)
  moreover have "distinct (map fst (pf_userGrowth (platform_report now d)))" unfolding k by (rule months_distinct)
  moreover have "length (pf_userGrowth (platform_report now d)) = 12" using k len length_map[of fst "pf_userGrowth (platform_report now d)"] by simp
  moreover from this have "fst (last (pf_userGrowth (platform_report now d))) = year_month now"
    using months_last[of now] last_map[of "pf_userGrowth (platform_report now d)" fst] unfolding k by fastforce
  moreover have "pf_totalRevenue (platform_report now d) = 0" by (simp add: platform_report_def Let_def)
  ultimately show ?thesis unfolding Let_def by simp
qed

subsection \<open>Witnesses\<close>

definition an_enrollment :: "uuid \<Rightarrow> timestamp option \<Rightarrow> enrollment" where
  "an_enrollment i t = \<lparr>en_id = i, en_userId = i, en_courseId = 10, en_enrolledAt = 0, en_completedAt = t,
     en_enrolledVersionNumber = None, en_transactionHash = None\<rparr>"

definition small_platform :: "(unit, unit) analytics_db" where
  "small_platform = \<lparr>an_core = empty_core\<lparr>users := [new_user 1 ''a''], enrollments := [an_enrollment 1 (Some 5), an_enrollment 2 None]\<rparr>,
     an_reviews = [], an_rows = [(new_analytics 1 99)\<lparr>ca_totalEnrollments := 7\<rparr>], an_cache = (), an_platformCache = (), an_fresh = 2\<rparr>"

lemma small_platform_ok: "rows_ok small_platform"
  by (simp add: rows_ok_def small_platform_def new_analytics_def)

theorem hourly_figures_witness:
  "\<exists>r. filter (\<lambda>r. ca_courseId r = 10) (an_rows (aggregateAll (\<lambda>_ _ _ _ c. c) (\<lambda>_. []) (\<lambda>_. 3) 100 small_platform)) = [r] \<and>
     ca_totalEnrollments r = 2 \<and> ca_totalCompletions r = 1"
proof -
  have e: "an_enrollment 1 (Some 5) \<in> set (enrollments (an_core small_platform))" by (simp add: small_platform_def)
  have run: "small_platform = run_ops (analytics_step (\<lambda>_ _ _. None) (\<lambda>_ _ _ _ c. c) (\<lambda>_. []) (\<lambda>_. 3)) [] small_platform" by simp
  obtain r where r: "filter (\<lambda>r. ca_courseId r = 10) (an_rows (aggregateAll (\<lambda>_ _ _ _ c. c) (\<lambda>_. []) (\<lambda>_. 3) 100 small_platform)) = [r]"
      "up_to_date (an_core small_platform) r"
    using hourly_figures[OF small_platform_ok run e, where now = 100] by (auto simp: an_enrollment_def)
  then have "r \<in> set (filter (\<lambda>r. ca_courseId r = 10) (an_rows (aggregateAll (\<lambda>_ _ _ _ c. c) (\<lambda>_. []) (\<lambda>_. 3) 100 small_platform)))" by simp
  then have "ca_courseId r = 10" by simp
  with r show ?thesis by (simp add: up_to_date_def course_enrollments_def completed_def small_platform_def an_enrollment_def)
qed

theorem abandoned_figures_stay_witness:
  "find_analytics 99 (aggregateAll (\<lambda>_ _ _ _ c. c) (\<lambda>_. []) (\<lambda>_. 3) 100 small_platform) = Some ((new_analytics 1 99)\<lparr>ca_totalEnrollments := 7\<rparr>)"
proof -
  have "course_enrollments 99 (an_core small_platform) = []" by (simp add: course_enrollments_def small_platform_def an_enrollment_def)
  from abandoned_figures_stay[OF small_platform_ok this, of "\<lambda>_ _ _ _ c. c" "\<lambda>_. []" "\<lambda>_. 3" 100]
  have "find_analytics 99 (aggregateAll (\<lambda>_ _ _ _ c. c) (\<lambda>_. []) (\<lambda>_. 3) 100 small_platform) = find_analytics 99 small_platform" .
  also have "\<dots> = Some ((new_analytics 1 99)\<lparr>ca_totalEnrollments := 7\<rparr>)"
    by (simp add: find_analytics_def small_platform_def new_analytics_def)
  finally show ?thesis .
qed

theorem growth_adds_up_witness:
  "sum_list (map snd (pf_enrollmentGrowth (platform_report 100 small_platform))) = 2"
proof -
  have "\<forall>u \<in> set (users (an_core small_platform)). u_createdAt u \<le> 100" "\<forall>e \<in> set (enrollments (an_core small_platform)). en_enrolledAt e \<le> 100"
    by (simp_all add: small_platform_def new_user_def an_enrollment_def)
  from growth_adds_up[OF this]
  have "sum_list (map snd (pf_enrollmentGrowth (platform_report 100 small_platform))) =
      count_rows (\<lambda>e. month_start (hd (months 100)) \<le> en_enrolledAt e) (enrollments (an_core small_platform))"
    by (simp only: Let_def)
  moreover have "month_start (hd (months 100)) \<le> 0" by code_simp
  ultimately show ?thesis by (simp add: small_platform_def an_enrollment_def count_rows_def)
qed

end
