(* ===== verification/Batch.thy ===== *)
theory Batch
  imports Accounts Catalog
begin

text \<open>
  Batch jobs (\<open>batch/batch.service.ts\<close>): lists of operations on users or courses that administrators hand in. A job is
  stored and queued; each turn of the event loop runs five operations of one job, and a failed operation is recorded
  instead of stopping the job. The turns of several jobs and the other requests may come in any order; the operations of
  one turn run without a request between them. A restart of the server loses the queue.
\<close>

definition CHUNK_SIZE :: nat where "CHUNK_SIZE = 5"
definition STUCK_TIMEOUT_MS :: int where "STUCK_TIMEOUT_MS = 30 * 60 * 1000"

text \<open>One operation: the action, the keys, and the remaining properties as the changes they stand for. A new course
  without a required column has no row to insert.\<close>

record batch_item =
  bi_action :: string
  bi_userId :: "uuid option"
  bi_courseId :: "uuid option"
  bi_role :: "string option"
  bi_userData :: "user \<Rightarrow> user"
  bi_coursePatch :: course_patch
  bi_courseDto :: "course_dto option"

record batch_result =
  br_action :: string
  br_id :: uuid

datatype batch_type = UserBatch | CourseBatch

datatype batch_status = JobPending | JobProcessing | JobCompleted | JobFailed

record batch_job =
  bj_id :: uuid
  bj_type :: batch_type
  bj_status :: batch_status
  bj_payload :: "batch_item list"
  bj_results :: "batch_result list option"
  bj_errors :: "(batch_item \<times> http_error) list option"
  bj_totalItems :: nat
  bj_processedItems :: nat
  bj_failedItems :: nat
  bj_createdById :: uuid
  bj_startedAt :: "timestamp option"
  bj_createdAt :: timestamp

text \<open>The work that is queued: a job to begin, or the rest of one, with its payload, the index reached, and the results
  and errors so far.\<close>

datatype batch_task =
    Queued uuid
  | Running uuid batch_type "batch_item list" nat "batch_result list" "(batch_item \<times> http_error) list"

fun task_job :: "batch_task \<Rightarrow> uuid" where
  "task_job (Queued i) = i"
| "task_job (Running i _ _ _ _ _) = i"

record 'c batch_db =
  bd_jobs :: "batch_job list"
  bd_tasks :: "batch_task list"
  bd_world :: "'c catalog_db"
  bd_fresh :: uuid

subsection \<open>One operation\<close>

definition on_core :: "(core \<Rightarrow> (core, 'a) outcome) \<Rightarrow> 'c catalog_db \<Rightarrow> ('c catalog_db, 'a) outcome" where
  "on_core f s = (let (r, k) = f (ct_core s) in (r, s\<lparr>ct_core := k\<rparr>))"

definition returning_id :: "('a \<Rightarrow> uuid) \<Rightarrow> ('s, 'a) outcome \<Rightarrow> ('s, uuid) outcome" where
  "returning_id key r = await r (\<lambda>x s. (Inr (key x), s))"

definition run_user_item :: "timestamp \<Rightarrow> batch_item \<Rightarrow> 'c catalog_db \<Rightarrow> ('c catalog_db, uuid) outcome" where
  "run_user_item now it s =
     (case bi_userId it of
        Some u \<Rightarrow>
          if bi_action it = ''update'' then returning_id u_id (on_core (user_update u (bi_userData it)) s)
          else if bi_action it = ''ban'' then returning_id u_id (on_core (banUser u True) s)
          else if bi_action it = ''unban'' then returning_id u_id (on_core (banUser u False) s)
          else if bi_action it = ''changeRole''
          then returning_id u_id (on_core (changeRole u (case bi_role it of None \<Rightarrow> [] | Some r \<Rightarrow> r)) s)
          else if bi_action it = ''delete'' then returning_id u_id (on_core (softDelete now u) s)
          else (Inl (JsError (''Unknown action: '' @ bi_action it)), s)
      | None \<Rightarrow> (Inl (JsError (''Unknown action: '' @ bi_action it)), s))"

definition run_course_item ::
  "(string \<Rightarrow> 'c \<Rightarrow> 'c) \<Rightarrow> ('c \<Rightarrow> 'c) option \<Rightarrow> timestamp \<Rightarrow> batch_item \<Rightarrow> 'c catalog_db \<Rightarrow> ('c catalog_db, uuid) outcome" where
  "run_course_item del reset now it s =
     (case bi_courseId it of
        Some c \<Rightarrow>
          if bi_action it = ''update'' then returning_id co_id (course_update del reset c (bi_coursePatch it) s)
          else if bi_action it = ''delete'' then returning_id co_id (course_delete del reset c s)
          else if bi_action it = ''create''
          then (case bi_courseDto it of
                  None \<Rightarrow> (Inl (JsError ''null value violates not-null constraint''), s)
                | Some dto \<Rightarrow> returning_id co_id (course_create del reset now dto s))
          else (Inl (JsError (''Unknown action: '' @ bi_action it)), s)
      | None \<Rightarrow>
          if bi_action it = ''create''
          then (case bi_courseDto it of
                  None \<Rightarrow> (Inl (JsError ''null value violates not-null constraint''), s)
                | Some dto \<Rightarrow> returning_id co_id (course_create del reset now dto s))
          else (Inl (JsError (''Unknown action: '' @ bi_action it)), s))"

definition run_item ::
  "(string \<Rightarrow> 'c \<Rightarrow> 'c) \<Rightarrow> ('c \<Rightarrow> 'c) option \<Rightarrow> timestamp \<Rightarrow> batch_type \<Rightarrow> batch_item \<Rightarrow> 'c catalog_db \<Rightarrow> ('c catalog_db, uuid) outcome" where
  "run_item del reset now t = (case t of UserBatch \<Rightarrow> run_user_item now | CourseBatch \<Rightarrow> run_course_item del reset now)"

text \<open>The body of the loop: what the operation returns goes to the results, what it throws to the errors.\<close>

type_synonym 'c batch_progress = "batch_result list \<times> (batch_item \<times> http_error) list \<times> 'c catalog_db"

definition process_item ::
  "(batch_item \<Rightarrow> 'c catalog_db \<Rightarrow> ('c catalog_db, uuid) outcome) \<Rightarrow> batch_item \<Rightarrow> 'c batch_progress \<Rightarrow> 'c batch_progress" where
  "process_item exec it p =
     (case p of (results, errors, w) \<Rightarrow>
        (case exec it w of
           (Inr i, w') \<Rightarrow> (results @ [\<lparr>br_action = bi_action it, br_id = i\<rparr>], errors, w')
         | (Inl e, w') \<Rightarrow> (results, errors @ [(it, e)], w')))"

subsection \<open>The turns of the event loop\<close>

definition patch_batch_job :: "uuid \<Rightarrow> (batch_job \<Rightarrow> batch_job) \<Rightarrow> 'c batch_db \<Rightarrow> 'c batch_db" where
  "patch_batch_job i f d = d\<lparr>bd_jobs := update_rows (\<lambda>j. bj_id j = i) f (bd_jobs d)\<rparr>"

definition find_job :: "uuid \<Rightarrow> 'c batch_db \<Rightarrow> batch_job option" where
  "find_job i d = find (\<lambda>j. bj_id j = i) (bd_jobs d)"

definition count_job :: "nat \<Rightarrow> nat \<Rightarrow> batch_job \<Rightarrow> batch_job" where
  "count_job processed failed j = j\<lparr>bj_processedItems := processed, bj_failedItems := failed\<rparr>"

definition finish_job :: "batch_result list \<Rightarrow> (batch_item \<times> http_error) list \<Rightarrow> batch_job \<Rightarrow> batch_job" where
  "finish_job results errors j =
     j\<lparr>bj_status := (if length errors = bj_totalItems j then JobFailed else JobCompleted),
       bj_results := Some results, bj_errors := Some errors, bj_processedItems := length results,
       bj_failedItems := length errors, bj_startedAt := None\<rparr>"

definition processChunk ::
  "(batch_item \<Rightarrow> 'c catalog_db \<Rightarrow> ('c catalog_db, uuid) outcome) \<Rightarrow> uuid \<Rightarrow> batch_type \<Rightarrow> batch_item list \<Rightarrow> nat \<Rightarrow>
   batch_result list \<Rightarrow> (batch_item \<times> http_error) list \<Rightarrow> 'c batch_db \<Rightarrow> 'c batch_db" where
  "processChunk exec i t payload index results errors d =
     (let chunkLimit = min (index + CHUNK_SIZE) (length payload);
          (rs, es, w) = fold (process_item exec) (drop index (take chunkLimit payload)) (results, errors, bd_world d);
          d1 = patch_batch_job i (count_job (length rs) (length es)) (d\<lparr>bd_world := w\<rparr>)
      in if chunkLimit < length payload
         then d1\<lparr>bd_tasks := bd_tasks d1 @ [Running i t payload chunkLimit rs es]\<rparr>
         else patch_batch_job i (finish_job rs es) d1)"

text \<open>One turn of the work for the job \<open>i\<close>, if there is any in the queue.\<close>

definition turn ::
  "(string \<Rightarrow> 'c \<Rightarrow> 'c) \<Rightarrow> ('c \<Rightarrow> 'c) option \<Rightarrow> timestamp \<Rightarrow> uuid \<Rightarrow> 'c batch_db \<Rightarrow> 'c batch_db" where
  "turn del reset now i d =
     (case find (\<lambda>t. task_job t = i) (bd_tasks d) of
        None \<Rightarrow> d
      | Some task \<Rightarrow>
          (let d1 = d\<lparr>bd_tasks := remove1 task (bd_tasks d)\<rparr>
           in case task of
                Queued _ \<Rightarrow>
                  (case find_job i d1 of
                     None \<Rightarrow> d1
                   | Some j \<Rightarrow>
                       processChunk (run_item del reset now (bj_type j)) i (bj_type j) (bj_payload j) 0 [] []
                         (patch_batch_job i (\<lambda>j. j\<lparr>bj_status := JobProcessing, bj_startedAt := Some now\<rparr>) d1))
              | Running _ t payload index results errors \<Rightarrow>
                  processChunk (run_item del reset now t) i t payload index results errors d1))"

subsection \<open>Requests\<close>

definition create_batch :: "batch_type \<Rightarrow> timestamp \<Rightarrow> batch_item list \<Rightarrow> uuid \<Rightarrow> 'c batch_db \<Rightarrow> batch_job \<times> 'c batch_db" where
  "create_batch t now payload createdById d =
     (let j = \<lparr>bj_id = bd_fresh d, bj_type = t, bj_status = JobPending, bj_payload = payload, bj_results = None, bj_errors = None,
               bj_totalItems = length payload, bj_processedItems = 0, bj_failedItems = 0, bj_createdById = createdById,
               bj_startedAt = None, bj_createdAt = now\<rparr>
      in (j, d\<lparr>bd_jobs := bd_jobs d @ [j], bd_tasks := bd_tasks d @ [Queued (bj_id j)], bd_fresh := Suc (bd_fresh d)\<rparr>))"

definition createUserBatch :: "timestamp \<Rightarrow> batch_item list \<Rightarrow> uuid \<Rightarrow> 'c batch_db \<Rightarrow> batch_job \<times> 'c batch_db" where
  "createUserBatch = create_batch UserBatch"

definition createCourseBatch :: "timestamp \<Rightarrow> batch_item list \<Rightarrow> uuid \<Rightarrow> 'c batch_db \<Rightarrow> batch_job \<times> 'c batch_db" where
  "createCourseBatch = create_batch CourseBatch"

definition batch_getJobStatus :: "uuid \<Rightarrow> 'c batch_db \<Rightarrow> http_error + batch_job" where
  "batch_getJobStatus i d = (case find_job i d of None \<Rightarrow> Inl (NotFoundException ''Batch job not found'') | Some j \<Rightarrow> Inr j)"

definition listJobs :: "batch_type option \<Rightarrow> 'c batch_db \<Rightarrow> batch_job list" where
  "listJobs t d = take 100 (order_by_desc bj_createdAt (filter (\<lambda>j. t = None \<or> t = Some (bj_type j)) (bd_jobs d)))"

definition stuck :: "timestamp \<Rightarrow> batch_job \<Rightarrow> bool" where
  "stuck cutoff j \<longleftrightarrow> bj_status j = JobProcessing \<and> (case bj_startedAt j of None \<Rightarrow> False | Some t \<Rightarrow> t < cutoff)"

definition recoverStuckJobs :: "timestamp \<Rightarrow> 'c batch_db \<Rightarrow> 'c batch_db" where
  "recoverStuckJobs now d =
     d\<lparr>bd_jobs := update_rows (stuck (now - STUCK_TIMEOUT_MS)) (\<lambda>j. j\<lparr>bj_status := JobPending, bj_startedAt := None\<rparr>) (bd_jobs d)\<rparr>"

text \<open>The queue lives in the process.\<close>

definition restart :: "timestamp \<Rightarrow> 'c batch_db \<Rightarrow> 'c batch_db" where
  "restart now d = recoverStuckJobs now (d\<lparr>bd_tasks := []\<rparr>)"

datatype 'c batch_event =
    SubmitUsers timestamp "batch_item list" uuid
  | SubmitCourses timestamp "batch_item list" uuid
  | Turn timestamp uuid
  | Restart timestamp
  | OtherRequest "'c catalog_db"

fun batch_step ::
  "(string \<Rightarrow> 'c \<Rightarrow> 'c) \<Rightarrow> ('c \<Rightarrow> 'c) option \<Rightarrow> 'c batch_event \<Rightarrow> 'c batch_db \<Rightarrow> batch_job option \<times> 'c batch_db" where
  "batch_step del reset (SubmitUsers t items who) d = map_prod Some id (createUserBatch t items who d)"
| "batch_step del reset (SubmitCourses t items who) d = map_prod Some id (createCourseBatch t items who d)"
| "batch_step del reset (Turn t i) d = (None, turn del reset t i d)"
| "batch_step del reset (Restart t) d = (None, restart t d)"
| "batch_step del reset (OtherRequest w) d = (None, d\<lparr>bd_world := w\<rparr>)"

subsection \<open>Rows and the queue\<close>

lemma find_job_update:
  assumes "\<And>j. bj_id (f j) = bj_id j"
  shows "find_job k (patch_batch_job i f d) = (if k = i then map_option f (find_job i d) else find_job k d)"
proof -
  have "find (\<lambda>j. bj_id j = k) (update_rows (\<lambda>j. bj_id j = i) f js) =
      (if k = i then map_option f (find (\<lambda>j. bj_id j = i) js) else find (\<lambda>j. bj_id j = k) js)" for js
    by (induction js) (auto simp: update_rows_def assms)
  then show ?thesis by (simp add: find_job_def patch_batch_job_def)
qed

lemma count_job_id [simp]: "bj_id (count_job p f j) = bj_id j"
  by (simp add: count_job_def)

lemma finish_job_id [simp]: "bj_id (finish_job rs es j) = bj_id j"
  by (simp add: finish_job_def)

lemma patch_batch_job_simps [simp]:
  "bd_tasks (patch_batch_job i f d) = bd_tasks d" "bd_world (patch_batch_job i f d) = bd_world d" "bd_fresh (patch_batch_job i f d) = bd_fresh d"
  by (simp_all add: patch_batch_job_def)

lemma find_job_frame [simp]:
  "find_job k (d\<lparr>bd_world := w\<rparr>) = find_job k d" "find_job k (d\<lparr>bd_tasks := ts\<rparr>) = find_job k d"
  by (simp_all add: find_job_def)

lemma finish_job_again [simp]:
  "finish_job rs es (count_job p f j) = finish_job rs es j"
  "finish_job rs es (j\<lparr>bj_status := st, bj_startedAt := t\<rparr>) = finish_job rs es j"
  by (simp_all add: finish_job_def count_job_def)

definition task_of :: "uuid \<Rightarrow> 'c batch_db \<Rightarrow> batch_task option" where
  "task_of i d = find (\<lambda>t. task_job t = i) (bd_tasks d)"

lemma task_of_frame [simp]:
  "task_of k (d\<lparr>bd_world := w\<rparr>) = task_of k d" "task_of k (patch_batch_job i f d) = task_of k d"
  by (simp_all add: task_of_def)

lemma find_remove1_task:
  assumes "distinct (map task_job ts)" "find (\<lambda>t. task_job t = i) ts = Some task"
  shows "find (\<lambda>t. task_job t = k) (remove1 task ts) = (if k = i then None else find (\<lambda>t. task_job t = k) ts)"
  using assms
proof (induction ts)
  case (Cons t ts)
  show ?case
  proof (cases "task_job t = i")
    case True
    with Cons.prems have "t = task" "i \<notin> task_job ` set ts" by simp_all
    moreover from this(2) have "find (\<lambda>t. task_job t = i) ts = None" by (auto simp: find_None)
    ultimately show ?thesis using True by auto
  next
    case False
    moreover from this Cons.prems(2) have "task \<noteq> t" by (auto dest: find_SomeD)
    ultimately show ?thesis using Cons by auto
  qed
qed simp

lemma distinct_remove1_task: "distinct (map task_job ts) \<Longrightarrow> distinct (map task_job (remove1 task ts))"
  by (induction ts) (auto simp: image_iff dest: set_remove1_subset[THEN subsetD])

lemma find_append: "find P (xs @ ys) = (case find P xs of None \<Rightarrow> find P ys | Some x \<Rightarrow> Some x)"
  by (induction xs) auto

subsection \<open>A chunk\<close>

definition chunk_result ::
  "(batch_item \<Rightarrow> 'c catalog_db \<Rightarrow> ('c catalog_db, uuid) outcome) \<Rightarrow> batch_item list \<Rightarrow> 'c batch_progress \<Rightarrow> 'c batch_progress" where
  "chunk_result exec items p = fold (process_item exec) items p"

lemma chunk_result_append: "chunk_result exec (xs @ ys) p = chunk_result exec ys (chunk_result exec xs p)"
  by (simp add: chunk_result_def)

lemma process_item_lengths:
  "length (fst (process_item exec it (rs, es, w))) + length (fst (snd (process_item exec it (rs, es, w)))) = Suc (length rs + length es)"
  by (auto simp: process_item_def split: prod.split sum.split)

lemma chunk_result_lengths:
  "chunk_result exec items (rs, es, w) = (rs', es', w') \<Longrightarrow> length rs' + length es' = length rs + length es + length items"
proof (induction items arbitrary: rs es w)
  case (Cons it items)
  obtain r1 e1 w1 where one: "process_item exec it (rs, es, w) = (r1, e1, w1)" by (metis prod_cases3)
  with Cons.prems have "chunk_result exec items (r1, e1, w1) = (rs', es', w')" by (simp add: chunk_result_def)
  with Cons.IH one process_item_lengths[of exec it rs es w] show ?case by fastforce
qed (simp add: chunk_result_def)

text \<open>A chunk that is not the last one queues the rest, the last one writes the outcome into the row.\<close>

lemma processChunk_more:
  assumes "index + CHUNK_SIZE < length payload"
    and "chunk_result exec (take CHUNK_SIZE (drop index payload)) (rs, es, bd_world d) = (rs', es', w')"
  shows "processChunk exec i t payload index rs es d =
    (patch_batch_job i (count_job (length rs') (length es')) (d\<lparr>bd_world := w'\<rparr>))\<lparr>bd_tasks := bd_tasks d @ [Running i t payload (index + CHUNK_SIZE) rs' es']\<rparr>"
proof -
  have "drop index (take (min (index + CHUNK_SIZE) (length payload)) payload) = take CHUNK_SIZE (drop index payload)"
    using assms(1) by (simp add: drop_take)
  with assms show ?thesis by (simp add: processChunk_def chunk_result_def)
qed

lemma processChunk_last:
  assumes "length payload \<le> index + CHUNK_SIZE" "chunk_result exec (drop index payload) (rs, es, bd_world d) = (rs', es', w')"
  shows "processChunk exec i t payload index rs es d =
    patch_batch_job i (finish_job rs' es') (patch_batch_job i (count_job (length rs') (length es')) (d\<lparr>bd_world := w'\<rparr>))"
  using assms by (simp add: processChunk_def chunk_result_def)

subsection \<open>The invariant\<close>

definition job_finished :: "batch_job \<Rightarrow> bool" where
  "job_finished j \<longleftrightarrow> bj_status j \<in> {JobCompleted, JobFailed}"

text \<open>A finished job has an outcome for each of its items.\<close>

definition batch_job_ok :: "batch_job \<Rightarrow> bool" where
  "batch_job_ok j \<longleftrightarrow> bj_totalItems j = length (bj_payload j) \<and>
     (job_finished j \<longrightarrow>
        (\<exists>rs es. bj_results j = Some rs \<and> bj_errors j = Some es \<and> bj_processedItems j = length rs \<and> bj_failedItems j = length es \<and>
           length rs + length es = bj_totalItems j \<and> bj_startedAt j = None \<and>
           (bj_status j = JobFailed \<longleftrightarrow> length es = bj_totalItems j)))"

text \<open>What is queued of a job is the rest of its payload.\<close>

fun task_ok :: "'c batch_db \<Rightarrow> batch_task \<Rightarrow> bool" where
  "task_ok d (Queued i) \<longleftrightarrow> (\<exists>j. find_job i d = Some j \<and> \<not> job_finished j)"
| "task_ok d (Running i t payload index rs es) \<longleftrightarrow>
     (\<exists>j. find_job i d = Some j \<and> \<not> job_finished j \<and> bj_type j = t \<and> bj_payload j = payload) \<and>
     index < length payload \<and> length rs + length es = index"

definition jobs_ok :: "'c batch_db \<Rightarrow> bool" where
  "jobs_ok d \<longleftrightarrow> distinct (map bj_id (bd_jobs d)) \<and> (\<forall>j \<in> set (bd_jobs d). batch_job_ok j \<and> bj_id j < bd_fresh d)"

definition batch_ok :: "'c batch_db \<Rightarrow> bool" where
  "batch_ok d \<longleftrightarrow> jobs_ok d \<and> distinct (map task_job (bd_tasks d)) \<and> (\<forall>t \<in> set (bd_tasks d). task_ok d t)"

lemma task_ok_cong:
  assumes "find_job (task_job t) d' = find_job (task_job t) d"
  shows "task_ok d' t = task_ok d t"
  using assms by (cases t) simp_all

lemma find_job_SomeD: "find_job i d = Some j \<Longrightarrow> j \<in> set (bd_jobs d) \<and> bj_id j = i"
  by (auto simp: find_job_def dest: find_SomeD)

lemma jobs_ok_frame [simp]: "jobs_ok (d\<lparr>bd_world := w\<rparr>) = jobs_ok d" "jobs_ok (d\<lparr>bd_tasks := ts\<rparr>) = jobs_ok d"
  by (simp_all add: jobs_ok_def)

lemma jobs_ok_update:
  assumes "jobs_ok d" "find_job i d = Some j" "\<And>x. bj_id (f x) = bj_id x" "batch_job_ok (f j)"
  shows "jobs_ok (patch_batch_job i f d)"
proof -
  have "x = j" if "x \<in> set (bd_jobs d)" "bj_id x = i" for x
    using find_job_SomeD[OF assms(2)] assms(1) that by (auto simp: jobs_ok_def distinct_map dest: inj_onD)
  then show ?thesis
    using assms(1,3,4) by (auto simp: jobs_ok_def patch_batch_job_def set_update_rows map_update_rows)
qed

lemma tasks_ok_elsewhere:
  assumes "\<forall>t \<in> set ts. task_ok d t" "i \<notin> task_job ` set ts" "\<And>k. k \<noteq> i \<Longrightarrow> find_job k d' = find_job k d"
  shows "\<forall>t \<in> set ts. task_ok d' t"
proof
  fix t assume t: "t \<in> set ts"
  then have "task_job t \<noteq> i" using assms(2) by auto
  then have "find_job (task_job t) d' = find_job (task_job t) d" by (rule assms(3))
  with assms(1) t show "task_ok d' t" using task_ok_cong by blast
qed

lemma processChunk_ok:
  assumes "batch_ok d" "i \<notin> task_job ` set (bd_tasks d)" "find_job i d = Some j" "\<not> job_finished j" "bj_type j = t" "bj_payload j = payload"
    and "index \<le> length payload" "length rs + length es = index"
  shows "batch_ok (processChunk exec i t payload index rs es d)"
proof -
  obtain rs' es' w' where r: "chunk_result exec (take CHUNK_SIZE (drop index payload)) (rs, es, bd_world d) = (rs', es', w')" by (metis prod_cases3)
  let ?count = "count_job (length rs') (length es')"
  let ?d = "patch_batch_job i ?count (d\<lparr>bd_world := w'\<rparr>)"
  have ok: "jobs_ok d" "distinct (map task_job (bd_tasks d))" "\<forall>t \<in> set (bd_tasks d). task_ok d t"
    using assms(1) by (simp_all add: batch_ok_def)
  have j: "batch_job_ok j" "bj_totalItems j = length payload"
    using ok(1) find_job_SomeD[OF assms(3)] assms(6) by (auto simp: jobs_ok_def batch_job_ok_def)
  have counted: "batch_job_ok (?count j)" using j assms(4) by (simp add: batch_job_ok_def count_job_def job_finished_def)
  have jobs: "jobs_ok ?d" by (rule jobs_ok_update[where j = j]) (use ok(1) assms(3) counted in simp_all)
  have found: "find_job k ?d = (if k = i then Some (?count j) else find_job k d)" for k
    using assms(3) by (simp add: find_job_update)
  show ?thesis
  proof (cases "index + CHUNK_SIZE < length payload")
    case True
    have "length rs' + length es' = index + CHUNK_SIZE" using chunk_result_lengths[OF r] True assms(8) by simp
    then have "task_ok ?d (Running i t payload (index + CHUNK_SIZE) rs' es')"
      using True assms(4-6) by (simp add: found count_job_def job_finished_def)
    moreover have "\<forall>t \<in> set (bd_tasks d). task_ok ?d t"
      by (rule tasks_ok_elsewhere[OF ok(3) assms(2)]) (simp add: found)
    ultimately have "\<forall>u \<in> set (bd_tasks d @ [Running i t payload (index + CHUNK_SIZE) rs' es']). task_ok (?d\<lparr>bd_tasks := bd_tasks d @ [Running i t payload (index + CHUNK_SIZE) rs' es']\<rparr>) u"
      using task_ok_cong[where d = ?d and d' = "?d\<lparr>bd_tasks := bd_tasks d @ [Running i t payload (index + CHUNK_SIZE) rs' es']\<rparr>"] by auto
    then show ?thesis
      using jobs ok(2) assms(2) unfolding processChunk_more[OF True r] batch_ok_def by simp
  next
    case False
    then have r': "chunk_result exec (drop index payload) (rs, es, bd_world d) = (rs', es', w')" using r by simp
    have len: "length rs' + length es' = length payload" using chunk_result_lengths[OF r'] assms(7,8) by simp
    have "batch_job_ok (finish_job rs' es' (?count j))" using len j(2) assms(6) by (auto simp: batch_job_ok_def finish_job_def count_job_def job_finished_def)
    then have "jobs_ok (patch_batch_job i (finish_job rs' es') ?d)"
      by (intro jobs_ok_update[where j = "?count j"] jobs) (simp_all add: found)
    moreover have "\<forall>t \<in> set (bd_tasks d). task_ok (patch_batch_job i (finish_job rs' es') ?d) t"
      by (rule tasks_ok_elsewhere[OF ok(3) assms(2)]) (simp add: find_job_update)
    moreover have "length payload \<le> index + CHUNK_SIZE" using False by simp
    ultimately show ?thesis
      using ok(2) by (simp add: processChunk_last[OF _ r'] batch_ok_def)
  qed
qed

lemma task_of_job: "task_of i d = Some task \<Longrightarrow> task \<in> set (bd_tasks d) \<and> task_job task = i"
  by (auto simp: task_of_def dest: find_SomeD)

lemma batch_ok_without:
  assumes "batch_ok d" "task_of i d = Some task"
  shows "batch_ok (d\<lparr>bd_tasks := remove1 task (bd_tasks d)\<rparr>) \<and> i \<notin> task_job ` set (remove1 task (bd_tasks d))"
proof -
  let ?d = "d\<lparr>bd_tasks := remove1 task (bd_tasks d)\<rparr>"
  have ok: "jobs_ok d" "distinct (map task_job (bd_tasks d))" "\<forall>t \<in> set (bd_tasks d). task_ok d t"
    using assms(1) by (simp_all add: batch_ok_def)
  have "\<forall>t \<in> set (remove1 task (bd_tasks d)). task_ok ?d t"
    using ok(3) task_ok_cong[where d = d and d' = ?d] set_remove1_subset[of task "bd_tasks d"] by auto
  moreover have "find (\<lambda>t. task_job t = i) (remove1 task (bd_tasks d)) = None"
    using find_remove1_task[OF ok(2) assms(2)[unfolded task_of_def], of i] by simp
  then have "i \<notin> task_job ` set (remove1 task (bd_tasks d))" by (auto simp: find_None)
  ultimately show ?thesis using ok distinct_remove1_task[OF ok(2)] by (simp add: batch_ok_def)
qed

text \<open>A turn that begins the job, and one that goes on with it.\<close>

lemma turn_begin:
  assumes "task_of i d = Some (Queued i)" "find_job i d = Some j"
  shows "turn del reset now i d = processChunk (run_item del reset now (bj_type j)) i (bj_type j) (bj_payload j) 0 [] []
    (patch_batch_job i (\<lambda>j. j\<lparr>bj_status := JobProcessing, bj_startedAt := Some now\<rparr>) (d\<lparr>bd_tasks := remove1 (Queued i) (bd_tasks d)\<rparr>))"
  using assms by (simp add: turn_def task_of_def Let_def)

lemma turn_go_on:
  assumes "task_of i d = Some (Running i t payload index rs es)"
  shows "turn del reset now i d = processChunk (run_item del reset now t) i t payload index rs es
    (d\<lparr>bd_tasks := remove1 (Running i t payload index rs es) (bd_tasks d)\<rparr>)"
  using assms by (simp add: turn_def task_of_def Let_def)

lemma turn_idle: "task_of i d = None \<Longrightarrow> turn del reset now i d = d"
  by (simp add: turn_def task_of_def)

lemma batch_ok_turn:
  assumes "batch_ok d"
  shows "batch_ok (turn del reset now i d)"
proof (cases "task_of i d")
  case None
  with assms show ?thesis by (simp add: turn_idle)
next
  case (Some task)
  note task = task_of_job[OF Some]
  let ?d = "d\<lparr>bd_tasks := remove1 task (bd_tasks d)\<rparr>"
  have d: "batch_ok ?d" "i \<notin> task_job ` set (bd_tasks ?d)" using batch_ok_without[OF assms Some] by simp_all
  have ok: "task_ok d task" using assms task by (simp add: batch_ok_def)
  show ?thesis
  proof (cases task)
    case (Queued i')
    then have i: "i' = i" using task by simp
    obtain j where j: "find_job i d = Some j" "\<not> job_finished j" using ok Queued i by auto
    let ?start = "\<lambda>j. j\<lparr>bj_status := JobProcessing, bj_startedAt := Some now\<rparr>"
    have "batch_job_ok j" using assms find_job_SomeD[OF j(1)] by (simp add: batch_ok_def jobs_ok_def)
    then have "batch_job_ok (?start j)" by (simp add: batch_job_ok_def job_finished_def)
    then have "jobs_ok (patch_batch_job i ?start ?d)"
      by (intro jobs_ok_update[where j = j]) (use d(1) j(1) in \<open>simp_all add: batch_ok_def\<close>)
    moreover have "\<forall>t \<in> set (bd_tasks ?d). task_ok (patch_batch_job i ?start ?d) t"
      by (rule tasks_ok_elsewhere[where d = ?d, OF _ d(2)]) (use d(1) in \<open>simp_all add: batch_ok_def find_job_update\<close>)
    ultimately have "batch_ok (patch_batch_job i ?start ?d)" using d(1) by (simp add: batch_ok_def)
    moreover have "find_job i (patch_batch_job i ?start ?d) = Some (?start j)" using j(1) by (simp add: find_job_update)
    ultimately have "batch_ok (processChunk (run_item del reset now (bj_type j)) i (bj_type j) (bj_payload j) 0 [] [] (patch_batch_job i ?start ?d))"
      by (intro processChunk_ok[where j = "?start j"]) (use d(2) in \<open>simp_all add: job_finished_def\<close>)
    then show ?thesis using turn_begin[OF _ j(1), of del reset now] Some Queued i by simp
  next
    case (Running i' t payload index rs es)
    then have i: "i' = i" using task by simp
    obtain j where j: "find_job i d = Some j" "\<not> job_finished j" "bj_type j = t" "bj_payload j = payload"
      and idx: "index < length payload" "length rs + length es = index" using ok Running i by auto
    have "batch_ok (processChunk (run_item del reset now t) i t payload index rs es ?d)"
      by (rule processChunk_ok[OF d]) (use j idx in simp_all)
    then show ?thesis using turn_go_on[of i d t payload index rs es del reset now] Some Running i by simp
  qed
qed

lemma batch_ok_create: "batch_ok d \<Longrightarrow> batch_ok (snd (create_batch t now payload who d))"
proof -
  assume ok: "batch_ok d"
  let ?d = "snd (create_batch t now payload who d)"
  have old: "bj_id j < bd_fresh d" if "j \<in> set (bd_jobs d)" for j using ok that by (simp add: batch_ok_def jobs_ok_def)
  have none: "find_job (bd_fresh d) d = None" using old by (force simp: find_job_def find_None)
  have found: "find_job k ?d = (if k = bd_fresh d then Some (fst (create_batch t now payload who d)) else find_job k d)" for k
    using none by (auto simp: find_job_def create_batch_def Let_def find_append split: option.split)
  have jobs: "\<exists>j. find_job (task_job t) d = Some j" if "t \<in> set (bd_tasks d)" for t
  proof -
    have "task_ok d t" using ok that by (simp add: batch_ok_def)
    then show ?thesis by (cases t) auto
  qed
  then have fresh: "bd_fresh d \<notin> task_job ` set (bd_tasks d)" using none by force
  have "jobs_ok ?d" using ok old by (force simp: batch_ok_def jobs_ok_def create_batch_def Let_def batch_job_ok_def job_finished_def less_Suc_eq)
  moreover have "\<forall>t \<in> set (bd_tasks d). task_ok ?d t"
    by (rule tasks_ok_elsewhere[OF _ fresh]) (use ok in \<open>simp_all add: batch_ok_def found\<close>)
  moreover have "task_ok ?d (Queued (bd_fresh d))"
    unfolding task_ok.simps found by (simp add: create_batch_def Let_def job_finished_def)
  moreover have "bd_tasks ?d = bd_tasks d @ [Queued (bd_fresh d)]" by (simp add: create_batch_def Let_def)
  ultimately show ?thesis using ok fresh by (auto simp: batch_ok_def)
qed

lemma batch_ok_restart: "batch_ok d \<Longrightarrow> batch_ok (restart now d)"
proof -
  assume "batch_ok d"
  then have "jobs_ok d" by (simp add: batch_ok_def)
  then have "jobs_ok (restart now d)"
    by (auto simp: jobs_ok_def restart_def recoverStuckJobs_def map_update_rows set_update_rows batch_job_ok_def job_finished_def stuck_def)
  then show ?thesis by (simp add: batch_ok_def) (simp add: restart_def recoverStuckJobs_def)
qed

lemma batch_ok_step: "batch_ok d \<Longrightarrow> batch_ok (snd (batch_step del reset c d))"
proof (cases c)
  case (OtherRequest w)
  assume ok: "batch_ok d"
  have "task_ok (d\<lparr>bd_world := w\<rparr>) t = task_ok d t" for t by (rule task_ok_cong) simp
  with ok show ?thesis by (simp add: OtherRequest batch_ok_def)
qed (simp_all add: batch_ok_turn batch_ok_restart batch_ok_create createUserBatch_def createCourseBatch_def)

interpretation batching: invariant_machine "batch_step del reset" batch_ok for del :: "string \<Rightarrow> 'c \<Rightarrow> 'c" and reset
  by unfold_locales (rule batch_ok_step)

subsection \<open>All the turns of a job\<close>

lemma idle_turns: "task_of i d = None \<Longrightarrow> run_ops (batch_step del reset) (replicate k (Turn now i)) d = d"
  by (induction k) (simp_all add: turn_idle)

definition outcome_of ::
  "(batch_item \<Rightarrow> 'c catalog_db \<Rightarrow> ('c catalog_db, uuid) outcome) \<Rightarrow> batch_item list \<Rightarrow> 'c catalog_db \<Rightarrow> 'c batch_progress" where
  "outcome_of exec payload w = fold (process_item exec) payload ([], [], w)"

lemma chunk_then_turns:
  assumes "task_of i d = None" "distinct (map task_job (bd_tasks d))" "find_job i d = Some j" "length payload \<le> index + CHUNK_SIZE * Suc k"
    and "chunk_result (run_item del reset now t) (drop index payload) (rs, es, bd_world d) = (rs', es', w')"
    and "d' = run_ops (batch_step del reset) (replicate k (Turn now i)) (processChunk (run_item del reset now t) i t payload index rs es d)"
  shows "find_job i d' = Some (finish_job rs' es' j) \<and> bd_world d' = w' \<and> task_of i d' = None"
  using assms
proof (induction k arbitrary: d j index rs es d')
  case 0
  then show ?case
    by (simp add: processChunk_last[OF _ 0(5)] find_job_update)
next
  case (Suc k)
  show ?case
  proof (cases "index + CHUNK_SIZE < length payload")
    case False
    then have last: "processChunk (run_item del reset now t) i t payload index rs es d =
        patch_batch_job i (finish_job rs' es') (patch_batch_job i (count_job (length rs') (length es')) (d\<lparr>bd_world := w'\<rparr>))"
      by (intro processChunk_last Suc.prems(5)) simp
    with Suc.prems(1) have "d' = patch_batch_job i (finish_job rs' es') (patch_batch_job i (count_job (length rs') (length es')) (d\<lparr>bd_world := w'\<rparr>))"
      unfolding Suc.prems(6) last by (intro idle_turns) simp
    with Suc.prems(1,3) show ?thesis by (simp add: find_job_update)
  next
    case True
    obtain r1 e1 w1 where one: "chunk_result (run_item del reset now t) (take CHUNK_SIZE (drop index payload)) (rs, es, bd_world d) = (r1, e1, w1)"
      by (metis prod_cases3)
    let ?task = "Running i t payload (index + CHUNK_SIZE) r1 e1"
    let ?d1 = "(patch_batch_job i (count_job (length r1) (length e1)) (d\<lparr>bd_world := w1\<rparr>))\<lparr>bd_tasks := bd_tasks d @ [?task]\<rparr>"
    have more: "processChunk (run_item del reset now t) i t payload index rs es d = ?d1" by (rule processChunk_more[OF True one])
    have no: "\<forall>t \<in> set (bd_tasks d). task_job t \<noteq> i" using Suc.prems(1) by (simp add: task_of_def find_None)
    then have at: "task_of i ?d1 = Some ?task" using Suc.prems(1) by (simp add: task_of_def find_append)
    have "?task \<notin> set (bd_tasks d)" using no by force
    then have without: "remove1 ?task (bd_tasks ?d1) = bd_tasks d" by (simp add: remove1_append)
    let ?d2 = "?d1\<lparr>bd_tasks := bd_tasks d\<rparr>"
    have step: "turn del reset now i ?d1 = processChunk (run_item del reset now t) i t payload (index + CHUNK_SIZE) r1 e1 ?d2"
      unfolding turn_go_on[OF at] without ..
    have rest: "chunk_result (run_item del reset now t) (drop (index + CHUNK_SIZE) payload) (r1, e1, w1) = (rs', es', w')"
      using Suc.prems(5) one chunk_result_append[of "run_item del reset now t" "take CHUNK_SIZE (drop index payload)" "drop CHUNK_SIZE (drop index payload)" "(rs, es, bd_world d)"]
      unfolding append_take_drop_id by (simp add: add.commute)
    have d': "d' = run_ops (batch_step del reset) (replicate k (Turn now i)) (processChunk (run_item del reset now t) i t payload (index + CHUNK_SIZE) r1 e1 ?d2)"
      using Suc.prems(6) by (simp add: more step)
    have "find_job i d' = Some (finish_job rs' es' (count_job (length r1) (length e1) j)) \<and> bd_world d' = w' \<and> task_of i d' = None"
      by (rule Suc.IH[OF _ _ _ _ _ d']) (use Suc.prems rest in \<open>simp_all add: task_of_def find_job_update\<close>)
    then show ?thesis by simp
  qed
qed

subsection \<open>Properties\<close>


text \<open>In every history of submissions, turns, restarts and other requests, a finished job has an outcome for each of its
  operations: results and errors count as processed and failed, and add up to the total; it is failed exactly when every
  operation failed, so a job without operations is failed too.\<close>

theorem batch_accounts:
  assumes "batch_ok d" "find_job i (run_ops (batch_step del reset) es d) = Some j" "bj_status j \<in> {JobCompleted, JobFailed}"
  shows "bj_processedItems j + bj_failedItems j = bj_totalItems j \<and> bj_totalItems j = length (bj_payload j) \<and>
    (bj_status j = JobFailed \<longleftrightarrow> bj_failedItems j = bj_totalItems j) \<and>
    map_option length (bj_results j) = Some (bj_processedItems j) \<and> map_option length (bj_errors j) = Some (bj_failedItems j)"
proof -
  have "batch_ok (run_ops (batch_step del reset) es d)" by (rule batching.run_preserves[OF assms(1)])
  then have "batch_job_ok j" using find_job_SomeD[OF assms(2)] by (simp add: batch_ok_def jobs_ok_def)
  with assms(3) show ?thesis by (auto simp: batch_job_ok_def job_finished_def)
qed

lemma processChunk_elsewhere:
  assumes "k \<noteq> i"
  shows "find_job i (processChunk exec k t payload index rs es d) = find_job i d \<and>
    task_of i (processChunk exec k t payload index rs es d) = task_of i d"
  using assms
  by (simp add: processChunk_def Let_def find_job_update task_of_def find_append split: prod.split option.split)

lemma task_of_remove1: "task_of i d = None \<Longrightarrow> task_of i (d\<lparr>bd_tasks := remove1 task (bd_tasks d)\<rparr>) = None"
  using set_remove1_subset[of task "bd_tasks d"] by (auto simp: task_of_def find_None)

lemma turn_elsewhere:
  assumes "k \<noteq> i" "task_of i d = None"
  shows "find_job i (turn del reset now k d) = find_job i d \<and> task_of i (turn del reset now k d) = None"
  using assms task_of_remove1[OF assms(2)]
  by (auto simp: turn_def Let_def processChunk_elsewhere find_job_update split: option.split batch_task.split)

lemma create_batch_elsewhere:
  assumes "find_job i d = Some j" "batch_ok d" "task_of i d = None"
  shows "find_job i (snd (create_batch t now items who d)) = Some j \<and> task_of i (snd (create_batch t now items who d)) = None"
proof -
  have "i < bd_fresh d" using find_job_SomeD[OF assms(1)] assms(2) by (auto simp: batch_ok_def jobs_ok_def)
  with assms(1,3) show ?thesis by (simp add: create_batch_def Let_def find_job_def task_of_def find_append)
qed

lemma find_job_restart:
  assumes "find_job i d = Some j" "\<not> job_finished j"
  shows "\<exists>j'. find_job i (restart now d) = Some j' \<and> \<not> job_finished j'"
proof -
  let ?f = "\<lambda>j. if stuck (now - STUCK_TIMEOUT_MS) j then j\<lparr>bj_status := JobPending, bj_startedAt := None\<rparr> else j"
  have "find (\<lambda>j. bj_id j = i) (map ?f js) = map_option ?f (find (\<lambda>j. bj_id j = i) js)" for js
    by (induction js) auto
  then have "find_job i (restart now d) = map_option ?f (find_job i d)"
    by (simp add: restart_def recoverStuckJobs_def find_job_def update_rows_def)
  with assms show ?thesis by (simp add: job_finished_def)
qed

lemma unqueued_step:
  assumes "task_of i d = None" "find_job i d = Some j" "\<not> job_finished j" "batch_ok d"
  shows "task_of i (snd (batch_step del reset c d)) = None \<and> (\<exists>j'. find_job i (snd (batch_step del reset c d)) = Some j' \<and> \<not> job_finished j')"
proof (cases c)
  case (Turn t k)
  then show ?thesis using assms turn_elsewhere[of k i d del reset t] by (cases "k = i") (auto simp: turn_idle)
next
  case (Restart t)
  have "task_of i (restart t d) = None" by (simp add: restart_def recoverStuckJobs_def task_of_def)
  with find_job_restart[OF assms(2,3), of t] show ?thesis by (simp add: Restart)
qed (use assms create_batch_elsewhere[OF assms(2,4,1)] in \<open>auto simp: createUserBatch_def createCourseBatch_def\<close>)

text \<open>A restart loses the work that was queued: a job that was not finished then is never finished, in no later history.
  The start-up only resets its status to pending, and nothing picks up a pending job.\<close>

theorem restart_strands_jobs:
  assumes "batch_ok d" "find_job i d = Some j" "bj_status j \<notin> {JobCompleted, JobFailed}"
  shows "\<exists>j'. find_job i (run_ops (batch_step del reset) es (restart now d)) = Some j' \<and> bj_status j' \<notin> {JobCompleted, JobFailed}"
proof -
  have "\<exists>j. find_job i (run_ops (batch_step del reset) es d) = Some j \<and> \<not> job_finished j"
    if "batch_ok d" "task_of i d = None" "find_job i d = Some j" "\<not> job_finished j" for d :: "'a batch_db" and j
    using that
  proof (induction es arbitrary: d j)
    case (Cons c es)
    from unqueued_step[OF Cons.prems(2-4,1), of del reset c] batch_ok_step[OF Cons.prems(1), of del reset c] Cons.IH
    show ?case by fastforce
  qed simp
  moreover have "batch_ok (restart now d)" by (rule batch_ok_restart[OF assms(1)])
  moreover have "task_of i (restart now d) = None" by (simp add: restart_def recoverStuckJobs_def task_of_def)
  moreover obtain j' where "find_job i (restart now d) = Some j'" "\<not> job_finished j'"
    using find_job_restart[OF assms(2)] assms(3) by (auto simp: job_finished_def)
  ultimately show ?thesis unfolding job_finished_def by blast
qed

subsection \<open>Witnesses\<close>

definition ban_item :: "uuid \<Rightarrow> batch_item" where
  "ban_item u = \<lparr>bi_action = ''ban'', bi_userId = Some u, bi_courseId = None, bi_role = None, bi_userData = (\<lambda>u. u),
     bi_coursePatch = \<lparr>cx_title = None, cx_description = None, cx_level = None, cx_durationHours = None, cx_isPublished = None\<rparr>,
     bi_courseDto = None\<rparr>"

text \<open>One user; a batch bans that user and one who is not there.\<close>

definition one_user_world :: "unit catalog_db" where
  "one_user_world = \<lparr>ct_core = empty_core\<lparr>users := [new_user 1 ''a'']\<rparr>, ct_reviews = [], ct_cache = ()\<rparr>"

definition ban_job :: batch_job where
  "ban_job = \<lparr>bj_id = 0, bj_type = UserBatch, bj_status = JobPending, bj_payload = [ban_item 1, ban_item 2], bj_results = None,
     bj_errors = None, bj_totalItems = 2, bj_processedItems = 0, bj_failedItems = 0, bj_createdById = 9, bj_startedAt = None, bj_createdAt = 3\<rparr>"

definition ban_queue :: "unit batch_db" where
  "ban_queue = \<lparr>bd_jobs = [ban_job], bd_tasks = [Queued 0], bd_world = one_user_world, bd_fresh = 1\<rparr>"

lemma ban_queue_ok: "batch_ok ban_queue"
  by (simp add: batch_ok_def jobs_ok_def batch_job_ok_def ban_queue_def ban_job_def find_job_def job_finished_def)

lemma ban_queue_found: "find_job 0 ban_queue = Some ban_job"
  by (simp add: find_job_def ban_queue_def ban_job_def)

lemma ban_outcome:
  "\<exists>w. fold (process_item (run_item (\<lambda>_ c. c) None 5 (bj_type ban_job))) (bj_payload ban_job) ([], [], bd_world ban_queue) =
     ([\<lparr>br_action = ''ban'', br_id = 1\<rparr>], [(ban_item 2, NotFoundException ''User not found'')], w)"
  by (simp add: ban_job_def ban_queue_def process_item_def run_item_def run_user_item_def ban_item_def returning_id_def on_core_def
      banUser_def user_update_def store_user_def find_user_def one_user_world_def new_user_def empty_core_def save_user_def save_row_def Let_def)


theorem batch_accounts_witness:
  "\<exists>j. find_job 0 (snd (createUserBatch 1 [] 9 (ban_queue\<lparr>bd_jobs := [], bd_tasks := [], bd_fresh := 0\<rparr>))) = Some j \<and>
     (let d = run_ops (batch_step (\<lambda>_ c. c) None) [SubmitUsers 1 [] 9, Turn 2 0] (ban_queue\<lparr>bd_jobs := [], bd_tasks := [], bd_fresh := 0\<rparr>)
      in \<exists>j'. find_job 0 d = Some j' \<and> bj_status j' = JobFailed \<and> bj_failedItems j' = bj_totalItems j')"
proof -
  let ?d = "ban_queue\<lparr>bd_jobs := [], bd_tasks := [], bd_fresh := 0\<rparr>"
  let ?es = "[SubmitUsers 1 [] 9, Turn 2 0]"
  have ok: "batch_ok ?d" by (simp add: batch_ok_def jobs_ok_def)
  have new: "\<exists>j. find_job 0 (snd (createUserBatch 1 [] 9 ?d)) = Some j"
    by (simp add: createUserBatch_def create_batch_def Let_def find_job_def)
  have "\<exists>j. find_job 0 (run_ops (batch_step (\<lambda>_ c. c) None) ?es ?d) = Some j \<and> bj_status j = JobFailed"
    by (simp add: createUserBatch_def create_batch_def Let_def find_job_def turn_def processChunk_def patch_batch_job_def update_rows_def finish_job_def
        count_job_def CHUNK_SIZE_def)
  then obtain j where j: "find_job 0 (run_ops (batch_step (\<lambda>_ c. c) None) ?es ?d) = Some j" "bj_status j = JobFailed" by blast
  have "bj_failedItems j = bj_totalItems j" using batch_accounts[OF ok j(1)] j(2) by blast
  with new j show ?thesis unfolding Let_def by blast
qed

theorem restart_strands_jobs_witness:
  "\<exists>j. find_job 0 (run_ops (batch_step (\<lambda>_ c. c) None) [Turn 2000000 0, Turn 2000001 0] (restart 1000000 ban_queue)) = Some j \<and>
     bj_status j \<notin> {JobCompleted, JobFailed}"
  by (rule restart_strands_jobs[OF ban_queue_ok ban_queue_found]) (simp add: ban_job_def)

end
