(* ===== verification/Gateway.thy ===== *)
theory Gateway
  imports ApiKeys Webhooks
begin

text \<open>
  What every request passes through (\<open>common\<close> and \<open>main.ts\<close>): the sanitizing pipe, the version middleware and
  interceptor, the interceptor that wraps a result, and the filters that answer an exception; and the routes
  that read the signed-in user under a name the guard does not set (\<open>audit.controller.ts\<close>,
  \<open>webhooks.controller.ts\<close>), with the rotation of secrets (\<open>secrets\<close>), whose route does the same. \<open>html\<close> is
  \<open>sanitizeHtml\<close> without allowed tags, \<open>stamp\<close> the text of the present instant.
\<close>

subsection \<open>Values of the language\<close>

text \<open>An object is its own enumerable properties in order; a \<open>Buffer\<close> and a \<open>Date\<close> are objects of their own kind.\<close>

datatype js_value =
    JsUndefined
  | JsNull
  | JsBoolean bool
  | JsNumber rat
  | JsString string
  | JsArray "js_value list"
  | JsObject "(string \<times> js_value) list"
  | JsBuffer "nat list"
  | JsDate timestamp

fun js_truthy :: "js_value \<Rightarrow> bool" where
  "js_truthy JsUndefined = False"
| "js_truthy JsNull = False"
| "js_truthy (JsBoolean b) = b"
| "js_truthy (JsNumber x) = (x \<noteq> 0)"
| "js_truthy (JsString s) = (s \<noteq> [])"
| "js_truthy _ = True"

definition js_or :: "js_value \<Rightarrow> js_value \<Rightarrow> js_value" where
  "js_or a b = (if js_truthy a then a else b)"

definition field :: "string \<Rightarrow> (string \<times> js_value) list \<Rightarrow> js_value" where
  "field k kvs = (case map_of kvs k of None \<Rightarrow> JsUndefined | Some v \<Rightarrow> v)"

definition is_array :: "js_value \<Rightarrow> bool" where
  "is_array v = (case v of JsArray _ \<Rightarrow> True | _ \<Rightarrow> False)"

text \<open>The own enumerable properties: a buffer has its bytes under their positions, a date has none.\<close>

definition byte_fields :: "nat list \<Rightarrow> (string \<times> js_value) list" where
  "byte_fields bs = map (\<lambda>i. (string_of_nat i, JsNumber (of_nat (bs ! i)))) [0..<length bs]"

fun own_fields :: "js_value \<Rightarrow> (string \<times> js_value) list" where
  "own_fields (JsObject kvs) = kvs"
| "own_fields (JsBuffer bs) = byte_fields bs"
| "own_fields _ = []"

subsection \<open>The sanitizing pipe\<close>

definition sanitizeString :: "(string \<Rightarrow> string) \<Rightarrow> string \<Rightarrow> string" where
  "sanitizeString html str = html (js_trim (filter (\<lambda>c. c \<noteq> CHR 0x00) str))"

text \<open>The copy is a plain object of the sanitized own properties. Assigning \<open>__proto__\<close> makes no property.\<close>

fun sanitizeObject :: "(string \<Rightarrow> string) \<Rightarrow> js_value \<Rightarrow> js_value"
  and sanitize_items :: "(string \<Rightarrow> string) \<Rightarrow> js_value list \<Rightarrow> js_value list"
  and sanitize_fields :: "(string \<Rightarrow> string) \<Rightarrow> (string \<times> js_value) list \<Rightarrow> (string \<times> js_value) list" where
  "sanitizeObject html (JsString s) = JsString (sanitizeString html s)"
| "sanitizeObject html (JsArray xs) = JsArray (sanitize_items html xs)"
| "sanitizeObject html (JsObject kvs) = JsObject (sanitize_fields html kvs)"
| "sanitizeObject html (JsBuffer bs) = JsObject (byte_fields bs)"
| "sanitizeObject html (JsDate d) = JsObject []"
| "sanitizeObject html JsUndefined = JsUndefined"
| "sanitizeObject html JsNull = JsNull"
| "sanitizeObject html (JsBoolean b) = JsBoolean b"
| "sanitizeObject html (JsNumber x) = JsNumber x"
| "sanitize_items html [] = []"
| "sanitize_items html (x # xs) = sanitizeObject html x # sanitize_items html xs"
| "sanitize_fields html [] = []"
| "sanitize_fields html ((k, v) # kvs) =
     (if k = ''__proto__'' then sanitize_fields html kvs
      else (k, sanitizeObject html v) # sanitize_fields html kvs)"

text \<open>Only objects and arrays are looked into.\<close>

fun is_object :: "js_value \<Rightarrow> bool" where
  "is_object (JsArray _) = True"
| "is_object (JsObject _) = True"
| "is_object (JsBuffer _) = True"
| "is_object (JsDate _) = True"
| "is_object _ = False"

definition pipe_transform :: "(string \<Rightarrow> string) \<Rightarrow> js_value \<Rightarrow> js_value" where
  "pipe_transform html v = (if is_object v then sanitizeObject html v else v)"

text \<open>The value with validation (\<open>validate-and-sanitize.pipe.ts\<close>): \<open>plainToInstance\<close> and \<open>validate\<close>, with the errors as
  a property and the messages of its broken constraints.\<close>

definition error_text :: "string \<times> string list \<Rightarrow> string" where
  "error_text e = fst e @ '': '' @ join_with '', '' (snd e)"

definition validated_transform ::
  "(string \<Rightarrow> string) \<Rightarrow> (js_value \<Rightarrow> 'o) \<Rightarrow> ('o \<Rightarrow> (string \<times> string list) list) \<Rightarrow> (js_value \<Rightarrow> 'o) \<Rightarrow> string option \<Rightarrow> js_value
   \<Rightarrow> string + 'o" where
  "validated_transform html plainToInstance check plain metatype v =
     (let s = pipe_transform html v in
      if \<not> given metatype \<or> metatype = Some ''custom'' then Inr (plain s)
      else (let ob = plainToInstance s; errors = check ob
            in if errors \<noteq> [] then Inl (join_with ''; '' (map error_text errors)) else Inr ob))"

subsection \<open>Exceptions and their answers\<close>

datatype exception_response = ResponseText string | ResponseObject "(string \<times> js_value) list"

text \<open>A thrown value: the 400 exception, another HTTP exception with its status, or any other error with its message.\<close>

datatype thrown = BadRequest exception_response | HttpException nat exception_response | Unexpected string

fun thrown_status :: "thrown \<Rightarrow> nat" where
  "thrown_status (BadRequest r) = 400"
| "thrown_status (HttpException n r) = n"
| "thrown_status (Unexpected m) = 500"

definition exception_message :: "exception_response \<Rightarrow> js_value" where
  "exception_message r =
     (case r of ResponseText t \<Rightarrow> JsString t | ResponseObject kvs \<Rightarrow> js_or (field ''message'' kvs) (JsObject kvs))"

definition HttpExceptionFilter :: "string \<Rightarrow> string \<Rightarrow> thrown \<Rightarrow> nat \<times> (string \<times> js_value) list" where
  "HttpExceptionFilter stamp url e =
     (thrown_status e,
      [(''statusCode'', JsNumber (of_nat (thrown_status e))),
       (''message'', case e of
          BadRequest r \<Rightarrow> exception_message r
        | HttpException n r \<Rightarrow> exception_message r
        | Unexpected m \<Rightarrow> JsString ''Internal server error''),
       (''timestamp'', JsString stamp),
       (''path'', JsString url)])"

text \<open>\<open>JSON.stringify\<close> leaves an undefined property out.\<close>

definition ValidationExceptionFilter :: "string \<Rightarrow> exception_response \<Rightarrow> nat \<times> (string \<times> js_value) list" where
  "ValidationExceptionFilter stamp r =
     (let message = (case r of ResponseText _ \<Rightarrow> JsString ''Bad Request''
                     | ResponseObject kvs \<Rightarrow> js_or (field ''message'' kvs) (JsString ''Bad Request''));
          errors = (case r of ResponseText _ \<Rightarrow> JsNull | ResponseObject kvs \<Rightarrow> js_or (field ''errors'' kvs) (field ''error'' kvs))
      in (400, filter (\<lambda>kv. snd kv \<noteq> JsUndefined)
           [(''statusCode'', JsNumber 400), (''message'', message), (''errors'', errors), (''timestamp'', JsString stamp)]))"

text \<open>The filter for everything is registered first, so the one for 400 takes its exceptions.\<close>

definition error_answer :: "string \<Rightarrow> string \<Rightarrow> thrown \<Rightarrow> nat \<times> (string \<times> js_value) list" where
  "error_answer stamp url e =
     (case e of BadRequest r \<Rightarrow> ValidationExceptionFilter stamp r | _ \<Rightarrow> HttpExceptionFilter stamp url e)"

definition TransformInterceptor :: "string \<Rightarrow> nat \<Rightarrow> js_value \<Rightarrow> js_value" where
  "TransformInterceptor stamp status d =
     JsObject [(''data'', d), (''statusCode'', JsNumber (of_nat status)), (''timestamp'', JsString stamp)]"

subsection \<open>Versions\<close>

definition API_VERSIONS :: "string list" where
  "API_VERSIONS = [''v1'']"

definition DEFAULT_API_VERSION :: string where
  "DEFAULT_API_VERSION = ''v1''"

definition isApiVersion :: "string \<Rightarrow> bool" where
  "isApiVersion v = (v \<in> set API_VERSIONS)"

text \<open>Deprecation and sunset of a version.\<close>

definition VERSION_MANIFEST :: "(string \<times> (timestamp option \<times> timestamp option)) list" where
  "VERSION_MANIFEST = [(''v1'', (None, None))]"

definition getVersionInfo :: "string \<Rightarrow> (timestamp option \<times> timestamp option) option" where
  "getVersionInfo v = map_of VERSION_MANIFEST v"

text \<open>The first non-empty part of the path, and the pattern \<open>v\<close> with digits.\<close>

definition first_part :: "string \<Rightarrow> string" where
  "first_part path = takeWhile (\<lambda>c. c \<noteq> CHR ''/'') (dropWhile (\<lambda>c. c = CHR ''/'') path)"

definition version_part :: "string \<Rightarrow> bool" where
  "version_part p = (case p of [] \<Rightarrow> False | c # cs \<Rightarrow> c = CHR ''v'' \<and> cs \<noteq> [] \<and> list_all is_digit cs)"

definition ApiVersionMiddleware :: "string \<Rightarrow> string option \<Rightarrow> string" where
  "ApiVersionMiddleware path headerVersion =
     (if version_part (first_part path) then first_part path
      else (case headerVersion of
              Some v \<Rightarrow> if v \<noteq> [] \<and> isApiVersion v then v else DEFAULT_API_VERSION
            | None \<Rightarrow> DEFAULT_API_VERSION))"

text \<open>The headers set, and the result with the version; \<open>toISO\<close> prints an instant. An unknown version has no entry in the manifest.\<close>

definition ApiVersionInterceptor ::
  "(timestamp \<Rightarrow> string) \<Rightarrow> timestamp \<Rightarrow> string option \<Rightarrow> string option \<Rightarrow> string option \<Rightarrow> js_value
   \<Rightarrow> http_error + (string \<times> string) list \<times> js_value" where
  "ApiVersionInterceptor toISO now metadata handler acceptVersion d =
     (let version = (case metadata of Some v \<Rightarrow> v
                     | None \<Rightarrow> (case handler of Some v \<Rightarrow> v | None \<Rightarrow> DEFAULT_API_VERSION))
      in case getVersionInfo version of
           None \<Rightarrow> Inl JsTypeError
         | Some (deprecation, sunset) \<Rightarrow>
             Inr ([(''X-API-Version'', version)]
                  @ (case deprecation of
                       Some t \<Rightarrow> if t \<le> now
                                 then (''X-API-Deprecated'', ''true; deprecation_date='' @ toISO t)
                                      # (case sunset of None \<Rightarrow> [] | Some u \<Rightarrow> [(''X-API-Sunset'', toISO u)])
                                 else []
                     | None \<Rightarrow> [])
                  @ (case acceptVersion of
                       Some v \<Rightarrow> if v \<noteq> [] \<and> v \<noteq> version
                                 then [(''Warning'', ''299 - Requested version \"'' @ v @ ''\" is not available; using \"''
                                                     @ version @ ''\"'')] else []
                     | None \<Rightarrow> []),
                  if is_object d \<and> \<not> is_array d
                  then JsObject (upsert_entry ''apiVersion'' (\<lambda>_. JsString version) (own_fields d)) else d))"

subsection \<open>Routes that read the user\<close>

text \<open>The object \<open>req.user\<close> that the guard of access tokens sets: \<open>validate\<close> of the strategy gives id, email and role.\<close>

datatype claim = UserId uuid | ClaimText string

type_synonym user_object = "(string \<times> claim) list"

definition request_user :: "uuid \<Rightarrow> string \<Rightarrow> auth_db \<Rightarrow> user_object" where
  "request_user sub email s =
     (case validate sub email s of
        (i, e, r) \<Rightarrow> [(''id'', UserId i), (''email'', ClaimText e), (''role'', ClaimText r)])"

definition user_id_key :: "string \<Rightarrow> user_object \<Rightarrow> uuid option" where
  "user_id_key k u = (case map_of u k of Some (UserId i) \<Rightarrow> Some i | _ \<Rightarrow> None)"

definition getMyLogs :: "user_object \<Rightarrow> auth_db \<Rightarrow> audit_log list" where
  "getMyLogs u s =
     audit_getLogs \<lparr>aq_userId = user_id_key ''userId'' u, aq_action = None, aq_startDate = None, aq_endDate = None,
                    aq_limit = Some 50\<rparr> (au_audit s)"

text \<open>An undefined condition is no condition: the repository looks for the id alone, or for all rows.\<close>

definition where_owner :: "uuid option \<Rightarrow> webhook \<Rightarrow> bool" where
  "where_owner owner w = (case owner of None \<Rightarrow> True | Some u \<Rightarrow> wh_userId w = u)"

definition owned_webhook :: "uuid option \<Rightarrow> uuid \<Rightarrow> webhook_state \<Rightarrow> webhook option" where
  "owned_webhook owner i s = find (\<lambda>w. wh_id w = i \<and> where_owner owner w) (hooks s)"

definition list_route :: "user_object \<Rightarrow> webhook_state \<Rightarrow> webhook list" where
  "list_route u s = filter (where_owner (user_id_key ''userId'' u)) (hooks s)"

definition remove_route :: "user_object \<Rightarrow> uuid \<Rightarrow> webhook_state \<Rightarrow> (webhook_state, unit) outcome" where
  "remove_route u i s =
     (case owned_webhook (user_id_key ''userId'' u) i s of
        None \<Rightarrow> (Inl (NotFoundException ''Webhook not found''), s)
      | Some w \<Rightarrow> (Inr (), s\<lparr>hooks := delete_rows (\<lambda>x. wh_id x = wh_id w) (hooks s)\<rparr>))"

definition update_route ::
  "user_object \<Rightarrow> uuid \<Rightarrow> string option \<Rightarrow> string list option \<Rightarrow> bool option \<Rightarrow> webhook_state
   \<Rightarrow> (webhook_state, webhook) outcome" where
  "update_route u i url evs active s =
     (case owned_webhook (user_id_key ''userId'' u) i s of
        None \<Rightarrow> (Inl (NotFoundException ''Webhook not found''), s)
      | Some w \<Rightarrow> webhook_update (wh_userId w) i url evs active s)"

text \<open>In a query that spells its conditions out, an undefined parameter equals no column.\<close>

definition logs_route :: "user_object \<Rightarrow> uuid \<Rightarrow> webhook_state \<Rightarrow> webhook_delivery list" where
  "logs_route u i s = (case user_id_key ''userId'' u of None \<Rightarrow> [] | Some owner \<Rightarrow> webhook_logs i owner s)"

text \<open>The column of the owner is not nullable, so a row without owner is refused.\<close>

definition create_route ::
  "string \<Rightarrow> user_object \<Rightarrow> string \<Rightarrow> string list \<Rightarrow> webhook_state \<Rightarrow> (webhook_state, webhook) outcome" where
  "create_route secret u url evs s =
     (case user_id_key ''userId'' u of
        None \<Rightarrow> (Inl (JsError ''null value in column userId violates not-null constraint''), s)
      | Some i \<Rightarrow> map_prod Inr id (register secret i url evs s))"

subsection \<open>Rotation of secrets\<close>

record secret_rotation =
  sr_secretType :: string
  sr_identifier :: "uuid option"
  sr_rotatedAt :: timestamp
  sr_rotatedBy :: "uuid option"
  sr_automated :: bool

definition logRotation ::
  "timestamp \<Rightarrow> string \<Rightarrow> uuid option \<Rightarrow> uuid option \<Rightarrow> bool \<Rightarrow> secret_rotation list \<Rightarrow> secret_rotation list" where
  "logRotation now secretType identifier rotatedBy automated rs =
     rs @ [\<lparr>sr_secretType = secretType, sr_identifier = identifier, sr_rotatedAt = now, sr_rotatedBy = rotatedBy,
            sr_automated = automated\<rparr>]"

definition old_key :: "timestamp \<Rightarrow> api_key \<Rightarrow> bool" where
  "old_key now k = (ak_isActive k \<and> ak_createdAt k < now - 90 * 24 * 60 * 60 * 1000)"

fun deactivate_all ::
  "timestamp \<Rightarrow> api_key list \<Rightarrow> auth_db \<times> secret_rotation list \<Rightarrow> auth_db \<times> secret_rotation list" where
  "deactivate_all now [] st = st"
| "deactivate_all now (k # ks) (s, rs) =
     deactivate_all now ks
       (s\<lparr>au_keys := update_rows (\<lambda>x. ak_id x = ak_id k) (\<lambda>x. x\<lparr>ak_isActive := False\<rparr>) (au_keys s)\<rparr>,
        logRotation now ''api_key'' (Some (ak_id k)) None True rs)"

definition autoRotateExpiredApiKeys ::
  "timestamp \<Rightarrow> auth_db \<times> secret_rotation list \<Rightarrow> auth_db \<times> secret_rotation list" where
  "autoRotateExpiredApiKeys now st = deactivate_all now (filter (old_key now) (au_keys (fst st))) st"

text \<open>The user is the one the route passes, which may be undefined. A hash another key has is refused by the index.\<close>

definition rotateApiKey ::
  "crypto \<Rightarrow> timestamp \<Rightarrow> uuid \<Rightarrow> uuid option \<Rightarrow> auth_db \<times> secret_rotation list
   \<Rightarrow> (auth_db \<times> secret_rotation list, string) outcome" where
  "rotateApiKey cx now keyId userId st =
     (case st of (s, rs) \<Rightarrow>
        (case key_row keyId userId s of
           None \<Rightarrow> (Inl (JsError ''API key not found''), st)
         | Some k \<Rightarrow>
             (let raw = raw_api_key cx s; s1 = s\<lparr>au_random := Suc (au_random s)\<rparr>
              in case store_key (k\<lparr>ak_keyHash := cx_sha256 cx raw, ak_lastUsedAt := None\<rparr>) s1 of
                   (Inl e, s2) \<Rightarrow> (Inl e, (s2, rs))
                 | (Inr _, s2) \<Rightarrow> (Inr raw, (s2, logRotation now ''api_key'' (Some keyId) userId False rs)))))"

definition getRotationHistory :: "string option \<Rightarrow> nat \<Rightarrow> secret_rotation list \<Rightarrow> secret_rotation list" where
  "getRotationHistory secretType limit rs =
     take limit (order_by_desc sr_rotatedAt
       (filter (\<lambda>r. \<not> given secretType \<or> Some (sr_secretType r) = secretType) rs))"

definition rotate_route ::
  "crypto \<Rightarrow> timestamp \<Rightarrow> user_object \<Rightarrow> uuid \<Rightarrow> auth_db \<times> secret_rotation list
   \<Rightarrow> (auth_db \<times> secret_rotation list, string) outcome" where
  "rotate_route cx now u i st = rotateApiKey cx now i (user_id_key ''userId'' u) st"

subsection \<open>Facts\<close>

text \<open>The values at the ends of an object: neither arrays nor plain objects.\<close>

fun leaves :: "js_value \<Rightarrow> js_value list"
  and item_leaves :: "js_value list \<Rightarrow> js_value list"
  and field_leaves :: "(string \<times> js_value) list \<Rightarrow> js_value list" where
  "leaves (JsArray xs) = item_leaves xs"
| "leaves (JsObject kvs) = field_leaves kvs"
| "leaves JsUndefined = [JsUndefined]"
| "leaves JsNull = [JsNull]"
| "leaves (JsBoolean b) = [JsBoolean b]"
| "leaves (JsNumber x) = [JsNumber x]"
| "leaves (JsString s) = [JsString s]"
| "leaves (JsBuffer bs) = [JsBuffer bs]"
| "leaves (JsDate d) = [JsDate d]"
| "item_leaves [] = []"
| "item_leaves (x # xs) = leaves x @ item_leaves xs"
| "field_leaves [] = []"
| "field_leaves ((k, v) # kvs) = leaves v @ field_leaves kvs"

definition texts :: "js_value \<Rightarrow> string set" where
  "texts v = {t. JsString t \<in> set (leaves v)}"

text \<open>What the pipe leaves at the ends.\<close>

definition cleaned :: "(string \<Rightarrow> string) \<Rightarrow> js_value \<Rightarrow> bool" where
  "cleaned html v =
     (case v of
        JsString t \<Rightarrow> t \<in> html ` js_trim ` {t. CHR 0x00 \<notin> set t}
      | JsBuffer _ \<Rightarrow> False
      | JsDate _ \<Rightarrow> False
      | _ \<Rightarrow> True)"

lemma byte_leaves: "x \<in> set (field_leaves (map (\<lambda>i. (f i, JsNumber (g i))) is)) \<Longrightarrow> \<exists>r. x = JsNumber r"
  by (induction "is") auto

lemma cleaned_leaves:
  "\<forall>x \<in> set (leaves (sanitizeObject html v)). cleaned html x"
  "\<forall>x \<in> set (item_leaves (sanitize_items html vs)). cleaned html x"
  "\<forall>x \<in> set (field_leaves (sanitize_fields html kvs)). cleaned html x"
proof (induction html v and html vs and html kvs rule: sanitizeObject_sanitize_items_sanitize_fields.induct)
  case (1 html s)
  have "filter (\<lambda>c. c \<noteq> CHR 0x00) s \<in> {t. CHR 0x00 \<notin> set t}" by simp
  then show ?case by (auto simp: cleaned_def sanitizeString_def)
next
  case (4 html bs)
  then show ?case by (auto simp: cleaned_def byte_fields_def dest!: byte_leaves)
qed (auto simp: cleaned_def)

lemma deactivate_all_log:
  "snd (deactivate_all now ks (s, rs)) =
     rs @ map (\<lambda>k. \<lparr>sr_secretType = ''api_key'', sr_identifier = Some (ak_id k), sr_rotatedAt = now, sr_rotatedBy = None,
                    sr_automated = True\<rparr>) ks"
  by (induction ks arbitrary: s rs) (simp_all add: logRotation_def)

lemma deactivate_all_keys:
  "au_keys (fst (deactivate_all now ks (s, rs))) =
     update_rows (\<lambda>x. \<exists>k \<in> set ks. ak_id x = ak_id k) (\<lambda>x. x\<lparr>ak_isActive := False\<rparr>) (au_keys s)"
proof (induction ks arbitrary: s rs)
  case Nil
  show ?case by (simp add: update_rows_def)
next
  case (Cons k ks)
  then show ?case by (auto simp: update_rows_def)
qed

lemma find_only:
  assumes "x \<in> set xs" "P x" "\<And>y. y \<in> set xs \<Longrightarrow> P y \<Longrightarrow> y = x"
  shows "find P xs = Some x"
proof (cases "find P xs")
  case None
  with assms(1,2) show ?thesis by (simp add: find_None)
next
  case (Some y)
  with find_SomeD[OF Some] assms(3)[of y] show ?thesis by blast
qed

lemma field_simps [simp]:
  "field k [] = JsUndefined"
  "field k ((j, v) # kvs) = (if k = j then v else field k kvs)"
  by (simp_all add: field_def)

lemma js_or_defined [simp]: "b \<noteq> JsUndefined \<Longrightarrow> js_or a b \<noteq> JsUndefined"
  by (auto simp: js_or_def)

lemma request_user_keys:
  "user_id_key ''userId'' (request_user sub email s) = None"
  "user_id_key ''id'' (request_user sub email s) = Some sub"
  by (simp_all add: request_user_def user_id_key_def validate_def)

subsection \<open>Properties\<close>

text \<open>C28: Every exception is answered with its status, repeated in the body, with a message and the instant, and no other
  field than these, the errors and the path; an error that is no HTTP exception becomes a 500 whose body does not depend
  on it.\<close>

theorem error_answer_shape:
  "fst (error_answer stamp url e) = thrown_status e
   \<and> field ''statusCode'' (snd (error_answer stamp url e)) = JsNumber (of_nat (thrown_status e))
   \<and> field ''message'' (snd (error_answer stamp url e)) \<noteq> JsUndefined
   \<and> field ''timestamp'' (snd (error_answer stamp url e)) = JsString stamp
   \<and> distinct (map fst (snd (error_answer stamp url e)))
   \<and> set (map fst (snd (error_answer stamp url e))) \<subseteq> {''statusCode'', ''message'', ''errors'', ''timestamp'', ''path''}
   \<and> error_answer stamp url (Unexpected m)
     = (500, [(''statusCode'', JsNumber 500), (''message'', JsString ''Internal server error''), (''timestamp'', JsString stamp),
              (''path'', JsString url)])"
proof (cases e)
  case (BadRequest r)
  then show ?thesis
    by (cases r) (simp_all add: error_answer_def ValidationExceptionFilter_def HttpExceptionFilter_def Let_def)
next
  case (HttpException n r)
  then show ?thesis
    by (cases r) (simp_all add: error_answer_def HttpExceptionFilter_def exception_message_def)
next
  case (Unexpected m')
  then show ?thesis by (simp add: error_answer_def HttpExceptionFilter_def)
qed

text \<open>In what the pipe makes of an object every text is an answer of the HTML cleaner on a trimmed text without the null
  character, and no buffer is left: the bytes of an uploaded file reach no handler as bytes. A bare text, a path
  parameter or a query parameter, passes as it is.\<close>

theorem pipe_cleans:
  "texts (sanitizeObject html v) \<subseteq> html ` js_trim ` {t. CHR 0x00 \<notin> set t}
   \<and> {JsBuffer bs, JsDate d} \<inter> set (leaves (sanitizeObject html v)) = {}
   \<and> pipe_transform html (JsString t) = JsString t"
proof (intro conjI)
  note c = cleaned_leaves(1)[of html v]
  show "texts (sanitizeObject html v) \<subseteq> html ` js_trim ` {t. CHR 0x00 \<notin> set t}"
    using c by (fastforce simp: texts_def cleaned_def)
  show "{JsBuffer bs, JsDate d} \<inter> set (leaves (sanitizeObject html v)) = {}"
    using c by (fastforce simp: cleaned_def)
qed (simp add: pipe_transform_def)

text \<open>A request under \<open>/v1\<close>, or under a path that names no version, is served as version 1: the header says so, and warns
  exactly when another version was asked for.\<close>

theorem v1_served:
  assumes "first_part path = ''v1'' \<or> \<not> version_part (first_part path)"
  shows "\<exists>d'. ApiVersionInterceptor toISO now (Some (ApiVersionMiddleware path accept)) handler accept d
     = Inr ((''X-API-Version'', ''v1'')
            # (if given accept \<and> accept \<noteq> Some ''v1''
               then [(''Warning'', ''299 - Requested version \"'' @ the accept @ ''\" is not available; using \"v1\"'')] else []), d')"
proof -
  have "ApiVersionMiddleware path accept = ''v1''"
    using assms by (auto simp: ApiVersionMiddleware_def isApiVersion_def API_VERSIONS_def DEFAULT_API_VERSION_def split: option.split)
  then show ?thesis
    by (auto simp: ApiVersionInterceptor_def getVersionInfo_def VERSION_MANIFEST_def given_def Let_def split: option.split)
qed

text \<open>The route for one's own audit log shows the newest fifty entries of everyone, whoever asks: the guard sets \<open>id\<close>,
  the route reads \<open>userId\<close>.\<close>

theorem my_logs_of_everyone:
  "getMyLogs (request_user sub email s) s = take 50 (order_by_desc al_createdAt (au_audit s))"
  by (simp add: getMyLogs_def audit_getLogs_def request_user_keys given_def)

text \<open>No account can register a webhook, and every account sees and removes the webhooks of all.\<close>

theorem webhook_routes_ignore_owner:
  assumes "w \<in> set (hooks s)" "distinct (map wh_id (hooks s))"
  shows "\<not> succeeds (create_route secret (request_user sub email a) url evs s)
     \<and> list_route (request_user sub email a) s = hooks s
     \<and> succeeds (remove_route (request_user sub email a) (wh_id w) s)
     \<and> w \<notin> set (hooks (snd (remove_route (request_user sub email a) (wh_id w) s)))
     \<and> logs_route (request_user sub email a) (wh_id w) s = []"
proof -
  have "owned_webhook None (wh_id w) s = Some w"
    using find_key_unique[OF assms(2,1)] by (simp add: owned_webhook_def where_owner_def)
  then show ?thesis
    by (simp add: create_route_def list_route_def remove_route_def logs_route_def request_user_keys where_owner_def)
qed

text \<open>After the nightly run no key older than 90 days is active, younger keys are as they were, and each key it turned off
  has its entry in the history.\<close>

theorem old_keys_deactivated:
  assumes "k \<in> set (au_keys (fst (autoRotateExpiredApiKeys now (s, rs))))" "ak_isActive k"
  shows "now - 90 * 24 * 60 * 60 * 1000 \<le> ak_createdAt k \<and> k \<in> set (au_keys s)
     \<and> length (snd (autoRotateExpiredApiKeys now (s, rs))) = length rs + count_rows (old_key now) (au_keys s)"
proof -
  note keys = assms(1)[unfolded autoRotateExpiredApiKeys_def deactivate_all_keys set_update_rows fst_conv]
  have off: "\<not> ak_isActive (x\<lparr>ak_isActive := False\<rparr>)" for x :: api_key by simp
  from keys obtain x where x: "x \<in> set (au_keys s)"
    "k = (if \<exists>y \<in> set (filter (old_key now) (au_keys s)). ak_id x = ak_id y then x\<lparr>ak_isActive := False\<rparr> else x)"
    by blast
  with assms(2) off[of x] have k: "k \<in> set (au_keys s)" "\<not> (\<exists>x \<in> set (filter (old_key now) (au_keys s)). ak_id k = ak_id x)"
    by (metis (no_types, lifting))+
  then have "\<not> old_key now k" by auto
  with assms(2) k show ?thesis
    by (simp add: old_key_def autoRotateExpiredApiKeys_def deactivate_all_log count_rows_def)
qed

text \<open>Whoever is signed in can rotate the key of another account, and the new key it gets signs in as that account.\<close>

theorem rotation_hands_over_key:
  assumes "k \<in> set (au_keys s)" "distinct (map ak_id (au_keys s))" "ak_isActive k"
    and "\<forall>x \<in> set (au_keys s). ak_keyHash x \<noteq> cx_sha256 cx (raw_api_key cx s)"
  shows "\<exists>raw s' rs'. rotate_route cx now (request_user sub email s) (ak_id k) (s, rs) = (Inr raw, (s', rs'))
     \<and> fst (api_key_login cx t raw s') = Inr (find_user (ak_userId k) (au_core s))"
proof -
  let ?raw = "raw_api_key cx s"
  let ?k = "k\<lparr>ak_keyHash := cx_sha256 cx ?raw, ak_lastUsedAt := None\<rparr>"
  have row: "key_row (ak_id k) None s = Some k"
    using find_key_unique[OF assms(2,1)] by (simp add: key_row_def)
  have st: "store_key ?k (s\<lparr>au_random := Suc (au_random s)\<rparr>)
      = (Inr ?k, s\<lparr>au_random := Suc (au_random s), au_keys := save_row ak_id ?k (au_keys s)\<rparr>)"
    using assms(4) by (auto simp: store_key_def)
  have "find (\<lambda>x. ak_keyHash x = cx_sha256 cx ?raw \<and> ak_isActive x) (save_row ak_id ?k (au_keys s)) = Some ?k"
    using assms(3,4) by (intro find_only) (auto simp: set_save_row)
  then show ?thesis
    by (simp add: rotate_route_def rotateApiKey_def request_user_keys row st api_key_login_def Let_def)
qed

subsection \<open>Witnesses\<close>

theorem v1_served_witness:
  "\<exists>d'. ApiVersionInterceptor (\<lambda>_. []) 0 (Some (ApiVersionMiddleware ''/v1/courses'' (Some ''v2''))) None (Some ''v2'') JsNull
     = Inr ((''X-API-Version'', ''v1'')
            # (if given (Some ''v2'') \<and> Some ''v2'' \<noteq> Some ''v1''
               then [(''Warning'', ''299 - Requested version \"'' @ the (Some ''v2'') @ ''\" is not available; using \"v1\"'')] else []), d')"
  by (rule v1_served) (simp add: first_part_def)

definition one_hook :: webhook where
  "one_hook = \<lparr>wh_id = 1, wh_userId = 5, wh_url = ''u'', wh_events = ''e'', wh_secret = ''s'', wh_isActive = True\<rparr>"

theorem webhook_routes_ignore_owner_witness:
  "one_hook \<notin> set (hooks (snd (remove_route (request_user 10 ''a'' one_account) (wh_id one_hook) (no_webhooks\<lparr>hooks := [one_hook]\<rparr>))))"
  using webhook_routes_ignore_owner[of one_hook "no_webhooks\<lparr>hooks := [one_hook]\<rparr>" "[]" 10 "''a''" one_account "[]" "[]"]
  by simp

definition one_old_one_new :: auth_db where
  "one_old_one_new = one_key\<lparr>au_keys := au_keys one_key @ [(hd (au_keys one_key))\<lparr>ak_id := 13, ak_createdAt := 8000000000\<rparr>]\<rparr>"

theorem old_keys_deactivated_witness:
  "length (snd (autoRotateExpiredApiKeys 8000000000 (one_old_one_new, []))) = 1"
proof -
  let ?k = "(hd (au_keys one_key))\<lparr>ak_id := 13, ak_createdAt := 8000000000\<rparr>"
  have "?k \<in> set (au_keys (fst (autoRotateExpiredApiKeys 8000000000 (one_old_one_new, []))))"
    by (simp add: autoRotateExpiredApiKeys_def deactivate_all_keys update_rows_def one_old_one_new_def one_key_def old_key_def)
  moreover have "ak_isActive ?k" by (simp add: one_key_def)
  ultimately show ?thesis
    using old_keys_deactivated[of ?k 8000000000 one_old_one_new "[]"]
    by (simp add: count_rows_def one_old_one_new_def one_key_def old_key_def)
qed

definition short_hash :: auth_db where
  "short_hash = one_key\<lparr>au_keys := [(hd (au_keys one_key))\<lparr>ak_keyHash := ''h''\<rparr>]\<rparr>"

theorem rotation_hands_over_key_witness:
  "\<exists>raw s' rs'. rotate_route plain_crypto 5 (request_user 99 ''b'' short_hash) (ak_id (hd (au_keys short_hash))) (short_hash, [])
       = (Inr raw, (s', rs'))
     \<and> fst (api_key_login plain_crypto 6 raw s') = Inr (find_user (ak_userId (hd (au_keys short_hash))) (au_core short_hash))"
  by (rule rotation_hands_over_key)
    (simp_all add: short_hash_def one_key_def one_account_def raw_api_key_def plain_crypto_def)

end
