(* ===== verification/Platform.thy ===== *)
theory Platform
  imports Js_Number Gateway
begin

text \<open>
  The settings of the process and its health probes: the configuration read from the environment with the
  defaults of its validation schema (\<open>config\<close>), the two places that choose the database
  (\<open>common/utils/database-config.ts\<close>, \<open>common/validators/database-config.validator.ts\<close>, \<open>app.module.ts\<close>,
  \<open>data-source.ts\<close>), and \<open>health\<close>. An environment maps a variable to its text; \<open>parse_url\<close> is \<open>new URL\<close>,
  and the answers of the database, the cache and the remote nodes to a probe are arguments.
\<close>

subsection \<open>Reading the environment\<close>

type_synonym env = "string \<Rightarrow> string option"

text \<open>\<open>process.env.K || d\<close>\<close>

definition env_or :: "env \<Rightarrow> string \<Rightarrow> string \<Rightarrow> string" where
  "env_or env k d = (case env k of None \<Rightarrow> d | Some v \<Rightarrow> if v = [] then d else v)"

fun split_on :: "char \<Rightarrow> string \<Rightarrow> string list" where
  "split_on c [] = [[]]"
| "split_on c (x # xs) =
     (if x = c then [] # split_on c xs
      else (case split_on c xs of [] \<Rightarrow> [[x]] | p # ps \<Rightarrow> (x # p) # ps))"

text \<open>\<open>parseFloat\<close> of a decimal numeral, with a fraction and an exponent; \<open>None\<close> is NaN.\<close>

definition decimal_value :: "string \<Rightarrow> string \<Rightarrow> int \<Rightarrow> rat" where
  "decimal_value ds fs e = (of_nat (digits_value ds) + of_nat (digits_value fs) / 10 ^ length fs) * 10 powi e"

definition exponent_of :: "string \<Rightarrow> int" where
  "exponent_of cs =
     (case cs of
        [] \<Rightarrow> 0
      | c # ds \<Rightarrow>
          if c = CHR ''e'' \<or> c = CHR ''E''
          then (case ds of
                  [] \<Rightarrow> 0
                | x # xs \<Rightarrow>
                    if x = CHR ''-'' then - int (digits_value (takeWhile is_digit xs))
                    else if x = CHR ''+'' then int (digits_value (takeWhile is_digit xs))
                    else int (digits_value (takeWhile is_digit ds)))
          else 0)"

definition unsigned_float :: "string \<Rightarrow> js_num option" where
  "unsigned_float cs =
     (let ds = takeWhile is_digit cs; rest = dropWhile is_digit cs;
          dotted = (rest \<noteq> [] \<and> hd rest = CHR ''.'');
          fs = (if dotted then takeWhile is_digit (tl rest) else []);
          tail = (if dotted then dropWhile is_digit (tl rest) else rest)
      in if ds = [] \<and> fs = [] then None else Some (fl (decimal_value ds fs (exponent_of tail))))"

definition js_parseFloat :: "string \<Rightarrow> js_num option" where
  "js_parseFloat s =
     (case dropWhile is_space s of
        [] \<Rightarrow> None
      | c # cs \<Rightarrow>
          if c = CHR ''-'' then map_option uminus (unsigned_float cs)
          else if c = CHR ''+'' then unsigned_float cs
          else unsigned_float (c # cs))"

subsection \<open>The configuration\<close>

definition buildRedisUrl :: "env \<Rightarrow> string" where
  "buildRedisUrl env =
     (let url = env_or env ''REDIS_URL'' [];
          host = env_or env ''REDIS_HOST'' ''localhost''; port = env_or env ''REDIS_PORT'' ''6379'';
          password = env_or env ''REDIS_PASSWORD'' []; db = env_or env ''REDIS_DB'' ''0''
      in if url \<noteq> [] then url
         else if password \<noteq> [] then ''redis://:'' @ password @ ''@'' @ host @ '':'' @ port @ ''/'' @ db
         else ''redis://'' @ host @ '':'' @ port @ ''/'' @ db)"

text \<open>A setting: a text that may be undefined, a number that may be NaN, a switch, a list of texts.\<close>

datatype setting = Text_of "string option" | Number_of "int option" | Float_of "js_num option" | Switch bool | Texts "string list"

definition text_setting :: "env \<Rightarrow> string \<Rightarrow> string \<Rightarrow> setting" where
  "text_setting env k d = Text_of (Some (env_or env k d))"

definition raw_setting :: "env \<Rightarrow> string \<Rightarrow> setting" where
  "raw_setting env k = Text_of (env k)"

definition int_setting :: "env \<Rightarrow> string \<Rightarrow> string \<Rightarrow> setting" where
  "int_setting env k d = Number_of (js_parseInt (env_or env k d))"

definition switch_setting :: "env \<Rightarrow> string \<Rightarrow> setting" where
  "switch_setting env k = Switch (env k = Some ''true'')"

definition configuration :: "env \<Rightarrow> (string \<times> setting) list" where
  "configuration env =
     [(''port'', int_setting env ''PORT'' ''3000''),
      (''nodeEnv'', text_setting env ''NODE_ENV'' ''development''),
      (''database.host'', raw_setting env ''DATABASE_HOST''),
      (''database.port'', int_setting env ''DATABASE_PORT'' ''5432''),
      (''database.username'', raw_setting env ''DATABASE_USER''),
      (''database.password'', raw_setting env ''DATABASE_PASSWORD''),
      (''database.name'', raw_setting env ''DATABASE_NAME''),
      (''database.poolSize'', int_setting env ''DATABASE_POOL_SIZE'' ''50''),
      (''jwt.secret'', raw_setting env ''JWT_SECRET''),
      (''redis.url'', Text_of (Some (buildRedisUrl env))),
      (''stellar.network'', raw_setting env ''STELLAR_NETWORK''),
      (''stellar.secretKey'', text_setting env ''STELLAR_SECRET_KEY'' []),
      (''stellar.sorobanRpcUrl'', text_setting env ''SOROBAN_RPC_URL'' ''https://soroban-testnet.stellar.org''),
      (''stellar.contractId'', text_setting env ''SOROBAN_CONTRACT_ID'' []),
      (''stellar.enrollmentContractId'', text_setting env ''ENROLLMENT_CONTRACT_ID'' []),
      (''stellar.analyticsContractId'', text_setting env ''ANALYTICS_CONTRACT_ID'' []),
      (''stellar.credentialMetadataContractId'', text_setting env ''CREDENTIAL_METADATA_CONTRACT_ID'' []),
      (''stellar.certificateContractId'', text_setting env ''CERTIFICATE_CONTRACT_ID'' []),
      (''stellar.tokenContractId'', text_setting env ''TOKEN_CONTRACT_ID'' []),
      (''stellar.indexerPollIntervalMs'', int_setting env ''INDEXER_POLL_INTERVAL_MS'' ''5000''),
      (''stellar.webAuthDomain'', text_setting env ''STELLAR_WEB_AUTH_DOMAIN'' ''localhost''),
      (''mail.host'', raw_setting env ''EMAIL_HOST''),
      (''mail.port'', int_setting env ''EMAIL_PORT'' ''587''),
      (''mail.secure'', switch_setting env ''EMAIL_SECURE''),
      (''mail.user'', raw_setting env ''EMAIL_USER''),
      (''mail.pass'', raw_setting env ''EMAIL_PASS''),
      (''mail.from'', text_setting env ''EMAIL_FROM'' ''\"Scoopdope\" <no-reply@Scoopdope.app>''),
      (''mail.enabled'', switch_setting env ''EMAIL_ENABLED''),
      (''google.clientId'', raw_setting env ''GOOGLE_CLIENT_ID''),
      (''google.clientSecret'', raw_setting env ''GOOGLE_CLIENT_SECRET''),
      (''google.callbackUrl'', text_setting env ''GOOGLE_CALLBACK_URL'' ''http://localhost:3000/auth/google/callback''),
      (''frontend.url'', text_setting env ''FRONTEND_URL'' ''http://localhost:3001''),
      (''cors.origins'', Texts (case env ''CORS_ORIGINS'' of None \<Rightarrow> [''http://localhost:3001''] | Some v \<Rightarrow> split_on CHR '','' v)),
      (''cors.credentials'', switch_setting env ''CORS_CREDENTIALS''),
      (''cors.maxAge'', int_setting env ''CORS_MAX_AGE'' ''86400''),
      (''throttle.ttl'', int_setting env ''THROTTLE_TTL'' ''60000''),
      (''throttle.limit'', int_setting env ''THROTTLE_LIMIT'' ''100''),
      (''kyc.providerApiKey'', text_setting env ''KYC_PROVIDER_API_KEY'' []),
      (''aws.region'', text_setting env ''AWS_REGION'' ''us-east-1''),
      (''aws.accessKeyId'', text_setting env ''AWS_ACCESS_KEY_ID'' []),
      (''aws.secretAccessKey'', text_setting env ''AWS_SECRET_ACCESS_KEY'' []),
      (''moderation.toxicityThreshold'', Float_of (js_parseFloat (env_or env ''MODERATION_TOXICITY_THRESHOLD'' ''0.7''))),
      (''elasticsearch.node'', text_setting env ''ELASTICSEARCH_NODE'' ''http://localhost:9200''),
      (''elasticsearch.apiKey'', text_setting env ''ELASTICSEARCH_API_KEY'' []),
      (''stripe.secretKey'', text_setting env ''STRIPE_SECRET_KEY'' []),
      (''stripe.webhookSecret'', text_setting env ''STRIPE_WEBHOOK_SECRET'' []),
      (''stripe.proPriceId'', text_setting env ''STRIPE_PRO_PRICE_ID'' []),
      (''stripe.enterprisePriceId'', text_setting env ''STRIPE_ENTERPRISE_PRICE_ID'' []),
      (''exchangeRate.apiKey'', text_setting env ''EXCHANGE_RATE_API_KEY'' []),
      (''payouts.batchSize'', Number_of (js_parseInt (case env ''PAYOUT_BATCH_SIZE'' of None \<Rightarrow> ''500'' | Some v \<Rightarrow> v)))]"

text \<open>The defaults of the schema, as they print; the variables it requires.\<close>

definition schema_defaults :: "(string \<times> string) list" where
  "schema_defaults =
     [(''NODE_ENV'', ''development''), (''PORT'', ''3000''), (''LOG_FORMAT'', ''text''), (''DATABASE_PORT'', ''5432''),
      (''DATABASE_POOL_SIZE'', ''50''), (''REDIS_DB'', ''0''), (''STELLAR_NETWORK'', ''testnet''),
      (''SOROBAN_RPC_URL'', ''https://soroban-testnet.stellar.org''), (''SOROBAN_CONTRACT_ID'', []),
      (''ENROLLMENT_CONTRACT_ID'', []), (''ANALYTICS_CONTRACT_ID'', []), (''TOKEN_CONTRACT_ID'', []),
      (''CREDENTIAL_METADATA_CONTRACT_ID'', []), (''CERTIFICATE_CONTRACT_ID'', []), (''INDEXER_POLL_INTERVAL_MS'', ''5000''),
      (''STELLAR_WEB_AUTH_DOMAIN'', ''localhost''), (''EMAIL_PORT'', ''587''), (''EMAIL_SECURE'', ''false''),
      (''EMAIL_FROM'', ''\"Scoopdope\" <no-reply@Scoopdope.app>''), (''EMAIL_ENABLED'', ''false''),
      (''FRONTEND_URL'', ''http://localhost:3001''), (''CORS_ORIGINS'', ''http://localhost:3001''),
      (''CORS_CREDENTIALS'', ''false''), (''CORS_MAX_AGE'', ''86400''),
      (''GOOGLE_CALLBACK_URL'', ''http://localhost:3000/auth/google/callback''), (''THROTTLE_TTL'', ''60000''),
      (''THROTTLE_LIMIT'', ''100''), (''KYC_PROVIDER_API_KEY'', []), (''AWS_REGION'', ''us-east-1''),
      (''AWS_ACCESS_KEY_ID'', []), (''AWS_SECRET_ACCESS_KEY'', []), (''MODERATION_TOXICITY_THRESHOLD'', ''0.7''),
      (''ELASTICSEARCH_NODE'', ''http://localhost:9200''), (''ELASTICSEARCH_API_KEY'', []), (''STRIPE_SECRET_KEY'', []),
      (''STRIPE_WEBHOOK_SECRET'', []), (''STRIPE_PRO_PRICE_ID'', []), (''STRIPE_ENTERPRISE_PRICE_ID'', []),
      (''EXCHANGE_RATE_API_KEY'', []), (''OTEL_SAMPLING_RATE'', ''0.1''), (''PAYOUT_BATCH_SIZE'', ''500'')]"

definition schema_required :: "string list" where
  "schema_required = [''DATABASE_HOST'', ''DATABASE_USER'', ''DATABASE_PASSWORD'', ''DATABASE_NAME'', ''JWT_SECRET'',
     ''EMAIL_HOST'', ''EMAIL_USER'', ''EMAIL_PASS'']"

definition with_defaults :: "env \<Rightarrow> env" where
  "with_defaults env k = (case env k of None \<Rightarrow> map_of schema_defaults k | Some v \<Rightarrow> Some v)"

subsection \<open>The database\<close>

record database_config =
  dc_host :: string
  dc_port :: "int option"
  dc_username :: string
  dc_password :: string
  dc_name :: string

record url_parts =
  up_hostname :: string
  up_port :: string
  up_username :: string
  up_password :: string
  up_pathname :: string

definition or_text :: "string \<Rightarrow> string \<Rightarrow> string" where
  "or_text s d = (if s = [] then d else s)"

definition parseDatabaseUrl :: "(string \<Rightarrow> string + url_parts) \<Rightarrow> string \<Rightarrow> string + database_config" where
  "parseDatabaseUrl parse_url url =
     (case parse_url url of
        Inl message \<Rightarrow> Inl (''Failed to parse DATABASE_URL: '' @ message)
      | Inr u \<Rightarrow>
          Inr \<lparr>dc_host = or_text (up_hostname u) ''localhost'',
               dc_port = (if up_port u = [] then Some 5432 else js_parseInt (up_port u)),
               dc_username = up_username u, dc_password = up_password u,
               dc_name = or_text (drop 1 (up_pathname u)) ''scoopdope''\<rparr>)"

definition parseIndividualEnvVars :: "env \<Rightarrow> string + database_config" where
  "parseIndividualEnvVars env =
     (let c = \<lparr>dc_host = env_or env ''DATABASE_HOST'' ''localhost'', dc_port = js_parseInt (env_or env ''DATABASE_PORT'' ''5432''),
               dc_username = env_or env ''DATABASE_USER'' [], dc_password = env_or env ''DATABASE_PASSWORD'' [],
               dc_name = env_or env ''DATABASE_NAME'' ''scoopdope''\<rparr>
      in if dc_username c = [] \<or> dc_password c = []
         then Inl (''Database credentials are missing. Provide either DATABASE_URL or DATABASE_USER and ''
                   @ ''DATABASE_PASSWORD environment variables.'')
         else Inr c)"

definition database_parse :: "(string \<Rightarrow> string + url_parts) \<Rightarrow> env \<Rightarrow> string + database_config" where
  "database_parse parse_url env =
     (case env ''DATABASE_URL'' of
        Some url \<Rightarrow> if url = [] then parseIndividualEnvVars env else parseDatabaseUrl parse_url url
      | None \<Rightarrow> parseIndividualEnvVars env)"

text \<open>The database the server works on: the five settings, a text undefined when the variable is.\<close>

definition server_database :: "env \<Rightarrow> setting list" where
  "server_database env =
     map (\<lambda>k. the (map_of (configuration env) k))
       [''database.host'', ''database.port'', ''database.username'', ''database.password'', ''database.name'']"

definition settings_of :: "database_config \<Rightarrow> setting list" where
  "settings_of c = [Text_of (Some (dc_host c)), Number_of (dc_port c), Text_of (Some (dc_username c)),
     Text_of (Some (dc_password c)), Text_of (Some (dc_name c))]"

text \<open>\<open>validateSynchronizeConfig\<close>: true when it throws.\<close>

definition refuses_synchronize :: "string \<Rightarrow> bool \<Rightarrow> bool" where
  "refuses_synchronize nodeEnv synchronize = ((nodeEnv = ''production'' \<or> nodeEnv = ''staging'') \<and> synchronize)"

definition synchronize_of :: "string \<Rightarrow> string + bool" where
  "synchronize_of nodeEnv =
     (let synchronize = (nodeEnv \<noteq> ''production'' \<and> nodeEnv \<noteq> ''staging'')
      in if refuses_synchronize nodeEnv synchronize then Inl (''CRITICAL: TypeORM synchronize is ENABLED in '' @ nodeEnv)
         else Inr synchronize)"

subsection \<open>Probes\<close>

record probe_check =
  pc_status :: string
  pc_message :: "string option"
  pc_latencyMs :: "int option"

record probe_result =
  pr_status :: string
  pr_timestamp :: string
  pr_checks :: "(string \<times> probe_check) list"

definition check_of :: "string \<Rightarrow> string option \<Rightarrow> probe_check" where
  "check_of status message = \<lparr>pc_status = status, pc_message = message, pc_latencyMs = None\<rparr>"

definition shutting_down :: probe_check where
  "shutting_down = check_of ''down'' (Some ''Shutting down'')"

definition checkLiveness :: "string \<Rightarrow> bool \<Rightarrow> probe_result" where
  "checkLiveness stamp isShuttingDown =
     \<lparr>pr_status = (if isShuttingDown then ''error'' else ''ok''), pr_timestamp = stamp,
      pr_checks = [(''process'', if isShuttingDown then shutting_down else check_of ''up'' (Some ''Process alive''))]\<rparr>"

text \<open>What the cache answers to the test value, after how long.\<close>

datatype redis_reply = Retrieved "string option" | CacheError string

definition checkRedis :: "string \<Rightarrow> int \<Rightarrow> redis_reply \<Rightarrow> probe_check" where
  "checkRedis testValue latencyMs reply =
     (case reply of
        Retrieved v \<Rightarrow>
          if v = Some testValue then \<lparr>pc_status = ''up'', pc_message = None, pc_latencyMs = Some latencyMs\<rparr>
          else \<lparr>pc_status = ''down'', pc_message = Some ''Redis value mismatch'', pc_latencyMs = Some latencyMs\<rparr>
      | CacheError m \<Rightarrow> \<lparr>pc_status = ''down'', pc_message = Some m, pc_latencyMs = Some latencyMs\<rparr>)"

text \<open>A cached check: \<open>get\<close> may throw (\<open>None\<close>). The function that is cached writes into the result and returns nothing.\<close>

definition withCache ::
  "('c \<Rightarrow> string \<Rightarrow> js_value option) \<Rightarrow> (string \<Rightarrow> js_value \<Rightarrow> 'c \<Rightarrow> 'c) \<Rightarrow> string \<Rightarrow> (probe_result \<Rightarrow> probe_result)
   \<Rightarrow> probe_result \<times> 'c \<Rightarrow> probe_result \<times> 'c" where
  "withCache get put cacheKey f st =
     (case st of (r, c) \<Rightarrow>
        (case get c (''health:'' @ cacheKey) of
           Some v \<Rightarrow> if v \<noteq> JsNull \<and> v \<noteq> JsUndefined then (r, c) else (f r, put (''health:'' @ cacheKey) JsUndefined c)
         | None \<Rightarrow> (f r, put (''health:'' @ cacheKey) JsUndefined c)))"

definition add_check :: "string \<Rightarrow> probe_check \<Rightarrow> probe_result \<Rightarrow> probe_result" where
  "add_check k x r = r\<lparr>pr_checks := upsert_entry k (\<lambda>_. x) (pr_checks r)\<rparr>"

definition database_check :: "bool \<Rightarrow> probe_result \<Rightarrow> probe_result" where
  "database_check reachable r =
     (if reachable then add_check ''database'' (check_of ''up'' None) r
      else (add_check ''database'' (check_of ''down'' (Some ''Database unreachable'')) r)\<lparr>pr_status := ''error''\<rparr>)"

definition redis_check :: "probe_check \<Rightarrow> probe_result \<Rightarrow> probe_result" where
  "redis_check x r =
     (let r1 = add_check ''redis'' x r in if pc_status x \<noteq> ''up'' then r1\<lparr>pr_status := ''error''\<rparr> else r1)"

definition memory_check :: "string \<Rightarrow> string \<Rightarrow> bool \<Rightarrow> probe_result \<Rightarrow> probe_result" where
  "memory_check k message fine r =
     add_check k (if fine then check_of ''up'' None else check_of ''degraded'' (Some message)) r"

definition new_probe :: "string \<Rightarrow> probe_result" where
  "new_probe stamp = \<lparr>pr_status = ''ok'', pr_timestamp = stamp, pr_checks = []\<rparr>"

definition checkReadiness ::
  "('c \<Rightarrow> string \<Rightarrow> js_value option) \<Rightarrow> (string \<Rightarrow> js_value \<Rightarrow> 'c \<Rightarrow> 'c) \<Rightarrow> string \<Rightarrow> bool \<Rightarrow> bool \<Rightarrow> probe_check \<Rightarrow> 'c
   \<Rightarrow> probe_result \<times> 'c" where
  "checkReadiness get put stamp isShuttingDown reachable redis c =
     (if isShuttingDown
      then (\<lparr>pr_status = ''error'', pr_timestamp = stamp, pr_checks = [(''process'', shutting_down)]\<rparr>, c)
      else withCache get put ''readiness-redis'' (redis_check redis)
             (withCache get put ''readiness-db'' (database_check reachable) (new_probe stamp, c)))"

definition checkStartup :: "string \<Rightarrow> string \<Rightarrow> nat \<Rightarrow> probe_result" where
  "checkStartup stamp startTime uptime =
     \<lparr>pr_status = ''ok'', pr_timestamp = stamp,
      pr_checks = [(''initialized'', check_of ''up'' (Some (''Started at '' @ startTime))),
                   (''uptime'', check_of ''up'' (Some (string_of_nat uptime @ ''s'')))]\<rparr>"

text \<open>The full check, and what it sets the two gauges to.\<close>

definition checkFull ::
  "('c \<Rightarrow> string \<Rightarrow> js_value option) \<Rightarrow> (string \<Rightarrow> js_value \<Rightarrow> 'c \<Rightarrow> 'c) \<Rightarrow> string \<Rightarrow> bool \<Rightarrow> probe_check \<Rightarrow> bool \<Rightarrow> bool \<Rightarrow> 'c
   \<Rightarrow> probe_result \<times> nat \<times> 'c" where
  "checkFull get put stamp reachable redis heap_fine rss_fine c =
     (let (r, c') =
        withCache get put ''full-memory-rss'' (memory_check ''memory_rss'' ''RSS usage high'' rss_fine)
          (withCache get put ''full-memory-heap'' (memory_check ''memory_heap'' ''Heap usage high'' heap_fine)
            (withCache get put ''full-redis'' (redis_check redis)
              (withCache get put ''full-db'' (database_check reachable) (new_probe stamp, c))))
      in (r, (if pr_status r = ''ok'' then 1 else 0), c'))"

text \<open>The routes return the result of a probe as any other result: with status 200.\<close>

definition probe_route :: "probe_result \<Rightarrow> nat \<times> probe_result" where
  "probe_route r = (200, r)"

definition getEnvironmentInfo :: "env \<Rightarrow> string \<Rightarrow> string \<times> string \<times> string" where
  "getEnvironmentInfo env environmentName =
     (environmentName, if environmentName = ''blue'' then ''green'' else ''blue'', env_or env ''AWS_REGION'' ''local'')"

subsection \<open>Indicators of the full route\<close>

text \<open>An answer with status 2xx and its field \<open>status\<close>, or an error; the client rejects other answers. True is up.\<close>

datatype node_answer = Answered nat "string option" | Failure string

definition elasticsearch_up :: "env \<Rightarrow> node_answer \<Rightarrow> bool" where
  "elasticsearch_up env answer =
     (let esNode = env_or env ''ELASTICSEARCH_NODE'' []
      in if esNode = [] \<or> esNode = ''http://localhost:9200'' then True
         else (case answer of Answered code status \<Rightarrow> status \<noteq> Some ''red'' | Failure m \<Rightarrow> False))"

definition soroban_up :: "node_answer \<Rightarrow> bool" where
  "soroban_up answer =
     (case answer of Answered code status \<Rightarrow> status = Some ''healthy'' \<or> code = 200 | Failure m \<Rightarrow> False)"

text \<open>Blocks, size of a block and free blocks; a division by zero is no number and not below the threshold.\<close>

definition disk_up :: "nat \<Rightarrow> nat \<Rightarrow> nat \<Rightarrow> bool" where
  "disk_up blocks bsize bavail =
     (let total = js_mul (of_nat blocks) (of_nat bsize); free = js_mul (of_nat bavail) (of_nat bsize);
          used = js_sub total free
      in total \<noteq> 0 \<and> js_mul (js_div used total) 100 < js_mul (fl (9 / 10)) 100)"

subsection \<open>Facts\<close>

lemma env_or_defaults:
  "map_of schema_defaults k = Some d \<or> map_of schema_defaults k = None \<Longrightarrow> env_or (with_defaults env) k d = env_or env k d"
  by (auto simp: env_or_def with_defaults_def split: option.split)

lemma switch_defaults:
  "map_of schema_defaults k = Some ''false'' \<Longrightarrow> switch_setting (with_defaults env) k = switch_setting env k"
  by (auto simp: switch_setting_def with_defaults_def split: option.split)

lemma raw_defaults:
  "map_of schema_defaults k = None \<Longrightarrow> raw_setting (with_defaults env) k = raw_setting env k"
  by (auto simp: raw_setting_def with_defaults_def split: option.split)

lemma schema_lookup:
  "map_of schema_defaults ''PORT'' = Some ''3000''"
  "map_of schema_defaults ''NODE_ENV'' = Some ''development''"
  "map_of schema_defaults ''DATABASE_HOST'' = None"
  "map_of schema_defaults ''DATABASE_PORT'' = Some ''5432''"
  "map_of schema_defaults ''DATABASE_USER'' = None"
  "map_of schema_defaults ''DATABASE_PASSWORD'' = None"
  "map_of schema_defaults ''DATABASE_NAME'' = None"
  "map_of schema_defaults ''DATABASE_POOL_SIZE'' = Some ''50''"
  "map_of schema_defaults ''JWT_SECRET'' = None"
  "map_of schema_defaults ''STELLAR_SECRET_KEY'' = None"
  "map_of schema_defaults ''SOROBAN_RPC_URL'' = Some ''https://soroban-testnet.stellar.org''"
  "map_of schema_defaults ''SOROBAN_CONTRACT_ID'' = Some []"
  "map_of schema_defaults ''ENROLLMENT_CONTRACT_ID'' = Some []"
  "map_of schema_defaults ''ANALYTICS_CONTRACT_ID'' = Some []"
  "map_of schema_defaults ''CREDENTIAL_METADATA_CONTRACT_ID'' = Some []"
  "map_of schema_defaults ''CERTIFICATE_CONTRACT_ID'' = Some []"
  "map_of schema_defaults ''TOKEN_CONTRACT_ID'' = Some []"
  "map_of schema_defaults ''INDEXER_POLL_INTERVAL_MS'' = Some ''5000''"
  "map_of schema_defaults ''STELLAR_WEB_AUTH_DOMAIN'' = Some ''localhost''"
  "map_of schema_defaults ''EMAIL_HOST'' = None"
  "map_of schema_defaults ''EMAIL_PORT'' = Some ''587''"
  "map_of schema_defaults ''EMAIL_SECURE'' = Some ''false''"
  "map_of schema_defaults ''EMAIL_USER'' = None"
  "map_of schema_defaults ''EMAIL_PASS'' = None"
  "map_of schema_defaults ''EMAIL_FROM'' = Some ''\"Scoopdope\" <no-reply@Scoopdope.app>''"
  "map_of schema_defaults ''EMAIL_ENABLED'' = Some ''false''"
  "map_of schema_defaults ''GOOGLE_CLIENT_ID'' = None"
  "map_of schema_defaults ''GOOGLE_CLIENT_SECRET'' = None"
  "map_of schema_defaults ''GOOGLE_CALLBACK_URL'' = Some ''http://localhost:3000/auth/google/callback''"
  "map_of schema_defaults ''FRONTEND_URL'' = Some ''http://localhost:3001''"
  "map_of schema_defaults ''CORS_ORIGINS'' = Some ''http://localhost:3001''"
  "map_of schema_defaults ''CORS_CREDENTIALS'' = Some ''false''"
  "map_of schema_defaults ''CORS_MAX_AGE'' = Some ''86400''"
  "map_of schema_defaults ''THROTTLE_TTL'' = Some ''60000''"
  "map_of schema_defaults ''THROTTLE_LIMIT'' = Some ''100''"
  "map_of schema_defaults ''KYC_PROVIDER_API_KEY'' = Some []"
  "map_of schema_defaults ''AWS_REGION'' = Some ''us-east-1''"
  "map_of schema_defaults ''AWS_ACCESS_KEY_ID'' = Some []"
  "map_of schema_defaults ''AWS_SECRET_ACCESS_KEY'' = Some []"
  "map_of schema_defaults ''MODERATION_TOXICITY_THRESHOLD'' = Some ''0.7''"
  "map_of schema_defaults ''ELASTICSEARCH_NODE'' = Some ''http://localhost:9200''"
  "map_of schema_defaults ''ELASTICSEARCH_API_KEY'' = Some []"
  "map_of schema_defaults ''STRIPE_SECRET_KEY'' = Some []"
  "map_of schema_defaults ''STRIPE_WEBHOOK_SECRET'' = Some []"
  "map_of schema_defaults ''STRIPE_PRO_PRICE_ID'' = Some []"
  "map_of schema_defaults ''STRIPE_ENTERPRISE_PRICE_ID'' = Some []"
  "map_of schema_defaults ''EXCHANGE_RATE_API_KEY'' = Some []"
  "map_of schema_defaults ''PAYOUT_BATCH_SIZE'' = Some ''500''"
  "map_of schema_defaults ''REDIS_URL'' = None"
  "map_of schema_defaults ''REDIS_HOST'' = None"
  "map_of schema_defaults ''REDIS_PORT'' = None"
  "map_of schema_defaults ''REDIS_PASSWORD'' = None"
  "map_of schema_defaults ''REDIS_DB'' = Some ''0''"
  by (simp_all add: schema_defaults_def)

lemma text_defaults: "map_of schema_defaults k = Some d \<or> map_of schema_defaults k = None \<Longrightarrow> text_setting (with_defaults env) k d = text_setting env k d"
  by (simp add: text_setting_def env_or_defaults)
lemma int_defaults: "map_of schema_defaults k = Some d \<or> map_of schema_defaults k = None \<Longrightarrow> int_setting (with_defaults env) k d = int_setting env k d"
  by (simp add: int_setting_def env_or_defaults)
lemma redis_defaults: "buildRedisUrl (with_defaults env) = buildRedisUrl env"
  by (simp add: buildRedisUrl_def env_or_defaults schema_lookup)
lemma list_defaults:
  "(case with_defaults env ''CORS_ORIGINS'' of None \<Rightarrow> [''http://localhost:3001''] | Some v \<Rightarrow> split_on CHR '','' v)
   = (case env ''CORS_ORIGINS'' of None \<Rightarrow> [''http://localhost:3001''] | Some v \<Rightarrow> split_on CHR '','' v)"
  "(case with_defaults env ''PAYOUT_BATCH_SIZE'' of None \<Rightarrow> ''500'' | Some v \<Rightarrow> v) = (case env ''PAYOUT_BATCH_SIZE'' of None \<Rightarrow> ''500'' | Some v \<Rightarrow> v)"
  by (simp_all add: with_defaults_def schema_lookup split: option.split)
lemma setting_defaults:
  "int_setting (with_defaults env) ''PORT'' ''3000'' = int_setting env ''PORT'' ''3000''"
  "text_setting (with_defaults env) ''NODE_ENV'' ''development'' = text_setting env ''NODE_ENV'' ''development''"
  "raw_setting (with_defaults env) ''DATABASE_HOST'' = raw_setting env ''DATABASE_HOST''"
  "int_setting (with_defaults env) ''DATABASE_PORT'' ''5432'' = int_setting env ''DATABASE_PORT'' ''5432''"
  "raw_setting (with_defaults env) ''DATABASE_USER'' = raw_setting env ''DATABASE_USER''"
  "raw_setting (with_defaults env) ''DATABASE_PASSWORD'' = raw_setting env ''DATABASE_PASSWORD''"
  "raw_setting (with_defaults env) ''DATABASE_NAME'' = raw_setting env ''DATABASE_NAME''"
  "int_setting (with_defaults env) ''DATABASE_POOL_SIZE'' ''50'' = int_setting env ''DATABASE_POOL_SIZE'' ''50''"
  "raw_setting (with_defaults env) ''JWT_SECRET'' = raw_setting env ''JWT_SECRET''"
  "text_setting (with_defaults env) ''STELLAR_SECRET_KEY'' [] = text_setting env ''STELLAR_SECRET_KEY'' []"
  "text_setting (with_defaults env) ''SOROBAN_RPC_URL'' ''https://soroban-testnet.stellar.org'' = text_setting env ''SOROBAN_RPC_URL'' ''https://soroban-testnet.stellar.org''"
  "text_setting (with_defaults env) ''SOROBAN_CONTRACT_ID'' [] = text_setting env ''SOROBAN_CONTRACT_ID'' []"
  "text_setting (with_defaults env) ''ENROLLMENT_CONTRACT_ID'' [] = text_setting env ''ENROLLMENT_CONTRACT_ID'' []"
  "text_setting (with_defaults env) ''ANALYTICS_CONTRACT_ID'' [] = text_setting env ''ANALYTICS_CONTRACT_ID'' []"
  "text_setting (with_defaults env) ''CREDENTIAL_METADATA_CONTRACT_ID'' [] = text_setting env ''CREDENTIAL_METADATA_CONTRACT_ID'' []"
  "text_setting (with_defaults env) ''CERTIFICATE_CONTRACT_ID'' [] = text_setting env ''CERTIFICATE_CONTRACT_ID'' []"
  "text_setting (with_defaults env) ''TOKEN_CONTRACT_ID'' [] = text_setting env ''TOKEN_CONTRACT_ID'' []"
  "int_setting (with_defaults env) ''INDEXER_POLL_INTERVAL_MS'' ''5000'' = int_setting env ''INDEXER_POLL_INTERVAL_MS'' ''5000''"
  "text_setting (with_defaults env) ''STELLAR_WEB_AUTH_DOMAIN'' ''localhost'' = text_setting env ''STELLAR_WEB_AUTH_DOMAIN'' ''localhost''"
  "raw_setting (with_defaults env) ''EMAIL_HOST'' = raw_setting env ''EMAIL_HOST''"
  "int_setting (with_defaults env) ''EMAIL_PORT'' ''587'' = int_setting env ''EMAIL_PORT'' ''587''"
  "switch_setting (with_defaults env) ''EMAIL_SECURE'' = switch_setting env ''EMAIL_SECURE''"
  "raw_setting (with_defaults env) ''EMAIL_USER'' = raw_setting env ''EMAIL_USER''"
  "raw_setting (with_defaults env) ''EMAIL_PASS'' = raw_setting env ''EMAIL_PASS''"
  "text_setting (with_defaults env) ''EMAIL_FROM'' ''\"Scoopdope\" <no-reply@Scoopdope.app>'' = text_setting env ''EMAIL_FROM'' ''\"Scoopdope\" <no-reply@Scoopdope.app>''"
  "switch_setting (with_defaults env) ''EMAIL_ENABLED'' = switch_setting env ''EMAIL_ENABLED''"
  "raw_setting (with_defaults env) ''GOOGLE_CLIENT_ID'' = raw_setting env ''GOOGLE_CLIENT_ID''"
  "raw_setting (with_defaults env) ''GOOGLE_CLIENT_SECRET'' = raw_setting env ''GOOGLE_CLIENT_SECRET''"
  "text_setting (with_defaults env) ''GOOGLE_CALLBACK_URL'' ''http://localhost:3000/auth/google/callback'' = text_setting env ''GOOGLE_CALLBACK_URL'' ''http://localhost:3000/auth/google/callback''"
  "text_setting (with_defaults env) ''FRONTEND_URL'' ''http://localhost:3001'' = text_setting env ''FRONTEND_URL'' ''http://localhost:3001''"
  "switch_setting (with_defaults env) ''CORS_CREDENTIALS'' = switch_setting env ''CORS_CREDENTIALS''"
  "int_setting (with_defaults env) ''CORS_MAX_AGE'' ''86400'' = int_setting env ''CORS_MAX_AGE'' ''86400''"
  "int_setting (with_defaults env) ''THROTTLE_TTL'' ''60000'' = int_setting env ''THROTTLE_TTL'' ''60000''"
  "int_setting (with_defaults env) ''THROTTLE_LIMIT'' ''100'' = int_setting env ''THROTTLE_LIMIT'' ''100''"
  "text_setting (with_defaults env) ''KYC_PROVIDER_API_KEY'' [] = text_setting env ''KYC_PROVIDER_API_KEY'' []"
  "text_setting (with_defaults env) ''AWS_REGION'' ''us-east-1'' = text_setting env ''AWS_REGION'' ''us-east-1''"
  "text_setting (with_defaults env) ''AWS_ACCESS_KEY_ID'' [] = text_setting env ''AWS_ACCESS_KEY_ID'' []"
  "text_setting (with_defaults env) ''AWS_SECRET_ACCESS_KEY'' [] = text_setting env ''AWS_SECRET_ACCESS_KEY'' []"
  "text_setting (with_defaults env) ''ELASTICSEARCH_NODE'' ''http://localhost:9200'' = text_setting env ''ELASTICSEARCH_NODE'' ''http://localhost:9200''"
  "text_setting (with_defaults env) ''ELASTICSEARCH_API_KEY'' [] = text_setting env ''ELASTICSEARCH_API_KEY'' []"
  "text_setting (with_defaults env) ''STRIPE_SECRET_KEY'' [] = text_setting env ''STRIPE_SECRET_KEY'' []"
  "text_setting (with_defaults env) ''STRIPE_WEBHOOK_SECRET'' [] = text_setting env ''STRIPE_WEBHOOK_SECRET'' []"
  "text_setting (with_defaults env) ''STRIPE_PRO_PRICE_ID'' [] = text_setting env ''STRIPE_PRO_PRICE_ID'' []"
  "text_setting (with_defaults env) ''STRIPE_ENTERPRISE_PRICE_ID'' [] = text_setting env ''STRIPE_ENTERPRISE_PRICE_ID'' []"
  "text_setting (with_defaults env) ''EXCHANGE_RATE_API_KEY'' [] = text_setting env ''EXCHANGE_RATE_API_KEY'' []"
  by (simp_all add: text_defaults int_defaults raw_defaults switch_defaults schema_lookup)

lemma threshold_defaults: "env_or (with_defaults env) ''MODERATION_TOXICITY_THRESHOLD'' ''0.7'' = env_or env ''MODERATION_TOXICITY_THRESHOLD'' ''0.7''"
  by (simp add: env_or_defaults schema_lookup)

subsection \<open>Properties\<close>

text \<open>The defaults written in the configuration and the ones of its validation schema are the same: an environment
  completed by the schema reads as the environment itself, in every setting but the network of the ledger, whose
  default only the schema has.\<close>

theorem defaults_agree:
  "filter (\<lambda>kv. fst kv \<noteq> ''stellar.network'') (configuration (with_defaults env)) =
   filter (\<lambda>kv. fst kv \<noteq> ''stellar.network'') (configuration env)"
  unfolding configuration_def list_defaults redis_defaults setting_defaults threshold_defaults
  by simp

text \<open>Without a database URL the migrations, which parse their settings themselves, and the server, which reads the
  configuration, work on the same database. The URL only moves the migrations.\<close>

theorem databases_agree:
  assumes "given (env ''DATABASE_HOST'')" "given (env ''DATABASE_USER'')" "given (env ''DATABASE_PASSWORD'')" "given (env ''DATABASE_NAME'')"
  shows "(\<not> given (env ''DATABASE_URL'') \<longrightarrow>
       (\<exists>c. database_parse parse_url env = Inr c \<and> settings_of c = server_database env))
     \<and> server_database (env(''DATABASE_URL'' := x)) = server_database env
     \<and> (parse_url url = Inr u \<and> url \<noteq> [] \<and> up_hostname u \<noteq> [] \<and> Some (up_hostname u) \<noteq> env ''DATABASE_HOST'' \<longrightarrow>
       (\<exists>c. database_parse parse_url (env(''DATABASE_URL'' := Some url)) = Inr c
          \<and> settings_of c \<noteq> server_database (env(''DATABASE_URL'' := Some url))))"
proof -
  have db: "server_database e = [raw_setting e ''DATABASE_HOST'', int_setting e ''DATABASE_PORT'' ''5432'', raw_setting e ''DATABASE_USER'',
      raw_setting e ''DATABASE_PASSWORD'', raw_setting e ''DATABASE_NAME'']" for e
    by (simp add: server_database_def configuration_def)
  obtain h u' p n where g: "env ''DATABASE_HOST'' = Some h" "env ''DATABASE_USER'' = Some u'" "env ''DATABASE_PASSWORD'' = Some p"
    "env ''DATABASE_NAME'' = Some n" "h \<noteq> []" "u' \<noteq> []" "p \<noteq> []" "n \<noteq> []"
    using assms by (auto simp: given_def split: option.splits)
  note reads = db settings_of_def raw_setting_def int_setting_def env_or_def
  have "\<exists>c. database_parse parse_url env = Inr c \<and> settings_of c = server_database env" if "\<not> given (env ''DATABASE_URL'')"
    using that g by (cases "env ''DATABASE_URL''") (simp_all add: database_parse_def parseIndividualEnvVars_def reads given_def)
  moreover have "server_database (env(''DATABASE_URL'' := x)) = server_database env" by (simp add: reads)
  ultimately show ?thesis
    using g by (auto simp: database_parse_def parseDatabaseUrl_def or_text_def reads)
qed

text \<open>The schema of the database is never changed at the start in production or staging, and the check of that in the
  start-up never fires.\<close>

theorem production_never_synchronises:
  "synchronize_of nodeEnv = Inr (nodeEnv \<notin> {''production'', ''staging''})"
  by (cases "nodeEnv \<in> {''production'', ''staging''}") (auto simp: synchronize_of_def refuses_synchronize_def Let_def)

text \<open>A cache in which no health key holds a value; storing the nothing a check returns leaves it so.\<close>

definition silent :: "('c \<Rightarrow> string \<Rightarrow> js_value option) \<Rightarrow> 'c \<Rightarrow> bool" where
  "silent get c \<longleftrightarrow> (\<forall>k. get c (''health:'' @ k) \<in> {None, Some JsNull, Some JsUndefined})"

definition stores_nothing :: "('c \<Rightarrow> string \<Rightarrow> js_value option) \<Rightarrow> (string \<Rightarrow> js_value \<Rightarrow> 'c \<Rightarrow> 'c) \<Rightarrow> bool" where
  "stores_nothing get put \<longleftrightarrow> (\<forall>k c. silent get c \<longrightarrow> silent get (put k JsUndefined c))"

text \<open>Readiness probes in a row: what each finds of the process, the database and the cache.\<close>

fun probe_run ::
  "('c \<Rightarrow> string \<Rightarrow> js_value option) \<Rightarrow> (string \<Rightarrow> js_value \<Rightarrow> 'c \<Rightarrow> 'c) \<Rightarrow> (string \<times> bool \<times> bool \<times> probe_check) list \<Rightarrow> 'c
   \<Rightarrow> probe_result list" where
  "probe_run get put [] c = []"
| "probe_run get put ((stamp, stopping, reachable, redis) # ps) c =
     (let (r, c') = checkReadiness get put stamp stopping reachable redis c in r # probe_run get put ps c')"

lemma withCache_silent:
  assumes "silent get c"
  shows "withCache get put k f (r, c) = (f r, put (''health:'' @ k) JsUndefined c)"
proof -
  have "get c (''health:'' @ k) \<in> {None, Some JsNull, Some JsUndefined}" using assms unfolding silent_def by blast
  then show ?thesis by (auto simp: withCache_def)
qed

lemma check_simps [simp]:
  "pr_status (add_check k x r) = pr_status r"
  "pr_status (database_check b r) = (if b then pr_status r else ''error'')"
  "pr_status (redis_check x r) = (if pc_status x = ''up'' then pr_status r else ''error'')"
  "pr_status (memory_check k m b r) = pr_status r"
  "pr_status (new_probe stamp) = ''ok''"
  by (simp_all add: add_check_def database_check_def redis_check_def memory_check_def new_probe_def Let_def)

text \<open>Every readiness probe runs its checks, because what the checks return is never kept: it says ok exactly when the
  process is not stopping and database and cache answered this time. The route answers 200 in every case.\<close>

theorem probes_never_stale:
  assumes "silent get c" "stores_nothing get put"
  shows "map pr_status (probe_run get put ps c)
     = map (\<lambda>(stamp, stopping, reachable, redis).
         if \<not> stopping \<and> reachable \<and> pc_status redis = ''up'' then ''ok'' else ''error'') ps
     \<and> map (fst \<circ> probe_route) (probe_run get put ps c) = replicate (length ps) 200"
  using assms(1)
proof (induction ps arbitrary: c)
  case (Cons p ps)
  obtain stamp stopping reachable redis where p: "p = (stamp, stopping, reachable, redis)" by (cases p)
  show ?case
  proof (cases stopping)
    case True
    with Cons p show ?thesis by (simp add: checkReadiness_def probe_route_def)
  next
    case False
    let ?c = "put (''health:'' @ ''readiness-redis'') JsUndefined (put (''health:'' @ ''readiness-db'') JsUndefined c)"
    have c1: "silent get (put (''health:'' @ ''readiness-db'') JsUndefined c)" and c2: "silent get ?c"
      using Cons.prems assms(2) unfolding stores_nothing_def by blast+
    have r: "checkReadiness get put stamp stopping reachable redis c
        = (redis_check redis (database_check reachable (new_probe stamp)), ?c)"
      using False by (simp only: checkReadiness_def if_False withCache_silent[OF Cons.prems] withCache_silent[OF c1])
    show ?thesis unfolding p probe_run.simps r Let_def prod.case using Cons.IH[OF c2] False by (simp add: probe_route_def)
  qed
qed simp

theorem probes_never_stale_witness:
  "map pr_status (probe_run (\<lambda>c k. map_of c k) (\<lambda>k v c. (k, v) # c)
     [(''a'', False, True, check_of ''up'' None), (''b'', False, False, check_of ''up'' None), (''c'', True, True, check_of ''up'' None)] [])
   = [''ok'', ''error'', ''error'']"
proof -
  have "silent (\<lambda>c k. map_of c k) ([] :: (string \<times> js_value) list)" by (simp add: silent_def)
  moreover have "stores_nothing (\<lambda>c k. map_of c k) (\<lambda>k v (c :: (string \<times> js_value) list). (k, v) # c)"
    by (simp add: stores_nothing_def silent_def)
  ultimately show ?thesis
    using probes_never_stale[of "\<lambda>c k. map_of c k" "[]" "\<lambda>k v c. (k, v) # c"
      "[(''a'', False, True, check_of ''up'' None), (''b'', False, False, check_of ''up'' None), (''c'', True, True, check_of ''up'' None)]"]
    by (simp add: check_of_def)
qed

definition sample_env :: env where
  "sample_env k = map_of [(''DATABASE_HOST'', ''h''), (''DATABASE_USER'', ''u''), (''DATABASE_PASSWORD'', ''p''), (''DATABASE_NAME'', ''n'')] k"

theorem databases_agree_witness:
  "\<exists>c. database_parse (\<lambda>_. Inl []) sample_env = Inr c \<and> settings_of c = server_database sample_env"
  using databases_agree[of sample_env] by (simp add: sample_env_def given_def)

end
