(* ===== verification/Usage.thy ===== *)
theory Usage
  imports Recommendations Gateway
begin

text \<open>
  What is recorded of the traffic: the usage log with its dashboard (\<open>api-usage\<close>), the request counter
  (\<open>metrics/metrics.interceptor.ts\<close>) and the statistics of searches (\<open>search/search.service.ts\<close>, whose index is a
  service: its hits are an argument). An interceptor sees a request after the guards and before the filters, so the
  status it reads is the one the route has for success.
\<close>

subsection \<open>Requests that reach a handler\<close>

record handled =
  hr_route :: "string option"
  hr_url :: string
  hr_method :: string
  hr_userId :: "uuid option"
  hr_ip :: "string option"
  hr_agent :: "string option"
  hr_successStatus :: nat
  hr_start :: timestamp
  hr_end :: timestamp
  hr_outcome :: "thrown + js_value"

text \<open>The status the client gets: the filter sets the one of the exception.\<close>

definition answered_status :: "handled \<Rightarrow> nat" where
  "answered_status r =
     (case hr_outcome r of Inl e \<Rightarrow> fst (error_answer [] (hr_url r) e) | Inr _ \<Rightarrow> hr_successStatus r)"

definition route_name :: "handled \<Rightarrow> string" where
  "route_name r = (case hr_route r of Some p \<Rightarrow> if p = [] then hr_url r else p | None \<Rightarrow> hr_url r)"

subsection \<open>The usage log\<close>

record usage_log =
  us_endpoint :: string
  us_method :: string
  us_userId :: "uuid option"
  us_ip :: "string option"
  us_statusCode :: nat
  us_responseTimeMs :: int
  us_userAgent :: "string option"
  us_createdAt :: timestamp

definition record_usage :: "handled \<Rightarrow> usage_log list \<Rightarrow> usage_log list" where
  "record_usage r logs =
     logs @ [\<lparr>us_endpoint = (case hr_route r of Some p \<Rightarrow> p | None \<Rightarrow> hr_url r), us_method = hr_method r,
              us_userId = hr_userId r, us_ip = hr_ip r, us_statusCode = hr_successStatus r,
              us_responseTimeMs = hr_end r - hr_start r, us_userAgent = hr_agent r, us_createdAt = hr_end r\<rparr>]"

definition ApiUsageInterceptor :: "handled \<Rightarrow> usage_log list \<Rightarrow> usage_log list" where
  "ApiUsageInterceptor r logs =
     (case hr_outcome r of Inr _ \<Rightarrow> record_usage r logs | Inl _ \<Rightarrow> record_usage r logs)"

definition usage_between :: "timestamp \<Rightarrow> timestamp \<Rightarrow> usage_log list \<Rightarrow> usage_log list" where
  "usage_between from until logs = filter (\<lambda>l. from \<le> us_createdAt l \<and> us_createdAt l \<le> until) logs"

definition error_count :: "usage_log list \<Rightarrow> nat" where
  "error_count logs = count_rows (\<lambda>l. 400 \<le> us_statusCode l) logs"

record usage_row =
  ur_endpoint :: string
  ur_method :: string
  ur_requestCount :: nat
  ur_avgResponseTimeMs :: js_num
  ur_errorCount :: nat

definition usage_key :: "usage_log \<Rightarrow> string \<times> string" where
  "usage_key l = (us_endpoint l, us_method l)"

definition getAggregatedByEndpoint ::
  "(int list \<Rightarrow> js_num) \<Rightarrow> timestamp \<Rightarrow> timestamp \<Rightarrow> usage_log list \<Rightarrow> usage_row list" where
  "getAggregatedByEndpoint sql_avg from until logs =
     (let ls = usage_between from until logs
      in map (\<lambda>(k, n). let mine = filter (\<lambda>l. usage_key l = k) ls
                       in \<lparr>ur_endpoint = fst k, ur_method = snd k, ur_requestCount = n,
                           ur_avgResponseTimeMs = sql_avg (map us_responseTimeMs mine), ur_errorCount = error_count mine\<rparr>)
           (by_count (group_counts (map usage_key ls))))"

definition getAggregatedByUser ::
  "(int list \<Rightarrow> js_num) \<Rightarrow> timestamp \<Rightarrow> timestamp \<Rightarrow> usage_log list \<Rightarrow> (uuid \<times> nat \<times> js_num) list" where
  "getAggregatedByUser sql_avg from until logs =
     (let ls = filter (\<lambda>l. us_userId l \<noteq> None) (usage_between from until logs)
      in map (\<lambda>(u, n). (the u, n, sql_avg (map us_responseTimeMs (filter (\<lambda>l. us_userId l = u) ls))))
           (by_count (group_counts (map us_userId ls))))"

text \<open>\<open>DATE_TRUNC\<close> to the hour or the day in UTC.\<close>

definition period_ms :: "bool \<Rightarrow> int" where
  "period_ms hourly = (if hourly then 3600000 else 86400000)"

definition getAggregatedByTime :: "timestamp \<Rightarrow> timestamp \<Rightarrow> bool \<Rightarrow> usage_log list \<Rightarrow> timestamp counts" where
  "getAggregatedByTime from until hourly logs =
     order_by fst (group_counts (map (\<lambda>l. us_createdAt l div period_ms hourly * period_ms hourly) (usage_between from until logs)))"

record dashboard =
  db_totalRequests :: nat
  db_avgResponseTimeMs :: js_num
  db_totalErrors :: nat
  db_byEndpoint :: "usage_row list"
  db_byUser :: "(uuid \<times> nat \<times> js_num) list"
  db_byTime :: "timestamp counts"

definition getDashboard :: "(int list \<Rightarrow> js_num) \<Rightarrow> timestamp \<Rightarrow> timestamp \<Rightarrow> usage_log list \<Rightarrow> dashboard" where
  "getDashboard sql_avg from until logs =
     (let ls = usage_between from until logs
      in \<lparr>db_totalRequests = length ls, db_avgResponseTimeMs = sql_avg (map us_responseTimeMs ls), db_totalErrors = error_count ls,
          db_byEndpoint = take 20 (getAggregatedByEndpoint sql_avg from until logs),
          db_byUser = take 20 (getAggregatedByUser sql_avg from until logs),
          db_byTime = getAggregatedByTime from until False logs\<rparr>)"

definition checkUsageAlerts :: "nat \<Rightarrow> timestamp \<Rightarrow> usage_log list \<Rightarrow> bool \<times> nat" where
  "checkUsageAlerts threshold now logs =
     (let n = count_rows (\<lambda>l. now - 60000 < us_createdAt l) logs in (threshold < n, n))"

definition getUserRequestCount :: "uuid \<Rightarrow> int \<Rightarrow> timestamp \<Rightarrow> usage_log list \<Rightarrow> nat" where
  "getUserRequestCount u windowMs now logs =
     count_rows (\<lambda>l. us_userId l = Some u \<and> now - windowMs < us_createdAt l) logs"

subsection \<open>The request counter\<close>

text \<open>The counter by method, route and status; it is told of results only.\<close>

definition MetricsInterceptor :: "handled \<Rightarrow> (string \<times> string \<times> nat) counts \<Rightarrow> (string \<times> string \<times> nat) counts" where
  "MetricsInterceptor r c =
     (case hr_outcome r of Inr _ \<Rightarrow> count_up (hr_method r, route_name r, hr_successStatus r) c | Inl _ \<Rightarrow> c)"

text \<open>Requests one after the other through both interceptors.\<close>

fun traffic ::
  "handled list \<Rightarrow> usage_log list \<times> (string \<times> string \<times> nat) counts \<Rightarrow> usage_log list \<times> (string \<times> string \<times> nat) counts" where
  "traffic [] st = st"
| "traffic (r # rs) (logs, c) = traffic rs (ApiUsageInterceptor r logs, MetricsInterceptor r c)"

subsection \<open>Search statistics\<close>

record search_analytic =
  sa_query :: string
  sa_userId :: "uuid option"
  sa_resultsCount :: nat
  sa_clickedResultId :: "string option"
  sa_clickedResultType :: "string option"

definition trackAnalytic :: "bool \<Rightarrow> string \<Rightarrow> nat \<Rightarrow> uuid option \<Rightarrow> search_analytic list \<Rightarrow> search_analytic list" where
  "trackAnalytic saved query resultsCount userId rows =
     (if saved then rows @ [\<lparr>sa_query = query, sa_userId = userId, sa_resultsCount = resultsCount,
                             sa_clickedResultId = None, sa_clickedResultType = None\<rparr>]
      else rows)"

text \<open>The index answers with an error or the hits and their total; a failed record is ignored.\<close>

definition search ::
  "(string \<Rightarrow> string list \<Rightarrow> string + nat \<times> 'h list) \<Rightarrow> bool \<Rightarrow> string \<Rightarrow> string list \<Rightarrow> uuid option \<Rightarrow> search_analytic list
   \<Rightarrow> (search_analytic list, nat \<times> 'h list) outcome" where
  "search es saved query indices userId rows =
     (case es query indices of
        Inl m \<Rightarrow> (Inl (JsError m), rows)
      | Inr (tot, hits) \<Rightarrow> (Inr (tot, hits), trackAnalytic saved query (length hits) userId rows))"

definition trackClick ::
  "string \<Rightarrow> string \<Rightarrow> string \<Rightarrow> uuid option \<Rightarrow> search_analytic list \<Rightarrow> search_analytic list" where
  "trackClick query resultId resultType userId rows =
     rows @ [\<lparr>sa_query = query, sa_userId = userId, sa_resultsCount = 0, sa_clickedResultId = Some resultId,
              sa_clickedResultType = Some resultType\<rparr>]"

definition getTopQueries :: "nat \<Rightarrow> search_analytic list \<Rightarrow> string counts" where
  "getTopQueries limit rows = take limit (by_count (group_counts (map sa_query rows)))"

subsection \<open>Facts\<close>

lemma sum_count_up: "sum_list (map snd (count_up k m)) = Suc (sum_list (map snd m))"
  by (induction m) (auto simp: count_up_def)

lemma sum_group_counts: "sum_list (map snd (group_counts ks)) = length ks"
proof -
  have "sum_list (map snd (fold count_up ks m)) = sum_list (map snd m) + length ks" for m
    by (induction ks arbitrary: m) (simp_all add: sum_count_up)
  then show ?thesis by (simp add: group_counts_def)
qed

lemma map_of_count_up: "map_of (count_up k m) = (map_of m)(k \<mapsto> case map_of m k of None \<Rightarrow> 1 | Some n \<Rightarrow> n + 1)"
  by (simp add: count_up_def map_of_upsert_entry)

lemma map_of_group_counts:
  "map_of (group_counts ks) k = (if k \<in> set ks then Some (count_list ks k) else None)"
proof -
  have "map_of (fold count_up ks m) k =
      (if k \<in> set ks then Some (count_list ks k + (case map_of m k of None \<Rightarrow> 0 | Some n \<Rightarrow> n)) else map_of m k)" for m
    by (induction ks arbitrary: m) (auto simp: map_of_count_up split: option.split)
  then show ?thesis by (simp add: group_counts_def)
qed

lemma group_counts_keys: "distinct (map fst (group_counts ks))" "fst ` set (group_counts ks) = set ks"
proof -
  have "distinct (map fst (fold count_up ks m))" if "distinct (map fst m)" for m
    using that by (induction ks arbitrary: m) (simp_all add: count_up_def distinct_upsert_entry)
  then show "distinct (map fst (group_counts ks))" by (simp add: group_counts_def)
  have "fst ` set (fold count_up ks m) = set ks \<union> fst ` set m" for m
    by (induction ks arbitrary: m) (auto simp: count_up_def fst_upsert_entry)
  then show "fst ` set (group_counts ks) = set ks" by (simp add: group_counts_def)
qed

text \<open>A sum over the rows of a sorted table is the sum over the table.\<close>

lemma sum_order_by:
  fixes g :: "'a \<Rightarrow> nat"
  shows "sum_list (map g (order_by f xs)) = sum_list (map g xs)" "sum_list (map g (order_by_desc f xs)) = sum_list (map g xs)"
  by (simp_all add: order_by_def order_by_desc_def flip: sum_mset_sum_list)

text \<open>Rows are counted once in the group of their key.\<close>

lemma sum_by_key:
  assumes "distinct ks" "\<forall>x \<in> set xs. P x \<longrightarrow> key x \<in> set ks"
  shows "sum_list (map (\<lambda>k. count_rows P (filter (\<lambda>x. key x = k) xs)) ks) = count_rows P xs"
  using assms(2)
proof (induction xs)
  case Nil
  show ?case by (simp add: count_rows_def)
next
  case (Cons x xs)
  have one: "sum_list (map (\<lambda>k. if key x = k then 1 else 0 :: nat) ks) = 1" if "key x \<in> set ks"
    using that assms(1) by (induction ks) auto
  have "count_rows P (filter (\<lambda>y. key y = k) (x # xs))
      = count_rows P (filter (\<lambda>y. key y = k) xs) + (if P x then (if key x = k then 1 else 0) else 0)" for k
    by (simp add: count_rows_def)
  with Cons one show ?case by (simp add: sum_list_addf count_rows_def)
qed

lemma traffic_log:
  "fst (traffic rs st) = fst st @ map (\<lambda>r. \<lparr>us_endpoint = (case hr_route r of Some p \<Rightarrow> p | None \<Rightarrow> hr_url r), us_method = hr_method r,
     us_userId = hr_userId r, us_ip = hr_ip r, us_statusCode = hr_successStatus r, us_responseTimeMs = hr_end r - hr_start r,
     us_userAgent = hr_agent r, us_createdAt = hr_end r\<rparr>) rs"
  by (induction rs st rule: traffic.induct) (simp_all add: ApiUsageInterceptor_def record_usage_def split: sum.split)

lemma traffic_counter:
  "sum_list (map snd (snd (traffic rs st))) = sum_list (map snd (snd st)) + count_rows (\<lambda>r. \<not> isl (hr_outcome r)) rs"
  by (induction rs st rule: traffic.induct) (simp_all add: MetricsInterceptor_def sum_count_up count_rows_def split: sum.split)

lemma by_count_keys: "distinct (map fst (by_count gs)) = distinct (map fst gs)" "set (by_count gs) = set gs"
proof -
  have "mset (by_count gs) = mset gs" by (simp add: by_count_def order_by_desc_def)
  then have "mset (map fst (by_count gs)) = mset (map fst gs)" by (metis mset_map)
  then show "distinct (map fst (by_count gs)) = distinct (map fst gs)" by (rule mset_eq_imp_distinct_iff)
qed (simp add: by_count_def)

lemma sum_by_count: "sum_list (map g (by_count gs)) = (sum_list (map g gs) :: nat)"
  unfolding by_count_def by (rule sum_order_by)

subsection \<open>Properties\<close>

text \<open>The dashboard adds up: the requests of the endpoints, and of the days, are all the requests of the window, the
  errors of the endpoints all its errors, and the requests of the users those that had one.\<close>

theorem usage_adds_up:
  "sum_list (map ur_requestCount (getAggregatedByEndpoint sql_avg from until logs)) = db_totalRequests (getDashboard sql_avg from until logs)
   \<and> sum_list (map ur_errorCount (getAggregatedByEndpoint sql_avg from until logs)) = db_totalErrors (getDashboard sql_avg from until logs)
   \<and> sum_list (map snd (db_byTime (getDashboard sql_avg from until logs))) = db_totalRequests (getDashboard sql_avg from until logs)
   \<and> sum_list (map (fst \<circ> snd) (getAggregatedByUser sql_avg from until logs))
     = count_rows (\<lambda>l. us_userId l \<noteq> None) (usage_between from until logs)"
proof (intro conjI)
  let ?ls = "usage_between from until logs"
  let ?gs = "group_counts (map usage_key ?ls)"
  have "map ur_requestCount (getAggregatedByEndpoint sql_avg from until logs) = map snd (by_count ?gs)"
    by (simp add: getAggregatedByEndpoint_def Let_def split_beta)
  then show "sum_list (map ur_requestCount (getAggregatedByEndpoint sql_avg from until logs))
      = db_totalRequests (getDashboard sql_avg from until logs)"
    by (simp add: sum_by_count sum_group_counts getDashboard_def Let_def)
  have "map ur_errorCount (getAggregatedByEndpoint sql_avg from until logs)
      = map (\<lambda>k. count_rows (\<lambda>l. 400 \<le> us_statusCode l) (filter (\<lambda>l. usage_key l = k) ?ls)) (map fst (by_count ?gs))"
    by (simp add: getAggregatedByEndpoint_def error_count_def Let_def split_beta)
  moreover have "distinct (map fst (by_count ?gs))" "set (map fst (by_count ?gs)) = usage_key ` set ?ls"
    using group_counts_keys[of "map usage_key ?ls"] by (simp_all add: by_count_keys)
  ultimately have "sum_list (map ur_errorCount (getAggregatedByEndpoint sql_avg from until logs)) = error_count ?ls"
    using sum_by_key[of "map fst (by_count ?gs)" ?ls "\<lambda>l. 400 \<le> us_statusCode l" usage_key] by (simp add: error_count_def)
  then show "sum_list (map ur_errorCount (getAggregatedByEndpoint sql_avg from until logs))
      = db_totalErrors (getDashboard sql_avg from until logs)"
    by (simp add: getDashboard_def Let_def)
  show "sum_list (map snd (db_byTime (getDashboard sql_avg from until logs))) = db_totalRequests (getDashboard sql_avg from until logs)"
    by (simp add: getDashboard_def getAggregatedByTime_def Let_def sum_order_by sum_group_counts)
  show "sum_list (map (fst \<circ> snd) (getAggregatedByUser sql_avg from until logs))
      = count_rows (\<lambda>l. us_userId l \<noteq> None) ?ls"
    by (simp add: getAggregatedByUser_def Let_def comp_def split_beta sum_by_count sum_group_counts count_rows_def)
qed


text \<open>The count of a top query is the number of its searches together with the number of clicks on its results, and no
  query left out has more.\<close>

theorem top_queries_count:
  assumes "(q, n) \<in> set (getTopQueries limit rows)"
  shows "n = count_rows (\<lambda>r. sa_query r = q \<and> sa_clickedResultId r = None) rows
           + count_rows (\<lambda>r. sa_query r = q \<and> sa_clickedResultId r \<noteq> None) rows
     \<and> (\<forall>q' \<in> sa_query ` set rows - fst ` set (getTopQueries limit rows). count_rows (\<lambda>r. sa_query r = q') rows \<le> n)"
proof -
  let ?gs = "group_counts (map sa_query rows)"
  have cnt: "count_list (map sa_query rows) k = count_rows (\<lambda>r. sa_query r = k) rows" for k
    by (induction rows) (simp_all add: count_rows_def)
  have group: "m = count_rows (\<lambda>r. sa_query r = k) rows" if "(k, m) \<in> set ?gs" for k m
  proof -
    from that have "map_of ?gs k = Some m" by (intro map_of_is_SomeI group_counts_keys(1))
    then show ?thesis by (simp add: map_of_group_counts cnt split: if_splits)
  qed
  have mem: "(q, n) \<in> set ?gs"
    using assms in_set_takeD[of "(q, n)" limit "by_count ?gs"] by (simp add: getTopQueries_def by_count_keys)
  have split: "count_rows (\<lambda>r. sa_query r = q) rows = count_rows (\<lambda>r. sa_query r = q \<and> sa_clickedResultId r = None) rows
           + count_rows (\<lambda>r. sa_query r = q \<and> sa_clickedResultId r \<noteq> None) rows"
    by (induction rows) (auto simp: count_rows_def)
  have "count_rows (\<lambda>r. sa_query r = q') rows \<le> n"
    if q': "q' \<in> sa_query ` set rows" "q' \<notin> fst ` set (getTopQueries limit rows)" for q'
  proof -
    obtain m where m: "(q', m) \<in> set (by_count ?gs)"
      using q'(1) group_counts_keys(2)[of "map sa_query rows"] by (force simp: by_count_keys)
    with q'(2) have "(q', m) \<in> set (drop limit (by_count ?gs))"
      by (metis UnE append_take_drop_id fst_conv getTopQueries_def image_eqI set_append)
    moreover have "sorted_wrt (\<lambda>a b. snd b \<le> snd a) (by_count ?gs)"
      using sorted_order_by_desc[of "\<lambda>g. int (snd g)" ?gs] by (simp add: by_count_def sorted_map)
    then have "sorted_wrt (\<lambda>a b. snd b \<le> snd a) (take limit (by_count ?gs) @ drop limit (by_count ?gs))" by simp
    ultimately have "m \<le> n" using assms unfolding sorted_wrt_append getTopQueries_def by fastforce
    moreover have "m = count_rows (\<lambda>r. sa_query r = q') rows" using m group by (simp add: by_count_keys)
    ultimately show ?thesis by simp
  qed
  then show ?thesis using group[OF mem] split by blast
qed

subsection \<open>Witnesses\<close>

definition failed_request :: handled where
  "failed_request = \<lparr>hr_route = Some ''/c'', hr_url = ''/c'', hr_method = ''GET'', hr_userId = Some 1, hr_ip = None, hr_agent = None,
     hr_successStatus = 200, hr_start = 0, hr_end = 5, hr_outcome = Inl (Unexpected ''boom'')\<rparr>"


theorem top_queries_count_witness:
  "\<exists>n. (''x'', n) \<in> set (getTopQueries 1 (trackClick ''x'' ''c'' ''courses'' None (trackAnalytic True ''x'' 4 None []))) \<and> n = 2"
proof -
  let ?rows = "trackClick ''x'' ''c'' ''courses'' None (trackAnalytic True ''x'' 4 None [])"
  have mem: "(''x'', 2) \<in> set (getTopQueries 1 ?rows)"
    by (simp add: getTopQueries_def trackClick_def trackAnalytic_def group_counts_def count_up_def by_count_def order_by_desc_def)
  then have "2 = count_rows (\<lambda>r. sa_query r = ''x'' \<and> sa_clickedResultId r = None) ?rows
           + count_rows (\<lambda>r. sa_query r = ''x'' \<and> sa_clickedResultId r \<noteq> None) ?rows"
    using top_queries_count by blast
  then show ?thesis using mem by blast
qed

end
