(* ===== verification/Cdn.thy ===== *)
theory Cdn
  imports Caching Accounts
begin

text \<open>
  Lesson assets and their signed addresses (\<open>cdn/cdn.service.ts\<close>). \<open>sign\<close> is the signature of the private key in base 64,
  or nothing when signing throws; the cache operations are arguments.
\<close>

datatype asset_type = AssetVideo | AssetImage | AssetPdf

datatype cdn_content_type = ContentVideo | ContentDocument | ContentImage | ContentAudio

record cdn_asset =
  ca_id :: uuid
  ca_lessonId :: "string option"
  ca_fileName :: string
  ca_originalName :: string
  ca_cdnUrl :: string
  ca_contentType :: cdn_content_type
  ca_assetType :: "asset_type option"
  ca_fileSize :: int
  ca_mimeType :: string
  ca_isTranscoded :: bool
  ca_isPrivate :: bool
  ca_availableBitrates :: "string list option"
  ca_thumbnailUrl :: "string option"
  ca_uploadedByUserId :: "uuid option"

record 'c cdn_db =
  cd_assets :: "cdn_asset list"
  cd_cache :: 'c
  cd_fresh :: nat

record cdn_config =
  cf_cdnDomain :: string
  cf_cdnAccessKey :: string
  cf_sign :: "string \<Rightarrow> string option"

definition ASSET_TYPE_MAP :: "(string \<times> asset_type) list" where
  "ASSET_TYPE_MAP =
     [(''video/mp4'', AssetVideo), (''video/webm'', AssetVideo), (''image/jpeg'', AssetImage), (''image/png'', AssetImage),
      (''image/gif'', AssetImage), (''application/pdf'', AssetPdf)]"

record asset_data =
  ad_lessonId :: "string option"
  ad_fileName :: string
  ad_originalName :: string
  ad_mimeType :: string
  ad_contentType :: cdn_content_type
  ad_fileSize :: int
  ad_uploadedByUserId :: "uuid option"
  ad_isPrivate :: "bool option"

definition uploadAsset :: "cdn_config \<Rightarrow> asset_data \<Rightarrow> 'c cdn_db \<Rightarrow> cdn_asset \<times> 'c cdn_db" where
  "uploadAsset cf d s =
     (let key = (if given (ad_lessonId d) then the (ad_lessonId d) @ ''/'' @ ad_fileName d else ''uploads/'' @ ad_fileName d);
          a = \<lparr>ca_id = cd_fresh s, ca_lessonId = ad_lessonId d, ca_fileName = ad_fileName d, ca_originalName = ad_originalName d,
               ca_cdnUrl = cf_cdnDomain cf @ ''/'' @ key, ca_contentType = ad_contentType d,
               ca_assetType = map_of ASSET_TYPE_MAP (ad_mimeType d), ca_fileSize = ad_fileSize d, ca_mimeType = ad_mimeType d,
               ca_isTranscoded = False, ca_isPrivate = (case ad_isPrivate d of None \<Rightarrow> True | Some b \<Rightarrow> b),
               ca_availableBitrates = None, ca_thumbnailUrl = None, ca_uploadedByUserId = ad_uploadedByUserId d\<rparr>
      in (a, s\<lparr>cd_assets := cd_assets s @ [a], cd_fresh := Suc (cd_fresh s)\<rparr>))"

definition find_asset :: "uuid \<Rightarrow> 'c cdn_db \<Rightarrow> cdn_asset option" where
  "find_asset i s = find (\<lambda>a. ca_id a = i) (cd_assets s)"

subsection \<open>Signed addresses\<close>

definition hex_digit :: "nat \<Rightarrow> char" where
  "hex_digit n = ''0123456789abcdef'' ! n"

text \<open>A text in JSON: quotes, backslashes and control characters are escaped.\<close>

definition json_char :: "char \<Rightarrow> string" where
  "json_char c =
     (let n = (of_char c :: nat)
      in if c = CHR 0x22 then [CHR 0x5C, CHR 0x22]
         else if c = CHR 0x5C then [CHR 0x5C, CHR 0x5C]
         else if n = 8 then [CHR 0x5C, CHR ''b'']
         else if n = 9 then [CHR 0x5C, CHR ''t'']
         else if n = 10 then [CHR 0x5C, CHR ''n'']
         else if n = 12 then [CHR 0x5C, CHR ''f'']
         else if n = 13 then [CHR 0x5C, CHR ''r'']
         else if n < 32 then [CHR 0x5C] @ ''u00'' @ [hex_digit (n div 16), hex_digit (n mod 16)]
         else [c])"

definition json_quoted :: "string \<Rightarrow> string" where
  "json_quoted s = [CHR 0x22] @ concat (map json_char s) @ [CHR 0x22]"

definition int_text :: "int \<Rightarrow> string" where
  "int_text i = (if i < 0 then ''-'' @ string_of_nat (nat (- i)) else string_of_nat (nat i))"

definition policy_text :: "string \<Rightarrow> int \<Rightarrow> string" where
  "policy_text url expiresAt =
     ''{'' @ json_quoted ''Statement'' @ '':[{'' @ json_quoted ''Resource'' @ '':'' @ json_quoted url @ '','' @ json_quoted ''Condition''
     @ '':{'' @ json_quoted ''DateLessThan'' @ '':{'' @ json_quoted ''AWS:EpochTime'' @ '':'' @ int_text expiresAt @ ''}}}]}''"

definition url_encoded :: "string \<Rightarrow> string" where
  "url_encoded s =
     map (\<lambda>c. if c = CHR ''+'' then CHR ''-'' else if c = CHR ''='' then CHR ''_'' else if c = CHR ''/'' then CHR ''~'' else c) s"

definition signed_address :: "cdn_config \<Rightarrow> string \<Rightarrow> int \<Rightarrow> string option" where
  "signed_address cf url expiresAt =
     map_option (\<lambda>signature. url @ ''?Expires='' @ int_text expiresAt @ ''&Signature='' @ url_encoded signature
                              @ ''&Key-Pair-Id='' @ cf_cdnAccessKey cf)
       (cf_sign cf (policy_text url expiresAt))"

definition asset_key :: "uuid \<Rightarrow> string" where
  "asset_key i = ''signed-url:'' @ string_of_nat i"

text \<open>The time to live is passed as minutes times sixty, which the cache takes for milliseconds.\<close>

definition generateSignedUrl ::
  "(timestamp \<Rightarrow> 'c \<Rightarrow> string \<Rightarrow> string option) \<Rightarrow> (timestamp \<Rightarrow> string \<Rightarrow> string \<Rightarrow> int \<Rightarrow> 'c \<Rightarrow> 'c) \<Rightarrow> cdn_config \<Rightarrow> timestamp \<Rightarrow>
   uuid \<Rightarrow> int \<Rightarrow> 'c cdn_db \<Rightarrow> ('c cdn_db, string) outcome" where
  "generateSignedUrl get put cf now assetId minutes s =
     (let cached = get now (cd_cache s) (asset_key assetId)
      in if given cached then (Inr (the cached), s)
         else (case find_asset assetId s of
                 None \<Rightarrow> (Inl (NotFoundException ''Asset not found''), s)
               | Some a \<Rightarrow>
                   if \<not> ca_isPrivate a then (Inr (ca_cdnUrl a), s)
                   else (let expiresAt = now div 1000 + minutes * 60
                         in case signed_address cf (ca_cdnUrl a) expiresAt of
                              None \<Rightarrow> (Inl (JsError ''sign''), s)
                            | Some url \<Rightarrow>
                                (Inr url, s\<lparr>cd_cache := put now (asset_key assetId) url ((minutes - 5) * 60) (cd_cache s)\<rparr>))))"

subsection \<open>Other operations\<close>

definition markAsTranscoded :: "uuid \<Rightarrow> string list \<Rightarrow> string option \<Rightarrow> 'c cdn_db \<Rightarrow> 'c cdn_db" where
  "markAsTranscoded i bitrates thumbnailUrl s =
     s\<lparr>cd_assets := update_rows (\<lambda>a. ca_id a = i)
         (\<lambda>a. a\<lparr>ca_isTranscoded := True, ca_availableBitrates := Some bitrates,
                 ca_thumbnailUrl := (case thumbnailUrl of None \<Rightarrow> ca_thumbnailUrl a | Some u \<Rightarrow> Some u)\<rparr>) (cd_assets s)\<rparr>"

definition cdn_invalidateCache :: "uuid \<Rightarrow> 'c cdn_db \<Rightarrow> http_error + bool \<times> uuid \<times> string" where
  "cdn_invalidateCache i s =
     (case find_asset i s of None \<Rightarrow> Inl (NotFoundException ''Asset not found'') | Some a \<Rightarrow> Inr (True, i, ca_cdnUrl a))"

definition getAsset :: "uuid \<Rightarrow> 'c cdn_db \<Rightarrow> http_error + cdn_asset" where
  "getAsset i s = (case find_asset i s of None \<Rightarrow> Inl (NotFoundException ''Asset not found'') | Some a \<Rightarrow> Inr a)"

definition getLessonAssets :: "string \<Rightarrow> 'c cdn_db \<Rightarrow> cdn_asset list" where
  "getLessonAssets lessonId s = filter (\<lambda>a. ca_lessonId a = Some lessonId) (cd_assets s)"

subsection \<open>Requests\<close>

datatype cdn_request =
    Upload asset_data
  | SignedUrl uuid int
  | MarkTranscoded uuid "string list" "string option"
  | InvalidateAsset uuid

fun cdn_step ::
  "(timestamp \<Rightarrow> 'c \<Rightarrow> string \<Rightarrow> string option) \<Rightarrow> (timestamp \<Rightarrow> string \<Rightarrow> string \<Rightarrow> int \<Rightarrow> 'c \<Rightarrow> 'c) \<Rightarrow> cdn_config \<Rightarrow>
   timestamp \<times> cdn_request \<Rightarrow> 'c cdn_db \<Rightarrow> string option \<times> 'c cdn_db" where
  "cdn_step get put cf (now, Upload d) s = (None, snd (uploadAsset cf d s))"
| "cdn_step get put cf (now, SignedUrl i m) s =
     (case generateSignedUrl get put cf now i m s of (Inr url, s') \<Rightarrow> (Some url, s') | (Inl e, s') \<Rightarrow> (None, s'))"
| "cdn_step get put cf (now, MarkTranscoded i bs t) s = (None, markAsTranscoded i bs t s)"
| "cdn_step get put cf (now, InvalidateAsset i) s = (None, s)"

subsection \<open>Facts\<close>

lemma asset_key_inject [simp]: "asset_key i = asset_key j \<longleftrightarrow> i = j"
  by (simp add: asset_key_def string_of_nat_inject)

lemma signed_address_given: "signed_address cf base e = Some url \<Longrightarrow> url \<noteq> []"
  by (auto simp: signed_address_def)

text \<open>From the time \<open>since\<close> on, what the cache holds for an asset is an address signed for it that has not expired.\<close>

definition cache_valid :: "(timestamp \<Rightarrow> 'c \<Rightarrow> string \<Rightarrow> string option) \<Rightarrow> cdn_config \<Rightarrow> timestamp \<Rightarrow> 'c cdn_db \<Rightarrow> bool" where
  "cache_valid get cf since s \<longleftrightarrow>
     (\<forall>i t url. since \<le> t \<longrightarrow> get t (cd_cache s) (asset_key i) = Some url \<longrightarrow>
        (\<exists>a e. find_asset i s = Some a \<and> signed_address cf (ca_cdnUrl a) e = Some url \<and> t < e * 1000))"

lemma cache_validD:
  "cache_valid get cf since s \<Longrightarrow> since \<le> t \<Longrightarrow> get t (cd_cache s) (asset_key i) = Some url \<Longrightarrow>
     \<exists>a e. find_asset i s = Some a \<and> signed_address cf (ca_cdnUrl a) e = Some url \<and> t < e * 1000"
  unfolding cache_valid_def by blast

lemma cache_valid_mono: "cache_valid get cf since s \<Longrightarrow> since \<le> t1 \<Longrightarrow> cache_valid get cf t1 s"
  unfolding cache_valid_def by (meson order_trans)

text \<open>An operation that leaves the cache alone and keeps the address of every asset.\<close>

lemma cache_valid_frame:
  assumes "cache_valid get cf since s" "cd_cache s' = cd_cache s"
    and "\<And>i a. find_asset i s = Some a \<Longrightarrow> \<exists>b. find_asset i s' = Some b \<and> ca_cdnUrl b = ca_cdnUrl a"
  shows "cache_valid get cf since s'"
  using assms unfolding cache_valid_def by (metis (no_types))

lemma find_asset_upload: "find_asset i s = Some a \<Longrightarrow> find_asset i (snd (uploadAsset cf d s)) = Some a"
  by (simp add: uploadAsset_def find_asset_def Let_def find_append_Some)

lemma find_asset_mark:
  assumes "find_asset i s = Some a"
  shows "\<exists>b. find_asset i (markAsTranscoded j bs th s) = Some b \<and> ca_cdnUrl b = ca_cdnUrl a"
proof -
  have finds: "find (\<lambda>a. ca_id a = i) (update_rows P f as) = map_option (\<lambda>a. if P a then f a else a) (find (\<lambda>a. ca_id a = i) as)"
    if "\<And>a. ca_id (f a) = ca_id a" for P f as
    using that by (induction as) (auto simp: update_rows_def)
  from assms show ?thesis by (simp add: find_asset_def markAsTranscoded_def finds)
qed

text \<open>What a request for an address answers, and that the cache stays valid.\<close>

lemma generateSignedUrl_valid:
  assumes cache: "expiring_cache get put del"
    and valid: "cache_valid get cf since s" "since \<le> now" and m: "6 \<le> m"
  shows "cache_valid get cf now (snd (generateSignedUrl get put cf now i m s))"
    and "fst (generateSignedUrl get put cf now i m s) = Inr url \<Longrightarrow>
      \<exists>a. find_asset i s = Some a \<and> (\<not> ca_isPrivate a \<and> url = ca_cdnUrl a
          \<or> (\<exists>e. signed_address cf (ca_cdnUrl a) e = Some url \<and> now < e * 1000))"
proof -
  let ?v = "get now (cd_cache s) (asset_key i)"
  have old: "cache_valid get cf now s" by (rule cache_valid_mono[OF valid])
  have fresh: "cache_valid get cf now (s\<lparr>cd_cache := put now (asset_key i) u ((m - 5) * 60) (cd_cache s)\<rparr>)"
    if a: "find_asset i s = Some a" and u: "signed_address cf (ca_cdnUrl a) (now div 1000 + m * 60) = Some u" for a u
    unfolding cache_valid_def
  proof (intro allI impI)
    fix j t v
    assume t: "now \<le> t" and v: "get t (cd_cache (s\<lparr>cd_cache := put now (asset_key i) u ((m - 5) * 60) (cd_cache s)\<rparr>)) (asset_key j) = Some v"
    have ttl: "0 < (m - 5) * 60" using m by simp
    show "\<exists>a e. find_asset j (s\<lparr>cd_cache := put now (asset_key i) u ((m - 5) * 60) (cd_cache s)\<rparr>) = Some a
        \<and> signed_address cf (ca_cdnUrl a) e = Some v \<and> t < e * 1000"
    proof (cases "j = i")
      case True
      have "v = u"
        using expiring_cache.get_stored[OF cache ttl, of t now "asset_key i" u "cd_cache s"] v True by auto
      moreover have "t \<le> now + (m - 5) * 60"
        using expiring_cache.get_expired[OF cache ttl, of now t "asset_key i" u "cd_cache s"] v True by force
      moreover have "now < (now div 1000) * 1000 + 1000" by linarith
      ultimately have "v = u" "t < (now div 1000 + m * 60) * 1000" using m by (simp_all add: algebra_simps)
      with a u True show ?thesis by (auto simp: find_asset_def)
    next
      case False
      then have "get t (cd_cache s) (asset_key j) = Some v"
        using expiring_cache.get_other[OF cache, of "asset_key j" "asset_key i" t now u _ "cd_cache s"] v by simp
      from cache_validD[OF old t this] show ?thesis by (simp add: find_asset_def)
    qed
  qed
  show "cache_valid get cf now (snd (generateSignedUrl get put cf now i m s))"
    using old fresh by (auto simp: generateSignedUrl_def Let_def split: option.split)
  assume ok: "fst (generateSignedUrl get put cf now i m s) = Inr url"
  show "\<exists>a. find_asset i s = Some a \<and> (\<not> ca_isPrivate a \<and> url = ca_cdnUrl a
          \<or> (\<exists>e. signed_address cf (ca_cdnUrl a) e = Some url \<and> now < e * 1000))"
  proof (cases "given ?v")
    case True
    then obtain v where v: "?v = Some v" by (auto simp: given_def split: option.splits)
    with True ok have "v = url" by (simp add: generateSignedUrl_def)
    with v cache_validD[OF old order_refl, of i v] show ?thesis by blast
  next
    case False
    have "now < (now div 1000) * 1000 + 1000" by linarith
    then have "now < (now div 1000 + m * 60) * 1000" using m by (simp add: algebra_simps)
    with ok False show ?thesis by (auto simp: generateSignedUrl_def Let_def split: option.splits if_splits)
  qed
qed

text \<open>The requests of a history ask for addresses of six minutes or more.\<close>

fun long_enough :: "cdn_request \<Rightarrow> bool" where
  "long_enough (SignedUrl i m) = (6 \<le> m)"
| "long_enough _ = True"

lemma cache_valid_run:
  assumes cache: "expiring_cache get put del"
    and "cache_valid get cf since s" "sorted (since # map fst ops)" "\<forall>op \<in> set ops. long_enough (snd op)"
  shows "cache_valid get cf (last (since # map fst ops)) (run_ops (cdn_step get put cf) ops s)"
  using assms(2-)
proof (induction ops arbitrary: since s)
  case (Cons op ops)
  obtain now r where op: "op = (now, r)" by (cases op)
  have t: "since \<le> now" using Cons.prems(2) op by simp
  note old = cache_valid_mono[OF Cons.prems(1) t]
  have "cache_valid get cf now (snd (cdn_step get put cf (now, r) s))"
  proof (cases r)
    case (Upload d)
    have "cd_cache (snd (uploadAsset cf d s)) = cd_cache s" by (simp add: uploadAsset_def Let_def)
    then have "cache_valid get cf now (snd (uploadAsset cf d s))"
      by (rule cache_valid_frame[OF old]) (blast dest: find_asset_upload)
    with Upload show ?thesis by simp
  next
    case (SignedUrl i m)
    with Cons.prems(3) op have "6 \<le> m" by simp
    from generateSignedUrl_valid(1)[OF cache Cons.prems(1) t this, of i] show ?thesis
      by (cases "generateSignedUrl get put cf now i m s"; cases "fst (generateSignedUrl get put cf now i m s)") (simp_all add: SignedUrl)
  next
    case (MarkTranscoded i bs th)
    have "cd_cache (markAsTranscoded i bs th s) = cd_cache s" by (simp add: markAsTranscoded_def)
    then have "cache_valid get cf now (markAsTranscoded i bs th s)"
      by (rule cache_valid_frame[OF old]) (rule find_asset_mark)
    with MarkTranscoded show ?thesis by simp
  next
    case (InvalidateAsset i)
    with old show ?thesis by simp
  qed
  moreover have "sorted (now # map fst ops)" using Cons.prems(2) op by simp
  ultimately show ?case using Cons.IH[of now] Cons.prems(3) op by simp
qed simp

subsection \<open>Properties\<close>

text \<open>C31: In a history that asks for addresses of six minutes or more, an address handed out is the public one of the asset
  or one signed for it that has not expired.\<close>

theorem signed_url_valid:
  assumes "expiring_cache get put del" "\<forall>i t. get t (cd_cache s) (asset_key i) = None"
    and "sorted (since # map fst ops)" "\<forall>op \<in> set ops. long_enough (snd op)" "last (since # map fst ops) \<le> now" "6 \<le> m"
    and "fst (generateSignedUrl get put cf now i m (run_ops (cdn_step get put cf) ops s)) = Inr url"
  shows "\<exists>a. find_asset i (run_ops (cdn_step get put cf) ops s) = Some a
     \<and> (\<not> ca_isPrivate a \<and> url = ca_cdnUrl a
        \<or> (\<exists>e. signed_address cf (ca_cdnUrl a) e = Some url \<and> now < e * 1000))"
proof -
  have "cache_valid get cf since s" using assms(2) by (simp add: cache_valid_def)
  from generateSignedUrl_valid(2)[OF assms(1) cache_valid_run[OF assms(1) this assms(3,4)] assms(5-7)] show ?thesis .
qed

text \<open>An address asked for five minutes is kept under a time to live of zero. In a cache where that means no expiry, it is
  handed out for good, however long ago it expired and whatever is asked for.\<close>

theorem five_minutes_for_good:
  assumes "\<forall>t t' k v c. t \<le> t' \<longrightarrow> get t' (put t k v 0 c) k = Some v"
    and "get now (cd_cache s) (asset_key i) = None" "find_asset i s = Some a" "ca_isPrivate a"
    and "signed_address cf (ca_cdnUrl a) (now div 1000 + 300) = Some url" "now \<le> later"
  shows "fst (generateSignedUrl get put cf later i m (snd (generateSignedUrl get put cf now i 5 s))) = Inr url"
proof -
  have "snd (generateSignedUrl get put cf now i 5 s) = s\<lparr>cd_cache := put now (asset_key i) url 0 (cd_cache s)\<rparr>"
    using assms(2-5) by (simp add: generateSignedUrl_def given_def)
  moreover have "get later (put now (asset_key i) url 0 (cd_cache s)) (asset_key i) = Some url" using assms(1,6) by blast
  moreover have "url \<noteq> []" by (rule signed_address_given[OF assms(5)])
  ultimately show ?thesis by (simp add: generateSignedUrl_def given_def)
qed

subsection \<open>Witnesses\<close>

definition lesson_data :: asset_data where
  "lesson_data = \<lparr>ad_lessonId = Some ''7'', ad_fileName = ''v'', ad_originalName = ''v'', ad_mimeType = ''video/mp4'',
     ad_contentType = ContentVideo, ad_fileSize = 1, ad_uploadedByUserId = None, ad_isPrivate = None\<rparr>"

definition plain_cdn :: cdn_config where
  "plain_cdn = \<lparr>cf_cdnDomain = ''c'', cf_cdnAccessKey = ''k'', cf_sign = (\<lambda>_. Some ''s'')\<rparr>"

definition no_assets :: "'c \<Rightarrow> 'c cdn_db" where
  "no_assets c = \<lparr>cd_assets = [], cd_cache = c, cd_fresh = 0\<rparr>"

lemma plain_signed: "\<exists>url. signed_address plain_cdn base e = Some url"
  by (simp add: signed_address_def plain_cdn_def)

theorem signed_url_valid_witness:
  "\<exists>a url. fst (generateSignedUrl ttl_get ttl_put plain_cdn 400 0 60
       (run_ops (cdn_step ttl_get ttl_put plain_cdn) [(0, Upload lesson_data), (5, SignedUrl 0 6)] (no_assets Map.empty))) = Inr url
     \<and> find_asset 0 (run_ops (cdn_step ttl_get ttl_put plain_cdn) [(0, Upload lesson_data), (5, SignedUrl 0 6)] (no_assets Map.empty)) = Some a
     \<and> (\<not> ca_isPrivate a \<and> url = ca_cdnUrl a \<or> (\<exists>e. signed_address plain_cdn (ca_cdnUrl a) e = Some url \<and> (400 :: int) < e * 1000))"
proof -
  let ?s = "run_ops (cdn_step ttl_get ttl_put plain_cdn) [(0, Upload lesson_data), (5, SignedUrl 0 6)] (no_assets Map.empty)"
  obtain url where url: "fst (generateSignedUrl ttl_get ttl_put plain_cdn 400 0 60 ?s) = Inr url"
    by (auto simp: generateSignedUrl_def uploadAsset_def find_asset_def no_assets_def lesson_data_def ttl_defs signed_address_def
        plain_cdn_def given_def Let_def)
  have none: "\<forall>i t. ttl_get t (cd_cache (no_assets Map.empty)) (asset_key i) = None" by (simp add: no_assets_def ttl_defs)
  have "\<exists>a. find_asset 0 ?s = Some a \<and> (\<not> ca_isPrivate a \<and> url = ca_cdnUrl a
      \<or> (\<exists>e. signed_address plain_cdn (ca_cdnUrl a) e = Some url \<and> 400 < e * 1000))"
    by (rule signed_url_valid[OF ttl.expiring_cache_axioms none _ _ _ _ url, where since = 0]) simp_all
  with url show ?thesis by blast
qed

theorem five_minutes_for_good_witness:
  "\<exists>url. fst (generateSignedUrl (\<lambda>t c k. map_of c k) (\<lambda>t k v ttl c. (k, v) # c) plain_cdn 900000000 0 60
       (snd (generateSignedUrl (\<lambda>t c k. map_of c k) (\<lambda>t k v ttl c. (k, v) # c) plain_cdn 0 0 5
         (snd (uploadAsset plain_cdn lesson_data (no_assets [])))))) = Inr url"
proof -
  let ?s = "snd (uploadAsset plain_cdn lesson_data (no_assets ([] :: (string \<times> string) list)))"
  obtain url where url: "signed_address plain_cdn ''c/7/v'' (0 div 1000 + 300) = Some url" using plain_signed by blast
  obtain a where a: "find_asset 0 ?s = Some a" "ca_isPrivate a" "ca_cdnUrl a = ''c/7/v''"
    by (simp add: uploadAsset_def find_asset_def no_assets_def lesson_data_def plain_cdn_def given_def Let_def)
  have none: "map_of (cd_cache ?s) (asset_key 0) = None" by (simp add: uploadAsset_def no_assets_def Let_def)
  have "fst (generateSignedUrl (\<lambda>t c k. map_of c k) (\<lambda>t k v ttl c. (k, v) # c) plain_cdn 900000000 0 60
       (snd (generateSignedUrl (\<lambda>t c k. map_of c k) (\<lambda>t k v ttl c. (k, v) # c) plain_cdn 0 0 5 ?s))) = Inr url"
    by (rule five_minutes_for_good[where a = a]) (use a none url in simp_all)
  then show ?thesis by blast
qed

end
