(* ===== verification/Client.thy ===== *)
theory Client
  imports Js_Number
begin

text \<open>
  The state the web client keeps (\<open>apps/frontend/src\<close>): progress recorded offline and sent later
  (\<open>hooks/useSyncProgress.ts\<close>), the session with the interceptors of its requests (\<open>store/auth.store.ts\<close>,
  \<open>lib/api.ts\<close>), bookmarks, the comparison of courses, lesson progress, notifications and achievements. A call
  of the server that is awaited splits an operation in steps: what happens before it, and what its answer does.
\<close>

subsection \<open>Progress recorded offline\<close>

record pending_update =
  pu_courseId :: string
  pu_lessonId :: string
  pu_progressPct :: int
  pu_timestamp :: timestamp

text \<open>The stored list, what the server has accepted, and the runs of \<open>sync\<close> in progress: what is left to send of the
  list each read at its start, and what it failed to send.\<close>

record sync_state =
  sy_stored :: "pending_update list"
  sy_received :: "pending_update list"
  sy_runs :: "(pending_update list \<times> pending_update list) list"

text \<open>An answer may get lost after the server has accepted.\<close>

datatype server_reply = Accepted | Refused | AnswerLost

definition arrives :: "server_reply \<Rightarrow> bool" where
  "arrives r = (r \<noteq> Refused)"

definition client_record :: "bool \<Rightarrow> server_reply \<Rightarrow> pending_update \<Rightarrow> sync_state \<Rightarrow> sync_state" where
  "client_record onLine r u s =
     (if onLine
      then (let s1 = (if arrives r then s\<lparr>sy_received := sy_received s @ [u]\<rparr> else s)
            in if r = Accepted then s1 else s1\<lparr>sy_stored := sy_stored s1 @ [u]\<rparr>)
      else s\<lparr>sy_stored := sy_stored s @ [u]\<rparr>)"

definition sync_start :: "bool \<Rightarrow> sync_state \<Rightarrow> sync_state" where
  "sync_start onLine s =
     (if \<not> onLine \<or> sy_stored s = [] then s else s\<lparr>sy_runs := sy_runs s @ [(sy_stored s, [])]\<rparr>)"

text \<open>The answer to the update a run has sent. After the last one the run writes what remains over the stored list.\<close>

definition sync_answer :: "nat \<Rightarrow> server_reply \<Rightarrow> sync_state \<Rightarrow> sync_state" where
  "sync_answer i r s =
     (if i < length (sy_runs s)
      then (case sy_runs s ! i of
              ([], remaining) \<Rightarrow> s
            | (u # todo, remaining) \<Rightarrow>
                (let s1 = (if arrives r then s\<lparr>sy_received := sy_received s @ [u]\<rparr> else s);
                     rest = (if r = Accepted then remaining else remaining @ [u])
                 in if todo = [] then s1\<lparr>sy_stored := rest, sy_runs := take i (sy_runs s) @ drop (Suc i) (sy_runs s)\<rparr>
                    else s1\<lparr>sy_runs := (sy_runs s)[i := (todo, rest)]\<rparr>))
      else s)"

datatype sync_event = Recorded bool server_reply pending_update | SyncStarted bool | Answer nat server_reply

fun sync_step :: "sync_event \<Rightarrow> sync_state \<Rightarrow> unit \<times> sync_state" where
  "sync_step (Recorded onLine r u) s = ((), client_record onLine r u s)"
| "sync_step (SyncStarted onLine) s = ((), sync_start onLine s)"
| "sync_step (Answer i r) s = ((), sync_answer i r s)"

subsection \<open>Session and requests\<close>

record auth_user =
  sx_id :: string
  sx_username :: string
  sx_email :: string
  sx_role :: string

record session =
  ss_token :: "string option"
  ss_user :: "auth_user option"
  ss_location :: string
  ss_sent :: "(string \<times> string option) list"

definition client_login :: "string \<Rightarrow> auth_user \<Rightarrow> session \<Rightarrow> session" where
  "client_login token u s = s\<lparr>ss_token := Some token, ss_user := Some u\<rparr>"

definition client_logout :: "session \<Rightarrow> session" where
  "client_logout s = s\<lparr>ss_token := None, ss_user := None\<rparr>"

definition setUser :: "auth_user \<Rightarrow> session \<Rightarrow> session" where
  "setUser u s = s\<lparr>ss_user := Some u\<rparr>"

definition isAuthenticated :: "session \<Rightarrow> bool" where
  "isAuthenticated s = (case ss_token s of None \<Rightarrow> False | Some t \<Rightarrow> t \<noteq> [])"

definition isAdmin :: "session \<Rightarrow> bool" where
  "isAdmin s = (case ss_user s of None \<Rightarrow> False | Some u \<Rightarrow> sx_role u = ''admin'')"

text \<open>The request interceptor sets the header of the token; the log keeps the path and the header.\<close>

definition send_request :: "string \<Rightarrow> session \<Rightarrow> session" where
  "send_request path s =
     s\<lparr>ss_sent := ss_sent s @ [(path, case ss_token s of
        None \<Rightarrow> None | Some t \<Rightarrow> if t = [] then None else Some (''Bearer '' @ t))]\<rparr>"

definition answer_arrives :: "nat \<Rightarrow> session \<Rightarrow> session" where
  "answer_arrives status s = (if status = 401 then (client_logout s)\<lparr>ss_location := ''/login''\<rparr> else s)"

text \<open>Signing in (\<open>app/auth/login/page.tsx\<close>) with a password the server accepts: the token is put into the local storage, the
  profile is fetched, and only then is the session told of both. \<open>server\<close> gives the status for a path and header.\<close>

definition sign_in :: "(string \<Rightarrow> string option \<Rightarrow> nat) \<Rightarrow> string \<Rightarrow> auth_user \<Rightarrow> session \<Rightarrow> session" where
  "sign_in server access_token u s =
     (let s1 = send_request ''/auth/login'' s; s2 = send_request ''/users/me'' s1;
          status = server ''/users/me'' (snd (last (ss_sent s2)))
      in if status = 200 then (client_login access_token u s2)\<lparr>ss_location := ''/dashboard''\<rparr> else answer_arrives status s2)"

datatype session_event = Login string auth_user | Logout | SetUser auth_user | Send string | AnswerStatus nat

fun session_step :: "session_event \<Rightarrow> session \<Rightarrow> unit \<times> session" where
  "session_step (Login t u) s = ((), client_login t u s)"
| "session_step Logout s = ((), client_logout s)"
| "session_step (SetUser u) s = ((), setUser u s)"
| "session_step (Send path) s = ((), send_request path s)"
| "session_step (AnswerStatus n) s = ((), answer_arrives n s)"

subsection \<open>Bookmarks\<close>

text \<open>A course by its id and the rest of its data. The list changes at once; a refused call takes the change back: an
  added course by its id, a removed one by the list as it was.\<close>

type_synonym 'd bookmark = "string \<times> 'd"

definition isBookmarked :: "string \<Rightarrow> 'd bookmark list \<Rightarrow> bool" where
  "isBookmarked courseId bs = (\<exists>b \<in> set bs. fst b = courseId)"

definition addBookmark :: "'d bookmark \<Rightarrow> 'd bookmark list \<Rightarrow> 'd bookmark list" where
  "addBookmark c bs = bs @ [c]"

definition addBookmark_failed :: "'d bookmark \<Rightarrow> 'd bookmark list \<Rightarrow> 'd bookmark list" where
  "addBookmark_failed c bs = filter (\<lambda>b. fst b \<noteq> fst c) bs"

definition removeBookmark :: "string \<Rightarrow> 'd bookmark list \<Rightarrow> 'd bookmark list" where
  "removeBookmark courseId bs = filter (\<lambda>b. fst b \<noteq> courseId) bs"

definition removeBookmark_failed :: "'d bookmark list \<Rightarrow> 'd bookmark list \<Rightarrow> 'd bookmark list" where
  "removeBookmark_failed prev bs = prev"

definition fetchBookmarks :: "'d bookmark list option \<Rightarrow> 'd bookmark list \<Rightarrow> 'd bookmark list" where
  "fetchBookmarks answer bs = (case answer of None \<Rightarrow> bs | Some d \<Rightarrow> d)"

subsection \<open>Comparison of courses\<close>

definition MAX_COMPARE :: nat where
  "MAX_COMPARE = 3"

definition compare_isSelected :: "string \<Rightarrow> 'd bookmark list \<Rightarrow> bool" where
  "compare_isSelected courseId sel = (\<exists>c \<in> set sel. fst c = courseId)"

definition compare_isFull :: "'d bookmark list \<Rightarrow> bool" where
  "compare_isFull sel = (MAX_COMPARE \<le> length sel)"

definition compare_add :: "'d bookmark \<Rightarrow> 'd bookmark list \<Rightarrow> 'd bookmark list" where
  "compare_add c sel = (if compare_isFull sel then sel else sel @ [c])"

definition compare_remove :: "string \<Rightarrow> 'd bookmark list \<Rightarrow> 'd bookmark list" where
  "compare_remove courseId sel = filter (\<lambda>c. fst c \<noteq> courseId) sel"

definition compare_toggle :: "'d bookmark \<Rightarrow> 'd bookmark list \<Rightarrow> 'd bookmark list" where
  "compare_toggle c sel = (if compare_isSelected (fst c) sel then compare_remove (fst c) sel else compare_add c sel)"

datatype 'd compare_event = CompareAdd "'d bookmark" | CompareRemove string | CompareToggle "'d bookmark" | CompareClear

fun compare_step :: "'d compare_event \<Rightarrow> 'd bookmark list \<Rightarrow> unit \<times> 'd bookmark list" where
  "compare_step (CompareAdd c) sel = ((), compare_add c sel)"
| "compare_step (CompareRemove i) sel = ((), compare_remove i sel)"
| "compare_step (CompareToggle c) sel = ((), compare_toggle c sel)"
| "compare_step CompareClear sel = ((), [])"

subsection \<open>Lesson progress\<close>

record lesson_progress =
  lx_lessonId :: string
  lx_completed :: bool
  lx_completedAt :: "timestamp option"

type_synonym progress_map = "(string \<times> lesson_progress list) list"

definition lessons_of :: "string \<Rightarrow> progress_map \<Rightarrow> lesson_progress list" where
  "lessons_of courseId m = (case map_of m courseId of None \<Rightarrow> [] | Some ls \<Rightarrow> ls)"

definition setProgress :: "string \<Rightarrow> lesson_progress list \<Rightarrow> progress_map \<Rightarrow> progress_map" where
  "setProgress courseId ls m = upsert_entry courseId (\<lambda>_. ls) m"

definition markLesson :: "timestamp \<Rightarrow> string \<Rightarrow> string \<Rightarrow> bool \<Rightarrow> progress_map \<Rightarrow> progress_map" where
  "markLesson now courseId lessonId completed m =
     (let existing = lessons_of courseId m;
          stamp = (if completed then Some now else None);
          updated = (if \<exists>l \<in> set existing. lx_lessonId l = lessonId
                     then map (\<lambda>l. if lx_lessonId l = lessonId then l\<lparr>lx_completed := completed, lx_completedAt := stamp\<rparr> else l) existing
                     else existing @ [\<lparr>lx_lessonId = lessonId, lx_completed = completed, lx_completedAt = stamp\<rparr>])
      in upsert_entry courseId (\<lambda>_. updated) m)"

definition getCompleted :: "string \<Rightarrow> progress_map \<Rightarrow> nat" where
  "getCompleted courseId m = count_rows lx_completed (lessons_of courseId m)"

subsection \<open>Notifications\<close>

record app_notification =
  an_id :: uuid
  an_message :: string
  an_isRead :: bool

text \<open>The list, newest first, and the ids the socket has sent as read.\<close>

record inbox =
  ib_notifications :: "app_notification list"
  ib_emitted :: "uuid list list"

definition set_read :: "uuid list \<Rightarrow> app_notification list \<Rightarrow> app_notification list" where
  "set_read ids ns = map (\<lambda>n. if an_id n \<in> set ids then n\<lparr>an_isRead := True\<rparr> else n) ns"

definition unread :: "inbox \<Rightarrow> app_notification list" where
  "unread s = filter (\<lambda>n. \<not> an_isRead n) (ib_notifications s)"

definition inbox_init :: "app_notification list \<Rightarrow> inbox \<Rightarrow> inbox" where
  "inbox_init ns s = s\<lparr>ib_notifications := ns\<rparr>"

definition inbox_incoming :: "app_notification \<Rightarrow> inbox \<Rightarrow> inbox" where
  "inbox_incoming n s = s\<lparr>ib_notifications := n # ib_notifications s\<rparr>"

definition inbox_confirmed :: "uuid list \<Rightarrow> inbox \<Rightarrow> inbox" where
  "inbox_confirmed ids s = s\<lparr>ib_notifications := set_read ids (ib_notifications s)\<rparr>"

definition inbox_markAsRead :: "uuid list \<Rightarrow> inbox \<Rightarrow> inbox" where
  "inbox_markAsRead ids s = s\<lparr>ib_notifications := set_read ids (ib_notifications s), ib_emitted := ib_emitted s @ [ids]\<rparr>"

definition inbox_markAllRead :: "inbox \<Rightarrow> inbox" where
  "inbox_markAllRead s = (let ids = map an_id (unread s) in if ids \<noteq> [] then inbox_markAsRead ids s else s)"

subsection \<open>Achievements\<close>

text \<open>The five badges with whether they are earned.\<close>

definition computeAchievements :: "nat \<Rightarrow> rat \<Rightarrow> rat list \<Rightarrow> (string \<times> bool) list" where
  "computeAchievements credentialCount bstBalance progressPcts =
     [(''first-step'', 1 \<le> credentialCount), (''course-collector'', 5 \<le> credentialCount), (''token-earner'', 0 < bstBalance),
      (''high-achiever'', 500 \<le> bstBalance), (''dedicated-learner'', \<exists>p \<in> set progressPcts. 0 < p \<and> p < 100)]"

subsection \<open>Facts\<close>

text \<open>An update is safe when the server has it, or when it is stored and every run in progress still has it: whatever run
  writes the list next, writes it back.\<close>

definition safe_update :: "pending_update \<Rightarrow> sync_state \<Rightarrow> bool" where
  "safe_update u s \<longleftrightarrow> u \<in> set (sy_received s) \<or>
     u \<in> set (sy_stored s) \<and> (\<forall>run \<in> set (sy_runs s). u \<in> set (fst run) \<union> set (snd run))"

lemma safe_answer:
  assumes "safe_update u s"
  shows "safe_update u (sync_answer i r s)"
proof (cases "i < length (sy_runs s)")
  case idx: True
  obtain todo remaining where run: "sy_runs s ! i = (todo, remaining)" by (cases "sy_runs s ! i")
  have mem: "(todo, remaining) \<in> set (sy_runs s)" using idx run nth_mem by fastforce
  show ?thesis
  proof (cases todo)
    case Nil
    with assms run idx show ?thesis by (simp add: sync_answer_def)
  next
    case (Cons v rest)
    show ?thesis
    proof (cases "u \<in> set (sy_received s) \<or> u = v \<and> arrives r")
      case True
      with run Cons idx show ?thesis by (auto simp: sync_answer_def safe_update_def Let_def)
    next
      case False
      then have held: "u \<in> set (sy_stored s)" "\<forall>run \<in> set (sy_runs s). u \<in> set (fst run) \<union> set (snd run)"
        using assms by (auto simp: safe_update_def)
      with mem Cons have "u = v \<or> u \<in> set rest \<or> u \<in> set remaining" by fastforce
      with False have keep: "u \<in> set rest \<or> u \<in> set (if r = Accepted then remaining else remaining @ [v])"
        by (auto simp: arrives_def)
      have others: "set (take i (sy_runs s) @ drop (Suc i) (sy_runs s)) \<subseteq> set (sy_runs s)"
        using set_take_subset set_drop_subset by fastforce
      show ?thesis
      proof (cases "rest = []")
        case True
        with keep others held(2) run Cons idx show ?thesis
          by (auto simp: sync_answer_def safe_update_def Let_def)
      next
        case False
        have upd: "set ((sy_runs s)[i := (rest, if r = Accepted then remaining else remaining @ [v])])
            \<subseteq> insert (rest, if r = Accepted then remaining else remaining @ [v]) (set (sy_runs s))"
          by (rule set_update_subset_insert)
        have "\<forall>run \<in> set ((sy_runs s)[i := (rest, if r = Accepted then remaining else remaining @ [v])]).
            u \<in> set (fst run) \<union> set (snd run)"
          using upd keep held(2) by fastforce
        with False held(1) run Cons idx show ?thesis
          by (simp add: sync_answer_def safe_update_def Let_def)
      qed
    qed
  qed
qed (use assms in \<open>simp add: sync_answer_def\<close>)

lemma safe_start: "safe_update u s \<Longrightarrow> safe_update u (sync_start onLine s)"
  by (auto simp: safe_update_def sync_start_def)

lemma safe_record: "safe_update u s \<Longrightarrow> safe_update u (client_record onLine r v s)"
  by (auto simp: safe_update_def client_record_def Let_def)

lemma safe_recorded:
  "sy_runs s = [] \<or> onLine \<and> r = Accepted \<Longrightarrow> safe_update u (client_record onLine r u s)"
  by (auto simp: safe_update_def client_record_def arrives_def Let_def)

lemma safe_step: "safe_update u s \<Longrightarrow> safe_update u (snd (sync_step e s))"
  by (cases e) (simp_all add: safe_record safe_start safe_answer)

interpretation sync: invariant_machine sync_step "safe_update u" for u
  by unfold_locales (rule safe_step)

text \<open>Nothing is put into the stored list while a run is in progress.\<close>

fun calm :: "sync_event list \<Rightarrow> sync_state \<Rightarrow> bool" where
  "calm [] s = True"
| "calm (e # es) s =
     ((case e of Recorded onLine r u \<Rightarrow> sy_runs s = [] \<or> onLine \<and> r = Accepted | _ \<Rightarrow> True)
      \<and> calm es (snd (sync_step e s)))"

fun recorded_in :: "sync_event list \<Rightarrow> pending_update list" where
  "recorded_in [] = []"
| "recorded_in (Recorded onLine r u # es) = u # recorded_in es"
| "recorded_in (e # es) = recorded_in es"

lemma recorded_safe: "calm es s \<Longrightarrow> u \<in> set (recorded_in es) \<Longrightarrow> safe_update u (run_ops sync_step es s)"
proof (induction es arbitrary: s)
  case (Cons e es)
  show ?case
  proof (cases "u \<in> set (recorded_in es)")
    case True
    with Cons show ?thesis by simp
  next
    case False
    with Cons.prems(2) obtain onLine r where e: "e = Recorded onLine r u" by (cases e) auto
    with Cons.prems(1) have "safe_update u (snd (sync_step e s))" by (simp add: safe_recorded)
    then show ?thesis by (simp add: sync.run_preserves)
  qed
qed simp

text \<open>A single run from its first answer to its last.\<close>

lemma run_to_end:
  assumes "sy_runs s = [(todo, remaining)]" "todo \<noteq> []" "length rs = length todo"
  shows "set (sy_stored (run_ops sync_step (map (Answer 0) rs) s)) \<subseteq> set todo \<union> set remaining
    \<and> set (sy_received (run_ops sync_step (map (Answer 0) rs) s)) \<subseteq> set (sy_received s) \<union> set todo
    \<and> sy_runs (run_ops sync_step (map (Answer 0) rs) s) = []"
  using assms
proof (induction todo arbitrary: s remaining rs)
  case (Cons u todo)
  then obtain r rs' where rs: "rs = r # rs'" by (cases rs) auto
  let ?s = "sync_answer 0 r s"
  let ?rest = "if r = Accepted then remaining else remaining @ [u]"
  have recv: "set (sy_received ?s) \<subseteq> set (sy_received s) \<union> {u}"
    using Cons.prems(1) by (auto simp: sync_answer_def Let_def)
  show ?case
  proof (cases "todo = []")
    case True
    with Cons.prems rs have "rs' = []" "sy_stored ?s = ?rest" "sy_runs ?s = []" by (auto simp: sync_answer_def Let_def)
    with True rs recv show ?thesis by auto
  next
    case False
    then have "sy_runs ?s = [(todo, ?rest)]" using Cons.prems(1) by (simp add: sync_answer_def Let_def)
    moreover have "length rs' = length todo" using Cons.prems(3) rs by simp
    ultimately have "set (sy_stored (run_ops sync_step (map (Answer 0) rs') ?s)) \<subseteq> set todo \<union> set ?rest
      \<and> set (sy_received (run_ops sync_step (map (Answer 0) rs') ?s)) \<subseteq> set (sy_received ?s) \<union> set todo
      \<and> sy_runs (run_ops sync_step (map (Answer 0) rs') ?s) = []"
      using Cons.IH False by blast
    with rs recv show ?thesis by (auto split: if_splits)
  qed
qed simp

text \<open>Events of a session without a sign-in.\<close>

fun no_login :: "session_event \<Rightarrow> bool" where
  "no_login (Login t u) = False"
| "no_login _ = True"

lemma signed_out_run:
  assumes "ss_token s = None" "\<forall>e \<in> set es. no_login e"
  shows "ss_token (run_ops session_step es s) = None
    \<and> (\<exists>xs. ss_sent (run_ops session_step es s) = ss_sent s @ xs \<and> (\<forall>x \<in> set xs. snd x = None))"
  using assms
proof (induction es arbitrary: s)
  case (Cons e es)
  have one: "ss_token (snd (session_step e s)) = None
      \<and> (\<exists>xs. ss_sent (snd (session_step e s)) = ss_sent s @ xs \<and> (\<forall>x \<in> set xs. snd x = None))"
    using Cons.prems by (cases e) (simp_all add: client_logout_def setUser_def send_request_def answer_arrives_def)
  then obtain xs where xs: "ss_sent (snd (session_step e s)) = ss_sent s @ xs" "\<forall>x \<in> set xs. snd x = None" by blast
  from Cons.IH[of "snd (session_step e s)"] one Cons.prems(2)
  obtain ys where "ss_token (run_ops session_step es (snd (session_step e s))) = None"
    "ss_sent (run_ops session_step es (snd (session_step e s))) = ss_sent (snd (session_step e s)) @ ys" "\<forall>x \<in> set ys. snd x = None"
    by auto
  with xs show ?case by auto
qed simp

definition compare_ok :: "'d bookmark list \<Rightarrow> bool" where
  "compare_ok sel \<longleftrightarrow> length sel \<le> MAX_COMPARE"

lemma compare_ok_step: "compare_ok sel \<Longrightarrow> compare_ok (snd (compare_step e sel))"
  by (cases e) (auto simp: compare_ok_def compare_add_def compare_isFull_def compare_remove_def compare_toggle_def
      intro: le_trans[OF length_filter_le])

interpretation comparison: invariant_machine compare_step compare_ok
  by unfold_locales (rule compare_ok_step)

text \<open>Only the toggle of the buttons keeps the courses apart.\<close>

fun no_add :: "'d compare_event \<Rightarrow> bool" where
  "no_add (CompareAdd c) = False"
| "no_add _ = True"

lemma compare_distinct_step:
  "distinct (map fst sel) \<Longrightarrow> no_add e \<Longrightarrow> distinct (map fst (snd (compare_step e sel)))"
  by (cases e) (auto simp: compare_toggle_def compare_add_def compare_remove_def compare_isSelected_def distinct_map_filter)

lemma compare_distinct_run:
  "distinct (map fst sel) \<Longrightarrow> \<forall>e \<in> set es. no_add e \<Longrightarrow> distinct (map fst (run_ops compare_step es sel))"
  by (induction es arbitrary: sel) (simp_all add: compare_distinct_step)

lemma count_lesson:
  assumes "distinct (map lx_lessonId ls)"
  shows "count_rows lx_completed (map (\<lambda>l. if lx_lessonId l = i then l\<lparr>lx_completed := b, lx_completedAt := t\<rparr> else l) ls)
      + count_rows (\<lambda>l. lx_lessonId l = i \<and> lx_completed l) ls
    = count_rows lx_completed ls + (if b \<and> i \<in> lx_lessonId ` set ls then 1 else 0)"
  using assms
proof (induction ls)
  case (Cons l ls)
  show ?case
  proof (cases "lx_lessonId l = i")
    case True
    with Cons.prems have no: "\<forall>x \<in> set ls. lx_lessonId x \<noteq> i" by (metis distinct.simps(2) image_eqI list.simps(9) set_map)
    then have "map (\<lambda>l. if lx_lessonId l = i then l\<lparr>lx_completed := b, lx_completedAt := t\<rparr> else l) ls = ls"
      by (simp add: map_idI)
    moreover have "filter (\<lambda>l. lx_lessonId l = i \<and> lx_completed l) ls = []" using no by (simp add: filter_empty_conv)
    ultimately show ?thesis using True by (simp add: count_rows_def)
  next
    case False
    with Cons show ?thesis by (auto simp: count_rows_def)
  qed
qed (simp add: count_rows_def)

subsection \<open>Properties\<close>

text \<open>C29: Progress is not lost when the client goes offline or a call fails: as long as nothing is put into the stored list while
  it is being sent, every update recorded is with the server or still stored, at every moment.\<close>

theorem no_update_lost:
  assumes "sy_runs s = []" "calm es s" "u \<in> set (recorded_in es) \<union> set (sy_stored s)"
  shows "u \<in> set (sy_received (run_ops sync_step es s)) \<union> set (sy_stored (run_ops sync_step es s))"
proof -
  have "safe_update u (run_ops sync_step es s)"
  proof (cases "u \<in> set (recorded_in es)")
    case True
    with assms(2) show ?thesis by (rule recorded_safe)
  next
    case False
    with assms(1,3) have "safe_update u s" by (simp add: safe_update_def)
    then show ?thesis by (rule sync.run_preserves)
  qed
  then show ?thesis by (auto simp: safe_update_def)
qed

text \<open>An update recorded offline while a run is sending the list is lost: the run ends by writing the list it read at its
  start, less what it sent, over the one the update was put into.\<close>

theorem update_lost_during_sync:
  assumes "sy_runs s = []" "sy_stored s \<noteq> []" "length rs = length (sy_stored s)"
    and "u \<notin> set (sy_stored s) \<union> set (sy_received s)"
  shows "u \<notin> set (sy_received (run_ops sync_step (SyncStarted True # Recorded False r u # map (Answer 0) rs) s))
         \<union> set (sy_stored (run_ops sync_step (SyncStarted True # Recorded False r u # map (Answer 0) rs) s))"
proof -
  let ?s = "client_record False r u (sync_start True s)"
  have "sy_runs ?s = [(sy_stored s, [])]" "sy_received ?s = sy_received s"
    using assms(1,2) by (simp_all add: client_record_def sync_start_def)
  from run_to_end[OF this(1) assms(2,3)] this(2) assms(4) show ?thesis by auto
qed

text \<open>After an answer with status 401 nobody is signed in, and until the next sign-in no request carries a token.\<close>

theorem no_token_after_401:
  assumes "\<forall>e \<in> set es. no_login e"
  shows "\<not> isAuthenticated (run_ops session_step (AnswerStatus 401 # es) s)
     \<and> (\<forall>x \<in> set (drop (length (ss_sent s)) (ss_sent (run_ops session_step (AnswerStatus 401 # es) s))). snd x = None)"
proof -
  have "ss_token (answer_arrives 401 s) = None" "ss_sent (answer_arrives 401 s) = ss_sent s"
    by (simp_all add: answer_arrives_def client_logout_def)
  with signed_out_run[OF this(1) assms] show ?thesis by (auto simp: isAuthenticated_def)
qed

text \<open>Signing in does not succeed: the profile is asked for before the session has the token, the server answers 401, and the
  client is sent back to the sign-in page.\<close>

theorem sign_in_fails:
  assumes "ss_token s = None" "server ''/users/me'' None = 401"
  shows "\<not> isAuthenticated (sign_in server access_token u s) \<and> ss_location (sign_in server access_token u s) = ''/login''"
  using assms by (simp add: sign_in_def send_request_def answer_arrives_def client_logout_def isAuthenticated_def Let_def)

text \<open>A refused bookmark call is taken back: an addition exactly when the course was not bookmarked before, a removal together
  with every change made while it was on its way.\<close>

theorem bookmarks_taken_back:
  "(addBookmark_failed c (addBookmark c bs) = bs) = (\<not> isBookmarked (fst c) bs)
   \<and> removeBookmark_failed bs (removeBookmark i bs) = bs
   \<and> isBookmarked (fst c) (removeBookmark_failed bs (addBookmark c (removeBookmark i bs))) = isBookmarked (fst c) bs"
proof -
  have "addBookmark_failed c (addBookmark c bs) = bs \<longleftrightarrow> (\<forall>b \<in> set bs. fst b \<noteq> fst c)"
    by (auto simp: addBookmark_failed_def addBookmark_def filter_id_conv)
  then show ?thesis by (auto simp: isBookmarked_def removeBookmark_failed_def)
qed

text \<open>At most three courses are compared, whatever is pressed; and none twice, when the toggle is all that is pressed.\<close>

theorem compare_bounded:
  assumes "length sel \<le> MAX_COMPARE" "distinct (map fst sel)"
  shows "length (run_ops compare_step es sel) \<le> 3
     \<and> ((\<forall>e \<in> set es. no_add e) \<longrightarrow> distinct (map fst (run_ops compare_step es sel)))"
  using comparison.run_preserves[of sel es] assms compare_distinct_run[OF assms(2)]
  by (auto simp: compare_ok_def MAX_COMPARE_def)

text \<open>Marking a lesson changes the number of completed lessons of its course by the difference of the lesson alone, and that
  of no other course.\<close>

theorem completed_count:
  assumes "distinct (map lx_lessonId (lessons_of c m))"
  shows "getCompleted c (markLesson now c i b m) + count_rows (\<lambda>l. lx_lessonId l = i \<and> lx_completed l) (lessons_of c m)
       = getCompleted c m + (if b then 1 else 0)
     \<and> (d \<noteq> c \<longrightarrow> getCompleted d (markLesson now c i b m) = getCompleted d m)"
proof -
  let ?ls = "lessons_of c m"
  have new: "lessons_of c (upsert_entry c (\<lambda>_. x) m) = x" for x by (simp add: lessons_of_def map_of_upsert_entry)
  have "getCompleted c (markLesson now c i b m) + count_rows (\<lambda>l. lx_lessonId l = i \<and> lx_completed l) ?ls
      = getCompleted c m + (if b then 1 else 0)"
  proof (cases "i \<in> lx_lessonId ` set ?ls")
    case True
    then have ex: "\<exists>l \<in> set ?ls. lx_lessonId l = i" by auto
    show ?thesis using count_lesson[OF assms, where i = i and b = b and t = "if b then Some now else None"] True ex
      by (simp add: getCompleted_def markLesson_def new Let_def)
  next
    case False
    then have no: "\<not> (\<exists>l \<in> set ?ls. lx_lessonId l = i)" "filter (\<lambda>l. lx_lessonId l = i \<and> lx_completed l) ?ls = []"
      by (auto simp: filter_empty_conv)
    then show ?thesis by (simp add: getCompleted_def markLesson_def new Let_def count_rows_def)
  qed
  moreover have "getCompleted d (markLesson now c i b m) = getCompleted d m" if "d \<noteq> c"
    using that by (simp add: getCompleted_def lessons_of_def markLesson_def map_of_upsert_entry Let_def)
  ultimately show ?thesis by blast
qed

text \<open>Marking all as read leaves nothing unread and tells the server exactly the ids that were, once; its confirmation changes
  nothing any more.\<close>

theorem mark_all_read:
  "unread (inbox_markAllRead s) = []
   \<and> ib_emitted (inbox_markAllRead s) = ib_emitted s @ (if unread s = [] then [] else [map an_id (unread s)])
   \<and> inbox_confirmed (map an_id (unread s)) (inbox_markAllRead s) = inbox_markAllRead s
   \<and> length (unread (inbox_incoming n s)) = length (unread s) + (if an_isRead n then 0 else 1)"
proof -
  let ?ids = "map an_id (unread s)"
  have "filter (\<lambda>n. \<not> an_isRead n) (set_read ?ids (ib_notifications s)) = []"
    by (auto simp: set_read_def unread_def filter_empty_conv)
  moreover have "set_read ids (set_read ids ns) = set_read ids ns" for ids ns by (simp add: set_read_def)
  moreover have "set_read [] ns = ns" for ns by (simp add: set_read_def)
  ultimately show ?thesis
    by (simp add: inbox_markAllRead_def inbox_markAsRead_def inbox_confirmed_def inbox_incoming_def unread_def Let_def)
qed

subsection \<open>Witnesses\<close>

definition sample_update :: "string \<Rightarrow> pending_update" where
  "sample_update l = \<lparr>pu_courseId = ''c'', pu_lessonId = l, pu_progressPct = 50, pu_timestamp = 1\<rparr>"

definition nothing_stored :: sync_state where
  "nothing_stored = \<lparr>sy_stored = [], sy_received = [], sy_runs = []\<rparr>"

definition offline_day :: "sync_event list" where
  "offline_day = [Recorded False Refused (sample_update ''a''), Recorded True Refused (sample_update ''b''), SyncStarted True,
     Answer 0 Accepted, Answer 0 Refused]"

theorem no_update_lost_witness:
  "sample_update ''b'' \<in> set (sy_received (run_ops sync_step offline_day nothing_stored))
     \<union> set (sy_stored (run_ops sync_step offline_day nothing_stored))"
proof -
  have "calm offline_day nothing_stored"
    by (simp add: offline_day_def nothing_stored_def client_record_def sync_start_def sync_answer_def arrives_def)
  moreover have "sample_update ''b'' \<in> set (recorded_in offline_day) \<union> set (sy_stored nothing_stored)" by (simp add: offline_day_def)
  ultimately show ?thesis using no_update_lost[of nothing_stored offline_day] by (simp add: nothing_stored_def)
qed

theorem update_lost_during_sync_witness:
  "sample_update ''b'' \<notin> set (sy_received (run_ops sync_step (SyncStarted True # Recorded False Refused (sample_update ''b'')
        # map (Answer 0) [Accepted]) (nothing_stored\<lparr>sy_stored := [sample_update ''a'']\<rparr>)))
     \<union> set (sy_stored (run_ops sync_step (SyncStarted True # Recorded False Refused (sample_update ''b'')
        # map (Answer 0) [Accepted]) (nothing_stored\<lparr>sy_stored := [sample_update ''a'']\<rparr>)))"
  by (rule update_lost_during_sync) (simp_all add: nothing_stored_def sample_update_def)

definition student_user :: auth_user where
  "student_user = \<lparr>sx_id = ''1'', sx_username = ''s'', sx_email = ''s'', sx_role = ''student''\<rparr>"

definition signed_out :: session where
  "signed_out = \<lparr>ss_token = None, ss_user = None, ss_location = ''/'', ss_sent = []\<rparr>"

theorem no_token_after_401_witness:
  "\<not> isAuthenticated (run_ops session_step (AnswerStatus 401 # [Send ''/courses'', SetUser student_user])
       (client_login ''t'' student_user signed_out))
   \<and> (\<forall>x \<in> set (drop (length (ss_sent (client_login ''t'' student_user signed_out)))
        (ss_sent (run_ops session_step (AnswerStatus 401 # [Send ''/courses'', SetUser student_user])
          (client_login ''t'' student_user signed_out)))). snd x = None)"
  by (rule no_token_after_401) simp

theorem sign_in_fails_witness:
  "\<not> isAuthenticated (sign_in (\<lambda>path header. if header = None then 401 else 200) ''t'' student_user signed_out)
   \<and> ss_location (sign_in (\<lambda>path header. if header = None then 401 else 200) ''t'' student_user signed_out) = ''/login''"
  by (rule sign_in_fails) (simp_all add: signed_out_def)

theorem compare_bounded_witness:
  "length (run_ops compare_step [CompareToggle (''a'', ()), CompareToggle (''b'', ()), CompareToggle (''c'', ()), CompareToggle (''d'', ())]
     []) \<le> 3
   \<and> distinct (map fst (run_ops compare_step [CompareToggle (''a'', ()), CompareToggle (''b'', ()), CompareToggle (''c'', ()),
     CompareToggle (''d'', ())] []))"
  using compare_bounded[of "[] :: (unit bookmark) list" "[CompareToggle (''a'', ()), CompareToggle (''b'', ()), CompareToggle (''c'', ()),
     CompareToggle (''d'', ())]"] by simp

theorem completed_count_witness:
  "getCompleted ''c'' (markLesson 5 ''c'' ''l'' True []) = 1 \<and> getCompleted ''d'' (markLesson 5 ''c'' ''l'' True []) = 0"
  using completed_count[of "''c''" "[]" 5 "''l''" True "''d''"] by (simp add: lessons_of_def getCompleted_def count_rows_def)

end
