(* ===== verification/Swap.thy ===== *)
theory Swap
  imports Js_Number
begin

text \<open>
  The swap form of the web client (\<open>apps/frontend/src/components/LiquidityPoolSwap.tsx\<close>): the quote of a
  constant-product pool and the least amount a swap accepts. The numbers are the values \<open>Number\<close> reads from the
  texts of the form, \<open>None\<close> where it gives NaN.
\<close>

subsection \<open>The quote\<close>

text \<open>\<open>toFixed(6)\<close> in millionths; ties go up.\<close>

definition millionths :: "js_num \<Rightarrow> int" where
  "millionths x = \<lfloor>x * 1000000 + 1 / 2\<rfloor>"

definition from_millionths :: "int \<Rightarrow> js_num" where
  "from_millionths n = fl (of_int n / 1000000)"

record pool_stats =
  po_reserveA :: js_num
  po_reserveB :: js_num

record quote_result =
  qr_estimatedOutput :: int
  qr_priceImpact :: js_num
  qr_exchangeRate :: js_num

definition FEE :: js_num where
  "FEE = fl (3 / 1000)"

definition amount_with_fee :: "js_num \<Rightarrow> js_num" where
  "amount_with_fee amount = js_mul amount (js_sub 1 FEE)"

definition swap_output :: "js_num \<Rightarrow> js_num \<Rightarrow> js_num \<Rightarrow> js_num" where
  "swap_output rIn rOut amount =
     js_div (js_mul rOut (amount_with_fee amount)) (js_add rIn (amount_with_fee amount))"

definition price_impact :: "js_num \<Rightarrow> js_num \<Rightarrow> js_num \<Rightarrow> js_num" where
  "price_impact rIn rOut amount =
     js_mul (js_sub 1 (js_div (js_div (swap_output rIn rOut amount) amount) (js_div rOut rIn))) 100"

definition getQuote :: "pool_stats option \<Rightarrow> js_num option \<Rightarrow> bool \<Rightarrow> quote_result option" where
  "getQuote stats amount bst_in =
     (case (stats, amount) of
        (Some p, Some a) \<Rightarrow>
          (let rIn = (if bst_in then po_reserveA p else po_reserveB p);
               rOut = (if bst_in then po_reserveB p else po_reserveA p)
           in if a \<le> 0 \<or> rIn \<le> 0 \<or> rOut \<le> 0 then None
              else Some \<lparr>qr_estimatedOutput = millionths (swap_output rIn rOut a),
                         qr_priceImpact = max 0 (price_impact rIn rOut a),
                         qr_exchangeRate = js_div (swap_output rIn rOut a) a\<rparr>)
      | _ \<Rightarrow> None)"

definition minOut :: "quote_result option \<Rightarrow> js_num \<Rightarrow> int" where
  "minOut q slippage =
     (case q of
        None \<Rightarrow> 0
      | Some r \<Rightarrow> millionths (js_mul (from_millionths (qr_estimatedOutput r)) (js_sub 1 (js_div slippage 100))))"

subsection \<open>The form\<close>

record swap_form =
  sf_bstIn :: bool
  sf_amount :: "js_num option"
  sf_quote :: "quote_result option"
  sf_result :: "string option"
  sf_error :: "string option"
  sf_swaps :: "(bool \<times> js_num \<times> int) list"

definition isHighPriceImpact :: "js_num \<Rightarrow> swap_form \<Rightarrow> bool" where
  "isHighPriceImpact threshold f = (case sf_quote f of None \<Rightarrow> False | Some q \<Rightarrow> threshold < qr_priceImpact q)"

text \<open>A swap with the quote on display; the wallet answers with the amount or an error.\<close>

definition handleSwap :: "(bool \<Rightarrow> js_num \<Rightarrow> int \<Rightarrow> string + string) \<Rightarrow> js_num \<Rightarrow> swap_form \<Rightarrow> swap_form" where
  "handleSwap onSwap slippage f =
     (case (sf_amount f, sf_quote f) of
        (Some a, Some q) \<Rightarrow>
          (let least = minOut (Some q) slippage; g = f\<lparr>sf_result := None, sf_error := None, sf_swaps := sf_swaps f @ [(sf_bstIn f, a, least)]\<rparr>
           in case onSwap (sf_bstIn f) a least of
                Inr out \<Rightarrow> g\<lparr>sf_result := Some out, sf_amount := None, sf_quote := None\<rparr>
              | Inl m \<Rightarrow> g\<lparr>sf_error := Some m\<rparr>)
      | _ \<Rightarrow> f)"

text \<open>A key in the amount field: the quote on display goes when the field is empty or not positive, else it stays until the
  timer brings the new one.\<close>

definition type_amount :: "js_num option \<Rightarrow> swap_form \<Rightarrow> swap_form" where
  "type_amount a f =
     f\<lparr>sf_amount := a, sf_quote := (case a of None \<Rightarrow> None | Some x \<Rightarrow> if x \<le> 0 then None else sf_quote f)\<rparr>"

definition quote_arrives :: "pool_stats option \<Rightarrow> swap_form \<Rightarrow> swap_form" where
  "quote_arrives stats f = f\<lparr>sf_quote := getQuote stats (sf_amount f) (sf_bstIn f)\<rparr>"

subsection \<open>Facts\<close>

lemma fee_factor: "0 < js_sub 1 FEE \<and> js_sub 1 FEE \<le> 1"
proof -
  have f: "0 \<le> FEE" "FEE \<le> 1 / 2" using fl_nonneg[of "3 / 1000"] fl_rel[of "3 / 1000"] by (simp_all add: FEE_def)
  have "fl (1 - FEE) \<le> 1" using fl_mono[of "1 - FEE" 1] f by simp
  moreover have "0 < fl (1 - FEE)"
  proof -
    have "(1 - FEE) * (1 - 1 / 2 ^ 53) \<le> fl (1 - FEE)" using fl_rel[of "1 - FEE"] f by simp
    moreover have "0 < (1 - FEE) * (1 - 1 / 2 ^ 53)" using f by (intro mult_pos_pos) simp_all
    ultimately show ?thesis by linarith
  qed
  ultimately show ?thesis by (simp add: js_sub_def)
qed

lemma fl_positive: "0 < x \<Longrightarrow> 0 < fl x"
  using fl_pos_positive by (simp add: fl_def)

lemma amount_with_fee_pos: "0 < a \<Longrightarrow> 0 < amount_with_fee a"
  using fee_factor by (simp add: amount_with_fee_def js_mul_def fl_positive)

lemma millionths_mono: "x \<le> y \<Longrightarrow> millionths x \<le> millionths y"
  by (simp add: millionths_def floor_mono)

text \<open>A decimal of six places reads back as itself.\<close>

lemma millionths_roundtrip:
  assumes "0 \<le> n" "n \<le> 2 ^ 51"
  shows "millionths (from_millionths n) = n"
proof -
  let ?q = "of_int n / 1000000 :: rat"
  have "\<bar>fl ?q - ?q\<bar> \<le> \<bar>?q\<bar> / 2 ^ 53" by (rule fl_error)
  also have "\<dots> = ?q / 2 ^ 53" using assms(1) by simp
  also have "\<dots> \<le> of_int (2 ^ 51) / 1000000 / 2 ^ 53"
    using assms(2) by (intro divide_right_mono) (simp_all add: of_int_le_iff[symmetric] del: of_int_le_iff)
  finally have "\<bar>fl ?q - ?q\<bar> \<le> 1 / 4000000" by simp
  then have "?q - 1 / 4000000 \<le> fl ?q" "fl ?q \<le> ?q + 1 / 4000000" unfolding abs_le_iff by linarith+
  moreover have "?q * 1000000 = of_int n" by simp
  ultimately have "of_int n - 1 / 4 \<le> fl ?q * 1000000" "fl ?q * 1000000 \<le> of_int n + 1 / 4" by linarith+
  then show ?thesis by (simp add: millionths_def from_millionths_def floor_eq_iff)
qed

text \<open>The output is at most what the pool holds, up to two roundings.\<close>

lemma swap_output_bounds:
  assumes "0 < rIn" "0 < rOut" "0 < a"
  shows "0 \<le> swap_output rIn rOut a \<and> swap_output rIn rOut a \<le> rOut * (1 + 1 / 2 ^ 53)\<^sup>2"
proof -
  let ?w = "amount_with_fee a" and ?k = "1 + 1 / 2 ^ 53 :: rat"
  have w: "0 < ?w" by (rule amount_with_fee_pos[OF assms(3)])
  have "fl ?w = ?w" by (simp add: amount_with_fee_def js_mul_def)
  then have D: "?w \<le> js_add rIn ?w" using fl_mono[of ?w "rIn + ?w"] assms(1) by (simp add: js_add_def)
  have N: "0 \<le> js_mul rOut ?w" "js_mul rOut ?w \<le> rOut * ?w * ?k"
    using fl_rel[of "rOut * ?w"] fl_nonneg[of "rOut * ?w"] assms(2) w by (simp_all add: js_mul_def)
  have "js_mul rOut ?w / js_add rIn ?w \<le> rOut * ?w * ?k / ?w"
    using N D w by (intro frac_le) simp_all
  also have "\<dots> = rOut * ?k" using w by simp
  finally have q: "js_mul rOut ?w / js_add rIn ?w \<le> rOut * ?k" .
  have q0: "0 \<le> js_mul rOut ?w / js_add rIn ?w" using N(1) D w by (intro divide_nonneg_nonneg) simp_all
  have "swap_output rIn rOut a \<le> js_mul rOut ?w / js_add rIn ?w * ?k"
    using fl_rel[OF q0] by (simp add: swap_output_def js_div_def)
  also have "\<dots> \<le> rOut * ?k * ?k" using q by (intro mult_right_mono) simp_all
  finally have "swap_output rIn rOut a \<le> rOut * ?k\<^sup>2" by (simp add: power2_eq_square mult.assoc)
  moreover have "0 \<le> swap_output rIn rOut a" using fl_nonneg[OF q0] by (simp add: swap_output_def js_div_def)
  ultimately show ?thesis by simp
qed

subsection \<open>Properties\<close>

text \<open>C34: A quote never promises more than the pool holds, up to half a millionth and two roundings, and its price impact is a
  percentage.\<close>

theorem quote_bounds:
  assumes "getQuote (Some p) (Some a) bst_in = Some q"
  shows "0 \<le> qr_priceImpact q \<and> qr_priceImpact q \<le> 100 \<and> 0 \<le> qr_estimatedOutput q
     \<and> of_int (qr_estimatedOutput q)
        \<le> (if bst_in then po_reserveB p else po_reserveA p) * (1 + 1 / 2 ^ 53)\<^sup>2 * 1000000 + 1 / 2"
proof -
  define rIn rOut where "rIn = (if bst_in then po_reserveA p else po_reserveB p)"
    and "rOut = (if bst_in then po_reserveB p else po_reserveA p)"
  have pos: "0 < a" "0 < rIn" "0 < rOut"
    and q: "q = \<lparr>qr_estimatedOutput = millionths (swap_output rIn rOut a), qr_priceImpact = max 0 (price_impact rIn rOut a),
      qr_exchangeRate = js_div (swap_output rIn rOut a) a\<rparr>"
    using assms by (auto simp: getQuote_def rIn_def rOut_def Let_def split: if_splits)
  have b: "0 \<le> swap_output rIn rOut a \<and> swap_output rIn rOut a \<le> rOut * (1 + 1 / 2 ^ 53)\<^sup>2"
    by (rule swap_output_bounds[OF pos(2,3,1)])
  define x where "x = js_div (js_div (swap_output rIn rOut a) a) (js_div rOut rIn)"
  have "0 \<le> js_div (swap_output rIn rOut a) a" using b pos(1) by (simp add: js_div_nonneg)
  then have "0 \<le> x" using pos(2,3) unfolding x_def by (simp add: js_div_nonneg)
  then have "js_sub 1 x \<le> 1" using fl_mono[of "1 - x" 1] by (simp add: js_sub_def)
  then have "js_mul (js_sub 1 x) 100 \<le> 100" using fl_mono[of "js_sub 1 x * 100" 100] by (simp add: js_mul_def)
  then have impact: "0 \<le> qr_priceImpact q \<and> qr_priceImpact q \<le> 100" unfolding q by (simp add: price_impact_def x_def)
  have low: "0 \<le> \<lfloor>swap_output rIn rOut a * 1000000 + 1 / 2\<rfloor>" using b by simp
  have "of_int \<lfloor>swap_output rIn rOut a * 1000000 + 1 / 2\<rfloor> \<le> swap_output rIn rOut a * 1000000 + 1 / 2"
    by (rule of_int_floor_le)
  also have "\<dots> \<le> rOut * (1 + 1 / 2 ^ 53)\<^sup>2 * 1000000 + 1 / 2" using b by simp
  finally show ?thesis using impact low unfolding rOut_def[symmetric] q millionths_def by (simp del: of_int_floor_le)
qed

text \<open>With a slippage between 0 and 100 percent the least amount accepted is between nothing and the amount quoted.\<close>

theorem min_out_bounds:
  assumes "0 \<le> slippage" "slippage \<le> 100" "0 \<le> qr_estimatedOutput q" "qr_estimatedOutput q \<le> 2 ^ 51"
  shows "0 \<le> minOut (Some q) slippage \<and> minOut (Some q) slippage \<le> qr_estimatedOutput q"
proof -
  let ?n = "from_millionths (qr_estimatedOutput q)" and ?f = "js_sub 1 (js_div slippage 100)"
  have d: "0 \<le> js_div slippage 100" "js_div slippage 100 \<le> 1" using js_div_unit[of slippage 100] assms(1,2) by simp_all
  have f: "0 \<le> ?f" "?f \<le> 1"
    using d fl_nonneg[of "1 - js_div slippage 100"] fl_mono[of "1 - js_div slippage 100" 1] by (simp_all add: js_sub_def)
  have n: "0 \<le> ?n" "fl ?n = ?n" using assms(3) fl_nonneg by (simp_all add: from_millionths_def)
  have "?n * ?f \<le> ?n" using mult_left_mono[OF f(2) n(1)] by simp
  then have "js_mul ?n ?f \<le> ?n" using fl_mono[of "?n * ?f" ?n] n(2) by (simp add: js_mul_def)
  then have "millionths (js_mul ?n ?f) \<le> millionths ?n" by (rule millionths_mono)
  also have "\<dots> = qr_estimatedOutput q" by (rule millionths_roundtrip[OF assms(3,4)])
  finally have "millionths (js_mul ?n ?f) \<le> qr_estimatedOutput q" .
  moreover have "0 \<le> js_mul ?n ?f" by (rule js_mul_nonneg[OF n(1) f(1)])
  then have "0 \<le> millionths (js_mul ?n ?f)" by (simp add: millionths_def)
  ultimately show ?thesis by (simp add: minOut_def)
qed

text \<open>A swap started before the timer has brought the new quote sends the new amount with the least amount of the old quote,
  and the guard against a high price impact still judges the old one.\<close>

theorem stale_quote_swaps:
  assumes "sf_quote f = Some q" "0 < a"
  shows "last (sf_swaps (handleSwap onSwap slippage (type_amount (Some a) f))) = (sf_bstIn f, a, minOut (Some q) slippage)
     \<and> isHighPriceImpact threshold (type_amount (Some a) f) = isHighPriceImpact threshold f"
  using assms by (simp add: handleSwap_def type_amount_def isHighPriceImpact_def Let_def split: sum.split)

subsection \<open>Witnesses\<close>

definition even_pool :: pool_stats where
  "even_pool = \<lparr>po_reserveA = 1000, po_reserveB = 500\<rparr>"

theorem quote_bounds_witness:
  "\<exists>q. getQuote (Some even_pool) (Some 10) True = Some q \<and> qr_priceImpact q \<le> 100"
proof -
  obtain q where q: "getQuote (Some even_pool) (Some 10) True = Some q" by (simp add: getQuote_def even_pool_def)
  with quote_bounds[OF q] show ?thesis by blast
qed

theorem min_out_bounds_witness:
  "minOut (Some \<lparr>qr_estimatedOutput = 4935790, qr_priceImpact = 1, qr_exchangeRate = 1 / 2\<rparr>) (1 / 2) \<le> 4935790"
  using min_out_bounds[of "1 / 2" "\<lparr>qr_estimatedOutput = 4935790, qr_priceImpact = 1, qr_exchangeRate = 1 / 2\<rparr>"] by simp

definition quoted_form :: "quote_result \<Rightarrow> swap_form" where
  "quoted_form q = \<lparr>sf_bstIn = True, sf_amount = Some 1, sf_quote = Some q, sf_result = None, sf_error = None, sf_swaps = []\<rparr>"

theorem stale_quote_swaps_witness:
  "last (sf_swaps (handleSwap (\<lambda>_ _ _. Inr ''ok'') 1 (type_amount (Some 900)
      (quoted_form \<lparr>qr_estimatedOutput = 5, qr_priceImpact = 1, qr_exchangeRate = 1\<rparr>))))
   = (True, 900, minOut (Some \<lparr>qr_estimatedOutput = 5, qr_priceImpact = 1, qr_exchangeRate = 1\<rparr>) 1)"
  using stale_quote_swaps[of "quoted_form \<lparr>qr_estimatedOutput = 5, qr_priceImpact = 1, qr_exchangeRate = 1\<rparr>" _ 900 "\<lambda>_ _ _. Inr ''ok''" 1]
  by (simp add: quoted_form_def)

end
