(* ===== verification/Routes.thy ===== *)
theory Routes
  imports Assignments Auth
begin

text \<open>
  How a request reaches a service method: the decorators of the controllers as data, the guards
  (\<open>auth/roles.guard.ts\<close>, \<open>auth/jwt-auth.guard.ts\<close>, \<open>auth/api-key-auth.guard.ts\<close>, \<open>auth/google-auth.guard.ts\<close>,
  \<open>database/non-production.guard.ts\<close>, \<open>assignments/assignment-ownership.guard.ts\<close>), the prefix of \<open>main.ts\<close>, and the
  modules \<open>app.module.ts\<close> brings in. The decorators have the meaning NestJS documents: the guards of the class run before
  those of the method, metadata of the method hides that of the class, the first registered route that matches answers. What
  a strategy of passport finds in the credentials of a request is a parameter; so is what the limiters in front let through.
\<close>

subsection \<open>Requests\<close>

datatype verb = HttpGet | HttpPost | HttpPut | HttpPatch | HttpDelete

text \<open>The path in its segments, behind the host. The values of the body, the query and the headers are texts here: a
  handler passes them on.\<close>

record http_request =
  rq_verb :: verb
  rq_path :: "string list"
  rq_query :: "string \<Rightarrow> string option"
  rq_body :: "string \<Rightarrow> string option"
  rq_header :: "string \<Rightarrow> string option"
  rq_file :: bool

type_synonym signed_in = "uuid \<times> string \<times> string"

datatype strategy = JwtStrategy | ApiKeyStrategy | GoogleStrategy

record site =
  si_passport :: "strategy \<Rightarrow> http_request \<Rightarrow> signed_in option"
  si_limited :: "http_request \<Rightarrow> bool"
  si_nodeEnv :: string
  si_assignments :: assignment_db
  si_uuid :: "string \<Rightarrow> uuid option"

subsection \<open>Controllers\<close>

datatype segment = Lit string | Par string

datatype guard =
    JwtAuthGuard
  | RolesGuard
  | GoogleAuthGuard
  | JwtOrApiKey
  | NonProductionGuard
  | AssignmentOwnershipGuard

text \<open>The services the controllers are given.\<close>

datatype service =
    AccessControlService | AdaptiveLearningService | AnalyticsService | AnnouncementsService | ApiKeysService
  | ApiUsageService | AssignmentsService | AuditService | AuthService | StellarAuthService | BatchService
  | BundlesService | CdnService | CertificatesService | CertificatePdfService | CohortsService | CouponsService
  | CourseVersioningService | CoursesService | ModulesService | LessonsService | TranscribeService
  | PrerequisitesService | ReviewsService | CredentialsService | MigrationRunnerService | DownloadsService
  | EmailService | EnrollmentsService | ForumsService | HealthCheckService | HealthService | ImportExportService
  | InstructorApplicationsService | KycService | LeaderboardService | LearningPathsService | LiveSessionsService
  | ModerationService | NotesService | NotificationsService | PushNotificationsService | PaymentsService
  | CurrencyConversionService | PayoutsService | ProgressService | QaService | QuizzesService | RecommendationsService
  | RemindersService | SearchService | SecretRotationService | NetworkMonitorService | StellarService | UsersService
  | StreaksService | SubscriptionsService | SurveysService | WaitlistService | WebhooksService

text \<open>Where an argument of a call comes from; \<open>Result\<close> is computed from the results of the calls before it.\<close>

datatype arg =
    UserField string
  | UserObject
  | PathParam string
  | BodyField string
  | Body
  | QueryField string
  | QueryObject
  | Header string
  | RawBody
  | Upload
  | ClientAddress
  | Const string
  | Converted string arg
  | Defaulted arg string
  | Fields "(string \<times> arg) list"
  | Result

text \<open>The checks handlers make themselves before the first call: of the user, the parameters and the uploaded file.\<close>

type_synonym check = "signed_in option \<Rightarrow> (string \<times> string) list \<Rightarrow> http_request \<Rightarrow> http_error option"

datatype handler =
  Handler (hd_verb: verb) (hd_path: "segment list") (hd_guards: "guard list") (hd_roles: "string list option")
    (hd_name: string) (hd_check: check) (hd_calls: "(service \<times> string \<times> arg list) list")

datatype controller =
  Controller (ct_name: string) (ct_prefixed: bool) (ct_path: "segment list") (ct_guards: "guard list")
    (ct_roles: "string list option") (ct_handlers: "handler list")

record route =
  rt_name :: string
  rt_verb :: verb
  rt_path :: "segment list"
  rt_guards :: "guard list"
  rt_roles :: "string list option"
  rt_check :: check
  rt_calls :: "(service \<times> string \<times> arg list) list"

text \<open>The global prefix goes before every path, except those of the health controller.\<close>

definition global_prefix :: "bool \<Rightarrow> segment list" where
  "global_prefix prefixed = (if prefixed then [Lit ''v1''] else [])"

definition routes_of :: "controller \<Rightarrow> route list" where
  "routes_of c =
     map (\<lambda>h. \<lparr>rt_name = ct_name c @ ''.'' @ hd_name h, rt_verb = hd_verb h,
               rt_path = global_prefix (ct_prefixed c) @ ct_path c @ hd_path h,
               rt_guards = ct_guards c @ hd_guards h,
               rt_roles = (case hd_roles h of Some rs \<Rightarrow> Some rs | None \<Rightarrow> ct_roles c),
               rt_check = hd_check h, rt_calls = hd_calls h\<rparr>) (ct_handlers c)"

subsection \<open>Checks\<close>

definition no_check :: check where
  "no_check u ps rq = None"

definition own_profile :: check where
  "own_profile u ps rq =
     (if map_option (\<lambda>(i, e, r). string_of_nat i) u \<noteq> map_of ps ''id''
      then Some (ForbiddenException ''You can only update your own profile'') else None)"

definition own_or_admin :: check where
  "own_or_admin u ps rq =
     (if map_option (\<lambda>(i, e, r). string_of_nat i) u \<noteq> map_of ps ''userId''
         \<and> map_option (\<lambda>(i, e, r). r) u \<noteq> Some ''admin''
      then Some (ForbiddenException ''You can only issue certificates for your own account'') else None)"

definition file_given :: check where
  "file_given u ps rq = (if rq_file rq then None else Some (BadRequestException ''No file uploaded''))"

definition files_given :: check where
  "files_given u ps rq = (if rq_file rq then None else Some (BadRequestException ''No files uploaded''))"

subsection \<open>Guards\<close>

text \<open>An authentication guard puts the user of the strategy that succeeds into the request, or refuses.\<close>

fun passport_guard :: "site \<Rightarrow> http_request \<Rightarrow> strategy list \<Rightarrow> http_error + signed_in option" where
  "passport_guard st rq [] = Inl (UnauthorizedException ''Unauthorized'')"
| "passport_guard st rq (g # gs) =
     (case si_passport st g rq of Some u \<Rightarrow> Inr (Some u) | None \<Rightarrow> passport_guard st rq gs)"

definition non_production_guard :: "site \<Rightarrow> http_error + bool" where
  "non_production_guard st =
     (if si_nodeEnv st = ''production''
      then Inl (ForbiddenException
        ''Migration endpoints are disabled in production. Use the CLI to manage migrations.'')
      else Inr True)"

text \<open>A parameter that is no id makes the query of the guard fail.\<close>

definition ownership_guard :: "site \<Rightarrow> (string \<times> string) list \<Rightarrow> signed_in option \<Rightarrow> http_error + bool" where
  "ownership_guard st ps usr =
     (let u = map_option (\<lambda>(i, e, r). (i, r)) usr
      in case map_of ps ''id'' of
           None \<Rightarrow> canActivate u None (si_assignments st)
         | Some t \<Rightarrow>
             (case si_uuid st t of
                Some i \<Rightarrow> canActivate u (Some i) (si_assignments st)
              | None \<Rightarrow> (case canActivate u None (si_assignments st) of
                          Inl (NotFoundException m) \<Rightarrow> Inl (JsError ''invalid input syntax for type uuid'')
                        | x \<Rightarrow> x)))"

definition admitted :: "http_error + bool \<Rightarrow> signed_in option \<Rightarrow> http_error + signed_in option" where
  "admitted x u = (case x of Inl e \<Rightarrow> Inl e
                   | Inr b \<Rightarrow> if b then Inr u else Inl (ForbiddenException ''Forbidden resource''))"

definition run_guard ::
  "site \<Rightarrow> http_request \<Rightarrow> (string \<times> string) list \<Rightarrow> string list option \<Rightarrow> guard \<Rightarrow> signed_in option
   \<Rightarrow> http_error + signed_in option" where
  "run_guard st rq ps roles g u =
     (case g of
        JwtAuthGuard \<Rightarrow> passport_guard st rq [JwtStrategy]
      | GoogleAuthGuard \<Rightarrow> passport_guard st rq [GoogleStrategy]
      | JwtOrApiKey \<Rightarrow> passport_guard st rq [JwtStrategy, ApiKeyStrategy]
      | RolesGuard \<Rightarrow> admitted (Inr (roles_guard roles u)) u
      | NonProductionGuard \<Rightarrow> admitted (non_production_guard st) u
      | AssignmentOwnershipGuard \<Rightarrow> admitted (ownership_guard st ps u) u)"

fun run_guards ::
  "site \<Rightarrow> http_request \<Rightarrow> (string \<times> string) list \<Rightarrow> string list option \<Rightarrow> guard list \<Rightarrow> signed_in option
   \<Rightarrow> http_error + signed_in option" where
  "run_guards st rq ps roles [] u = Inr u"
| "run_guards st rq ps roles (g # gs) u =
     (case run_guard st rq ps roles g u of Inl e \<Rightarrow> Inl e | Inr u' \<Rightarrow> run_guards st rq ps roles gs u')"

subsection \<open>Answers\<close>

text \<open>Fixed segments are compared without regard to case (\<open>keys\<close> is the path in lower case), a parameter takes any one
  segment as it is.\<close>

fun match_path :: "segment list \<Rightarrow> string list \<Rightarrow> string list \<Rightarrow> (string \<times> string) list option" where
  "match_path [] [] path = Some []"
| "match_path (Lit l # ss) (k # ks) path = (if l = k then match_path ss ks (tl path) else None)"
| "match_path (Par p # ss) (k # ks) path =
     map_option (\<lambda>ps. (p, hd path) # ps) (match_path ss ks (tl path))"
| "match_path _ _ path = None"

definition matching :: "verb \<Rightarrow> string list \<Rightarrow> route \<Rightarrow> bool" where
  "matching v path r \<longleftrightarrow> rt_verb r = v \<and> match_path (rt_path r) (map toLowerCase path) path \<noteq> None"

definition dispatch :: "route list \<Rightarrow> verb \<Rightarrow> string list \<Rightarrow> route option" where
  "dispatch rs v path = find (matching v path) rs"

text \<open>A value a handler passes on.\<close>

datatype sent = Missing | Text string | Whole string | Made string sent | Object "(string \<times> sent) list"

definition sent_text :: "string option \<Rightarrow> sent" where
  "sent_text x = (case x of None \<Rightarrow> Missing | Some t \<Rightarrow> Text t)"

definition user_field :: "string \<Rightarrow> signed_in option \<Rightarrow> string option" where
  "user_field k u =
     (case u of None \<Rightarrow> None
      | Some (i, e, r) \<Rightarrow> map_of [(''id'', string_of_nat i), (''email'', e), (''role'', r)] k)"

fun sent_of :: "http_request \<Rightarrow> (string \<times> string) list \<Rightarrow> signed_in option \<Rightarrow> arg \<Rightarrow> sent" where
  "sent_of rq ps u (UserField k) = sent_text (user_field k u)"
| "sent_of rq ps u UserObject = Whole ''user''"
| "sent_of rq ps u (PathParam k) = sent_text (map_of ps k)"
| "sent_of rq ps u (BodyField k) = sent_text (rq_body rq k)"
| "sent_of rq ps u Body = Whole ''body''"
| "sent_of rq ps u (QueryField k) = sent_text (rq_query rq k)"
| "sent_of rq ps u QueryObject = Whole ''query''"
| "sent_of rq ps u (Header k) = sent_text (rq_header rq k)"
| "sent_of rq ps u RawBody = Whole ''rawBody''"
| "sent_of rq ps u Upload = Whole ''file''"
| "sent_of rq ps u ClientAddress = Whole ''ip''"
| "sent_of rq ps u (Const t) = Text t"
| "sent_of rq ps u (Converted f a) = (case sent_of rq ps u a of Missing \<Rightarrow> Missing | x \<Rightarrow> Made f x)"
| "sent_of rq ps u (Defaulted a t) = (case sent_of rq ps u a of Missing \<Rightarrow> Text t | x \<Rightarrow> x)"
| "sent_of rq ps u (Fields fs) = Object (map (\<lambda>(k, a). (k, sent_of rq ps u a)) fs)"
| "sent_of rq ps u Result = Whole ''result''"

type_synonym service_call = "service \<times> string \<times> sent list"

text \<open>The calls a handler makes, in order, when no call and no check of a result ends it before.\<close>

definition run_route :: "site \<Rightarrow> http_request \<Rightarrow> route \<Rightarrow> http_error + signed_in option \<times> service_call list" where
  "run_route st rq r =
     (let ps = the (match_path (rt_path r) (map toLowerCase (rq_path rq)) (rq_path rq))
      in case run_guards st rq ps (rt_roles r) (rt_guards r) None of
           Inl e \<Rightarrow> Inl e
         | Inr u \<Rightarrow>
             (case rt_check r u ps rq of
                Some e \<Rightarrow> Inl e
              | None \<Rightarrow> Inr (u, map (\<lambda>(v, m, as). (v, m, map (sent_of rq ps u) as)) (rt_calls r))))"

text \<open>The two limiters are global guards: they run before those of the route.\<close>

definition answer_request :: "route list \<Rightarrow> site \<Rightarrow> http_request \<Rightarrow> http_error + signed_in option \<times> service_call list" where
  "answer_request rs st rq =
     (case dispatch rs (rq_verb rq) (rq_path rq) of
        None \<Rightarrow> Inl (NotFoundException ''Cannot find the route'')
      | Some r \<Rightarrow> if si_limited st rq then Inl (TooManyRequests ''ThrottlerException: Too Many Requests'') else run_route st rq r)"

end
