(* ===== verification/Controllers.thy ===== *)
theory Controllers
  imports Routes
begin

text \<open>
  The controllers of \<open>apps/backend/src\<close>, each with its decorators and, handler by handler, the calls its body makes
  (\<open>*.controller.ts\<close>, in the order of the files). The second \<open>CredentialsController\<close>, of \<open>stellar.controller.ts\<close>, has the
  module in its name.
\<close>

definition AccessControlController :: controller where
  "AccessControlController = Controller ''AccessControlController'' True [Lit ''v1'', Lit ''access-control''] [JwtAuthGuard] None
    [Handler HttpPost [Lit ''grant''] [RolesGuard] (Some [''admin'']) ''grantAccess'' no_check [(AccessControlService,
        ''grantAccess'', [BodyField ''courseId'', BodyField ''userId'', BodyField ''role'',
        Converted ''Date'' (BodyField ''subscriptionExpiryDate''), BodyField ''allowedIpAddresses''])],
     Handler HttpPost [Lit ''grant'', Lit ''timed''] [RolesGuard] (Some [''admin'']) ''grantTimedAccess'' no_check
        [(AccessControlService, ''grantTimeLimitedAccess'', [BodyField ''courseId'', BodyField ''userId'', BodyField ''role'',
        BodyField ''expiresInHours''])],
     Handler HttpPost [Lit ''verify-content''] [] None ''verifyContentAccess'' no_check [(AccessControlService,
        ''verifyContentAccess'', [BodyField ''courseId'', BodyField ''userId'', BodyField ''contentId'', ClientAddress])],
     Handler HttpPost [Lit ''check''] [] None ''checkAccess'' no_check [(AccessControlService, ''checkAccess'',
        [BodyField ''courseId'', BodyField ''userId'', ClientAddress])],
     Handler HttpDelete [Par ''courseId'', Lit ''users'', Par ''userId''] [RolesGuard] (Some [''admin'']) ''revokeAccess''
        no_check [(AccessControlService, ''revokeAccess'', [PathParam ''courseId'', PathParam ''userId''])],
     Handler HttpPost [Par ''courseId'', Lit ''users'', Par ''userId'',
        Lit ''subscription''] [RolesGuard] (Some [''admin'']) ''updateSubscription'' no_check [(AccessControlService,
        ''updateSubscription'', [PathParam ''courseId'', PathParam ''userId'', Converted ''Date'' (BodyField ''expiryDate'')])],
     Handler HttpGet [Par ''courseId'', Lit ''logs''] [RolesGuard] (Some [''admin'']) ''getAccessLogs'' no_check
        [(AccessControlService, ''getAccessLogs'', [PathParam ''courseId'', BodyField ''userId'',
        Defaulted (BodyField ''days'') ''30''])],
     Handler HttpGet [Par ''courseId'', Lit ''users'', Par ''userId''] [] None ''getAccessControl'' no_check
        [(AccessControlService, ''getAccessControl'', [PathParam ''courseId'', PathParam ''userId''])],
     Handler HttpGet [Par ''courseId'', Lit ''users''] [RolesGuard] (Some [''admin'']) ''getCourseAccessList'' no_check
        [(AccessControlService, ''getCourseAccessList'', [PathParam ''courseId''])]]"

definition AdaptiveLearningController :: controller where
  "AdaptiveLearningController = Controller ''AdaptiveLearningController'' True [Lit ''adaptive-learning''] [JwtAuthGuard] None
    [Handler HttpPost [Lit ''record''] [] None ''recordResult'' no_check [(AdaptiveLearningService, ''recordQuizResult'',
        [UserField ''id'', BodyField ''topicId'', BodyField ''score''])],
     Handler HttpGet [Lit ''recommendations''] [] None ''getRecommendations'' no_check [(AdaptiveLearningService,
        ''getRecommendations'', [UserField ''id''])],
     Handler HttpGet [Lit ''performance''] [] None ''getPerformance'' no_check [(AdaptiveLearningService, ''getPerformance'',
        [UserField ''id''])],
     Handler HttpGet [Lit ''ab-test'', Par ''experiment''] [] None ''getVariant'' no_check [(AdaptiveLearningService,
        ''getOrAssignVariant'', [UserField ''id'', PathParam ''experiment''])],
     Handler HttpPost [Lit ''ab-test'', Par ''experiment'', Lit ''outcome''] [] None ''recordOutcome'' no_check
        [(AdaptiveLearningService, ''recordAbOutcome'', [UserField ''id'', PathParam ''experiment'', BodyField ''score''])],
     Handler HttpGet [Lit ''ab-test'', Par ''experiment'', Lit ''results''] [] None ''getAbResults'' no_check
        [(AdaptiveLearningService, ''getAbTestResults'', [PathParam ''experiment''])]]"

definition AnalyticsController :: controller where
  "AnalyticsController = Controller ''AnalyticsController'' True [Lit ''v1''] [JwtAuthGuard] None
    [Handler HttpGet [Lit ''analytics'', Lit ''platform''] [RolesGuard] (Some [''admin'']) ''getPlatformAnalytics'' no_check
        [(AnalyticsService, ''getPlatformAnalytics'', [])],
     Handler HttpGet [Lit ''courses'', Par ''id'', Lit ''analytics''] [] None ''getAnalytics'' no_check [(AnalyticsService,
        ''getAnalytics'', [PathParam ''id''])],
     Handler HttpPost [Lit ''courses'', Par ''id'', Lit ''analytics'',
        Lit ''refresh''] [] None ''refresh'' no_check [(AnalyticsService, ''aggregateCourse'', [PathParam ''id''])]]"

definition AnnouncementsController :: controller where
  "AnnouncementsController = Controller ''AnnouncementsController'' True [Lit ''v1'', Lit ''announcements''] [JwtAuthGuard] None
    [Handler HttpPost [] [] None ''create'' no_check [(AnnouncementsService, ''create'', [UserField ''id'',
        BodyField ''courseId'', BodyField ''title'', BodyField ''body''])],
     Handler HttpGet [] [] None ''list'' no_check [(AnnouncementsService, ''findByCourse'', [QueryField ''courseId''])],
     Handler HttpDelete [Par ''id''] [] None ''remove'' no_check [(AnnouncementsService, ''remove'', [PathParam ''id'',
        UserField ''id''])]]"

definition ApiKeysController :: controller where
  "ApiKeysController = Controller ''ApiKeysController'' True [] [] None
    [Handler HttpGet [Lit ''api-keys''] [JwtAuthGuard] None ''listUserKeys'' no_check [(ApiKeysService, ''findByUser'',
        [UserField ''id'']), (ApiKeysService, ''maskKey'', [Result])],
     Handler HttpPost [Lit ''api-keys''] [JwtAuthGuard] None ''createKey'' no_check [(ApiKeysService, ''create'',
        [UserField ''id'', BodyField ''name'', BodyField ''description''])],
     Handler HttpPatch [Lit ''api-keys'', Par ''id''] [JwtAuthGuard] None ''updateKey'' no_check [(ApiKeysService, ''update'',
        [PathParam ''id'', UserField ''id'', Body])],
     Handler HttpDelete [Lit ''api-keys'', Par ''id''] [JwtAuthGuard] None ''revokeKey'' no_check [(ApiKeysService, ''revoke'',
        [PathParam ''id'', UserField ''id''])],
     Handler HttpPost [Lit ''api-keys'', Par ''id'', Lit ''rotate''] [JwtAuthGuard] None ''rotateKey'' no_check
        [(ApiKeysService, ''rotate'', [PathParam ''id'', UserField ''id''])],
     Handler HttpGet [Lit ''admin'', Lit ''api-keys''] [JwtAuthGuard,
        RolesGuard] (Some [''admin'']) ''adminListKeys'' no_check [(ApiKeysService, ''adminFindAll'', [Fields [(''userId'',
        QueryField ''userId''), (''isActive'', QueryField ''isActive''), (''page'', Defaulted (QueryField ''page'') ''1''),
        (''limit'', Defaulted (QueryField ''limit'') ''20'')]])],
     Handler HttpDelete [Lit ''admin'', Lit ''api-keys'', Par ''id''] [JwtAuthGuard,
        RolesGuard] (Some [''admin'']) ''adminForceRevokeKey'' no_check [(ApiKeysService, ''adminForceRevoke'',
        [PathParam ''id''])]]"

definition ApiUsageController :: controller where
  "ApiUsageController = Controller ''ApiUsageController'' True [Lit ''api-usage''] [JwtAuthGuard, RolesGuard] (Some [''admin''])
    [Handler HttpGet [Lit ''dashboard''] [] None ''getDashboard'' no_check [(ApiUsageService, ''getDashboard'',
        [Defaulted (Converted ''Date'' (QueryField ''from'')) ''seven days ago'',
        Defaulted (Converted ''Date'' (QueryField ''to'')) ''now''])],
     Handler HttpGet [Lit ''by-endpoint''] [] None ''byEndpoint'' no_check [(ApiUsageService, ''getAggregatedByEndpoint'',
        [Defaulted (Converted ''Date'' (QueryField ''from'')) ''seven days ago'',
        Defaulted (Converted ''Date'' (QueryField ''to'')) ''now''])],
     Handler HttpGet [Lit ''by-user''] [] None ''byUser'' no_check [(ApiUsageService, ''getAggregatedByUser'',
        [Defaulted (Converted ''Date'' (QueryField ''from'')) ''seven days ago'',
        Defaulted (Converted ''Date'' (QueryField ''to'')) ''now''])],
     Handler HttpGet [Lit ''by-time''] [] None ''byTime'' no_check [(ApiUsageService, ''getAggregatedByTime'',
        [Defaulted (Converted ''Date'' (QueryField ''from'')) ''seven days ago'',
        Defaulted (Converted ''Date'' (QueryField ''to'')) ''now'', Defaulted (QueryField ''granularity'') ''hour''])],
     Handler HttpGet [Lit ''alerts''] [] None ''checkAlerts'' no_check [(ApiUsageService, ''checkUsageAlerts'',
        [Defaulted (Converted ''Number'' (QueryField ''threshold'')) ''100''])]]"

definition AssignmentsController :: controller where
  "AssignmentsController = Controller ''AssignmentsController'' True [Lit ''assignments''] [] None
    [Handler HttpPost [] [JwtAuthGuard, RolesGuard] (Some [''admin'',
        ''instructor'']) ''createAssignment'' no_check [(AssignmentsService, ''createAssignment'',
        [Converted ''dueDate as Date'' (Body)])],
     Handler HttpGet [Lit ''course'', Par ''courseId''] [JwtAuthGuard] None ''getAssignmentsByCourse'' no_check
        [(AssignmentsService, ''getAssignmentsByCourse'', [PathParam ''courseId''])],
     Handler HttpGet [Par ''id''] [JwtAuthGuard] None ''getAssignment'' no_check [(AssignmentsService, ''getAssignment'',
        [PathParam ''id''])],
     Handler HttpPost [Par ''id'', Lit ''submit''] [JwtAuthGuard] None ''submitAssignment'' no_check [(AssignmentsService,
        ''submitAssignment'', [UserField ''id'', PathParam ''id'', Converted ''file address'' (Upload)])],
     Handler HttpGet [Par ''id'', Lit ''my-submission''] [JwtAuthGuard] None ''getMySubmission'' no_check [(AssignmentsService,
        ''getSubmissionByUser'', [UserField ''id'', PathParam ''id''])],
     Handler HttpPost [Par ''id'', Lit ''assign-reviewers''] [JwtAuthGuard, RolesGuard] (Some [''admin'',
        ''instructor'']) ''assignReviewers'' no_check [(AssignmentsService, ''assignReviewers'', [PathParam ''id''])],
     Handler HttpGet [Lit ''my-reviews''] [JwtAuthGuard] None ''getMyReviews'' no_check [(AssignmentsService,
        ''getReviewsForUser'', [UserField ''id''])],
     Handler HttpPost [Lit ''reviews'', Par ''submissionId''] [JwtAuthGuard] None ''submitReview'' no_check
        [(AssignmentsService, ''submitPeerReview'', [UserField ''id'', PathParam ''submissionId'', BodyField ''scores'',
        BodyField ''overallFeedback''])],
     Handler HttpPatch [Lit ''submissions'', Par ''id'', Lit ''override''] [JwtAuthGuard, RolesGuard,
        AssignmentOwnershipGuard] (Some [''admin'', ''instructor'']) ''instructorOverride'' no_check [(AssignmentsService,
        ''instructorOverride'', [PathParam ''id'', BodyField ''grade'', BodyField ''feedback''])]]"

definition AuditController :: controller where
  "AuditController = Controller ''AuditController'' True [Lit ''audit''] [JwtAuthGuard, RolesGuard] None
    [Handler HttpGet [] [] (Some [''admin'']) ''getLogs'' no_check [(AuditService, ''getLogs'', [Fields [(''userId'',
        QueryField ''userId''), (''action'', QueryField ''action''), (''startDate'',
        Converted ''Date'' (QueryField ''startDate'')), (''endDate'', Converted ''Date'' (QueryField ''endDate'')), (''limit'',
        Defaulted (Converted ''parseInt'' (QueryField ''limit'')) ''100'')]])],
     Handler HttpGet [Lit ''me''] [] None ''getMyLogs'' no_check [(AuditService, ''getLogs'', [Fields [(''userId'',
        UserField ''userId''), (''limit'', Const ''50'')]])]]"

definition AuthController :: controller where
  "AuthController = Controller ''AuthController'' True [Lit ''auth''] [] None
    [Handler HttpGet [Lit ''google''] [GoogleAuthGuard] None ''googleLogin'' no_check [],
     Handler HttpGet [Lit ''google'', Lit ''callback''] [GoogleAuthGuard] None ''googleCallback'' no_check [(AuthService,
        ''googleOAuthLogin'', [UserObject])],
     Handler HttpGet [Lit ''stellar''] [] None ''stellarChallenge'' no_check [(StellarAuthService, ''buildChallenge'',
        [QueryField ''account''])],
     Handler HttpPost [Lit ''stellar''] [] None ''stellarVerify'' no_check [(StellarAuthService, ''verifyChallenge'',
        [BodyField ''transaction''])],
     Handler HttpPost [Lit ''register''] [] None ''register'' no_check [(AuthService, ''register'', [BodyField ''email'',
        BodyField ''password'', QueryField ''ref''])],
     Handler HttpPost [Lit ''login''] [] None ''login'' no_check [(AuthService, ''login'', [BodyField ''email'',
        BodyField ''password'', BodyField ''mfa_token''])],
     Handler HttpPost [Lit ''refresh''] [] None ''refresh'' no_check [(AuthService, ''refresh'', [BodyField ''refresh_token''])],
     Handler HttpPost [Lit ''logout''] [] None ''logout'' no_check [(AuthService, ''logout'', [BodyField ''refresh_token''])],
     Handler HttpGet [Lit ''verify''] [] None ''verifyEmail'' no_check [(AuthService, ''verifyEmail'', [QueryField ''token''])],
     Handler HttpPost [Lit ''resend-verification''] [] None ''resendVerification'' no_check [(AuthService,
        ''resendVerification'', [BodyField ''email''])],
     Handler HttpPost [Lit ''forgot-password''] [] None ''forgotPassword'' no_check [(AuthService, ''forgotPassword'',
        [BodyField ''email''])],
     Handler HttpPost [Lit ''reset-password''] [] None ''resetPassword'' no_check [(AuthService, ''resetPassword'',
        [BodyField ''token'', BodyField ''newPassword''])],
     Handler HttpPost [Lit ''mfa'', Lit ''enable''] [JwtAuthGuard] None ''enableMfa'' no_check [(AuthService,
        ''generateMfaSecret'', [UserField ''id''])],
     Handler HttpPost [Lit ''mfa'', Lit ''verify''] [JwtAuthGuard] None ''verifyMfa'' no_check [(AuthService,
        ''verifyMfaSecret'', [UserField ''id'', BodyField ''code''])],
     Handler HttpPost [Lit ''mfa'', Lit ''disable''] [JwtAuthGuard] None ''disableMfa'' no_check [(AuthService, ''disableMfa'',
        [UserField ''id'', BodyField ''code''])],
     Handler HttpPost [Lit ''mfa'', Lit ''backup-codes'', Lit ''regenerate''] [JwtAuthGuard] None ''regenerateBackupCodes''
        no_check [(AuthService, ''regenerateBackupCodes'', [UserField ''id'', BodyField ''code''])],
     Handler HttpPost [Lit ''admin'', Lit ''api-keys''] [JwtAuthGuard,
        RolesGuard] (Some [''admin'']) ''generateApiKey'' no_check [(AuthService, ''generateApiKey'', [BodyField ''userId'',
        BodyField ''name''])],
     Handler HttpPost [Lit ''admin'', Lit ''api-keys'', Lit ''revoke''] [JwtAuthGuard,
        RolesGuard] (Some [''admin'']) ''revokeApiKey'' no_check [(AuthService, ''revokeApiKey'', [BodyField ''id''])],
     Handler HttpPost [Lit ''stellar-challenge''] [JwtAuthGuard] None ''generateStellarChallenge'' no_check [(AuthService,
        ''generateStellarChallenge'', [BodyField ''publicKey''])],
     Handler HttpPost [Lit ''stellar-verify''] [JwtAuthGuard] None ''verifyStellarSignature'' no_check [(AuthService,
        ''verifyStellarSignature'', [UserField ''id'', BodyField ''publicKey'', BodyField ''signature'',
        BodyField ''challenge''])]]"

definition BatchController :: controller where
  "BatchController = Controller ''BatchController'' True [Lit ''batch''] [JwtAuthGuard, RolesGuard] (Some [''admin''])
    [Handler HttpPost [Lit ''users''] [] None ''batchUsers'' no_check [(BatchService, ''createUserBatch'',
        [BodyField ''operations'', UserField ''id''])],
     Handler HttpPost [Lit ''courses''] [] None ''batchCourses'' no_check [(BatchService, ''createCourseBatch'',
        [BodyField ''operations'', UserField ''id''])],
     Handler HttpGet [Lit ''jobs''] [] None ''listJobs'' no_check [(BatchService, ''listJobs'', [QueryField ''type''])],
     Handler HttpGet [Lit ''jobs'', Par ''jobId''] [] None ''getJobStatus'' no_check [(BatchService, ''getJobStatus'',
        [PathParam ''jobId''])]]"

definition BundlesController :: controller where
  "BundlesController = Controller ''BundlesController'' True [Lit ''bundles''] [] None
    [Handler HttpGet [] [] None ''findAll'' no_check [(BundlesService, ''findAll'', [Const ''true''])],
     Handler HttpGet [Par ''id''] [] None ''findOne'' no_check [(BundlesService, ''findOne'', [PathParam ''id''])],
     Handler HttpPost [Par ''id'', Lit ''purchase''] [JwtAuthGuard] None ''purchase'' no_check [(BundlesService, ''purchase'',
        [UserField ''id'', PathParam ''id''])],
     Handler HttpGet [Lit ''user'', Lit ''me''] [JwtAuthGuard] None ''getMyEnrollments'' no_check [(BundlesService,
        ''getEnrollments'', [UserField ''id''])]]"

definition AdminBundlesController :: controller where
  "AdminBundlesController = Controller ''AdminBundlesController'' True [Lit ''admin'', Lit ''bundles''] [JwtAuthGuard,
        RolesGuard] (Some [''admin''])
    [Handler HttpGet [] [] None ''findAll'' no_check [(BundlesService, ''findAll'', [Const ''false''])],
     Handler HttpPost [] [] None ''create'' no_check [(BundlesService, ''create'', [Body])],
     Handler HttpPatch [Par ''id''] [] None ''update'' no_check [(BundlesService, ''update'', [PathParam ''id'', Body])],
     Handler HttpDelete [Par ''id''] [] None ''delete'' no_check [(BundlesService, ''delete'', [PathParam ''id''])]]"

definition CdnController :: controller where
  "CdnController = Controller ''CdnController'' True [Lit ''v1'', Lit ''cdn''] [JwtAuthGuard] None
    [Handler HttpPost [Lit ''upload''] [RolesGuard] (Some [''admin'', ''instructor'']) ''uploadAsset'' no_check [(CdnService,
        ''uploadAsset'', [Fields [(''lessonId'', BodyField ''lessonId''), (''fileName'',
        Defaulted (BodyField ''fileName'') ''upload''), (''originalName'',
        Defaulted (BodyField ''originalName'') ''fileName or upload''), (''mimeType'',
        Defaulted (BodyField ''mimeType'') ''application/octet-stream''), (''contentType'',
        Defaulted (BodyField ''contentType'') ''document''), (''fileSize'', Defaulted (BodyField ''fileSize'') ''0''),
        (''uploadedByUserId'', UserField ''id''), (''isPrivate'', Defaulted (BodyField ''isPrivate'') ''true'')]])],
     Handler HttpGet [Par ''assetId'', Lit ''signed-url''] [] None ''getSignedUrl'' no_check [(CdnService,
        ''generateSignedUrl'', [PathParam ''assetId'', Defaulted (Converted ''parseInt'' (QueryField ''expirationMinutes''))
        ''60''])],
     Handler HttpPost [Par ''assetId'', Lit ''transcode''] [RolesGuard] (Some [''admin'']) ''markTranscoded'' no_check
        [(CdnService, ''markAsTranscoded'', [PathParam ''assetId'',
        Defaulted (Converted ''map String'' (BodyField ''bitrates'')) ''[]'', BodyField ''thumbnailUrl''])],
     Handler HttpPost [Par ''assetId'', Lit ''invalidate''] [RolesGuard] (Some [''admin'']) ''invalidateCache'' no_check
        [(CdnService, ''invalidateCache'', [PathParam ''assetId''])],
     Handler HttpGet [Lit ''lesson'', Par ''lessonId''] [] None ''getLessonAssets'' no_check [(CdnService, ''getLessonAssets'',
        [PathParam ''lessonId''])],
     Handler HttpGet [Par ''assetId''] [] None ''getAsset'' no_check [(CdnService, ''getAsset'', [PathParam ''assetId''])]]"

definition CertificatesController :: controller where
  "CertificatesController = Controller ''CertificatesController'' True [Lit ''v1'', Lit ''certificates''] [] None
    [Handler HttpPost [Par ''userId'', Par ''courseId''] [JwtAuthGuard] None ''issueCertificate'' own_or_admin
        [(CertificatesService, ''issueCertificate'', [PathParam ''userId'', PathParam ''courseId''])],
     Handler HttpGet [Par ''id'', Lit ''verify''] [] None ''verify'' no_check [(CertificatesService, ''verifyById'',
        [PathParam ''id''])],
     Handler HttpGet [Lit ''user'', Par ''userId''] [JwtAuthGuard] None ''getUserCertificates'' no_check [(CertificatesService,
        ''getUserCertificates'', [PathParam ''userId''])],
     Handler HttpGet [Par ''id''] [] None ''getCertificate'' no_check [(CertificatesService, ''getCertificate'',
        [PathParam ''id''])],
     Handler HttpPost [Lit ''verify''] [] None ''verifyCertificate'' no_check [(CertificatesService, ''verifyCertificate'',
        [BodyField ''certificateHash''])],
     Handler HttpGet [Par ''id'', Lit ''pdf''] [JwtAuthGuard] None ''downloadPdf'' no_check [(CertificatesService,
        ''getCertificateWithRelations'', [PathParam ''id'']), (CertificatePdfService, ''generateCertificatePdf'', [Result,
        Const ''frontend.url''])]]"

definition CohortsController :: controller where
  "CohortsController = Controller ''CohortsController'' True [Lit ''v1'', Lit ''cohorts''] [JwtAuthGuard] None
    [Handler HttpPost [] [] None ''createCohort'' no_check [(CohortsService, ''createCohort'', [BodyField ''courseId'',
        UserField ''id'', Body])],
     Handler HttpGet [Par ''id''] [] None ''getCohort'' no_check [(CohortsService, ''getCohort'', [PathParam ''id''])],
     Handler HttpPost [Par ''cohortId'', Lit ''members''] [] None ''addMember'' no_check [(CohortsService, ''addMember'',
        [PathParam ''cohortId'', BodyField ''userId''])],
     Handler HttpDelete [Par ''cohortId'', Lit ''members'', Par ''userId''] [] None ''removeMember'' no_check [(CohortsService,
        ''removeMember'', [PathParam ''cohortId'', PathParam ''userId''])],
     Handler HttpPost [Par ''cohortId'', Lit ''progress''] [] None ''updateProgress'' no_check [(CohortsService,
        ''updateMemberProgress'', [PathParam ''cohortId'', BodyField ''userId'', BodyField ''progressPercentage''])],
     Handler HttpGet [Par ''cohortId'', Lit ''progress''] [] None ''getCohortProgress'' no_check [(CohortsService,
        ''getCohortProgress'', [PathParam ''cohortId''])],
     Handler HttpGet [Lit ''course'', Par ''courseId''] [] None ''getCohortsByCourse'' no_check [(CohortsService,
        ''getCohortsByCourse'', [PathParam ''courseId''])]]"

definition CouponsController :: controller where
  "CouponsController = Controller ''CouponsController'' True [Lit ''v1'', Lit ''coupons''] [] None
    [Handler HttpPost [] [JwtAuthGuard, RolesGuard] (Some [''admin'']) ''create'' no_check [(CouponsService, ''create'', [Body])],
     Handler HttpPost [Lit ''bulk''] [JwtAuthGuard, RolesGuard] (Some [''admin'']) ''generateBulk'' no_check [(CouponsService,
        ''generateBulk'', [BodyField ''prefix'', BodyField ''count'', BodyField ''discountType'', BodyField ''discountValue'',
        Converted ''Date'' (BodyField ''expiresAt'')])],
     Handler HttpPost [Lit ''validate''] [] None ''validate'' no_check [(CouponsService, ''validate'', [Body])],
     Handler HttpGet [] [JwtAuthGuard, RolesGuard] (Some [''admin'']) ''findAll'' no_check [(CouponsService, ''findAll'', [])],
     Handler HttpGet [Par ''id''] [JwtAuthGuard, RolesGuard] (Some [''admin'']) ''findById'' no_check [(CouponsService,
        ''findById'', [PathParam ''id''])],
     Handler HttpPatch [Par ''id''] [JwtAuthGuard, RolesGuard] (Some [''admin'']) ''update'' no_check [(CouponsService,
        ''update'', [PathParam ''id'', Body])],
     Handler HttpDelete [Par ''id''] [JwtAuthGuard, RolesGuard] (Some [''admin'']) ''delete'' no_check [(CouponsService,
        ''delete'', [PathParam ''id''])]]"

definition CourseVersioningController :: controller where
  "CourseVersioningController = Controller ''CourseVersioningController'' True [Lit ''courses'', Par ''courseId'',
        Lit ''versions''] [JwtAuthGuard, RolesGuard] None
    [Handler HttpPost [] [] (Some [''admin'', ''instructor'']) ''createVersion'' no_check [(CourseVersioningService,
        ''createVersion'', [PathParam ''courseId'', BodyField ''changeNote'', UserField ''id''])],
     Handler HttpGet [] [] (Some [''admin'', ''instructor'']) ''listVersions'' no_check [(CourseVersioningService,
        ''listVersions'', [PathParam ''courseId''])],
     Handler HttpGet [Lit ''diff''] [] (Some [''admin'', ''instructor'']) ''diffVersions'' no_check [(CourseVersioningService,
        ''diffVersions'', [PathParam ''courseId'', QueryField ''from'', QueryField ''to''])],
     Handler HttpGet [Par ''versionId''] [] (Some [''admin'',
        ''instructor'']) ''getVersion'' no_check [(CourseVersioningService, ''getVersion'', [PathParam ''courseId'',
        PathParam ''versionId''])],
     Handler HttpPost [Par ''versionId'', Lit ''rollback''] [] (Some [''admin'']) ''rollback'' no_check
        [(CourseVersioningService, ''rollback'', [PathParam ''courseId'', PathParam ''versionId''])]]"

definition CoursesController :: controller where
  "CoursesController = Controller ''CoursesController'' True [Lit ''courses''] [] None
    [Handler HttpGet [] [] None ''findAll'' no_check [(CoursesService, ''findAll'', [QueryObject])],
     Handler HttpGet [Par ''id''] [] None ''findOne'' no_check [(CoursesService, ''findOne'', [PathParam ''id''])],
     Handler HttpPost [] [JwtAuthGuard, RolesGuard] (Some [''admin'', ''instructor'']) ''create'' no_check [(CoursesService,
        ''create'', [Body])],
     Handler HttpPatch [Par ''id''] [JwtAuthGuard, RolesGuard] (Some [''admin'',
        ''instructor'']) ''update'' no_check [(CoursesService, ''update'', [PathParam ''id'', Body])],
     Handler HttpDelete [Par ''id''] [JwtAuthGuard, RolesGuard] (Some [''admin'',
        ''instructor'']) ''delete'' no_check [(CoursesService, ''delete'', [PathParam ''id''])],
     Handler HttpPost [Par ''id'', Lit ''schedule''] [JwtAuthGuard, RolesGuard] (Some [''admin'',
        ''instructor'']) ''schedule'' no_check [(CoursesService, ''scheduleCourse'', [PathParam ''id'',
        Converted ''resolveScheduledAt'' (Body)])],
     Handler HttpPost [Par ''id'', Lit ''publish''] [JwtAuthGuard, RolesGuard] (Some [''admin'',
        ''instructor'']) ''publishNow'' no_check [(CoursesService, ''publishNow'', [PathParam ''id''])]]"

definition ModulesController :: controller where
  "ModulesController = Controller ''ModulesController'' True [] [] None
    [Handler HttpGet [Lit ''courses'', Par ''courseId'', Lit ''modules''] [] None ''getModules'' no_check [(ModulesService,
        ''findByCourse'', [PathParam ''courseId''])],
     Handler HttpPost [Lit ''courses'', Par ''courseId'', Lit ''modules''] [JwtAuthGuard, RolesGuard] (Some [''instructor'',
        ''admin'']) ''createModule'' no_check [(ModulesService, ''create'', [PathParam ''courseId'', Body])],
     Handler HttpPatch [Lit ''modules'', Par ''id''] [JwtAuthGuard, RolesGuard] (Some [''instructor'',
        ''admin'']) ''updateModule'' no_check [(ModulesService, ''update'', [PathParam ''id'', Body])],
     Handler HttpDelete [Lit ''modules'', Par ''id''] [JwtAuthGuard, RolesGuard] (Some [''instructor'',
        ''admin'']) ''deleteModule'' no_check [(ModulesService, ''remove'', [PathParam ''id''])],
     Handler HttpPost [Lit ''modules'', Par ''id'', Lit ''unlock''] [JwtAuthGuard,
        RolesGuard] (Some [''admin'']) ''unlockModule'' no_check [(ModulesService, ''unlockNow'', [PathParam ''id''])],
     Handler HttpGet [Lit ''modules'', Par ''moduleId'', Lit ''lessons''] [] None ''getLessons'' no_check [(LessonsService,
        ''findByModule'', [PathParam ''moduleId''])],
     Handler HttpGet [Lit ''lessons'', Par ''id''] [] None ''getLesson'' no_check [(LessonsService, ''findOne'',
        [PathParam ''id''])],
     Handler HttpPost [Lit ''modules'', Par ''moduleId'', Lit ''lessons''] [JwtAuthGuard, RolesGuard] (Some [''instructor'',
        ''admin'']) ''createLesson'' no_check [(LessonsService, ''create'', [PathParam ''moduleId'', Body])],
     Handler HttpPatch [Lit ''lessons'', Par ''id''] [JwtAuthGuard, RolesGuard] (Some [''instructor'',
        ''admin'']) ''updateLesson'' no_check [(LessonsService, ''update'', [PathParam ''id'', Body])],
     Handler HttpDelete [Lit ''lessons'', Par ''id''] [JwtAuthGuard, RolesGuard] (Some [''instructor'',
        ''admin'']) ''deleteLesson'' no_check [(LessonsService, ''remove'', [PathParam ''id''])],
     Handler HttpGet [Lit ''lessons'', Par ''id'', Lit ''transcript'',
        Lit ''srt''] [] None ''downloadSrt'' no_check [(LessonsService, ''findOne'', [PathParam ''id''])],
     Handler HttpGet [Lit ''lessons'', Par ''id'', Lit ''transcript'',
        Lit ''pdf''] [] None ''downloadPdf'' no_check [(LessonsService, ''findOne'', [PathParam ''id'']), (TranscribeService,
        ''generateTranscriptPdf'', [Result])]]"

definition PrerequisitesController :: controller where
  "PrerequisitesController = Controller ''PrerequisitesController'' True [Lit ''courses'', Par ''courseId'',
        Lit ''prerequisites''] [JwtAuthGuard, RolesGuard] None
    [Handler HttpGet [] [] (Some [''admin'', ''instructor'', ''student'']) ''getPrerequisites'' no_check
        [(PrerequisitesService, ''getPrerequisites'', [PathParam ''courseId''])],
     Handler HttpGet [Lit ''chain''] [] (Some [''admin'', ''instructor'',
        ''student'']) ''getChain'' no_check [(PrerequisitesService, ''getPrerequisiteChain'', [PathParam ''courseId''])],
     Handler HttpGet [Lit ''status''] [] (Some [''admin'', ''instructor'',
        ''student'']) ''getStatus'' no_check [(PrerequisitesService, ''getPrerequisiteStatus'', [PathParam ''courseId'',
        UserField ''id''])],
     Handler HttpPost [] [] (Some [''admin'', ''instructor'']) ''addPrerequisite'' no_check [(PrerequisitesService,
        ''addPrerequisite'', [PathParam ''courseId'', BodyField ''prerequisiteId''])],
     Handler HttpDelete [Par ''prerequisiteId''] [] (Some [''admin'',
        ''instructor'']) ''removePrerequisite'' no_check [(PrerequisitesService, ''removePrerequisite'',
        [PathParam ''courseId'', PathParam ''prerequisiteId''])],
     Handler HttpPost [Lit ''validate'', Par ''userId''] [] (Some [''admin'']) ''validatePrerequisites'' no_check
        [(PrerequisitesService, ''validatePrerequisites'', [PathParam ''userId'', PathParam ''courseId'',
        Defaulted (BodyField ''adminOverride'') ''false''])]]"

definition ReviewsController :: controller where
  "ReviewsController = Controller ''ReviewsController'' True [] [] None
    [Handler HttpPost [Lit ''courses'', Par ''id'', Lit ''reviews''] [JwtAuthGuard] None ''create'' no_check [(ReviewsService,
        ''create'', [PathParam ''id'', UserField ''id'', Body])],
     Handler HttpPatch [Lit ''courses'', Par ''id'', Lit ''reviews'', Par ''reviewId'',
        Lit ''flag''] [JwtAuthGuard] None ''flag'' no_check [(ReviewsService, ''flagReview'', [PathParam ''id'',
        PathParam ''reviewId''])],
     Handler HttpGet [Lit ''courses'', Par ''id'', Lit ''reviews''] [] None ''findByCourse'' no_check [(ReviewsService,
        ''findByCourse'', [PathParam ''id'', QueryObject])]]"

definition CredentialsController :: controller where
  "CredentialsController = Controller ''CredentialsController'' True [Lit ''credentials''] [] None
    [Handler HttpGet [Lit ''detail'', Par ''id''] [] None ''findOne'' no_check [(CredentialsService, ''findOne'',
        [PathParam ''id''])],
     Handler HttpGet [Par ''id'', Lit ''pdf''] [JwtAuthGuard] None ''downloadPdf'' no_check [(CredentialsService, ''findOne'',
        [PathParam ''id'']), (CertificatePdfService, ''generateCertificatePdf'', [Result])],
     Handler HttpGet [Par ''userId''] [JwtAuthGuard] None ''findByUser'' no_check [(CredentialsService, ''findByUser'',
        [PathParam ''userId''])],
     Handler HttpGet [Lit ''verify'', Par ''txHash''] [] None ''verify'' no_check [(CredentialsService, ''verify'',
        [PathParam ''txHash''])],
     Handler HttpPost [Lit ''issue''] [JwtOrApiKey, RolesGuard] (Some [''admin'']) ''issue'' no_check [(CredentialsService,
        ''issue'', [BodyField ''userId'', BodyField ''courseId'', BodyField ''stellarPublicKey''])]]"

definition DatabaseController :: controller where
  "DatabaseController = Controller ''DatabaseController'' True [Lit ''database''] [JwtAuthGuard, RolesGuard,
        NonProductionGuard] (Some [''admin''])
    [Handler HttpPost [Lit ''migrations'', Lit ''run''] [] None ''runMigrations'' no_check [(MigrationRunnerService, ''run'',
        [])],
     Handler HttpPost [Lit ''migrations'', Lit ''revert''] [] None ''revertMigration'' no_check [(MigrationRunnerService,
        ''revert'', [])],
     Handler HttpGet [Lit ''migrations''] [] None ''getMigrationStatus'' no_check [(MigrationRunnerService, ''getStatus'', [])]]"

definition DownloadsController :: controller where
  "DownloadsController = Controller ''DownloadsController'' True [Lit ''v1'', Lit ''downloads''] [JwtAuthGuard] None
    [Handler HttpPost [] [] None ''queue'' no_check [(DownloadsService, ''queueDownload'', [UserField ''id'',
        BodyField ''courseId'', BodyField ''lessonId'', BodyField ''lessonTitle'', BodyField ''fileUrl'',
        BodyField ''fileSizeBytes''])],
     Handler HttpGet [] [] None ''list'' no_check [(DownloadsService, ''findByUser'', [UserField ''id''])],
     Handler HttpGet [Lit ''storage''] [] None ''storage'' no_check [(DownloadsService, ''getStorageStats'', [UserField ''id''])],
     Handler HttpPatch [Par ''id'', Lit ''complete''] [] None ''complete'' no_check [(DownloadsService, ''markCompleted'',
        [PathParam ''id'', UserField ''id''])],
     Handler HttpDelete [Par ''id''] [] None ''remove'' no_check [(DownloadsService, ''remove'', [PathParam ''id'',
        UserField ''id''])]]"

definition EmailController :: controller where
  "EmailController = Controller ''EmailController'' True [Lit ''v1'', Lit ''email''] [] None
    [Handler HttpGet [Lit ''unsubscribe''] [] None ''unsubscribe'' no_check [(EmailService, ''unsubscribeByToken'',
        [QueryField ''token''])],
     Handler HttpGet [Lit ''preferences''] [JwtAuthGuard] None ''getPreferences'' no_check [(EmailService, ''getPreferences'',
        [UserField ''userId''])],
     Handler HttpPatch [Lit ''preferences''] [JwtAuthGuard] None ''updatePreferences'' no_check [(EmailService,
        ''updatePreferences'', [UserField ''userId'', Body])]]"

definition EnrollmentsController :: controller where
  "EnrollmentsController = Controller ''EnrollmentsController'' True [] [JwtAuthGuard] None
    [Handler HttpPost [Lit ''courses'', Par ''id'', Lit ''enroll''] [] None ''enroll'' no_check [(EnrollmentsService,
        ''enroll'', [UserField ''id'', PathParam ''id'', Converted ''isAdmin and adminOverride'' (Fields [(''role'',
        UserField ''role''), (''adminOverride'', BodyField ''adminOverride'')])])],
     Handler HttpPost [Lit ''enrollments''] [] None ''enrollByBody'' no_check [(EnrollmentsService, ''enroll'',
        [UserField ''id'', BodyField ''courseId'', Const ''false''])],
     Handler HttpDelete [Lit ''courses'', Par ''id'', Lit ''enroll''] [] None ''unenroll'' no_check [(EnrollmentsService,
        ''unenroll'', [UserField ''id'', PathParam ''id''])],
     Handler HttpGet [Lit ''users'', Par ''id'', Lit ''enrollments''] [] None ''getUserEnrollments'' no_check
        [(EnrollmentsService, ''findByUser'', [PathParam ''id''])],
     Handler HttpPost [Lit ''courses'', Par ''id'', Lit ''enroll'',
        Lit ''upgrade-version''] [] None ''upgradeVersion'' no_check [(EnrollmentsService, ''upgradeVersion'',
        [UserField ''id'', PathParam ''id''])]]"

definition ForumsController :: controller where
  "ForumsController = Controller ''ForumsController'' True [] [] None
    [Handler HttpGet [Lit ''courses'', Par ''id'', Lit ''posts''] [] None ''findByCourse'' no_check [(ForumsService,
        ''findPostsByCourse'', [PathParam ''id''])],
     Handler HttpPost [Lit ''courses'', Par ''id'', Lit ''posts''] [JwtAuthGuard] None ''createPost'' no_check [(ForumsService,
        ''createPost'', [PathParam ''id'', UserField ''id'', UserField ''role'', Body])],
     Handler HttpPost [Lit ''posts'', Par ''id'', Lit ''replies''] [JwtAuthGuard] None ''createReply'' no_check
        [(ForumsService, ''createReply'', [PathParam ''id'', UserField ''id'', UserField ''role'', Body])],
     Handler HttpPost [Lit ''posts'', Par ''id'', Lit ''vote''] [JwtAuthGuard] None ''votePost'' no_check [(ForumsService,
        ''votePost'', [PathParam ''id'', UserField ''id'', BodyField ''direction''])],
     Handler HttpPost [Lit ''replies'', Par ''id'', Lit ''vote''] [JwtAuthGuard] None ''voteReply'' no_check [(ForumsService,
        ''voteReply'', [PathParam ''id'', UserField ''id'', BodyField ''direction''])]]"

definition HealthController :: controller where
  "HealthController = Controller ''HealthController'' False [Lit ''health''] [] None
    [Handler HttpGet [] [] None ''check'' no_check [(HealthCheckService, ''check'', [])],
     Handler HttpGet [Lit ''live''] [] None ''checkLiveness'' no_check [(HealthService, ''checkLiveness'', [])],
     Handler HttpGet [Lit ''ready''] [] None ''checkReadiness'' no_check [(HealthService, ''checkReadiness'', [])],
     Handler HttpGet [Lit ''startup''] [] None ''checkStartup'' no_check [(HealthService, ''checkStartup'', [])],
     Handler HttpGet [Lit ''environment''] [] None ''checkEnvironment'' no_check [(HealthService, ''getEnvironmentInfo'', [])],
     Handler HttpGet [Lit ''version''] [] None ''checkVersion'' no_check [(HealthService, ''getSystemInfo'', [])]]"

definition ImportExportController :: controller where
  "ImportExportController = Controller ''ImportExportController'' True [Lit ''courses''] [JwtAuthGuard,
        RolesGuard] (Some [''instructor'', ''admin''])
    [Handler HttpGet [Par ''id'', Lit ''export''] [] None ''exportCourse'' no_check [(ImportExportService, ''exportCourse'',
        [PathParam ''id''])],
     Handler HttpPost [Lit ''import'', Lit ''json''] [] None ''importJson'' file_given [(ImportExportService, ''importJson'',
        [Upload, UserField ''id''])],
     Handler HttpPost [Lit ''import'', Lit ''csv''] [] None ''importCsv'' file_given [(ImportExportService, ''importCsv'',
        [Upload, UserField ''id''])],
     Handler HttpPost [Lit ''import'', Lit ''scorm''] [] None ''importScorm'' file_given [(ImportExportService,
        ''importScormFromPath'', [Upload, UserField ''id''])],
     Handler HttpPost [Lit ''import'', Lit ''bulk''] [] None ''bulkImport'' files_given [(ImportExportService,
        ''startBulkImport'', [Converted ''names and buffers'' Upload, UserField ''id''])],
     Handler HttpGet [Lit ''import'', Lit ''jobs'', Par ''jobId''] [] None ''getJobStatus'' no_check [(ImportExportService,
        ''getJobStatus'', [PathParam ''jobId''])]]"

definition InstructorApplicationsController :: controller where
  "InstructorApplicationsController = Controller ''InstructorApplicationsController'' True [Lit ''instructor-applications'']
        [JwtAuthGuard] None
    [Handler HttpPost [] [] None ''apply'' no_check [(InstructorApplicationsService, ''apply'', [UserField ''id'', Body])],
     Handler HttpGet [Lit ''me''] [] None ''getMyApplication'' no_check [(InstructorApplicationsService, ''findMyApplication'',
        [UserField ''id''])],
     Handler HttpGet [] [RolesGuard] (Some [''admin'']) ''findAll'' no_check [(InstructorApplicationsService, ''findAll'',
        [QueryField ''status''])],
     Handler HttpPatch [Par ''id'', Lit ''review''] [RolesGuard] (Some [''admin'']) ''review'' no_check
        [(InstructorApplicationsService, ''review'', [PathParam ''id'', UserField ''id'', Body])]]"

definition KycController :: controller where
  "KycController = Controller ''KycController'' True [Lit ''kyc''] [] None
    [Handler HttpGet [Lit ''status'', Par ''stellarPublicKey''] [] None ''getStatus'' no_check [(KycService, ''getStatus'',
        [PathParam ''stellarPublicKey''])],
     Handler HttpPut [Lit ''customer''] [] None ''upsertCustomer'' no_check [(KycService, ''upsertCustomer'',
        [BodyField ''stellarPublicKey'', Converted ''other fields'' Body])],
     Handler HttpPost [Lit ''documents''] [JwtAuthGuard] None ''submitDocuments'' no_check [(KycService, ''submitDocuments'',
        [Body])],
     Handler HttpPost [Lit ''webhook''] [] None ''webhook'' no_check [(KycService, ''handleWebhook'', [Body])]]"

definition LeaderboardController :: controller where
  "LeaderboardController = Controller ''LeaderboardController'' True [Lit ''leaderboard''] [] None
    [Handler HttpGet [] [] None ''getLeaderboard'' no_check [(LeaderboardService, ''getTopUsers'', [])],
     Handler HttpGet [Lit ''streaks''] [] None ''getStreakLeaderboard'' no_check [(LeaderboardService,
        ''getStreakLeaderboard'', [])],
     Handler HttpGet [Lit ''stream''] [] None ''stream'' no_check [(LeaderboardService, ''getTopUsers'', [])]]"

definition LearningPathsController :: controller where
  "LearningPathsController = Controller ''LearningPathsController'' True [Lit ''learning-paths''] [] None
    [Handler HttpGet [] [] None ''findAll'' no_check [(LearningPathsService, ''findAll'', [Const ''true''])],
     Handler HttpGet [Par ''id''] [] None ''findOne'' no_check [(LearningPathsService, ''findOne'', [PathParam ''id''])],
     Handler HttpPost [Par ''id'', Lit ''enroll''] [JwtAuthGuard] None ''enroll'' no_check [(LearningPathsService, ''enroll'',
        [UserField ''id'', PathParam ''id''])],
     Handler HttpGet [Lit ''user'', Lit ''me''] [JwtAuthGuard] None ''getMyEnrollments'' no_check [(LearningPathsService,
        ''getEnrollments'', [UserField ''id''])]]"

definition AdminLearningPathsController :: controller where
  "AdminLearningPathsController = Controller ''AdminLearningPathsController'' True [Lit ''admin'',
        Lit ''learning-paths''] [JwtAuthGuard, RolesGuard] (Some [''admin''])
    [Handler HttpGet [] [] None ''findAll'' no_check [(LearningPathsService, ''findAll'', [Const ''false''])],
     Handler HttpPost [] [] None ''create'' no_check [(LearningPathsService, ''create'', [Body])],
     Handler HttpPatch [Par ''id''] [] None ''update'' no_check [(LearningPathsService, ''update'', [PathParam ''id'', Body])],
     Handler HttpDelete [Par ''id''] [] None ''delete'' no_check [(LearningPathsService, ''delete'', [PathParam ''id''])]]"

definition LiveSessionsController :: controller where
  "LiveSessionsController = Controller ''LiveSessionsController'' True [Lit ''v1'', Lit ''cohorts'', Par ''cohortId'',
        Lit ''live-sessions''] [JwtAuthGuard] None
    [Handler HttpGet [] [] None ''list'' no_check [(LiveSessionsService, ''findByCohort'', [PathParam ''cohortId''])],
     Handler HttpPost [] [RolesGuard] (Some [''instructor'', ''admin'']) ''create'' no_check [(LiveSessionsService, ''create'',
        [PathParam ''cohortId'', UserField ''id'', Body])],
     Handler HttpPatch [Par ''id''] [RolesGuard] (Some [''instructor'', ''admin'']) ''update'' no_check [(LiveSessionsService,
        ''update'', [PathParam ''id'', UserField ''id'', Body])],
     Handler HttpDelete [Par ''id''] [RolesGuard] (Some [''instructor'', ''admin'']) ''cancel'' no_check [(LiveSessionsService,
        ''cancel'', [PathParam ''id'', UserField ''id''])]]"

definition ModerationController :: controller where
  "ModerationController = Controller ''ModerationController'' True [Lit ''moderation''] [JwtAuthGuard] None
    [Handler HttpGet [Lit ''content'', Par ''contentType'', Par ''contentId'',
        Lit ''hidden''] [] None ''isHidden'' no_check [(ModerationService, ''isContentHidden'', [PathParam ''contentType'',
        PathParam ''contentId''])],
     Handler HttpPost [Lit ''flag''] [] None ''flag'' no_check [(ModerationService, ''flagContent'', [Body, UserField ''id''])],
     Handler HttpGet [Lit ''queue''] [RolesGuard] (Some [''admin'']) ''getQueue'' no_check [(ModerationService, ''getQueue'',
        [QueryObject])],
     Handler HttpPatch [Par ''id'', Lit ''review''] [RolesGuard] (Some [''admin'']) ''review'' no_check [(ModerationService,
        ''reviewItem'', [PathParam ''id'', Body, UserField ''id''])],
     Handler HttpPost [Par ''id'', Lit ''appeal''] [] None ''appeal'' no_check [(ModerationService, ''submitAppeal'',
        [PathParam ''id'', Body, UserField ''id''])],
     Handler HttpPatch [Par ''id'', Lit ''appeal'', Lit ''resolve''] [RolesGuard] (Some [''admin'']) ''resolveAppeal'' no_check
        [(ModerationService, ''resolveAppeal'', [PathParam ''id'', BodyField ''approve'', UserField ''id'', BodyField ''note''])],
     Handler HttpGet [Par ''id'', Lit ''logs''] [RolesGuard] (Some [''admin'']) ''getLogs'' no_check [(ModerationService,
        ''getLogs'', [PathParam ''id''])]]"

definition NotesController :: controller where
  "NotesController = Controller ''NotesController'' True [Lit ''v1''] [JwtAuthGuard] None
    [Handler HttpGet [Lit ''lessons'', Par ''lessonId'', Lit ''notes''] [] None ''getByLesson'' no_check [(NotesService,
        ''findByLesson'', [UserField ''id'', PathParam ''lessonId'', QueryField ''search''])],
     Handler HttpGet [Lit ''notes''] [] None ''getAll'' no_check [(NotesService, ''findByUser'', [UserField ''id'',
        QueryField ''search''])],
     Handler HttpPost [Lit ''lessons'', Par ''lessonId'', Lit ''notes''] [] None ''create'' no_check [(NotesService,
        ''create'', [UserField ''id'', PathParam ''lessonId'', Body])],
     Handler HttpPatch [Lit ''notes'', Par ''id''] [] None ''update'' no_check [(NotesService, ''update'', [PathParam ''id'',
        UserField ''id'', Body])],
     Handler HttpDelete [Lit ''notes'', Par ''id''] [] None ''remove'' no_check [(NotesService, ''remove'', [PathParam ''id'',
        UserField ''id''])]]"

definition NotificationsController :: controller where
  "NotificationsController = Controller ''NotificationsController'' True [Lit ''notifications''] [JwtAuthGuard] None
    [Handler HttpGet [] [] None ''findAll'' no_check [(NotificationsService, ''findByUser'', [UserField ''id''])],
     Handler HttpPatch [Par ''id'', Lit ''read''] [] None ''markAsRead'' no_check [(NotificationsService, ''markAsRead'',
        [PathParam ''id''])],
     Handler HttpPatch [Lit ''read-all''] [] None ''markAllAsRead'' no_check [(NotificationsService, ''markAllAsRead'',
        [UserField ''id''])],
     Handler HttpPost [Lit ''subscribe''] [] None ''subscribe'' no_check [(PushNotificationsService, ''subscribe'',
        [UserField ''id'', Body])],
     Handler HttpDelete [Lit ''unsubscribe''] [] None ''unsubscribe'' no_check [(PushNotificationsService, ''unsubscribe'',
        [UserField ''id'', BodyField ''endpoint''])],
     Handler HttpPatch [Lit ''preferences''] [] None ''updatePreferences'' no_check [(NotificationsService,
        ''updatePreferences'', [UserField ''id'', Body])]]"

definition PaymentsController :: controller where
  "PaymentsController = Controller ''PaymentsController'' True [Lit ''v1'', Lit ''payments''] [] None
    [Handler HttpPost [Lit ''intent''] [JwtAuthGuard] None ''createPaymentIntent'' no_check [(PaymentsService,
        ''createPaymentIntent'', [BodyField ''courseId'', BodyField ''currency'', UserField ''id'', BodyField ''couponCode''])],
     Handler HttpGet [Lit ''price'', Par ''courseId''] [] None ''getPrice'' no_check [(CurrencyConversionService,
        ''detectCurrencyFromLocale'', [Defaulted (Header ''accept-language'') ''en-US'']), (PaymentsService,
        ''getPriceInCurrency'', [PathParam ''courseId'', Result])],
     Handler HttpGet [Lit ''currencies''] [] None ''getSupportedCurrencies'' no_check [],
     Handler HttpPost [Lit ''webhook''] [] None ''handleWebhook'' no_check [(PaymentsService, ''handleWebhook'',
        [Header ''stripe-signature'', RawBody])]]"

definition PayoutsController :: controller where
  "PayoutsController = Controller ''PayoutsController'' True [Lit ''v1'', Lit ''payouts''] [] None
    [Handler HttpPost [Lit ''calculate''] [JwtAuthGuard, RolesGuard] (Some [''admin'']) ''calculatePayouts'' no_check
        [(PayoutsService, ''calculatePayouts'', [Converted ''Date'' (QueryField ''startDate''),
        Converted ''Date'' (QueryField ''endDate'')])],
     Handler HttpPost [Par ''payoutId'', Lit ''process''] [JwtAuthGuard,
        RolesGuard] (Some [''admin'']) ''processPayout'' no_check [(PayoutsService, ''processPayout'', [PathParam ''payoutId''])],
     Handler HttpGet [Lit ''instructor'', Par ''instructorId''] [JwtAuthGuard] None ''getInstructorPayouts'' no_check
        [(PayoutsService, ''getInstructorPayouts'', [PathParam ''instructorId''])],
     Handler HttpGet [Lit ''instructor'', Par ''instructorId'',
        Lit ''stats''] [JwtAuthGuard] None ''getPayoutStats'' no_check [(PayoutsService, ''getPayoutStats'',
        [PathParam ''instructorId''])],
     Handler HttpGet [Lit ''instructor'', Par ''instructorId'',
        Lit ''history''] [JwtAuthGuard] None ''getPayoutHistory'' no_check [(PayoutsService, ''getPayoutHistory'',
        [PathParam ''instructorId'', QueryField ''limit''])],
     Handler HttpGet [Lit ''instructor'', Par ''instructorId'',
        Lit ''monthly''] [JwtAuthGuard] None ''getMonthlyRevenue'' no_check [(PayoutsService, ''getMonthlyRevenue'',
        [PathParam ''instructorId''])],
     Handler HttpGet [Lit ''instructor'', Par ''instructorId'',
        Lit ''per-course''] [JwtAuthGuard] None ''getPerCourseRevenue'' no_check [(PayoutsService, ''getPerCourseRevenue'',
        [PathParam ''instructorId''])],
     Handler HttpGet [Lit ''instructor'', Par ''instructorId'',
        Lit ''projection''] [JwtAuthGuard] None ''getRevenueProjection'' no_check [(PayoutsService, ''getRevenueProjection'',
        [PathParam ''instructorId''])]]"

definition ProgressController :: controller where
  "ProgressController = Controller ''ProgressController'' True [] [JwtAuthGuard] None
    [Handler HttpPost [Lit ''progress''] [] None ''record'' no_check [(ProgressService, ''record'', [UserField ''id'', Body,
        UserField ''stellarPublicKey''])],
     Handler HttpGet [Lit ''users'', Par ''id'', Lit ''progress''] [] None ''findByUser'' no_check [(ProgressService,
        ''findByUser'', [PathParam ''id''])]]"

definition QaController :: controller where
  "QaController = Controller ''QaController'' True [Lit ''v1'', Lit ''qa''] [JwtAuthGuard] None
    [Handler HttpPost [] [] None ''ask'' no_check [(QaService, ''ask'', [UserField ''id'', BodyField ''courseId'',
        BodyField ''body'', BodyField ''timestampSeconds'', BodyField ''instructorId''])],
     Handler HttpGet [] [] None ''list'' no_check [(QaService, ''findByCourse'', [QueryField ''courseId''])],
     Handler HttpPatch [Par ''id'', Lit ''answer''] [] None ''answer'' no_check [(QaService, ''answer'', [PathParam ''id'',
        UserField ''id'', BodyField ''answer''])],
     Handler HttpPatch [Par ''id'', Lit ''upvote''] [] None ''upvote'' no_check [(QaService, ''upvote'', [PathParam ''id''])],
     Handler HttpDelete [Par ''id''] [] None ''remove'' no_check [(QaService, ''remove'', [PathParam ''id'', UserField ''id''])]]"

definition QuizzesController :: controller where
  "QuizzesController = Controller ''QuizzesController'' True [Lit ''v1'', Lit ''quizzes''] [JwtAuthGuard] None
    [Handler HttpPost [Par ''lessonId''] [] None ''createQuiz'' no_check [(QuizzesService, ''createQuiz'',
        [PathParam ''lessonId'', Body])],
     Handler HttpGet [Par ''id''] [] None ''getQuiz'' no_check [(QuizzesService, ''getQuiz'', [PathParam ''id''])],
     Handler HttpPost [Par ''quizId'', Lit ''questions''] [] None ''addQuestion'' no_check [(QuizzesService, ''addQuestion'',
        [PathParam ''quizId'', Body])],
     Handler HttpPost [Lit ''questions'', Par ''questionId'', Lit ''answers''] [] None ''addAnswer'' no_check [(QuizzesService,
        ''addAnswer'', [PathParam ''questionId'', Body])],
     Handler HttpPost [Par ''quizId'', Lit ''submit''] [] None ''submitAttempt'' no_check [(QuizzesService, ''submitAttempt'',
        [PathParam ''quizId'', UserField ''id'', BodyField ''answers''])],
     Handler HttpPost [Par ''attemptId'', Lit ''grade''] [] None ''gradeEssay'' no_check [(QuizzesService, ''gradeEssay'',
        [PathParam ''attemptId'', BodyField ''questionId'', BodyField ''points'', BodyField ''feedback''])],
     Handler HttpGet [Par ''quizId'', Lit ''attempts''] [] None ''getAttempts'' no_check [(QuizzesService, ''getAttempts'',
        [PathParam ''quizId'', UserField ''id''])]]"

definition RecommendationsController :: controller where
  "RecommendationsController = Controller ''RecommendationsController'' True [Lit ''v1'',
        Lit ''recommendations''] [JwtAuthGuard] None
    [Handler HttpGet [] [] None ''getRecommendations'' no_check [(RecommendationsService, ''getRecommendations'',
        [UserField ''userId'', Converted ''at most 50'' (Defaulted (QueryField ''limit'') ''10'')])]]"

definition RemindersController :: controller where
  "RemindersController = Controller ''RemindersController'' True [Lit ''v1'', Lit ''reminders''] [] None
    [Handler HttpPost [Lit ''send-inactive''] [JwtAuthGuard, RolesGuard] (Some [''admin'']) ''sendInactiveReminders'' no_check
        [(RemindersService, ''sendInactiveReminders'', [])],
     Handler HttpPost [Par ''userId'', Par ''courseId''] [JwtAuthGuard] None ''createReminder'' no_check [(RemindersService,
        ''createReminder'', [PathParam ''userId'', PathParam ''courseId''])],
     Handler HttpPatch [Par ''userId'', Par ''courseId'', Lit ''disable''] [JwtAuthGuard] None ''disableReminder'' no_check
        [(RemindersService, ''disableReminder'', [PathParam ''userId'', PathParam ''courseId''])],
     Handler HttpPatch [Par ''userId'', Par ''courseId'', Lit ''enable''] [JwtAuthGuard] None ''enableReminder'' no_check
        [(RemindersService, ''enableReminder'', [PathParam ''userId'', PathParam ''courseId''])],
     Handler HttpGet [Lit ''stats''] [JwtAuthGuard, RolesGuard] (Some [''admin'']) ''getReminderStats'' no_check
        [(RemindersService, ''getReminderStats'', [])]]"

definition SearchController :: controller where
  "SearchController = Controller ''SearchController'' True [Lit ''search''] [] None
    [Handler HttpGet [] [] None ''search'' no_check [(SearchService, ''search'', [QueryField ''q'',
        Converted ''split'' (QueryField ''indices''), UserField ''id''])],
     Handler HttpGet [Lit ''autocomplete''] [] None ''autocomplete'' no_check [(SearchService, ''autocomplete'',
        [QueryField ''q'', Converted ''split'' (QueryField ''indices'')])],
     Handler HttpPost [Lit ''click''] [] None ''trackClick'' no_check [(SearchService, ''trackClick'', [BodyField ''query'',
        BodyField ''resultId'', BodyField ''resultType'', UserField ''id''])],
     Handler HttpGet [Lit ''analytics'', Lit ''top-queries''] [JwtAuthGuard,
        RolesGuard] (Some [''admin'']) ''getTopQueries'' no_check [(SearchService, ''getTopQueries'',
        [Defaulted (Converted ''parseInt'' (QueryField ''limit'')) ''10''])]]"

definition SecretRotationController :: controller where
  "SecretRotationController = Controller ''SecretRotationController'' True [Lit ''secrets''] [JwtAuthGuard] None
    [Handler HttpPost [Lit ''api-keys'', Par ''id'', Lit ''rotate''] [] None ''rotateApiKey'' no_check [(SecretRotationService,
        ''rotateApiKey'', [PathParam ''id'', UserField ''userId''])],
     Handler HttpGet [Lit ''rotation-history''] [RolesGuard] (Some [''admin'']) ''getHistory'' no_check
        [(SecretRotationService, ''getRotationHistory'', [QueryField ''secretType'',
        Defaulted (Converted ''parseInt'' (QueryField ''limit'')) ''50''])]]"

definition StellarController :: controller where
  "StellarController = Controller ''StellarController'' True [Lit ''stellar''] [] None
    [Handler HttpGet [Lit ''network-status''] [] None ''getNetworkStatus'' no_check [(NetworkMonitorService,
        ''getNetworkStatus'', [])],
     Handler HttpGet [Lit ''balance'', Par ''publicKey''] [] None ''getBalance'' no_check [(StellarService,
        ''getAccountBalance'', [PathParam ''publicKey''])],
     Handler HttpGet [Lit ''transactions'', Par ''publicKey''] [] None ''getTransactions'' no_check [(StellarService,
        ''getTransactions'', [PathParam ''publicKey'', Defaulted (Converted ''parseInt'' (QueryField ''limit'')) ''10''])],
     Handler HttpPost [Lit ''fund-testnet''] [] None ''fundTestnet'' no_check [(StellarService, ''fundTestnetAccount'',
        [BodyField ''publicKey''])],
     Handler HttpPost [Lit ''mint''] [JwtAuthGuard, RolesGuard] (Some [''admin'']) ''mintCredential'' no_check
        [(StellarService, ''issueCredential'', [BodyField ''recipientPublicKey'', BodyField ''courseId''])]]"

definition StellarCredentialsController :: controller where
  "StellarCredentialsController = Controller ''StellarCredentialsController'' True [Lit ''credentials''] [JwtAuthGuard,
        RolesGuard] None
    [Handler HttpPost [Lit ''issue''] [] (Some [''admin'']) ''issueCredential'' no_check [(StellarService, ''issueCredential'',
        [BodyField ''recipientPublicKey'', BodyField ''courseId''])]]"

definition StreaksController :: controller where
  "StreaksController = Controller ''StreaksController'' True [Lit ''streaks''] [] None
    [Handler HttpGet [Lit ''current''] [JwtAuthGuard] None ''getCurrentStreak'' no_check [(UsersService, ''findById'',
        [UserField ''id''])],
     Handler HttpPost [Lit ''activity''] [JwtAuthGuard] None ''recordActivity'' no_check [(StreaksService, ''recordActivity'',
        [UserField ''id''])]]"

definition SubscriptionsController :: controller where
  "SubscriptionsController = Controller ''SubscriptionsController'' True [Lit ''subscriptions''] [] None
    [Handler HttpPost [Lit ''checkout''] [JwtAuthGuard] None ''createCheckout'' no_check [(SubscriptionsService,
        ''createCheckoutSession'', [UserField ''id'', BodyField ''tier''])],
     Handler HttpGet [Lit ''status''] [JwtAuthGuard] None ''getStatus'' no_check [(SubscriptionsService,
        ''getSubscriptionStatus'', [UserField ''id''])],
     Handler HttpPost [Lit ''webhook''] [] None ''handleWebhook'' no_check [(SubscriptionsService, ''handleWebhook'',
        [Header ''stripe-signature'', RawBody])]]"

definition SurveysController :: controller where
  "SurveysController = Controller ''SurveysController'' True [Lit ''v1'', Lit ''surveys''] [JwtAuthGuard] None
    [Handler HttpPost [] [RolesGuard] (Some [''admin'', ''instructor'']) ''createSurvey'' no_check [(SurveysService,
        ''createSurvey'', [BodyField ''courseId'', BodyField ''title'', BodyField ''description'', BodyField ''triggerType'',
        BodyField ''triggerMilestone'', BodyField ''allowAnonymous''])],
     Handler HttpPost [Par ''surveyId'', Lit ''questions''] [RolesGuard] (Some [''admin'',
        ''instructor'']) ''addQuestion'' no_check [(SurveysService, ''addQuestion'', [PathParam ''surveyId'',
        BodyField ''text'', BodyField ''type'', BodyField ''order'', BodyField ''options'', BodyField ''required''])],
     Handler HttpPost [Par ''surveyId'', Lit ''responses''] [] None ''submitResponse'' no_check [(SurveysService,
        ''submitResponse'', [PathParam ''surveyId'', UserField ''id'', BodyField ''answers'', BodyField ''isAnonymous''])],
     Handler HttpGet [Lit ''course'', Par ''courseId''] [] None ''getSurveysByCourse'' no_check [(SurveysService,
        ''getSurveyByCourse'', [PathParam ''courseId''])],
     Handler HttpGet [Par ''surveyId'', Lit ''responses''] [RolesGuard] (Some [''admin'',
        ''instructor'']) ''getResponses'' no_check [(SurveysService, ''getResponsesForSurvey'', [PathParam ''surveyId''])],
     Handler HttpGet [Par ''surveyId'', Lit ''analytics''] [RolesGuard] (Some [''admin'',
        ''instructor'']) ''getAnalytics'' no_check [(SurveysService, ''getAnalytics'', [PathParam ''surveyId''])],
     Handler HttpGet [Lit ''instructor'', Par ''instructorId'', Lit ''aggregate''] [RolesGuard] (Some [''admin'',
        ''instructor'']) ''getInstructorAggregate'' no_check [(SurveysService, ''getInstructorSurveyAggregate'',
        [PathParam ''instructorId''])]]"

definition UsersController :: controller where
  "UsersController = Controller ''UsersController'' True [Lit ''users''] [] None
    [Handler HttpGet [Lit ''admin-only''] [JwtAuthGuard, RolesGuard] (Some [''admin'']) ''adminOnly'' no_check [],
     Handler HttpGet [Lit ''me''] [JwtAuthGuard] None ''getMe'' no_check [(UsersService, ''findById'', [UserField ''id''])],
     Handler HttpGet [Par ''id''] [] None ''findOne'' no_check [(UsersService, ''findById'', [PathParam ''id''])],
     Handler HttpGet [Par ''id'', Lit ''token-balance''] [JwtAuthGuard] None ''getTokenBalance'' no_check [(UsersService,
        ''findById'', [PathParam ''id'']), (StellarService, ''getTokenBalance'', [Result])],
     Handler HttpGet [Par ''id'', Lit ''referrals''] [JwtAuthGuard] None ''getReferrals'' no_check [(UsersService,
        ''getReferralStats'', [PathParam ''id''])],
     Handler HttpPatch [Par ''id''] [JwtAuthGuard] None ''update'' own_profile [(UsersService, ''update'', [PathParam ''id'',
        Body])],
     Handler HttpPost [Lit ''me'', Lit ''export''] [JwtAuthGuard] None ''exportData'' no_check [(UsersService,
        ''exportUserData'', [UserField ''id'']), (AuditService, ''log'', [Const ''gdpr.data_export'', UserField ''id'',
        Const ''true''])],
     Handler HttpDelete [Lit ''me'', Lit ''account''] [JwtAuthGuard] None ''deleteAccount'' no_check [(UsersService,
        ''anonymizeUser'', [UserField ''id'']), (AuditService, ''log'', [Const ''gdpr.account_deletion'', UserField ''id'',
        Const ''true''])]]"

definition AdminUsersController :: controller where
  "AdminUsersController = Controller ''AdminUsersController'' True [Lit ''admin'', Lit ''users''] [JwtAuthGuard, RolesGuard] None
    [Handler HttpGet [] [] (Some [''admin'']) ''findAll'' no_check [(UsersService, ''findAll'', [Fields [(''page'',
        Defaulted (Converted ''Number'' (QueryField ''page'')) ''1''), (''limit'',
        Defaulted (Converted ''Number'' (QueryField ''limit'')) ''10''), (''role'', QueryField ''role''), (''isVerified'',
        Converted ''true or false'' (QueryField ''isVerified'')), (''search'', QueryField ''search'')]])],
     Handler HttpPatch [Par ''id'', Lit ''role''] [] (Some [''admin'']) ''changeRole'' no_check [(UsersService, ''changeRole'',
        [PathParam ''id'', BodyField ''role''])],
     Handler HttpPatch [Par ''id'', Lit ''ban''] [] (Some [''admin'']) ''banUser'' no_check [(UsersService, ''banUser'',
        [PathParam ''id'', BodyField ''isBanned''])],
     Handler HttpDelete [Par ''id''] [] (Some [''admin'']) ''deleteUser'' no_check [(UsersService, ''softDelete'',
        [PathParam ''id''])]]"

definition WaitlistController :: controller where
  "WaitlistController = Controller ''WaitlistController'' True [] [JwtAuthGuard] None
    [Handler HttpPost [Lit ''courses'', Par ''id'', Lit ''waitlist''] [] None ''join'' no_check [(WaitlistService, ''join'',
        [UserField ''id'', PathParam ''id''])],
     Handler HttpDelete [Lit ''courses'', Par ''id'', Lit ''waitlist''] [] None ''leave'' no_check [(WaitlistService,
        ''leave'', [UserField ''id'', PathParam ''id''])],
     Handler HttpGet [Lit ''courses'', Par ''id'', Lit ''waitlist'',
        Lit ''position''] [] None ''getPosition'' no_check [(WaitlistService, ''getPosition'', [UserField ''id'',
        PathParam ''id'']), (WaitlistService, ''getWaitlistCount'', [PathParam ''id''])],
     Handler HttpGet [Lit ''users'', Lit ''me'', Lit ''waitlist''] [] None ''getMyWaitlist'' no_check [(WaitlistService,
        ''listForUser'', [UserField ''id''])],
     Handler HttpGet [Lit ''admin'', Lit ''courses'', Par ''id'',
        Lit ''waitlist''] [RolesGuard] (Some [''admin'']) ''adminList'' no_check [(WaitlistService, ''listForCourse'',
        [PathParam ''id''])],
     Handler HttpDelete [Lit ''admin'', Lit ''courses'', Par ''courseId'', Lit ''waitlist'',
        Par ''userId''] [RolesGuard] (Some [''admin'']) ''adminRemove'' no_check [(WaitlistService, ''adminRemove'',
        [PathParam ''courseId'', PathParam ''userId''])],
     Handler HttpPost [Lit ''admin'', Lit ''courses'', Par ''id'', Lit ''waitlist'',
        Lit ''promote''] [RolesGuard] (Some [''admin'']) ''adminPromote'' no_check [(WaitlistService, ''promoteNext'',
        [PathParam ''id''])]]"

definition WebhooksController :: controller where
  "WebhooksController = Controller ''WebhooksController'' True [Lit ''v1'', Lit ''webhooks''] [JwtAuthGuard] None
    [Handler HttpPost [] [] None ''create'' no_check [(WebhooksService, ''register'', [UserField ''userId'', BodyField ''url'',
        BodyField ''events''])],
     Handler HttpGet [] [] None ''list'' no_check [(WebhooksService, ''list'', [UserField ''userId''])],
     Handler HttpPatch [Par ''id''] [] None ''update'' no_check [(WebhooksService, ''update'', [UserField ''userId'',
        PathParam ''id'', Body])],
     Handler HttpDelete [Par ''id''] [] None ''remove'' no_check [(WebhooksService, ''delete'', [UserField ''userId'',
        PathParam ''id''])],
     Handler HttpGet [Par ''id'', Lit ''logs''] [] None ''logs'' no_check [(WebhooksService, ''getLogs'', [PathParam ''id'',
        UserField ''userId''])],
     Handler HttpPost [Lit ''verify-signature''] [] None ''verifySignature'' no_check [(WebhooksService, ''getWebhookForUser'',
        [BodyField ''webhookId'', UserField ''userId'']), (WebhooksService, ''verifySignature'', [Result, BodyField ''body'',
        BodyField ''signature'', BodyField ''timestamp''])]]"

lemmas controller_defs =
  AccessControlController_def
  AdaptiveLearningController_def
  AnalyticsController_def
  AnnouncementsController_def
  ApiKeysController_def
  ApiUsageController_def
  AssignmentsController_def
  AuditController_def
  AuthController_def
  BatchController_def
  BundlesController_def
  AdminBundlesController_def
  CdnController_def
  CertificatesController_def
  CohortsController_def
  CouponsController_def
  CourseVersioningController_def
  CoursesController_def
  ModulesController_def
  PrerequisitesController_def
  ReviewsController_def
  CredentialsController_def
  DatabaseController_def
  DownloadsController_def
  EmailController_def
  EnrollmentsController_def
  ForumsController_def
  HealthController_def
  ImportExportController_def
  InstructorApplicationsController_def
  KycController_def
  LeaderboardController_def
  LearningPathsController_def
  AdminLearningPathsController_def
  LiveSessionsController_def
  ModerationController_def
  NotesController_def
  NotificationsController_def
  PaymentsController_def
  PayoutsController_def
  ProgressController_def
  QaController_def
  QuizzesController_def
  RecommendationsController_def
  RemindersController_def
  SearchController_def
  SecretRotationController_def
  StellarController_def
  StellarCredentialsController_def
  StreaksController_def
  SubscriptionsController_def
  SurveysController_def
  UsersController_def
  AdminUsersController_def
  WaitlistController_def
  WebhooksController_def

end
