(* ===== verification/App_Modules.thy ===== *)
theory App_Modules
  imports Controllers
begin

text \<open>
  The modules of \<open>apps/backend/src\<close> (\<open>*.module.ts\<close>): what each brings in and the controllers it declares, without the
  modules of packages, which declare none of the program's. \<open>scan\<close> goes through the imports from \<open>AppModule\<close> the way the
  framework does, depth first; a controller answers requests if its module is met.
\<close>

subsection \<open>Modules\<close>

record app_module =
  md_name :: string
  md_imports :: "string list"
  md_controllers :: "controller list"

definition AccessControlModule :: app_module where
  "AccessControlModule = \<lparr>md_name = ''AccessControlModule'', md_imports = [],
     md_controllers = [AccessControlController]\<rparr>"

definition AdaptiveLearningModule :: app_module where
  "AdaptiveLearningModule = \<lparr>md_name = ''AdaptiveLearningModule'', md_imports = [],
     md_controllers = [AdaptiveLearningController]\<rparr>"

definition AnalyticsModule :: app_module where
  "AnalyticsModule = \<lparr>md_name = ''AnalyticsModule'', md_imports = [],
     md_controllers = [AnalyticsController]\<rparr>"

definition AnnouncementsModule :: app_module where
  "AnnouncementsModule = \<lparr>md_name = ''AnnouncementsModule'', md_imports = [''NotificationsModule''],
     md_controllers = [AnnouncementsController]\<rparr>"

definition ApiKeysModule :: app_module where
  "ApiKeysModule = \<lparr>md_name = ''ApiKeysModule'', md_imports = [''AuditModule'', ''AuthModule''],
     md_controllers = [ApiKeysController]\<rparr>"

definition ApiUsageModule :: app_module where
  "ApiUsageModule = \<lparr>md_name = ''ApiUsageModule'', md_imports = [],
     md_controllers = [ApiUsageController]\<rparr>"

definition ApiVersionModule :: app_module where
  "ApiVersionModule = \<lparr>md_name = ''ApiVersionModule'', md_imports = [],
     md_controllers = []\<rparr>"

definition AppModule :: app_module where
  "AppModule = \<lparr>md_name = ''AppModule'', md_imports = [''AuthModule'', ''ApiKeysModule'', ''DatabaseModule'',
        ''CoursesModule'', ''UsersModule'', ''StellarModule'', ''ProgressModule'', ''CredentialsModule'',
        ''LeaderboardModule'', ''ForumsModule'', ''NotificationsModule'', ''RemindersModule'', ''CertificatesModule'',
        ''PayoutsModule'', ''InstructorApplicationsModule'', ''HealthModule'', ''MetricsModule'', ''KycModule'',
        ''RecommendationsModule'', ''EmailModule'', ''AnalyticsModule'', ''WebhooksModule'', ''ModerationModule'',
        ''ImportExportModule'', ''SearchModule'', ''BatchModule'', ''ApiUsageModule'', ''QuizzesModule'', ''CohortsModule'',
        ''CdnModule'', ''AccessControlModule'', ''RateLimitModule'', ''AuditModule'', ''DownloadsModule'', ''QaModule'',
        ''AnnouncementsModule'', ''AssignmentsModule'', ''StreaksModule'', ''BundlesModule'', ''SubscriptionsModule'',
        ''LiveSessionsModule'', ''PaymentsModule'', ''ApiVersionModule''],
     md_controllers = []\<rparr>"

definition AssignmentsModule :: app_module where
  "AssignmentsModule = \<lparr>md_name = ''AssignmentsModule'', md_imports = [''CoursesModule'', ''UsersModule''],
     md_controllers = [AssignmentsController]\<rparr>"

definition AuditModule :: app_module where
  "AuditModule = \<lparr>md_name = ''AuditModule'', md_imports = [''LoggerModule''],
     md_controllers = [AuditController]\<rparr>"

definition AuthModule :: app_module where
  "AuthModule = \<lparr>md_name = ''AuthModule'', md_imports = [''UsersModule'', ''MailModule'', ''AuditModule''],
     md_controllers = [AuthController]\<rparr>"

definition BatchModule :: app_module where
  "BatchModule = \<lparr>md_name = ''BatchModule'', md_imports = [''UsersModule'', ''CoursesModule''],
     md_controllers = [BatchController]\<rparr>"

definition BundlesModule :: app_module where
  "BundlesModule = \<lparr>md_name = ''BundlesModule'', md_imports = [''EnrollmentsModule'', ''StellarModule'',
        ''CredentialsModule'', ''UsersModule''],
     md_controllers = [BundlesController, AdminBundlesController]\<rparr>"

definition CdnModule :: app_module where
  "CdnModule = \<lparr>md_name = ''CdnModule'', md_imports = [],
     md_controllers = [CdnController]\<rparr>"

definition CertificatesModule :: app_module where
  "CertificatesModule = \<lparr>md_name = ''CertificatesModule'', md_imports = [''StellarModule''],
     md_controllers = [CertificatesController]\<rparr>"

definition CohortsModule :: app_module where
  "CohortsModule = \<lparr>md_name = ''CohortsModule'', md_imports = [],
     md_controllers = [CohortsController]\<rparr>"

definition CouponsModule :: app_module where
  "CouponsModule = \<lparr>md_name = ''CouponsModule'', md_imports = [],
     md_controllers = [CouponsController]\<rparr>"

definition CoursesModule :: app_module where
  "CoursesModule = \<lparr>md_name = ''CoursesModule'', md_imports = [''SearchModule'', ''NotificationsModule'',
        ''MetricsModule''],
     md_controllers = [CoursesController, ModulesController, ReviewsController, CourseVersioningController,
        PrerequisitesController]\<rparr>"

definition CredentialsModule :: app_module where
  "CredentialsModule = \<lparr>md_name = ''CredentialsModule'', md_imports = [''StellarModule'', ''KycModule'',
        ''CoursesModule''],
     md_controllers = [CredentialsController]\<rparr>"

definition DatabaseModule :: app_module where
  "DatabaseModule = \<lparr>md_name = ''DatabaseModule'', md_imports = [''AuthModule''],
     md_controllers = [DatabaseController]\<rparr>"

definition DownloadsModule :: app_module where
  "DownloadsModule = \<lparr>md_name = ''DownloadsModule'', md_imports = [],
     md_controllers = [DownloadsController]\<rparr>"

definition EmailModule :: app_module where
  "EmailModule = \<lparr>md_name = ''EmailModule'', md_imports = [],
     md_controllers = [EmailController]\<rparr>"

definition EnrollmentsModule :: app_module where
  "EnrollmentsModule = \<lparr>md_name = ''EnrollmentsModule'', md_imports = [''CoursesModule'', ''MetricsModule'',
        ''StellarModule''],
     md_controllers = [EnrollmentsController]\<rparr>"

definition ForumsModule :: app_module where
  "ForumsModule = \<lparr>md_name = ''ForumsModule'', md_imports = [''ModerationModule'', ''SearchModule'', ''StreaksModule''],
     md_controllers = [ForumsController]\<rparr>"

definition HealthModule :: app_module where
  "HealthModule = \<lparr>md_name = ''HealthModule'', md_imports = [],
     md_controllers = [HealthController]\<rparr>"

definition ImportExportModule :: app_module where
  "ImportExportModule = \<lparr>md_name = ''ImportExportModule'', md_imports = [],
     md_controllers = [ImportExportController]\<rparr>"

definition InstructorApplicationsModule :: app_module where
  "InstructorApplicationsModule = \<lparr>md_name = ''InstructorApplicationsModule'', md_imports = [''UsersModule''],
     md_controllers = [InstructorApplicationsController]\<rparr>"

definition KycModule :: app_module where
  "KycModule = \<lparr>md_name = ''KycModule'', md_imports = [''AuthModule''],
     md_controllers = [KycController]\<rparr>"

definition LeaderboardModule :: app_module where
  "LeaderboardModule = \<lparr>md_name = ''LeaderboardModule'', md_imports = [''StellarModule'', ''MetricsModule''],
     md_controllers = [LeaderboardController]\<rparr>"

definition LearningPathsModule :: app_module where
  "LearningPathsModule = \<lparr>md_name = ''LearningPathsModule'', md_imports = [''EnrollmentsModule'', ''CredentialsModule'',
        ''UsersModule''],
     md_controllers = [LearningPathsController, AdminLearningPathsController]\<rparr>"

definition LiveSessionsModule :: app_module where
  "LiveSessionsModule = \<lparr>md_name = ''LiveSessionsModule'', md_imports = [''EmailModule''],
     md_controllers = [LiveSessionsController]\<rparr>"

definition LoggerModule :: app_module where
  "LoggerModule = \<lparr>md_name = ''LoggerModule'', md_imports = [],
     md_controllers = []\<rparr>"

definition MailModule :: app_module where
  "MailModule = \<lparr>md_name = ''MailModule'', md_imports = [],
     md_controllers = []\<rparr>"

definition MetricsModule :: app_module where
  "MetricsModule = \<lparr>md_name = ''MetricsModule'', md_imports = [],
     md_controllers = []\<rparr>"

definition ModerationModule :: app_module where
  "ModerationModule = \<lparr>md_name = ''ModerationModule'', md_imports = [],
     md_controllers = [ModerationController]\<rparr>"

definition NotesModule :: app_module where
  "NotesModule = \<lparr>md_name = ''NotesModule'', md_imports = [],
     md_controllers = [NotesController]\<rparr>"

definition NotificationsModule :: app_module where
  "NotificationsModule = \<lparr>md_name = ''NotificationsModule'', md_imports = [],
     md_controllers = [NotificationsController]\<rparr>"

definition PaymentsModule :: app_module where
  "PaymentsModule = \<lparr>md_name = ''PaymentsModule'', md_imports = [''CouponsModule''],
     md_controllers = [PaymentsController]\<rparr>"

definition PayoutsModule :: app_module where
  "PayoutsModule = \<lparr>md_name = ''PayoutsModule'', md_imports = [''KycModule''],
     md_controllers = [PayoutsController]\<rparr>"

definition ProgressModule :: app_module where
  "ProgressModule = \<lparr>md_name = ''ProgressModule'', md_imports = [''StellarModule'', ''CredentialsModule'',
        ''UsersModule'', ''StreaksModule'', ''BundlesModule'', ''MetricsModule''],
     md_controllers = [ProgressController]\<rparr>"

definition QaModule :: app_module where
  "QaModule = \<lparr>md_name = ''QaModule'', md_imports = [''NotificationsModule''],
     md_controllers = [QaController]\<rparr>"

definition QuizzesModule :: app_module where
  "QuizzesModule = \<lparr>md_name = ''QuizzesModule'', md_imports = [''StreaksModule''],
     md_controllers = [QuizzesController]\<rparr>"

definition RateLimitModule :: app_module where
  "RateLimitModule = \<lparr>md_name = ''RateLimitModule'', md_imports = [],
     md_controllers = []\<rparr>"

definition RecommendationsModule :: app_module where
  "RecommendationsModule = \<lparr>md_name = ''RecommendationsModule'', md_imports = [''MetricsModule''],
     md_controllers = [RecommendationsController]\<rparr>"

definition RemindersModule :: app_module where
  "RemindersModule = \<lparr>md_name = ''RemindersModule'', md_imports = [''MailModule''],
     md_controllers = [RemindersController]\<rparr>"

definition SearchModule :: app_module where
  "SearchModule = \<lparr>md_name = ''SearchModule'', md_imports = [],
     md_controllers = [SearchController]\<rparr>"

definition SecretRotationModule :: app_module where
  "SecretRotationModule = \<lparr>md_name = ''SecretRotationModule'', md_imports = [],
     md_controllers = [SecretRotationController]\<rparr>"

definition StellarModule :: app_module where
  "StellarModule = \<lparr>md_name = ''StellarModule'', md_imports = [''CredentialsModule'', ''NotificationsModule'',
        ''UsersModule''],
     md_controllers = [StellarController, StellarCredentialsController]\<rparr>"

definition StreaksModule :: app_module where
  "StreaksModule = \<lparr>md_name = ''StreaksModule'', md_imports = [''StellarModule'', ''UsersModule''],
     md_controllers = [StreaksController]\<rparr>"

definition SubscriptionsModule :: app_module where
  "SubscriptionsModule = \<lparr>md_name = ''SubscriptionsModule'', md_imports = [],
     md_controllers = [SubscriptionsController]\<rparr>"

definition SurveysModule :: app_module where
  "SurveysModule = \<lparr>md_name = ''SurveysModule'', md_imports = [],
     md_controllers = [SurveysController]\<rparr>"

definition UsersModule :: app_module where
  "UsersModule = \<lparr>md_name = ''UsersModule'', md_imports = [''StellarModule'', ''AuditModule''],
     md_controllers = [UsersController, AdminUsersController]\<rparr>"

definition WaitlistModule :: app_module where
  "WaitlistModule = \<lparr>md_name = ''WaitlistModule'', md_imports = [],
     md_controllers = [WaitlistController]\<rparr>"

definition WebhooksModule :: app_module where
  "WebhooksModule = \<lparr>md_name = ''WebhooksModule'', md_imports = [],
     md_controllers = [WebhooksController]\<rparr>"

definition modules :: "app_module list" where
  "modules =
   [AccessControlModule, AdaptiveLearningModule, AnalyticsModule, AnnouncementsModule, ApiKeysModule, ApiUsageModule,
    ApiVersionModule, AppModule, AssignmentsModule, AuditModule, AuthModule, BatchModule, BundlesModule, CdnModule,
    CertificatesModule, CohortsModule, CouponsModule, CoursesModule, CredentialsModule, DatabaseModule, DownloadsModule,
    EmailModule, EnrollmentsModule, ForumsModule, HealthModule, ImportExportModule, InstructorApplicationsModule, KycModule,
    LeaderboardModule, LearningPathsModule, LiveSessionsModule, LoggerModule, MailModule, MetricsModule, ModerationModule,
    NotesModule, NotificationsModule, PaymentsModule, PayoutsModule, ProgressModule, QaModule, QuizzesModule,
    RateLimitModule, RecommendationsModule, RemindersModule, SearchModule, SecretRotationModule, StellarModule,
    StreaksModule, SubscriptionsModule, SurveysModule, UsersModule, WaitlistModule, WebhooksModule]"

definition module_named :: "string \<Rightarrow> app_module option" where
  "module_named n = find (\<lambda>m. md_name m = n) modules"

lemmas module_defs =
  AccessControlModule_def
  AdaptiveLearningModule_def
  AnalyticsModule_def
  AnnouncementsModule_def
  ApiKeysModule_def
  ApiUsageModule_def
  ApiVersionModule_def
  AppModule_def
  AssignmentsModule_def
  AuditModule_def
  AuthModule_def
  BatchModule_def
  BundlesModule_def
  CdnModule_def
  CertificatesModule_def
  CohortsModule_def
  CouponsModule_def
  CoursesModule_def
  CredentialsModule_def
  DatabaseModule_def
  DownloadsModule_def
  EmailModule_def
  EnrollmentsModule_def
  ForumsModule_def
  HealthModule_def
  ImportExportModule_def
  InstructorApplicationsModule_def
  KycModule_def
  LeaderboardModule_def
  LearningPathsModule_def
  LiveSessionsModule_def
  LoggerModule_def
  MailModule_def
  MetricsModule_def
  ModerationModule_def
  NotesModule_def
  NotificationsModule_def
  PaymentsModule_def
  PayoutsModule_def
  ProgressModule_def
  QaModule_def
  QuizzesModule_def
  RateLimitModule_def
  RecommendationsModule_def
  RemindersModule_def
  SearchModule_def
  SecretRotationModule_def
  StellarModule_def
  StreaksModule_def
  SubscriptionsModule_def
  SurveysModule_def
  UsersModule_def
  WaitlistModule_def
  WebhooksModule_def

subsection \<open>What the application brings in\<close>

inductive brought_in :: "string \<Rightarrow> bool" where
  root: "brought_in ''AppModule''"
| imported: "brought_in m \<Longrightarrow> module_named m = Some x \<Longrightarrow> i \<in> set (md_imports x) \<Longrightarrow> brought_in i"

lemma module_named_SomeD: "module_named n = Some x \<Longrightarrow> x \<in> set modules \<and> md_name x = n"
  unfolding module_named_def using find_SomeD by fastforce

text \<open>Modules still to visit, and those met, in the order they are met.\<close>

function scan :: "string list \<Rightarrow> string list \<Rightarrow> string list" where
  "scan [] seen = seen"
| "scan (m # todo) seen =
     (case module_named m of
        None \<Rightarrow> scan todo seen
      | Some x \<Rightarrow> if m \<in> set seen then scan todo seen else scan (md_imports x @ todo) (seen @ [m]))"
  by pat_completeness auto

termination
proof (relation "measures [\<lambda>(todo, seen). card (md_name ` set modules - set seen), \<lambda>(todo, seen). length todo]", goal_cases)
  case (4 m todo seen x)
  then have "m \<in> md_name ` set modules - set seen" using module_named_SomeD by force
  then have "card (md_name ` set modules - set (seen @ [m])) < card (md_name ` set modules - set seen)"
    by (intro psubset_card_mono) auto
  then show ?case by simp
qed simp_all

lemma scan_seen: "set seen \<subseteq> set (scan todo seen)"
  by (induction todo seen rule: scan.induct) (auto split: option.splits)

lemma scan_todo: "m \<in> set todo \<Longrightarrow> module_named m \<noteq> None \<Longrightarrow> m \<in> set (scan todo seen)"
proof (induction todo seen rule: scan.induct)
  case (2 n todo seen)
  then show ?case
    using scan_seen[of seen "todo"] scan_seen[of "seen @ [n]" "md_imports (the (module_named n)) @ todo"]
    by (auto split: option.splits)
qed simp

definition closed_upto :: "string list \<Rightarrow> string list \<Rightarrow> bool" where
  "closed_upto todo seen \<longleftrightarrow>
     (\<forall>m \<in> set seen. \<forall>x. module_named m = Some x \<longrightarrow> (\<forall>i \<in> set (md_imports x). i \<in> set seen \<union> set todo \<or> module_named i = None))"

lemma scan_closed: "closed_upto todo seen \<Longrightarrow> closed_upto [] (scan todo seen)"
proof (induction todo seen rule: scan.induct)
  case (2 m todo seen)
  show ?case
  proof (cases "module_named m")
    case None
    have "closed_upto todo seen" using "2.prems" None by (fastforce simp: closed_upto_def)
    then show ?thesis using "2.IH"(1)[OF None] None by simp
  next
    case (Some x)
    show ?thesis
    proof (cases "m \<in> set seen")
      case True
      have "closed_upto todo seen" using "2.prems" True by (fastforce simp: closed_upto_def)
      then show ?thesis using "2.IH"(2)[OF Some True] Some True by simp
    next
      case False
      have "closed_upto (md_imports x @ todo) (seen @ [m])" using "2.prems" Some by (fastforce simp: closed_upto_def)
      then show ?thesis using "2.IH"(3)[OF Some False] Some False by simp
    qed
  qed
qed simp

lemma scan_sound:
  "\<forall>m \<in> set todo \<union> set seen. brought_in m \<Longrightarrow> m \<in> set (scan todo seen) \<Longrightarrow> brought_in m"
proof (induction todo seen rule: scan.induct)
  case (2 n todo seen)
  show ?case
  proof (cases "module_named n = None \<or> n \<in> set seen")
    case True
    then show ?thesis using 2 by (auto split: option.splits)
  next
    case False
    then obtain x where x: "module_named n = Some x" "n \<notin> set seen" by auto
    have "\<forall>m \<in> set (md_imports x @ todo) \<union> set (seen @ [n]). brought_in m"
      using "2.prems"(1) brought_in.imported[OF _ x(1)] by auto
    then show ?thesis using "2.IH"(3)[OF x] "2.prems"(2) x by simp
  qed
qed simp

definition server_modules :: "string list" where
  "server_modules = scan [''AppModule''] []"

definition server_controllers :: "controller list" where
  "server_controllers =
     concat (map (\<lambda>n. case module_named n of Some x \<Rightarrow> md_controllers x | None \<Rightarrow> []) server_modules)"

definition server_routes :: "route list" where
  "server_routes = concat (map routes_of server_controllers)"

lemma modules_named [simp]:
  "module_named ''AccessControlModule'' = Some AccessControlModule"
  "module_named ''AdaptiveLearningModule'' = Some AdaptiveLearningModule"
  "module_named ''AnalyticsModule'' = Some AnalyticsModule"
  "module_named ''AnnouncementsModule'' = Some AnnouncementsModule"
  "module_named ''ApiKeysModule'' = Some ApiKeysModule"
  "module_named ''ApiUsageModule'' = Some ApiUsageModule"
  "module_named ''ApiVersionModule'' = Some ApiVersionModule"
  "module_named ''AppModule'' = Some AppModule"
  "module_named ''AssignmentsModule'' = Some AssignmentsModule"
  "module_named ''AuditModule'' = Some AuditModule"
  "module_named ''AuthModule'' = Some AuthModule"
  "module_named ''BatchModule'' = Some BatchModule"
  "module_named ''BundlesModule'' = Some BundlesModule"
  "module_named ''CdnModule'' = Some CdnModule"
  "module_named ''CertificatesModule'' = Some CertificatesModule"
  "module_named ''CohortsModule'' = Some CohortsModule"
  "module_named ''CouponsModule'' = Some CouponsModule"
  "module_named ''CoursesModule'' = Some CoursesModule"
  "module_named ''CredentialsModule'' = Some CredentialsModule"
  "module_named ''DatabaseModule'' = Some DatabaseModule"
  "module_named ''DownloadsModule'' = Some DownloadsModule"
  "module_named ''EmailModule'' = Some EmailModule"
  "module_named ''EnrollmentsModule'' = Some EnrollmentsModule"
  "module_named ''ForumsModule'' = Some ForumsModule"
  "module_named ''HealthModule'' = Some HealthModule"
  "module_named ''ImportExportModule'' = Some ImportExportModule"
  "module_named ''InstructorApplicationsModule'' = Some InstructorApplicationsModule"
  "module_named ''KycModule'' = Some KycModule"
  "module_named ''LeaderboardModule'' = Some LeaderboardModule"
  "module_named ''LearningPathsModule'' = Some LearningPathsModule"
  "module_named ''LiveSessionsModule'' = Some LiveSessionsModule"
  "module_named ''LoggerModule'' = Some LoggerModule"
  "module_named ''MailModule'' = Some MailModule"
  "module_named ''MetricsModule'' = Some MetricsModule"
  "module_named ''ModerationModule'' = Some ModerationModule"
  "module_named ''NotesModule'' = Some NotesModule"
  "module_named ''NotificationsModule'' = Some NotificationsModule"
  "module_named ''PaymentsModule'' = Some PaymentsModule"
  "module_named ''PayoutsModule'' = Some PayoutsModule"
  "module_named ''ProgressModule'' = Some ProgressModule"
  "module_named ''QaModule'' = Some QaModule"
  "module_named ''QuizzesModule'' = Some QuizzesModule"
  "module_named ''RateLimitModule'' = Some RateLimitModule"
  "module_named ''RecommendationsModule'' = Some RecommendationsModule"
  "module_named ''RemindersModule'' = Some RemindersModule"
  "module_named ''SearchModule'' = Some SearchModule"
  "module_named ''SecretRotationModule'' = Some SecretRotationModule"
  "module_named ''StellarModule'' = Some StellarModule"
  "module_named ''StreaksModule'' = Some StreaksModule"
  "module_named ''SubscriptionsModule'' = Some SubscriptionsModule"
  "module_named ''SurveysModule'' = Some SurveysModule"
  "module_named ''UsersModule'' = Some UsersModule"
  "module_named ''WaitlistModule'' = Some WaitlistModule"
  "module_named ''WebhooksModule'' = Some WebhooksModule"
  by (simp_all add: module_named_def modules_def module_defs)

lemma module_imports:
  "md_imports AccessControlModule = []"
  "md_imports AdaptiveLearningModule = []"
  "md_imports AnalyticsModule = []"
  "md_imports AnnouncementsModule = [''NotificationsModule'']"
  "md_imports ApiKeysModule = [''AuditModule'', ''AuthModule'']"
  "md_imports ApiUsageModule = []"
  "md_imports ApiVersionModule = []"
  "md_imports AppModule = [''AuthModule'', ''ApiKeysModule'', ''DatabaseModule'',
        ''CoursesModule'', ''UsersModule'', ''StellarModule'', ''ProgressModule'', ''CredentialsModule'',
        ''LeaderboardModule'', ''ForumsModule'', ''NotificationsModule'', ''RemindersModule'', ''CertificatesModule'',
        ''PayoutsModule'', ''InstructorApplicationsModule'', ''HealthModule'', ''MetricsModule'', ''KycModule'',
        ''RecommendationsModule'', ''EmailModule'', ''AnalyticsModule'', ''WebhooksModule'', ''ModerationModule'',
        ''ImportExportModule'', ''SearchModule'', ''BatchModule'', ''ApiUsageModule'', ''QuizzesModule'', ''CohortsModule'',
        ''CdnModule'', ''AccessControlModule'', ''RateLimitModule'', ''AuditModule'', ''DownloadsModule'', ''QaModule'',
        ''AnnouncementsModule'', ''AssignmentsModule'', ''StreaksModule'', ''BundlesModule'', ''SubscriptionsModule'',
        ''LiveSessionsModule'', ''PaymentsModule'', ''ApiVersionModule'']"
  "md_imports AssignmentsModule = [''CoursesModule'', ''UsersModule'']"
  "md_imports AuditModule = [''LoggerModule'']"
  "md_imports AuthModule = [''UsersModule'', ''MailModule'', ''AuditModule'']"
  "md_imports BatchModule = [''UsersModule'', ''CoursesModule'']"
  "md_imports BundlesModule = [''EnrollmentsModule'', ''StellarModule'',
        ''CredentialsModule'', ''UsersModule'']"
  "md_imports CdnModule = []"
  "md_imports CertificatesModule = [''StellarModule'']"
  "md_imports CohortsModule = []"
  "md_imports CouponsModule = []"
  "md_imports CoursesModule = [''SearchModule'', ''NotificationsModule'',
        ''MetricsModule'']"
  "md_imports CredentialsModule = [''StellarModule'', ''KycModule'',
        ''CoursesModule'']"
  "md_imports DatabaseModule = [''AuthModule'']"
  "md_imports DownloadsModule = []"
  "md_imports EmailModule = []"
  "md_imports EnrollmentsModule = [''CoursesModule'', ''MetricsModule'',
        ''StellarModule'']"
  "md_imports ForumsModule = [''ModerationModule'', ''SearchModule'', ''StreaksModule'']"
  "md_imports HealthModule = []"
  "md_imports ImportExportModule = []"
  "md_imports InstructorApplicationsModule = [''UsersModule'']"
  "md_imports KycModule = [''AuthModule'']"
  "md_imports LeaderboardModule = [''StellarModule'', ''MetricsModule'']"
  "md_imports LearningPathsModule = [''EnrollmentsModule'', ''CredentialsModule'',
        ''UsersModule'']"
  "md_imports LiveSessionsModule = [''EmailModule'']"
  "md_imports LoggerModule = []"
  "md_imports MailModule = []"
  "md_imports MetricsModule = []"
  "md_imports ModerationModule = []"
  "md_imports NotesModule = []"
  "md_imports NotificationsModule = []"
  "md_imports PaymentsModule = [''CouponsModule'']"
  "md_imports PayoutsModule = [''KycModule'']"
  "md_imports ProgressModule = [''StellarModule'', ''CredentialsModule'',
        ''UsersModule'', ''StreaksModule'', ''BundlesModule'', ''MetricsModule'']"
  "md_imports QaModule = [''NotificationsModule'']"
  "md_imports QuizzesModule = [''StreaksModule'']"
  "md_imports RateLimitModule = []"
  "md_imports RecommendationsModule = [''MetricsModule'']"
  "md_imports RemindersModule = [''MailModule'']"
  "md_imports SearchModule = []"
  "md_imports SecretRotationModule = []"
  "md_imports StellarModule = [''CredentialsModule'', ''NotificationsModule'',
        ''UsersModule'']"
  "md_imports StreaksModule = [''StellarModule'', ''UsersModule'']"
  "md_imports SubscriptionsModule = []"
  "md_imports SurveysModule = []"
  "md_imports UsersModule = [''StellarModule'', ''AuditModule'']"
  "md_imports WaitlistModule = []"
  "md_imports WebhooksModule = []"
  by (simp_all add: module_defs)

lemma server_modules_eq:
  "server_modules =
   [''AppModule'', ''AuthModule'', ''UsersModule'', ''StellarModule'', ''CredentialsModule'', ''KycModule'',
    ''CoursesModule'', ''SearchModule'', ''NotificationsModule'', ''MetricsModule'', ''AuditModule'', ''LoggerModule'',
    ''MailModule'', ''ApiKeysModule'', ''DatabaseModule'', ''ProgressModule'', ''StreaksModule'', ''BundlesModule'',
    ''EnrollmentsModule'', ''LeaderboardModule'', ''ForumsModule'', ''ModerationModule'', ''RemindersModule'',
    ''CertificatesModule'', ''PayoutsModule'', ''InstructorApplicationsModule'', ''HealthModule'',
    ''RecommendationsModule'', ''EmailModule'', ''AnalyticsModule'', ''WebhooksModule'', ''ImportExportModule'',
    ''BatchModule'', ''ApiUsageModule'', ''QuizzesModule'', ''CohortsModule'', ''CdnModule'', ''AccessControlModule'',
    ''RateLimitModule'', ''DownloadsModule'', ''QaModule'', ''AnnouncementsModule'', ''AssignmentsModule'',
    ''SubscriptionsModule'', ''LiveSessionsModule'', ''PaymentsModule'', ''CouponsModule'', ''ApiVersionModule'']"
  by (simp add: server_modules_def module_imports)

text \<open>The scan meets exactly the modules that are imported, directly or through others.\<close>

lemma server_modules_iff: "m \<in> set server_modules \<longleftrightarrow> brought_in m \<and> module_named m \<noteq> None"
proof
  assume m: "m \<in> set server_modules"
  have "module_named m \<noteq> None" using m unfolding server_modules_eq by auto
  moreover have "brought_in m"
    by (rule scan_sound[of "[''AppModule'']" "[]"]) (use m in \<open>simp_all add: server_modules_def brought_in.root\<close>)
  ultimately show "brought_in m \<and> module_named m \<noteq> None" by blast
next
  have closed: "closed_upto [] server_modules"
    unfolding server_modules_def by (rule scan_closed) (simp add: closed_upto_def)
  have "brought_in m \<Longrightarrow> module_named m \<noteq> None \<longrightarrow> m \<in> set server_modules"
  proof (induction rule: brought_in.induct)
    case root
    then show ?case by (simp add: server_modules_eq)
  next
    case (imported m x i)
    then have "m \<in> set server_modules" by simp
    then show ?case using imported.hyps closed unfolding closed_upto_def by fastforce
  qed
  then show "brought_in m \<and> module_named m \<noteq> None \<Longrightarrow> m \<in> set server_modules" by blast
qed

end
