(* ===== verification/Access.thy ===== *)
theory Access
  imports App_Modules
begin

text \<open>
  Who reaches what: the routes the application registers, with their guards, decide which service methods a request can
  call, and for whom. The guards are those of theory Routes, the tables those of Controllers and App_Modules.
\<close>

subsection \<open>The registered routes\<close>

lemma server_controllers_eq:
  "server_controllers =
   [AuthController, UsersController, AdminUsersController, StellarController, StellarCredentialsController,
    CredentialsController, KycController, CoursesController, ModulesController, ReviewsController, CourseVersioningController,
    PrerequisitesController, SearchController, NotificationsController, AuditController, ApiKeysController,
    DatabaseController, ProgressController, StreaksController, BundlesController, AdminBundlesController,
    EnrollmentsController, LeaderboardController, ForumsController, ModerationController, RemindersController,
    CertificatesController, PayoutsController, InstructorApplicationsController, HealthController,
    RecommendationsController, EmailController, AnalyticsController, WebhooksController, ImportExportController,
    BatchController, ApiUsageController, QuizzesController, CohortsController, CdnController, AccessControlController,
    DownloadsController, QaController, AnnouncementsController, AssignmentsController, SubscriptionsController,
    LiveSessionsController, PaymentsController, CouponsController]"
  by (simp add: server_controllers_def server_modules_eq module_defs)

text \<open>To show something of all routes is to go through the handlers of the controllers.\<close>

lemma all_routes:
  "(\<forall>r \<in> set server_routes. P r) \<longleftrightarrow> (\<forall>c \<in> set server_controllers. list_all P (routes_of c))"
  by (auto simp: server_routes_def list_all_iff)

lemma answered_route:
  assumes "answer_request server_routes st rq = Inr (u, calls)"
  obtains r ps where "r \<in> set server_routes" "dispatch server_routes (rq_verb rq) (rq_path rq) = Some r"
    "match_path (rt_path r) (map toLowerCase (rq_path rq)) (rq_path rq) = Some ps"
    "run_guards st rq ps (rt_roles r) (rt_guards r) None = Inr u" "rt_check r u ps rq = None"
    "calls = map (\<lambda>(v, m, as). (v, m, map (sent_of rq ps u) as)) (rt_calls r)" "rt_verb r = rq_verb rq"
proof -
  obtain r where r: "dispatch server_routes (rq_verb rq) (rq_path rq) = Some r" "run_route st rq r = Inr (u, calls)"
    using assms by (auto simp: answer_request_def split: option.splits if_splits)
  from r(1) have "r \<in> set server_routes" "matching (rq_verb rq) (rq_path rq) r"
    unfolding dispatch_def by (auto dest: find_SomeD)
  moreover from this(2) obtain ps where "match_path (rt_path r) (map toLowerCase (rq_path rq)) (rq_path rq) = Some ps"
    by (auto simp: matching_def)
  ultimately show thesis
    using that[of r ps] r by (auto simp: run_route_def matching_def split: sum.splits option.splits)
qed

subsection \<open>Roles\<close>

text \<open>Behind the guard of the roles no guard changes the user.\<close>

definition keeps_user :: "guard \<Rightarrow> bool" where
  "keeps_user g \<longleftrightarrow> g \<in> {RolesGuard, NonProductionGuard, AssignmentOwnershipGuard}"

definition role_checked :: "guard list \<Rightarrow> bool" where
  "role_checked gs \<longleftrightarrow> (let rest = dropWhile (\<lambda>g. g \<noteq> RolesGuard) gs in rest \<noteq> [] \<and> list_all keeps_user rest)"

lemma run_guards_append:
  "run_guards st rq ps roles (gs @ gs') u =
     (case run_guards st rq ps roles gs u of Inl e \<Rightarrow> Inl e | Inr u' \<Rightarrow> run_guards st rq ps roles gs' u')"
  by (induction gs arbitrary: u) (auto split: sum.splits)

lemma run_guards_keep:
  "run_guards st rq ps roles gs u = Inr u' \<Longrightarrow> list_all keeps_user gs \<Longrightarrow> u' = u"
  by (induction gs arbitrary: u)
     (auto simp: keeps_user_def run_guard_def admitted_def split: sum.splits if_splits)

lemma roles_guard_someone:
  "roles_guard (Some (x # xs)) u \<Longrightarrow> \<exists>i e r. u = Some (i, e, r) \<and> r \<in> set (x # xs)"
  by (auto simp: roles_guard_def split: option.splits if_splits)

lemma role_checked_user:
  assumes "run_guards st rq ps (Some (x # xs)) gs u0 = Inr u" "role_checked gs"
  shows "\<exists>i e r. u = Some (i, e, r) \<and> r \<in> set (x # xs)"
proof -
  define front where "front = takeWhile (\<lambda>g. g \<noteq> RolesGuard) gs"
  define rest where "rest = tl (dropWhile (\<lambda>g. g \<noteq> RolesGuard) gs)"
  from assms(2) have ne: "dropWhile (\<lambda>g. g \<noteq> RolesGuard) gs \<noteq> []"
      and keep: "list_all keeps_user (dropWhile (\<lambda>g. g \<noteq> RolesGuard) gs)"
    by (simp_all add: role_checked_def Let_def)
  have "dropWhile (\<lambda>g. g \<noteq> RolesGuard) gs = RolesGuard # rest"
    using hd_dropWhile[OF ne] ne by (cases "dropWhile (\<lambda>g. g \<noteq> RolesGuard) gs") (simp_all add: rest_def)
  then have gs: "gs = front @ RolesGuard # rest" "list_all keeps_user rest"
    using keep takeWhile_dropWhile_id[of "\<lambda>g. g \<noteq> RolesGuard" gs] by (simp_all add: front_def)
  with assms(1) obtain u1 where "roles_guard (Some (x # xs)) u1" "run_guards st rq ps (Some (x # xs)) rest u1 = Inr u"
    by (auto simp: run_guards_append run_guard_def admitted_def split: sum.splits if_splits)
  with run_guards_keep[OF this(2) gs(2)] roles_guard_someone show ?thesis by blast
qed

text \<open>The user in an answered request came from one of the strategies.\<close>

lemma passport_guard_user: "passport_guard st rq ss = Inr u \<Longrightarrow> \<exists>g x. u = Some x \<and> si_passport st g rq = Some x"
proof (induction ss)
  case (Cons g ss)
  then show ?case by (cases "si_passport st g rq") auto
qed simp

lemma run_guards_user:
  "run_guards st rq ps roles gs u = Inr u' \<Longrightarrow> u' = u \<or> (\<exists>g x. u' = Some x \<and> si_passport st g rq = Some x)"
proof (induction gs arbitrary: u)
  case (Cons g gs)
  then obtain u1 where u1: "run_guard st rq ps roles g u = Inr u1" "run_guards st rq ps roles gs u1 = Inr u'"
    by (auto split: sum.splits)
  have "u1 = u \<or> (\<exists>g x. u1 = Some x \<and> si_passport st g rq = Some x)"
    using u1(1)
    by (cases g) (auto simp: run_guard_def admitted_def simp del: passport_guard.simps split: sum.splits if_splits
      dest: passport_guard_user)
  with Cons.IH[OF u1(2)] show ?case by blast
qed simp

text \<open>What holds for the routes of every controller is decided by going through the handlers.\<close>

lemma list_all_routes:
  "list_all P (routes_of (Controller n b path gs rs hs)) =
     list_all (\<lambda>h. P (\<lparr>rt_name = n @ ''.'' @ hd_name h, rt_verb = hd_verb h,
               rt_path = global_prefix b @ path @ hd_path h, rt_guards = gs @ hd_guards h,
               rt_roles = (case hd_roles h of Some rs \<Rightarrow> Some rs | None \<Rightarrow> rs),
               rt_check = hd_check h, rt_calls = hd_calls h\<rparr>)) hs"
  by (simp add: routes_of_def list.pred_map o_def cong: option.case_cong)

lemmas each_route = all_routes server_controllers_eq list.set ball_simps controller_defs list_all_routes list.pred_inject handler.sel

definition roles_sound :: "route \<Rightarrow> bool" where
  "roles_sound r = (case rt_roles r of None \<Rightarrow> True | Some rs \<Rightarrow> rs = [] \<or> role_checked (rt_guards r))"

lemma roles_sound_parts:
  "roles_sound \<lparr>rt_name = n, rt_verb = v, rt_path = p, rt_guards = gs, rt_roles = rs, rt_check = c, rt_calls = cs\<rparr> =
     (case rs of None \<Rightarrow> True | Some rs \<Rightarrow> rs = [] \<or> role_checked gs)"
  by (simp add: roles_sound_def cong: option.case_cong)

lemma declared_roles_checked: "\<forall>r \<in> set server_routes. roles_sound r"
  by (simp only: each_route roles_sound_parts) (simp add: role_checked_def keeps_user_def)

text \<open>The operations of the administrators.\<close>

definition admin_methods :: "service \<Rightarrow> string list" where
  "admin_methods v =
     (case v of
        UsersService \<Rightarrow> [''changeRole'', ''banUser'', ''softDelete'', ''findAll'']
      | PayoutsService \<Rightarrow> [''calculatePayouts'', ''processPayout'']
      | StellarService \<Rightarrow> [''issueCredential'']
      | CredentialsService \<Rightarrow> [''issue'']
      | CouponsService \<Rightarrow> [''create'', ''generateBulk'', ''update'', ''delete'', ''findAll'', ''findById'']
      | BundlesService \<Rightarrow> [''create'', ''update'', ''delete'']
      | AccessControlService \<Rightarrow> [''grantAccess'', ''grantTimeLimitedAccess'', ''revokeAccess'', ''updateSubscription'']
      | InstructorApplicationsService \<Rightarrow> [''review'', ''findAll'']
      | ModerationService \<Rightarrow> [''reviewItem'', ''resolveAppeal'', ''getQueue'', ''getLogs'']
      | ModulesService \<Rightarrow> [''unlockNow'']
      | CourseVersioningService \<Rightarrow> [''rollback'']
      | MigrationRunnerService \<Rightarrow> [''run'', ''revert'', ''getStatus'']
      | BatchService \<Rightarrow> [''createUserBatch'', ''createCourseBatch'', ''listJobs'', ''getJobStatus'']
      | AuthService \<Rightarrow> [''generateApiKey'', ''revokeApiKey'']
      | ApiKeysService \<Rightarrow> [''adminForceRevoke'', ''adminFindAll'']
      | CdnService \<Rightarrow> [''invalidateCache'', ''markAsTranscoded'']
      | RemindersService \<Rightarrow> [''sendInactiveReminders'', ''getReminderStats'']
      | AnalyticsService \<Rightarrow> [''getPlatformAnalytics'']
      | _ \<Rightarrow> [])"

definition admin_only :: "route \<Rightarrow> bool" where
  "admin_only r \<longleftrightarrow>
     rt_roles r = Some [''admin''] \<or> list_all (\<lambda>(v, m, as). m \<notin> set (admin_methods v)) (rt_calls r)"

lemma admin_only_parts:
  "admin_only \<lparr>rt_name = n, rt_verb = v, rt_path = p, rt_guards = gs, rt_roles = rs, rt_check = c, rt_calls = cs\<rparr> \<longleftrightarrow>
     rs = Some [''admin''] \<or> list_all (\<lambda>(v, m, as). m \<notin> set (admin_methods v)) cs"
  by (simp add: admin_only_def)

lemma admin_routes: "\<forall>r \<in> set server_routes. admin_only r"
  by (simp only: each_route admin_only_parts) (simp add: admin_methods_def)

text \<open>The operations on the caller's own account: the first argument is the id of the signed-in user, or the handler
  compares it.\<close>

definition personal_methods :: "service \<Rightarrow> string list" where
  "personal_methods v =
     (case v of
        UsersService \<Rightarrow> [''update'', ''exportUserData'', ''anonymizeUser'']
      | AuthService \<Rightarrow> [''generateMfaSecret'', ''verifyMfaSecret'', ''disableMfa'', ''regenerateBackupCodes'', ''verifyStellarSignature'']
      | EnrollmentsService \<Rightarrow> [''enroll'', ''unenroll'', ''upgradeVersion'']
      | ProgressService \<Rightarrow> [''record'']
      | StreaksService \<Rightarrow> [''recordActivity'']
      | BundlesService \<Rightarrow> [''purchase'', ''getEnrollments'']
      | SubscriptionsService \<Rightarrow> [''createCheckoutSession'', ''getSubscriptionStatus'']
      | ApiKeysService \<Rightarrow> [''create'', ''findByUser'']
      | AssignmentsService \<Rightarrow> [''submitAssignment'', ''submitPeerReview'', ''getSubmissionByUser'']
      | NotificationsService \<Rightarrow> [''findByUser'', ''markAllAsRead'', ''updatePreferences'']
      | PushNotificationsService \<Rightarrow> [''subscribe'', ''unsubscribe'']
      | DownloadsService \<Rightarrow> [''queueDownload'', ''findByUser'', ''getStorageStats'']
      | InstructorApplicationsService \<Rightarrow> [''apply'', ''findMyApplication'']
      | QaService \<Rightarrow> [''ask'']
      | AnnouncementsService \<Rightarrow> [''create'']
      | _ \<Rightarrow> [])"

definition authenticates :: "guard list \<Rightarrow> bool" where
  "authenticates gs \<longleftrightarrow> list_ex (\<lambda>g. g \<in> {JwtAuthGuard, GoogleAuthGuard, JwtOrApiKey}) gs"

definition own_call :: "check \<Rightarrow> arg list \<Rightarrow> bool" where
  "own_call c as \<longleftrightarrow> (case as of a # _ \<Rightarrow> a = UserField ''id'' \<or> c = own_profile \<and> a = PathParam ''id'' | [] \<Rightarrow> False)"

definition personal :: "route \<Rightarrow> bool" where
  "personal r \<longleftrightarrow>
     list_all (\<lambda>(v, m, as). m \<notin> set (personal_methods v)) (rt_calls r)
     \<or> authenticates (rt_guards r)
        \<and> list_all (\<lambda>(v, m, as). m \<notin> set (personal_methods v) \<or> own_call (rt_check r) as) (rt_calls r)"

lemma personal_parts:
  "personal \<lparr>rt_name = n, rt_verb = v, rt_path = p, rt_guards = gs, rt_roles = rs, rt_check = c, rt_calls = cs\<rparr> \<longleftrightarrow>
     list_all (\<lambda>(v, m, as). m \<notin> set (personal_methods v)) cs
     \<or> authenticates gs \<and> list_all (\<lambda>(v, m, as). m \<notin> set (personal_methods v) \<or> own_call c as) cs"
  by (simp add: personal_def)

lemma personal_routes: "\<forall>r \<in> set server_routes. personal r"
  by (simp only: each_route personal_parts) (simp add: personal_methods_def authenticates_def own_call_def)

text \<open>What a request without valid credentials can ask for, reading aside.\<close>

definition open_calls :: "(service \<times> string) list" where
  "open_calls =
   [(StellarAuthService, ''verifyChallenge''), (AuthService, ''register''), (AuthService, ''login''),
    (AuthService, ''refresh''), (AuthService, ''logout''), (AuthService, ''resendVerification''),
    (AuthService, ''forgotPassword''), (AuthService, ''resetPassword''), (CertificatesService, ''verifyCertificate''),
    (CouponsService, ''validate''), (KycService, ''upsertCustomer''), (KycService, ''handleWebhook''),
    (PaymentsService, ''handleWebhook''), (SearchService, ''trackClick''), (StellarService, ''fundTestnetAccount''),
    (SubscriptionsService, ''handleWebhook'')]"

definition open_only :: "route \<Rightarrow> bool" where
  "open_only r \<longleftrightarrow>
     authenticates (rt_guards r) \<or> rt_verb r = HttpGet
     \<or> list_all (\<lambda>(v, m, as). (v, m) \<in> set open_calls) (rt_calls r)"

lemma open_only_parts:
  "open_only \<lparr>rt_name = n, rt_verb = v, rt_path = p, rt_guards = gs, rt_roles = rs, rt_check = c, rt_calls = cs\<rparr> \<longleftrightarrow>
     authenticates gs \<or> v = HttpGet \<or> list_all (\<lambda>(v, m, as). (v, m) \<in> set open_calls) cs"
  by (simp add: open_only_def)

lemma open_routes: "\<forall>r \<in> set server_routes. open_only r"
  by (simp only: each_route open_only_parts) (simp add: authenticates_def open_calls_def)

lemma authenticated_someone:
  assumes "run_guards st rq ps roles gs u0 = Inr u" "authenticates gs"
  shows "\<exists>x g. u = Some x \<and> si_passport st g rq = Some x"
  using assms
proof (induction gs arbitrary: u0)
  case Nil
  then show ?case by (simp add: authenticates_def)
next
  case (Cons g gs)
  then obtain u1 where u1: "run_guard st rq ps roles g u0 = Inr u1" "run_guards st rq ps roles gs u1 = Inr u"
    by (auto split: sum.splits)
  show ?case
  proof (cases "authenticates gs")
    case True
    then show ?thesis using Cons.IH[OF u1(2)] by blast
  next
    case False
    then have "g \<in> {JwtAuthGuard, GoogleAuthGuard, JwtOrApiKey}" using Cons.prems(2) by (simp add: authenticates_def)
    then have "\<exists>x g. u1 = Some x \<and> si_passport st g rq = Some x"
      using u1(1) passport_guard_user by (fastforce simp: run_guard_def simp del: passport_guard.simps)
    then show ?thesis using run_guards_user[OF u1(2)] by blast
  qed
qed

subsection \<open>Properties\<close>

text \<open>An operation of the administrators is called only for a signed-in user whose account has the role of an administrator
  now, not when the token was issued: the hypothesis is what the strategies do, they return the id and the email of the
  credentials with the role the table of the users has.\<close>

theorem admin_operations_by_admins:
  assumes passport: "\<And>g u. si_passport st g rq = Some u \<Longrightarrow> \<exists>sub email. u = validate sub email s"
    and answered: "answer_request server_routes st rq = Inr (u, calls)"
    and "(v, m, as) \<in> set calls" "m \<in> set (admin_methods v)"
  shows "\<exists>i e acc. u = Some (i, e, ''admin'') \<and> find_user i (au_core s) = Some acc \<and> u_role acc = ''admin''"
proof -
  from answered obtain r ps where r: "r \<in> set server_routes" "run_guards st rq ps (rt_roles r) (rt_guards r) None = Inr u"
      "calls = map (\<lambda>(v, m, as). (v, m, map (sent_of rq ps u) as)) (rt_calls r)"
    by (rule answered_route)
  have "\<not> list_all (\<lambda>(v, m, as). m \<notin> set (admin_methods v)) (rt_calls r)"
    using assms(3,4) unfolding r(3) by (fastforce simp: list_all_iff)
  then have roles: "rt_roles r = Some [''admin'']" using admin_routes r(1) by (auto simp: admin_only_def)
  have "role_checked (rt_guards r)" using declared_roles_checked r(1) roles by (auto simp: roles_sound_def)
  from role_checked_user[OF r(2)[unfolded roles] this] obtain i e where u: "u = Some (i, e, ''admin'')" by auto
  from run_guards_user[OF r(2)] u obtain g where "si_passport st g rq = Some (i, e, ''admin'')" by auto
  from passport[OF this] u show ?thesis
    by (auto simp: validate_def split: option.splits if_splits)
qed

text \<open>Enrolling, recording progress, buying, changing the profile and the rest of the personal operations are done for the
  caller alone: whatever the path and the body say, the first argument is the id of the signed-in user.\<close>

theorem acts_for_caller:
  assumes "answer_request server_routes st rq = Inr (u, calls)"
    and "(v, m, as) \<in> set calls" "m \<in> set (personal_methods v)"
  shows "\<exists>i e role g rest. u = Some (i, e, role) \<and> si_passport st g rq = u \<and> as = Text (string_of_nat i) # rest"
proof -
  from assms(1) obtain r ps where r: "r \<in> set server_routes" "run_guards st rq ps (rt_roles r) (rt_guards r) None = Inr u"
      "rt_check r u ps rq = None" "calls = map (\<lambda>(v, m, as). (v, m, map (sent_of rq ps u) as)) (rt_calls r)"
    by (rule answered_route)
  from assms(2) r(4) obtain args where args: "(v, m, args) \<in> set (rt_calls r)" "as = map (sent_of rq ps u) args" by auto
  then have "\<not> list_all (\<lambda>(v, m, as). m \<notin> set (personal_methods v)) (rt_calls r)"
    using assms(3) by (fastforce simp: list_all_iff)
  then have "authenticates (rt_guards r)" "own_call (rt_check r) args"
    using personal_routes r(1) args(1) assms(3) by (fastforce simp: personal_def list_all_iff)+
  moreover from authenticated_someone[OF r(2) this(1)] obtain i e role g
    where u: "u = Some (i, e, role)" "si_passport st g rq = Some (i, e, role)" by auto
  ultimately obtain a rest where a: "args = a # rest"
      "a = UserField ''id'' \<or> rt_check r = own_profile \<and> a = PathParam ''id''"
    by (auto simp: own_call_def split: list.splits)
  have "sent_of rq ps u a = Text (string_of_nat i)"
    using a(2) r(3) u(1)
    by (auto simp: own_profile_def user_field_def sent_text_def split: if_splits option.splits) metis
  then show ?thesis using u args(2) a(1) by auto
qed

text \<open>A request with no valid credentials that does not only read reaches signing up and in, the webhooks of the payment
  provider, the check of a coupon or a certificate, the funding of a test account, a click on a search result, and the
  two identity routes that a provider is meant to call.\<close>

theorem anonymous_calls:
  assumes "\<And>g. si_passport st g rq = None" "rq_verb rq \<noteq> HttpGet"
    and "answer_request server_routes st rq = Inr (u, calls)"
  shows "u = None \<and> (\<forall>(v, m, as) \<in> set calls. (v, m) \<in> set open_calls)"
proof -
  from assms(3) obtain r ps where r: "r \<in> set server_routes" "run_guards st rq ps (rt_roles r) (rt_guards r) None = Inr u"
      "calls = map (\<lambda>(v, m, as). (v, m, map (sent_of rq ps u) as)) (rt_calls r)" "rt_verb r = rq_verb rq"
    by (rule answered_route)
  have "\<not> authenticates (rt_guards r)" using authenticated_someone[OF r(2)] assms(1) by fastforce
  moreover have "open_only r" using open_routes r(1) by blast
  ultimately have "list_all (\<lambda>(v, m, as). (v, m) \<in> set open_calls) (rt_calls r)" using assms(2) r(4) by (simp add: open_only_def)
  then show ?thesis using r(3) run_guards_user[OF r(2)] assms(1) by (auto simp: list_all_iff)
qed

text \<open>A route behind one that matches whatever it matches is never found.\<close>

lemma find_shadowed:
  assumes "find P (xs @ r' # ys) = Some r" "\<forall>x \<in> set xs. \<not> Q x" "\<not> Q r'"
    and "\<And>r. r \<in> set (xs @ r' # ys) \<Longrightarrow> P r \<Longrightarrow> Q r \<Longrightarrow> P r'"
  shows "\<not> Q r"
proof
  assume q: "Q r"
  from find_SomeD[OF assms(1)] q assms(4) have p: "P r'" by blast
  show False
  proof (cases "find P xs")
    case None
    then show ?thesis using assms(1,3) p q by (simp add: find_append_None)
  next
    case (Some x)
    then show ?thesis using find_append_Some[OF Some, of "r' # ys"] assms(1,2) q find_SomeD[OF Some] by simp
  qed
qed

definition calls_my_reviews :: "route \<Rightarrow> bool" where
  "calls_my_reviews r \<longleftrightarrow> list_ex (\<lambda>(v, m, as). v = AssignmentsService \<and> m = ''getReviewsForUser'') (rt_calls r)"

definition my_reviews_at :: "route \<Rightarrow> bool" where
  "my_reviews_at r \<longleftrightarrow>
     (calls_my_reviews r \<longrightarrow> rt_verb r = HttpGet \<and> rt_path r = [Lit ''v1'', Lit ''assignments'', Lit ''my-reviews''])"

lemma calls_my_reviews_parts:
  "calls_my_reviews \<lparr>rt_name = n, rt_verb = v, rt_path = p, rt_guards = gs, rt_roles = rs, rt_check = c, rt_calls = cs\<rparr> \<longleftrightarrow>
     list_ex (\<lambda>(v, m, as). v = AssignmentsService \<and> m = ''getReviewsForUser'') cs"
  "my_reviews_at \<lparr>rt_name = n, rt_verb = v, rt_path = p, rt_guards = gs, rt_roles = rs, rt_check = c, rt_calls = cs\<rparr> \<longleftrightarrow>
     (list_ex (\<lambda>(v, m, as). v = AssignmentsService \<and> m = ''getReviewsForUser'') cs
      \<longrightarrow> v = HttpGet \<and> p = [Lit ''v1'', Lit ''assignments'', Lit ''my-reviews''])"
  by (simp_all add: calls_my_reviews_def my_reviews_at_def)

lemma my_reviews_routes: "\<forall>r \<in> set server_routes. my_reviews_at r"
  by (simp only: each_route calls_my_reviews_parts) (simp add: global_prefix_def)

definition assignment_route :: route where
  "assignment_route = routes_of AssignmentsController ! 2"

definition controllers_before :: "controller list" where
  "controllers_before =
   [AuthController, UsersController, AdminUsersController, StellarController,
    StellarCredentialsController, CredentialsController, KycController, CoursesController,
    ModulesController, ReviewsController, CourseVersioningController, PrerequisitesController,
    SearchController, NotificationsController, AuditController, ApiKeysController,
    DatabaseController, ProgressController, StreaksController, BundlesController,
    AdminBundlesController, EnrollmentsController, LeaderboardController, ForumsController,
    ModerationController, RemindersController, CertificatesController, PayoutsController,
    InstructorApplicationsController, HealthController, RecommendationsController, EmailController,
    AnalyticsController, WebhooksController, ImportExportController, BatchController,
    ApiUsageController, QuizzesController, CohortsController, CdnController,
    AccessControlController, DownloadsController, QaController, AnnouncementsController]"

lemma assignment_routes:
  "\<exists>r1 r2 rest. routes_of AssignmentsController = r1 # r2 # assignment_route # rest
     \<and> \<not> calls_my_reviews r1 \<and> \<not> calls_my_reviews r2 \<and> \<not> calls_my_reviews assignment_route"
  by (simp add: assignment_route_def AssignmentsController_def routes_of_def calls_my_reviews_def)

lemma assignment_route_path:
  "rt_verb assignment_route = HttpGet" "rt_path assignment_route = [Lit ''v1'', Lit ''assignments'', Par ''id'']"
  by (simp_all add: assignment_route_def AssignmentsController_def routes_of_def global_prefix_def)

lemma match_last_segment:
  "match_path [Lit a, Lit b, Lit c] ks path \<noteq> None \<Longrightarrow> match_path [Lit a, Lit b, Par p] ks path \<noteq> None"
  by (cases ks; cases "tl ks"; cases "tl (tl ks)"; cases "tl (tl (tl ks))") (auto split: if_splits)

lemma server_routes_split:
  "\<exists>xs ys. server_routes = xs @ assignment_route # ys \<and> (\<forall>x \<in> set xs. \<not> calls_my_reviews x)"
proof -
  obtain r1 r2 rest where r: "routes_of AssignmentsController = r1 # r2 # assignment_route # rest"
      "\<not> calls_my_reviews r1" "\<not> calls_my_reviews r2"
    using assignment_routes by blast
  have cs: "server_controllers =
      controllers_before @ AssignmentsController # [SubscriptionsController, LiveSessionsController, PaymentsController, CouponsController]"
    by (simp add: server_controllers_eq controllers_before_def)
  have "\<forall>c \<in> set controllers_before. list_all (\<lambda>r. \<not> calls_my_reviews r) (routes_of c)"
    unfolding controllers_before_def
    by (simp only: each_route calls_my_reviews_parts) simp
  then have "\<forall>x \<in> set (concat (map routes_of controllers_before)). \<not> calls_my_reviews x" by (auto simp: list_all_iff)
  with r show ?thesis
    by (intro exI[of _ "concat (map routes_of controllers_before) @ [r1, r2]"]
        exI[of _ "rest @ concat (map routes_of [SubscriptionsController, LiveSessionsController, PaymentsController, CouponsController])"])
      (auto simp: server_routes_def cs)
qed

text \<open>The route for the reviews a student is to write stands behind the route for one assignment, which takes \<open>my-reviews\<close>
  for the id of an assignment: nobody is ever answered with their reviews.\<close>

theorem my_reviews_unreachable:
  assumes "answer_request server_routes st rq = Inr (u, calls)"
  shows "(AssignmentsService, ''getReviewsForUser'', args) \<notin> set calls"
proof -
  from assms obtain r ps where r: "r \<in> set server_routes" "dispatch server_routes (rq_verb rq) (rq_path rq) = Some r"
      "calls = map (\<lambda>(v, m, as). (v, m, map (sent_of rq ps u) as)) (rt_calls r)"
    by (rule answered_route)
  obtain xs ys where split: "server_routes = xs @ assignment_route # ys" "\<forall>x \<in> set xs. \<not> calls_my_reviews x"
    using server_routes_split by blast
  have "\<not> calls_my_reviews r"
  proof (rule find_shadowed[where Q = calls_my_reviews])
    show "find (matching (rq_verb rq) (rq_path rq)) (xs @ assignment_route # ys) = Some r"
      using r(2) split(1) by (simp add: dispatch_def)
    show "\<not> calls_my_reviews assignment_route" using assignment_routes by blast
    fix x assume "x \<in> set (xs @ assignment_route # ys)" "matching (rq_verb rq) (rq_path rq) x" "calls_my_reviews x"
    with my_reviews_routes split(1) have "rq_verb rq = HttpGet" "match_path [Lit ''v1'', Lit ''assignments'', Lit ''my-reviews'']
        (map toLowerCase (rq_path rq)) (rq_path rq) \<noteq> None"
      by (auto simp: my_reviews_at_def matching_def)
    then show "matching (rq_verb rq) (rq_path rq) assignment_route"
      using match_last_segment by (simp add: matching_def assignment_route_path)
  qed (use split in simp)
  then show ?thesis using r(3) by (auto simp: calls_my_reviews_def list_ex_iff)
qed

text \<open>Six modules are written and never brought in: their routes answer nothing.\<close>

theorem modules_left_out:
  "{m \<in> md_name ` set modules. \<not> brought_in m}
   = {''AdaptiveLearningModule'', ''LearningPathsModule'', ''NotesModule'', ''SecretRotationModule'', ''SurveysModule'',
      ''WaitlistModule''}"
proof -
  have named: "m \<in> md_name ` set modules \<Longrightarrow> module_named m \<noteq> None" for m
    by (auto simp: module_named_def find_None)
  have "{m \<in> md_name ` set modules. \<not> brought_in m} = {m \<in> md_name ` set modules. m \<notin> set server_modules}"
    using named server_modules_iff by blast
  also have "\<dots> = set (filter (\<lambda>m. m \<notin> set server_modules) (map md_name modules))" by auto
  also have "\<dots> = {''AdaptiveLearningModule'', ''LearningPathsModule'', ''NotesModule'', ''SecretRotationModule'', ''SurveysModule'',
      ''WaitlistModule''}"
    by (simp add: server_modules_eq modules_def module_defs)
  finally show ?thesis .
qed

subsection \<open>Witnesses\<close>

lemma matching_parts:
  "matching m path \<lparr>rt_name = n, rt_verb = v, rt_path = p, rt_guards = gs, rt_roles = rs, rt_check = c, rt_calls = cs\<rparr> \<longleftrightarrow>
     v = m \<and> match_path p (map toLowerCase path) path \<noteq> None"
  by (simp add: matching_def)

lemma dispatch_behind:
  assumes "server_controllers = before_c @ c # behind" "\<forall>c \<in> set before_c. list_all (\<lambda>r. \<not> matching v path r) (routes_of c)"
    and "find (matching v path) (routes_of c) = Some r"
  shows "dispatch server_routes v path = Some r"
proof -
  have "find (matching v path) (concat (map routes_of before_c)) = None"
    using assms(2) by (auto simp: find_None list_all_iff)
  then show ?thesis
    using assms(3) by (simp add: dispatch_def server_routes_def assms(1) find_append_None find_append_Some)
qed

definition admin_account :: auth_db where
  "admin_account = one_account\<lparr>au_core := empty_core\<lparr>users := [(new_user 10 ''a'')\<lparr>u_role := ''admin''\<rparr>]\<rparr>\<rparr>"

definition plain_site :: site where
  "plain_site =
     \<lparr>si_passport = (\<lambda>g rq. if g = JwtStrategy \<and> rq_header rq ''authorization'' = Some ''Bearer ten''
                          then Some (validate 10 ''a'' admin_account) else None),
      si_limited = (\<lambda>rq. False), si_nodeEnv = ''test'', si_assignments = four_papers, si_uuid = (\<lambda>t. None)\<rparr>"

definition signed_request :: "verb \<Rightarrow> string list \<Rightarrow> http_request" where
  "signed_request v path =
     \<lparr>rq_verb = v, rq_path = path, rq_query = (\<lambda>k. None), rq_body = (\<lambda>k. None),
      rq_header = (\<lambda>k. if k = ''authorization'' then Some ''Bearer ten'' else None), rq_file = False\<rparr>"

lemma plain_validate: "validate 10 ''a'' admin_account = (10, ''a'', ''admin'')"
  by (simp add: validate_def admin_account_def empty_core_def find_user_def new_user_def)

definition anonymous_request :: "verb \<Rightarrow> string list \<Rightarrow> http_request" where
  "anonymous_request v path = (signed_request v path)\<lparr>rq_header := (\<lambda>k. None)\<rparr>"

lemmas plain_defs = answer_request_def run_route_def plain_site_def signed_request_def anonymous_request_def plain_validate
  run_guard_def admitted_def roles_guard_def no_check_def sent_text_def user_field_def toLowerCase_def lower_char_def

lemma ban_dispatch:
  "\<exists>r. dispatch server_routes HttpPatch [''v1'', ''admin'', ''users'', ''7'', ''ban''] = Some r
     \<and> rt_path r = [Lit ''v1'', Lit ''admin'', Lit ''users'', Par ''id'', Lit ''ban'']
     \<and> rt_guards r = [JwtAuthGuard, RolesGuard] \<and> rt_roles r = Some [''admin''] \<and> rt_check r = no_check
     \<and> rt_calls r = [(UsersService, ''banUser'', [PathParam ''id'', BodyField ''isBanned''])]" (is "\<exists>r. _ \<and> ?parts r")
proof -
  let ?p = "[''v1'', ''admin'', ''users'', ''7'', ''ban'']"
  have p: "map toLowerCase ?p = ?p" by (simp add: toLowerCase_def lower_char_def)
  have "\<forall>c \<in> set [AuthController, UsersController]. list_all (\<lambda>r. \<not> matching HttpPatch ?p r) (routes_of c)"
    by (simp only: each_route matching_parts p) (simp add: global_prefix_def)
  moreover have "\<exists>r. find (matching HttpPatch ?p) (routes_of AdminUsersController) = Some r \<and> ?parts r"
    by (simp add: AdminUsersController_def routes_of_def matching_def global_prefix_def toLowerCase_def lower_char_def)
  ultimately show ?thesis
    using dispatch_behind[of "[AuthController, UsersController]" AdminUsersController] server_controllers_eq by auto
qed

theorem admin_operations_by_admins_witness:
  "answer_request server_routes plain_site (signed_request HttpPatch [''v1'', ''admin'', ''users'', ''7'', ''ban''])
     = Inr (Some (10, ''a'', ''admin''), [(UsersService, ''banUser'', [Text ''7'', Missing])])
   \<and> (\<exists>acc. find_user 10 (au_core admin_account) = Some acc \<and> u_role acc = ''admin'')"
proof -
  let ?rq = "signed_request HttpPatch [''v1'', ''admin'', ''users'', ''7'', ''ban'']"
  have a: "answer_request server_routes plain_site ?rq
      = Inr (Some (10, ''a'', ''admin''), [(UsersService, ''banUser'', [Text ''7'', Missing])])"
    using ban_dispatch by (auto simp: plain_defs)
  have "\<exists>i e acc. Some (10, ''a'', ''admin'') = Some (i, e, ''admin'') \<and> find_user i (au_core admin_account) = Some acc \<and> u_role acc = ''admin''"
  proof (rule admin_operations_by_admins[OF _ a])
    show "(UsersService, ''banUser'', [Text ''7'', Missing]) \<in> set [(UsersService, ''banUser'', [Text ''7'', Missing])]" by simp
    show "''banUser'' \<in> set (admin_methods UsersService)" by (simp add: admin_methods_def)
    show "\<exists>sub email. u = validate sub email admin_account" if "si_passport plain_site g ?rq = Some u" for g u
      using that by (auto simp: plain_site_def split: if_splits)
  qed
  with a show ?thesis by auto
qed

lemma export_dispatch:
  "\<exists>r. dispatch server_routes HttpPost [''v1'', ''users'', ''me'', ''export''] = Some r
     \<and> rt_path r = [Lit ''v1'', Lit ''users'', Lit ''me'', Lit ''export'']
     \<and> rt_guards r = [JwtAuthGuard] \<and> rt_roles r = None \<and> rt_check r = no_check
     \<and> rt_calls r = [(UsersService, ''exportUserData'', [UserField ''id'']),
                     (AuditService, ''log'', [Const ''gdpr.data_export'', UserField ''id'', Const ''true''])]" (is "\<exists>r. _ \<and> ?parts r")
proof -
  let ?p = "[''v1'', ''users'', ''me'', ''export'']"
  have p: "map toLowerCase ?p = ?p" by (simp add: toLowerCase_def lower_char_def)
  have "\<forall>c \<in> set [AuthController]. list_all (\<lambda>r. \<not> matching HttpPost ?p r) (routes_of c)"
    by (simp only: each_route matching_parts p) (simp add: global_prefix_def)
  moreover have "\<exists>r. find (matching HttpPost ?p) (routes_of UsersController) = Some r \<and> ?parts r"
    by (simp add: UsersController_def routes_of_def matching_def global_prefix_def toLowerCase_def lower_char_def)
  ultimately show ?thesis
    using dispatch_behind[of "[AuthController]" UsersController] server_controllers_eq by auto
qed

theorem acts_for_caller_witness:
  "\<exists>i e role rest. Some (10, ''a'', ''admin'') = Some (i, e, role) \<and> [Text (string_of_nat 10)] = Text (string_of_nat i) # rest"
proof -
  let ?rq = "signed_request HttpPost [''v1'', ''users'', ''me'', ''export'']"
  have a: "answer_request server_routes plain_site ?rq
      = Inr (Some (10, ''a'', ''admin''), [(UsersService, ''exportUserData'', [Text (string_of_nat 10)]),
          (AuditService, ''log'', [Text ''gdpr.data_export'', Text (string_of_nat 10), Text ''true''])])"
    using export_dispatch by (auto simp: plain_defs)
  show ?thesis
    using acts_for_caller[OF a, of UsersService "''exportUserData''" "[Text (string_of_nat 10)]"]
    by (auto simp: personal_methods_def)
qed

lemma login_dispatch:
  "\<exists>r. dispatch server_routes HttpPost [''v1'', ''auth'', ''login''] = Some r
     \<and> rt_path r = [Lit ''v1'', Lit ''auth'', Lit ''login''] \<and> rt_guards r = [] \<and> rt_roles r = None \<and> rt_check r = no_check
     \<and> rt_calls r = [(AuthService, ''login'', [BodyField ''email'', BodyField ''password'', BodyField ''mfa_token''])]"
    (is "\<exists>r. _ \<and> ?parts r")
proof -
  let ?p = "[''v1'', ''auth'', ''login'']"
  have "\<exists>r. find (matching HttpPost ?p) (routes_of AuthController) = Some r \<and> ?parts r"
    by (simp add: AuthController_def routes_of_def matching_def global_prefix_def toLowerCase_def lower_char_def)
  then show ?thesis
    using dispatch_behind[of "[]" AuthController] server_controllers_eq by auto
qed

theorem anonymous_calls_witness:
  "(AuthService, ''login'') \<in> set open_calls
   \<and> (\<forall>g. si_passport plain_site g (anonymous_request HttpPost [''v1'', ''auth'', ''login'']) = None)"
proof -
  let ?rq = "anonymous_request HttpPost [''v1'', ''auth'', ''login'']"
  have a: "answer_request server_routes plain_site ?rq = Inr (None, [(AuthService, ''login'', [Missing, Missing, Missing])])"
    using login_dispatch by (auto simp: plain_defs)
  have n: "si_passport plain_site g ?rq = None" for g
    by (simp add: plain_site_def anonymous_request_def signed_request_def)
  have "rq_verb ?rq \<noteq> HttpGet" by (simp add: anonymous_request_def signed_request_def)
  from anonymous_calls[OF n this a] n show ?thesis by simp
qed

lemma reviews_dispatch:
  "dispatch server_routes HttpGet [''v1'', ''assignments'', ''my-reviews''] = Some assignment_route"
proof -
  let ?p = "[''v1'', ''assignments'', ''my-reviews'']"
  have p: "map toLowerCase ?p = ?p" by (simp add: toLowerCase_def lower_char_def)
  have cs: "server_controllers =
      controllers_before @ AssignmentsController # [SubscriptionsController, LiveSessionsController, PaymentsController, CouponsController]"
    by (simp add: server_controllers_eq controllers_before_def)
  have "\<forall>c \<in> set controllers_before. list_all (\<lambda>r. \<not> matching HttpGet ?p r) (routes_of c)"
    unfolding controllers_before_def
    by (simp only: each_route matching_parts p) (simp add: global_prefix_def)
  moreover have "find (matching HttpGet ?p) (routes_of AssignmentsController) = Some assignment_route"
    by (simp add: assignment_route_def AssignmentsController_def routes_of_def matching_def global_prefix_def toLowerCase_def lower_char_def)
  ultimately show ?thesis by (rule dispatch_behind[OF cs])
qed

theorem my_reviews_unreachable_witness:
  "(AssignmentsService, ''getReviewsForUser'', [Text ''10'']) \<notin> set [(AssignmentsService, ''getAssignment'', [Text ''my-reviews''])]"
proof -
  have "answer_request server_routes plain_site (signed_request HttpGet [''v1'', ''assignments'', ''my-reviews''])
      = Inr (Some (10, ''a'', ''admin''), [(AssignmentsService, ''getAssignment'', [Text ''my-reviews''])])"
    using reviews_dispatch
    by (simp add: plain_defs assignment_route_def AssignmentsController_def routes_of_def global_prefix_def)
  then show ?thesis by (rule my_reviews_unreachable)
qed

end
