(* ===== verification/Client_Calls.thy ===== *)
theory Client_Calls
  imports Access
begin

text \<open>
  The requests the pages of the web client make through \<open>lib/api.ts\<close> (\<open>apps/frontend/src\<close>), held against the routes the
  server registers. A request is its verb and the template of its path, behind the address in \<open>NEXT_PUBLIC_API_URL\<close>: the
  documents and the default give the bare host, so the path of the request is the path the server sees; an address that ends
  in \<open>/v1\<close> puts \<open>v1\<close> before it.
\<close>

subsection \<open>Templates\<close>

type_synonym client_request = "verb \<times> segment list"

text \<open>The paths a template stands for: its parameters are any segments.\<close>

fun instance_of :: "segment list \<Rightarrow> string list \<Rightarrow> bool" where
  "instance_of [] [] = True"
| "instance_of (Lit l # ss) (p # ps) = (p = l \<and> instance_of ss ps)"
| "instance_of (Par n # ss) (p # ps) = instance_of ss ps"
| "instance_of _ _ = False"

text \<open>A pattern of a route that takes all paths of a template, and one that may take some.\<close>

fun covers :: "segment list \<Rightarrow> segment list \<Rightarrow> bool" where
  "covers [] [] = True"
| "covers (Lit l # ss) (Lit k # ts) = (l = k \<and> covers ss ts)"
| "covers (Lit l # ss) (Par n # ts) = False"
| "covers (Par n # ss) (t # ts) = covers ss ts"
| "covers _ _ = False"

fun overlaps :: "segment list \<Rightarrow> segment list \<Rightarrow> bool" where
  "overlaps [] [] = True"
| "overlaps (Lit l # ss) (Lit k # ts) = (l = k \<and> overlaps ss ts)"
| "overlaps (Lit l # ss) (Par n # ts) = overlaps ss ts"
| "overlaps (Par n # ss) (t # ts) = overlaps ss ts"
| "overlaps _ _ = False"

definition lower_template :: "segment list \<Rightarrow> bool" where
  "lower_template t \<longleftrightarrow> list_all (\<lambda>s. case s of Lit l \<Rightarrow> toLowerCase l = l | Par n \<Rightarrow> True) t"

lemma covers_matches:
  "covers p t \<Longrightarrow> lower_template t \<Longrightarrow> instance_of t path \<Longrightarrow> match_path p (map toLowerCase path) path \<noteq> None"
proof (induction p t arbitrary: path rule: covers.induct)
  case 1
  then show ?case by (cases path) auto
next
  case (2 l ss k ts)
  then show ?case by (cases path) (auto simp: lower_template_def)
next
  case (4 n ss t ts)
  then show ?case by (cases path; cases t) (auto simp: lower_template_def)
qed simp_all

lemma matches_overlaps:
  "match_path p (map toLowerCase path) path \<noteq> None \<Longrightarrow> lower_template t \<Longrightarrow> instance_of t path \<Longrightarrow> overlaps p t"
proof (induction p arbitrary: t path)
  case Nil
  then show ?case by (cases path; cases t; cases "hd t") auto
next
  case (Cons s p)
  show ?case
  proof (cases path)
    case Nil
    then show ?thesis using Cons.prems(1) by (cases s) simp_all
  next
    case (Cons x xs)
    then show ?thesis
      using Cons.prems Cons.IH[of xs "tl t"]
      by (cases s; cases t; cases "hd t") (auto simp: lower_template_def split: if_splits)
  qed
qed

subsection \<open>The requests\<close>

definition assignmentsApi :: "client_request list" where
  "assignmentsApi =
   [(HttpGet, [Lit ''assignments'', Lit ''course'', Par ''courseId'']), (HttpGet, [Lit ''assignments'', Par ''id'']),
    (HttpPost, [Lit ''assignments'', Par ''id'', Lit ''submit'']),
    (HttpGet, [Lit ''assignments'', Par ''id'', Lit ''my-submission'']),
    (HttpGet, [Lit ''assignments'', Lit ''my-reviews'']),
    (HttpPost, [Lit ''assignments'', Lit ''reviews'', Par ''submissionId'']),
    (HttpPost, [Lit ''assignments'', Par ''id'', Lit ''assign-reviewers'']),
    (HttpPatch, [Lit ''assignments'', Lit ''submissions'', Par ''submissionId'', Lit ''override''])]"

definition reviewsApi :: "client_request list" where
  "reviewsApi =
   [(HttpGet, [Lit ''courses'', Par ''courseId'', Lit ''reviews'']),
    (HttpPost, [Lit ''courses'', Par ''courseId'', Lit ''reviews'']),
    (HttpPost, [Lit ''courses'', Par ''courseId'', Lit ''reviews'', Par ''reviewId'', Lit ''reply'']),
    (HttpPatch, [Lit ''courses'', Par ''courseId'', Lit ''reviews'', Par ''reviewId'', Lit ''flag''])]"

definition forumApi :: "client_request list" where
  "forumApi =
   [(HttpGet, [Lit ''courses'', Par ''courseId'', Lit ''posts'']),
    (HttpGet, [Lit ''courses'', Par ''courseId'', Lit ''forum'', Lit ''threads'']),
    (HttpGet, [Lit ''courses'', Par ''courseId'', Lit ''forum'', Lit ''threads'', Par ''threadId'']),
    (HttpGet, [Lit ''courses'', Par ''courseId'', Lit ''forum'', Lit ''threads'', Par ''threadId'', Lit ''replies'']),
    (HttpPost, [Lit ''courses'', Par ''courseId'', Lit ''posts'']),
    (HttpPost, [Lit ''courses'', Par ''courseId'', Lit ''forum'', Lit ''threads'']),
    (HttpPost, [Lit ''posts'', Par ''postId'', Lit ''replies'']), (HttpPost, [Lit ''posts'', Par ''id'', Lit ''vote'']),
    (HttpPost, [Lit ''replies'', Par ''id'', Lit ''vote'']),
    (HttpPost, [Lit ''courses'', Par ''courseId'', Lit ''forum'', Lit ''threads'', Par ''threadId'', Lit ''pin'']),
    (HttpPost, [Lit ''courses'', Par ''courseId'', Lit ''forum'', Lit ''threads'', Par ''threadId'', Lit ''lock'']),
    (HttpDelete, [Lit ''courses'', Par ''courseId'', Lit ''forum'', Lit ''threads'', Par ''threadId'']),
    (HttpDelete, [Lit ''courses'', Par ''courseId'', Lit ''forum'', Lit ''threads'', Par ''threadId'', Lit ''replies'', Par ''replyId''])]"

definition admin_pages_api :: "client_request list" where
  "admin_pages_api =
   [(HttpGet, [Lit ''admin'', Lit ''users'']), (HttpGet, [Lit ''courses'']), (HttpGet, [Lit ''admin'', Lit ''stats'']),
    (HttpGet, [Lit ''admin'', Lit ''users'']), (HttpPatch, [Lit ''admin'', Lit ''users'', Par ''id'', Lit ''role'']),
    (HttpPatch, [Lit ''admin'', Lit ''users'', Par ''id'', Lit ''ban'']),
    (HttpDelete, [Lit ''admin'', Lit ''users'', Par ''id'']), (HttpGet, [Lit ''courses'']),
    (HttpPatch, [Lit ''courses'', Par ''id'']), (HttpDelete, [Lit ''courses'', Par ''id''])]"

definition adminApi :: "client_request list" where
  "adminApi =
   [(HttpGet, [Lit ''admin'', Lit ''stats'']), (HttpGet, [Lit ''admin'', Lit ''activity'']),
    (HttpGet, [Lit ''admin'', Lit ''users'']), (HttpPost, [Lit ''admin'', Lit ''users'', Par ''userId'', Lit ''ban'']),
    (HttpPatch, [Lit ''admin'', Lit ''users'', Par ''userId'', Lit ''role'']),
    (HttpGet, [Lit ''admin'', Lit ''courses'', Lit ''pending'']),
    (HttpPost, [Lit ''admin'', Lit ''courses'', Par ''courseId'', Lit ''approve'']),
    (HttpPost, [Lit ''admin'', Lit ''courses'', Par ''courseId'', Lit ''reject'']), (HttpGet, [Lit ''health'']),
    (HttpGet, [Lit ''v1'', Lit ''analytics'', Lit ''platform''])]"

definition kycApi :: "client_request list" where
  "kycApi =
   [(HttpGet, [Lit ''kyc'', Lit ''status'', Par ''stellarPublicKey'']), (HttpPost, [Lit ''kyc'', Lit ''documents''])]"

definition progressApi :: "client_request list" where
  "progressApi =
   [(HttpGet, [Lit ''users'', Par ''userId'', Lit ''progress'']),
    (HttpGet, [Lit ''courses'', Par ''courseId'', Lit ''modules'']), (HttpGet, [Lit ''courses'', Par ''courseId''])]"

definition walletApi :: "client_request list" where
  "walletApi =
   [(HttpGet, [Lit ''stellar'', Lit ''balance'', Par ''publicKey''])]"

definition sync_requests :: "client_request list" where
  "sync_requests =
   [(HttpPost, [Lit ''v1'', Lit ''progress''])]"

definition push_requests :: "client_request list" where
  "push_requests =
   [(HttpPost, [Lit ''notifications'', Lit ''subscribe'']), (HttpPatch, [Lit ''notifications'', Lit ''preferences'']),
    (HttpDelete, [Lit ''notifications'', Lit ''unsubscribe''])]"

definition bookmark_requests :: "client_request list" where
  "bookmark_requests =
   [(HttpPost, [Lit ''bookmarks'', Par ''courseId'']), (HttpDelete, [Lit ''bookmarks'', Par ''courseId'']),
    (HttpGet, [Lit ''bookmarks''])]"

definition login_requests :: "client_request list" where
  "login_requests =
   [(HttpPost, [Lit ''auth'', Lit ''login'']), (HttpGet, [Lit ''users'', Lit ''me''])]"

definition register_requests :: "client_request list" where
  "register_requests =
   [(HttpPost, [Lit ''auth'', Lit ''register''])]"

definition stellar_login_requests :: "client_request list" where
  "stellar_login_requests =
   [(HttpGet, [Lit ''auth'', Lit ''stellar'']), (HttpPost, [Lit ''auth'', Lit ''stellar'']),
    (HttpGet, [Lit ''users'', Lit ''me''])]"

definition password_requests :: "client_request list" where
  "password_requests =
   [(HttpPost, [Lit ''auth'', Lit ''reset-password''])]"

definition wallet_requests :: "client_request list" where
  "wallet_requests =
   [(HttpGet, [Lit ''stellar'', Lit ''balance'', Par ''publicKey'']),
    (HttpPost, [Lit ''auth'', Lit ''stellar-challenge'']), (HttpPost, [Lit ''auth'', Lit ''stellar-verify'']),
    (HttpPatch, [Lit ''users'', Par ''userId'']), (HttpPost, [Lit ''stellar'', Lit ''fund-testnet''])]"

definition two_factor_requests :: "client_request list" where
  "two_factor_requests =
   [(HttpPost, [Lit ''auth'', Lit ''mfa'', Lit ''enable'']), (HttpPost, [Lit ''auth'', Lit ''mfa'', Lit ''verify'']),
    (HttpPost, [Lit ''auth'', Lit ''mfa'', Lit ''disable'']),
    (HttpPost, [Lit ''auth'', Lit ''mfa'', Lit ''backup-codes'', Lit ''regenerate''])]"

definition gdpr_requests :: "client_request list" where
  "gdpr_requests =
   [(HttpPost, [Lit ''users'', Lit ''me'', Lit ''export'']), (HttpDelete, [Lit ''users'', Lit ''me'', Lit ''account''])]"

definition course_page_requests :: "client_request list" where
  "course_page_requests =
   [(HttpPost, [Lit ''v1'', Lit ''enrollments'']), (HttpGet, [Lit ''courses'', Par ''courseId'']),
    (HttpGet, [Lit ''users'', Par ''userId'', Lit ''enrollments'']),
    (HttpGet, [Lit ''courses'', Par ''courseId'', Lit ''modules'']),
    (HttpGet, [Lit ''modules'', Par ''moduleId'', Lit ''lessons'']),
    (HttpGet, [Lit ''v1'', Lit ''courses'', Par ''courseId'', Lit ''prerequisites'', Lit ''status'']),
    (HttpPost, [Lit ''courses'', Par ''courseId'', Lit ''enroll''])]"

definition waitlist_requests :: "client_request list" where
  "waitlist_requests =
   [(HttpGet, [Lit ''courses'', Par ''courseId'', Lit ''waitlist'', Lit ''position'']),
    (HttpPost, [Lit ''courses'', Par ''courseId'', Lit ''waitlist'']),
    (HttpDelete, [Lit ''courses'', Par ''courseId'', Lit ''waitlist''])]"

definition notes_requests :: "client_request list" where
  "notes_requests =
   [(HttpGet, [Lit ''v1'', Lit ''lessons'', Par ''lessonId'', Lit ''notes'']),
    (HttpPost, [Lit ''v1'', Lit ''lessons'', Par ''lessonId'', Lit ''notes'']),
    (HttpDelete, [Lit ''v1'', Lit ''notes'', Par ''id'']), (HttpPatch, [Lit ''v1'', Lit ''notes'', Par ''id''])]"

definition quiz_requests :: "client_request list" where
  "quiz_requests =
   [(HttpGet, [Lit ''v1'', Lit ''quizzes'', Par ''quizId'']),
    (HttpGet, [Lit ''v1'', Lit ''quizzes'', Par ''quizId'', Lit ''attempts'']),
    (HttpPost, [Lit ''v1'', Lit ''quizzes'', Par ''quizId'', Lit ''submit''])]"

definition download_requests :: "client_request list" where
  "download_requests =
   [(HttpGet, [Lit ''v1'', Lit ''downloads'']), (HttpGet, [Lit ''v1'', Lit ''downloads'', Lit ''storage'']),
    (HttpDelete, [Lit ''v1'', Lit ''downloads'', Par ''id''])]"

definition qa_requests :: "client_request list" where
  "qa_requests =
   [(HttpGet, [Lit ''v1'', Lit ''qa'']), (HttpPost, [Lit ''v1'', Lit ''qa'']),
    (HttpPatch, [Lit ''v1'', Lit ''qa'', Par ''id'', Lit ''answer'']),
    (HttpPatch, [Lit ''v1'', Lit ''qa'', Par ''id'', Lit ''upvote'']),
    (HttpDelete, [Lit ''v1'', Lit ''qa'', Par ''id''])]"

definition announcement_requests :: "client_request list" where
  "announcement_requests =
   [(HttpGet, [Lit ''v1'', Lit ''announcements'']), (HttpPost, [Lit ''v1'', Lit ''announcements'']),
    (HttpDelete, [Lit ''v1'', Lit ''announcements'', Par ''id''])]"

definition wizard_requests :: "client_request list" where
  "wizard_requests =
   [(HttpPost, [Lit ''courses'']), (HttpPost, [Lit ''courses'', Par ''courseId'', Lit ''modules'']),
    (HttpPost, [Lit ''modules'', Par ''moduleId'', Lit ''lessons''])]"

definition survey_requests :: "client_request list" where
  "survey_requests =
   [(HttpPost, [Lit ''v1'', Lit ''surveys'', Par ''surveyId'', Lit ''responses''])]"

definition application_requests :: "client_request list" where
  "application_requests =
   [(HttpGet, [Lit ''v1'', Lit ''instructor-applications'']),
    (HttpPatch, [Lit ''v1'', Lit ''instructor-applications'', Par ''id'', Lit ''review''])]"

definition bundle_requests :: "client_request list" where
  "bundle_requests =
   [(HttpGet, [Lit ''bundles'', Par ''id'']), (HttpPost, [Lit ''bundles'', Par ''id'', Lit ''purchase''])]"

definition path_requests :: "client_request list" where
  "path_requests =
   [(HttpGet, [Lit ''learning-paths'', Par ''id'']), (HttpGet, [Lit ''learning-paths'', Lit ''user'', Lit ''me'']),
    (HttpPost, [Lit ''learning-paths'', Par ''id'', Lit ''enroll''])]"

definition dashboard_requests :: "client_request list" where
  "dashboard_requests =
   [(HttpGet, [Lit ''users'', Par ''userId'', Lit ''progress'']), (HttpGet, [Lit ''credentials'', Par ''userId'']),
    (HttpGet, [Lit ''bundles'', Lit ''user'', Lit ''me'']), (HttpGet, [Lit ''learning-paths'', Lit ''user'', Lit ''me'']),
    (HttpGet, [Lit ''v1'', Lit ''recommendations''])]"

definition revenue_requests :: "client_request list" where
  "revenue_requests =
   [(HttpGet, [Lit ''v1'', Lit ''payouts'', Lit ''instructor'', Par ''instructorId'', Lit ''stats'']),
    (HttpGet, [Lit ''v1'', Lit ''payouts'', Lit ''instructor'', Par ''instructorId'', Lit ''monthly'']),
    (HttpGet, [Lit ''v1'', Lit ''payouts'', Lit ''instructor'', Par ''instructorId'', Lit ''per-course'']),
    (HttpGet, [Lit ''v1'', Lit ''payouts'', Lit ''instructor'', Par ''instructorId'', Lit ''projection'']),
    (HttpGet, [Lit ''v1'', Lit ''payouts'', Lit ''instructor'', Par ''instructorId'', Lit ''history''])]"

definition instructor_requests :: "client_request list" where
  "instructor_requests =
   [(HttpGet, [Lit ''instructor'', Lit ''courses'', Lit ''analytics'']),
    (HttpGet, [Lit ''instructor'', Lit ''students'', Lit ''progress'']),
    (HttpGet, [Lit ''v1'', Lit ''surveys'', Lit ''instructor'', Lit ''me'', Lit ''aggregate''])]"

definition session_requests :: "client_request list" where
  "session_requests =
   [(HttpGet, [Lit ''v1'', Lit ''cohorts'', Par ''cohortId'', Lit ''live-sessions'']),
    (HttpPost, [Lit ''v1'', Lit ''cohorts'', Par ''cohortId'', Lit ''live-sessions'']),
    (HttpDelete, [Lit ''v1'', Lit ''cohorts'', Par ''cohortId'', Lit ''live-sessions'', Par ''id''])]"

definition pricing_requests :: "client_request list" where
  "pricing_requests =
   [(HttpPost, [Lit ''subscriptions'', Lit ''checkout''])]"

definition client_requests :: "client_request list" where
  "client_requests = concat
  [assignmentsApi, reviewsApi, forumApi, admin_pages_api, adminApi, kycApi, progressApi, walletApi, sync_requests,
    push_requests, bookmark_requests, login_requests, register_requests, stellar_login_requests, password_requests,
    wallet_requests, two_factor_requests, gdpr_requests, course_page_requests, waitlist_requests, notes_requests,
    quiz_requests, download_requests, qa_requests, announcement_requests, wizard_requests, survey_requests,
    application_requests, bundle_requests, path_requests, dashboard_requests, revenue_requests, instructor_requests,
    session_requests, pricing_requests]"

text \<open>Those that count on the bare host, and those no route of the server answers: the threads of the old forum, the figures
  and the course review of the administration, the bookmarks, and what belongs to modules that are left out.\<close>

definition root_requests :: "client_request list" where
  "root_requests =
   [(HttpPost, [Lit ''v1'', Lit ''progress'']), (HttpPost, [Lit ''v1'', Lit ''enrollments'']), (HttpGet, [Lit ''health'']),
    (HttpGet, [Lit ''v1'', Lit ''courses'', Par ''courseId'', Lit ''prerequisites'', Lit ''status'']),
    (HttpGet, [Lit ''v1'', Lit ''instructor-applications'']),
    (HttpPatch, [Lit ''v1'', Lit ''instructor-applications'', Par ''id'', Lit ''review''])]"

definition lost_requests :: "client_request list" where
  "lost_requests =
   [(HttpPost, [Lit ''courses'', Par ''courseId'', Lit ''reviews'', Par ''reviewId'', Lit ''reply'']),
    (HttpGet, [Lit ''courses'', Par ''courseId'', Lit ''forum'', Lit ''threads'']),
    (HttpGet, [Lit ''courses'', Par ''courseId'', Lit ''forum'', Lit ''threads'', Par ''threadId'']),
    (HttpGet, [Lit ''courses'', Par ''courseId'', Lit ''forum'', Lit ''threads'', Par ''threadId'', Lit ''replies'']),
    (HttpPost, [Lit ''courses'', Par ''courseId'', Lit ''forum'', Lit ''threads'']),
    (HttpPost, [Lit ''courses'', Par ''courseId'', Lit ''forum'', Lit ''threads'', Par ''threadId'', Lit ''pin'']),
    (HttpPost, [Lit ''courses'', Par ''courseId'', Lit ''forum'', Lit ''threads'', Par ''threadId'', Lit ''lock'']),
    (HttpDelete, [Lit ''courses'', Par ''courseId'', Lit ''forum'', Lit ''threads'', Par ''threadId'']),
    (HttpDelete, [Lit ''courses'', Par ''courseId'', Lit ''forum'', Lit ''threads'', Par ''threadId'', Lit ''replies'', Par ''replyId'']),
    (HttpGet, [Lit ''admin'', Lit ''stats'']), (HttpGet, [Lit ''admin'', Lit ''activity'']),
    (HttpPost, [Lit ''admin'', Lit ''users'', Par ''userId'', Lit ''ban'']),
    (HttpGet, [Lit ''admin'', Lit ''courses'', Lit ''pending'']),
    (HttpPost, [Lit ''admin'', Lit ''courses'', Par ''courseId'', Lit ''approve'']),
    (HttpPost, [Lit ''admin'', Lit ''courses'', Par ''courseId'', Lit ''reject'']),
    (HttpPost, [Lit ''bookmarks'', Par ''courseId'']), (HttpDelete, [Lit ''bookmarks'', Par ''courseId'']), (HttpGet, [Lit ''bookmarks'']),
    (HttpGet, [Lit ''courses'', Par ''courseId'', Lit ''waitlist'', Lit ''position'']),
    (HttpPost, [Lit ''courses'', Par ''courseId'', Lit ''waitlist'']), (HttpDelete, [Lit ''courses'', Par ''courseId'', Lit ''waitlist'']),
    (HttpGet, [Lit ''v1'', Lit ''lessons'', Par ''lessonId'', Lit ''notes'']),
    (HttpPost, [Lit ''v1'', Lit ''lessons'', Par ''lessonId'', Lit ''notes'']),
    (HttpDelete, [Lit ''v1'', Lit ''notes'', Par ''id'']), (HttpPatch, [Lit ''v1'', Lit ''notes'', Par ''id'']),
    (HttpPost, [Lit ''v1'', Lit ''surveys'', Par ''surveyId'', Lit ''responses'']),
    (HttpGet, [Lit ''learning-paths'', Par ''id'']), (HttpGet, [Lit ''learning-paths'', Lit ''user'', Lit ''me'']),
    (HttpPost, [Lit ''learning-paths'', Par ''id'', Lit ''enroll'']),
    (HttpGet, [Lit ''instructor'', Lit ''courses'', Lit ''analytics'']), (HttpGet, [Lit ''instructor'', Lit ''students'', Lit ''progress'']),
    (HttpGet, [Lit ''v1'', Lit ''surveys'', Lit ''instructor'', Lit ''me'', Lit ''aggregate''])]"

definition answered_at :: "string list \<Rightarrow> client_request \<Rightarrow> bool" where
  "answered_at base q \<longleftrightarrow> (\<forall>path. instance_of (snd q) path \<longrightarrow> dispatch server_routes (fst q) (base @ path) \<noteq> None)"

definition missing_at :: "string list \<Rightarrow> client_request \<Rightarrow> bool" where
  "missing_at base q \<longleftrightarrow> (\<forall>path. instance_of (snd q) path \<longrightarrow> dispatch server_routes (fst q) (base @ path) = None)"

subsection \<open>Templates against routes\<close>

text \<open>What is left of a template behind the path of a controller.\<close>

fun behind :: "segment list \<Rightarrow> segment list \<Rightarrow> segment list option" where
  "behind [] t = Some t"
| "behind (Lit l # ss) (Lit k # ts) = (if l = k then behind ss ts else None)"
| "behind (Lit l # ss) (Par n # ts) = behind ss ts"
| "behind (Par n # ss) (t # ts) = behind ss ts"
| "behind _ _ = None"

fun covered_behind :: "segment list \<Rightarrow> segment list \<Rightarrow> segment list option" where
  "covered_behind [] t = Some t"
| "covered_behind (Lit l # ss) (Lit k # ts) = (if l = k then covered_behind ss ts else None)"
| "covered_behind (Lit l # ss) (Par n # ts) = None"
| "covered_behind (Par n # ss) (t # ts) = covered_behind ss ts"
| "covered_behind _ _ = None"

lemma overlaps_behind: "overlaps (p @ p') t \<longleftrightarrow> (case behind p t of None \<Rightarrow> False | Some t' \<Rightarrow> overlaps p' t')"
  by (induction p t rule: behind.induct) simp_all

lemma covers_behind: "covers (p @ p') t \<longleftrightarrow> (case covered_behind p t of None \<Rightarrow> False | Some t' \<Rightarrow> covers p' t')"
  by (induction p t rule: covered_behind.induct) simp_all

definition route_table :: "(segment list \<times> (verb \<times> segment list) list) list" where
  "route_table =
     map (\<lambda>c. (global_prefix (ct_prefixed c) @ ct_path c, map (\<lambda>h. (hd_verb h, hd_path h)) (ct_handlers c))) server_controllers"

definition none_matches :: "client_request \<Rightarrow> bool" where
  "none_matches q \<longleftrightarrow>
     list_all (\<lambda>(pre, hs). case behind pre (snd q) of None \<Rightarrow> True
                         | Some t \<Rightarrow> list_all (\<lambda>(w, p). w = fst q \<longrightarrow> \<not> overlaps p t) hs) route_table"

definition some_matches :: "client_request \<Rightarrow> bool" where
  "some_matches q \<longleftrightarrow>
     list_ex (\<lambda>(pre, hs). case covered_behind pre (snd q) of None \<Rightarrow> False
                         | Some t \<Rightarrow> list_ex (\<lambda>(w, p). w = fst q \<and> covers p t) hs) route_table"

definition at_base :: "segment list \<Rightarrow> client_request \<Rightarrow> client_request" where
  "at_base base q = (fst q, base @ snd q)"

lemma server_routes_table:
  "r \<in> set server_routes \<longleftrightarrow>
     (\<exists>c \<in> set server_controllers. r \<in> set (routes_of c))"
  by (auto simp: server_routes_def)

lemma none_matches_dispatch:
  assumes "none_matches q" "lower_template (snd q)" "instance_of (snd q) path"
  shows "dispatch server_routes (fst q) path = None"
proof -
  have "\<not> matching (fst q) path r" if "r \<in> set server_routes" for r
  proof
    assume m: "matching (fst q) path r"
    from that obtain c h where c: "c \<in> set server_controllers" "h \<in> set (ct_handlers c)"
      and r: "rt_verb r = hd_verb h" "rt_path r = (global_prefix (ct_prefixed c) @ ct_path c) @ hd_path h"
      by (auto simp: server_routes_table routes_of_def)
    from m have "overlaps (rt_path r) (snd q)" "hd_verb h = fst q"
      using matches_overlaps[OF _ assms(2,3)] r(1) by (auto simp: matching_def)
    moreover have "(global_prefix (ct_prefixed c) @ ct_path c, map (\<lambda>h. (hd_verb h, hd_path h)) (ct_handlers c)) \<in> set route_table"
      using c(1) by (auto simp: route_table_def)
    ultimately show False
      using assms(1) c(2) unfolding r(2) overlaps_behind none_matches_def list_all_iff
      by (fastforce split: option.splits)
  qed
  then show ?thesis by (simp add: dispatch_def find_None)
qed

lemma some_matches_dispatch:
  assumes "some_matches q" "lower_template (snd q)" "instance_of (snd q) path"
  shows "dispatch server_routes (fst q) path \<noteq> None"
proof -
  from assms(1) obtain c h t where c: "c \<in> set server_controllers" "h \<in> set (ct_handlers c)" "hd_verb h = fst q"
      "covered_behind (global_prefix (ct_prefixed c) @ ct_path c) (snd q) = Some t" "covers (hd_path h) t"
    by (auto simp: some_matches_def list_ex_iff route_table_def split: option.splits)
  then have "covers ((global_prefix (ct_prefixed c) @ ct_path c) @ hd_path h) (snd q)"
    unfolding covers_behind by simp
  from covers_matches[OF this assms(2,3)] c obtain r where "r \<in> set server_routes" "matching (fst q) path r"
    by (fastforce simp: server_routes_table routes_of_def matching_def)
  then show ?thesis by (auto simp: dispatch_def find_None)
qed

lemmas route_table_eq =
  route_table_def[unfolded server_controllers_eq list.map controller_defs controller.sel handler.sel global_prefix_def if_True if_False
    append.simps]

lemma root_some: "\<forall>q \<in> set root_requests. some_matches q"
  by (simp add: root_requests_def some_matches_def route_table_eq)

lemma root_lost: "\<forall>q \<in> set root_requests. none_matches (at_base [Lit ''v1''] q)"
  by (simp add: root_requests_def none_matches_def at_base_def route_table_eq)

lemma lost_lost: "\<forall>q \<in> set lost_requests. none_matches q" "\<forall>q \<in> set lost_requests. none_matches (at_base [Lit ''v1''] q)"
  by (simp_all add: lost_requests_def none_matches_def at_base_def route_table_eq)

lemmas request_lists = client_requests_def assignmentsApi_def reviewsApi_def forumApi_def admin_pages_api_def adminApi_def
  kycApi_def progressApi_def walletApi_def sync_requests_def push_requests_def
  bookmark_requests_def login_requests_def register_requests_def stellar_login_requests_def password_requests_def
  wallet_requests_def two_factor_requests_def gdpr_requests_def course_page_requests_def waitlist_requests_def
  notes_requests_def quiz_requests_def download_requests_def qa_requests_def announcement_requests_def
  wizard_requests_def survey_requests_def application_requests_def bundle_requests_def path_requests_def
  dashboard_requests_def revenue_requests_def instructor_requests_def session_requests_def pricing_requests_def

text \<open>The controllers that are meant to answer the requests of each page.\<close>

definition request_targets :: "(client_request list \<times> controller list) list" where
  "request_targets =
   [(assignmentsApi, [AssignmentsController]), (reviewsApi, [ReviewsController]),
    (forumApi, [ForumsController]), (admin_pages_api, [AdminUsersController, CoursesController]),
    (adminApi, [AdminUsersController, HealthController, AnalyticsController]), (kycApi, [KycController]),
    (progressApi, [ProgressController, ModulesController, CoursesController]), (walletApi, [StellarController]),
    (sync_requests, [ProgressController]), (push_requests, [NotificationsController]),
    (bookmark_requests, []), (login_requests, [AuthController, UsersController]),
    (register_requests, [AuthController]), (stellar_login_requests, [AuthController, UsersController]),
    (password_requests, [AuthController]), (wallet_requests, [StellarController, AuthController, UsersController]),
    (two_factor_requests, [AuthController]), (gdpr_requests, [UsersController]),
    (course_page_requests, [CoursesController, EnrollmentsController, ModulesController, PrerequisitesController]), (waitlist_requests, []),
    (notes_requests, []), (quiz_requests, [QuizzesController]),
    (download_requests, [DownloadsController]), (qa_requests, [QaController]),
    (announcement_requests, [AnnouncementsController]), (wizard_requests, [CoursesController, ModulesController]),
    (survey_requests, []), (application_requests, [InstructorApplicationsController]),
    (bundle_requests, [BundlesController]), (path_requests, []),
    (dashboard_requests, [ProgressController, CredentialsController, BundlesController, RecommendationsController]), (revenue_requests, [PayoutsController]),
    (instructor_requests, []), (session_requests, [LiveSessionsController]),
    (pricing_requests, [SubscriptionsController])]"

fun entry_of :: "controller \<Rightarrow> segment list \<times> (verb \<times> segment list) list" where
  "entry_of (Controller n b path gs rs hs) = (global_prefix b @ path, map (\<lambda>h. (hd_verb h, hd_path h)) hs)"

lemma entry_of_eq:
  "entry_of c = (global_prefix (ct_prefixed c) @ ct_path c, map (\<lambda>h. (hd_verb h, hd_path h)) (ct_handlers c))"
  by (cases c) simp

lemmas entries = arg_cong[OF AssignmentsController_def, of entry_of, unfolded entry_of.simps list.map handler.sel global_prefix_def if_True append.simps]
  arg_cong[OF ReviewsController_def, of entry_of, unfolded entry_of.simps list.map handler.sel global_prefix_def if_True append.simps]
  arg_cong[OF ForumsController_def, of entry_of, unfolded entry_of.simps list.map handler.sel global_prefix_def if_True append.simps]
  arg_cong[OF AdminUsersController_def, of entry_of, unfolded entry_of.simps list.map handler.sel global_prefix_def if_True append.simps]
  arg_cong[OF CoursesController_def, of entry_of, unfolded entry_of.simps list.map handler.sel global_prefix_def if_True append.simps]
  arg_cong[OF HealthController_def, of entry_of, unfolded entry_of.simps list.map handler.sel global_prefix_def if_True append.simps]
  arg_cong[OF AnalyticsController_def, of entry_of, unfolded entry_of.simps list.map handler.sel global_prefix_def if_True append.simps]
  arg_cong[OF KycController_def, of entry_of, unfolded entry_of.simps list.map handler.sel global_prefix_def if_True append.simps]
  arg_cong[OF ProgressController_def, of entry_of, unfolded entry_of.simps list.map handler.sel global_prefix_def if_True append.simps]
  arg_cong[OF ModulesController_def, of entry_of, unfolded entry_of.simps list.map handler.sel global_prefix_def if_True append.simps]
  arg_cong[OF StellarController_def, of entry_of, unfolded entry_of.simps list.map handler.sel global_prefix_def if_True append.simps]
  arg_cong[OF NotificationsController_def, of entry_of, unfolded entry_of.simps list.map handler.sel global_prefix_def if_True append.simps]
  arg_cong[OF AuthController_def, of entry_of, unfolded entry_of.simps list.map handler.sel global_prefix_def if_True append.simps]
  arg_cong[OF UsersController_def, of entry_of, unfolded entry_of.simps list.map handler.sel global_prefix_def if_True append.simps]
  arg_cong[OF EnrollmentsController_def, of entry_of, unfolded entry_of.simps list.map handler.sel global_prefix_def if_True append.simps]
  arg_cong[OF PrerequisitesController_def, of entry_of, unfolded entry_of.simps list.map handler.sel global_prefix_def if_True append.simps]
  arg_cong[OF QuizzesController_def, of entry_of, unfolded entry_of.simps list.map handler.sel global_prefix_def if_True append.simps]
  arg_cong[OF DownloadsController_def, of entry_of, unfolded entry_of.simps list.map handler.sel global_prefix_def if_True append.simps]
  arg_cong[OF QaController_def, of entry_of, unfolded entry_of.simps list.map handler.sel global_prefix_def if_True append.simps]
  arg_cong[OF AnnouncementsController_def, of entry_of, unfolded entry_of.simps list.map handler.sel global_prefix_def if_True append.simps]
  arg_cong[OF InstructorApplicationsController_def, of entry_of, unfolded entry_of.simps list.map handler.sel global_prefix_def if_True append.simps]
  arg_cong[OF BundlesController_def, of entry_of, unfolded entry_of.simps list.map handler.sel global_prefix_def if_True append.simps]
  arg_cong[OF CredentialsController_def, of entry_of, unfolded entry_of.simps list.map handler.sel global_prefix_def if_True append.simps]
  arg_cong[OF RecommendationsController_def, of entry_of, unfolded entry_of.simps list.map handler.sel global_prefix_def if_True append.simps]
  arg_cong[OF PayoutsController_def, of entry_of, unfolded entry_of.simps list.map handler.sel global_prefix_def if_True append.simps]
  arg_cong[OF LiveSessionsController_def, of entry_of, unfolded entry_of.simps list.map handler.sel global_prefix_def if_True append.simps]
  arg_cong[OF SubscriptionsController_def, of entry_of, unfolded entry_of.simps list.map handler.sel global_prefix_def if_True append.simps]

definition answered_by :: "controller list \<Rightarrow> client_request \<Rightarrow> bool" where
  "answered_by cs q \<longleftrightarrow>
     list_ex (\<lambda>c. case covered_behind (fst (entry_of c)) (snd q) of None \<Rightarrow> False
                | Some t \<Rightarrow> list_ex (\<lambda>(w, p). w = fst q \<and> covers p t) (snd (entry_of c))) cs"

lemma targets_requests: "concat (map fst request_targets) = client_requests"
  by (simp add: request_targets_def client_requests_def)

lemma targets_registered: "list_all (\<lambda>x. list_all (\<lambda>c. c \<in> set server_controllers) (snd x)) request_targets"
  by (simp add: request_targets_def server_controllers_eq)

lemma answered_by_matches: "answered_by cs q \<Longrightarrow> set cs \<subseteq> set server_controllers \<Longrightarrow> some_matches q"
proof -
  assume "answered_by cs q" "set cs \<subseteq> set server_controllers"
  then obtain c where c: "c \<in> set server_controllers"
      "case covered_behind (fst (entry_of c)) (snd q) of None \<Rightarrow> False
       | Some t \<Rightarrow> list_ex (\<lambda>(w, p). w = fst q \<and> covers p t) (snd (entry_of c))"
    unfolding answered_by_def list_ex_iff by blast
  moreover have "entry_of c \<in> set route_table"
    using c(1) unfolding route_table_def by (auto simp: entry_of_eq)
  ultimately show "some_matches q"
    unfolding some_matches_def list_ex_iff by (intro bexI[of _ "entry_of c"]) (auto simp: case_prod_beta)
qed

lemma targets_answer:
  "list_all (\<lambda>x. list_all (\<lambda>q. if answered_by (snd x) (at_base [Lit ''v1''] q) then True
                            else if q \<in> set root_requests then True else q \<in> set lost_requests) (fst x)) request_targets"
  by (simp add: request_targets_def answered_by_def at_base_def request_lists root_requests_def lost_requests_def entries)

lemma lower_letters [simp]:
  "lower_char CHR ''a'' = CHR ''a''" "lower_char CHR ''b'' = CHR ''b''" "lower_char CHR ''c'' = CHR ''c''"
  "lower_char CHR ''d'' = CHR ''d''" "lower_char CHR ''e'' = CHR ''e''" "lower_char CHR ''f'' = CHR ''f''"
  "lower_char CHR ''g'' = CHR ''g''" "lower_char CHR ''h'' = CHR ''h''" "lower_char CHR ''i'' = CHR ''i''"
  "lower_char CHR ''j'' = CHR ''j''" "lower_char CHR ''k'' = CHR ''k''" "lower_char CHR ''l'' = CHR ''l''"
  "lower_char CHR ''m'' = CHR ''m''" "lower_char CHR ''n'' = CHR ''n''" "lower_char CHR ''o'' = CHR ''o''"
  "lower_char CHR ''p'' = CHR ''p''" "lower_char CHR ''q'' = CHR ''q''" "lower_char CHR ''r'' = CHR ''r''"
  "lower_char CHR ''s'' = CHR ''s''" "lower_char CHR ''t'' = CHR ''t''" "lower_char CHR ''u'' = CHR ''u''"
  "lower_char CHR ''v'' = CHR ''v''" "lower_char CHR ''w'' = CHR ''w''" "lower_char CHR ''x'' = CHR ''x''"
  "lower_char CHR ''y'' = CHR ''y''" "lower_char CHR ''z'' = CHR ''z''" "lower_char CHR ''-'' = CHR ''-''"
  "lower_char CHR ''1'' = CHR ''1''"
  by (simp_all add: lower_char_def)

lemma lower_requests: "list_all (\<lambda>q. lower_template (snd q)) client_requests"
  by (simp add: request_lists lower_template_def toLowerCase_def)

lemma lower_named: "list_all (\<lambda>q. lower_template (snd q)) (root_requests @ lost_requests)"
  by (simp add: root_requests_def lost_requests_def lower_template_def toLowerCase_def)

text \<open>The path of every route begins with \<open>v1\<close> or is one of the health controller's.\<close>

lemma table_starts:
  "list_all (\<lambda>x. case fst x of Lit l # _ \<Rightarrow> l = ''v1'' \<or> l = ''health'' | _ \<Rightarrow> False) route_table"
  by (simp add: route_table_eq)

lemma other_start:
  assumes "snd q = Lit l # t" "l \<noteq> ''v1''" "l \<noteq> ''health''"
  shows "none_matches q"
proof -
  have "behind pre (snd q) = None" if entry: "(pre, hs) \<in> set route_table" for pre hs
  proof -
    obtain l' ss where "pre = Lit l' # ss" "l' = ''v1'' \<or> l' = ''health''"
      using table_starts[unfolded list_all_iff, rule_format, OF entry]
      by (cases pre; cases "hd pre") auto
    with assms show ?thesis by auto
  qed
  then show ?thesis by (auto simp: none_matches_def list_all_iff)
qed

lemma unrooted:
  "list_all (\<lambda>q. if (case snd q of Lit l # _ \<Rightarrow> l \<noteq> ''v1'' \<and> l \<noteq> ''health'' | _ \<Rightarrow> False) then True
                else if q \<in> set root_requests then True else none_matches q) client_requests"
  by (simp add: request_lists root_requests_def none_matches_def route_table_eq)
lemma instance_base: "instance_of (Lit ''v1'' # t) (''v1'' # path) = instance_of t path"
  by simp

lemma missing_root: "none_matches q \<Longrightarrow> lower_template (snd q) \<Longrightarrow> missing_at [] q"
  by (simp add: missing_at_def none_matches_dispatch)

lemma answered_root: "some_matches q \<Longrightarrow> lower_template (snd q) \<Longrightarrow> answered_at [] q"
  using some_matches_dispatch by (fastforce simp: answered_at_def)

lemma lower_based: "lower_template (snd q) \<Longrightarrow> lower_template (snd (at_base [Lit ''v1''] q))"
  by (simp add: lower_template_def at_base_def toLowerCase_def)

lemma missing_v1: "none_matches (at_base [Lit ''v1''] q) \<Longrightarrow> lower_template (snd q) \<Longrightarrow> missing_at [''v1''] q"
  using none_matches_dispatch[OF _ lower_based] by (fastforce simp: missing_at_def at_base_def)

lemma answered_v1: "some_matches (at_base [Lit ''v1''] q) \<Longrightarrow> lower_template (snd q) \<Longrightarrow> answered_at [''v1''] q"
  using some_matches_dispatch[OF _ lower_based] by (fastforce simp: answered_at_def at_base_def)

subsection \<open>Properties\<close>

text \<open>Behind the bare host the documents give, six requests of the client find a route; every other request of its pages,
  signing in included, is answered that there is none. Behind an address that ends in \<open>/v1\<close> it is the other way round, but for
  the requests that no route answers under either.\<close>

theorem client_addresses:
  assumes "q \<in> set client_requests"
  shows "if q \<in> set root_requests then answered_at [] q \<and> missing_at [''v1''] q
         else if q \<in> set lost_requests then missing_at [] q \<and> missing_at [''v1''] q
         else missing_at [] q \<and> answered_at [''v1''] q"
proof -
  have low: "lower_template (snd q)" using assms lower_requests by (simp add: list_all_iff)
  show ?thesis
  proof (cases "q \<in> set root_requests")
    case True
    then show ?thesis using answered_root missing_v1 root_some root_lost low by simp
  next
    case False
    have root: "missing_at [] q"
    proof (cases "case snd q of Lit l # _ \<Rightarrow> l \<noteq> ''v1'' \<and> l \<noteq> ''health'' | _ \<Rightarrow> False")
      case True
      then show ?thesis using missing_root[OF other_start low] by (auto split: list.splits segment.splits)
    next
      case False
      then show ?thesis
        using missing_root[OF _ low] unrooted[unfolded list_all_iff, rule_format, OF assms] \<open>q \<notin> set root_requests\<close> by auto
    qed
    show ?thesis
    proof (cases "q \<in> set lost_requests")
      case True
      then show ?thesis using root missing_v1[OF _ low] lost_lost(2) False by simp
    next
      case lost: False
      from assms obtain x where x: "x \<in> set request_targets" "q \<in> set (fst x)"
        unfolding targets_requests[symmetric] by auto
      have "answered_by (snd x) (at_base [Lit ''v1''] q)"
        using targets_answer[unfolded list_all_iff, rule_format, OF x] False lost by (auto split: if_splits)
      moreover have "set (snd x) \<subseteq> set server_controllers"
        using targets_registered x(1) by (auto simp: list_all_iff)
      ultimately show ?thesis
        using root answered_v1[OF answered_by_matches low] False lost by simp
    qed
  qed
qed

text \<open>The routes behind the two operations.\<close>

definition fixed_paths :: "route \<Rightarrow> bool" where
  "fixed_paths r \<longleftrightarrow>
     list_all (\<lambda>(v, m, as). (v = AuthService \<and> m = ''login'' \<longrightarrow> length (rt_path r) = 3)
                       \<and> (v = ProgressService \<and> m = ''record'' \<longrightarrow> length (rt_path r) = 2)) (rt_calls r)"

lemma fixed_paths_parts:
  "fixed_paths \<lparr>rt_name = n, rt_verb = v, rt_path = p, rt_guards = gs, rt_roles = rs, rt_check = c, rt_calls = cs\<rparr> \<longleftrightarrow>
     list_all (\<lambda>(v, m, as). (v = AuthService \<and> m = ''login'' \<longrightarrow> length p = 3)
                       \<and> (v = ProgressService \<and> m = ''record'' \<longrightarrow> length p = 2)) cs"
  by (simp add: fixed_paths_def)

lemma fixed_routes: "\<forall>r \<in> set server_routes. fixed_paths r"
  by (simp only: each_route fixed_paths_parts) (simp add: global_prefix_def)

lemma match_length: "match_path p ks path \<noteq> None \<Longrightarrow> length p = length ks"
  by (induction p ks path rule: match_path.induct) (auto split: if_splits)

lemma answered_length:
  assumes "answer_request server_routes st rq = Inr (u, calls)" "(v, m, as) \<in> set calls"
  shows "(v = AuthService \<and> m = ''login'' \<longrightarrow> length (rq_path rq) = 3)
       \<and> (v = ProgressService \<and> m = ''record'' \<longrightarrow> length (rq_path rq) = 2)"
proof -
  from assms(1) obtain r ps where r: "r \<in> set server_routes"
      "match_path (rt_path r) (map toLowerCase (rq_path rq)) (rq_path rq) = Some ps"
      "calls = map (\<lambda>(v, m, as). (v, m, map (sent_of rq ps u) as)) (rt_calls r)"
    by (rule answered_route)
  have "length (rt_path r) = length (rq_path rq)" using match_length[of "rt_path r"] r(2) by fastforce
  moreover have "fixed_paths r" using fixed_routes r(1) by blast
  ultimately show ?thesis using assms(2) unfolding r(3) by (fastforce simp: fixed_paths_def list_all_iff)
qed

text \<open>Whatever address the web client is given, the sign-in of its login page and the progress its hook sends do not both
  reach the method they are meant for.\<close>

theorem no_address_serves_both:
  "\<not> (\<exists>base st rq u calls as st' rq' u' calls' as'.
       rq_path rq = base @ [''auth'', ''login''] \<and> answer_request server_routes st rq = Inr (u, calls)
       \<and> (AuthService, ''login'', as) \<in> set calls
       \<and> rq_path rq' = base @ [''v1'', ''progress''] \<and> answer_request server_routes st' rq' = Inr (u', calls')
       \<and> (ProgressService, ''record'', as') \<in> set calls')"
proof clarify
  fix base st rq u calls as st' rq' u' calls' as'
  assume p: "rq_path rq = base @ [''auth'', ''login'']" "rq_path rq' = base @ [''v1'', ''progress'']"
    and a: "answer_request server_routes st rq = Inr (u, calls)" "(AuthService, ''login'', as) \<in> set calls"
    and b: "answer_request server_routes st' rq' = Inr (u', calls')" "(ProgressService, ''record'', as') \<in> set calls'"
  have "length (rq_path rq) = 3" using answered_length[OF a] by simp
  moreover have "length (rq_path rq') = 2" using answered_length[OF b] by simp
  ultimately show False using p by simp
qed

subsection \<open>Witnesses\<close>

theorem client_addresses_witness:
  "missing_at [] (HttpPost, [Lit ''auth'', Lit ''login'']) \<and> answered_at [''v1''] (HttpPost, [Lit ''auth'', Lit ''login''])"
proof -
  have "(HttpPost, [Lit ''auth'', Lit ''login'']) \<in> set client_requests"
    by (simp add: client_requests_def login_requests_def)
  from client_addresses[OF this] show ?thesis by (simp add: root_requests_def lost_requests_def)
qed

end
