(* ===== verification/Spec2Isabelle.thy ===== *)
theory Spec2Isabelle
  imports Payments Progress Forums Payouts Webhooks Assignments RateLimit Leaderboard ApiKeys Quizzes AccessControl Stellar Indexer
    LearningPaths Catalog Surveys Subscriptions Certificates Emails Cohorts BulkImport Applications Reminders Adaptive Classroom
    Recommendations Analytics Batch Gateway Platform Usage Cdn Client Swap Routes Controllers App_Modules Access
    Client_Calls
begin

text \<open>
  Verification library of the backend of the education platform (\<open>apps/backend/src\<close>), a NestJS server with a PostgreSQL
  database, a cache, a mail and push worker, and a client of the Stellar ledger.

  \<^bold>\<open>How the program is put together.\<close> Each directory of \<open>apps/backend/src\<close> is a module: an entity file gives the columns of a
  table, a service file the operations, a controller the routes and their guards. The services share the database and call
  each other (a purchase enrolls, an enrollment reads the prerequisites and feeds the waitlist, a completion issues a
  credential and a certificate and mints a reward), they emit events that other services listen to, and jobs run on timers
  (schedulers, the delivery of webhooks and mail, the indexer of contract events, reminders).

  \<^bold>\<open>How it is modelled.\<close> A table is a list of rows, a row a record with one field per column, and \<open>save_row\<close>, \<open>update_rows\<close>,
  \<open>delete_rows\<close> and \<open>find\<close> are the repository operations (theory Prelude). A service method maps the state it works on to
  its result, an exception of the datatype \<open>http_error\<close> or a value, and the state it leaves; writes made before an
  exception stay, because the services open no transaction unless the model shows one. The services of the learning core
  work on one record \<open>core\<close> (theory Entities); a component with tables of its own wraps it in a record of its own. A request
  history is a list of requests run by \<open>run_ops\<close> over the step function of the component. Ids are natural numbers from a
  counter, instants are integers in milliseconds of a UTC clock, strings are lists of bytes, a finite double is the rational it
  denotes with each operation rounded to 53 bits (theory Js_Number), and \<open>Array.sort\<close> is stable insertion (theory Js_Sort).

  \<^bold>\<open>Which theory models which part.\<close>
  \<^item> Shared: Prelude, Js_Number, Js_Sort, Entities (the entity files of users, courses, enrollments, waitlist, prerequisites,
    versions, bundles, progress, credentials, KYC), Caching (the cache contract).
  \<^item> Identity: Accounts (\<open>users\<close>), Audit_Log (\<open>audit\<close>, \<open>common/encryption.service.ts\<close>), Tokens, Mfa, Auth (\<open>auth\<close>), ApiKeys
    (\<open>api-keys\<close>), AccessControl (\<open>access-control\<close>), RateLimit (\<open>rate-limit\<close>), Kyc (\<open>kyc\<close>).
  \<^item> Courses: Catalog (\<open>courses/courses.service.ts\<close>, reviews), Curriculum (modules, lessons, drip and publish schedulers),
    Prerequisites, Versioning, Assignments, Quizzes, Surveys, LearningPaths, ImportExport, Scorm and BulkImport
    (\<open>import-export\<close> with its strategies).
  \<^item> Learning: Enrollments, Waitlist, Progress, Streaks, Leaderboard, Cohorts (\<open>cohorts\<close>, \<open>live-sessions\<close>).
  \<^item> Money: Coupons, Payments (\<open>payments\<close> with currency conversion), Bundles, Subscriptions, Payouts.
  \<^item> Ledger: Stellar (\<open>stellar/stellar.service.ts\<close>), Indexer (\<open>stellar/stellar-indexer.service.ts\<close>), Credentials, Certificates.
  \<^item> Community and messages: Forums, Moderation, Notifications, Emails, Webhooks.
  \<^bold>\<open>What the lemmas show.\<close> Each theory states a well-formedness predicate of its tables (unique indexes, counters that agree
  with the rows they count, keys below the id counter) and that every operation keeps it, then case analyses of the operations
  by outcome (\<open>obtains\<close> lemmas or one equation per branch), from which the properties follow. The contracts are locales of the
  Prelude and of the providers, each interpreted on the model: \<open>invariant_machine\<close> (an invariant kept by every request, in most
  component theories), \<open>monotone_machine\<close> (Credentials), \<open>one_time_secret\<close> (refresh and reset tokens in Auth),
  \<open>waiting_line\<close> (Waitlist), \<open>comparator\<close> (Js_Sort, Leaderboard), \<open>expiring_cache\<close> and \<open>rate_limiter\<close> (Caching, RateLimit),
  \<open>enrollment_gate\<close> (Prerequisites), \<open>coupon_pricing\<close> (Payments), \<open>credential_issuer\<close> (three interpretations in Credentials),
  \<open>retrying\<close> (Stellar). Some properties state a defect: a theorem that says what the code does where a comment, a name or a
  neighbour says otherwise.

  \<^bold>\<open>Bounds and fuel.\<close> No definition runs on fuel. Loops are structural recursion, or recursion with a measure (the
  prerequisite search by the courses still to expand, the shutdown of the ledger client by the time left), or
  \<open>partial_function (option)\<close> where the source may not return (the paged scan of the payouts), with a theorem that says when it
  does. Integers of JavaScript are unbounded or rounded as doubles; the 32-bit columns of the database appear where the import
  meets them.

  \<^bold>\<open>Parameters.\<close> Code that is not in the repository is an argument: the Stellar SDK and RPC server, \<open>p-retry\<close>, HTTP, HMAC and
  hash functions, ciphers, random draws, the cache store, Stripe, mail and push servers, the parsers of JSON, CSV, ZIP and XML,
  the conversions of the database, collation, and the choice \<open>findOne\<close> makes where no order is given. What a property needs of
  one is a hypothesis with a witness that instantiates it.

  \<^bold>\<open>Not modelled.\<close> Controllers, modules and DTO classes, except where a route's guard or a validation decides a property;
  Swagger, logging, tracing, metrics and health checks; migrations and seeds; mail templates; foreign keys, except where an
  insert relies on them; failures of the database other than the ones the code handles; two requests interleaved inside one
  service method (a method is one step, the delivery of a webhook and a run of a worker too). The web client
  (\<open>apps/frontend\<close>) and the contracts (\<open>contracts\<close>, in Rust) are other programs. The manifest lists each part with its reason.
\<close>

end
